(* ===== verification/JsPrelude.thy ===== *)
theory JsPrelude
  imports Complex_Main
begin

section \<open>JavaScript values and library calls shared by the components\<close>

text \<open>
  The parts of the JavaScript language and its standard library that the modelled
  TypeScript uses: nullish defaults, strings (trim, toLowerCase, startsWith, slice),
  de-duplication through a Set, stable sorting with a comparator, and numbers with their
  non-finite values. A string is a list of characters whose code units are below 256
  (Latin-1); on such strings \<open>js_trim\<close> and \<open>js_lower\<close> are exactly the library's trim and
  toLowerCase. A value that may be undefined or null is an \<open>option\<close>.
\<close>

named_theorems js_string_simps \<open>facts about the string functions\<close>
named_theorems js_list_simps \<open>facts about de-duplication and sorting\<close>

subsection \<open>Nullish defaults\<close>

text \<open>\<open>a ?? b\<close>, and \<open>a || b\<close> for a string \<open>a\<close>.\<close>

definition nullish :: "'a option \<Rightarrow> 'a \<Rightarrow> 'a" where
  "nullish a b = (case a of None \<Rightarrow> b | Some x \<Rightarrow> x)"

definition nullish_opt :: "'a option \<Rightarrow> 'a option \<Rightarrow> 'a option" where
  "nullish_opt a b = (case a of None \<Rightarrow> b | Some x \<Rightarrow> Some x)"

definition or_str :: "string \<Rightarrow> string \<Rightarrow> string" where
  "or_str a b = (if a = [] then b else a)"

lemma nullish_simps [simp]: "nullish None b = b" "nullish (Some x) b = x"
  by (simp_all add: nullish_def)

lemma nullish_opt_simps [simp]: "nullish_opt None b = b" "nullish_opt (Some x) b = Some x"
  by (simp_all add: nullish_opt_def)

subsection \<open>Strings\<close>

text \<open>
  White space and line terminators below 256 are the code units 9 to 13, 32 and 160.
  Upper case letters below 256 are A to Z and 192 to 222 without 215, each 32 below its
  lower case letter.
\<close>

definition js_is_space :: "char \<Rightarrow> bool" where
  "js_is_space c = (let n = (of_char c :: nat) in (9 \<le> n \<and> n \<le> 13) \<or> n = 32 \<or> n = 160)"

definition js_trim_start :: "string \<Rightarrow> string" where
  "js_trim_start s = dropWhile js_is_space s"

definition js_trim_end :: "string \<Rightarrow> string" where
  "js_trim_end s = rev (dropWhile js_is_space (rev s))"

definition js_trim :: "string \<Rightarrow> string" where
  "js_trim s = js_trim_end (js_trim_start s)"

definition js_is_upper :: "char \<Rightarrow> bool" where
  "js_is_upper c = (let n = (of_char c :: nat) in
     (65 \<le> n \<and> n \<le> 90) \<or> (192 \<le> n \<and> n \<le> 222 \<and> n \<noteq> 215))"

definition js_lower_char :: "char \<Rightarrow> char" where
  "js_lower_char c = (if js_is_upper c then char_of ((of_char c :: nat) + 32) else c)"

definition js_lower :: "string \<Rightarrow> string" where
  "js_lower s = map js_lower_char s"

definition starts_with :: "string \<Rightarrow> string \<Rightarrow> bool" where
  "starts_with s p = (take (length p) s = p)"

definition ends_with :: "string \<Rightarrow> string \<Rightarrow> bool" where
  "ends_with s p = (length p \<le> length s \<and> drop (length s - length p) s = p)"

lemma js_trim_start_no_space: "js_trim_start s = [] \<or> \<not> js_is_space (hd (js_trim_start s))"
  unfolding js_trim_start_def by (metis hd_dropWhile)

lemma dropWhile_rev_hd:
  assumes "\<not> P (hd xs)" and "xs \<noteq> []"
  shows "dropWhile P (rev (dropWhile P (rev xs))) = rev (dropWhile P (rev xs))"
proof -
  obtain x ys where xs: "xs = x # ys" using assms(2) by (cases xs) auto
  have "\<not> P x" using assms(1) xs by simp
  then have "dropWhile P (rev ys @ [x]) = dropWhile P (rev ys) @ [x]"
    by (induction "rev ys" rule: list.induct) (simp_all add: dropWhile_append3)
  then show ?thesis using \<open>\<not> P x\<close> xs by simp
qed

lemma js_trim_Nil [simp]: "js_trim [] = []"
  by (simp add: js_trim_def js_trim_start_def js_trim_end_def)

lemma js_trim_idem [js_string_simps, simp]: "js_trim (js_trim s) = js_trim s"
proof (cases "js_trim_start s = []")
  case True
  then have "js_trim s = []" unfolding js_trim_def js_trim_end_def by (simp only:) simp
  then show ?thesis by simp
next
  case False
  with js_trim_start_no_space [of s] have "\<not> js_is_space (hd (js_trim_start s))" by blast
  then have "js_trim_start (js_trim_end (js_trim_start s)) = js_trim_end (js_trim_start s)"
    unfolding js_trim_end_def
    by (subst js_trim_start_def) (rule dropWhile_rev_hd [OF _ False])
  then show ?thesis unfolding js_trim_def by (simp add: js_trim_end_def)
qed

lemma js_lower_Nil [simp]: "js_lower [] = []"
  by (simp add: js_lower_def)

lemma js_lower_eq_Nil [simp]: "(js_lower s = []) = (s = [])"
  by (simp add: js_lower_def)

lemma js_lower_append [js_string_simps]: "js_lower (a @ b) = js_lower a @ js_lower b"
  by (simp add: js_lower_def)

lemma js_lower_char_idem [simp]: "js_lower_char (js_lower_char c) = js_lower_char c"
proof (cases "js_is_upper c")
  case True
  then have le: "(of_char c :: nat) + 32 < 256" by (auto simp: js_is_upper_def Let_def)
  have "(of_char (char_of ((of_char c :: nat) + 32)) :: nat) = of_char c + 32"
    using le by (simp add: of_char_of)
  then have "\<not> js_is_upper (char_of ((of_char c :: nat) + 32))"
    using True by (auto simp: js_is_upper_def Let_def)
  with True show ?thesis by (simp add: js_lower_char_def)
next
  case False
  then show ?thesis by (simp add: js_lower_char_def)
qed

lemma js_lower_idem [js_string_simps, simp]: "js_lower (js_lower s) = js_lower s"
  by (simp add: js_lower_def comp_def)

lemma js_is_space_lower [simp]: "js_is_space (js_lower_char c) = js_is_space c"
proof (cases "js_is_upper c")
  case True
  then have le: "(of_char c :: nat) + 32 < 256" by (auto simp: js_is_upper_def Let_def)
  have "(of_char (char_of ((of_char c :: nat) + 32)) :: nat) = of_char c + 32"
    using le by (simp add: of_char_of)
  with True show ?thesis
    by (auto simp: js_lower_char_def js_is_space_def js_is_upper_def Let_def)
next
  case False
  then show ?thesis by (simp add: js_lower_char_def)
qed

lemma js_trim_lower [js_string_simps]: "js_trim (js_lower s) = js_lower (js_trim s)"
  by (simp add: js_trim_def js_trim_start_def js_trim_end_def js_lower_def dropWhile_map
      rev_map comp_def)

lemma starts_with_append [simp]: "starts_with (p @ s) p"
  by (simp add: starts_with_def)

lemma starts_with_iff: "starts_with s p = (\<exists>t. s = p @ t)"
  by (metis append_eq_conv_conj append_take_drop_id starts_with_def)

subsection \<open>Decimal rendering: \<open>String(n)\<close> for an integer\<close>

fun show_nat :: "nat \<Rightarrow> string" where
  "show_nat n = (if n < 10 then [char_of (48 + n)] else show_nat (n div 10) @ [char_of (48 + n mod 10)])"

declare show_nat.simps [simp del]

definition show_int :: "int \<Rightarrow> string" where
  "show_int i = (if i < 0 then ''-'' @ show_nat (nat (- i)) else show_nat (nat i))"

lemma show_nat_nonempty [simp]: "show_nat n \<noteq> []"
  by (subst show_nat.simps) simp

subsection \<open>De-duplication: \<open>Array.from(new Set(xs))\<close>\<close>

text \<open>A Set keeps the first occurrence of each value, in insertion order.\<close>

definition js_uniq :: "'a list \<Rightarrow> 'a list" where
  "js_uniq xs = rev (remdups (rev xs))"

lemma set_js_uniq [js_list_simps, simp]: "set (js_uniq xs) = set xs"
  by (simp add: js_uniq_def)

lemma distinct_js_uniq [js_list_simps, simp]: "distinct (js_uniq xs)"
  by (simp add: js_uniq_def)

lemma js_uniq_eq_Nil [js_list_simps, simp]: "(js_uniq xs = []) = (xs = [])"
  by (simp add: js_uniq_def)

lemma js_uniq_id: "distinct xs \<Longrightarrow> js_uniq xs = xs"
  by (simp add: js_uniq_def distinct_remdups_id)

lemma js_uniq_Nil [simp]: "js_uniq [] = []"
  by (simp add: js_uniq_def)

subsection \<open>Stable sorting: \<open>toSorted(cmp)\<close>\<close>

text \<open>
  \<open>toSorted\<close> is a stable sort. For a comparator that is a total preorder the stable sorted
  list is unique, so insertion sort computes it.
\<close>

fun insert_by :: "('a \<Rightarrow> 'a \<Rightarrow> int) \<Rightarrow> 'a \<Rightarrow> 'a list \<Rightarrow> 'a list" where
  "insert_by cmp x [] = [x]"
| "insert_by cmp x (y # ys) = (if cmp x y \<le> 0 then x # y # ys else y # insert_by cmp x ys)"

definition sort_by :: "('a \<Rightarrow> 'a \<Rightarrow> int) \<Rightarrow> 'a list \<Rightarrow> 'a list" where
  "sort_by cmp xs = foldr (insert_by cmp) xs []"

lemma set_insert_by [simp]: "set (insert_by cmp x ys) = insert x (set ys)"
  by (induction ys) auto

lemma set_sort_by [js_list_simps, simp]: "set (sort_by cmp xs) = set xs"
  unfolding sort_by_def by (induction xs) auto

lemma length_insert_by [simp]: "length (insert_by cmp x ys) = Suc (length ys)"
  by (induction ys) auto

lemma length_sort_by [js_list_simps, simp]: "length (sort_by cmp xs) = length xs"
  unfolding sort_by_def by (induction xs) auto

lemma distinct_insert_by [simp]: "distinct (insert_by cmp x ys) = (x \<notin> set ys \<and> distinct ys)"
  by (induction ys) auto

lemma distinct_sort_by [js_list_simps, simp]: "distinct (sort_by cmp xs) = distinct xs"
proof (induction xs)
  case (Cons x xs)
  then show ?case using set_sort_by [of cmp xs] by (simp add: sort_by_def)
qed (simp add: sort_by_def)

lemma map_insert_by_distinct:
  "distinct (map f (insert_by cmp x ys)) = (f x \<notin> set (map f ys) \<and> distinct (map f ys))"
  by (induction ys) auto

lemma distinct_map_sort_by [js_list_simps]:
  "distinct (map f (sort_by cmp xs)) = distinct (map f xs)"
proof (induction xs)
  case (Cons x xs)
  then show ?case using set_sort_by [of cmp xs]
    by (simp add: sort_by_def map_insert_by_distinct)
qed (simp add: sort_by_def)

end
