(* ===== verification/Gating.thy ===== *)
theory Gating
  imports JsPrelude
begin

section \<open>Mention gating and command gating\<close>

text \<open>
  Models \<^verbatim>\<open>src/channels/mention-gating.ts\<close> and \<^verbatim>\<open>src/channels/command-gating.ts\<close>: whether a group
  message that does not mention the bot is skipped, and whether a control command is
  authorized by the configured authorizers. Both are pure functions; optional fields are
  options.
\<close>

subsection \<open>Data\<close>

datatype implicit_kind = ReplyToBot | QuotedBot | BotThreadParticipant | NativeMention

record mention_facts =
  mf_canDetectMention :: bool
  mf_wasMentioned :: bool
  mf_hasAnyMention :: "bool option"
  mf_implicitMentionKinds :: "implicit_kind list option"

record mention_policy =
  mp_isGroup :: bool
  mp_requireMention :: bool
  mp_allowedImplicitMentionKinds :: "implicit_kind list option"
  mp_allowTextCommands :: bool
  mp_hasControlCommand :: bool
  mp_commandAuthorized :: bool

text \<open>The flat call shape has the fields of both records in one object.\<close>

record flat_mention_params =
  fm_canDetectMention :: bool
  fm_wasMentioned :: bool
  fm_hasAnyMention :: "bool option"
  fm_implicitMentionKinds :: "implicit_kind list option"
  fm_isGroup :: bool
  fm_requireMention :: bool
  fm_allowedImplicitMentionKinds :: "implicit_kind list option"
  fm_allowTextCommands :: bool
  fm_hasControlCommand :: bool
  fm_commandAuthorized :: bool

datatype mention_params =
    NestedParams mention_facts mention_policy
  | FlatParams flat_mention_params

record mention_decision =
  md_effectiveWasMentioned :: bool
  md_shouldSkip :: bool
  md_implicitMention :: bool
  md_matchedImplicitMentionKinds :: "implicit_kind list"
  md_shouldBypassMention :: bool

subsection \<open>Mention gating\<close>

definition implicitMentionKindWhen :: "implicit_kind \<Rightarrow> bool \<Rightarrow> implicit_kind list" where
  "implicitMentionKindWhen kind enabled = (if enabled then [kind] else [])"

text \<open>The loop over the input kinds, with the kinds matched so far.\<close>

fun match_kinds_loop :: "implicit_kind set option \<Rightarrow> implicit_kind list \<Rightarrow> implicit_kind list \<Rightarrow> implicit_kind list" where
  "match_kinds_loop allowed matched [] = matched"
| "match_kinds_loop allowed matched (kind # kinds) =
     (if (case allowed of None \<Rightarrow> False | Some A \<Rightarrow> kind \<notin> A)
      then match_kinds_loop allowed matched kinds
      else if kind \<in> set matched then match_kinds_loop allowed matched kinds
      else match_kinds_loop allowed (matched @ [kind]) kinds)"

definition resolveMatchedImplicitMentionKinds ::
  "implicit_kind list option \<Rightarrow> implicit_kind list option \<Rightarrow> implicit_kind list" where
  "resolveMatchedImplicitMentionKinds implicitKinds allowedKinds =
     (let inputKinds = nullish implicitKinds [] in
      if inputKinds = [] then []
      else match_kinds_loop (map_option set allowedKinds) [] inputKinds)"

definition resolveMentionDecisionCore ::
  "bool \<Rightarrow> bool \<Rightarrow> bool \<Rightarrow> implicit_kind list option \<Rightarrow> implicit_kind list option \<Rightarrow> bool \<Rightarrow> mention_decision" where
  "resolveMentionDecisionCore requireMention canDetectMention wasMentioned implicitKinds
      allowedKinds shouldBypass =
     (let matched = resolveMatchedImplicitMentionKinds implicitKinds allowedKinds;
          implicitMention = (matched \<noteq> []);
          effective = (wasMentioned \<or> implicitMention \<or> shouldBypass)
      in \<lparr>md_effectiveWasMentioned = effective,
          md_shouldSkip = (requireMention \<and> canDetectMention \<and> \<not> effective),
          md_implicitMention = implicitMention,
          md_matchedImplicitMentionKinds = matched,
          md_shouldBypassMention = shouldBypass\<rparr>)"

fun normalizeMentionDecisionParams :: "mention_params \<Rightarrow> mention_facts \<times> mention_policy" where
  "normalizeMentionDecisionParams (NestedParams facts policy) = (facts, policy)"
| "normalizeMentionDecisionParams (FlatParams p) =
     (\<lparr>mf_canDetectMention = fm_canDetectMention p, mf_wasMentioned = fm_wasMentioned p,
       mf_hasAnyMention = fm_hasAnyMention p,
       mf_implicitMentionKinds = fm_implicitMentionKinds p\<rparr>,
      \<lparr>mp_isGroup = fm_isGroup p, mp_requireMention = fm_requireMention p,
       mp_allowedImplicitMentionKinds = fm_allowedImplicitMentionKinds p,
       mp_allowTextCommands = fm_allowTextCommands p,
       mp_hasControlCommand = fm_hasControlCommand p,
       mp_commandAuthorized = fm_commandAuthorized p\<rparr>)"

definition resolveInboundMentionDecision :: "mention_params \<Rightarrow> mention_decision" where
  "resolveInboundMentionDecision params =
     (let (facts, policy) = normalizeMentionDecisionParams params;
          bypass = (mp_isGroup policy \<and> mp_requireMention policy \<and> \<not> mf_wasMentioned facts \<and>
                    \<not> nullish (mf_hasAnyMention facts) False \<and> mp_allowTextCommands policy \<and>
                    mp_commandAuthorized policy \<and> mp_hasControlCommand policy)
      in resolveMentionDecisionCore (mp_requireMention policy) (mf_canDetectMention facts)
           (mf_wasMentioned facts) (mf_implicitMentionKinds facts)
           (mp_allowedImplicitMentionKinds policy) bypass)"

text \<open>The deprecated entry points; \<open>implicitMention\<close> and \<open>shouldBypassMention\<close> are optional.\<close>

definition resolveMentionGating ::
  "bool \<Rightarrow> bool \<Rightarrow> bool \<Rightarrow> bool option \<Rightarrow> bool option \<Rightarrow> bool \<times> bool" where
  "resolveMentionGating requireMention canDetectMention wasMentioned implicitMention shouldBypass =
     (let r = resolveMentionDecisionCore requireMention canDetectMention wasMentioned
                (Some (implicitMentionKindWhen NativeMention (implicitMention = Some True))) None
                (shouldBypass = Some True)
      in (md_effectiveWasMentioned r, md_shouldSkip r))"

record mention_gate_bypass_params =
  mb_isGroup :: bool
  mb_requireMention :: bool
  mb_canDetectMention :: bool
  mb_wasMentioned :: bool
  mb_implicitMention :: "bool option"
  mb_hasAnyMention :: "bool option"
  mb_allowTextCommands :: bool
  mb_hasControlCommand :: bool
  mb_commandAuthorized :: bool

definition resolveMentionGatingWithBypass :: "mention_gate_bypass_params \<Rightarrow> bool \<times> bool \<times> bool" where
  "resolveMentionGatingWithBypass p =
     (let r = resolveInboundMentionDecision (NestedParams
        \<lparr>mf_canDetectMention = mb_canDetectMention p, mf_wasMentioned = mb_wasMentioned p,
         mf_hasAnyMention = mb_hasAnyMention p,
         mf_implicitMentionKinds =
           Some (implicitMentionKindWhen NativeMention (mb_implicitMention p = Some True))\<rparr>
        \<lparr>mp_isGroup = mb_isGroup p, mp_requireMention = mb_requireMention p,
         mp_allowedImplicitMentionKinds = None,
         mp_allowTextCommands = mb_allowTextCommands p,
         mp_hasControlCommand = mb_hasControlCommand p,
         mp_commandAuthorized = mb_commandAuthorized p\<rparr>)
      in (md_effectiveWasMentioned r, md_shouldSkip r, md_shouldBypassMention r))"

subsection \<open>Command gating\<close>

datatype groups_off_mode = OffAllow | OffDeny | OffConfigured

record command_authorizer =
  ca_configured :: bool
  ca_allowed :: bool

definition resolveCommandAuthorizedFromAuthorizers ::
  "bool \<Rightarrow> command_authorizer list \<Rightarrow> groups_off_mode option \<Rightarrow> bool" where
  "resolveCommandAuthorizedFromAuthorizers useAccessGroups authorizers modeOff =
     (let mode = nullish modeOff OffAllow in
      if \<not> useAccessGroups then
        (case mode of
           OffAllow \<Rightarrow> True
         | OffDeny \<Rightarrow> False
         | OffConfigured \<Rightarrow>
             (let anyConfigured = list_ex ca_configured authorizers in
              if \<not> anyConfigured then True
              else list_ex (\<lambda>e. ca_configured e \<and> ca_allowed e) authorizers))
      else list_ex (\<lambda>e. ca_configured e \<and> ca_allowed e) authorizers)"

definition resolveControlCommandGate ::
  "bool \<Rightarrow> command_authorizer list \<Rightarrow> bool \<Rightarrow> bool \<Rightarrow> groups_off_mode option \<Rightarrow> bool \<times> bool" where
  "resolveControlCommandGate useAccessGroups authorizers allowTextCommands hasControlCommand modeOff =
     (let authorized = resolveCommandAuthorizedFromAuthorizers useAccessGroups authorizers modeOff
      in (authorized, allowTextCommands \<and> hasControlCommand \<and> \<not> authorized))"

definition resolveDualTextControlCommandGate ::
  "bool \<Rightarrow> bool \<Rightarrow> bool \<Rightarrow> bool \<Rightarrow> bool \<Rightarrow> bool \<Rightarrow> groups_off_mode option \<Rightarrow> bool \<times> bool" where
  "resolveDualTextControlCommandGate useAccessGroups primaryConfigured primaryAllowed
      secondaryConfigured secondaryAllowed hasControlCommand modeOff =
     resolveControlCommandGate useAccessGroups
       [\<lparr>ca_configured = primaryConfigured, ca_allowed = primaryAllowed\<rparr>,
        \<lparr>ca_configured = secondaryConfigured, ca_allowed = secondaryAllowed\<rparr>]
       True hasControlCommand modeOff"

subsection \<open>What the gates guarantee\<close>

lemma match_kinds_loop_set:
  "set (match_kinds_loop allowed matched kinds) =
     set matched \<union> {k \<in> set kinds. case allowed of None \<Rightarrow> True | Some A \<Rightarrow> k \<in> A}"
  by (induction kinds arbitrary: matched) (auto split: option.splits)

lemma match_kinds_loop_distinct:
  "distinct matched \<Longrightarrow> distinct (match_kinds_loop allowed matched kinds)"
  by (induction kinds arbitrary: matched) (auto split: option.splits)

lemma resolveMatchedImplicitMentionKinds_set:
  "set (resolveMatchedImplicitMentionKinds kinds allowed) =
     {k \<in> set (nullish kinds []). case allowed of None \<Rightarrow> True | Some A \<Rightarrow> k \<in> set A}"
  by (auto simp: resolveMatchedImplicitMentionKinds_def Let_def match_kinds_loop_set
      split: option.splits)

lemma resolveMatchedImplicitMentionKinds_distinct:
  "distinct (resolveMatchedImplicitMentionKinds kinds allowed)"
  by (simp add: resolveMatchedImplicitMentionKinds_def Let_def match_kinds_loop_distinct)

lemma resolveMatchedImplicitMentionKinds_Nil:
  "(resolveMatchedImplicitMentionKinds kinds allowed = []) =
     (\<forall>k\<in>set (nullish kinds []). case allowed of None \<Rightarrow> False | Some A \<Rightarrow> k \<notin> set A)"
  using resolveMatchedImplicitMentionKinds_set [of kinds allowed]
  by (auto simp flip: set_empty split: option.splits)

lemma resolveMentionDecisionCore_simps [simp]:
  "md_shouldSkip (resolveMentionDecisionCore r c w ks al b) =
     (r \<and> c \<and> \<not> md_effectiveWasMentioned (resolveMentionDecisionCore r c w ks al b))"
  "md_effectiveWasMentioned (resolveMentionDecisionCore r c w ks al b) =
     (w \<or> resolveMatchedImplicitMentionKinds ks al \<noteq> [] \<or> b)"
  "md_shouldBypassMention (resolveMentionDecisionCore r c w ks al b) = b"
  by (auto simp: resolveMentionDecisionCore_def Let_def)

lemma authorized_iff_configured_and_allowed:
  "resolveCommandAuthorizedFromAuthorizers True authorizers modeOff =
     (\<exists>e\<in>set authorizers. ca_configured e \<and> ca_allowed e)"
  by (simp add: resolveCommandAuthorizedFromAuthorizers_def Let_def list_ex_iff)

end
