(* ===== verification/AllowFrom.thy ===== *)
theory AllowFrom
  imports JsPrelude
begin

section \<open>Allowlist entries\<close>

text \<open>
  Models \<^verbatim>\<open>src/channels/allow-from.ts\<close> and the parts of \<^verbatim>\<open>src/shared/string-coerce.ts\<close> and
  \<^verbatim>\<open>src/shared/string-normalization.ts\<close> it uses. A configured entry is a string or a number;
  numeric entries are the integer ids the channels configure.
\<close>

datatype allow_entry = EStr string | ENum int

text \<open>\<open>String(entry)\<close>.\<close>

fun entry_string :: "allow_entry \<Rightarrow> string" where
  "entry_string (EStr s) = s"
| "entry_string (ENum n) = show_int n"

subsection \<open>String coercion\<close>

definition normalizeNullableString :: "string \<Rightarrow> string option" where
  "normalizeNullableString value = (let trimmed = js_trim value in if trimmed \<noteq> [] then Some trimmed else None)"

definition normalizeOptionalString :: "string option \<Rightarrow> string option" where
  "normalizeOptionalString value = Option.bind value normalizeNullableString"

definition normalizeOptionalLowercaseString :: "string option \<Rightarrow> string option" where
  "normalizeOptionalLowercaseString value = map_option js_lower (normalizeOptionalString value)"

definition normalizeLowercaseStringOrEmpty :: "string option \<Rightarrow> string" where
  "normalizeLowercaseStringOrEmpty value = nullish (normalizeOptionalLowercaseString value) []"

definition normalizeStringEntries :: "allow_entry list \<Rightarrow> string list" where
  "normalizeStringEntries list =
     filter (\<lambda>s. s \<noteq> []) (map (\<lambda>e. nullish (normalizeOptionalString (Some (entry_string e))) []) list)"

subsection \<open>Access-group references and source merging\<close>

definition ACCESS_GROUP_ALLOW_FROM_PREFIX :: string where
  "ACCESS_GROUP_ALLOW_FROM_PREFIX = ''accessGroup:''"

definition parseAccessGroupAllowFromEntry :: "string \<Rightarrow> string option" where
  "parseAccessGroupAllowFromEntry entry =
     (let trimmed = js_trim entry in
      if \<not> starts_with trimmed ACCESS_GROUP_ALLOW_FROM_PREFIX then None
      else let name = js_trim (drop (length ACCESS_GROUP_ALLOW_FROM_PREFIX) trimmed)
           in if length name > 0 then Some name else None)"

definition mergeDmAllowFromSources ::
  "allow_entry list option \<Rightarrow> allow_entry list option \<Rightarrow> string option \<Rightarrow> string list" where
  "mergeDmAllowFromSources allowFrom storeAllowFrom dmPolicy =
     (let storeEntries =
        (if dmPolicy = Some ''allowlist'' \<or> dmPolicy = Some ''open'' then []
         else nullish storeAllowFrom [])
      in normalizeStringEntries (nullish allowFrom [] @ storeEntries))"

definition resolveGroupAllowFromSources ::
  "allow_entry list option \<Rightarrow> allow_entry list option \<Rightarrow> bool option \<Rightarrow> string list" where
  "resolveGroupAllowFromSources allowFrom groupAllowFrom fallback =
     (let explicitGroup =
        (case groupAllowFrom of
           Some g \<Rightarrow> if length g > 0 then Some g else None
         | None \<Rightarrow> None)
      in normalizeStringEntries
           (case explicitGroup of
              Some g \<Rightarrow> g
            | None \<Rightarrow> if fallback = Some False then [] else nullish allowFrom []))"

record allow_set =
  as_entries :: "string list"
  as_hasWildcard :: bool
  as_hasEntries :: bool

definition isSenderIdAllowed :: "allow_set \<Rightarrow> string option \<Rightarrow> bool \<Rightarrow> bool" where
  "isSenderIdAllowed allow senderId allowWhenEmpty =
     (if \<not> as_hasEntries allow then allowWhenEmpty
      else if as_hasWildcard allow then True
      else (case senderId of
              None \<Rightarrow> False
            | Some s \<Rightarrow> if s = [] then False else s \<in> set (as_entries allow)))"

subsection \<open>Facts shared by the ingress components\<close>

lemma normalizeOptionalString_Some:
  "normalizeOptionalString (Some s) = (if js_trim s = [] then None else Some (js_trim s))"
  by (simp add: normalizeOptionalString_def normalizeNullableString_def Let_def)

lemma normalizeOptionalString_None [simp]: "normalizeOptionalString None = None"
  by (simp add: normalizeOptionalString_def)

lemma normalizeLowercaseStringOrEmpty_Some [simp]:
  "normalizeLowercaseStringOrEmpty (Some s) = js_lower (js_trim s)"
  by (simp add: normalizeLowercaseStringOrEmpty_def normalizeOptionalLowercaseString_def
      normalizeOptionalString_Some)

lemma normalizeLowercaseStringOrEmpty_None [simp]: "normalizeLowercaseStringOrEmpty None = []"
  by (simp add: normalizeLowercaseStringOrEmpty_def normalizeOptionalLowercaseString_def)

lemma normalizeStringEntries_eq:
  "normalizeStringEntries es = filter (\<lambda>s. s \<noteq> []) (map (js_trim \<circ> entry_string) es)"
  by (induction es) (auto simp: normalizeStringEntries_def normalizeOptionalString_Some)

lemma normalizeStringEntries_Nil [simp]: "normalizeStringEntries [] = []"
  by (simp add: normalizeStringEntries_def)

lemma normalizeStringEntries_append:
  "normalizeStringEntries (a @ b) = normalizeStringEntries a @ normalizeStringEntries b"
  by (simp add: normalizeStringEntries_def)

text \<open>Entries are trimmed and non-empty, and normalising again changes nothing.\<close>

lemma normalizeStringEntries_trimmed:
  "s \<in> set (normalizeStringEntries es) \<Longrightarrow> js_trim s = s \<and> s \<noteq> []"
  by (auto simp: normalizeStringEntries_eq)

lemma normalizeStringEntries_idem:
  "normalizeStringEntries (map EStr (normalizeStringEntries es)) = normalizeStringEntries es"
proof -
  have "map (js_trim \<circ> entry_string) (map EStr (normalizeStringEntries es)) = normalizeStringEntries es"
    using normalizeStringEntries_trimmed by (simp add: map_idI)
  then show ?thesis
    using normalizeStringEntries_trimmed
    by (simp add: normalizeStringEntries_eq [of "map EStr (normalizeStringEntries es)"])
qed

end
