(* ===== verification/IngressTypes.thy ===== *)
theory IngressTypes
  imports Gating AllowFrom
begin

section \<open>Data of the message ingress kernel\<close>

text \<open>
  The types of \<^verbatim>\<open>src/channels/message-access/types.ts\<close>: identifiers, normalized allowlist
  entries, access-group facts, route facts, the resolved state, the policy, the gates of the
  access graph and the final decision. String-literal unions are datatypes, optional fields
  are options.
\<close>

subsection \<open>Identifiers and allowlist entries\<close>

datatype identifier_kind = StableId | Username | Email | Phone | RoleKind | PluginKind string

datatype sensitivity = NormalSensitivity | Pii

datatype match_context = CtxDm | CtxGroup | CtxRoute | CtxCommand

record match_material =
  mm_opaqueId :: string
  mm_kind :: identifier_kind
  mm_dangerous :: "bool option"
  mm_sensitivity :: "sensitivity option"
  mm_value :: string

type_synonym ingress_subject = "match_material list"

record normalized_entry =
  ne_opaqueEntryId :: string
  ne_kind :: identifier_kind
  ne_dangerous :: "bool option"
  ne_sensitivity :: "sensitivity option"

text \<open>The internal entry keeps the raw comparable value.\<close>

record internal_entry = normalized_entry +
  ie_value :: string

datatype reason_code =
    RC_allowed | RC_route_blocked | RC_route_sender_empty
  | RC_dm_policy_disabled | RC_dm_policy_open | RC_dm_policy_allowlisted
  | RC_dm_policy_pairing_required | RC_dm_policy_not_allowlisted
  | RC_group_policy_disabled | RC_group_policy_open | RC_group_policy_allowed
  | RC_group_policy_empty_allowlist | RC_group_policy_not_allowlisted
  | RC_command_authorized | RC_control_command_unauthorized
  | RC_event_authorized | RC_event_unauthorized | RC_event_pairing_not_allowed
  | RC_sender_not_required | RC_origin_subject_missing | RC_origin_subject_not_matched
  | RC_activation_allowed | RC_activation_skipped
  | RC_access_group_missing | RC_access_group_unsupported | RC_access_group_failed
  | RC_mutable_identifier_disabled | RC_no_policy_match

record entry_diagnostic =
  ed_opaqueEntryId :: "string option"
  ed_reasonCode :: reason_code

record ingress_match =
  im_matched :: bool
  im_matchedEntryIds :: "string list"

record normalize_result =
  nr_matchable :: "internal_entry list"
  nr_invalid :: "entry_diagnostic list"
  nr_disabled :: "entry_diagnostic list"

text \<open>The adapter that gives the kernel a channel's identity matching.\<close>

record ingress_adapter =
  ad_normalizeEntries :: "string list \<Rightarrow> match_context \<Rightarrow> string \<Rightarrow> normalize_result"
  ad_matchSubject :: "ingress_subject \<Rightarrow> internal_entry list \<Rightarrow> match_context \<Rightarrow> ingress_match"

subsection \<open>Access groups\<close>

datatype access_group_config =
    DiscordChannelAudience string string
  | MessageSenders "string \<rightharpoonup> string list"

datatype fact_source = StaticSource | DynamicSource

datatype membership_fact =
    FactMatched string fact_source "string list"
  | FactNotMatched string fact_source
  | FactMissing string fact_source reason_code "string option"
  | FactUnsupported string fact_source reason_code "string option"
  | FactFailed string fact_source reason_code "string option"

fun fact_groupName :: "membership_fact \<Rightarrow> string" where
  "fact_groupName (FactMatched g _ _) = g"
| "fact_groupName (FactNotMatched g _) = g"
| "fact_groupName (FactMissing g _ _ _) = g"
| "fact_groupName (FactUnsupported g _ _ _) = g"
| "fact_groupName (FactFailed g _ _ _) = g"

record access_groups =
  ag_referenced :: "string list"
  ag_matched :: "string list"
  ag_missing :: "string list"
  ag_unsupported :: "string list"
  ag_failed :: "string list"

subsection \<open>Resolved allowlists\<close>

record resolved_allowlist =
  ra_rawEntryCount :: nat
  ra_normalizedEntries :: "normalized_entry list"
  ra_invalidEntries :: "entry_diagnostic list"
  ra_disabledEntries :: "entry_diagnostic list"
  ra_matchedEntryIds :: "string list"
  ra_hasConfiguredEntries :: bool
  ra_hasMatchableEntries :: bool
  ra_hasWildcard :: bool
  ra_accessGroups :: access_groups
  ra_match :: ingress_match

record allowlist_facts =
  af_configured :: bool
  af_matched :: bool
  af_reasonCode :: reason_code
  af_matchedEntryIds :: "string list"
  af_invalidEntryCount :: nat
  af_disabledEntryCount :: nat
  af_accessGroups :: access_groups

subsection \<open>Routes\<close>

datatype route_gate_state =
  RouteNotConfigured | RouteMatched | RouteNotMatched | RouteDisabled | RouteLookupFailed

datatype route_sender_policy = SenderInherit | SenderReplace | SenderDenyWhenEmpty

datatype sender_allowlist_source = EffectiveDm | EffectiveGroup

datatype gate_kind =
    KRoute | KRouteSender | KDmSender | KGroupSender | KMembership | KOwnerAllowlist
  | KNestedAllowlist | KCommand | KEvent | KMention

datatype gate_effect =
  EffAllow | EffBlockDispatch | EffBlockCommand | EffSkip | EffObserve | EffIgnore

datatype gate_phase = PhRoute | PhSender | PhCommand | PhEvent | PhActivation

record route_facts =
  rf_id :: string
  rf_kind :: gate_kind
  rf_gate :: route_gate_state
  rf_effect :: gate_effect
  rf_precedence :: int
  rf_senderPolicy :: route_sender_policy
  rf_senderAllowFrom :: "allow_entry list option"
  rf_senderAllowFromSource :: "sender_allowlist_source option"
  rf_match :: "ingress_match option"

record resolved_route_facts =
  rr_id :: string
  rr_kind :: gate_kind
  rr_gate :: route_gate_state
  rr_effect :: gate_effect
  rr_precedence :: int
  rr_senderPolicy :: route_sender_policy
  rr_match :: "ingress_match option"
  rr_senderAllowlist :: "resolved_allowlist option"

subsection \<open>Events, input, policy and resolved state\<close>

datatype event_kind =
  EvMessage | EvReaction | EvButton | EvPostback | EvNativeCommand | EvSlashCommand | EvSystem

datatype auth_mode = AmInbound | AmCommand | AmOriginSubject | AmRouteOnly | AmNone

record event_input =
  ei_kind :: event_kind
  ei_authMode :: auth_mode
  ei_mayPair :: bool
  ei_originSubject :: "ingress_subject option"

record redacted_event =
  re_kind :: event_kind
  re_authMode :: auth_mode
  re_mayPair :: bool
  re_hasOriginSubject :: bool
  re_originSubjectMatched :: bool

datatype conversation_kind = ConvDirect | ConvGroup | ConvChannel

record conversation =
  cv_kind :: conversation_kind
  cv_id :: string
  cv_parentId :: "string option"
  cv_threadId :: "string option"
  cv_title :: "string option"

record state_allowlists_input =
  sa_dm :: "allow_entry list option"
  sa_group :: "allow_entry list option"
  sa_commandOwner :: "allow_entry list option"
  sa_commandGroup :: "allow_entry list option"
  sa_pairingStore :: "allow_entry list option"

record state_input =
  si_channelId :: string
  si_accountId :: string
  si_subject :: ingress_subject
  si_conversation :: conversation
  si_adapter :: ingress_adapter
  si_accessGroups :: "(string \<rightharpoonup> access_group_config) option"
  si_accessGroupMembership :: "membership_fact list option"
  si_routeFacts :: "route_facts list option"
  si_mentionFacts :: "mention_facts option"
  si_event :: event_input
  si_allowlists :: state_allowlists_input

datatype dm_policy = DmPairing | DmAllowlist | DmOpen | DmDisabled

datatype group_policy = GpAllowlist | GpOpen | GpDisabled

datatype activation_order = BeforeSender | AfterCommand

record activation_policy =
  ap_requireMention :: bool
  ap_allowTextCommands :: bool
  ap_allowedImplicitMentionKinds :: "implicit_kind list option"
  ap_order :: "activation_order option"

record command_policy =
  cp_useAccessGroups :: "bool option"
  cp_allowTextCommands :: bool
  cp_hasControlCommand :: bool
  cp_modeWhenAccessGroupsOff :: "groups_off_mode option"

record ingress_policy =
  ip_dmPolicy :: dm_policy
  ip_groupPolicy :: group_policy
  ip_groupAllowFromFallbackToAllowFrom :: "bool option"
  ip_mutableIdentifierMatching :: "bool option"
  ip_activation :: "activation_policy option"
  ip_command :: "command_policy option"

text \<open>\<open>mutableIdentifierMatching\<close> is \<open>Some True\<close> for "enabled", \<open>Some False\<close> for "disabled".\<close>

record state_allowlists =
  sl_dm :: resolved_allowlist
  sl_pairingStore :: resolved_allowlist
  sl_group :: resolved_allowlist
  sl_commandOwner :: resolved_allowlist
  sl_commandGroup :: resolved_allowlist

record ingress_state =
  st_channelId :: string
  st_accountId :: string
  st_conversationKind :: conversation_kind
  st_event :: redacted_event
  st_mentionFacts :: "mention_facts option"
  st_routeFacts :: "resolved_route_facts list"
  st_allowlists :: state_allowlists

subsection \<open>Gates and the decision\<close>

datatype sender_policy = SenderDm dm_policy | SenderGroup group_policy

record gate_command =
  gc_useAccessGroups :: bool
  gc_allowTextCommands :: bool
  gc_modeWhenAccessGroupsOff :: "groups_off_mode option"
  gc_shouldBlockControlCommand :: bool

record gate_activation =
  ga_hasMentionFacts :: bool
  ga_requireMention :: bool
  ga_allowTextCommands :: bool
  ga_allowedImplicitMentionKinds :: "implicit_kind list option"
  ga_order :: "activation_order option"
  ga_shouldSkip :: bool
  ga_canDetectMention :: "bool option"
  ga_wasMentioned :: "bool option"
  ga_hasAnyMention :: "bool option"
  ga_implicitMentionKinds :: "implicit_kind list option"
  ga_effectiveWasMentioned :: "bool option"
  ga_shouldBypassMention :: "bool option"

record access_gate =
  g_id :: string
  g_phase :: gate_phase
  g_kind :: gate_kind
  g_effect :: gate_effect
  g_allowed :: bool
  g_reasonCode :: reason_code
  g_match :: "ingress_match option"
  g_allowlist :: "allowlist_facts option"
  g_sender :: "sender_policy option"
  g_command :: "gate_command option"
  g_event :: "redacted_event option"
  g_activation :: "gate_activation option"

datatype admission = Dispatch | Observe | SkipEvent | DropEvent | PairingRequired

datatype ingress_verdict = VAllow | VBlock | VPairing

record ingress_decision =
  di_admission :: admission
  di_decision :: ingress_verdict
  di_decisiveGateId :: string
  di_reasonCode :: reason_code
  di_gates :: "access_gate list"

text \<open>A gate with only its mandatory fields; the code leaves the others undefined.\<close>

definition plain_gate ::
  "string \<Rightarrow> gate_phase \<Rightarrow> gate_kind \<Rightarrow> gate_effect \<Rightarrow> bool \<Rightarrow> reason_code \<Rightarrow> access_gate" where
  "plain_gate i ph k e a r =
     \<lparr>g_id = i, g_phase = ph, g_kind = k, g_effect = e, g_allowed = a, g_reasonCode = r,
      g_match = None, g_allowlist = None, g_sender = None, g_command = None, g_event = None,
      g_activation = None\<rparr>"

lemma plain_gate_simps [simp]:
  "g_id (plain_gate i ph k e a r) = i"
  "g_phase (plain_gate i ph k e a r) = ph"
  "g_kind (plain_gate i ph k e a r) = k"
  "g_effect (plain_gate i ph k e a r) = e"
  "g_allowed (plain_gate i ph k e a r) = a"
  "g_reasonCode (plain_gate i ph k e a r) = r"
  by (simp_all add: plain_gate_def)

end
