(* ===== verification/IngressAllowlist.thy ===== *)
theory IngressAllowlist
  imports IngressTypes
begin

section \<open>Resolved allowlists: failures, redaction, merging, mutable identifiers\<close>

text \<open>
  Models \<^verbatim>\<open>src/channels/message-access/allowlist.ts\<close>: the reason an allowlist could not be
  evaluated, its redacted facts, the merge of several allowlists, the policy that removes
  matches on dangerous (mutable) identifiers, and the allowlist that finally applies to a
  group sender.
\<close>

subsection \<open>Operations\<close>

definition allowlistFailureReason :: "resolved_allowlist \<Rightarrow> reason_code option" where
  "allowlistFailureReason al =
     (if length (ag_failed (ra_accessGroups al)) > 0 then Some RC_access_group_failed
      else if length (ag_unsupported (ra_accessGroups al)) > 0 then Some RC_access_group_unsupported
      else if length (ag_missing (ra_accessGroups al)) > 0 then Some RC_access_group_missing
      else None)"

definition redactedAllowlistDiagnostics :: "resolved_allowlist \<Rightarrow> reason_code \<Rightarrow> allowlist_facts" where
  "redactedAllowlistDiagnostics al reason =
     \<lparr>af_configured = ra_hasConfiguredEntries al,
      af_matched = im_matched (ra_match al),
      af_reasonCode = reason,
      af_matchedEntryIds = ra_matchedEntryIds al,
      af_invalidEntryCount = length (ra_invalidEntries al),
      af_disabledEntryCount = length (ra_disabledEntries al),
      af_accessGroups = ra_accessGroups al\<rparr>"

definition mergeResolvedAllowlists :: "resolved_allowlist list \<Rightarrow> resolved_allowlist" where
  "mergeResolvedAllowlists als =
     (let matches = map ra_match als;
          ids = js_uniq (concat (map ra_matchedEntryIds als))
      in \<lparr>ra_rawEntryCount = foldl (\<lambda>sum al. sum + ra_rawEntryCount al) 0 als,
          ra_normalizedEntries = concat (map ra_normalizedEntries als),
          ra_invalidEntries = concat (map ra_invalidEntries als),
          ra_disabledEntries = concat (map ra_disabledEntries als),
          ra_matchedEntryIds = ids,
          ra_hasConfiguredEntries = list_ex ra_hasConfiguredEntries als,
          ra_hasMatchableEntries = list_ex ra_hasMatchableEntries als,
          ra_hasWildcard = list_ex ra_hasWildcard als,
          ra_accessGroups =
            \<lparr>ag_referenced = js_uniq (concat (map (ag_referenced \<circ> ra_accessGroups) als)),
             ag_matched = js_uniq (concat (map (ag_matched \<circ> ra_accessGroups) als)),
             ag_missing = js_uniq (concat (map (ag_missing \<circ> ra_accessGroups) als)),
             ag_unsupported = js_uniq (concat (map (ag_unsupported \<circ> ra_accessGroups) als)),
             ag_failed = js_uniq (concat (map (ag_failed \<circ> ra_accessGroups) als))\<rparr>,
          ra_match = \<lparr>im_matched = (list_ex im_matched matches \<or> length ids > 0),
                      im_matchedEntryIds = ids\<rparr>\<rparr>)"

text \<open>\<open>entry.dangerous\<close> as a condition: undefined counts as false.\<close>

definition entry_dangerous :: "normalized_entry \<Rightarrow> bool" where
  "entry_dangerous e = (ne_dangerous e = Some True)"

definition applyMutableIdentifierPolicy ::
  "resolved_allowlist \<Rightarrow> ingress_policy \<Rightarrow> resolved_allowlist" where
  "applyMutableIdentifierPolicy al policy =
     (if ip_mutableIdentifierMatching policy = Some True then al
      else
        let dangerous = filter entry_dangerous (ra_normalizedEntries al);
            dangerousEntryIds = map ne_opaqueEntryId dangerous
        in if dangerousEntryIds = [] then al
           else
             let ids = filter (\<lambda>i. i \<notin> set dangerousEntryIds) (ra_matchedEntryIds al)
             in al\<lparr>ra_disabledEntries := ra_disabledEntries al @
                     map (\<lambda>e. \<lparr>ed_opaqueEntryId = Some (ne_opaqueEntryId e),
                               ed_reasonCode = RC_mutable_identifier_disabled\<rparr>) dangerous,
                   ra_matchedEntryIds := ids,
                   ra_hasMatchableEntries :=
                     list_ex (\<lambda>e. \<not> entry_dangerous e) (ra_normalizedEntries al),
                   ra_match := \<lparr>im_matched = (length ids > 0), im_matchedEntryIds = ids\<rparr>\<rparr>)"

text \<open>The loop over the route facts of the group sender allowlist.\<close>

fun effective_group_loop :: "resolved_allowlist \<Rightarrow> resolved_route_facts list \<Rightarrow> resolved_allowlist" where
  "effective_group_loop effective [] = effective"
| "effective_group_loop effective (route # routes) =
     (case rr_senderAllowlist route of
        None \<Rightarrow> effective_group_loop effective routes
      | Some sal \<Rightarrow>
          if rr_gate route \<noteq> RouteMatched then effective_group_loop effective routes
          else if rr_senderPolicy route = SenderInherit
               then effective_group_loop (mergeResolvedAllowlists [effective, sal]) routes
          else effective_group_loop sal routes)"

definition effectiveGroupSenderAllowlist :: "ingress_state \<Rightarrow> ingress_policy \<Rightarrow> resolved_allowlist" where
  "effectiveGroupSenderAllowlist state policy =
     applyMutableIdentifierPolicy
       (effective_group_loop
          (if ip_groupAllowFromFallbackToAllowFrom policy = Some True \<and>
              \<not> ra_hasConfiguredEntries (sl_group (st_allowlists state))
           then sl_dm (st_allowlists state)
           else sl_group (st_allowlists state))
          (st_routeFacts state))
       policy"

subsection \<open>Properties\<close>

text \<open>The identifier ids that may still match after the mutable-identifier policy.\<close>

definition dangerous_ids :: "resolved_allowlist \<Rightarrow> string set" where
  "dangerous_ids al = ne_opaqueEntryId ` {e \<in> set (ra_normalizedEntries al). entry_dangerous e}"

lemma dangerous_filter_Nil:
  "(map ne_opaqueEntryId (filter entry_dangerous es) = []) = (\<forall>e\<in>set es. \<not> entry_dangerous e)"
  by (simp add: filter_empty_conv)

lemma applyMutableIdentifierPolicy_enabled [simp]:
  "ip_mutableIdentifierMatching policy = Some True \<Longrightarrow> applyMutableIdentifierPolicy al policy = al"
  by (simp add: applyMutableIdentifierPolicy_def)

lemma applyMutableIdentifierPolicy_safe [simp]:
  "dangerous_ids al = {} \<Longrightarrow> applyMutableIdentifierPolicy al policy = al"
  by (simp add: applyMutableIdentifierPolicy_def dangerous_ids_def Let_def filter_empty_conv)

lemma applyMutableIdentifierPolicy_fields [simp]:
  "ra_hasWildcard (applyMutableIdentifierPolicy al policy) = ra_hasWildcard al"
  "ra_hasConfiguredEntries (applyMutableIdentifierPolicy al policy) = ra_hasConfiguredEntries al"
  "ra_accessGroups (applyMutableIdentifierPolicy al policy) = ra_accessGroups al"
  "ra_normalizedEntries (applyMutableIdentifierPolicy al policy) = ra_normalizedEntries al"
  by (simp_all add: applyMutableIdentifierPolicy_def Let_def)

text \<open>
  With the policy off, a match rests on the id of an entry that is not dangerous, unless the
  allowlist has no dangerous entry at all.
\<close>

lemma applyMutableIdentifierPolicy_match:
  assumes "ip_mutableIdentifierMatching policy \<noteq> Some True" and "dangerous_ids al \<noteq> {}"
  shows "im_matched (ra_match (applyMutableIdentifierPolicy al policy)) =
    (\<exists>i\<in>set (ra_matchedEntryIds al). i \<notin> dangerous_ids al)"
proof -
  have set_eq: "set (map ne_opaqueEntryId (filter entry_dangerous (ra_normalizedEntries al))) = dangerous_ids al"
    by (auto simp: dangerous_ids_def)
  then have "map ne_opaqueEntryId (filter entry_dangerous (ra_normalizedEntries al)) \<noteq> []"
    using assms(2) by (metis empty_set)
  with assms(1) set_eq show ?thesis
    by (auto simp: applyMutableIdentifierPolicy_def Let_def filter_empty_conv)
qed

lemma applyMutableIdentifierPolicy_ids_subset:
  "set (ra_matchedEntryIds (applyMutableIdentifierPolicy al policy)) \<subseteq> set (ra_matchedEntryIds al)"
  by (auto simp: applyMutableIdentifierPolicy_def Let_def)

lemma applyMutableIdentifierPolicy_idem:
  "im_matched (ra_match (applyMutableIdentifierPolicy (applyMutableIdentifierPolicy al policy) policy)) =
   im_matched (ra_match (applyMutableIdentifierPolicy al policy))"
  by (auto simp: applyMutableIdentifierPolicy_def Let_def)

text \<open>
  A merge matches when some part does, or some part names a matched entry; it is configured
  when some part is.
\<close>

lemma mergeResolvedAllowlists_simps [simp]:
  "im_matched (ra_match (mergeResolvedAllowlists als)) =
     (\<exists>al\<in>set als. im_matched (ra_match al) \<or> ra_matchedEntryIds al \<noteq> [])"
  "ra_hasConfiguredEntries (mergeResolvedAllowlists als) = (\<exists>al\<in>set als. ra_hasConfiguredEntries al)"
  "ra_hasWildcard (mergeResolvedAllowlists als) = (\<exists>al\<in>set als. ra_hasWildcard al)"
  "set (ra_matchedEntryIds (mergeResolvedAllowlists als)) = (\<Union>al\<in>set als. set (ra_matchedEntryIds al))"
  "ra_normalizedEntries (mergeResolvedAllowlists als) = concat (map ra_normalizedEntries als)"
  by (auto simp: mergeResolvedAllowlists_def Let_def list_ex_iff)

text \<open>
  Well-formed allowlists: a match has a matched entry id and the two lists of ids agree. Every
  operation of this theory keeps it.
\<close>

definition wf_allowlist :: "resolved_allowlist \<Rightarrow> bool" where
  "wf_allowlist al = (im_matchedEntryIds (ra_match al) = ra_matchedEntryIds al \<and>
     (im_matched (ra_match al) = (ra_matchedEntryIds al \<noteq> [])))"

lemma wf_merge: "\<forall>al\<in>set als. wf_allowlist al \<Longrightarrow> wf_allowlist (mergeResolvedAllowlists als)"
  by (auto simp: wf_allowlist_def mergeResolvedAllowlists_def Let_def list_ex_iff)

lemma wf_applyMutable: "wf_allowlist al \<Longrightarrow> wf_allowlist (applyMutableIdentifierPolicy al policy)"
  by (simp add: wf_allowlist_def applyMutableIdentifierPolicy_def Let_def)

lemma wf_effective_group_loop:
  "wf_allowlist al \<Longrightarrow>
   \<forall>r\<in>set routes. \<forall>s. rr_senderAllowlist r = Some s \<longrightarrow> wf_allowlist s \<Longrightarrow>
   wf_allowlist (effective_group_loop al routes)"
proof (induction al routes rule: effective_group_loop.induct)
  case (2 effective route routes)
  then show ?case by (auto split: option.splits simp: wf_merge)
qed simp

text \<open>A route that replaces the senders decides alone when no later route contributes.\<close>

lemma effective_group_loop_replace:
  assumes "rr_gate r = RouteMatched" and "rr_senderAllowlist r = Some s"
    and "rr_senderPolicy r \<noteq> SenderInherit"
  shows "effective_group_loop al (rs @ [r]) = s"
  using assms by (induction al rs rule: effective_group_loop.induct) (auto split: option.splits)

end
