(* ===== verification/IngressIdentity.thy ===== *)
theory IngressIdentity
  imports IngressTypes
begin

section \<open>Identity descriptors and the adapter built from them\<close>

text \<open>
  Models \<^verbatim>\<open>src/channels/message-access/runtime-identity.ts\<close>: the fields of an identity
  descriptor, the adapter that normalizes allowlist entries and matches a subject against
  them, and the subject built from the raw sender identity. The callbacks a channel plugin
  puts in a descriptor (normalizers, wildcard test, match hook, entry-id generator) are the
  function-valued fields of the descriptor. The locale \<open>identity_matching\<close> is the contract the
  ingress kernel relies on; \<open>createIdentityAdapter\<close> is proved to satisfy it.
\<close>

subsection \<open>Descriptors\<close>

datatype dangerous_spec = DangerousFlag bool | DangerousFn "string \<Rightarrow> bool option"

type_synonym normalizer = "string \<Rightarrow> string option"

record identity_field =
  fd_key :: "string option"
  fd_kind :: "identifier_kind option"
  fd_normalize :: "normalizer option"
  fd_normalizeEntry :: "normalizer option"
  fd_normalizeSubject :: "normalizer option"
  fd_dangerous :: "dangerous_spec option"
  fd_sensitivity :: "sensitivity option"

record resolved_field =
  rs_key :: string
  rs_kind :: identifier_kind
  rs_normalize :: "normalizer option"
  rs_normalizeEntry :: "normalizer option"
  rs_normalizeSubject :: "normalizer option"
  rs_dangerous :: "dangerous_spec option"
  rs_sensitivity :: "sensitivity option"

text \<open>An alias is a key with a field; the code requires the key there.\<close>

record identity_descriptor =
  idd_primary :: identity_field
  idd_aliases :: "(string \<times> identity_field) list option"
  idd_isWildcardEntry :: "(string \<Rightarrow> bool) option"
  idd_matchEntry :: "(ingress_subject \<Rightarrow> internal_entry \<Rightarrow> match_context \<Rightarrow> bool option) option"
  idd_resolveEntryId :: "(string \<Rightarrow> nat \<Rightarrow> string \<Rightarrow> nat \<Rightarrow> string) option"

record stable_identity_params =
  sp_entryIdPrefix :: "string option"
  sp_resolveEntryId :: "(string \<Rightarrow> nat \<Rightarrow> string \<Rightarrow> nat \<Rightarrow> string) option"
  sp_aliases :: "(string \<times> identity_field) list option"
  sp_isWildcardEntry :: "(string \<Rightarrow> bool) option"
  sp_matchEntry :: "(ingress_subject \<Rightarrow> internal_entry \<Rightarrow> match_context \<Rightarrow> bool option) option"
  sp_primary :: identity_field

record subject_input =
  sj_stableId :: "allow_entry option"
  sj_aliases :: "(string \<rightharpoonup> allow_entry) option"

text \<open>An empty prefix counts as no prefix.\<close>

definition defineStableChannelIngressIdentity :: "stable_identity_params \<Rightarrow> identity_descriptor" where
  "defineStableChannelIngressIdentity params =
     \<lparr>idd_primary = sp_primary params, idd_aliases = sp_aliases params,
      idd_isWildcardEntry = sp_isWildcardEntry params, idd_matchEntry = sp_matchEntry params,
      idd_resolveEntryId =
        nullish_opt (sp_resolveEntryId params)
          (case sp_entryIdPrefix params of
             None \<Rightarrow> None
           | Some pre \<Rightarrow> if pre = [] then None
               else Some (\<lambda>entry entryIndex fieldKey fieldIndex. pre @ ''-'' @ show_nat (entryIndex + 1)))\<rparr>"

definition defaultNormalize :: normalizer where
  "defaultNormalize value = Some value"

datatype normalize_mode = ModeEntry | ModeSubject

definition normalizeFieldValue :: "resolved_field \<Rightarrow> string \<Rightarrow> normalize_mode \<Rightarrow> string option" where
  "normalizeFieldValue field value mode =
     (let normalize =
        (case mode of
           ModeEntry \<Rightarrow> nullish (rs_normalizeEntry field) (nullish (rs_normalize field) defaultNormalize)
         | ModeSubject \<Rightarrow> nullish (rs_normalizeSubject field) (nullish (rs_normalize field) defaultNormalize))
      in case normalize value of
           None \<Rightarrow> None
         | Some v \<Rightarrow> if js_trim v = [] then None else Some (js_trim v))"

definition fieldDangerous :: "resolved_field \<Rightarrow> string \<Rightarrow> bool option" where
  "fieldDangerous field value =
     (case rs_dangerous field of
        None \<Rightarrow> None
      | Some (DangerousFlag b) \<Rightarrow> Some b
      | Some (DangerousFn f) \<Rightarrow> f value)"

definition resolve_field :: "string \<Rightarrow> identifier_kind \<Rightarrow> identity_field \<Rightarrow> resolved_field" where
  "resolve_field key kind field =
     \<lparr>rs_key = key, rs_kind = kind, rs_normalize = fd_normalize field,
      rs_normalizeEntry = fd_normalizeEntry field, rs_normalizeSubject = fd_normalizeSubject field,
      rs_dangerous = fd_dangerous field, rs_sensitivity = fd_sensitivity field\<rparr>"

definition identityFields :: "identity_descriptor \<Rightarrow> resolved_field list" where
  "identityFields identity =
     resolve_field (nullish (fd_key (idd_primary identity)) ''stableId'')
       (nullish (fd_kind (idd_primary identity)) StableId) (idd_primary identity) #
     map (\<lambda>(key, alias). resolve_field key (nullish (fd_kind alias) (PluginKind key)) alias)
       (nullish (idd_aliases identity) [])"

fun kind_string :: "identifier_kind \<Rightarrow> string" where
  "kind_string StableId = ''stable-id''"
| "kind_string Username = ''username''"
| "kind_string Email = ''email''"
| "kind_string Phone = ''phone''"
| "kind_string RoleKind = ''role''"
| "kind_string (PluginKind key) = ''plugin:'' @ key"

definition identityMatchKey :: "identifier_kind \<Rightarrow> string \<Rightarrow> string" where
  "identityMatchKey kind value = kind_string kind @ '':'' @ value"

definition adapterEntry ::
  "identity_descriptor \<Rightarrow> resolved_field \<Rightarrow> nat \<Rightarrow> string \<Rightarrow> nat \<Rightarrow> string \<Rightarrow> string option \<Rightarrow> internal_entry" where
  "adapterEntry identity field fieldIndex entry entryIndex value fallbackSuffix =
     \<lparr>ne_opaqueEntryId =
        (case idd_resolveEntryId identity of
           Some f \<Rightarrow> f entry entryIndex (rs_key field) fieldIndex
         | None \<Rightarrow> ''entry-'' @ show_nat (entryIndex + 1) @ '':'' @ nullish fallbackSuffix (rs_key field)),
      ne_kind = rs_kind field,
      ne_dangerous = fieldDangerous field entry,
      ne_sensitivity = rs_sensitivity field,
      ie_value = value\<rparr>"

subsection \<open>The adapter\<close>

definition is_wildcard :: "identity_descriptor \<Rightarrow> string \<Rightarrow> bool" where
  "is_wildcard identity = nullish (idd_isWildcardEntry identity) (\<lambda>value. value = ''*'')"

definition normalize_one_entry :: "identity_descriptor \<Rightarrow> nat \<Rightarrow> string \<Rightarrow> internal_entry list" where
  "normalize_one_entry identity entryIndex entry =
     (let fields = identityFields identity in
      if is_wildcard identity entry then
        [adapterEntry identity (hd fields) 0 entry entryIndex ''*'' (Some ''wildcard'')]
      else concat (map (\<lambda>(fieldIndex, field).
             case normalizeFieldValue field entry ModeEntry of
               None \<Rightarrow> []
             | Some value \<Rightarrow> [adapterEntry identity field fieldIndex entry entryIndex value None])
           (enumerate 0 fields)))"

definition identity_normalizeEntries :: "identity_descriptor \<Rightarrow> string list \<Rightarrow> normalize_result" where
  "identity_normalizeEntries identity entries =
     \<lparr>nr_matchable = concat (map (\<lambda>(i, e). normalize_one_entry identity i e) (enumerate 0 entries)),
      nr_invalid = [], nr_disabled = []\<rparr>"

definition subject_keys :: "identity_descriptor \<Rightarrow> ingress_subject \<Rightarrow> string list" where
  "subject_keys identity subject =
     concat (map (\<lambda>identifier.
        case find (\<lambda>candidate. rs_kind candidate = mm_kind identifier) (identityFields identity) of
          None \<Rightarrow> []
        | Some field \<Rightarrow>
            (case normalizeFieldValue field (mm_value identifier) ModeSubject of
               None \<Rightarrow> []
             | Some value \<Rightarrow> [identityMatchKey (mm_kind identifier) value])) subject)"

definition entry_matches ::
  "identity_descriptor \<Rightarrow> ingress_subject \<Rightarrow> match_context \<Rightarrow> internal_entry \<Rightarrow> bool" where
  "entry_matches identity subject ctx entry =
     (let fallback = (ie_value entry = ''*'' \<or>
            identityMatchKey (ne_kind entry) (ie_value entry) \<in> set (subject_keys identity subject))
      in nullish (Option.bind (idd_matchEntry identity) (\<lambda>f. f subject entry ctx)) fallback)"

definition identity_matchSubject ::
  "identity_descriptor \<Rightarrow> ingress_subject \<Rightarrow> internal_entry list \<Rightarrow> match_context \<Rightarrow> ingress_match" where
  "identity_matchSubject identity subject entries ctx =
     (let ids = map ne_opaqueEntryId (filter (entry_matches identity subject ctx) entries)
      in \<lparr>im_matched = (length ids > 0), im_matchedEntryIds = ids\<rparr>)"

definition createIdentityAdapter :: "identity_descriptor \<Rightarrow> ingress_adapter" where
  "createIdentityAdapter identity =
     \<lparr>ad_normalizeEntries = (\<lambda>entries ctx accountId. identity_normalizeEntries identity entries),
      ad_matchSubject = identity_matchSubject identity\<rparr>"

definition createIdentitySubject :: "identity_descriptor \<Rightarrow> subject_input \<Rightarrow> ingress_subject" where
  "createIdentitySubject identity input =
     concat (map (\<lambda>(index, field).
        case (if index = 0 then sj_stableId input
              else Option.bind (sj_aliases input) (\<lambda>m. m (rs_key field))) of
          None \<Rightarrow> []
        | Some rawValue \<Rightarrow>
            (let value = entry_string rawValue
             in [\<lparr>mm_opaqueId = rs_key field, mm_kind = rs_kind field,
                  mm_dangerous = fieldDangerous field value,
                  mm_sensitivity = rs_sensitivity field, mm_value = value\<rparr>]))
       (enumerate (0::nat) (identityFields identity)))"

subsection \<open>The contract of an adapter\<close>

text \<open>
  What the ingress kernel needs of an adapter: a subject matches exactly when some entry
  matched, and the matched ids are ids of the entries it was given.
\<close>

locale identity_matching =
  fixes ad :: ingress_adapter
  assumes match_iff_ids:
      "im_matched (ad_matchSubject ad s es c) = (im_matchedEntryIds (ad_matchSubject ad s es c) \<noteq> [])"
    and match_ids_subset:
      "set (im_matchedEntryIds (ad_matchSubject ad s es c)) \<subseteq> ne_opaqueEntryId ` set es"
begin

lemma no_entries_no_match: "\<not> im_matched (ad_matchSubject ad s [] c)"
  using match_ids_subset [of s "[]" c] by (simp add: match_iff_ids)

lemma match_has_entry:
  assumes "im_matched (ad_matchSubject ad s es c)"
  obtains e where "e \<in> set es" and "ne_opaqueEntryId e \<in> set (im_matchedEntryIds (ad_matchSubject ad s es c))"
proof -
  obtain i where i: "i \<in> set (im_matchedEntryIds (ad_matchSubject ad s es c))"
    using assms by (cases "im_matchedEntryIds (ad_matchSubject ad s es c)") (auto simp: match_iff_ids)
  with match_ids_subset [of s es c] obtain e where "e \<in> set es" "i = ne_opaqueEntryId e" by auto
  with i show thesis by (intro that) auto
qed

end

interpretation identity_adapter: identity_matching "createIdentityAdapter identity" for identity
  by unfold_locales (auto simp: createIdentityAdapter_def identity_matchSubject_def Let_def)

subsection \<open>Properties of the adapter\<close>

lemma createIdentityAdapter_simps [simp]:
  "ad_normalizeEntries (createIdentityAdapter identity) es c a = identity_normalizeEntries identity es"
  "ad_matchSubject (createIdentityAdapter identity) s ents c = identity_matchSubject identity s ents c"
  by (simp_all add: createIdentityAdapter_def)

lemma identity_matchSubject_matched:
  "im_matched (identity_matchSubject identity s es c) = list_ex (entry_matches identity s c) es"
  by (auto simp: identity_matchSubject_def Let_def list_ex_iff filter_empty_conv)

lemma normalize_one_entry_value:
  assumes "e \<in> set (normalize_one_entry identity i entry)" and "\<not> is_wildcard identity entry"
  shows "\<exists>field\<in>set (identityFields identity). ne_kind e = rs_kind field \<and>
     normalizeFieldValue field entry ModeEntry = Some (ie_value e)"
  using assms
  by (auto simp: normalize_one_entry_def adapterEntry_def in_set_enumerate_eq split: option.splits)

lemma normalizeFieldValue_trimmed:
  "normalizeFieldValue field value mode = Some v \<Longrightarrow> js_trim v = v \<and> v \<noteq> []"
  by (auto simp: normalizeFieldValue_def Let_def split: option.splits if_splits)

end
