(* ===== verification/IngressState.thy ===== *)
theory IngressState
  imports IngressAllowlist IngressIdentity
begin

section \<open>Resolving the ingress state\<close>

text \<open>
  Models \<^verbatim>\<open>src/channels/message-access/state.ts\<close>: raw allowlist entries are trimmed, split into
  direct entries and access-group references, normalized and matched by the channel's
  adapter, and merged with the membership facts into resolved allowlists; route facts are
  sorted and get their own sender allowlists; the event learns whether its origin subject is
  the current subject. The awaited adapter calls are functions, so a Promise.all is the tuple
  of its results. The locale comparison of route ids is the parameter \<open>lc\<close>.
\<close>

subsection \<open>Matching helpers\<close>

definition redactedEntries :: "internal_entry list \<Rightarrow> normalized_entry list" where
  "redactedEntries entries = map normalized_entry.truncate entries"

definition emptyMatch :: ingress_match where
  "emptyMatch = \<lparr>im_matched = False, im_matchedEntryIds = []\<rparr>"

definition mergeMatches :: "ingress_match list \<Rightarrow> ingress_match" where
  "mergeMatches matches =
     (let ids = js_uniq (concat (map im_matchedEntryIds matches))
      in \<lparr>im_matched = (list_ex im_matched matches \<or> length ids > 0), im_matchedEntryIds = ids\<rparr>)"

definition mergeDiagnostics :: "entry_diagnostic list option list \<Rightarrow> entry_diagnostic list" where
  "mergeDiagnostics groups = concat (map (\<lambda>g. nullish g []) groups)"

text \<open>\<open>new Map(pairs)\<close>: of two facts with one name the later one counts.\<close>

definition accessGroupFactByName :: "membership_fact list option \<Rightarrow> string \<rightharpoonup> membership_fact" where
  "accessGroupFactByName facts =
     map_of (rev (map (\<lambda>f. (fact_groupName f, f)) (nullish facts [])))"

record match_resolution =
  mr_normalizedEntries :: "normalized_entry list"
  mr_invalidEntries :: "entry_diagnostic list"
  mr_disabledEntries :: "entry_diagnostic list"
  mr_match :: ingress_match

definition normalizeAndMatch ::
  "ingress_adapter \<Rightarrow> ingress_subject \<Rightarrow> string \<Rightarrow> string list \<Rightarrow> match_context \<Rightarrow> match_resolution" where
  "normalizeAndMatch adapter subject accountId entries ctx =
     (if length entries = 0 then
        \<lparr>mr_normalizedEntries = [], mr_invalidEntries = [], mr_disabledEntries = [],
         mr_match = emptyMatch\<rparr>
      else
        let normalized = ad_normalizeEntries adapter entries ctx accountId;
            mtch = (if length (nr_matchable normalized) > 0
                    then ad_matchSubject adapter subject (nr_matchable normalized) ctx
                    else emptyMatch)
        in \<lparr>mr_normalizedEntries = redactedEntries (nr_matchable normalized),
            mr_invalidEntries = nr_invalid normalized,
            mr_disabledEntries = nr_disabled normalized,
            mr_match = mtch\<rparr>)"

definition referencedAccessGroups :: "string list \<Rightarrow> string list" where
  "referencedAccessGroups entries = js_uniq (List.map_filter parseAccessGroupAllowFromEntry entries)"

definition directAllowlistEntries :: "string list \<Rightarrow> string list" where
  "directAllowlistEntries entries =
     filter (\<lambda>entry. parseAccessGroupAllowFromEntry entry = None) entries"

definition lookup_group :: "state_input \<Rightarrow> string \<Rightarrow> access_group_config option" where
  "lookup_group input name = Option.bind (si_accessGroups input) (\<lambda>m. m name)"

definition groupSenderEntries :: "string \<Rightarrow> state_input \<Rightarrow> string list" where
  "groupSenderEntries groupName input =
     (case lookup_group input groupName of
        Some (MessageSenders members) \<Rightarrow>
          normalizeStringEntries (map EStr
            (nullish (members ''*'') [] @ nullish (members (si_channelId input)) []))
      | _ \<Rightarrow> [])"

subsection \<open>Origin subjects\<close>

definition eventSubjectMatchContext :: "state_input \<Rightarrow> match_context" where
  "eventSubjectMatchContext input =
     (if cv_kind (si_conversation input) = ConvDirect then CtxDm else CtxGroup)"

definition normalizeSubjectIdentifiersForMatch ::
  "state_input \<Rightarrow> ingress_subject \<Rightarrow> match_context \<Rightarrow> string \<Rightarrow> internal_entry list" where
  "normalizeSubjectIdentifiersForMatch input subject ctx opaquePrefix =
     concat (map (\<lambda>(identifierIndex, identifier).
       map (\<lambda>(entryIndex, entry).
              entry\<lparr>ne_opaqueEntryId := opaquePrefix @ ''-'' @ show_nat (identifierIndex + 1) @
                      '':'' @ show_nat (entryIndex + 1)\<rparr>)
         (enumerate 0 (filter (\<lambda>entry. ne_kind entry = mm_kind identifier \<and> ie_value entry \<noteq> ''*'')
            (nr_matchable (ad_normalizeEntries (si_adapter input) [mm_value identifier] ctx
               (si_accountId input))))))
       (enumerate (0::nat) subject))"

definition originSubjectMatched :: "state_input \<Rightarrow> bool" where
  "originSubjectMatched input =
     (case ei_originSubject (si_event input) of
        None \<Rightarrow> False
      | Some origin \<Rightarrow>
          if list_ex (\<lambda>identifier. list_ex (\<lambda>current. mm_kind current = mm_kind identifier \<and>
                mm_value current = mm_value identifier) (si_subject input)) origin
          then True
          else
            let ctx = eventSubjectMatchContext input;
                originEntries = normalizeSubjectIdentifiersForMatch input origin ctx ''origin''
            in if length originEntries > 0 \<and>
                  im_matched (ad_matchSubject (si_adapter input) (si_subject input) originEntries ctx)
               then True
               else
                 let currentEntries =
                       normalizeSubjectIdentifiersForMatch input (si_subject input) ctx ''current''
                 in if length currentEntries = 0 then False
                    else im_matched (ad_matchSubject (si_adapter input) origin currentEntries ctx))"

subsection \<open>Access groups\<close>

record group_resolution =
  gr_normalizedEntries :: "normalized_entry list"
  gr_invalidEntries :: "entry_diagnostic list"
  gr_disabledEntries :: "entry_diagnostic list"
  gr_matches :: "ingress_match list"
  gr_accessGroups :: access_groups

definition push_matched :: "string \<Rightarrow> ingress_match \<Rightarrow> group_resolution \<Rightarrow> group_resolution" where
  "push_matched name m acc =
     acc\<lparr>gr_accessGroups := (gr_accessGroups acc)\<lparr>ag_matched := ag_matched (gr_accessGroups acc) @ [name]\<rparr>,
         gr_matches := gr_matches acc @ [m]\<rparr>"

definition push_missing :: "string \<Rightarrow> group_resolution \<Rightarrow> group_resolution" where
  "push_missing name acc =
     acc\<lparr>gr_accessGroups := (gr_accessGroups acc)\<lparr>ag_missing := ag_missing (gr_accessGroups acc) @ [name]\<rparr>\<rparr>"

definition push_unsupported :: "string \<Rightarrow> group_resolution \<Rightarrow> group_resolution" where
  "push_unsupported name acc =
     acc\<lparr>gr_accessGroups := (gr_accessGroups acc)\<lparr>ag_unsupported := ag_unsupported (gr_accessGroups acc) @ [name]\<rparr>\<rparr>"

definition push_failed :: "string \<Rightarrow> group_resolution \<Rightarrow> group_resolution" where
  "push_failed name acc =
     acc\<lparr>gr_accessGroups := (gr_accessGroups acc)\<lparr>ag_failed := ag_failed (gr_accessGroups acc) @ [name]\<rparr>\<rparr>"

text \<open>The body of the loop over the referenced group names.\<close>

definition access_group_step ::
  "state_input \<Rightarrow> match_context \<Rightarrow> string \<Rightarrow> group_resolution \<Rightarrow> group_resolution" where
  "access_group_step input ctx groupName acc =
     (case accessGroupFactByName (si_accessGroupMembership input) groupName of
        Some (FactMatched _ _ ids) \<Rightarrow>
          push_matched groupName \<lparr>im_matched = True, im_matchedEntryIds = ids\<rparr> acc
      | Some (FactMissing _ _ _ _) \<Rightarrow> push_missing groupName acc
      | Some (FactUnsupported _ _ _ _) \<Rightarrow> push_unsupported groupName acc
      | Some (FactFailed _ _ _ _) \<Rightarrow> push_failed groupName acc
      | Some (FactNotMatched _ _) \<Rightarrow> acc
      | None \<Rightarrow>
          (case lookup_group input groupName of
             None \<Rightarrow> push_missing groupName acc
           | Some (DiscordChannelAudience _ _) \<Rightarrow> push_unsupported groupName acc
           | Some (MessageSenders _) \<Rightarrow>
               (let resolved = normalizeAndMatch (si_adapter input) (si_subject input)
                      (si_accountId input) (groupSenderEntries groupName input) ctx;
                    acc' = acc\<lparr>gr_normalizedEntries := gr_normalizedEntries acc @ mr_normalizedEntries resolved,
                               gr_invalidEntries := gr_invalidEntries acc @ mr_invalidEntries resolved,
                               gr_disabledEntries := gr_disabledEntries acc @ mr_disabledEntries resolved\<rparr>
                in if im_matched (mr_match resolved)
                   then push_matched groupName (mr_match resolved) acc' else acc')))"

definition resolveAccessGroupEntries ::
  "state_input \<Rightarrow> match_context \<Rightarrow> string list \<Rightarrow> group_resolution" where
  "resolveAccessGroupEntries input ctx referenced =
     fold (access_group_step input ctx) referenced
       \<lparr>gr_normalizedEntries = [], gr_invalidEntries = [], gr_disabledEntries = [], gr_matches = [],
        gr_accessGroups = \<lparr>ag_referenced = referenced, ag_matched = [], ag_missing = [],
          ag_unsupported = [], ag_failed = []\<rparr>\<rparr>"

subsection \<open>Allowlists, routes and the state\<close>

definition resolveIngressAllowlist ::
  "state_input \<Rightarrow> allow_entry list option \<Rightarrow> match_context \<Rightarrow> resolved_allowlist" where
  "resolveIngressAllowlist input rawEntries ctx =
     (let entries = normalizeStringEntries (nullish rawEntries []);
          referenced = referencedAccessGroups entries;
          directEntries = directAllowlistEntries entries;
          direct = normalizeAndMatch (si_adapter input) (si_subject input) (si_accountId input)
            directEntries ctx;
          groups = resolveAccessGroupEntries input ctx referenced;
          mtch = mergeMatches (mr_match direct # gr_matches groups)
      in \<lparr>ra_rawEntryCount = length entries,
          ra_normalizedEntries = mr_normalizedEntries direct @ gr_normalizedEntries groups,
          ra_invalidEntries =
            mergeDiagnostics [Some (mr_invalidEntries direct), Some (gr_invalidEntries groups)],
          ra_disabledEntries =
            mergeDiagnostics [Some (mr_disabledEntries direct), Some (gr_disabledEntries groups)],
          ra_matchedEntryIds = im_matchedEntryIds mtch,
          ra_hasConfiguredEntries = (length entries > 0),
          ra_hasMatchableEntries = (length (mr_normalizedEntries direct) > 0 \<or>
            length (gr_normalizedEntries groups) > 0),
          ra_hasWildcard = (''*'' \<in> set directEntries),
          ra_accessGroups = gr_accessGroups groups,
          ra_match = mtch\<rparr>)"

definition route_order :: "(string \<Rightarrow> string \<Rightarrow> int) \<Rightarrow> route_facts \<Rightarrow> route_facts \<Rightarrow> int" where
  "route_order lc left right =
     (if rf_precedence left - rf_precedence right \<noteq> 0 then rf_precedence left - rf_precedence right
      else lc (rf_id left) (rf_id right))"

definition resolve_route :: "state_input \<Rightarrow> route_facts \<Rightarrow> resolved_route_facts" where
  "resolve_route input route =
     (let senderAllowFrom = nullish_opt (rf_senderAllowFrom route)
        (case rf_senderAllowFromSource route of
           Some EffectiveDm \<Rightarrow> sa_dm (si_allowlists input)
         | Some EffectiveGroup \<Rightarrow> sa_group (si_allowlists input)
         | None \<Rightarrow> None)
      in \<lparr>rr_id = rf_id route, rr_kind = rf_kind route, rr_gate = rf_gate route,
          rr_effect = rf_effect route, rr_precedence = rf_precedence route,
          rr_senderPolicy = rf_senderPolicy route, rr_match = rf_match route,
          rr_senderAllowlist =
            map_option (\<lambda>raw. resolveIngressAllowlist input (Some raw) CtxRoute) senderAllowFrom\<rparr>)"

definition resolveRouteFacts ::
  "(string \<Rightarrow> string \<Rightarrow> int) \<Rightarrow> state_input \<Rightarrow> resolved_route_facts list" where
  "resolveRouteFacts lc input =
     map (resolve_route input) (sort_by (route_order lc) (nullish (si_routeFacts input) []))"

definition resolveChannelIngressState ::
  "(string \<Rightarrow> string \<Rightarrow> int) \<Rightarrow> state_input \<Rightarrow> ingress_state" where
  "resolveChannelIngressState lc input =
     \<lparr>st_channelId = si_channelId input, st_accountId = si_accountId input,
      st_conversationKind = cv_kind (si_conversation input),
      st_event = \<lparr>re_kind = ei_kind (si_event input), re_authMode = ei_authMode (si_event input),
        re_mayPair = ei_mayPair (si_event input),
        re_hasOriginSubject = (ei_originSubject (si_event input) \<noteq> None),
        re_originSubjectMatched = originSubjectMatched input\<rparr>,
      st_mentionFacts = si_mentionFacts input,
      st_routeFacts = resolveRouteFacts lc input,
      st_allowlists =
        \<lparr>sl_dm = resolveIngressAllowlist input (sa_dm (si_allowlists input)) CtxDm,
         sl_pairingStore = resolveIngressAllowlist input (sa_pairingStore (si_allowlists input)) CtxDm,
         sl_group = resolveIngressAllowlist input (sa_group (si_allowlists input)) CtxGroup,
         sl_commandOwner = resolveIngressAllowlist input (sa_commandOwner (si_allowlists input)) CtxCommand,
         sl_commandGroup = resolveIngressAllowlist input (sa_commandGroup (si_allowlists input)) CtxCommand\<rparr>\<rparr>"

subsection \<open>Reference classification of access groups\<close>

text \<open>
  Which of the buckets a referenced group belongs to: a membership fact decides first, then
  the configuration, and for a static sender group the adapter.
\<close>

datatype group_status = GsMatched | GsMissing | GsUnsupported | GsFailed | GsNotMatched

definition group_status ::
  "state_input \<Rightarrow> match_context \<Rightarrow> string \<Rightarrow> group_status" where
  "group_status input ctx name =
     (case accessGroupFactByName (si_accessGroupMembership input) name of
        Some (FactMatched _ _ _) \<Rightarrow> GsMatched
      | Some (FactMissing _ _ _ _) \<Rightarrow> GsMissing
      | Some (FactUnsupported _ _ _ _) \<Rightarrow> GsUnsupported
      | Some (FactFailed _ _ _ _) \<Rightarrow> GsFailed
      | Some (FactNotMatched _ _) \<Rightarrow> GsNotMatched
      | None \<Rightarrow>
          (case lookup_group input name of
             None \<Rightarrow> GsMissing
           | Some (DiscordChannelAudience _ _) \<Rightarrow> GsUnsupported
           | Some (MessageSenders _) \<Rightarrow>
               if im_matched (mr_match (normalizeAndMatch (si_adapter input) (si_subject input)
                    (si_accountId input) (groupSenderEntries name input) ctx))
               then GsMatched else GsNotMatched))"

definition status_list :: "state_input \<Rightarrow> match_context \<Rightarrow> group_status \<Rightarrow> string list \<Rightarrow> string list" where
  "status_list input ctx s names = filter (\<lambda>n. group_status input ctx n = s) names"

lemmas push_defs = push_matched_def push_missing_def push_unsupported_def push_failed_def

lemma access_group_step_buckets:
  "gr_accessGroups (access_group_step input ctx n acc) =
     (gr_accessGroups acc)
       \<lparr>ag_matched := ag_matched (gr_accessGroups acc) @ status_list input ctx GsMatched [n],
        ag_missing := ag_missing (gr_accessGroups acc) @ status_list input ctx GsMissing [n],
        ag_unsupported := ag_unsupported (gr_accessGroups acc) @ status_list input ctx GsUnsupported [n],
        ag_failed := ag_failed (gr_accessGroups acc) @ status_list input ctx GsFailed [n]\<rparr>"
  by (auto simp: access_group_step_def group_status_def status_list_def push_defs Let_def
      split: option.splits membership_fact.splits access_group_config.splits)

lemma status_list_Cons:
  "status_list input ctx s (n # ns) = status_list input ctx s [n] @ status_list input ctx s ns"
  by (simp add: status_list_def)

lemma status_list_Nil [simp]: "status_list input ctx s [] = []"
  by (simp add: status_list_def)

lemma fold_access_group_buckets:
  "gr_accessGroups (fold (access_group_step input ctx) ns acc) =
     (gr_accessGroups acc)
       \<lparr>ag_matched := ag_matched (gr_accessGroups acc) @ status_list input ctx GsMatched ns,
        ag_missing := ag_missing (gr_accessGroups acc) @ status_list input ctx GsMissing ns,
        ag_unsupported := ag_unsupported (gr_accessGroups acc) @ status_list input ctx GsUnsupported ns,
        ag_failed := ag_failed (gr_accessGroups acc) @ status_list input ctx GsFailed ns\<rparr>"
proof (induction ns arbitrary: acc)
  case (Cons n ns)
  show ?case
    by (simp add: Cons access_group_step_buckets status_list_Cons [of _ _ _ n ns])
qed simp

text \<open>The matches pushed by the loop, group by group.\<close>

definition group_match ::
  "state_input \<Rightarrow> match_context \<Rightarrow> string \<Rightarrow> ingress_match list" where
  "group_match input ctx name =
     (if group_status input ctx name \<noteq> GsMatched then []
      else case accessGroupFactByName (si_accessGroupMembership input) name of
             Some (FactMatched _ _ ids) \<Rightarrow> [\<lparr>im_matched = True, im_matchedEntryIds = ids\<rparr>]
           | _ \<Rightarrow> [mr_match (normalizeAndMatch (si_adapter input) (si_subject input)
                     (si_accountId input) (groupSenderEntries name input) ctx)])"

lemma access_group_step_matches:
  "gr_matches (access_group_step input ctx n acc) = gr_matches acc @ group_match input ctx n"
  by (auto simp: access_group_step_def group_status_def group_match_def push_defs Let_def
      split: option.splits membership_fact.splits access_group_config.splits)

lemma fold_access_group_matches:
  "gr_matches (fold (access_group_step input ctx) ns acc) =
     gr_matches acc @ concat (map (group_match input ctx) ns)"
  by (induction ns arbitrary: acc) (simp_all add: access_group_step_matches)

text \<open>The entries of the static groups, which only groups without a fact contribute.\<close>

definition group_entries ::
  "state_input \<Rightarrow> match_context \<Rightarrow> string \<Rightarrow> normalized_entry list" where
  "group_entries input ctx name =
     (case (accessGroupFactByName (si_accessGroupMembership input) name, lookup_group input name) of
        (None, Some (MessageSenders _)) \<Rightarrow>
          mr_normalizedEntries (normalizeAndMatch (si_adapter input) (si_subject input)
            (si_accountId input) (groupSenderEntries name input) ctx)
      | _ \<Rightarrow> [])"

lemma access_group_step_entries:
  "gr_normalizedEntries (access_group_step input ctx n acc) =
     gr_normalizedEntries acc @ group_entries input ctx n"
  by (auto simp: access_group_step_def group_entries_def push_defs Let_def
      split: option.splits membership_fact.splits access_group_config.splits)

lemma fold_access_group_entries:
  "gr_normalizedEntries (fold (access_group_step input ctx) ns acc) =
     gr_normalizedEntries acc @ concat (map (group_entries input ctx) ns)"
  by (induction ns arbitrary: acc) (simp_all add: access_group_step_entries)

lemma resolveAccessGroupEntries_simps:
  "gr_accessGroups (resolveAccessGroupEntries input ctx ns) =
     \<lparr>ag_referenced = ns, ag_matched = status_list input ctx GsMatched ns,
      ag_missing = status_list input ctx GsMissing ns,
      ag_unsupported = status_list input ctx GsUnsupported ns,
      ag_failed = status_list input ctx GsFailed ns\<rparr>"
  "gr_matches (resolveAccessGroupEntries input ctx ns) = concat (map (group_match input ctx) ns)"
  "gr_normalizedEntries (resolveAccessGroupEntries input ctx ns) =
     concat (map (group_entries input ctx) ns)"
  by (simp_all add: resolveAccessGroupEntries_def fold_access_group_buckets
      fold_access_group_matches fold_access_group_entries)

subsection \<open>Matches of the resolved allowlists\<close>

text \<open>Matched membership facts name at least one entry, as the runtime's own facts do.\<close>

definition facts_named :: "membership_fact list option \<Rightarrow> bool" where
  "facts_named facts =
     list_all (\<lambda>f. case f of FactMatched _ _ ids \<Rightarrow> ids \<noteq> [] | _ \<Rightarrow> True) (nullish facts [])"

lemma accessGroupFactByName_in:
  "accessGroupFactByName facts n = Some f \<Longrightarrow> f \<in> set (nullish facts []) \<and> fact_groupName f = n"
  unfolding accessGroupFactByName_def by (drule map_of_SomeD) auto

lemma facts_namedD:
  "facts_named facts \<Longrightarrow> accessGroupFactByName facts n = Some (FactMatched a b ids) \<Longrightarrow> ids \<noteq> []"
  using accessGroupFactByName_in [of facts n "FactMatched a b ids"]
  by (auto simp: facts_named_def list_all_iff)

definition match_ok :: "ingress_match \<Rightarrow> bool" where
  "match_ok m = (im_matched m = (im_matchedEntryIds m \<noteq> []))"

lemma match_ok_empty [simp]: "match_ok emptyMatch"
  by (simp add: match_ok_def emptyMatch_def)

lemma mergeMatches_ok: "\<forall>m\<in>set ms. match_ok m \<Longrightarrow> match_ok (mergeMatches ms)"
  by (auto simp: match_ok_def mergeMatches_def Let_def list_ex_iff)

lemma mergeMatches_matched:
  "im_matched (mergeMatches ms) = (\<exists>m\<in>set ms. im_matched m \<or> im_matchedEntryIds m \<noteq> [])"
  by (auto simp: mergeMatches_def Let_def list_ex_iff)

lemma mergeMatches_ids:
  "set (im_matchedEntryIds (mergeMatches ms)) = (\<Union>m\<in>set ms. set (im_matchedEntryIds m))"
  by (auto simp: mergeMatches_def Let_def)

lemma resolveIngressAllowlist_ids_agree:
  "im_matchedEntryIds (ra_match (resolveIngressAllowlist input raw ctx)) =
   ra_matchedEntryIds (resolveIngressAllowlist input raw ctx)"
  by (simp add: resolveIngressAllowlist_def Let_def)

lemma redactedEntries_ids:
  "ne_opaqueEntryId ` set (redactedEntries es) = ne_opaqueEntryId ` set es"
  by (auto simp: redactedEntries_def normalized_entry.truncate_def image_iff)

context identity_matching
begin

lemma normalizeAndMatch_ok: "match_ok (mr_match (normalizeAndMatch ad s acct es c))"
  by (auto simp: normalizeAndMatch_def Let_def match_ok_def match_iff_ids emptyMatch_def)

lemma normalizeAndMatch_ids:
  "set (im_matchedEntryIds (mr_match (normalizeAndMatch ad s acct es c))) \<subseteq>
     ne_opaqueEntryId ` set (mr_normalizedEntries (normalizeAndMatch ad s acct es c))"
  using match_ids_subset [of s "nr_matchable (ad_normalizeEntries ad es c acct)" c]
  by (auto simp: normalizeAndMatch_def Let_def emptyMatch_def redactedEntries_ids)

lemma group_match_ok:
  assumes "si_adapter input = ad" and "facts_named (si_accessGroupMembership input)"
    and "m \<in> set (group_match input ctx n)"
  shows "match_ok m"
  using assms facts_namedD [OF assms(2)] normalizeAndMatch_ok
  by (auto simp: group_match_def match_ok_def split: if_splits option.splits membership_fact.splits)

lemma resolved_wf:
  assumes "si_adapter input = ad" and "facts_named (si_accessGroupMembership input)"
  shows "wf_allowlist (resolveIngressAllowlist input raw ctx)"
proof -
  let ?ms = "mr_match (normalizeAndMatch (si_adapter input) (si_subject input) (si_accountId input)
      (directAllowlistEntries (normalizeStringEntries (nullish raw []))) ctx) #
    concat (map (group_match input ctx)
      (referencedAccessGroups (normalizeStringEntries (nullish raw []))))"
  have "match_ok m" if "m \<in> set ?ms" for m
    using that group_match_ok [OF assms] normalizeAndMatch_ok by (auto simp: assms(1))
  then have "match_ok (mergeMatches ?ms)" by (blast intro: mergeMatches_ok)
  then show ?thesis
    by (simp add: wf_allowlist_def match_ok_def resolveIngressAllowlist_def Let_def
        resolveAccessGroupEntries_simps)
qed

end

lemma resolveIngressAllowlist_empty:
  assumes "normalizeStringEntries (nullish raw []) = []"
  shows "\<not> ra_hasConfiguredEntries (resolveIngressAllowlist input raw ctx)"
    and "\<not> im_matched (ra_match (resolveIngressAllowlist input raw ctx))"
  using assms
  by (auto simp: resolveIngressAllowlist_def Let_def referencedAccessGroups_def
      directAllowlistEntries_def normalizeAndMatch_def emptyMatch_def mergeMatches_matched
      resolveAccessGroupEntries_simps List.map_filter_def)

lemma resolved_configured:
  "ra_hasConfiguredEntries (resolveIngressAllowlist input raw ctx) =
     (normalizeStringEntries (nullish raw []) \<noteq> [])"
  by (simp add: resolveIngressAllowlist_def Let_def)

text \<open>A match needs a configured entry.\<close>

lemma resolved_match_configured:
  "im_matched (ra_match (resolveIngressAllowlist input raw ctx)) \<Longrightarrow>
   ra_hasConfiguredEntries (resolveIngressAllowlist input raw ctx)"
  using resolveIngressAllowlist_empty [of raw input ctx] by (auto simp: resolved_configured)

text \<open>
  Where a match comes from: a direct entry the adapter matched, or a referenced access group
  that is matched.
\<close>

lemma resolved_match_source:
  "im_matched (ra_match (resolveIngressAllowlist input raw ctx)) \<Longrightarrow>
   (let entries = normalizeStringEntries (nullish raw []);
        direct = mr_match (normalizeAndMatch (si_adapter input) (si_subject input)
          (si_accountId input) (directAllowlistEntries entries) ctx)
    in (im_matched direct \<or> im_matchedEntryIds direct \<noteq> []) \<or>
       (\<exists>n\<in>set (referencedAccessGroups entries). group_status input ctx n = GsMatched))"
  by (auto simp: resolveIngressAllowlist_def Let_def mergeMatches_matched
      resolveAccessGroupEntries_simps group_match_def split: if_splits)

lemma set_referencedAccessGroups:
  "set (referencedAccessGroups entries) = {n. \<exists>e\<in>set entries. parseAccessGroupAllowFromEntry e = Some n}"
  by (induction entries)
     (auto simp: referencedAccessGroups_def List.map_filter_def split: option.splits)

lemma resolveRouteFacts_set:
  "set (resolveRouteFacts lc input) = resolve_route input ` set (nullish (si_routeFacts input) [])"
  by (simp add: resolveRouteFacts_def)

end
