(* ===== verification/IngressRuntimeTypes.thy ===== *)
theory IngressRuntimeTypes
  imports IngressState
begin

section \<open>Inputs and results of the ingress runtime\<close>

text \<open>
  The types of \<^verbatim>\<open>src/channels/message-access/runtime-types.ts\<close>. A callback that returns a
  promise is a function to an outcome: \<open>None\<close> stands for a rejected promise.
\<close>

subsection \<open>Configuration and commands\<close>

record ingress_config =
  cfg_accessGroups :: "(string \<rightharpoonup> access_group_config) option"
  cfg_commands :: "bool option option"

text \<open>\<open>cfg_commands\<close> is the object \<open>commands\<close> with its only field \<open>useAccessGroups\<close>.\<close>

datatype group_owner_mode = OwnerConfigured | OwnerNone
datatype direct_group_mode = DirectEffective | DirectNone

record command_input = command_policy +
  ci_commandOwnerAllowFrom :: "allow_entry list option"
  ci_groupOwnerAllowFrom :: "group_owner_mode option"
  ci_directGroupAllowFrom :: "direct_group_mode option"
  ci_commandGroupFallback :: "bool option"

record command_preset =
  cpr_requested :: "bool option"
  cpr_cfg :: "ingress_config option"
  cpr_useAccessGroups :: "bool option"
  cpr_allowTextCommands :: "bool option"
  cpr_hasControlCommand :: "bool option"
  cpr_modeWhenAccessGroupsOff :: "groups_off_mode option"
  cpr_commandOwnerAllowFrom :: "allow_entry list option"
  cpr_groupOwnerAllowFrom :: "group_owner_mode option"
  cpr_directGroupAllowFrom :: "direct_group_mode option"
  cpr_commandGroupFallback :: "bool option"

record event_preset =
  ep_isGroup :: "bool option"
  ep_kind :: "event_kind option"
  ep_authMode :: "auth_mode option"
  ep_mayPair :: "bool option"
  ep_originSubject :: "ingress_subject option"

subsection \<open>Routes\<close>

record route_descriptor =
  rd_id :: string
  rd_kind :: "gate_kind option"
  rd_configured :: "bool option"
  rd_matched :: "bool option"
  rd_allowed :: "bool option"
  rd_enabled :: "bool option"
  rd_precedence :: "int option"
  rd_senderPolicy :: "route_sender_policy option"
  rd_senderAllowFrom :: "allow_entry list option"
  rd_senderAllowFromSource :: "sender_allowlist_source option"
  rd_matchId :: "string option"
  rd_blockReason :: "string option"

datatype route_input = NoRoute | OneRoute route_descriptor | RouteList "route_descriptor list"

subsection \<open>Parameters of one resolution\<close>

type_synonym membership_resolver =
  "string \<Rightarrow> access_group_config \<Rightarrow> string \<Rightarrow> string \<Rightarrow> subject_input \<Rightarrow> bool option"

type_synonym store_reader = "string \<Rightarrow> string \<Rightarrow> dm_policy \<Rightarrow> allow_entry list option option"

type_synonym pairing_store_reader = "string \<Rightarrow> string \<Rightarrow> string list option"

text \<open>The sources of the lists: what a channel plugin passes besides the event itself.\<close>

record ingress_params =
  rp_channelId :: string
  rp_accountId :: string
  rp_identity :: identity_descriptor
  rp_subject :: subject_input
  rp_conversation :: conversation
  rp_event :: event_input
  rp_policy :: ingress_policy
  rp_allowFrom :: "allow_entry list option"
  rp_groupAllowFrom :: "allow_entry list option"
  rp_route :: route_input
  rp_routeFacts :: "route_facts list option"
  rp_accessGroups :: "(string \<rightharpoonup> access_group_config) option"
  rp_accessGroupMembership :: "membership_fact list option"
  rp_resolveAccessGroupMembership :: "membership_resolver option"
  rp_accessGroupMatchedAllowFromEntry :: "allow_entry option"
  rp_providerMissingFallbackApplied :: "bool option"
  rp_mentionFacts :: "mention_facts option"
  rp_readStoreAllowFrom :: "store_reader option"
  rp_useDefaultPairingStore :: "bool option"
  rp_command :: "command_input option"

subsection \<open>Parameters of a resolver\<close>

record resolver_base =
  rb_channelId :: string
  rb_accountId :: string
  rb_identity :: identity_descriptor
  rb_accessGroups :: "(string \<rightharpoonup> access_group_config) option"
  rb_accessGroupMembership :: "membership_fact list option"
  rb_resolveAccessGroupMembership :: "membership_resolver option"
  rb_accessGroupMatchedAllowFromEntry :: "allow_entry option"
  rb_readStoreAllowFrom :: "store_reader option"
  rb_useDefaultPairingStore :: "bool option"
  rb_cfg :: "ingress_config option"
  rb_useAccessGroups :: "bool option"
  rb_defaultDmPolicy :: "dm_policy option"
  rb_defaultGroupPolicy :: "group_policy option"
  rb_groupAllowFromFallback :: "bool option"
  rb_mutableIdentifierMatching :: "bool option"

text \<open>The optional policy fields a message may override.\<close>

record policy_overrides =
  po_groupAllowFromFallback :: "bool option"
  po_mutableIdentifierMatching :: "bool option"
  po_activation :: "activation_policy option"

record resolver_message =
  rm_subject :: subject_input
  rm_conversation :: conversation
  rm_event :: "event_preset option"
  rm_dmPolicy :: "dm_policy option"
  rm_groupPolicy :: "group_policy option"
  rm_policy :: "policy_overrides option"
  rm_allowFrom :: "allow_entry list option"
  rm_groupAllowFrom :: "allow_entry list option"
  rm_route :: route_input
  rm_routeFacts :: "route_facts list option"
  rm_accessGroupMembership :: "membership_fact list option"
  rm_providerMissingFallbackApplied :: "bool option"
  rm_mentionFacts :: "mention_facts option"
  rm_command :: "command_preset option"

subsection \<open>Projections and the result\<close>

record sender_access =
  sea_allowed :: bool
  sea_decision :: ingress_verdict
  sea_reasonCode :: reason_code
  sea_gate :: "access_gate option"
  sea_effectiveAllowFrom :: "string list"
  sea_effectiveGroupAllowFrom :: "string list"
  sea_providerMissingFallbackApplied :: bool

record route_access =
  roa_allowed :: bool
  roa_reasonCode :: "reason_code option"
  roa_reason :: "string option"
  roa_gate :: "access_gate option"

record command_access =
  coa_requested :: bool
  coa_authorized :: bool
  coa_shouldBlockControlCommand :: bool
  coa_reasonCode :: reason_code
  coa_gate :: "access_gate option"

record activation_access =
  aca_ran :: bool
  aca_allowed :: bool
  aca_shouldSkip :: bool
  aca_reasonCode :: reason_code
  aca_effectiveWasMentioned :: "bool option"
  aca_shouldBypassMention :: "bool option"
  aca_gate :: "access_gate option"

record resolved_ingress =
  ri_state :: ingress_state
  ri_ingress :: ingress_decision
  ri_senderAccess :: sender_access
  ri_routeAccess :: route_access
  ri_commandAccess :: command_access
  ri_activationAccess :: activation_access

end
