(* ===== verification/IngressSender.thy ===== *)
theory IngressSender
  imports IngressAllowlist
begin

section \<open>Sender gates\<close>

text \<open>
  Models \<^verbatim>\<open>src/channels/message-access/sender-gates.ts\<close>: the gate for the sender of a direct
  message, the gate for the sender of a group message, and the event auth mode that turns a
  failed sender gate into one that is not required.
\<close>

subsection \<open>Operations\<close>

definition senderGate ::
  "string \<Rightarrow> gate_kind \<Rightarrow> gate_effect \<Rightarrow> bool \<Rightarrow> reason_code \<Rightarrow> ingress_match \<Rightarrow> sender_policy \<Rightarrow>
   resolved_allowlist \<Rightarrow> access_gate" where
  "senderGate i kind eff ok reason mat policy source =
     (plain_gate i PhSender kind eff ok reason)
       \<lparr>g_match := Some mat, g_sender := Some policy,
        g_allowlist := Some (redactedAllowlistDiagnostics source reason)\<rparr>"

definition senderGateForDirect :: "ingress_state \<Rightarrow> ingress_policy \<Rightarrow> access_gate" where
  "senderGateForDirect state policy =
     (let dm = applyMutableIdentifierPolicy (sl_dm (st_allowlists state)) policy;
          pairingStore = applyMutableIdentifierPolicy (sl_pairingStore (st_allowlists state)) policy;
          dmPolicy = ip_dmPolicy policy;
          allow = (\<lambda>reason. senderGate ''sender:dm'' KDmSender EffAllow True reason (ra_match dm)
                     (SenderDm dmPolicy) dm);
          block = (\<lambda>reason. senderGate ''sender:dm'' KDmSender EffBlockDispatch False reason
                     (ra_match dm) (SenderDm dmPolicy) dm)
      in if dmPolicy = DmDisabled then block RC_dm_policy_disabled
         else if dmPolicy = DmOpen then
           (if ra_hasWildcard dm then allow RC_dm_policy_open
            else if im_matched (ra_match dm) then allow RC_dm_policy_allowlisted
            else block RC_dm_policy_not_allowlisted)
         else if im_matched (ra_match dm) then allow RC_dm_policy_allowlisted
         else if dmPolicy = DmPairing \<and> im_matched (ra_match pairingStore) then
           senderGate ''sender:dm'' KDmSender EffAllow True RC_dm_policy_allowlisted
             (ra_match pairingStore) (SenderDm dmPolicy) pairingStore
         else if dmPolicy = DmPairing \<and> re_mayPair (st_event state) then
           block RC_dm_policy_pairing_required
         else block (if dmPolicy = DmPairing then RC_event_pairing_not_allowed
                     else nullish (allowlistFailureReason dm) RC_dm_policy_not_allowlisted))"

definition senderGateForGroup :: "ingress_state \<Rightarrow> ingress_policy \<Rightarrow> access_gate" where
  "senderGateForGroup state policy =
     (let grp = effectiveGroupSenderAllowlist state policy;
          groupPolicy = ip_groupPolicy policy;
          allow = (\<lambda>reason. senderGate ''sender:group'' KGroupSender EffAllow True reason
                     (ra_match grp) (SenderGroup groupPolicy) grp);
          block = (\<lambda>reason. senderGate ''sender:group'' KGroupSender EffBlockDispatch False reason
                     (ra_match grp) (SenderGroup groupPolicy) grp)
      in if groupPolicy = GpDisabled then block RC_group_policy_disabled
         else if groupPolicy = GpOpen then allow RC_group_policy_open
         else if \<not> ra_hasConfiguredEntries grp then block RC_group_policy_empty_allowlist
         else if im_matched (ra_match grp) then allow RC_group_policy_allowed
         else block (nullish (allowlistFailureReason grp) RC_group_policy_not_allowlisted))"

definition applyEventAuthModeToSenderGate :: "ingress_state \<Rightarrow> access_gate \<Rightarrow> access_gate" where
  "applyEventAuthModeToSenderGate state gate =
     (if re_authMode (st_event state) = AmInbound \<or> g_allowed gate then gate
      else gate\<lparr>g_effect := EffIgnore, g_allowed := True, g_reasonCode := RC_sender_not_required,
                g_allowlist := map_option (\<lambda>f. f\<lparr>af_reasonCode := RC_sender_not_required\<rparr>)
                                 (g_allowlist gate)\<rparr>)"

subsection \<open>Abstract sender policy\<close>

text \<open>
  What the sender gates promise: who is admitted under each policy, over the allowlists after
  the mutable-identifier policy. Pairing applies to the direct gate only.
\<close>

definition dm_sender_admitted :: "ingress_state \<Rightarrow> ingress_policy \<Rightarrow> bool" where
  "dm_sender_admitted state policy =
     (let dm = applyMutableIdentifierPolicy (sl_dm (st_allowlists state)) policy;
          store = applyMutableIdentifierPolicy (sl_pairingStore (st_allowlists state)) policy
      in case ip_dmPolicy policy of
           DmDisabled \<Rightarrow> False
         | DmOpen \<Rightarrow> ra_hasWildcard dm \<or> im_matched (ra_match dm)
         | DmAllowlist \<Rightarrow> im_matched (ra_match dm)
         | DmPairing \<Rightarrow> im_matched (ra_match dm) \<or> im_matched (ra_match store))"

definition group_sender_admitted :: "ingress_state \<Rightarrow> ingress_policy \<Rightarrow> bool" where
  "group_sender_admitted state policy =
     (let grp = effectiveGroupSenderAllowlist state policy
      in case ip_groupPolicy policy of
           GpDisabled \<Rightarrow> False
         | GpOpen \<Rightarrow> True
         | GpAllowlist \<Rightarrow> ra_hasConfiguredEntries grp \<and> im_matched (ra_match grp))"

definition dm_pairing_offered :: "ingress_state \<Rightarrow> ingress_policy \<Rightarrow> bool" where
  "dm_pairing_offered state policy =
     (ip_dmPolicy policy = DmPairing \<and> \<not> dm_sender_admitted state policy \<and> re_mayPair (st_event state))"

subsection \<open>The gates implement it\<close>

lemma senderGate_simps [simp]:
  "g_id (senderGate i k e ok r m p al) = i"
  "g_phase (senderGate i k e ok r m p al) = PhSender"
  "g_kind (senderGate i k e ok r m p al) = k"
  "g_effect (senderGate i k e ok r m p al) = e"
  "g_allowed (senderGate i k e ok r m p al) = ok"
  "g_reasonCode (senderGate i k e ok r m p al) = r"
  by (simp_all add: senderGate_def)

lemma senderGateForDirect_shape:
  "g_phase (senderGateForDirect state policy) = PhSender"
  "g_kind (senderGateForDirect state policy) = KDmSender"
  "g_effect (senderGateForDirect state policy) =
     (if g_allowed (senderGateForDirect state policy) then EffAllow else EffBlockDispatch)"
  by (simp_all add: senderGateForDirect_def Let_def)

lemma senderGateForGroup_shape:
  "g_phase (senderGateForGroup state policy) = PhSender"
  "g_kind (senderGateForGroup state policy) = KGroupSender"
  "g_effect (senderGateForGroup state policy) =
     (if g_allowed (senderGateForGroup state policy) then EffAllow else EffBlockDispatch)"
  by (simp_all add: senderGateForGroup_def Let_def)

lemma senderGateForDirect_allowed:
  "g_allowed (senderGateForDirect state policy) = dm_sender_admitted state policy"
  by (cases "ip_dmPolicy policy")
    (simp_all add: senderGateForDirect_def dm_sender_admitted_def Let_def)

lemma senderGateForGroup_allowed:
  "g_allowed (senderGateForGroup state policy) = group_sender_admitted state policy"
  by (cases "ip_groupPolicy policy")
    (simp_all add: senderGateForGroup_def group_sender_admitted_def Let_def)

lemma nullish_failure_neq [simp]:
  "nullish (allowlistFailureReason al) RC_dm_policy_not_allowlisted \<noteq> RC_dm_policy_pairing_required"
  "nullish (allowlistFailureReason al) RC_group_policy_not_allowlisted \<noteq> RC_dm_policy_pairing_required"
  by (auto simp: allowlistFailureReason_def)

lemma senderGateForDirect_pairing:
  "(g_reasonCode (senderGateForDirect state policy) = RC_dm_policy_pairing_required) =
   dm_pairing_offered state policy"
  by (cases "ip_dmPolicy policy")
    (simp_all add: senderGateForDirect_def dm_pairing_offered_def dm_sender_admitted_def Let_def)

lemma senderGateForGroup_no_pairing:
  "g_reasonCode (senderGateForGroup state policy) \<noteq> RC_dm_policy_pairing_required"
  by (cases "ip_groupPolicy policy") (simp_all add: senderGateForGroup_def Let_def)

lemma applyEventAuthModeToSenderGate_simps [simp]:
  "g_phase (applyEventAuthModeToSenderGate state gate) = g_phase gate"
  "g_kind (applyEventAuthModeToSenderGate state gate) = g_kind gate"
  "g_id (applyEventAuthModeToSenderGate state gate) = g_id gate"
  "g_allowed (applyEventAuthModeToSenderGate state gate) =
     (g_allowed gate \<or> re_authMode (st_event state) \<noteq> AmInbound)"
  by (auto simp: applyEventAuthModeToSenderGate_def)

lemma applyEventAuthModeToSenderGate_blocked:
  "\<not> g_allowed (applyEventAuthModeToSenderGate state gate) \<Longrightarrow>
   applyEventAuthModeToSenderGate state gate = gate"
  by (auto simp: applyEventAuthModeToSenderGate_def split: if_splits)

end
