(* ===== verification/IngressDecision.thy ===== *)
theory IngressDecision
  imports IngressSender
begin

section \<open>The ingress decision\<close>

text \<open>
  Models \<^verbatim>\<open>src/channels/message-access/decision.ts\<close>: the gates of the access graph in the
  order the code evaluates them, and the decision \<open>decideChannelIngress\<close> computes from them.
  \<open>spec_admission\<close> is the abstract priority list the decision is proved to implement.
\<close>

subsection \<open>Gates\<close>

definition decisiveDecision ::
  "admission \<Rightarrow> ingress_verdict \<Rightarrow> access_gate \<Rightarrow> access_gate list \<Rightarrow> ingress_decision" where
  "decisiveDecision adm verdict gate gates =
     \<lparr>di_admission = adm, di_decision = verdict, di_decisiveGateId = g_id gate,
      di_reasonCode = g_reasonCode gate, di_gates = gates\<rparr>"

definition routeGates :: "ingress_state \<Rightarrow> access_gate list" where
  "routeGates state =
     map (\<lambda>route. (plain_gate (rr_id route) PhRoute (rr_kind route) (rr_effect route)
             (rr_effect route \<noteq> EffBlockDispatch)
             (if rr_effect route = EffBlockDispatch then RC_route_blocked else RC_allowed))
             \<lparr>g_match := rr_match route\<rparr>)
       (st_routeFacts state)"

definition route_sender_is_empty :: "resolved_route_facts \<Rightarrow> bool" where
  "route_sender_is_empty route =
     (rr_senderPolicy route = SenderDenyWhenEmpty \<and> rr_gate route = RouteMatched \<and>
      map_option ra_hasConfiguredEntries (rr_senderAllowlist route) \<noteq> Some True)"

definition routeSenderEmptyGate :: "ingress_state \<Rightarrow> access_gate option" where
  "routeSenderEmptyGate state =
     map_option (\<lambda>route. (plain_gate (rr_id route @ '':sender'') PhRoute KRouteSender EffBlockDispatch
             False RC_route_sender_empty)
             \<lparr>g_match := rr_match route,
              g_allowlist := map_option (\<lambda>al. redactedAllowlistDiagnostics al RC_route_sender_empty)
                               (rr_senderAllowlist route)\<rparr>)
       (find route_sender_is_empty (st_routeFacts state))"

definition mergeCommandMatch :: "ingress_match \<Rightarrow> ingress_match \<Rightarrow> ingress_match" where
  "mergeCommandMatch own grp =
     (let ids = js_uniq (im_matchedEntryIds own @ im_matchedEntryIds grp)
      in \<lparr>im_matched = (im_matched own \<or> im_matched grp \<or> length ids > 0),
          im_matchedEntryIds = ids\<rparr>)"

definition commandGate :: "ingress_state \<Rightarrow> ingress_policy \<Rightarrow> access_gate" where
  "commandGate state policy =
     (case ip_command policy of
        None \<Rightarrow> plain_gate ''command'' PhCommand KCommand EffAllow True RC_command_authorized
      | Some command \<Rightarrow>
          (let useAccessGroups = nullish (cp_useAccessGroups command) True;
               own = applyMutableIdentifierPolicy (sl_commandOwner (st_allowlists state)) policy;
               grp = applyMutableIdentifierPolicy (sl_commandGroup (st_allowlists state)) policy;
               authorized = resolveCommandAuthorizedFromAuthorizers useAccessGroups
                 [\<lparr>ca_configured = ra_hasConfiguredEntries own, ca_allowed = im_matched (ra_match own)\<rparr>,
                  \<lparr>ca_configured = ra_hasConfiguredEntries grp, ca_allowed = im_matched (ra_match grp)\<rparr>]
                 (cp_modeWhenAccessGroupsOff command);
               shouldBlock = (cp_allowTextCommands command \<and> cp_hasControlCommand command \<and> \<not> authorized)
           in (plain_gate ''command'' PhCommand KCommand
                 (if shouldBlock then EffBlockCommand else EffAllow) authorized
                 (if shouldBlock then RC_control_command_unauthorized else RC_command_authorized))
                 \<lparr>g_match := Some (mergeCommandMatch (ra_match own) (ra_match grp)),
                  g_command := Some \<lparr>gc_useAccessGroups = useAccessGroups,
                    gc_allowTextCommands = cp_allowTextCommands command,
                    gc_modeWhenAccessGroupsOff = cp_modeWhenAccessGroupsOff command,
                    gc_shouldBlockControlCommand = shouldBlock\<rparr>\<rparr>))"

definition eventResult :: "ingress_state \<Rightarrow> bool \<Rightarrow> reason_code \<Rightarrow> access_gate" where
  "eventResult state ok reason =
     (plain_gate ''event'' PhEvent KEvent (if ok then EffAllow else EffBlockDispatch) ok reason)
       \<lparr>g_event := Some (st_event state)\<rparr>"

definition eventGate :: "ingress_state \<Rightarrow> access_gate \<Rightarrow> access_gate \<Rightarrow> access_gate" where
  "eventGate state sender command =
     (case re_authMode (st_event state) of
        AmNone \<Rightarrow> eventResult state True RC_event_authorized
      | AmRouteOnly \<Rightarrow> eventResult state True RC_event_authorized
      | AmCommand \<Rightarrow> eventResult state (g_allowed command)
          (if g_allowed command then RC_event_authorized else RC_event_unauthorized)
      | AmOriginSubject \<Rightarrow>
          (if \<not> re_hasOriginSubject (st_event state)
           then eventResult state False RC_origin_subject_missing
           else eventResult state (re_originSubjectMatched (st_event state))
                  (if re_originSubjectMatched (st_event state) then RC_event_authorized
                   else RC_origin_subject_not_matched))
      | AmInbound \<Rightarrow> eventResult state (g_allowed sender)
          (if g_allowed sender then RC_event_authorized else RC_event_unauthorized))"

definition activationMetadata ::
  "activation_policy option \<Rightarrow> mention_facts option \<Rightarrow> bool \<Rightarrow> bool option \<Rightarrow> bool option \<Rightarrow> gate_activation" where
  "activationMetadata activation facts shouldSkip effective bypass =
     \<lparr>ga_hasMentionFacts = (facts \<noteq> None),
      ga_requireMention = nullish (map_option ap_requireMention activation) False,
      ga_allowTextCommands = nullish (map_option ap_allowTextCommands activation) False,
      ga_allowedImplicitMentionKinds = Option.bind activation ap_allowedImplicitMentionKinds,
      ga_order = Option.bind activation ap_order,
      ga_shouldSkip = shouldSkip,
      ga_canDetectMention = map_option mf_canDetectMention facts,
      ga_wasMentioned = map_option mf_wasMentioned facts,
      ga_hasAnyMention = Option.bind facts mf_hasAnyMention,
      ga_implicitMentionKinds = Option.bind facts mf_implicitMentionKinds,
      ga_effectiveWasMentioned = effective,
      ga_shouldBypassMention = bypass\<rparr>"

definition activationResult ::
  "activation_policy option \<Rightarrow> mention_facts option \<Rightarrow> bool \<Rightarrow> bool option \<Rightarrow> bool option \<Rightarrow> access_gate" where
  "activationResult activation facts shouldSkip effective bypass =
     (plain_gate ''activation'' PhActivation KMention (if shouldSkip then EffSkip else EffAllow)
        (\<not> shouldSkip) (if shouldSkip then RC_activation_skipped else RC_activation_allowed))
        \<lparr>g_activation := Some (activationMetadata activation facts shouldSkip effective bypass)\<rparr>"

definition activationGate :: "ingress_state \<Rightarrow> ingress_policy \<Rightarrow> access_gate \<Rightarrow> access_gate" where
  "activationGate state policy command =
     (case (ip_activation policy, st_mentionFacts state) of
        (Some activation, Some facts) \<Rightarrow>
          (let result = resolveInboundMentionDecision (NestedParams facts
                 \<lparr>mp_isGroup = (st_conversationKind state \<noteq> ConvDirect),
                  mp_requireMention = ap_requireMention activation,
                  mp_allowedImplicitMentionKinds = ap_allowedImplicitMentionKinds activation,
                  mp_allowTextCommands = ap_allowTextCommands activation,
                  mp_hasControlCommand =
                    nullish (map_option cp_hasControlCommand (ip_command policy)) False,
                  mp_commandAuthorized = g_allowed command\<rparr>)
           in activationResult (Some activation) (Some facts) (md_shouldSkip result)
                (Some (md_effectiveWasMentioned result)) (Some (md_shouldBypassMention result)))
      | (activation, facts) \<Rightarrow>
          activationResult activation facts False
            (map_option (\<lambda>f. mf_wasMentioned f \<or>
               length (nullish (mf_implicitMentionKinds f) []) > 0) facts) None)"

subsection \<open>The decision\<close>

text \<open>
  The gates are appended to the graph in the code's order; each early return is a branch.
  \<open>activation_before_sender\<close> is the activation gate evaluated before the sender gate, when the
  policy asks for it.
\<close>

definition activation_before_sender :: "ingress_state \<Rightarrow> ingress_policy \<Rightarrow> access_gate option" where
  "activation_before_sender state policy =
     (case ip_activation policy of
        Some a \<Rightarrow>
          if ap_order a = Some BeforeSender \<and> \<not> ap_allowTextCommands a
          then Some (activationGate state policy (commandGate state (policy\<lparr>ip_command := None\<rparr>)))
          else None
      | None \<Rightarrow> None)"

definition sender_gate_of :: "ingress_state \<Rightarrow> ingress_policy \<Rightarrow> access_gate" where
  "sender_gate_of state policy =
     (if st_conversationKind state = ConvDirect then senderGateForDirect state policy
      else senderGateForGroup state policy)"

text \<open>The part of the decision after the route and early activation gates.\<close>

definition decide_after_routes ::
  "ingress_state \<Rightarrow> ingress_policy \<Rightarrow> access_gate option \<Rightarrow> access_gate list \<Rightarrow> ingress_decision" where
  "decide_after_routes state policy early gates =
     (let sender = applyEventAuthModeToSenderGate state (sender_gate_of state policy);
          gates1 = gates @ [sender]
      in if \<not> g_allowed sender then
           (if g_reasonCode sender = RC_dm_policy_pairing_required
            then decisiveDecision PairingRequired VPairing sender gates1
            else decisiveDecision DropEvent VBlock sender gates1)
         else
           (let command = commandGate state policy;
                gates2 = gates1 @ [command]
            in if g_effect command = EffBlockCommand
               then decisiveDecision DropEvent VBlock command gates2
               else
                 (let event = eventGate state sender command;
                      gates3 = gates2 @ [event]
                  in if \<not> g_allowed event then decisiveDecision DropEvent VBlock event gates3
                     else
                       (let activation = (case early of Some a \<Rightarrow> a
                                          | None \<Rightarrow> activationGate state policy command);
                            gates4 = (case early of Some a \<Rightarrow> gates3 | None \<Rightarrow> gates3 @ [activation])
                        in if g_effect activation = EffSkip
                           then decisiveDecision SkipEvent VAllow activation gates4
                           else if g_effect activation = EffObserve
                           then decisiveDecision Observe VAllow activation gates4
                           else decisiveDecision Dispatch VAllow activation gates4))))"

definition decideChannelIngress :: "ingress_state \<Rightarrow> ingress_policy \<Rightarrow> ingress_decision" where
  "decideChannelIngress state policy =
     (let gates = routeGates state @
            (case routeSenderEmptyGate state of None \<Rightarrow> [] | Some g \<Rightarrow> [g])
      in case find (\<lambda>g. g_effect g = EffBlockDispatch) gates of
           Some routeBlock \<Rightarrow> decisiveDecision DropEvent VBlock routeBlock gates
         | None \<Rightarrow>
             (case activation_before_sender state policy of
                None \<Rightarrow> decide_after_routes state policy None gates
              | Some early \<Rightarrow>
                  (if g_effect early = EffSkip
                   then decisiveDecision SkipEvent VAllow early (gates @ [early])
                   else decide_after_routes state policy (Some early) (gates @ [early]))))"

end
