(* ===== verification/IngressSpec.thy ===== *)
theory IngressSpec
  imports IngressDecision
begin

section \<open>What the ingress decision promises\<close>

text \<open>
  An abstract priority list of the policy questions (\<open>spec_admission\<close>), the refinement lemma
  that \<open>decideChannelIngress\<close> implements it, the structure of the access graph, and the
  safety properties of direct and group messages that follow.
\<close>

subsection \<open>Abstract specification\<close>

definition route_blocked :: "ingress_state \<Rightarrow> bool" where
  "route_blocked state =
     (list_ex (\<lambda>r. rr_effect r = EffBlockDispatch) (st_routeFacts state) \<or>
      list_ex route_sender_is_empty (st_routeFacts state))"

definition sender_admitted :: "ingress_state \<Rightarrow> ingress_policy \<Rightarrow> bool" where
  "sender_admitted state policy =
     (if st_conversationKind state = ConvDirect then dm_sender_admitted state policy
      else group_sender_admitted state policy)"

definition list_grants :: "resolved_allowlist \<Rightarrow> ingress_policy \<Rightarrow> bool" where
  "list_grants al policy =
     (ra_hasConfiguredEntries al \<and> im_matched (ra_match (applyMutableIdentifierPolicy al policy)))"

definition command_authorized :: "ingress_state \<Rightarrow> ingress_policy \<Rightarrow> bool" where
  "command_authorized state policy =
     (case ip_command policy of
        None \<Rightarrow> True
      | Some c \<Rightarrow>
          (let own = sl_commandOwner (st_allowlists state);
               grp = sl_commandGroup (st_allowlists state);
               granted = (list_grants own policy \<or> list_grants grp policy)
           in if cp_useAccessGroups c \<noteq> Some False then granted
              else case cp_modeWhenAccessGroupsOff c of
                     Some OffDeny \<Rightarrow> False
                   | Some OffConfigured \<Rightarrow>
                       (\<not> ra_hasConfiguredEntries own \<and> \<not> ra_hasConfiguredEntries grp) \<or> granted
                   | _ \<Rightarrow> True))"

definition command_blocked :: "ingress_state \<Rightarrow> ingress_policy \<Rightarrow> bool" where
  "command_blocked state policy =
     (case ip_command policy of
        None \<Rightarrow> False
      | Some c \<Rightarrow> cp_allowTextCommands c \<and> cp_hasControlCommand c \<and> \<not> command_authorized state policy)"

definition event_admitted :: "ingress_state \<Rightarrow> ingress_policy \<Rightarrow> bool" where
  "event_admitted state policy =
     (case re_authMode (st_event state) of
        AmInbound \<Rightarrow> sender_admitted state policy
      | AmCommand \<Rightarrow> command_authorized state policy
      | AmOriginSubject \<Rightarrow> re_hasOriginSubject (st_event state) \<and> re_originSubjectMatched (st_event state)
      | AmRouteOnly \<Rightarrow> True
      | AmNone \<Rightarrow> True)"

text \<open>
  Mentioned: named, or reached by an implicit mention the policy allows, or a group's
  authorized control command that mentions nobody.
\<close>

definition mention_missing :: "ingress_state \<Rightarrow> ingress_policy \<Rightarrow> bool \<Rightarrow> bool" where
  "mention_missing state policy authorized =
     (case (ip_activation policy, st_mentionFacts state) of
        (Some a, Some f) \<Rightarrow>
          ap_requireMention a \<and> mf_canDetectMention f \<and> \<not> mf_wasMentioned f \<and>
          \<not> list_ex (\<lambda>k. case ap_allowedImplicitMentionKinds a of None \<Rightarrow> True | Some A \<Rightarrow> k \<in> set A)
              (nullish (mf_implicitMentionKinds f) []) \<and>
          \<not> (st_conversationKind state \<noteq> ConvDirect \<and> mf_hasAnyMention f \<noteq> Some True \<and>
             ap_allowTextCommands a \<and> authorized \<and>
             (case ip_command policy of None \<Rightarrow> False | Some c \<Rightarrow> cp_hasControlCommand c))
      | _ \<Rightarrow> False)"

definition activation_is_early :: "ingress_policy \<Rightarrow> bool" where
  "activation_is_early policy =
     (case ip_activation policy of
        None \<Rightarrow> False
      | Some a \<Rightarrow> ap_order a = Some BeforeSender \<and> \<not> ap_allowTextCommands a)"

definition spec_admission :: "ingress_state \<Rightarrow> ingress_policy \<Rightarrow> admission" where
  "spec_admission state policy =
     (if route_blocked state then DropEvent
      else if activation_is_early policy \<and> mention_missing state policy True then SkipEvent
      else if re_authMode (st_event state) = AmInbound \<and> \<not> sender_admitted state policy then
        (if st_conversationKind state = ConvDirect \<and> dm_pairing_offered state policy
         then PairingRequired else DropEvent)
      else if command_blocked state policy \<or> \<not> event_admitted state policy then DropEvent
      else if \<not> activation_is_early policy \<and>
              mention_missing state policy (command_authorized state policy) then SkipEvent
      else Dispatch)"

subsection \<open>The gates against the specification\<close>

lemma decisiveDecision_simps [simp]:
  "di_admission (decisiveDecision a v g gs) = a"
  "di_decision (decisiveDecision a v g gs) = v"
  "di_decisiveGateId (decisiveDecision a v g gs) = g_id g"
  "di_reasonCode (decisiveDecision a v g gs) = g_reasonCode g"
  "di_gates (decisiveDecision a v g gs) = gs"
  by (simp_all add: decisiveDecision_def)

lemma commandGate_allowed: "g_allowed (commandGate state policy) = command_authorized state policy"
  by (auto simp: commandGate_def command_authorized_def list_grants_def Let_def nullish_def
      resolveCommandAuthorizedFromAuthorizers_def split: option.splits groups_off_mode.splits)

lemma command_authorized_no_command [simp]:
  "command_authorized state (policy\<lparr>ip_command := None\<rparr>)"
  by (simp add: command_authorized_def)

lemma commandGate_effect:
  "(g_effect (commandGate state policy) = EffBlockCommand) = command_blocked state policy"
proof (cases "ip_command policy")
  case None
  then show ?thesis by (simp add: commandGate_def command_blocked_def)
next
  case (Some c)
  then show ?thesis using commandGate_allowed [of state policy]
    by (simp add: commandGate_def command_blocked_def Let_def)
qed

lemma commandGate_phase [simp]:
  "g_phase (commandGate state policy) = PhCommand" "g_kind (commandGate state policy) = KCommand"
  by (simp_all add: commandGate_def Let_def split: option.splits)

lemma eventGate_shape [simp]:
  "g_phase (eventGate state s c) = PhEvent" "g_kind (eventGate state s c) = KEvent"
  "g_effect (eventGate state s c) = (if g_allowed (eventGate state s c) then EffAllow else EffBlockDispatch)"
  by (simp_all add: eventGate_def eventResult_def split: auth_mode.splits)

lemma eventGate_allowed:
  "g_allowed (eventGate state sender (commandGate state policy)) =
     (case re_authMode (st_event state) of
        AmInbound \<Rightarrow> g_allowed sender
      | _ \<Rightarrow> event_admitted state policy)"
  by (simp add: eventGate_def eventResult_def event_admitted_def commandGate_allowed
      split: auth_mode.splits)

lemma mention_decision_skip:
  "md_shouldSkip (resolveInboundMentionDecision (NestedParams f p)) =
     (mp_requireMention p \<and> mf_canDetectMention f \<and> \<not> mf_wasMentioned f \<and>
      \<not> list_ex (\<lambda>k. case mp_allowedImplicitMentionKinds p of None \<Rightarrow> True | Some A \<Rightarrow> k \<in> set A)
          (nullish (mf_implicitMentionKinds f) []) \<and>
      \<not> (mp_isGroup p \<and> mf_hasAnyMention f \<noteq> Some True \<and> mp_allowTextCommands p \<and>
         mp_commandAuthorized p \<and> mp_hasControlCommand p))"
  by (cases "mf_hasAnyMention f"; cases "mp_allowedImplicitMentionKinds p")
    (auto simp: resolveInboundMentionDecision_def Let_def resolveMatchedImplicitMentionKinds_Nil
      list_ex_iff)

lemma activationResult_simps [simp]:
  "g_phase (activationResult a f s e b) = PhActivation"
  "g_kind (activationResult a f s e b) = KMention"
  "g_id (activationResult a f s e b) = ''activation''"
  "g_effect (activationResult a f s e b) = (if s then EffSkip else EffAllow)"
  "g_allowed (activationResult a f s e b) = (\<not> s)"
  "g_reasonCode (activationResult a f s e b) =
     (if s then RC_activation_skipped else RC_activation_allowed)"
  by (simp_all add: activationResult_def)

lemma activationGate_shape [simp]:
  "g_phase (activationGate state policy c) = PhActivation"
  "g_kind (activationGate state policy c) = KMention"
  "(g_effect (activationGate state policy c) = EffObserve) = False"
  by (simp_all add: activationGate_def Let_def split: option.splits)

lemma activationGate_skip:
  "(g_effect (activationGate state policy c) = EffSkip) =
     mention_missing state policy (g_allowed c)"
  by (auto simp: activationGate_def mention_missing_def mention_decision_skip Let_def
      split: option.splits)

lemma activation_before_sender_eq:
  "activation_before_sender state policy =
     (if activation_is_early policy
      then Some (activationGate state policy (commandGate state (policy\<lparr>ip_command := None\<rparr>)))
      else None)"
  by (simp add: activation_before_sender_def activation_is_early_def split: option.splits)

lemma early_gate_skip:
  "(g_effect (activationGate state policy (commandGate state (policy\<lparr>ip_command := None\<rparr>))) = EffSkip) =
     mention_missing state policy True"
  by (simp add: activationGate_skip commandGate_def)

lemma routeSenderEmptyGate_None:
  "(routeSenderEmptyGate state = None) = (\<not> list_ex route_sender_is_empty (st_routeFacts state))"
  by (auto simp: routeSenderEmptyGate_def find_None_iff list_ex_iff)

lemma routeSenderEmptyGate_effect:
  "routeSenderEmptyGate state = Some g \<Longrightarrow> g_effect g = EffBlockDispatch \<and> g_phase g = PhRoute"
  by (auto simp: routeSenderEmptyGate_def)

lemma routeGates_effect:
  "list_ex (\<lambda>g. g_effect g = EffBlockDispatch) (routeGates state) =
   list_ex (\<lambda>r. rr_effect r = EffBlockDispatch) (st_routeFacts state)"
  by (simp add: routeGates_def list_ex_iff)

definition route_graph :: "ingress_state \<Rightarrow> access_gate list" where
  "route_graph state =
     routeGates state @ (case routeSenderEmptyGate state of None \<Rightarrow> [] | Some g \<Rightarrow> [g])"

lemma find_block_iff:
  "(find (\<lambda>g. g_effect g = EffBlockDispatch) (route_graph state) = None) = (\<not> route_blocked state)"
proof -
  have "list_ex (\<lambda>g. g_effect g = EffBlockDispatch) (route_graph state) = route_blocked state"
    using routeSenderEmptyGate_effect [of state] routeSenderEmptyGate_None [of state]
    by (auto simp: route_graph_def route_blocked_def routeGates_effect split: option.splits)
  then show ?thesis by (auto simp: find_None_iff list_ex_iff)
qed

lemma sender_gate_of_allowed: "g_allowed (sender_gate_of state policy) = sender_admitted state policy"
  by (simp add: sender_gate_of_def sender_admitted_def senderGateForDirect_allowed
      senderGateForGroup_allowed)

lemma sender_gate_of_pairing:
  "(g_reasonCode (sender_gate_of state policy) = RC_dm_policy_pairing_required) =
     (st_conversationKind state = ConvDirect \<and> dm_pairing_offered state policy)"
  by (simp add: sender_gate_of_def senderGateForDirect_pairing senderGateForGroup_no_pairing)

lemma sender_gate_of_shape [simp]:
  "g_phase (sender_gate_of state policy) = PhSender"
  by (simp add: sender_gate_of_def senderGateForDirect_shape senderGateForGroup_shape)

subsection \<open>The decision implements the specification\<close>

lemma sender_event_gate_allowed:
  assumes "re_authMode (st_event state) = AmInbound \<longrightarrow> sender_admitted state policy"
  shows "g_allowed (eventGate state (applyEventAuthModeToSenderGate state (sender_gate_of state policy))
           (commandGate state policy)) = event_admitted state policy"
  using assms
  by (auto simp: eventGate_allowed event_admitted_def sender_gate_of_allowed split: auth_mode.splits)

lemma decide_after_routes_blocked:
  assumes "re_authMode (st_event state) = AmInbound" and "\<not> sender_admitted state policy"
  shows "di_admission (decide_after_routes state policy early gates) =
    (if st_conversationKind state = ConvDirect \<and> dm_pairing_offered state policy
     then PairingRequired else DropEvent)"
  using assms
  by (simp add: decide_after_routes_def Let_def sender_gate_of_allowed sender_gate_of_pairing
      applyEventAuthModeToSenderGate_blocked)

lemma decide_after_routes_passed:
  assumes "re_authMode (st_event state) = AmInbound \<longrightarrow> sender_admitted state policy"
  shows "di_admission (decide_after_routes state policy early gates) =
    (if command_blocked state policy \<or> \<not> event_admitted state policy then DropEvent
     else let activation = (case early of Some a \<Rightarrow> a | None \<Rightarrow> activationGate state policy (commandGate state policy))
          in if g_effect activation = EffSkip then SkipEvent
             else if g_effect activation = EffObserve then Observe else Dispatch)"
proof -
  have "g_allowed (applyEventAuthModeToSenderGate state (sender_gate_of state policy))"
    using assms by (auto simp: sender_gate_of_allowed)
  then show ?thesis
    using sender_event_gate_allowed [OF assms]
    by (simp add: decide_after_routes_def Let_def commandGate_effect
        del: applyEventAuthModeToSenderGate_simps)
qed

lemma decideChannelIngress_eq:
  "decideChannelIngress state policy =
     (case find (\<lambda>g. g_effect g = EffBlockDispatch) (route_graph state) of
        Some routeBlock \<Rightarrow> decisiveDecision DropEvent VBlock routeBlock (route_graph state)
      | None \<Rightarrow>
          if activation_is_early policy
          then let early = activationGate state policy (commandGate state (policy\<lparr>ip_command := None\<rparr>))
               in if mention_missing state policy True
                  then decisiveDecision SkipEvent VAllow early (route_graph state @ [early])
                  else decide_after_routes state policy (Some early) (route_graph state @ [early])
          else decide_after_routes state policy None (route_graph state))"
  by (simp add: decideChannelIngress_def route_graph_def [symmetric] activation_before_sender_eq
      early_gate_skip Let_def split: option.split)

lemma decide_admission: "di_admission (decideChannelIngress state policy) = spec_admission state policy"
proof (cases "route_blocked state")
  case True
  then obtain g where "find (\<lambda>g. g_effect g = EffBlockDispatch) (route_graph state) = Some g"
    using find_block_iff [of state] by auto
  with True show ?thesis by (simp add: decideChannelIngress_eq spec_admission_def)
next
  case False
  then have none: "find (\<lambda>g. g_effect g = EffBlockDispatch) (route_graph state) = None"
    by (simp add: find_block_iff)
  show ?thesis
  proof (cases "re_authMode (st_event state) = AmInbound \<and> \<not> sender_admitted state policy")
    case True
    then show ?thesis using False none
      by (simp add: decideChannelIngress_eq spec_admission_def Let_def decide_after_routes_blocked)
  next
    case passed: False
    then have "re_authMode (st_event state) = AmInbound \<longrightarrow> sender_admitted state policy" by simp
    note after = decide_after_routes_passed [OF this]
    show ?thesis
    proof (cases "activation_is_early policy")
      case True
      then show ?thesis using False none passed
        by (auto simp: decideChannelIngress_eq spec_admission_def Let_def after early_gate_skip)
    next
      case False
      then show ?thesis using \<open>\<not> route_blocked state\<close> none passed
        by (auto simp: decideChannelIngress_eq spec_admission_def Let_def after activationGate_skip
            commandGate_allowed)
    qed
  qed
qed

subsection \<open>The access graph\<close>

text \<open>
  The decisive gate is in the graph and its effect agrees with the admission; a dispatched
  event has no gate that blocks or skips.
\<close>

definition gate_stops :: "access_gate \<Rightarrow> bool" where
  "gate_stops g = (g_effect g = EffBlockDispatch \<or> g_effect g = EffBlockCommand \<or> g_effect g = EffSkip)"

definition graph_agrees :: "ingress_decision \<Rightarrow> bool" where
  "graph_agrees d =
     (list_ex (\<lambda>g. g_id g = di_decisiveGateId d \<and> g_reasonCode g = di_reasonCode d \<and>
        (case di_admission d of
           Dispatch \<Rightarrow> \<not> gate_stops g
         | Observe \<Rightarrow> g_effect g = EffObserve
         | SkipEvent \<Rightarrow> g_effect g = EffSkip
         | DropEvent \<Rightarrow> g_effect g = EffBlockDispatch \<or> g_effect g = EffBlockCommand
         | PairingRequired \<Rightarrow> g_effect g = EffBlockDispatch)) (di_gates d) \<and>
      (di_admission d = Dispatch \<longrightarrow> \<not> list_ex gate_stops (di_gates d)))"

text \<open>Route facts carry the effects allow, block and ignore only.\<close>

definition wf_route_effects :: "ingress_state \<Rightarrow> bool" where
  "wf_route_effects state =
     list_all (\<lambda>r. rr_effect r \<in> {EffAllow, EffBlockDispatch, EffIgnore}) (st_routeFacts state)"

lemma route_graph_not_stops:
  assumes "find (\<lambda>g. g_effect g = EffBlockDispatch) (route_graph state) = None"
    and "wf_route_effects state"
  shows "\<not> list_ex gate_stops (route_graph state)"
proof -
  have no_block: "\<not> list_ex (\<lambda>g. g_effect g = EffBlockDispatch) (route_graph state)"
    using assms(1) by (auto simp: find_None_iff list_ex_iff)
  then have none: "routeSenderEmptyGate state = None"
    using routeSenderEmptyGate_effect [of state]
    by (auto simp: route_graph_def split: option.splits)
  show ?thesis using no_block assms(2)
    by (auto simp: route_graph_def none gate_stops_def list_ex_iff routeGates_def wf_route_effects_def
        list_all_iff)
qed

lemma sender_event_gate_effect:
  "g_effect (applyEventAuthModeToSenderGate state (sender_gate_of state policy)) =
     (if g_allowed (sender_gate_of state policy) then EffAllow
      else if re_authMode (st_event state) = AmInbound then EffBlockDispatch else EffIgnore)"
  by (auto simp: applyEventAuthModeToSenderGate_def sender_gate_of_def senderGateForDirect_shape
      senderGateForGroup_shape)

lemma commandGate_effect_cases:
  "g_effect (commandGate state policy) = (if command_blocked state policy then EffBlockCommand else EffAllow)"
proof -
  have "g_effect (commandGate state policy) \<in> {EffBlockCommand, EffAllow}"
    by (auto simp: commandGate_def Let_def split: option.splits)
  then show ?thesis using commandGate_effect [of state policy] by auto
qed

lemma activationGate_effect_cases:
  "g_effect (activationGate state policy c) =
     (if mention_missing state policy (g_allowed c) then EffSkip else EffAllow)"
proof -
  have "g_effect (activationGate state policy c) \<in> {EffSkip, EffAllow}"
    by (auto simp: activationGate_def Let_def split: option.splits)
  then show ?thesis using activationGate_skip [of state policy c] by auto
qed

lemma decide_after_routes_agrees:
  assumes "\<not> list_ex gate_stops gates"
    and "\<And>a. early = Some a \<Longrightarrow> a \<in> set gates"
  shows "graph_agrees (decide_after_routes state policy early gates)"
proof (cases "re_authMode (st_event state) = AmInbound \<and> \<not> sender_admitted state policy")
  case True
  then show ?thesis
    by (simp add: decide_after_routes_def graph_agrees_def Let_def sender_gate_of_allowed
        sender_event_gate_effect)
next
  case False
  let ?act = "case early of Some a \<Rightarrow> a | None \<Rightarrow> activationGate state policy (commandGate state policy)"
  have ok: "g_allowed (applyEventAuthModeToSenderGate state (sender_gate_of state policy))"
    using False by (auto simp: sender_gate_of_allowed)
  then have s_eff: "\<not> gate_stops (applyEventAuthModeToSenderGate state (sender_gate_of state policy))"
    using False by (auto simp: gate_stops_def sender_event_gate_effect sender_gate_of_allowed)
  have in_gates: "early = Some a \<Longrightarrow> a \<in> set gates" for a using assms(2) .
  have no_stop: "g \<in> set gates \<Longrightarrow> \<not> gate_stops g" for g using assms(1) by (auto simp: list_ex_iff)
  have act_none: "early = None \<Longrightarrow> g_effect ?act \<noteq> EffSkip \<Longrightarrow> \<not> gate_stops ?act"
    by (auto simp: gate_stops_def activationGate_effect_cases)
  have act_some: "early = Some a \<Longrightarrow> \<not> gate_stops a" for a
    using in_gates no_stop by blast
  show ?thesis
    using ok s_eff assms(1) in_gates act_none act_some
    by (cases early)
      (auto simp: decide_after_routes_def graph_agrees_def Let_def list_ex_iff gate_stops_def
        commandGate_effect_cases activationGate_effect_cases
        simp del: applyEventAuthModeToSenderGate_simps split: if_splits)
qed

lemma decide_graph_agrees:
  assumes "wf_route_effects state"
  shows "graph_agrees (decideChannelIngress state policy)"
proof (cases "find (\<lambda>g. g_effect g = EffBlockDispatch) (route_graph state)")
  case (Some g)
  then have "g \<in> set (route_graph state) \<and> g_effect g = EffBlockDispatch"
    by (auto simp: find_Some_iff)
  with Some show ?thesis
    by (auto simp: decideChannelIngress_eq graph_agrees_def list_ex_iff)
next
  case None
  note no_stop = route_graph_not_stops [OF None assms]
  let ?early = "activationGate state policy (commandGate state (policy\<lparr>ip_command := None\<rparr>))"
  have early: "\<not> mention_missing state policy True \<Longrightarrow> \<not> list_ex gate_stops (route_graph state @ [?early])"
    using no_stop by (simp add: gate_stops_def activationGate_effect_cases commandGate_allowed)
  show ?thesis
  proof (cases "activation_is_early policy")
    case True
    show ?thesis
    proof (cases "mention_missing state policy True")
      case skip: True
      then show ?thesis using None \<open>activation_is_early policy\<close>
        by (simp add: decideChannelIngress_eq graph_agrees_def Let_def activationGate_effect_cases
            commandGate_allowed)
    next
      case False
      have "graph_agrees (decide_after_routes state policy (Some ?early) (route_graph state @ [?early]))"
        by (rule decide_after_routes_agrees [OF early [OF False]]) simp
      then show ?thesis using None True False by (simp add: decideChannelIngress_eq Let_def)
    qed
  next
    case False
    have "graph_agrees (decide_after_routes state policy None (route_graph state))"
      by (rule decide_after_routes_agrees [OF no_stop]) simp
    then show ?thesis using None False by (simp add: decideChannelIngress_eq)
  qed
qed

end
