(* ===== verification/IngressRuntime.thy ===== *)
theory IngressRuntime
  imports IngressRuntimeTypes IngressSpec
begin

section \<open>The ingress runtime\<close>

text \<open>
  Models \<^verbatim>\<open>src/channels/message-access/runtime.ts\<close>, \<^verbatim>\<open>runtime-access-groups.ts\<close> and
  \<^verbatim>\<open>dm-allow-state.ts\<close>: one inbound event is resolved from the channel's raw allowlists, the
  pairing store, route descriptors and membership resolvers into the state, the decision and
  its projections. The default pairing store, a file, is the parameter \<open>store\<close>; the locale
  comparison of route ids is \<open>lc\<close>.
\<close>

subsection \<open>Access groups and effective entries (runtime-access-groups.ts)\<close>

definition uniqueValues :: "'a list \<Rightarrow> 'a list" where
  "uniqueValues values = js_uniq values"

definition accessGroupNames :: "allow_entry list \<Rightarrow> string list" where
  "accessGroupNames entries =
     js_uniq (List.map_filter (\<lambda>entry. parseAccessGroupAllowFromEntry (entry_string entry)) entries)"

definition allReferencedAccessGroupNames :: "allow_entry list list \<Rightarrow> string list" where
  "allReferencedAccessGroupNames entries = js_uniq (concat (map accessGroupNames entries))"

definition normalizeEffectiveEntries ::
  "ingress_adapter \<Rightarrow> string \<Rightarrow> allow_entry list \<Rightarrow> match_context \<Rightarrow> string list" where
  "normalizeEffectiveEntries adapter accountId entries ctx =
     (let rawEntries = normalizeStringEntries entries;
          accessGroupEntries = filter (\<lambda>e. parseAccessGroupAllowFromEntry e \<noteq> None) rawEntries;
          directEntries = filter (\<lambda>e. parseAccessGroupAllowFromEntry e = None) rawEntries
      in if length directEntries = 0 then accessGroupEntries
         else uniqueValues (accessGroupEntries @
                map ie_value (nr_matchable (ad_normalizeEntries adapter directEntries ctx accountId))))"

fun membership_facts_loop ::
  "ingress_params \<Rightarrow> string \<Rightarrow> membership_resolver \<Rightarrow> string list \<Rightarrow> membership_fact list" where
  "membership_facts_loop input channelId resolver [] = []"
| "membership_facts_loop input channelId resolver (name # names) =
     (case Option.bind (rp_accessGroups input) (\<lambda>m. m name) of
        None \<Rightarrow> membership_facts_loop input channelId resolver names
      | Some (MessageSenders _) \<Rightarrow> membership_facts_loop input channelId resolver names
      | Some config \<Rightarrow>
          (case resolver name config channelId (rp_accountId input) (rp_subject input) of
             Some True \<Rightarrow> FactMatched name DynamicSource [''access-group:'' @ name]
           | Some False \<Rightarrow> FactNotMatched name DynamicSource
           | None \<Rightarrow> FactFailed name DynamicSource RC_access_group_failed (Some (''access-group:'' @ name)))
          # membership_facts_loop input channelId resolver names)"

definition resolveRuntimeAccessGroupMembershipFacts ::
  "ingress_params \<Rightarrow> string \<Rightarrow> string list \<Rightarrow> membership_fact list" where
  "resolveRuntimeAccessGroupMembershipFacts input channelId names =
     (case rp_resolveAccessGroupMembership input of
        None \<Rightarrow> []
      | Some resolver \<Rightarrow> if length names = 0 then []
          else membership_facts_loop input channelId resolver names)"

subsection \<open>Allowlist sources and the pairing store\<close>

fun dm_policy_string :: "dm_policy \<Rightarrow> string" where
  "dm_policy_string DmPairing = ''pairing''"
| "dm_policy_string DmAllowlist = ''allowlist''"
| "dm_policy_string DmOpen = ''open''"
| "dm_policy_string DmDisabled = ''disabled''"

definition shouldReadStore :: "conversation_kind \<Rightarrow> dm_policy \<Rightarrow> bool" where
  "shouldReadStore kind policy = (kind = ConvDirect \<and> policy \<noteq> DmAllowlist \<and> policy \<noteq> DmOpen)"

text \<open>The pair of the effective direct and group lists.\<close>

definition resolveChannelIngressEffectiveAllowFromLists ::
  "allow_entry list option \<Rightarrow> allow_entry list option \<Rightarrow> allow_entry list option \<Rightarrow> string option \<Rightarrow>
   bool option \<Rightarrow> string list \<times> string list" where
  "resolveChannelIngressEffectiveAllowFromLists allowFrom groupAllowFrom storeAllowFrom dmPolicy fallback =
     (normalizeStringEntries (map EStr (mergeDmAllowFromSources allowFrom storeAllowFrom dmPolicy)),
      normalizeStringEntries (map EStr (resolveGroupAllowFromSources allowFrom groupAllowFrom fallback)))"

definition readChannelIngressStoreAllowFromForDmPolicy ::
  "pairing_store_reader \<Rightarrow> string \<Rightarrow> string \<Rightarrow> string option \<Rightarrow> bool option \<Rightarrow>
   pairing_store_reader option \<Rightarrow> string list" where
  "readChannelIngressStoreAllowFromForDmPolicy store provider accountId dmPolicy shouldRead readStore =
     (if shouldRead = Some False \<or> dmPolicy = Some ''allowlist'' \<or> dmPolicy = Some ''open'' then []
      else nullish (nullish readStore store provider accountId) [])"

definition readStoreAllowFrom ::
  "pairing_store_reader \<Rightarrow> ingress_params \<Rightarrow> string \<Rightarrow> allow_entry list" where
  "readStoreAllowFrom store params channelId =
     (if \<not> shouldReadStore (cv_kind (rp_conversation params)) (ip_dmPolicy (rp_policy params)) then []
      else case rp_readStoreAllowFrom params of
             Some reader \<Rightarrow>
               nullish (Option.bind (reader channelId (rp_accountId params) (ip_dmPolicy (rp_policy params)))
                 (\<lambda>entries. entries)) []
           | None \<Rightarrow>
               if rp_useDefaultPairingStore params = Some True then
                 map EStr (readChannelIngressStoreAllowFromForDmPolicy store channelId
                   (rp_accountId params) (Some (dm_policy_string (ip_dmPolicy (rp_policy params)))) None None)
               else [])"

definition commandRequested :: "ingress_policy \<Rightarrow> bool" where
  "commandRequested policy = (ip_command policy \<noteq> None)"

definition normalizeChannelId :: "string \<Rightarrow> string + string" where
  "normalizeChannelId i =
     (let trimmed = js_trim i
      in if trimmed = [] then Inl ''Channel ingress channel id must be non-empty.'' else Inr trimmed)"

subsection \<open>Finding gates\<close>

definition findIngressGate ::
  "ingress_decision \<Rightarrow> gate_phase \<Rightarrow> gate_kind \<Rightarrow> access_gate option" where
  "findIngressGate ingress phase kind =
     find (\<lambda>gate. g_phase gate = phase \<and> g_kind gate = kind) (di_gates ingress)"

definition findSenderGate :: "ingress_decision \<Rightarrow> bool \<Rightarrow> access_gate option" where
  "findSenderGate ingress isGroup =
     findIngressGate ingress PhSender (if isGroup then KGroupSender else KDmSender)"

subsection \<open>Command and event presets\<close>

definition useAccessGroupsFromConfig :: "bool option \<Rightarrow> ingress_config option \<Rightarrow> bool" where
  "useAccessGroupsFromConfig useAccessGroups cfg =
     nullish useAccessGroups (Option.bind (Option.bind cfg cfg_commands) (\<lambda>u. u) \<noteq> Some False)"

definition channelIngressCommand :: "command_preset \<Rightarrow> command_input option" where
  "channelIngressCommand params =
     (if cpr_requested params = Some False then None
      else Some
        \<lparr>cp_useAccessGroups = Some (useAccessGroupsFromConfig (cpr_useAccessGroups params) (cpr_cfg params)),
         cp_allowTextCommands = nullish (cpr_allowTextCommands params) False,
         cp_hasControlCommand = nullish (cpr_hasControlCommand params) True,
         cp_modeWhenAccessGroupsOff = cpr_modeWhenAccessGroupsOff params,
         ci_commandOwnerAllowFrom = cpr_commandOwnerAllowFrom params,
         ci_groupOwnerAllowFrom = cpr_groupOwnerAllowFrom params,
         ci_directGroupAllowFrom = cpr_directGroupAllowFrom params,
         ci_commandGroupFallback = cpr_commandGroupFallback params\<rparr>)"

definition channelIngressEvent :: "event_preset \<Rightarrow> event_input" where
  "channelIngressEvent params =
     (let isGroup = nullish (ep_isGroup params) False
      in \<lparr>ei_kind = nullish (ep_kind params) EvMessage,
          ei_authMode = nullish (ep_authMode params) AmInbound,
          ei_mayPair = nullish (ep_mayPair params) (\<not> isGroup),
          ei_originSubject = ep_originSubject params\<rparr>)"

definition resolveCommandInput :: "command_preset option \<Rightarrow> bool option \<Rightarrow> command_input option" where
  "resolveCommandInput command useAccessGroups =
     (case command of
        None \<Rightarrow> None
      | Some c \<Rightarrow> channelIngressCommand
          (c\<lparr>cpr_useAccessGroups := nullish_opt (cpr_useAccessGroups c) useAccessGroups\<rparr>))"

definition resolveResolverPolicy :: "resolver_base \<Rightarrow> resolver_message \<Rightarrow> ingress_policy" where
  "resolveResolverPolicy base input =
     \<lparr>ip_dmPolicy = nullish (nullish_opt (rm_dmPolicy input) (rb_defaultDmPolicy base)) DmPairing,
      ip_groupPolicy = nullish (nullish_opt (rm_groupPolicy input) (rb_defaultGroupPolicy base)) GpDisabled,
      ip_groupAllowFromFallbackToAllowFrom =
        nullish_opt (Option.bind (rm_policy input) po_groupAllowFromFallback) (rb_groupAllowFromFallback base),
      ip_mutableIdentifierMatching =
        nullish_opt (Option.bind (rm_policy input) po_mutableIdentifierMatching)
          (rb_mutableIdentifierMatching base),
      ip_activation = Option.bind (rm_policy input) po_activation,
      ip_command = None\<rparr>"

subsection \<open>Route descriptors\<close>

fun routeDescriptors :: "route_input \<Rightarrow> route_descriptor list" where
  "routeDescriptors NoRoute = []"
| "routeDescriptors (RouteList ds) = ds"
| "routeDescriptors (OneRoute d) = [d]"

definition channelIngressRoutes :: "route_descriptor option list \<Rightarrow> route_descriptor list" where
  "channelIngressRoutes routes = List.map_filter (\<lambda>r. r) routes"

definition routeDescriptorMatch :: "route_descriptor \<Rightarrow> ingress_match" where
  "routeDescriptorMatch d =
     (let matched = nullish (nullish_opt (rd_matched d) (rd_allowed d)) (rd_enabled d \<noteq> Some False)
      in \<lparr>im_matched = matched,
          im_matchedEntryIds =
            (case rd_matchId d of
               Some i \<Rightarrow> if matched \<and> i \<noteq> [] then [i] else []
             | None \<Rightarrow> [])\<rparr>)"

record route_fact_defaults =
  rfd_id :: string
  rfd_kind :: "gate_kind option"
  rfd_precedence :: "int option"
  rfd_senderPolicy :: "route_sender_policy option"
  rfd_senderAllowFrom :: "allow_entry list option"
  rfd_senderAllowFromSource :: "sender_allowlist_source option"
  rfd_match :: "ingress_match option"

definition routeFact :: "route_fact_defaults \<Rightarrow> route_gate_state \<Rightarrow> gate_effect \<Rightarrow> route_facts" where
  "routeFact params gate eff =
     \<lparr>rf_id = rfd_id params, rf_kind = nullish (rfd_kind params) KRoute, rf_gate = gate,
      rf_effect = eff, rf_precedence = nullish (rfd_precedence params) 0,
      rf_senderPolicy = nullish (rfd_senderPolicy params) SenderInherit,
      rf_senderAllowFrom = rfd_senderAllowFrom params,
      rf_senderAllowFromSource = rfd_senderAllowFromSource params,
      rf_match = rfd_match params\<rparr>"

definition routeFactDefaults :: "route_descriptor \<Rightarrow> route_fact_defaults" where
  "routeFactDefaults d =
     \<lparr>rfd_id = rd_id d, rfd_kind = rd_kind d, rfd_precedence = rd_precedence d,
      rfd_senderPolicy = rd_senderPolicy d, rfd_senderAllowFrom = rd_senderAllowFrom d,
      rfd_senderAllowFromSource = rd_senderAllowFromSource d,
      rfd_match = Some (routeDescriptorMatch d)\<rparr>"

definition route_facts_of :: "route_descriptor \<Rightarrow> route_facts list" where
  "route_facts_of d =
     (if rd_configured d = Some False then []
      else if rd_enabled d = Some False then
        [routeFact (routeFactDefaults d) RouteDisabled EffBlockDispatch]
      else case rd_allowed d of
             Some ok \<Rightarrow>
               [routeFact (routeFactDefaults d) (if ok then RouteMatched else RouteNotMatched)
                  (if ok then EffAllow else EffBlockDispatch)]
           | None \<Rightarrow>
               if rd_senderPolicy d \<noteq> Some SenderDenyWhenEmpty \<and> rd_senderAllowFrom d = None \<and>
                  rd_senderAllowFromSource d = None then []
               else
                 [routeFact ((routeFactDefaults d)
                    \<lparr>rfd_kind := (if rd_senderPolicy d = Some SenderDenyWhenEmpty
                                   then rfd_kind (routeFactDefaults d) else Some KRouteSender),
                     rfd_senderPolicy := (if rd_senderPolicy d = Some SenderDenyWhenEmpty
                                   then Some SenderDenyWhenEmpty
                                   else rfd_senderPolicy (routeFactDefaults d))\<rparr>)
                    RouteMatched EffAllow])"

definition routeFactsFromDescriptors :: "route_input \<Rightarrow> route_facts list" where
  "routeFactsFromDescriptors route = concat (map route_facts_of (routeDescriptors route))"

definition routeDescriptorForGate ::
  "route_descriptor list \<Rightarrow> access_gate \<Rightarrow> route_descriptor option" where
  "routeDescriptorForGate descriptors gate =
     (let senderSuffix = '':sender'';
          baseGateId = (if ends_with (g_id gate) senderSuffix
                        then take (length (g_id gate) - length senderSuffix) (g_id gate)
                        else g_id gate)
      in find (\<lambda>d. rd_id d = g_id gate \<or> rd_id d = baseGateId) descriptors)"

subsection \<open>Projections\<close>

text \<open>A block reason that is the empty string counts as none.\<close>

definition truthy_reason :: "string option \<Rightarrow> string option" where
  "truthy_reason r = (case r of None \<Rightarrow> None | Some s \<Rightarrow> if s = [] then None else Some s)"

definition projectRouteAccess :: "ingress_decision \<Rightarrow> route_input \<Rightarrow> route_access" where
  "projectRouteAccess ingress route =
     (let descriptors = routeDescriptors route in
      case find (\<lambda>g. g_phase g = PhRoute \<and> g_effect g = EffBlockDispatch) (di_gates ingress) of
        Some routeBlock \<Rightarrow>
          \<lparr>roa_allowed = g_allowed routeBlock, roa_reasonCode = Some (g_reasonCode routeBlock),
           roa_reason = Option.bind (routeDescriptorForGate descriptors routeBlock)
             (\<lambda>d. truthy_reason (rd_blockReason d)),
           roa_gate = Some routeBlock\<rparr>
      | None \<Rightarrow>
          (case (find (\<lambda>d. rd_senderPolicy d = Some SenderReplace \<and>
                           truthy_reason (rd_blockReason d) \<noteq> None) descriptors,
                 find (\<lambda>g. g_phase g = PhSender \<and> g_effect g = EffBlockDispatch) (di_gates ingress)) of
             (Some replacement, Some senderBlock) \<Rightarrow>
               \<lparr>roa_allowed = False, roa_reasonCode = Some (g_reasonCode senderBlock),
                roa_reason = rd_blockReason replacement, roa_gate = Some senderBlock\<rparr>
           | _ \<Rightarrow>
               (case find (\<lambda>g. g_phase g = PhRoute) (di_gates ingress) of
                  Some gate \<Rightarrow>
                    \<lparr>roa_allowed = g_allowed gate, roa_reasonCode = Some (g_reasonCode gate),
                     roa_reason = None, roa_gate = Some gate\<rparr>
                | None \<Rightarrow>
                    \<lparr>roa_allowed = True, roa_reasonCode = None, roa_reason = None, roa_gate = None\<rparr>)))"

definition projectSenderAccess ::
  "ingress_decision \<Rightarrow> bool \<Rightarrow> string list \<Rightarrow> string list \<Rightarrow> bool option \<Rightarrow> sender_access" where
  "projectSenderAccess ingress isGroup effectiveAllowFrom effectiveGroupAllowFrom fallbackApplied =
     (let gate = findSenderGate ingress isGroup;
          reasonCode =
            (if gate = None \<and> isGroup \<and> di_reasonCode ingress = RC_route_sender_empty \<and>
                length effectiveGroupAllowFrom = 0
             then RC_group_policy_empty_allowlist
             else nullish (map_option g_reasonCode gate) (di_reasonCode ingress));
          decision =
            (if reasonCode = RC_dm_policy_pairing_required then VPairing
             else if map_option g_allowed gate = Some True then VAllow
             else VBlock)
      in \<lparr>sea_allowed = (decision = VAllow), sea_decision = decision, sea_reasonCode = reasonCode,
          sea_gate = gate, sea_effectiveAllowFrom = effectiveAllowFrom,
          sea_effectiveGroupAllowFrom = effectiveGroupAllowFrom,
          sea_providerMissingFallbackApplied = nullish fallbackApplied False\<rparr>)"

definition projectCommandAccess :: "ingress_decision \<Rightarrow> ingress_policy \<Rightarrow> command_access" where
  "projectCommandAccess ingress policy =
     (let gate = findIngressGate ingress PhCommand KCommand
      in \<lparr>coa_requested = commandRequested policy,
          coa_authorized = (if commandRequested policy then map_option g_allowed gate = Some True else False),
          coa_shouldBlockControlCommand =
            (map_option gc_shouldBlockControlCommand (Option.bind gate g_command) = Some True),
          coa_reasonCode = nullish (map_option g_reasonCode gate) (di_reasonCode ingress),
          coa_gate = gate\<rparr>)"

definition projectActivationAccess :: "ingress_decision \<Rightarrow> activation_access" where
  "projectActivationAccess ingress =
     (let gate = findIngressGate ingress PhActivation KMention
      in \<lparr>aca_ran = (gate \<noteq> None),
          aca_allowed = (map_option g_allowed gate = Some True),
          aca_shouldSkip = (map_option ga_shouldSkip (Option.bind gate g_activation) = Some True),
          aca_reasonCode = nullish (map_option g_reasonCode gate) (di_reasonCode ingress),
          aca_effectiveWasMentioned =
            Option.bind (Option.bind gate g_activation) ga_effectiveWasMentioned,
          aca_shouldBypassMention =
            Option.bind (Option.bind gate g_activation) ga_shouldBypassMention,
          aca_gate = gate\<rparr>)"

subsection \<open>Command allowlists and the matched entry\<close>

definition commandOwnerAllowFrom ::
  "command_input option \<Rightarrow> bool \<Rightarrow> allow_entry list \<Rightarrow> string list \<Rightarrow> allow_entry list" where
  "commandOwnerAllowFrom command isGroup configuredAllowFrom effectiveAllowFrom =
     (case Option.bind command ci_commandOwnerAllowFrom of
        Some entries \<Rightarrow> entries
      | None \<Rightarrow>
          if \<not> isGroup then map EStr effectiveAllowFrom
          else if Option.bind command ci_groupOwnerAllowFrom = Some OwnerNone then []
          else configuredAllowFrom)"

definition commandGroupAllowFrom ::
  "command_input option \<Rightarrow> bool \<Rightarrow> string list \<Rightarrow> allow_entry list" where
  "commandGroupAllowFrom command isGroup effectiveCommandGroupAllowFrom =
     (if isGroup then map EStr effectiveCommandGroupAllowFrom
      else if Option.bind command ci_directGroupAllowFrom = Some DirectEffective
           then map EStr effectiveCommandGroupAllowFrom
      else [])"

definition accessGroupMatchedEntry :: "ingress_params \<Rightarrow> string option" where
  "accessGroupMatchedEntry params =
     map_option entry_string
       (nullish_opt (rp_accessGroupMatchedAllowFromEntry params) (sj_stableId (rp_subject params)))"

definition appendAccessGroupMatchedEntry ::
  "string list \<Rightarrow> resolved_allowlist \<Rightarrow> string option \<Rightarrow> string list" where
  "appendAccessGroupMatchedEntry entries allowlist matchedEntry =
     (case truthy_reason matchedEntry of
        Some m \<Rightarrow> if length (ag_matched (ra_accessGroups allowlist)) > 0
                  then js_uniq (entries @ [m]) else entries
      | None \<Rightarrow> entries)"

subsection \<open>Resolving one event\<close>

text \<open>
  The state input that \<open>resolveChannelMessageIngress\<close> builds; the policy with the command of
  the call; and the effective lists it reports.
\<close>

definition runtime_route_facts :: "ingress_params \<Rightarrow> route_facts list" where
  "runtime_route_facts params =
     routeFactsFromDescriptors (rp_route params) @ nullish (rp_routeFacts params) []"

definition runtime_policy :: "ingress_params \<Rightarrow> ingress_policy" where
  "runtime_policy params =
     (case rp_command params of
        None \<Rightarrow> rp_policy params
      | Some c \<Rightarrow> (rp_policy params)\<lparr>ip_command := Some (command_policy.truncate c)\<rparr>)"

definition runtime_state_input ::
  "pairing_store_reader \<Rightarrow> ingress_params \<Rightarrow> string \<Rightarrow> state_input" where
  "runtime_state_input store params channelId =
     (let routeFacts = runtime_route_facts params;
          rawAllowFrom = normalizeStringEntries (nullish (rp_allowFrom params) []);
          rawStoreAllowFrom = normalizeStringEntries (readStoreAllowFrom store params channelId);
          rawGroupAllowFrom = normalizeStringEntries (nullish (rp_groupAllowFrom params) []);
          referenced = allReferencedAccessGroupNames
            ([map EStr rawAllowFrom, map EStr rawGroupAllowFrom, map EStr rawStoreAllowFrom,
              nullish (Option.bind (rp_command params) ci_commandOwnerAllowFrom) []] @
             map (\<lambda>route. nullish (rf_senderAllowFrom route) []) routeFacts);
          accessGroupMembership =
            resolveRuntimeAccessGroupMembershipFacts params channelId referenced @
            nullish (rp_accessGroupMembership params) [];
          dmPolicy = Some (dm_policy_string (ip_dmPolicy (rp_policy params)));
          fallback = ip_groupAllowFromFallbackToAllowFrom (rp_policy params);
          rawEffective = resolveChannelIngressEffectiveAllowFromLists (Some (map EStr rawAllowFrom))
            (Some (map EStr rawGroupAllowFrom)) (Some (map EStr rawStoreAllowFrom)) dmPolicy fallback;
          rawCommandGroup = resolveChannelIngressEffectiveAllowFromLists (Some (map EStr rawAllowFrom))
            (Some (map EStr rawGroupAllowFrom)) None dmPolicy
            (nullish_opt (Option.bind (rp_command params) ci_commandGroupFallback) fallback);
          isGroup = (cv_kind (rp_conversation params) \<noteq> ConvDirect)
      in \<lparr>si_channelId = channelId, si_accountId = rp_accountId params,
          si_subject = createIdentitySubject (rp_identity params) (rp_subject params),
          si_conversation = rp_conversation params,
          si_adapter = createIdentityAdapter (rp_identity params),
          si_accessGroups = rp_accessGroups params,
          si_accessGroupMembership = Some accessGroupMembership,
          si_routeFacts = Some routeFacts,
          si_mentionFacts = rp_mentionFacts params,
          si_event = rp_event params,
          si_allowlists =
            \<lparr>sa_dm = Some (map EStr rawAllowFrom),
             sa_group = Some (map EStr (snd rawEffective)),
             sa_commandOwner = Some (commandOwnerAllowFrom (rp_command params) isGroup
               (map EStr rawAllowFrom) (fst rawEffective)),
             sa_commandGroup = Some (commandGroupAllowFrom (rp_command params) isGroup
               (snd rawCommandGroup)),
             sa_pairingStore = Some (map EStr rawStoreAllowFrom)\<rparr>\<rparr>)"

definition runtime_effective_lists ::
  "pairing_store_reader \<Rightarrow> ingress_params \<Rightarrow> string \<Rightarrow> string list \<times> string list" where
  "runtime_effective_lists store params channelId =
     (let adapter = createIdentityAdapter (rp_identity params);
          rawAllowFrom = map EStr (normalizeStringEntries (nullish (rp_allowFrom params) []));
          rawStoreAllowFrom = map EStr (normalizeStringEntries (readStoreAllowFrom store params channelId));
          rawGroupAllowFrom = map EStr (normalizeStringEntries (nullish (rp_groupAllowFrom params) []));
          effective = (\<lambda>entries ctx. map EStr
            (normalizeEffectiveEntries adapter (rp_accountId params) entries ctx))
      in resolveChannelIngressEffectiveAllowFromLists
           (Some (effective rawAllowFrom CtxDm)) (Some (effective rawGroupAllowFrom CtxGroup))
           (Some (effective rawStoreAllowFrom CtxDm))
           (Some (dm_policy_string (ip_dmPolicy (rp_policy params))))
           (ip_groupAllowFromFallbackToAllowFrom (rp_policy params)))"

definition project_ingress ::
  "ingress_params \<Rightarrow> ingress_state \<Rightarrow> string list \<times> string list \<Rightarrow> resolved_ingress" where
  "project_ingress params state effective =
     (let isGroup = (cv_kind (rp_conversation params) \<noteq> ConvDirect);
          policy = runtime_policy params;
          ingress = decideChannelIngress state policy;
          matched = accessGroupMatchedEntry params;
          effectiveAllowFrom =
            appendAccessGroupMatchedEntry (fst effective) (sl_dm (st_allowlists state)) matched;
          effectiveGroupAllowFrom =
            appendAccessGroupMatchedEntry (snd effective) (sl_group (st_allowlists state)) matched
      in \<lparr>ri_state = state, ri_ingress = ingress,
          ri_senderAccess = projectSenderAccess ingress isGroup effectiveAllowFrom
            effectiveGroupAllowFrom (rp_providerMissingFallbackApplied params),
          ri_routeAccess = projectRouteAccess ingress (rp_route params),
          ri_commandAccess = projectCommandAccess ingress policy,
          ri_activationAccess = projectActivationAccess ingress\<rparr>)"

definition resolveChannelMessageIngress ::
  "pairing_store_reader \<Rightarrow> (string \<Rightarrow> string \<Rightarrow> int) \<Rightarrow> ingress_params \<Rightarrow> string + resolved_ingress" where
  "resolveChannelMessageIngress store lc params =
     (case normalizeChannelId (rp_channelId params) of
        Inl err \<Rightarrow> Inl err
      | Inr channelId \<Rightarrow>
          Inr (project_ingress params
            (resolveChannelIngressState lc (runtime_state_input store params channelId))
            (runtime_effective_lists store params channelId)))"

subsection \<open>Resolvers\<close>

text \<open>
  \<open>{isGroup, ...eventDefaults, ...input.event}\<close>: a field present in a later object wins.
\<close>

definition merge_event_presets :: "bool \<Rightarrow> event_preset option \<Rightarrow> event_preset option \<Rightarrow> event_preset" where
  "merge_event_presets isGroup defaults given =
     \<lparr>ep_isGroup = nullish_opt (nullish_opt (Option.bind given ep_isGroup)
              (Option.bind defaults ep_isGroup)) (Some isGroup),
          ep_kind = nullish_opt (Option.bind given ep_kind) (Option.bind defaults ep_kind),
          ep_authMode = nullish_opt (Option.bind given ep_authMode) (Option.bind defaults ep_authMode),
          ep_mayPair = nullish_opt (Option.bind given ep_mayPair) (Option.bind defaults ep_mayPair),
          ep_originSubject =
            nullish_opt (Option.bind given ep_originSubject) (Option.bind defaults ep_originSubject)\<rparr>"

definition resolver_params ::
  "resolver_base \<Rightarrow> resolver_message \<Rightarrow> event_preset option \<Rightarrow> ingress_params" where
  "resolver_params base input eventDefaults =
     (let isGroup = (cv_kind (rm_conversation input) \<noteq> ConvDirect);
          useAccessGroups = useAccessGroupsFromConfig (rb_useAccessGroups base) (rb_cfg base)
      in \<lparr>rp_channelId = rb_channelId base, rp_accountId = rb_accountId base,
          rp_identity = rb_identity base, rp_subject = rm_subject input,
          rp_conversation = rm_conversation input,
          rp_event = channelIngressEvent (merge_event_presets isGroup eventDefaults (rm_event input)),
          rp_policy = resolveResolverPolicy base input,
          rp_allowFrom = rm_allowFrom input, rp_groupAllowFrom = rm_groupAllowFrom input,
          rp_route = rm_route input, rp_routeFacts = rm_routeFacts input,
          rp_accessGroups = nullish_opt (rb_accessGroups base) (Option.bind (rb_cfg base) cfg_accessGroups),
          rp_accessGroupMembership = Some (nullish (rb_accessGroupMembership base) [] @
            nullish (rm_accessGroupMembership input) []),
          rp_resolveAccessGroupMembership = rb_resolveAccessGroupMembership base,
          rp_accessGroupMatchedAllowFromEntry = rb_accessGroupMatchedAllowFromEntry base,
          rp_providerMissingFallbackApplied = rm_providerMissingFallbackApplied input,
          rp_mentionFacts = rm_mentionFacts input,
          rp_readStoreAllowFrom = rb_readStoreAllowFrom base,
          rp_useDefaultPairingStore = rb_useDefaultPairingStore base,
          rp_command = resolveCommandInput (rm_command input) (Some useAccessGroups)\<rparr>)"

definition empty_preset :: event_preset where
  "empty_preset = \<lparr>ep_isGroup = None, ep_kind = None, ep_authMode = None, ep_mayPair = None,
     ep_originSubject = None\<rparr>"

definition resolver_message_surface where
  "resolver_message_surface store lc base input =
     resolveChannelMessageIngress store lc (resolver_params base input None)"

definition resolver_command_surface where
  "resolver_command_surface store lc base input =
     resolveChannelMessageIngress store lc (resolver_params base input
       (Some (empty_preset\<lparr>ep_authMode := Some AmCommand, ep_mayPair := Some False\<rparr>)))"

definition resolver_event_surface where
  "resolver_event_surface store lc base input =
     resolveChannelMessageIngress store lc (resolver_params base input
       (Some (empty_preset\<lparr>ep_mayPair := Some False\<rparr>)))"

definition resolveStableChannelMessageIngress where
  "resolveStableChannelMessageIngress store lc base identity input =
     resolver_message_surface store lc
       (base\<lparr>rb_identity := defineStableChannelIngressIdentity identity\<rparr>) input"

subsection \<open>The audit of a DM allowlist (dm-allow-state.ts)\<close>

record dm_audit =
  da_configAllowFrom :: "string list"
  da_hasWildcard :: bool
  da_allowCount :: nat
  da_isMultiUserDm :: bool

definition resolveDmAllowAuditState ::
  "pairing_store_reader \<Rightarrow> string \<Rightarrow> string \<Rightarrow> allow_entry list option \<Rightarrow> string option \<Rightarrow>
   (string \<Rightarrow> string) option \<Rightarrow> pairing_store_reader option \<Rightarrow> dm_audit" where
  "resolveDmAllowAuditState store provider accountId allowFrom dmPolicy normalizeEntry readStore =
     (let configAllowFrom = normalizeStringEntries (nullish allowFrom []);
          hasWildcard = (''*'' \<in> set configAllowFrom);
          storeAllowFrom =
            readChannelIngressStoreAllowFromForDmPolicy store provider accountId dmPolicy None readStore;
          norm = nullish normalizeEntry (\<lambda>v. v);
          normalizedCfg = filter (\<lambda>v. v \<noteq> [])
            (map js_trim (map norm (filter (\<lambda>v. v \<noteq> ''*'') configAllowFrom)));
          normalizedStore = filter (\<lambda>v. v \<noteq> []) (map js_trim (map norm storeAllowFrom));
          allowCount = card (set (normalizedCfg @ normalizedStore))
      in \<lparr>da_configAllowFrom = configAllowFrom, da_hasWildcard = hasWildcard,
          da_allowCount = allowCount,
          da_isMultiUserDm = (hasWildcard \<or> allowCount > 1)\<rparr>)"

end
