(* ===== verification/IngressTheorems.thy ===== *)
theory IngressTheorems
  imports IngressRuntime
begin

section \<open>Correctness of the message ingress, end to end\<close>

text \<open>
  What the runtime guarantees for one inbound event: who can be dispatched, when the pairing
  store counts, what routes block, what the projections say about the decision. The first
  part has the lemmas, the second the properties and their witnesses.
\<close>

subsection \<open>The runtime against the state\<close>

lemma normalizeChannelId_Inr:
  "normalizeChannelId i = Inr c \<Longrightarrow> c = js_trim i \<and> c \<noteq> []"
  by (auto simp: normalizeChannelId_def Let_def split: if_splits)

lemma resolve_Inr:
  assumes "resolveChannelMessageIngress store lc params = Inr r"
  obtains channelId where
    "channelId = js_trim (rp_channelId params)"
    "ri_state r = resolveChannelIngressState lc (runtime_state_input store params channelId)"
    "ri_ingress r = decideChannelIngress (ri_state r) (runtime_policy params)"
    "r = project_ingress params (ri_state r) (runtime_effective_lists store params channelId)"
proof -
  obtain c where "normalizeChannelId (rp_channelId params) = Inr c"
    using assms by (auto simp: resolveChannelMessageIngress_def split: sum.splits)
  with assms show thesis
    by (intro that [of c])
      (auto simp: resolveChannelMessageIngress_def project_ingress_def Let_def
        dest: normalizeChannelId_Inr)
qed

lemma runtime_policy_simps [simp]:
  "ip_dmPolicy (runtime_policy params) = ip_dmPolicy (rp_policy params)"
  "ip_groupPolicy (runtime_policy params) = ip_groupPolicy (rp_policy params)"
  "ip_mutableIdentifierMatching (runtime_policy params) = ip_mutableIdentifierMatching (rp_policy params)"
  "ip_groupAllowFromFallbackToAllowFrom (runtime_policy params) =
     ip_groupAllowFromFallbackToAllowFrom (rp_policy params)"
  "ip_activation (runtime_policy params) = ip_activation (rp_policy params)"
  by (simp_all add: runtime_policy_def split: option.splits)

lemma runtime_state_input_simps [simp]:
  "si_adapter (runtime_state_input store params c) = createIdentityAdapter (rp_identity params)"
  "si_subject (runtime_state_input store params c) =
     createIdentitySubject (rp_identity params) (rp_subject params)"
  "si_accountId (runtime_state_input store params c) = rp_accountId params"
  "si_conversation (runtime_state_input store params c) = rp_conversation params"
  "si_event (runtime_state_input store params c) = rp_event params"
  "si_routeFacts (runtime_state_input store params c) = Some (runtime_route_facts params)"
  "sa_dm (si_allowlists (runtime_state_input store params c)) =
     Some (map EStr (normalizeStringEntries (nullish (rp_allowFrom params) [])))"
  "sa_pairingStore (si_allowlists (runtime_state_input store params c)) =
     Some (map EStr (normalizeStringEntries (readStoreAllowFrom store params c)))"
  "sa_group (si_allowlists (runtime_state_input store params c)) =
     Some (map EStr (snd (resolveChannelIngressEffectiveAllowFromLists
       (Some (map EStr (normalizeStringEntries (nullish (rp_allowFrom params) []))))
       (Some (map EStr (normalizeStringEntries (nullish (rp_groupAllowFrom params) []))))
       (Some (map EStr (normalizeStringEntries (readStoreAllowFrom store params c))))
       (Some (dm_policy_string (ip_dmPolicy (rp_policy params))))
       (ip_groupAllowFromFallbackToAllowFrom (rp_policy params)))))"
  by (simp_all add: runtime_state_input_def Let_def)

lemma resolved_state_simps [simp]:
  "st_conversationKind (resolveChannelIngressState lc input) = cv_kind (si_conversation input)"
  "re_authMode (st_event (resolveChannelIngressState lc input)) = ei_authMode (si_event input)"
  "re_mayPair (st_event (resolveChannelIngressState lc input)) = ei_mayPair (si_event input)"
  "st_routeFacts (resolveChannelIngressState lc input) = resolveRouteFacts lc input"
  "sl_dm (st_allowlists (resolveChannelIngressState lc input)) =
     resolveIngressAllowlist input (sa_dm (si_allowlists input)) CtxDm"
  "sl_pairingStore (st_allowlists (resolveChannelIngressState lc input)) =
     resolveIngressAllowlist input (sa_pairingStore (si_allowlists input)) CtxDm"
  "sl_group (st_allowlists (resolveChannelIngressState lc input)) =
     resolveIngressAllowlist input (sa_group (si_allowlists input)) CtxGroup"
  by (simp_all add: resolveChannelIngressState_def)

subsection \<open>Listed senders\<close>

text \<open>
  A sender is listed when an identity entry of the list matches one of its identifiers, or
  when an access group the list refers to is matched.
\<close>

definition sender_listed :: "state_input \<Rightarrow> match_context \<Rightarrow> string list \<Rightarrow> bool" where
  "sender_listed input ctx entries =
     (im_matched (ad_matchSubject (si_adapter input) (si_subject input)
        (nr_matchable (ad_normalizeEntries (si_adapter input) (directAllowlistEntries entries) ctx
           (si_accountId input))) ctx) \<or>
      list_ex (\<lambda>n. group_status input ctx n = GsMatched) (referencedAccessGroups entries))"


context identity_matching
begin

lemma normalizeAndMatch_matched:
  "im_matched (mr_match (normalizeAndMatch ad s acct es c)) \<Longrightarrow>
   im_matched (ad_matchSubject ad s (nr_matchable (ad_normalizeEntries ad es c acct)) c)"
  by (auto simp: normalizeAndMatch_def Let_def emptyMatch_def split: if_splits)

lemma matched_sender_listed:
  assumes "si_adapter input = ad"
    and "im_matched (ra_match (resolveIngressAllowlist input raw ctx))"
  shows "sender_listed input ctx (normalizeStringEntries (nullish raw []))"
proof -
  let ?m = "normalizeAndMatch ad (si_subject input) (si_accountId input)
    (directAllowlistEntries (normalizeStringEntries (nullish raw []))) ctx"
  have "im_matched (mr_match ?m) = (im_matchedEntryIds (mr_match ?m) \<noteq> [])"
    using normalizeAndMatch_ok by (simp add: match_ok_def)
  then show ?thesis
    using resolved_match_source [OF assms(2)] normalizeAndMatch_matched
    by (auto simp: assms(1) Let_def sender_listed_def list_ex_iff)
qed

end

lemma applied_policy_matched:
  assumes "im_matched (ra_match (applyMutableIdentifierPolicy (resolveIngressAllowlist input raw ctx) policy))"
  shows "im_matched (ra_match (resolveIngressAllowlist input raw ctx))"
proof (rule ccontr)
  assume neg: "\<not> im_matched (ra_match (resolveIngressAllowlist input raw ctx))"
  then have "ra_matchedEntryIds (resolveIngressAllowlist input raw ctx) = []"
    by (auto simp: resolveIngressAllowlist_def Let_def mergeMatches_def)
  then show False
    using assms neg by (auto simp: applyMutableIdentifierPolicy_def Let_def split: if_splits)
qed

lemma applied_policy_listed:
  assumes "si_adapter input = createIdentityAdapter identity"
    and "im_matched (ra_match (applyMutableIdentifierPolicy (resolveIngressAllowlist input raw ctx) policy))"
  shows "sender_listed input ctx (normalizeStringEntries (nullish raw []))"
  using identity_adapter.matched_sender_listed [OF assms(1) applied_policy_matched [OF assms(2)]] .

lemma spec_dispatch_sender:
  assumes "spec_admission state policy = Dispatch" and "re_authMode (st_event state) = AmInbound"
  shows "sender_admitted state policy"
  using assms by (auto simp: spec_admission_def split: if_splits)

lemma spec_dispatch_not_route_blocked:
  "spec_admission state policy = Dispatch \<Longrightarrow> \<not> route_blocked state"
  by (auto simp: spec_admission_def split: if_splits)

lemma runtime_dm_dispatch:
  assumes res: "resolveChannelMessageIngress store lc params = Inr r"
    and "cv_kind (rp_conversation params) = ConvDirect"
    and "ei_authMode (rp_event params) = AmInbound"
    and "ip_dmPolicy (rp_policy params) \<noteq> DmOpen"
    and "di_admission (ri_ingress r) = Dispatch"
  shows "ip_dmPolicy (rp_policy params) \<noteq> DmDisabled \<and>
    (let input = runtime_state_input store params (js_trim (rp_channelId params)) in
     sender_listed input CtxDm (normalizeStringEntries (nullish (rp_allowFrom params) [])) \<or>
     ip_dmPolicy (rp_policy params) = DmPairing \<and>
     sender_listed input CtxDm
       (normalizeStringEntries (readStoreAllowFrom store params (js_trim (rp_channelId params)))))"
proof -
  let ?c = "js_trim (rp_channelId params)"
  let ?input = "runtime_state_input store params ?c"
  let ?state = "resolveChannelIngressState lc ?input"
  have r: "ri_ingress r = decideChannelIngress ?state (runtime_policy params)"
    using res by (rule resolve_Inr) simp
  have "spec_admission ?state (runtime_policy params) = Dispatch"
    using assms(5) by (simp add: r decide_admission)
  then have "dm_sender_admitted ?state (runtime_policy params)"
    using spec_dispatch_sender [of ?state "runtime_policy params"] assms(2,3)
    by (simp add: sender_admitted_def)
  then show ?thesis
    using assms(4) applied_policy_listed [of ?input "rp_identity params" _ CtxDm "runtime_policy params"]
    by (auto simp: dm_sender_admitted_def Let_def normalizeStringEntries_idem
        split: dm_policy.splits dest!: applied_policy_listed [of ?input "rp_identity params", rotated])
qed

subsection \<open>Group senders\<close>

text \<open>The list that decides for a group: its own, or the direct one unless fallback is off.\<close>

definition group_list :: "ingress_params \<Rightarrow> string list" where
  "group_list params =
     (let own = normalizeStringEntries (nullish (rp_groupAllowFrom params) [])
      in if own \<noteq> [] then own
         else if ip_groupAllowFromFallbackToAllowFrom (rp_policy params) = Some False then []
         else normalizeStringEntries (nullish (rp_allowFrom params) []))"

definition route_sender_entries :: "state_input \<Rightarrow> route_facts \<Rightarrow> allow_entry list option" where
  "route_sender_entries input route = nullish_opt (rf_senderAllowFrom route)
     (case rf_senderAllowFromSource route of
        Some EffectiveDm \<Rightarrow> sa_dm (si_allowlists input)
      | Some EffectiveGroup \<Rightarrow> sa_group (si_allowlists input)
      | None \<Rightarrow> None)"

lemma resolve_route_allowlist:
  "rr_senderAllowlist (resolve_route input route) =
     map_option (\<lambda>raw. resolveIngressAllowlist input (Some raw) CtxRoute) (route_sender_entries input route)"
  "rr_gate (resolve_route input route) = rf_gate route"
  "rr_effect (resolve_route input route) = rf_effect route"
  "rr_senderPolicy (resolve_route input route) = rf_senderPolicy route"
  by (simp_all add: resolve_route_def route_sender_entries_def Let_def)

lemma effective_group_loop_source:
  assumes "im_matched (ra_match (effective_group_loop al rs)) \<or>
      ra_matchedEntryIds (effective_group_loop al rs) \<noteq> []"
  shows "(im_matched (ra_match al) \<or> ra_matchedEntryIds al \<noteq> []) \<or>
    (\<exists>r\<in>set rs. rr_gate r = RouteMatched \<and>
       (\<exists>s. rr_senderAllowlist r = Some s \<and> (im_matched (ra_match s) \<or> ra_matchedEntryIds s \<noteq> [])))"
  using assms
proof (induction al rs rule: effective_group_loop.induct)
  case (2 al route rs)
  have ids: "ra_matchedEntryIds (mergeResolvedAllowlists [a, b]) \<noteq> [] \<Longrightarrow>
     ra_matchedEntryIds a \<noteq> [] \<or> ra_matchedEntryIds b \<noteq> []" for a b
    using mergeResolvedAllowlists_simps(4) [of "[a, b]"] by (auto simp flip: set_empty)
  show ?case
    using 2 by (fastforce split: option.splits if_splits dest: ids)
qed simp

lemma applied_policy_matched_ids:
  "im_matched (ra_match (applyMutableIdentifierPolicy al policy)) \<Longrightarrow>
   im_matched (ra_match al) \<or> ra_matchedEntryIds al \<noteq> []"
  by (auto simp: applyMutableIdentifierPolicy_def Let_def split: if_splits)

lemma resolved_ids_matched:
  "ra_matchedEntryIds (resolveIngressAllowlist input raw ctx) \<noteq> [] \<Longrightarrow>
   im_matched (ra_match (resolveIngressAllowlist input raw ctx))"
  by (auto simp: resolveIngressAllowlist_def Let_def mergeMatches_def)

lemma runtime_group_entries:
  "normalizeStringEntries (nullish (sa_group (si_allowlists (runtime_state_input store params c))) []) =
     group_list params"
  by (auto simp: group_list_def resolveChannelIngressEffectiveAllowFromLists_def
      resolveGroupAllowFromSources_def normalizeStringEntries_idem Let_def)

lemma runtime_dm_entries:
  "normalizeStringEntries (nullish (sa_dm (si_allowlists (runtime_state_input store params c))) []) =
     normalizeStringEntries (nullish (rp_allowFrom params) [])"
  by (simp add: normalizeStringEntries_idem)

text \<open>With the fallback on, an unconfigured group list means an unconfigured direct list.\<close>

lemma group_list_empty_fallback:
  "group_list params = [] \<Longrightarrow> ip_groupAllowFromFallbackToAllowFrom (rp_policy params) = Some True \<Longrightarrow>
   normalizeStringEntries (nullish (rp_allowFrom params) []) = []"
  by (auto simp: group_list_def Let_def split: if_splits)

lemma resolve_route_match_listed:
  assumes "si_adapter input = createIdentityAdapter identity"
    and "rr_senderAllowlist (resolve_route input route) = Some s"
    and "im_matched (ra_match s) \<or> ra_matchedEntryIds s \<noteq> []"
  shows "\<exists>raw. route_sender_entries input route = Some raw \<and>
    sender_listed input CtxRoute (normalizeStringEntries raw)"
proof -
  obtain raw where raw: "route_sender_entries input route = Some raw"
      "s = resolveIngressAllowlist input (Some raw) CtxRoute"
    using assms(2) by (auto simp: resolve_route_allowlist)
  with assms(3) have "im_matched (ra_match (resolveIngressAllowlist input (Some raw) CtxRoute))"
    using resolved_ids_matched by blast
  with raw show ?thesis
    using identity_adapter.matched_sender_listed [OF assms(1)] by fastforce
qed

lemma runtime_group_sender_listed:
  fixes store params lc
  defines "input \<equiv> runtime_state_input store params (js_trim (rp_channelId params))"
  assumes "im_matched (ra_match (effectiveGroupSenderAllowlist (resolveChannelIngressState lc input)
      (runtime_policy params)))"
  shows "sender_listed input CtxGroup (group_list params) \<or>
    (\<exists>route\<in>set (runtime_route_facts params). rf_gate route = RouteMatched \<and>
       (\<exists>raw. route_sender_entries input route = Some raw \<and>
          sender_listed input CtxRoute (normalizeStringEntries raw)))"
proof -
  let ?state = "resolveChannelIngressState lc input"
  let ?dm = "resolveIngressAllowlist input (sa_dm (si_allowlists input)) CtxDm"
  let ?grp = "resolveIngressAllowlist input (sa_group (si_allowlists input)) CtxGroup"
  let ?base = "if ip_groupAllowFromFallbackToAllowFrom (rp_policy params) = Some True \<and>
      \<not> ra_hasConfiguredEntries ?grp then ?dm else ?grp"
  have adapter: "si_adapter input = createIdentityAdapter (rp_identity params)"
    by (simp add: input_def)
  have entries: "normalizeStringEntries (nullish (sa_group (si_allowlists input)) []) = group_list params"
    unfolding input_def by (rule runtime_group_entries)
  have dm_none: "?base = ?dm \<Longrightarrow> ?dm \<noteq> ?grp \<Longrightarrow> \<not> im_matched (ra_match ?dm)"
    using group_list_empty_fallback [of params] resolveIngressAllowlist_empty(2)
      runtime_dm_entries [of store params "js_trim (rp_channelId params)"]
    by (auto simp: resolved_configured entries input_def [symmetric] split: if_splits)
  have "im_matched (ra_match (effective_group_loop ?base (resolveRouteFacts lc input))) \<or>
      ra_matchedEntryIds (effective_group_loop ?base (resolveRouteFacts lc input)) \<noteq> []"
    by (rule applied_policy_matched_ids [where policy = "runtime_policy params"])
      (use assms(2) in \<open>simp add: effectiveGroupSenderAllowlist_def cong: if_cong split del: if_split\<close>)
  from effective_group_loop_source [OF this] show ?thesis
  proof
    assume "im_matched (ra_match ?base) \<or> ra_matchedEntryIds ?base \<noteq> []"
    then have base: "im_matched (ra_match ?base)"
      using resolved_ids_matched by (auto split: if_splits)
    have "?base = ?grp \<or> ?base = ?dm" by simp
    then have "im_matched (ra_match ?grp)"
    proof
      assume "?base = ?grp"
      with base show ?thesis by (simp only:)
    next
      assume dm: "?base = ?dm"
      with base have "im_matched (ra_match ?dm)" by (simp only:)
      with dm_none [OF dm] have "?dm = ?grp" by blast
      with \<open>im_matched (ra_match ?dm)\<close> show ?thesis by (simp only:)
    qed
    from identity_adapter.matched_sender_listed [OF adapter this] show ?thesis by (simp add: entries)
  next
    assume "\<exists>r\<in>set (resolveRouteFacts lc input). rr_gate r = RouteMatched \<and>
       (\<exists>s. rr_senderAllowlist r = Some s \<and> (im_matched (ra_match s) \<or> ra_matchedEntryIds s \<noteq> []))"
    then obtain route s where "route \<in> set (runtime_route_facts params)" "rf_gate route = RouteMatched"
        "rr_senderAllowlist (resolve_route input route) = Some s"
        "im_matched (ra_match s) \<or> ra_matchedEntryIds s \<noteq> []"
      by (auto simp: resolveRouteFacts_set input_def resolve_route_allowlist(2))
    then show ?thesis using resolve_route_match_listed [OF adapter] by blast
  qed
qed

lemma runtime_group_dispatch:
  assumes res: "resolveChannelMessageIngress store lc params = Inr r"
    and "cv_kind (rp_conversation params) \<noteq> ConvDirect"
    and "ei_authMode (rp_event params) = AmInbound"
    and "ip_groupPolicy (rp_policy params) \<noteq> GpOpen"
    and "di_admission (ri_ingress r) = Dispatch"
  shows "ip_groupPolicy (rp_policy params) = GpAllowlist \<and>
    (let input = runtime_state_input store params (js_trim (rp_channelId params)) in
     sender_listed input CtxGroup (group_list params) \<or>
     (\<exists>route\<in>set (runtime_route_facts params). rf_gate route = RouteMatched \<and>
       (\<exists>raw. route_sender_entries input route = Some raw \<and>
          sender_listed input CtxRoute (normalizeStringEntries raw))))"
proof -
  let ?state = "resolveChannelIngressState lc
    (runtime_state_input store params (js_trim (rp_channelId params)))"
  have r: "ri_ingress r = decideChannelIngress ?state (runtime_policy params)"
    using res by (rule resolve_Inr) simp
  have "spec_admission ?state (runtime_policy params) = Dispatch"
    using assms(5) by (simp add: r decide_admission)
  then have "group_sender_admitted ?state (runtime_policy params)"
    using spec_dispatch_sender [of ?state "runtime_policy params"] assms(2,3)
    by (simp add: sender_admitted_def)
  then show ?thesis
    using assms(4) runtime_group_sender_listed [of lc store params]
    by (auto simp: group_sender_admitted_def Let_def split: group_policy.splits)
qed

subsection \<open>The pairing store\<close>

text \<open>The same parameters with other store readers.\<close>

definition with_store_readers ::
  "store_reader option \<Rightarrow> bool option \<Rightarrow> ingress_params \<Rightarrow> ingress_params" where
  "with_store_readers reader useDefault params =
     params\<lparr>rp_readStoreAllowFrom := reader, rp_useDefaultPairingStore := useDefault\<rparr>"

lemma membership_facts_loop_store:
  "membership_facts_loop (with_store_readers x y params) c resolver names =
   membership_facts_loop params c resolver names"
  by (induction names)
    (simp_all add: with_store_readers_def split: option.split access_group_config.split)

lemma store_readers_irrelevant:
  assumes "cv_kind (rp_conversation params) \<noteq> ConvDirect \<or>
      ip_dmPolicy (rp_policy params) \<in> {DmAllowlist, DmOpen}"
  shows "resolveChannelMessageIngress store' lc (with_store_readers reader useDefault params) =
    resolveChannelMessageIngress store lc params"
proof -
  let ?p = "with_store_readers reader useDefault params"
  have none: "readStoreAllowFrom store params c = []" "readStoreAllowFrom store' ?p c = []" for c
    using assms by (auto simp: readStoreAllowFrom_def shouldReadStore_def with_store_readers_def)
  have "resolveRuntimeAccessGroupMembershipFacts ?p c ns =
      resolveRuntimeAccessGroupMembershipFacts params c ns" for c ns
    by (simp add: resolveRuntimeAccessGroupMembershipFacts_def membership_facts_loop_store
        split: option.split) (simp add: with_store_readers_def)
  moreover have "runtime_route_facts ?p = runtime_route_facts params"
    by (simp add: runtime_route_facts_def with_store_readers_def)
  ultimately have "runtime_state_input store' ?p c = runtime_state_input store params c" for c
    unfolding runtime_state_input_def by (simp only: none Let_def) (simp add: with_store_readers_def)
  moreover have "runtime_effective_lists store' ?p c = runtime_effective_lists store params c" for c
    unfolding runtime_effective_lists_def by (simp only: none Let_def) (simp add: with_store_readers_def)
  moreover have "runtime_policy ?p = runtime_policy params"
    by (simp add: runtime_policy_def with_store_readers_def split: option.split)
  then have "project_ingress ?p st e = project_ingress params st e" for st e
    unfolding project_ingress_def
    by (simp only: Let_def) (simp add: with_store_readers_def accessGroupMatchedEntry_def)
  ultimately show ?thesis
    by (simp add: resolveChannelMessageIngress_def split: sum.split)
      (simp add: with_store_readers_def)
qed

subsection \<open>Blocking routes\<close>

definition descriptor_blocks :: "route_descriptor \<Rightarrow> bool" where
  "descriptor_blocks d =
     (rd_configured d \<noteq> Some False \<and> (rd_enabled d = Some False \<or> rd_allowed d = Some False))"

lemma descriptor_blocks_fact:
  assumes "descriptor_blocks d"
  shows "\<exists>f\<in>set (route_facts_of d). rf_effect f = EffBlockDispatch"
proof -
  have "route_facts_of d \<noteq> [] \<and> rf_effect (hd (route_facts_of d)) = EffBlockDispatch"
    using assms by (cases "rd_enabled d = Some False")
      (auto simp: descriptor_blocks_def route_facts_of_def routeFact_def)
  then show ?thesis using hd_in_set by blast
qed

lemma runtime_route_block:
  assumes res: "resolveChannelMessageIngress store lc params = Inr r"
    and d: "d \<in> set (routeDescriptors (rp_route params))" "descriptor_blocks d"
  shows "di_admission (ri_ingress r) = DropEvent"
proof -
  let ?input = "runtime_state_input store params (js_trim (rp_channelId params))"
  obtain f where f: "f \<in> set (route_facts_of d)" "rf_effect f = EffBlockDispatch"
    using descriptor_blocks_fact [OF d(2)] by blast
  then have "f \<in> set (runtime_route_facts params)"
    using d(1) by (auto simp: runtime_route_facts_def routeFactsFromDescriptors_def)
  then have "resolve_route ?input f \<in> set (resolveRouteFacts lc ?input)"
    by (simp add: resolveRouteFacts_set)
  moreover have "rr_effect (resolve_route ?input f) = EffBlockDispatch"
    by (simp add: resolve_route_allowlist(3) f(2))
  ultimately have "route_blocked (resolveChannelIngressState lc ?input)"
    unfolding route_blocked_def list_ex_iff resolved_state_simps by blast
  moreover have "ri_ingress r =
      decideChannelIngress (resolveChannelIngressState lc ?input) (runtime_policy params)"
    using res by (rule resolve_Inr) simp
  ultimately show ?thesis by (simp add: decide_admission spec_admission_def)
qed

subsection \<open>Projections\<close>

lemma find_append_None: "find P xs = None \<Longrightarrow> find P (xs @ ys) = find P ys"
  by (induction xs) (auto split: if_splits)

lemma find_append_Some: "find P xs = Some x \<Longrightarrow> find P (xs @ ys) = Some x"
  by (induction xs) (auto split: if_splits)

lemma route_graph_phase: "g \<in> set (route_graph state) \<Longrightarrow> g_phase g = PhRoute"
  using routeSenderEmptyGate_effect [of state]
  by (auto simp: route_graph_def routeGates_def split: option.splits)

lemma find_route_graph_None:
  "ph \<noteq> PhRoute \<Longrightarrow> find (\<lambda>g. g_phase g = ph \<and> g_kind g = k) (route_graph state) = None"
  using route_graph_phase [of _ state] by (auto simp: find_None_iff)

text \<open>Gates collected before the sender gate are route and activation gates.\<close>

definition before_sender :: "access_gate list \<Rightarrow> bool" where
  "before_sender gates = list_all (\<lambda>g. g_phase g \<in> {PhRoute, PhActivation}) gates"

lemma before_sender_find:
  "before_sender gates \<Longrightarrow> ph \<in> {PhSender, PhCommand} \<Longrightarrow>
   find (\<lambda>g. g_phase g = ph \<and> g_kind g = k) gates = None"
  by (auto simp: before_sender_def list_all_iff find_None_iff)

lemma before_sender_route_graph: "before_sender (route_graph state)"
  using route_graph_phase by (auto simp: before_sender_def list_all_iff)

lemma sender_gate_of_kind:
  "g_kind (sender_gate_of state policy) =
     (if st_conversationKind state = ConvDirect then KDmSender else KGroupSender)"
  by (simp add: sender_gate_of_def senderGateForDirect_shape senderGateForGroup_shape)

lemma decide_after_routes_sender:
  assumes "before_sender gates"
  shows "findSenderGate (decide_after_routes state policy early gates)
      (st_conversationKind state \<noteq> ConvDirect) =
    Some (applyEventAuthModeToSenderGate state (sender_gate_of state policy))"
  by (auto simp: decide_after_routes_def Let_def findSenderGate_def findIngressGate_def
      find_append_None [OF before_sender_find [OF assms]] sender_gate_of_kind
      simp del: applyEventAuthModeToSenderGate_simps(4) split: option.split)

lemma decide_after_routes_command:
  assumes "before_sender gates"
  shows "findIngressGate (decide_after_routes state policy early gates) PhCommand KCommand =
    (if g_allowed (applyEventAuthModeToSenderGate state (sender_gate_of state policy))
     then Some (commandGate state policy) else None)"
  by (auto simp: decide_after_routes_def Let_def findIngressGate_def
      find_append_None [OF before_sender_find [OF assms]]
      simp del: applyEventAuthModeToSenderGate_simps(4) split: option.split)

text \<open>The sender gate of the whole decision, when the routes and an early skip let it run.\<close>

lemma decide_sender_gate:
  "findSenderGate (decideChannelIngress state policy) (st_conversationKind state \<noteq> ConvDirect) =
     (if route_blocked state \<or> activation_is_early policy \<and> mention_missing state policy True then None
      else Some (applyEventAuthModeToSenderGate state (sender_gate_of state policy)))"
proof (cases "find (\<lambda>g. g_effect g = EffBlockDispatch) (route_graph state)")
  case (Some g)
  then have "route_blocked state" using find_block_iff [of state] by simp
  with Some show ?thesis
    by (simp add: decideChannelIngress_eq findSenderGate_def findIngressGate_def find_route_graph_None)
next
  case None
  then have "\<not> route_blocked state" using find_block_iff [of state] by simp
  moreover have "before_sender (route_graph state @ [activationGate state policy c])" for c
    using before_sender_route_graph [of state] by (simp add: before_sender_def)
  ultimately show ?thesis using None
    by (auto simp: decideChannelIngress_eq Let_def decide_after_routes_sender
        before_sender_route_graph)
      (simp add: findSenderGate_def findIngressGate_def find_append_None find_route_graph_None)
qed

lemma decide_command_gate:
  "findIngressGate (decideChannelIngress state policy) PhCommand KCommand =
     (if route_blocked state \<or> activation_is_early policy \<and> mention_missing state policy True \<or>
         \<not> g_allowed (applyEventAuthModeToSenderGate state (sender_gate_of state policy))
      then None else Some (commandGate state policy))"
proof (cases "find (\<lambda>g. g_effect g = EffBlockDispatch) (route_graph state)")
  case (Some g)
  then have "route_blocked state" using find_block_iff [of state] by simp
  with Some show ?thesis
    by (simp add: decideChannelIngress_eq findIngressGate_def find_route_graph_None)
next
  case None
  then have "\<not> route_blocked state" using find_block_iff [of state] by simp
  moreover have "before_sender (route_graph state @ [activationGate state policy c])" for c
    using before_sender_route_graph [of state] by (simp add: before_sender_def)
  ultimately show ?thesis using None
    by (auto simp: decideChannelIngress_eq Let_def decide_after_routes_command
        before_sender_route_graph simp del: applyEventAuthModeToSenderGate_simps(4))
      (simp_all add: findIngressGate_def find_append_None find_route_graph_None)
qed

lemma route_graph_reason:
  "g \<in> set (route_graph state) \<Longrightarrow>
   g_reasonCode g \<in> {RC_route_blocked, RC_allowed, RC_route_sender_empty}"
  by (auto simp: route_graph_def routeGates_def routeSenderEmptyGate_def split: option.splits)

lemma decide_reason_before_sender:
  assumes "route_blocked state \<or> activation_is_early policy \<and> mention_missing state policy True"
  shows "di_reasonCode (decideChannelIngress state policy) \<noteq> RC_dm_policy_pairing_required"
proof (cases "find (\<lambda>g. g_effect g = EffBlockDispatch) (route_graph state)")
  case (Some g)
  then have "g \<in> set (route_graph state)" by (auto simp: find_Some_iff)
  from route_graph_reason [OF this] Some show ?thesis by (auto simp: decideChannelIngress_eq)
next
  case None
  then have "\<not> route_blocked state" using find_block_iff [of state] by simp
  with assms None show ?thesis
    by (simp add: decideChannelIngress_eq activationGate_def Let_def split: option.split)
qed

lemma event_sender_gate_pairing:
  "(g_reasonCode (applyEventAuthModeToSenderGate state (sender_gate_of state policy)) =
      RC_dm_policy_pairing_required) =
   (re_authMode (st_event state) = AmInbound \<and> st_conversationKind state = ConvDirect \<and>
    dm_pairing_offered state policy)"
  using sender_gate_of_pairing [of state policy]
  by (auto simp: applyEventAuthModeToSenderGate_def sender_gate_of_allowed sender_admitted_def
      dm_pairing_offered_def)

lemma projectSenderAccess_pairing:
  "(sea_decision (projectSenderAccess (decideChannelIngress state policy)
      (st_conversationKind state \<noteq> ConvDirect) ea eg fb) = VPairing) =
   (di_admission (decideChannelIngress state policy) = PairingRequired)"
proof (cases "route_blocked state \<or> activation_is_early policy \<and> mention_missing state policy True")
  case True
  then have "spec_admission state policy \<noteq> PairingRequired" by (auto simp: spec_admission_def)
  moreover have "findSenderGate (decideChannelIngress state policy)
      (st_conversationKind state \<noteq> ConvDirect) = None"
    using True by (simp add: decide_sender_gate)
  ultimately show ?thesis
    using decide_reason_before_sender [OF True]
    by (simp add: projectSenderAccess_def Let_def decide_admission)
next
  case False
  have gate: "findSenderGate (decideChannelIngress state policy) (st_conversationKind state \<noteq> ConvDirect) =
      Some (applyEventAuthModeToSenderGate state (sender_gate_of state policy))"
    using False by (simp add: decide_sender_gate)
  have "(spec_admission state policy = PairingRequired) =
      (re_authMode (st_event state) = AmInbound \<and> st_conversationKind state = ConvDirect \<and>
       dm_pairing_offered state policy)"
    using False by (auto simp: spec_admission_def sender_admitted_def dm_pairing_offered_def)
  with gate show ?thesis
    by (simp add: projectSenderAccess_def Let_def decide_admission event_sender_gate_pairing)
qed

lemma projectSenderAccess_dispatch:
  assumes "di_admission (decideChannelIngress state policy) = Dispatch"
  shows "sea_allowed (projectSenderAccess (decideChannelIngress state policy)
      (st_conversationKind state \<noteq> ConvDirect) ea eg fb)"
proof -
  have spec: "spec_admission state policy = Dispatch" using assms by (simp add: decide_admission)
  then have "\<not> route_blocked state" "\<not> (activation_is_early policy \<and> mention_missing state policy True)"
    by (auto simp: spec_admission_def split: if_splits)
  then have gate: "findSenderGate (decideChannelIngress state policy) (st_conversationKind state \<noteq> ConvDirect) =
      Some (applyEventAuthModeToSenderGate state (sender_gate_of state policy))"
    by (simp add: decide_sender_gate)
  have "g_allowed (applyEventAuthModeToSenderGate state (sender_gate_of state policy))"
    using spec_dispatch_sender [OF spec] by (auto simp: sender_gate_of_allowed)
  moreover have "g_reasonCode (applyEventAuthModeToSenderGate state (sender_gate_of state policy)) \<noteq>
      RC_dm_policy_pairing_required"
    using spec_dispatch_sender [OF spec]
    by (auto simp: event_sender_gate_pairing dm_pairing_offered_def sender_admitted_def)
  ultimately show ?thesis using gate by (simp add: projectSenderAccess_def Let_def)
qed

lemma commandGate_block_flag:
  "(map_option gc_shouldBlockControlCommand (g_command (commandGate state policy)) = Some True) =
   command_blocked state policy"
  using commandGate_allowed [of state policy]
  by (auto simp: commandGate_def command_blocked_def plain_gate_def Let_def split: option.split)

lemma projectCommandAccess_block:
  assumes "coa_shouldBlockControlCommand (projectCommandAccess (decideChannelIngress state policy) policy)"
  shows "di_admission (decideChannelIngress state policy) = DropEvent"
proof -
  have "\<not> (route_blocked state \<or> activation_is_early policy \<and> mention_missing state policy True)"
    and blocked: "command_blocked state policy"
    using assms commandGate_block_flag [of state policy]
    by (auto simp: projectCommandAccess_def Let_def decide_command_gate split: if_splits)
  moreover have "re_authMode (st_event state) = AmInbound \<longrightarrow> sender_admitted state policy"
    using assms by (auto simp: projectCommandAccess_def Let_def decide_command_gate
        sender_gate_of_allowed split: if_splits)
  ultimately show ?thesis by (auto simp: decide_admission spec_admission_def)
qed

lemma projectRouteAccess_blocked:
  assumes "route_blocked state"
  shows "\<not> roa_allowed (projectRouteAccess (decideChannelIngress state policy) route)"
proof -
  obtain g where g: "find (\<lambda>g. g_effect g = EffBlockDispatch) (route_graph state) = Some g"
    using assms find_block_iff [of state] by auto
  then have gates: "di_gates (decideChannelIngress state policy) = route_graph state"
    by (simp add: decideChannelIngress_eq)
  have "g \<in> set (route_graph state)" "g_effect g = EffBlockDispatch"
    using g by (auto simp: find_Some_iff)
  then obtain b where b: "find (\<lambda>g. g_phase g = PhRoute \<and> g_effect g = EffBlockDispatch)
      (route_graph state) = Some b"
    using route_graph_phase by (cases "find (\<lambda>g. g_phase g = PhRoute \<and> g_effect g = EffBlockDispatch)
      (route_graph state)") (auto simp: find_None_iff)
  then have "b \<in> set (route_graph state)" "g_effect b = EffBlockDispatch" by (auto simp: find_Some_iff)
  then have "\<not> g_allowed b"
    by (auto simp: route_graph_def routeGates_def routeSenderEmptyGate_def split: option.splits)
  with b gates show ?thesis by (simp add: projectRouteAccess_def Let_def)
qed

subsection \<open>Origin subjects\<close>

definition normalized_as :: "identity_descriptor \<Rightarrow> match_material \<Rightarrow> string \<Rightarrow> bool" where
  "normalized_as identity m v =
     list_ex (\<lambda>field. rs_kind field = mm_kind m \<and>
        normalizeFieldValue field (mm_value m) ModeEntry = Some v) (identityFields identity)"

text \<open>Two subjects share an identifier: literally, or one normalizes to a key of the other.\<close>

definition normalized_key_shared ::
  "identity_descriptor \<Rightarrow> ingress_subject \<Rightarrow> ingress_subject \<Rightarrow> bool" where
  "normalized_key_shared identity a b =
     (\<exists>m\<in>set a. \<exists>v. v \<noteq> ''*'' \<and> normalized_as identity m v \<and>
        identityMatchKey (mm_kind m) v \<in> set (subject_keys identity b))"

lemma normalized_subject_entry:
  assumes "si_adapter input = createIdentityAdapter identity"
    and "e \<in> set (normalizeSubjectIdentifiersForMatch input subject ctx pre)"
  shows "ie_value e \<noteq> ''*'' \<and>
    (\<exists>m\<in>set subject. mm_kind m = ne_kind e \<and> normalized_as identity m (ie_value e))"
proof -
  obtain m e0 where m: "m \<in> set subject" "e0 \<in> set (nr_matchable
        (identity_normalizeEntries identity [mm_value m]))" "ne_kind e0 = mm_kind m"
      "ie_value e0 \<noteq> ''*''" "ne_kind e = ne_kind e0" "ie_value e = ie_value e0"
    using assms(2)
    by (auto simp: normalizeSubjectIdentifiersForMatch_def assms(1) in_set_enumerate_eq
        dest!: nth_mem)
  then have e0: "e0 \<in> set (normalize_one_entry identity 0 (mm_value m))"
    by (simp add: identity_normalizeEntries_def)
  have "\<not> is_wildcard identity (mm_value m)"
    using e0 m(4) by (auto simp: normalize_one_entry_def adapterEntry_def Let_def)
  from normalize_one_entry_value [OF e0 this] have "normalized_as identity m (ie_value e0)"
    by (auto simp: normalized_as_def list_ex_iff m(3))
  with m show ?thesis by auto
qed

lemma origin_entries_match:
  assumes "si_adapter input = createIdentityAdapter identity" and "idd_matchEntry identity = None"
    and "im_matched (identity_matchSubject identity other
           (normalizeSubjectIdentifiersForMatch input subject ctx pre) ctx)"
  shows "normalized_key_shared identity subject other"
proof -
  obtain e where e: "e \<in> set (normalizeSubjectIdentifiersForMatch input subject ctx pre)"
      "entry_matches identity other ctx e"
    using assms(3) by (auto simp: identity_matchSubject_matched list_ex_iff)
  from normalized_subject_entry [OF assms(1) e(1)] obtain m
    where m: "m \<in> set subject" "mm_kind m = ne_kind e" "normalized_as identity m (ie_value e)"
      "ie_value e \<noteq> ''*''" by blast
  have "identityMatchKey (mm_kind m) (ie_value e) \<in> set (subject_keys identity other)"
    using e(2) m(2,4) by (simp add: entry_matches_def assms(2) Let_def)
  with m show ?thesis unfolding normalized_key_shared_def by blast
qed

lemma origin_match_shares:
  assumes adapter: "si_adapter input = createIdentityAdapter identity"
    and hook: "idd_matchEntry identity = None"
    and origin: "ei_originSubject (si_event input) = Some origin"
    and "originSubjectMatched input"
  shows "(\<exists>o'\<in>set origin. \<exists>c\<in>set (si_subject input).
      mm_kind c = mm_kind o' \<and> mm_value c = mm_value o') \<or>
    normalized_key_shared identity origin (si_subject input) \<or>
    normalized_key_shared identity (si_subject input) origin"
  using assms(4) origin_entries_match [OF adapter hook]
  by (auto simp: originSubjectMatched_def origin adapter list_ex_iff Let_def split: if_splits)

subsection \<open>Mutable identifiers\<close>

definition matched_only_dangerous :: "resolved_allowlist \<Rightarrow> bool" where
  "matched_only_dangerous al = (set (ra_matchedEntryIds al) \<subseteq> dangerous_ids al)"

lemma dangerous_match_removed:
  assumes "wf_allowlist al" and "matched_only_dangerous al"
    and "ip_mutableIdentifierMatching policy \<noteq> Some True"
  shows "\<not> im_matched (ra_match (applyMutableIdentifierPolicy al policy))"
proof (cases "dangerous_ids al = {}")
  case True
  then have "ra_matchedEntryIds al = []" using assms(2) by (auto simp: matched_only_dangerous_def)
  then show ?thesis using True assms(1) by (simp add: wf_allowlist_def)
next
  case False
  then show ?thesis using applyMutableIdentifierPolicy_match [OF assms(3) False] assms(2)
    by (auto simp: matched_only_dangerous_def)
qed

lemma dangerous_dm_not_dispatched:
  assumes "st_conversationKind state = ConvDirect" and "re_authMode (st_event state) = AmInbound"
    and "ip_dmPolicy policy \<noteq> DmOpen" and "ip_mutableIdentifierMatching policy \<noteq> Some True"
    and "wf_allowlist (sl_dm (st_allowlists state))"
    and "wf_allowlist (sl_pairingStore (st_allowlists state))"
    and "matched_only_dangerous (sl_dm (st_allowlists state))"
    and "matched_only_dangerous (sl_pairingStore (st_allowlists state))"
  shows "di_admission (decideChannelIngress state policy) \<noteq> Dispatch"
proof
  assume "di_admission (decideChannelIngress state policy) = Dispatch"
  then have "dm_sender_admitted state policy"
    using spec_dispatch_sender [of state policy] assms(1,2)
    by (simp add: decide_admission sender_admitted_def)
  then show False
    using assms(3) dangerous_match_removed [OF assms(5,7,4)] dangerous_match_removed [OF assms(6,8,4)]
    by (auto simp: dm_sender_admitted_def Let_def split: dm_policy.splits)
qed

section \<open>Properties of the message ingress\<close>

text \<open>
  The properties of the ingress kernel and runtime, each with a concrete event at which its
  hypotheses hold where it has any. The sample channel has one stable identity field, and the
  sender is alice.
\<close>

subsection \<open>Sample inputs\<close>

definition sample_field :: identity_field where
  "sample_field = \<lparr>fd_key = None, fd_kind = None, fd_normalize = None, fd_normalizeEntry = None,
     fd_normalizeSubject = None, fd_dangerous = None, fd_sensitivity = None\<rparr>"

definition sample_identity :: identity_descriptor where
  "sample_identity = \<lparr>idd_primary = sample_field, idd_aliases = None, idd_isWildcardEntry = None,
     idd_matchEntry = None, idd_resolveEntryId = None\<rparr>"

definition sample_policy :: ingress_policy where
  "sample_policy = \<lparr>ip_dmPolicy = DmPairing, ip_groupPolicy = GpAllowlist,
     ip_groupAllowFromFallbackToAllowFrom = None, ip_mutableIdentifierMatching = None,
     ip_activation = None, ip_command = None\<rparr>"

definition sample_descriptor :: route_descriptor where
  "sample_descriptor = \<lparr>rd_id = ''room'', rd_kind = None, rd_configured = None, rd_matched = None,
     rd_allowed = Some False, rd_enabled = None, rd_precedence = None, rd_senderPolicy = None,
     rd_senderAllowFrom = None, rd_senderAllowFromSource = None, rd_matchId = None,
     rd_blockReason = None\<rparr>"

definition sample_subject :: subject_input where
  "sample_subject = \<lparr>sj_stableId = Some (EStr ''alice''), sj_aliases = None\<rparr>"

definition sample_conversation :: "conversation_kind \<Rightarrow> conversation" where
  "sample_conversation kind = \<lparr>cv_kind = kind, cv_id = ''c1'', cv_parentId = None,
     cv_threadId = None, cv_title = None\<rparr>"

definition sample_event :: "ingress_subject option \<Rightarrow> event_input" where
  "sample_event origin = \<lparr>ei_kind = EvMessage, ei_authMode = AmInbound, ei_mayPair = True,
     ei_originSubject = origin\<rparr>"

definition sample_params :: "conversation_kind \<Rightarrow> route_input \<Rightarrow> ingress_params" where
  "sample_params kind route =
     \<lparr>rp_channelId = ''chat'', rp_accountId = ''default'', rp_identity = sample_identity,
      rp_subject = sample_subject, rp_conversation = sample_conversation kind,
      rp_event = sample_event None, rp_policy = sample_policy,
      rp_allowFrom = Some [EStr '' alice ''], rp_groupAllowFrom = None,
      rp_route = route, rp_routeFacts = None, rp_accessGroups = None,
      rp_accessGroupMembership = None, rp_resolveAccessGroupMembership = None,
      rp_accessGroupMatchedAllowFromEntry = None, rp_providerMissingFallbackApplied = None,
      rp_mentionFacts = None, rp_readStoreAllowFrom = None, rp_useDefaultPairingStore = None,
      rp_command = None\<rparr>"

definition sample_store :: pairing_store_reader where "sample_store channel account = None"

definition sample_order :: "string \<Rightarrow> string \<Rightarrow> int" where "sample_order a b = 0"

definition sample_input :: state_input where
  "sample_input = \<lparr>si_channelId = ''chat'', si_accountId = ''default'',
     si_subject = createIdentitySubject sample_identity sample_subject,
     si_conversation = sample_conversation ConvGroup,
     si_adapter = createIdentityAdapter sample_identity, si_accessGroups = None,
     si_accessGroupMembership = None, si_routeFacts = None, si_mentionFacts = None,
     si_event = sample_event (Some (createIdentitySubject sample_identity sample_subject)),
     si_allowlists = \<lparr>sa_dm = None, sa_group = None, sa_commandOwner = None,
       sa_commandGroup = None, sa_pairingStore = None\<rparr>\<rparr>"

abbreviation resolved_admission where
  "resolved_admission p \<equiv> map_sum (\<lambda>e. e) (\<lambda>r. di_admission (ri_ingress r))
     (resolveChannelMessageIngress sample_store sample_order p)"

lemma map_sum_InrD: "map_sum f g x = Inr y \<Longrightarrow> \<exists>r. x = Inr r \<and> g r = y"
  by (cases x) auto

lemma sample_dm_dispatch: "resolved_admission (sample_params ConvDirect NoRoute) = Inr Dispatch"
  by code_simp

lemma sample_group_dispatch: "resolved_admission (sample_params ConvGroup NoRoute) = Inr Dispatch"
  by code_simp

lemma sample_route_drop:
  "resolved_admission (sample_params ConvGroup (OneRoute sample_descriptor)) = Inr DropEvent"
  by code_simp

text \<open>A group event of a listed sender, an unauthorized command, and a match on an alias only.\<close>

definition sample_listed_input :: state_input where
  "sample_listed_input = sample_input\<lparr>si_allowlists :=
     (si_allowlists sample_input)\<lparr>sa_group := Some [EStr ''alice'']\<rparr>\<rparr>"

definition sample_command_policy :: ingress_policy where
  "sample_command_policy = sample_policy\<lparr>ip_command := Some
     \<lparr>cp_useAccessGroups = None, cp_allowTextCommands = True, cp_hasControlCommand = True,
      cp_modeWhenAccessGroupsOff = None\<rparr>\<rparr>"

definition sample_dangerous_identity :: identity_descriptor where
  "sample_dangerous_identity =
     sample_identity\<lparr>idd_primary := sample_field\<lparr>fd_dangerous := Some (DangerousFlag True)\<rparr>\<rparr>"

definition sample_dangerous_input :: state_input where
  "sample_dangerous_input = sample_input\<lparr>
     si_conversation := sample_conversation ConvDirect,
     si_adapter := createIdentityAdapter sample_dangerous_identity,
     si_allowlists := (si_allowlists sample_input)\<lparr>sa_dm := Some [EStr ''alice'']\<rparr>\<rparr>"

lemma sample_trim [simp]: "js_trim ''chat'' = ''chat''"
  by code_simp

lemma sample_entries [simp]: "normalizeStringEntries [EStr '' alice ''] = [''alice'']"
  by code_simp

lemma sample_store_entries [simp]:
  "readStoreAllowFrom sample_store (sample_params ConvDirect NoRoute) ''chat'' = []"
  by code_simp

lemma sample_params_simps [simp]:
  "rp_channelId (sample_params kind route) = ''chat''"
  "rp_conversation (sample_params kind route) = sample_conversation kind"
  "rp_event (sample_params kind route) = sample_event None"
  "rp_policy (sample_params kind route) = sample_policy"
  "rp_allowFrom (sample_params kind route) = Some [EStr '' alice '']"
  "rp_groupAllowFrom (sample_params kind route) = None"
  "rp_route (sample_params kind route) = route"
  "rp_routeFacts (sample_params kind route) = None"
  by (simp_all add: sample_params_def)

lemma sample_route_facts [simp]: "runtime_route_facts (sample_params kind NoRoute) = []"
  by (simp add: runtime_route_facts_def routeFactsFromDescriptors_def)

lemma sample_group_list [simp]: "group_list (sample_params kind NoRoute) = [''alice'']"
  by (simp add: group_list_def sample_policy_def)

lemmas sample_simps = sample_conversation_def sample_event_def sample_policy_def

lemma sample_listed_dispatch:
  "di_admission (decideChannelIngress (resolveChannelIngressState sample_order sample_listed_input)
     sample_policy) = Dispatch"
  by code_simp

lemma sample_command_blocked:
  "coa_shouldBlockControlCommand (projectCommandAccess
     (decideChannelIngress (resolveChannelIngressState sample_order sample_listed_input)
       sample_command_policy) sample_command_policy)"
  by code_simp

lemma sample_origin_matched: "originSubjectMatched sample_input"
  by code_simp

lemma sample_dangerous_facts:
  "st_conversationKind (resolveChannelIngressState sample_order sample_dangerous_input) = ConvDirect"
  "re_authMode (st_event (resolveChannelIngressState sample_order sample_dangerous_input)) = AmInbound"
  "wf_allowlist (sl_dm (st_allowlists (resolveChannelIngressState sample_order sample_dangerous_input)))"
  "wf_allowlist (sl_pairingStore (st_allowlists
     (resolveChannelIngressState sample_order sample_dangerous_input)))"
  "matched_only_dangerous (sl_dm (st_allowlists
     (resolveChannelIngressState sample_order sample_dangerous_input)))"
  "matched_only_dangerous (sl_pairingStore (st_allowlists
     (resolveChannelIngressState sample_order sample_dangerous_input)))"
  by code_simp+

lemma concat_group_match_filter:
  "concat (map (group_match input ctx) names) =
   concat (map (group_match input ctx) (filter (\<lambda>n. group_status input ctx n = GsMatched) names))"
  by (induction names) (auto simp: group_match_def)

subsection \<open>The decision\<close>

text \<open>C1: The decision implements the priority list of the policy. For every resolved state and
  policy the admission \<open>decideChannelIngress\<close> computes by walking the gates with its early
  returns is the one of the abstract specification: a blocking route drops the event, then an
  early missing mention skips it, then the sender gate, the control-command gate, the event gate
  and the mention gate decide in that order.\<close>

theorem decide_refines_spec:
  "di_admission (decideChannelIngress state policy) = spec_admission state policy"
  by (rule decide_admission)

text \<open>C8: A direct message of a sender who is not listed is never dispatched. When the runtime
  resolves an inbound direct message under a policy other than open and the event is dispatched,
  the policy is not disabled and the sender matched an entry or access group of the configured
  list, or, under the pairing policy only, of the pairing store.\<close>

theorem ingress_dm_dispatch_listed:
  assumes "resolveChannelMessageIngress store lc params = Inr r"
    and "cv_kind (rp_conversation params) = ConvDirect"
    and "ei_authMode (rp_event params) = AmInbound"
    and "ip_dmPolicy (rp_policy params) \<noteq> DmOpen"
    and "di_admission (ri_ingress r) = Dispatch"
  shows "ip_dmPolicy (rp_policy params) \<noteq> DmDisabled \<and>
    (let input = runtime_state_input store params (js_trim (rp_channelId params)) in
     sender_listed input CtxDm (normalizeStringEntries (nullish (rp_allowFrom params) [])) \<or>
     ip_dmPolicy (rp_policy params) = DmPairing \<and>
     sender_listed input CtxDm
       (normalizeStringEntries (readStoreAllowFrom store params (js_trim (rp_channelId params)))))"
  using assms by (rule runtime_dm_dispatch)

theorem ingress_dm_dispatch_listed_witness:
  "\<exists>r. resolveChannelMessageIngress sample_store sample_order (sample_params ConvDirect NoRoute) = Inr r \<and>
     di_admission (ri_ingress r) = Dispatch \<and>
     (let input = runtime_state_input sample_store (sample_params ConvDirect NoRoute) ''chat'' in
      sender_listed input CtxDm [''alice''] \<or> sender_listed input CtxDm [])"
proof -
  obtain r where r: "resolveChannelMessageIngress sample_store sample_order
      (sample_params ConvDirect NoRoute) = Inr r" "di_admission (ri_ingress r) = Dispatch"
    using map_sum_InrD [OF sample_dm_dispatch] by blast
  show ?thesis
    using ingress_dm_dispatch_listed [OF r(1) _ _ _ r(2)] r
    by (auto simp: sample_simps Let_def)
qed

text \<open>C9: A group message of a sender who is not listed is never dispatched. Under a group policy
  other than open, an inbound group event the runtime dispatches has the allowlist policy, and the
  sender matched the group's list (its own or, unless the fallback is off, the direct one) or the
  sender list of a route that matched.\<close>

theorem ingress_group_dispatch_listed:
  assumes "resolveChannelMessageIngress store lc params = Inr r"
    and "cv_kind (rp_conversation params) \<noteq> ConvDirect"
    and "ei_authMode (rp_event params) = AmInbound"
    and "ip_groupPolicy (rp_policy params) \<noteq> GpOpen"
    and "di_admission (ri_ingress r) = Dispatch"
  shows "ip_groupPolicy (rp_policy params) = GpAllowlist \<and>
    (let input = runtime_state_input store params (js_trim (rp_channelId params)) in
     sender_listed input CtxGroup (group_list params) \<or>
     (\<exists>route\<in>set (runtime_route_facts params). rf_gate route = RouteMatched \<and>
       (\<exists>raw. route_sender_entries input route = Some raw \<and>
          sender_listed input CtxRoute (normalizeStringEntries raw))))"
  using assms by (rule runtime_group_dispatch)

theorem ingress_group_dispatch_listed_witness:
  "\<exists>r. resolveChannelMessageIngress sample_store sample_order (sample_params ConvGroup NoRoute) = Inr r \<and>
     di_admission (ri_ingress r) = Dispatch \<and>
     sender_listed (runtime_state_input sample_store (sample_params ConvGroup NoRoute) ''chat'')
       CtxGroup [''alice'']"
proof -
  obtain r where r: "resolveChannelMessageIngress sample_store sample_order
      (sample_params ConvGroup NoRoute) = Inr r" "di_admission (ri_ingress r) = Dispatch"
    using map_sum_InrD [OF sample_group_dispatch] by blast
  show ?thesis
    using ingress_group_dispatch_listed [OF r(1) _ _ _ r(2)] r
    by (auto simp: sample_simps Let_def)
qed

text \<open>A route that is disabled or does not allow the event blocks it. Whatever the senders and
  the policy, an event with a configured route descriptor that is disabled or not allowed is
  dropped.\<close>

theorem ingress_blocking_route_drops:
  assumes "resolveChannelMessageIngress store lc params = Inr r"
    and "d \<in> set (routeDescriptors (rp_route params))"
    and "rd_configured d \<noteq> Some False" and "rd_enabled d = Some False \<or> rd_allowed d = Some False"
  shows "di_admission (ri_ingress r) = DropEvent"
  using assms(1,2) by (rule runtime_route_block) (use assms(3,4) in \<open>simp add: descriptor_blocks_def\<close>)

theorem ingress_blocking_route_drops_witness:
  "\<exists>r. resolveChannelMessageIngress sample_store sample_order
       (sample_params ConvGroup (OneRoute sample_descriptor)) = Inr r \<and>
     di_admission (ri_ingress r) = DropEvent"
proof -
  obtain r where r: "resolveChannelMessageIngress sample_store sample_order
      (sample_params ConvGroup (OneRoute sample_descriptor)) = Inr r"
    using map_sum_InrD [OF sample_route_drop] by blast
  show ?thesis
    using ingress_blocking_route_drops [OF r, of sample_descriptor] r
    by (simp add: sample_simps sample_descriptor_def)
qed

text \<open>The pairing store has no influence outside direct messages under the pairing or disabled
  policy. For a group event, or a direct event under the allowlist or open policy, the whole
  result is the same for every store reader and every content of the default store.\<close>

theorem ingress_store_irrelevant:
  assumes "cv_kind (rp_conversation params) \<noteq> ConvDirect \<or>
      ip_dmPolicy (rp_policy params) \<in> {DmAllowlist, DmOpen}"
  shows "resolveChannelMessageIngress store' lc (with_store_readers reader useDefault params) =
    resolveChannelMessageIngress store lc params"
  using assms by (rule store_readers_irrelevant)

theorem ingress_store_irrelevant_witness:
  "resolveChannelMessageIngress (\<lambda>c a. Some [''mallory'']) sample_order
     (with_store_readers None (Some True) (sample_params ConvGroup NoRoute)) =
   resolveChannelMessageIngress sample_store sample_order (sample_params ConvGroup NoRoute)"
  by (rule ingress_store_irrelevant) (simp add: sample_simps)

text \<open>The sender projection agrees with the decision. A handler sees the pairing verdict exactly
  when the decision requires pairing, and a dispatched event always has an admitted sender.\<close>

theorem sender_access_agrees:
  "(sea_decision (projectSenderAccess (decideChannelIngress state policy)
      (st_conversationKind state \<noteq> ConvDirect) ea eg fb) = VPairing) =
     (di_admission (decideChannelIngress state policy) = PairingRequired) \<and>
   (di_admission (decideChannelIngress state policy) = Dispatch \<longrightarrow>
    sea_allowed (projectSenderAccess (decideChannelIngress state policy)
      (st_conversationKind state \<noteq> ConvDirect) ea eg fb))"
  using projectSenderAccess_pairing projectSenderAccess_dispatch by simp

theorem sender_access_agrees_witness:
  "sea_allowed (projectSenderAccess
     (decideChannelIngress (resolveChannelIngressState sample_order sample_listed_input) sample_policy)
     True [] [] None)"
  using sender_access_agrees [of "resolveChannelIngressState sample_order sample_listed_input"
      sample_policy "[]" "[]" None] sample_listed_dispatch
  by (simp add: sample_listed_input_def sample_input_def sample_simps)

text \<open>An unauthorized control command never gets through. When the command projection says that
  the control command should be blocked, the decision drops the event.\<close>

theorem command_block_drops:
  assumes "coa_shouldBlockControlCommand (projectCommandAccess (decideChannelIngress state policy) policy)"
  shows "di_admission (decideChannelIngress state policy) = DropEvent"
  using assms by (rule projectCommandAccess_block)

theorem command_block_drops_witness:
  "di_admission (decideChannelIngress (resolveChannelIngressState sample_order sample_listed_input)
     sample_command_policy) = DropEvent"
  by (rule command_block_drops [OF sample_command_blocked])

text \<open>An origin subject counts as the current subject only when they share an identifier. With
  the identity adapter and no match hook, the origin subject matches only when the two have an
  identifier of the same kind and value, or an identifier of one normalizes to a key of the
  other; a wildcard identity matches nobody.\<close>

theorem origin_subject_shares_identifier:
  assumes "si_adapter input = createIdentityAdapter identity" and "idd_matchEntry identity = None"
    and "ei_originSubject (si_event input) = Some origin" and "originSubjectMatched input"
  shows "(\<exists>o'\<in>set origin. \<exists>c\<in>set (si_subject input).
      mm_kind c = mm_kind o' \<and> mm_value c = mm_value o') \<or>
    normalized_key_shared identity origin (si_subject input) \<or>
    normalized_key_shared identity (si_subject input) origin"
  using assms by (rule origin_match_shares)

theorem origin_subject_shares_identifier_witness:
  "let s = createIdentitySubject sample_identity sample_subject in
   originSubjectMatched sample_input \<and>
   ((\<exists>o'\<in>set s. \<exists>c\<in>set s. mm_kind c = mm_kind o' \<and> mm_value c = mm_value o') \<or>
    normalized_key_shared sample_identity s s \<or> normalized_key_shared sample_identity s s)"
  using origin_subject_shares_identifier [of sample_input sample_identity
      "createIdentitySubject sample_identity sample_subject"] sample_origin_matched
  by (simp add: sample_input_def sample_event_def sample_identity_def Let_def)

text \<open>Mutable identifiers never admit a sender while their matching is off. If all that matched
  in the direct list and in the pairing store are entries on dangerous (mutable) identifiers, a
  direct message under a policy other than open is not dispatched.\<close>

theorem dangerous_only_not_dispatched:
  assumes "st_conversationKind state = ConvDirect" and "re_authMode (st_event state) = AmInbound"
    and "ip_dmPolicy policy \<noteq> DmOpen" and "ip_mutableIdentifierMatching policy \<noteq> Some True"
    and "wf_allowlist (sl_dm (st_allowlists state))"
    and "wf_allowlist (sl_pairingStore (st_allowlists state))"
    and "matched_only_dangerous (sl_dm (st_allowlists state))"
    and "matched_only_dangerous (sl_pairingStore (st_allowlists state))"
  shows "di_admission (decideChannelIngress state policy) \<noteq> Dispatch"
  using assms by (rule dangerous_dm_not_dispatched)

theorem dangerous_only_not_dispatched_witness:
  "di_admission (decideChannelIngress (resolveChannelIngressState sample_order sample_dangerous_input)
     sample_policy) \<noteq> Dispatch"
proof -
  have "ip_dmPolicy sample_policy \<noteq> DmOpen" "ip_mutableIdentifierMatching sample_policy \<noteq> Some True"
    by (simp_all add: sample_policy_def)
  from dangerous_only_not_dispatched [OF sample_dangerous_facts(1,2) this sample_dangerous_facts(3-6)]
  show ?thesis .
qed

text \<open>Every referenced access group is classified once, by its membership fact or its
  configuration. The buckets the resolved allowlist reports are exactly the referenced groups
  with that status, in their order, and the groups that are missing, unsupported or failed never
  contribute a match.\<close>

theorem access_groups_classified:
  "gr_accessGroups (resolveAccessGroupEntries input ctx names) =
     \<lparr>ag_referenced = names,
      ag_matched = filter (\<lambda>n. group_status input ctx n = GsMatched) names,
      ag_missing = filter (\<lambda>n. group_status input ctx n = GsMissing) names,
      ag_unsupported = filter (\<lambda>n. group_status input ctx n = GsUnsupported) names,
      ag_failed = filter (\<lambda>n. group_status input ctx n = GsFailed) names\<rparr> \<and>
   gr_matches (resolveAccessGroupEntries input ctx names) =
     concat (map (group_match input ctx)
       (filter (\<lambda>n. group_status input ctx n = GsMatched) names))"
  using concat_group_match_filter [of input ctx names]
  by (simp add: resolveAccessGroupEntries_simps status_list_def)

text \<open>The access graph explains the decision. With route effects allow, block and ignore, the
  decisive gate is in the graph with the decision's reason and an effect that fits the
  admission, and a dispatched event has no gate that blocks or skips.\<close>

theorem decision_graph_agrees:
  assumes "wf_route_effects state"
  shows "graph_agrees (decideChannelIngress state policy)"
  using assms by (rule decide_graph_agrees)

theorem decision_graph_agrees_witness:
  "graph_agrees (decideChannelIngress (resolveChannelIngressState sample_order sample_input) sample_policy)"
  by (rule decision_graph_agrees)
    (simp add: wf_route_effects_def sample_input_def resolveRouteFacts_def sort_by_def)

end
