(* ===== verification/JsMap.thy ===== *)
theory JsMap
  imports JsPrelude
begin

section \<open>JavaScript Maps and Sets\<close>

text \<open>
  A Map iterates in insertion order: setting an existing key keeps its place, deleting and
  setting again moves it to the end. It is modelled as an association list; \<open>map_get\<close>,
  \<open>map_set\<close> and \<open>map_delete\<close> are its operations. The locale \<open>js_map\<close> is the contract the
  components use; the association list is proved to satisfy it. A Set of numbers is a list
  with \<open>set_add\<close> and \<open>set_delete\<close>.
\<close>

named_theorems js_map_simps \<open>facts about Map operations\<close>

type_synonym ('k, 'v) js_map = "('k \<times> 'v) list"

definition map_get :: "('k, 'v) js_map \<Rightarrow> 'k \<Rightarrow> 'v option" where
  "map_get m k = map_of m k"

fun map_set :: "('k, 'v) js_map \<Rightarrow> 'k \<Rightarrow> 'v \<Rightarrow> ('k, 'v) js_map" where
  "map_set [] k v = [(k, v)]"
| "map_set ((k', v') # m) k v = (if k' = k then (k, v) # m else (k', v') # map_set m k v)"

definition map_delete :: "('k, 'v) js_map \<Rightarrow> 'k \<Rightarrow> ('k, 'v) js_map" where
  "map_delete m k = filter (\<lambda>(k', v). k' \<noteq> k) m"

definition map_keys :: "('k, 'v) js_map \<Rightarrow> 'k list" where
  "map_keys m = map fst m"

definition wf_map :: "('k, 'v) js_map \<Rightarrow> bool" where
  "wf_map m = distinct (map fst m)"

definition set_add :: "'a list \<Rightarrow> 'a \<Rightarrow> 'a list" where
  "set_add xs x = (if x \<in> set xs then xs else xs @ [x])"

definition set_delete :: "'a list \<Rightarrow> 'a \<Rightarrow> 'a list" where
  "set_delete xs x = filter (\<lambda>y. y \<noteq> x) xs"

lemma length_filter_neq:
  "k \<in> set xs \<Longrightarrow> distinct xs \<Longrightarrow> Suc (length (filter (\<lambda>k'. k' \<noteq> k) xs)) = length xs"
proof (induction xs)
  case (Cons x xs)
  show ?case
  proof (cases "x = k")
    case True
    then have "filter (\<lambda>k'. k' \<noteq> k) xs = xs" using Cons.prems(2) by (auto intro: filter_True)
    then show ?thesis using True by simp
  next
    case False
    then show ?thesis using Cons by auto
  qed
qed simp

subsection \<open>The contract\<close>

locale js_map =
  fixes get :: "'m \<Rightarrow> 'k \<Rightarrow> 'v option"
    and put :: "'m \<Rightarrow> 'k \<Rightarrow> 'v \<Rightarrow> 'm"
    and del :: "'m \<Rightarrow> 'k \<Rightarrow> 'm"
    and keys :: "'m \<Rightarrow> 'k list"
    and ok :: "'m \<Rightarrow> bool"
  assumes get_put: "get (put m k v) k' = (if k' = k then Some v else get m k')"
    and get_del: "get (del m k) k' = (if k' = k then None else get m k')"
    and keys_get: "k \<in> set (keys m) \<longleftrightarrow> get m k \<noteq> None"
    and keys_put: "keys (put m k v) = (if get m k = None then keys m @ [k] else keys m)"
    and keys_del: "keys (del m k) = filter (\<lambda>k'. k' \<noteq> k) (keys m)"
    and ok_distinct: "ok m \<longleftrightarrow> distinct (keys m)"
begin

lemma ok_put: "ok m \<Longrightarrow> ok (put m k v)"
  using keys_get [of k m] by (auto simp: ok_distinct keys_put)

lemma ok_del: "ok m \<Longrightarrow> ok (del m k)"
  by (auto simp: ok_distinct keys_del)

lemma size_put: "length (keys (put m k v)) = length (keys m) + (if get m k = None then 1 else 0)"
  by (simp add: keys_put)

lemma size_del_present:
  assumes "ok m" and "get m k \<noteq> None"
  shows "Suc (length (keys (del m k))) = length (keys m)"
proof -
  have "k \<in> set (keys m)" using assms(2) by (simp add: keys_get)
  moreover have "distinct (keys m)" using assms(1) by (simp add: ok_distinct)
  ultimately show ?thesis by (simp add: keys_del length_filter_neq)
qed

lemma size_del_le: "length (keys (del m k)) \<le> length (keys m)"
  by (simp add: keys_del)

lemma re_put_moves_last: "keys (put (del m k) k v) = filter (\<lambda>k'. k' \<noteq> k) (keys m) @ [k]"
  by (simp add: keys_put keys_del get_del)

end

subsection \<open>The association list satisfies it\<close>

lemma map_get_set [js_map_simps, simp]:
  "map_get (map_set m k v) k' = (if k' = k then Some v else map_get m k')"
  by (induction m k v rule: map_set.induct) (auto simp: map_get_def)

lemma map_get_delete [js_map_simps, simp]:
  "map_get (map_delete m k) k' = (if k' = k then None else map_get m k')"
  by (induction m) (auto simp: map_get_def map_delete_def)

lemma map_get_keys: "k \<in> set (map_keys m) \<longleftrightarrow> map_get m k \<noteq> None"
  by (induction m) (auto simp: map_get_def map_keys_def)

lemma map_keys_set: "map_keys (map_set m k v) = (if map_get m k = None then map_keys m @ [k] else map_keys m)"
  by (induction m k v rule: map_set.induct) (auto simp: map_get_def map_keys_def)

lemma map_keys_delete: "map_keys (map_delete m k) = filter (\<lambda>k'. k' \<noteq> k) (map_keys m)"
  by (induction m) (auto simp: map_keys_def map_delete_def)

interpretation jm: js_map map_get map_set map_delete map_keys wf_map
  by unfold_locales
    (simp_all add: map_get_keys map_keys_set map_keys_delete, simp add: wf_map_def map_keys_def)

lemma map_get_Nil [simp]: "map_get [] k = None"
  by (simp add: map_get_def)

lemma wf_map_Nil [simp]: "wf_map []"
  by (simp add: wf_map_def)

lemma wf_map_set [simp]: "wf_map m \<Longrightarrow> wf_map (map_set m k v)"
  by (rule jm.ok_put)

lemma wf_map_delete [simp]: "wf_map m \<Longrightarrow> wf_map (map_delete m k)"
  by (rule jm.ok_del)

lemma map_get_in: "map_get m k = Some v \<Longrightarrow> (k, v) \<in> set m"
  unfolding map_get_def by (rule map_of_SomeD)

lemma map_get_iff: "wf_map m \<Longrightarrow> map_get m k = Some v \<longleftrightarrow> (k, v) \<in> set m"
  by (simp add: map_get_def wf_map_def)

lemma length_map_keys: "length (map_keys m) = length m"
  by (simp add: map_keys_def)

lemma map_set_set:
  "wf_map m \<Longrightarrow> set (map_set m k v) = insert (k, v) {p \<in> set m. fst p \<noteq> k}"
  by (induction m k v rule: map_set.induct) (auto simp: wf_map_def image_iff)

lemma set_map_delete: "set (map_delete m k) = {p \<in> set m. fst p \<noteq> k}"
  by (auto simp: map_delete_def)

lemma set_set_add [js_list_simps, simp]: "set (set_add xs x) = insert x (set xs)"
  by (auto simp: set_add_def)

lemma set_set_delete [js_list_simps, simp]: "set (set_delete xs x) = set xs - {x}"
  by (auto simp: set_delete_def)

lemma distinct_set_add [js_list_simps, simp]: "distinct xs \<Longrightarrow> distinct (set_add xs x)"
  by (simp add: set_add_def)

lemma distinct_set_delete [js_list_simps, simp]: "distinct xs \<Longrightarrow> distinct (set_delete xs x)"
  by (simp add: set_delete_def)

section \<open>JavaScript numbers\<close>

text \<open>
  Numbers where not-a-number and the infinities matter. A finite double is a rational; the
  modelled code only compares, floors, truncates and takes minima and maxima, which are exact
  on doubles.
\<close>

datatype jsnum = NaN | PosInf | NegInf | Fin rat

definition jn_of_int :: "int \<Rightarrow> jsnum" where
  "jn_of_int i = Fin (of_int i)"

fun js_less :: "jsnum \<Rightarrow> jsnum \<Rightarrow> bool" where
  "js_less NaN b = False"
| "js_less a NaN = False"
| "js_less PosInf b = False"
| "js_less a NegInf = False"
| "js_less NegInf b = True"
| "js_less a PosInf = True"
| "js_less (Fin a) (Fin b) = (a < b)"

definition js_le :: "jsnum \<Rightarrow> jsnum \<Rightarrow> bool" where
  "js_le a b = (a \<noteq> NaN \<and> b \<noteq> NaN \<and> \<not> js_less b a)"

fun js_is_finite :: "jsnum \<Rightarrow> bool" where
  "js_is_finite (Fin _) = True"
| "js_is_finite _ = False"

fun js_floor :: "jsnum \<Rightarrow> jsnum" where
  "js_floor (Fin a) = Fin (of_int \<lfloor>a\<rfloor>)"
| "js_floor a = a"

text \<open>\<open>Math.max\<close> and \<open>Math.min\<close> are not-a-number when an argument is.\<close>

definition js_max :: "jsnum \<Rightarrow> jsnum \<Rightarrow> jsnum" where
  "js_max a b = (if a = NaN \<or> b = NaN then NaN else if js_less a b then b else a)"

definition js_min :: "jsnum \<Rightarrow> jsnum \<Rightarrow> jsnum" where
  "js_min a b = (if a = NaN \<or> b = NaN then NaN else if js_less b a then b else a)"

fun js_trunc :: "jsnum \<Rightarrow> jsnum" where
  "js_trunc (Fin a) = Fin (of_int (if a < 0 then \<lceil>a\<rceil> else \<lfloor>a\<rfloor>))"
| "js_trunc a = a"

lemma js_less_of_int [simp]: "js_less (jn_of_int a) (jn_of_int b) = (a < b)"
  by (simp add: jn_of_int_def)

lemma js_le_of_int [simp]: "js_le (jn_of_int a) (jn_of_int b) = (a \<le> b)"
  by (auto simp: js_le_def jn_of_int_def)

lemma js_less_irrefl [simp]: "\<not> js_less a a"
  by (cases a) auto

lemma js_less_trans: "js_less a b \<Longrightarrow> js_less b c \<Longrightarrow> js_less a c"
  by (cases a; cases b; cases c) auto

lemma js_less_NaN [simp]: "\<not> js_less a NaN"
  by (cases a) auto

lemma js_max_of_int [simp]: "js_max (jn_of_int a) (jn_of_int b) = jn_of_int (max a b)"
  by (simp add: js_max_def max_def jn_of_int_def)

lemma js_min_of_int [simp]: "js_min (jn_of_int a) (jn_of_int b) = jn_of_int (min a b)"
  by (simp add: js_min_def min_def jn_of_int_def)

lemma js_floor_of_int [simp]: "js_floor (jn_of_int a) = jn_of_int a"
  by (simp add: jn_of_int_def)

end
