(* ===== verification/CommandQueue.thy ===== *)
theory CommandQueue
  imports JsMap AllowFrom
begin

section \<open>The command queue\<close>

text \<open>
  Models \<^verbatim>\<open>src/process/command-queue.ts\<close> (and the lane names of \<^verbatim>\<open>lanes.ts\<close>): lanes of queued
  commands with a concurrency limit each, generations that make the completions of tasks from
  before a reset stale, and waiters for the tasks active at a moment. The state is the record
  the module keeps on globalThis, with the async closures of the running tasks
  (\<open>qs_running\<close>): what each captured, the lane, its task id, its generation and its entry.
  An operation returns its effects (promises settled, tasks started, callbacks called) in
  order and the new state. A task is the number of its closure. The log calls and re-entrant
  calls from an onWait callback are not modelled, nor the test-only reset.
\<close>

subsection \<open>State\<close>

record queue_entry =
  qe_task :: nat
  qe_enqueuedAt :: int
  qe_warnAfterMs :: int
  qe_taskTimeoutMs :: "int option"
  qe_onWait :: bool

record lane_state =
  ln_lane :: string
  ln_queue :: "queue_entry list"
  ln_activeTaskIds :: "nat list"
  ln_maxConcurrent :: jsnum
  ln_draining :: bool
  ln_generation :: nat

record lane_snapshot =
  ls_lane :: string
  ls_queuedCount :: nat
  ls_activeCount :: nat
  ls_maxConcurrent :: jsnum
  ls_draining :: bool
  ls_generation :: nat

record active_waiter =
  aw_id :: nat
  aw_activeTaskIds :: "nat list"
  aw_timeout :: "jsnum option"

record running_task =
  rt_id :: nat
  rt_lane :: string
  rt_generation :: nat
  rt_entry :: queue_entry

record queue_state =
  qs_gatewayDraining :: bool
  qs_lanes :: "(string, lane_state) js_map"
  qs_waiters :: "active_waiter list"
  qs_nextTaskId :: nat
  qs_running :: "running_task list"
  qs_nextWaiter :: nat

record enqueue_options =
  eo_warnAfterMs :: "int option"
  eo_taskTimeoutMs :: "jsnum option"
  eo_onWait :: bool

datatype task_outcome = TaskOk | TaskFailed | TaskTimedOut

datatype queue_effect =
    Accepted string queue_entry
  | RejectedDraining nat
  | OnWaitCalled queue_entry int nat
  | Started string nat queue_entry
  | Resolved nat queue_entry
  | Rejected nat queue_entry task_outcome
  | Cleared string queue_entry
  | WaiterDone nat bool

text \<open>The module's state when it is first used.\<close>

definition initial_queue_state :: queue_state where
  "initial_queue_state = \<lparr>qs_gatewayDraining = False, qs_lanes = [], qs_waiters = [],
     qs_nextTaskId = 1, qs_running = [], qs_nextWaiter = 0\<rparr>"

subsection \<open>Lanes\<close>

definition main_lane :: string where "main_lane = ''main''"

definition normalizeLane :: "string \<Rightarrow> string" where
  "normalizeLane lane = or_str (js_trim lane) main_lane"

definition is_probe_lane :: "string \<Rightarrow> bool" where
  "is_probe_lane lane = (starts_with lane ''auth-probe:'' \<or> starts_with lane ''session:probe-'')"

definition getLaneDepth :: "lane_state \<Rightarrow> nat" where
  "getLaneDepth state = length (ln_queue state) + length (ln_activeTaskIds state)"

definition createCommandLaneSnapshot :: "lane_state \<Rightarrow> lane_snapshot" where
  "createCommandLaneSnapshot state =
     \<lparr>ls_lane = ln_lane state, ls_queuedCount = length (ln_queue state),
      ls_activeCount = length (ln_activeTaskIds state), ls_maxConcurrent = ln_maxConcurrent state,
      ls_draining = ln_draining state, ls_generation = ln_generation state\<rparr>"

definition new_lane :: "string \<Rightarrow> lane_state" where
  "new_lane lane = \<lparr>ln_lane = lane, ln_queue = [], ln_activeTaskIds = [],
     ln_maxConcurrent = jn_of_int 1, ln_draining = False, ln_generation = 0\<rparr>"

text \<open>\<open>getLaneState\<close> creates a missing lane; \<open>put_lane\<close> is the mutation of a lane object.\<close>

definition put_lane :: "lane_state \<Rightarrow> queue_state \<Rightarrow> queue_state" where
  "put_lane ls st = st\<lparr>qs_lanes := map_set (qs_lanes st) (ln_lane ls) ls\<rparr>"

definition getLaneState :: "string \<Rightarrow> queue_state \<Rightarrow> lane_state \<times> queue_state" where
  "getLaneState lane st =
     (case map_get (qs_lanes st) lane of
        Some ls \<Rightarrow> (ls, st)
      | None \<Rightarrow> (new_lane lane, put_lane (new_lane lane) st))"

subsection \<open>Waiters\<close>

definition hasPendingActiveTasks :: "queue_state \<Rightarrow> nat list \<Rightarrow> bool" where
  "hasPendingActiveTasks st taskIds =
     list_ex (\<lambda>(k, ls). list_ex (\<lambda>i. i \<in> set taskIds) (ln_activeTaskIds ls)) (qs_lanes st)"

definition resolveActiveTaskWaiter ::
  "active_waiter \<Rightarrow> bool \<Rightarrow> queue_state \<Rightarrow> queue_effect list \<times> queue_state" where
  "resolveActiveTaskWaiter waiter drained st =
     (if waiter \<notin> set (qs_waiters st) then ([], st)
      else ([WaiterDone (aw_id waiter) drained],
            st\<lparr>qs_waiters := set_delete (qs_waiters st) waiter\<rparr>))"

fun notify_loop :: "active_waiter list \<Rightarrow> queue_state \<Rightarrow> queue_effect list \<times> queue_state" where
  "notify_loop [] st = ([], st)"
| "notify_loop (waiter # ws) st =
     (if length (aw_activeTaskIds waiter) = 0 \<or> \<not> hasPendingActiveTasks st (aw_activeTaskIds waiter)
      then let (eff, st1) = resolveActiveTaskWaiter waiter True st;
               (effs, st2) = notify_loop ws st1
           in (eff @ effs, st2)
      else notify_loop ws st)"

definition notifyActiveTaskWaiters :: "queue_state \<Rightarrow> queue_effect list \<times> queue_state" where
  "notifyActiveTaskWaiters st = notify_loop (qs_waiters st) st"

subsection \<open>Starting tasks\<close>

definition normalizeTaskTimeoutMs :: "jsnum option \<Rightarrow> int option" where
  "normalizeTaskTimeoutMs value =
     (case value of
        Some (Fin r) \<Rightarrow> if r \<le> 0 then None else Some (max 1 \<lfloor>r\<rfloor>)
      | _ \<Rightarrow> None)"

text \<open>
  The loop of \<open>pump\<close> over the queue of a lane: the lane, the next task id, the tasks it started
  and the effects. The queue is the second last argument, so the loop is structural.
\<close>

fun pump_loop ::
  "int \<Rightarrow> nat \<Rightarrow> queue_entry list \<Rightarrow> lane_state \<Rightarrow>
   lane_state \<times> nat \<times> running_task list \<times> queue_effect list" where
  "pump_loop now nextId [] state = (state\<lparr>ln_queue := []\<rparr>, nextId, [], [])"
| "pump_loop now nextId (entry # queue) state =
     (if js_less (jn_of_int (int (length (ln_activeTaskIds state)))) (ln_maxConcurrent state) then
        let waitedMs = now - qe_enqueuedAt entry;
            waits = (if waitedMs \<ge> qe_warnAfterMs entry \<and> qe_onWait entry
                     then [OnWaitCalled entry waitedMs (length queue)] else []);
            task = \<lparr>rt_id = nextId, rt_lane = ln_lane state, rt_generation = ln_generation state,
                    rt_entry = entry\<rparr>;
            state1 = state\<lparr>ln_activeTaskIds := set_add (ln_activeTaskIds state) nextId\<rparr>;
            (state2, nextId2, tasks, effs) = pump_loop now (nextId + 1) queue state1
        in (state2, nextId2, task # tasks, waits @ [Started (ln_lane state) nextId entry] @ effs)
      else (state\<lparr>ln_queue := entry # queue\<rparr>, nextId, [], []))"

definition pump :: "int \<Rightarrow> lane_state \<Rightarrow> queue_state \<Rightarrow> queue_effect list \<times> queue_state" where
  "pump now state st =
     (let (state1, nextId, tasks, effs) = pump_loop now (qs_nextTaskId st) (ln_queue state) state
      in (effs, (put_lane (state1\<lparr>ln_draining := False\<rparr>) st)
                  \<lparr>qs_nextTaskId := nextId, qs_running := qs_running st @ tasks\<rparr>))"

definition drainLane :: "int \<Rightarrow> string \<Rightarrow> queue_state \<Rightarrow> queue_effect list \<times> queue_state" where
  "drainLane now lane st =
     (let (state, st1) = getLaneState lane st in
      if ln_draining state then ([], st1)
      else pump now (state\<lparr>ln_draining := True\<rparr>) st1)"

subsection \<open>Completions\<close>

text \<open>
  \<open>completeTask\<close> returns whether the completion belongs to the lane's generation, and the lane
  after it.
\<close>

definition completeTask :: "lane_state \<Rightarrow> nat \<Rightarrow> nat \<Rightarrow> bool \<times> lane_state" where
  "completeTask state taskId taskGeneration =
     (if taskGeneration \<noteq> ln_generation state then (False, state)
      else (True, state\<lparr>ln_activeTaskIds := set_delete (ln_activeTaskIds state) taskId\<rparr>))"

text \<open>The end of the async closure of a running task: its promise settled, or its timeout fired.\<close>

definition settle_effect :: "running_task \<Rightarrow> task_outcome \<Rightarrow> queue_effect" where
  "settle_effect task outcome =
     (if outcome = TaskOk then Resolved (rt_id task) (rt_entry task)
      else Rejected (rt_id task) (rt_entry task) outcome)"

definition finish_task ::
  "int \<Rightarrow> running_task \<Rightarrow> task_outcome \<Rightarrow> queue_state \<Rightarrow> queue_effect list \<times> queue_state" where
  "finish_task now task outcome st =
     (let st0 = st\<lparr>qs_running := remove1 task (qs_running st)\<rparr> in
      case map_get (qs_lanes st0) (rt_lane task) of
        None \<Rightarrow> ([settle_effect task outcome], st0)
      | Some state \<Rightarrow>
          (let (current, state1) = completeTask state (rt_id task) (rt_generation task);
               st1 = put_lane state1 st0
           in if current then
                (let (effs1, st2) = notifyActiveTaskWaiters st1;
                     (effs2, st3) = pump now state1 st2
                 in (effs1 @ effs2 @ [settle_effect task outcome], st3))
              else ([settle_effect task outcome], st1)))"

subsection \<open>Operations\<close>

definition markGatewayDraining :: "queue_state \<Rightarrow> queue_state" where
  "markGatewayDraining st = st\<lparr>qs_gatewayDraining := True\<rparr>"

definition setCommandLaneConcurrency ::
  "int \<Rightarrow> string \<Rightarrow> jsnum \<Rightarrow> queue_state \<Rightarrow> queue_effect list \<times> queue_state" where
  "setCommandLaneConcurrency now lane maxConcurrent st =
     (let cleaned = normalizeLane lane;
          (state, st1) = getLaneState cleaned st;
          minConcurrent = (if is_probe_lane cleaned then 1 else 0);
          limit = js_max (jn_of_int minConcurrent) (js_floor maxConcurrent);
          st2 = put_lane (state\<lparr>ln_maxConcurrent := limit\<rparr>) st1
      in if js_less (jn_of_int 0) limit then drainLane now cleaned st2 else ([], st2))"

definition enqueueCommandInLane ::
  "int \<Rightarrow> string \<Rightarrow> nat \<Rightarrow> enqueue_options \<Rightarrow> queue_state \<Rightarrow> queue_effect list \<times> queue_state" where
  "enqueueCommandInLane now lane task opts st =
     (if qs_gatewayDraining st then ([RejectedDraining task], st)
      else
        let cleaned = normalizeLane lane;
            (state, st1) = getLaneState cleaned st;
            entry = \<lparr>qe_task = task, qe_enqueuedAt = now,
                     qe_warnAfterMs = nullish (eo_warnAfterMs opts) 2000,
                     qe_taskTimeoutMs = normalizeTaskTimeoutMs (eo_taskTimeoutMs opts),
                     qe_onWait = eo_onWait opts\<rparr>;
            st2 = put_lane (state\<lparr>ln_queue := ln_queue state @ [entry]\<rparr>) st1;
            (effs, st3) = drainLane now cleaned st2
        in (Accepted cleaned entry # effs, st3))"

definition enqueueCommand ::
  "int \<Rightarrow> nat \<Rightarrow> enqueue_options \<Rightarrow> queue_state \<Rightarrow> queue_effect list \<times> queue_state" where
  "enqueueCommand now task opts st = enqueueCommandInLane now main_lane task opts st"

definition getQueueSize :: "string \<Rightarrow> queue_state \<Rightarrow> nat" where
  "getQueueSize lane st =
     (case map_get (qs_lanes st) (normalizeLane lane) of None \<Rightarrow> 0 | Some ls \<Rightarrow> getLaneDepth ls)"

definition getCommandLaneSnapshot :: "string \<Rightarrow> queue_state \<Rightarrow> lane_snapshot" where
  "getCommandLaneSnapshot lane st =
     (case map_get (qs_lanes st) (normalizeLane lane) of
        None \<Rightarrow> \<lparr>ls_lane = normalizeLane lane, ls_queuedCount = 0, ls_activeCount = 0,
                 ls_maxConcurrent = jn_of_int 1, ls_draining = False, ls_generation = 0\<rparr>
      | Some ls \<Rightarrow> createCommandLaneSnapshot ls)"

definition getCommandLaneSnapshots ::
  "(string \<Rightarrow> string \<Rightarrow> int) \<Rightarrow> queue_state \<Rightarrow> lane_snapshot list" where
  "getCommandLaneSnapshots lc st =
     sort_by (\<lambda>a b. lc (ls_lane a) (ls_lane b)) (map (createCommandLaneSnapshot \<circ> snd) (qs_lanes st))"

definition getTotalQueueSize :: "queue_state \<Rightarrow> nat" where
  "getTotalQueueSize st = foldl (\<lambda>total (k, ls). total + getLaneDepth ls) 0 (qs_lanes st)"

definition getActiveTaskCount :: "queue_state \<Rightarrow> nat" where
  "getActiveTaskCount st = foldl (\<lambda>total (k, ls). total + length (ln_activeTaskIds ls)) 0 (qs_lanes st)"

definition clearCommandLane ::
  "string \<Rightarrow> queue_state \<Rightarrow> nat \<times> queue_effect list \<times> queue_state" where
  "clearCommandLane lane st =
     (let cleaned = normalizeLane lane in
      case map_get (qs_lanes st) cleaned of
        None \<Rightarrow> (0, [], st)
      | Some ls \<Rightarrow>
          (length (ln_queue ls), map (Cleared cleaned) (ln_queue ls),
           put_lane (ls\<lparr>ln_queue := []\<rparr>) st))"

definition released_lane :: "lane_state \<Rightarrow> lane_state" where
  "released_lane ls = ls\<lparr>ln_generation := ln_generation ls + 1, ln_activeTaskIds := [],
     ln_draining := False\<rparr>"

definition resetCommandLane ::
  "int \<Rightarrow> string \<Rightarrow> queue_state \<Rightarrow> nat \<times> queue_effect list \<times> queue_state" where
  "resetCommandLane now lane st =
     (let cleaned = normalizeLane lane in
      case map_get (qs_lanes st) cleaned of
        None \<Rightarrow> (0, [], st)
      | Some ls \<Rightarrow>
          (let st1 = put_lane (released_lane ls) st;
               (effs1, st2) = (if length (ln_queue ls) > 0 then drainLane now cleaned st1 else ([], st1));
               (effs2, st3) = notifyActiveTaskWaiters st2
           in (length (ln_activeTaskIds ls), effs1 @ effs2, st3)))"

fun drain_lanes :: "int \<Rightarrow> string list \<Rightarrow> queue_state \<Rightarrow> queue_effect list \<times> queue_state" where
  "drain_lanes now [] st = ([], st)"
| "drain_lanes now (lane # lanes) st =
     (let (effs1, st1) = drainLane now lane st;
          (effs2, st2) = drain_lanes now lanes st1
      in (effs1 @ effs2, st2))"

definition resetAllLanes :: "int \<Rightarrow> queue_state \<Rightarrow> queue_effect list \<times> queue_state" where
  "resetAllLanes now st =
     (let lanesToDrain = map (ln_lane \<circ> snd) (filter (\<lambda>(k, ls). length (ln_queue ls) > 0) (qs_lanes st));
          st1 = st\<lparr>qs_gatewayDraining := False,
                   qs_lanes := map (\<lambda>(k, ls). (k, released_lane ls)) (qs_lanes st)\<rparr>;
          (effs1, st2) = drain_lanes now lanesToDrain st1;
          (effs2, st3) = notifyActiveTaskWaiters st2
      in (effs1 @ effs2, st3))"

definition active_task_ids :: "queue_state \<Rightarrow> nat list" where
  "active_task_ids st = js_uniq (concat (map (ln_activeTaskIds \<circ> snd) (qs_lanes st)))"

definition waitForActiveTasks :: "jsnum option \<Rightarrow> queue_state \<Rightarrow> queue_effect list \<times> queue_state" where
  "waitForActiveTasks timeoutMs st =
     (let activeAtStart = active_task_ids st;
          wid = qs_nextWaiter st;
          st0 = st\<lparr>qs_nextWaiter := wid + 1\<rparr>
      in if length activeAtStart = 0 then ([WaiterDone wid True], st0)
         else if (case timeoutMs of None \<Rightarrow> False | Some t \<Rightarrow> js_le t (jn_of_int 0))
              then ([WaiterDone wid False], st0)
         else notifyActiveTaskWaiters
                (st0\<lparr>qs_waiters := set_add (qs_waiters st0)
                       \<lparr>aw_id = wid, aw_activeTaskIds = activeAtStart, aw_timeout = timeoutMs\<rparr>\<rparr>))"

text \<open>The timeout of a waiter.\<close>

definition waiter_timeout :: "active_waiter \<Rightarrow> queue_state \<Rightarrow> queue_effect list \<times> queue_state" where
  "waiter_timeout waiter st = resolveActiveTaskWaiter waiter False st"

end
