(* ===== verification/CommandQueueInv.thy ===== *)
theory CommandQueueInv
  imports CommandQueue
begin

section \<open>Invariants of the command queue\<close>

text \<open>
  The step relation of the queue, over every exported operation, every completion of a running
  task and every waiter timeout, and the invariant every step keeps: the active ids of a lane
  are exactly its running tasks of the current generation, no lane is left draining, and no
  lane has queued work while it is below its concurrency limit.
\<close>

subsection \<open>What the pump loop does\<close>

lemma pump_loop_spec:
  assumes "pump_loop now n q s = (s', n', tasks, effs)"
    and "\<forall>i\<in>set (ln_activeTaskIds s). i < n"
  shows "ln_lane s' = ln_lane s \<and> ln_generation s' = ln_generation s \<and>
    ln_maxConcurrent s' = ln_maxConcurrent s \<and> ln_draining s' = ln_draining s \<and>
    ln_activeTaskIds s' = ln_activeTaskIds s @ map rt_id tasks \<and>
    n' = n + length tasks \<and> map rt_id tasks = [n..<n + length tasks] \<and>
    (\<forall>t\<in>set tasks. rt_lane t = ln_lane s \<and> rt_generation t = ln_generation s) \<and>
    map rt_entry tasks @ ln_queue s' = q \<and>
    (ln_queue s' = [] \<or> \<not> js_less (jn_of_int (int (length (ln_activeTaskIds s')))) (ln_maxConcurrent s'))"
  using assms
proof (induction now n q s arbitrary: s' n' tasks effs rule: pump_loop.induct)
  case (2 now n e q s)
  show ?case
  proof (cases "js_less (jn_of_int (int (length (ln_activeTaskIds s)))) (ln_maxConcurrent s)")
    case True
    let ?s1 = "s\<lparr>ln_activeTaskIds := set_add (ln_activeTaskIds s) n\<rparr>"
    obtain s2 n2 ts es where rec: "pump_loop now (n + 1) q ?s1 = (s2, n2, ts, es)"
      by (metis prod_cases4)
    have add: "set_add (ln_activeTaskIds s) n = ln_activeTaskIds s @ [n]"
      using 2(3) by (auto simp: set_add_def)
    have fresh: "\<forall>i\<in>set (ln_activeTaskIds ?s1). i < n + 1"
      using 2(3) by (auto simp: add less_SucI)
    note whole = 2(1)[OF True refl refl refl refl rec fresh]
    have wc: "ln_queue s2 = [] \<or>
        \<not> js_less (jn_of_int (int (length (ln_activeTaskIds s2)))) (ln_maxConcurrent s2)"
      using whole by blast
    have IH: "ln_lane s2 = ln_lane s \<and> ln_generation s2 = ln_generation s \<and>
      ln_maxConcurrent s2 = ln_maxConcurrent s \<and> ln_draining s2 = ln_draining s \<and>
      ln_activeTaskIds s2 = ln_activeTaskIds s @ n # map rt_id ts \<and>
      n2 = Suc n + length ts \<and> map rt_id ts = [Suc n..<Suc n + length ts] \<and>
      (\<forall>t\<in>set ts. rt_lane t = ln_lane s \<and> rt_generation t = ln_generation s) \<and>
      map rt_entry ts @ ln_queue s2 = q"
      using whole by (simp add: add)
    have res: "s' = s2" "n' = n2"
      "tasks = \<lparr>rt_id = n, rt_lane = ln_lane s, rt_generation = ln_generation s, rt_entry = e\<rparr> # ts"
      using 2(2) True rec by (auto simp: Let_def)
    have "[n..<n + length tasks] = n # [Suc n..<Suc n + length ts]"
      by (simp add: res upt_conv_Cons del: upt_Suc)
    with IH have "ln_lane s' = ln_lane s \<and> ln_generation s' = ln_generation s \<and>
      ln_maxConcurrent s' = ln_maxConcurrent s \<and> ln_draining s' = ln_draining s \<and>
      ln_activeTaskIds s' = ln_activeTaskIds s @ map rt_id tasks \<and>
      n' = n + length tasks \<and> map rt_id tasks = [n..<n + length tasks] \<and>
      (\<forall>t\<in>set tasks. rt_lane t = ln_lane s \<and> rt_generation t = ln_generation s) \<and>
      map rt_entry tasks @ ln_queue s' = e # q"
      by (simp add: res del: upt_Suc)
    with wc show ?thesis unfolding res(1) by blast
  next
    case False
    then show ?thesis using 2(2) by auto
  qed
qed auto

subsection \<open>The invariant\<close>

text \<open>
  \<open>lane_linked\<close>: the active ids of a lane are distinct and each belongs to a running task of
  the lane and its current generation. \<open>task_linked\<close> is the converse. \<open>lane_settled\<close> says that
  the lane is not draining and has no queued work it could start.
\<close>

definition lane_linked :: "queue_state \<Rightarrow> string \<Rightarrow> lane_state \<Rightarrow> bool" where
  "lane_linked st L ls =
     (ln_lane ls = L \<and> distinct (ln_activeTaskIds ls) \<and>
      (\<forall>i\<in>set (ln_activeTaskIds ls). \<exists>r\<in>set (qs_running st).
         rt_id r = i \<and> rt_lane r = L \<and> rt_generation r = ln_generation ls))"

definition task_linked :: "queue_state \<Rightarrow> running_task \<Rightarrow> bool" where
  "task_linked st r =
     (rt_id r < qs_nextTaskId st \<and>
      (\<exists>ls. map_get (qs_lanes st) (rt_lane r) = Some ls \<and> rt_generation r \<le> ln_generation ls \<and>
         (rt_generation r = ln_generation ls \<longrightarrow> rt_id r \<in> set (ln_activeTaskIds ls))))"

definition lane_settled :: "lane_state \<Rightarrow> bool" where
  "lane_settled ls =
     (\<not> ln_draining ls \<and> (ln_queue ls = [] \<or>
        \<not> js_less (jn_of_int (int (length (ln_activeTaskIds ls)))) (ln_maxConcurrent ls)))"

definition queue_core :: "queue_state \<Rightarrow> bool" where
  "queue_core st =
     (wf_map (qs_lanes st) \<and>
      (\<forall>L ls. map_get (qs_lanes st) L = Some ls \<longrightarrow> lane_linked st L ls) \<and>
      (\<forall>r\<in>set (qs_running st). task_linked st r) \<and>
      distinct (map rt_id (qs_running st)))"

definition lanes_settled :: "string set \<Rightarrow> queue_state \<Rightarrow> bool" where
  "lanes_settled X st =
     (\<forall>L ls. L \<notin> X \<longrightarrow> map_get (qs_lanes st) L = Some ls \<longrightarrow> lane_settled ls)"

text \<open>The ids active in some lane; every waiter still waits for one of them.\<close>

definition active_in :: "queue_state \<Rightarrow> nat \<Rightarrow> bool" where
  "active_in st i = (\<exists>L ls. map_get (qs_lanes st) L = Some ls \<and> i \<in> set (ln_activeTaskIds ls))"

definition waiters_pending :: "queue_state \<Rightarrow> bool" where
  "waiters_pending st = (\<forall>w\<in>set (qs_waiters st). hasPendingActiveTasks st (aw_activeTaskIds w))"

definition queue_inv :: "queue_state \<Rightarrow> bool" where
  "queue_inv st = (queue_core st \<and> lanes_settled {} st \<and> waiters_pending st)"

lemma queue_coreD:
  assumes "queue_core st"
  shows "wf_map (qs_lanes st)" "distinct (map rt_id (qs_running st))"
    and "map_get (qs_lanes st) L = Some ls \<Longrightarrow> lane_linked st L ls"
    and "r \<in> set (qs_running st) \<Longrightarrow> task_linked st r"
  using assms by (auto simp: queue_core_def)

lemma put_lane_simps [simp]:
  "qs_lanes (put_lane ls st) = map_set (qs_lanes st) (ln_lane ls) ls"
  "qs_running (put_lane ls st) = qs_running st"
  "qs_nextTaskId (put_lane ls st) = qs_nextTaskId st"
  "qs_waiters (put_lane ls st) = qs_waiters st"
  "qs_gatewayDraining (put_lane ls st) = qs_gatewayDraining st"
  "qs_nextWaiter (put_lane ls st) = qs_nextWaiter st"
  by (simp_all add: put_lane_def)

text \<open>Updates of a lane that leave its active ids and generation alone.\<close>

lemma queue_core_same:
  assumes core: "queue_core st" and ls: "map_get (qs_lanes st) L = Some ls"
    and same: "ln_lane ls' = L" "ln_activeTaskIds ls' = ln_activeTaskIds ls"
      "ln_generation ls' = ln_generation ls"
  shows "queue_core (put_lane ls' st)"
  unfolding queue_core_def
proof (intro conjI allI impI ballI)
  show "wf_map (qs_lanes (put_lane ls' st))" using core by (simp add: queue_coreD(1))
  show "distinct (map rt_id (qs_running (put_lane ls' st)))" using core by (simp add: queue_coreD(2))
next
  fix L' l' assume "map_get (qs_lanes (put_lane ls' st)) L' = Some l'"
  then show "lane_linked (put_lane ls' st) L' l'"
    using queue_coreD(3) [OF core] ls same by (auto simp: lane_linked_def split: if_splits)
next
  fix r assume "r \<in> set (qs_running (put_lane ls' st))"
  then have "task_linked st r" using core queue_coreD(4) by simp
  then show "task_linked (put_lane ls' st) r"
    using ls same by (cases "rt_lane r = L") (auto simp: task_linked_def)
qed

lemma queue_core_new:
  assumes core: "queue_core st" and none: "map_get (qs_lanes st) L = None"
  shows "queue_core (put_lane (new_lane L) st)"
  unfolding queue_core_def
proof (intro conjI allI impI ballI)
  show "wf_map (qs_lanes (put_lane (new_lane L) st))" using core by (simp add: queue_coreD(1))
  show "distinct (map rt_id (qs_running (put_lane (new_lane L) st)))"
    using core by (simp add: queue_coreD(2))
next
  fix L' l' assume "map_get (qs_lanes (put_lane (new_lane L) st)) L' = Some l'"
  then show "lane_linked (put_lane (new_lane L) st) L' l'"
    using queue_coreD(3) [OF core] by (auto simp: lane_linked_def new_lane_def split: if_splits)
next
  fix r assume "r \<in> set (qs_running (put_lane (new_lane L) st))"
  then have "task_linked st r" using core queue_coreD(4) by simp
  then show "task_linked (put_lane (new_lane L) st) r"
    using none by (auto simp: task_linked_def new_lane_def)
qed

lemma lanes_settled_put:
  assumes "lanes_settled X st" and "ln_lane ls \<in> X \<or> lane_settled ls"
  shows "lanes_settled X (put_lane ls st)"
  using assms by (auto simp: lanes_settled_def split: if_splits)

lemma lanes_settled_put_fix:
  assumes "lanes_settled (insert (ln_lane ls) X) st" and "lane_settled ls"
  shows "lanes_settled X (put_lane ls st)"
  using assms by (auto simp: lanes_settled_def split: if_splits)

text \<open>\<open>getLaneState\<close> returns the lane of that name and leaves the invariant.\<close>

lemma getLaneState_inv:
  assumes "getLaneState L st = (ls, st')" and "queue_core st"
  shows "queue_core st'" and "map_get (qs_lanes st') L = Some ls" and "ln_lane ls = L"
    and "lanes_settled X st \<Longrightarrow> lanes_settled X st'"
    and "qs_waiters st' = qs_waiters st"
proof -
  have settled: "lane_settled (new_lane L)" by (simp add: lane_settled_def new_lane_def)
  show "queue_core st'" "map_get (qs_lanes st') L = Some ls" "ln_lane ls = L"
    "lanes_settled X st \<Longrightarrow> lanes_settled X st'" "qs_waiters st' = qs_waiters st"
    using assms queue_core_new [OF assms(2)] queue_coreD(3) [OF assms(2), of L]
      lanes_settled_put [of X st "new_lane L"] settled
    by (auto simp: getLaneState_def lane_linked_def split: option.splits) (simp_all add: new_lane_def)
qed

subsection \<open>Pumping\<close>

lemma pump_inv:
  assumes core: "queue_core st" and ls: "map_get (qs_lanes st) L = Some ls"
    and same: "ln_lane s = L" "ln_activeTaskIds s = ln_activeTaskIds ls"
      "ln_generation s = ln_generation ls"
    and res: "pump now s st = (effs, st')"
  shows "queue_core st'" and "lanes_settled (insert L X) st \<Longrightarrow> lanes_settled X st'"
    and "qs_waiters st' = qs_waiters st"
proof -
  obtain s1 n1 tasks es where loop: "pump_loop now (qs_nextTaskId st) (ln_queue s) s = (s1, n1, tasks, es)"
    by (metis prod_cases4)
  let ?s2 = "s1\<lparr>ln_draining := False\<rparr>"
  have link: "lane_linked st L ls" using queue_coreD(3) [OF core ls] .
  have fresh: "\<forall>i\<in>set (ln_activeTaskIds s). i < qs_nextTaskId st"
  proof
    fix i assume "i \<in> set (ln_activeTaskIds s)"
    then obtain r where "r \<in> set (qs_running st)" "rt_id r = i"
      using link by (auto simp: lane_linked_def same)
    then show "i < qs_nextTaskId st" using queue_coreD(4) [OF core] by (auto simp: task_linked_def)
  qed
  note spec = pump_loop_spec [OF loop fresh]
  have ids: "map rt_id tasks = [qs_nextTaskId st..<qs_nextTaskId st + length tasks]" using spec by blast
  then have tid: "set (map rt_id tasks) = {qs_nextTaskId st..<qs_nextTaskId st + length tasks}"
    by (simp only: set_upt)
  have n1: "n1 = qs_nextTaskId st + length tasks" using spec by blast
  have s2: "ln_lane ?s2 = L" "ln_generation ?s2 = ln_generation ls"
    "ln_activeTaskIds ?s2 = ln_activeTaskIds ls @ map rt_id tasks" "lane_settled ?s2"
    using spec same by (auto simp: lane_settled_def)
  have tasks: "\<forall>t\<in>set tasks. rt_lane t = L \<and> rt_generation t = ln_generation ls"
    using spec same by simp
  have st': "st' = (put_lane ?s2 st)\<lparr>qs_nextTaskId := n1, qs_running := qs_running st @ tasks\<rparr>"
    using res loop by (simp add: pump_def)
  have old: "rt_id r < qs_nextTaskId st" if "r \<in> set (qs_running st)" for r
    using queue_coreD(4) [OF core that] by (simp add: task_linked_def)
  show "queue_core st'" unfolding queue_core_def
  proof (intro conjI allI impI ballI)
    show "wf_map (qs_lanes st')" using core by (simp add: st' queue_coreD(1))
    have "distinct (map rt_id tasks)" by (simp only: ids distinct_upt)
    then show "distinct (map rt_id (qs_running st'))"
      using queue_coreD(2) [OF core] old tid by (fastforce simp: st')
  next
    fix L' l' assume l': "map_get (qs_lanes st') L' = Some l'"
    show "lane_linked st' L' l'"
    proof (cases "L' = L")
      case True
      then have "l' = ?s2" using l' s2(1) by (simp add: st')
      moreover have "distinct (ln_activeTaskIds ls @ map rt_id tasks)"
        using link fresh tid by (fastforce simp: lane_linked_def same ids)
      ultimately show ?thesis using True s2 link tasks
        by (auto simp: lane_linked_def st' simp del: ids)
    next
      case False
      then have "map_get (qs_lanes st) L' = Some l'" using l' s2(1) by (simp add: st')
      from queue_coreD(3) [OF core this] show ?thesis by (auto simp: lane_linked_def st')
    qed
  next
    fix r assume "r \<in> set (qs_running st')"
    then consider "r \<in> set (qs_running st)" | "r \<in> set tasks" by (auto simp: st')
    then show "task_linked st' r"
    proof cases
      case 1
      from queue_coreD(4) [OF core this] ls show ?thesis
        using s2 by (cases "rt_lane r = L") (auto simp: task_linked_def st' n1)
    next
      case 2
      then have "rt_id r < n1" using tid n1 by force
      with 2 tasks s2 show ?thesis by (auto simp: task_linked_def st')
    qed
  qed
  show "lanes_settled (insert L X) st \<Longrightarrow> lanes_settled X st'"
    using lanes_settled_put_fix [of ?s2 X st] s2 by (simp add: lanes_settled_def st')
  show "qs_waiters st' = qs_waiters st" by (simp add: st')
qed

lemma hasPending_iff:
  "wf_map (qs_lanes st) \<Longrightarrow> hasPendingActiveTasks st ids = (\<exists>i\<in>set ids. active_in st i)"
  by (fastforce simp: hasPendingActiveTasks_def active_in_def list_ex_iff map_get_iff)

lemma waiters_pending_mono:
  assumes "waiters_pending st" and "wf_map (qs_lanes st)" and "wf_map (qs_lanes st')"
    and "qs_waiters st' = qs_waiters st" and "\<And>i. active_in st i \<Longrightarrow> active_in st' i"
  shows "waiters_pending st'"
  using assms by (auto simp: waiters_pending_def hasPending_iff)

lemma active_in_put:
  assumes "map_get (qs_lanes st) (ln_lane ls') = Some ls"
    and "set (ln_activeTaskIds ls) \<subseteq> set (ln_activeTaskIds ls')" and "active_in st i"
  shows "active_in (put_lane ls' st) i"
proof -
  obtain L l where l: "map_get (qs_lanes st) L = Some l" "i \<in> set (ln_activeTaskIds l)"
    using assms(3) by (auto simp: active_in_def)
  show ?thesis
  proof (cases "L = ln_lane ls'")
    case True
    then show ?thesis using l assms(1,2) by (auto simp: active_in_def)
  next
    case False
    then show ?thesis using l unfolding active_in_def by (intro exI [of _ L]) simp
  qed
qed

lemma active_in_new:
  assumes "map_get (qs_lanes st) L = None" and "active_in st i"
  shows "active_in (put_lane (new_lane L) st) i"
proof -
  obtain L' l where l: "map_get (qs_lanes st) L' = Some l" "i \<in> set (ln_activeTaskIds l)"
    using assms(2) by (auto simp: active_in_def)
  moreover have "L' \<noteq> L" using l assms(1) by auto
  ultimately show ?thesis unfolding active_in_def by (intro exI [of _ L']) (simp add: new_lane_def)
qed

lemma getLaneState_active:
  "getLaneState L st = (ls, st') \<Longrightarrow> active_in st i \<Longrightarrow> active_in st' i"
  using active_in_new [of st L i] by (auto simp: getLaneState_def split: option.splits)

lemma pump_active:
  assumes "queue_core st" and "map_get (qs_lanes st) L = Some ls"
    and "ln_lane s = L" and "ln_activeTaskIds s = ln_activeTaskIds ls"
    and "pump now s st = (effs, st')" and "active_in st i"
  shows "active_in st' i"
proof -
  obtain s1 n1 tasks es where loop: "pump_loop now (qs_nextTaskId st) (ln_queue s) s = (s1, n1, tasks, es)"
    by (metis prod_cases4)
  have "\<forall>i\<in>set (ln_activeTaskIds s). i < qs_nextTaskId st"
    using queue_coreD(3) [OF assms(1,2)] queue_coreD(4) [OF assms(1)]
    by (fastforce simp: assms(4) lane_linked_def task_linked_def)
  note spec = pump_loop_spec [OF loop this]
  have "active_in (put_lane (s1\<lparr>ln_draining := False\<rparr>) st) i"
    by (rule active_in_put [OF _ _ assms(6), of _ ls]) (use spec assms(2,3,4) in auto)
  moreover have "qs_lanes st' = qs_lanes (put_lane (s1\<lparr>ln_draining := False\<rparr>) st)"
    using assms(5) loop by (auto simp: pump_def)
  ultimately show ?thesis by (simp only: active_in_def)
qed

subsection \<open>Notification\<close>

lemma notify_loop_spec:
  assumes "notify_loop ws st = (effs, st')"
  shows "qs_lanes st' = qs_lanes st \<and> qs_running st' = qs_running st \<and>
    qs_nextTaskId st' = qs_nextTaskId st \<and> qs_gatewayDraining st' = qs_gatewayDraining st \<and>
    set (qs_waiters st') = set (qs_waiters st) - {w \<in> set ws. length (aw_activeTaskIds w) = 0 \<or>
      \<not> hasPendingActiveTasks st (aw_activeTaskIds w)}"
  using assms
proof (induction ws arbitrary: st effs st')
  case (Cons w ws)
  show ?case
  proof (cases "length (aw_activeTaskIds w) = 0 \<or> \<not> hasPendingActiveTasks st (aw_activeTaskIds w)")
    case True
    obtain e1 st1 where r: "resolveActiveTaskWaiter w True st = (e1, st1)" by fastforce
    obtain e2 st2 where n: "notify_loop ws st1 = (e2, st2)" by fastforce
    have st1: "qs_lanes st1 = qs_lanes st" "qs_running st1 = qs_running st"
      "qs_nextTaskId st1 = qs_nextTaskId st" "qs_gatewayDraining st1 = qs_gatewayDraining st"
      "set (qs_waiters st1) = set (qs_waiters st) - {w}"
      using r by (auto simp: resolveActiveTaskWaiter_def split: if_splits)
    have pend: "hasPendingActiveTasks st1 ids = hasPendingActiveTasks st ids" for ids
      by (simp add: hasPendingActiveTasks_def st1)
    have st': "st' = st2" using Cons.prems True r n by simp
    show ?thesis unfolding st' using Cons.IH [OF n] True by (auto simp: st1 pend)
  next
    case False
    then have "notify_loop ws st = (effs, st')" using Cons.prems by simp
    from Cons.IH [OF this] False show ?thesis by auto
  qed
qed simp

lemma queue_core_cong:
  "qs_lanes st' = qs_lanes st \<Longrightarrow> qs_running st' = qs_running st \<Longrightarrow>
   qs_nextTaskId st' = qs_nextTaskId st \<Longrightarrow> queue_core st' = queue_core st"
  by (simp add: queue_core_def lane_linked_def task_linked_def)

lemma lanes_settled_cong: "qs_lanes st' = qs_lanes st \<Longrightarrow> lanes_settled X st' = lanes_settled X st"
  by (simp add: lanes_settled_def)

lemma notify_inv:
  assumes "notifyActiveTaskWaiters st = (effs, st')"
  shows "queue_core st' = queue_core st" and "lanes_settled X st' = lanes_settled X st"
    and "waiters_pending st'" and "qs_lanes st' = qs_lanes st"
    and "qs_running st' = qs_running st" and "qs_nextTaskId st' = qs_nextTaskId st"
proof -
  note spec = notify_loop_spec [OF assms [unfolded notifyActiveTaskWaiters_def]]
  then show frame: "qs_lanes st' = qs_lanes st" "qs_running st' = qs_running st"
    "qs_nextTaskId st' = qs_nextTaskId st" by blast+
  show "queue_core st' = queue_core st" by (rule queue_core_cong [OF frame])
  show "lanes_settled X st' = lanes_settled X st" by (rule lanes_settled_cong [OF frame(1)])
  have "hasPendingActiveTasks st' ids = hasPendingActiveTasks st ids" for ids
    using spec by (simp add: hasPendingActiveTasks_def)
  then show "waiters_pending st'" using spec by (auto simp: waiters_pending_def)
qed

subsection \<open>Draining a lane\<close>

lemma drainLane_inv:
  assumes "drainLane now L st = (effs, st')" and "queue_core st"
    and "\<And>ls. map_get (qs_lanes st) L = Some ls \<Longrightarrow> \<not> ln_draining ls"
  shows "queue_core st'" and "lanes_settled (insert L X) st \<Longrightarrow> lanes_settled X st'"
    and "qs_waiters st' = qs_waiters st" and "active_in st i \<Longrightarrow> active_in st' i"
proof -
  obtain ls st1 where get: "getLaneState L st = (ls, st1)" by fastforce
  note g = getLaneState_inv [OF get assms(2)]
  have "\<not> ln_draining ls"
  proof (cases "map_get (qs_lanes st) L")
    case None
    then have "ls = new_lane L" using get by (simp add: getLaneState_def)
    then show ?thesis by (simp add: new_lane_def)
  next
    case (Some l)
    then have "l = ls" using get by (simp add: getLaneState_def)
    with assms(3) [OF Some] show ?thesis by simp
  qed
  then have p: "pump now (ls\<lparr>ln_draining := True\<rparr>) st1 = (effs, st')"
    using assms(1) get by (simp add: drainLane_def)
  note q = pump_inv [OF g(1,2) _ _ _ p]
  show "queue_core st'" using q(1) g(3) by simp
  show "lanes_settled (insert L X) st \<Longrightarrow> lanes_settled X st'" using q(2) g(3,4) by simp
  show "qs_waiters st' = qs_waiters st" using q(3) g(3,5) by simp
  show "active_in st i \<Longrightarrow> active_in st' i"
    using pump_active [OF g(1,2) _ _ p] getLaneState_active [OF get] g(3) by simp
qed

subsection \<open>Completions\<close>

lemma running_unique:
  "distinct (map rt_id rs) \<Longrightarrow> r \<in> set rs \<Longrightarrow> r' \<in> set rs \<Longrightarrow> rt_id r = rt_id r' \<Longrightarrow> r = r'"
  by (induction rs) (auto simp: image_iff)

lemma set_remove1_running:
  "distinct (map rt_id rs) \<Longrightarrow> set (remove1 r rs) = set rs - {r}"
  by (simp add: distinct_map)

lemma complete_core:
  assumes core: "queue_core st" and r: "r \<in> set (qs_running st)"
    and ls: "map_get (qs_lanes st) (rt_lane r) = Some ls"
    and complete: "completeTask ls (rt_id r) (rt_generation r) = (current, ls1)"
  shows "queue_core (put_lane ls1 (st\<lparr>qs_running := remove1 r (qs_running st)\<rparr>))"
    and "ln_lane ls1 = rt_lane r"
proof -
  let ?st = "put_lane ls1 (st\<lparr>qs_running := remove1 r (qs_running st)\<rparr>)"
  note dist = queue_coreD(2) [OF core]
  have link: "lane_linked st (rt_lane r) ls" using queue_coreD(3) [OF core ls] .
  show lane: "ln_lane ls1 = rt_lane r"
    using complete link by (auto simp: completeTask_def lane_linked_def split: if_splits)
  have run: "set (qs_running ?st) = set (qs_running st) - {r}"
    by (simp add: set_remove1_running [OF dist])
  have gen: "ln_generation ls1 = ln_generation ls"
    using complete by (auto simp: completeTask_def split: if_splits)
  have act: "set (ln_activeTaskIds ls1) = (if current then set (ln_activeTaskIds ls) - {rt_id r}
      else set (ln_activeTaskIds ls))" "current = (rt_generation r = ln_generation ls)"
    "distinct (ln_activeTaskIds ls1)"
    using complete link by (auto simp: completeTask_def lane_linked_def split: if_splits)
  show "queue_core ?st" unfolding queue_core_def
  proof (intro conjI allI impI ballI)
    show "wf_map (qs_lanes ?st)" using core by (simp add: queue_coreD(1))
    show "distinct (map rt_id (qs_running ?st))"
      using dist by (simp add: distinct_map distinct_remove1 inj_on_def set_remove1_running [OF dist])
  next
    fix L' l' assume l': "map_get (qs_lanes ?st) L' = Some l'"
    show "lane_linked ?st L' l'"
    proof (cases "L' = rt_lane r")
      case True
      then have l'_eq: "l' = ls1" using l' lane by simp
      have "\<exists>q\<in>set (qs_running ?st). rt_id q = i \<and> rt_lane q = L' \<and>
          rt_generation q = ln_generation ls1" if i: "i \<in> set (ln_activeTaskIds ls1)" for i
      proof -
        have "i \<in> set (ln_activeTaskIds ls)" using i act(1) by (simp split: if_splits)
        then obtain q where q: "q \<in> set (qs_running st)" "rt_id q = i" "rt_lane q = L'"
            "rt_generation q = ln_generation ls"
          using link True by (auto simp: lane_linked_def)
        have "q \<noteq> r"
        proof
          assume "q = r"
          then have current using q(4) act(2) by simp
          then have "i \<noteq> rt_id r" using i act(1) by simp
          then show False using \<open>q = r\<close> q(2) by simp
        qed
        then show ?thesis using q gen run by auto
      qed
      then show ?thesis using True act(3) lane by (simp add: lane_linked_def l'_eq)
    next
      case False
      then have old: "lane_linked st L' l'" using l' lane queue_coreD(3) [OF core] by simp
      have "\<exists>q\<in>set (qs_running ?st). rt_id q = i \<and> rt_lane q = L' \<and>
          rt_generation q = ln_generation l'" if i: "i \<in> set (ln_activeTaskIds l')" for i
      proof -
        obtain q where q: "q \<in> set (qs_running st)" "rt_id q = i" "rt_lane q = L'"
            "rt_generation q = ln_generation l'"
          using old i by (auto simp: lane_linked_def)
        then have "q \<noteq> r" using False by auto
        then show ?thesis using q run by auto
      qed
      then show ?thesis using old by (simp add: lane_linked_def)
    qed
  next
    fix r' assume "r' \<in> set (qs_running ?st)"
    then have r': "r' \<in> set (qs_running st)" "r' \<noteq> r" unfolding run by auto
    then have "rt_id r' \<noteq> rt_id r" using running_unique [OF dist r'(1) r] by blast
    then show "task_linked ?st r'"
      using queue_coreD(4) [OF core r'(1)] ls act gen lane
      by (cases "rt_lane r' = rt_lane r") (auto simp: task_linked_def)
  qed
qed

lemma waiters_pending_cong:
  "qs_lanes st' = qs_lanes st \<Longrightarrow> qs_waiters st' = qs_waiters st \<Longrightarrow>
   waiters_pending st' = waiters_pending st"
  by (simp add: waiters_pending_def hasPendingActiveTasks_def)

lemma finish_inv:
  assumes inv: "queue_inv st" and r: "r \<in> set (qs_running st)"
    and res: "finish_task now r outcome st = (effs, st')"
  shows "queue_inv st'"
proof -
  have core: "queue_core st" and settled: "lanes_settled {} st" and wait: "waiters_pending st"
    using inv by (auto simp: queue_inv_def)
  obtain ls where ls: "map_get (qs_lanes st) (rt_lane r) = Some ls"
    using queue_coreD(4) [OF core r] by (auto simp: task_linked_def)
  obtain current ls1 where complete: "completeTask ls (rt_id r) (rt_generation r) = (current, ls1)"
    by fastforce
  let ?st0 = "st\<lparr>qs_running := remove1 r (qs_running st)\<rparr>"
  let ?st1 = "put_lane ls1 ?st0"
  note cc = complete_core [OF core r ls complete]
  show ?thesis
  proof (cases current)
    case True
    obtain e1 st2 where n: "notifyActiveTaskWaiters ?st1 = (e1, st2)" by fastforce
    obtain e2 st3 where p: "pump now ls1 st2 = (e2, st3)" by fastforce
    have st': "st' = st3" using res ls complete True n p by (simp add: finish_task_def)
    note nn = notify_inv [OF n]
    have get: "map_get (qs_lanes st2) (rt_lane r) = Some ls1" by (simp add: nn(4) cc(2))
    have core2: "queue_core st2" using nn(1) cc(1) by simp
    note pp = pump_inv [OF core2 get cc(2) refl refl p]
    have "lanes_settled {rt_lane r} ?st1"
      using settled cc(2) by (auto simp: lanes_settled_def)
    then have "lanes_settled {} st3" using pp(2) [of "{}"] nn(2) by simp
    moreover have "waiters_pending st3"
      by (rule waiters_pending_mono [OF nn(3) queue_coreD(1) [OF core2] queue_coreD(1) [OF pp(1)] pp(3)])
        (rule pump_active [OF core2 get cc(2) refl p])
    ultimately show ?thesis using pp(1) by (simp add: queue_inv_def st')
  next
    case False
    then have "ls1 = ls" using complete by (auto simp: completeTask_def split: if_splits)
    have st': "st' = ?st1" using res ls complete False by (simp add: finish_task_def)
    have "lane_settled ls" using settled ls by (auto simp: lanes_settled_def)
    then have "lanes_settled {} ?st1"
      using lanes_settled_put [of "{}" ?st0 ls1] settled \<open>ls1 = ls\<close> by (simp add: lanes_settled_def)
    moreover have "waiters_pending ?st1"
    proof (rule waiters_pending_mono [OF wait queue_coreD(1) [OF core] queue_coreD(1) [OF cc(1)]])
      fix i assume "active_in st i"
      then have "active_in ?st0 i" by (simp add: active_in_def)
      then show "active_in ?st1 i"
        by (rule active_in_put [rotated 2, of ?st0 i ls1 ls]) (use \<open>ls1 = ls\<close> ls cc(2) in simp_all)
    qed simp
    ultimately show ?thesis using cc(1) by (simp add: queue_inv_def st')
  qed
qed

subsection \<open>The other operations\<close>

definition lanes_idle :: "queue_state \<Rightarrow> bool" where
  "lanes_idle st = (\<forall>L ls. map_get (qs_lanes st) L = Some ls \<longrightarrow> \<not> ln_draining ls)"

lemma lanes_idleD: "lanes_idle st \<Longrightarrow> map_get (qs_lanes st) L = Some ls \<Longrightarrow> \<not> ln_draining ls"
  by (simp add: lanes_idle_def)

lemma lanes_settled_idle: "lanes_settled {} st \<Longrightarrow> lanes_idle st"
  by (auto simp: lanes_settled_def lanes_idle_def lane_settled_def)

lemma lanes_idle_put: "lanes_idle st \<Longrightarrow> \<not> ln_draining ls \<Longrightarrow> lanes_idle (put_lane ls st)"
  by (simp add: lanes_idle_def)

lemma drainLane_idle:
  assumes "drainLane now L st = (effs, st')" and "lanes_idle st" and "queue_core st"
  shows "lanes_idle st'"
proof -
  obtain ls st1 where get: "getLaneState L st = (ls, st1)" by fastforce
  have idle1: "lanes_idle st1"
    using get lanes_idle_put [OF assms(2), of "new_lane L"] assms(2)
    by (cases "map_get (qs_lanes st) L") (auto simp: getLaneState_def new_lane_def)
  have "\<not> ln_draining ls"
    using lanes_idleD [OF idle1 getLaneState_inv(2) [OF get assms(3)]] .
  then obtain s1 n1 tasks where "qs_lanes st' = qs_lanes (put_lane (s1\<lparr>ln_draining := False\<rparr>) st1)"
    using assms(1) get by (auto simp: drainLane_def pump_def split: prod.splits)
  moreover have "lanes_idle (put_lane (s1\<lparr>ln_draining := False\<rparr>) st1)"
    by (rule lanes_idle_put [OF idle1]) simp
  ultimately show ?thesis by (simp only: lanes_idle_def)
qed

text \<open>Changing a lane and draining it re-establishes the invariant.\<close>

lemma put_drain_inv:
  assumes core: "queue_core st" and settled: "lanes_settled {} st" and wait: "waiters_pending st"
    and ls: "map_get (qs_lanes st) L = Some ls"
    and same: "ln_lane ls' = L" "ln_activeTaskIds ls' = ln_activeTaskIds ls"
      "ln_generation ls' = ln_generation ls" "ln_draining ls' = ln_draining ls"
    and res: "drainLane now L (put_lane ls' st) = (effs, st')"
  shows "queue_inv st'"
proof -
  have core2: "queue_core (put_lane ls' st)" by (rule queue_core_same [OF core ls same(1-3)])
  have "lanes_idle st" by (rule lanes_settled_idle [OF settled])
  then have idle: "lanes_idle (put_lane ls' st)"
    using lanes_idleD [OF _ ls] same(4) by (simp add: lanes_idle_put)
  have "lanes_settled {L} (put_lane ls' st)"
    using settled same(1) by (auto simp: lanes_settled_def)
  have nd: "\<And>l. map_get (qs_lanes (put_lane ls' st)) L = Some l \<Longrightarrow> \<not> ln_draining l"
    by (rule lanes_idleD [OF idle])
  note d = drainLane_inv [OF res core2 nd]
  have "waiters_pending st'"
    by (rule waiters_pending_mono [OF wait queue_coreD(1) [OF core] queue_coreD(1) [OF d(1)]])
      (use d(3) d(4) active_in_put [of st ls' ls] ls same in simp_all)
  then show ?thesis using d(1) d(2) [of "{}"] \<open>lanes_settled {L} (put_lane ls' st)\<close>
    by (simp add: queue_inv_def)
qed

lemma getLaneState_full:
  assumes "getLaneState L st = (ls, st1)" and "queue_inv st"
  shows "queue_core st1" "lanes_settled {} st1" "waiters_pending st1"
    "map_get (qs_lanes st1) L = Some ls" "ln_lane ls = L"
proof -
  have inv: "queue_core st" "lanes_settled {} st" "waiters_pending st"
    using assms(2) by (auto simp: queue_inv_def)
  note g = getLaneState_inv [OF assms(1) inv(1)]
  show "queue_core st1" "map_get (qs_lanes st1) L = Some ls" "ln_lane ls = L" by (rule g(1-3))+
  show "lanes_settled {} st1" using g(4) inv(2) .
  show "waiters_pending st1"
    by (rule waiters_pending_mono [OF inv(3) queue_coreD(1) [OF inv(1)] queue_coreD(1) [OF g(1)] g(5)])
      (rule getLaneState_active [OF assms(1)])
qed

lemma enqueue_inv:
  assumes "queue_inv st" and "enqueueCommandInLane now lane task opts st = (effs, st')"
  shows "queue_inv st'"
proof (cases "qs_gatewayDraining st")
  case True
  then show ?thesis using assms by (simp add: enqueueCommandInLane_def)
next
  case False
  obtain ls st1 where get: "getLaneState (normalizeLane lane) st = (ls, st1)" by fastforce
  note g = getLaneState_full [OF get assms(1)]
  obtain q e2 where "drainLane now (normalizeLane lane) (put_lane (ls\<lparr>ln_queue := q\<rparr>) st1) = (e2, st')"
    using assms(2) False get by (auto simp: enqueueCommandInLane_def Let_def split: prod.splits)
  from put_drain_inv [OF g(1-4) _ _ _ _ this] g(5) show ?thesis by simp
qed

lemma limit_zero_settled:
  assumes "\<not> js_less (jn_of_int 0) limit"
  shows "\<not> js_less (jn_of_int (int k)) limit"
proof
  assume "js_less (jn_of_int (int k)) limit"
  then show False using assms js_less_trans [of "jn_of_int 0" "jn_of_int (int k)" limit]
    by (cases "k = 0") auto
qed

lemma set_concurrency_inv:
  assumes "queue_inv st" and "setCommandLaneConcurrency now lane n st = (effs, st')"
  shows "queue_inv st'"
proof -
  obtain ls st1 where get: "getLaneState (normalizeLane lane) st = (ls, st1)" by fastforce
  note g = getLaneState_full [OF get assms(1)]
  let ?limit = "js_max (jn_of_int (if is_probe_lane (normalizeLane lane) then 1 else 0)) (js_floor n)"
  let ?ls = "ls\<lparr>ln_maxConcurrent := ?limit\<rparr>"
  show ?thesis
  proof (cases "js_less (jn_of_int 0) ?limit")
    case True
    then have "drainLane now (normalizeLane lane) (put_lane ?ls st1) = (effs, st')"
      using assms(2) get by (simp add: setCommandLaneConcurrency_def Let_def)
    from put_drain_inv [OF g(1-4) _ _ _ _ this] g(5) show ?thesis by simp
  next
    case False
    have st': "st' = put_lane ?ls st1"
      using assms(2) get False by (simp add: setCommandLaneConcurrency_def Let_def)
    have core: "queue_core st'" unfolding st' by (rule queue_core_same [OF g(1,4)]) (simp_all add: g(5))
    have "\<not> ln_draining ls" using lanes_idleD [OF lanes_settled_idle [OF g(2)] g(4)] .
    then have "lane_settled ?ls" using limit_zero_settled [OF False] by (simp add: lane_settled_def)
    then have "lanes_settled {} st'" unfolding st' by (intro lanes_settled_put [OF g(2)]) simp
    moreover have "waiters_pending st'"
      by (rule waiters_pending_mono [OF g(3) queue_coreD(1) [OF g(1)] queue_coreD(1) [OF core]])
        (use active_in_put [of st1 ?ls ls] g(4,5) in \<open>simp_all add: st'\<close>)
    ultimately show ?thesis using core by (simp add: queue_inv_def)
  qed
qed

lemma clear_inv:
  assumes "queue_inv st" and "clearCommandLane lane st = (n, effs, st')"
  shows "queue_inv st'"
proof (cases "map_get (qs_lanes st) (normalizeLane lane)")
  case None
  then show ?thesis using assms by (simp add: clearCommandLane_def Let_def)
next
  case (Some ls)
  let ?ls = "ls\<lparr>ln_queue := []\<rparr>"
  have inv: "queue_core st" "lanes_settled {} st" "waiters_pending st"
    using assms(1) by (auto simp: queue_inv_def)
  have lane: "ln_lane ls = normalizeLane lane"
    using queue_coreD(3) [OF inv(1) Some] by (simp add: lane_linked_def)
  have st': "st' = put_lane ?ls st" using assms(2) Some by (simp add: clearCommandLane_def Let_def)
  have core: "queue_core st'" unfolding st' by (rule queue_core_same [OF inv(1) Some]) (simp_all add: lane)
  have "lane_settled ?ls"
    using lanes_idleD [OF lanes_settled_idle [OF inv(2)] Some] by (simp add: lane_settled_def)
  then have "lanes_settled {} st'" unfolding st' by (intro lanes_settled_put [OF inv(2)]) simp
  moreover have "waiters_pending st'"
    by (rule waiters_pending_mono [OF inv(3) queue_coreD(1) [OF inv(1)] queue_coreD(1) [OF core]])
      (use active_in_put [of st ?ls ls] Some lane in \<open>simp_all add: st'\<close>)
  ultimately show ?thesis using core by (simp add: queue_inv_def)
qed

subsection \<open>Resets\<close>

lemma released_lane_simps [simp]:
  "ln_lane (released_lane ls) = ln_lane ls" "ln_queue (released_lane ls) = ln_queue ls"
  "ln_activeTaskIds (released_lane ls) = []" "ln_generation (released_lane ls) = Suc (ln_generation ls)"
  "ln_draining (released_lane ls) = False"
  by (simp_all add: released_lane_def)

lemma release_core:
  assumes core: "queue_core st" and ls: "map_get (qs_lanes st) L = Some ls"
  shows "queue_core (put_lane (released_lane ls) st)"
proof -
  have lane: "ln_lane ls = L" using queue_coreD(3) [OF core ls] by (simp add: lane_linked_def)
  show ?thesis unfolding queue_core_def
  proof (intro conjI allI impI ballI)
    show "wf_map (qs_lanes (put_lane (released_lane ls) st))" using core by (simp add: queue_coreD(1))
    show "distinct (map rt_id (qs_running (put_lane (released_lane ls) st)))"
      using core by (simp add: queue_coreD(2))
  next
    fix L' l' assume "map_get (qs_lanes (put_lane (released_lane ls) st)) L' = Some l'"
    then show "lane_linked (put_lane (released_lane ls) st) L' l'"
      using queue_coreD(3) [OF core] lane by (auto simp: lane_linked_def split: if_splits)
  next
    fix r assume "r \<in> set (qs_running (put_lane (released_lane ls) st))"
    then have "task_linked st r" using core queue_coreD(4) by simp
    then show "task_linked (put_lane (released_lane ls) st) r"
      using ls lane by (cases "rt_lane r = L") (auto simp: task_linked_def)
  qed
qed

lemma reset_inv:
  assumes "queue_inv st" and "resetCommandLane now lane st = (n, effs, st')"
  shows "queue_inv st'"
proof (cases "map_get (qs_lanes st) (normalizeLane lane)")
  case None
  then show ?thesis using assms by (simp add: resetCommandLane_def Let_def)
next
  case (Some ls)
  let ?L = "normalizeLane lane" and ?st1 = "put_lane (released_lane ls) st"
  have inv: "queue_core st" "lanes_settled {} st" using assms(1) by (auto simp: queue_inv_def)
  have lane: "ln_lane ls = ?L" using queue_coreD(3) [OF inv(1) Some] by (simp add: lane_linked_def)
  have core1: "queue_core ?st1" by (rule release_core [OF inv(1) Some])
  obtain e1 st2 where d: "(if length (ln_queue ls) > 0 then drainLane now ?L ?st1 else ([], ?st1)) = (e1, st2)"
    by fastforce
  obtain e2 st3 where n: "notifyActiveTaskWaiters st2 = (e2, st3)" by fastforce
  have st': "st' = st3" using assms(2) Some d n by (auto simp: resetCommandLane_def Let_def split: prod.splits)
  have two: "queue_core st2 \<and> lanes_settled {} st2"
  proof (cases "ln_queue ls = []")
    case True
    then have "lane_settled (released_lane ls)" by (simp add: lane_settled_def)
    then have "lanes_settled {} ?st1" by (intro lanes_settled_put [OF inv(2)]) simp
    moreover have "st2 = ?st1" using d True by simp
    ultimately show ?thesis using core1 by simp
  next
    case False
    then have dl: "drainLane now ?L ?st1 = (e1, st2)" using d by simp
    have "lanes_settled {?L} ?st1" using inv(2) lane by (auto simp: lanes_settled_def)
    moreover have "\<And>l. map_get (qs_lanes ?st1) ?L = Some l \<Longrightarrow> \<not> ln_draining l" using lane by auto
    ultimately show ?thesis using drainLane_inv(1,2) [OF dl core1] by blast
  qed
  then show ?thesis using notify_inv(1-3) [OF n] by (simp add: queue_inv_def st')
qed

lemma drain_lanes_inv:
  assumes "drain_lanes now Ls st = (effs, st')" and "queue_core st" and "lanes_idle st"
    and "lanes_settled (set Ls) st"
  shows "queue_core st' \<and> lanes_settled {} st'"
  using assms
proof (induction Ls arbitrary: st effs)
  case (Cons L Ls)
  obtain e1 st1 where d: "drainLane now L st = (e1, st1)" by fastforce
  obtain e2 where r: "drain_lanes now Ls st1 = (e2, st')"
    using Cons.prems(1) d by (auto split: prod.splits)
  have nd: "\<And>l. map_get (qs_lanes st) L = Some l \<Longrightarrow> \<not> ln_draining l"
    by (rule lanes_idleD [OF Cons.prems(3)])
  note di = drainLane_inv(1,2) [OF d Cons.prems(2) nd]
  have "lanes_settled (set Ls) st1" using di(2) Cons.prems(4) by simp
  then show ?case
    using Cons.IH [OF r di(1) drainLane_idle [OF d Cons.prems(3,2)]] by blast
qed simp

lemma map_get_map_snd: "map_get (map (\<lambda>(k, ls). (k, f ls)) m) L = map_option f (map_get m L)"
  by (induction m) (auto simp: map_get_def)

lemma release_all_core:
  assumes core: "queue_core st"
    and lanes: "qs_lanes st' = map (\<lambda>(k, ls). (k, released_lane ls)) (qs_lanes st)"
    and same: "qs_running st' = qs_running st" "qs_nextTaskId st' = qs_nextTaskId st"
  shows "queue_core st'"
  unfolding queue_core_def
proof (intro conjI allI impI ballI)
  have "map fst (map (\<lambda>(k, ls). (k, released_lane ls)) (qs_lanes st)) = map fst (qs_lanes st)"
    by (simp add: case_prod_beta comp_def)
  then show "wf_map (qs_lanes st')" using queue_coreD(1) [OF core] by (simp only: lanes wf_map_def)
  show "distinct (map rt_id (qs_running st'))" using core by (simp add: queue_coreD(2) same)
next
  fix L l assume "map_get (qs_lanes st') L = Some l"
  then show "lane_linked st' L l"
    using queue_coreD(3) [OF core] by (auto simp: lane_linked_def lanes map_get_map_snd)
next
  fix r assume "r \<in> set (qs_running st')"
  then have "task_linked st r" using core queue_coreD(4) by (simp add: same)
  then show "task_linked st' r" by (auto simp: task_linked_def lanes map_get_map_snd same)
qed

lemma reset_all_inv:
  assumes "queue_inv st" and "resetAllLanes now st = (effs, st')"
  shows "queue_inv st'"
proof -
  have inv: "queue_core st" "lanes_settled {} st" using assms(1) by (auto simp: queue_inv_def)
  let ?Ls = "map (ln_lane \<circ> snd) (filter (\<lambda>(k, ls). length (ln_queue ls) > 0) (qs_lanes st))"
  let ?st1 = "st\<lparr>qs_gatewayDraining := False,
    qs_lanes := map (\<lambda>(k, ls). (k, released_lane ls)) (qs_lanes st)\<rparr>"
  obtain e1 st2 where d: "drain_lanes now ?Ls ?st1 = (e1, st2)" by fastforce
  obtain e2 st3 where n: "notifyActiveTaskWaiters st2 = (e2, st3)" by fastforce
  have st': "st' = st3" using assms(2) d n by (simp add: resetAllLanes_def Let_def comp_def)
  have core1: "queue_core ?st1" by (rule release_all_core [OF inv(1)]) simp_all
  have idle1: "lanes_idle ?st1" by (auto simp: lanes_idle_def map_get_map_snd)
  have "lanes_settled (set ?Ls) ?st1" unfolding lanes_settled_def
  proof (intro allI impI)
    fix L l assume L: "L \<notin> set ?Ls" "map_get (qs_lanes ?st1) L = Some l"
    then obtain ls where ls: "map_get (qs_lanes st) L = Some ls" "l = released_lane ls"
      by (auto simp: map_get_map_snd)
    have "ln_lane ls = L" using queue_coreD(3) [OF inv(1) ls(1)] by (simp add: lane_linked_def)
    then have "ln_queue ls = []" using L(1) map_get_in [OF ls(1)] by (force simp: image_iff)
    then show "lane_settled l" by (simp add: ls(2) lane_settled_def)
  qed
  from drain_lanes_inv [OF d core1 idle1 this] show ?thesis
    using notify_inv(1-3) [OF n] by (simp add: queue_inv_def st')
qed

subsection \<open>Waiting\<close>

lemma wait_inv:
  assumes "queue_inv st" and "waitForActiveTasks t st = (effs, st')"
  shows "queue_inv st'"
proof -
  have inv: "queue_core st" "lanes_settled {} st" "waiters_pending st"
    using assms(1) by (auto simp: queue_inv_def)
  have frame: "queue_core (st\<lparr>qs_nextWaiter := n, qs_waiters := ws\<rparr>)"
    "lanes_settled {} (st\<lparr>qs_nextWaiter := n, qs_waiters := ws\<rparr>)" for n ws
    using inv queue_core_cong [of "st\<lparr>qs_nextWaiter := n, qs_waiters := ws\<rparr>" st]
      lanes_settled_cong [of "st\<lparr>qs_nextWaiter := n, qs_waiters := ws\<rparr>" st] by simp_all
  consider ws n where "notifyActiveTaskWaiters (st\<lparr>qs_nextWaiter := n, qs_waiters := ws\<rparr>) = (effs, st')"
    | n where "st' = st\<lparr>qs_nextWaiter := n\<rparr>"
    using assms(2) by (auto simp: waitForActiveTasks_def Let_def split: if_splits)
  then show ?thesis
  proof cases
    case 1
    from notify_inv(1-3) [OF this] frame show ?thesis by (simp add: queue_inv_def)
  next
    case 2
    have "queue_core st'" "lanes_settled {} st'" "waiters_pending st'"
      using inv queue_core_cong [of st' st] lanes_settled_cong [of st' st] waiters_pending_cong [of st' st]
      by (simp_all add: 2)
    then show ?thesis by (simp add: queue_inv_def)
  qed
qed

lemma resolve_waiter_inv:
  assumes "queue_inv st" and "resolveActiveTaskWaiter w b st = (effs, st')"
  shows "queue_inv st'"
proof -
  have lanes: "qs_lanes st' = qs_lanes st" "qs_running st' = qs_running st"
    "qs_nextTaskId st' = qs_nextTaskId st" "set (qs_waiters st') \<subseteq> set (qs_waiters st)"
    using assms(2) by (auto simp: resolveActiveTaskWaiter_def split: if_splits)
  then have "waiters_pending st'" using assms(1)
    by (auto simp: queue_inv_def waiters_pending_def hasPendingActiveTasks_def)
  then show ?thesis using assms(1) queue_core_cong [OF lanes(1-3)] lanes_settled_cong [OF lanes(1)]
    by (simp add: queue_inv_def)
qed

subsection \<open>Steps and reachable states\<close>

text \<open>
  One event of the queue. A running task may settle at any time, and may time out only when
  it has a timeout.
\<close>

inductive queue_step :: "queue_state \<Rightarrow> queue_effect list \<Rightarrow> queue_state \<Rightarrow> bool" where
  StepEnqueue: "enqueueCommandInLane now lane task opts st = (effs, st') \<Longrightarrow> queue_step st effs st'"
| StepFinish: "r \<in> set (qs_running st) \<Longrightarrow>
    outcome \<noteq> TaskTimedOut \<or> normalizeTaskTimeoutMs (map_option jn_of_int (qe_taskTimeoutMs (rt_entry r))) \<noteq> None \<Longrightarrow>
    finish_task now r outcome st = (effs, st') \<Longrightarrow> queue_step st effs st'"
| StepLimit: "setCommandLaneConcurrency now lane n st = (effs, st') \<Longrightarrow> queue_step st effs st'"
| StepClear: "clearCommandLane lane st = (k, effs, st') \<Longrightarrow> queue_step st effs st'"
| StepReset: "resetCommandLane now lane st = (k, effs, st') \<Longrightarrow> queue_step st effs st'"
| StepResetAll: "resetAllLanes now st = (effs, st') \<Longrightarrow> queue_step st effs st'"
| StepDrain: "st' = markGatewayDraining st \<Longrightarrow> queue_step st [] st'"
| StepWait: "waitForActiveTasks t st = (effs, st') \<Longrightarrow> queue_step st effs st'"
| StepWaiterTimeout: "w \<in> set (qs_waiters st) \<Longrightarrow> aw_timeout w \<noteq> None \<Longrightarrow>
    waiter_timeout w st = (effs, st') \<Longrightarrow> queue_step st effs st'"

inductive_cases queue_stepE: "queue_step st effs st'"

inductive queue_reachable :: "queue_effect list \<Rightarrow> queue_state \<Rightarrow> bool" where
  ReachInit: "queue_reachable [] initial_queue_state"
| ReachStep: "queue_reachable trace st \<Longrightarrow> queue_step st effs st' \<Longrightarrow> queue_reachable (trace @ effs) st'"

lemma drain_mark_inv: "queue_inv st \<Longrightarrow> queue_inv (markGatewayDraining st)"
  using queue_core_cong [of "markGatewayDraining st" st] lanes_settled_cong [of "markGatewayDraining st" st]
    waiters_pending_cong [of "markGatewayDraining st" st]
  by (simp add: queue_inv_def markGatewayDraining_def)

lemma queue_step_inv: "queue_step st effs st' \<Longrightarrow> queue_inv st \<Longrightarrow> queue_inv st'"
  by (elim queue_stepE)
    (auto intro: enqueue_inv finish_inv set_concurrency_inv clear_inv reset_inv reset_all_inv
      drain_mark_inv wait_inv resolve_waiter_inv simp: waiter_timeout_def)

lemma initial_inv: "queue_inv initial_queue_state"
  by (simp add: queue_inv_def queue_core_def lanes_settled_def waiters_pending_def
      initial_queue_state_def)

lemma queue_reachable_inv: "queue_reachable trace st \<Longrightarrow> queue_inv st"
  by (induction rule: queue_reachable.induct) (auto intro: initial_inv queue_step_inv)

end
