(* ===== verification/CommandQueueTheorems.thy ===== *)
theory CommandQueueTheorems
  imports CommandQueueInv "HOL-Library.Multiset"
begin

section \<open>The command queue against an abstract queue\<close>

text \<open>
  The abstract view of a lane is a first-in-first-out queue of entries that the trace of
  effects drives: an accepted entry joins at the end, a started or cleared entry must be the
  head and leaves. Every step of the queue refines it, so no command overtakes another in its
  lane, and no accepted command is lost or run twice: it is queued, running, or settled.
\<close>

subsection \<open>The abstract lane\<close>

fun lane_replay :: "string \<Rightarrow> queue_effect list \<Rightarrow> queue_entry list \<Rightarrow> queue_entry list option" where
  "lane_replay L [] q = Some q"
| "lane_replay L (Accepted L' e # es) q = lane_replay L es (if L' = L then q @ [e] else q)"
| "lane_replay L (Started L' i e # es) q =
     (if L' \<noteq> L then lane_replay L es q
      else case q of [] \<Rightarrow> None | e' # q' \<Rightarrow> if e' = e then lane_replay L es q' else None)"
| "lane_replay L (Cleared L' e # es) q =
     (if L' \<noteq> L then lane_replay L es q
      else case q of [] \<Rightarrow> None | e' # q' \<Rightarrow> if e' = e then lane_replay L es q' else None)"
| "lane_replay L (x # es) q = lane_replay L es q"

definition queue_of :: "queue_state \<Rightarrow> string \<Rightarrow> queue_entry list" where
  "queue_of st L = (case map_get (qs_lanes st) L of None \<Rightarrow> [] | Some ls \<Rightarrow> ln_queue ls)"

lemma lane_replay_append:
  "lane_replay L (a @ b) q = Option.bind (lane_replay L a q) (lane_replay L b)"
  by (induction L a q rule: lane_replay.induct) (auto split: list.split)

definition refines_fifo :: "queue_state \<Rightarrow> queue_effect list \<Rightarrow> queue_state \<Rightarrow> bool" where
  "refines_fifo st effs st' = (\<forall>L. lane_replay L effs (queue_of st L) = Some (queue_of st' L))"

lemma refines_refl: "(\<And>L. queue_of st' L = queue_of st L) \<Longrightarrow> refines_fifo st [] st'"
  by (simp add: refines_fifo_def)

lemma refines_trans:
  "refines_fifo st e1 st1 \<Longrightarrow> refines_fifo st1 e2 st2 \<Longrightarrow> refines_fifo st (e1 @ e2) st2"
  by (simp add: refines_fifo_def lane_replay_append)

lemma queue_of_put [simp]:
  "queue_of (put_lane ls st) L = (if L = ln_lane ls then ln_queue ls else queue_of st L)"
  by (simp add: queue_of_def)

lemma queue_of_cong: "qs_lanes st' = qs_lanes st \<Longrightarrow> queue_of st' L = queue_of st L"
  by (simp add: queue_of_def)

lemma pump_loop_replay:
  assumes "pump_loop now n q s = (s', n', tasks, effs)"
  shows "lane_replay L effs (if L = ln_lane s then q else q0) =
    Some (if L = ln_lane s then ln_queue s' else q0)"
  using assms
proof (induction now n q s arbitrary: s' n' tasks effs rule: pump_loop.induct)
  case (2 now n e q s)
  show ?case
  proof (cases "js_less (jn_of_int (int (length (ln_activeTaskIds s)))) (ln_maxConcurrent s)")
    case True
    obtain s2 n2 ts es where rec:
        "pump_loop now (n + 1) q (s\<lparr>ln_activeTaskIds := set_add (ln_activeTaskIds s) n\<rparr>) = (s2, n2, ts, es)"
      by (metis prod_cases4)
    have IH: "lane_replay L es (if L = ln_lane s then q else q0) =
        Some (if L = ln_lane s then ln_queue s2 else q0)"
      using 2(1) [OF True refl refl refl refl rec] by simp
    obtain ws where effs: "effs = ws @ Started (ln_lane s) n e # es" "s' = s2"
        "ws = [] \<or> (\<exists>w k. ws = [OnWaitCalled e w k])"
      using 2(2) True rec by (fastforce simp: Let_def)
    then show ?thesis using IH by (auto simp: lane_replay_append)
  next
    case False
    then show ?thesis using 2(2) by auto
  qed
qed auto

lemma pump_loop_lane:
  "pump_loop now n q s = (s', n', tasks, effs) \<Longrightarrow> ln_lane s' = ln_lane s"
proof (induction now n q s arbitrary: s' n' tasks effs rule: pump_loop.induct)
  case (2 now n e q s)
  show ?case
  proof (cases "js_less (jn_of_int (int (length (ln_activeTaskIds s)))) (ln_maxConcurrent s)")
    case True
    obtain s2 n2 ts es where rec:
        "pump_loop now (n + 1) q (s\<lparr>ln_activeTaskIds := set_add (ln_activeTaskIds s) n\<rparr>) = (s2, n2, ts, es)"
      by (metis prod_cases4)
    from 2(1) [OF True refl refl refl refl this] 2(2) True rec show ?thesis
      by (auto simp: Let_def)
  next
    case False
    then show ?thesis using 2(2) by auto
  qed
qed auto

lemma pump_fifo:
  assumes "pump now s st = (effs, st')" and "queue_of st (ln_lane s) = ln_queue s"
  shows "refines_fifo st effs st'"
proof -
  obtain s1 n1 tasks where loop: "pump_loop now (qs_nextTaskId st) (ln_queue s) s = (s1, n1, tasks, effs)"
    and st': "qs_lanes st' = qs_lanes (put_lane (s1\<lparr>ln_draining := False\<rparr>) st)"
    using assms(1) by (auto simp: pump_def split: prod.splits)
  have "lane_replay L effs (queue_of st L) = Some (queue_of st' L)" for L
    using pump_loop_replay [OF loop, of L "queue_of st L"] pump_loop_lane [OF loop] assms(2)
      queue_of_cong [OF st', of L] by (auto split: if_splits)
  then show ?thesis by (simp add: refines_fifo_def)
qed

lemma new_lane_simps [simp]:
  "ln_lane (new_lane L) = L" "ln_queue (new_lane L) = []" "ln_activeTaskIds (new_lane L) = []"
  "ln_draining (new_lane L) = False"
  by (simp_all add: new_lane_def)

lemma getLaneState_queue:
  assumes "getLaneState L st = (ls, st')"
    and "\<forall>L ls. map_get (qs_lanes st) L = Some ls \<longrightarrow> ln_lane ls = L"
  shows "(\<forall>L'. queue_of st' L' = queue_of st L') \<and> ln_queue ls = queue_of st L \<and> ln_lane ls = L"
proof (cases "map_get (qs_lanes st) L")
  case None
  then have "ls = new_lane L" "st' = put_lane (new_lane L) st"
    using assms(1) by (auto simp: getLaneState_def)
  then show ?thesis using None by (simp add: queue_of_def [of st L])
next
  case (Some l)
  then show ?thesis using assms by (auto simp: getLaneState_def queue_of_def)
qed

definition lanes_named :: "queue_state \<Rightarrow> bool" where
  "lanes_named st = (\<forall>L ls. map_get (qs_lanes st) L = Some ls \<longrightarrow> ln_lane ls = L)"

lemma lanes_named_put: "lanes_named st \<Longrightarrow> lanes_named (put_lane ls st)"
  by (auto simp: lanes_named_def split: if_splits)

lemma core_lanes_named: "queue_core st \<Longrightarrow> lanes_named st"
  using queue_coreD(3) by (fastforce simp: lanes_named_def lane_linked_def)

subsection \<open>Relations between traces and states\<close>

text \<open>
  A relation between a state, the effects of a step and the state after it that composes and
  holds for the parts the operations are made of. Every step of the queue then satisfies it.
\<close>

locale queue_trace =
  fixes R :: "queue_state \<Rightarrow> queue_effect list \<Rightarrow> queue_state \<Rightarrow> bool"
  assumes R_trans: "R st e1 st1 \<Longrightarrow> R st1 e2 st2 \<Longrightarrow> R st (e1 @ e2) st2"
    and R_frame: "(\<And>L. queue_of st' L = queue_of st L) \<Longrightarrow> qs_running st' = qs_running st \<Longrightarrow>
      qs_nextTaskId st' = qs_nextTaskId st \<Longrightarrow> R st [] st'"
    and R_pump: "pump now s st = (effs, st') \<Longrightarrow> queue_of st (ln_lane s) = ln_queue s \<Longrightarrow>
      R st effs st'"
    and R_waiter: "qs_lanes st' = qs_lanes st \<Longrightarrow> qs_running st' = qs_running st \<Longrightarrow>
      qs_nextTaskId st' = qs_nextTaskId st \<Longrightarrow> R st [WaiterDone w b] st'"
    and R_reject: "R st [RejectedDraining task] st"
    and R_accept: "ln_queue ls = queue_of st (ln_lane ls) @ [e] \<Longrightarrow>
      R st [Accepted (ln_lane ls) e] (put_lane ls st)"
    and R_clear: "ln_queue ls = [] \<Longrightarrow>
      R st (map (Cleared (ln_lane ls)) (queue_of st (ln_lane ls))) (put_lane ls st)"
    and R_settle: "r \<in> set (qs_running st) \<Longrightarrow>
      R (st\<lparr>qs_running := remove1 r (qs_running st)\<rparr>) effs st' \<Longrightarrow>
      R st (effs @ [settle_effect r outcome]) st'"
begin

lemma R_trans_Nil: "R st [] st1 \<Longrightarrow> R st1 e st2 \<Longrightarrow> R st e st2"
  using R_trans [of st "[]" st1 e st2] by simp

lemma drainLane_R:
  assumes "drainLane now L st = (effs, st')" and "lanes_named st"
  shows "R st effs st'"
proof -
  obtain ls st1 where get: "getLaneState L st = (ls, st1)" by fastforce
  note g = getLaneState_queue [OF get assms(2) [unfolded lanes_named_def]]
  have first: "R st [] st1"
    by (rule R_frame) (use g get in \<open>auto simp: getLaneState_def split: option.splits\<close>)
  show ?thesis
  proof (cases "ln_draining ls")
    case True
    then show ?thesis using assms(1) get first by (simp add: drainLane_def)
  next
    case False
    then have "pump now (ls\<lparr>ln_draining := True\<rparr>) st1 = (effs, st')"
      using assms(1) get by (simp add: drainLane_def)
    from R_pump [OF this] g have "R st1 effs st'" by simp
    with first show ?thesis by (rule R_trans_Nil)
  qed
qed

lemma notify_loop_R: "notify_loop ws st = (effs, st') \<Longrightarrow> R st effs st'"
proof (induction ws arbitrary: st effs st')
  case Nil
  then show ?case by (auto intro: R_frame)
next
  case (Cons w ws)
  show ?case
  proof (cases "length (aw_activeTaskIds w) = 0 \<or> \<not> hasPendingActiveTasks st (aw_activeTaskIds w)")
    case True
    obtain e1 st1 where r: "resolveActiveTaskWaiter w True st = (e1, st1)" by fastforce
    obtain e2 where n: "notify_loop ws st1 = (e2, st')" "effs = e1 @ e2"
      using Cons.prems True r by (auto split: prod.splits)
    have "R st e1 st1"
      using r by (auto simp: resolveActiveTaskWaiter_def split: if_splits intro: R_frame R_waiter)
    from R_trans [OF this Cons.IH [OF n(1)]] show ?thesis by (simp add: n(2))
  next
    case False
    then have "notify_loop ws st = (effs, st')" using Cons.prems by simp
    from Cons.IH [OF this] show ?thesis .
  qed
qed

lemma notify_R: "notifyActiveTaskWaiters st = (effs, st') \<Longrightarrow> R st effs st'"
  by (simp add: notifyActiveTaskWaiters_def notify_loop_R)

lemma finish_R:
  assumes "finish_task now r outcome st = (effs, st')" and "queue_core st"
    and "r \<in> set (qs_running st)"
  shows "R st effs st'"
proof -
  obtain ls where ls: "map_get (qs_lanes st) (rt_lane r) = Some ls"
    using queue_coreD(4) [OF assms(2,3)] by (auto simp: task_linked_def)
  have lane: "ln_lane ls = rt_lane r" using queue_coreD(3) [OF assms(2) ls] by (simp add: lane_linked_def)
  obtain current ls1 where c: "completeTask ls (rt_id r) (rt_generation r) = (current, ls1)" by fastforce
  have ls1: "ln_queue ls1 = ln_queue ls" "ln_lane ls1 = rt_lane r"
    using c lane by (auto simp: completeTask_def split: if_splits)
  let ?st0 = "st\<lparr>qs_running := remove1 r (qs_running st)\<rparr>"
  have put: "R ?st0 [] (put_lane ls1 ?st0)"
    by (rule R_frame) (auto simp: ls1 queue_of_def ls)
  show ?thesis
  proof (cases current)
    case True
    obtain e1 st2 where n: "notifyActiveTaskWaiters (put_lane ls1 ?st0) = (e1, st2)" by fastforce
    obtain e2 st3 where p: "pump now ls1 st2 = (e2, st3)" by fastforce
    have res: "effs = (e1 @ e2) @ [settle_effect r outcome]" "st' = st3"
      using assms(1) ls c True n p by (simp_all add: finish_task_def)
    have "queue_of st2 (ln_lane ls1) = ln_queue ls1"
      using notify_inv(4) [OF n] by (simp add: queue_of_def ls1)
    from R_trans [OF notify_R [OF n] R_pump [OF p this]] put have "R ?st0 (e1 @ e2) st3"
      using R_trans_Nil by blast
    from R_settle [OF assms(3) this] show ?thesis by (simp only: res)
  next
    case False
    then have res: "effs = [] @ [settle_effect r outcome]" "st' = put_lane ls1 ?st0"
      using assms(1) ls c by (simp_all add: finish_task_def)
    from R_settle [OF assms(3) put] show ?thesis by (simp only: res)
  qed
qed

lemma getLaneState_R:
  assumes "getLaneState L st = (ls, st1)" and "queue_core st"
  shows "R st [] st1" and "lanes_named st1" and "ln_lane ls = L" and "ln_queue ls = queue_of st1 L"
proof -
  note g = getLaneState_queue [OF assms(1) core_lanes_named [OF assms(2), unfolded lanes_named_def]]
  show "R st [] st1"
    by (rule R_frame) (use g assms(1) in \<open>auto simp: getLaneState_def split: option.splits\<close>)
  show "lanes_named st1" using getLaneState_inv(1) [OF assms] by (rule core_lanes_named)
  show "ln_lane ls = L" "ln_queue ls = queue_of st1 L" using g by simp_all
qed

lemma enqueue_R:
  assumes "enqueueCommandInLane now lane task opts st = (effs, st')" and "queue_core st"
  shows "R st effs st'"
proof (cases "qs_gatewayDraining st")
  case True
  then show ?thesis using assms by (auto simp: enqueueCommandInLane_def intro: R_reject)
next
  case False
  let ?L = "normalizeLane lane"
  obtain ls st1 where get: "getLaneState ?L st = (ls, st1)" by fastforce
  note g = getLaneState_R [OF get assms(2)]
  obtain e e2 where d: "drainLane now ?L (put_lane (ls\<lparr>ln_queue := ln_queue ls @ [e]\<rparr>) st1) = (e2, st')"
      "effs = [Accepted ?L e] @ e2"
    using assms(1) False get by (auto simp: enqueueCommandInLane_def Let_def split: prod.splits)
  have "R st1 [Accepted ?L e] (put_lane (ls\<lparr>ln_queue := ln_queue ls @ [e]\<rparr>) st1)"
    using R_accept [of "ls\<lparr>ln_queue := ln_queue ls @ [e]\<rparr>" st1 e] g by simp
  from R_trans [OF this drainLane_R [OF d(1) lanes_named_put [OF g(2)]]] g(1) show ?thesis
    unfolding d(2) by (rule R_trans_Nil [rotated])
qed

lemma set_concurrency_R:
  assumes "setCommandLaneConcurrency now lane n st = (effs, st')" and "queue_core st"
  shows "R st effs st'"
proof -
  let ?L = "normalizeLane lane"
  obtain ls st1 where get: "getLaneState ?L st = (ls, st1)" by fastforce
  note g = getLaneState_R [OF get assms(2)]
  let ?limit = "js_max (jn_of_int (if is_probe_lane ?L then 1 else 0)) (js_floor n)"
  let ?st2 = "put_lane (ls\<lparr>ln_maxConcurrent := ?limit\<rparr>) st1"
  have "R st1 [] ?st2" by (rule R_frame) (use g in simp_all)
  with g(1) have first: "R st [] ?st2" by (rule R_trans_Nil)
  show ?thesis
  proof (cases "js_less (jn_of_int 0) ?limit")
    case True
    then have "drainLane now ?L ?st2 = (effs, st')"
      using assms(1) get by (simp add: setCommandLaneConcurrency_def Let_def)
    from drainLane_R [OF this lanes_named_put [OF g(2)]] first show ?thesis
      by (rule R_trans_Nil [rotated])
  next
    case False
    then have "effs = []" "st' = ?st2"
      using assms(1) get by (simp_all add: setCommandLaneConcurrency_def Let_def)
    then show ?thesis using first by simp
  qed
qed

lemma clear_R:
  assumes "clearCommandLane lane st = (n, effs, st')" and "queue_core st"
  shows "R st effs st'"
proof (cases "map_get (qs_lanes st) (normalizeLane lane)")
  case None
  then have "effs = []" "st' = st" using assms by (simp_all add: clearCommandLane_def Let_def)
  then show ?thesis by (auto intro: R_frame)
next
  case (Some ls)
  have "ln_lane ls = normalizeLane lane"
    using queue_coreD(3) [OF assms(2) Some] by (simp add: lane_linked_def)
  then show ?thesis using assms(1) Some R_clear [of "ls\<lparr>ln_queue := []\<rparr>" st]
    by (auto simp: clearCommandLane_def Let_def queue_of_def)
qed

lemma reset_R:
  assumes "resetCommandLane now lane st = (n, effs, st')" and "queue_core st"
  shows "R st effs st'"
proof (cases "map_get (qs_lanes st) (normalizeLane lane)")
  case None
  then have "effs = []" "st' = st" using assms by (simp_all add: resetCommandLane_def Let_def)
  then show ?thesis by (auto intro: R_frame)
next
  case (Some ls)
  let ?L = "normalizeLane lane" and ?st1 = "put_lane (released_lane ls) st"
  have lane: "ln_lane ls = ?L" using queue_coreD(3) [OF assms(2) Some] by (simp add: lane_linked_def)
  obtain e1 st2 where d: "(if length (ln_queue ls) > 0 then drainLane now ?L ?st1 else ([], ?st1)) = (e1, st2)"
    by fastforce
  obtain e2 st3 where n: "notifyActiveTaskWaiters st2 = (e2, st3)" by fastforce
  have res: "st' = st3" "effs = e1 @ e2"
    using assms(1) Some d n by (auto simp: resetCommandLane_def Let_def split: prod.splits)
  have first: "R st [] ?st1" by (rule R_frame) (auto simp: lane queue_of_def Some)
  have "R ?st1 e1 st2"
  proof (cases "ln_queue ls = []")
    case True
    then show ?thesis using d by (auto intro: R_frame)
  next
    case False
    then have "drainLane now ?L ?st1 = (e1, st2)" using d by simp
    from drainLane_R [OF this lanes_named_put [OF core_lanes_named [OF assms(2)]]] show ?thesis .
  qed
  from R_trans [OF R_trans_Nil [OF first this] notify_R [OF n]] show ?thesis by (simp add: res)
qed

lemma drain_lanes_R:
  assumes "drain_lanes now Ls st = (effs, st')" and "queue_core st" and "lanes_idle st"
  shows "R st effs st'"
  using assms
proof (induction Ls arbitrary: st effs)
  case Nil
  then show ?case by (auto intro: R_frame)
next
  case (Cons L Ls)
  obtain e1 st1 where d: "drainLane now L st = (e1, st1)" by fastforce
  obtain e2 where r: "drain_lanes now Ls st1 = (e2, st')" "effs = e1 @ e2"
    using Cons.prems(1) d by (auto split: prod.splits)
  have nd: "\<And>l. map_get (qs_lanes st) L = Some l \<Longrightarrow> \<not> ln_draining l"
    by (rule lanes_idleD [OF Cons.prems(3)])
  have "R st1 e2 st'"
    by (rule Cons.IH [OF r(1) drainLane_inv(1) [OF d Cons.prems(2) nd]
          drainLane_idle [OF d Cons.prems(3,2)]])
  with drainLane_R [OF d core_lanes_named [OF Cons.prems(2)]] show ?case
    unfolding r(2) by (rule R_trans)
qed

lemma reset_all_R:
  assumes "resetAllLanes now st = (effs, st')" and "queue_core st"
  shows "R st effs st'"
proof -
  let ?Ls = "map (ln_lane \<circ> snd) (filter (\<lambda>(k, ls). length (ln_queue ls) > 0) (qs_lanes st))"
  let ?st1 = "st\<lparr>qs_gatewayDraining := False,
    qs_lanes := map (\<lambda>(k, ls). (k, released_lane ls)) (qs_lanes st)\<rparr>"
  obtain e1 st2 where d: "drain_lanes now ?Ls ?st1 = (e1, st2)" by fastforce
  obtain e2 st3 where n: "notifyActiveTaskWaiters st2 = (e2, st3)" by fastforce
  have res: "st' = st3" "effs = e1 @ e2"
    using assms(1) d n by (simp_all add: resetAllLanes_def Let_def comp_def)
  have first: "R st [] ?st1"
    by (rule R_frame)
      (simp_all add: queue_of_def map_get_map_snd option.case_eq_if option.map_sel)
  have "R ?st1 e1 st2"
    by (rule drain_lanes_R [OF d release_all_core [OF assms(2)]])
      (auto simp: lanes_idle_def map_get_map_snd)
  from R_trans [OF R_trans_Nil [OF first this] notify_R [OF n]] show ?thesis by (simp add: res)
qed

lemma wait_R:
  assumes "waitForActiveTasks t st = (effs, st')"
  shows "R st effs st'"
proof -
  consider ws n where "notifyActiveTaskWaiters (st\<lparr>qs_nextWaiter := n, qs_waiters := ws\<rparr>) = (effs, st')"
    | n w b where "st' = st\<lparr>qs_nextWaiter := n\<rparr>" "effs = [WaiterDone w b]"
    using assms by (auto simp: waitForActiveTasks_def Let_def split: if_splits)
  then show ?thesis
  proof cases
    case 1
    have "R st [] (st\<lparr>qs_nextWaiter := n, qs_waiters := ws\<rparr>)"
      by (rule R_frame) (simp_all add: queue_of_def)
    then show ?thesis using notify_R [OF 1] by (rule R_trans_Nil)
  next
    case 2
    show ?thesis unfolding 2 by (rule R_waiter) simp_all
  qed
qed

lemma waiter_timeout_R: "waiter_timeout w st = (effs, st') \<Longrightarrow> R st effs st'"
  by (auto simp: waiter_timeout_def resolveActiveTaskWaiter_def split: if_splits
      intro: R_frame R_waiter)

lemma mark_draining_R: "R st [] (markGatewayDraining st)"
  by (rule R_frame) (simp_all add: markGatewayDraining_def queue_of_def)

lemma queue_step_R:
  assumes "queue_step st effs st'" and "queue_inv st"
  shows "R st effs st'"
proof -
  have core: "queue_core st" using assms(2) by (simp add: queue_inv_def)
  show ?thesis using assms(1)
    by (elim queue_stepE)
      (auto intro: enqueue_R finish_R set_concurrency_R clear_R reset_R reset_all_R
        wait_R waiter_timeout_R mark_draining_R core)
qed

lemma queue_reachable_R: "queue_reachable trace st \<Longrightarrow> R initial_queue_state trace st"
proof (induction rule: queue_reachable.induct)
  case ReachInit
  show ?case by (rule R_frame) simp_all
next
  case (ReachStep trace st effs st')
  from queue_step_R [OF ReachStep.hyps(2) queue_reachable_inv [OF ReachStep.hyps(1)]]
  show ?case by (rule R_trans [OF ReachStep.IH])
qed

end

subsection \<open>First in, first out\<close>

lemma replay_clear: "lane_replay L (map (Cleared L') q) q0 = (if L = L' then
    (if take (length q) q0 = q then Some (drop (length q) q0) else None) else Some q0)"
  by (induction q arbitrary: q0) (auto split: list.splits)

lemma settle_neutral [simp]: "lane_replay L [settle_effect r outcome] q = Some q"
  by (simp add: settle_effect_def)

lemma fifo_trans:
  assumes "refines_fifo st e1 st1" and "refines_fifo st1 e2 st2"
  shows "refines_fifo st (e1 @ e2) st2"
  using assms by (simp add: refines_fifo_def lane_replay_append)

interpretation fifo: queue_trace refines_fifo
proof unfold_locales
  fix st e1 st1 e2 st2
  assume "refines_fifo st e1 st1" "refines_fifo st1 e2 st2"
  then show "refines_fifo st (e1 @ e2) st2" by (rule fifo_trans)
next
  fix st' st :: queue_state
  assume "\<And>L. queue_of st' L = queue_of st L"
  then show "refines_fifo st [] st'" by (simp add: refines_fifo_def)
next
  fix now s st effs st'
  assume "pump now s st = (effs, st')" "queue_of st (ln_lane s) = ln_queue s"
  then show "refines_fifo st effs st'" by (rule pump_fifo)
next
  fix st' st :: queue_state and w b
  assume "qs_lanes st' = qs_lanes st"
  then show "refines_fifo st [WaiterDone w b] st'" by (simp add: refines_fifo_def queue_of_def)
next
  fix st task
  show "refines_fifo st [RejectedDraining task] st" by (simp add: refines_fifo_def)
next
  fix ls :: lane_state and st e
  assume "ln_queue ls = queue_of st (ln_lane ls) @ [e]"
  then show "refines_fifo st [Accepted (ln_lane ls) e] (put_lane ls st)" by (simp add: refines_fifo_def)
next
  fix ls :: lane_state and st
  assume "ln_queue ls = []"
  then show "refines_fifo st (map (Cleared (ln_lane ls)) (queue_of st (ln_lane ls))) (put_lane ls st)"
    by (simp add: refines_fifo_def replay_clear)
next
  fix r st effs st' outcome
  assume "refines_fifo (st\<lparr>qs_running := remove1 r (qs_running st)\<rparr>) effs st'"
  then show "refines_fifo st (effs @ [settle_effect r outcome]) st'"
    by (simp add: refines_fifo_def lane_replay_append queue_of_def)
qed

lemma initial_simps [simp]:
  "queue_of initial_queue_state L = []" "qs_nextTaskId initial_queue_state = 1"
  "qs_running initial_queue_state = []"
  by (simp_all add: queue_of_def initial_queue_state_def)

lemma queue_reachable_fifo:
  "queue_reachable trace st \<Longrightarrow> lane_replay L trace [] = Some (queue_of st L)"
  using fifo.queue_reachable_R [of trace st] by (simp add: refines_fifo_def)

subsection \<open>Task ids\<close>

text \<open>The tasks a trace starts and settles, as pairs of task id and entry.\<close>

fun started_tasks :: "queue_effect list \<Rightarrow> (nat \<times> queue_entry) list" where
  "started_tasks [] = []"
| "started_tasks (Started L i e # es) = (i, e) # started_tasks es"
| "started_tasks (x # es) = started_tasks es"

fun settled_tasks :: "queue_effect list \<Rightarrow> (nat \<times> queue_entry) list" where
  "settled_tasks [] = []"
| "settled_tasks (Resolved i e # es) = (i, e) # settled_tasks es"
| "settled_tasks (Rejected i e out # es) = (i, e) # settled_tasks es"
| "settled_tasks (x # es) = settled_tasks es"

definition running_pairs :: "queue_state \<Rightarrow> (nat \<times> queue_entry) list" where
  "running_pairs st = map (\<lambda>r. (rt_id r, rt_entry r)) (qs_running st)"

lemma started_append [simp]: "started_tasks (a @ b) = started_tasks a @ started_tasks b"
  by (induction a rule: started_tasks.induct) auto

lemma settled_append [simp]: "settled_tasks (a @ b) = settled_tasks a @ settled_tasks b"
  by (induction a rule: settled_tasks.induct) auto

definition tasks_accounted :: "queue_state \<Rightarrow> queue_effect list \<Rightarrow> queue_state \<Rightarrow> bool" where
  "tasks_accounted st effs st' =
     (mset (running_pairs st') + mset (settled_tasks effs) =
        mset (running_pairs st) + mset (started_tasks effs) \<and>
      map fst (started_tasks effs) = [qs_nextTaskId st..<qs_nextTaskId st'] \<and>
      qs_nextTaskId st \<le> qs_nextTaskId st')"

lemma pump_loop_tasks:
  assumes "pump_loop now n q s = (s', n', tasks, effs)"
  shows "started_tasks effs = map (\<lambda>r. (rt_id r, rt_entry r)) tasks \<and> settled_tasks effs = [] \<and>
    map rt_id tasks = [n..<n'] \<and> n \<le> n'"
  using assms
proof (induction now n q s arbitrary: s' n' tasks effs rule: pump_loop.induct)
  case (2 now n e q s)
  show ?case
  proof (cases "js_less (jn_of_int (int (length (ln_activeTaskIds s)))) (ln_maxConcurrent s)")
    case True
    obtain s2 n2 ts es where rec:
        "pump_loop now (n + 1) q (s\<lparr>ln_activeTaskIds := set_add (ln_activeTaskIds s) n\<rparr>) = (s2, n2, ts, es)"
      by (metis prod_cases4)
    note IH = 2(1) [OF True refl refl refl refl rec]
    obtain ws where effs: "effs = ws @ Started (ln_lane s) n e # es" "n' = n2"
        "ws = [] \<or> (\<exists>w k. ws = [OnWaitCalled e w k])"
        "tasks = \<lparr>rt_id = n, rt_lane = ln_lane s, rt_generation = ln_generation s, rt_entry = e\<rparr> # ts"
      using 2(2) True rec by (fastforce simp: Let_def)
    have "started_tasks ws = []" "settled_tasks ws = []" using effs(3) by auto
    moreover have "[n..<n'] = n # [n + 1..<n']" "n \<le> n'"
      using IH effs(2) by (simp_all add: upt_conv_Cons)
    ultimately show ?thesis using IH by (simp add: effs(1,2,4))
  next
    case False
    then show ?thesis using 2(2) by auto
  qed
qed auto

lemma pump_tasks:
  assumes "pump now s st = (effs, st')"
  shows "tasks_accounted st effs st'"
proof -
  obtain s1 n1 tasks where loop: "pump_loop now (qs_nextTaskId st) (ln_queue s) s = (s1, n1, tasks, effs)"
    and st': "qs_running st' = qs_running st @ tasks" "qs_nextTaskId st' = n1"
    using assms by (auto simp: pump_def split: prod.splits)
  have "map fst (started_tasks effs) = map rt_id tasks" using pump_loop_tasks [OF loop] by (simp add: comp_def)
  then show ?thesis using pump_loop_tasks [OF loop]
    by (simp add: tasks_accounted_def st' running_pairs_def)
qed

lemma cleared_no_tasks [simp]:
  "started_tasks (map (Cleared L) q) = []" "settled_tasks (map (Cleared L) q) = []"
  by (induction q) simp_all

lemma mset_map_remove1:
  "r \<in> set xs \<Longrightarrow> mset (map f xs) = add_mset (f r) (mset (map f (remove1 r xs)))"
  by (induction xs) auto

lemma settle_accounted:
  assumes "r \<in> set (qs_running st)"
    and "tasks_accounted (st\<lparr>qs_running := remove1 r (qs_running st)\<rparr>) effs st'"
  shows "tasks_accounted st (effs @ [settle_effect r outcome]) st'"
proof -
  let ?st0 = "st\<lparr>qs_running := remove1 r (qs_running st)\<rparr>"
  have "mset (running_pairs st) = add_mset (rt_id r, rt_entry r) (mset (running_pairs ?st0))"
    using mset_map_remove1 [OF assms(1), of "\<lambda>r. (rt_id r, rt_entry r)"] by (simp add: running_pairs_def)
  moreover have "settled_tasks [settle_effect r outcome] = [(rt_id r, rt_entry r)]"
    "started_tasks [settle_effect r outcome] = []"
    by (simp_all add: settle_effect_def)
  ultimately show ?thesis using assms(2) by (simp add: tasks_accounted_def)
qed

lemma accounted_trans:
  assumes "tasks_accounted st e1 st1" and "tasks_accounted st1 e2 st2"
  shows "tasks_accounted st (e1 @ e2) st2"
proof -
  have le: "qs_nextTaskId st \<le> qs_nextTaskId st1" "qs_nextTaskId st1 \<le> qs_nextTaskId st2"
    using assms by (simp_all add: tasks_accounted_def)
  then have "[qs_nextTaskId st..<qs_nextTaskId st2] =
      [qs_nextTaskId st..<qs_nextTaskId st1] @ [qs_nextTaskId st1..<qs_nextTaskId st2]"
    using upt_add_eq_append [OF le(1), of "qs_nextTaskId st2 - qs_nextTaskId st1"] by simp
  moreover have "mset (running_pairs st2) + mset (settled_tasks (e1 @ e2)) =
      mset (running_pairs st) + mset (started_tasks (e1 @ e2))"
  proof -
    have "mset (running_pairs st2) + mset (settled_tasks e2) = mset (running_pairs st1) + mset (started_tasks e2)"
      "mset (running_pairs st1) + mset (settled_tasks e1) = mset (running_pairs st) + mset (started_tasks e1)"
      using assms by (simp_all add: tasks_accounted_def)
    then have "mset (running_pairs st2) + mset (settled_tasks e2) + mset (settled_tasks e1) =
        mset (running_pairs st1) + mset (settled_tasks e1) + mset (started_tasks e2)" by simp
    also have "\<dots> = mset (running_pairs st) + mset (started_tasks e1) + mset (started_tasks e2)"
      using \<open>mset (running_pairs st1) + mset (settled_tasks e1) = _\<close> by simp
    finally show ?thesis by (simp add: ac_simps)
  qed
  ultimately show ?thesis using assms le by (simp add: tasks_accounted_def)
qed

interpretation tasks: queue_trace tasks_accounted
proof unfold_locales
  fix st e1 st1 e2 st2
  assume "tasks_accounted st e1 st1" "tasks_accounted st1 e2 st2"
  then show "tasks_accounted st (e1 @ e2) st2" by (rule accounted_trans)
next
  fix now s st effs st'
  assume "pump now s st = (effs, st')"
  then show "tasks_accounted st effs st'" by (rule pump_tasks)
next
  fix r st effs st' outcome
  assume "r \<in> set (qs_running st)" "tasks_accounted (st\<lparr>qs_running := remove1 r (qs_running st)\<rparr>) effs st'"
  then show "tasks_accounted st (effs @ [settle_effect r outcome]) st'" by (rule settle_accounted)
qed (simp_all add: tasks_accounted_def running_pairs_def)

lemma queue_reachable_tasks:
  assumes "queue_reachable trace st"
  shows "map fst (started_tasks trace) = [1..<qs_nextTaskId st]"
    and "mset (started_tasks trace) = mset (settled_tasks trace) + mset (running_pairs st)"
  using tasks.queue_reachable_R [OF assms]
  by (simp_all add: tasks_accounted_def running_pairs_def [of initial_queue_state] add.commute)

section \<open>Properties of the command queue\<close>

text \<open>
  The properties over every reachable state of the queue, with a concrete run as witness: two
  commands enqueued in the main lane, of which the second waits, and a waiter.
\<close>

subsection \<open>Further lemmas\<close>

lemma pump_loop_limit:
  assumes "pump_loop now n q s = (s', n', tasks, effs)" and "tasks \<noteq> []"
    and "\<forall>i\<in>set (ln_activeTaskIds s). i < n"
  shows "js_less (jn_of_int (int (length (ln_activeTaskIds s')) - 1)) (ln_maxConcurrent s)"
  using assms
proof (induction now n q s arbitrary: s' n' tasks effs rule: pump_loop.induct)
  case (2 now n e q s)
  have less: "js_less (jn_of_int (int (length (ln_activeTaskIds s)))) (ln_maxConcurrent s)"
    using 2(2,3) by (auto split: if_splits)
  let ?s1 = "s\<lparr>ln_activeTaskIds := set_add (ln_activeTaskIds s) n\<rparr>"
  obtain s2 n2 ts es where rec: "pump_loop now (n + 1) q ?s1 = (s2, n2, ts, es)"
    by (metis prod_cases4)
  have add: "set_add (ln_activeTaskIds s) n = ln_activeTaskIds s @ [n]"
    using 2(4) by (auto simp: set_add_def)
  have fresh: "\<forall>i\<in>set (ln_activeTaskIds ?s1). i < n + 1" using 2(4) by (auto simp: add less_SucI)
  have s': "s' = s2" using 2(2) less rec by (auto simp: Let_def)
  show ?case
  proof (cases "ts = []")
    case True
    have "ln_activeTaskIds s2 = ln_activeTaskIds ?s1 @ map rt_id ts"
      using pump_loop_spec [OF rec fresh] by blast
    then have "length (ln_activeTaskIds s') = length (ln_activeTaskIds s) + 1"
      using True by (simp add: s' add)
    then show ?thesis using less by simp
  next
    case False
    from 2(1) [OF less refl refl refl refl rec False fresh] show ?thesis by (simp add: s')
  qed
qed simp

lemma core_fresh:
  assumes "queue_core st" and "map_get (qs_lanes st) L = Some ls"
  shows "\<forall>i\<in>set (ln_activeTaskIds ls). i < qs_nextTaskId st"
  using queue_coreD(3) [OF assms] queue_coreD(4) [OF assms(1)]
  by (fastforce simp: lane_linked_def task_linked_def)

lemma active_ids_running:
  assumes "queue_core st" and "map_get (qs_lanes st) L = Some ls"
  shows "set (ln_activeTaskIds ls) =
    {rt_id r | r. r \<in> set (qs_running st) \<and> rt_lane r = L \<and> rt_generation r = ln_generation ls}"
  using queue_coreD(3) [OF assms] queue_coreD(4) [OF assms(1)] assms(2)
  by (fastforce simp: lane_linked_def task_linked_def)

lemma stale_finish:
  assumes "map_get (qs_lanes st) (rt_lane r) = Some ls" and "ln_lane ls = rt_lane r"
    and "rt_generation r \<noteq> ln_generation ls" and "wf_map (qs_lanes st)"
  shows "finish_task now r outcome st =
    ([settle_effect r outcome], put_lane ls (st\<lparr>qs_running := remove1 r (qs_running st)\<rparr>))"
  using assms by (simp add: finish_task_def completeTask_def)

subsection \<open>A sample run\<close>

definition sample_options :: enqueue_options where
  "sample_options = \<lparr>eo_warnAfterMs = None, eo_taskTimeoutMs = None, eo_onWait = False\<rparr>"

definition sample_enqueue :: "nat \<Rightarrow> queue_state \<Rightarrow> queue_effect list \<times> queue_state" where
  "sample_enqueue task st = enqueueCommandInLane 0 '' main '' task sample_options st"

definition sample_one :: "queue_effect list \<times> queue_state" where
  "sample_one = sample_enqueue 7 initial_queue_state"

definition sample_two :: "queue_effect list \<times> queue_state" where
  "sample_two = sample_enqueue 8 (snd sample_one)"

definition sample_wait :: "queue_effect list \<times> queue_state" where
  "sample_wait = waitForActiveTasks None (snd sample_two)"

definition sample_trace :: "queue_effect list" where
  "sample_trace = fst sample_one @ fst sample_two @ fst sample_wait"

lemma sample_reachable: "queue_reachable sample_trace (snd sample_wait)"
proof -
  have "queue_reachable ([] @ fst sample_one) (snd sample_one)"
    by (rule ReachStep [OF ReachInit StepEnqueue]) (simp add: sample_one_def sample_enqueue_def)
  then have "queue_reachable (([] @ fst sample_one) @ fst sample_two) (snd sample_two)"
    by (rule ReachStep [OF _ StepEnqueue]) (simp add: sample_two_def sample_enqueue_def)
  then have "queue_reachable ((([] @ fst sample_one) @ fst sample_two) @ fst sample_wait) (snd sample_wait)"
    by (rule ReachStep [OF _ StepWait]) (simp add: sample_wait_def)
  then show ?thesis by (simp add: sample_trace_def)
qed

definition sample_entry :: "nat \<Rightarrow> queue_entry" where
  "sample_entry task = \<lparr>qe_task = task, qe_enqueuedAt = 0, qe_warnAfterMs = 2000,
     qe_taskTimeoutMs = None, qe_onWait = False\<rparr>"

definition sample_lane :: lane_state where
  "sample_lane = \<lparr>ln_lane = ''main'', ln_queue = [sample_entry 8], ln_activeTaskIds = [1],
     ln_maxConcurrent = jn_of_int 1, ln_draining = False, ln_generation = 0\<rparr>"

lemma sample_lanes: "map_get (qs_lanes (snd sample_wait)) ''main'' = Some sample_lane"
  by code_simp

lemma sample_trace_eq:
  "sample_trace = [Accepted ''main'' (sample_entry 7), Started ''main'' 1 (sample_entry 7),
     Accepted ''main'' (sample_entry 8)]"
  by code_simp

subsection \<open>Properties\<close>

text \<open>C6: The queue is work-conserving. In every reachable state no lane is left draining, and a
  lane that has queued commands has as many active tasks as its concurrency limit admits.\<close>

theorem queue_work_conserving:
  assumes "queue_reachable trace st" and "map_get (qs_lanes st) L = Some ls"
  shows "\<not> ln_draining ls \<and> (ln_queue ls = [] \<or>
    \<not> js_less (jn_of_int (int (length (ln_activeTaskIds ls)))) (ln_maxConcurrent ls))"
  using queue_reachable_inv [OF assms(1)] assms(2)
  by (simp add: queue_inv_def lanes_settled_def lane_settled_def)

theorem queue_work_conserving_witness:
  "ln_queue sample_lane \<noteq> [] \<and>
   \<not> js_less (jn_of_int (int (length (ln_activeTaskIds sample_lane)))) (ln_maxConcurrent sample_lane)"
  using queue_work_conserving [OF sample_reachable sample_lanes] by (simp add: sample_lane_def)

text \<open>C17: Lanes are first-in-first-out. The trace of effects of every run replays on an abstract
  queue per lane, where a started or cleared command must be the head; the lane's queue is the
  result.\<close>

theorem queue_fifo_refinement:
  assumes "queue_reachable trace st"
  shows "lane_replay L trace [] = Some (queue_of st L)"
  using assms by (rule queue_reachable_fifo)

theorem queue_fifo_refinement_witness:
  "lane_replay ''main'' sample_trace [] = Some [sample_entry 8]"
  using queue_fifo_refinement [OF sample_reachable, of "''main''"] sample_lanes
  by (simp add: queue_of_def sample_lane_def)

text \<open>No task is lost, started twice or settled twice. The tasks a run starts have the ids 1, 2
  and so on, and each of them is either still running or settled exactly once.\<close>

theorem queue_tasks_accounted:
  assumes "queue_reachable trace st"
  shows "map fst (started_tasks trace) = [1..<qs_nextTaskId st] \<and>
    mset (started_tasks trace) = mset (settled_tasks trace) + mset (running_pairs st)"
  using queue_reachable_tasks [OF assms] by simp

theorem queue_tasks_accounted_witness:
  "mset (settled_tasks sample_trace) + mset (running_pairs (snd sample_wait)) = {#(1, sample_entry 7)#}"
  using queue_tasks_accounted [OF sample_reachable] by (simp add: sample_trace_eq)

text \<open>A lane's active ids are exactly its running tasks of the current generation, so tasks from
  before a reset hold no slot, and no id is active in two lanes.\<close>

theorem queue_active_ids:
  assumes "queue_reachable trace st" and "map_get (qs_lanes st) L = Some ls"
  shows "distinct (ln_activeTaskIds ls) \<and> set (ln_activeTaskIds ls) =
    {rt_id r | r. r \<in> set (qs_running st) \<and> rt_lane r = L \<and> rt_generation r = ln_generation ls} \<and>
    distinct (map rt_id (qs_running st))"
  using queue_reachable_inv [OF assms(1)] active_ids_running [OF _ assms(2)]
    queue_coreD(2) queue_coreD(3) [OF _ assms(2)]
  by (simp add: queue_inv_def lane_linked_def)

theorem queue_active_ids_witness:
  "{1} = {rt_id r | r. r \<in> set (qs_running (snd sample_wait)) \<and> rt_lane r = ''main'' \<and> rt_generation r = 0}"
  using queue_active_ids [OF sample_reachable sample_lanes] by (simp add: sample_lane_def)

text \<open>No waiter is forgotten. In every reachable state each waiter that is still registered waits
  for a task that is active in some lane.\<close>

theorem queue_waiters_pending:
  assumes "queue_reachable trace st" and "w \<in> set (qs_waiters st)"
  shows "hasPendingActiveTasks st (aw_activeTaskIds w)"
  using queue_reachable_inv [OF assms(1)] assms(2) by (simp add: queue_inv_def waiters_pending_def)

theorem queue_waiters_pending_witness:
  "hasPendingActiveTasks (snd sample_wait) [1]"
proof -
  have "\<lparr>aw_id = 0, aw_activeTaskIds = [1], aw_timeout = None\<rparr> \<in> set (qs_waiters (snd sample_wait))"
    by code_simp
  from queue_waiters_pending [OF sample_reachable this] show ?thesis by simp
qed

text \<open>The completion of a task from an earlier generation releases nothing. In every reachable
  state, when a running task of an old generation settles, its promise is settled and every
  lane keeps its queue, its active tasks and its generation.\<close>

theorem queue_stale_completion:
  assumes "queue_reachable trace st" and "r \<in> set (qs_running st)"
    and "map_get (qs_lanes st) (rt_lane r) = Some ls" and "rt_generation r \<noteq> ln_generation ls"
    and "finish_task now r outcome st = (effs, st')"
  shows "effs = [settle_effect r outcome] \<and>
    map_get (qs_lanes st') L = map_get (qs_lanes st) L \<and> qs_waiters st' = qs_waiters st"
proof -
  have core: "queue_core st" using queue_reachable_inv [OF assms(1)] by (simp add: queue_inv_def)
  have lane: "ln_lane ls = rt_lane r"
    using queue_coreD(3) [OF core assms(3)] by (simp add: lane_linked_def)
  show ?thesis
    using stale_finish [OF assms(3) lane assms(4) queue_coreD(1) [OF core]] assms(3,5) lane by auto
qed

definition sample_reset :: "queue_effect list \<times> queue_state" where
  "sample_reset = snd (resetCommandLane 5 ''main'' (snd sample_wait))"

definition sample_task :: running_task where
  "sample_task = \<lparr>rt_id = 1, rt_lane = ''main'', rt_generation = 0, rt_entry = sample_entry 7\<rparr>"

theorem queue_stale_completion_witness:
  "fst (finish_task 9 sample_task TaskOk (snd sample_reset)) = [Resolved 1 (sample_entry 7)] \<and>
   map_get (qs_lanes (snd (finish_task 9 sample_task TaskOk (snd sample_reset)))) ''main'' =
     map_get (qs_lanes (snd sample_reset)) ''main''"
proof -
  have reach: "queue_reachable (sample_trace @ fst sample_reset) (snd sample_reset)"
    by (rule ReachStep [OF sample_reachable StepReset [of 5 "''main''" _ 1]])
      (code_simp)
  have task: "sample_task \<in> set (qs_running (snd sample_reset))" by code_simp
  have lane: "map_get (qs_lanes (snd sample_reset)) (rt_lane sample_task) =
      Some (sample_lane\<lparr>ln_queue := [], ln_activeTaskIds := [2], ln_generation := 1\<rparr>)" by code_simp
  have gen: "rt_generation sample_task \<noteq>
      ln_generation (sample_lane\<lparr>ln_queue := [], ln_activeTaskIds := [2], ln_generation := 1\<rparr>)"
    by (simp add: sample_task_def)
  from queue_stale_completion [OF reach task lane gen prod.collapse [symmetric],
      where L = "''main''" and now = 9 and outcome = TaskOk]
  show ?thesis by (simp add: settle_effect_def sample_task_def)
qed

text \<open>A lane never starts a task beyond its limit. When pumping a lane starts tasks, the lane had
  fewer active tasks than its limit just before the last of them; the new active ids are those
  tasks', in the order of the queue.\<close>

theorem pump_respects_limit:
  assumes "queue_core st" and "map_get (qs_lanes st) L = Some ls"
    and "pump_loop now (qs_nextTaskId st) (ln_queue ls) ls = (ls', n', tasks, effs)" and "tasks \<noteq> []"
  shows "js_less (jn_of_int (int (length (ln_activeTaskIds ls')) - 1)) (ln_maxConcurrent ls) \<and>
    ln_activeTaskIds ls' = ln_activeTaskIds ls @ map rt_id tasks \<and>
    map rt_entry tasks @ ln_queue ls' = ln_queue ls"
proof -
  note fresh = core_fresh [OF assms(1,2)]
  show ?thesis
    using pump_loop_limit [OF assms(3,4) fresh] pump_loop_spec [OF assms(3) fresh] by blast
qed

definition sample_queued_lane :: lane_state where
  "sample_queued_lane = (new_lane ''main'')\<lparr>ln_queue := [sample_entry 7, sample_entry 8]\<rparr>"

theorem pump_respects_limit_witness:
  "map rt_entry (fst (snd (snd (pump_loop 0 1 (ln_queue sample_queued_lane) sample_queued_lane)))) @
     [sample_entry 8] = [sample_entry 7, sample_entry 8]"
proof -
  let ?st = "put_lane sample_queued_lane (put_lane (new_lane ''main'') initial_queue_state)"
  have "queue_core initial_queue_state" using initial_inv by (simp add: queue_inv_def)
  then have "queue_core (put_lane (new_lane ''main'') initial_queue_state)"
    by (rule queue_core_new) (simp add: initial_queue_state_def)
  then have core: "queue_core ?st"
    by (rule queue_core_same) (simp_all add: sample_queued_lane_def)
  have lane: "map_get (qs_lanes ?st) ''main'' = Some sample_queued_lane"
    by (simp add: sample_queued_lane_def)
  obtain ls' n' tasks effs where loop: "pump_loop 0 1 (ln_queue sample_queued_lane) sample_queued_lane =
      (ls', n', tasks, effs)" by (metis prod_cases4)
  moreover have "length (fst (snd (snd (pump_loop 0 1 (ln_queue sample_queued_lane) sample_queued_lane)))) = 1"
    "ln_queue (fst (pump_loop 0 1 (ln_queue sample_queued_lane) sample_queued_lane)) = [sample_entry 8]"
    by code_simp+
  ultimately have more: "tasks \<noteq> []" "ln_queue ls' = [sample_entry 8]" by auto
  have "pump_loop 0 (qs_nextTaskId ?st) (ln_queue sample_queued_lane) sample_queued_lane =
      (ls', n', tasks, effs)" using loop by simp
  from pump_respects_limit [OF core lane this more(1)] more(2) loop show ?thesis
    by (simp add: sample_queued_lane_def)
qed

end
