(* ===== verification/RateLimits.thy ===== *)
theory RateLimits
  imports JsMap AllowFrom
begin

section \<open>Rate limiters\<close>

text \<open>
  Models \<^verbatim>\<open>src/infra/fixed-window-rate-limit.ts\<close>, \<^verbatim>\<open>src/gateway/control-plane-rate-limit.ts\<close>
  and \<^verbatim>\<open>src/gateway/auth-rate-limit.ts\<close>. Times are integer milliseconds and every operation
  takes the time of its call. The first two share the contract \<open>window_limiter\<close>, whose lemmas
  bound the requests any interval of a window's length admits; the third locks an address out
  after too many failures. The client address helpers of \<^verbatim>\<open>net.ts\<close> (an IP address library)
  are the parameters \<open>resolve_ip\<close> and \<open>is_loopback\<close>.
\<close>

subsection \<open>Fixed window\<close>

record consume_result =
  cr_allowed :: bool
  cr_retryAfterMs :: int
  cr_remaining :: int

record fixed_window_config =
  fw_maxRequests :: int
  fw_windowMs :: int

record fixed_window =
  fw_count :: int
  fw_windowStartMs :: int

text \<open>Finite parameters of any fractional value are floored and at least 1.\<close>

definition createFixedWindowRateLimiter :: "rat \<Rightarrow> rat \<Rightarrow> fixed_window_config \<times> fixed_window" where
  "createFixedWindowRateLimiter maxRequests windowMs =
     (\<lparr>fw_maxRequests = max 1 \<lfloor>maxRequests\<rfloor>, fw_windowMs = max 1 \<lfloor>windowMs\<rfloor>\<rparr>,
      \<lparr>fw_count = 0, fw_windowStartMs = 0\<rparr>)"

definition fixed_window_consume ::
  "fixed_window_config \<Rightarrow> int \<Rightarrow> fixed_window \<Rightarrow> consume_result \<times> fixed_window" where
  "fixed_window_consume cfg nowMs st =
     (let st1 = (if nowMs - fw_windowStartMs st \<ge> fw_windowMs cfg
                 then \<lparr>fw_count = 0, fw_windowStartMs = nowMs\<rparr> else st)
      in if fw_count st1 \<ge> fw_maxRequests cfg then
           (\<lparr>cr_allowed = False,
             cr_retryAfterMs = max 0 (fw_windowStartMs st1 + fw_windowMs cfg - nowMs),
             cr_remaining = 0\<rparr>, st1)
         else
           (\<lparr>cr_allowed = True, cr_retryAfterMs = 0,
             cr_remaining = max 0 (fw_maxRequests cfg - (fw_count st1 + 1))\<rparr>,
            st1\<lparr>fw_count := fw_count st1 + 1\<rparr>))"

definition fixed_window_reset :: "fixed_window \<Rightarrow> fixed_window" where
  "fixed_window_reset st = \<lparr>fw_count = 0, fw_windowStartMs = 0\<rparr>"

subsection \<open>Control-plane writes\<close>

definition CONTROL_PLANE_RATE_LIMIT_MAX_REQUESTS :: int where
  "CONTROL_PLANE_RATE_LIMIT_MAX_REQUESTS = 3"

definition CONTROL_PLANE_RATE_LIMIT_WINDOW_MS :: int where
  "CONTROL_PLANE_RATE_LIMIT_WINDOW_MS = 60000"

definition CONTROL_PLANE_BUCKET_MAX_STALE_MS :: int where
  "CONTROL_PLANE_BUCKET_MAX_STALE_MS = 5 * 60000"

definition CONTROL_PLANE_BUCKET_MAX_ENTRIES :: nat where
  "CONTROL_PLANE_BUCKET_MAX_ENTRIES = 10000"

lemmas control_plane_constants =
  CONTROL_PLANE_RATE_LIMIT_MAX_REQUESTS_def CONTROL_PLANE_RATE_LIMIT_WINDOW_MS_def
  CONTROL_PLANE_BUCKET_MAX_STALE_MS_def CONTROL_PLANE_BUCKET_MAX_ENTRIES_def

record bucket =
  bk_count :: int
  bk_windowStartMs :: int

type_synonym buckets = "(string, bucket) js_map"

text \<open>The parts of a gateway client the key uses; a missing or non-string value is \<open>None\<close>.\<close>

record gateway_client =
  gw_deviceId :: "string option"
  gw_clientIp :: "string option"
  gw_connId :: "string option"

definition normalizePart :: "string option \<Rightarrow> string \<Rightarrow> string" where
  "normalizePart value fallback =
     (case value of
        None \<Rightarrow> fallback
      | Some v \<Rightarrow> let normalized = js_trim v in if length normalized > 0 then normalized else fallback)"

definition resolveControlPlaneRateLimitKey :: "gateway_client option \<Rightarrow> string" where
  "resolveControlPlaneRateLimitKey client =
     (let deviceId = normalizePart (Option.bind client gw_deviceId) ''unknown-device'';
          clientIp = normalizePart (Option.bind client gw_clientIp) ''unknown-ip'';
          connId = normalizePart (Option.bind client gw_connId) ''''
      in if deviceId = ''unknown-device'' \<and> clientIp = ''unknown-ip'' \<and> connId \<noteq> ''''
         then deviceId @ ''|'' @ clientIp @ ''|conn='' @ connId
         else deviceId @ ''|'' @ clientIp)"

definition evict_oldest :: "buckets \<Rightarrow> string \<Rightarrow> buckets" where
  "evict_oldest st key =
     (if map_get st key = None \<and> length st \<ge> CONTROL_PLANE_BUCKET_MAX_ENTRIES
      then (case st of [] \<Rightarrow> st | (oldest, b) # rest \<Rightarrow> map_delete st oldest)
      else st)"

definition consumeControlPlaneWriteBudget ::
  "gateway_client option \<Rightarrow> int \<Rightarrow> buckets \<Rightarrow> (consume_result \<times> string) \<times> buckets" where
  "consumeControlPlaneWriteBudget client nowMs st =
     (let key = resolveControlPlaneRateLimitKey client in
      case map_get st key of
        Some b \<Rightarrow>
          if nowMs - bk_windowStartMs b \<ge> CONTROL_PLANE_RATE_LIMIT_WINDOW_MS then
            ((\<lparr>cr_allowed = True, cr_retryAfterMs = 0,
               cr_remaining = CONTROL_PLANE_RATE_LIMIT_MAX_REQUESTS - 1\<rparr>, key),
             map_set (evict_oldest st key) key \<lparr>bk_count = 1, bk_windowStartMs = nowMs\<rparr>)
          else if bk_count b \<ge> CONTROL_PLANE_RATE_LIMIT_MAX_REQUESTS then
            ((\<lparr>cr_allowed = False,
               cr_retryAfterMs = max 0 (bk_windowStartMs b + CONTROL_PLANE_RATE_LIMIT_WINDOW_MS - nowMs),
               cr_remaining = 0\<rparr>, key), st)
          else
            ((\<lparr>cr_allowed = True, cr_retryAfterMs = 0,
               cr_remaining = max 0 (CONTROL_PLANE_RATE_LIMIT_MAX_REQUESTS - (bk_count b + 1))\<rparr>, key),
             map_set st key (b\<lparr>bk_count := bk_count b + 1\<rparr>))
      | None \<Rightarrow>
          ((\<lparr>cr_allowed = True, cr_retryAfterMs = 0,
             cr_remaining = CONTROL_PLANE_RATE_LIMIT_MAX_REQUESTS - 1\<rparr>, key),
           map_set (evict_oldest st key) key \<lparr>bk_count = 1, bk_windowStartMs = nowMs\<rparr>))"

definition pruneStaleControlPlaneBuckets :: "int \<Rightarrow> buckets \<Rightarrow> nat \<times> buckets" where
  "pruneStaleControlPlaneBuckets nowMs st =
     (let stale = (\<lambda>(k, b). nowMs - bk_windowStartMs b > CONTROL_PLANE_BUCKET_MAX_STALE_MS)
      in (length (filter stale st), filter (\<lambda>p. \<not> stale p) st))"

subsection \<open>Authentication failures\<close>

record auth_limiter_config =
  al_maxAttempts :: int
  al_windowMs :: int
  al_lockoutMs :: int
  al_exemptLoopback :: bool

record rate_limit_entry =
  rl_attempts :: "int list"
  rl_lockedUntil :: "int option"

type_synonym auth_entries = "(string, rate_limit_entry) js_map"

definition BROWSER_ORIGIN_RATE_LIMIT_KEY_PREFIX :: string where
  "BROWSER_ORIGIN_RATE_LIMIT_KEY_PREFIX = ''browser-origin:''"

definition AUTH_RATE_LIMIT_SCOPE_DEFAULT :: string where
  "AUTH_RATE_LIMIT_SCOPE_DEFAULT = ''default''"

text \<open>\<open>config?.maxAttempts ?? 10\<close> and the other defaults.\<close>

definition createAuthRateLimiter ::
  "int option \<Rightarrow> int option \<Rightarrow> int option \<Rightarrow> bool option \<Rightarrow> auth_limiter_config \<times> auth_entries" where
  "createAuthRateLimiter maxAttempts windowMs lockoutMs exemptLoopback =
     (\<lparr>al_maxAttempts = nullish maxAttempts 10, al_windowMs = nullish windowMs 60000,
       al_lockoutMs = nullish lockoutMs 300000, al_exemptLoopback = nullish exemptLoopback True\<rparr>, [])"

type_synonym ip_resolver = "string option \<Rightarrow> string option"

definition normalizeRateLimitClientIp :: "ip_resolver \<Rightarrow> string option \<Rightarrow> string" where
  "normalizeRateLimitClientIp resolve_ip ip =
     (case ip of
        Some i \<Rightarrow> if starts_with i BROWSER_ORIGIN_RATE_LIMIT_KEY_PREFIX then i
                  else nullish (resolve_ip ip) ''unknown''
      | None \<Rightarrow> nullish (resolve_ip ip) ''unknown'')"

definition normalizeScope :: "string option \<Rightarrow> string" where
  "normalizeScope scope =
     or_str (js_trim (nullish scope AUTH_RATE_LIMIT_SCOPE_DEFAULT)) AUTH_RATE_LIMIT_SCOPE_DEFAULT"

definition auth_resolveKey ::
  "ip_resolver \<Rightarrow> string option \<Rightarrow> string option \<Rightarrow> string \<times> string" where
  "auth_resolveKey resolve_ip rawIp rawScope =
     (let ip = normalizeRateLimitClientIp resolve_ip rawIp
      in (normalizeScope rawScope @ '':'' @ ip, ip))"

definition isExempt :: "auth_limiter_config \<Rightarrow> (string \<Rightarrow> bool) \<Rightarrow> string \<Rightarrow> bool" where
  "isExempt cfg is_loopback ip = (al_exemptLoopback cfg \<and> is_loopback ip)"

definition slideWindow :: "auth_limiter_config \<Rightarrow> rate_limit_entry \<Rightarrow> int \<Rightarrow> rate_limit_entry" where
  "slideWindow cfg entry now =
     entry\<lparr>rl_attempts := filter (\<lambda>ts. ts > now - al_windowMs cfg) (rl_attempts entry)\<rparr>"

text \<open>\<open>entry.lockedUntil && now < entry.lockedUntil\<close>: a time of 0 counts as no lock.\<close>

definition still_locked :: "rate_limit_entry \<Rightarrow> int \<Rightarrow> bool" where
  "still_locked entry now =
     (case rl_lockedUntil entry of None \<Rightarrow> False | Some t \<Rightarrow> t \<noteq> 0 \<and> now < t)"

definition lock_expired :: "rate_limit_entry \<Rightarrow> int \<Rightarrow> bool" where
  "lock_expired entry now =
     (case rl_lockedUntil entry of None \<Rightarrow> False | Some t \<Rightarrow> t \<noteq> 0 \<and> now \<ge> t)"

definition auth_check ::
  "auth_limiter_config \<Rightarrow> ip_resolver \<Rightarrow> (string \<Rightarrow> bool) \<Rightarrow> string option \<Rightarrow> string option \<Rightarrow> int \<Rightarrow>
   auth_entries \<Rightarrow> consume_result \<times> auth_entries" where
  "auth_check cfg resolve_ip is_loopback rawIp rawScope now entries =
     (let (key, ip) = auth_resolveKey resolve_ip rawIp rawScope;
          free = \<lparr>cr_allowed = True, cr_retryAfterMs = 0, cr_remaining = al_maxAttempts cfg\<rparr>
      in if isExempt cfg is_loopback ip then (free, entries)
         else case map_get entries key of
           None \<Rightarrow> (free, entries)
         | Some entry \<Rightarrow>
             if still_locked entry now then
               (\<lparr>cr_allowed = False, cr_retryAfterMs = nullish (rl_lockedUntil entry) 0 - now,
                 cr_remaining = 0\<rparr>, entries)
             else
               (let entry1 = (if lock_expired entry now then \<lparr>rl_attempts = [], rl_lockedUntil = None\<rparr>
                              else entry);
                    entry2 = slideWindow cfg entry1 now;
                    remaining = max 0 (al_maxAttempts cfg - int (length (rl_attempts entry2)))
                in (\<lparr>cr_allowed = (remaining > 0), cr_retryAfterMs = 0, cr_remaining = remaining\<rparr>,
                    map_set entries key entry2)))"

definition auth_recordFailure ::
  "auth_limiter_config \<Rightarrow> ip_resolver \<Rightarrow> (string \<Rightarrow> bool) \<Rightarrow> string option \<Rightarrow> string option \<Rightarrow> int \<Rightarrow>
   auth_entries \<Rightarrow> auth_entries" where
  "auth_recordFailure cfg resolve_ip is_loopback rawIp rawScope now entries =
     (let (key, ip) = auth_resolveKey resolve_ip rawIp rawScope
      in if isExempt cfg is_loopback ip then entries
         else
           let entry = nullish (map_get entries key) \<lparr>rl_attempts = [], rl_lockedUntil = None\<rparr>
           in if still_locked entry now then map_set entries key entry
              else
                let entry1 = slideWindow cfg entry now;
                    entry2 = entry1\<lparr>rl_attempts := rl_attempts entry1 @ [now]\<rparr>
                in map_set entries key
                     (if int (length (rl_attempts entry2)) \<ge> al_maxAttempts cfg
                      then entry2\<lparr>rl_lockedUntil := Some (now + al_lockoutMs cfg)\<rparr> else entry2))"

definition auth_reset ::
  "ip_resolver \<Rightarrow> string option \<Rightarrow> string option \<Rightarrow> auth_entries \<Rightarrow> auth_entries" where
  "auth_reset resolve_ip rawIp rawScope entries =
     map_delete entries (fst (auth_resolveKey resolve_ip rawIp rawScope))"

fun auth_prune :: "auth_limiter_config \<Rightarrow> int \<Rightarrow> auth_entries \<Rightarrow> auth_entries" where
  "auth_prune cfg now [] = []"
| "auth_prune cfg now ((key, entry) # rest) =
     (if still_locked entry now then (key, entry) # auth_prune cfg now rest
      else let entry1 = slideWindow cfg entry now
           in if length (rl_attempts entry1) = 0 then auth_prune cfg now rest
              else (key, entry1) # auth_prune cfg now rest)"

definition auth_size :: "auth_entries \<Rightarrow> nat" where
  "auth_size entries = length entries"

subsection \<open>The contract of a window limiter\<close>

text \<open>The number of admissions of a sequence of calls.\<close>

fun count_admitted :: "(int \<Rightarrow> 's \<Rightarrow> consume_result \<times> 's) \<Rightarrow> int list \<Rightarrow> 's \<Rightarrow> int" where
  "count_admitted consume [] s = 0"
| "count_admitted consume (t # ts) s =
     (if cr_allowed (fst (consume t s)) then 1 else 0) + count_admitted consume ts (snd (consume t s))"

text \<open>
  A limiter with at most \<open>lim\<close> admissions per window of \<open>win\<close> milliseconds; \<open>view\<close> is the open
  window, its admissions so far and its start, if there is one.
\<close>

locale window_limiter =
  fixes consume :: "int \<Rightarrow> 's \<Rightarrow> consume_result \<times> 's"
    and view :: "'s \<Rightarrow> (int \<times> int) option"
    and lim :: int and win :: int
  assumes lim_pos: "0 < lim" and win_pos: "0 < win"
    and fresh_none: "view s = None \<Longrightarrow>
      cr_allowed (fst (consume now s)) \<and> view (snd (consume now s)) = Some (1, now)"
    and fresh_over: "view s = Some (c, start) \<Longrightarrow> now - start \<ge> win \<Longrightarrow>
      cr_allowed (fst (consume now s)) \<and> view (snd (consume now s)) = Some (1, now)"
    and within: "view s = Some (c, start) \<Longrightarrow> now - start < win \<Longrightarrow> c < lim \<Longrightarrow>
      cr_allowed (fst (consume now s)) \<and> view (snd (consume now s)) = Some (c + 1, start)"
    and full: "view s = Some (c, start) \<Longrightarrow> now - start < win \<Longrightarrow> lim \<le> c \<Longrightarrow>
      \<not> cr_allowed (fst (consume now s)) \<and> snd (consume now s) = s \<and>
      cr_retryAfterMs (fst (consume now s)) = start + win - now"
begin

text \<open>Calls inside one window get what is left of it.\<close>

lemma admitted_same_window:
  assumes "view s = Some (c, start)" and "\<forall>t\<in>set ts. t - start < win"
  shows "count_admitted consume ts s \<le> max 0 (lim - c)"
  using assms
proof (induction ts arbitrary: s c)
  case (Cons t ts)
  show ?case
  proof (cases "c < lim")
    case True
    have "cr_allowed (fst (consume t s)) \<and> view (snd (consume t s)) = Some (c + 1, start)"
      using within [OF Cons.prems(1) _ True] Cons.prems(2) by simp
    with Cons.IH [of "snd (consume t s)" "c + 1"] Cons.prems(2) True show ?thesis by auto
  next
    case False
    then have "\<not> cr_allowed (fst (consume t s))" "snd (consume t s) = s"
      using full [OF Cons.prems(1)] Cons.prems(2) by auto
    with Cons.IH [OF Cons.prems(1)] Cons.prems(2) show ?thesis by auto
  qed
qed simp

lemma admitted_fresh:
  assumes "cr_allowed (fst (consume t s)) \<and> view (snd (consume t s)) = Some (1, t)"
    and "\<forall>u\<in>set ts. u - t < win"
  shows "count_admitted consume (t # ts) s \<le> lim"
  using admitted_same_window [of "snd (consume t s)" 1 t ts] assms lim_pos by auto

text \<open>In order, calls over less than a window's length get at most twice the limit.\<close>

lemma admitted_interval:
  assumes "sorted ts" and "\<forall>t\<in>set ts. a \<le> t \<and> t < a + win"
    and "case view s of None \<Rightarrow> True | Some (c, start) \<Rightarrow> 0 \<le> c"
  shows "count_admitted consume ts s \<le> 2 * lim"
proof -
  have "count_admitted consume ts s \<le> lim + (case view s of None \<Rightarrow> 0 | Some (c, start) \<Rightarrow> max 0 (lim - c))"
    using assms
  proof (induction ts arbitrary: s)
    case Nil
    then show ?case using lim_pos by (auto split: option.splits)
  next
    case (Cons t ts)
    have later: "\<forall>u\<in>set ts. u - t < win" using Cons.prems(1,2) by force
    show ?case
    proof (cases "view s")
      case None
      then show ?thesis using admitted_fresh [OF fresh_none [OF None] later] by simp
    next
      case (Some w)
      then obtain c start where w: "view s = Some (c, start)" by (cases w) auto
      show ?thesis
      proof (cases "t - start \<ge> win")
        case True
        then show ?thesis using admitted_fresh [OF fresh_over [OF w True] later] w by simp
      next
        case over: False
        show ?thesis
        proof (cases "c < lim")
          case True
          have step: "cr_allowed (fst (consume t s)) \<and> view (snd (consume t s)) = Some (c + 1, start)"
            using within [OF w _ True] over by simp
          have "count_admitted consume ts (snd (consume t s)) \<le> lim + max 0 (lim - (c + 1))"
            using Cons.IH [of "snd (consume t s)"] Cons.prems step w by simp
          then show ?thesis using step w True by simp
        next
          case False
          then have "\<not> cr_allowed (fst (consume t s))" "snd (consume t s) = s"
            using full [OF w] over by auto
          then show ?thesis using Cons.IH [of s] Cons.prems by simp
        qed
      qed
    qed
  qed
  then show ?thesis using lim_pos assms(3) by (auto split: option.splits)
qed

text \<open>A refused caller that waits for the reported time is admitted.\<close>

lemma retry_admitted:
  assumes "\<not> cr_allowed (fst (consume now s))"
  shows "0 < cr_retryAfterMs (fst (consume now s)) \<and>
    cr_allowed (fst (consume (now + cr_retryAfterMs (fst (consume now s))) (snd (consume now s))))"
proof (cases "view s")
  case None
  then show ?thesis using fresh_none assms by blast
next
  case (Some w)
  then obtain c start where w: "view s = Some (c, start)" by (cases w) auto
  have "now - start < win" using fresh_over [OF w, of now] assms by force
  moreover have "lim \<le> c" using within [OF w] assms calculation by force
  ultimately show ?thesis using full [OF w] fresh_over [OF w, of "start + win"] by simp
qed

end

subsection \<open>Both limiters satisfy it\<close>

definition fixed_window_view :: "fixed_window \<Rightarrow> (int \<times> int) option" where
  "fixed_window_view st = Some (fw_count st, fw_windowStartMs st)"

definition valid_window_config :: "fixed_window_config \<Rightarrow> bool" where
  "valid_window_config cfg = (1 \<le> fw_maxRequests cfg \<and> 1 \<le> fw_windowMs cfg)"

lemma created_window_valid: "valid_window_config (fst (createFixedWindowRateLimiter m w))"
  by (simp add: valid_window_config_def createFixedWindowRateLimiter_def)

text \<open>The configuration of a created limiter, for any parameters.\<close>

interpretation fixed: window_limiter
  "fixed_window_consume (fst (createFixedWindowRateLimiter m w))" fixed_window_view
  "max 1 \<lfloor>m\<rfloor>" "max 1 \<lfloor>w\<rfloor>" for m w :: rat
  by unfold_locales
    (auto simp: createFixedWindowRateLimiter_def fixed_window_consume_def fixed_window_view_def Let_def)

definition bucket_view :: "string \<Rightarrow> buckets \<Rightarrow> (int \<times> int) option" where
  "bucket_view key st = map_option (\<lambda>b. (bk_count b, bk_windowStartMs b)) (map_get st key)"

definition control_consume :: "gateway_client option \<Rightarrow> int \<Rightarrow> buckets \<Rightarrow> consume_result \<times> buckets" where
  "control_consume client now st =
     (let (r, st') = consumeControlPlaneWriteBudget client now st in (fst r, st'))"

interpretation control: window_limiter "control_consume client"
  "bucket_view (resolveControlPlaneRateLimitKey client)"
  CONTROL_PLANE_RATE_LIMIT_MAX_REQUESTS CONTROL_PLANE_RATE_LIMIT_WINDOW_MS for client
  by unfold_locales
    (auto simp: control_consume_def consumeControlPlaneWriteBudget_def bucket_view_def Let_def
      control_plane_constants split: option.splits)

subsection \<open>The bucket map\<close>

lemma evict_oldest_other:
  "map_get st key \<noteq> None \<or> length st < CONTROL_PLANE_BUCKET_MAX_ENTRIES \<Longrightarrow> evict_oldest st key = st"
  by (auto simp: evict_oldest_def)

lemma map_set_length: "length (map_set m k v) = (if map_get m k = None then length m + 1 else length m)"
  by (induction m k v rule: map_set.induct) (auto simp: map_get_def)

lemma evict_oldest_length:
  assumes "wf_map st" and "map_get st key = None" and "length st \<le> CONTROL_PLANE_BUCKET_MAX_ENTRIES"
  shows "length (evict_oldest st key) < CONTROL_PLANE_BUCKET_MAX_ENTRIES"
proof (cases st)
  case Nil
  then show ?thesis by (simp add: evict_oldest_def CONTROL_PLANE_BUCKET_MAX_ENTRIES_def)
next
  case (Cons p rest)
  obtain k b where p: "p = (k, b)" by (cases p)
  have "length (map_delete st k) \<le> length rest"
    unfolding Cons p map_delete_def by simp
  then show ?thesis using assms Cons p
    by (auto simp: evict_oldest_def)
qed

lemma evict_oldest_get:
  "map_get (evict_oldest st key) key = map_get st key"
  by (auto simp: evict_oldest_def split: list.splits)

lemma evict_oldest_wf: "wf_map st \<Longrightarrow> wf_map (evict_oldest st key)"
  by (auto simp: evict_oldest_def split: list.splits intro: wf_map_delete)

definition buckets_ok :: "buckets \<Rightarrow> bool" where
  "buckets_ok st = (wf_map st \<and> length st \<le> CONTROL_PLANE_BUCKET_MAX_ENTRIES \<and>
     list_all (\<lambda>(k, b). 1 \<le> bk_count b \<and> bk_count b \<le> CONTROL_PLANE_RATE_LIMIT_MAX_REQUESTS) st)"

definition bucket_ok :: "string \<times> bucket \<Rightarrow> bool" where
  "bucket_ok p = (1 \<le> bk_count (snd p) \<and> bk_count (snd p) \<le> CONTROL_PLANE_RATE_LIMIT_MAX_REQUESTS)"

lemma buckets_ok_iff:
  "buckets_ok st = (wf_map st \<and> length st \<le> CONTROL_PLANE_BUCKET_MAX_ENTRIES \<and>
     (\<forall>p\<in>set st. bucket_ok p))"
  by (auto simp: buckets_ok_def bucket_ok_def list_all_iff)

lemma buckets_ok_set:
  assumes "wf_map st" and "\<forall>p\<in>set st. bucket_ok p" and "bucket_ok (key, b)"
    and "length st < CONTROL_PLANE_BUCKET_MAX_ENTRIES \<or>
      map_get st key \<noteq> None \<and> length st \<le> CONTROL_PLANE_BUCKET_MAX_ENTRIES"
  shows "buckets_ok (map_set st key b)"
  using assms by (auto simp: buckets_ok_iff map_set_set map_set_length)

lemma evict_oldest_subset: "set (evict_oldest st key) \<subseteq> set st"
  by (auto simp: evict_oldest_def set_map_delete split: list.splits)

lemma control_new_bucket_ok:
  assumes "buckets_ok st"
  shows "buckets_ok (map_set (evict_oldest st key) key \<lparr>bk_count = 1, bk_windowStartMs = now\<rparr>)"
proof (rule buckets_ok_set)
  show "wf_map (evict_oldest st key)" using assms by (simp add: buckets_ok_iff evict_oldest_wf)
  show "\<forall>p\<in>set (evict_oldest st key). bucket_ok p"
    using assms evict_oldest_subset [of st key] by (auto simp: buckets_ok_iff)
  show "bucket_ok (key, \<lparr>bk_count = 1, bk_windowStartMs = now\<rparr>)"
    by (simp add: bucket_ok_def control_plane_constants)
  show "length (evict_oldest st key) < CONTROL_PLANE_BUCKET_MAX_ENTRIES \<or>
      map_get (evict_oldest st key) key \<noteq> None \<and>
      length (evict_oldest st key) \<le> CONTROL_PLANE_BUCKET_MAX_ENTRIES"
  proof (cases "map_get st key")
    case None
    then show ?thesis using assms evict_oldest_length [of st key] by (simp add: buckets_ok_iff)
  next
    case (Some b)
    then show ?thesis using assms evict_oldest_other [of st key] by (simp add: buckets_ok_iff)
  qed
qed

lemma control_consume_ok:
  assumes "buckets_ok st"
  shows "buckets_ok (snd (consumeControlPlaneWriteBudget client now st))"
proof -
  let ?key = "resolveControlPlaneRateLimitKey client"
  have "buckets_ok (map_set st ?key (b\<lparr>bk_count := bk_count b + 1\<rparr>))"
    if "map_get st ?key = Some b" "bk_count b < CONTROL_PLANE_RATE_LIMIT_MAX_REQUESTS" for b
  proof (rule buckets_ok_set)
    have "bucket_ok (?key, b)" using map_get_in [OF that(1)] assms by (auto simp: buckets_ok_iff)
    then show "bucket_ok (?key, b\<lparr>bk_count := bk_count b + 1\<rparr>)" using that(2) by (simp add: bucket_ok_def)
  qed (use assms that(1) in \<open>auto simp: buckets_ok_iff\<close>)
  then show ?thesis using control_new_bucket_ok [OF assms] assms
    by (auto simp: consumeControlPlaneWriteBudget_def Let_def split: option.split)
qed

lemma wf_map_filter: "wf_map st \<Longrightarrow> wf_map (filter P st)"
  unfolding wf_map_def by (induction st) (auto simp: image_iff)

lemma prune_buckets_ok:
  assumes "buckets_ok st"
  shows "buckets_ok (snd (pruneStaleControlPlaneBuckets now st))"
proof -
  obtain P where P: "snd (pruneStaleControlPlaneBuckets now st) = filter P st"
    by (simp add: pruneStaleControlPlaneBuckets_def Let_def)
  have "length (filter P st) \<le> CONTROL_PLANE_BUCKET_MAX_ENTRIES"
    by (rule le_trans [OF length_filter_le]) (use assms in \<open>simp add: buckets_ok_iff\<close>)
  then show ?thesis using assms by (simp add: P buckets_ok_iff wf_map_filter)
qed

text \<open>Another client's consumption leaves a client's window alone while there is room.\<close>

lemma control_consume_other:
  assumes "resolveControlPlaneRateLimitKey client \<noteq> key"
    and "length st < CONTROL_PLANE_BUCKET_MAX_ENTRIES"
  shows "map_get (snd (consumeControlPlaneWriteBudget client now st)) key = map_get st key"
proof -
  have "evict_oldest st (resolveControlPlaneRateLimitKey client) = st"
    using evict_oldest_other assms(2) by blast
  then show ?thesis using assms(1)
    by (auto simp: consumeControlPlaneWriteBudget_def Let_def split: option.split)
qed

subsection \<open>Authentication lockouts\<close>

definition auth_key :: "ip_resolver \<Rightarrow> string option \<Rightarrow> string option \<Rightarrow> string" where
  "auth_key resolve_ip ip scope = fst (auth_resolveKey resolve_ip ip scope)"

text \<open>The operations on the limiter, with the time of each call.\<close>

datatype auth_op =
    AuthCheck "string option" "string option" int
  | AuthFailure "string option" "string option" int
  | AuthReset "string option" "string option"
  | AuthPrune int

fun auth_apply ::
  "auth_limiter_config \<Rightarrow> ip_resolver \<Rightarrow> (string \<Rightarrow> bool) \<Rightarrow> auth_op \<Rightarrow> auth_entries \<Rightarrow> auth_entries" where
  "auth_apply cfg ri lo (AuthCheck ip scope now) es = snd (auth_check cfg ri lo ip scope now es)"
| "auth_apply cfg ri lo (AuthFailure ip scope now) es = auth_recordFailure cfg ri lo ip scope now es"
| "auth_apply cfg ri lo (AuthReset ip scope) es = auth_reset ri ip scope es"
| "auth_apply cfg ri lo (AuthPrune now) es = auth_prune cfg now es"

text \<open>An operation before time \<open>t\<close> that is not a reset of the key.\<close>

fun op_before :: "ip_resolver \<Rightarrow> string \<Rightarrow> int \<Rightarrow> auth_op \<Rightarrow> bool" where
  "op_before ri key t (AuthCheck ip scope now) = (now < t)"
| "op_before ri key t (AuthFailure ip scope now) = (now < t)"
| "op_before ri key t (AuthReset ip scope) = (auth_key ri ip scope \<noteq> key)"
| "op_before ri key t (AuthPrune now) = (now < t)"

lemma auth_prune_locked:
  assumes "map_get es key = Some entry" and "still_locked entry now"
  shows "map_get (auth_prune cfg now es) key = Some entry"
  using assms
proof (induction cfg now es rule: auth_prune.induct)
  case (2 cfg now k e rest)
  then show ?case by (cases "k = key") (auto simp: map_get_def Let_def)
qed simp

lemma locked_op:
  assumes "map_get es key = Some entry" and "rl_lockedUntil entry = Some t" and "t \<noteq> 0"
    and "op_before ri key t op"
  shows "map_get (auth_apply cfg ri lo op es) key = Some entry"
proof (cases op)
  case (AuthCheck ip scope now)
  then have "still_locked entry now" using assms by (simp add: still_locked_def)
  then show ?thesis using assms(1) AuthCheck
    by (auto simp: auth_check_def Let_def split: prod.split option.split)
next
  case (AuthFailure ip scope now)
  then have "still_locked entry now" using assms by (simp add: still_locked_def)
  then show ?thesis using assms(1) AuthFailure
    by (auto simp: auth_recordFailure_def Let_def split: prod.split)
next
  case (AuthReset ip scope)
  then show ?thesis using assms by (simp add: auth_reset_def auth_key_def)
next
  case (AuthPrune now)
  then have "still_locked entry now" using assms by (simp add: still_locked_def)
  from auth_prune_locked [OF assms(1) this] AuthPrune show ?thesis by simp
qed

lemma locked_ops:
  assumes "rl_lockedUntil entry = Some t" and "t \<noteq> 0"
    and "map_get es key = Some entry" and "list_all (op_before ri key t) ops"
  shows "map_get (fold (auth_apply cfg ri lo) ops es) key = Some entry"
  using assms(3,4) by (induction ops arbitrary: es) (simp_all add: locked_op [OF _ assms(1,2)])

lemma auth_check_locked:
  assumes "map_get es (auth_key ri ip scope) = Some entry" and "rl_lockedUntil entry = Some t"
    and "t \<noteq> 0" and "now < t" and "\<not> isExempt cfg lo (snd (auth_resolveKey ri ip scope))"
  shows "fst (auth_check cfg ri lo ip scope now es) =
    \<lparr>cr_allowed = False, cr_retryAfterMs = t - now, cr_remaining = 0\<rparr>"
  using assms by (simp add: auth_check_def auth_key_def still_locked_def case_prod_beta)

text \<open>The failures of a key in the last window, with the one being recorded.\<close>

definition recent_failures :: "auth_limiter_config \<Rightarrow> auth_entries \<Rightarrow> string \<Rightarrow> int \<Rightarrow> nat" where
  "recent_failures cfg es key now =
     (case map_get es key of None \<Rightarrow> 0
      | Some e \<Rightarrow> length (filter (\<lambda>ts. ts > now - al_windowMs cfg) (rl_attempts e)))"

definition key_locked :: "auth_entries \<Rightarrow> string \<Rightarrow> int \<Rightarrow> bool" where
  "key_locked es key now = (case map_get es key of None \<Rightarrow> False | Some e \<Rightarrow> still_locked e now)"

lemma failure_locks:
  assumes "\<not> isExempt cfg lo (snd (auth_resolveKey ri ip scope))"
    and "\<not> key_locked es (auth_key ri ip scope) now"
    and "al_maxAttempts cfg \<le> int (recent_failures cfg es (auth_key ri ip scope) now) + 1"
  shows "\<exists>entry. map_get (auth_recordFailure cfg ri lo ip scope now es) (auth_key ri ip scope) = Some entry \<and>
    rl_lockedUntil entry = Some (now + al_lockoutMs cfg)"
  using assms
  by (cases "map_get es (auth_key ri ip scope)")
    (auto simp: auth_recordFailure_def auth_key_def case_prod_beta Let_def key_locked_def
      recent_failures_def slideWindow_def still_locked_def)

lemma lockout_holds:
  assumes "\<not> isExempt cfg lo (snd (auth_resolveKey ri ip scope))"
    and "\<not> key_locked es (auth_key ri ip scope) now"
    and "al_maxAttempts cfg \<le> int (recent_failures cfg es (auth_key ri ip scope) now) + 1"
    and "now + al_lockoutMs cfg \<noteq> 0"
    and "list_all (op_before ri (auth_key ri ip scope) (now + al_lockoutMs cfg)) ops"
    and "later < now + al_lockoutMs cfg"
  shows "fst (auth_check cfg ri lo ip scope later
      (fold (auth_apply cfg ri lo) ops (auth_recordFailure cfg ri lo ip scope now es))) =
    \<lparr>cr_allowed = False, cr_retryAfterMs = now + al_lockoutMs cfg - later, cr_remaining = 0\<rparr>"
proof -
  obtain entry where e: "map_get (auth_recordFailure cfg ri lo ip scope now es) (auth_key ri ip scope) = Some entry"
      "rl_lockedUntil entry = Some (now + al_lockoutMs cfg)"
    using failure_locks [OF assms(1-3)] by blast
  from auth_check_locked [OF locked_ops [OF e(2) assms(4) e(1) assms(5)] e(2) assms(4,6,1)]
  show ?thesis .
qed

text \<open>Below the limit nobody is refused, and other keys do not matter.\<close>

lemma auth_check_unlocked:
  assumes "\<not> key_locked es (auth_key ri ip scope) now"
    and "int (recent_failures cfg es (auth_key ri ip scope) now) < al_maxAttempts cfg"
    and "\<not> isExempt cfg lo (snd (auth_resolveKey ri ip scope))"
  shows "cr_allowed (fst (auth_check cfg ri lo ip scope now es))"
proof (cases "map_get es (auth_key ri ip scope)")
  case None
  then show ?thesis using assms(3) by (simp add: auth_check_def auth_key_def case_prod_beta)
next
  case (Some e)
  have few: "int (length (filter (\<lambda>ts. ts > now - al_windowMs cfg) (rl_attempts e))) < al_maxAttempts cfg"
    using assms(2) Some by (simp add: recent_failures_def)
  then have "0 < al_maxAttempts cfg" by linarith
  with few show ?thesis using assms(1,3) Some
    by (auto simp: auth_check_def auth_key_def case_prod_beta Let_def key_locked_def slideWindow_def)
qed

lemma auth_op_other:
  assumes "auth_key ri ip scope \<noteq> key"
  shows "map_get (snd (auth_check cfg ri lo ip scope now es)) key = map_get es key"
    and "map_get (auth_recordFailure cfg ri lo ip scope now es) key = map_get es key"
    and "map_get (auth_reset ri ip scope es) key = map_get es key"
  using assms
  by (auto simp: auth_check_def auth_recordFailure_def auth_reset_def auth_key_def case_prod_beta
      Let_def split: option.split)

subsection \<open>Properties\<close>

text \<open>A fixed-window limiter admits at most twice its limit in any interval shorter than the
  window. For calls in time order within less than a window's length, whatever was admitted
  before, no more than two windows' worth are admitted.\<close>

theorem fixed_window_burst_bound:
  assumes "sorted ts" and "\<forall>t\<in>set ts. a \<le> t \<and> t < a + max 1 \<lfloor>w\<rfloor>" and "0 \<le> fw_count st"
  shows "count_admitted (fixed_window_consume (fst (createFixedWindowRateLimiter m w))) ts st
    \<le> 2 * max 1 \<lfloor>m\<rfloor>"
  using assms by (intro fixed.admitted_interval [of ts a]) (simp_all add: fixed_window_view_def)

theorem fixed_window_burst_bound_witness:
  "count_admitted (fixed_window_consume (fst (createFixedWindowRateLimiter 2 1000))) [900, 950, 1400, 1450, 1500]
     \<lparr>fw_count = 0, fw_windowStartMs = 0\<rparr> \<le> 4"
  using fixed_window_burst_bound [of "[900, 950, 1400, 1450, 1500]" 900 1000
      "\<lparr>fw_count = 0, fw_windowStartMs = 0\<rparr>" 2] by simp

text \<open>The reported retry time is right. A caller the fixed-window limiter refuses gets a positive
  retry time, and is admitted when it calls again after exactly that time.\<close>

theorem fixed_window_retry:
  assumes "\<not> cr_allowed (fst (fixed_window_consume (fst (createFixedWindowRateLimiter m w)) now st))"
  shows "0 < cr_retryAfterMs (fst (fixed_window_consume (fst (createFixedWindowRateLimiter m w)) now st)) \<and>
    cr_allowed (fst (fixed_window_consume (fst (createFixedWindowRateLimiter m w))
      (now + cr_retryAfterMs (fst (fixed_window_consume (fst (createFixedWindowRateLimiter m w)) now st)))
      (snd (fixed_window_consume (fst (createFixedWindowRateLimiter m w)) now st))))"
  using assms by (rule fixed.retry_admitted)

theorem fixed_window_retry_witness:
  "0 < cr_retryAfterMs (fst (fixed_window_consume (fst (createFixedWindowRateLimiter 1 1000)) 1500
     \<lparr>fw_count = 1, fw_windowStartMs = 1000\<rparr>))"
proof -
  have "\<not> cr_allowed (fst (fixed_window_consume (fst (createFixedWindowRateLimiter 1 1000)) 1500
      \<lparr>fw_count = 1, fw_windowStartMs = 1000\<rparr>))"
    by (simp add: createFixedWindowRateLimiter_def fixed_window_consume_def)
  from fixed_window_retry [OF this] show ?thesis by blast
qed

text \<open>A client makes at most six control-plane writes in any interval shorter than a minute:
  twice the three of a window. Refused calls report when the window ends.\<close>

theorem control_plane_burst_bound:
  assumes "sorted ts" and "\<forall>t\<in>set ts. a \<le> t \<and> t < a + 60000" and "buckets_ok st"
  shows "count_admitted (control_consume client) ts st \<le> 6"
proof -
  have "case bucket_view (resolveControlPlaneRateLimitKey client) st of
      None \<Rightarrow> True | Some (c, start) \<Rightarrow> 0 \<le> c"
    using assms(3) map_get_in [of st "resolveControlPlaneRateLimitKey client"]
    by (fastforce simp: bucket_view_def buckets_ok_iff bucket_ok_def split: option.split)
  from control.admitted_interval [OF assms(1) _ this] assms(2) show ?thesis
    by (simp add: control_plane_constants)
qed

theorem control_plane_burst_bound_witness:
  "count_admitted (control_consume None) [0, 10, 20, 30, 59999] [] \<le> 6"
  using control_plane_burst_bound [of "[0, 10, 20, 30, 59999]" 0 "[]" None]
  by (simp add: buckets_ok_def)

text \<open>The control-plane buckets stay bounded. Consuming and pruning keep the map within its hard
  cap of 10000 keys with one bucket each and counts between one and the limit, and while there
  is room a client's calls leave every other client's bucket alone.\<close>

theorem control_plane_buckets_bounded:
  assumes "buckets_ok st"
  shows "buckets_ok (snd (consumeControlPlaneWriteBudget client now st)) \<and>
    buckets_ok (snd (pruneStaleControlPlaneBuckets now st)) \<and>
    (resolveControlPlaneRateLimitKey client \<noteq> key \<longrightarrow> length st < CONTROL_PLANE_BUCKET_MAX_ENTRIES \<longrightarrow>
     map_get (snd (consumeControlPlaneWriteBudget client now st)) key = map_get st key)"
  using control_consume_ok [OF assms] prune_buckets_ok [OF assms] control_consume_other by blast

theorem control_plane_buckets_bounded_witness:
  "buckets_ok (snd (consumeControlPlaneWriteBudget None 5 []))"
  using control_plane_buckets_bounded [of "[]" None 5] by (simp add: buckets_ok_def)

text \<open>A lockout cannot be shortened. Once a failure fills the window of an address, every check
  of that address and scope before the lockout ends is refused with the remaining time, whatever
  checks, failures, prunings and resets of other keys happen in between.\<close>

theorem auth_lockout_holds:
  assumes "\<not> isExempt cfg lo (snd (auth_resolveKey ri ip scope))"
    and "\<not> key_locked es (auth_key ri ip scope) now"
    and "al_maxAttempts cfg \<le> int (recent_failures cfg es (auth_key ri ip scope) now) + 1"
    and "now + al_lockoutMs cfg \<noteq> 0"
    and "list_all (op_before ri (auth_key ri ip scope) (now + al_lockoutMs cfg)) ops"
    and "later < now + al_lockoutMs cfg"
  shows "fst (auth_check cfg ri lo ip scope later
      (fold (auth_apply cfg ri lo) ops (auth_recordFailure cfg ri lo ip scope now es))) =
    \<lparr>cr_allowed = False, cr_retryAfterMs = now + al_lockoutMs cfg - later, cr_remaining = 0\<rparr>"
  using assms by (rule lockout_holds)

definition sample_auth_config :: auth_limiter_config where
  "sample_auth_config = fst (createAuthRateLimiter (Some 1) None None None)"

theorem auth_lockout_holds_witness:
  "cr_retryAfterMs (fst (auth_check sample_auth_config (\<lambda>ip. ip) (\<lambda>ip. False) (Some ''10.0.0.1'') None 1000
     (fold (auth_apply sample_auth_config (\<lambda>ip. ip) (\<lambda>ip. False))
        [AuthFailure (Some ''10.0.0.1'') None 500, AuthPrune 600]
        (auth_recordFailure sample_auth_config (\<lambda>ip. ip) (\<lambda>ip. False) (Some ''10.0.0.1'') None 0 [])))) = 299000"
  using auth_lockout_holds [of sample_auth_config "\<lambda>ip. False" "\<lambda>ip. ip" "Some ''10.0.0.1''" None "[]" 0
      "[AuthFailure (Some ''10.0.0.1'') None 500, AuthPrune 600]" 1000]
  by (simp add: sample_auth_config_def createAuthRateLimiter_def isExempt_def key_locked_def
      recent_failures_def)

text \<open>Nobody is refused without cause. An address that is not locked and has fewer recent
  failures than the limit passes the check, and operations on other addresses or scopes do not
  touch its entry.\<close>

theorem auth_check_admits:
  assumes "\<not> key_locked es (auth_key ri ip scope) now"
    and "int (recent_failures cfg es (auth_key ri ip scope) now) < al_maxAttempts cfg"
    and "\<not> isExempt cfg lo (snd (auth_resolveKey ri ip scope))"
  shows "cr_allowed (fst (auth_check cfg ri lo ip scope now es)) \<and>
    (auth_key ri other scope' \<noteq> auth_key ri ip scope \<longrightarrow>
     map_get (auth_recordFailure cfg ri lo other scope' t es) (auth_key ri ip scope) =
       map_get es (auth_key ri ip scope))"
  using auth_check_unlocked [OF assms] auth_op_other(2) by blast

theorem auth_check_admits_witness:
  "cr_allowed (fst (auth_check sample_auth_config (\<lambda>ip. ip) (\<lambda>ip. False) (Some ''10.0.0.1'') None 5 []))"
  using auth_check_admits [of "[]" "\<lambda>ip. ip" "Some ''10.0.0.1''" None 5 sample_auth_config "\<lambda>ip. False"]
  by (simp add: sample_auth_config_def createAuthRateLimiter_def isExempt_def key_locked_def
      recent_failures_def)

end
