(* ===== verification/Caches.thy ===== *)
theory Caches
  imports JsMap AllowFrom
begin

section \<open>Bounded and expiring caches\<close>

text \<open>
  Models \<^verbatim>\<open>src/infra/map-size.ts\<close>, \<^verbatim>\<open>src/infra/dedupe.ts\<close> and
  \<^verbatim>\<open>src/shared/scoped-expiring-id-cache.ts\<close>: a Map cut to its newest entries, a cache that
  tells whether a key was seen within its time to live, and ids that expire per scope. Times
  are integer milliseconds; parameters are finite numbers.
\<close>

subsection \<open>Cutting a Map to a size\<close>

fun drop_oldest :: "nat \<Rightarrow> ('k, 'v) js_map \<Rightarrow> ('k, 'v) js_map" where
  "drop_oldest limit [] = []"
| "drop_oldest limit (p # m) = (if length (p # m) > limit then drop_oldest limit m else p # m)"

definition pruneMapToMaxSize :: "('k, 'v) js_map \<Rightarrow> rat \<Rightarrow> ('k, 'v) js_map" where
  "pruneMapToMaxSize m maxSize =
     (let limit = max 0 \<lfloor>maxSize\<rfloor> in if limit \<le> 0 then [] else drop_oldest (nat limit) m)"

subsection \<open>The dedupe cache\<close>

record dedupe_config =
  dc_ttlMs :: int
  dc_maxSize :: int

type_synonym dedupe_cache = "(string, int) js_map"

definition createDedupeCache :: "int \<Rightarrow> rat \<Rightarrow> dedupe_config \<times> dedupe_cache" where
  "createDedupeCache ttlMs maxSize =
     (\<lparr>dc_ttlMs = max 0 ttlMs, dc_maxSize = max 0 \<lfloor>maxSize\<rfloor>\<rparr>, [])"

definition dedupe_touch :: "string \<Rightarrow> int \<Rightarrow> dedupe_cache \<Rightarrow> dedupe_cache" where
  "dedupe_touch key now cache = map_set (map_delete cache key) key now"

definition dedupe_prune :: "dedupe_config \<Rightarrow> int \<Rightarrow> dedupe_cache \<Rightarrow> dedupe_cache" where
  "dedupe_prune cfg now cache =
     (let kept = (if dc_ttlMs cfg > 0 then filter (\<lambda>(k, ts). \<not> ts < now - dc_ttlMs cfg) cache
                  else cache)
      in if dc_maxSize cfg \<le> 0 then [] else pruneMapToMaxSize kept (of_int (dc_maxSize cfg)))"

definition hasUnexpired ::
  "dedupe_config \<Rightarrow> string \<Rightarrow> int \<Rightarrow> bool \<Rightarrow> dedupe_cache \<Rightarrow> bool \<times> dedupe_cache" where
  "hasUnexpired cfg key now touchOnRead cache =
     (case map_get cache key of
        None \<Rightarrow> (False, cache)
      | Some existing \<Rightarrow>
          if dc_ttlMs cfg > 0 \<and> now - existing \<ge> dc_ttlMs cfg then (False, map_delete cache key)
          else (True, if touchOnRead then dedupe_touch key now cache else cache))"

text \<open>A missing or empty key is never cached.\<close>

definition dedupe_check :: "dedupe_config \<Rightarrow> string option \<Rightarrow> int \<Rightarrow> dedupe_cache \<Rightarrow> bool \<times> dedupe_cache" where
  "dedupe_check cfg key now cache =
     (case key of
        None \<Rightarrow> (False, cache)
      | Some k \<Rightarrow>
          if k = [] then (False, cache)
          else case hasUnexpired cfg k now True cache of
                 (True, cache1) \<Rightarrow> (True, cache1)
               | (False, cache1) \<Rightarrow> (False, dedupe_prune cfg now (dedupe_touch k now cache1)))"

definition dedupe_peek :: "dedupe_config \<Rightarrow> string option \<Rightarrow> int \<Rightarrow> dedupe_cache \<Rightarrow> bool \<times> dedupe_cache" where
  "dedupe_peek cfg key now cache =
     (case key of
        None \<Rightarrow> (False, cache)
      | Some k \<Rightarrow> if k = [] then (False, cache) else hasUnexpired cfg k now False cache)"

definition dedupe_delete :: "string option \<Rightarrow> dedupe_cache \<Rightarrow> dedupe_cache" where
  "dedupe_delete key cache =
     (case key of None \<Rightarrow> cache | Some k \<Rightarrow> if k = [] then cache else map_delete cache k)"

subsection \<open>Ids that expire per scope\<close>

record scoped_cache_config =
  sc_ttlMs :: int
  sc_cleanupThreshold :: int

type_synonym scoped_store = "(string, (string, int) js_map) js_map"

definition createScopedExpiringIdCache :: "int \<Rightarrow> rat \<Rightarrow> scoped_cache_config" where
  "createScopedExpiringIdCache ttlMs cleanupThreshold =
     \<lparr>sc_ttlMs = max 0 ttlMs, sc_cleanupThreshold = max 1 \<lfloor>cleanupThreshold\<rfloor>\<rparr>"

text \<open>
  \<open>cleanupExpired\<close> deletes the expired ids of an entry, and the scope when none is left. The
  entry after it is returned too, as the callers go on with the entry object.
\<close>

definition cleanupExpired ::
  "scoped_cache_config \<Rightarrow> string \<Rightarrow> (string, int) js_map \<Rightarrow> int \<Rightarrow> scoped_store \<Rightarrow>
   (string, int) js_map \<times> scoped_store" where
  "cleanupExpired cfg scopeKey entry now store =
     (let kept = filter (\<lambda>(i, ts). \<not> now - ts > sc_ttlMs cfg) entry
      in (kept, if length kept = 0 then map_delete store scopeKey else map_set store scopeKey kept))"

definition scoped_record ::
  "scoped_cache_config \<Rightarrow> allow_entry \<Rightarrow> allow_entry \<Rightarrow> int \<Rightarrow> scoped_store \<Rightarrow> scoped_store" where
  "scoped_record cfg scope ident now store =
     (let scopeKey = entry_string scope;
          entry = map_set (nullish (map_get store scopeKey) []) (entry_string ident) now;
          store1 = map_set store scopeKey entry
      in if int (length entry) > sc_cleanupThreshold cfg
         then snd (cleanupExpired cfg scopeKey entry now store1) else store1)"

definition scoped_has ::
  "scoped_cache_config \<Rightarrow> allow_entry \<Rightarrow> allow_entry \<Rightarrow> int \<Rightarrow> scoped_store \<Rightarrow> bool \<times> scoped_store" where
  "scoped_has cfg scope ident now store =
     (case map_get store (entry_string scope) of
        None \<Rightarrow> (False, store)
      | Some entry \<Rightarrow>
          (let (kept, store1) = cleanupExpired cfg (entry_string scope) entry now store
           in (map_get kept (entry_string ident) \<noteq> None, store1)))"

subsection \<open>Pruning keeps the newest entries\<close>

lemma drop_oldest_eq: "drop_oldest limit m = drop (length m - limit) m"
  by (induction limit m rule: drop_oldest.induct) (auto simp: Suc_diff_le)

lemma pruneMapToMaxSize_eq:
  "pruneMapToMaxSize m maxSize = drop (length m - nat (max 0 \<lfloor>maxSize\<rfloor>)) m"
  by (auto simp: pruneMapToMaxSize_def Let_def drop_oldest_eq max_def)

lemma pruneMapToMaxSize_length:
  "length (pruneMapToMaxSize m maxSize) = min (length m) (nat (max 0 \<lfloor>maxSize\<rfloor>))"
  by (simp add: pruneMapToMaxSize_eq)

lemma wf_map_drop: "wf_map m \<Longrightarrow> wf_map (drop n m)"
  by (simp add: wf_map_def drop_map [symmetric])

lemma wf_map_filter_pairs: "wf_map m \<Longrightarrow> wf_map (filter P m)"
  unfolding wf_map_def by (induction m) (auto simp: image_iff)

lemma map_get_filter:
  "wf_map m \<Longrightarrow> map_get (filter P m) k =
     (case map_get m k of Some v \<Rightarrow> if P (k, v) then Some v else None | None \<Rightarrow> None)"
  by (induction m)
    (auto simp: map_get_def wf_map_def image_iff split: option.splits dest: map_of_SomeD)

subsection \<open>The dedupe cache remembers\<close>

definition dedupe_ok :: "dedupe_config \<Rightarrow> dedupe_cache \<Rightarrow> bool" where
  "dedupe_ok cfg cache = (wf_map cache \<and> int (length cache) \<le> dc_maxSize cfg)"

lemma touch_last: "dedupe_touch key now cache = map_delete cache key @ [(key, now)]"
proof -
  have "map_get (map_delete cache key) key = None" by simp
  moreover have "map_get m k = None \<Longrightarrow> map_set m k v = m @ [(k, v)]" for m :: dedupe_cache and k v
    by (induction m k v rule: map_set.induct) (auto simp: map_get_def split: if_splits)
  ultimately show ?thesis by (simp add: dedupe_touch_def)
qed

lemma touch_wf: "wf_map cache \<Longrightarrow> wf_map (dedupe_touch key now cache)"
  by (simp add: dedupe_touch_def)

lemma touch_length:
  assumes "wf_map cache" and "map_get cache key \<noteq> None"
  shows "length (dedupe_touch key now cache) = length cache"
proof -
  have "Suc (length (map_delete cache key)) = length cache"
    using jm.size_del_present [OF assms] by (simp add: length_map_keys)
  then show ?thesis by (simp add: touch_last)
qed

lemma prune_ok:
  assumes "wf_map cache" and "0 \<le> dc_maxSize cfg"
  shows "dedupe_ok cfg (dedupe_prune cfg now cache)"
  using assms
  by (auto simp: dedupe_ok_def dedupe_prune_def Let_def pruneMapToMaxSize_length pruneMapToMaxSize_eq
      wf_map_drop wf_map_filter_pairs)

lemma hasUnexpired_ok:
  assumes "dedupe_ok cfg cache" and "hasUnexpired cfg key now touchOnRead cache = (b, cache')"
  shows "dedupe_ok cfg cache'"
proof -
  have del: "length (map_delete cache key) \<le> length cache"
    by (simp add: map_delete_def)
  show ?thesis
  proof (cases "map_get cache key")
    case None
    then show ?thesis using assms by (simp add: hasUnexpired_def)
  next
    case (Some ts)
    then show ?thesis using assms del touch_length [of cache key now] touch_wf [of cache key now]
      by (auto simp: hasUnexpired_def dedupe_ok_def split: if_splits)
  qed
qed

lemma check_ok:
  assumes "dedupe_ok cfg cache" and "0 \<le> dc_maxSize cfg"
    and "dedupe_check cfg key now cache = (b, cache')"
  shows "dedupe_ok cfg cache'"
proof -
  have "dedupe_ok cfg c1" if "hasUnexpired cfg k now True cache = (r, c1)" for k r c1
    using hasUnexpired_ok [OF assms(1) that] .
  then show ?thesis using assms prune_ok [OF _ assms(2)] touch_wf
    by (auto simp: dedupe_check_def dedupe_ok_def split: option.splits if_splits prod.splits bool.splits)
qed

text \<open>The newest entry survives pruning.\<close>

lemma prune_keeps_last:
  assumes "wf_map (m @ [(k, ts)])" and "0 < dc_maxSize cfg" and "now - ts \<le> dc_ttlMs cfg \<or> dc_ttlMs cfg \<le> 0"
  shows "map_get (dedupe_prune cfg now (m @ [(k, ts)])) k = Some ts"
proof -
  obtain m' where kept: "(if dc_ttlMs cfg > 0 then filter (\<lambda>(k, ts). \<not> ts < now - dc_ttlMs cfg) (m @ [(k, ts)])
      else m @ [(k, ts)]) = m' @ [(k, ts)]" "wf_map (m' @ [(k, ts)])"
  proof (cases "dc_ttlMs cfg > 0")
    case True
    then have "\<not> ts < now - dc_ttlMs cfg" using assms(3) by simp
    moreover have "wf_map (filter (\<lambda>(k, ts). \<not> ts < now - dc_ttlMs cfg) (m @ [(k, ts)]))"
      using assms(1) by (rule wf_map_filter_pairs)
    ultimately show thesis using True
      by (intro that [of "filter (\<lambda>(k, ts). \<not> ts < now - dc_ttlMs cfg) m"]) simp_all
  next
    case False
    then show thesis using assms(1) by (intro that [of m]) simp_all
  qed
  let ?n = "length (m' @ [(k, ts)]) - nat (dc_maxSize cfg)"
  have "?n \<le> length m'" using assms(2) by simp
  then have "(k, ts) \<in> set (drop ?n (m' @ [(k, ts)]))" by simp
  then have "map_get (drop ?n (m' @ [(k, ts)])) k = Some ts"
    using map_get_iff [OF wf_map_drop [OF kept(2)]] by blast
  then show ?thesis using assms(2) kept(1)
    by (simp add: dedupe_prune_def Let_def pruneMapToMaxSize_eq)
qed

lemma check_records:
  assumes "wf_map cache" and "k \<noteq> []" and "0 < dc_maxSize cfg" and "0 \<le> dc_ttlMs cfg"
  shows "map_get (snd (dedupe_check cfg (Some k) now cache)) k = Some now"
proof -
  obtain b c1 where h: "hasUnexpired cfg k now True cache = (b, c1)" by fastforce
  have "wf_map c1" using h assms(1) touch_wf
    by (auto simp: hasUnexpired_def split: option.splits if_splits)
  then have "wf_map (map_delete c1 k @ [(k, now)])"
    using touch_wf [of c1 k now] by (simp add: touch_last)
  from prune_keeps_last [OF this assms(3)] assms(4)
  have "map_get (dedupe_prune cfg now (dedupe_touch k now c1)) k = Some now" by (simp add: touch_last)
  moreover have "b \<Longrightarrow> map_get c1 k = Some now"
    using h by (auto simp: hasUnexpired_def dedupe_touch_def split: option.splits if_splits)
  ultimately show ?thesis using h assms(2) by (auto simp: dedupe_check_def split: bool.split)
qed

text \<open>A key is a duplicate exactly when it is stored with a time inside the time to live.\<close>

lemma check_result:
  "k \<noteq> [] \<Longrightarrow> fst (dedupe_check cfg (Some k) now cache) =
     (case map_get cache k of None \<Rightarrow> False
      | Some ts \<Rightarrow> dc_ttlMs cfg \<le> 0 \<or> now - ts < dc_ttlMs cfg)"
  by (auto simp: dedupe_check_def hasUnexpired_def split: option.split bool.split)

subsection \<open>Scoped ids\<close>

definition scoped_ok :: "scoped_store \<Rightarrow> bool" where
  "scoped_ok store = (wf_map store \<and> (\<forall>s e. map_get store s = Some e \<longrightarrow> wf_map e))"

lemma cleanupExpired_get:
  assumes "wf_map entry"
  shows "map_get (fst (cleanupExpired cfg s entry now store)) i =
    (case map_get entry i of Some ts \<Rightarrow> if now - ts \<le> sc_ttlMs cfg then Some ts else None | None \<Rightarrow> None)"
  using map_get_filter [OF assms, of "\<lambda>(i, ts). \<not> now - ts > sc_ttlMs cfg" i]
  by (auto simp: cleanupExpired_def Let_def split: option.splits)

lemma cleanupExpired_ok:
  assumes "scoped_ok store" and "wf_map entry"
  shows "scoped_ok (snd (cleanupExpired cfg s entry now store))"
  using assms wf_map_filter_pairs [OF assms(2)]
  by (auto simp: scoped_ok_def cleanupExpired_def Let_def split: if_splits)

lemma scoped_record_ok:
  assumes "scoped_ok store"
  shows "scoped_ok (scoped_record cfg scope i now store)"
proof -
  have "wf_map (nullish (map_get store (entry_string scope)) [])"
    using assms by (cases "map_get store (entry_string scope)") (auto simp: scoped_ok_def)
  then have e: "wf_map (map_set (nullish (map_get store (entry_string scope)) []) (entry_string i) now)"
    by simp
  then have "scoped_ok (map_set store (entry_string scope)
      (map_set (nullish (map_get store (entry_string scope)) []) (entry_string i) now))"
    using assms by (auto simp: scoped_ok_def split: if_splits)
  then show ?thesis using cleanupExpired_ok [OF _ e] by (simp add: scoped_record_def Let_def)
qed

lemma scoped_has_result:
  assumes "scoped_ok store"
  shows "fst (scoped_has cfg scope i now store) =
    (case map_get store (entry_string scope) of None \<Rightarrow> False
     | Some e \<Rightarrow> (case map_get e (entry_string i) of None \<Rightarrow> False | Some ts \<Rightarrow> now - ts \<le> sc_ttlMs cfg))"
proof (cases "map_get store (entry_string scope)")
  case None
  then show ?thesis by (simp add: scoped_has_def)
next
  case (Some e)
  then have "wf_map e" using assms by (auto simp: scoped_ok_def)
  from cleanupExpired_get [OF this] Some show ?thesis
    by (auto simp: scoped_has_def case_prod_beta split: option.split)
qed

lemma scoped_record_get:
  assumes "scoped_ok store" and "0 \<le> sc_ttlMs cfg"
  shows "\<exists>e. map_get (scoped_record cfg scope i now store) (entry_string scope) = Some e \<and>
    map_get e (entry_string i) = Some now"
proof -
  let ?e = "map_set (nullish (map_get store (entry_string scope)) []) (entry_string i) now"
  have wf: "wf_map ?e"
    using assms by (cases "map_get store (entry_string scope)")
      (auto simp: scoped_ok_def intro!: wf_map_set simp del: map_set.simps)
  let ?kept = "fst (cleanupExpired cfg (entry_string scope) ?e now (map_set store (entry_string scope) ?e))"
  have k: "map_get ?kept (entry_string i) = Some now"
    using cleanupExpired_get [OF wf] assms(2) by simp
  then have "?kept \<noteq> []" by (metis map_get_Nil option.distinct(1))
  then show ?thesis using k
    by (auto simp: scoped_record_def Let_def cleanupExpired_def)
qed

subsection \<open>Properties\<close>

text \<open>The dedupe cache recognizes repeats. After a check of a key at some time, a second check is
  a duplicate exactly when it comes within the time to live (or there is none), whatever was
  cached before, as the newest key is never the one evicted.\<close>

theorem dedupe_repeat:
  assumes "wf_map cache" and "k \<noteq> []" and "0 < dc_maxSize cfg" and "0 \<le> dc_ttlMs cfg"
  shows "fst (dedupe_check cfg (Some k) later (snd (dedupe_check cfg (Some k) now cache))) =
    (dc_ttlMs cfg = 0 \<or> later - now < dc_ttlMs cfg)"
  using check_result [OF assms(2)] check_records [OF assms] assms(4) by auto

theorem dedupe_repeat_witness:
  "fst (dedupe_check (fst (createDedupeCache 1000 1)) (Some ''m1'') 900
     (snd (dedupe_check (fst (createDedupeCache 1000 1)) (Some ''m1'') 0 [(''m0'', 0)])))"
  using dedupe_repeat [of "[(''m0'', 0)]" "''m1''" "fst (createDedupeCache 1000 1)" 900 0]
  by (simp add: createDedupeCache_def wf_map_def)

text \<open>The dedupe cache never exceeds its size. Every check keeps one entry per key and at most
  the configured number of entries.\<close>

theorem dedupe_bounded:
  assumes "dedupe_ok cfg cache" and "0 \<le> dc_maxSize cfg"
  shows "dedupe_ok cfg (snd (dedupe_check cfg key now cache))"
  using check_ok [OF assms] by (metis prod.collapse)

theorem dedupe_bounded_witness:
  "dedupe_ok (fst (createDedupeCache 1000 1))
     (snd (dedupe_check (fst (createDedupeCache 1000 1)) (Some ''m1'') 5 [(''m0'', 0)]))"
  using dedupe_bounded [of "fst (createDedupeCache 1000 1)" "[(''m0'', 0)]" "Some ''m1''" 5]
  by (simp add: createDedupeCache_def dedupe_ok_def wf_map_def)

text \<open>A recorded id is known in its scope for the time to live and no longer, even when recording
  it triggers the clean-up.\<close>

theorem scoped_cache_expiry:
  assumes "scoped_ok store" and "0 \<le> sc_ttlMs cfg"
  shows "fst (scoped_has cfg scope ident later (scoped_record cfg scope ident now store)) =
    (later - now \<le> sc_ttlMs cfg)"
  using scoped_record_get [OF assms, of scope ident now]
    scoped_has_result [OF scoped_record_ok [OF assms(1)], of cfg scope ident later cfg scope ident now]
  by auto

theorem scoped_cache_expiry_witness:
  "fst (scoped_has (createScopedExpiringIdCache 1000 1) (EStr ''chat'') (ENum 7) 1000
     (scoped_record (createScopedExpiringIdCache 1000 1) (EStr ''chat'') (ENum 7) 0 []))"
  using scoped_cache_expiry [of "[]" "createScopedExpiringIdCache 1000 1" "EStr ''chat''" "ENum 7" 1000 0]
  by (simp add: createScopedExpiringIdCache_def scoped_ok_def)

end
