(* ===== verification/ExecApproval.thy ===== *)
theory ExecApproval
  imports JsMap AllowFrom
begin

section \<open>The exec approval manager\<close>

text \<open>
  Models \<^verbatim>\<open>src/gateway/exec-approval-manager.ts\<close>: approval requests wait for a decision or
  their timeout, are kept for a grace period after it, and an allow-once decision can be
  consumed once. An entry's promise is the number of the entry; an operation returns the
  promises it settles (\<open>Settle\<close>). Timers are events: \<open>expire\<close> is called by the entry's timer,
  \<open>cleanup_entry\<close> by the grace timer of the entry it was scheduled for. The random id of
  \<open>create\<close> is a parameter. A request payload is opaque.
\<close>

datatype approval_decision = AllowOnce | AllowAlways | Deny

record 'p approval_record =
  ar_id :: string
  ar_request :: 'p
  ar_createdAtMs :: int
  ar_expiresAtMs :: int
  ar_requestedByConnId :: "string option"
  ar_requestedByDeviceId :: "string option"
  ar_requestedByClientId :: "string option"
  ar_requestedByDeviceTokenAuth :: "bool option"
  ar_resolvedAtMs :: "int option"
  ar_decision :: "approval_decision option"
  ar_consumedDecision :: "approval_decision option"
  ar_resolvedBy :: "string option"

text \<open>\<open>pe_promise\<close> is the identity of the entry and of its promise.\<close>

record 'p pending_entry =
  pe_record :: "'p approval_record"
  pe_promise :: nat

record 'p approval_state =
  am_pending :: "(string, 'p pending_entry) js_map"
  am_nextPromise :: nat

datatype settle = Settle nat "approval_decision option"

datatype lookup_result = LookupExact string | LookupPrefix string | LookupAmbiguous "string list" | LookupNone

definition empty_approvals :: "'p approval_state" where
  "empty_approvals = \<lparr>am_pending = [], am_nextPromise = 0\<rparr>"

subsection \<open>Operations\<close>

definition approval_create ::
  "string \<Rightarrow> 'p \<Rightarrow> int \<Rightarrow> string option \<Rightarrow> int \<Rightarrow> 'p approval_record" where
  "approval_create uuid request timeoutMs ident now =
     \<lparr>ar_id = (case ident of
         Some i \<Rightarrow> if length (js_trim i) > 0 then js_trim i else uuid
       | None \<Rightarrow> uuid),
      ar_request = request, ar_createdAtMs = now, ar_expiresAtMs = now + timeoutMs,
      ar_requestedByConnId = None, ar_requestedByDeviceId = None,
      ar_requestedByClientId = None, ar_requestedByDeviceTokenAuth = None,
      ar_resolvedAtMs = None, ar_decision = None, ar_consumedDecision = None, ar_resolvedBy = None\<rparr>"

text \<open>The result is the promise, or the error of a second registration after the decision.\<close>

definition approval_register ::
  "'p approval_record \<Rightarrow> 'p approval_state \<Rightarrow> (string + nat) \<times> 'p approval_state" where
  "approval_register rec st =
     (case map_get (am_pending st) (ar_id rec) of
        Some existing \<Rightarrow>
          if ar_resolvedAtMs (pe_record existing) = None then (Inr (pe_promise existing), st)
          else (Inl (''approval id '' @ [CHR 0x27] @ ar_id rec @ [CHR 0x27] @ '' already resolved''), st)
      | None \<Rightarrow>
          (Inr (am_nextPromise st),
           st\<lparr>am_pending := map_set (am_pending st) (ar_id rec)
                \<lparr>pe_record = rec, pe_promise = am_nextPromise st\<rparr>,
              am_nextPromise := am_nextPromise st + 1\<rparr>))"

definition put_entry :: "string \<Rightarrow> 'p pending_entry \<Rightarrow> 'p approval_state \<Rightarrow> 'p approval_state" where
  "put_entry i entry st = st\<lparr>am_pending := map_set (am_pending st) i entry\<rparr>"

definition approval_resolve ::
  "string \<Rightarrow> approval_decision \<Rightarrow> string option \<Rightarrow> int \<Rightarrow> 'p approval_state \<Rightarrow>
   bool \<times> settle list \<times> 'p approval_state" where
  "approval_resolve recordId decision resolvedBy now st =
     (case map_get (am_pending st) recordId of
        None \<Rightarrow> (False, [], st)
      | Some pending \<Rightarrow>
          if ar_resolvedAtMs (pe_record pending) \<noteq> None then (False, [], st)
          else (True, [Settle (pe_promise pending) (Some decision)],
                put_entry recordId (pending\<lparr>pe_record := (pe_record pending)
                  \<lparr>ar_resolvedAtMs := Some now, ar_decision := Some decision,
                   ar_resolvedBy := resolvedBy\<rparr>\<rparr>) st))"

definition approval_expire ::
  "string \<Rightarrow> string option \<Rightarrow> int \<Rightarrow> 'p approval_state \<Rightarrow> bool \<times> settle list \<times> 'p approval_state" where
  "approval_expire recordId resolvedBy now st =
     (case map_get (am_pending st) recordId of
        None \<Rightarrow> (False, [], st)
      | Some pending \<Rightarrow>
          if ar_resolvedAtMs (pe_record pending) \<noteq> None then (False, [], st)
          else (True, [Settle (pe_promise pending) None],
                put_entry recordId (pending\<lparr>pe_record := (pe_record pending)
                  \<lparr>ar_resolvedAtMs := Some now, ar_decision := None,
                   ar_resolvedBy := resolvedBy\<rparr>\<rparr>) st))"

text \<open>The grace timer of the entry with that promise deletes it unless it was replaced.\<close>

definition cleanup_entry :: "string \<Rightarrow> nat \<Rightarrow> 'p approval_state \<Rightarrow> 'p approval_state" where
  "cleanup_entry recordId promise st =
     (if map_option pe_promise (map_get (am_pending st) recordId) = Some promise
      then st\<lparr>am_pending := map_delete (am_pending st) recordId\<rparr> else st)"

definition approval_getSnapshot :: "string \<Rightarrow> 'p approval_state \<Rightarrow> 'p approval_record option" where
  "approval_getSnapshot recordId st = map_option pe_record (map_get (am_pending st) recordId)"

definition listPendingRecords :: "'p approval_state \<Rightarrow> 'p approval_record list" where
  "listPendingRecords st =
     filter (\<lambda>r. ar_resolvedAtMs r = None) (map (pe_record \<circ> snd) (am_pending st))"

definition consumeAllowOnce :: "string \<Rightarrow> 'p approval_state \<Rightarrow> bool \<times> 'p approval_state" where
  "consumeAllowOnce recordId st =
     (case map_get (am_pending st) recordId of
        None \<Rightarrow> (False, st)
      | Some entry \<Rightarrow>
          if ar_decision (pe_record entry) \<noteq> Some AllowOnce then (False, st)
          else (True, put_entry recordId (entry\<lparr>pe_record := (pe_record entry)
                  \<lparr>ar_consumedDecision := ar_decision (pe_record entry), ar_decision := None\<rparr>\<rparr>) st))"

definition awaitDecision :: "string \<Rightarrow> 'p approval_state \<Rightarrow> nat option" where
  "awaitDecision recordId st = map_option pe_promise (map_get (am_pending st) recordId)"

definition lookup_matches :: "string \<Rightarrow> bool \<Rightarrow> 'p approval_state \<Rightarrow> string list" where
  "lookup_matches lowerPrefix includeResolved st =
     map fst (filter (\<lambda>(i, entry).
        (includeResolved \<or> ar_resolvedAtMs (pe_record entry) = None) \<and>
        starts_with (normalizeLowercaseStringOrEmpty (Some i)) lowerPrefix) (am_pending st))"

definition lookupApprovalId :: "string \<Rightarrow> bool \<Rightarrow> 'p approval_state \<Rightarrow> lookup_result" where
  "lookupApprovalId input includeResolved st =
     (let normalized = js_trim input in
      if normalized = [] then LookupNone
      else case map_get (am_pending st) normalized of
        Some exact \<Rightarrow>
          if includeResolved \<or> ar_resolvedAtMs (pe_record exact) = None
          then LookupExact normalized else LookupNone
      | None \<Rightarrow>
          (case lookup_matches (normalizeLowercaseStringOrEmpty (Some normalized)) includeResolved st of
             [] \<Rightarrow> LookupNone
           | [i] \<Rightarrow> LookupPrefix i
           | ids \<Rightarrow> LookupAmbiguous ids))"

definition lookupPendingId :: "string \<Rightarrow> 'p approval_state \<Rightarrow> lookup_result" where
  "lookupPendingId input st = lookupApprovalId input False st"

subsection \<open>Steps\<close>

text \<open>
  One event: the promises it settles, the ids whose allow-once it consumed with the promise of
  their entry, and the state after it.
\<close>

datatype approval_event = ESettle settle | EConsumed nat

inductive approval_step :: "'p approval_state \<Rightarrow> approval_event list \<Rightarrow> 'p approval_state \<Rightarrow> bool" where
  ApRegister: "approval_register rec st = (r, st') \<Longrightarrow>
     ar_resolvedAtMs rec = None \<Longrightarrow> ar_decision rec = None \<Longrightarrow> ar_consumedDecision rec = None \<Longrightarrow>
     approval_step st [] st'"
| ApResolve: "approval_resolve i d who now st = (b, effs, st') \<Longrightarrow> approval_step st (map ESettle effs) st'"
| ApExpire: "approval_expire i who now st = (b, effs, st') \<Longrightarrow> approval_step st (map ESettle effs) st'"
| ApCleanup: "st' = cleanup_entry i p st \<Longrightarrow> approval_step st [] st'"
| ApConsume: "consumeAllowOnce i st = (b, st') \<Longrightarrow>
     approval_step st (if b then map EConsumed (case awaitDecision i st of None \<Rightarrow> [] | Some p \<Rightarrow> [p]) else []) st'"

inductive_cases approval_stepE: "approval_step st effs st'"

inductive approval_reachable :: "approval_event list \<Rightarrow> 'p approval_state \<Rightarrow> bool" where
  ApInit: "approval_reachable [] empty_approvals"
| ApStep: "approval_reachable trace st \<Longrightarrow> approval_step st effs st' \<Longrightarrow>
    approval_reachable (trace @ effs) st'"

text \<open>The promises settled and the allow-once decisions consumed by a trace.\<close>

fun settled_promises :: "approval_event list \<Rightarrow> nat list" where
  "settled_promises [] = []"
| "settled_promises (ESettle (Settle p d) # es) = p # settled_promises es"
| "settled_promises (EConsumed p # es) = settled_promises es"

fun consumed_promises :: "approval_event list \<Rightarrow> nat list" where
  "consumed_promises [] = []"
| "consumed_promises (ESettle s # es) = consumed_promises es"
| "consumed_promises (EConsumed p # es) = p # consumed_promises es"

fun granted_once :: "approval_event list \<Rightarrow> nat list" where
  "granted_once [] = []"
| "granted_once (ESettle (Settle p (Some AllowOnce)) # es) = p # granted_once es"
| "granted_once (x # es) = granted_once es"

lemma settled_promises_append [simp]: "settled_promises (a @ b) = settled_promises a @ settled_promises b"
  by (induction a rule: settled_promises.induct) simp_all

lemma consumed_promises_append [simp]: "consumed_promises (a @ b) = consumed_promises a @ consumed_promises b"
  by (induction a rule: consumed_promises.induct) simp_all

lemma granted_once_append [simp]: "granted_once (a @ b) = granted_once a @ granted_once b"
  by (induction a rule: granted_once.induct) simp_all

text \<open>
  The invariant: a promise is settled at most once and is settled exactly when its entry is
  resolved; an allow-once decision still on a record was granted and not consumed.
\<close>

definition entry_inv :: "approval_event list \<Rightarrow> 'p approval_state \<Rightarrow> 'p pending_entry \<Rightarrow> bool" where
  "entry_inv trace st e =
     (pe_promise e < am_nextPromise st \<and>
      (ar_resolvedAtMs (pe_record e) \<noteq> None \<longleftrightarrow> pe_promise e \<in> set (settled_promises trace)) \<and>
      (ar_resolvedAtMs (pe_record e) = None \<longrightarrow> ar_decision (pe_record e) = None) \<and>
      (ar_decision (pe_record e) = Some AllowOnce \<longrightarrow>
         pe_promise e \<in> set (granted_once trace) \<and> pe_promise e \<notin> set (consumed_promises trace)))"

definition approval_inv :: "approval_event list \<Rightarrow> 'p approval_state \<Rightarrow> bool" where
  "approval_inv trace st =
     (wf_map (am_pending st) \<and>
      (\<forall>i e. map_get (am_pending st) i = Some e \<longrightarrow> entry_inv trace st e \<and> ar_id (pe_record e) = i) \<and>
      (\<forall>i j e f. map_get (am_pending st) i = Some e \<longrightarrow> map_get (am_pending st) j = Some f \<longrightarrow>
         pe_promise e = pe_promise f \<longrightarrow> i = j) \<and>
      distinct (settled_promises trace) \<and> distinct (consumed_promises trace) \<and>
      set (consumed_promises trace) \<subseteq> set (granted_once trace) \<and>
      set (settled_promises trace) \<subseteq> {..<am_nextPromise st})"

lemma put_entry_simps [simp]:
  "am_pending (put_entry i e st) = map_set (am_pending st) i e"
  "am_nextPromise (put_entry i e st) = am_nextPromise st"
  by (simp_all add: put_entry_def)

lemma register_inv:
  assumes inv: "approval_inv trace st" and reg: "approval_register rec st = (r, st')"
    and new: "ar_resolvedAtMs rec = None" "ar_decision rec = None"
  shows "approval_inv trace st'"
proof (cases "map_get (am_pending st) (ar_id rec)")
  case (Some e)
  then have "st' = st" using reg by (auto simp: approval_register_def split: if_splits)
  then show ?thesis using inv by simp
next
  case None
  let ?n = "am_nextPromise st" and ?e = "\<lparr>pe_record = rec, pe_promise = am_nextPromise st\<rparr>"
  have st': "am_pending st' = map_set (am_pending st) (ar_id rec) ?e" "am_nextPromise st' = ?n + 1"
    using reg None by (auto simp: approval_register_def)
  have old: "pe_promise e < ?n" if "map_get (am_pending st) i = Some e" for i e
    using inv that by (auto simp: approval_inv_def entry_inv_def)
  have "?n \<notin> set (settled_promises trace)" using inv by (auto simp: approval_inv_def)
  then have "entry_inv trace st' ?e" using new by (simp add: entry_inv_def st')
  moreover have "entry_inv trace st' e" if "map_get (am_pending st) i = Some e" for i e
    using inv that by (auto simp: approval_inv_def entry_inv_def st' less_SucI)
  moreover have "set (settled_promises trace) \<subseteq> {..<am_nextPromise st'}"
    using inv by (auto simp: approval_inv_def st' less_SucI)
  ultimately show ?thesis
    using inv old unfolding approval_inv_def st'
    by (auto split: if_splits) (metis less_irrefl)+
qed

text \<open>Resolving and expiring settle the entry's promise.\<close>

lemma settle_inv:
  assumes inv: "approval_inv trace st" and e: "map_get (am_pending st) i = Some e"
    and open_entry: "ar_resolvedAtMs (pe_record e) = None"
  shows "approval_inv (trace @ [ESettle (Settle (pe_promise e) d)])
    (put_entry i (e\<lparr>pe_record := (pe_record e)\<lparr>ar_resolvedAtMs := Some now, ar_decision := d,
       ar_resolvedBy := who\<rparr>\<rparr>) st)" (is "approval_inv ?t ?st")
proof -
  let ?p = "pe_promise e"
  let ?e = "e\<lparr>pe_record := (pe_record e)\<lparr>ar_resolvedAtMs := Some now, ar_decision := d, ar_resolvedBy := who\<rparr>\<rparr>"
  have ei: "entry_inv trace st e" "ar_id (pe_record e) = i" using inv e by (auto simp: approval_inv_def)
  have fresh: "?p \<notin> set (settled_promises trace)" using ei open_entry by (auto simp: entry_inv_def)
  have granted_settled: "set (granted_once xs) \<subseteq> set (settled_promises xs)" for xs
    by (induction xs rule: granted_once.induct) auto
  have "?p \<notin> set (consumed_promises trace)"
    using fresh inv granted_settled [of trace] by (auto simp: approval_inv_def)
  then have new: "entry_inv ?t ?st ?e" using ei by (cases d) (auto simp: entry_inv_def)
  have other: "entry_inv ?t ?st f" if f: "map_get (am_pending st) j = Some f" "j \<noteq> i" for j f
  proof -
    have "pe_promise f \<noteq> ?p" using inv e f by (auto simp: approval_inv_def)
    then show ?thesis using inv f(1)
      by (cases d; cases "the d") (auto simp: approval_inv_def entry_inv_def)
  qed
  have "granted_once [ESettle (Settle ?p d)] = (if d = Some AllowOnce then [?p] else [])"
    by (cases d; cases "the d") auto
  moreover have "?p < am_nextPromise st" using ei by (simp add: entry_inv_def)
  ultimately show ?thesis
    using inv fresh new other ei(2) unfolding approval_inv_def
    by (auto simp: e split: if_splits)
qed

lemma cleanup_inv:
  assumes "approval_inv trace st"
  shows "approval_inv trace (cleanup_entry i p st)"
proof -
  have cong: "entry_inv trace (st\<lparr>am_pending := m\<rparr>) e = entry_inv trace st e" for m e
    by (simp add: entry_inv_def)
  show ?thesis
  proof (cases "map_option pe_promise (map_get (am_pending st) i) = Some p")
    case True
    then show ?thesis using assms
      by (auto simp: cleanup_entry_def approval_inv_def cong split: if_splits)
  next
    case False
    then have "cleanup_entry i p st = st" by (auto simp: cleanup_entry_def)
    then show ?thesis using assms by simp
  qed
qed

lemma consume_inv:
  assumes inv: "approval_inv trace st" and e: "map_get (am_pending st) i = Some e"
    and once: "ar_decision (pe_record e) = Some AllowOnce"
  shows "approval_inv (trace @ [EConsumed (pe_promise e)])
    (put_entry i (e\<lparr>pe_record := (pe_record e)\<lparr>ar_consumedDecision := ar_decision (pe_record e),
       ar_decision := None\<rparr>\<rparr>) st)" (is "approval_inv ?t ?st")
proof -
  let ?p = "pe_promise e"
  have ei: "entry_inv trace st e" "ar_id (pe_record e) = i" using inv e by (auto simp: approval_inv_def)
  have p: "?p \<in> set (granted_once trace)" "?p \<notin> set (consumed_promises trace)"
    using ei once by (auto simp: entry_inv_def)
  have other: "entry_inv ?t ?st f" if f: "map_get (am_pending st) j = Some f" "j \<noteq> i" for j f
  proof -
    have "pe_promise f \<noteq> ?p" using inv e f by (auto simp: approval_inv_def)
    then show ?thesis using inv f(1) by (auto simp: approval_inv_def entry_inv_def)
  qed
  moreover have "entry_inv ?t ?st (e\<lparr>pe_record := (pe_record e)
      \<lparr>ar_consumedDecision := ar_decision (pe_record e), ar_decision := None\<rparr>\<rparr>)"
    using ei by (auto simp: entry_inv_def)
  ultimately show ?thesis
    using inv p ei(2) unfolding approval_inv_def by (auto simp: e split: if_splits)
qed

lemma approval_step_inv:
  assumes "approval_step st effs st'" and "approval_inv trace st"
  shows "approval_inv (trace @ effs) st'"
  using assms(1)
proof cases
  case (ApRegister rec r)
  with register_inv [OF assms(2)] show ?thesis by simp
next
  case (ApResolve i d who now b es)
  show ?thesis
  proof (cases "map_get (am_pending st) i")
    case None
    then show ?thesis using ApResolve assms(2) by (simp add: approval_resolve_def)
  next
    case (Some e)
    show ?thesis
      using ApResolve Some assms(2) settle_inv [OF assms(2) Some, where d = "Some d" and now = now and who = who]
      by (auto simp: approval_resolve_def split: if_splits)
  qed
next
  case (ApExpire i who now b es)
  show ?thesis
  proof (cases "map_get (am_pending st) i")
    case None
    then show ?thesis using ApExpire assms(2) by (simp add: approval_expire_def)
  next
    case (Some e)
    show ?thesis
      using ApExpire Some assms(2) settle_inv [OF assms(2) Some, where d = None and now = now and who = who]
      by (auto simp: approval_expire_def split: if_splits)
  qed
next
  case (ApCleanup i p)
  then show ?thesis using cleanup_inv [OF assms(2)] by simp
next
  case (ApConsume i b)
  show ?thesis
  proof (cases "map_get (am_pending st) i")
    case None
    then show ?thesis using ApConsume assms(2) by (auto simp: consumeAllowOnce_def)
  next
    case (Some e)
    show ?thesis
      using ApConsume Some assms(2) consume_inv [OF assms(2) Some]
      by (auto simp: consumeAllowOnce_def awaitDecision_def split: if_splits)
  qed
qed

lemma approval_reachable_inv: "approval_reachable trace st \<Longrightarrow> approval_inv trace st"
proof (induction rule: approval_reachable.induct)
  case ApInit
  show ?case by (simp add: approval_inv_def empty_approvals_def)
next
  case (ApStep trace st effs st')
  from approval_step_inv [OF ApStep.hyps(2) ApStep.IH] show ?case .
qed

subsection \<open>Lookup\<close>

lemma lookup_matches_sound:
  assumes "i \<in> set (lookup_matches pre incl st)"
  shows "\<exists>e. (i, e) \<in> set (am_pending st) \<and> (incl \<or> ar_resolvedAtMs (pe_record e) = None) \<and>
    starts_with (normalizeLowercaseStringOrEmpty (Some i)) pre"
  using assms by (auto simp: lookup_matches_def)

lemma lookup_pending_open:
  assumes "lookupPendingId input st = LookupExact i \<or> lookupPendingId input st = LookupPrefix i"
    and "wf_map (am_pending st)"
  shows "\<exists>e. map_get (am_pending st) i = Some e \<and> ar_resolvedAtMs (pe_record e) = None"
proof -
  have prefix: "\<exists>e. map_get (am_pending st) i = Some e \<and> ar_resolvedAtMs (pe_record e) = None"
    if "lookup_matches pre False st = [i]" for pre
    using lookup_matches_sound [of i pre False st] that map_get_iff [OF assms(2)] by force
  show ?thesis using assms(1) prefix
    by (auto simp: lookupPendingId_def lookupApprovalId_def Let_def split: if_splits option.splits list.splits)
qed

lemma lookup_prefix_unique:
  assumes "lookupPendingId input st = LookupPrefix i" and "wf_map (am_pending st)"
    and "map_get (am_pending st) j = Some e" and "ar_resolvedAtMs (pe_record e) = None"
    and "starts_with (js_lower (js_trim j)) (js_lower (js_trim input))"
  shows "j = i"
proof -
  have m: "lookup_matches (js_lower (js_trim input)) False st = [i]"
    using assms(1)
    by (auto simp: lookupPendingId_def lookupApprovalId_def Let_def split: if_splits option.splits list.splits)
  have "j \<in> set (lookup_matches (js_lower (js_trim input)) False st)"
    using map_get_in [OF assms(3)] assms(4,5)
    by (auto simp: lookup_matches_def image_iff intro!: bexI [of _ "(j, e)"])
  then show ?thesis by (simp add: m)
qed

subsection \<open>Properties\<close>

definition sample_record :: "nat approval_record" where
  "sample_record = approval_create ''uuid'' 1 5000 (Some '' Req-1 '') 0"

definition sample_registered :: "nat approval_state" where
  "sample_registered = snd (approval_register sample_record empty_approvals)"

definition sample_resolved :: "nat approval_state" where
  "sample_resolved = snd (snd (approval_resolve ''Req-1'' AllowOnce None 10 sample_registered))"

definition sample_consumed :: "nat approval_state" where
  "sample_consumed = snd (consumeAllowOnce ''Req-1'' sample_resolved)"

lemma sample_approvals_reachable:
  "approval_reachable [ESettle (Settle 0 (Some AllowOnce)), EConsumed 0] sample_consumed"
proof -
  have "approval_reachable ([] @ []) sample_registered"
    by (rule ApStep [OF ApInit ApRegister [of sample_record _ "fst (approval_register sample_record empty_approvals)"]])
      (simp_all add: sample_registered_def sample_record_def approval_create_def)
  then have "approval_reachable (([] @ []) @ map ESettle [Settle 0 (Some AllowOnce)]) sample_resolved"
    by (rule ApStep [OF _ ApResolve [of "''Req-1''" AllowOnce None 10 _ True]]) code_simp
  then have "approval_reachable ((([] @ []) @ map ESettle [Settle 0 (Some AllowOnce)]) @
      (if True then map EConsumed (case awaitDecision ''Req-1'' sample_resolved of None \<Rightarrow> [] | Some p \<Rightarrow> [p]) else []))
      sample_consumed"
    by (rule ApStep [OF _ ApConsume [of "''Req-1''"]]) code_simp
  moreover have "awaitDecision ''Req-1'' sample_resolved = Some 0" by code_simp
  ultimately show ?thesis by simp
qed

text \<open>C28: Every approval is decided at most once. In every run no promise is settled twice, by a
  decision, a timeout or both, and a pending entry is marked resolved exactly when its promise
  has been settled.\<close>

theorem approval_settled_once:
  assumes "approval_reachable trace st"
  shows "distinct (settled_promises trace) \<and>
    (map_get (am_pending st) i = Some e \<longrightarrow>
     (ar_resolvedAtMs (pe_record e) \<noteq> None) = (pe_promise e \<in> set (settled_promises trace)))"
  using approval_reachable_inv [OF assms] by (auto simp: approval_inv_def entry_inv_def)

theorem approval_settled_once_witness:
  "distinct (settled_promises [ESettle (Settle 0 (Some AllowOnce)), EConsumed 0])"
  using approval_settled_once [OF sample_approvals_reachable] by blast

text \<open>An allow-once decision is used at most once. In every run each consumed approval was decided
  allow-once and is consumed only once, also within the grace period in which its entry is kept.\<close>

theorem allow_once_consumed_once:
  assumes "approval_reachable trace st"
  shows "distinct (consumed_promises trace) \<and> set (consumed_promises trace) \<subseteq> set (granted_once trace)"
  using approval_reachable_inv [OF assms] by (simp add: approval_inv_def)

theorem allow_once_consumed_once_witness:
  "set (consumed_promises [ESettle (Settle 0 (Some AllowOnce)), EConsumed 0])
     \<subseteq> set (granted_once [ESettle (Settle 0 (Some AllowOnce)), EConsumed 0])"
  using allow_once_consumed_once [OF sample_approvals_reachable] by blast

text \<open>Looking up a pending approval never confuses two requests. A prefix that resolves to an id
  is the prefix of no other open approval, and the id found is one that is still open.\<close>

theorem pending_lookup_unambiguous:
  assumes "lookupPendingId input st = LookupPrefix i" and "approval_reachable trace st"
    and "map_get (am_pending st) j = Some e" and "ar_resolvedAtMs (pe_record e) = None"
    and "starts_with (js_lower (js_trim j)) (js_lower (js_trim input))"
  shows "j = i \<and> (\<exists>f. map_get (am_pending st) i = Some f \<and> ar_resolvedAtMs (pe_record f) = None)"
proof -
  have wf: "wf_map (am_pending st)"
    using approval_reachable_inv [OF assms(2)] by (simp add: approval_inv_def)
  show ?thesis
    using lookup_prefix_unique [OF assms(1) wf assms(3-5)] lookup_pending_open [OF disjI2 [OF assms(1)] wf]
    by blast
qed

theorem pending_lookup_unambiguous_witness:
  "\<exists>f. map_get (am_pending sample_registered) ''Req-1'' = Some f \<and> ar_resolvedAtMs (pe_record f) = None"
proof -
  have "approval_reachable ([] @ []) sample_registered"
    by (rule ApStep [OF ApInit ApRegister [of sample_record _ "fst (approval_register sample_record empty_approvals)"]])
      (simp_all add: sample_registered_def sample_record_def approval_create_def)
  moreover have "lookupPendingId ''req'' sample_registered = LookupPrefix ''Req-1''" by code_simp
  moreover have "map_get (am_pending sample_registered) ''Req-1'' =
      Some \<lparr>pe_record = sample_record, pe_promise = 0\<rparr>" by code_simp
  moreover have "ar_resolvedAtMs (pe_record \<lparr>pe_record = sample_record, pe_promise = 0\<rparr>) = None"
    by (simp add: sample_record_def approval_create_def)
  moreover have "starts_with (js_lower (js_trim ''Req-1'')) (js_lower (js_trim ''req''))" by code_simp
  ultimately show ?thesis using pending_lookup_unambiguous by blast
qed

end
