(* ===== verification/JsStrings.thy ===== *)
theory JsStrings
  imports JsPrelude
begin

section \<open>Splitting and joining strings\<close>

text \<open>
  \<open>s.split(c)\<close> for a one-character separator, \<open>xs.join(sep)\<close>, \<open>lastIndexOf\<close>, and the number of
  pieces a longer separator cuts a string into. \<open>segments\<close> is the idiom
  \<open>split(c).filter(Boolean)\<close>.
\<close>

fun split_on :: "char \<Rightarrow> string \<Rightarrow> string list" where
  "split_on c [] = [[]]"
| "split_on c (x # xs) =
     (if x = c then [] # split_on c xs
      else case split_on c xs of [] \<Rightarrow> [[x]] | p # ps \<Rightarrow> (x # p) # ps)"

fun join_with :: "string \<Rightarrow> string list \<Rightarrow> string" where
  "join_with sep [] = []"
| "join_with sep [x] = x"
| "join_with sep (x # y # xs) = x @ sep @ join_with sep (y # xs)"

definition segments :: "char \<Rightarrow> string \<Rightarrow> string list" where
  "segments c s = filter (\<lambda>p. p \<noteq> []) (split_on c s)"

text \<open>The number of non-overlapping occurrences from the left; \<open>skip\<close> characters belong to the last one.\<close>

fun count_occurrences :: "nat \<Rightarrow> string \<Rightarrow> string \<Rightarrow> nat" where
  "count_occurrences skip p [] = 0"
| "count_occurrences (Suc skip) p (x # xs) = count_occurrences skip p xs"
| "count_occurrences 0 p (x # xs) =
     (if starts_with (x # xs) p then Suc (count_occurrences (length p - 1) p xs)
      else count_occurrences 0 p xs)"

fun last_index_of :: "string \<Rightarrow> string \<Rightarrow> nat option" where
  "last_index_of p [] = (if p = [] then Some 0 else None)"
| "last_index_of p (x # xs) =
     (case last_index_of p xs of
        Some i \<Rightarrow> Some (Suc i)
      | None \<Rightarrow> if starts_with (x # xs) p then Some 0 else None)"

lemma split_on_nonempty [js_string_simps, simp]: "split_on c s \<noteq> []"
  by (induction s) (auto split: list.splits)

lemma split_on_cut: "split_on c (a @ c # b) = split_on c a @ split_on c b"
proof (induction a)
  case (Cons x a)
  then show ?case by (cases "split_on c a") auto
qed simp

lemma split_on_single: "c \<notin> set s \<Longrightarrow> split_on c s = [s]"
  by (induction s) auto

lemma split_on_chars: "p \<in> set (split_on c s) \<Longrightarrow> set p \<subseteq> set s - {c}"
proof (induction s arbitrary: p)
  case (Cons x s)
  obtain q qs where qs: "split_on c s = q # qs" by (cases "split_on c s") auto
  have "set q \<subseteq> set s - {c}" "\<And>r. r \<in> set qs \<Longrightarrow> set r \<subseteq> set s - {c}"
    using Cons.IH qs by simp_all
  moreover have "p = [] \<or> p = q \<or> p = x # q \<and> x \<noteq> c \<or> p \<in> set qs"
    using Cons.prems qs by (auto split: if_splits)
  ultimately show ?case by auto
qed simp

lemma join_split: "join_with [c] (split_on c s) = s"
proof (induction s)
  case (Cons x s)
  then show ?case by (cases "split_on c s"; cases "tl (split_on c s)") auto
qed simp

lemma split_join:
  "(\<forall>x\<in>set xs. c \<notin> set x) \<Longrightarrow> xs \<noteq> [] \<Longrightarrow> split_on c (join_with [c] xs) = xs"
proof (induction xs)
  case (Cons x xs)
  then show ?case by (cases xs) (simp_all add: split_on_single split_on_cut)
qed simp

lemma join_chars: "(\<forall>x\<in>set xs. d \<notin> set x) \<Longrightarrow> d \<noteq> c \<Longrightarrow> d \<notin> set (join_with [c] xs)"
proof (induction xs)
  case (Cons x xs)
  then show ?case by (cases xs) simp_all
qed simp

lemma segments_cut: "segments c (a @ c # b) = segments c a @ segments c b"
  by (simp add: segments_def split_on_cut)

lemma segments_single: "c \<notin> set s \<Longrightarrow> segments c s = (if s = [] then [] else [s])"
  by (simp add: segments_def split_on_single)

lemma segments_nonempty: "p \<in> set (segments c s) \<Longrightarrow> p \<noteq> [] \<and> c \<notin> set p"
  using split_on_chars [of p c s] by (auto simp: segments_def)

lemma segments_Nil_iff: "(segments c s = []) = (set s \<subseteq> {c})"
proof (induction s)
  case (Cons x s)
  then show ?case
    by (cases "split_on c s") (auto simp: segments_def split: if_splits)
qed (simp add: segments_def)

lemma join_with_Nil: "(\<forall>p\<in>set xs. p \<noteq> []) \<Longrightarrow> (join_with sep xs = []) = (xs = [])"
  by (induction sep xs rule: join_with.induct) auto

text \<open>The first separator cuts a string in only one way.\<close>

lemma cut_unique:
  "c \<notin> set a \<Longrightarrow> c \<notin> set a' \<Longrightarrow> (a @ c # b = a' @ c # b') = (a = a' \<and> b = b')"
proof (induction a arbitrary: a')
  case Nil
  then show ?case by (cases a') auto
next
  case (Cons x a)
  then show ?case by (cases a') auto
qed

lemma last_index_of_take:
  "last_index_of p s = Some i \<Longrightarrow> s = take i s @ p @ drop (i + length p) s"
proof (induction p s arbitrary: i rule: last_index_of.induct)
  case (2 p x xs)
  show ?case
  proof (cases "last_index_of p xs")
    case None
    then have "starts_with (x # xs) p" "i = 0" using 2(2) by (auto split: if_splits)
    then show ?thesis by (auto simp: starts_with_iff)
  next
    case (Some j)
    then show ?thesis using 2 by auto
  qed
qed (auto split: if_splits)

end
