(* ===== verification/ToolPlanner.thy ===== *)
theory ToolPlanner
  imports JsPrelude "HOL-Library.Multiset" JsStrings JsMap
begin

section \<open>Comparators and the sorted order they give\<close>

text \<open>
  What \<open>toSorted(cmp)\<close> promises when the comparator is consistent: the result is a sorted
  permutation, and it does not depend on the order of the input when the comparator tells the
  elements apart. \<open>consistent_cmp\<close> is the contract a comparator must meet; the
  strings' \<open>localeCompare\<close>, whose collation is not part of the modelled code, is assumed to
  meet it where a property needs it.
\<close>

definition consistent_cmp :: "('a \<Rightarrow> 'a \<Rightarrow> int) \<Rightarrow> bool" where
  "consistent_cmp cmp =
     ((\<forall>a b. (cmp a b \<le> 0) = (cmp b a \<ge> 0)) \<and> (\<forall>a b c. cmp a b \<le> 0 \<and> cmp b c \<le> 0 \<longrightarrow> cmp a c \<le> 0))"

lemma consistent_cmpD:
  assumes "consistent_cmp cmp"
  shows "cmp a a = 0" and "(cmp a b \<le> 0) = (cmp b a \<ge> 0)" and "(cmp a b = 0) = (cmp b a = 0)"
    and "cmp a b \<le> 0 \<Longrightarrow> cmp b c \<le> 0 \<Longrightarrow> cmp a c \<le> 0"
proof -
  have flip: "(cmp x y \<le> 0) = (cmp y x \<ge> 0)" for x y
    using assms by (simp add: consistent_cmp_def)
  show "cmp a a = 0" using flip [of a a] by linarith
  show "(cmp a b \<le> 0) = (cmp b a \<ge> 0)" by (rule flip)
  show "(cmp a b = 0) = (cmp b a = 0)" using flip [of a b] flip [of b a] by linarith
  show "cmp a b \<le> 0 \<Longrightarrow> cmp b c \<le> 0 \<Longrightarrow> cmp a c \<le> 0"
    using assms by (meson consistent_cmp_def)
qed

text \<open>\<open>f(a, b) || g(a, b)\<close>: the second comparator breaks the ties of the first.\<close>

definition cmp_or :: "('a \<Rightarrow> 'a \<Rightarrow> int) \<Rightarrow> ('a \<Rightarrow> 'a \<Rightarrow> int) \<Rightarrow> 'a \<Rightarrow> 'a \<Rightarrow> int" where
  "cmp_or f g a b = (if f a b \<noteq> 0 then f a b else g a b)"

definition cmp_on :: "('a \<Rightarrow> 'b) \<Rightarrow> ('b \<Rightarrow> 'b \<Rightarrow> int) \<Rightarrow> 'a \<Rightarrow> 'a \<Rightarrow> int" where
  "cmp_on key cmp a b = cmp (key a) (key b)"

lemma consistent_cmp_on: "consistent_cmp cmp \<Longrightarrow> consistent_cmp (cmp_on key cmp)"
  unfolding consistent_cmp_def cmp_on_def by blast

lemma consistent_cmp_or:
  assumes f: "consistent_cmp f" and g: "consistent_cmp g"
  shows "consistent_cmp (cmp_or f g)"
  unfolding consistent_cmp_def
proof (intro conjI allI impI)
  fix a b
  show "(cmp_or f g a b \<le> 0) = (cmp_or f g b a \<ge> 0)"
    using consistent_cmpD(2,3) [OF f, of a b] consistent_cmpD(2) [OF g, of a b]
    by (simp add: cmp_or_def)
next
  fix a b c
  assume le: "cmp_or f g a b \<le> 0 \<and> cmp_or f g b c \<le> 0"
  have fle: "f a b \<le> 0" "f b c \<le> 0" using le by (auto simp: cmp_or_def split: if_splits)
  then have fac: "f a c \<le> 0" by (rule consistent_cmpD(4) [OF f])
  show "cmp_or f g a c \<le> 0"
  proof (cases "f a c = 0")
    case True
    then have ca: "f c a \<le> 0" using consistent_cmpD(3) [OF f, of a c] by simp
    have "f b a \<le> 0" by (rule consistent_cmpD(4) [OF f fle(2) ca])
    then have ab: "f a b = 0" using fle(1) consistent_cmpD(2) [OF f, of b a] by linarith
    have "f c b \<le> 0" by (rule consistent_cmpD(4) [OF f ca fle(1)])
    then have bc: "f b c = 0" using fle(2) consistent_cmpD(2) [OF f, of c b] by linarith
    have "g a b \<le> 0" "g b c \<le> 0" using le ab bc by (simp_all add: cmp_or_def)
    then have "g a c \<le> 0" by (rule consistent_cmpD(4) [OF g])
    then show ?thesis using True by (simp add: cmp_or_def)
  next
    case False
    then show ?thesis using fac by (simp add: cmp_or_def)
  qed
qed

subsection \<open>Sorting\<close>

lemma mset_insert_by [js_list_simps, simp]: "mset (insert_by cmp x ys) = add_mset x (mset ys)"
  by (induction ys) auto

lemma mset_sort_by [js_list_simps, simp]: "mset (sort_by cmp xs) = mset xs"
  unfolding sort_by_def by (induction xs) auto

lemma sorted_insert_by:
  assumes cmp: "consistent_cmp cmp"
  shows "sorted_wrt (\<lambda>a b. cmp a b \<le> 0) ys \<Longrightarrow> sorted_wrt (\<lambda>a b. cmp a b \<le> 0) (insert_by cmp x ys)"
proof (induction ys)
  case (Cons y ys)
  show ?case
  proof (cases "cmp x y \<le> 0")
    case True
    then have "\<forall>z\<in>set ys. cmp x z \<le> 0"
      using Cons.prems consistent_cmpD(4) [OF cmp True] by auto
    then show ?thesis using True Cons.prems by simp
  next
    case False
    then have "cmp y x \<le> 0" using consistent_cmpD(2) [OF cmp, of x y] consistent_cmpD(2) [OF cmp, of y x] by linarith
    then show ?thesis using False Cons by simp
  qed
qed simp

lemma sorted_sort_by:
  assumes "consistent_cmp cmp"
  shows "sorted_wrt (\<lambda>a b. cmp a b \<le> 0) (sort_by cmp xs)"
  unfolding sort_by_def by (induction xs) (auto intro: sorted_insert_by [OF assms])

text \<open>Two sorted lists of the same elements are equal when no two elements tie.\<close>

lemma sorted_wrt_unique:
  assumes "sorted_wrt (\<lambda>a b. cmp a b \<le> 0) xs" and "sorted_wrt (\<lambda>a b. cmp a b \<le> 0) ys"
    and "mset xs = mset ys" and "consistent_cmp cmp"
    and "\<And>a b. a \<in> set xs \<Longrightarrow> b \<in> set xs \<Longrightarrow> cmp a b = 0 \<Longrightarrow> a = b"
  shows "xs = ys"
  using assms(1-3,5)
proof (induction xs arbitrary: ys)
  case (Cons x xs)
  obtain y ys' where ys: "ys = y # ys'" using Cons.prems(3) by (cases ys) auto
  have sets: "set (x # xs) = set (y # ys')" using Cons.prems(3) ys by (metis mset_eq_setD)
  have "cmp x y \<le> 0" using Cons.prems(1) sets consistent_cmpD(1) [OF assms(4)]
    by (metis list.set_intros(1) order_refl set_ConsD sorted_wrt.simps(2))
  moreover have "cmp y x \<le> 0" using Cons.prems(2) sets ys consistent_cmpD(1) [OF assms(4)]
    by (metis list.set_intros(1) order_refl set_ConsD sorted_wrt.simps(2))
  ultimately have "cmp x y = 0" using consistent_cmpD(2) [OF assms(4), of y x] by linarith
  then have "x = y" using Cons.prems(4) [of x y] sets by auto
  moreover have "xs = ys'"
    using Cons.IH [of ys'] Cons.prems ys \<open>x = y\<close> by simp
  ultimately show ?case using ys by simp
qed simp

lemma sort_by_permuted:
  assumes "consistent_cmp cmp" and "mset xs = mset ys"
    and "\<And>a b. a \<in> set xs \<Longrightarrow> b \<in> set xs \<Longrightarrow> cmp a b = 0 \<Longrightarrow> a = b"
  shows "sort_by cmp xs = sort_by cmp ys"
  by (rule sorted_wrt_unique [OF sorted_sort_by sorted_sort_by]) (use assms in simp_all)

section \<open>The tool planner\<close>

text \<open>
  Models \<^verbatim>\<open>src/tools\<close>: \<^verbatim>\<open>types.ts\<close> (data), \<^verbatim>\<open>availability.ts\<close> (when a tool is
  available), \<^verbatim>\<open>planner.ts\<close> (the visible and the hidden tools), \<^verbatim>\<open>execution.ts\<close>,
  \<^verbatim>\<open>protocol.ts\<close> and \<^verbatim>\<open>diagnostics.ts\<close>. The collation of \<open>localeCompare\<close> is the parameter
  \<open>lc\<close>. An object is its own properties, so a path segment that names a property every
  object inherits is a missing one here.
\<close>

subsection \<open>Data\<close>

datatype json_primitive = PStr string | PNum jsnum | PBool bool | PNull

datatype json = JPrim json_primitive | JArr "json list" | JObj "(string \<times> json) list"

type_synonym json_object = "(string \<times> json) list"

datatype tool_owner = OwnerCore | OwnerPlugin string | OwnerChannel string "string option" | OwnerMcp string

datatype tool_executor =
    ExecCore string | ExecPlugin string string | ExecChannel string string | ExecMcp string string

datatype config_check = CheckExists | CheckNonEmpty | CheckAvailable

text \<open>
  \<open>SigContext key equals\<close>: \<open>equals\<close> is \<open>None\<close> when the property is absent and \<open>Some None\<close> when it
  is there with the value undefined. \<open>SigOther\<close> is a kind the types do not know.
\<close>

datatype signal =
    SigAlways | SigAuth string | SigConfig "string list" "config_check option" | SigEnv string
  | SigPluginEnabled string | SigContext string "json_primitive option option" | SigOther string

datatype availability = Signal signal | AllOf "availability list" | AnyOf "availability list" | NoShape

record tool_descriptor =
  td_name :: string
  td_title :: "string option"
  td_description :: string
  td_inputSchema :: json_object
  td_outputSchema :: "json_object option"
  td_owner :: tool_owner
  td_executor :: "tool_executor option"
  td_availability :: "availability option"
  td_annotations :: "json_object option"
  td_sortKey :: "string option"

record availability_context =
  tc_authProviderIds :: "string list option"
  tc_config :: "json_object option"
  tc_isConfigValueAvailable :: "(json \<Rightarrow> string list \<Rightarrow> signal \<Rightarrow> bool) option"
  tc_env :: "(string, string) js_map option"
  tc_enabledPluginIds :: "string list option"
  tc_values :: "(string, json_primitive) js_map option"

datatype unavailable_reason =
    AuthMissing | ConfigMissing | ContextMismatch | EnvMissing | PluginDisabled | UnsupportedSignal

record tool_diagnostic =
  tdi_reason :: unavailable_reason
  tdi_signal :: "signal option"
  tdi_message :: string

record tool_plan_entry =
  te_descriptor :: tool_descriptor
  te_executor :: tool_executor

record hidden_entry =
  he_descriptor :: tool_descriptor
  he_diagnostics :: "tool_diagnostic list"

record tool_plan =
  tp_visible :: "tool_plan_entry list"
  tp_hidden :: "hidden_entry list"

datatype plan_error_code = DuplicateToolName | MissingExecutor

record plan_error =
  pe_code :: plan_error_code
  pe_toolName :: string
  pe_message :: string

subsection \<open>Availability\<close>

definition isRecord :: "json option \<Rightarrow> bool" where
  "isRecord value = (case value of Some (JObj _) \<Rightarrow> True | _ \<Rightarrow> False)"

definition json_field :: "json option \<Rightarrow> string \<Rightarrow> json option" where
  "json_field value segment = (case value of Some (JObj props) \<Rightarrow> map_get props segment | _ \<Rightarrow> None)"

fun config_path_loop :: "json option \<Rightarrow> string list \<Rightarrow> json option" where
  "config_path_loop current [] = current"
| "config_path_loop current (segment # path) =
     (if \<not> isRecord current then None else config_path_loop (json_field current segment) path)"

definition resolveConfigPath :: "json_object option \<Rightarrow> string list \<Rightarrow> json option" where
  "resolveConfigPath config path = config_path_loop (map_option JObj config) path"

definition hasConfiguredValue ::
  "json option \<Rightarrow> string list \<Rightarrow> config_check option \<Rightarrow> availability_context \<Rightarrow> bool" where
  "hasConfiguredValue value path check ctx =
     (case value of
        None \<Rightarrow> False
      | Some v \<Rightarrow>
          if v = JPrim PNull then False
          else if nullish check CheckExists = CheckAvailable then
            (case tc_isConfigValueAvailable ctx of
               None \<Rightarrow> False | Some f \<Rightarrow> f v path (SigConfig path check))
          else if nullish check CheckExists = CheckExists then True
          else (case v of
                  JPrim (PStr s) \<Rightarrow> length (js_trim s) > 0
                | JArr xs \<Rightarrow> length xs > 0
                | JObj props \<Rightarrow> length props > 0
                | JPrim _ \<Rightarrow> True))"

text \<open>\<open>===\<close> on primitives: not-a-number equals nothing.\<close>

definition strict_equal :: "json_primitive option \<Rightarrow> json_primitive option \<Rightarrow> bool" where
  "strict_equal a b = (a = b \<and> a \<noteq> Some (PNum NaN))"

definition hasAvailabilityExpressionShape :: "availability \<Rightarrow> bool" where
  "hasAvailabilityExpressionShape value = (value \<noteq> NoShape)"

definition tool_diagnostic_of :: "unavailable_reason \<Rightarrow> signal \<Rightarrow> string \<Rightarrow> tool_diagnostic" where
  "tool_diagnostic_of reason sig message =
     \<lparr>tdi_reason = reason, tdi_signal = Some sig, tdi_message = message\<rparr>"

definition set_has :: "string list option \<Rightarrow> string \<Rightarrow> bool" where
  "set_has s x = (case s of None \<Rightarrow> False | Some xs \<Rightarrow> x \<in> set xs)"

definition evaluateSignal :: "signal \<Rightarrow> availability_context \<Rightarrow> tool_diagnostic option" where
  "evaluateSignal sig ctx =
     (case sig of
        SigAlways \<Rightarrow> None
      | SigAuth providerId \<Rightarrow>
          if set_has (tc_authProviderIds ctx) providerId then None
          else Some (tool_diagnostic_of AuthMissing sig (''Missing auth provider: '' @ providerId))
      | SigConfig path check \<Rightarrow>
          if hasConfiguredValue (resolveConfigPath (tc_config ctx) path) path check ctx then None
          else Some (tool_diagnostic_of ConfigMissing sig
                 (''Missing config path: '' @ join_with ''.'' path))
      | SigEnv name \<Rightarrow>
          if nullish (map_option js_trim (Option.bind (tc_env ctx) (\<lambda>env. map_get env name))) [] \<noteq> []
          then None
          else Some (tool_diagnostic_of EnvMissing sig (''Missing environment value: '' @ name))
      | SigPluginEnabled pluginId \<Rightarrow>
          if set_has (tc_enabledPluginIds ctx) pluginId then None
          else Some (tool_diagnostic_of PluginDisabled sig (''Plugin is not enabled: '' @ pluginId))
      | SigContext key equals \<Rightarrow>
          (let value = Option.bind (tc_values ctx) (\<lambda>vs. map_get vs key) in
           case equals of
             None \<Rightarrow>
               if value = None
               then Some (tool_diagnostic_of ContextMismatch sig (''Missing context value: '' @ key))
               else None
           | Some expected \<Rightarrow>
               if strict_equal value expected then None
               else Some (tool_diagnostic_of ContextMismatch sig
                      (''Context value did not match: '' @ key)))
      | SigOther kind \<Rightarrow>
          Some (tool_diagnostic_of UnsupportedSignal sig ''Unsupported availability signal''))"

definition unsupported :: "string \<Rightarrow> tool_diagnostic" where
  "unsupported message =
     \<lparr>tdi_reason = UnsupportedSignal, tdi_signal = None, tdi_message = message\<rparr>"

fun evaluateExpression :: "availability_context \<Rightarrow> availability \<Rightarrow> tool_diagnostic list" where
  "evaluateExpression ctx (Signal sig) =
     (case evaluateSignal sig ctx of None \<Rightarrow> [] | Some d \<Rightarrow> [d])"
| "evaluateExpression ctx (AllOf es) =
     (if length es = 0 then [unsupported ''Empty availability allOf group'']
      else concat (map (evaluateExpression ctx) es))"
| "evaluateExpression ctx (AnyOf es) =
     (if length es = 0 then [unsupported ''Empty availability anyOf group'']
      else let diagnostics = map (evaluateExpression ctx) es
           in if \<exists>entries\<in>set diagnostics. length entries = 0 then [] else concat diagnostics)"
| "evaluateExpression ctx NoShape = [unsupported ''Unsupported availability expression'']"

definition empty_context :: availability_context where
  "empty_context = \<lparr>tc_authProviderIds = None, tc_config = None, tc_isConfigValueAvailable = None,
     tc_env = None, tc_enabledPluginIds = None, tc_values = None\<rparr>"

definition evaluateToolAvailability ::
  "tool_descriptor \<Rightarrow> availability_context option \<Rightarrow> tool_diagnostic list" where
  "evaluateToolAvailability descriptor ctxo =
     (let ctx = nullish ctxo empty_context;
          expr = nullish (td_availability descriptor) (Signal SigAlways)
      in if \<not> hasAvailabilityExpressionShape expr
         then [unsupported ''Unsupported availability expression'']
         else evaluateExpression ctx expr)"

subsection \<open>Planning\<close>

definition sort_name :: "tool_descriptor \<Rightarrow> string" where
  "sort_name d = nullish (td_sortKey d) (td_name d)"

definition compareDescriptors ::
  "(string \<Rightarrow> string \<Rightarrow> int) \<Rightarrow> tool_descriptor \<Rightarrow> tool_descriptor \<Rightarrow> int" where
  "compareDescriptors lc left right =
     (if lc (sort_name left) (sort_name right) \<noteq> 0 then lc (sort_name left) (sort_name right)
      else lc (td_name left) (td_name right))"

text \<open>The errors the planner throws are the left values.\<close>

fun unique_names_loop :: "string list \<Rightarrow> tool_descriptor list \<Rightarrow> plan_error + unit" where
  "unique_names_loop seen [] = Inr ()"
| "unique_names_loop seen (d # ds) =
     (if td_name d \<in> set seen then
        Inl \<lparr>pe_code = DuplicateToolName, pe_toolName = td_name d,
             pe_message = ''Duplicate tool descriptor name: '' @ td_name d\<rparr>
      else unique_names_loop (set_add seen (td_name d)) ds)"

definition assertUniqueNames :: "tool_descriptor list \<Rightarrow> plan_error + unit" where
  "assertUniqueNames descriptors = unique_names_loop [] descriptors"

fun plan_loop ::
  "availability_context option \<Rightarrow> tool_descriptor list \<Rightarrow> tool_plan_entry list \<Rightarrow> hidden_entry list \<Rightarrow>
   plan_error + tool_plan" where
  "plan_loop ctx [] visible hidden = Inr \<lparr>tp_visible = visible, tp_hidden = hidden\<rparr>"
| "plan_loop ctx (d # ds) visible hidden =
     (let diagnostics = evaluateToolAvailability d ctx in
      if length diagnostics > 0 then
        plan_loop ctx ds visible (hidden @ [\<lparr>he_descriptor = d, he_diagnostics = diagnostics\<rparr>])
      else case td_executor d of
        None \<Rightarrow> Inl \<lparr>pe_code = MissingExecutor, pe_toolName = td_name d,
                     pe_message = ''Visible tool descriptor has no executor ref: '' @ td_name d\<rparr>
      | Some e \<Rightarrow> plan_loop ctx ds (visible @ [\<lparr>te_descriptor = d, te_executor = e\<rparr>]) hidden)"

definition buildToolPlan ::
  "(string \<Rightarrow> string \<Rightarrow> int) \<Rightarrow> tool_descriptor list \<Rightarrow> availability_context option \<Rightarrow> plan_error + tool_plan" where
  "buildToolPlan lc ds ctx =
     (let descriptors = sort_by (compareDescriptors lc) ds in
      case assertUniqueNames descriptors of
        Inl err \<Rightarrow> Inl err
      | Inr u \<Rightarrow> plan_loop ctx descriptors [] [])"

subsection \<open>Executors and protocol descriptors\<close>

fun formatToolExecutorRef :: "tool_executor \<Rightarrow> string" where
  "formatToolExecutorRef (ExecCore executorId) = ''core:'' @ executorId"
| "formatToolExecutorRef (ExecPlugin pluginId toolName) = ''plugin:'' @ pluginId @ '':'' @ toolName"
| "formatToolExecutorRef (ExecChannel channelId actionId) = ''channel:'' @ channelId @ '':'' @ actionId"
| "formatToolExecutorRef (ExecMcp serverId toolName) = ''mcp:'' @ serverId @ '':'' @ toolName"

record protocol_descriptor =
  pd_name :: string
  pd_description :: string
  pd_inputSchema :: json_object

definition toToolProtocolDescriptor :: "tool_plan_entry \<Rightarrow> protocol_descriptor" where
  "toToolProtocolDescriptor entry =
     \<lparr>pd_name = td_name (te_descriptor entry), pd_description = td_description (te_descriptor entry),
      pd_inputSchema = td_inputSchema (te_descriptor entry)\<rparr>"

definition toToolProtocolDescriptors :: "tool_plan_entry list \<Rightarrow> protocol_descriptor list" where
  "toToolProtocolDescriptors entries = map toToolProtocolDescriptor entries"

subsection \<open>Availability as a boolean formula\<close>

text \<open>What the planner's diagnostics mean: a signal holds or not, groups are and/or.\<close>

fun holds :: "availability_context \<Rightarrow> availability \<Rightarrow> bool" where
  "holds ctx (Signal sig) = (evaluateSignal sig ctx = None)"
| "holds ctx (AllOf es) = (es \<noteq> [] \<and> (\<forall>e\<in>set es. holds ctx e))"
| "holds ctx (AnyOf es) = (\<exists>e\<in>set es. holds ctx e)"
| "holds ctx NoShape = False"

definition tool_available :: "availability_context option \<Rightarrow> tool_descriptor \<Rightarrow> bool" where
  "tool_available ctx d = holds (nullish ctx empty_context) (nullish (td_availability d) (Signal SigAlways))"

text \<open>The signals an expression is built from, and those that fail.\<close>

fun signals_of :: "availability \<Rightarrow> signal list" where
  "signals_of (Signal sig) = [sig]"
| "signals_of (AllOf es) = concat (map signals_of es)"
| "signals_of (AnyOf es) = concat (map signals_of es)"
| "signals_of NoShape = []"

lemma evaluateExpression_holds: "(evaluateExpression ctx e = []) = holds ctx e"
proof (induction e)
  case (AnyOf es)
  have "(evaluateExpression ctx (AnyOf es) = []) = (\<exists>e\<in>set es. evaluateExpression ctx e = [])"
    by (cases es) (auto simp: Let_def eq_commute [of "[]"])
  then show ?case using AnyOf by simp
qed (auto split: option.splits)

lemma evaluateToolAvailability_holds:
  "(evaluateToolAvailability d ctx = []) = tool_available ctx d"
  by (auto simp: evaluateToolAvailability_def tool_available_def Let_def evaluateExpression_holds
      hasAvailabilityExpressionShape_def)

lemma evaluateExpression_signal:
  "x \<in> set (evaluateExpression ctx e) \<Longrightarrow> tdi_signal x = Some sig \<Longrightarrow>
   sig \<in> set (signals_of e) \<and> evaluateSignal sig ctx = Some x"
proof (induction e)
  case (Signal s)
  then show ?case
    by (auto simp: evaluateSignal_def tool_diagnostic_of_def Let_def
        split: option.splits signal.splits if_splits)
next
  case (AllOf es)
  then show ?case by (cases es) (auto simp: unsupported_def)
next
  case (AnyOf es)
  then show ?case by (auto simp: unsupported_def Let_def split: if_splits)
qed (simp add: unsupported_def)

subsection \<open>The plan\<close>

lemma unique_names_loop_iff:
  "(unique_names_loop seen ds = Inr ()) = (distinct (map td_name ds) \<and> set (map td_name ds) \<inter> set seen = {})"
  by (induction seen ds rule: unique_names_loop.induct) auto

lemma unique_names_loop_error:
  "unique_names_loop seen ds = Inl err \<Longrightarrow>
   pe_code err = DuplicateToolName \<and> (pe_toolName err \<in> set seen \<and> pe_toolName err \<in> td_name ` set ds \<or>
     1 < count (mset (map td_name ds)) (pe_toolName err))"
proof (induction seen ds rule: unique_names_loop.induct)
  case (2 seen d ds)
  show ?case
  proof (cases "td_name d \<in> set seen")
    case True
    then show ?thesis using 2(2) by auto
  next
    case False
    then have IH: "pe_code err = DuplicateToolName \<and>
      (pe_toolName err \<in> insert (td_name d) (set seen) \<and> pe_toolName err \<in> td_name ` set ds \<or>
       1 < count (mset (map td_name ds)) (pe_toolName err))"
      using 2 by simp
    moreover have "pe_toolName err \<notin> td_name ` set ds \<Longrightarrow>
        count (image_mset td_name (mset ds)) (pe_toolName err) = 0"
      by (simp add: count_eq_zero_iff)
    ultimately show ?thesis by auto
  qed
qed simp

definition visible_of :: "availability_context option \<Rightarrow> tool_descriptor list \<Rightarrow> tool_descriptor list" where
  "visible_of ctx ds = filter (tool_available ctx) ds"

text \<open>The loop appends; its result is a filter of the descriptors, or the first missing executor.\<close>

lemma plan_loop_spec:
  "plan_loop ctx ds visible hidden =
     (case find (\<lambda>d. td_executor d = None) (visible_of ctx ds) of
        Some d \<Rightarrow> Inl \<lparr>pe_code = MissingExecutor, pe_toolName = td_name d,
                      pe_message = ''Visible tool descriptor has no executor ref: '' @ td_name d\<rparr>
      | None \<Rightarrow> Inr \<lparr>tp_visible = visible @
            map (\<lambda>d. \<lparr>te_descriptor = d, te_executor = the (td_executor d)\<rparr>) (visible_of ctx ds),
          tp_hidden = hidden @
            map (\<lambda>d. \<lparr>he_descriptor = d, he_diagnostics = evaluateToolAvailability d ctx\<rparr>)
              (filter (\<lambda>d. \<not> tool_available ctx d) ds)\<rparr>)"
proof (induction ctx ds visible hidden rule: plan_loop.induct)
  case (2 ctx d ds visible hidden)
  show ?case
  proof (cases "tool_available ctx d")
    case True
    then have "evaluateToolAvailability d ctx = []" by (simp add: evaluateToolAvailability_holds)
    then show ?thesis using 2(2) True
      by (auto simp: visible_of_def Let_def split: option.splits)
  next
    case False
    then have "evaluateToolAvailability d ctx \<noteq> []" by (simp add: evaluateToolAvailability_holds)
    then show ?thesis using 2(1) False by (auto simp: visible_of_def Let_def split: option.splits)
  qed
qed (simp add: visible_of_def)

lemma compareDescriptors_cmp:
  "compareDescriptors lc = cmp_or (cmp_on sort_name lc) (cmp_on td_name lc)"
  by (intro ext) (simp add: compareDescriptors_def cmp_or_def cmp_on_def)

lemma compareDescriptors_consistent: "consistent_cmp lc \<Longrightarrow> consistent_cmp (compareDescriptors lc)"
  by (simp add: compareDescriptors_cmp consistent_cmp_or consistent_cmp_on)

lemma buildToolPlan_eq:
  "distinct (map td_name ds) \<Longrightarrow>
   buildToolPlan lc ds ctx = plan_loop ctx (sort_by (compareDescriptors lc) ds) [] []"
  using unique_names_loop_iff [of "[]" "sort_by (compareDescriptors lc) ds"]
  by (auto simp: buildToolPlan_def assertUniqueNames_def distinct_map_sort_by)

lemma buildToolPlan_duplicate:
  "\<not> distinct (map td_name ds) \<Longrightarrow>
   \<exists>err. buildToolPlan lc ds ctx = Inl err \<and> pe_code err = DuplicateToolName \<and>
     1 < count (mset (map td_name ds)) (pe_toolName err)"
proof -
  assume dup: "\<not> distinct (map td_name ds)"
  let ?s = "sort_by (compareDescriptors lc) ds"
  obtain err where err: "unique_names_loop [] ?s = Inl err"
    using unique_names_loop_iff [of "[]" ?s] dup
    by (cases "unique_names_loop [] ?s") (auto simp: distinct_map_sort_by)
  have "mset (map td_name ?s) = mset (map td_name ds)" by simp
  then show ?thesis using unique_names_loop_error [OF err] err
    by (auto simp: buildToolPlan_def assertUniqueNames_def)
qed

text \<open>A successful plan, in terms of the sorted descriptors.\<close>

lemma buildToolPlan_InrD:
  assumes "buildToolPlan lc ds ctx = Inr plan"
  shows "distinct (map td_name ds)"
    and "map te_descriptor (tp_visible plan) =
      filter (tool_available ctx) (sort_by (compareDescriptors lc) ds)"
    and "map he_descriptor (tp_hidden plan) =
      filter (\<lambda>d. \<not> tool_available ctx d) (sort_by (compareDescriptors lc) ds)"
    and "e \<in> set (tp_visible plan) \<Longrightarrow> td_executor (te_descriptor e) = Some (te_executor e)"
    and "h \<in> set (tp_hidden plan) \<Longrightarrow>
      he_diagnostics h = evaluateToolAvailability (he_descriptor h) ctx"
proof -
  show dist: "distinct (map td_name ds)"
    using buildToolPlan_duplicate [of ds lc ctx] assms by fastforce
  have loop: "plan_loop ctx (sort_by (compareDescriptors lc) ds) [] [] = Inr plan"
    using buildToolPlan_eq [OF dist, of lc ctx] assms by simp
  have none: "find (\<lambda>d. td_executor d = None) (visible_of ctx (sort_by (compareDescriptors lc) ds)) = None"
    using loop by (auto simp: plan_loop_spec split: option.splits)
  have plan: "plan = \<lparr>tp_visible =
        map (\<lambda>d. \<lparr>te_descriptor = d, te_executor = the (td_executor d)\<rparr>)
          (visible_of ctx (sort_by (compareDescriptors lc) ds)),
      tp_hidden = map (\<lambda>d. \<lparr>he_descriptor = d, he_diagnostics = evaluateToolAvailability d ctx\<rparr>)
          (filter (\<lambda>d. \<not> tool_available ctx d) (sort_by (compareDescriptors lc) ds))\<rparr>"
    using loop by (simp add: plan_loop_spec none)
  show "map te_descriptor (tp_visible plan) =
      filter (tool_available ctx) (sort_by (compareDescriptors lc) ds)"
    by (simp add: plan visible_of_def comp_def)
  show "map he_descriptor (tp_hidden plan) =
      filter (\<lambda>d. \<not> tool_available ctx d) (sort_by (compareDescriptors lc) ds)"
    by (simp add: plan comp_def)
  show "e \<in> set (tp_visible plan) \<Longrightarrow> td_executor (te_descriptor e) = Some (te_executor e)"
    using none by (auto simp: plan find_None_iff)
  show "h \<in> set (tp_hidden plan) \<Longrightarrow>
      he_diagnostics h = evaluateToolAvailability (he_descriptor h) ctx"
    by (auto simp: plan)
qed

lemma sorted_descriptors:
  "consistent_cmp lc \<Longrightarrow>
   sorted_wrt (\<lambda>a b. compareDescriptors lc a b \<le> 0) (filter P (sort_by (compareDescriptors lc) ds))"
  by (intro sorted_wrt_filter sorted_sort_by compareDescriptors_consistent)

lemma buildToolPlan_Inl:
  assumes "distinct (map td_name ds)"
  shows "buildToolPlan lc ds ctx = Inl err \<Longrightarrow>
      pe_code err = MissingExecutor \<and>
      (\<exists>d\<in>set ds. td_name d = pe_toolName err \<and> tool_available ctx d \<and> td_executor d = None)"
    and "d \<in> set ds \<Longrightarrow> tool_available ctx d \<Longrightarrow> td_executor d = None \<Longrightarrow>
      \<exists>err. buildToolPlan lc ds ctx = Inl err"
  using buildToolPlan_eq [OF assms, of lc ctx]
  by (auto simp: plan_loop_spec visible_of_def find_Some_iff2 find_None_iff find_Some_iff split: option.splits dest!: nth_mem)

subsection \<open>Properties\<close>

text \<open>C39: A plan sorts every tool into exactly one list. When planning succeeds, the visible and the
  hidden tools together are the given ones; a visible tool is available and carries its own
  executor; a hidden one is unavailable and carries the diagnostics that say so; and both lists
  are sorted.\<close>

theorem plan_partitions:
  assumes "buildToolPlan lc ds ctx = Inr plan" and "consistent_cmp lc"
  shows "mset (map te_descriptor (tp_visible plan)) + mset (map he_descriptor (tp_hidden plan)) = mset ds \<and>
    (\<forall>e\<in>set (tp_visible plan). tool_available ctx (te_descriptor e) \<and>
       td_executor (te_descriptor e) = Some (te_executor e)) \<and>
    (\<forall>h\<in>set (tp_hidden plan). \<not> tool_available ctx (he_descriptor h) \<and>
       he_diagnostics h = evaluateToolAvailability (he_descriptor h) ctx \<and> he_diagnostics h \<noteq> []) \<and>
    sorted_wrt (\<lambda>a b. compareDescriptors lc a b \<le> 0) (map te_descriptor (tp_visible plan)) \<and>
    sorted_wrt (\<lambda>a b. compareDescriptors lc a b \<le> 0) (map he_descriptor (tp_hidden plan))"
proof -
  note D = buildToolPlan_InrD [OF assms(1)]
  have "te_descriptor e \<in> set (filter (tool_available ctx) (sort_by (compareDescriptors lc) ds))"
    if "e \<in> set (tp_visible plan)" for e
    using that arg_cong [OF D(2), of set] by auto
  moreover have "he_descriptor h \<in> set (filter (\<lambda>d. \<not> tool_available ctx d) (sort_by (compareDescriptors lc) ds))"
    if "h \<in> set (tp_hidden plan)" for h
    using that arg_cong [OF D(3), of set] by auto
  ultimately show ?thesis
    using D(2-5) sorted_descriptors [OF assms(2), of _ ds]
    by (auto simp: evaluateToolAvailability_holds simp del: mset_map)
qed

definition sample_lc :: "string \<Rightarrow> string \<Rightarrow> int" where
  "sample_lc a b = int (length a) - int (length b)"

definition sample_tool :: "string \<Rightarrow> tool_executor option \<Rightarrow> availability option \<Rightarrow> tool_descriptor" where
  "sample_tool name ex av = \<lparr>td_name = name, td_title = None, td_description = name, td_inputSchema = [],
     td_outputSchema = None, td_owner = OwnerCore, td_executor = ex, td_availability = av,
     td_annotations = None, td_sortKey = None\<rparr>"

definition sample_tools :: "tool_descriptor list" where
  "sample_tools =
     [sample_tool ''write'' (Some (ExecCore ''write'')) None,
      sample_tool ''plug'' None (Some (AllOf [Signal (SigPluginEnabled ''demo'')])),
      sample_tool ''read2'' (Some (ExecCore ''read'')) (Some (AnyOf [Signal SigAlways]))]"

definition sample_plan :: tool_plan where
  "sample_plan = \<lparr>tp_visible = [\<lparr>te_descriptor = sample_tools ! 0, te_executor = ExecCore ''write''\<rparr>,
      \<lparr>te_descriptor = sample_tools ! 2, te_executor = ExecCore ''read''\<rparr>],
    tp_hidden = [\<lparr>he_descriptor = sample_tools ! 1,
      he_diagnostics = evaluateToolAvailability (sample_tools ! 1) None\<rparr>]\<rparr>"

lemma sample_lc_consistent: "consistent_cmp sample_lc"
  by (auto simp: consistent_cmp_def sample_lc_def)

lemma sample_planned: "buildToolPlan sample_lc sample_tools None = Inr sample_plan"
  by code_simp

theorem plan_partitions_witness:
  "he_diagnostics (hd (tp_hidden sample_plan)) \<noteq> []"
  using plan_partitions [OF sample_planned sample_lc_consistent] by (simp add: sample_plan_def)

text \<open>Planning fails exactly on a duplicate name or on an available tool without an executor, and
  the error names a tool that has the fault; a duplicate is reported first.\<close>

theorem plan_fails_exactly:
  "case buildToolPlan lc ds ctx of
     Inr plan \<Rightarrow> distinct (map td_name ds) \<and> \<not> (\<exists>d\<in>set ds. tool_available ctx d \<and> td_executor d = None)
   | Inl err \<Rightarrow>
       if distinct (map td_name ds)
       then pe_code err = MissingExecutor \<and>
         (\<exists>d\<in>set ds. td_name d = pe_toolName err \<and> tool_available ctx d \<and> td_executor d = None)
       else pe_code err = DuplicateToolName \<and> 1 < count (mset (map td_name ds)) (pe_toolName err)"
proof (cases "distinct (map td_name ds)")
  case True
  then show ?thesis
    using buildToolPlan_Inl(1) [OF True, of lc ctx] buildToolPlan_Inl(2) [OF True, of _ ctx lc]
    by (fastforce split: sum.split)
next
  case False
  then show ?thesis using buildToolPlan_duplicate [OF False, of lc ctx] by auto
qed

text \<open>The plan does not depend on the order in which the tools were registered, provided the
  collation tells their names apart.\<close>

theorem plan_order_independent:
  assumes "mset ds = mset ds'" and "distinct (map td_name ds)" and "consistent_cmp lc"
    and "\<And>a b. a \<in> set ds \<Longrightarrow> b \<in> set ds \<Longrightarrow> lc (td_name a) (td_name b) = 0 \<Longrightarrow> td_name a = td_name b"
  shows "buildToolPlan lc ds ctx = buildToolPlan lc ds' ctx"
proof -
  have tie: "a = b" if "a \<in> set ds" "b \<in> set ds" "compareDescriptors lc a b = 0" for a b
    using that assms(4) [OF that(1,2)] assms(2)
    by (auto simp: compareDescriptors_def distinct_map dest: inj_onD split: if_splits)
  have "sort_by (compareDescriptors lc) ds = sort_by (compareDescriptors lc) ds'"
    using sort_by_permuted [OF compareDescriptors_consistent [OF assms(3)] assms(1) tie] by blast
  then show ?thesis by (simp add: buildToolPlan_def)
qed

theorem plan_order_independent_witness:
  "buildToolPlan sample_lc [sample_tools ! 1, sample_tools ! 0] None =
   buildToolPlan sample_lc [sample_tools ! 0, sample_tools ! 1] None"
  by (rule plan_order_independent [OF _ _ sample_lc_consistent])
    (auto simp: sample_tools_def sample_tool_def sample_lc_def)

end
