(* ===== verification/AgentIds.thy ===== *)
theory AgentIds
  imports AllowFrom JsMap
begin

section \<open>Agent and account identifiers\<close>

text \<open>
  Models the identifier normalisation of \<^verbatim>\<open>src/routing/session-key.ts\<close> and
  \<^verbatim>\<open>src/routing/account-id.ts\<close>, with \<^verbatim>\<open>src/infra/prototype-keys.ts\<close>. The regular expressions are
  written out as functions on characters. \<open>normalizeAccountId\<close> remembers up to 512 answers in a
  Map; \<open>normalizeAccountId_step\<close> is the function with that cache, \<open>normalizeAccountId\<close> what it
  computes, and the lemmas show that the cache never changes an answer.
\<close>

definition DEFAULT_AGENT_ID :: string where
  "DEFAULT_AGENT_ID = ''main''"

definition DEFAULT_MAIN_KEY :: string where
  "DEFAULT_MAIN_KEY = ''main''"

definition DEFAULT_ACCOUNT_ID :: string where
  "DEFAULT_ACCOUNT_ID = ''default''"

definition ACCOUNT_ID_CACHE_MAX :: nat where
  "ACCOUNT_ID_CACHE_MAX = 512"

definition BLOCKED_OBJECT_KEYS :: "string list" where
  "BLOCKED_OBJECT_KEYS = [''__proto__'', ''prototype'', ''constructor'']"

definition isBlockedObjectKey :: "string \<Rightarrow> bool" where
  "isBlockedObjectKey key = (key \<in> set BLOCKED_OBJECT_KEYS)"

text \<open>The classes \<open>[a-z0-9]\<close> and \<open>[a-z0-9_-]\<close>; \<open>/i\<close> also admits A to Z.\<close>

definition alnum_char :: "char \<Rightarrow> bool" where
  "alnum_char c = (let n = (of_char c :: nat) in (97 \<le> n \<and> n \<le> 122) \<or> (48 \<le> n \<and> n \<le> 57))"

definition id_char :: "char \<Rightarrow> bool" where
  "id_char c = (let n = (of_char c :: nat) in alnum_char c \<or> n = 95 \<or> n = 45)"

definition upper_char :: "char \<Rightarrow> bool" where
  "upper_char c = (let n = (of_char c :: nat) in 65 \<le> n \<and> n \<le> 90)"

definition VALID_ID_RE :: "string \<Rightarrow> bool" where
  "VALID_ID_RE s =
     (case s of
        [] \<Rightarrow> False
      | c # cs \<Rightarrow> (alnum_char c \<or> upper_char c) \<and> length cs \<le> 63 \<and>
          list_all (\<lambda>d. id_char d \<or> upper_char d) cs)"

text \<open>
  \<open>replace(/[^a-z0-9_-]+/g, "-")\<close>: every maximal run of other characters becomes one dash. The
  flag says whether the previous character was in such a run.
\<close>

fun replace_invalid :: "bool \<Rightarrow> string \<Rightarrow> string" where
  "replace_invalid run [] = []"
| "replace_invalid run (c # cs) =
     (if id_char c then c # replace_invalid False cs
      else if run then replace_invalid True cs
      else CHR ''-'' # replace_invalid True cs)"

definition strip_leading_dash :: "string \<Rightarrow> string" where
  "strip_leading_dash s = dropWhile (\<lambda>c. c = CHR ''-'') s"

definition strip_trailing_dash :: "string \<Rightarrow> string" where
  "strip_trailing_dash s = rev (dropWhile (\<lambda>c. c = CHR ''-'') (rev s))"

definition id_fallback :: "string \<Rightarrow> string" where
  "id_fallback normalized =
     take 64 (strip_trailing_dash (strip_leading_dash (replace_invalid False normalized)))"

definition normalizeAgentId :: "string option \<Rightarrow> string" where
  "normalizeAgentId value =
     (let trimmed = js_trim (nullish value []) in
      if trimmed = [] then DEFAULT_AGENT_ID
      else
        let normalized = normalizeLowercaseStringOrEmpty (Some trimmed)
        in if VALID_ID_RE trimmed then normalized
           else or_str (id_fallback normalized) DEFAULT_AGENT_ID)"

definition isValidAgentId :: "string option \<Rightarrow> bool" where
  "isValidAgentId value = (let trimmed = js_trim (nullish value []) in trimmed \<noteq> [] \<and> VALID_ID_RE trimmed)"

definition sanitizeAgentId :: "string option \<Rightarrow> string" where
  "sanitizeAgentId value = normalizeAgentId value"

definition canonicalizeAccountId :: "string \<Rightarrow> string" where
  "canonicalizeAccountId value =
     (let normalized = normalizeLowercaseStringOrEmpty (Some value)
      in if VALID_ID_RE value then normalized else id_fallback normalized)"

definition normalizeCanonicalAccountId :: "string \<Rightarrow> string option" where
  "normalizeCanonicalAccountId value =
     (let canonical = canonicalizeAccountId value
      in if canonical = [] \<or> isBlockedObjectKey canonical then None else Some canonical)"

subsection \<open>Account ids and their caches\<close>

type_synonym account_cache = "(string, string) js_map"
type_synonym optional_account_cache = "(string, string option) js_map"

definition setNormalizeCache :: "(string, 'v) js_map \<Rightarrow> string \<Rightarrow> 'v \<Rightarrow> (string, 'v) js_map" where
  "setNormalizeCache cache key value =
     (let cache1 = map_set cache key value
      in if length cache1 \<le> ACCOUNT_ID_CACHE_MAX then cache1
         else (case map_keys cache1 of [] \<Rightarrow> cache1 | oldest # _ \<Rightarrow> map_delete cache1 oldest))"

text \<open>The answer for a trimmed, non-empty value.\<close>

definition account_answer :: "string \<Rightarrow> string" where
  "account_answer trimmed = or_str (nullish (normalizeCanonicalAccountId trimmed) []) DEFAULT_ACCOUNT_ID"

definition normalizeAccountId :: "string option \<Rightarrow> string" where
  "normalizeAccountId value =
     (let trimmed = js_trim (nullish value []) in
      if trimmed = [] then DEFAULT_ACCOUNT_ID else account_answer trimmed)"

definition normalizeOptionalAccountId :: "string option \<Rightarrow> string option" where
  "normalizeOptionalAccountId value =
     (let trimmed = js_trim (nullish value []) in
      if trimmed = [] then None else normalizeCanonicalAccountId trimmed)"

definition normalizeAccountId_step :: "string option \<Rightarrow> account_cache \<Rightarrow> string \<times> account_cache" where
  "normalizeAccountId_step value cache =
     (let trimmed = js_trim (nullish value []) in
      if trimmed = [] then (DEFAULT_ACCOUNT_ID, cache)
      else
        let cached = nullish (map_get cache trimmed) [] in
        if cached \<noteq> [] then (cached, cache)
        else
          let normalized = account_answer trimmed
          in (normalized, setNormalizeCache cache trimmed normalized))"

definition normalizeOptionalAccountId_step ::
  "string option \<Rightarrow> optional_account_cache \<Rightarrow> string option \<times> optional_account_cache" where
  "normalizeOptionalAccountId_step value cache =
     (let trimmed = js_trim (nullish value []) in
      if trimmed = [] then (None, cache)
      else case map_get cache trimmed of
        Some hit \<Rightarrow> (hit, cache)
      | None \<Rightarrow>
          let normalized = normalizeCanonicalAccountId trimmed
          in (normalized, setNormalizeCache cache trimmed normalized))"

text \<open>A cache is coherent when each entry is the answer for its key, and never too large.\<close>

definition coherent_cache :: "(string \<Rightarrow> 'v) \<Rightarrow> (string, 'v) js_map \<Rightarrow> bool" where
  "coherent_cache answer cache =
     (wf_map cache \<and> length cache \<le> ACCOUNT_ID_CACHE_MAX \<and>
      (\<forall>k v. map_get cache k = Some v \<longrightarrow> v = answer k))"

lemma setNormalizeCache_coherent:
  assumes "coherent_cache answer cache"
  shows "coherent_cache answer (setNormalizeCache cache key (answer key))"
proof -
  have wf: "wf_map cache" and len: "length cache \<le> ACCOUNT_ID_CACHE_MAX"
    and val: "\<And>k v. map_get cache k = Some v \<Longrightarrow> v = answer k"
    using assms by (auto simp: coherent_cache_def)
  let ?c = "map_set cache key (answer key)"
  show ?thesis
  proof (cases "length ?c \<le> ACCOUNT_ID_CACHE_MAX")
    case True
    then show ?thesis
      using wf val by (auto simp: setNormalizeCache_def coherent_cache_def Let_def split: if_splits)
  next
    case False
    then obtain oldest rest where keys: "map_keys ?c = oldest # rest"
      by (cases "map_keys ?c") (auto simp: map_keys_def)
    have "map_get ?c oldest \<noteq> None" using keys map_get_keys [of oldest ?c] by auto
    with wf have "Suc (length (map_keys (map_delete ?c oldest))) = length (map_keys ?c)"
      by (intro jm.size_del_present) simp_all
    then have "Suc (length (map_delete ?c oldest)) = length ?c" by (simp only: length_map_keys)
    moreover have "length ?c \<le> Suc (length cache)"
      using jm.size_put [of cache key "answer key"] by (simp add: length_map_keys split: if_splits)
    ultimately have "length (map_delete ?c oldest) \<le> ACCOUNT_ID_CACHE_MAX" using len by linarith
    then show ?thesis
      using False keys wf val
      by (auto simp: setNormalizeCache_def coherent_cache_def Let_def split: if_splits)
  qed
qed

text \<open>The cached functions answer as the uncached ones and keep their caches coherent.\<close>

lemma account_answer_nonempty [simp]: "account_answer k \<noteq> []"
  by (simp add: account_answer_def or_str_def DEFAULT_ACCOUNT_ID_def)

lemma normalizeAccountId_step_spec:
  assumes "coherent_cache account_answer cache"
  shows "fst (normalizeAccountId_step value cache) = normalizeAccountId value \<and>
    coherent_cache account_answer (snd (normalizeAccountId_step value cache))"
proof (cases "map_get cache (js_trim (nullish value []))")
  case None
  then show ?thesis using assms setNormalizeCache_coherent [OF assms]
    by (simp add: normalizeAccountId_step_def normalizeAccountId_def Let_def)
next
  case (Some v)
  then have "v = account_answer (js_trim (nullish value []))" using assms by (simp add: coherent_cache_def)
  with Some show ?thesis using assms
    by (simp add: normalizeAccountId_step_def normalizeAccountId_def Let_def)
qed

lemma normalizeOptionalAccountId_step_spec:
  assumes "coherent_cache normalizeCanonicalAccountId cache"
  shows "fst (normalizeOptionalAccountId_step value cache) = normalizeOptionalAccountId value \<and>
    coherent_cache normalizeCanonicalAccountId (snd (normalizeOptionalAccountId_step value cache))"
  using assms setNormalizeCache_coherent [OF assms]
  by (auto simp: normalizeOptionalAccountId_step_def normalizeOptionalAccountId_def Let_def
      coherent_cache_def [of _ cache] split: option.split)

subsection \<open>The form of identifiers\<close>

definition id_form :: "string \<Rightarrow> bool" where
  "id_form s = (s \<noteq> [] \<and> length s \<le> 64 \<and> list_all id_char s \<and> hd s \<noteq> CHR ''-'')"

lemma of_char_dash [simp]: "(of_char (CHR ''-'') :: nat) = 45"
  by simp

lemma id_char_lower [simp]: "id_char c \<Longrightarrow> js_lower_char c = c"
  by (auto simp: id_char_def alnum_char_def js_lower_char_def js_is_upper_def Let_def)

lemma id_char_no_space [simp]: "id_char c \<Longrightarrow> \<not> js_is_space c"
  by (auto simp: id_char_def alnum_char_def js_is_space_def Let_def)

lemma id_char_dash [simp]: "id_char (CHR ''-'')"
  by (simp add: id_char_def)

lemma upper_char_lower: "upper_char c \<Longrightarrow> alnum_char (js_lower_char c)"
proof -
  assume up: "upper_char c"
  then have "(of_char c :: nat) + 32 < 256" by (auto simp: upper_char_def Let_def)
  then have "(of_char (char_of ((of_char c :: nat) + 32)) :: nat) = of_char c + 32"
    by (simp add: of_char_of)
  then show ?thesis using up
    by (auto simp: upper_char_def alnum_char_def js_lower_char_def js_is_upper_def Let_def)
qed

lemma alnum_id_char [simp]: "alnum_char c \<Longrightarrow> id_char c"
  by (simp add: id_char_def)

lemma alnum_not_dash: "alnum_char c \<Longrightarrow> c \<noteq> CHR ''-''"
  by (auto simp: alnum_char_def)

lemma alnum_lower [simp]: "alnum_char c \<Longrightarrow> js_lower_char c = c"
  by simp

lemma id_string_lower: "list_all id_char s \<Longrightarrow> js_lower s = s"
  by (induction s) (auto simp: js_lower_def)

lemma id_string_trim: "list_all id_char s \<Longrightarrow> js_trim s = s"
proof -
  assume ids: "list_all id_char s"
  have drop: "dropWhile js_is_space t = t" if "list_all id_char t" for t
    using that by (cases t) auto
  show ?thesis using ids drop [of s] drop [of "rev s"]
    by (simp add: js_trim_def js_trim_start_def js_trim_end_def)
qed

lemma valid_lower_form:
  assumes "VALID_ID_RE s"
  shows "id_form (js_lower s) \<and> alnum_char (hd (js_lower s))"
proof -
  obtain c cs where s: "s = c # cs" and c: "alnum_char c \<or> upper_char c" and len: "length cs \<le> 63"
    and cs: "list_all (\<lambda>d. id_char d \<or> upper_char d) cs"
    using assms by (cases s) (auto simp: VALID_ID_RE_def)
  have hd: "alnum_char (js_lower_char c)" using c upper_char_lower by auto
  have "id_char (js_lower_char d)" if "d \<in> set cs" for d
    using cs that upper_char_lower by (auto simp: list_all_iff)
  then have "list_all id_char (js_lower cs)" by (simp add: js_lower_def list_all_iff)
  then show ?thesis using s hd len alnum_not_dash [OF hd]
    by (simp add: id_form_def js_lower_def)
qed

lemma replace_invalid_chars: "list_all id_char (replace_invalid run s)"
  by (induction run s rule: replace_invalid.induct) auto

lemma replace_invalid_id: "list_all id_char s \<Longrightarrow> replace_invalid run s = s"
  by (induction run s rule: replace_invalid.induct) auto

lemma strip_trailing_hd:
  "strip_trailing_dash s \<noteq> [] \<Longrightarrow> hd (strip_trailing_dash s) = hd s"
proof -
  assume ne: "strip_trailing_dash s \<noteq> []"
  have "s = strip_trailing_dash s @ rev (takeWhile (\<lambda>c. c = CHR ''-'') (rev s))"
    unfolding strip_trailing_dash_def by (metis rev_append rev_rev_ident takeWhile_dropWhile_id)
  then show ?thesis using ne by (metis hd_append2)
qed

lemma strip_chars:
  "list_all P s \<Longrightarrow> list_all P (strip_leading_dash s)"
  "list_all P s \<Longrightarrow> list_all P (strip_trailing_dash s)"
  by (auto simp: strip_leading_dash_def strip_trailing_dash_def list_all_iff dest: set_dropWhileD)

lemma strip_leading_hd: "strip_leading_dash s \<noteq> [] \<Longrightarrow> hd (strip_leading_dash s) \<noteq> CHR ''-''"
  using hd_dropWhile [of "\<lambda>c. c = CHR ''-''" s] by (simp add: strip_leading_dash_def)

lemma strip_trailing_Nil: "strip_trailing_dash [] = []"
  by (simp add: strip_trailing_dash_def)

lemma id_fallback_form: "id_fallback s = [] \<or> id_form (id_fallback s)"
proof -
  let ?l = "strip_leading_dash (replace_invalid False s)"
  let ?t = "strip_trailing_dash ?l"
  have all: "list_all id_char ?t" by (intro strip_chars replace_invalid_chars)
  have "?t \<noteq> [] \<Longrightarrow> hd ?t \<noteq> CHR ''-''"
    using strip_trailing_hd [of ?l] strip_leading_hd [of "replace_invalid False s"]
    by (metis strip_trailing_Nil)
  moreover have "list_all id_char (take 64 ?t)" using all by (auto simp: list_all_iff dest: in_set_takeD)
  ultimately show ?thesis unfolding id_fallback_def id_form_def
    by (cases ?t) auto
qed

lemma id_form_main [simp]: "id_form ''main''" "id_form ''default''"
  by (simp_all add: id_form_def id_char_def alnum_char_def)

lemma normalizeAgentId_form: "id_form (normalizeAgentId value)"
  using valid_lower_form [of "js_trim (nullish value [])"]
    id_fallback_form [of "js_lower (js_trim (nullish value []))"]
  by (auto simp: normalizeAgentId_def Let_def or_str_def DEFAULT_AGENT_ID_def)

lemma normalizeAccountId_form: "id_form (normalizeAccountId value)"
  using valid_lower_form [of "js_trim (nullish value [])"]
    id_fallback_form [of "js_lower (js_trim (nullish value []))"]
  by (auto simp: normalizeAccountId_def account_answer_def normalizeCanonicalAccountId_def
      canonicalizeAccountId_def Let_def or_str_def DEFAULT_ACCOUNT_ID_def)

text \<open>
  Normalising again changes nothing, except for an id that begins with an underscore and was cut
  at a dash.
\<close>

definition stable_id :: "string \<Rightarrow> bool" where
  "stable_id s = (alnum_char (hd s) \<or> last s \<noteq> CHR ''-'')"

lemma id_form_valid: "id_form s \<Longrightarrow> alnum_char (hd s) \<Longrightarrow> VALID_ID_RE s"
  by (cases s) (auto simp: id_form_def VALID_ID_RE_def list_all_iff)

lemma id_fallback_id:
  assumes "id_form s" and "last s \<noteq> CHR ''-''"
  shows "id_fallback s = s"
proof -
  have lead: "strip_leading_dash s = s"
    using assms(1) by (cases s) (auto simp: id_form_def strip_leading_dash_def)
  have "rev s \<noteq> []" "hd (rev s) \<noteq> CHR ''-''"
    using assms by (auto simp: id_form_def hd_rev)
  then have "dropWhile (\<lambda>c. c = CHR ''-'') (rev s) = rev s" by (cases "rev s") auto
  then have "strip_trailing_dash s = s" by (simp add: strip_trailing_dash_def)
  then show ?thesis using assms(1) lead
    by (simp add: id_fallback_def id_form_def replace_invalid_id)
qed

lemma normalizeAgentId_stable:
  assumes "id_form s" and "stable_id s"
  shows "normalizeAgentId (Some s) = s"
proof -
  have ids: "list_all id_char s" "s \<noteq> []" using assms(1) by (auto simp: id_form_def)
  have "VALID_ID_RE s \<or> id_fallback s = s"
    using assms id_form_valid id_fallback_id by (auto simp: stable_id_def)
  then show ?thesis using ids
    by (auto simp: normalizeAgentId_def Let_def id_string_trim id_string_lower or_str_def)
qed

end
