(* ===== verification/SessionKeys.thy ===== *)
theory SessionKeys
  imports AgentIds JsStrings
begin

section \<open>Session keys\<close>

text \<open>
  Models \<^verbatim>\<open>src/sessions/session-key-utils.ts\<close> (parsing), \<^verbatim>\<open>src/routing/session-key.ts\<close>
  (building) and \<^verbatim>\<open>src/channels/chat-type.ts\<close>. A session key names the conversation a
  message belongs to; keys of an agent have the form \<open>agent:<id>:<rest>\<close>.
\<close>

subsection \<open>Chat types\<close>

datatype chat_type = CtDirect | CtGroup | CtChannel

fun chat_type_string :: "chat_type \<Rightarrow> string" where
  "chat_type_string CtDirect = ''direct''"
| "chat_type_string CtGroup = ''group''"
| "chat_type_string CtChannel = ''channel''"

definition normalizeChatType :: "string option \<Rightarrow> chat_type option" where
  "normalizeChatType raw =
     (case normalizeOptionalLowercaseString raw of
        None \<Rightarrow> None
      | Some value \<Rightarrow>
          if value = ''direct'' \<or> value = ''dm'' then Some CtDirect
          else if value = ''group'' then Some CtGroup
          else if value = ''channel'' then Some CtChannel
          else None)"

subsection \<open>Parsing\<close>

record parsed_agent_key =
  pa_agentId :: string
  pa_rest :: string

definition parseAgentSessionKey :: "string option \<Rightarrow> parsed_agent_key option" where
  "parseAgentSessionKey sessionKey =
     (case normalizeOptionalLowercaseString sessionKey of
        None \<Rightarrow> None
      | Some raw \<Rightarrow>
          (let parts = segments (CHR '':'') raw in
           if length parts < 3 then None
           else if parts ! 0 \<noteq> ''agent'' then None
           else
             let rest = join_with '':'' (drop 2 parts) in
             case normalizeOptionalString (Some (parts ! 1)) of
               None \<Rightarrow> None
             | Some agentId \<Rightarrow> if rest = [] then None else Some \<lparr>pa_agentId = agentId, pa_rest = rest\<rparr>))"

text \<open>The expression \<open>/^cron:[^:]+:run:[^:]+(?::|$)/\<close>, in terms of the pieces between colons.\<close>

definition cron_run_re :: "string \<Rightarrow> bool" where
  "cron_run_re s =
     (case split_on (CHR '':'') s of
        a # b # c # d # _ \<Rightarrow> a = ''cron'' \<and> b \<noteq> [] \<and> c = ''run'' \<and> d \<noteq> []
      | _ \<Rightarrow> False)"

definition isCronRunSessionKey :: "string option \<Rightarrow> bool" where
  "isCronRunSessionKey sessionKey =
     (case parseAgentSessionKey sessionKey of None \<Rightarrow> False | Some parsed \<Rightarrow> cron_run_re (pa_rest parsed))"

definition lower_starts_with :: "string option \<Rightarrow> string \<Rightarrow> bool" where
  "lower_starts_with value prefix =
     (case normalizeOptionalLowercaseString value of None \<Rightarrow> False | Some s \<Rightarrow> starts_with s prefix)"

definition isCronSessionKey :: "string option \<Rightarrow> bool" where
  "isCronSessionKey sessionKey =
     (case parseAgentSessionKey sessionKey of
        None \<Rightarrow> False | Some parsed \<Rightarrow> lower_starts_with (Some (pa_rest parsed)) ''cron:'')"

definition isSubagentSessionKey :: "string option \<Rightarrow> bool" where
  "isSubagentSessionKey sessionKey =
     (case normalizeOptionalString sessionKey of
        None \<Rightarrow> False
      | Some raw \<Rightarrow>
          if lower_starts_with (Some raw) ''subagent:'' then True
          else lower_starts_with (map_option pa_rest (parseAgentSessionKey (Some raw))) ''subagent:'')"

definition getSubagentDepth :: "string option \<Rightarrow> nat" where
  "getSubagentDepth sessionKey =
     (case normalizeOptionalLowercaseString sessionKey of
        None \<Rightarrow> 0 | Some raw \<Rightarrow> count_occurrences 0 '':subagent:'' raw)"

definition isAcpSessionKey :: "string option \<Rightarrow> bool" where
  "isAcpSessionKey sessionKey =
     (case normalizeOptionalString sessionKey of
        None \<Rightarrow> False
      | Some raw \<Rightarrow>
          if starts_with (normalizeLowercaseStringOrEmpty (Some raw)) ''acp:'' then True
          else lower_starts_with (map_option pa_rest (parseAgentSessionKey (Some raw))) ''acp:'')"

record parsed_thread_suffix =
  ts_baseSessionKey :: "string option"
  ts_threadId :: "string option"

definition parseThreadSessionSuffix :: "string option \<Rightarrow> parsed_thread_suffix" where
  "parseThreadSessionSuffix sessionKey =
     (case normalizeOptionalString sessionKey of
        None \<Rightarrow> \<lparr>ts_baseSessionKey = None, ts_threadId = None\<rparr>
      | Some raw \<Rightarrow>
          (case last_index_of '':thread:'' (normalizeLowercaseStringOrEmpty (Some raw)) of
             None \<Rightarrow> \<lparr>ts_baseSessionKey = Some raw, ts_threadId = normalizeOptionalString None\<rparr>
           | Some i \<Rightarrow> \<lparr>ts_baseSessionKey = Some (take i raw),
               ts_threadId = normalizeOptionalString (Some (drop (i + length '':thread:'') raw))\<rparr>))"

record raw_conversation_ref =
  rc_channel :: string
  rc_kind :: chat_type
  rc_rawId :: string
  rc_prefix :: string

definition parseRawSessionConversationRef :: "string option \<Rightarrow> raw_conversation_ref option" where
  "parseRawSessionConversationRef sessionKey =
     (case normalizeOptionalString sessionKey of
        None \<Rightarrow> None
      | Some raw \<Rightarrow>
          (let rawParts = segments (CHR '':'') raw;
               bodyStartIndex =
                 (if length rawParts \<ge> 3 \<and> normalizeOptionalLowercaseString (Some (rawParts ! 0)) = Some ''agent''
                  then 2 else 0);
               parts = drop bodyStartIndex rawParts
           in if length parts < 3 then None
              else
                let channel = normalizeOptionalLowercaseString (Some (parts ! 0));
                    kind = normalizeOptionalLowercaseString (Some (parts ! 1));
                    rawId = normalizeOptionalString (Some (join_with '':'' (drop 2 parts)));
                    prefix = normalizeOptionalString (Some (join_with '':'' (take (bodyStartIndex + 2) rawParts)))
                in case (channel, rawId, prefix) of
                     (Some ch, Some i, Some pre) \<Rightarrow>
                       if kind = Some ''group'' then
                         Some \<lparr>rc_channel = ch, rc_kind = CtGroup, rc_rawId = i, rc_prefix = pre\<rparr>
                       else if kind = Some ''channel'' then
                         Some \<lparr>rc_channel = ch, rc_kind = CtChannel, rc_rawId = i, rc_prefix = pre\<rparr>
                       else None
                   | _ \<Rightarrow> None))"

definition resolveThreadParentSessionKey :: "string option \<Rightarrow> string option" where
  "resolveThreadParentSessionKey sessionKey =
     (let suffix = parseThreadSessionSuffix sessionKey in
      if ts_threadId suffix = None then None else normalizeOptionalString (ts_baseSessionKey suffix))"

subsection \<open>Building\<close>

datatype key_shape = ShapeMissing | ShapeAgent | ShapeLegacyOrAlias | ShapeMalformedAgent

datatype dm_scope = ScopeMain | ScopePerPeer | ScopePerChannelPeer | ScopePerAccountChannelPeer

datatype session_scope = ScopePerSender | ScopeGlobal

definition normalizeMainKey :: "string option \<Rightarrow> string" where
  "normalizeMainKey value = or_str (normalizeLowercaseStringOrEmpty value) DEFAULT_MAIN_KEY"

definition agent_key :: "string \<Rightarrow> string \<Rightarrow> string" where
  "agent_key agentId rest = ''agent:'' @ agentId @ '':'' @ rest"

definition buildAgentMainSessionKey :: "string \<Rightarrow> string option \<Rightarrow> string" where
  "buildAgentMainSessionKey agentId mainKey =
     agent_key (normalizeAgentId (Some agentId)) (normalizeMainKey mainKey)"

definition toAgentRequestSessionKey :: "string option \<Rightarrow> string option" where
  "toAgentRequestSessionKey storeKey =
     (let raw = js_trim (nullish storeKey []) in
      if raw = [] then None
      else Some (nullish (map_option pa_rest (parseAgentSessionKey (Some raw))) raw))"

definition toAgentStoreSessionKey :: "string \<Rightarrow> string option \<Rightarrow> string option \<Rightarrow> string" where
  "toAgentStoreSessionKey agentId requestKey mainKey =
     (let raw = js_trim (nullish requestKey []);
          lowered = normalizeLowercaseStringOrEmpty (Some raw)
      in if raw = [] \<or> lowered = DEFAULT_MAIN_KEY then buildAgentMainSessionKey agentId mainKey
         else case parseAgentSessionKey (Some raw) of
           Some parsed \<Rightarrow> agent_key (pa_agentId parsed) (pa_rest parsed)
         | None \<Rightarrow>
             if starts_with lowered ''agent:'' then lowered
             else agent_key (normalizeAgentId (Some agentId)) lowered)"

definition resolveAgentIdFromSessionKey :: "string option \<Rightarrow> string" where
  "resolveAgentIdFromSessionKey sessionKey =
     normalizeAgentId (Some (nullish (map_option pa_agentId (parseAgentSessionKey sessionKey)) DEFAULT_AGENT_ID))"

definition classifySessionKeyShape :: "string option \<Rightarrow> key_shape" where
  "classifySessionKeyShape sessionKey =
     (let raw = js_trim (nullish sessionKey []) in
      if raw = [] then ShapeMissing
      else if parseAgentSessionKey (Some raw) \<noteq> None then ShapeAgent
      else if starts_with (normalizeLowercaseStringOrEmpty (Some raw)) ''agent:'' then ShapeMalformedAgent
      else ShapeLegacyOrAlias)"

definition resolveEventSessionKey :: "string \<Rightarrow> string option \<Rightarrow> session_scope option \<Rightarrow> string" where
  "resolveEventSessionKey sessionKey mainKey scope =
     (case parseAgentSessionKey (Some sessionKey) of
        None \<Rightarrow> sessionKey
      | Some parsed \<Rightarrow>
          if \<not> isCronRunSessionKey (Some sessionKey) then sessionKey
          else if scope = Some ScopeGlobal then ''global''
          else buildAgentMainSessionKey (pa_agentId parsed) mainKey)"

text \<open>What \<open>scopedHeartbeatWakeOptions\<close> adds to the options it is given.\<close>

datatype wake_extra = WakeUnchanged | WakeSessionKey string | WakeAgentId string

definition scopedHeartbeatWakeOptions :: "string \<Rightarrow> string option \<Rightarrow> session_scope option \<Rightarrow> wake_extra" where
  "scopedHeartbeatWakeOptions sessionKey mainKey scope =
     (case parseAgentSessionKey (Some sessionKey) of
        None \<Rightarrow> WakeUnchanged
      | Some parsed \<Rightarrow>
          if isCronRunSessionKey (Some sessionKey) then
            (if scope = Some ScopeGlobal then WakeAgentId (pa_agentId parsed)
             else WakeSessionKey (buildAgentMainSessionKey (pa_agentId parsed) mainKey))
          else WakeSessionKey sessionKey)"

text \<open>The links are the entries of the object, in the order \<open>Object.entries\<close> gives them.\<close>

type_synonym identity_links = "(string \<times> string list) list"

fun linked_peer_loop :: "string list \<Rightarrow> identity_links \<Rightarrow> string option" where
  "linked_peer_loop candidates [] = None"
| "linked_peer_loop candidates ((canonical, ids) # links) =
     (let canonicalName = js_trim canonical in
      if canonicalName = [] then linked_peer_loop candidates links
      else if \<exists>i\<in>set ids. (let normalized = normalizeLowercaseStringOrEmpty (Some i)
                          in normalized \<noteq> [] \<and> normalized \<in> set candidates)
        then Some canonicalName
      else linked_peer_loop candidates links)"

definition resolveLinkedPeerId :: "identity_links option \<Rightarrow> string \<Rightarrow> string \<Rightarrow> string option" where
  "resolveLinkedPeerId identityLinks channel peerId =
     (case identityLinks of
        None \<Rightarrow> None
      | Some links \<Rightarrow>
          (let peer = js_trim peerId in
           if peer = [] then None
           else
             let rawCandidate = normalizeLowercaseStringOrEmpty (Some peer);
                 candidates1 = (if rawCandidate \<noteq> [] then set_add [] rawCandidate else []);
                 ch = normalizeLowercaseStringOrEmpty (Some channel);
                 scoped = normalizeLowercaseStringOrEmpty (Some (ch @ '':'' @ peer));
                 candidates = (if ch \<noteq> [] \<and> scoped \<noteq> [] then set_add candidates1 scoped else candidates1)
             in if length candidates = 0 then None else linked_peer_loop candidates links))"

record peer_key_params =
  pk_agentId :: string
  pk_mainKey :: "string option"
  pk_channel :: string
  pk_accountId :: "string option"
  pk_peerKind :: "chat_type option"
  pk_peerId :: "string option"
  pk_identityLinks :: "identity_links option"
  pk_dmScope :: "dm_scope option"

text \<open>The peer a direct session is named after: the linked identity, or the peer, in lower case.\<close>

definition direct_peer :: "peer_key_params \<Rightarrow> string" where
  "direct_peer p =
     (let dmScope = nullish (pk_dmScope p) ScopeMain;
          peerId = js_trim (nullish (pk_peerId p) []);
          linkedPeerId = (if dmScope = ScopeMain then None
                          else resolveLinkedPeerId (pk_identityLinks p) (pk_channel p) peerId)
      in normalizeLowercaseStringOrEmpty (Some (or_str (nullish linkedPeerId []) peerId)))"

definition key_channel :: "string \<Rightarrow> string" where
  "key_channel channel = or_str (normalizeLowercaseStringOrEmpty (Some channel)) ''unknown''"

definition buildAgentPeerSessionKey :: "peer_key_params \<Rightarrow> string" where
  "buildAgentPeerSessionKey p =
     (let peerKind = nullish (pk_peerKind p) CtDirect;
          agentId = normalizeAgentId (Some (pk_agentId p));
          channel = key_channel (pk_channel p)
      in if peerKind = CtDirect then
           (let dmScope = nullish (pk_dmScope p) ScopeMain;
                peerId = direct_peer p
            in if dmScope = ScopePerAccountChannelPeer \<and> peerId \<noteq> [] then
                 agent_key agentId (channel @ '':'' @ normalizeAccountId (pk_accountId p) @ '':direct:'' @ peerId)
               else if dmScope = ScopePerChannelPeer \<and> peerId \<noteq> [] then
                 agent_key agentId (channel @ '':direct:'' @ peerId)
               else if dmScope = ScopePerPeer \<and> peerId \<noteq> [] then
                 agent_key agentId (''direct:'' @ peerId)
               else buildAgentMainSessionKey (pk_agentId p) (pk_mainKey p))
         else
           let peerId = or_str (normalizeLowercaseStringOrEmpty (pk_peerId p)) ''unknown''
           in agent_key agentId (channel @ '':'' @ chat_type_string peerKind @ '':'' @ peerId))"

definition buildGroupHistoryKey :: "string \<Rightarrow> string option \<Rightarrow> chat_type \<Rightarrow> string \<Rightarrow> string" where
  "buildGroupHistoryKey channel accountId peerKind peerId =
     key_channel channel @ '':'' @ normalizeAccountId accountId @ '':'' @ chat_type_string peerKind @ '':'' @
       or_str (normalizeLowercaseStringOrEmpty (Some peerId)) ''unknown''"

definition resolveThreadSessionKeys ::
  "string \<Rightarrow> string option \<Rightarrow> string option \<Rightarrow> bool option \<Rightarrow> (string \<Rightarrow> string) option \<Rightarrow> string \<times> string option" where
  "resolveThreadSessionKeys baseSessionKey threadId parentSessionKey useSuffix normalizeThreadId =
     (let thread = js_trim (nullish threadId []) in
      if thread = [] then (baseSessionKey, None)
      else
        let normalizedThread =
              nullish (map_option (\<lambda>f. f thread) normalizeThreadId) (normalizeLowercaseStringOrEmpty (Some thread));
            sessionKey = (if nullish useSuffix True then baseSessionKey @ '':thread:'' @ normalizedThread
                          else baseSessionKey)
        in (sessionKey, parentSessionKey))"

end
