(* ===== verification/Routing.thy ===== *)
theory Routing
  imports SessionKeys "HOL-Library.Char_ord" "HOL-Library.List_Lexorder"
begin

section \<open>Agent routing\<close>

text \<open>
  Models \<^verbatim>\<open>src/routing/resolve-route.ts\<close> with \<^verbatim>\<open>binding-scope.ts\<close>, \<^verbatim>\<open>peer-kind-match.ts\<close>,
  \<^verbatim>\<open>src/config/bindings.ts\<close> and \<open>resolveDefaultAgentId\<close> of
  \<^verbatim>\<open>src/agents/agent-scope-config.ts\<close>: which agent and which session an inbound message goes
  to. The bindings of the configuration are evaluated once per channel and account into an
  index, and resolved routes are cached by a key string. The caches of one configuration object
  are the record \<open>route_caches\<close>; they start empty for every configuration object and after its
  bindings, agents or session settings are replaced. \<open>verbose\<close> stands for \<open>shouldLogVerbose()\<close>,
  which turns the route cache off; the debug output itself is not modelled.
\<close>

subsection \<open>Configuration and requests\<close>

record route_agent =
  ag_id :: "string option"
  ag_default :: bool

text \<open>A peer of a binding: its kind and id, each possibly absent. An id may be a number.\<close>

record binding_peer =
  bp_kind :: "string option"
  bp_id :: "allow_entry option"

record binding_match =
  bm_channel :: "string option"
  bm_accountId :: "string option"
  bm_peer :: "binding_peer option"
  bm_guildId :: "allow_entry option"
  bm_teamId :: "allow_entry option"
  bm_roles :: "string list option"

record agent_binding =
  ab_type :: "string option"
  ab_agentId :: string
  ab_match :: "binding_match option"
  ab_dmScope :: "dm_scope option"

record route_config =
  cf_bindings :: "agent_binding list option"
  cf_agents :: "route_agent list option"
  cf_dmScope :: "dm_scope option"
  cf_identityLinks :: "identity_links option"

record route_peer =
  pr_kind :: chat_type
  pr_id :: string

record route_input =
  ri_channel :: string
  ri_accountId :: "string option"
  ri_peer :: "(chat_type \<times> allow_entry) option"
  ri_parentPeer :: "(chat_type \<times> allow_entry) option"
  ri_guildId :: "allow_entry option"
  ri_teamId :: "allow_entry option"
  ri_memberRoleIds :: "string list option"

datatype matched_by =
    MatchedPeer | MatchedPeerParent | MatchedPeerWildcard | MatchedGuildRoles | MatchedGuild
  | MatchedTeam | MatchedAccount | MatchedChannel | MatchedDefault

datatype last_route_policy = PolicyMain | PolicySession

record resolved_route =
  rr_agentId :: string
  rr_channel :: string
  rr_accountId :: string
  rr_sessionKey :: string
  rr_mainSessionKey :: string
  rr_lastRoutePolicy :: last_route_policy
  rr_matchedBy :: matched_by

subsection \<open>Bindings and agents of the configuration\<close>

definition isRouteBinding :: "agent_binding \<Rightarrow> bool" where
  "isRouteBinding b = (ab_type b \<noteq> Some ''acp'')"

definition listRouteBindings :: "route_config \<Rightarrow> agent_binding list" where
  "listRouteBindings cfg = filter isRouteBinding (nullish (cf_bindings cfg) [])"

definition listAgents :: "route_config \<Rightarrow> route_agent list" where
  "listAgents cfg = nullish (cf_agents cfg) []"

definition resolveDefaultAgentId :: "route_config \<Rightarrow> string" where
  "resolveDefaultAgentId cfg =
     (case listAgents cfg of
        [] \<Rightarrow> DEFAULT_AGENT_ID
      | first # _ \<Rightarrow>
          (let chosen = js_trim (nullish (ag_id (case filter ag_default (listAgents cfg) of
                 [] \<Rightarrow> first | d # _ \<Rightarrow> d)) [])
           in normalizeAgentId (Some (or_str chosen DEFAULT_AGENT_ID))))"

definition agent_lookup :: "route_config \<Rightarrow> (string, string) js_map" where
  "agent_lookup cfg =
     foldl (\<lambda>m a. let rawId = js_trim (nullish (ag_id a) []) in
              if rawId = [] then m
              else map_set m (normalizeAgentId (Some rawId)) (sanitizeAgentId (Some rawId)))
       [] (listAgents cfg)"

definition pickFirstExistingAgentId :: "route_config \<Rightarrow> string \<Rightarrow> string" where
  "pickFirstExistingAgentId cfg agentId =
     (let trimmed = js_trim agentId;
          fallbackDefaultAgentId = sanitizeAgentId (Some (resolveDefaultAgentId cfg));
          byNormalizedId = agent_lookup cfg
      in if trimmed = [] then fallbackDefaultAgentId
         else if length byNormalizedId = 0 then sanitizeAgentId (Some trimmed)
         else case map_get byNormalizedId (normalizeAgentId (Some trimmed)) of
           Some resolved \<Rightarrow> if resolved \<noteq> [] then resolved else fallbackDefaultAgentId
         | None \<Rightarrow> fallbackDefaultAgentId)"

subsection \<open>Matching a binding\<close>

definition normalizeRouteBindingId :: "allow_entry option \<Rightarrow> string" where
  "normalizeRouteBindingId value = (case value of None \<Rightarrow> [] | Some v \<Rightarrow> js_trim (entry_string v))"

definition normalizeRouteBindingRoles :: "string list option \<Rightarrow> string list option" where
  "normalizeRouteBindingRoles value =
     (case value of Some rs \<Rightarrow> if length rs > 0 then Some rs else None | None \<Rightarrow> None)"

definition peerKindMatches :: "chat_type \<Rightarrow> chat_type \<Rightarrow> bool" where
  "peerKindMatches bindingKind scopeKind =
     (bindingKind = scopeKind \<or> bindingKind = CtGroup \<and> scopeKind = CtChannel \<or>
      bindingKind = CtChannel \<and> scopeKind = CtGroup)"

datatype peer_constraint = PeerNone | PeerInvalid | PeerWildcard chat_type | PeerValid chat_type string

record normalized_match =
  nm_accountPattern :: string
  nm_peer :: peer_constraint
  nm_guildId :: "string option"
  nm_teamId :: "string option"
  nm_roles :: "string list option"

record evaluated_binding =
  eb_binding :: agent_binding
  eb_match :: normalized_match
  eb_order :: nat

record binding_scope =
  bs_peer :: "route_peer option"
  bs_guildId :: string
  bs_teamId :: string
  bs_memberRoleIds :: "string list"

definition normalizePeerConstraint :: "binding_peer option \<Rightarrow> peer_constraint" where
  "normalizePeerConstraint peer =
     (case peer of
        None \<Rightarrow> PeerNone
      | Some p \<Rightarrow>
          (let i = normalizeRouteBindingId (bp_id p) in
           case normalizeChatType (bp_kind p) of
             None \<Rightarrow> PeerInvalid
           | Some kind \<Rightarrow> if i = [] then PeerInvalid
                          else if i = ''*'' then PeerWildcard kind else PeerValid kind i))"

definition or_null :: "string \<Rightarrow> string option" where
  "or_null s = (if s = [] then None else Some s)"

definition normalizeBindingMatch :: "binding_match option \<Rightarrow> normalized_match" where
  "normalizeBindingMatch m =
     \<lparr>nm_accountPattern = js_trim (nullish (Option.bind m bm_accountId) []),
      nm_peer = normalizePeerConstraint (Option.bind m bm_peer),
      nm_guildId = or_null (normalizeRouteBindingId (Option.bind m bm_guildId)),
      nm_teamId = or_null (normalizeRouteBindingId (Option.bind m bm_teamId)),
      nm_roles = normalizeRouteBindingRoles (Option.bind m bm_roles)\<rparr>"

definition scopeIdMatches :: "string option \<Rightarrow> string \<Rightarrow> string \<Rightarrow> bool" where
  "scopeIdMatches constraint exact groupSpace =
     (case constraint of
        None \<Rightarrow> True
      | Some c \<Rightarrow> if c = [] then True else c = exact \<or> c = groupSpace)"

definition hasAnyRouteBindingRole :: "string list \<Rightarrow> string list \<Rightarrow> bool" where
  "hasAnyRouteBindingRole roles memberRoleIds = (\<exists>role\<in>set roles. role \<in> set memberRoleIds)"

text \<open>The scope has no group space, which normalises to the empty string.\<close>

definition routeBindingScopeMatches :: "normalized_match \<Rightarrow> binding_scope \<Rightarrow> bool" where
  "routeBindingScopeMatches constraint scope =
     (let guildId = normalizeRouteBindingId (Some (EStr (bs_guildId scope)));
          teamId = normalizeRouteBindingId (Some (EStr (bs_teamId scope)));
          groupSpace = normalizeRouteBindingId None
      in if \<not> scopeIdMatches (nm_guildId constraint) guildId groupSpace then False
         else if \<not> scopeIdMatches (nm_teamId constraint) teamId groupSpace then False
         else case normalizeRouteBindingRoles (nm_roles constraint) of
           None \<Rightarrow> True
         | Some roles \<Rightarrow> hasAnyRouteBindingRole roles (bs_memberRoleIds scope))"

definition matchesBindingScope :: "normalized_match \<Rightarrow> binding_scope \<Rightarrow> bool" where
  "matchesBindingScope m scope =
     (case nm_peer m of
        PeerInvalid \<Rightarrow> False
      | PeerValid kind i \<Rightarrow>
          (case bs_peer scope of
             None \<Rightarrow> False
           | Some p \<Rightarrow> if \<not> peerKindMatches kind (pr_kind p) \<or> pr_id p \<noteq> i then False
                       else routeBindingScopeMatches m scope)
      | PeerWildcard kind \<Rightarrow>
          (case bs_peer scope of
             None \<Rightarrow> False
           | Some p \<Rightarrow> if \<not> peerKindMatches kind (pr_kind p) then False
                       else routeBindingScopeMatches m scope)
      | PeerNone \<Rightarrow> routeBindingScopeMatches m scope)"

subsection \<open>Bindings by channel and account\<close>

record channel_bucket =
  cb_byAccount :: "(string, evaluated_binding list) js_map"
  cb_byAnyAccount :: "evaluated_binding list"

type_synonym channel_index = "(string, channel_bucket) js_map"

definition resolveAccountPatternKey :: "string \<Rightarrow> string" where
  "resolveAccountPatternKey accountPattern =
     (if js_trim accountPattern = [] then DEFAULT_ACCOUNT_ID else normalizeAccountId (Some accountPattern))"

definition push_to_map :: "(string, 'v list) js_map \<Rightarrow> string \<Rightarrow> 'v \<Rightarrow> (string, 'v list) js_map" where
  "push_to_map m key v =
     (case map_get m key of Some existing \<Rightarrow> map_set m key (existing @ [v]) | None \<Rightarrow> map_set m key [v])"

definition add_to_bucket :: "channel_index \<Rightarrow> string \<Rightarrow> evaluated_binding \<Rightarrow> channel_index" where
  "add_to_bucket byChannel channel evaluated =
     (let bucket = nullish (map_get byChannel channel) \<lparr>cb_byAccount = [], cb_byAnyAccount = []\<rparr>
      in map_set byChannel channel
           (if nm_accountPattern (eb_match evaluated) = ''*''
            then bucket\<lparr>cb_byAnyAccount := cb_byAnyAccount bucket @ [evaluated]\<rparr>
            else bucket\<lparr>cb_byAccount := push_to_map (cb_byAccount bucket)
                   (resolveAccountPatternKey (nm_accountPattern (eb_match evaluated))) evaluated\<rparr>))"

fun evaluated_by_channel_loop :: "nat \<Rightarrow> agent_binding list \<Rightarrow> channel_index \<Rightarrow> channel_index" where
  "evaluated_by_channel_loop order [] byChannel = byChannel"
| "evaluated_by_channel_loop order (b # bs) byChannel =
     (let channel = normalizeLowercaseStringOrEmpty (Option.bind (ab_match b) bm_channel) in
      if channel = [] then evaluated_by_channel_loop order bs byChannel
      else evaluated_by_channel_loop (order + 1) bs
             (add_to_bucket byChannel channel
                \<lparr>eb_binding = b, eb_match = normalizeBindingMatch (ab_match b), eb_order = order\<rparr>))"

definition buildEvaluatedBindingsByChannel :: "route_config \<Rightarrow> channel_index" where
  "buildEvaluatedBindingsByChannel cfg = evaluated_by_channel_loop 0 (listRouteBindings cfg) []"

fun mergeEvaluatedBindingsInSourceOrder ::
  "evaluated_binding list \<Rightarrow> evaluated_binding list \<Rightarrow> evaluated_binding list" where
  "mergeEvaluatedBindingsInSourceOrder [] anyAccount = anyAccount"
| "mergeEvaluatedBindingsInSourceOrder (a # as) [] = a # as"
| "mergeEvaluatedBindingsInSourceOrder (a # as) (b # bs) =
     (if eb_order a \<le> eb_order b then a # mergeEvaluatedBindingsInSourceOrder as (b # bs)
      else b # mergeEvaluatedBindingsInSourceOrder (a # as) bs)"

definition evaluated_for :: "channel_index \<Rightarrow> string \<Rightarrow> string \<Rightarrow> evaluated_binding list" where
  "evaluated_for byChannel channel accountId =
     (let channelBindings = map_get byChannel channel;
          accountScoped = nullish (Option.bind channelBindings (\<lambda>b. map_get (cb_byAccount b) accountId)) [];
          anyAccount = nullish (map_option cb_byAnyAccount channelBindings) []
      in mergeEvaluatedBindingsInSourceOrder accountScoped anyAccount)"

subsection \<open>The index\<close>

record bindings_index =
  ix_byPeer :: "(string, evaluated_binding list) js_map"
  ix_byPeerWildcard :: "evaluated_binding list"
  ix_byGuildWithRoles :: "(string, evaluated_binding list) js_map"
  ix_byGuild :: "(string, evaluated_binding list) js_map"
  ix_byTeam :: "(string, evaluated_binding list) js_map"
  ix_byAccount :: "evaluated_binding list"
  ix_byChannel :: "evaluated_binding list"

definition empty_index :: bindings_index where
  "empty_index = \<lparr>ix_byPeer = [], ix_byPeerWildcard = [], ix_byGuildWithRoles = [], ix_byGuild = [],
     ix_byTeam = [], ix_byAccount = [], ix_byChannel = []\<rparr>"

definition pushToIndexMap ::
  "(string, evaluated_binding list) js_map \<Rightarrow> string option \<Rightarrow> evaluated_binding \<Rightarrow>
   (string, evaluated_binding list) js_map" where
  "pushToIndexMap m key b =
     (case key of None \<Rightarrow> m | Some k \<Rightarrow> if k = [] then m else push_to_map m k b)"

definition peer_key :: "chat_type \<Rightarrow> string \<Rightarrow> string" where
  "peer_key kind i = chat_type_string kind @ '':'' @ i"

fun peerLookupKeys :: "chat_type \<Rightarrow> string \<Rightarrow> string list" where
  "peerLookupKeys CtGroup i = [peer_key CtGroup i, peer_key CtChannel i]"
| "peerLookupKeys CtChannel i = [peer_key CtChannel i, peer_key CtGroup i]"
| "peerLookupKeys CtDirect i = [peer_key CtDirect i]"

text \<open>The evaluated bindings are distinct objects, told apart by their order.\<close>

fun collect_peer_loop ::
  "bindings_index \<Rightarrow> string list \<Rightarrow> evaluated_binding list \<Rightarrow> evaluated_binding list" where
  "collect_peer_loop index [] out = out"
| "collect_peer_loop index (key # keys) out =
     (case map_get (ix_byPeer index) key of
        None \<Rightarrow> collect_peer_loop index keys out
      | Some matches \<Rightarrow> collect_peer_loop index keys (foldl set_add out matches))"

definition collectPeerIndexedBindings :: "bindings_index \<Rightarrow> route_peer option \<Rightarrow> evaluated_binding list" where
  "collectPeerIndexedBindings index peer =
     (case peer of None \<Rightarrow> [] | Some p \<Rightarrow> collect_peer_loop index (peerLookupKeys (pr_kind p) (pr_id p)) [])"

definition index_add :: "bindings_index \<Rightarrow> evaluated_binding \<Rightarrow> bindings_index" where
  "index_add index b =
     (case nm_peer (eb_match b) of
        PeerValid kind i \<Rightarrow>
          index\<lparr>ix_byPeer := foldl (\<lambda>m key. pushToIndexMap m (Some key) b) (ix_byPeer index) (peerLookupKeys kind i)\<rparr>
      | PeerWildcard kind \<Rightarrow> index\<lparr>ix_byPeerWildcard := ix_byPeerWildcard index @ [b]\<rparr>
      | _ \<Rightarrow>
          if nm_guildId (eb_match b) \<noteq> None \<and> nm_roles (eb_match b) \<noteq> None then
            index\<lparr>ix_byGuildWithRoles := pushToIndexMap (ix_byGuildWithRoles index) (nm_guildId (eb_match b)) b\<rparr>
          else if nm_guildId (eb_match b) \<noteq> None \<and> nm_roles (eb_match b) = None then
            index\<lparr>ix_byGuild := pushToIndexMap (ix_byGuild index) (nm_guildId (eb_match b)) b\<rparr>
          else if nm_teamId (eb_match b) \<noteq> None then
            index\<lparr>ix_byTeam := pushToIndexMap (ix_byTeam index) (nm_teamId (eb_match b)) b\<rparr>
          else if nm_accountPattern (eb_match b) \<noteq> ''*'' then
            index\<lparr>ix_byAccount := ix_byAccount index @ [b]\<rparr>
          else index\<lparr>ix_byChannel := ix_byChannel index @ [b]\<rparr>)"

definition buildEvaluatedBindingsIndex :: "evaluated_binding list \<Rightarrow> bindings_index" where
  "buildEvaluatedBindingsIndex bs = foldl index_add empty_index bs"

end
