(* ===== verification/RouteResolve.thy ===== *)
theory RouteResolve
  imports Routing
begin

section \<open>Resolving a route\<close>

text \<open>
  The second half of \<^verbatim>\<open>src/routing/resolve-route.ts\<close>: the tiers a request is matched against,
  the choice of the session, and the caches of a configuration object.
\<close>

subsection \<open>The request, normalised\<close>

record route_request =
  rq_channel :: string
  rq_accountId :: string
  rq_peer :: "route_peer option"
  rq_parentPeer :: "route_peer option"
  rq_guildId :: string
  rq_teamId :: string
  rq_memberRoleIds :: "string list"

definition normalize_peer :: "chat_type \<times> allow_entry \<Rightarrow> route_peer" where
  "normalize_peer p =
     \<lparr>pr_kind = nullish (normalizeChatType (Some (chat_type_string (fst p)))) (fst p),
      pr_id = normalizeRouteBindingId (Some (snd p))\<rparr>"

definition normalize_request :: "route_input \<Rightarrow> route_request" where
  "normalize_request input =
     \<lparr>rq_channel = normalizeLowercaseStringOrEmpty (Some (ri_channel input)),
      rq_accountId = normalizeAccountId (ri_accountId input),
      rq_peer = map_option normalize_peer (ri_peer input),
      rq_parentPeer = map_option normalize_peer (ri_parentPeer input),
      rq_guildId = normalizeRouteBindingId (ri_guildId input),
      rq_teamId = normalizeRouteBindingId (ri_teamId input),
      rq_memberRoleIds = nullish (ri_memberRoleIds input) []\<rparr>"

subsection \<open>Tiers\<close>

record route_tier =
  rt_matchedBy :: matched_by
  rt_enabled :: bool
  rt_scopePeer :: "route_peer option"
  rt_candidates :: "evaluated_binding list"
  rt_predicate :: "evaluated_binding \<Rightarrow> bool"

definition is_valid_peer :: "evaluated_binding \<Rightarrow> bool" where
  "is_valid_peer c = (case nm_peer (eb_match c) of PeerValid _ _ \<Rightarrow> True | _ \<Rightarrow> False)"

definition is_wildcard_peer :: "evaluated_binding \<Rightarrow> bool" where
  "is_wildcard_peer c = (case nm_peer (eb_match c) of PeerWildcard _ \<Rightarrow> True | _ \<Rightarrow> False)"

definition hasGuildConstraint :: "evaluated_binding \<Rightarrow> bool" where
  "hasGuildConstraint c = (nm_guildId (eb_match c) \<noteq> None)"

definition hasTeamConstraint :: "evaluated_binding \<Rightarrow> bool" where
  "hasTeamConstraint c = (nm_teamId (eb_match c) \<noteq> None)"

definition hasRolesConstraint :: "evaluated_binding \<Rightarrow> bool" where
  "hasRolesConstraint c = (nm_roles (eb_match c) \<noteq> None)"

definition parent_with_id :: "route_request \<Rightarrow> route_peer option" where
  "parent_with_id rq =
     (case rq_parentPeer rq of Some p \<Rightarrow> if pr_id p \<noteq> [] then Some p else None | None \<Rightarrow> None)"

definition index_lookup :: "(string, evaluated_binding list) js_map \<Rightarrow> string \<Rightarrow> evaluated_binding list" where
  "index_lookup m key = (if key \<noteq> [] then nullish (map_get m key) [] else [])"

text \<open>The array of tiers of the code: the peer tiers, then those by scope.\<close>

definition scope_tiers :: "bindings_index \<Rightarrow> route_request \<Rightarrow> route_tier list" where
  "scope_tiers index rq =
     [\<lparr>rt_matchedBy = MatchedGuildRoles,
       rt_enabled = (rq_guildId rq \<noteq> [] \<and> length (rq_memberRoleIds rq) > 0), rt_scopePeer = rq_peer rq,
       rt_candidates = index_lookup (ix_byGuildWithRoles index) (rq_guildId rq),
       rt_predicate = (\<lambda>c. hasGuildConstraint c \<and> hasRolesConstraint c)\<rparr>,
      \<lparr>rt_matchedBy = MatchedGuild, rt_enabled = (rq_guildId rq \<noteq> []), rt_scopePeer = rq_peer rq,
       rt_candidates = index_lookup (ix_byGuild index) (rq_guildId rq),
       rt_predicate = (\<lambda>c. hasGuildConstraint c \<and> \<not> hasRolesConstraint c)\<rparr>,
      \<lparr>rt_matchedBy = MatchedTeam, rt_enabled = (rq_teamId rq \<noteq> []), rt_scopePeer = rq_peer rq,
       rt_candidates = index_lookup (ix_byTeam index) (rq_teamId rq), rt_predicate = hasTeamConstraint\<rparr>,
      \<lparr>rt_matchedBy = MatchedAccount, rt_enabled = True, rt_scopePeer = rq_peer rq,
       rt_candidates = ix_byAccount index,
       rt_predicate = (\<lambda>c. nm_accountPattern (eb_match c) \<noteq> ''*'')\<rparr>,
      \<lparr>rt_matchedBy = MatchedChannel, rt_enabled = True, rt_scopePeer = rq_peer rq,
       rt_candidates = ix_byChannel index,
       rt_predicate = (\<lambda>c. nm_accountPattern (eb_match c) = ''*'')\<rparr>]"

definition route_tiers :: "bindings_index \<Rightarrow> route_request \<Rightarrow> route_tier list" where
  "route_tiers index rq =
     \<lparr>rt_matchedBy = MatchedPeer, rt_enabled = (rq_peer rq \<noteq> None), rt_scopePeer = rq_peer rq,
       rt_candidates = collectPeerIndexedBindings index (rq_peer rq), rt_predicate = is_valid_peer\<rparr> #
     \<lparr>rt_matchedBy = MatchedPeerParent, rt_enabled = (parent_with_id rq \<noteq> None),
       rt_scopePeer = parent_with_id rq,
       rt_candidates = collectPeerIndexedBindings index (rq_parentPeer rq), rt_predicate = is_valid_peer\<rparr> #
     \<lparr>rt_matchedBy = MatchedPeerWildcard, rt_enabled = (rq_peer rq \<noteq> None), rt_scopePeer = rq_peer rq,
       rt_candidates = ix_byPeerWildcard index, rt_predicate = is_wildcard_peer\<rparr> #
     scope_tiers index rq"

definition tier_scope :: "route_request \<Rightarrow> route_peer option \<Rightarrow> binding_scope" where
  "tier_scope rq peer =
     \<lparr>bs_peer = peer, bs_guildId = rq_guildId rq, bs_teamId = rq_teamId rq,
      bs_memberRoleIds = rq_memberRoleIds rq\<rparr>"

fun find_tier :: "route_request \<Rightarrow> route_tier list \<Rightarrow> (evaluated_binding \<times> matched_by) option" where
  "find_tier rq [] = None"
| "find_tier rq (t # ts) =
     (if \<not> rt_enabled t then find_tier rq ts
      else case find (\<lambda>c. rt_predicate t c \<and> matchesBindingScope (eb_match c) (tier_scope rq (rt_scopePeer t)))
                  (rt_candidates t) of
        Some matched \<Rightarrow> Some (matched, rt_matchedBy t)
      | None \<Rightarrow> find_tier rq ts)"

subsection \<open>The session of the chosen agent\<close>

definition buildAgentSessionKey ::
  "string \<Rightarrow> string \<Rightarrow> string option \<Rightarrow> route_peer option \<Rightarrow> dm_scope option \<Rightarrow> identity_links option \<Rightarrow> string" where
  "buildAgentSessionKey agentId channel accountId peer dmScope identityLinks =
     buildAgentPeerSessionKey
       \<lparr>pk_agentId = agentId, pk_mainKey = Some DEFAULT_MAIN_KEY, pk_channel = key_channel channel,
        pk_accountId = accountId,
        pk_peerKind = Some (nullish (map_option pr_kind peer) CtDirect),
        pk_peerId = map_option (\<lambda>p. or_str (normalizeRouteBindingId (Some (EStr (pr_id p)))) ''unknown'') peer,
        pk_identityLinks = identityLinks, pk_dmScope = dmScope\<rparr>"

definition deriveLastRoutePolicy :: "string \<Rightarrow> string \<Rightarrow> last_route_policy" where
  "deriveLastRoutePolicy sessionKey mainSessionKey =
     (if sessionKey = mainSessionKey then PolicyMain else PolicySession)"

definition resolveInboundLastRouteSessionKey :: "resolved_route \<Rightarrow> string \<Rightarrow> string" where
  "resolveInboundLastRouteSessionKey route sessionKey =
     (if rr_lastRoutePolicy route = PolicyMain then rr_mainSessionKey route else sessionKey)"

definition choose_route ::
  "route_config \<Rightarrow> route_request \<Rightarrow> string \<Rightarrow> matched_by \<Rightarrow> dm_scope option \<Rightarrow> resolved_route" where
  "choose_route cfg rq agentId matchedBy sessionOverride =
     (let resolvedAgentId = pickFirstExistingAgentId cfg agentId;
          effectiveDmScope = nullish sessionOverride (nullish (cf_dmScope cfg) ScopeMain);
          sessionKey = normalizeLowercaseStringOrEmpty (Some
            (buildAgentSessionKey resolvedAgentId (rq_channel rq) (Some (rq_accountId rq)) (rq_peer rq)
               (Some effectiveDmScope) (cf_identityLinks cfg)));
          mainSessionKey = normalizeLowercaseStringOrEmpty (Some
            (buildAgentMainSessionKey resolvedAgentId (Some DEFAULT_MAIN_KEY)))
      in \<lparr>rr_agentId = resolvedAgentId, rr_channel = rq_channel rq, rr_accountId = rq_accountId rq,
          rr_sessionKey = sessionKey, rr_mainSessionKey = mainSessionKey,
          rr_lastRoutePolicy = deriveLastRoutePolicy sessionKey mainSessionKey, rr_matchedBy = matchedBy\<rparr>)"

definition route_by_index :: "route_config \<Rightarrow> bindings_index \<Rightarrow> route_request \<Rightarrow> resolved_route" where
  "route_by_index cfg index rq =
     (case find_tier rq (route_tiers index rq) of
        Some (matched, matchedBy) \<Rightarrow>
          choose_route cfg rq (ab_agentId (eb_binding matched)) matchedBy (ab_dmScope (eb_binding matched))
      | None \<Rightarrow> choose_route cfg rq (resolveDefaultAgentId cfg) MatchedDefault None)"

subsection \<open>Caches\<close>

definition MAX_EVALUATED_BINDINGS_CACHE_KEYS :: nat where
  "MAX_EVALUATED_BINDINGS_CACHE_KEYS = 2000"

definition MAX_RESOLVED_ROUTE_CACHE_KEYS :: nat where
  "MAX_RESOLVED_ROUTE_CACHE_KEYS = 4000"

record route_caches =
  rc_byChannelAccount :: "(string, evaluated_binding list) js_map"
  rc_byChannelAccountIndex :: "(string, bindings_index) js_map"
  rc_routes :: "(string, resolved_route) js_map"

definition empty_caches :: route_caches where
  "empty_caches = \<lparr>rc_byChannelAccount = [], rc_byChannelAccountIndex = [], rc_routes = []\<rparr>"

definition tab :: char where
  "tab = CHR 0x09"

definition channel_account_key :: "string \<Rightarrow> string \<Rightarrow> string" where
  "channel_account_key channel accountId = channel @ tab # accountId"

definition getEvaluatedBindingsForChannelAccount ::
  "route_config \<Rightarrow> string \<Rightarrow> string \<Rightarrow> route_caches \<Rightarrow> evaluated_binding list \<times> route_caches" where
  "getEvaluatedBindingsForChannelAccount cfg channel accountId st =
     (let cacheKey = channel_account_key channel accountId in
      case map_get (rc_byChannelAccount st) cacheKey of
        Some hit \<Rightarrow> (hit, st)
      | None \<Rightarrow>
          (let evaluated = evaluated_for (buildEvaluatedBindingsByChannel cfg) channel accountId;
               index = buildEvaluatedBindingsIndex evaluated;
               byChannelAccount = map_set (rc_byChannelAccount st) cacheKey evaluated;
               byIndex = map_set (rc_byChannelAccountIndex st) cacheKey index
           in if length byChannelAccount > MAX_EVALUATED_BINDINGS_CACHE_KEYS
              then (evaluated, st\<lparr>rc_byChannelAccount := map_set [] cacheKey evaluated,
                                 rc_byChannelAccountIndex := map_set [] cacheKey index\<rparr>)
              else (evaluated, st\<lparr>rc_byChannelAccount := byChannelAccount,
                                 rc_byChannelAccountIndex := byIndex\<rparr>)))"

definition getEvaluatedBindingIndexForChannelAccount ::
  "route_config \<Rightarrow> string \<Rightarrow> string \<Rightarrow> route_caches \<Rightarrow> bindings_index \<times> route_caches" where
  "getEvaluatedBindingIndexForChannelAccount cfg channel accountId st =
     (let (bindings, st1) = getEvaluatedBindingsForChannelAccount cfg channel accountId st;
          cacheKey = channel_account_key channel accountId
      in case map_get (rc_byChannelAccountIndex st1) cacheKey of
           Some indexed \<Rightarrow> (indexed, st1)
         | None \<Rightarrow>
             (let built = buildEvaluatedBindingsIndex bindings
              in (built, st1\<lparr>rc_byChannelAccountIndex := map_set (rc_byChannelAccountIndex st1) cacheKey built\<rparr>)))"

definition formatRouteCachePeer :: "route_peer option \<Rightarrow> string" where
  "formatRouteCachePeer peer =
     (case peer of
        None \<Rightarrow> ''-''
      | Some p \<Rightarrow> if pr_id p = [] then ''-'' else peer_key (pr_kind p) (pr_id p))"

definition formatRoleIdsCacheKey :: "string list \<Rightarrow> string" where
  "formatRoleIdsCacheKey roleIds =
     (case roleIds of
        [] \<Rightarrow> ''-''
      | [r] \<Rightarrow> r
      | [first, second] \<Rightarrow>
          if first \<le> second then first @ '','' @ second else second @ '','' @ first
      | _ \<Rightarrow> join_with '','' (sort roleIds))"

definition dm_scope_string :: "dm_scope \<Rightarrow> string" where
  "dm_scope_string s = (case s of
     ScopeMain \<Rightarrow> ''main'' | ScopePerPeer \<Rightarrow> ''per-peer'' | ScopePerChannelPeer \<Rightarrow> ''per-channel-peer''
   | ScopePerAccountChannelPeer \<Rightarrow> ''per-account-channel-peer'')"

definition buildResolvedRouteCacheKey :: "route_request \<Rightarrow> dm_scope \<Rightarrow> string" where
  "buildResolvedRouteCacheKey rq dmScope =
     rq_channel rq @ tab # rq_accountId rq @ tab # formatRouteCachePeer (rq_peer rq) @
     tab # formatRouteCachePeer (rq_parentPeer rq) @ tab # or_str (rq_guildId rq) ''-'' @
     tab # or_str (rq_teamId rq) ''-'' @ tab # formatRoleIdsCacheKey (rq_memberRoleIds rq) @
     tab # dm_scope_string dmScope"

definition store_route :: "string \<Rightarrow> resolved_route \<Rightarrow> route_caches \<Rightarrow> route_caches" where
  "store_route key route st =
     (let routes = map_set (rc_routes st) key route
      in if length routes > MAX_RESOLVED_ROUTE_CACHE_KEYS then st\<lparr>rc_routes := map_set [] key route\<rparr>
         else st\<lparr>rc_routes := routes\<rparr>)"

definition resolveAgentRoute ::
  "bool \<Rightarrow> route_config \<Rightarrow> route_input \<Rightarrow> route_caches \<Rightarrow> resolved_route \<times> route_caches" where
  "resolveAgentRoute verbose cfg input st =
     (let rq = normalize_request input;
          dmScope = nullish (cf_dmScope cfg) ScopeMain;
          useCache = (\<not> verbose \<and> cf_identityLinks cfg = None);
          routeCacheKey = (if useCache then buildResolvedRouteCacheKey rq dmScope else [])
      in case (if useCache \<and> routeCacheKey \<noteq> [] then map_get (rc_routes st) routeCacheKey else None) of
           Some cachedRoute \<Rightarrow> (cachedRoute, st)
         | None \<Rightarrow>
             (let (bindings, st1) = getEvaluatedBindingsForChannelAccount cfg (rq_channel rq) (rq_accountId rq) st;
                  (index, st2) = getEvaluatedBindingIndexForChannelAccount cfg (rq_channel rq) (rq_accountId rq) st1;
                  route = route_by_index cfg index rq
              in (route, if useCache \<and> routeCacheKey \<noteq> [] then store_route routeCacheKey route st2 else st2)))"

end
