(* ===== verification/SessionKeyProps.thy ===== *)
theory SessionKeyProps
  imports SessionKeys
begin

section \<open>Facts about session keys\<close>

text \<open>
  What the building functions of the session keys guarantee: every key has the form
  \<open>agent:<id>:<rest>\<close> with a canonical id and a tidy rest, the parser reads it back, and direct
  sessions of different people get different keys.
\<close>

subsection \<open>Tidy strings: trimmed and in lower case\<close>

definition tidy :: "string \<Rightarrow> bool" where
  "tidy s = (js_trim s = s \<and> js_lower s = s)"

lemma js_trim_last: "js_trim s \<noteq> [] \<Longrightarrow> \<not> js_is_space (last (js_trim s))"
  using hd_dropWhile [of js_is_space "rev (js_trim_start s)"]
  by (simp add: js_trim_def js_trim_end_def last_rev)

lemma js_trim_id:
  assumes "s \<noteq> []" and "\<not> js_is_space (hd s)" and "\<not> js_is_space (last s)"
  shows "js_trim s = s"
proof -
  have start: "js_trim_start s = s" using assms(1,2) by (cases s) (auto simp: js_trim_start_def)
  have "rev s \<noteq> []" "\<not> js_is_space (hd (rev s))" using assms(1,3) by (auto simp: hd_rev)
  then have "dropWhile js_is_space (rev s) = rev s" by (cases "rev s") auto
  then show ?thesis by (simp add: js_trim_def js_trim_end_def start)
qed

lemma tidy_lower [simp]: "tidy (js_lower (js_trim s))"
  by (simp add: tidy_def js_trim_lower)

lemma tidy_normalizeLowercase [simp]: "tidy (normalizeLowercaseStringOrEmpty v)"
  by (cases v) (simp_all, simp add: tidy_def)

lemma id_form_tidy: "id_form s \<Longrightarrow> tidy s"
  by (simp add: tidy_def id_form_def id_string_lower id_string_trim)

lemma tidy_last: "tidy s \<Longrightarrow> s \<noteq> [] \<Longrightarrow> \<not> js_is_space (last s)"
  using js_trim_last [of s] by (simp add: tidy_def)

text \<open>Prefixing a tidy string with lower-case text that begins with no space keeps it tidy.\<close>

lemma tidy_append:
  assumes "tidy b" and "b \<noteq> []" and "js_lower a = a" and "a \<noteq> []" and "\<not> js_is_space (hd a)"
  shows "tidy (a @ b)"
proof -
  have "js_trim (a @ b) = a @ b" using tidy_last [OF assms(1,2)] assms(2,4,5)
    by (intro js_trim_id) simp_all
  then show ?thesis using assms(1,3) by (simp add: tidy_def js_lower_append)
qed

lemma tidy_hd: "tidy s \<Longrightarrow> s \<noteq> [] \<Longrightarrow> \<not> js_is_space (hd s)"
proof -
  assume t: "tidy s" and ne: "s \<noteq> []"
  have eq: "s = js_trim_end (js_trim_start s)" using t by (simp add: tidy_def js_trim_def)
  have ne': "js_trim_start s \<noteq> []" using eq ne by (metis js_trim_Nil js_trim_def js_trim_end_def rev.simps(1) dropWhile.simps(1))
  have "js_trim_start s = js_trim_end (js_trim_start s) @ rev (takeWhile js_is_space (rev (js_trim_start s)))"
    unfolding js_trim_end_def by (metis rev_append rev_rev_ident takeWhile_dropWhile_id)
  then have "hd (js_trim_start s) = hd s" using eq ne by (metis hd_append2)
  then show ?thesis using js_trim_start_no_space [of s] ne' by metis
qed

lemma tidy_optional: "tidy s \<Longrightarrow> s \<noteq> [] \<Longrightarrow> normalizeOptionalLowercaseString (Some s) = Some s"
  by (simp add: tidy_def normalizeOptionalLowercaseString_def normalizeOptionalString_Some)

lemma tidy_or_str [simp]: "tidy a \<Longrightarrow> tidy b \<Longrightarrow> tidy (or_str a b)"
  by (simp add: or_str_def)

lemma tidy_unknown [simp]: "tidy ''unknown''" "tidy ''main''"
  by (simp_all add: id_form_tidy id_form_def id_char_def alnum_char_def)

subsection \<open>The form of the keys\<close>

lemma id_form_no_colon: "id_form s \<Longrightarrow> CHR '':'' \<notin> set s"
  by (auto simp: id_form_def list_all_iff id_char_def alnum_char_def)

lemma key_channel_tidy: "tidy (key_channel c) \<and> key_channel c \<noteq> []"
  by (auto simp: key_channel_def or_str_def)

lemma normalizeMainKey_tidy: "tidy (normalizeMainKey k) \<and> normalizeMainKey k \<noteq> []"
  by (simp add: normalizeMainKey_def DEFAULT_MAIN_KEY_def) (simp add: or_str_def)

lemma direct_peer_tidy: "tidy (direct_peer p)"
  by (simp only: direct_peer_def Let_def tidy_normalizeLowercase)

text \<open>What follows the agent in a key.\<close>

definition session_rest :: "peer_key_params \<Rightarrow> string" where
  "session_rest p =
     (let channel = key_channel (pk_channel p); peer = direct_peer p in
      case nullish (pk_peerKind p) CtDirect of
        CtDirect \<Rightarrow>
          (if peer = [] then normalizeMainKey (pk_mainKey p)
           else case nullish (pk_dmScope p) ScopeMain of
             ScopeMain \<Rightarrow> normalizeMainKey (pk_mainKey p)
           | ScopePerPeer \<Rightarrow> ''direct:'' @ peer
           | ScopePerChannelPeer \<Rightarrow> channel @ '':direct:'' @ peer
           | ScopePerAccountChannelPeer \<Rightarrow>
               channel @ '':'' @ normalizeAccountId (pk_accountId p) @ '':direct:'' @ peer)
      | kind \<Rightarrow> channel @ '':'' @ chat_type_string kind @ '':'' @
          or_str (normalizeLowercaseStringOrEmpty (pk_peerId p)) ''unknown'')"

lemma build_session_rest:
  "buildAgentPeerSessionKey p = agent_key (normalizeAgentId (Some (pk_agentId p))) (session_rest p)"
  by (auto simp: buildAgentPeerSessionKey_def session_rest_def buildAgentMainSessionKey_def Let_def
      split: chat_type.split dm_scope.split)

lemma lower_direct [simp]: "js_lower ''direct:'' = ''direct:''" "js_lower '':direct:'' = '':direct:''"
  "js_lower '':'' = '':''" "js_lower (chat_type_string k) = chat_type_string k"
  by (simp_all add: js_lower_def js_lower_char_def js_is_upper_def, cases k)
    (simp_all add: js_lower_char_def js_is_upper_def)

lemma tidy_after_channel:
  assumes "tidy b" and "b \<noteq> []" and "js_lower m = m"
  shows "tidy (key_channel c @ m @ b)"
  using tidy_append [of b "key_channel c @ m"] assms key_channel_tidy [of c]
    tidy_hd [of "key_channel c"]
  by (simp add: js_lower_append tidy_def [of "key_channel c"])

lemma js_lower_tidyD: "tidy s \<Longrightarrow> js_lower s = s"
  by (simp add: tidy_def)

lemma session_rest_tidy: "tidy (session_rest p) \<and> session_rest p \<noteq> []"
proof -
  let ?peer = "direct_peer p" and ?c = "key_channel (pk_channel p)"
  have grp: "tidy (?c @ ('':'' @ chat_type_string k @ '':'') @ or_str (normalizeLowercaseStringOrEmpty (pk_peerId p)) ''unknown'')" for k
  proof (rule tidy_after_channel)
    show "js_lower ('':'' @ chat_type_string k @ '':'') = '':'' @ chat_type_string k @ '':''"
      by (simp only: js_lower_append lower_direct)
  qed (simp, simp add: or_str_def)
  have acc: "js_lower (normalizeAccountId (pk_accountId p)) = normalizeAccountId (pk_accountId p)"
    by (intro js_lower_tidyD id_form_tidy normalizeAccountId_form)
  have pp: "?peer \<noteq> [] \<Longrightarrow> tidy (''direct:'' @ ?peer)"
    by (rule tidy_append [OF direct_peer_tidy]) (simp_all add: js_is_space_def)
  have pcp: "?peer \<noteq> [] \<Longrightarrow> tidy (?c @ '':direct:'' @ ?peer)"
    by (rule tidy_after_channel [OF direct_peer_tidy]) simp_all
  have pacp: "?peer \<noteq> [] \<Longrightarrow>
      tidy (?c @ ('':'' @ normalizeAccountId (pk_accountId p) @ '':direct:'') @ ?peer)"
    by (rule tidy_after_channel [OF direct_peer_tidy]) (simp_all only: js_lower_append acc lower_direct simp_thms)
  show ?thesis
    using normalizeMainKey_tidy [of "pk_mainKey p"] key_channel_tidy [of "pk_channel p"]
      grp [of CtGroup] grp [of CtChannel] pp pcp pacp
    by (auto simp: session_rest_def Let_def split: chat_type.split dm_scope.split)
qed

subsection \<open>Parsing what was built\<close>

lemma agent_key_tidy: "id_form a \<Longrightarrow> tidy r \<Longrightarrow> r \<noteq> [] \<Longrightarrow> tidy (agent_key a r)"
proof -
  assume a: "id_form a" and r: "tidy r" "r \<noteq> []"
  have "js_lower (''agent:'' @ a @ '':'') = ''agent:'' @ a @ '':''"
    using js_lower_tidyD [OF id_form_tidy [OF a]]
    by (simp add: js_lower_append) (simp add: js_lower_def js_lower_char_def js_is_upper_def)
  then have "tidy ((''agent:'' @ a @ '':'') @ r)"
    by (intro tidy_append r) (simp_all add: js_is_space_def)
  then show ?thesis by (simp add: agent_key_def)
qed

lemma agent_key_segments:
  "id_form a \<Longrightarrow> segments (CHR '':'') (agent_key a r) = ''agent'' # a # segments (CHR '':'') r"
  using segments_cut [of "CHR '':''" "''agent''" "a @ CHR '':'' # r"] segments_cut [of "CHR '':''" a r]
    segments_single [of "CHR '':''" "''agent''"] segments_single [of "CHR '':''" a] id_form_no_colon [of a]
  by (simp add: agent_key_def id_form_def)

lemma parse_agent_key:
  assumes "id_form a" and "tidy r" and "segments (CHR '':'') r \<noteq> []"
  shows "parseAgentSessionKey (Some (agent_key a r)) =
    Some \<lparr>pa_agentId = a, pa_rest = join_with '':'' (segments (CHR '':'') r)\<rparr>"
proof -
  have ne: "r \<noteq> []" using assms(3) by (auto simp: segments_def)
  have raw: "normalizeOptionalLowercaseString (Some (agent_key a r)) = Some (agent_key a r)"
    using agent_key_tidy [OF assms(1,2) ne] by (intro tidy_optional) (simp_all add: agent_key_def)
  have "join_with '':'' (segments (CHR '':'') r) \<noteq> []"
    using join_with_Nil [of "segments (CHR '':'') r"] segments_nonempty assms(3) by blast
  moreover have "normalizeOptionalString (Some a) = Some a"
    using assms(1) by (simp add: normalizeOptionalString_Some id_form_def id_string_trim)
  moreover obtain x xs where "segments (CHR '':'') r = x # xs" using assms(3) by (cases "segments (CHR '':'') r") auto
  ultimately show ?thesis
    by (simp add: parseAgentSessionKey_def raw agent_key_segments [OF assms(1)] Let_def)
qed

lemma join_segments:
  assumes "[] \<notin> set (split_on c s)"
  shows "join_with [c] (segments c s) = s"
proof -
  have "segments c s = split_on c s" using assms by (auto simp: segments_def intro: filter_True)
  then show ?thesis by (simp add: join_split)
qed

lemma split_agent_key:
  "id_form a \<Longrightarrow> split_on (CHR '':'') (agent_key a r) = ''agent'' # a # split_on (CHR '':'') r"
  using split_on_cut [of "CHR '':''" "''agent''" "a @ CHR '':'' # r"] split_on_cut [of "CHR '':''" a r]
    split_on_single [of "CHR '':''" "''agent''"] split_on_single [of "CHR '':''" a] id_form_no_colon [of a]
  by (simp add: agent_key_def)

lemma agent_key_start: "starts_with (agent_key a r) ''agent:''"
  by (simp add: agent_key_def starts_with_def)

lemma agent_key_not_main: "agent_key a r \<noteq> ''main''"
  by (simp add: agent_key_def)

lemma store_agent_key:
  assumes "id_form a" and "tidy r" and "[] \<notin> set (split_on (CHR '':'') r)"
  shows "parseAgentSessionKey (Some (agent_key a r)) = Some \<lparr>pa_agentId = a, pa_rest = r\<rparr> \<and>
    toAgentStoreSessionKey other (Some (agent_key a r)) mainKey = agent_key a r \<and>
    classifySessionKeyShape (Some (agent_key a r)) = ShapeAgent"
proof -
  have segs: "segments (CHR '':'') r \<noteq> []"
    using assms(3) split_on_nonempty [of "CHR '':''" r]
    by (cases "split_on (CHR '':'') r") (auto simp: segments_def)
  have parse: "parseAgentSessionKey (Some (agent_key a r)) = Some \<lparr>pa_agentId = a, pa_rest = r\<rparr>"
    using parse_agent_key [OF assms(1,2) segs] join_segments [OF assms(3)] by simp
  have "r \<noteq> []" using assms(3) by auto
  then have trim: "js_trim (agent_key a r) = agent_key a r" "js_lower (agent_key a r) = agent_key a r"
    using agent_key_tidy [OF assms(1,2)] by (simp_all add: tidy_def)
  have ne: "agent_key a r \<noteq> []" by (simp add: agent_key_def)
  have "toAgentStoreSessionKey other (Some (agent_key a r)) mainKey = agent_key a r"
    using ne agent_key_not_main [of a r]
    by (simp only: toAgentStoreSessionKey_def Let_def nullish_simps trim parse
        normalizeLowercaseStringOrEmpty_Some DEFAULT_MAIN_KEY_def option.case
        parsed_agent_key.select_convs if_False simp_thms)
  moreover have "classifySessionKeyShape (Some (agent_key a r)) = ShapeAgent"
    using ne by (simp only: classifySessionKeyShape_def Let_def nullish_simps trim parse option.simps
        if_False if_True simp_thms)
  ultimately show ?thesis using parse by blast
qed

subsection \<open>Isolation\<close>

lemma agent_key_inj: "id_form a \<Longrightarrow> id_form a' \<Longrightarrow> (agent_key a r = agent_key a' r') = (a = a' \<and> r = r')"
  using cut_unique [of "CHR '':''" a a' r r'] id_form_no_colon by (simp add: agent_key_def)

text \<open>What a direct session is about, by scope.\<close>

definition dm_identity :: "peer_key_params \<Rightarrow> string list" where
  "dm_identity p =
     (let agent = normalizeAgentId (Some (pk_agentId p));
          channel = key_channel (pk_channel p);
          account = normalizeAccountId (pk_accountId p)
      in case nullish (pk_dmScope p) ScopeMain of
           ScopeMain \<Rightarrow> [agent, normalizeMainKey (pk_mainKey p)]
         | ScopePerPeer \<Rightarrow> [agent, direct_peer p]
         | ScopePerChannelPeer \<Rightarrow> [agent, channel, direct_peer p]
         | ScopePerAccountChannelPeer \<Rightarrow> [agent, channel, account, direct_peer p])"

lemma direct_keys_equal:
  assumes "nullish (pk_peerKind p) CtDirect = CtDirect" and "nullish (pk_peerKind q) CtDirect = CtDirect"
    and "nullish (pk_dmScope p) ScopeMain = nullish (pk_dmScope q) ScopeMain"
    and "direct_peer p \<noteq> []" and "direct_peer q \<noteq> []"
    and "CHR '':'' \<notin> set (key_channel (pk_channel p))" and "CHR '':'' \<notin> set (key_channel (pk_channel q))"
  shows "(buildAgentPeerSessionKey p = buildAgentPeerSessionKey q) = (dm_identity p = dm_identity q)"
proof -
  have chan: "(key_channel (pk_channel p) @ CHR '':'' # b = key_channel (pk_channel q) @ CHR '':'' # b') =
      (key_channel (pk_channel p) = key_channel (pk_channel q) \<and> b = b')" for b b'
    by (rule cut_unique [OF assms(6,7)])
  have acc: "(normalizeAccountId (pk_accountId p) @ CHR '':'' # b = normalizeAccountId (pk_accountId q) @ CHR '':'' # b') =
      (normalizeAccountId (pk_accountId p) = normalizeAccountId (pk_accountId q) \<and> b = b')" for b b'
    by (rule cut_unique) (simp_all add: id_form_no_colon normalizeAccountId_form)
  show ?thesis
    using assms(1-5)
    by (cases "nullish (pk_dmScope q) ScopeMain")
      (simp_all add: build_session_rest agent_key_inj normalizeAgentId_form session_rest_def
        dm_identity_def Let_def chan acc)
qed

subsection \<open>Two keys that are one after parsing, and an id that is not stable\<close>

text \<open>
  Empty segments are dropped when a key is parsed, so two peers whose ids differ in a doubled
  colon have different session keys but the same store key.
\<close>

definition sample_peer :: "string \<Rightarrow> peer_key_params" where
  "sample_peer peer = \<lparr>pk_agentId = ''Ops'', pk_mainKey = None, pk_channel = ''matrix'', pk_accountId = None,
     pk_peerKind = Some CtDirect, pk_peerId = Some peer, pk_identityLinks = None,
     pk_dmScope = Some ScopePerChannelPeer\<rparr>"

lemma doubled_colon_collides:
  "buildAgentPeerSessionKey (sample_peer ''a::b'') \<noteq> buildAgentPeerSessionKey (sample_peer ''a:b'') \<and>
   toAgentStoreSessionKey ''ops'' (Some (buildAgentPeerSessionKey (sample_peer ''a::b''))) None =
   toAgentStoreSessionKey ''ops'' (Some (buildAgentPeerSessionKey (sample_peer ''a:b''))) None"
  by code_simp

text \<open>An id that begins with an underscore and is cut at a dash loses the dash when normalised again.\<close>

definition cut_agent_id :: string where
  "cut_agent_id = ''_'' @ replicate 62 (CHR ''a'') @ ''-b''"

lemma cut_agent_id_not_stable:
  "normalizeAgentId (Some (normalizeAgentId (Some cut_agent_id))) \<noteq> normalizeAgentId (Some cut_agent_id)"
  by code_simp

end
