(* ===== verification/RouteIndex.thy ===== *)
theory RouteIndex
  imports RouteResolve SessionKeyProps
begin

section \<open>The index finds what a scan of the bindings would\<close>

text \<open>
  The reference: the bindings of the configuration in source order, those that admit the
  channel and the account of the request, and in each tier the first one that fits. The lemmas
  show that the buckets per channel and account, their merge in source order, and the index per
  peer, guild and team answer exactly as this scan.
\<close>

subsection \<open>The reference\<close>

fun evaluate_loop :: "nat \<Rightarrow> agent_binding list \<Rightarrow> (string \<times> evaluated_binding) list" where
  "evaluate_loop n [] = []"
| "evaluate_loop n (b # bs) =
     (let channel = normalizeLowercaseStringOrEmpty (Option.bind (ab_match b) bm_channel) in
      if channel = [] then evaluate_loop n bs
      else (channel, \<lparr>eb_binding = b, eb_match = normalizeBindingMatch (ab_match b), eb_order = n\<rparr>)
             # evaluate_loop (n + 1) bs)"

definition any_account :: "evaluated_binding \<Rightarrow> bool" where
  "any_account e = (nm_accountPattern (eb_match e) = ''*'')"

definition account_of :: "evaluated_binding \<Rightarrow> string" where
  "account_of e = resolveAccountPatternKey (nm_accountPattern (eb_match e))"

definition admitted_bindings :: "route_config \<Rightarrow> string \<Rightarrow> string \<Rightarrow> evaluated_binding list" where
  "admitted_bindings cfg channel accountId =
     map snd (filter (\<lambda>(c, e). c = channel \<and> (any_account e \<or> account_of e = accountId))
       (evaluate_loop 0 (listRouteBindings cfg)))"

text \<open>The tiers of the code, each scanning all the given bindings.\<close>

definition scan_tiers :: "evaluated_binding list \<Rightarrow> route_request \<Rightarrow> route_tier list" where
  "scan_tiers bs rq = map (\<lambda>t. t\<lparr>rt_candidates := bs\<rparr>) (route_tiers empty_index rq)"

definition reference_route :: "route_config \<Rightarrow> route_request \<Rightarrow> resolved_route" where
  "reference_route cfg rq =
     (case find_tier rq (scan_tiers (admitted_bindings cfg (rq_channel rq) (rq_accountId rq)) rq) of
        Some (matched, matchedBy) \<Rightarrow>
          choose_route cfg rq (ab_agentId (eb_binding matched)) matchedBy (ab_dmScope (eb_binding matched))
      | None \<Rightarrow> choose_route cfg rq (resolveDefaultAgentId cfg) MatchedDefault None)"

subsection \<open>Buckets and their merge\<close>

definition get_list :: "(string, 'v list) js_map \<Rightarrow> string \<Rightarrow> 'v list" where
  "get_list m k = nullish (map_get m k) []"

lemma get_push [simp]: "get_list (push_to_map m k v) k' = get_list m k' @ (if k' = k then [v] else [])"
  by (auto simp: get_list_def push_to_map_def split: option.split)

lemma get_list_Nil [simp]: "get_list [] k = []"
  by (simp add: get_list_def)

definition any_of :: "channel_index \<Rightarrow> string \<Rightarrow> evaluated_binding list" where
  "any_of m ch = nullish (map_option cb_byAnyAccount (map_get m ch)) []"

definition scoped_of :: "channel_index \<Rightarrow> string \<Rightarrow> string \<Rightarrow> evaluated_binding list" where
  "scoped_of m ch a = nullish (Option.bind (map_get m ch) (\<lambda>b. map_get (cb_byAccount b) a)) []"

lemma scoped_of_get:
  "scoped_of m ch a = (case map_get m ch of None \<Rightarrow> [] | Some b \<Rightarrow> get_list (cb_byAccount b) a)"
  by (simp add: scoped_of_def get_list_def split: option.split)

lemma add_to_bucket_any:
  "any_of (add_to_bucket m c e) ch = any_of m ch @ (if c = ch \<and> any_account e then [e] else [])"
  by (cases "map_get m c") (auto simp: any_of_def add_to_bucket_def any_account_def Let_def)

lemma add_to_bucket_scoped:
  "scoped_of (add_to_bucket m c e) ch a =
   scoped_of m ch a @ (if c = ch \<and> \<not> any_account e \<and> account_of e = a then [e] else [])"
  by (cases "map_get m c")
    (auto simp: scoped_of_get add_to_bucket_def any_account_def account_of_def Let_def)

lemma buckets_fold:
  "any_of (evaluated_by_channel_loop n bs m) ch =
     any_of m ch @ map snd (filter (\<lambda>(c, e). c = ch \<and> any_account e) (evaluate_loop n bs))"
  "scoped_of (evaluated_by_channel_loop n bs m) ch a =
     scoped_of m ch a @
       map snd (filter (\<lambda>(c, e). c = ch \<and> \<not> any_account e \<and> account_of e = a) (evaluate_loop n bs))"
  by (induction n bs m rule: evaluated_by_channel_loop.induct)
    (auto simp: Let_def add_to_bucket_any add_to_bucket_scoped)

lemma evaluate_loop_orders:
  "sorted_wrt (\<lambda>a b. eb_order a < eb_order b) (map snd (evaluate_loop n bs)) \<and>
   (\<forall>e\<in>set (map snd (evaluate_loop n bs)). n \<le> eb_order e)"
proof (induction n bs rule: evaluate_loop.induct)
  case (2 n b bs)
  then show ?case
    by (auto simp: Let_def split: if_splits) (metis Suc_leD Suc_le_eq snd_conv)+
qed simp

lemma merge_filters:
  "sorted_wrt (\<lambda>a b. eb_order a < eb_order b) xs \<Longrightarrow> (\<And>x. x \<in> set xs \<Longrightarrow> \<not> (P x \<and> Q x)) \<Longrightarrow>
   mergeEvaluatedBindingsInSourceOrder (filter P xs) (filter Q xs) = filter (\<lambda>x. P x \<or> Q x) xs"
proof (induction xs)
  case (Cons x xs)
  have IH: "mergeEvaluatedBindingsInSourceOrder (filter P xs) (filter Q xs) = filter (\<lambda>x. P x \<or> Q x) xs"
    using Cons by simp
  have later: "\<And>y. y \<in> set xs \<Longrightarrow> eb_order x < eb_order y" using Cons.prems(1) by simp
  have first: "mergeEvaluatedBindingsInSourceOrder (x # as) bs = x # mergeEvaluatedBindingsInSourceOrder as bs"
    if "\<And>y. y \<in> set bs \<Longrightarrow> eb_order x < eb_order y" for as bs
    using that by (cases bs; cases as) (auto simp: less_imp_le)
  have second: "mergeEvaluatedBindingsInSourceOrder as (x # bs) = x # mergeEvaluatedBindingsInSourceOrder as bs"
    if "\<And>y. y \<in> set as \<Longrightarrow> eb_order x < eb_order y" for as bs
  proof (cases as)
    case (Cons a l)
    then have "eb_order x < eb_order a" using that by simp
    then show ?thesis using Cons by simp
  qed simp
  consider "P x" "\<not> Q x" | "Q x" "\<not> P x" | "\<not> P x" "\<not> Q x" using Cons.prems(2) by auto
  then show ?case
    by cases (use IH later first [of "filter Q xs" "filter P xs"] second [of "filter P xs" "filter Q xs"] in auto)
qed simp

lemma evaluated_for_eq:
  "evaluated_for (buildEvaluatedBindingsByChannel cfg) ch a = admitted_bindings cfg ch a"
proof -
  let ?es = "evaluate_loop 0 (listRouteBindings cfg)"
  let ?xs = "map snd (filter (\<lambda>(c, e). c = ch) ?es)"
  have sub: "sorted_wrt (\<lambda>a b. eb_order a < eb_order b) ?xs"
    using evaluate_loop_orders [of 0 "listRouteBindings cfg"]
    by (auto simp: sorted_wrt_map intro!: sorted_wrt_filter)
  have cut: "map snd (filter (\<lambda>(c, e). c = ch \<and> P e) es) = filter P (map snd (filter (\<lambda>(c, e). c = ch) es))"
    for P and es :: "(string \<times> evaluated_binding) list"
    by (induction es) auto
  have "evaluated_for (buildEvaluatedBindingsByChannel cfg) ch a =
      mergeEvaluatedBindingsInSourceOrder (filter (\<lambda>e. \<not> any_account e \<and> account_of e = a) ?xs)
        (filter any_account ?xs)"
    using buckets_fold(1) [of 0 "listRouteBindings cfg" "[]" ch] buckets_fold(2) [of 0 "listRouteBindings cfg" "[]" ch a]
    by (simp add: evaluated_for_def buildEvaluatedBindingsByChannel_def any_of_def scoped_of_def cut
        cut [of "\<lambda>e. \<not> any_account e \<and> account_of e = a"])
  also have "\<dots> = filter (\<lambda>e. (\<not> any_account e \<and> account_of e = a) \<or> any_account e) ?xs"
    by (rule merge_filters [OF sub]) auto
  also have "\<dots> = admitted_bindings cfg ch a"
    unfolding admitted_bindings_def cut [of "\<lambda>e. any_account e \<or> account_of e = a"]
    by (rule filter_cong) auto
  finally show ?thesis .
qed

text \<open>What holds of every admitted binding.\<close>

definition wf_evaluated :: "evaluated_binding \<Rightarrow> bool" where
  "wf_evaluated e = (nm_guildId (eb_match e) \<noteq> Some [] \<and> nm_teamId (eb_match e) \<noteq> Some [] \<and>
     nm_roles (eb_match e) \<noteq> Some [])"

lemma evaluate_loop_wf: "p \<in> set (evaluate_loop n bs) \<Longrightarrow> wf_evaluated (snd p)"
  by (induction n bs rule: evaluate_loop.induct)
    (auto simp: Let_def wf_evaluated_def normalizeBindingMatch_def or_null_def
      normalizeRouteBindingRoles_def split: if_splits option.splits)

lemma admitted_wf: "e \<in> set (admitted_bindings cfg ch a) \<Longrightarrow> wf_evaluated e"
  using evaluate_loop_wf by (auto simp: admitted_bindings_def)

lemma admitted_distinct: "distinct (admitted_bindings cfg ch a)"
proof -
  let ?es = "evaluate_loop 0 (listRouteBindings cfg)"
  have "distinct xs" if "sorted_wrt (\<lambda>a b. eb_order a < eb_order b) xs" for xs
    using that by (induction xs) auto
  moreover have "sorted_wrt (\<lambda>a b. eb_order a < eb_order b) (admitted_bindings cfg ch a)"
    using evaluate_loop_orders [of 0 "listRouteBindings cfg"]
    by (auto simp: admitted_bindings_def sorted_wrt_map intro!: sorted_wrt_filter)
  ultimately show ?thesis by blast
qed

subsection \<open>The lists of the index\<close>

definition plain_peer :: "evaluated_binding \<Rightarrow> bool" where
  "plain_peer c = (\<not> is_valid_peer c \<and> \<not> is_wildcard_peer c)"

definition keyed_by :: "string \<Rightarrow> evaluated_binding \<Rightarrow> bool" where
  "keyed_by key c =
     (case nm_peer (eb_match c) of PeerValid k i \<Rightarrow> key \<in> set (peerLookupKeys k i) | _ \<Rightarrow> False)"

lemma chat_type_string_no_colon: "CHR '':'' \<notin> set (chat_type_string k)"
  by (cases k) auto

lemma chat_type_string_inj [simp]: "(chat_type_string k = chat_type_string k') = (k = k')"
  by (cases k; cases k') auto

lemma peer_key_inj [simp]: "(peer_key k i = peer_key k' i') = (k = k' \<and> i = i')"
  using cut_unique [OF chat_type_string_no_colon [of k] chat_type_string_no_colon [of k'], of i i']
  by (simp add: peer_key_def)

lemma peer_key_nonempty [simp]: "peer_key k i \<noteq> []"
  by (simp add: peer_key_def)

lemma peer_key_lookup: "peer_key k i \<in> set (peerLookupKeys k' i') \<longleftrightarrow> peerKindMatches k' k \<and> i' = i"
  by (cases k'; cases k) (auto simp: peerKindMatches_def)

lemma keyed_by_peer_key:
  "keyed_by (peer_key k i) c =
   (case nm_peer (eb_match c) of PeerValid k' i' \<Rightarrow> peerKindMatches k' k \<and> i' = i | _ \<Rightarrow> False)"
  by (cases "nm_peer (eb_match c)") (simp_all add: keyed_by_def peer_key_lookup)

lemma get_pushToIndexMap:
  "get_list (pushToIndexMap m key b) k = get_list m k @ (if key = Some k \<and> k \<noteq> [] then [b] else [])"
  by (auto simp: pushToIndexMap_def split: option.split)

lemma push_peer_keys:
  "get_list (foldl (\<lambda>m key. pushToIndexMap m (Some key) b) m (peerLookupKeys k i)) key =
   get_list m key @ (if key \<in> set (peerLookupKeys k i) then [b] else [])"
  by (cases k) (auto simp: get_pushToIndexMap)

text \<open>Which list of the index a binding goes to.\<close>

definition guild_roles_key :: "string \<Rightarrow> evaluated_binding \<Rightarrow> bool" where
  "guild_roles_key k c =
     (plain_peer c \<and> nm_guildId (eb_match c) = Some k \<and> hasRolesConstraint c)"

definition guild_key :: "string \<Rightarrow> evaluated_binding \<Rightarrow> bool" where
  "guild_key k c = (plain_peer c \<and> nm_guildId (eb_match c) = Some k \<and> \<not> hasRolesConstraint c)"

definition team_key :: "string \<Rightarrow> evaluated_binding \<Rightarrow> bool" where
  "team_key k c = (plain_peer c \<and> \<not> hasGuildConstraint c \<and> nm_teamId (eb_match c) = Some k)"

definition unscoped :: "evaluated_binding \<Rightarrow> bool" where
  "unscoped c = (plain_peer c \<and> \<not> hasGuildConstraint c \<and> \<not> hasTeamConstraint c)"

lemmas peer_class_defs = plain_peer_def is_valid_peer_def is_wildcard_peer_def
lemmas constraint_defs = hasGuildConstraint_def hasTeamConstraint_def hasRolesConstraint_def

lemma index_add_fields:
  "get_list (ix_byPeer (index_add ix c)) key = get_list (ix_byPeer ix) key @ (if keyed_by key c then [c] else [])"
  "ix_byPeerWildcard (index_add ix c) = ix_byPeerWildcard ix @ (if is_wildcard_peer c then [c] else [])"
  "k \<noteq> [] \<Longrightarrow> get_list (ix_byGuildWithRoles (index_add ix c)) k =
     get_list (ix_byGuildWithRoles ix) k @ (if guild_roles_key k c then [c] else [])"
  "k \<noteq> [] \<Longrightarrow> get_list (ix_byGuild (index_add ix c)) k =
     get_list (ix_byGuild ix) k @ (if guild_key k c then [c] else [])"
  "k \<noteq> [] \<Longrightarrow> get_list (ix_byTeam (index_add ix c)) k =
     get_list (ix_byTeam ix) k @ (if team_key k c then [c] else [])"
  "ix_byAccount (index_add ix c) = ix_byAccount ix @ (if unscoped c \<and> \<not> any_account c then [c] else [])"
  "ix_byChannel (index_add ix c) = ix_byChannel ix @ (if unscoped c \<and> any_account c then [c] else [])"
  by (cases "nm_peer (eb_match c)";
      auto simp: index_add_def keyed_by_def peer_class_defs constraint_defs any_account_def
        guild_roles_key_def guild_key_def team_key_def unscoped_def get_pushToIndexMap push_peer_keys)+

lemma index_fold:
  "get_list (ix_byPeer (foldl index_add ix bs)) key = get_list (ix_byPeer ix) key @ filter (keyed_by key) bs"
  "ix_byPeerWildcard (foldl index_add ix bs) = ix_byPeerWildcard ix @ filter is_wildcard_peer bs"
  "k \<noteq> [] \<Longrightarrow> get_list (ix_byGuildWithRoles (foldl index_add ix bs)) k =
     get_list (ix_byGuildWithRoles ix) k @ filter (guild_roles_key k) bs"
  "k \<noteq> [] \<Longrightarrow> get_list (ix_byGuild (foldl index_add ix bs)) k =
     get_list (ix_byGuild ix) k @ filter (guild_key k) bs"
  "k \<noteq> [] \<Longrightarrow> get_list (ix_byTeam (foldl index_add ix bs)) k =
     get_list (ix_byTeam ix) k @ filter (team_key k) bs"
  "ix_byAccount (foldl index_add ix bs) = ix_byAccount ix @ filter (\<lambda>c. unscoped c \<and> \<not> any_account c) bs"
  "ix_byChannel (foldl index_add ix bs) = ix_byChannel ix @ filter (\<lambda>c. unscoped c \<and> any_account c) bs"
  by (induction bs arbitrary: ix) (simp_all add: index_add_fields)

lemma index_lists:
  "get_list (ix_byPeer (buildEvaluatedBindingsIndex bs)) key = filter (keyed_by key) bs"
  "ix_byPeerWildcard (buildEvaluatedBindingsIndex bs) = filter is_wildcard_peer bs"
  "g \<noteq> [] \<Longrightarrow> index_lookup (ix_byGuildWithRoles (buildEvaluatedBindingsIndex bs)) g = filter (guild_roles_key g) bs"
  "g \<noteq> [] \<Longrightarrow> index_lookup (ix_byGuild (buildEvaluatedBindingsIndex bs)) g = filter (guild_key g) bs"
  "g \<noteq> [] \<Longrightarrow> index_lookup (ix_byTeam (buildEvaluatedBindingsIndex bs)) g = filter (team_key g) bs"
  "ix_byAccount (buildEvaluatedBindingsIndex bs) = filter (\<lambda>c. unscoped c \<and> \<not> any_account c) bs"
  "ix_byChannel (buildEvaluatedBindingsIndex bs) = filter (\<lambda>c. unscoped c \<and> any_account c) bs"
  using index_fold [where ix = empty_index and bs = bs]
  by (simp_all add: buildEvaluatedBindingsIndex_def empty_index_def index_lookup_def get_list_def)

lemma foldl_set_add_old: "set xs \<subseteq> set out \<Longrightarrow> foldl set_add out xs = out"
  by (induction xs arbitrary: out) (auto simp: set_add_def)

lemma foldl_set_add_new: "distinct (out @ xs) \<Longrightarrow> foldl set_add out xs = out @ xs"
  by (induction xs arbitrary: out) (auto simp: set_add_def)

lemma collect_loop:
  assumes "\<And>key. key \<in> set keys \<Longrightarrow> get_list (ix_byPeer index) key = L"
    and "distinct L" and "keys \<noteq> []" and "out = [] \<or> out = L"
  shows "collect_peer_loop index keys out = L"
  using assms
proof (induction index keys out rule: collect_peer_loop.induct)
  case (2 index key keys out)
  have L: "get_list (ix_byPeer index) key = L" using 2(3) by simp
  have add: "foldl set_add out L = L"
    using 2(4,6) foldl_set_add_new [of "[]" L] foldl_set_add_old [of L L] by auto
  show ?case
  proof (cases "map_get (ix_byPeer index) key")
    case None
    then have "L = []" using L by (simp add: get_list_def)
    then have "out = []" using 2(6) by auto
    then show ?thesis using 2(1) [OF None] 2(3,4) None \<open>L = []\<close>
      by (cases keys) auto
  next
    case (Some ms)
    then have "ms = L" using L by (simp add: get_list_def)
    then show ?thesis using 2(2) [OF Some] 2(3,4) Some add by (cases keys) auto
  qed
qed simp

lemma collect_peer:
  assumes "distinct bs"
  shows "collectPeerIndexedBindings (buildEvaluatedBindingsIndex bs) (Some p) =
    filter (keyed_by (peer_key (pr_kind p) (pr_id p))) bs"
proof -
  have same: "keyed_by key c = keyed_by (peer_key (pr_kind p) (pr_id p)) c"
    if "key \<in> set (peerLookupKeys (pr_kind p) (pr_id p))" for key c
    using that by (cases "pr_kind p") (auto simp: keyed_by_peer_key peerKindMatches_def split: peer_constraint.split)
  have "get_list (ix_byPeer (buildEvaluatedBindingsIndex bs)) key =
      filter (keyed_by (peer_key (pr_kind p) (pr_id p))) bs"
    if "key \<in> set (peerLookupKeys (pr_kind p) (pr_id p))" for key
    unfolding index_lists by (rule filter_cong) (simp_all add: same [OF that])
  moreover have "peerLookupKeys (pr_kind p) (pr_id p) \<noteq> []" by (cases "pr_kind p") auto
  ultimately show ?thesis
    using collect_loop [of "peerLookupKeys (pr_kind p) (pr_id p)" "buildEvaluatedBindingsIndex bs"
        "filter (keyed_by (peer_key (pr_kind p) (pr_id p))) bs" "[]"] assms
    by (simp add: collectPeerIndexedBindings_def)
qed

section \<open>Indexed tiers against scanned tiers\<close>

text \<open>
  A tier of the index holds only part of the bindings. Whatever it leaves out and still fits the
  tier's predicate and scope would have been found by an earlier tier, so the first match is
  that of the scan.
\<close>

subsection \<open>What a matching binding says about the request\<close>

definition trimmed_request :: "route_request \<Rightarrow> bool" where
  "trimmed_request rq = (js_trim (rq_guildId rq) = rq_guildId rq \<and> js_trim (rq_teamId rq) = rq_teamId rq)"

lemma normalize_request_trimmed [simp]: "trimmed_request (normalize_request input)"
  by (auto simp: trimmed_request_def normalize_request_def normalizeRouteBindingId_def split: option.split)

definition fits :: "route_request \<Rightarrow> route_peer option \<Rightarrow> evaluated_binding \<Rightarrow> bool" where
  "fits rq peer c = matchesBindingScope (eb_match c) (tier_scope rq peer)"

lemma fits_scope:
  "fits rq peer c \<Longrightarrow> routeBindingScopeMatches (eb_match c) (tier_scope rq peer)"
  by (auto simp: fits_def matchesBindingScope_def split: peer_constraint.splits option.splits if_splits)

lemma scope_matches:
  assumes "routeBindingScopeMatches (eb_match c) (tier_scope rq peer)" and "wf_evaluated c"
    and "trimmed_request rq"
  shows "hasGuildConstraint c \<Longrightarrow> rq_guildId rq \<noteq> [] \<and> nm_guildId (eb_match c) = Some (rq_guildId rq)"
    and "hasTeamConstraint c \<Longrightarrow> rq_teamId rq \<noteq> [] \<and> nm_teamId (eb_match c) = Some (rq_teamId rq)"
    and "hasRolesConstraint c \<Longrightarrow> rq_memberRoleIds rq \<noteq> []"
  using assms
  by (auto simp: routeBindingScopeMatches_def tier_scope_def scopeIdMatches_def constraint_defs
      wf_evaluated_def trimmed_request_def normalizeRouteBindingId_def Let_def
      normalizeRouteBindingRoles_def hasAnyRouteBindingRole_def split: if_splits option.splits)

lemma fits_valid:
  "is_valid_peer c \<Longrightarrow> fits rq peer c \<Longrightarrow>
   \<exists>p. peer = Some p \<and> keyed_by (peer_key (pr_kind p) (pr_id p)) c"
  by (auto simp: is_valid_peer_def fits_def matchesBindingScope_def tier_scope_def keyed_by_peer_key
      split: peer_constraint.splits option.splits if_splits)

lemma fits_wildcard: "is_wildcard_peer c \<Longrightarrow> fits rq peer c \<Longrightarrow> peer \<noteq> None"
  by (auto simp: is_wildcard_peer_def fits_def matchesBindingScope_def tier_scope_def
      split: peer_constraint.splits option.splits if_splits)

subsection \<open>One tier at a time\<close>

text \<open>\<open>no_fit\<close> says that the scan finds nothing in a tier.\<close>

definition no_fit :: "route_request \<Rightarrow> evaluated_binding list \<Rightarrow> route_peer option \<Rightarrow> (evaluated_binding \<Rightarrow> bool) \<Rightarrow> bool" where
  "no_fit rq bs peer P = (\<forall>c\<in>set bs. \<not> (P c \<and> fits rq peer c))"

lemma find_filter_eq:
  "(\<And>c. c \<in> set bs \<Longrightarrow> P c \<Longrightarrow> K c) \<Longrightarrow> find P (filter K bs) = find P bs"
  by (induction bs) auto

lemma find_tier_step:
  assumes "enabled \<Longrightarrow> cands = filter K bs"
    and "\<And>c. c \<in> set bs \<Longrightarrow> enabled \<Longrightarrow> P c \<Longrightarrow> fits rq peer c \<Longrightarrow> K c"
    and "\<And>c. c \<in> set bs \<Longrightarrow> \<not> enabled \<Longrightarrow> P c \<Longrightarrow> \<not> fits rq peer c"
    and "no_fit rq bs peer P \<Longrightarrow> find_tier rq ts = find_tier rq us"
  shows "find_tier rq (\<lparr>rt_matchedBy = by', rt_enabled = enabled, rt_scopePeer = peer,
      rt_candidates = cands, rt_predicate = P\<rparr> # ts) =
    find_tier rq (\<lparr>rt_matchedBy = by', rt_enabled = enabled, rt_scopePeer = peer,
      rt_candidates = bs, rt_predicate = P\<rparr> # us)"
proof (cases enabled)
  case True
  have eq: "find (\<lambda>c. P c \<and> fits rq peer c) cands = find (\<lambda>c. P c \<and> fits rq peer c) bs"
    unfolding assms(1) [OF True] by (rule find_filter_eq) (use assms(2) True in blast)
  show ?thesis
  proof (cases "find (\<lambda>c. P c \<and> fits rq peer c) bs")
    case None
    then have "no_fit rq bs peer P" by (auto simp: no_fit_def find_None_iff)
    then show ?thesis using assms(4) eq None True by (simp add: fits_def [abs_def])
  next
    case (Some c)
    then show ?thesis using eq True by (simp add: fits_def [abs_def])
  qed
next
  case False
  then have "no_fit rq bs peer P" using assms(3) by (auto simp: no_fit_def)
  then show ?thesis using assms(4) False by simp
qed

subsection \<open>All tiers\<close>

lemma no_fit_plain:
  "no_fit rq bs peer is_valid_peer \<Longrightarrow> no_fit rq bs peer is_wildcard_peer \<Longrightarrow>
   c \<in> set bs \<Longrightarrow> fits rq peer c \<Longrightarrow> plain_peer c"
  by (auto simp: no_fit_def plain_peer_def)

lemma no_fit_guild:
  "no_fit rq bs peer (\<lambda>c. hasGuildConstraint c \<and> hasRolesConstraint c) \<Longrightarrow>
   no_fit rq bs peer (\<lambda>c. hasGuildConstraint c \<and> \<not> hasRolesConstraint c) \<Longrightarrow>
   c \<in> set bs \<Longrightarrow> fits rq peer c \<Longrightarrow> \<not> hasGuildConstraint c"
  by (auto simp: no_fit_def)

lemma no_fit_unscoped:
  assumes "\<And>c. c \<in> set bs \<Longrightarrow> fits rq peer c \<Longrightarrow> plain_peer c"
    and "\<And>c. c \<in> set bs \<Longrightarrow> fits rq peer c \<Longrightarrow> \<not> hasGuildConstraint c"
    and "no_fit rq bs peer hasTeamConstraint"
  shows "c \<in> set bs \<Longrightarrow> fits rq peer c \<Longrightarrow> unscoped c"
  using assms by (auto simp: unscoped_def no_fit_def)

text \<open>The tiers by guild, team, account and channel, when no peer tier matched.\<close>

lemma find_scope_tiers:
  assumes wf: "\<And>c. c \<in> set bs \<Longrightarrow> wf_evaluated c" and trim: "trimmed_request rq"
    and plain: "\<And>c. c \<in> set bs \<Longrightarrow> fits rq (rq_peer rq) c \<Longrightarrow> plain_peer c"
  shows "find_tier rq (scope_tiers (buildEvaluatedBindingsIndex bs) rq) =
    find_tier rq (map (\<lambda>t. t\<lparr>rt_candidates := bs\<rparr>) (scope_tiers empty_index rq))"
proof -
  note scope = scope_matches [OF fits_scope wf trim]
  show ?thesis
    unfolding scope_tiers_def list.map route_tier.simps
  proof (rule find_tier_step [where K = "guild_roles_key (rq_guildId rq)"], goal_cases)
    case 1 then show ?case by (intro index_lists) simp
  next
    case (2 c) then show ?case using plain scope(1) by (auto simp: guild_roles_key_def)
  next
    case (3 c) then show ?case using scope(1,3) by blast
  next
    case n4: 4
    show ?case
    proof (rule find_tier_step [where K = "guild_key (rq_guildId rq)"], goal_cases)
      case 1 then show ?case by (intro index_lists)
    next
      case (2 c) then show ?case using plain scope(1) by (auto simp: guild_key_def)
    next
      case (3 c) then show ?case using scope(1) by blast
    next
      case n5: 4
      note noguild = no_fit_guild [OF n4 n5]
      show ?case
      proof (rule find_tier_step [where K = "team_key (rq_teamId rq)"], goal_cases)
        case 1 then show ?case by (intro index_lists)
      next
        case (2 c) then show ?case using plain noguild scope(2) by (auto simp: team_key_def)
      next
        case (3 c) then show ?case using scope(2) by blast
      next
        case n6: 4
        note un = no_fit_unscoped [OF plain noguild n6]
        show ?case
          by (rule find_tier_step [where K = "\<lambda>c. unscoped c \<and> \<not> any_account c"];
              (rule find_tier_step [where K = "\<lambda>c. unscoped c \<and> any_account c"])?)
            (simp_all add: index_lists un any_account_def)
      qed
    qed
  qed
qed

lemma find_tier_index:
  assumes dist: "distinct bs" and wf: "\<And>c. c \<in> set bs \<Longrightarrow> wf_evaluated c" and trim: "trimmed_request rq"
  shows "find_tier rq (route_tiers (buildEvaluatedBindingsIndex bs) rq) = find_tier rq (scan_tiers bs rq)"
proof -
  let ?key = "\<lambda>p c. keyed_by (peer_key (pr_kind (the p)) (pr_id (the p))) c"
  have cands: "collectPeerIndexedBindings (buildEvaluatedBindingsIndex bs) p = filter (?key p) bs"
    if "p \<noteq> None" for p
    using collect_peer [OF dist] that by auto
  have parent: "parent_with_id rq \<noteq> None \<Longrightarrow> rq_parentPeer rq = parent_with_id rq"
    by (auto simp: parent_with_id_def split: option.splits if_splits)
  have keyed: "?key p c" if "is_valid_peer c" "fits rq p c" for p c
    using fits_valid [OF that] by auto
  have off: "\<not> fits rq p c" if "\<not> p \<noteq> None" "is_valid_peer c" for p c
    using fits_valid [OF that(2)] that(1) by auto
  show ?thesis
    unfolding route_tiers_def scan_tiers_def list.map route_tier.simps
  proof (rule find_tier_step [where K = "?key (rq_peer rq)"], goal_cases)
    case n1: 4
    show ?case
    proof (rule find_tier_step [where K = "?key (parent_with_id rq)"], goal_cases)
      case 1 then show ?case using parent cands [of "rq_parentPeer rq"] by simp
    next
      case 4
      show ?case
      proof (rule find_tier_step [where K = is_wildcard_peer], goal_cases)
        case 1 show ?case by (rule index_lists)
      next
        case (3 c) then show ?case using fits_wildcard by blast
      next
        case n3: 4
        show ?case by (rule find_scope_tiers [OF wf trim no_fit_plain [OF n1 n3]])
      qed
    qed (use keyed off in blast)+
  qed (use cands keyed off in blast)+
qed

lemma route_by_index_reference:
  assumes "trimmed_request rq"
  shows "route_by_index cfg (buildEvaluatedBindingsIndex
      (evaluated_for (buildEvaluatedBindingsByChannel cfg) (rq_channel rq) (rq_accountId rq))) rq =
    reference_route cfg rq"
  using find_tier_index [OF admitted_distinct admitted_wf assms]
  by (simp add: route_by_index_def reference_route_def evaluated_for_eq)

end
