(* ===== verification/RouteCache.thy ===== *)
theory RouteCache
  imports RouteIndex "HOL-Library.Multiset"
begin

section \<open>The caches of a configuration\<close>

text \<open>
  The evaluated bindings are cached under an injective key, so they are always those of the
  request's channel and account. The resolved routes are cached under a key string that joins
  the parts of the request; \<open>cacheable\<close> are the requests on which that string says everything
  the route depends on.
\<close>

subsection \<open>What a route depends on\<close>

definition request_equiv :: "route_request \<Rightarrow> route_request \<Rightarrow> bool" where
  "request_equiv r s =
     (rq_channel r = rq_channel s \<and> rq_accountId r = rq_accountId s \<and> rq_peer r = rq_peer s \<and>
      parent_with_id r = parent_with_id s \<and> rq_guildId r = rq_guildId s \<and> rq_teamId r = rq_teamId s \<and>
      mset (rq_memberRoleIds r) = mset (rq_memberRoleIds s))"

lemma equiv_scope:
  assumes "request_equiv r s"
  shows "matchesBindingScope m (tier_scope r p) = matchesBindingScope m (tier_scope s p)"
proof -
  have "set (rq_memberRoleIds r) = set (rq_memberRoleIds s)"
    using assms by (auto simp: request_equiv_def dest: mset_eq_setD)
  then show ?thesis using assms
    by (simp add: matchesBindingScope_def routeBindingScopeMatches_def tier_scope_def
        hasAnyRouteBindingRole_def request_equiv_def Let_def cong: peer_constraint.case_cong option.case_cong)
qed

lemma equiv_find_tier: "request_equiv r s \<Longrightarrow> find_tier r ts = find_tier s ts"
  by (induction ts) (simp_all add: equiv_scope cong: option.case_cong)

lemma equiv_scan: "request_equiv r s \<Longrightarrow> scan_tiers bs r = scan_tiers bs s"
proof -
  assume eq: "request_equiv r s"
  have "length (rq_memberRoleIds r) = length (rq_memberRoleIds s)"
    using eq by (auto simp: request_equiv_def dest: mset_eq_length)
  then show ?thesis using eq
    by (simp add: scan_tiers_def route_tiers_def scope_tiers_def request_equiv_def)
qed

lemma equiv_reference: "request_equiv r s \<Longrightarrow> reference_route cfg r = reference_route cfg s"
  by (simp add: reference_route_def equiv_scan [of r s] equiv_find_tier [of r s])
    (simp add: request_equiv_def choose_route_def cong: option.case_cong)

subsection \<open>The key of the route cache\<close>

definition cacheable :: "route_request \<Rightarrow> bool" where
  "cacheable r =
     (tab \<notin> set (rq_channel r) \<and> id_form (rq_accountId r) \<and>
      (case rq_peer r of None \<Rightarrow> True | Some p \<Rightarrow> pr_id p \<noteq> [] \<and> tab \<notin> set (pr_id p)) \<and>
      (case rq_parentPeer r of None \<Rightarrow> True | Some p \<Rightarrow> tab \<notin> set (pr_id p)) \<and>
      tab \<notin> set (rq_guildId r) \<and> rq_guildId r \<noteq> ''-'' \<and>
      tab \<notin> set (rq_teamId r) \<and> rq_teamId r \<noteq> ''-'' \<and>
      list_all (\<lambda>role. tab \<notin> set role \<and> CHR '','' \<notin> set role) (rq_memberRoleIds r) \<and>
      rq_memberRoleIds r \<noteq> [''-''])"

lemma cacheableD:
  assumes "cacheable r"
  shows "tab \<notin> set (rq_channel r)" and "id_form (rq_accountId r)"
    and "rq_peer r = Some p \<Longrightarrow> pr_id p \<noteq> [] \<and> tab \<notin> set (pr_id p)"
    and "rq_parentPeer r = Some p \<Longrightarrow> tab \<notin> set (pr_id p)"
    and "tab \<notin> set (rq_guildId r)" and "rq_guildId r \<noteq> ''-''"
    and "tab \<notin> set (rq_teamId r)" and "rq_teamId r \<noteq> ''-''"
    and "role \<in> set (rq_memberRoleIds r) \<Longrightarrow> tab \<notin> set role \<and> CHR '','' \<notin> set role"
    and "rq_memberRoleIds r \<noteq> [''-'']"
  using assms by (auto simp: cacheable_def list_all_iff)

lemma id_form_no_tab: "id_form s \<Longrightarrow> tab \<notin> set s"
  by (auto simp: id_form_def list_all_iff id_char_def alnum_char_def tab_def)

lemma tab_simps [simp]: "tab \<noteq> CHR '':''" "tab \<noteq> CHR ''-''" "tab \<noteq> CHR '',''"
  by (simp_all add: tab_def)

lemma chat_type_no_tab: "tab \<notin> set (chat_type_string k)"
  by (cases k) (simp_all add: tab_def)

lemma peer_key_not_dash: "peer_key k i \<noteq> ''-''"
  by (cases k) (simp_all add: peer_key_def)

lemma role_key_eq:
  "formatRoleIdsCacheKey roles = (if roles = [] then ''-'' else join_with '','' (sort roles))"
proof (cases roles)
  case (Cons a as)
  show ?thesis
  proof (cases as)
    case as: (Cons b bs)
    then show ?thesis using Cons by (cases bs) (auto simp: formatRoleIdsCacheKey_def)
  qed (simp add: formatRoleIdsCacheKey_def Cons)
qed (simp add: formatRoleIdsCacheKey_def)

lemma role_key_no_tab: "cacheable r \<Longrightarrow> tab \<notin> set (formatRoleIdsCacheKey (rq_memberRoleIds r))"
  using join_chars [of "sort (rq_memberRoleIds r)" tab "CHR '',''"] cacheableD(9) [of r]
  by (simp add: role_key_eq)

lemma role_key_inj:
  assumes "cacheable r" and "cacheable s"
    and "formatRoleIdsCacheKey (rq_memberRoleIds r) = formatRoleIdsCacheKey (rq_memberRoleIds s)"
  shows "mset (rq_memberRoleIds r) = mset (rq_memberRoleIds s)"
proof -
  have split: "split_on (CHR '','') (formatRoleIdsCacheKey (rq_memberRoleIds q)) =
      (if rq_memberRoleIds q = [] then [''-''] else sort (rq_memberRoleIds q))" if "cacheable q" for q
  proof (cases "rq_memberRoleIds q = []")
    case False
    then have "sort (rq_memberRoleIds q) \<noteq> []" by (metis length_0_conv length_sort)
    then show ?thesis using False split_join [of "sort (rq_memberRoleIds q)" "CHR '',''"] cacheableD(9) [OF that]
      by (simp add: role_key_eq)
  qed (simp add: role_key_eq)
  have dash: "sort (rq_memberRoleIds q) \<noteq> [''-'']" if "cacheable q" for q
  proof
    assume "sort (rq_memberRoleIds q) = [''-'']"
    then have "mset (rq_memberRoleIds q) = mset [''-'']" by (metis mset_sort)
    then show False using cacheableD(10) [OF that] by simp
  qed
  have eq: "(if rq_memberRoleIds r = [] then [''-''] else sort (rq_memberRoleIds r)) =
      (if rq_memberRoleIds s = [] then [''-''] else sort (rq_memberRoleIds s))"
    unfolding split [OF assms(1), symmetric] split [OF assms(2), symmetric] assms(3) by (rule refl)
  have "sort (rq_memberRoleIds r) = sort (rq_memberRoleIds s)"
    using eq dash [OF assms(1)] dash [OF assms(2)]
    by (cases "rq_memberRoleIds r = []"; cases "rq_memberRoleIds s = []") metis+
  then show ?thesis by (metis mset_sort)
qed

lemma peer_format_no_tab:
  "(case p of None \<Rightarrow> True | Some q \<Rightarrow> tab \<notin> set (pr_id q)) \<Longrightarrow> tab \<notin> set (formatRouteCachePeer p)"
  using chat_type_no_tab by (auto simp: formatRouteCachePeer_def peer_key_def split: option.split)

lemma peer_format_inj:
  "formatRouteCachePeer p = formatRouteCachePeer q \<Longrightarrow>
   (case p of Some x \<Rightarrow> if pr_id x \<noteq> [] then Some x else None | None \<Rightarrow> None) =
   (case q of Some x \<Rightarrow> if pr_id x \<noteq> [] then Some x else None | None \<Rightarrow> None)"
  using peer_key_not_dash peer_key_not_dash [symmetric]
  by (auto simp: formatRouteCachePeer_def split: option.splits if_splits intro: route_peer.equality)

lemma cache_key_inj:
  assumes r: "cacheable r" and s: "cacheable s"
    and eq: "buildResolvedRouteCacheKey r d = buildResolvedRouteCacheKey s d"
  shows "request_equiv r s"
proof -
  have peers: "tab \<notin> set (formatRouteCachePeer (rq_peer q))" "tab \<notin> set (formatRouteCachePeer (rq_parentPeer q))"
    if "cacheable q" for q
    using cacheableD(3,4) [OF that] by (intro peer_format_no_tab; simp split: option.split)+
  have ids: "tab \<notin> set (or_str (rq_guildId q) ''-'')" "tab \<notin> set (or_str (rq_teamId q) ''-'')"
    if "cacheable q" for q
    using cacheableD(5,7) [OF that] by (simp_all add: or_str_def)
  note frees = cacheableD(1) id_form_no_tab [OF cacheableD(2)] peers ids role_key_no_tab
  have parts: "rq_channel r = rq_channel s" "rq_accountId r = rq_accountId s"
      "formatRouteCachePeer (rq_peer r) = formatRouteCachePeer (rq_peer s)"
      "formatRouteCachePeer (rq_parentPeer r) = formatRouteCachePeer (rq_parentPeer s)"
      "or_str (rq_guildId r) ''-'' = or_str (rq_guildId s) ''-''"
      "or_str (rq_teamId r) ''-'' = or_str (rq_teamId s) ''-''"
      "formatRoleIdsCacheKey (rq_memberRoleIds r) = formatRoleIdsCacheKey (rq_memberRoleIds s)"
    using eq unfolding buildResolvedRouteCacheKey_def
    by (simp_all add: cut_unique frees [OF r] frees [OF s])
  have "rq_peer r = rq_peer s"
    using peer_format_inj [OF parts(3)] cacheableD(3) [OF r] cacheableD(3) [OF s]
    by (auto split: option.splits if_splits)
  moreover have "parent_with_id r = parent_with_id s"
    using peer_format_inj [OF parts(4)] by (simp add: parent_with_id_def)
  moreover have "rq_guildId r = rq_guildId s" "rq_teamId r = rq_teamId s"
    using parts(5,6) cacheableD(6,8) [OF r] cacheableD(6,8) [OF s] by (auto simp: or_str_def split: if_splits)
  ultimately show ?thesis using parts(1,2) role_key_inj [OF r s parts(7)] by (simp add: request_equiv_def)
qed

subsection \<open>The caches are coherent\<close>

text \<open>A cache by channel and account whose entries are the values of a function.\<close>

definition keyed_ok :: "(string \<Rightarrow> string \<Rightarrow> 'v) \<Rightarrow> (string, 'v) js_map \<Rightarrow> bool" where
  "keyed_ok f m =
     (\<forall>ch a v. id_form a \<longrightarrow> map_get m (channel_account_key ch a) = Some v \<longrightarrow> v = f ch a)"

definition evaluated_ok :: "route_config \<Rightarrow> route_caches \<Rightarrow> bool" where
  "evaluated_ok cfg st =
     (wf_map (rc_byChannelAccount st) \<and> length (rc_byChannelAccount st) \<le> MAX_EVALUATED_BINDINGS_CACHE_KEYS \<and>
      keyed_ok (admitted_bindings cfg) (rc_byChannelAccount st) \<and>
      keyed_ok (\<lambda>ch a. buildEvaluatedBindingsIndex (admitted_bindings cfg ch a)) (rc_byChannelAccountIndex st))"

definition routes_bounded :: "route_caches \<Rightarrow> bool" where
  "routes_bounded st = (wf_map (rc_routes st) \<and> length (rc_routes st) \<le> MAX_RESOLVED_ROUTE_CACHE_KEYS)"

definition routes_ok :: "route_config \<Rightarrow> route_caches \<Rightarrow> bool" where
  "routes_ok cfg st =
     (\<forall>r v. cacheable r \<longrightarrow>
        map_get (rc_routes st) (buildResolvedRouteCacheKey r (nullish (cf_dmScope cfg) ScopeMain)) = Some v \<longrightarrow>
        v = reference_route cfg r)"

lemma channel_account_key_inj:
  assumes "id_form a" and "id_form a'" and "channel_account_key ch a = channel_account_key ch' a'"
  shows "ch = ch' \<and> a = a'"
proof -
  have "rev a @ tab # rev ch = rev a' @ tab # rev ch'"
    using arg_cong [OF assms(3), of rev] by (simp add: channel_account_key_def)
  then show ?thesis
    using cut_unique [of tab "rev a" "rev a'" "rev ch" "rev ch'"] id_form_no_tab assms(1,2) by auto
qed

lemma keyed_ok_set:
  "keyed_ok f m \<Longrightarrow> id_form a \<Longrightarrow> keyed_ok f (map_set m (channel_account_key ch a) (f ch a))"
proof -
  assume ok: "keyed_ok f m" and id: "id_form a"
  show ?thesis
    unfolding keyed_ok_def
  proof (intro allI impI)
    fix ch' a' v
    assume id': "id_form a'" and get: "map_get (map_set m (channel_account_key ch a) (f ch a)) (channel_account_key ch' a') = Some v"
    show "v = f ch' a'"
    proof (cases "channel_account_key ch' a' = channel_account_key ch a")
      case True
      then have "ch' = ch \<and> a' = a" using channel_account_key_inj [OF id' id] by blast
      then show ?thesis using get by simp
    next
      case False
      then show ?thesis using get ok id' by (simp add: keyed_ok_def)
    qed
  qed
qed

lemma keyed_ok_Nil [simp]: "keyed_ok f []"
  by (simp add: keyed_ok_def)

lemma single_within:
  "length (map_set [] k v) \<le> MAX_EVALUATED_BINDINGS_CACHE_KEYS"
  "length (map_set [] k v) \<le> MAX_RESOLVED_ROUTE_CACHE_KEYS"
  by (simp_all add: MAX_EVALUATED_BINDINGS_CACHE_KEYS_def MAX_RESOLVED_ROUTE_CACHE_KEYS_def)

lemma keyed_ok_get:
  "keyed_ok f m \<Longrightarrow> id_form a \<Longrightarrow> map_get m (channel_account_key ch a) = Some v \<Longrightarrow> v = f ch a"
  by (simp add: keyed_ok_def)

lemma getEvaluated_ok:
  assumes ok: "evaluated_ok cfg st" and id: "id_form a"
    and get: "getEvaluatedBindingsForChannelAccount cfg ch a st = (bs, st')"
  shows "bs = admitted_bindings cfg ch a \<and> evaluated_ok cfg st' \<and> rc_routes st' = rc_routes st"
proof (cases "map_get (rc_byChannelAccount st) (channel_account_key ch a)")
  case (Some hit)
  then show ?thesis using get ok keyed_ok_get [OF _ id]
    by (auto simp: getEvaluatedBindingsForChannelAccount_def evaluated_ok_def)
next
  case None
  let ?f = "admitted_bindings cfg" and ?g = "\<lambda>ch a. buildEvaluatedBindingsIndex (admitted_bindings cfg ch a)"
  note sets = keyed_ok_set [OF _ id, of ?f _ ch] keyed_ok_set [OF _ id, of ?g _ ch]
  show ?thesis using get None ok sets(1) [of "[]"] sets(2) [of "[]"]
      sets(1) [of "rc_byChannelAccount st"] sets(2) [of "rc_byChannelAccountIndex st"] single_within wf_map_set [OF wf_map_Nil]
    by (auto simp: getEvaluatedBindingsForChannelAccount_def evaluated_ok_def evaluated_for_eq Let_def
        simp del: map_set.simps split: if_splits)
qed

lemma getIndex_ok:
  assumes ok: "evaluated_ok cfg st" and id: "id_form a"
    and get: "getEvaluatedBindingIndexForChannelAccount cfg ch a st = (ix, st')"
  shows "ix = buildEvaluatedBindingsIndex (admitted_bindings cfg ch a) \<and> evaluated_ok cfg st' \<and>
    rc_routes st' = rc_routes st"
proof -
  let ?g = "\<lambda>ch a. buildEvaluatedBindingsIndex (admitted_bindings cfg ch a)"
  obtain bs st1 where one: "getEvaluatedBindingsForChannelAccount cfg ch a st = (bs, st1)" by fastforce
  note D = getEvaluated_ok [OF ok id one]
  show ?thesis
  proof (cases "map_get (rc_byChannelAccountIndex st1) (channel_account_key ch a)")
    case None
    then show ?thesis using get D one keyed_ok_set [OF _ id, of ?g "rc_byChannelAccountIndex st1" ch]
      by (auto simp: getEvaluatedBindingIndexForChannelAccount_def evaluated_ok_def Let_def)
  next
    case (Some ix')
    then show ?thesis using get D one keyed_ok_get [OF _ id, of ?g "rc_byChannelAccountIndex st1" ch]
      by (auto simp: getEvaluatedBindingIndexForChannelAccount_def evaluated_ok_def)
  qed
qed

end
