(* ===== verification/RouteTheorems.thy ===== *)
theory RouteTheorems
  imports RouteCache
begin

section \<open>Properties of routing and session keys\<close>

text \<open>
  Runs of the router over one configuration, the invariant of its caches along them, and the
  properties of routes and session keys.
\<close>

subsection \<open>Runs\<close>

inductive route_reachable :: "(route_request \<Rightarrow> bool) \<Rightarrow> route_config \<Rightarrow> route_caches \<Rightarrow> bool"
  for W cfg where
  RouteStart: "route_reachable W cfg empty_caches"
| RouteRequest: "route_reachable W cfg st \<Longrightarrow> W (normalize_request input) \<Longrightarrow>
    route_reachable W cfg (snd (resolveAgentRoute verbose cfg input st))"

lemma request_account: "id_form (rq_accountId (normalize_request input))"
  by (simp add: normalize_request_def normalizeAccountId_form)

lemma store_route_get:
  "map_get (rc_routes (store_route k v st)) k' = Some w \<Longrightarrow>
   if k' = k then w = v else map_get (rc_routes st) k' = Some w"
  by (auto simp: store_route_def Let_def simp del: map_set.simps split: if_splits)

lemma routes_ok_store:
  assumes "routes_ok cfg st" and "cacheable r"
  shows "routes_ok cfg (store_route (buildResolvedRouteCacheKey r (nullish (cf_dmScope cfg) ScopeMain))
    (reference_route cfg r) st)"
  unfolding routes_ok_def
proof (intro allI impI)
  fix s v
  let ?k = "\<lambda>q. buildResolvedRouteCacheKey q (nullish (cf_dmScope cfg) ScopeMain)"
  assume s: "cacheable s" and get: "map_get (rc_routes (store_route (?k r) (reference_route cfg r) st)) (?k s) = Some v"
  show "v = reference_route cfg s"
  proof (cases "?k s = ?k r")
    case True
    have "request_equiv r s" by (rule cache_key_inj [OF assms(2) s True [symmetric]])
    then have "reference_route cfg r = reference_route cfg s" by (rule equiv_reference)
    then show ?thesis using store_route_get [OF get] True by simp
  next
    case False
    then have "map_get (rc_routes st) (?k s) = Some v"
      using store_route_get [OF get] by simp
    then show ?thesis using assms(1) s by (simp add: routes_ok_def)
  qed
qed

lemma routes_bounded_store: "routes_bounded st \<Longrightarrow> routes_bounded (store_route k v st)"
  using single_within(2) [of k v] wf_map_set [OF wf_map_Nil, of k v]
  by (auto simp: routes_bounded_def store_route_def Let_def simp del: map_set.simps)

lemma resolve_step:
  assumes ok: "evaluated_ok cfg st" and rq: "rq = normalize_request input"
  obtains st' where "evaluated_ok cfg st'" and "rc_routes st' = rc_routes st"
    and "resolveAgentRoute verbose cfg input st =
      (let key = buildResolvedRouteCacheKey rq (nullish (cf_dmScope cfg) ScopeMain) in
       if verbose \<or> cf_identityLinks cfg \<noteq> None then (reference_route cfg rq, st')
       else case map_get (rc_routes st) key of
         Some cached \<Rightarrow> (cached, st)
       | None \<Rightarrow> (reference_route cfg rq, store_route key (reference_route cfg rq) st'))"
proof -
  obtain bs st1 where one:
    "getEvaluatedBindingsForChannelAccount cfg (rq_channel rq) (rq_accountId rq) st = (bs, st1)" by fastforce
  obtain ix st2 where two:
    "getEvaluatedBindingIndexForChannelAccount cfg (rq_channel rq) (rq_accountId rq) st1 = (ix, st2)" by fastforce
  have id: "id_form (rq_accountId rq)" by (simp add: rq request_account)
  note D1 = getEvaluated_ok [OF ok id one]
  have D2: "ix = buildEvaluatedBindingsIndex (admitted_bindings cfg (rq_channel rq) (rq_accountId rq))"
    "evaluated_ok cfg st2" "rc_routes st2 = rc_routes st"
    using getIndex_ok [OF _ id two] D1 by simp_all
  have ref: "route_by_index cfg ix rq = reference_route cfg rq"
    using route_by_index_reference [of rq cfg] by (simp add: D2(1) evaluated_for_eq rq)
  have key: "buildResolvedRouteCacheKey rq d \<noteq> []" for d by (simp add: buildResolvedRouteCacheKey_def)
  show ?thesis
    by (rule that [OF D2(2,3)])
      (auto simp: resolveAgentRoute_def Let_def rq [symmetric] one two ref key split: option.split)
qed

lemma empty_caches_ok: "evaluated_ok cfg empty_caches" "routes_ok cfg empty_caches" "routes_bounded empty_caches"
  by (simp_all add: evaluated_ok_def routes_ok_def routes_bounded_def empty_caches_def)

lemma evaluated_ok_routes: "evaluated_ok cfg st \<Longrightarrow> evaluated_ok cfg (store_route k v st)"
  by (simp add: evaluated_ok_def store_route_def Let_def)

lemma routes_cong: "rc_routes a = rc_routes b \<Longrightarrow> routes_ok cfg a = routes_ok cfg b"
  "rc_routes a = rc_routes b \<Longrightarrow> routes_bounded a = routes_bounded b"
  by (simp_all add: routes_ok_def routes_bounded_def)

lemma reachable_evaluated: "route_reachable W cfg st \<Longrightarrow> evaluated_ok cfg st \<and> routes_bounded st"
proof (induction rule: route_reachable.induct)
  case (RouteRequest st input verbose)
  obtain st' where st': "evaluated_ok cfg st'" "rc_routes st' = rc_routes st"
    "resolveAgentRoute verbose cfg input st =
      (let key = buildResolvedRouteCacheKey (normalize_request input) (nullish (cf_dmScope cfg) ScopeMain) in
       if verbose \<or> cf_identityLinks cfg \<noteq> None then (reference_route cfg (normalize_request input), st')
       else case map_get (rc_routes st) key of
         Some cached \<Rightarrow> (cached, st)
       | None \<Rightarrow> (reference_route cfg (normalize_request input),
                   store_route key (reference_route cfg (normalize_request input)) st'))"
    using resolve_step [OF conjunct1 [OF RouteRequest.IH] refl] by blast
  show ?case using RouteRequest.IH st'(1) routes_cong(2) [OF st'(2)]
    by (auto simp: st'(3) Let_def routes_bounded_store evaluated_ok_routes split: option.split)
qed (simp add: empty_caches_ok)

lemma resolve_cacheable:
  assumes "evaluated_ok cfg st" and "routes_ok cfg st" and "cacheable (normalize_request input)"
  shows "fst (resolveAgentRoute verbose cfg input st) = reference_route cfg (normalize_request input) \<and>
    routes_ok cfg (snd (resolveAgentRoute verbose cfg input st))"
proof -
  let ?rq = "normalize_request input"
  obtain st' where st': "rc_routes st' = rc_routes st"
    "resolveAgentRoute verbose cfg input st =
      (let key = buildResolvedRouteCacheKey ?rq (nullish (cf_dmScope cfg) ScopeMain) in
       if verbose \<or> cf_identityLinks cfg \<noteq> None then (reference_route cfg ?rq, st')
       else case map_get (rc_routes st) key of
         Some cached \<Rightarrow> (cached, st)
       | None \<Rightarrow> (reference_route cfg ?rq, store_route key (reference_route cfg ?rq) st'))"
    using resolve_step [OF assms(1) refl] by blast
  have ok': "routes_ok cfg st'" using routes_cong(1) [OF st'(1)] assms(2) by simp
  show ?thesis using assms(2,3) ok' routes_ok_store [OF ok' assms(3)]
    by (auto simp: st'(2) Let_def routes_ok_def [of cfg st] split: option.split)
qed

lemma reachable_routes: "route_reachable cacheable cfg st \<Longrightarrow> routes_ok cfg st"
proof (induction rule: route_reachable.induct)
  case (RouteRequest st input verbose)
  then show ?case using resolve_cacheable reachable_evaluated by blast
qed (simp add: empty_caches_ok)

subsection \<open>The agent and the session of a route\<close>

definition configured_ids :: "route_config \<Rightarrow> string set" where
  "configured_ids cfg =
     {normalizeAgentId (Some (js_trim i)) | a i. a \<in> set (listAgents cfg) \<and> ag_id a = Some i \<and> js_trim i \<noteq> []}"

lemma agent_lookup_values:
  "map_get (agent_lookup cfg) k = Some v \<Longrightarrow> v \<in> configured_ids cfg"
proof -
  have gen: "map_get (foldl (\<lambda>m a. let rawId = js_trim (nullish (ag_id a) []) in
              if rawId = [] then m
              else map_set m (normalizeAgentId (Some rawId)) (sanitizeAgentId (Some rawId))) m as) k = Some v \<Longrightarrow>
     map_get m k = Some v \<or> v \<in> {normalizeAgentId (Some (js_trim i)) | a i. a \<in> set as \<and> ag_id a = Some i \<and> js_trim i \<noteq> []}" for m as
  proof (induction as arbitrary: m)
    case (Cons a as)
    show ?case using Cons.IH Cons.prems
      by (cases "ag_id a") (fastforce simp: Let_def sanitizeAgentId_def split: if_splits)+
  qed simp
  assume "map_get (agent_lookup cfg) k = Some v"
  then show ?thesis using gen [of "[]" "listAgents cfg"] by (simp add: agent_lookup_def configured_ids_def)
qed

lemma pick_agent:
  "agent_lookup cfg \<noteq> [] \<Longrightarrow>
   pickFirstExistingAgentId cfg i \<in> insert (normalizeAgentId (Some (resolveDefaultAgentId cfg))) (configured_ids cfg)"
  using agent_lookup_values
  by (auto simp: pickFirstExistingAgentId_def Let_def sanitizeAgentId_def split: option.split)

lemma pick_form: "id_form (pickFirstExistingAgentId cfg i)"
proof -
  have "id_form v" if "map_get (agent_lookup cfg) k = Some v" for k v
    using agent_lookup_values [OF that] normalizeAgentId_form by (auto simp: configured_ids_def)
  then show ?thesis using normalizeAgentId_form
    by (auto simp: pickFirstExistingAgentId_def Let_def sanitizeAgentId_def split: option.split)
qed

lemma peer_rest_segments:
  "pk_mainKey p = Some DEFAULT_MAIN_KEY \<Longrightarrow> segments (CHR '':'') (session_rest p) \<noteq> []"
proof -
  assume main: "pk_mainKey p = Some DEFAULT_MAIN_KEY"
  have m: "normalizeMainKey (Some ''main'') = ''main''" by code_simp
  have "\<not> set (session_rest p) \<subseteq> {CHR '':''}"
    using main m by (auto simp: session_rest_def Let_def DEFAULT_MAIN_KEY_def split: chat_type.split dm_scope.split)
  then show ?thesis by (simp add: segments_Nil_iff)
qed

lemma chosen_session:
  "\<exists>rest. parseAgentSessionKey (Some (rr_sessionKey (choose_route cfg rq i m d))) =
     Some \<lparr>pa_agentId = normalizeAgentId (Some (rr_agentId (choose_route cfg rq i m d))), pa_rest = rest\<rparr>"
proof -
  obtain p where key: "rr_sessionKey (choose_route cfg rq i m d) =
      normalizeLowercaseStringOrEmpty (Some (buildAgentPeerSessionKey p))"
    and p: "pk_agentId p = rr_agentId (choose_route cfg rq i m d)" "pk_mainKey p = Some DEFAULT_MAIN_KEY"
    unfolding choose_route_def buildAgentSessionKey_def Let_def by (metis (no_types, lifting)
      peer_key_params.select_convs(1,2) resolved_route.select_convs(1,4))
  have tidy: "tidy (buildAgentPeerSessionKey p)"
    using session_rest_tidy [of p] by (simp add: build_session_rest agent_key_tidy normalizeAgentId_form)
  then have "rr_sessionKey (choose_route cfg rq i m d) = buildAgentPeerSessionKey p"
    by (simp add: key tidy_def)
  then show ?thesis
    using parse_agent_key [OF normalizeAgentId_form [of "Some (pk_agentId p)"] conjunct1 [OF session_rest_tidy]
        peer_rest_segments [OF p(2)]] p(1)
    by (simp add: build_session_rest)
qed

lemma reference_chosen: "\<exists>i m d. reference_route cfg rq = choose_route cfg rq i m d"
  by (auto simp: reference_route_def split: option.split prod.split)

subsection \<open>Properties\<close>

text \<open>C5: Routing is a scan. In every run, a route that is computed, because the cache is bypassed or
  has no route for the key of the request, is the one the reference finds by scanning the bindings that
  admit the channel and account, tier by tier and in source order: the buckets, their merge, the
  index and their caches change no answer. (A route that comes from the cache of routes is
  another matter: see \<open>empty_peer_id_conflated\<close>.)\<close>

theorem route_is_scan:
  assumes "route_reachable (\<lambda>_. True) cfg st"
    and "verbose \<or> cf_identityLinks cfg \<noteq> None \<or>
      map_get (rc_routes st) (buildResolvedRouteCacheKey (normalize_request input) (nullish (cf_dmScope cfg) ScopeMain)) = None"
  shows "fst (resolveAgentRoute verbose cfg input st) = reference_route cfg (normalize_request input)"
proof -
  have ok: "evaluated_ok cfg st" using reachable_evaluated [OF assms(1)] by simp
  show ?thesis by (rule resolve_step [OF ok refl, of verbose input]) (use assms(2) in \<open>auto simp: Let_def\<close>)
qed

definition sample_binding :: "string \<Rightarrow> string option \<Rightarrow> binding_peer option \<Rightarrow> agent_binding" where
  "sample_binding agent account peer = \<lparr>ab_type = None, ab_agentId = agent,
     ab_match = Some \<lparr>bm_channel = Some ''slack'', bm_accountId = account, bm_peer = peer,
       bm_guildId = None, bm_teamId = None, bm_roles = None\<rparr>, ab_dmScope = None\<rparr>"

definition sample_route_config :: route_config where
  "sample_route_config = \<lparr>cf_bindings = Some
     [sample_binding ''team'' (Some ''*'') None,
      sample_binding ''desk'' None (Some \<lparr>bp_kind = Some ''group'', bp_id = Some (EStr ''G1'')\<rparr>),
      sample_binding ''people'' (Some ''*'') (Some \<lparr>bp_kind = Some ''direct'', bp_id = Some (EStr ''*'')\<rparr>)],
   cf_agents = Some [\<lparr>ag_id = Some ''Desk'', ag_default = False\<rparr>, \<lparr>ag_id = Some ''team'', ag_default = True\<rparr>,
     \<lparr>ag_id = Some ''people'', ag_default = False\<rparr>],
   cf_dmScope = Some ScopePerPeer, cf_identityLinks = None\<rparr>"

definition sample_input :: "(chat_type \<times> allow_entry) option \<Rightarrow> route_input" where
  "sample_input peer = \<lparr>ri_channel = '' Slack'', ri_accountId = None, ri_peer = peer, ri_parentPeer = None,
     ri_guildId = None, ri_teamId = None, ri_memberRoleIds = None\<rparr>"

theorem route_is_scan_witness:
  "fst (resolveAgentRoute False sample_route_config (sample_input (Some (CtChannel, EStr ''G1''))) empty_caches) =
   reference_route sample_route_config (normalize_request (sample_input (Some (CtChannel, EStr ''G1''))))"
  by (rule route_is_scan [OF RouteStart]) (simp add: empty_caches_def)

text \<open>C18: The route cache is transparent. In every run of requests whose parts contain no separator, no
  bare dash and no empty peer id, a route answered from the cache is the one that would be computed,
  and the caches stay within their limits.\<close>

theorem route_cache_transparent:
  assumes "route_reachable cacheable cfg st" and "cacheable (normalize_request input)"
  shows "fst (resolveAgentRoute verbose cfg input st) = reference_route cfg (normalize_request input) \<and>
    length (rc_routes st) \<le> MAX_RESOLVED_ROUTE_CACHE_KEYS \<and>
    length (rc_byChannelAccount st) \<le> MAX_EVALUATED_BINDINGS_CACHE_KEYS"
  using resolve_cacheable [OF conjunct1 [OF reachable_evaluated [OF assms(1)]] reachable_routes [OF assms(1)] assms(2)]
    reachable_evaluated [OF assms(1)]
  by (simp add: routes_bounded_def evaluated_ok_def)

theorem route_cache_transparent_witness:
  "fst (resolveAgentRoute False sample_route_config (sample_input (Some (CtDirect, EStr ''U1'')))
     (snd (resolveAgentRoute False sample_route_config (sample_input (Some (CtDirect, EStr ''U1''))) empty_caches))) =
   reference_route sample_route_config (normalize_request (sample_input (Some (CtDirect, EStr ''U1''))))"
proof -
  have ok: "cacheable (normalize_request (sample_input (Some (CtDirect, EStr ''U1''))))" by code_simp
  have "route_reachable cacheable sample_route_config (snd (resolveAgentRoute False sample_route_config
      (sample_input (Some (CtDirect, EStr ''U1''))) empty_caches))"
    by (rule RouteRequest [where W = cacheable, OF RouteStart ok])
  from route_cache_transparent [OF this ok] show ?thesis by blast
qed

text \<open>
  Without the restriction it is not: a request without a peer and one whose peer has an empty id
  have one cache key, but only the second can match a binding for all direct chats.
\<close>

lemma empty_peer_id_conflated:
  "let first = resolveAgentRoute False sample_route_config (sample_input None) empty_caches;
       nameless = sample_input (Some (CtDirect, EStr []))
   in rr_agentId (fst (resolveAgentRoute False sample_route_config nameless (snd first))) = ''team'' \<and>
      rr_agentId (fst (resolveAgentRoute False sample_route_config nameless empty_caches)) = ''people''"
  by code_simp

text \<open>A route goes to an agent that exists, and its session is that agent's. The agent is a
  configured one or the default; the session key parses back to it; and last-route updates go
  to the main session exactly when the session is the main one.\<close>

theorem route_agent_and_session:
  assumes "agent_lookup cfg \<noteq> []" and "route_reachable cacheable cfg st"
    and "cacheable (normalize_request input)" and "fst (resolveAgentRoute verbose cfg input st) = route"
  shows "rr_agentId route \<in> insert (normalizeAgentId (Some (resolveDefaultAgentId cfg))) (configured_ids cfg) \<and>
    map_option pa_agentId (parseAgentSessionKey (Some (rr_sessionKey route))) =
      Some (normalizeAgentId (Some (rr_agentId route))) \<and>
    (rr_lastRoutePolicy route = PolicyMain) = (rr_sessionKey route = rr_mainSessionKey route)"
proof -
  have "route = reference_route cfg (normalize_request input)"
    using assms(4) resolve_cacheable [OF conjunct1 [OF reachable_evaluated [OF assms(2)]]
        reachable_routes [OF assms(2)] assms(3), of verbose] by simp
  then obtain i m d where route: "route = choose_route cfg (normalize_request input) i m d"
    using reference_chosen by metis
  have agent: "rr_agentId route = pickFirstExistingAgentId cfg i"
    by (simp add: route choose_route_def Let_def)
  have "(rr_lastRoutePolicy route = PolicyMain) = (rr_sessionKey route = rr_mainSessionKey route)"
    by (simp add: route choose_route_def deriveLastRoutePolicy_def Let_def)
  then show ?thesis
    using chosen_session [of cfg "normalize_request input" i m d] pick_agent [OF assms(1), of i]
    by (auto simp: agent route [symmetric])
qed

theorem route_agent_and_session_witness:
  "map_option pa_agentId (parseAgentSessionKey (Some (rr_sessionKey
     (fst (resolveAgentRoute False sample_route_config (sample_input (Some (CtDirect, EStr ''U1''))) empty_caches))))) =
   Some (normalizeAgentId (Some (rr_agentId
     (fst (resolveAgentRoute False sample_route_config (sample_input (Some (CtDirect, EStr ''U1''))) empty_caches)))))"
proof -
  have "agent_lookup sample_route_config \<noteq> []" by code_simp
  moreover have "cacheable (normalize_request (sample_input (Some (CtDirect, EStr ''U1''))))" by code_simp
  ultimately show ?thesis
    using route_agent_and_session [OF _ RouteStart [of cacheable sample_route_config] _ refl] by blast
qed

text \<open>C34: Session keys survive parsing. A session key without empty segments parses back to the
  canonical agent and to what follows it, is classified as an agent's key, and is stored
  unchanged whichever agent stores it.\<close>

theorem session_key_roundtrip:
  assumes "[] \<notin> set (split_on (CHR '':'') (buildAgentPeerSessionKey p))"
  shows "parseAgentSessionKey (Some (buildAgentPeerSessionKey p)) =
      Some \<lparr>pa_agentId = normalizeAgentId (Some (pk_agentId p)), pa_rest = session_rest p\<rparr> \<and>
    toAgentStoreSessionKey other (Some (buildAgentPeerSessionKey p)) mainKey = buildAgentPeerSessionKey p \<and>
    classifySessionKeyShape (Some (buildAgentPeerSessionKey p)) = ShapeAgent"
proof -
  note id = normalizeAgentId_form [of "Some (pk_agentId p)"]
  have "[] \<notin> set (split_on (CHR '':'') (session_rest p))"
    using assms by (simp add: build_session_rest split_agent_key [OF id])
  from store_agent_key [OF id conjunct1 [OF session_rest_tidy] this] show ?thesis
    by (simp only: build_session_rest)
qed

theorem session_key_roundtrip_witness:
  "toAgentStoreSessionKey ''other'' (Some (buildAgentPeerSessionKey (sample_peer ''a:b''))) None =
   buildAgentPeerSessionKey (sample_peer ''a:b'')"
proof -
  have "[] \<notin> set (split_on (CHR '':'') (buildAgentPeerSessionKey (sample_peer ''a:b'')))" by code_simp
  from session_key_roundtrip [OF this] show ?thesis by blast
qed

text \<open>C32: Direct sessions are isolated. Two direct messages under one scope share a session key exactly
  when they agree on what the scope separates: the agent, the linked or lower-case peer, and,
  where the scope says so, the channel and the account.\<close>

theorem direct_sessions_isolated:
  assumes "nullish (pk_peerKind p) CtDirect = CtDirect" and "nullish (pk_peerKind q) CtDirect = CtDirect"
    and "nullish (pk_dmScope p) ScopeMain = nullish (pk_dmScope q) ScopeMain"
    and "direct_peer p \<noteq> []" and "direct_peer q \<noteq> []"
    and "CHR '':'' \<notin> set (key_channel (pk_channel p))" and "CHR '':'' \<notin> set (key_channel (pk_channel q))"
  shows "(buildAgentPeerSessionKey p = buildAgentPeerSessionKey q) = (dm_identity p = dm_identity q)"
  using assms by (rule direct_keys_equal)

theorem direct_sessions_isolated_witness:
  "buildAgentPeerSessionKey (sample_peer ''alice'') \<noteq> buildAgentPeerSessionKey (sample_peer ''bob'')"
proof -
  have "dm_identity (sample_peer ''alice'') \<noteq> dm_identity (sample_peer ''bob'')" by code_simp
  moreover have "direct_peer (sample_peer ''alice'') \<noteq> []" "direct_peer (sample_peer ''bob'') \<noteq> []"
    "CHR '':'' \<notin> set (key_channel (pk_channel (sample_peer ''alice'')))"
    "CHR '':'' \<notin> set (key_channel (pk_channel (sample_peer ''bob'')))" by code_simp+
  ultimately show ?thesis
    using direct_sessions_isolated [of "sample_peer ''alice''" "sample_peer ''bob''"]
    by (simp add: sample_peer_def)
qed

text \<open>C40: Agent ids are canonical. A normalised id is non-empty, at most 64 characters from a-z, 0-9, dash
  and underscore, does not begin with a dash, and normalising it again changes nothing unless it
  begins with an underscore and ends with a dash.\<close>

theorem agent_id_canonical:
  "id_form (normalizeAgentId value) \<and>
   (\<not> stable_id (normalizeAgentId value) \<or>
    normalizeAgentId (Some (normalizeAgentId value)) = normalizeAgentId value)"
  using normalizeAgentId_form normalizeAgentId_stable by blast

theorem agent_id_canonical_witness:
  "normalizeAgentId (Some (normalizeAgentId (Some '' Ops Desk! ''))) = normalizeAgentId (Some '' Ops Desk! '')"
proof -
  have "stable_id (normalizeAgentId (Some '' Ops Desk! ''))" by code_simp
  then show ?thesis using agent_id_canonical [of "Some '' Ops Desk! ''"] by blast
qed

end
