(* ===== verification/GatewayNet.thy ===== *)
theory GatewayNet
  imports JsStrings JsMap AllowFrom
begin

section \<open>Client addresses and secrets\<close>

text \<open>
  Models the address functions of \<^verbatim>\<open>src/gateway/net.ts\<close> that decide which client a request
  comes from, \<^verbatim>\<open>src/gateway/origin-check.ts\<close> and \<^verbatim>\<open>src/security/secret-equal.ts\<close>. Parsing
  and classifying an IP address is the work of the package ipaddr.js and of Node's \<open>net.isIP\<close>:
  they are the fields of \<open>ip_library\<close>. The URL parser of the platform is the argument \<open>parse_url\<close>.
  A value tested for truth is passed through \<open>truthy\<close>: the empty string counts as absent.
\<close>

definition truthy :: "string option \<Rightarrow> string option" where
  "truthy v = (case v of Some s \<Rightarrow> if s \<noteq> [] then Some s else None | None \<Rightarrow> None)"

lemma truthy_Some [simp]: "(truthy v = Some s) = (v = Some s \<and> s \<noteq> [])"
  by (auto simp: truthy_def split: option.splits)

lemma truthy_None [simp]: "(truthy v = None) = (v = None \<or> v = Some [])"
  by (auto simp: truthy_def split: option.splits)

subsection \<open>Requests\<close>

datatype header_value = HeaderStr string | HeaderList "string list"

record http_request =
  rq_remoteAddress :: "string option"
  rq_headers :: "(string, header_value) js_map"

definition req_header :: "http_request \<Rightarrow> string \<Rightarrow> header_value option" where
  "req_header req name = map_get (rq_headers req) name"

definition headerValue :: "header_value option \<Rightarrow> string option" where
  "headerValue value =
     (case value of
        None \<Rightarrow> None
      | Some (HeaderStr s) \<Rightarrow> Some s
      | Some (HeaderList xs) \<Rightarrow> (case xs of [] \<Rightarrow> None | x # _ \<Rightarrow> Some x))"

text \<open>\<open>Boolean(header)\<close>: an array is true even when it is empty.\<close>

definition header_truthy :: "header_value option \<Rightarrow> bool" where
  "header_truthy value =
     (case value of None \<Rightarrow> False | Some (HeaderStr s) \<Rightarrow> s \<noteq> [] | Some (HeaderList xs) \<Rightarrow> True)"

definition header_optional_string :: "header_value option \<Rightarrow> string option" where
  "header_optional_string value =
     (case value of Some (HeaderStr s) \<Rightarrow> normalizeOptionalString (Some s) | _ \<Rightarrow> None)"

subsection \<open>IP addresses\<close>

record ip_library =
  ipl_normalize :: "string \<Rightarrow> string option"
  ipl_isLoopback :: "string \<Rightarrow> bool"
  ipl_inCidr :: "string \<Rightarrow> string \<Rightarrow> bool"
  ipl_isIP :: "string \<Rightarrow> nat"

definition normalizeHostHeader :: "string option \<Rightarrow> string" where
  "normalizeHostHeader hostHeader = normalizeLowercaseStringOrEmpty hostHeader"

definition normalizeIp :: "ip_library \<Rightarrow> string option \<Rightarrow> string option" where
  "normalizeIp lib ip = Option.bind ip (ipl_normalize lib)"

definition isLoopbackAddress :: "ip_library \<Rightarrow> string option \<Rightarrow> bool" where
  "isLoopbackAddress lib ip = (case ip of None \<Rightarrow> False | Some i \<Rightarrow> ipl_isLoopback lib i)"

fun index_of_char :: "char \<Rightarrow> string \<Rightarrow> nat option" where
  "index_of_char c [] = None"
| "index_of_char c (x # xs) = (if x = c then Some 0 else map_option Suc (index_of_char c xs))"

definition resolveHostName :: "ip_library \<Rightarrow> string option \<Rightarrow> string" where
  "resolveHostName lib hostHeader =
     (let host = normalizeHostHeader hostHeader;
          unbracketed = (if ipl_isIP lib host = 6 then host else hd (split_on CHR '':'' host))
      in if host = [] then []
         else if starts_with host ''['' then
           (case index_of_char CHR '']'' host of
              Some end_pos \<Rightarrow> drop 1 (take end_pos host)
            | None \<Rightarrow> unbracketed)
         else unbracketed)"

definition stripOptionalPort :: "ip_library \<Rightarrow> string \<Rightarrow> string" where
  "stripOptionalPort lib ip =
     (let plain =
        (if ipl_isIP lib ip \<noteq> 0 then ip
         else case last_index_of ip '':'' of
           None \<Rightarrow> ip
         | Some lastColon \<Rightarrow>
             if CHR ''.'' \<in> set ip \<and> index_of_char CHR '':'' ip = Some lastColon \<and>
                ipl_isIP lib (take lastColon ip) = 4
             then take lastColon ip else ip)
      in if starts_with ip ''['' then
           (case index_of_char CHR '']'' ip of Some end_pos \<Rightarrow> drop 1 (take end_pos ip) | None \<Rightarrow> plain)
         else plain)"

definition parseIpLiteral :: "ip_library \<Rightarrow> string option \<Rightarrow> string option" where
  "parseIpLiteral lib raw =
     (case truthy (map_option js_trim raw) of
        None \<Rightarrow> None
      | Some trimmed \<Rightarrow>
          (case truthy (normalizeIp lib (Some (stripOptionalPort lib trimmed))) of
             None \<Rightarrow> None
           | Some normalized \<Rightarrow> if ipl_isIP lib normalized = 0 then None else Some normalized))"

definition parseRealIp :: "ip_library \<Rightarrow> string option \<Rightarrow> string option" where
  "parseRealIp lib realIp = parseIpLiteral lib realIp"

definition isTrustedProxyAddress :: "ip_library \<Rightarrow> string option \<Rightarrow> string list option \<Rightarrow> bool" where
  "isTrustedProxyAddress lib ip trustedProxies =
     (case truthy (normalizeIp lib ip) of
        None \<Rightarrow> False
      | Some normalized \<Rightarrow>
          list_ex (\<lambda>proxy. js_trim proxy \<noteq> [] \<and> ipl_inCidr lib normalized (js_trim proxy))
            (nullish trustedProxies []))"

text \<open>The hops of the forwarding header that are addresses, in its order.\<close>

definition forwarded_chain :: "ip_library \<Rightarrow> string option \<Rightarrow> string list" where
  "forwarded_chain lib forwardedFor =
     (case forwardedFor of
        None \<Rightarrow> []
      | Some value \<Rightarrow> List.map_filter (\<lambda>entry. truthy (parseIpLiteral lib (Some entry))) (split_on CHR '','' value))"

text \<open>The walk from the right: the argument is the rest of the chain, last hop first.\<close>

fun walk_hops :: "ip_library \<Rightarrow> string list option \<Rightarrow> string list \<Rightarrow> string option" where
  "walk_hops lib trustedProxies [] = None"
| "walk_hops lib trustedProxies (hop # rest) =
     (if isLoopbackAddress lib (Some hop) then walk_hops lib trustedProxies rest
      else if \<not> isTrustedProxyAddress lib (Some hop) trustedProxies then Some hop
      else walk_hops lib trustedProxies rest)"

definition resolveForwardedClientIp ::
  "ip_library \<Rightarrow> string option \<Rightarrow> string list option \<Rightarrow> string option" where
  "resolveForwardedClientIp lib forwardedFor trustedProxies =
     (if nullish trustedProxies [] = [] then None
      else walk_hops lib trustedProxies (rev (forwarded_chain lib forwardedFor)))"

definition resolveClientIp ::
  "ip_library \<Rightarrow> string option \<Rightarrow> string option \<Rightarrow> string option \<Rightarrow> string list option \<Rightarrow> bool \<Rightarrow>
   string option" where
  "resolveClientIp lib remoteAddr forwardedFor realIp trustedProxies allowRealIpFallback =
     (case truthy (normalizeIp lib remoteAddr) of
        None \<Rightarrow> None
      | Some remote \<Rightarrow>
          if \<not> isTrustedProxyAddress lib (Some remote) trustedProxies then Some remote
          else
            (case truthy (resolveForwardedClientIp lib forwardedFor trustedProxies) of
               Some forwardedIp \<Rightarrow> Some forwardedIp
             | None \<Rightarrow> if allowRealIpFallback then parseRealIp lib realIp else None))"

definition resolveRequestClientIp ::
  "ip_library \<Rightarrow> http_request option \<Rightarrow> string list option \<Rightarrow> bool \<Rightarrow> string option" where
  "resolveRequestClientIp lib req trustedProxies allowRealIpFallback =
     (case req of
        None \<Rightarrow> None
      | Some r \<Rightarrow>
          resolveClientIp lib (Some (nullish (rq_remoteAddress r) []))
            (headerValue (req_header r ''x-forwarded-for'')) (headerValue (req_header r ''x-real-ip''))
            trustedProxies allowRealIpFallback)"

subsection \<open>Hosts\<close>

text \<open>\<open>host.replace(/\.+$/, "")\<close>\<close>

definition strip_trailing_dots :: "string \<Rightarrow> string" where
  "strip_trailing_dots s = rev (dropWhile (\<lambda>c. c = CHR ''.'') (rev s))"

definition parseHostForAddressChecks :: "string \<Rightarrow> (bool \<times> string) option" where
  "parseHostForAddressChecks host =
     (if host = [] then None
      else let normalizedHost = normalizeLowercaseStringOrEmpty (Some host);
               canonicalHost = strip_trailing_dots normalizedHost
           in if canonicalHost = ''localhost'' then Some (True, canonicalHost)
              else Some (False,
                if starts_with normalizedHost ''['' \<and> ends_with normalizedHost '']''
                then butlast (drop 1 normalizedHost) else normalizedHost))"

definition isLoopbackHost :: "ip_library \<Rightarrow> string \<Rightarrow> bool" where
  "isLoopbackHost lib host =
     (case parseHostForAddressChecks host of
        None \<Rightarrow> False
      | Some (isLocalhost, unbracketedHost) \<Rightarrow>
          if isLocalhost then True else isLoopbackAddress lib (Some unbracketedHost))"

definition isLocalishHost :: "ip_library \<Rightarrow> string option \<Rightarrow> bool" where
  "isLocalishHost lib hostHeader =
     (let host = resolveHostName lib hostHeader
      in if host = [] then False else isLoopbackHost lib host \<or> ends_with host ''.ts.net'')"

subsection \<open>Browser origins\<close>

record parsed_url =
  pu_origin :: string
  pu_host :: string
  pu_hostname :: string

type_synonym url_parser = "string \<Rightarrow> parsed_url option"

definition parseOrigin :: "url_parser \<Rightarrow> string option \<Rightarrow> parsed_url option" where
  "parseOrigin parse_url originRaw =
     (let trimmed = js_trim (nullish originRaw [])
      in if trimmed = [] \<or> trimmed = ''null'' then None
         else map_option (\<lambda>url. \<lparr>pu_origin = normalizeLowercaseStringOrEmpty (Some (pu_origin url)),
            pu_host = normalizeLowercaseStringOrEmpty (Some (pu_host url)),
            pu_hostname = normalizeLowercaseStringOrEmpty (Some (pu_hostname url))\<rparr>) (parse_url trimmed))"

datatype origin_match = MatchedAllowlist | MatchedHostHeader | MatchedLoopback

datatype origin_result = OriginOk origin_match | OriginRefused string

definition checkBrowserOrigin ::
  "ip_library \<Rightarrow> url_parser \<Rightarrow> string option \<Rightarrow> string option \<Rightarrow> string list option \<Rightarrow> bool option \<Rightarrow>
   bool \<Rightarrow> origin_result" where
  "checkBrowserOrigin lib parse_url requestHost origin allowedOrigins allowHostHeaderOriginFallback isLocalClient =
     (case parseOrigin parse_url origin of
        None \<Rightarrow> OriginRefused ''origin missing or invalid''
      | Some parsedOrigin \<Rightarrow>
          let allowlist = List.map_filter (\<lambda>value. truthy (normalizeOptionalLowercaseString (Some value)))
                (nullish allowedOrigins []);
              host = normalizeHostHeader requestHost
          in if ''*'' \<in> set allowlist \<or> pu_origin parsedOrigin \<in> set allowlist
             then OriginOk MatchedAllowlist
             else if allowHostHeaderOriginFallback = Some True \<and> host \<noteq> [] \<and> pu_host parsedOrigin = host
             then OriginOk MatchedHostHeader
             else if isLocalClient \<and> isLoopbackHost lib (pu_hostname parsedOrigin)
             then OriginOk MatchedLoopback
             else OriginRefused ''origin not allowed'')"

subsection \<open>Secrets\<close>

text \<open>The UTF-8 bytes of a character below 256, and \<open>Buffer.from(s, "utf8")\<close>.\<close>

definition utf8_char :: "char \<Rightarrow> nat list" where
  "utf8_char c = (let n = of_char c in if n < 128 then [n] else [192 + n div 64, 128 + n mod 64])"

definition utf8_bytes :: "string \<Rightarrow> nat list" where
  "utf8_bytes s = concat (map utf8_char s)"

definition padSecretBytes :: "nat list \<Rightarrow> nat \<Rightarrow> nat list" where
  "padSecretBytes bytes len = (if length bytes = len then bytes else bytes @ replicate (len - length bytes) 0)"

definition safeEqualSecret :: "string option \<Rightarrow> string option \<Rightarrow> bool" where
  "safeEqualSecret provided expected =
     (case (provided, expected) of
        (Some p, Some e) \<Rightarrow>
          let providedBytes = utf8_bytes p; expectedBytes = utf8_bytes e;
              byteLength = max (length providedBytes) (length expectedBytes)
          in if byteLength = 0 then True
             else padSecretBytes providedBytes byteLength = padSecretBytes expectedBytes byteLength \<and>
                  length providedBytes = length expectedBytes
      | _ \<Rightarrow> False)"

lemma utf8_char_prefix:
  assumes "utf8_char c @ xs = utf8_char d @ ys"
  shows "c = d \<and> xs = ys"
proof -
  let ?n = "of_char c :: nat" and ?m = "of_char d :: nat"
  have lt: "?n < 256" "?m < 256" by simp_all
  have "?n = ?m \<and> xs = ys"
  proof (cases "?n < 128"; cases "?m < 128")
    assume "\<not> ?n < 128" "\<not> ?m < 128"
    then have "192 + ?n div 64 = 192 + ?m div 64" "128 + ?n mod 64 = 128 + ?m mod 64" "xs = ys"
      using assms by (simp_all add: utf8_char_def Let_def)
    then show ?thesis by (metis add_left_cancel div_mult_mod_eq)
  qed (use assms lt in \<open>auto simp: utf8_char_def Let_def\<close>)
  then show ?thesis by (metis char_of_char)
qed

lemma utf8_bytes_inject: "(utf8_bytes a = utf8_bytes b) = (a = b)"
proof (induction a arbitrary: b)
  case Nil
  show ?case by (cases b) (auto simp: utf8_bytes_def utf8_char_def Let_def)
next
  case (Cons c a)
  show ?case
  proof (cases b)
    case Nil
    then show ?thesis by (auto simp: utf8_bytes_def utf8_char_def Let_def)
  next
    case (Cons d b')
    then show ?thesis using Cons.IH [of b'] utf8_char_prefix [of c "utf8_bytes a" d "utf8_bytes b'"]
      by (auto simp: utf8_bytes_def)
  qed
qed

lemma utf8_bytes_Nil [simp]: "(utf8_bytes s = []) = (s = [])"
  using utf8_bytes_inject [of s "[]"] by (simp add: utf8_bytes_def)

text \<open>The padded comparison is equality of the strings.\<close>

lemma safeEqualSecret_eq [simp]: "safeEqualSecret (Some a) (Some b) = (a = b)"
  by (auto simp: safeEqualSecret_def padSecretBytes_def Let_def utf8_bytes_inject
      dest: utf8_bytes_inject [THEN iffD1] split: if_splits)

lemma safeEqualSecret_None [simp]: "\<not> safeEqualSecret None b" "\<not> safeEqualSecret a None"
  by (auto simp: safeEqualSecret_def split: option.split)

subsection \<open>Facts about the client address\<close>

lemma walk_hops_append:
  "walk_hops lib tp (xs @ ys) = (case walk_hops lib tp xs of Some h \<Rightarrow> Some h | None \<Rightarrow> walk_hops lib tp ys)"
  by (induction xs) simp_all

lemma walk_hops_Some:
  "walk_hops lib tp hops = Some h \<Longrightarrow>
    h \<in> set hops \<and> \<not> isLoopbackAddress lib (Some h) \<and> \<not> isTrustedProxyAddress lib (Some h) tp"
  by (induction hops) (auto split: if_splits)

lemma walk_hops_None:
  "walk_hops lib tp hops = None \<longleftrightarrow>
    (\<forall>h\<in>set hops. isLoopbackAddress lib (Some h) \<or> isTrustedProxyAddress lib (Some h) tp)"
  by (induction hops) auto

lemma forwarded_chain_cut:
  "forwarded_chain lib (Some (a @ '','' @ b)) = forwarded_chain lib (Some a) @ forwarded_chain lib (Some b)"
  by (simp add: forwarded_chain_def split_on_cut map_filter_def)

lemma forwarded_chain_nonempty: "h \<in> set (forwarded_chain lib f) \<Longrightarrow> h \<noteq> []"
  by (auto simp: forwarded_chain_def map_filter_def truthy_def split: option.splits if_splits)

lemma forwarded_prefix:
  assumes "resolveForwardedClientIp lib (Some b) tp = Some h"
  shows "resolveForwardedClientIp lib (Some (a @ '','' @ b)) tp = Some h"
  using assms by (auto simp: resolveForwardedClientIp_def forwarded_chain_cut [simplified] walk_hops_append
      split: if_splits)

lemma forwarded_untrusted:
  assumes "resolveForwardedClientIp lib f tp = Some h"
  shows "h \<noteq> [] \<and> \<not> isLoopbackAddress lib (Some h) \<and> \<not> isTrustedProxyAddress lib (Some h) tp"
  using assms walk_hops_Some [of lib tp "rev (forwarded_chain lib f)" h] forwarded_chain_nonempty [of h lib f]
  by (auto simp: resolveForwardedClientIp_def split: if_splits)

end
