(* ===== verification/GatewayAuth.thy ===== *)
theory GatewayAuth
  imports GatewayNet RateLimits
begin

section \<open>Gateway authentication\<close>

text \<open>
  Models \<^verbatim>\<open>src/gateway/auth.ts\<close>: the shared token and password, trusted proxies, Tailscale
  identity headers, and how they use the failure limiter of \<open>RateLimits\<close>. The limiter is present
  when \<open>gp_limiter\<close> is given; its entries are the state. \<open>now\<close> is the time of the limiter's
  check and \<open>later\<close> the time of a failure record, after the Tailscale lookup. Parameters are the
  address library, the URL parser and the lookup \<open>whois\<close> of the Tailscale daemon.
\<close>

subsection \<open>Configuration and requests\<close>

datatype auth_mode = AuthModeNone | AuthModeToken | AuthModePassword | AuthModeTrustedProxy

datatype auth_method =
    MethodNone | MethodToken | MethodPassword | MethodTailscale | MethodDeviceToken
  | MethodBootstrapToken | MethodTrustedProxy

record gateway_auth_result =
  gr_ok :: bool
  gr_method :: "auth_method option"
  gr_user :: "string option"
  gr_reason :: "string option"
  gr_rateLimited :: bool
  gr_retryAfterMs :: "int option"

definition auth_ok :: "auth_method \<Rightarrow> string option \<Rightarrow> gateway_auth_result" where
  "auth_ok m user = \<lparr>gr_ok = True, gr_method = Some m, gr_user = user, gr_reason = None,
     gr_rateLimited = False, gr_retryAfterMs = None\<rparr>"

definition auth_refused :: "string \<Rightarrow> gateway_auth_result" where
  "auth_refused reason = \<lparr>gr_ok = False, gr_method = None, gr_user = None, gr_reason = Some reason,
     gr_rateLimited = False, gr_retryAfterMs = None\<rparr>"

definition auth_rate_limited :: "int \<Rightarrow> gateway_auth_result" where
  "auth_rate_limited retryAfterMs = \<lparr>gr_ok = False, gr_method = None, gr_user = None,
     gr_reason = Some ''rate_limited'', gr_rateLimited = True, gr_retryAfterMs = Some retryAfterMs\<rparr>"

record trusted_proxy_config =
  tp_userHeader :: string
  tp_requiredHeaders :: "string list option"
  tp_allowUsers :: "string list option"
  tp_allowLoopback :: "bool option"

record resolved_gateway_auth =
  rga_mode :: auth_mode
  rga_token :: "string option"
  rga_password :: "string option"
  rga_allowTailscale :: bool
  rga_trustedProxy :: "trusted_proxy_config option"

record connect_auth =
  cx_token :: "string option"
  cx_password :: "string option"

datatype auth_surface = SurfaceHttp | SurfaceWsControlUi

record browser_origin_policy =
  bo_requestHost :: "string option"
  bo_origin :: "string option"
  bo_allowedOrigins :: "string list option"
  bo_allowHostHeaderOriginFallback :: "bool option"

record gateway_connect_params =
  gp_auth :: resolved_gateway_auth
  gp_connectAuth :: "connect_auth option"
  gp_req :: "http_request option"
  gp_trustedProxies :: "string list option"
  gp_authSurface :: "auth_surface option"
  gp_limiter :: "auth_limiter_config option"
  gp_clientIp :: "string option"
  gp_rateLimitScope :: "string option"
  gp_allowRealIpFallback :: "bool option"
  gp_browserOriginPolicy :: "browser_origin_policy option"

definition AUTH_RATE_LIMIT_SCOPE_SHARED_SECRET :: string where
  "AUTH_RATE_LIMIT_SCOPE_SHARED_SECRET = ''shared-secret''"

definition AUTH_RATE_LIMIT_SCOPE_DEVICE_TOKEN :: string where
  "AUTH_RATE_LIMIT_SCOPE_DEVICE_TOKEN = ''device-token''"

subsection \<open>Local requests\<close>

definition hasExplicitSharedSecretAuth :: "connect_auth option \<Rightarrow> bool" where
  "hasExplicitSharedSecretAuth connectAuth =
     (normalizeOptionalString (Option.bind connectAuth cx_token) \<noteq> None \<or>
      normalizeOptionalString (Option.bind connectAuth cx_password) \<noteq> None)"

definition hasForwardedRequestHeaders :: "http_request option \<Rightarrow> bool" where
  "hasForwardedRequestHeaders req =
     (case req of
        None \<Rightarrow> False
      | Some r \<Rightarrow> list_ex (\<lambda>name. header_truthy (req_header r name))
          [''forwarded'', ''x-forwarded-for'', ''x-forwarded-proto'', ''x-real-ip'', ''x-forwarded-host''])"

definition isLocalDirectRequest :: "ip_library \<Rightarrow> http_request option \<Rightarrow> bool" where
  "isLocalDirectRequest lib req =
     (case req of
        None \<Rightarrow> False
      | Some r \<Rightarrow> if \<not> hasForwardedRequestHeaders req then isLoopbackAddress lib (rq_remoteAddress r) else False)"

subsection \<open>Tailscale\<close>

record tailscale_user =
  tu_login :: string
  tu_name :: string
  tu_profilePic :: "string option"

record tailscale_identity =
  ti_login :: string
  ti_name :: "string option"

definition TAILSCALE_TRUSTED_PROXIES :: "string list" where
  "TAILSCALE_TRUSTED_PROXIES = [''127.0.0.1'', ''::1'']"

definition resolveTailscaleClientIp :: "ip_library \<Rightarrow> http_request option \<Rightarrow> string option" where
  "resolveTailscaleClientIp lib req =
     (case req of
        None \<Rightarrow> None
      | Some r \<Rightarrow>
          resolveClientIp lib (Some (nullish (rq_remoteAddress r) []))
            (headerValue (req_header r ''x-forwarded-for'')) None (Some TAILSCALE_TRUSTED_PROXIES) False)"

definition getTailscaleUser :: "http_request option \<Rightarrow> tailscale_user option" where
  "getTailscaleUser req =
     (case req of
        None \<Rightarrow> None
      | Some r \<Rightarrow>
          (case header_optional_string (req_header r ''tailscale-user-login'') of
             None \<Rightarrow> None
           | Some login \<Rightarrow>
               Some \<lparr>tu_login = login,
                 tu_name = nullish (header_optional_string (req_header r ''tailscale-user-name'')) login,
                 tu_profilePic = header_optional_string (req_header r ''tailscale-user-profile-pic'')\<rparr>))"

definition hasTailscaleProxyHeaders :: "http_request option \<Rightarrow> bool" where
  "hasTailscaleProxyHeaders req =
     (case req of
        None \<Rightarrow> False
      | Some r \<Rightarrow> header_truthy (req_header r ''x-forwarded-for'') \<and>
          header_truthy (req_header r ''x-forwarded-proto'') \<and>
          header_truthy (req_header r ''x-forwarded-host''))"

definition isTailscaleProxyRequest :: "ip_library \<Rightarrow> http_request option \<Rightarrow> bool" where
  "isTailscaleProxyRequest lib req =
     (case req of
        None \<Rightarrow> False
      | Some r \<Rightarrow> isLoopbackAddress lib (rq_remoteAddress r) \<and> hasTailscaleProxyHeaders req)"

definition normalizeLogin :: "string \<Rightarrow> string" where
  "normalizeLogin login = normalizeLowercaseStringOrEmpty (Some login)"

definition resolveVerifiedTailscaleUser ::
  "ip_library \<Rightarrow> (string \<Rightarrow> tailscale_identity option) \<Rightarrow> http_request option \<Rightarrow> string + tailscale_user" where
  "resolveVerifiedTailscaleUser lib whois_lookup req =
     (case getTailscaleUser req of
        None \<Rightarrow> Inl ''tailscale_user_missing''
      | Some tailscaleUser \<Rightarrow>
          if \<not> isTailscaleProxyRequest lib req then Inl ''tailscale_proxy_missing''
          else case truthy (resolveTailscaleClientIp lib req) of
            None \<Rightarrow> Inl ''tailscale_whois_failed''
          | Some clientIp \<Rightarrow>
              (case whois_lookup clientIp of
                 None \<Rightarrow> Inl ''tailscale_whois_failed''
               | Some whois \<Rightarrow>
                   if ti_login whois = [] then Inl ''tailscale_whois_failed''
                   else if normalizeLogin (ti_login whois) \<noteq> normalizeLogin (tu_login tailscaleUser)
                   then Inl ''tailscale_user_mismatch''
                   else Inr \<lparr>tu_login = ti_login whois,
                          tu_name = nullish (ti_name whois) (tu_name tailscaleUser),
                          tu_profilePic = tu_profilePic tailscaleUser\<rparr>))"

subsection \<open>The configuration check at startup\<close>

datatype auth_config_error =
    TokenNotConfigured | PasswordIsReference | PasswordNotConfigured
  | TrustedProxyNotConfigured | TrustedProxyNoUserHeader | TrustedProxyWithToken

text \<open>\<open>passwordIsReference\<close>: the raw configuration holds a password that is not a string.\<close>

definition assertGatewayAuthConfigured ::
  "resolved_gateway_auth \<Rightarrow> bool \<Rightarrow> auth_config_error option" where
  "assertGatewayAuthConfigured auth passwordIsReference =
     (if rga_mode auth = AuthModeToken \<and> truthy (rga_token auth) = None then
        (if rga_allowTailscale auth then None else Some TokenNotConfigured)
      else if rga_mode auth = AuthModePassword \<and> truthy (rga_password auth) = None then
        (if passwordIsReference then Some PasswordIsReference else Some PasswordNotConfigured)
      else if rga_mode auth = AuthModeTrustedProxy then
        (case rga_trustedProxy auth of
           None \<Rightarrow> Some TrustedProxyNotConfigured
         | Some tp \<Rightarrow>
             if js_trim (tp_userHeader tp) = [] then Some TrustedProxyNoUserHeader
             else if truthy (rga_token auth) \<noteq> None then Some TrustedProxyWithToken
             else None)
      else None)"

subsection \<open>Trusted proxies\<close>

text \<open>The header of a name in the configuration, blank values counting as missing.\<close>

definition nonblank_header :: "http_request \<Rightarrow> string \<Rightarrow> string option" where
  "nonblank_header r name =
     (case headerValue (req_header r (normalizeLowercaseStringOrEmpty (Some name))) of
        None \<Rightarrow> None
      | Some value \<Rightarrow> if value = [] \<or> js_trim value = [] then None else Some value)"

definition authorizeTrustedProxy ::
  "ip_library \<Rightarrow> http_request option \<Rightarrow> string list option \<Rightarrow> trusted_proxy_config \<Rightarrow> string + string" where
  "authorizeTrustedProxy lib req trustedProxies trustedProxyConfig =
     (case req of
        None \<Rightarrow> Inl ''trusted_proxy_no_request''
      | Some r \<Rightarrow>
          if truthy (rq_remoteAddress r) = None \<or>
             \<not> isTrustedProxyAddress lib (rq_remoteAddress r) trustedProxies
          then Inl ''trusted_proxy_untrusted_source''
          else if isLoopbackAddress lib (rq_remoteAddress r) \<and> tp_allowLoopback trustedProxyConfig \<noteq> Some True
          then Inl ''trusted_proxy_loopback_source''
          else case find (\<lambda>h. nonblank_header r h = None) (nullish (tp_requiredHeaders trustedProxyConfig) []) of
            Some header \<Rightarrow> Inl (''trusted_proxy_missing_header_'' @ header)
          | None \<Rightarrow>
              (case nonblank_header r (tp_userHeader trustedProxyConfig) of
                 None \<Rightarrow> Inl ''trusted_proxy_user_missing''
               | Some value \<Rightarrow>
                   let user = js_trim value;
                       allowUsers = nullish (tp_allowUsers trustedProxyConfig) []
                   in if length allowUsers > 0 \<and> user \<notin> set allowUsers
                      then Inl ''trusted_proxy_user_not_allowed'' else Inr user))"

definition shouldAllowTailscaleHeaderAuth :: "auth_surface \<Rightarrow> bool" where
  "shouldAllowTailscaleHeaderAuth surface = (surface = SurfaceWsControlUi)"

definition authorizeTrustedProxyBrowserOrigin ::
  "ip_library \<Rightarrow> url_parser \<Rightarrow> auth_surface \<Rightarrow> browser_origin_policy option \<Rightarrow> string option" where
  "authorizeTrustedProxyBrowserOrigin lib parse_url surface policy =
     (if surface \<noteq> SurfaceHttp then None
      else case truthy (map_option js_trim (Option.bind policy bo_origin)) of
        None \<Rightarrow> None
      | Some origin \<Rightarrow>
          (case checkBrowserOrigin lib parse_url (Option.bind policy bo_requestHost) (Some origin)
             (Option.bind policy bo_allowedOrigins)
             (Option.bind policy bo_allowHostHeaderOriginFallback) False of
             OriginOk m \<Rightarrow> None
           | OriginRefused reason \<Rightarrow> Some ''trusted_proxy_origin_not_allowed''))"

subsection \<open>Shared secrets\<close>

text \<open>\<open>resolveClientIp({ remoteAddr: ip })\<close>, the address the limiter keys on; then what happens to
  the limiter, if there is one.\<close>

definition limiter_ip :: "ip_library \<Rightarrow> ip_resolver" where
  "limiter_ip lib ip = resolveClientIp lib ip None None None False"

definition limiter_failure ::
  "ip_library \<Rightarrow> auth_limiter_config option \<Rightarrow> string option \<Rightarrow> string \<Rightarrow> int \<Rightarrow> auth_entries \<Rightarrow> auth_entries" where
  "limiter_failure lib limiter ip scope now entries =
     (case limiter of
        None \<Rightarrow> entries
      | Some cfg \<Rightarrow> auth_recordFailure cfg (limiter_ip lib) (\<lambda>i. isLoopbackAddress lib (Some i)) ip (Some scope) now entries)"

definition limiter_reset ::
  "ip_library \<Rightarrow> auth_limiter_config option \<Rightarrow> string option \<Rightarrow> string \<Rightarrow> auth_entries \<Rightarrow> auth_entries" where
  "limiter_reset lib limiter ip scope entries =
     (case limiter of None \<Rightarrow> entries | Some cfg \<Rightarrow> auth_reset (limiter_ip lib) ip (Some scope) entries)"

definition authorizeTokenAuth ::
  "ip_library \<Rightarrow> string option \<Rightarrow> string option \<Rightarrow> auth_limiter_config option \<Rightarrow> string option \<Rightarrow> string \<Rightarrow>
   int \<Rightarrow> auth_entries \<Rightarrow> gateway_auth_result \<times> auth_entries" where
  "authorizeTokenAuth lib authToken connectToken limiter ip rateLimitScope now entries =
     (if truthy authToken = None then (auth_refused ''token_missing_config'', entries)
      else if truthy connectToken = None then (auth_refused ''token_missing'', entries)
      else if \<not> safeEqualSecret connectToken authToken then
        (auth_refused ''token_mismatch'', limiter_failure lib limiter ip rateLimitScope now entries)
      else (auth_ok MethodToken None, limiter_reset lib limiter ip rateLimitScope entries))"

definition authorizePasswordAuth ::
  "ip_library \<Rightarrow> string option \<Rightarrow> string option \<Rightarrow> auth_limiter_config option \<Rightarrow> string option \<Rightarrow> string \<Rightarrow>
   int \<Rightarrow> auth_entries \<Rightarrow> gateway_auth_result \<times> auth_entries" where
  "authorizePasswordAuth lib authPassword connectPassword limiter ip rateLimitScope now entries =
     (if truthy authPassword = None then (auth_refused ''password_missing_config'', entries)
      else if truthy connectPassword = None then (auth_refused ''password_missing'', entries)
      else if \<not> safeEqualSecret connectPassword authPassword then
        (auth_refused ''password_mismatch'', limiter_failure lib limiter ip rateLimitScope now entries)
      else (auth_ok MethodPassword None, limiter_reset lib limiter ip rateLimitScope entries))"

subsection \<open>The decision\<close>

definition connect_surface :: "gateway_connect_params \<Rightarrow> auth_surface" where
  "connect_surface p = nullish (gp_authSurface p) SurfaceHttp"

text \<open>The address the limiter counts, and its scope.\<close>

definition connect_ip :: "ip_library \<Rightarrow> gateway_connect_params \<Rightarrow> string option" where
  "connect_ip lib p =
     nullish_opt (gp_clientIp p)
       (nullish_opt (resolveRequestClientIp lib (gp_req p) (gp_trustedProxies p) (gp_allowRealIpFallback p = Some True))
         (Option.bind (gp_req p) rq_remoteAddress))"

definition connect_scope :: "gateway_connect_params \<Rightarrow> string" where
  "connect_scope p = nullish (gp_rateLimitScope p) AUTH_RATE_LIMIT_SCOPE_SHARED_SECRET"

definition connect_limiter_check ::
  "ip_library \<Rightarrow> gateway_connect_params \<Rightarrow> int \<Rightarrow> auth_entries \<Rightarrow> consume_result option \<times> auth_entries" where
  "connect_limiter_check lib p now entries =
     (case gp_limiter p of
        None \<Rightarrow> (None, entries)
      | Some cfg \<Rightarrow>
          let (r, entries1) = auth_check cfg (limiter_ip lib) (\<lambda>i. isLoopbackAddress lib (Some i))
                (connect_ip lib p) (Some (connect_scope p)) now entries
          in (Some r, entries1))"

text \<open>The branches after the limiter's check.\<close>

definition authorize_secret ::
  "ip_library \<Rightarrow> (string \<Rightarrow> tailscale_identity option) \<Rightarrow> gateway_connect_params \<Rightarrow> int \<Rightarrow>
   auth_entries \<Rightarrow> gateway_auth_result \<times> auth_entries" where
  "authorize_secret lib whois_lookup p later entries =
     (let auth = gp_auth p; ip = connect_ip lib p; scope = connect_scope p;
          tailscaleCheck =
            (if shouldAllowTailscaleHeaderAuth (connect_surface p) \<and> rga_allowTailscale auth \<and>
                \<not> isLocalDirectRequest lib (gp_req p) \<and> \<not> hasExplicitSharedSecretAuth (gp_connectAuth p)
             then resolveVerifiedTailscaleUser lib whois_lookup (gp_req p) else Inl [])
      in case tailscaleCheck of
        Inr user \<Rightarrow> (auth_ok MethodTailscale (Some (tu_login user)), limiter_reset lib (gp_limiter p) ip scope entries)
      | Inl reason \<Rightarrow>
          if rga_mode auth = AuthModeToken then
            authorizeTokenAuth lib (rga_token auth) (Option.bind (gp_connectAuth p) cx_token)
              (gp_limiter p) ip scope later entries
          else if rga_mode auth = AuthModePassword then
            authorizePasswordAuth lib (rga_password auth) (Option.bind (gp_connectAuth p) cx_password)
              (gp_limiter p) ip scope later entries
          else (auth_refused ''unauthorized'', limiter_failure lib (gp_limiter p) ip scope later entries))"

definition authorizeGatewayConnectCore ::
  "ip_library \<Rightarrow> url_parser \<Rightarrow> (string \<Rightarrow> tailscale_identity option) \<Rightarrow> gateway_connect_params \<Rightarrow> int \<Rightarrow> int \<Rightarrow>
   auth_entries \<Rightarrow> gateway_auth_result \<times> auth_entries" where
  "authorizeGatewayConnectCore lib parse_url whois_lookup p now later entries =
     (let auth = gp_auth p; ip = connect_ip lib p; scope = connect_scope p in
      if rga_mode auth = AuthModeTrustedProxy then
        (case rga_trustedProxy auth of
           None \<Rightarrow> (auth_refused ''trusted_proxy_config_missing'', entries)
         | Some tp \<Rightarrow>
             if nullish (gp_trustedProxies p) [] = []
             then (auth_refused ''trusted_proxy_no_proxies_configured'', entries)
             else case authorizeTrustedProxy lib (gp_req p) (gp_trustedProxies p) tp of
               Inl reason \<Rightarrow> (auth_refused reason, entries)
             | Inr user \<Rightarrow>
                 (case authorizeTrustedProxyBrowserOrigin lib parse_url (connect_surface p) (gp_browserOriginPolicy p) of
                    Some reason \<Rightarrow> (auth_refused reason, entries)
                  | None \<Rightarrow> (auth_ok MethodTrustedProxy (Some user), entries)))
      else if rga_mode auth = AuthModeNone then (auth_ok MethodNone None, entries)
      else
        let (limit, entries1) = connect_limiter_check lib p now entries in
        case limit of
          Some r \<Rightarrow>
            if \<not> cr_allowed r then (auth_rate_limited (cr_retryAfterMs r), entries1)
            else authorize_secret lib whois_lookup p later entries1
        | None \<Rightarrow> authorize_secret lib whois_lookup p later entries1)"

text \<open>
  \<open>authorizeGatewayConnect\<close> runs the core at once, or after the earlier attempts of the same
  address and scope when a Tailscale lookup may suspend it; which of the two is
  \<open>runs_serialized\<close>, and the queue itself is the theory \<open>AttemptQueue\<close>.
\<close>

definition runs_serialized :: "ip_library \<Rightarrow> gateway_connect_params \<Rightarrow> bool" where
  "runs_serialized lib p =
     (gp_limiter p \<noteq> None \<and> shouldAllowTailscaleHeaderAuth (connect_surface p) \<and>
      rga_allowTailscale (gp_auth p) \<and> \<not> isLocalDirectRequest lib (gp_req p))"

definition authorizeHttpGatewayConnect ::
  "ip_library \<Rightarrow> url_parser \<Rightarrow> (string \<Rightarrow> tailscale_identity option) \<Rightarrow> gateway_connect_params \<Rightarrow> int \<Rightarrow> int \<Rightarrow>
   auth_entries \<Rightarrow> gateway_auth_result \<times> auth_entries" where
  "authorizeHttpGatewayConnect lib parse_url whois_lookup p now later entries =
     authorizeGatewayConnectCore lib parse_url whois_lookup (p\<lparr>gp_authSurface := Some SurfaceHttp\<rparr>) now later entries"

definition authorizeWsControlUiGatewayConnect ::
  "ip_library \<Rightarrow> url_parser \<Rightarrow> (string \<Rightarrow> tailscale_identity option) \<Rightarrow> gateway_connect_params \<Rightarrow> int \<Rightarrow> int \<Rightarrow>
   auth_entries \<Rightarrow> gateway_auth_result \<times> auth_entries" where
  "authorizeWsControlUiGatewayConnect lib parse_url whois_lookup p now later entries =
     authorizeGatewayConnectCore lib parse_url whois_lookup (p\<lparr>gp_authSurface := Some SurfaceWsControlUi\<rparr>) now later entries"

end
