(* ===== verification/GatewayAuthProps.thy ===== *)
theory GatewayAuthProps
  imports GatewayAuth
begin

section \<open>What gateway authentication guarantees\<close>

text \<open>
  Properties of \<open>GatewayAuth\<close> together with the limiter of \<open>RateLimits\<close> and the client address of
  \<open>GatewayNet\<close>: who gets in, how guessing a secret ends, and which errors a checked configuration
  rules out.
\<close>

lemma auth_result_simps [simp]:
  "gr_ok (auth_ok m u)" "gr_method (auth_ok m u) = Some m" "gr_user (auth_ok m u) = u"
  "gr_reason (auth_ok m u) = None" "\<not> gr_ok (auth_refused r)" "gr_reason (auth_refused r) = Some r"
  "\<not> gr_ok (auth_rate_limited n)" "gr_reason (auth_rate_limited n) = Some ''rate_limited''"
  "gr_rateLimited (auth_rate_limited n)" "gr_retryAfterMs (auth_rate_limited n) = Some n"
  "\<not> gr_rateLimited (auth_refused r)" "\<not> gr_rateLimited (auth_ok m u)"
  by (simp_all add: auth_ok_def auth_refused_def auth_rate_limited_def)

subsection \<open>Who gets in\<close>

definition token_presented :: "gateway_connect_params \<Rightarrow> bool" where
  "token_presented p = (\<exists>t. t \<noteq> [] \<and> rga_token (gp_auth p) = Some t \<and>
     Option.bind (gp_connectAuth p) cx_token = Some t)"

definition password_presented :: "gateway_connect_params \<Rightarrow> bool" where
  "password_presented p = (\<exists>t. t \<noteq> [] \<and> rga_password (gp_auth p) = Some t \<and>
     Option.bind (gp_connectAuth p) cx_password = Some t)"

text \<open>The connection comes from a configured proxy, over loopback only when that is allowed, and the
  proxy names an allowed user.\<close>

definition proxy_vouches :: "ip_library \<Rightarrow> gateway_connect_params \<Rightarrow> string \<Rightarrow> bool" where
  "proxy_vouches lib p user = (\<exists>r tp. gp_req p = Some r \<and> rga_trustedProxy (gp_auth p) = Some tp \<and>
     isTrustedProxyAddress lib (rq_remoteAddress r) (gp_trustedProxies p) \<and>
     (isLoopbackAddress lib (rq_remoteAddress r) \<longrightarrow> tp_allowLoopback tp = Some True) \<and>
     (\<forall>h\<in>set (nullish (tp_requiredHeaders tp) []). nonblank_header r h \<noteq> None) \<and>
     map_option js_trim (nonblank_header r (tp_userHeader tp)) = Some user \<and>
     (nullish (tp_allowUsers tp) [] = [] \<or> user \<in> set (nullish (tp_allowUsers tp) [])))"

text \<open>The connection is a local Tailscale proxy's, no secret was given, and the Tailscale daemon
  names the user of the forwarded address as the header does.\<close>

definition tailscale_vouches ::
  "ip_library \<Rightarrow> (string \<Rightarrow> tailscale_identity option) \<Rightarrow> gateway_connect_params \<Rightarrow> string \<Rightarrow> bool" where
  "tailscale_vouches lib wh p user = (\<exists>r ip w claimed. gp_req p = Some r \<and>
     connect_surface p = SurfaceWsControlUi \<and> rga_allowTailscale (gp_auth p) \<and>
     \<not> hasExplicitSharedSecretAuth (gp_connectAuth p) \<and> isLoopbackAddress lib (rq_remoteAddress r) \<and>
     resolveTailscaleClientIp lib (Some r) = Some ip \<and> wh ip = Some w \<and> ti_login w = user \<and> user \<noteq> [] \<and>
     header_optional_string (req_header r ''tailscale-user-login'') = Some claimed \<and>
     normalizeLogin claimed = normalizeLogin user)"

lemma trusted_proxy_user:
  assumes "authorizeTrustedProxy lib (gp_req p) (gp_trustedProxies p) tp = Inr user"
    and "rga_trustedProxy (gp_auth p) = Some tp"
  shows "proxy_vouches lib p user"
  using assms by (auto simp: authorizeTrustedProxy_def proxy_vouches_def Let_def find_None_iff
      split: option.splits if_splits)

lemma verified_tailscale_user:
  assumes "resolveVerifiedTailscaleUser lib wh (gp_req p) = Inr u"
    and "connect_surface p = SurfaceWsControlUi" "rga_allowTailscale (gp_auth p)"
    "\<not> hasExplicitSharedSecretAuth (gp_connectAuth p)"
  shows "tailscale_vouches lib wh p (tu_login u)"
  using assms by (auto simp: resolveVerifiedTailscaleUser_def tailscale_vouches_def getTailscaleUser_def
      isTailscaleProxyRequest_def split: option.splits if_splits)

lemma token_auth_ok:
  "gr_ok (fst (authorizeTokenAuth lib (rga_token (gp_auth p)) (Option.bind (gp_connectAuth p) cx_token) l ip s t es))
    \<longleftrightarrow> token_presented p"
  by (auto simp: authorizeTokenAuth_def token_presented_def truthy_def split: option.splits)

lemma password_auth_ok:
  "gr_ok (fst (authorizePasswordAuth lib (rga_password (gp_auth p)) (Option.bind (gp_connectAuth p) cx_password) l ip s t es))
    \<longleftrightarrow> password_presented p"
  by (auto simp: authorizePasswordAuth_def password_presented_def truthy_def split: option.splits)

lemma token_auth_method:
  "gr_ok (fst (authorizeTokenAuth lib a c l ip s t es)) \<Longrightarrow>
    gr_method (fst (authorizeTokenAuth lib a c l ip s t es)) = Some MethodToken"
  by (auto simp: authorizeTokenAuth_def split: if_splits)

lemma password_auth_method:
  "gr_ok (fst (authorizePasswordAuth lib a c l ip s t es)) \<Longrightarrow>
    gr_method (fst (authorizePasswordAuth lib a c l ip s t es)) = Some MethodPassword"
  by (auto simp: authorizePasswordAuth_def split: if_splits)

text \<open>The reason a result stands for.\<close>

definition admitted_by ::
  "ip_library \<Rightarrow> (string \<Rightarrow> tailscale_identity option) \<Rightarrow> gateway_connect_params \<Rightarrow> gateway_auth_result \<Rightarrow> bool" where
  "admitted_by lib wh p r =
     ((rga_mode (gp_auth p) = AuthModeNone \<and> gr_method r = Some MethodNone) \<or>
      (rga_mode (gp_auth p) = AuthModeToken \<and> gr_method r = Some MethodToken \<and> token_presented p) \<or>
      (rga_mode (gp_auth p) = AuthModePassword \<and> gr_method r = Some MethodPassword \<and> password_presented p) \<or>
      (rga_mode (gp_auth p) = AuthModeTrustedProxy \<and> gr_method r = Some MethodTrustedProxy \<and>
       (\<exists>user. gr_user r = Some user \<and> proxy_vouches lib p user)) \<or>
      (rga_mode (gp_auth p) \<in> {AuthModeToken, AuthModePassword} \<and> gr_method r = Some MethodTailscale \<and>
       (\<exists>user. gr_user r = Some user \<and> tailscale_vouches lib wh p user)))"

lemma authorize_secret_ok:
  assumes "gr_ok (fst (authorize_secret lib wh p later es))"
    and "rga_mode (gp_auth p) = AuthModeToken \<or> rga_mode (gp_auth p) = AuthModePassword"
  shows "admitted_by lib wh p (fst (authorize_secret lib wh p later es))"
proof (cases "\<exists>u. shouldAllowTailscaleHeaderAuth (connect_surface p) \<and> rga_allowTailscale (gp_auth p) \<and>
      \<not> isLocalDirectRequest lib (gp_req p) \<and> \<not> hasExplicitSharedSecretAuth (gp_connectAuth p) \<and>
      resolveVerifiedTailscaleUser lib wh (gp_req p) = Inr u")
  case True
  then obtain u where u: "connect_surface p = SurfaceWsControlUi" "rga_allowTailscale (gp_auth p)"
      "\<not> isLocalDirectRequest lib (gp_req p)" "\<not> hasExplicitSharedSecretAuth (gp_connectAuth p)"
      "resolveVerifiedTailscaleUser lib wh (gp_req p) = Inr u"
    by (auto simp: shouldAllowTailscaleHeaderAuth_def)
  then show ?thesis using verified_tailscale_user [OF u(5,1,2,4)] assms(2)
    by (auto simp: authorize_secret_def shouldAllowTailscaleHeaderAuth_def admitted_by_def)
next
  case False
  then have "authorize_secret lib wh p later es =
      (if rga_mode (gp_auth p) = AuthModeToken then
         authorizeTokenAuth lib (rga_token (gp_auth p)) (Option.bind (gp_connectAuth p) cx_token)
           (gp_limiter p) (connect_ip lib p) (connect_scope p) later es
       else authorizePasswordAuth lib (rga_password (gp_auth p)) (Option.bind (gp_connectAuth p) cx_password)
           (gp_limiter p) (connect_ip lib p) (connect_scope p) later es)"
    using assms(2) by (auto simp: authorize_secret_def Let_def split: sum.splits)
  then show ?thesis using assms
    by (auto simp: admitted_by_def token_auth_ok password_auth_ok token_auth_method password_auth_method
        split: if_splits)
qed

lemma authorize_core_ok:
  assumes "gr_ok (fst (authorizeGatewayConnectCore lib pu wh p now later es))"
  shows "admitted_by lib wh p (fst (authorizeGatewayConnectCore lib pu wh p now later es))"
proof (cases "rga_mode (gp_auth p)")
  case AuthModeNone
  then show ?thesis by (simp add: authorizeGatewayConnectCore_def admitted_by_def)
next
  case AuthModeTrustedProxy
  then show ?thesis using assms trusted_proxy_user
    by (auto simp: authorizeGatewayConnectCore_def admitted_by_def Let_def split: option.splits sum.splits if_splits)
next
  case AuthModeToken
  then show ?thesis using assms authorize_secret_ok [of lib wh p later]
    by (auto simp: authorizeGatewayConnectCore_def Let_def case_prod_beta split: option.splits if_splits)
next
  case AuthModePassword
  then show ?thesis using assms authorize_secret_ok [of lib wh p later]
    by (auto simp: authorizeGatewayConnectCore_def Let_def case_prod_beta split: option.splits if_splits)
qed

subsection \<open>Guessing a secret\<close>

text \<open>The limiter's key of an attempt, and the address in it.\<close>

definition attempt_key :: "ip_library \<Rightarrow> gateway_connect_params \<Rightarrow> string" where
  "attempt_key lib p = auth_key (limiter_ip lib) (connect_ip lib p) (Some (connect_scope p))"

definition attempt_exempt :: "ip_library \<Rightarrow> auth_limiter_config \<Rightarrow> gateway_connect_params \<Rightarrow> bool" where
  "attempt_exempt lib cfg p = isExempt cfg (\<lambda>i. isLoopbackAddress lib (Some i))
     (snd (auth_resolveKey (limiter_ip lib) (connect_ip lib p) (Some (connect_scope p))))"

text \<open>The limiter's entries after attempts, each with the times of its check and its record.\<close>

definition connect_all :: "ip_library \<Rightarrow> url_parser \<Rightarrow> (string \<Rightarrow> tailscale_identity option) \<Rightarrow>
    (gateway_connect_params \<times> int \<times> int) list \<Rightarrow> auth_entries \<Rightarrow> auth_entries" where
  "connect_all lib pu wh ps es =
     fold (\<lambda>(p, now, later) es. snd (authorizeGatewayConnectCore lib pu wh p now later es)) ps es"

text \<open>An attempt with the limiter before time \<open>t\<close>; a loopback address that is exempt does not
  share the key.\<close>

definition attempt_before :: "ip_library \<Rightarrow> auth_limiter_config \<Rightarrow> string \<Rightarrow> int \<Rightarrow>
    gateway_connect_params \<times> int \<times> int \<Rightarrow> bool" where
  "attempt_before lib cfg key t = (\<lambda>(p, now, later). gp_limiter p = Some cfg \<and> now < t \<and>
     (attempt_key lib p = key \<longrightarrow> \<not> attempt_exempt lib cfg p))"

lemma limiter_other_key:
  assumes "attempt_key lib p \<noteq> key"
  shows "map_get (limiter_failure lib l (connect_ip lib p) (connect_scope p) t es) key = map_get es key"
    and "map_get (limiter_reset lib l (connect_ip lib p) (connect_scope p) es) key = map_get es key"
    and "map_get (snd (connect_limiter_check lib p t es)) key = map_get es key"
  using assms auth_op_other unfolding attempt_key_def
  by (auto simp: limiter_failure_def limiter_reset_def connect_limiter_check_def Let_def case_prod_beta
      split: option.split)

text \<open>The branch of the mode, after a Tailscale login did not happen.\<close>

definition secret_branch :: "ip_library \<Rightarrow> gateway_connect_params \<Rightarrow> int \<Rightarrow> auth_entries \<Rightarrow>
    gateway_auth_result \<times> auth_entries" where
  "secret_branch lib p later es =
     (if rga_mode (gp_auth p) = AuthModeToken then
        authorizeTokenAuth lib (rga_token (gp_auth p)) (Option.bind (gp_connectAuth p) cx_token)
          (gp_limiter p) (connect_ip lib p) (connect_scope p) later es
      else if rga_mode (gp_auth p) = AuthModePassword then
        authorizePasswordAuth lib (rga_password (gp_auth p)) (Option.bind (gp_connectAuth p) cx_password)
          (gp_limiter p) (connect_ip lib p) (connect_scope p) later es
      else (auth_refused ''unauthorized'',
        limiter_failure lib (gp_limiter p) (connect_ip lib p) (connect_scope p) later es))"

lemma authorize_secret_cases:
  "(\<exists>u. authorize_secret lib wh p later es =
      (auth_ok MethodTailscale (Some u), limiter_reset lib (gp_limiter p) (connect_ip lib p) (connect_scope p) es)) \<or>
   authorize_secret lib wh p later es = secret_branch lib p later es"
proof -
  define check where "check = (if shouldAllowTailscaleHeaderAuth (connect_surface p) \<and> rga_allowTailscale (gp_auth p) \<and>
      \<not> isLocalDirectRequest lib (gp_req p) \<and> \<not> hasExplicitSharedSecretAuth (gp_connectAuth p)
      then resolveVerifiedTailscaleUser lib wh (gp_req p) else Inl [])"
  have "authorize_secret lib wh p later es = (case check of
      Inr user \<Rightarrow> (auth_ok MethodTailscale (Some (tu_login user)),
        limiter_reset lib (gp_limiter p) (connect_ip lib p) (connect_scope p) es)
    | Inl reason \<Rightarrow> secret_branch lib p later es)"
    unfolding authorize_secret_def Let_def secret_branch_def check_def by (rule refl)
  then show ?thesis by (cases check) auto
qed

lemma secret_other_key:
  assumes "attempt_key lib p \<noteq> key"
  shows "map_get (snd (authorize_secret lib wh p later es)) key = map_get es key"
proof -
  have "map_get (snd (secret_branch lib p later es)) key = map_get es key"
    by (simp add: secret_branch_def authorizeTokenAuth_def authorizePasswordAuth_def limiter_other_key [OF assms])
  then show ?thesis using authorize_secret_cases [of lib wh p later es] limiter_other_key [OF assms] by auto
qed

lemma core_other_key:
  assumes "attempt_key lib p \<noteq> key"
  shows "map_get (snd (authorizeGatewayConnectCore lib pu wh p now later es)) key = map_get es key"
  by (auto simp: authorizeGatewayConnectCore_def Let_def case_prod_beta secret_other_key [OF assms]
      limiter_other_key [OF assms] split: option.split sum.split)

lemma check_locked:
  assumes "gp_limiter p = Some cfg" and "\<not> attempt_exempt lib cfg p"
    and "map_get es (attempt_key lib p) = Some entry" and "rl_lockedUntil entry = Some t" and "t \<noteq> 0" and "now < t"
  shows "connect_limiter_check lib p now es =
    (Some \<lparr>cr_allowed = False, cr_retryAfterMs = t - now, cr_remaining = 0\<rparr>, es)"
  using assms by (simp add: connect_limiter_check_def attempt_exempt_def attempt_key_def auth_check_def
      auth_key_def still_locked_def case_prod_beta)

lemma core_locked:
  assumes "gp_limiter p = Some cfg" and "\<not> attempt_exempt lib cfg p"
    and "map_get es (attempt_key lib p) = Some entry" and "rl_lockedUntil entry = Some t" and "t \<noteq> 0" and "now < t"
    and "rga_mode (gp_auth p) = AuthModeToken \<or> rga_mode (gp_auth p) = AuthModePassword"
  shows "authorizeGatewayConnectCore lib pu wh p now later es = (auth_rate_limited (t - now), es)"
  using assms(7) check_locked [OF assms(1-6)] by (auto simp: authorizeGatewayConnectCore_def)

lemma core_keeps_lock:
  assumes "map_get es key = Some entry" and "rl_lockedUntil entry = Some t" and "t \<noteq> 0"
    and "attempt_before lib cfg key t (p, now, later)"
  shows "map_get (snd (authorizeGatewayConnectCore lib pu wh p now later es)) key = Some entry"
proof (cases "attempt_key lib p = key")
  case False
  then show ?thesis using core_other_key assms(1) by simp
next
  case True
  then have l: "connect_limiter_check lib p now es =
      (Some \<lparr>cr_allowed = False, cr_retryAfterMs = t - now, cr_remaining = 0\<rparr>, es)"
    using assms check_locked [of p cfg lib es entry t now] by (simp add: attempt_before_def)
  show ?thesis using assms(1)
    by (cases "rga_mode (gp_auth p)")
      (auto simp: authorizeGatewayConnectCore_def l Let_def split: option.split sum.split)
qed

lemma connect_all_keeps_lock:
  assumes "rl_lockedUntil entry = Some t" and "t \<noteq> 0" and "map_get es key = Some entry"
    and "list_all (attempt_before lib cfg key t) ps"
  shows "map_get (connect_all lib pu wh ps es) key = Some entry"
  using assms(3,4)
proof (induction ps arbitrary: es)
  case (Cons a ps)
  obtain p now later where a: "a = (p, now, later)" by (cases a)
  have "attempt_before lib cfg key t (p, now, later)" using Cons.prems(2) a by simp
  from core_keeps_lock [OF Cons.prems(1) assms(1,2) this, of pu wh]
  show ?case using Cons.IH Cons.prems(2) a by (simp add: connect_all_def)
qed (simp add: connect_all_def)

text \<open>A wrong token in token mode, sent with a limiter by a client that is not exempt.\<close>

definition wrong_guess :: "ip_library \<Rightarrow> auth_limiter_config \<Rightarrow> string \<Rightarrow> gateway_connect_params \<Rightarrow> bool" where
  "wrong_guess lib cfg key p = (gp_limiter p = Some cfg \<and> rga_mode (gp_auth p) = AuthModeToken \<and>
     truthy (rga_token (gp_auth p)) \<noteq> None \<and> truthy (Option.bind (gp_connectAuth p) cx_token) \<noteq> None \<and>
     Option.bind (gp_connectAuth p) cx_token \<noteq> rga_token (gp_auth p) \<and>
     (connect_surface p = SurfaceHttp \<or> hasExplicitSharedSecretAuth (gp_connectAuth p)) \<and>
     attempt_key lib p = key \<and> \<not> attempt_exempt lib cfg p)"

text \<open>The limiter's entry of a key after wrong guesses at the times \<open>ts\<close>.\<close>

definition guessed :: "auth_limiter_config \<Rightarrow> int list \<Rightarrow> rate_limit_entry option" where
  "guessed cfg ts = (if ts = [] then None else
     Some \<lparr>rl_attempts = ts, rl_lockedUntil =
       (if int (length ts) \<ge> al_maxAttempts cfg then Some (last ts + al_lockoutMs cfg) else None)\<rparr>)"

lemma wrong_guess_secret:
  assumes "wrong_guess lib cfg key p"
  shows "authorize_secret lib wh p t es =
    (auth_refused ''token_mismatch'',
     auth_recordFailure cfg (limiter_ip lib) (\<lambda>i. isLoopbackAddress lib (Some i)) (connect_ip lib p)
       (Some (connect_scope p)) t es)"
  using assms by (auto simp: wrong_guess_def authorize_secret_def authorizeTokenAuth_def truthy_def
      shouldAllowTailscaleHeaderAuth_def limiter_failure_def split: option.splits if_splits)

lemma guess_step:
  assumes "wrong_guess lib cfg key p" and "map_get es key = guessed cfg ts"
    and "int (length ts) < al_maxAttempts cfg" and "\<forall>u\<in>set ts. t - al_windowMs cfg < u"
  shows "fst (authorizeGatewayConnectCore lib pu wh p t t es) = auth_refused ''token_mismatch'' \<and>
    map_get (snd (authorizeGatewayConnectCore lib pu wh p t t es)) key = guessed cfg (ts @ [t])"
proof -
  have key: "fst (auth_resolveKey (limiter_ip lib) (connect_ip lib p) (Some (connect_scope p))) = key"
    and ex: "\<not> isExempt cfg (\<lambda>i. isLoopbackAddress lib (Some i))
      (snd (auth_resolveKey (limiter_ip lib) (connect_ip lib p) (Some (connect_scope p))))"
    and l: "gp_limiter p = Some cfg" and m: "rga_mode (gp_auth p) = AuthModeToken"
    using assms(1) by (simp_all add: wrong_guess_def attempt_key_def auth_key_def attempt_exempt_def)
  have slide: "filter (\<lambda>u. t - al_windowMs cfg < u) ts = ts" using assms(4) by simp
  have check: "\<exists>r es1. connect_limiter_check lib p t es = (Some r, es1) \<and> cr_allowed r \<and>
      map_get es1 key = guessed cfg ts"
    using assms(2,3) ex l slide
    by (cases "ts = []") (auto simp: connect_limiter_check_def auth_check_def key case_prod_beta Let_def
        guessed_def still_locked_def lock_expired_def slideWindow_def)
  have recorded: "map_get (auth_recordFailure cfg (limiter_ip lib) (\<lambda>i. isLoopbackAddress lib (Some i))
      (connect_ip lib p) (Some (connect_scope p)) t es1) key = guessed cfg (ts @ [t])"
    if "map_get es1 key = guessed cfg ts" for es1
    using that assms(3) ex slide
    by (cases "ts = []") (auto simp: auth_recordFailure_def key case_prod_beta Let_def guessed_def
        still_locked_def slideWindow_def)
  from check recorded show ?thesis
    by (auto simp: authorizeGatewayConnectCore_def m wrong_guess_secret [OF assms(1)])
qed

text \<open>Guesses within one window, up to the limit.\<close>

lemma guesses_run:
  assumes "map_get es key = guessed cfg ts" and "list_all (\<lambda>(p, t). wrong_guess lib cfg key p) gs"
    and "\<forall>u\<in>set (ts @ map snd gs). \<forall>v\<in>set (ts @ map snd gs). v - al_windowMs cfg < u"
    and "int (length ts + length gs) \<le> al_maxAttempts cfg"
  shows "map_get (connect_all lib pu wh (map (\<lambda>(p, t). (p, t, t)) gs) es) key = guessed cfg (ts @ map snd gs)"
  using assms
proof (induction gs arbitrary: es ts)
  case (Cons g gs)
  obtain p t where g: "g = (p, t)" by (cases g)
  have "map_get (snd (authorizeGatewayConnectCore lib pu wh p t t es)) key = guessed cfg (ts @ [t])"
    using guess_step [OF _ Cons.prems(1), of lib p t pu wh] Cons.prems(2,3,4) g by simp
  then show ?case using Cons.IH [of _ "ts @ [t]"] Cons.prems g by (simp add: connect_all_def)
qed (simp add: connect_all_def)

subsection \<open>Missing credentials and configuration errors\<close>

text \<open>A client that sends no token burns no attempt: the limiter only sees its check.\<close>

lemma missing_token_no_failure:
  assumes "rga_mode (gp_auth p) = AuthModeToken" and "truthy (Option.bind (gp_connectAuth p) cx_token) = None"
    and "connect_surface p = SurfaceHttp"
  shows "snd (authorizeGatewayConnectCore lib pu wh p now later es) = snd (connect_limiter_check lib p now es)"
  using assms by (auto simp: authorizeGatewayConnectCore_def authorize_secret_def authorizeTokenAuth_def Let_def
      shouldAllowTailscaleHeaderAuth_def case_prod_beta truthy_def split: option.split)











subsection \<open>Properties\<close>

text \<open>A small address library for the examples: names starting with 127 are loopback, a range is an
  address.\<close>

definition sample_ips :: ip_library where
  "sample_ips = \<lparr>ipl_normalize = (\<lambda>s. if s = [] then None else Some s), ipl_isLoopback = (\<lambda>s. starts_with s ''127''),
     ipl_inCidr = (\<lambda>ip range. ip = range), ipl_isIP = (\<lambda>s. if s = [] then 0 else 4)\<rparr>"

definition sample_connect :: "string \<Rightarrow> gateway_connect_params" where
  "sample_connect token = \<lparr>gp_auth = \<lparr>rga_mode = AuthModeToken, rga_token = Some ''s3'', rga_password = None,
       rga_allowTailscale = False, rga_trustedProxy = None\<rparr>,
     gp_connectAuth = Some \<lparr>cx_token = Some token, cx_password = None\<rparr>,
     gp_req = None, gp_trustedProxies = None, gp_authSurface = None,
     gp_limiter = Some (fst (createAuthRateLimiter (Some 2) None None None)),
     gp_clientIp = Some ''9.9.9.9'', gp_rateLimitScope = None, gp_allowRealIpFallback = None,
     gp_browserOriginPolicy = None\<rparr>"

text \<open>C2: Nobody is admitted without what the mode asks for. Whenever authentication succeeds, the
  gateway has authentication turned off, or the client presented exactly the configured non-empty
  token or password, or the request came through a trusted proxy that vouches for an allowed user,
  or, on the Control UI only and without any secret sent, the local Tailscale daemon confirms the
  user the headers name.\<close>

theorem auth_success_has_credential:
  assumes "gr_ok (fst (authorizeGatewayConnectCore lib pu wh p now later es))"
  shows "admitted_by lib wh p (fst (authorizeGatewayConnectCore lib pu wh p now later es))"
  using assms by (rule authorize_core_ok)

theorem auth_success_has_credential_witness:
  "admitted_by sample_ips (\<lambda>ip. None) (sample_connect ''s3'')
     (fst (authorizeGatewayConnectCore sample_ips (\<lambda>u. None) (\<lambda>ip. None) (sample_connect ''s3'') 5 5 []))"
  by (rule auth_success_has_credential)
    (simp add: authorizeGatewayConnectCore_def connect_limiter_check_def auth_check_def case_prod_beta
      sample_connect_def createAuthRateLimiter_def authorize_secret_def authorizeTokenAuth_def truthy_def
      shouldAllowTailscaleHeaderAuth_def connect_surface_def Let_def)

text \<open>C19: Guessing locks the guesser out. When a client has sent as many wrong tokens as the limit
  within one window, then whatever attempts follow, its own and those of others, any further
  attempt of its before the lockout ends is refused with the time left, even with the right secret,
  and leaves the limiter as it is.\<close>

theorem guessing_locks_out:
  assumes "map_get es key = None" and "gs \<noteq> []" and "int (length gs) = al_maxAttempts cfg"
    and "list_all (\<lambda>(p, t). wrong_guess lib cfg key p) gs"
    and "\<forall>u\<in>set (map snd gs). \<forall>v\<in>set (map snd gs). v - al_windowMs cfg < u"
    and "until = last (map snd gs) + al_lockoutMs cfg" and "until \<noteq> 0"
    and "list_all (attempt_before lib cfg key until) others"
    and "gp_limiter p = Some cfg" and "attempt_key lib p = key" and "\<not> attempt_exempt lib cfg p"
    and "rga_mode (gp_auth p) = AuthModeToken \<or> rga_mode (gp_auth p) = AuthModePassword"
    and "now < until"
  shows "authorizeGatewayConnectCore lib pu wh p now later
      (connect_all lib pu wh others (connect_all lib pu wh (map (\<lambda>(p, t). (p, t, t)) gs) es)) =
    (auth_rate_limited (until - now),
     connect_all lib pu wh others (connect_all lib pu wh (map (\<lambda>(p, t). (p, t, t)) gs) es))"
proof -
  have "map_get (connect_all lib pu wh (map (\<lambda>(p, t). (p, t, t)) gs) es) key = guessed cfg (map snd gs)"
    using guesses_run [of es key cfg "[]" lib gs pu wh] assms(1-5) by (simp add: guessed_def)
  then obtain entry where "map_get (connect_all lib pu wh (map (\<lambda>(p, t). (p, t, t)) gs) es) key = Some entry"
      and lock: "rl_lockedUntil entry = Some until"
    using assms(2,3,6) by (auto simp: guessed_def)
  from connect_all_keeps_lock [OF lock assms(7) this(1) assms(8), of pu wh]
  show ?thesis using core_locked [OF assms(9,11) _ lock assms(7,13,12)] assms(10) by simp
qed

theorem guessing_locks_out_witness:
  "authorizeGatewayConnectCore sample_ips (\<lambda>u. None) (\<lambda>ip. None) (sample_connect ''s3'') 20 20
     (connect_all sample_ips (\<lambda>u. None) (\<lambda>ip. None) [(sample_connect ''s3'', 15, 15)]
       (connect_all sample_ips (\<lambda>u. None) (\<lambda>ip. None)
         (map (\<lambda>(p, t). (p, t, t)) [(sample_connect ''a'', 1), (sample_connect ''b'', 2)]) []))
   = (auth_rate_limited 299982,
      connect_all sample_ips (\<lambda>u. None) (\<lambda>ip. None) [(sample_connect ''s3'', 15, 15)]
       (connect_all sample_ips (\<lambda>u. None) (\<lambda>ip. None)
         (map (\<lambda>(p, t). (p, t, t)) [(sample_connect ''a'', 1), (sample_connect ''b'', 2)]) []))"
proof -
  have cfg: "gp_limiter (sample_connect x) = Some (fst (createAuthRateLimiter (Some 2) None None None))"
      "attempt_key sample_ips (sample_connect x) = ''shared-secret:9.9.9.9''"
      "\<not> attempt_exempt sample_ips (fst (createAuthRateLimiter (Some 2) None None None)) (sample_connect x)"
      "rga_mode (gp_auth (sample_connect x)) = AuthModeToken"
      "rga_token (gp_auth (sample_connect x)) = Some ''s3''"
      "Option.bind (gp_connectAuth (sample_connect x)) cx_token = Some x"
      "connect_surface (sample_connect x) = SurfaceHttp" for x
    by (simp_all add: sample_connect_def attempt_key_def attempt_exempt_def connect_ip_def connect_scope_def
        auth_key_def auth_resolveKey_def normalizeScope_def normalizeRateLimitClientIp_def limiter_ip_def
        resolveClientIp_def isTrustedProxyAddress_def normalizeIp_def sample_ips_def isExempt_def connect_surface_def
        AUTH_RATE_LIMIT_SCOPE_SHARED_SECRET_def BROWSER_ORIGIN_RATE_LIMIT_KEY_PREFIX_def starts_with_def or_str_def
        js_trim_def js_trim_start_def js_trim_end_def js_is_space_def createAuthRateLimiter_def isLoopbackAddress_def
        truthy_def Let_def)
  show ?thesis
    using guessing_locks_out [of "[]" "''shared-secret:9.9.9.9''" "[(sample_connect ''a'', 1), (sample_connect ''b'', 2)]"
        "fst (createAuthRateLimiter (Some 2) None None None)" sample_ips 300002 "[(sample_connect ''s3'', 15, 15)]"
        "sample_connect ''s3''" 20 "\<lambda>u. None" "\<lambda>ip. None" 20]
    by (simp add: cfg wrong_guess_def attempt_before_def truthy_def) (simp add: createAuthRateLimiter_def)
qed



text \<open>A client cannot forge its address. If the hops the trusted proxies added name an untrusted
  one, that is the client, whatever the client itself put in front of the forwarding header. A
  request straight from an untrusted address is that address, whatever its headers; and the
  address found is never a trusted proxy's, except the one of the explicitly enabled fallback
  header.\<close>

theorem client_ip_unspoofable:
  assumes "resolveForwardedClientIp lib (Some suffix) tps = Some hop"
  shows "resolveClientIp lib remote (Some (forged @ '','' @ suffix)) real_ip tps fallback =
      resolveClientIp lib remote (Some suffix) real_ip tps fallback \<and>
    (\<forall>ip. resolveClientIp lib remote forwarded real_ip tps False = Some ip \<longrightarrow>
      (isTrustedProxyAddress lib (normalizeIp lib remote) tps \<longrightarrow> \<not> isTrustedProxyAddress lib (Some ip) tps) \<and>
      (\<not> isTrustedProxyAddress lib (normalizeIp lib remote) tps \<longrightarrow> Some ip = normalizeIp lib remote))"
proof -
  have pre: "resolveForwardedClientIp lib (Some (forged @ '','' @ suffix)) tps = Some hop"
    by (rule forwarded_prefix [OF assms])
  show ?thesis unfolding resolveClientIp_def pre assms using forwarded_untrusted
    by (auto split: option.splits if_splits)
qed

theorem client_ip_unspoofable_witness:
  "resolveClientIp sample_ips (Some ''10.0.0.1'') (Some (''127.0.0.1,6.6.6.6'' @ '','' @ ''9.9.9.9'')) None
     (Some [''10.0.0.1'']) False =
   resolveClientIp sample_ips (Some ''10.0.0.1'') (Some ''9.9.9.9'') None (Some [''10.0.0.1'']) False"
proof -
  have "resolveForwardedClientIp sample_ips (Some ''9.9.9.9'') (Some [''10.0.0.1'']) = Some ''9.9.9.9''"
    by (simp add: resolveForwardedClientIp_def forwarded_chain_def map_filter_def parseIpLiteral_def truthy_def
        stripOptionalPort_def normalizeIp_def sample_ips_def isLoopbackAddress_def isTrustedProxyAddress_def
        starts_with_def js_trim_def js_trim_start_def js_trim_end_def js_is_space_def)
  from client_ip_unspoofable [OF this, of "Some ''10.0.0.1''" "''127.0.0.1,6.6.6.6''" None False None]
  show ?thesis by blast
qed

end
