(* ===== verification/GatewayScopes.thy ===== *)
theory GatewayScopes
  imports JsMap JsStrings AllowFrom
begin

section \<open>Gateway operator scopes and roles\<close>

text \<open>
  Models \<^verbatim>\<open>src/gateway/operator-scopes.ts\<close>, \<^verbatim>\<open>src/gateway/method-scopes.ts\<close>,
  \<^verbatim>\<open>src/gateway/role-policy.ts\<close>, \<^verbatim>\<open>src/shared/gateway-method-policy.ts\<close> and
  \<^verbatim>\<open>src/shared/operator-scope-compat.ts\<close>: which scope each gateway method needs, which method
  belongs to which role, and whether a list of granted scopes covers a request. A scope of the
  code's union type is an \<open>operator_scope\<close>; a scope a client presents is any string. The state
  of the plugin registry (the scopes of plugin methods and the session actions) is the argument
  \<open>reg\<close>; its method table is a plain object, whose inherited keys are not modelled.
\<close>

subsection \<open>Scopes\<close>

datatype operator_scope =
    ADMIN_SCOPE | READ_SCOPE | WRITE_SCOPE | APPROVALS_SCOPE | PAIRING_SCOPE | TALK_SECRETS_SCOPE

primrec scope_name :: "operator_scope \<Rightarrow> string" where
  "scope_name ADMIN_SCOPE = ''operator.admin''"
| "scope_name READ_SCOPE = ''operator.read''"
| "scope_name WRITE_SCOPE = ''operator.write''"
| "scope_name APPROVALS_SCOPE = ''operator.approvals''"
| "scope_name PAIRING_SCOPE = ''operator.pairing''"
| "scope_name TALK_SECRETS_SCOPE = ''operator.talk.secrets''"

definition KNOWN_OPERATOR_SCOPE_VALUES :: "operator_scope list" where
  "KNOWN_OPERATOR_SCOPE_VALUES =
     [ADMIN_SCOPE, READ_SCOPE, WRITE_SCOPE, APPROVALS_SCOPE, PAIRING_SCOPE, TALK_SECRETS_SCOPE]"

definition isOperatorScope :: "string \<Rightarrow> bool" where
  "isOperatorScope value = (value \<in> set (map scope_name KNOWN_OPERATOR_SCOPE_VALUES))"

definition CLI_DEFAULT_OPERATOR_SCOPES :: "operator_scope list" where
  "CLI_DEFAULT_OPERATOR_SCOPES =
     [ADMIN_SCOPE, READ_SCOPE, WRITE_SCOPE, APPROVALS_SCOPE, PAIRING_SCOPE, TALK_SECRETS_SCOPE]"

text \<open>\<open>scopes.includes(SCOPE)\<close> for the scopes a client presents.\<close>

definition has_scope :: "string list \<Rightarrow> operator_scope \<Rightarrow> bool" where
  "has_scope scopes s = (scope_name s \<in> set scopes)"

subsection \<open>The method tables\<close>

definition NODE_ROLE_METHODS :: "string list" where
  "NODE_ROLE_METHODS =
     [''node.invoke.result'', ''node.event'', ''node.pluginSurface.refresh'', ''node.pending.drain'',
      ''node.pending.pull'', ''node.pending.ack'', ''skills.bins'']"

definition DYNAMIC_OPERATOR_SCOPE_METHODS :: "string list" where
  "DYNAMIC_OPERATOR_SCOPE_METHODS = [''plugins.sessionAction'']"

definition METHOD_SCOPE_GROUPS :: "(operator_scope \<times> string list) list" where
  "METHOD_SCOPE_GROUPS =
  [
   (APPROVALS_SCOPE,
    [''exec.approval.get'', ''exec.approval.list'', ''exec.approval.request'',
      ''exec.approval.waitDecision'', ''exec.approval.resolve'', ''plugin.approval.list'',
      ''plugin.approval.request'', ''plugin.approval.waitDecision'', ''plugin.approval.resolve'']),
   (PAIRING_SCOPE,
    [''node.pair.request'', ''node.pair.list'', ''node.pair.reject'', ''node.pair.remove'',
      ''node.pair.verify'', ''node.pair.approve'', ''device.pair.list'', ''device.pair.approve'',
      ''device.pair.reject'', ''device.pair.remove'', ''device.token.rotate'',
      ''device.token.revoke'', ''node.rename'']),
   (READ_SCOPE,
    [''assistant.media.get'', ''health'', ''diagnostics.stability'', ''doctor.memory.status'',
      ''doctor.memory.dreamDiary'', ''doctor.memory.remHarness'', ''logs.tail'',
      ''channels.status'', ''status'', ''usage.status'', ''usage.cost'', ''tts.status'',
      ''tts.providers'', ''tts.personas'', ''commands.list'', ''models.list'',
      ''models.authStatus'', ''tools.catalog'', ''tools.effective'', ''tasks.list'',
      ''tasks.get'', ''plugins.uiDescriptors'', ''agents.list'', ''agent.identity.get'',
      ''skills.status'', ''skills.search'', ''skills.detail'', ''voicewake.get'',
      ''voicewake.routing.get'', ''sessions.list'', ''sessions.get'', ''sessions.preview'',
      ''sessions.describe'', ''sessions.resolve'', ''sessions.compaction.list'',
      ''sessions.compaction.get'', ''sessions.subscribe'', ''sessions.unsubscribe'',
      ''sessions.messages.subscribe'', ''sessions.messages.unsubscribe'', ''sessions.usage'',
      ''sessions.usage.timeseries'', ''sessions.usage.logs'', ''cron.get'', ''cron.list'',
      ''cron.status'', ''cron.runs'', ''gateway.identity.get'', ''gateway.restart.preflight'',
      ''system-presence'', ''last-heartbeat'', ''node.list'', ''node.describe'',
      ''environments.list'', ''environments.status'', ''chat.history'', ''config.get'',
      ''config.schema.lookup'', ''talk.catalog'', ''talk.config'', ''agents.files.list'',
      ''agents.files.get'', ''artifacts.list'', ''artifacts.get'', ''artifacts.download'']),
   (WRITE_SCOPE,
    [''message.action'', ''send'', ''poll'', ''agent'', ''agent.wait'', ''wake'', ''talk.mode'',
      ''talk.client.create'', ''talk.client.toolCall'', ''talk.session.create'',
      ''talk.session.join'', ''talk.session.appendAudio'', ''talk.session.startTurn'',
      ''talk.session.endTurn'', ''talk.session.cancelTurn'', ''talk.session.cancelOutput'',
      ''talk.session.submitToolResult'', ''talk.session.close'', ''talk.speak'', ''tts.enable'',
      ''tts.disable'', ''tts.convert'', ''tts.setProvider'', ''tts.setPersona'',
      ''voicewake.set'', ''voicewake.routing.set'', ''node.invoke'', ''tools.invoke'',
      ''chat.send'', ''chat.abort'', ''sessions.create'', ''sessions.send'', ''sessions.steer'',
      ''sessions.abort'', ''tasks.cancel'', ''sessions.compaction.branch'',
      ''doctor.memory.backfillDreamDiary'', ''doctor.memory.resetDreamDiary'',
      ''doctor.memory.resetGroundedShortTerm'', ''doctor.memory.repairDreamingArtifacts'',
      ''doctor.memory.dedupeDreamDiary'', ''push.test'', ''push.web.vapidPublicKey'',
      ''push.web.subscribe'', ''push.web.unsubscribe'', ''push.web.test'',
      ''node.pending.enqueue'']),
   (ADMIN_SCOPE,
    [''channels.start'', ''channels.stop'', ''channels.logout'', ''agents.create'',
      ''agents.update'', ''agents.delete'', ''skills.upload.begin'', ''skills.upload.chunk'',
      ''skills.upload.commit'', ''skills.install'', ''skills.update'', ''secrets.reload'',
      ''secrets.resolve'', ''cron.add'', ''cron.update'', ''cron.remove'', ''cron.run'',
      ''sessions.patch'', ''sessions.pluginPatch'', ''sessions.cleanup'', ''sessions.reset'',
      ''sessions.delete'', ''sessions.compact'', ''sessions.compaction.restore'', ''connect'',
      ''chat.inject'', ''nativeHook.invoke'', ''web.login.start'', ''web.login.wait'',
      ''set-heartbeats'', ''system-event'', ''agents.files.set'', ''update.status'',
      ''gateway.restart.request'']),
   (TALK_SECRETS_SCOPE,
    [])]"

definition method_scope_entries :: "(string \<times> operator_scope) list" where
  "method_scope_entries =
     concat (map (\<lambda>(scope, methods). map (\<lambda>m. (m, scope)) methods) METHOD_SCOPE_GROUPS)"

text \<open>\<open>new Map(entries)\<close>: a later entry of the same key replaces an earlier one.\<close>

definition METHOD_SCOPE_BY_NAME :: "(string, operator_scope) js_map" where
  "METHOD_SCOPE_BY_NAME = foldl (\<lambda>m (k, v). map_set m k v) [] method_scope_entries"

definition RESERVED_ADMIN_GATEWAY_METHOD_PREFIXES :: "string list" where
  "RESERVED_ADMIN_GATEWAY_METHOD_PREFIXES = [''exec.approvals.'', ''config.'', ''wizard.'', ''update.'']"

definition isReservedAdminGatewayMethod :: "string \<Rightarrow> bool" where
  "isReservedAdminGatewayMethod method =
     list_ex (\<lambda>prefix. starts_with method prefix) RESERVED_ADMIN_GATEWAY_METHOD_PREFIXES"

definition resolveReservedGatewayMethodScope :: "string \<Rightarrow> operator_scope option" where
  "resolveReservedGatewayMethodScope method =
     (if \<not> isReservedAdminGatewayMethod method then None else Some ADMIN_SCOPE)"

text \<open>The scope a plugin's method is registered with, and whether it was raised to admin.\<close>

definition normalizePluginGatewayMethodScope ::
  "string \<Rightarrow> operator_scope option \<Rightarrow> operator_scope option \<times> bool" where
  "normalizePluginGatewayMethodScope method scope =
     (let reservedScope = resolveReservedGatewayMethodScope method
      in if reservedScope = None \<or> scope = None \<or> scope = reservedScope then (scope, False)
         else (reservedScope, True))"

subsection \<open>The scope of a method\<close>

record session_action =
  sa_pluginId :: string
  sa_actionId :: string
  sa_requiredScopes :: "operator_scope list option"

record plugin_registry =
  pr_gatewayMethodScopes :: "(string, operator_scope) js_map"
  pr_sessionActions :: "session_action list"

definition resolveScopedMethod :: "plugin_registry option \<Rightarrow> string \<Rightarrow> operator_scope option" where
  "resolveScopedMethod reg method =
     (case map_get METHOD_SCOPE_BY_NAME method of
        Some explicitScope \<Rightarrow> Some explicitScope
      | None \<Rightarrow>
        (case resolveReservedGatewayMethodScope method of
           Some reservedScope \<Rightarrow> Some reservedScope
         | None \<Rightarrow>
           (case reg of None \<Rightarrow> None | Some r \<Rightarrow> map_get (pr_gatewayMethodScopes r) method)))"

definition isApprovalMethod :: "plugin_registry option \<Rightarrow> string \<Rightarrow> bool" where
  "isApprovalMethod reg method = (resolveScopedMethod reg method = Some APPROVALS_SCOPE)"

definition isPairingMethod :: "plugin_registry option \<Rightarrow> string \<Rightarrow> bool" where
  "isPairingMethod reg method = (resolveScopedMethod reg method = Some PAIRING_SCOPE)"

definition isReadMethod :: "plugin_registry option \<Rightarrow> string \<Rightarrow> bool" where
  "isReadMethod reg method = (resolveScopedMethod reg method = Some READ_SCOPE)"

definition isWriteMethod :: "plugin_registry option \<Rightarrow> string \<Rightarrow> bool" where
  "isWriteMethod reg method = (resolveScopedMethod reg method = Some WRITE_SCOPE)"

definition isNodeRoleMethod :: "string \<Rightarrow> bool" where
  "isNodeRoleMethod method = (method \<in> set NODE_ROLE_METHODS)"

definition isAdminOnlyMethod :: "plugin_registry option \<Rightarrow> string \<Rightarrow> bool" where
  "isAdminOnlyMethod reg method = (resolveScopedMethod reg method = Some ADMIN_SCOPE)"

definition resolveRequiredOperatorScopeForMethod ::
  "plugin_registry option \<Rightarrow> string \<Rightarrow> operator_scope option" where
  "resolveRequiredOperatorScopeForMethod reg method = resolveScopedMethod reg method"

subsection \<open>Session actions of plugins\<close>

text \<open>The request's \<open>params\<close>: not an object, or an object whose \<open>pluginId\<close> and \<open>actionId\<close> are
  strings or something else (\<open>None\<close>).\<close>

datatype request_params =
    NotAnObject
  | ParamsObject (rp_pluginId: "string option") (rp_actionId: "string option")

definition normalizeSessionActionParam :: "string option \<Rightarrow> string option" where
  "normalizeSessionActionParam value =
     (case value of Some v \<Rightarrow> if js_trim v \<noteq> [] then Some (js_trim v) else None | None \<Rightarrow> None)"

text \<open>Both ids of a well-formed request.\<close>

definition session_action_ids :: "request_params \<Rightarrow> (string \<times> string) option" where
  "session_action_ids params =
     (case params of
        NotAnObject \<Rightarrow> None
      | ParamsObject p a \<Rightarrow>
          (case (normalizeSessionActionParam p, normalizeSessionActionParam a) of
             (Some pluginId, Some actionId) \<Rightarrow> Some (pluginId, actionId)
           | _ \<Rightarrow> None))"

definition resolveSessionActionRegisteredScopes ::
  "plugin_registry option \<Rightarrow> request_params \<Rightarrow> operator_scope list option" where
  "resolveSessionActionRegisteredScopes reg params =
     (case session_action_ids params of
        None \<Rightarrow> None
      | Some (pluginId, actionId) \<Rightarrow>
          (case Option.bind reg (\<lambda>r. find (\<lambda>entry. sa_pluginId entry = pluginId \<and> sa_actionId entry = actionId)
                                      (pr_sessionActions r)) of
             None \<Rightarrow> None
           | Some registration \<Rightarrow>
               (case sa_requiredScopes registration of
                  Some requiredScopes \<Rightarrow>
                    if length requiredScopes > 0 then Some requiredScopes else Some [WRITE_SCOPE]
                | None \<Rightarrow> Some [WRITE_SCOPE])))"

definition resolveSessionActionLeastPrivilegeScopes ::
  "plugin_registry option \<Rightarrow> request_params \<Rightarrow> operator_scope list" where
  "resolveSessionActionLeastPrivilegeScopes reg params =
     (case resolveSessionActionRegisteredScopes reg params of
        Some registeredScopes \<Rightarrow> registeredScopes
      | None \<Rightarrow> if session_action_ids params \<noteq> None then CLI_DEFAULT_OPERATOR_SCOPES else [WRITE_SCOPE])"

definition resolveDynamicLeastPrivilegeOperatorScopesForMethod ::
  "plugin_registry option \<Rightarrow> string \<Rightarrow> request_params \<Rightarrow> operator_scope list" where
  "resolveDynamicLeastPrivilegeOperatorScopesForMethod reg method params =
     (if method = ''plugins.sessionAction'' then resolveSessionActionLeastPrivilegeScopes reg params
      else [WRITE_SCOPE])"

definition resolveLeastPrivilegeOperatorScopesForMethod ::
  "plugin_registry option \<Rightarrow> string \<Rightarrow> request_params \<Rightarrow> operator_scope list" where
  "resolveLeastPrivilegeOperatorScopesForMethod reg method params =
     (if method \<in> set DYNAMIC_OPERATOR_SCOPE_METHODS
      then resolveDynamicLeastPrivilegeOperatorScopesForMethod reg method params
      else case resolveRequiredOperatorScopeForMethod reg method of
        Some requiredScope \<Rightarrow> [requiredScope]
      | None \<Rightarrow> [])"

subsection \<open>Authorisation of a method\<close>

datatype scope_auth = ScopeAllowed | ScopeMissing operator_scope

definition scope_missing :: "string list \<Rightarrow> operator_scope \<Rightarrow> bool" where
  "scope_missing scopes s =
     (\<not> has_scope scopes s \<and> \<not> (s = READ_SCOPE \<and> has_scope scopes WRITE_SCOPE))"

definition authorizeOperatorScopesForMethod ::
  "plugin_registry option \<Rightarrow> string \<Rightarrow> string list \<Rightarrow> request_params \<Rightarrow> scope_auth" where
  "authorizeOperatorScopesForMethod reg method scopes params =
     (if has_scope scopes ADMIN_SCOPE then ScopeAllowed
      else if method \<in> set DYNAMIC_OPERATOR_SCOPE_METHODS then
        (let registeredScopes = resolveSessionActionRegisteredScopes reg params
         in if registeredScopes = None \<and> params \<noteq> NotAnObject \<and> session_action_ids params = None then
              (if list_ex isOperatorScope scopes then ScopeAllowed else ScopeMissing WRITE_SCOPE)
            else
              (case find (scope_missing scopes) (nullish registeredScopes [WRITE_SCOPE]) of
                 Some missingScope \<Rightarrow> ScopeMissing missingScope
               | None \<Rightarrow> ScopeAllowed))
      else
        (let requiredScope = nullish (resolveRequiredOperatorScopeForMethod reg method) ADMIN_SCOPE
         in if requiredScope = READ_SCOPE then
              (if has_scope scopes READ_SCOPE \<or> has_scope scopes WRITE_SCOPE then ScopeAllowed
               else ScopeMissing READ_SCOPE)
            else if has_scope scopes requiredScope then ScopeAllowed
            else ScopeMissing requiredScope))"

definition isGatewayMethodClassified :: "plugin_registry option \<Rightarrow> string \<Rightarrow> bool" where
  "isGatewayMethodClassified reg method =
     (isNodeRoleMethod method \<or> method \<in> set DYNAMIC_OPERATOR_SCOPE_METHODS \<or>
      resolveRequiredOperatorScopeForMethod reg method \<noteq> None)"

subsection \<open>Roles\<close>

datatype gateway_role = RoleOperator | RoleNode

definition parseGatewayRole :: "string \<Rightarrow> gateway_role option" where
  "parseGatewayRole roleRaw =
     (if roleRaw = ''operator'' then Some RoleOperator
      else if roleRaw = ''node'' then Some RoleNode else None)"

primrec role_name :: "gateway_role \<Rightarrow> string" where
  "role_name RoleOperator = ''operator''"
| "role_name RoleNode = ''node''"

definition roleCanSkipDeviceIdentity :: "gateway_role \<Rightarrow> bool \<Rightarrow> bool" where
  "roleCanSkipDeviceIdentity role sharedAuthOk = (role = RoleOperator \<and> sharedAuthOk)"

definition isRoleAuthorizedForMethod :: "gateway_role \<Rightarrow> string \<Rightarrow> bool" where
  "isRoleAuthorizedForMethod role method =
     (if isNodeRoleMethod method then role = RoleNode else role = RoleOperator)"

subsection \<open>Scopes of a role\<close>

definition OPERATOR_ROLE :: string where
  "OPERATOR_ROLE = ''operator''"

definition OPERATOR_SCOPE_PREFIX :: string where
  "OPERATOR_SCOPE_PREFIX = ''operator.''"

definition normalizeScopeList :: "string list \<Rightarrow> string list" where
  "normalizeScopeList scopes = js_uniq (filter (\<lambda>s. s \<noteq> []) (map js_trim scopes))"

definition operatorScopeSatisfied :: "string \<Rightarrow> string list \<Rightarrow> bool" where
  "operatorScopeSatisfied requestedScope granted =
     (if \<not> starts_with requestedScope OPERATOR_SCOPE_PREFIX then False
      else if ''operator.admin'' \<in> set granted then True
      else if requestedScope = ''operator.read'' then
        ''operator.read'' \<in> set granted \<or> ''operator.write'' \<in> set granted
      else if requestedScope = ''operator.write'' then ''operator.write'' \<in> set granted
      else requestedScope \<in> set granted)"

definition roleScopesAllow :: "string \<Rightarrow> string list \<Rightarrow> string list \<Rightarrow> bool" where
  "roleScopesAllow role requestedScopes allowedScopes =
     (let requested = normalizeScopeList requestedScopes
      in if length requested = 0 then True
         else
           let allowed = normalizeScopeList allowedScopes
           in if length allowed = 0 then False
              else if js_trim role \<noteq> OPERATOR_ROLE then
                list_all (\<lambda>scope. starts_with scope (js_trim role @ ''.'') \<and> scope \<in> set allowed) requested
              else list_all (\<lambda>scope. operatorScopeSatisfied scope allowed) requested)"

definition resolveMissingRequestedScope :: "string \<Rightarrow> string list \<Rightarrow> string list \<Rightarrow> string option" where
  "resolveMissingRequestedScope role requestedScopes allowedScopes =
     find (\<lambda>scope. \<not> roleScopesAllow role [scope] allowedScopes) requestedScopes"

definition resolveScopeOutsideRequestedRoles :: "string list \<Rightarrow> string list \<Rightarrow> string option" where
  "resolveScopeOutsideRequestedRoles requestedRoles requestedScopes =
     find (\<lambda>scope. \<not> list_ex (\<lambda>role. roleScopesAllow role [scope] [scope]) requestedRoles) requestedScopes"

end
