(* ===== verification/GatewayDispatch.thy ===== *)
theory GatewayDispatch
  imports GatewayScopes RateLimits
begin

section \<open>Dispatch of gateway requests\<close>

text \<open>
  Models the guards of \<^verbatim>\<open>src/gateway/server-methods.ts\<close> (\<open>authorizeGatewayMethod\<close> and
  \<open>handleGatewayRequest\<close>), \<^verbatim>\<open>src/gateway/control-plane-audit.ts\<close> and the guard of
  \<^verbatim>\<open>src/gateway/server/ws-connection/unauthorized-flood-guard.ts\<close> that closes a connection
  after repeated role errors. A handler is any value: the two handler tables are the arguments
  \<open>extra\<close> and \<open>core\<close>, and the result of a request is a refusal or the handler that runs. The
  control-plane buckets of \<open>RateLimits\<close> are the state.
\<close>

subsection \<open>Clients and errors\<close>

record connect_params =
  cp_role :: "string option"
  cp_scopes :: "string list option"

record dispatch_client =
  dc_base :: gateway_client
  dc_connect :: "connect_params option"
  dc_actorId :: "string option"

datatype error_code =
    NOT_LINKED | NOT_PAIRED | AGENT_TIMEOUT | INVALID_REQUEST | APPROVAL_NOT_FOUND | UNAVAILABLE

record error_shape =
  es_code :: error_code
  es_message :: string
  es_retryable :: "bool option"
  es_retryAfterMs :: "int option"

definition errorShape :: "error_code \<Rightarrow> string \<Rightarrow> error_shape" where
  "errorShape code message =
     \<lparr>es_code = code, es_message = message, es_retryable = None, es_retryAfterMs = None\<rparr>"

definition retryable_error :: "error_code \<Rightarrow> string \<Rightarrow> int \<Rightarrow> error_shape" where
  "retryable_error code message retryAfterMs =
     \<lparr>es_code = code, es_message = message, es_retryable = Some True, es_retryAfterMs = Some retryAfterMs\<rparr>"

definition GATEWAY_STARTUP_RETRY_AFTER_MS :: int where
  "GATEWAY_STARTUP_RETRY_AFTER_MS = 500"

definition CONTROL_PLANE_WRITE_METHODS :: "string list" where
  "CONTROL_PLANE_WRITE_METHODS =
     [''config.apply'', ''config.patch'', ''gateway.restart.request'', ''update.run'']"

subsection \<open>The actor of a control-plane write\<close>

record control_plane_actor =
  ca_actor :: string
  ca_deviceId :: string
  ca_clientIp :: string
  ca_connId :: string

definition resolveControlPlaneActor :: "dispatch_client option \<Rightarrow> control_plane_actor" where
  "resolveControlPlaneActor client =
     \<lparr>ca_actor = normalizePart (Option.bind client dc_actorId) ''unknown-actor'',
       ca_deviceId = normalizePart (Option.bind client (gw_deviceId \<circ> dc_base)) ''unknown-device'',
       ca_clientIp = normalizePart (Option.bind client (gw_clientIp \<circ> dc_base)) ''unknown-ip'',
       ca_connId = normalizePart (Option.bind client (gw_connId \<circ> dc_base)) ''unknown-conn''\<rparr>"

definition formatControlPlaneActor :: "control_plane_actor \<Rightarrow> string" where
  "formatControlPlaneActor actor =
     ''actor='' @ ca_actor actor @ '' device='' @ ca_deviceId actor @ '' ip='' @ ca_clientIp actor @
     '' conn='' @ ca_connId actor"

text \<open>The first \<open>maxPaths\<close> paths and the number of the others; the limit is an integer.\<close>

definition summarizeChangedPaths :: "string list \<Rightarrow> nat \<Rightarrow> string" where
  "summarizeChangedPaths paths maxPaths =
     (if length paths = 0 then ''<none>''
      else if length paths \<le> maxPaths then join_with '','' paths
      else join_with '','' (take maxPaths paths) @ '',+'' @ show_nat (length paths - maxPaths) @ '' more'')"

subsection \<open>The guards\<close>

definition authorizeGatewayMethod ::
  "plugin_registry option \<Rightarrow> string \<Rightarrow> dispatch_client option \<Rightarrow> request_params \<Rightarrow> error_shape option" where
  "authorizeGatewayMethod reg method client params =
     (case Option.bind client dc_connect of
        None \<Rightarrow> None
      | Some conn \<Rightarrow>
          if method = ''health'' then None
          else
            let roleRaw = nullish (cp_role conn) ''operator'' in
            case parseGatewayRole roleRaw of
              None \<Rightarrow> Some (errorShape INVALID_REQUEST (''unauthorized role: '' @ roleRaw))
            | Some role \<Rightarrow>
                let scopes = nullish (cp_scopes conn) [] in
                if \<not> isRoleAuthorizedForMethod role method then
                  Some (errorShape INVALID_REQUEST (''unauthorized role: '' @ role_name role))
                else if role = RoleNode then None
                else if has_scope scopes ADMIN_SCOPE then None
                else
                  (case authorizeOperatorScopesForMethod reg method scopes params of
                     ScopeAllowed \<Rightarrow> None
                   | ScopeMissing s \<Rightarrow>
                       Some (errorShape INVALID_REQUEST (''missing scope: '' @ scope_name s))))"

datatype 'h dispatch_result = Refused error_shape | Run 'h

text \<open>\<open>Math.ceil(retryAfterMs / 1000)\<close> of an integer is \<open>(retryAfterMs + 999) div 1000\<close>.\<close>

definition handleGatewayRequest ::
  "plugin_registry option \<Rightarrow> string list option \<Rightarrow> (string \<Rightarrow> 'h option) \<Rightarrow> (string \<Rightarrow> 'h option) \<Rightarrow>
   string \<Rightarrow> dispatch_client option \<Rightarrow> request_params \<Rightarrow> int \<Rightarrow> buckets \<Rightarrow> 'h dispatch_result \<times> buckets" where
  "handleGatewayRequest reg unavailable extra core method client params now st =
     (case authorizeGatewayMethod reg method client params of
        Some authError \<Rightarrow> (Refused authError, st)
      | None \<Rightarrow>
          if method \<in> set (nullish unavailable []) then
            (Refused (retryable_error UNAVAILABLE (method @ '' unavailable during gateway startup'')
               GATEWAY_STARTUP_RETRY_AFTER_MS), st)
          else
            let limited = method \<in> set CONTROL_PLANE_WRITE_METHODS;
                ((budget, key), st1) = consumeControlPlaneWriteBudget (map_option dc_base client) now st;
                st2 = (if limited then st1 else st)
            in if limited \<and> \<not> cr_allowed budget then
                 (Refused (retryable_error UNAVAILABLE
                    (''rate limit exceeded for '' @ method @ ''; retry after '' @
                     show_int ((cr_retryAfterMs budget + 999) div 1000) @ ''s'')
                    (cr_retryAfterMs budget)), st2)
               else
                 (case nullish_opt (extra method) (core method) of
                    None \<Rightarrow> (Refused (errorShape INVALID_REQUEST (''unknown method: '' @ method)), st2)
                  | Some handler \<Rightarrow> (Run handler, st2)))"

subsection \<open>Repeated role errors\<close>

record flood_guard =
  fg_closeAfter :: int
  fg_logEvery :: int
  fg_count :: int
  fg_suppressed :: int

record flood_decision =
  fd_shouldClose :: bool
  fd_shouldLog :: bool
  fd_count :: int
  fd_suppressedSinceLastLog :: int

definition new_flood_guard :: "rat option \<Rightarrow> rat option \<Rightarrow> flood_guard" where
  "new_flood_guard closeAfter logEvery =
     \<lparr>fg_closeAfter = max 1 \<lfloor>nullish closeAfter 10\<rfloor>, fg_logEvery = max 1 \<lfloor>nullish logEvery 100\<rfloor>,
       fg_count = 0, fg_suppressed = 0\<rparr>"

definition registerUnauthorized :: "flood_guard \<Rightarrow> flood_decision \<times> flood_guard" where
  "registerUnauthorized g0 =
     (let g = g0\<lparr>fg_count := fg_count g0 + 1\<rparr>;
          shouldClose = fg_count g > fg_closeAfter g;
          shouldLog = (fg_count g = 1 \<or> fg_count g mod fg_logEvery g = 0 \<or> shouldClose)
      in if \<not> shouldLog then
           (\<lparr>fd_shouldClose = shouldClose, fd_shouldLog = False, fd_count = fg_count g,
             fd_suppressedSinceLastLog = 0\<rparr>, g\<lparr>fg_suppressed := fg_suppressed g + 1\<rparr>)
         else
           (\<lparr>fd_shouldClose = shouldClose, fd_shouldLog = True, fd_count = fg_count g,
             fd_suppressedSinceLastLog = fg_suppressed g\<rparr>, g\<lparr>fg_suppressed := 0\<rparr>))"

definition flood_reset :: "flood_guard \<Rightarrow> flood_guard" where
  "flood_reset g = g\<lparr>fg_count := 0, fg_suppressed := 0\<rparr>"

definition isUnauthorizedRoleError :: "error_shape option \<Rightarrow> bool" where
  "isUnauthorizedRoleError err =
     (case err of
        None \<Rightarrow> False
      | Some e \<Rightarrow> es_code e = INVALID_REQUEST \<and> starts_with (es_message e) ''unauthorized role:'')"

text \<open>What the connection does with a response: it counts a role error and closes on the guard's
  word; any other response clears the count.\<close>

definition flood_respond :: "error_shape option \<Rightarrow> flood_guard \<Rightarrow> bool \<times> flood_guard" where
  "flood_respond err g =
     (if isUnauthorizedRoleError err then
        (let (d, g1) = registerUnauthorized g
         in (fd_shouldLog d \<and> fd_shouldClose d, g1))
      else (False, flood_reset g))"

end
