(* ===== verification/GatewayAccess.thy ===== *)
theory GatewayAccess
  imports GatewayDispatch
begin

section \<open>What a gateway client may call\<close>

text \<open>
  Properties of \<open>GatewayScopes\<close> and \<open>GatewayDispatch\<close>. Two pieces of code decide whether scopes
  suffice: the method check of the gateway and the scope comparison pairing uses. They are shown
  to agree on every classified method. The dispatch of a request is shown to run a handler only
  for the role and scopes the method asks for, and to run few control-plane writes.
\<close>

subsection \<open>Scope names\<close>

lemma scope_name_inject [simp]: "(scope_name s = scope_name t) = (s = t)"
  by (cases s; cases t) simp_all

lemma scope_name_trimmed [simp]: "js_trim (scope_name s) = scope_name s"
  by (cases s) (simp_all add: js_trim_def js_trim_start_def js_trim_end_def js_is_space_def)

lemma scope_name_nonempty [simp]: "scope_name s \<noteq> []"
  by (cases s) simp_all

lemma scope_name_prefix [simp]: "starts_with (scope_name s) ''operator.''"
  by (cases s) (simp_all add: starts_with_def)

lemma isOperatorScope_name [simp]: "isOperatorScope (scope_name s)"
  by (cases s) (simp_all add: isOperatorScope_def KNOWN_OPERATOR_SCOPE_VALUES_def)

lemma isOperatorScope_iff: "isOperatorScope v \<longleftrightarrow> (\<exists>s. v = scope_name s)"
proof
  assume "isOperatorScope v"
  then show "\<exists>s. v = scope_name s"
    by (auto simp: isOperatorScope_def KNOWN_OPERATOR_SCOPE_VALUES_def simp del: scope_name.simps)
qed auto

lemma normalizeScopeList_names [simp]:
  "set (normalizeScopeList (map scope_name ss)) = scope_name ` set ss"
  by (auto simp: normalizeScopeList_def)

lemma set_normalizeScopeList:
  "set (normalizeScopeList scopes) = {s. s \<noteq> [] \<and> s \<in> js_trim ` set scopes}"
  by (auto simp: normalizeScopeList_def)

lemma normalizeScopeList_Nil: "(normalizeScopeList scopes = []) = (\<forall>s\<in>set scopes. js_trim s = [])"
  by (auto simp: normalizeScopeList_def filter_empty_conv)

text \<open>Scopes without white space around them.\<close>

definition tidy_scopes :: "string list \<Rightarrow> bool" where
  "tidy_scopes scopes = list_all (\<lambda>s. js_trim s = s) scopes"

lemma tidy_member:
  "tidy_scopes scopes \<Longrightarrow> s \<in> set (normalizeScopeList scopes) \<longleftrightarrow> s \<noteq> [] \<and> s \<in> set scopes"
  by (auto simp: set_normalizeScopeList tidy_scopes_def list_all_iff image_iff)

subsection \<open>The method check, scope by scope\<close>

definition scope_suffices :: "string list \<Rightarrow> operator_scope \<Rightarrow> bool" where
  "scope_suffices scopes s =
     (has_scope scopes ADMIN_SCOPE \<or> has_scope scopes s \<or> (s = READ_SCOPE \<and> has_scope scopes WRITE_SCOPE))"

lemma authorize_static:
  assumes "method \<notin> set DYNAMIC_OPERATOR_SCOPE_METHODS"
  shows "authorizeOperatorScopesForMethod reg method scopes params = ScopeAllowed \<longleftrightarrow>
    scope_suffices scopes (nullish (resolveScopedMethod reg method) ADMIN_SCOPE)"
  using assms by (auto simp: authorizeOperatorScopesForMethod_def scope_suffices_def Let_def
      resolveRequiredOperatorScopeForMethod_def)

lemma authorize_registered:
  assumes "method \<in> set DYNAMIC_OPERATOR_SCOPE_METHODS"
    and "resolveSessionActionRegisteredScopes reg params = Some required"
  shows "authorizeOperatorScopesForMethod reg method scopes params = ScopeAllowed \<longleftrightarrow>
    list_all (scope_suffices scopes) required"
  using assms by (auto simp: authorizeOperatorScopesForMethod_def scope_suffices_def scope_missing_def
      list_all_iff find_None_iff find_Some_iff split: option.split)

lemma registered_nonempty: "resolveSessionActionRegisteredScopes reg params \<noteq> Some []"
  by (auto simp: resolveSessionActionRegisteredScopes_def split: option.splits)

lemma operator_satisfied_name:
  assumes "tidy_scopes scopes"
  shows "operatorScopeSatisfied (scope_name s) (normalizeScopeList scopes) = scope_suffices scopes s"
  by (cases s) (simp_all add: operatorScopeSatisfied_def scope_suffices_def has_scope_def
      OPERATOR_SCOPE_PREFIX_def starts_with_def tidy_member [OF assms])

lemma role_scopes_operator:
  assumes "tidy_scopes scopes" and "ss \<noteq> []"
  shows "roleScopesAllow ''operator'' (map scope_name ss) scopes = list_all (scope_suffices scopes) ss"
proof (cases "normalizeScopeList scopes = []")
  case True
  then have "\<not> has_scope scopes s" for s
    using tidy_member [OF assms(1), of "scope_name s"] by (simp add: has_scope_def)
  then have "\<not> scope_suffices scopes s" for s by (simp add: scope_suffices_def)
  moreover have "normalizeScopeList (map scope_name ss) \<noteq> []"
    using assms(2) by (auto simp: normalizeScopeList_Nil)
  ultimately show ?thesis using True assms(2)
    by (cases ss) (simp_all add: roleScopesAllow_def Let_def)
next
  case False
  have "normalizeScopeList (map scope_name ss) \<noteq> []"
    using assms(2) by (auto simp: normalizeScopeList_Nil)
  moreover have "js_trim ''operator'' = OPERATOR_ROLE"
    by (simp add: OPERATOR_ROLE_def js_trim_def js_trim_start_def js_trim_end_def js_is_space_def)
  ultimately show ?thesis using False
    by (simp add: roleScopesAllow_def Let_def list_all_iff operator_satisfied_name [OF assms(1)])
qed

lemma least_privilege_required:
  assumes "resolveLeastPrivilegeOperatorScopesForMethod reg method params \<noteq> []"
    and "method \<in> set DYNAMIC_OPERATOR_SCOPE_METHODS \<longrightarrow> resolveSessionActionRegisteredScopes reg params \<noteq> None"
  shows "authorizeOperatorScopesForMethod reg method scopes params = ScopeAllowed \<longleftrightarrow>
    list_all (scope_suffices scopes) (resolveLeastPrivilegeOperatorScopesForMethod reg method params)"
proof (cases "method \<in> set DYNAMIC_OPERATOR_SCOPE_METHODS")
  case True
  then obtain required where r: "resolveSessionActionRegisteredScopes reg params = Some required"
    using assms(2) by blast
  then have "resolveLeastPrivilegeOperatorScopesForMethod reg method params = required"
    using True by (simp add: resolveLeastPrivilegeOperatorScopesForMethod_def
        resolveDynamicLeastPrivilegeOperatorScopesForMethod_def DYNAMIC_OPERATOR_SCOPE_METHODS_def
        resolveSessionActionLeastPrivilegeScopes_def)
  with authorize_registered [OF True r] show ?thesis by simp
next
  case False
  then obtain s where "resolveScopedMethod reg method = Some s"
    using assms(1) by (auto simp: resolveLeastPrivilegeOperatorScopesForMethod_def
        resolveRequiredOperatorScopeForMethod_def split: option.splits)
  then show ?thesis using False authorize_static [OF False, of reg scopes params]
    by (simp add: resolveLeastPrivilegeOperatorScopesForMethod_def resolveRequiredOperatorScopeForMethod_def)
qed

subsection \<open>The method table\<close>

lemma map_set_fold: "map_get (foldl (\<lambda>m (k, v). map_set m k v) m0 xs) k =
    (case map_of (rev xs) k of None \<Rightarrow> map_get m0 k | Some v \<Rightarrow> Some v)"
  by (induction xs arbitrary: m0) (auto simp: map_add_def split: option.split)

lemma method_scope_lookup: "map_get METHOD_SCOPE_BY_NAME k = map_of (rev method_scope_entries) k"
  by (simp add: METHOD_SCOPE_BY_NAME_def map_set_fold split: option.split)

lemma scoped_method_fixed:
  assumes "map_get METHOD_SCOPE_BY_NAME method \<noteq> None \<or> isReservedAdminGatewayMethod method"
  shows "resolveScopedMethod reg method = resolveScopedMethod None method"
    and "map_get METHOD_SCOPE_BY_NAME method = None \<Longrightarrow> resolveScopedMethod reg method = Some ADMIN_SCOPE"
  using assms by (auto simp: resolveScopedMethod_def resolveReservedGatewayMethodScope_def split: option.split)

text \<open>A plugin cannot register a reserved name below admin.\<close>

lemma plugin_reserved_admin:
  assumes "isReservedAdminGatewayMethod method" and "scope \<noteq> None"
  shows "fst (normalizePluginGatewayMethodScope method scope) = Some ADMIN_SCOPE"
  using assms by (auto simp: normalizePluginGatewayMethodScope_def resolveReservedGatewayMethodScope_def Let_def)

subsection \<open>Monotonicity\<close>

lemma scope_suffices_mono: "set a \<subseteq> set b \<Longrightarrow> scope_suffices a s \<Longrightarrow> scope_suffices b s"
  by (auto simp: scope_suffices_def has_scope_def)

lemma authorize_mono:
  assumes "set a \<subseteq> set b" and "authorizeOperatorScopesForMethod reg method a params = ScopeAllowed"
  shows "authorizeOperatorScopesForMethod reg method b params = ScopeAllowed"
proof (cases "method \<in> set DYNAMIC_OPERATOR_SCOPE_METHODS")
  case False
  then show ?thesis using assms scope_suffices_mono by (auto simp: authorize_static)
next
  case True
  show ?thesis
  proof (cases "has_scope b ADMIN_SCOPE")
    case False
    then have "\<not> has_scope a ADMIN_SCOPE" using assms(1) by (auto simp: has_scope_def)
    moreover have ex: "list_ex isOperatorScope a \<Longrightarrow> list_ex isOperatorScope b"
      using assms(1) by (auto simp: list_ex_iff)
    moreover have miss: "find (scope_missing a) xs = None \<Longrightarrow> find (scope_missing b) xs = None" for xs
      using assms(1) by (auto simp: find_None_iff scope_missing_def has_scope_def)
    ultimately show ?thesis using True False assms(2)
      by (auto simp: authorizeOperatorScopesForMethod_def Let_def split: if_splits option.splits dest: miss)
  qed (simp add: authorizeOperatorScopesForMethod_def)
qed

lemma least_privilege_own:
  assumes "resolveLeastPrivilegeOperatorScopesForMethod reg method params \<noteq> []"
  shows "authorizeOperatorScopesForMethod reg method
    (map scope_name (resolveLeastPrivilegeOperatorScopesForMethod reg method params)) params = ScopeAllowed"
    (is "authorizeOperatorScopesForMethod reg method (map scope_name ?req) params = _")
proof (cases "method \<in> set DYNAMIC_OPERATOR_SCOPE_METHODS \<and> resolveSessionActionRegisteredScopes reg params = None")
  case True
  then show ?thesis
    by (auto simp: resolveLeastPrivilegeOperatorScopesForMethod_def DYNAMIC_OPERATOR_SCOPE_METHODS_def
        resolveDynamicLeastPrivilegeOperatorScopesForMethod_def resolveSessionActionLeastPrivilegeScopes_def
        authorizeOperatorScopesForMethod_def has_scope_def CLI_DEFAULT_OPERATOR_SCOPES_def
        scope_missing_def isOperatorScope_def KNOWN_OPERATOR_SCOPE_VALUES_def)
next
  case False
  have "scope_suffices (map scope_name ?req) s" if "s \<in> set ?req" for s
    using that by (auto simp: scope_suffices_def has_scope_def simp del: scope_name.simps)
  then show ?thesis using False least_privilege_required [OF assms] by (auto simp: list_all_iff)
qed

subsection \<open>Dispatch\<close>

text \<open>The guards a request must pass.\<close>

definition passes_guards :: "plugin_registry option \<Rightarrow> string list option \<Rightarrow> string \<Rightarrow>
    dispatch_client option \<Rightarrow> request_params \<Rightarrow> bool" where
  "passes_guards reg unavailable method client params =
     (authorizeGatewayMethod reg method client params = None \<and> method \<notin> set (nullish unavailable []))"

lemma handle_result:
  "handleGatewayRequest reg un extra core method client params now st =
    (if \<not> passes_guards reg un method client params then
       (fst (handleGatewayRequest reg un extra core method client params now st), st)
     else if method \<in> set CONTROL_PLANE_WRITE_METHODS then
       (fst (handleGatewayRequest reg un extra core method client params now st),
        snd (control_consume (map_option dc_base client) now st))
     else (fst (handleGatewayRequest reg un extra core method client params now st), st))"
  by (auto simp: handleGatewayRequest_def passes_guards_def control_consume_def Let_def case_prod_beta
      split: option.split)

lemma handle_runs:
  assumes "fst (handleGatewayRequest reg un extra core method client params now st) = Run h"
  shows "passes_guards reg un method client params"
    and "nullish_opt (extra method) (core method) = Some h"
    and "method \<in> set CONTROL_PLANE_WRITE_METHODS \<Longrightarrow>
      cr_allowed (fst (control_consume (map_option dc_base client) now st))"
  using assms by (auto simp: handleGatewayRequest_def passes_guards_def control_consume_def Let_def
      case_prod_beta split: option.splits if_splits)

lemma authorize_method_None:
  assumes "authorizeGatewayMethod reg method (Some client) params = None"
    and "dc_connect client = Some conn" and "method \<noteq> ''health''"
  shows "(nullish (cp_role conn) ''operator'' = ''node'' \<and> isNodeRoleMethod method) \<or>
    (nullish (cp_role conn) ''operator'' = ''operator'' \<and> \<not> isNodeRoleMethod method \<and>
     authorizeOperatorScopesForMethod reg method (nullish (cp_scopes conn) []) params = ScopeAllowed)"
  using assms by (auto simp: authorizeGatewayMethod_def parseGatewayRole_def isRoleAuthorizedForMethod_def
      Let_def authorizeOperatorScopesForMethod_def split: if_splits option.splits scope_auth.splits)

text \<open>A client's requests one after the other, each with its time, and the control-plane writes
  that ran.\<close>

fun dispatch_all :: "plugin_registry option \<Rightarrow> string list option \<Rightarrow> (string \<Rightarrow> 'h option) \<Rightarrow>
    (string \<Rightarrow> 'h option) \<Rightarrow> dispatch_client option \<Rightarrow> (int \<times> string \<times> request_params) list \<Rightarrow> buckets \<Rightarrow>
    'h dispatch_result list" where
  "dispatch_all reg un extra core client [] st = []"
| "dispatch_all reg un extra core client ((now, method, params) # reqs) st =
     (let (res, st1) = handleGatewayRequest reg un extra core method client params now st
      in res # dispatch_all reg un extra core client reqs st1)"

definition writes_run :: "(int \<times> string \<times> request_params) list \<Rightarrow> 'h dispatch_result list \<Rightarrow> nat" where
  "writes_run reqs results =
     length (filter (\<lambda>((now, method, params), res). method \<in> set CONTROL_PLANE_WRITE_METHODS \<and>
       (\<exists>h. res = Run h)) (zip reqs results))"

lemma dispatch_writes_bound:
  "int (writes_run reqs (dispatch_all reg un extra core client reqs st)) \<le>
    count_admitted (control_consume (map_option dc_base client))
      (map fst (filter (\<lambda>(now, method, params). method \<in> set CONTROL_PLANE_WRITE_METHODS \<and>
         passes_guards reg un method client params) reqs)) st"
proof (induction reg un extra core client reqs st rule: dispatch_all.induct)
  case (2 reg un extra core client now meth params reqs st)
  let ?r = "handleGatewayRequest reg un extra core meth client params now st"
  let ?w = "\<lambda>st. writes_run reqs (dispatch_all reg un extra core client reqs st)"
  have split: "dispatch_all reg un extra core client ((now, meth, params) # reqs) st =
      fst ?r # dispatch_all reg un extra core client reqs (snd ?r)"
    by (simp add: case_prod_beta Let_def)
  have writes: "writes_run ((now, meth, params) # reqs) (fst ?r # dispatch_all reg un extra core client reqs (snd ?r)) =
      (if meth \<in> set CONTROL_PLANE_WRITE_METHODS \<and> (\<exists>h. fst ?r = Run h) then 1 else 0) + ?w (snd ?r)"
    by (simp add: writes_run_def)
  note IH = 2 [OF refl prod.collapse]
  show ?case
  proof (cases "meth \<in> set CONTROL_PLANE_WRITE_METHODS \<and> passes_guards reg un meth client params")
    case True
    then have st: "snd ?r = snd (control_consume (map_option dc_base client) now st)"
      by (subst handle_result) simp
    have "cr_allowed (fst (control_consume (map_option dc_base client) now st))" if "\<exists>h. fst ?r = Run h"
      using that True by (auto intro: handle_runs(3))
    then show ?thesis using True IH unfolding split writes by (auto simp: st)
  next
    case False
    then have st: "snd ?r = st"
      by (subst handle_result) simp
    have "\<not> (meth \<in> set CONTROL_PLANE_WRITE_METHODS \<and> (\<exists>h. fst ?r = Run h))"
      using False by (auto dest: handle_runs(1))
    then show ?thesis using False IH unfolding split writes by (auto simp: st)
  qed
qed (simp add: writes_run_def)

subsection \<open>Properties\<close>

text \<open>The two scope policies agree. For any classified meth, the gateway admits a caller exactly
  when the scope comparison used for pairing says the caller's scopes cover the meth's least
  privilege scopes. Both know that admin covers everything and that write covers read.\<close>

theorem scope_policies_agree:
  assumes "tidy_scopes scopes"
    and "resolveLeastPrivilegeOperatorScopesForMethod reg meth params \<noteq> []"
    and "meth \<in> set DYNAMIC_OPERATOR_SCOPE_METHODS \<longrightarrow> resolveSessionActionRegisteredScopes reg params \<noteq> None"
  shows "authorizeOperatorScopesForMethod reg meth scopes params = ScopeAllowed \<longleftrightarrow>
    roleScopesAllow ''operator''
      (map scope_name (resolveLeastPrivilegeOperatorScopesForMethod reg meth params)) scopes"
  using assms(1,2) by (simp add: least_privilege_required [OF assms(2,3)] role_scopes_operator)

lemma map_get_Cons: "map_get ((k, v) # m) x = (if k = x then Some v else map_get m x)"
  by (simp add: map_get_def)

definition sample_registry :: plugin_registry where
  "sample_registry = \<lparr>pr_gatewayMethodScopes = [(''voice.dial'', READ_SCOPE)],
     pr_sessionActions = [\<lparr>sa_pluginId = ''voice'', sa_actionId = ''hang'', sa_requiredScopes = None\<rparr>]\<rparr>"

lemma sample_scope: "resolveScopedMethod (Some sample_registry) ''voice.dial'' = Some READ_SCOPE"
proof -
  have "map_of (rev method_scope_entries) ''voice.dial'' = None"
    by code_simp
  then have "map_get METHOD_SCOPE_BY_NAME ''voice.dial'' = None"
    by (simp add: method_scope_lookup del: rev_map)
  then show ?thesis
    by (simp add: resolveScopedMethod_def resolveReservedGatewayMethodScope_def
        isReservedAdminGatewayMethod_def RESERVED_ADMIN_GATEWAY_METHOD_PREFIXES_def starts_with_def
        sample_registry_def map_get_Cons)
qed

lemma sample_least:
  "resolveLeastPrivilegeOperatorScopesForMethod (Some sample_registry) ''voice.dial'' NotAnObject = [READ_SCOPE]"
  by (simp add: resolveLeastPrivilegeOperatorScopesForMethod_def resolveRequiredOperatorScopeForMethod_def
      sample_scope DYNAMIC_OPERATOR_SCOPE_METHODS_def)

theorem scope_policies_agree_witness:
  "authorizeOperatorScopesForMethod (Some sample_registry) ''voice.dial'' [''operator.write''] NotAnObject
     = ScopeAllowed \<longleftrightarrow> roleScopesAllow ''operator'' [''operator.read''] [''operator.write'']"
  using scope_policies_agree [of "[''operator.write'']" "Some sample_registry" "''voice.dial''" NotAnObject]
    scope_name_trimmed [of WRITE_SCOPE]
  by (simp add: sample_least tidy_scopes_def DYNAMIC_OPERATOR_SCOPE_METHODS_def)

text \<open>Plugins cannot widen access. No plugin registry changes the scope of a method of the core
  table or of a reserved prefix, and a reserved method outside the table needs admin. A method
  nobody classified is open to admins only, more scopes never take access away, and the least
  privilege scopes of a method, when there are any, are enough for it.\<close>

theorem plugins_cannot_widen:
  assumes "set scopes \<subseteq> set wider"
  shows "(map_get METHOD_SCOPE_BY_NAME method \<noteq> None \<or> isReservedAdminGatewayMethod method \<longrightarrow>
      resolveScopedMethod reg method = resolveScopedMethod None method \<and>
      (map_get METHOD_SCOPE_BY_NAME method = None \<longrightarrow> resolveScopedMethod reg method = Some ADMIN_SCOPE)) \<and>
    (resolveScopedMethod reg method = None \<longrightarrow> method \<notin> set DYNAMIC_OPERATOR_SCOPE_METHODS \<longrightarrow>
      (authorizeOperatorScopesForMethod reg method scopes params = ScopeAllowed \<longleftrightarrow>
       has_scope scopes ADMIN_SCOPE)) \<and>
    (authorizeOperatorScopesForMethod reg method scopes params = ScopeAllowed \<longrightarrow>
      authorizeOperatorScopesForMethod reg method wider params = ScopeAllowed) \<and>
    (resolveLeastPrivilegeOperatorScopesForMethod reg method params \<noteq> [] \<longrightarrow>
      authorizeOperatorScopesForMethod reg method
        (map scope_name (resolveLeastPrivilegeOperatorScopesForMethod reg method params)) params = ScopeAllowed)"
proof (intro conjI impI)
  assume "map_get METHOD_SCOPE_BY_NAME method \<noteq> None \<or> isReservedAdminGatewayMethod method"
  note fixed = scoped_method_fixed [OF this]
  show "resolveScopedMethod reg method = resolveScopedMethod None method" by (rule fixed)
  show "map_get METHOD_SCOPE_BY_NAME method = None \<Longrightarrow> resolveScopedMethod reg method = Some ADMIN_SCOPE"
    by (rule fixed)
next
  assume "resolveScopedMethod reg method = None" and "method \<notin> set DYNAMIC_OPERATOR_SCOPE_METHODS"
  then show "authorizeOperatorScopesForMethod reg method scopes params = ScopeAllowed \<longleftrightarrow>
      has_scope scopes ADMIN_SCOPE"
    by (simp add: authorize_static scope_suffices_def)
qed (use authorize_mono [OF assms] least_privilege_own in blast)+

theorem plugins_cannot_widen_witness:
  "resolveScopedMethod (Some \<lparr>pr_gatewayMethodScopes = [(''config.wipe'', READ_SCOPE)], pr_sessionActions = []\<rparr>)
     ''config.wipe'' = resolveScopedMethod None ''config.wipe'' \<and>
   authorizeOperatorScopesForMethod (Some sample_registry) ''voice.dial'' [''operator.read''] NotAnObject = ScopeAllowed"
  using plugins_cannot_widen [of "[]" "[]" "''config.wipe''"
      "Some \<lparr>pr_gatewayMethodScopes = [(''config.wipe'', READ_SCOPE)], pr_sessionActions = []\<rparr>"]
    plugins_cannot_widen [of "[]" "[]" "''voice.dial''" "Some sample_registry" NotAnObject]
  by (simp add: isReservedAdminGatewayMethod_def RESERVED_ADMIN_GATEWAY_METHOD_PREFIXES_def starts_with_def
      sample_least)

text \<open>
  What the scopes of an operator must hold for a method, without reference to the code that checks it:
  admin, or the scope of the method, or write where read is asked for. A session action asks for every
  scope it is registered with, for write when it is not registered, and for any operator scope when
  the request does not name it properly.
\<close>

definition scopes_cover :: "plugin_registry option \<Rightarrow> string \<Rightarrow> request_params \<Rightarrow> string list \<Rightarrow> bool" where
  "scopes_cover reg method params scopes =
     (let holds = (\<lambda>s. scope_name s \<in> set scopes \<or> s = READ_SCOPE \<and> ''operator.write'' \<in> set scopes)
      in ''operator.admin'' \<in> set scopes \<or>
        (if method = ''plugins.sessionAction'' then
           (case resolveSessionActionRegisteredScopes reg params of
              Some required \<Rightarrow> list_all holds required
            | None \<Rightarrow>
                if params \<noteq> NotAnObject \<and> session_action_ids params = None then list_ex isOperatorScope scopes
                else holds WRITE_SCOPE)
         else (\<exists>s. resolveScopedMethod reg method = Some s \<and> holds s)))"

lemma authorize_covers:
  "authorizeOperatorScopesForMethod reg method scopes params = ScopeAllowed \<longleftrightarrow> scopes_cover reg method params scopes"
proof (cases "method \<in> set DYNAMIC_OPERATOR_SCOPE_METHODS")
  case False
  then show ?thesis
    by (cases "resolveScopedMethod reg method")
      (auto simp: authorize_static scopes_cover_def scope_suffices_def has_scope_def Let_def DYNAMIC_OPERATOR_SCOPE_METHODS_def)
next
  case True
  show ?thesis
  proof (cases "resolveSessionActionRegisteredScopes reg params")
    case (Some required)
    then show ?thesis using True authorize_registered [OF True Some, of scopes]
      by (auto simp: scopes_cover_def scope_suffices_def has_scope_def Let_def DYNAMIC_OPERATOR_SCOPE_METHODS_def list_all_iff)
  next
    case None
    then show ?thesis using True
      by (auto simp: authorizeOperatorScopesForMethod_def scopes_cover_def scope_missing_def has_scope_def Let_def
          DYNAMIC_OPERATOR_SCOPE_METHODS_def)
  qed
qed

text \<open>C10: A handler runs only for whom it is meant. When the gateway runs a handler for a client that
  has sent its connect request, the method is the health check, or the client is a node calling a node
  method, or it is an operator calling another method whose scopes cover what the method table, or the
  registration of the session action, asks for; the method is not held back during startup, and the
  handler is the extra one when there is one.\<close>

theorem dispatch_guarded:
  assumes "fst (handleGatewayRequest reg un extra core method (Some client) params now st) = Run h"
    and "dc_connect client = Some conn"
  shows "(method = ''health'' \<or>
      (nullish (cp_role conn) ''operator'' = ''node'' \<and> isNodeRoleMethod method) \<or>
      (nullish (cp_role conn) ''operator'' = ''operator'' \<and> \<not> isNodeRoleMethod method \<and>
       scopes_cover reg method params (nullish (cp_scopes conn) []))) \<and>
    method \<notin> set (nullish un []) \<and> nullish_opt (extra method) (core method) = Some h"
  using handle_runs(1,2) [OF assms(1)] authorize_method_None [OF _ assms(2)]
  unfolding passes_guards_def authorize_covers by blast

definition sample_node :: dispatch_client where
  "sample_node = \<lparr>dc_base = \<lparr>gw_deviceId = Some ''n1'', gw_clientIp = Some ''10.0.0.9'', gw_connId = None\<rparr>,
     dc_connect = Some \<lparr>cp_role = Some ''node'', cp_scopes = None\<rparr>, dc_actorId = None\<rparr>"

theorem dispatch_guarded_witness:
  "isNodeRoleMethod ''node.event'' \<and>
   fst (handleGatewayRequest None None (\<lambda>m. None) (\<lambda>m. Some (3::nat)) ''node.event'' (Some sample_node)
     NotAnObject 0 []) = Run 3"
proof -
  have run: "fst (handleGatewayRequest None None (\<lambda>m. None) (\<lambda>m. Some (3::nat)) ''node.event'' (Some sample_node)
      NotAnObject 0 []) = Run 3"
    by (simp add: handleGatewayRequest_def authorizeGatewayMethod_def sample_node_def parseGatewayRole_def
        isRoleAuthorizedForMethod_def isNodeRoleMethod_def NODE_ROLE_METHODS_def
        CONTROL_PLANE_WRITE_METHODS_def case_prod_beta)
  then show ?thesis
    using dispatch_guarded [OF run, of "\<lparr>cp_role = Some ''node'', cp_scopes = None\<rparr>"]
    by (simp add: sample_node_def)
qed

text \<open>A client runs at most six control-plane writes in any minute. Whatever requests it sends in
  time order within less than a minute, from whatever state of the buckets, at most six of them
  run the handler of a method that changes the configuration, restarts or updates the gateway.\<close>

theorem dispatch_write_burst:
  assumes "sorted (map fst reqs)" and "\<forall>t\<in>set (map fst reqs). a \<le> t \<and> t < a + 60000"
    and "buckets_ok st"
  shows "writes_run reqs (dispatch_all reg un extra core client reqs st) \<le> 6"
proof -
  let ?sel = "filter (\<lambda>(now, method, params). method \<in> set CONTROL_PLANE_WRITE_METHODS \<and>
      passes_guards reg un method client params) reqs"
  have "sorted (map fst ?sel)" using assms(1) by (rule sorted_filter)
  moreover have "\<forall>t\<in>set (map fst ?sel). a \<le> t \<and> t < a + 60000" using assms(2) by auto
  ultimately have "count_admitted (control_consume (map_option dc_base client)) (map fst ?sel) st \<le> 6"
    by (rule control_plane_burst_bound [OF _ _ assms(3)])
  with dispatch_writes_bound [of reqs reg un extra core client st] show ?thesis by linarith
qed

theorem dispatch_write_burst_witness:
  "writes_run [(0, ''update.run'', NotAnObject), (10, ''update.run'', NotAnObject)]
     (dispatch_all None None (\<lambda>m. None) (\<lambda>m. Some ()) None
       [(0, ''update.run'', NotAnObject), (10, ''update.run'', NotAnObject)] []) \<le> 6"
  by (rule dispatch_write_burst [of _ 0]) (simp_all add: buckets_ok_def)

end
