(* ===== verification/AttemptQueue.thy ===== *)
theory AttemptQueue
  imports RateLimits
begin

section \<open>Serialized authentication attempts\<close>

text \<open>
  Models \<^verbatim>\<open>src/gateway/rate-limit-attempt-serialization.ts\<close>. An attempt that may be suspended
  between the limiter's check and the record of its failure waits for the attempts of the same
  scope and address before it. The module's state is the map from a key to the promise of the
  last attempt; an attempt is identified by its place in arrival order, and its promise (\<open>tail\<close>
  in the code) is resolved when the attempt is released and the promise before it is. The steps
  are an arrival, the start of \<open>run\<close> and its end, by return or exception.
\<close>

datatype attempt_phase = Waiting | Running | Released

record attempt =
  at_key :: string
  at_previous :: "nat option"
  at_phase :: attempt_phase

record attempt_queue =
  aq_pending :: "(string, nat) js_map"
  aq_attempts :: "attempt list"

definition buildSerializationKey :: "ip_resolver \<Rightarrow> string option \<Rightarrow> string option \<Rightarrow> string" where
  "buildSerializationKey resolve_ip ip scope =
     normalizeScope scope @ '':'' @ normalizeRateLimitClientIp resolve_ip ip"

text \<open>\<open>tail\<close> of attempt \<open>n\<close> is resolved; an attempt only waits for an earlier one.\<close>

function tail_resolved :: "attempt list \<Rightarrow> nat \<Rightarrow> bool" where
  "tail_resolved ats n =
     (n < length ats \<and> at_phase (ats ! n) = Released \<and>
      (case at_previous (ats ! n) of None \<Rightarrow> True | Some m \<Rightarrow> if m < n then tail_resolved ats m else False))"
  by pat_completeness auto
termination by (relation "measure snd") auto

declare tail_resolved.simps [simp del]

definition previous_resolved :: "attempt list \<Rightarrow> nat \<Rightarrow> bool" where
  "previous_resolved ats n =
     (case at_previous (ats ! n) of None \<Rightarrow> True | Some m \<Rightarrow> tail_resolved ats m)"

text \<open>The call: it reads the pending tail of its key and puts its own there.\<close>

definition attempt_arrive :: "string \<Rightarrow> attempt_queue \<Rightarrow> attempt_queue" where
  "attempt_arrive key q =
     \<lparr>aq_pending = map_set (aq_pending q) key (length (aq_attempts q)),
       aq_attempts = aq_attempts q @
         [\<lparr>at_key = key, at_previous = map_get (aq_pending q) key, at_phase = Waiting\<rparr>]\<rparr>"

definition set_phase :: "nat \<Rightarrow> attempt_phase \<Rightarrow> attempt list \<Rightarrow> attempt list" where
  "set_phase n ph ats = ats[n := (ats ! n)\<lparr>at_phase := ph\<rparr>]"

text \<open>\<open>await previous\<close> is over and \<open>run\<close> begins.\<close>

definition attempt_start :: "nat \<Rightarrow> attempt_queue \<Rightarrow> attempt_queue" where
  "attempt_start n q = q\<lparr>aq_attempts := set_phase n Running (aq_attempts q)\<rparr>"

text \<open>The \<open>finally\<close> block: release, and forget the key if nobody came after.\<close>

definition attempt_finish :: "nat \<Rightarrow> attempt_queue \<Rightarrow> attempt_queue" where
  "attempt_finish n q =
     (let key = at_key (aq_attempts q ! n)
      in \<lparr>aq_pending = (if map_get (aq_pending q) key = Some n then map_delete (aq_pending q) key else aq_pending q),
          aq_attempts = set_phase n Released (aq_attempts q)\<rparr>)"

inductive attempt_step :: "attempt_queue \<Rightarrow> attempt_queue \<Rightarrow> bool" where
  arrive: "attempt_step q (attempt_arrive key q)"
| start: "n < length (aq_attempts q) \<Longrightarrow> at_phase (aq_attempts q ! n) = Waiting \<Longrightarrow>
    previous_resolved (aq_attempts q) n \<Longrightarrow> attempt_step q (attempt_start n q)"
| finish: "n < length (aq_attempts q) \<Longrightarrow> at_phase (aq_attempts q ! n) = Running \<Longrightarrow>
    attempt_step q (attempt_finish n q)"

definition empty_attempts :: attempt_queue where
  "empty_attempts = \<lparr>aq_pending = [], aq_attempts = []\<rparr>"

inductive attempts_reachable :: "attempt_queue \<Rightarrow> bool" where
  init: "attempts_reachable empty_attempts"
| step: "attempts_reachable q \<Longrightarrow> attempt_step q q' \<Longrightarrow> attempts_reachable q'"

subsection \<open>The invariant\<close>

text \<open>Attempts \<open>i\<close> and \<open>j\<close> of one key, \<open>i\<close> first.\<close>

definition before_same :: "attempt list \<Rightarrow> nat \<Rightarrow> nat \<Rightarrow> bool" where
  "before_same ats i j = (i < j \<and> j < length ats \<and> at_key (ats ! i) = at_key (ats ! j))"

definition in_order :: "attempt list \<Rightarrow> bool" where
  "in_order ats = (\<forall>i j. before_same ats i j \<longrightarrow> at_phase (ats ! j) \<noteq> Waiting \<longrightarrow> at_phase (ats ! i) = Released)"

definition waits_ok :: "attempt list \<Rightarrow> nat \<Rightarrow> bool" where
  "waits_ok ats j = (case at_previous (ats ! j) of
      None \<Rightarrow> \<forall>i. before_same ats i j \<longrightarrow> at_phase (ats ! i) = Released
    | Some m \<Rightarrow> before_same ats m j \<and> (\<forall>i. before_same ats i j \<longrightarrow> i \<le> m))"

definition pending_ok :: "attempt_queue \<Rightarrow> string \<Rightarrow> bool" where
  "pending_ok q key = (case map_get (aq_pending q) key of
      None \<Rightarrow> \<forall>i<length (aq_attempts q). at_key (aq_attempts q ! i) = key \<longrightarrow> at_phase (aq_attempts q ! i) = Released
    | Some m \<Rightarrow> m < length (aq_attempts q) \<and> at_key (aq_attempts q ! m) = key \<and>
        at_phase (aq_attempts q ! m) \<noteq> Released \<and>
        (\<forall>i<length (aq_attempts q). at_key (aq_attempts q ! i) = key \<longrightarrow> i \<le> m))"

definition attempts_ok :: "attempt_queue \<Rightarrow> bool" where
  "attempts_ok q = (in_order (aq_attempts q) \<and> (\<forall>j<length (aq_attempts q). waits_ok (aq_attempts q) j) \<and>
     (\<forall>key. pending_ok q key))"

lemma in_orderD:
  "in_order ats \<Longrightarrow> before_same ats i j \<Longrightarrow> at_phase (ats ! j) \<noteq> Waiting \<Longrightarrow> at_phase (ats ! i) = Released"
  unfolding in_order_def by blast

lemma before_same_less: "before_same ats i j \<Longrightarrow> i < length ats \<and> j < length ats \<and> i \<noteq> j"
  by (auto simp: before_same_def)

lemma set_phase_nth: "n < length ats \<Longrightarrow> set_phase n ph ats ! i =
    (if i = n then (ats ! n)\<lparr>at_phase := ph\<rparr> else ats ! i)"
  by (simp add: set_phase_def nth_list_update)

lemma set_phase_length [simp]: "length (set_phase n ph ats) = length ats"
  by (simp add: set_phase_def)

lemma set_phase_fields [simp]:
  "n < length ats \<Longrightarrow> at_key (set_phase n ph ats ! i) = at_key (ats ! i)"
  "n < length ats \<Longrightarrow> at_previous (set_phase n ph ats ! i) = at_previous (ats ! i)"
  "n < length ats \<Longrightarrow> at_phase (set_phase n ph ats ! i) = (if i = n then ph else at_phase (ats ! i))"
  by (simp_all add: set_phase_nth)

lemma before_same_phase [simp]:
  "n < length ats \<Longrightarrow> before_same (set_phase n ph ats) i j = before_same ats i j"
  by (simp add: before_same_def)

lemma before_same_append:
  "before_same (ats @ [a]) i j \<longleftrightarrow>
    before_same ats i j \<or> (j = length ats \<and> i < length ats \<and> at_key (ats ! i) = at_key a)"
  by (auto simp: before_same_def nth_append less_Suc_eq)

lemma tail_resolved_released: "tail_resolved ats n \<Longrightarrow> n < length ats \<and> at_phase (ats ! n) = Released"
  by (subst (asm) tail_resolved.simps) simp

text \<open>Once the promise before it is resolved, every earlier attempt of the key is over.\<close>

lemma previous_resolved_all:
  assumes "in_order ats" and "waits_ok ats j" and "previous_resolved ats j" and "before_same ats i j"
  shows "at_phase (ats ! i) = Released"
proof (cases "at_previous (ats ! j)")
  case None
  then show ?thesis using assms by (simp add: waits_ok_def)
next
  case (Some m)
  then have m: "before_same ats m j" "i \<le> m" and rel: "at_phase (ats ! m) = Released"
    using assms tail_resolved_released by (auto simp: waits_ok_def previous_resolved_def)
  show ?thesis
  proof (cases "i = m")
    case False
    then have "before_same ats i m" using m assms(4) by (auto simp: before_same_def)
    from in_orderD [OF assms(1) this] rel show ?thesis by simp
  qed (simp add: rel)
qed

subsection \<open>Arrival\<close>

lemma arrive_in_order:
  assumes "in_order ats"
  shows "in_order (ats @ [\<lparr>at_key = key, at_previous = p, at_phase = Waiting\<rparr>])"
  unfolding in_order_def before_same_append
  by (auto simp: nth_append dest: before_same_less in_orderD [OF assms])

lemma arrive_waits_old:
  assumes "waits_ok ats j" and "j < length ats"
  shows "waits_ok (ats @ [a]) j"
  using assms by (auto simp: waits_ok_def before_same_append nth_append dest: before_same_less split: option.splits)

lemma arrive_waits_new:
  assumes "pending_ok q key"
  shows "waits_ok (aq_attempts (attempt_arrive key q)) (length (aq_attempts q))"
proof (cases "map_get (aq_pending q) key")
  case None
  then show ?thesis using assms
    by (simp add: waits_ok_def attempt_arrive_def before_same_append before_same_def pending_ok_def nth_append)
next
  case (Some m)
  then show ?thesis using assms
    by (simp add: waits_ok_def attempt_arrive_def before_same_append pending_ok_def nth_append)
      (simp add: before_same_def)
qed

lemma arrive_pending:
  assumes "pending_ok q key'"
  shows "pending_ok (attempt_arrive key q) key'"
proof (cases "key' = key")
  case False
  then show ?thesis using assms
    by (auto simp: pending_ok_def attempt_arrive_def nth_append less_Suc_eq split: option.splits)
qed (simp add: pending_ok_def attempt_arrive_def less_Suc_eq_le)

lemma arrive_ok:
  assumes "attempts_ok q"
  shows "attempts_ok (attempt_arrive key q)"
  unfolding attempts_ok_def
proof (intro conjI allI impI)
  show "in_order (aq_attempts (attempt_arrive key q))"
    using assms arrive_in_order by (simp add: attempts_ok_def attempt_arrive_def)
  show "pending_ok (attempt_arrive key q) key'" for key'
    using assms arrive_pending by (simp add: attempts_ok_def)
  show "waits_ok (aq_attempts (attempt_arrive key q)) j" if "j < length (aq_attempts (attempt_arrive key q))" for j
  proof (cases "j = length (aq_attempts q)")
    case True
    then show ?thesis using assms arrive_waits_new by (simp add: attempts_ok_def)
  next
    case False
    then have "j < length (aq_attempts q)" using that by (simp add: attempt_arrive_def)
    then show ?thesis using assms arrive_waits_old by (simp add: attempts_ok_def attempt_arrive_def)
  qed
qed

subsection \<open>Start and end\<close>

lemma waits_set_phase:
  assumes "n < length ats" and "waits_ok ats j" and "at_phase (ats ! n) \<noteq> Released"
  shows "waits_ok (set_phase n ph ats) j"
  using assms by (auto simp: waits_ok_def split: option.splits)

lemma start_ok:
  assumes "attempts_ok q" and n: "n < length (aq_attempts q)" "at_phase (aq_attempts q ! n) = Waiting"
    and prev: "previous_resolved (aq_attempts q) n"
  shows "attempts_ok (attempt_start n q)"
proof -
  have ord: "in_order (aq_attempts q)" and wait: "\<And>j. j < length (aq_attempts q) \<Longrightarrow> waits_ok (aq_attempts q) j"
    and pend: "\<And>key. pending_ok q key"
    using assms(1) by (simp_all add: attempts_ok_def)
  have "in_order (set_phase n Running (aq_attempts q))"
    unfolding in_order_def
  proof (intro allI impI)
    fix i j
    assume b: "before_same (set_phase n Running (aq_attempts q)) i j"
      and ph: "at_phase (set_phase n Running (aq_attempts q) ! j) \<noteq> Waiting"
    from b have b': "before_same (aq_attempts q) i j" using n by simp
    have "at_phase (aq_attempts q ! i) = Released"
    proof (cases "j = n")
      case True
      then show ?thesis using previous_resolved_all [OF ord wait [OF n(1)] prev] b' by simp
    next
      case False
      then show ?thesis using in_orderD [OF ord b'] ph n by simp
    qed
    then show "at_phase (set_phase n Running (aq_attempts q) ! i) = Released" using n by auto
  qed
  moreover have "pending_ok (attempt_start n q) key" for key
    using pend [of key] n by (auto simp: pending_ok_def attempt_start_def split: option.splits)
  ultimately show ?thesis using n wait waits_set_phase [OF n(1)]
    by (simp add: attempts_ok_def attempt_start_def)
qed

lemma finish_pending:
  assumes ord: "in_order (aq_attempts q)" and pend: "pending_ok q key"
    and n: "n < length (aq_attempts q)" "at_phase (aq_attempts q ! n) = Running"
  shows "pending_ok (attempt_finish n q) key"
proof (cases "map_get (aq_pending q) key")
  case None
  then show ?thesis using pend n by (auto simp: pending_ok_def attempt_finish_def Let_def)
next
  case (Some m)
  then have m: "m < length (aq_attempts q)" "at_key (aq_attempts q ! m) = key"
      "at_phase (aq_attempts q ! m) \<noteq> Released" "\<And>i. i < length (aq_attempts q) \<Longrightarrow> at_key (aq_attempts q ! i) = key \<Longrightarrow> i \<le> m"
    using pend by (auto simp: pending_ok_def)
  show ?thesis
  proof (cases "m = n")
    case True
    have "at_phase (aq_attempts q ! i) = Released"
      if "i < length (aq_attempts q)" "at_key (aq_attempts q ! i) = key" "i \<noteq> n" for i
    proof -
      have "before_same (aq_attempts q) i n" using that m True by (auto simp: before_same_def le_neq_implies_less)
      from in_orderD [OF ord this] n(2) show ?thesis by simp
    qed
    then show ?thesis using True Some m n by (auto simp: pending_ok_def attempt_finish_def Let_def)
  next
    case False
    then have "map_get (aq_pending (attempt_finish n q)) key = Some m"
      using Some by (auto simp: attempt_finish_def Let_def)
    then show ?thesis using False m n by (simp add: pending_ok_def attempt_finish_def Let_def)
  qed
qed

lemma finish_ok:
  assumes "attempts_ok q" and n: "n < length (aq_attempts q)" "at_phase (aq_attempts q ! n) = Running"
  shows "attempts_ok (attempt_finish n q)"
proof -
  have ord: "in_order (aq_attempts q)" and wait: "\<And>j. j < length (aq_attempts q) \<Longrightarrow> waits_ok (aq_attempts q) j"
    and pend: "\<And>key. pending_ok q key"
    using assms(1) by (simp_all add: attempts_ok_def)
  have "in_order (set_phase n Released (aq_attempts q))"
    unfolding in_order_def using in_orderD [OF ord] n by (auto split: if_splits)
  moreover have "waits_ok (set_phase n Released (aq_attempts q)) j" if "j < length (aq_attempts q)" for j
    using waits_set_phase [OF n(1) wait [OF that]] n(2) by simp
  ultimately show ?thesis using finish_pending [OF ord pend n]
    by (simp add: attempts_ok_def attempt_finish_def Let_def)
qed

subsection \<open>Reachable queues\<close>

lemma attempts_invariant: "attempts_reachable q \<Longrightarrow> attempts_ok q"
proof (induction rule: attempts_reachable.induct)
  case init
  show ?case by (simp add: attempts_ok_def empty_attempts_def in_order_def before_same_def pending_ok_def)
next
  case (step q q')
  from step.hyps(2) step.IH show ?case
    by (induction rule: attempt_step.induct) (auto intro: arrive_ok start_ok finish_ok)
qed

text \<open>The queue's key is the limiter's key.\<close>

lemma serialization_key: "buildSerializationKey resolve_ip ip scope = auth_key resolve_ip ip scope"
  by (simp add: buildSerializationKey_def auth_key_def auth_resolveKey_def Let_def)

lemma released_tail:
  assumes "attempts_ok q" and "m < length (aq_attempts q)" and "at_phase (aq_attempts q ! m) = Released"
  shows "tail_resolved (aq_attempts q) m"
  using assms(2,3)
proof (induction m rule: less_induct)
  case (less m)
  show ?case
  proof (cases "at_previous (aq_attempts q ! m)")
    case None
    with less.prems show ?thesis by (subst tail_resolved.simps) simp
  next
    case (Some k)
    then have k: "before_same (aq_attempts q) k m"
      using assms(1) less.prems by (auto simp: attempts_ok_def waits_ok_def)
    then have "at_phase (aq_attempts q ! k) = Released"
      using assms(1) in_orderD [of "aq_attempts q" k m] less.prems by (simp add: attempts_ok_def)
    then have "tail_resolved (aq_attempts q) k"
      using less.IH [of k] k by (auto simp: before_same_def)
    with less.prems Some k show ?thesis by (subst tail_resolved.simps) (simp add: before_same_def)
  qed
qed

text \<open>A step other than an arrival, and the number of such steps a queue has left.\<close>

inductive attempt_proceeds :: "attempt_queue \<Rightarrow> attempt_queue \<Rightarrow> bool" where
  start: "n < length (aq_attempts q) \<Longrightarrow> at_phase (aq_attempts q ! n) = Waiting \<Longrightarrow>
    previous_resolved (aq_attempts q) n \<Longrightarrow> attempt_proceeds q (attempt_start n q)"
| finish: "n < length (aq_attempts q) \<Longrightarrow> at_phase (aq_attempts q ! n) = Running \<Longrightarrow>
    attempt_proceeds q (attempt_finish n q)"

fun phase_work :: "attempt_phase \<Rightarrow> nat" where
  "phase_work Waiting = 2"
| "phase_work Running = 1"
| "phase_work Released = 0"

definition attempt_work :: "attempt_queue \<Rightarrow> nat" where
  "attempt_work q = sum_list (map (\<lambda>a. phase_work (at_phase a)) (aq_attempts q))"

definition all_released :: "attempt_queue \<Rightarrow> bool" where
  "all_released q = list_all (\<lambda>a. at_phase a = Released) (aq_attempts q)"

lemma work_set_phase:
  "n < length ats \<Longrightarrow> sum_list (map (\<lambda>a. phase_work (at_phase a)) (set_phase n ph ats)) + phase_work (at_phase (ats ! n))
    = sum_list (map (\<lambda>a. phase_work (at_phase a)) ats) + phase_work ph"
proof (induction ats arbitrary: n)
  case (Cons a ats)
  then show ?case by (cases n) (auto simp: set_phase_def)
qed simp

lemma proceeds_work: "attempt_proceeds q q' \<Longrightarrow> Suc (attempt_work q') = attempt_work q"
proof (induction rule: attempt_proceeds.induct)
  case (start n q)
  then show ?case using work_set_phase [of n "aq_attempts q" Running]
    by (simp add: attempt_work_def attempt_start_def)
next
  case (finish n q)
  then show ?case using work_set_phase [of n "aq_attempts q" Released]
    by (simp add: attempt_work_def attempt_finish_def Let_def)
qed

lemma work_zero: "attempt_work q = 0 \<longleftrightarrow> all_released q"
proof -
  have "phase_work p = 0 \<longleftrightarrow> p = Released" for p by (cases p) simp_all
  then show ?thesis by (simp add: attempt_work_def all_released_def list_all_iff)
qed

lemma proceeds_step: "attempt_proceeds q q' \<Longrightarrow> attempt_step q q'"
  by (induction rule: attempt_proceeds.induct) (auto intro: attempt_step.intros)

lemma proceeds_reachable: "(attempt_proceeds ^^ k) q q' \<Longrightarrow> attempts_reachable q \<Longrightarrow> attempts_reachable q'"
  by (induction k arbitrary: q') (auto intro: attempts_reachable.step proceeds_step)

lemma proceeds_count: "(attempt_proceeds ^^ k) q q' \<Longrightarrow> k + attempt_work q' = attempt_work q"
  by (induction k arbitrary: q') (fastforce dest: proceeds_work)+

lemma can_proceed:
  assumes "attempts_ok q" and "\<not> all_released q"
  shows "\<exists>q'. attempt_proceeds q q'"
proof -
  let ?P = "\<lambda>n. n < length (aq_attempts q) \<and> at_phase (aq_attempts q ! n) \<noteq> Released"
  have "\<exists>j. ?P j" using assms(2) by (auto simp: all_released_def list_all_length)
  then have "\<exists>n. ?P n \<and> (\<forall>i<n. \<not> ?P i)" by (subst (asm) exists_least_iff)
  then obtain n where n: "?P n" and least: "\<And>i. i < n \<Longrightarrow> \<not> ?P i" by blast
  have first: "at_phase (aq_attempts q ! i) = Released" if "i < n" for i
    using that n least [OF that] by auto
  show ?thesis
  proof (cases "at_phase (aq_attempts q ! n)")
    case Waiting
    have "previous_resolved (aq_attempts q) n"
    proof (cases "at_previous (aq_attempts q ! n)")
      case (Some m)
      then have "m < n" using assms(1) n by (auto simp: attempts_ok_def waits_ok_def before_same_def)
      with Some show ?thesis using released_tail [OF assms(1)] first n by (simp add: previous_resolved_def)
    qed (simp add: previous_resolved_def)
    with Waiting n show ?thesis by (blast intro: attempt_proceeds.start)
  qed (use n in \<open>auto intro: attempt_proceeds.finish\<close>)
qed

lemma pending_None_iff:
  assumes "attempts_ok q"
  shows "map_get (aq_pending q) key = None \<longleftrightarrow>
    list_all (\<lambda>a. at_key a = key \<longrightarrow> at_phase a = Released) (aq_attempts q)"
proof -
  have "pending_ok q key" using assms by (simp add: attempts_ok_def)
  then show ?thesis by (auto simp: pending_ok_def list_all_length split: option.splits)
qed

subsection \<open>Properties\<close>

text \<open>C29: Attempts of one scope and address never overlap and run in order of arrival. In every
  reachable queue an attempt has started only if every earlier one with its key is over, and the
  map forgets a key exactly when nobody with that key is left.\<close>

theorem attempts_serialized:
  assumes "attempts_reachable q"
  shows "(\<forall>i j. i < j \<and> j < length (aq_attempts q) \<and> at_key (aq_attempts q ! i) = at_key (aq_attempts q ! j) \<and>
      at_phase (aq_attempts q ! j) \<noteq> Waiting \<longrightarrow> at_phase (aq_attempts q ! i) = Released) \<and>
    (\<forall>key. map_get (aq_pending q) key = None \<longleftrightarrow>
      list_all (\<lambda>a. at_key a = key \<longrightarrow> at_phase a = Released) (aq_attempts q))"
proof -
  have ok: "attempts_ok q" using attempts_invariant [OF assms] .
  then have "in_order (aq_attempts q)" by (simp add: attempts_ok_def)
  with pending_None_iff [OF ok] show ?thesis unfolding in_order_def before_same_def by blast
qed

definition sample_attempts :: attempt_queue where
  "sample_attempts = attempt_arrive ''k'' (attempt_start 0 (attempt_arrive ''k'' empty_attempts))"

lemma sample_attempts_reachable: "attempts_reachable sample_attempts"
proof -
  have "attempts_reachable (attempt_arrive ''k'' empty_attempts)"
    by (rule attempts_reachable.step [OF attempts_reachable.init attempt_step.arrive])
  then have "attempts_reachable (attempt_start 0 (attempt_arrive ''k'' empty_attempts))"
    by (rule attempts_reachable.step, intro attempt_step.start)
      (simp_all add: attempt_arrive_def empty_attempts_def previous_resolved_def)
  then show ?thesis unfolding sample_attempts_def
    by (rule attempts_reachable.step [OF _ attempt_step.arrive])
qed

theorem attempts_serialized_witness:
  "map_get (aq_pending sample_attempts) ''k'' \<noteq> None"
  using attempts_serialized [OF sample_attempts_reachable]
  by (auto simp: sample_attempts_def attempt_arrive_def attempt_start_def empty_attempts_def set_phase_def)

text \<open>C37: Every attempt gets its turn. When no more arrive, each attempt needs its start and its end
  and nothing else, some step is possible until all are over, and so every run of the queue ends
  after exactly the steps left, with nothing pending.\<close>

theorem attempts_terminate:
  assumes "attempts_reachable q" and "(attempt_proceeds ^^ k) q q'"
  shows "k \<le> attempt_work q \<and>
    (k < attempt_work q \<longrightarrow> (\<exists>q''. attempt_proceeds q' q'')) \<and>
    (k = attempt_work q \<longrightarrow> all_released q' \<and> (\<forall>key. map_get (aq_pending q') key = None))"
proof -
  have ok: "attempts_ok q'" using proceeds_reachable [OF assms(2,1)] by (rule attempts_invariant)
  have left: "k + attempt_work q' = attempt_work q" by (rule proceeds_count [OF assms(2)])
  have "all_released q' \<Longrightarrow> map_get (aq_pending q') key = None" for key
    using pending_None_iff [OF ok] by (auto simp: all_released_def list_all_iff)
  with left show ?thesis using can_proceed [OF ok] work_zero [of q'] by auto
qed

theorem attempts_terminate_witness:
  "attempt_work sample_attempts = 3 \<and> (\<exists>q''. attempt_proceeds sample_attempts q'')"
proof -
  have w: "attempt_work sample_attempts = 3"
    by (simp add: sample_attempts_def attempt_arrive_def attempt_start_def empty_attempts_def set_phase_def attempt_work_def)
  then show ?thesis using attempts_terminate [OF sample_attempts_reachable, of 0 sample_attempts] by simp
qed

end
