(* ===== verification/GatewayConnect.thy ===== *)
theory GatewayConnect
  imports GatewayAuthProps GatewayDispatch
begin

section \<open>Connecting to the gateway\<close>

text \<open>
  Models how a connection uses \<open>GatewayAuth\<close>: the WebSocket handshake of
  \<^verbatim>\<open>src/gateway/server/ws-connection/auth-context.ts\<close> (shared secret, bootstrap token, device
  token), the device identity rules of \<^verbatim>\<open>connect-policy.ts\<close> beside it, and the HTTP surface of
  \<^verbatim>\<open>src/gateway/http-auth-utils.ts\<close>. The two token checks of the handshake are arguments of the
  code too.
\<close>

subsection \<open>The handshake\<close>

record handshake_auth =
  hc_token :: "string option"
  hc_bootstrapToken :: "string option"
  hc_deviceToken :: "string option"
  hc_password :: "string option"

datatype device_token_source = ExplicitDeviceToken | SharedTokenFallback

record connect_auth_state =
  cs_authResult :: gateway_auth_result
  cs_authOk :: bool
  cs_authMethod :: auth_method
  cs_sharedAuthOk :: bool
  cs_sharedAuthProvided :: bool
  cs_bootstrapTokenCandidate :: "string option"
  cs_deviceTokenCandidate :: "string option"
  cs_deviceTokenCandidateSource :: "device_token_source option"

record token_check =
  tc_ok :: bool
  tc_reason :: "string option"

definition mapDeviceTokenAuthFailureReason ::
  "string option \<Rightarrow> device_token_source option \<Rightarrow> string option \<Rightarrow> string" where
  "mapDeviceTokenAuthFailureReason tokenCheckReason candidateSource fallbackReason =
     (if tokenCheckReason = Some ''scope-mismatch'' \<or> tokenCheckReason = Some ''scope_mismatch''
      then ''scope_mismatch''
      else if candidateSource = Some ExplicitDeviceToken then ''device_token_mismatch''
      else nullish fallbackReason ''device_token_mismatch'')"

definition resolveSharedConnectAuth :: "handshake_auth option \<Rightarrow> connect_auth option" where
  "resolveSharedConnectAuth connectAuth =
     (let token = normalizeOptionalString (Option.bind connectAuth hc_token);
          password = normalizeOptionalString (Option.bind connectAuth hc_password)
      in if token = None \<and> password = None then None
         else Some \<lparr>cx_token = token, cx_password = password\<rparr>)"

definition resolveDeviceTokenCandidate ::
  "handshake_auth option \<Rightarrow> string option \<times> device_token_source option" where
  "resolveDeviceTokenCandidate connectAuth =
     (case normalizeOptionalString (Option.bind connectAuth hc_deviceToken) of
        Some explicitDeviceToken \<Rightarrow> (Some explicitDeviceToken, Some ExplicitDeviceToken)
      | None \<Rightarrow>
          (case normalizeOptionalString (Option.bind connectAuth hc_token) of
             None \<Rightarrow> (None, None)
           | Some fallbackToken \<Rightarrow> (Some fallbackToken, Some SharedTokenFallback)))"

record handshake_params =
  hp_resolvedAuth :: resolved_gateway_auth
  hp_connectAuth :: "handshake_auth option"
  hp_hasDeviceIdentity :: bool
  hp_req :: http_request
  hp_trustedProxies :: "string list"
  hp_allowRealIpFallback :: bool
  hp_rateLimiter :: "auth_limiter_config option"
  hp_clientIp :: "string option"

text \<open>The parameters of the first call, and of the probe of the shared secret.\<close>

definition handshake_connect :: "handshake_params \<Rightarrow> gateway_connect_params" where
  "handshake_connect h =
     (let shared = resolveSharedConnectAuth (hp_connectAuth h)
      in \<lparr>gp_auth = hp_resolvedAuth h, gp_connectAuth = shared, gp_req = Some (hp_req h),
          gp_trustedProxies = Some (hp_trustedProxies h), gp_authSurface = Some SurfaceWsControlUi,
          gp_limiter = (if shared \<noteq> None then hp_rateLimiter h else None), gp_clientIp = hp_clientIp h,
          gp_rateLimitScope = Some AUTH_RATE_LIMIT_SCOPE_SHARED_SECRET,
          gp_allowRealIpFallback = Some (hp_allowRealIpFallback h), gp_browserOriginPolicy = None\<rparr>)"

definition handshake_probe :: "handshake_params \<Rightarrow> gateway_connect_params" where
  "handshake_probe h =
     (handshake_connect h)\<lparr>gp_auth := (hp_resolvedAuth h)\<lparr>rga_allowTailscale := False\<rparr>,
       gp_authSurface := Some SurfaceHttp, gp_limiter := None, gp_clientIp := None\<rparr>"

definition resolveConnectAuthState ::
  "ip_library \<Rightarrow> url_parser \<Rightarrow> (string \<Rightarrow> tailscale_identity option) \<Rightarrow> handshake_params \<Rightarrow> int \<Rightarrow> int \<Rightarrow>
   auth_entries \<Rightarrow> connect_auth_state \<times> auth_entries" where
  "resolveConnectAuthState lib pu wh h now later entries =
     (let shared = resolveSharedConnectAuth (hp_connectAuth h);
          bootstrap = (if hp_hasDeviceIdentity h
            then normalizeOptionalString (Option.bind (hp_connectAuth h) hc_bootstrapToken) else None);
          device = (if hp_hasDeviceIdentity h then resolveDeviceTokenCandidate (hp_connectAuth h) else (None, None));
          (authResult, entries1) = authorizeWsControlUiGatewayConnect lib pu wh (handshake_connect h) now later entries;
          sharedAuthResult = (if shared = None then None
            else Some (fst (authorizeHttpGatewayConnect lib pu wh (handshake_probe h) later later entries1)));
          sharedAuthOk =
            ((case sharedAuthResult of
                None \<Rightarrow> False
              | Some r \<Rightarrow> gr_ok r \<and> (gr_method r = Some MethodToken \<or> gr_method r = Some MethodPassword)) \<or>
             (gr_ok authResult \<and> gr_method authResult = Some MethodTrustedProxy))
      in (\<lparr>cs_authResult = authResult, cs_authOk = gr_ok authResult,
           cs_authMethod = nullish (gr_method authResult)
             (if rga_mode (hp_resolvedAuth h) = AuthModePassword then MethodPassword else MethodToken),
           cs_sharedAuthOk = sharedAuthOk, cs_sharedAuthProvided = (shared \<noteq> None),
           cs_bootstrapTokenCandidate = bootstrap, cs_deviceTokenCandidate = fst device,
           cs_deviceTokenCandidateSource = snd device\<rparr>, entries1))"

record connect_auth_decision =
  cd_authResult :: gateway_auth_result
  cd_authOk :: bool
  cd_authMethod :: auth_method

type_synonym bootstrap_check = "string \<Rightarrow> string \<Rightarrow> string \<Rightarrow> string \<Rightarrow> string list \<Rightarrow> token_check"
type_synonym device_check = "string \<Rightarrow> string \<Rightarrow> string \<Rightarrow> string list \<Rightarrow> token_check"

text \<open>The bootstrap token, which wins over another success.\<close>

definition bootstrap_decision ::
  "bootstrap_check \<Rightarrow> connect_auth_state \<Rightarrow> bool \<Rightarrow> string option \<Rightarrow> string option \<Rightarrow> string \<Rightarrow> string list \<Rightarrow>
   connect_auth_decision" where
  "bootstrap_decision verifyBootstrapToken state hasDeviceIdentity deviceId publicKey role scopes =
     (let d = \<lparr>cd_authResult = cs_authResult state, cd_authOk = cs_authOk state, cd_authMethod = cs_authMethod state\<rparr>
      in case (truthy deviceId, truthy publicKey, truthy (cs_bootstrapTokenCandidate state)) of
        (Some dev, Some key, Some token) \<Rightarrow>
          if \<not> hasDeviceIdentity then d
          else let tokenCheck = verifyBootstrapToken dev key token role scopes
               in if tc_ok tokenCheck then d\<lparr>cd_authOk := True, cd_authMethod := MethodBootstrapToken\<rparr>
                  else if \<not> cd_authOk d then
                    d\<lparr>cd_authResult := auth_refused (nullish (tc_reason tokenCheck) ''bootstrap_token_invalid'')\<rparr>
                  else d
      | _ \<Rightarrow> d)"

definition resolveConnectAuthDecision ::
  "ip_library \<Rightarrow> bootstrap_check \<Rightarrow> device_check \<Rightarrow> connect_auth_state \<Rightarrow> bool \<Rightarrow> string option \<Rightarrow>
   string option \<Rightarrow> string \<Rightarrow> string list \<Rightarrow> auth_limiter_config option \<Rightarrow> string option \<Rightarrow> int \<Rightarrow> int \<Rightarrow>
   auth_entries \<Rightarrow> connect_auth_decision \<times> auth_entries" where
  "resolveConnectAuthDecision lib verifyBootstrapToken verifyDeviceToken state hasDeviceIdentity deviceId
     publicKey role scopes limiter clientIp now later entries =
     (let d = bootstrap_decision verifyBootstrapToken state hasDeviceIdentity deviceId publicKey role scopes in
      case (truthy deviceId, truthy (cs_deviceTokenCandidate state)) of
        (Some dev, Some token) \<Rightarrow>
          if \<not> hasDeviceIdentity \<or> cd_authOk d then (d, entries)
          else
            let (limit, entries1) =
                  (case limiter of
                     None \<Rightarrow> (None, entries)
                   | Some cfg \<Rightarrow>
                       (let (r, es) = auth_check cfg (limiter_ip lib) (\<lambda>i. isLoopbackAddress lib (Some i)) clientIp
                          (Some AUTH_RATE_LIMIT_SCOPE_DEVICE_TOKEN) now entries
                        in (if cr_allowed r then None else Some (cr_retryAfterMs r), es)))
            in case limit of
              Some retryAfterMs \<Rightarrow> (d\<lparr>cd_authResult := auth_rate_limited retryAfterMs\<rparr>, entries1)
            | None \<Rightarrow>
                let tokenCheck = verifyDeviceToken dev token role scopes
                in if tc_ok tokenCheck then
                     (d\<lparr>cd_authOk := True, cd_authMethod := MethodDeviceToken\<rparr>,
                      (let entries2 = limiter_reset lib limiter clientIp AUTH_RATE_LIMIT_SCOPE_DEVICE_TOKEN entries1
                       in if cs_sharedAuthProvided state
                          then limiter_reset lib limiter clientIp AUTH_RATE_LIMIT_SCOPE_SHARED_SECRET entries2
                          else entries2))
                   else
                     (d\<lparr>cd_authResult := auth_refused
                         (mapDeviceTokenAuthFailureReason (tc_reason tokenCheck)
                           (cs_deviceTokenCandidateSource state) (gr_reason (cd_authResult d)))\<rparr>,
                      limiter_failure lib limiter clientIp AUTH_RATE_LIMIT_SCOPE_DEVICE_TOKEN later entries1)
      | _ \<Rightarrow> (d, entries))"

subsection \<open>Device identity\<close>

text \<open>A device is only tested for presence.\<close>

record control_ui_policy =
  cu_isControlUi :: bool
  cu_allowInsecureAuthConfigured :: bool
  cu_dangerouslyDisableDeviceAuth :: bool
  cu_allowBypass :: bool
  cu_device :: bool

record control_ui_config =
  uc_allowInsecureAuth :: "bool option"
  uc_dangerouslyDisableDeviceAuth :: "bool option"

definition resolveControlUiAuthPolicy :: "bool \<Rightarrow> control_ui_config option \<Rightarrow> bool \<Rightarrow> control_ui_policy" where
  "resolveControlUiAuthPolicy isControlUi config deviceRaw =
     (let allowInsecure = (isControlUi \<and> Option.bind config uc_allowInsecureAuth = Some True);
          disabled = (isControlUi \<and> Option.bind config uc_dangerouslyDisableDeviceAuth = Some True)
      in \<lparr>cu_isControlUi = isControlUi, cu_allowInsecureAuthConfigured = allowInsecure,
          cu_dangerouslyDisableDeviceAuth = disabled, cu_allowBypass = disabled,
          cu_device = (if disabled then False else deviceRaw)\<rparr>)"

definition shouldSkipControlUiPairing ::
  "control_ui_policy \<Rightarrow> gateway_role \<Rightarrow> bool \<Rightarrow> auth_mode option \<Rightarrow> auth_method option \<Rightarrow> bool" where
  "shouldSkipControlUiPairing policy role trustedProxyAuthOk authMode authMethod =
     (if trustedProxyAuthOk then True
      else if cu_isControlUi policy \<and> role = RoleOperator \<and> authMethod = Some MethodTailscale \<and> cu_device policy
      then True
      else if cu_isControlUi policy \<and> role = RoleOperator \<and> authMode = Some AuthModeNone then True
      else role = RoleOperator \<and> cu_allowBypass policy)"

definition isTrustedProxyControlUiOperatorAuth ::
  "bool \<Rightarrow> gateway_role \<Rightarrow> auth_mode \<Rightarrow> bool \<Rightarrow> auth_method option \<Rightarrow> bool" where
  "isTrustedProxyControlUiOperatorAuth isControlUi role authMode authOk authMethod =
     (isControlUi \<and> role = RoleOperator \<and> authMode = AuthModeTrustedProxy \<and> authOk \<and>
      authMethod = Some MethodTrustedProxy)"

datatype missing_device_decision =
    MissingAllow | RejectControlUiInsecureAuth | RejectUnauthorized | RejectDeviceRequired

definition shouldClearUnboundScopesForMissingDeviceIdentity ::
  "missing_device_decision \<Rightarrow> control_ui_policy \<Rightarrow> bool \<Rightarrow> auth_method option \<Rightarrow> bool \<Rightarrow> bool" where
  "shouldClearUnboundScopesForMissingDeviceIdentity decision policy preserveInsecureLocal authMethod trustedProxyAuthOk =
     (decision \<noteq> MissingAllow \<or>
      (\<not> cu_allowBypass policy \<and> \<not> preserveInsecureLocal \<and> \<not> trustedProxyAuthOk \<and>
       (authMethod = Some MethodToken \<or> authMethod = Some MethodPassword \<or> authMethod = Some MethodTrustedProxy)))"

record missing_device_params =
  md_hasDeviceIdentity :: bool
  md_role :: gateway_role
  md_isControlUi :: bool
  md_policy :: control_ui_policy
  md_trustedProxyAuthOk :: bool
  md_localBackendSelfPairingOk :: bool
  md_sharedAuthOk :: bool
  md_authOk :: bool
  md_hasSharedAuth :: bool
  md_isLocalClient :: bool

definition evaluateMissingDeviceIdentity :: "missing_device_params \<Rightarrow> missing_device_decision" where
  "evaluateMissingDeviceIdentity p =
     (if md_hasDeviceIdentity p then MissingAllow
      else if md_isControlUi p \<and> md_trustedProxyAuthOk p then MissingAllow
      else if md_isControlUi p \<and> cu_allowBypass (md_policy p) \<and> md_role p = RoleOperator then MissingAllow
      else if md_localBackendSelfPairingOk p \<and> md_role p = RoleOperator then MissingAllow
      else if md_isControlUi p \<and> \<not> cu_allowBypass (md_policy p) \<and>
        (\<not> cu_allowInsecureAuthConfigured (md_policy p) \<or> \<not> md_isLocalClient p)
      then RejectControlUiInsecureAuth
      else if roleCanSkipDeviceIdentity (md_role p) (md_sharedAuthOk p) then MissingAllow
      else if \<not> md_authOk p \<and> md_hasSharedAuth p then RejectUnauthorized
      else RejectDeviceRequired)"

subsection \<open>HTTP\<close>

definition getHeader :: "http_request \<Rightarrow> string \<Rightarrow> string option" where
  "getHeader req name =
     headerValue (nullish_opt (req_header req (normalizeLowercaseStringOrEmpty (Some name))) (req_header req name))"

definition readOperatorScopesHeader :: "http_request \<Rightarrow> string option" where
  "readOperatorScopesHeader req =
     nullish_opt (getHeader req ''x-GreenchClaw-scopes'') (getHeader req ''x-openclaw-scopes'')"

definition getBearerToken :: "http_request \<Rightarrow> string option" where
  "getBearerToken req =
     (let raw = nullish (normalizeOptionalString (getHeader req ''authorization'')) []
      in if \<not> starts_with (normalizeLowercaseStringOrEmpty (Some raw)) ''bearer '' then None
         else normalizeOptionalString (Some (drop 7 raw)))"

record http_request_auth =
  ha_authMethod :: "auth_method option"
  ha_trustDeclaredOperatorScopes :: bool

definition usesSharedSecretHttpAuth :: "auth_mode option \<Rightarrow> bool" where
  "usesSharedSecretHttpAuth mode = (mode = Some AuthModeToken \<or> mode = Some AuthModePassword)"

definition usesSharedSecretGatewayMethod :: "auth_method option \<Rightarrow> bool" where
  "usesSharedSecretGatewayMethod m = (m = Some MethodToken \<or> m = Some MethodPassword)"

definition isGatewayBearerHttpRequest :: "http_request \<Rightarrow> auth_mode option \<Rightarrow> bool" where
  "isGatewayBearerHttpRequest req mode = (usesSharedSecretHttpAuth mode \<and> getBearerToken req \<noteq> None)"

text \<open>The second argument is an authentication configuration (its mode) or an authorised request.\<close>

datatype auth_or_request = AuthConfigMode auth_mode | RequestAuth http_request_auth

definition shouldTrustDeclaredHttpOperatorScopes :: "http_request \<Rightarrow> auth_or_request option \<Rightarrow> bool" where
  "shouldTrustDeclaredHttpOperatorScopes req a =
     (case a of
        Some (RequestAuth ra) \<Rightarrow> ha_trustDeclaredOperatorScopes ra
      | Some (AuthConfigMode m) \<Rightarrow> \<not> isGatewayBearerHttpRequest req (Some m)
      | None \<Rightarrow> \<not> isGatewayBearerHttpRequest req None)"

text \<open>\<open>allowed\<close> and \<open>fallback\<close> are the Control UI's origin settings.\<close>

definition resolveHttpBrowserOriginPolicy ::
  "http_request \<Rightarrow> string list option \<Rightarrow> bool option \<Rightarrow> browser_origin_policy" where
  "resolveHttpBrowserOriginPolicy req allowed fallback =
     \<lparr>bo_requestHost = getHeader req ''host'', bo_origin = getHeader req ''origin'',
       bo_allowedOrigins = allowed, bo_allowHostHeaderOriginFallback = Some (fallback = Some True)\<rparr>"

definition checkGatewayHttpRequestAuth ::
  "ip_library \<Rightarrow> url_parser \<Rightarrow> (string \<Rightarrow> tailscale_identity option) \<Rightarrow> http_request \<Rightarrow> resolved_gateway_auth \<Rightarrow>
   string list option \<Rightarrow> bool option \<Rightarrow> auth_limiter_config option \<Rightarrow> string list option \<Rightarrow> bool option \<Rightarrow>
   int \<Rightarrow> int \<Rightarrow> auth_entries \<Rightarrow> (gateway_auth_result + http_request_auth) \<times> auth_entries" where
  "checkGatewayHttpRequestAuth lib pu wh req auth trustedProxies allowRealIp limiter allowed fallback now later entries =
     (let token = getBearerToken req;
          (authResult, entries1) = authorizeHttpGatewayConnect lib pu wh
            \<lparr>gp_auth = auth, gp_connectAuth = map_option (\<lambda>t. \<lparr>cx_token = Some t, cx_password = Some t\<rparr>) token,
              gp_req = Some req, gp_trustedProxies = trustedProxies, gp_authSurface = None, gp_limiter = limiter,
              gp_clientIp = None, gp_rateLimitScope = None, gp_allowRealIpFallback = allowRealIp,
              gp_browserOriginPolicy = Some (resolveHttpBrowserOriginPolicy req allowed fallback)\<rparr> now later entries
      in (if \<not> gr_ok authResult then Inl authResult
          else Inr \<lparr>ha_authMethod = gr_method authResult,
            ha_trustDeclaredOperatorScopes = (\<not> usesSharedSecretGatewayMethod (gr_method authResult))\<rparr>,
          entries1))"

definition resolveTrustedHttpOperatorScopes :: "http_request \<Rightarrow> auth_or_request option \<Rightarrow> string list" where
  "resolveTrustedHttpOperatorScopes req a =
     (if \<not> shouldTrustDeclaredHttpOperatorScopes req a then []
      else case readOperatorScopesHeader req of
        None \<Rightarrow> []
      | Some value \<Rightarrow>
          (let raw = js_trim value
           in if raw = [] then [] else filter (\<lambda>s. length s > 0) (map js_trim (split_on CHR '','' raw))))"

definition resolveOpenAiCompatibleHttpOperatorScopes :: "http_request \<Rightarrow> http_request_auth \<Rightarrow> string list" where
  "resolveOpenAiCompatibleHttpOperatorScopes req ra =
     (if usesSharedSecretGatewayMethod (ha_authMethod ra) then map scope_name CLI_DEFAULT_OPERATOR_SCOPES
      else if ha_authMethod ra = Some MethodNone then
        (case getHeader req ''x-GreenchClaw-scopes'' of
           None \<Rightarrow> map scope_name CLI_DEFAULT_OPERATOR_SCOPES
         | Some value \<Rightarrow> resolveTrustedHttpOperatorScopes req
             (Some (RequestAuth \<lparr>ha_authMethod = None, ha_trustDeclaredOperatorScopes = True\<rparr>)))
      else resolveTrustedHttpOperatorScopes req (Some (RequestAuth ra)))"

definition resolveHttpSenderIsOwner :: "http_request \<Rightarrow> auth_or_request option \<Rightarrow> bool" where
  "resolveHttpSenderIsOwner req a = has_scope (resolveTrustedHttpOperatorScopes req a) ADMIN_SCOPE"

definition resolveOpenAiCompatibleHttpSenderIsOwner :: "http_request \<Rightarrow> http_request_auth \<Rightarrow> bool" where
  "resolveOpenAiCompatibleHttpSenderIsOwner req ra =
     (if usesSharedSecretGatewayMethod (ha_authMethod ra) then True
      else resolveHttpSenderIsOwner req (Some (RequestAuth ra)))"

datatype scoped_http_result =
    HttpAuthFailure gateway_auth_result | HttpMissingScope operator_scope | HttpAuthorized http_request_auth

definition authorizeScopedGatewayHttpRequest ::
  "plugin_registry option \<Rightarrow> (http_request \<Rightarrow> http_request_auth \<Rightarrow> string list) \<Rightarrow> string \<Rightarrow> http_request \<Rightarrow>
   gateway_auth_result + http_request_auth \<Rightarrow> scoped_http_result" where
  "authorizeScopedGatewayHttpRequest reg resolveOperatorScopes operatorMethod req checked =
     (case checked of
        Inl r \<Rightarrow> HttpAuthFailure r
      | Inr ra \<Rightarrow>
          (case authorizeOperatorScopesForMethod reg operatorMethod (resolveOperatorScopes req ra) NotAnObject of
             ScopeMissing s \<Rightarrow> HttpMissingScope s
           | ScopeAllowed \<Rightarrow> HttpAuthorized ra))"

end
