(* ===== verification/GatewayConnectProps.thy ===== *)
theory GatewayConnectProps
  imports GatewayConnect GatewayAccess
begin

section \<open>What a connection must prove\<close>

text \<open>
  Properties of \<open>GatewayConnect\<close>: which proofs admit a handshake, who may connect without a
  device identity, and which operator scopes an HTTP request may claim.
\<close>

subsection \<open>The shared secret of a handshake\<close>

lemma handshake_connect_simps [simp]:
  "gp_auth (handshake_connect h) = hp_resolvedAuth h" "gp_req (handshake_connect h) = Some (hp_req h)"
  "gp_connectAuth (handshake_connect h) = resolveSharedConnectAuth (hp_connectAuth h)"
  "connect_surface (handshake_connect h) = SurfaceWsControlUi"
  "(handshake_connect h)\<lparr>gp_authSurface := Some SurfaceWsControlUi\<rparr> = handshake_connect h"
  by (simp_all add: handshake_connect_def connect_surface_def Let_def)

lemma handshake_probe_simps [simp]:
  "gp_auth (handshake_probe h) = (hp_resolvedAuth h)\<lparr>rga_allowTailscale := False\<rparr>"
  "gp_connectAuth (handshake_probe h) = resolveSharedConnectAuth (hp_connectAuth h)"
  "(handshake_probe h)\<lparr>gp_authSurface := Some SurfaceHttp\<rparr> = handshake_probe h"
  by (simp_all add: handshake_probe_def handshake_connect_def Let_def)

lemma presented_cong:
  "rga_token (gp_auth p) = rga_token (gp_auth q) \<Longrightarrow> gp_connectAuth p = gp_connectAuth q \<Longrightarrow>
    token_presented p = token_presented q"
  "rga_password (gp_auth p) = rga_password (gp_auth q) \<Longrightarrow> gp_connectAuth p = gp_connectAuth q \<Longrightarrow>
    password_presented p = password_presented q"
  by (simp_all add: token_presented_def password_presented_def)

definition secret_presented :: "handshake_params \<Rightarrow> bool" where
  "secret_presented h =
     ((rga_mode (hp_resolvedAuth h) = AuthModeToken \<and> token_presented (handshake_connect h)) \<or>
      (rga_mode (hp_resolvedAuth h) = AuthModePassword \<and> password_presented (handshake_connect h)))"

lemma probe_admitted:
  assumes "gr_ok (fst (authorizeHttpGatewayConnect lib pu wh (handshake_probe h) now later es))"
    and "gr_method (fst (authorizeHttpGatewayConnect lib pu wh (handshake_probe h) now later es)) = Some MethodToken \<or>
      gr_method (fst (authorizeHttpGatewayConnect lib pu wh (handshake_probe h) now later es)) = Some MethodPassword"
  shows "secret_presented h"
proof -
  have "admitted_by lib wh (handshake_probe h)
      (fst (authorizeHttpGatewayConnect lib pu wh (handshake_probe h) now later es))"
    using authorize_core_ok [of lib pu wh "handshake_probe h"] assms(1) by (simp add: authorizeHttpGatewayConnect_def)
  moreover have "token_presented (handshake_probe h) = token_presented (handshake_connect h)"
    and "password_presented (handshake_probe h) = password_presented (handshake_connect h)"
    by (rule presented_cong; simp)+
  ultimately show ?thesis using assms(2) by (auto simp: admitted_by_def secret_presented_def)
qed

lemma handshake_first:
  assumes "gr_ok (fst (authorizeWsControlUiGatewayConnect lib pu wh (handshake_connect h) now later es))"
  shows "admitted_by lib wh (handshake_connect h)
    (fst (authorizeWsControlUiGatewayConnect lib pu wh (handshake_connect h) now later es))"
  using authorize_core_ok [of lib pu wh "handshake_connect h"] assms by (simp add: authorizeWsControlUiGatewayConnect_def)

lemma shared_auth_ok:
  assumes "cs_sharedAuthOk (fst (resolveConnectAuthState lib pu wh h now later es))"
  shows "secret_presented h \<or> (\<exists>user. proxy_vouches lib (handshake_connect h) user)"
proof -
  define first where "first = authorizeWsControlUiGatewayConnect lib pu wh (handshake_connect h) now later es"
  define probe where "probe = authorizeHttpGatewayConnect lib pu wh (handshake_probe h) later later (snd first)"
  have "gr_ok (fst probe) \<and> (gr_method (fst probe) = Some MethodToken \<or> gr_method (fst probe) = Some MethodPassword) \<or>
      gr_ok (fst first) \<and> gr_method (fst first) = Some MethodTrustedProxy"
    using assms by (auto simp: resolveConnectAuthState_def Let_def case_prod_beta first_def probe_def
        split: option.splits if_splits)
  then show ?thesis
  proof
    assume "gr_ok (fst probe) \<and> (gr_method (fst probe) = Some MethodToken \<or> gr_method (fst probe) = Some MethodPassword)"
    then show ?thesis using probe_admitted unfolding probe_def by blast
  next
    assume p: "gr_ok (fst first) \<and> gr_method (fst first) = Some MethodTrustedProxy"
    then have "admitted_by lib wh (handshake_connect h) (fst first)"
      using handshake_first unfolding first_def by blast
    with p show ?thesis by (auto simp: admitted_by_def)
  qed
qed

subsection \<open>The whole handshake\<close>

definition handshake_decision ::
  "ip_library \<Rightarrow> url_parser \<Rightarrow> (string \<Rightarrow> tailscale_identity option) \<Rightarrow> bootstrap_check \<Rightarrow> device_check \<Rightarrow>
   handshake_params \<Rightarrow> string option \<Rightarrow> string option \<Rightarrow> string \<Rightarrow> string list \<Rightarrow> int \<Rightarrow> int \<Rightarrow> auth_entries \<Rightarrow>
   connect_auth_decision" where
  "handshake_decision lib pu wh vb vd h deviceId publicKey role scopes now later es =
     (let (state, es1) = resolveConnectAuthState lib pu wh h now later es
      in fst (resolveConnectAuthDecision lib vb vd state (hp_hasDeviceIdentity h) deviceId publicKey role scopes
           (hp_rateLimiter h) (hp_clientIp h) later later es1))"

text \<open>A device with identity whose bootstrap or device token the pairing store accepts.\<close>

definition device_proved :: "bootstrap_check \<Rightarrow> device_check \<Rightarrow> handshake_params \<Rightarrow> string option \<Rightarrow>
    string option \<Rightarrow> string \<Rightarrow> string list \<Rightarrow> bool" where
  "device_proved vb vd h deviceId publicKey role scopes =
     (hp_hasDeviceIdentity h \<and>
      ((\<exists>dev key token. deviceId = Some dev \<and> publicKey = Some key \<and>
          normalizeOptionalString (Option.bind (hp_connectAuth h) hc_bootstrapToken) = Some token \<and>
          tc_ok (vb dev key token role scopes)) \<or>
       (\<exists>dev token. deviceId = Some dev \<and> fst (resolveDeviceTokenCandidate (hp_connectAuth h)) = Some token \<and>
          tc_ok (vd dev token role scopes))))"

lemma bootstrap_decision_ok:
  assumes "cd_authOk (bootstrap_decision vb state dev_id deviceId publicKey role scopes)"
  shows "cs_authOk state \<or> (dev_id \<and> (\<exists>dev key token. deviceId = Some dev \<and> publicKey = Some key \<and>
    cs_bootstrapTokenCandidate state = Some token \<and> tc_ok (vb dev key token role scopes)))"
  using assms by (auto simp: bootstrap_decision_def Let_def split: option.splits if_splits)

lemma connect_decision_ok:
  assumes "cd_authOk (fst (resolveConnectAuthDecision lib vb vd state dev_id deviceId publicKey role scopes l ip now later es))"
  shows "cd_authOk (bootstrap_decision vb state dev_id deviceId publicKey role scopes) \<or>
    (dev_id \<and> (\<exists>dev token. deviceId = Some dev \<and> cs_deviceTokenCandidate state = Some token \<and>
      tc_ok (vd dev token role scopes)))"
  using assms by (auto simp: resolveConnectAuthDecision_def Let_def case_prod_beta split: option.splits if_splits)

lemma handshake_ok:
  assumes "cd_authOk (handshake_decision lib pu wh vb vd h deviceId publicKey role scopes now later es)"
  shows "gr_ok (fst (authorizeWsControlUiGatewayConnect lib pu wh (handshake_connect h) now later es)) \<or>
    device_proved vb vd h deviceId publicKey role scopes"
proof -
  define state where "state = fst (resolveConnectAuthState lib pu wh h now later es)"
  have s: "cs_authOk state = gr_ok (fst (authorizeWsControlUiGatewayConnect lib pu wh (handshake_connect h) now later es))"
      "hp_hasDeviceIdentity h \<Longrightarrow> cs_bootstrapTokenCandidate state =
        normalizeOptionalString (Option.bind (hp_connectAuth h) hc_bootstrapToken)"
      "hp_hasDeviceIdentity h \<Longrightarrow> cs_deviceTokenCandidate state = fst (resolveDeviceTokenCandidate (hp_connectAuth h))"
    by (simp_all add: state_def resolveConnectAuthState_def Let_def case_prod_beta)
  have "cd_authOk (bootstrap_decision vb state (hp_hasDeviceIdentity h) deviceId publicKey role scopes) \<or>
      (hp_hasDeviceIdentity h \<and> (\<exists>dev token. deviceId = Some dev \<and> cs_deviceTokenCandidate state = Some token \<and>
        tc_ok (vd dev token role scopes)))"
    using assms connect_decision_ok unfolding handshake_decision_def Let_def case_prod_beta state_def by blast
  then consider "cs_authOk state"
    | dev key token where "hp_hasDeviceIdentity h" "deviceId = Some dev" "publicKey = Some key"
      "cs_bootstrapTokenCandidate state = Some token" "tc_ok (vb dev key token role scopes)"
    | dev token where "hp_hasDeviceIdentity h" "deviceId = Some dev"
      "cs_deviceTokenCandidate state = Some token" "tc_ok (vd dev token role scopes)"
    using bootstrap_decision_ok by blast
  then show ?thesis unfolding device_proved_def by cases (use s in auto)
qed

subsection \<open>Without a device identity\<close>

lemma missing_device_allowed:
  assumes "evaluateMissingDeviceIdentity p = MissingAllow" and "\<not> md_hasDeviceIdentity p"
  shows "(md_isControlUi p \<and> md_trustedProxyAuthOk p) \<or>
    (md_role p = RoleOperator \<and>
     (md_sharedAuthOk p \<or> md_localBackendSelfPairingOk p \<or> (md_isControlUi p \<and> cu_allowBypass (md_policy p))))"
  using assms by (auto simp: evaluateMissingDeviceIdentity_def roleCanSkipDeviceIdentity_def split: if_splits)

lemma bypass_configured:
  "cu_allowBypass (resolveControlUiAuthPolicy ui config device) \<longleftrightarrow>
    ui \<and> Option.bind config uc_dangerouslyDisableDeviceAuth = Some True"
  by (simp add: resolveControlUiAuthPolicy_def Let_def)

subsection \<open>Scopes of an HTTP request\<close>

lemma http_checked:
  assumes "fst (checkGatewayHttpRequestAuth lib pu wh req auth tps real_ip l allowed fallback now later es) = Inr ra"
  shows "(usesSharedSecretGatewayMethod (ha_authMethod ra) \<longleftrightarrow> \<not> ha_trustDeclaredOperatorScopes ra) \<and>
    (usesSharedSecretGatewayMethod (ha_authMethod ra) \<longrightarrow>
      (\<exists>secret. getBearerToken req = Some secret \<and> secret \<noteq> [] \<and>
        (rga_mode auth = AuthModeToken \<and> rga_token auth = Some secret \<or>
         rga_mode auth = AuthModePassword \<and> rga_password auth = Some secret)))"
proof -
  define p where "p = \<lparr>gp_auth = auth, gp_connectAuth = map_option (\<lambda>t. \<lparr>cx_token = Some t, cx_password = Some t\<rparr>) (getBearerToken req),
      gp_req = Some req, gp_trustedProxies = tps, gp_authSurface = None, gp_limiter = l,
      gp_clientIp = None, gp_rateLimitScope = None, gp_allowRealIpFallback = real_ip,
      gp_browserOriginPolicy = Some (resolveHttpBrowserOriginPolicy req allowed fallback)\<rparr>"
  define q where "q = p\<lparr>gp_authSurface := Some SurfaceHttp\<rparr>"
  define r where "r = fst (authorizeGatewayConnectCore lib pu wh q now later es)"
  have r: "gr_ok r" "ra = \<lparr>ha_authMethod = gr_method r, ha_trustDeclaredOperatorScopes = (\<not> usesSharedSecretGatewayMethod (gr_method r))\<rparr>"
    using assms by (auto simp: checkGatewayHttpRequestAuth_def Let_def case_prod_beta authorizeHttpGatewayConnect_def
        r_def q_def p_def split: if_splits)
  have "admitted_by lib wh q r" using authorize_core_ok r(1) unfolding r_def by blast
  then show ?thesis unfolding r(2)
    by (cases "getBearerToken req") (auto simp: admitted_by_def usesSharedSecretGatewayMethod_def q_def p_def
        token_presented_def password_presented_def)
qed

text \<open>The scopes the request declares, under either header name.\<close>

definition declared_scopes :: "http_request \<Rightarrow> string set" where
  "declared_scopes req = (case readOperatorScopesHeader req of None \<Rightarrow> {}
     | Some value \<Rightarrow> js_trim ` set (split_on CHR '','' (js_trim value)))"

lemma trusted_scopes_declared: "set (resolveTrustedHttpOperatorScopes req a) \<subseteq> declared_scopes req - {[]}"
  by (auto simp: resolveTrustedHttpOperatorScopes_def declared_scopes_def Let_def split: option.splits)

text \<open>
  With authentication off, a list declared under the older header name is not read: the request
  keeps every operator scope, although the code means to honour a declared list and to accept both
  names.
\<close>

lemma legacy_scope_header_ignored:
  assumes "req = \<lparr>rq_remoteAddress = None, rq_headers = [(''x-openclaw-scopes'', HeaderStr ''operator.read'')]\<rparr>"
    and "ra = \<lparr>ha_authMethod = Some MethodNone, ha_trustDeclaredOperatorScopes = True\<rparr>"
  shows "resolveTrustedHttpOperatorScopes req (Some (RequestAuth ra)) = [''operator.read'']"
    and "''operator.admin'' \<in> set (resolveOpenAiCompatibleHttpOperatorScopes req ra)"
  using assms
  by (simp_all add: resolveTrustedHttpOperatorScopes_def shouldTrustDeclaredHttpOperatorScopes_def
      readOperatorScopesHeader_def getHeader_def req_header_def map_get_def headerValue_def js_trim_def
      js_trim_start_def js_trim_end_def js_is_space_def js_lower_def js_lower_char_def js_is_upper_def
      resolveOpenAiCompatibleHttpOperatorScopes_def usesSharedSecretGatewayMethod_def
      CLI_DEFAULT_OPERATOR_SCOPES_def)

subsection \<open>Properties\<close>

definition sample_handshake :: handshake_params where
  "sample_handshake = \<lparr>hp_resolvedAuth = \<lparr>rga_mode = AuthModeToken, rga_token = Some ''s3'', rga_password = None,
       rga_allowTailscale = False, rga_trustedProxy = None\<rparr>,
     hp_connectAuth = Some \<lparr>hc_token = Some '' s3 '', hc_bootstrapToken = None, hc_deviceToken = None, hc_password = None\<rparr>,
     hp_hasDeviceIdentity = False, hp_req = \<lparr>rq_remoteAddress = Some ''9.9.9.9'', rq_headers = []\<rparr>,
     hp_trustedProxies = [], hp_allowRealIpFallback = False, hp_rateLimiter = None, hp_clientIp = None\<rparr>"

lemma sample_handshake_ok:
  "authorizeGatewayConnectCore sample_ips pu wh (handshake_connect sample_handshake) now later es = (auth_ok MethodToken None, es)"
  "authorizeGatewayConnectCore sample_ips pu wh (handshake_probe sample_handshake) now later es = (auth_ok MethodToken None, es)"
  by (simp_all add: handshake_connect_def handshake_probe_def sample_handshake_def resolveSharedConnectAuth_def
      normalizeOptionalString_def normalizeNullableString_def js_trim_def js_trim_start_def js_trim_end_def
      js_is_space_def authorizeGatewayConnectCore_def connect_limiter_check_def authorize_secret_def
      authorizeTokenAuth_def truthy_def shouldAllowTailscaleHeaderAuth_def connect_surface_def limiter_reset_def Let_def)

text \<open>A handshake succeeds only on proof. When the connection's decision is positive, either the
  first authentication admitted it for one of the reasons of the configured mode, or the client has
  a device identity and the pairing store accepted its bootstrap token or its device token for the
  role and scopes it asks for. A connection without a device identity rests on the first alone.\<close>

theorem handshake_admission:
  assumes "cd_authOk (handshake_decision lib pu wh vb vd h deviceId publicKey role scopes now later es)"
  shows "admitted_by lib wh (handshake_connect h)
      (fst (authorizeWsControlUiGatewayConnect lib pu wh (handshake_connect h) now later es)) \<or>
    (hp_hasDeviceIdentity h \<and> device_proved vb vd h deviceId publicKey role scopes)"
  using handshake_ok [OF assms] handshake_first unfolding device_proved_def by blast

theorem handshake_admission_witness:
  "admitted_by sample_ips (\<lambda>ip. None) (handshake_connect sample_handshake)
     (fst (authorizeWsControlUiGatewayConnect sample_ips (\<lambda>u. None) (\<lambda>ip. None) (handshake_connect sample_handshake) 0 0 []))"
proof -
  have "cd_authOk (handshake_decision sample_ips (\<lambda>u. None) (\<lambda>ip. None) (\<lambda>_ _ _ _ _. \<lparr>tc_ok = False, tc_reason = None\<rparr>)
      (\<lambda>_ _ _ _. \<lparr>tc_ok = False, tc_reason = None\<rparr>) sample_handshake None None ''operator'' [] 0 0 [])"
    by (simp add: handshake_decision_def resolveConnectAuthState_def resolveConnectAuthDecision_def
        bootstrap_decision_def authorizeWsControlUiGatewayConnect_def authorizeHttpGatewayConnect_def
        sample_handshake_ok truthy_def Let_def case_prod_beta)
  from handshake_admission [OF this] show ?thesis by (simp add: sample_handshake_def)
qed

text \<open>Who may connect without a device. With the shared-secret result of its own handshake and
  the Control UI policy of the configuration, a connection without device identity is let through
  only as an operator, and only if it presented the configured secret, or a trusted proxy vouches
  for it, or it is the local backend, or the Control UI has device checks switched off; the one
  exception is the Control UI behind a trusted proxy. A node never gets in on a secret alone.\<close>

theorem deviceless_connection:
  assumes "evaluateMissingDeviceIdentity p = MissingAllow" and "\<not> md_hasDeviceIdentity p"
    and "md_sharedAuthOk p = cs_sharedAuthOk (fst (resolveConnectAuthState lib pu wh h now later es))"
    and "md_policy p = resolveControlUiAuthPolicy ui config device"
  shows "(md_isControlUi p \<and> md_trustedProxyAuthOk p) \<or>
    (md_role p = RoleOperator \<and>
     (secret_presented h \<or> (\<exists>user. proxy_vouches lib (handshake_connect h) user) \<or>
      md_localBackendSelfPairingOk p \<or>
      (ui \<and> Option.bind config uc_dangerouslyDisableDeviceAuth = Some True)))"
  using missing_device_allowed [OF assms(1,2)] shared_auth_ok [of lib pu wh h now later es] assms(3,4)
  by (auto simp: bypass_configured)

theorem deviceless_connection_witness:
  "secret_presented sample_handshake \<or> (\<exists>user. proxy_vouches sample_ips (handshake_connect sample_handshake) user)"
proof -
  have ok: "cs_sharedAuthOk (fst (resolveConnectAuthState sample_ips (\<lambda>u. None) (\<lambda>ip. None) sample_handshake 0 0 []))"
    by (simp add: resolveConnectAuthState_def authorizeWsControlUiGatewayConnect_def authorizeHttpGatewayConnect_def
        sample_handshake_ok Let_def case_prod_beta)
      (simp add: sample_handshake_def resolveSharedConnectAuth_def normalizeOptionalString_def
        normalizeNullableString_def js_trim_def js_trim_start_def js_trim_end_def js_is_space_def Let_def)
  show ?thesis
    using deviceless_connection [of "\<lparr>md_hasDeviceIdentity = False, md_role = RoleOperator, md_isControlUi = False,
        md_policy = resolveControlUiAuthPolicy False None False, md_trustedProxyAuthOk = False,
        md_localBackendSelfPairingOk = False, md_sharedAuthOk = True, md_authOk = True, md_hasSharedAuth = True,
        md_isLocalClient = False\<rparr>", of sample_ips "\<lambda>u. None" "\<lambda>ip. None" sample_handshake 0 0 "[]" False None False] ok
    by (simp add: evaluateMissingDeviceIdentity_def roleCanSkipDeviceIdentity_def)
qed

text \<open>An HTTP request cannot talk itself into scopes. A request admitted with the shared secret
  carries exactly that secret as its bearer token, its scope headers count for nothing, and every
  method that needs a scope is refused when its declared scopes are asked; any other admitted request
  has at most the scopes it declares, and is the owner only if it declares admin.\<close>

theorem http_scopes_not_asserted:
  assumes "fst (checkGatewayHttpRequestAuth lib pu wh req auth tps real_ip l allowed fallback now later es) = Inr ra"
  shows "if usesSharedSecretGatewayMethod (ha_authMethod ra) then
      (rga_token auth = getBearerToken req \<or> rga_password auth = getBearerToken req) \<and>
      resolveTrustedHttpOperatorScopes req (Some (RequestAuth ra)) = [] \<and>
      authorizeScopedGatewayHttpRequest reg (\<lambda>r a. resolveTrustedHttpOperatorScopes r (Some (RequestAuth a)))
        ''chat.history'' req (Inr ra) \<noteq> HttpAuthorized ra
    else set (resolveTrustedHttpOperatorScopes req (Some (RequestAuth ra))) \<subseteq> declared_scopes req \<and>
      (resolveHttpSenderIsOwner req (Some (RequestAuth ra)) \<longrightarrow> scope_name ADMIN_SCOPE \<in> declared_scopes req)"
proof (cases "usesSharedSecretGatewayMethod (ha_authMethod ra)")
  case True
  then have none: "resolveTrustedHttpOperatorScopes req (Some (RequestAuth ra)) = []"
    using http_checked [OF assms] by (simp add: resolveTrustedHttpOperatorScopes_def shouldTrustDeclaredHttpOperatorScopes_def)
  have "authorizeOperatorScopesForMethod reg ''chat.history'' [] NotAnObject \<noteq> ScopeAllowed"
    using authorize_static [of "''chat.history''" reg "[]" NotAnObject]
    by (simp add: DYNAMIC_OPERATOR_SCOPE_METHODS_def scope_suffices_def has_scope_def)
  then show ?thesis using True none http_checked [OF assms]
    by (auto simp: authorizeScopedGatewayHttpRequest_def split: scope_auth.splits)
next
  case False
  then show ?thesis using trusted_scopes_declared [of req "Some (RequestAuth ra)"]
    by (auto simp: resolveHttpSenderIsOwner_def has_scope_def)
qed

definition sample_bearer :: http_request where
  "sample_bearer = \<lparr>rq_remoteAddress = Some ''9.9.9.9'', rq_headers =
     [(''authorization'', HeaderStr ''bearer s3''), (''x-openclaw-scopes'', HeaderStr ''operator.admin'')]\<rparr>"

theorem http_scopes_not_asserted_witness:
  "resolveTrustedHttpOperatorScopes sample_bearer
     (Some (RequestAuth \<lparr>ha_authMethod = Some MethodToken, ha_trustDeclaredOperatorScopes = False\<rparr>)) = []"
proof -
  have token: "getBearerToken sample_bearer = Some ''s3''"
    by (simp add: getBearerToken_def sample_bearer_def getHeader_def req_header_def map_get_def headerValue_def
        normalizeOptionalString_def normalizeNullableString_def starts_with_def js_trim_def js_trim_start_def
        js_trim_end_def js_is_space_def js_lower_def js_lower_char_def js_is_upper_def Let_def)
  have "fst (checkGatewayHttpRequestAuth sample_ips (\<lambda>u. None) (\<lambda>ip. None) sample_bearer
      \<lparr>rga_mode = AuthModeToken, rga_token = Some ''s3'', rga_password = None, rga_allowTailscale = False,
        rga_trustedProxy = None\<rparr> None None None None None 0 0 []) =
      Inr \<lparr>ha_authMethod = Some MethodToken, ha_trustDeclaredOperatorScopes = False\<rparr>"
    by (simp add: checkGatewayHttpRequestAuth_def token authorizeHttpGatewayConnect_def authorizeGatewayConnectCore_def
        connect_limiter_check_def authorize_secret_def authorizeTokenAuth_def truthy_def
        shouldAllowTailscaleHeaderAuth_def connect_surface_def usesSharedSecretGatewayMethod_def Let_def case_prod_beta)
  from http_scopes_not_asserted [OF this, of None] show ?thesis
    by (simp add: usesSharedSecretGatewayMethod_def)
qed

end
