(* ===== verification/FenceSpans.thy ===== *)
theory FenceSpans
  imports JsStrings
begin

section \<open>Fenced code blocks\<close>

text \<open>
  Models \<^verbatim>\<open>src/markdown/fences.ts\<close>: the spans of the fenced code blocks of a text and the binary
  search for the span around a position. The spans found are proved ordered and disjoint, and the
  search is proved to agree with a scan.
\<close>

definition newline :: char where
  "newline = CHR 0x0A"

definition return_char :: char where
  "return_char = CHR 0x0D"

record fence_span =
  fs_start :: nat
  fs_end :: nat
  fs_openLine :: string
  fs_marker :: string
  fs_indent :: string

text \<open>The match of \<open>/^( {0,3})(`{3,}|~{3,})(.*)$/\<close> against a line: its indent and marker. The dot
  does not match a carriage return.\<close>

definition match_fence :: "string \<Rightarrow> (string \<times> string) option" where
  "match_fence line =
     (let indent = takeWhile (\<lambda>c. c = CHR '' '') line;
          rest = dropWhile (\<lambda>c. c = CHR '' '') line
      in if length indent > 3 then None
         else case rest of
           [] \<Rightarrow> None
         | c # cs \<Rightarrow>
             (let marker = takeWhile (\<lambda>x. x = c) rest;
                  info = dropWhile (\<lambda>x. x = c) rest
              in if (c = CHR ''`'' \<or> c = CHR ''~'') \<and> length marker \<ge> 3 \<and> return_char \<notin> set info
                 then Some (indent, marker) else None))"

text \<open>The lines from \<open>offset\<close> on, with the block that is open.\<close>

fun fence_loop :: "nat \<Rightarrow> string list \<Rightarrow> fence_span option \<Rightarrow> fence_span list" where
  "fence_loop offset [] opened = []"
| "fence_loop offset (line # lines) opened =
     (let lineEnd = offset + length line;
          finish = (\<lambda>o1. if lines = []
            then (case o1 of None \<Rightarrow> [] | Some f \<Rightarrow> [f\<lparr>fs_end := lineEnd\<rparr>])
            else fence_loop (lineEnd + 1) lines o1)
      in case match_fence line of
        None \<Rightarrow> finish opened
      | Some (indent, marker) \<Rightarrow>
          (case opened of
             None \<Rightarrow> finish (Some \<lparr>fs_start = offset, fs_end = offset, fs_openLine = line,
               fs_marker = marker, fs_indent = indent\<rparr>)
           | Some f \<Rightarrow>
               if hd (fs_marker f) = hd marker \<and> length marker \<ge> length (fs_marker f)
               then f\<lparr>fs_end := lineEnd\<rparr> # finish None
               else finish opened))"

definition parseFenceSpans :: "string \<Rightarrow> fence_span list" where
  "parseFenceSpans buffer = fence_loop 0 (split_on newline buffer) None"

function find_fence_loop :: "fence_span list \<Rightarrow> nat \<Rightarrow> int \<Rightarrow> int \<Rightarrow> fence_span option" where
  "find_fence_loop spans index low high =
     (if \<not> low \<le> high then None
      else let mid = (low + high) div 2
           in if mid < 0 \<or> int (length spans) \<le> mid then None
              else let span = spans ! nat mid
                   in if index \<le> fs_start span then find_fence_loop spans index low (mid - 1)
                      else if index \<ge> fs_end span then find_fence_loop spans index (mid + 1) high
                      else Some span)"
  by pat_completeness auto
termination
  by (relation "measure (\<lambda>(spans, index, low, high). nat (high + 1 - low))") auto

declare find_fence_loop.simps [simp del]

definition findFenceSpanAt :: "fence_span list \<Rightarrow> nat \<Rightarrow> fence_span option" where
  "findFenceSpanAt spans index = find_fence_loop spans index 0 (int (length spans) - 1)"

definition isSafeFenceBreak :: "fence_span list \<Rightarrow> nat \<Rightarrow> bool" where
  "isSafeFenceBreak spans index = (findFenceSpanAt spans index = None)"

subsection \<open>The spans are ordered\<close>

text \<open>Spans from position \<open>a\<close> on, one after the other.\<close>

fun spans_from :: "nat \<Rightarrow> fence_span list \<Rightarrow> bool" where
  "spans_from a [] = True"
| "spans_from a (s # ss) = (a \<le> fs_start s \<and> fs_start s \<le> fs_end s \<and> spans_from (fs_end s) ss)"

lemma spans_from_mono: "spans_from b ss \<Longrightarrow> a \<le> b \<Longrightarrow> spans_from a ss"
  by (cases ss) auto

text \<open>An open block starts between \<open>a\<close> and the current position.\<close>

definition open_from :: "nat \<Rightarrow> nat \<Rightarrow> fence_span option \<Rightarrow> bool" where
  "open_from a offset opened = (case opened of None \<Rightarrow> a \<le> offset
     | Some f \<Rightarrow> a \<le> fs_start f \<and> fs_start f \<le> offset)"

lemma fence_loop_ordered: "open_from a offset opened \<Longrightarrow> spans_from a (fence_loop offset ls opened)"
proof (induction ls arbitrary: a offset opened)
  case (Cons line lines)
  let ?e = "offset + length line"
  define fin where "fin = (\<lambda>o1. if lines = [] then (case o1 of None \<Rightarrow> [] | Some f \<Rightarrow> [f\<lparr>fs_end := ?e\<rparr>])
      else fence_loop (?e + 1) lines o1)"
  have fin: "spans_from b (fin o1)" if "open_from b ?e o1" for b o1
  proof (cases "lines = []")
    case True
    then show ?thesis using that by (auto simp: fin_def open_from_def split: option.split)
  next
    case False
    have "open_from b (?e + 1) o1" using that by (auto simp: open_from_def split: option.splits)
    from Cons.IH [OF this] False show ?thesis by (simp add: fin_def)
  qed
  have unfold: "fence_loop offset (line # lines) opened = (case match_fence line of
      None \<Rightarrow> fin opened
    | Some (indent, marker) \<Rightarrow>
        (case opened of
           None \<Rightarrow> fin (Some \<lparr>fs_start = offset, fs_end = offset, fs_openLine = line,
             fs_marker = marker, fs_indent = indent\<rparr>)
         | Some f \<Rightarrow>
             if hd (fs_marker f) = hd marker \<and> length marker \<ge> length (fs_marker f)
             then f\<lparr>fs_end := ?e\<rparr> # fin None else fin opened))"
    by (simp only: fence_loop.simps Let_def fin_def)
  have same: "open_from a ?e opened" using Cons.prems by (auto simp: open_from_def split: option.splits)
  show ?case unfolding unfold using Cons.prems fin [OF same] fin [of ?e None] fin
    by (auto simp: open_from_def split: option.splits)
qed simp

lemma parsed_spans_ordered: "spans_from 0 (parseFenceSpans buffer)"
  by (simp add: parseFenceSpans_def fence_loop_ordered open_from_def)

lemma spans_from_nth:
  "spans_from a ss \<Longrightarrow> i < j \<Longrightarrow> j < length ss \<Longrightarrow> fs_end (ss ! i) \<le> fs_start (ss ! j)"
  "spans_from a ss \<Longrightarrow> i < length ss \<Longrightarrow> a \<le> fs_start (ss ! i) \<and> fs_start (ss ! i) \<le> fs_end (ss ! i)"
proof (induction ss arbitrary: a i j)
  case (Cons s ss)
  { case 1
    then obtain k where j: "j = Suc k" by (cases j) auto
    show ?case
    proof (cases i)
      case 0
      then show ?thesis using Cons.IH(2) [of "fs_end s" k] 1 j by simp
    next
      case (Suc m)
      then show ?thesis using Cons.IH(1) [of "fs_end s" m k] 1 j by simp
    qed }
  { case 2
    show ?case
    proof (cases i)
      case 0
      then show ?thesis using 2 by simp
    next
      case (Suc m)
      then show ?thesis using Cons.IH(2) [of "fs_end s" m] 2 by auto
    qed }
qed simp_all

text \<open>The binary search finds the span around the position if there is one.\<close>

lemma find_fence_step:
  assumes "low \<le> high" and "0 \<le> low" and "high < int (length spans)" and "int m = (low + high) div 2"
  shows "find_fence_loop spans index low high =
    (if index \<le> fs_start (spans ! m) then find_fence_loop spans index low (int m - 1)
     else if index \<ge> fs_end (spans ! m) then find_fence_loop spans index (int m + 1) high
     else Some (spans ! m))"
proof -
  have "(low + high) div 2 < int (length spans)" "0 \<le> (low + high) div 2" using assms by linarith+
  moreover have "nat ((low + high) div 2) = m" using assms(4) by (metis nat_int)
  ultimately show ?thesis
    using assms(1) by (subst find_fence_loop.simps) (simp add: Let_def assms(4))
qed

lemma find_fence_loop_None:
  assumes "spans_from a spans" and "find_fence_loop spans index low high = None"
    and "0 \<le> low" and "high < int (length spans)" and "low \<le> int i" and "int i \<le> high"
  shows "\<not> (fs_start (spans ! i) < index \<and> index < fs_end (spans ! i))"
  using assms(2-6)
proof (induction "nat (high + 1 - low)" arbitrary: low high rule: less_induct)
  case less
  define mid where "mid = (low + high) div 2"
  have range: "low \<le> mid" "mid \<le> high" using less.prems(4,5) by (auto simp: mid_def)
  define m where "m = nat mid"
  have m: "mid = int m" "m < length spans" "i < length spans" using range less.prems by (auto simp: m_def)
  have before: "fs_end (spans ! i) \<le> fs_start (spans ! m)" if "i < m"
    using spans_from_nth(1) [OF assms(1) that m(2)] .
  have after: "fs_end (spans ! m) \<le> fs_start (spans ! i)" if "m < i"
    using spans_from_nth(1) [OF assms(1) that m(3)] .
  have ne: "fs_start (spans ! m) \<le> fs_end (spans ! m)" using spans_from_nth(2) [OF assms(1) m(2)] by simp
  note step = less.prems(1) [unfolded find_fence_step [OF order_trans [OF less.prems(4,5)] less.prems(2,3) m(1) [symmetric, unfolded mid_def]]]
  show ?case
  proof (cases "index \<le> fs_start (spans ! m)")
    case True
    show ?thesis
    proof (cases "i < m")
      case True': True
      have "find_fence_loop spans index low (int m - 1) = None" using step True by simp
      from less.hyps [OF _ this less.prems(2) _ less.prems(4)] True' m range less.prems show ?thesis by simp
    next
      case False
      then show ?thesis using True after ne by (cases "i = m") auto
    qed
  next
    case False
    then have ge: "index \<ge> fs_end (spans ! m)" using step by (auto split: if_splits)
    show ?thesis
    proof (cases "m < i")
      case True
      have "find_fence_loop spans index (int m + 1) high = None" using step False ge by simp
      from less.hyps [OF _ this _ less.prems(3) _ less.prems(5)] True m range less.prems show ?thesis by simp
    next
      case False
      then show ?thesis using ge before ne by (cases "i = m") auto
    qed
  qed
qed

lemma find_fence_loop_Some:
  "find_fence_loop spans index low high = Some s \<Longrightarrow> s \<in> set spans \<and> fs_start s < index \<and> index < fs_end s"
proof (induction spans index low high rule: find_fence_loop.induct)
  case (1 spans index low high)
  let ?mid = "(low + high) div 2"
  show ?case
  proof (cases "low \<le> high \<and> \<not> (?mid < 0 \<or> int (length spans) \<le> ?mid)")
    case True
    then have mem: "spans ! nat ?mid \<in> set spans" by (intro nth_mem) linarith
    from 1(3) True have "(if index \<le> fs_start (spans ! nat ?mid) then find_fence_loop spans index low (?mid - 1)
        else if index \<ge> fs_end (spans ! nat ?mid) then find_fence_loop spans index (?mid + 1) high
        else Some (spans ! nat ?mid)) = Some s"
      by (subst (asm) find_fence_loop.simps) (simp add: Let_def)
    then show ?thesis using 1(1,2) [OF _ refl _ refl] True mem by (auto split: if_splits)
  next
    case False
    then have "find_fence_loop spans index low high = None"
      by (subst find_fence_loop.simps) (auto simp: Let_def)
    with 1(3) show ?thesis by simp
  qed
qed

lemma findFenceSpanAt_Some:
  "findFenceSpanAt spans index = Some s \<Longrightarrow> s \<in> set spans \<and> fs_start s < index \<and> index < fs_end s"
  unfolding findFenceSpanAt_def by (rule find_fence_loop_Some)

lemma findFenceSpanAt_None:
  assumes "spans_from a spans" and "findFenceSpanAt spans index = None" and "s \<in> set spans"
  shows "\<not> (fs_start s < index \<and> index < fs_end s)"
proof -
  obtain i where "i < length spans" "spans ! i = s" using assms(3) by (auto simp: in_set_conv_nth)
  with find_fence_loop_None [OF assms(1) assms(2) [unfolded findFenceSpanAt_def], of i] show ?thesis by simp
qed

lemma safe_break_iff:
  "isSafeFenceBreak (parseFenceSpans buffer) index \<longleftrightarrow>
    \<not> (\<exists>s\<in>set (parseFenceSpans buffer). fs_start s < index \<and> index < fs_end s)"
  unfolding isSafeFenceBreak_def
  using findFenceSpanAt_Some [of "parseFenceSpans buffer" index]
    findFenceSpanAt_None [OF parsed_spans_ordered [of buffer], of index] by (cases "findFenceSpanAt (parseFenceSpans buffer) index") auto

end
