(* ===== verification/TextChunks.thy ===== *)
theory TextChunks
  imports FenceSpans
begin

section \<open>Splitting outbound text\<close>

text \<open>
  Models \<^verbatim>\<open>src/shared/text-chunking.ts\<close> and the chunkers of \<^verbatim>\<open>src/auto-reply/chunk.ts\<close>:
  splitting by length at white space, by line, by paragraph, and the Markdown chunker that closes
  and reopens a code block it has to cut. Lengths and limits are integers; a text is a list of
  characters below 256, so that \<open>\s\<close> and \<open>trim\<close> agree with \<open>js_is_space\<close>. Reading the limit and
  the mode from the configuration is left out.
\<close>

definition newlines :: "nat \<Rightarrow> string" where
  "newlines n = replicate n newline"

subsection \<open>By length\<close>

text \<open>The scan for break points outside parentheses; positions count from \<open>i\<close>, and \<open>-1\<close> means
  none.\<close>

fun scan_points :: "(nat \<Rightarrow> bool) \<Rightarrow> nat \<Rightarrow> string \<Rightarrow> nat \<Rightarrow> int \<Rightarrow> int \<Rightarrow> int \<times> int" where
  "scan_points isAllowed i [] depth lastNewline lastWhitespace = (lastNewline, lastWhitespace)"
| "scan_points isAllowed i (c # cs) depth lastNewline lastWhitespace =
     (if \<not> isAllowed i then scan_points isAllowed (i + 1) cs depth lastNewline lastWhitespace
      else if c = CHR ''('' then scan_points isAllowed (i + 1) cs (depth + 1) lastNewline lastWhitespace
      else if c = CHR '')'' \<and> depth > 0 then scan_points isAllowed (i + 1) cs (depth - 1) lastNewline lastWhitespace
      else if depth \<noteq> 0 then scan_points isAllowed (i + 1) cs depth lastNewline lastWhitespace
      else if c = newline then scan_points isAllowed (i + 1) cs depth (int i) lastWhitespace
      else if js_is_space c then scan_points isAllowed (i + 1) cs depth lastNewline (int i)
      else scan_points isAllowed (i + 1) cs depth lastNewline lastWhitespace)"

definition scanParenAwareBreakpoints :: "string \<Rightarrow> nat \<Rightarrow> nat \<Rightarrow> (nat \<Rightarrow> bool) \<Rightarrow> int \<times> int" where
  "scanParenAwareBreakpoints s start end_pos isAllowed =
     scan_points isAllowed start (take (end_pos - start) (drop start s)) 0 (- 1) (- 1)"

text \<open>The loop of \<open>chunkTextByBreakResolver\<close> for the limit \<open>Suc l\<close>; a candidate that is not a usable
  position is replaced by the limit.\<close>

definition usable_break :: "nat \<Rightarrow> int \<Rightarrow> nat" where
  "usable_break limit candidate = (if candidate > 0 \<and> candidate \<le> int limit then nat candidate else limit)"

definition space_at :: "string \<Rightarrow> nat \<Rightarrow> bool" where
  "space_at s i = (i < length s \<and> js_is_space (s ! i))"

text \<open>The position after a break, past the white space character there.\<close>

definition skip_space :: "string \<Rightarrow> nat \<Rightarrow> nat" where
  "skip_space s b = min (length s) (b + (if space_at s b then 1 else 0))"

lemma length_trim_start: "length (js_trim_start s) \<le> length s"
  by (simp add: js_trim_start_def length_dropWhile_le)

lemma usable_break_bounds: "0 < usable_break (Suc l) c \<and> usable_break (Suc l) c \<le> Suc l"
  by (auto simp: usable_break_def)

function chunk_loop :: "(string \<Rightarrow> int) \<Rightarrow> nat \<Rightarrow> string \<Rightarrow> string list" where
  "chunk_loop resolveBreakIndex l remaining =
     (if length remaining \<le> Suc l then (if remaining = [] then [] else [remaining])
      else
        let breakIdx = usable_break (Suc l) (resolveBreakIndex (take (Suc l) remaining));
            chunk = js_trim_end (take breakIdx remaining);
            nextStart = skip_space remaining breakIdx
        in (if chunk \<noteq> [] then [chunk] else []) @
           chunk_loop resolveBreakIndex l (js_trim_start (drop nextStart remaining)))"
  by pat_completeness auto

termination
proof (relation "measure (\<lambda>(r, l, s). length s)", goal_cases)
  case (2 r l remaining b chunk n)
  have "0 < b" using 2(2) usable_break_bounds by simp
  then have "length (drop n remaining) < length remaining" using 2(1,4) by (auto simp: skip_space_def)
  then show ?case using length_trim_start [of "drop n remaining"] by simp
qed simp

declare chunk_loop.simps [simp del]

definition chunkTextByBreakResolver :: "string \<Rightarrow> int \<Rightarrow> (string \<Rightarrow> int) \<Rightarrow> string list" where
  "chunkTextByBreakResolver s limit resolveBreakIndex =
     (if s = [] then []
      else if limit \<le> 0 \<or> int (length s) \<le> limit then [s]
      else chunk_loop resolveBreakIndex (nat limit - 1) s)"

definition resolveChunkEarlyReturn :: "string \<Rightarrow> int \<Rightarrow> string list option" where
  "resolveChunkEarlyReturn s limit =
     (if s = [] then Some []
      else if limit \<le> 0 then Some [s]
      else if int (length s) \<le> limit then Some [s] else None)"

definition text_break :: "string \<Rightarrow> int" where
  "text_break window =
     (let (lastNewline, lastWhitespace) = scanParenAwareBreakpoints window 0 (length window) (\<lambda>_. True)
      in if lastNewline > 0 then lastNewline else lastWhitespace)"

definition chunkText :: "string \<Rightarrow> int \<Rightarrow> string list" where
  "chunkText s limit =
     (case resolveChunkEarlyReturn s limit of
        Some early \<Rightarrow> early
      | None \<Rightarrow> chunkTextByBreakResolver s limit text_break)"

subsection \<open>By line\<close>

text \<open>The lines of the rest of a text from position \<open>i\<close>, cut at the newlines that are safe.\<close>

fun newline_cuts :: "(nat \<Rightarrow> bool) \<Rightarrow> nat \<Rightarrow> string \<Rightarrow> string list" where
  "newline_cuts isSafeBreak i [] = [[]]"
| "newline_cuts isSafeBreak i (c # cs) =
     (if c = newline \<and> isSafeBreak i then [] # newline_cuts isSafeBreak (i + 1) cs
      else (case newline_cuts isSafeBreak (i + 1) cs of
              [] \<Rightarrow> [[c]]
            | line # lines \<Rightarrow> (c # line) # lines))"

definition splitByNewline :: "string \<Rightarrow> (nat \<Rightarrow> bool) \<Rightarrow> string list" where
  "splitByNewline s isSafeBreak = newline_cuts isSafeBreak 0 s"

text \<open>The chunks of one line; then those of all lines, with the blank lines that are pending before
  each, and the blank lines pending at the end.\<close>

definition line_prefix :: "int \<Rightarrow> nat \<Rightarrow> string" where
  "line_prefix maxLineLength pending =
     newlines (if pending > 0 then min pending (nat (max 0 (maxLineLength - 1))) else 0)"

definition split_line :: "int \<Rightarrow> bool \<Rightarrow> string \<Rightarrow> string \<Rightarrow> string list" where
  "split_line maxLineLength splitLongLines prefix lineValue =
     (if \<not> splitLongLines \<or> int (length lineValue + length prefix) \<le> maxLineLength then [prefix @ lineValue]
      else
        let firstLimit = nat (max 1 (maxLineLength - int (length prefix)));
            remaining = drop firstLimit lineValue
        in (prefix @ take firstLimit lineValue) #
           (if remaining \<noteq> [] then chunkText remaining maxLineLength else []))"

fun line_chunks :: "int \<Rightarrow> bool \<Rightarrow> bool \<Rightarrow> nat \<Rightarrow> string list \<Rightarrow> string list \<times> nat" where
  "line_chunks maxLineLength splitLongLines trimLines pending [] = ([], pending)"
| "line_chunks maxLineLength splitLongLines trimLines pending (line # lines) =
     (let trimmed = js_trim line in
      if trimmed = [] then line_chunks maxLineLength splitLongLines trimLines (pending + 1) lines
      else
        let (rest, final) = line_chunks maxLineLength splitLongLines trimLines 0 lines
        in (split_line maxLineLength splitLongLines (line_prefix maxLineLength pending)
              (if trimLines then trimmed else line) @ rest, final))"

definition chunkByNewline :: "string \<Rightarrow> int \<Rightarrow> bool \<Rightarrow> bool \<Rightarrow> (nat \<Rightarrow> bool) \<Rightarrow> string list" where
  "chunkByNewline s maxLineLength splitLongLines trimLines isSafeBreak =
     (if s = [] then []
      else if maxLineLength \<le> 0 then (if js_trim s \<noteq> [] then [s] else [])
      else
        let (chunks, pending) = line_chunks maxLineLength splitLongLines trimLines 0 (splitByNewline s isSafeBreak)
        in if pending > 0 \<and> chunks \<noteq> []
           then butlast chunks @ [last chunks @ newlines pending] else chunks)"

subsection \<open>By paragraph\<close>

text \<open>\<open>text.replace(/\r\n?/g, "\n")\<close>\<close>

fun normalize_newlines :: "string \<Rightarrow> string" where
  "normalize_newlines [] = []"
| "normalize_newlines [c] = [if c = return_char then newline else c]"
| "normalize_newlines (c # d # ds) =
     (if c = return_char
      then newline # (if d = newline then normalize_newlines ds else normalize_newlines (d # ds))
      else c # normalize_newlines (d # ds))"

text \<open>The length of the match of \<open>/\n[\t ]*\n+/\<close> at the start of a string, if there is one.\<close>

definition paragraph_break :: "string \<Rightarrow> nat option" where
  "paragraph_break s =
     (case s of
        [] \<Rightarrow> None
      | c # cs \<Rightarrow>
          if c \<noteq> newline then None
          else let blank = takeWhile (\<lambda>x. x = CHR 0x09 \<or> x = CHR '' '') cs;
                   rest = drop (length blank) cs;
                   nls = takeWhile (\<lambda>x. x = newline) rest
               in if nls = [] then None else Some (1 + length blank + length nls))"

text \<open>The matches in a string, as positions from \<open>i\<close> and lengths; a match is skipped over.\<close>

function paragraph_breaks :: "nat \<Rightarrow> string \<Rightarrow> (nat \<times> nat) list" where
  "paragraph_breaks i s =
     (if s = [] then []
      else case paragraph_break s of
        None \<Rightarrow> paragraph_breaks (i + 1) (drop 1 s)
      | Some n \<Rightarrow> (i, n) # paragraph_breaks (i + max 1 n) (drop (max 1 n) s))"
  by pat_completeness auto
termination
  by (relation "measure (\<lambda>(i, s). length s)") auto

declare paragraph_breaks.simps [simp del]

text \<open>The parts between the breaks that are not inside a code block.\<close>

fun paragraph_parts :: "string \<Rightarrow> fence_span list \<Rightarrow> nat \<Rightarrow> (nat \<times> nat) list \<Rightarrow> string list" where
  "paragraph_parts s spans lastIndex [] = [drop lastIndex s]"
| "paragraph_parts s spans lastIndex ((idx, n) # breaks) =
     (if \<not> isSafeFenceBreak spans idx then paragraph_parts s spans lastIndex breaks
      else take (idx - lastIndex) (drop lastIndex s) # paragraph_parts s spans (idx + n) breaks)"

definition paragraph_chunks :: "int \<Rightarrow> bool \<Rightarrow> string \<Rightarrow> string list" where
  "paragraph_chunks limit splitLongParagraphs part =
     (let paragraph = js_trim_end part
      in if js_trim paragraph = [] then []
         else if int (length paragraph) \<le> limit then [paragraph]
         else if \<not> splitLongParagraphs then [paragraph]
         else chunkText paragraph limit)"

definition chunkByParagraph :: "string \<Rightarrow> int \<Rightarrow> bool \<Rightarrow> string list" where
  "chunkByParagraph s limit splitLongParagraphs =
     (if s = [] then []
      else if limit \<le> 0 then [s]
      else
        let normalized = normalize_newlines s;
            breaks = paragraph_breaks 0 normalized
        in if breaks = [] then
             (if int (length normalized) \<le> limit then [normalized]
              else if \<not> splitLongParagraphs then [normalized]
              else chunkText normalized limit)
           else concat (map (paragraph_chunks limit splitLongParagraphs)
                  (paragraph_parts normalized (parseFenceSpans normalized) 0 breaks)))"

datatype chunk_mode = ChunkLength | ChunkNewline

definition chunkTextWithMode :: "string \<Rightarrow> int \<Rightarrow> chunk_mode \<Rightarrow> string list" where
  "chunkTextWithMode s limit mode =
     (if mode = ChunkNewline then chunkByParagraph s limit True else chunkText s limit)"

subsection \<open>Markdown\<close>

definition pickSafeBreakIndex :: "string \<Rightarrow> nat \<Rightarrow> nat \<Rightarrow> fence_span list \<Rightarrow> int" where
  "pickSafeBreakIndex s start end_pos spans =
     (let (lastNewline, lastWhitespace) = scanParenAwareBreakpoints s start end_pos (isSafeFenceBreak spans)
      in if lastNewline > int start then lastNewline
         else if lastWhitespace > int start then lastWhitespace else - 1)"

fun skip_newlines :: "string \<Rightarrow> nat" where
  "skip_newlines [] = 0"
| "skip_newlines (c # cs) = (if c = newline then Suc (skip_newlines cs) else 0)"

definition skipLeadingNewlines :: "string \<Rightarrow> nat \<Rightarrow> nat" where
  "skipLeadingNewlines s start = start + skip_newlines (drop start s)"

definition fence_close :: "fence_span \<Rightarrow> string" where
  "fence_close f = fs_indent f @ fs_marker f"

text \<open>The block around a position, if it is the block that starts where \<open>f\<close> starts.\<close>

definition same_fence :: "fence_span list \<Rightarrow> fence_span \<Rightarrow> nat \<Rightarrow> fence_span option" where
  "same_fence spans f i =
     (case findFenceSpanAt spans i of
        None \<Rightarrow> None
      | Some g \<Rightarrow> if fs_start g = fs_start f then Some g else None)"

text \<open>The search for the last newline from position \<open>k\<close> down after which the block can be cut. The
  code's \<open>lastIndexOf\<close> would find position 0 again and again, but there the first test ends the
  loop.\<close>

fun pick_newline :: "string \<Rightarrow> fence_span list \<Rightarrow> fence_span \<Rightarrow> nat \<Rightarrow> nat \<Rightarrow> nat \<Rightarrow> nat option" where
  "pick_newline s spans f start minProgressIdx k =
     (if k < length s \<and> s ! k = newline then
        (if k < start \<or> k + 1 < minProgressIdx then None
         else if same_fence spans f (k + 1) \<noteq> None then Some (k + 1)
         else case k of 0 \<Rightarrow> None | Suc j \<Rightarrow> pick_newline s spans f start minProgressIdx j)
      else case k of 0 \<Rightarrow> None | Suc j \<Rightarrow> pick_newline s spans f start minProgressIdx j)"

declare pick_newline.simps [simp del]

definition min_progress :: "string \<Rightarrow> nat \<Rightarrow> fence_span \<Rightarrow> nat" where
  "min_progress s start f = min (length s) (max (start + 1) (fs_start f + length (fs_openLine f) + 2))"

definition fence_break :: "string \<Rightarrow> fence_span list \<Rightarrow> nat \<Rightarrow> nat \<Rightarrow> nat \<Rightarrow> fence_span \<Rightarrow> nat" where
  "fence_break s spans start contentLimit windowEnd f =
     (let closeLen = length (fence_close f)
      in if contentLimit \<le> closeLen + 1 then windowEnd
         else
           let maxIdxIfNeedNewline = start + (contentLimit - (closeLen + 1));
               maxIdxIfAlreadyNewline = start + (contentLimit - closeLen);
               minProgressIdx = min_progress s start f
           in case pick_newline s spans f start minProgressIdx (max start (maxIdxIfAlreadyNewline - 1)) of
                Some candidate \<Rightarrow> candidate
              | None \<Rightarrow> if minProgressIdx > maxIdxIfAlreadyNewline then windowEnd
                        else max minProgressIdx maxIdxIfNeedNewline)"

text \<open>Where the next chunk ends, and the block it cuts there.\<close>

definition markdown_break :: "string \<Rightarrow> fence_span list \<Rightarrow> nat \<Rightarrow> nat \<Rightarrow> nat \<times> fence_span option" where
  "markdown_break s spans start contentLimit =
     (let windowEnd = min (length s) (start + contentLimit);
          softBreak = pickSafeBreakIndex s start windowEnd spans;
          breakIdx = (if softBreak > int start then nat softBreak else windowEnd)
      in case (if isSafeFenceBreak spans breakIdx then None else findFenceSpanAt spans breakIdx) of
           None \<Rightarrow> (breakIdx, None)
         | Some f \<Rightarrow>
             (let b = fence_break s spans start contentLimit windowEnd f in (b, same_fence spans f b)))"

definition reopen_prefix :: "fence_span option \<Rightarrow> string" where
  "reopen_prefix r = (case r of None \<Rightarrow> [] | Some f \<Rightarrow> fs_openLine f @ [newline])"

text \<open>The pieces from \<open>start\<close> on, each with the line that reopens a block before it and the line
  that closes one after it.\<close>

function markdown_loop ::
  "string \<Rightarrow> fence_span list \<Rightarrow> nat \<Rightarrow> nat \<Rightarrow> fence_span option \<Rightarrow> (string \<times> string \<times> string) list" where
  "markdown_loop s spans limit start reopenFence =
     (if start \<ge> length s then []
      else
        let reopenPrefix = reopen_prefix reopenFence;
            contentLimit = max 1 (limit - length reopenPrefix)
        in if length s - start \<le> contentLimit then [(reopenPrefix, drop start s, [])]
           else
             let (breakIdx, fenceToSplit) = markdown_break s spans start contentLimit;
                 rawContent = take (breakIdx - start) (drop start s);
                 nextStart = skip_space s breakIdx
             in if rawContent = [] then []
                else case fenceToSplit of
                  Some f \<Rightarrow>
                    (reopenPrefix, rawContent,
                     if last (reopenPrefix @ rawContent) = newline then fence_close f else newline # fence_close f)
                    # markdown_loop s spans limit nextStart (Some f)
                | None \<Rightarrow>
                    (reopenPrefix, rawContent, [])
                    # markdown_loop s spans limit (skipLeadingNewlines s nextStart) None)"
  by pat_completeness auto

termination
  by (relation "measure (\<lambda>(s, spans, limit, start, r). length s - start)") (auto simp: skipLeadingNewlines_def skip_space_def)

declare markdown_loop.simps [simp del]

definition markdown_chunk :: "string \<times> string \<times> string \<Rightarrow> string" where
  "markdown_chunk piece = (case piece of (prefix, raw, suffix) \<Rightarrow> prefix @ raw @ suffix)"

definition chunkMarkdownText :: "string \<Rightarrow> int \<Rightarrow> string list" where
  "chunkMarkdownText s limit =
     (case resolveChunkEarlyReturn s limit of
        Some early \<Rightarrow> early
      | None \<Rightarrow> map markdown_chunk (markdown_loop s (parseFenceSpans s) (nat limit) 0 None))"

definition chunkMarkdownTextWithMode :: "string \<Rightarrow> int \<Rightarrow> chunk_mode \<Rightarrow> string list" where
  "chunkMarkdownTextWithMode s limit mode =
     (if mode = ChunkNewline then
        concat (map (\<lambda>chunk. let nested = chunkMarkdownText chunk limit
                             in if nested = [] \<and> chunk \<noteq> [] then [chunk] else nested)
               (chunkByParagraph s limit False))
      else chunkMarkdownText s limit)"

end
