(* ===== verification/TextChunkProps.thy ===== *)
theory TextChunkProps
  imports TextChunks
begin

section \<open>What chunking keeps and how long chunks get\<close>

text \<open>
  Properties of \<open>TextChunks\<close>: the characters of a text that are not white space come out in order,
  whatever the chunker and the limit, and the lengths of the chunks are bounded. The loops return on
  every input, which their termination proofs in \<open>TextChunks\<close> show.
\<close>

subsection \<open>Content\<close>

definition content :: "string \<Rightarrow> string" where
  "content s = filter (\<lambda>c. \<not> js_is_space c) s"

lemma content_simps [simp]:
  "content [] = []" "content (a @ b) = content a @ content b"
  "content (c # s) = (if js_is_space c then content s else c # content s)"
  by (simp_all add: content_def)

lemma newline_space [simp]: "js_is_space newline"
  by (simp add: newline_def js_is_space_def)

lemma return_space [simp]: "js_is_space return_char"
  by (simp add: return_char_def js_is_space_def)

lemma content_dropWhile [simp]: "(\<And>c. P c \<Longrightarrow> js_is_space c) \<Longrightarrow> content (dropWhile P s) = content s"
  by (induction s) auto

lemma content_rev: "content (rev s) = rev (content s)"
  by (simp add: content_def rev_filter)

lemma content_trim [simp]:
  "content (js_trim_start s) = content s" "content (js_trim_end s) = content s" "content (js_trim s) = content s"
  by (simp_all add: js_trim_def js_trim_start_def js_trim_end_def content_rev)

lemma content_Nil_iff: "(content s = []) = (js_trim s = [])"
proof
  assume "js_trim s = []"
  then have "content (js_trim s) = []" by simp
  then show "content s = []" by simp
next
  assume "content s = []"
  then have "\<forall>c\<in>set s. js_is_space c" by (simp add: content_def filter_empty_conv)
  then show "js_trim s = []"
    by (auto simp: js_trim_def js_trim_start_def js_trim_end_def dropWhile_eq_Nil_conv dest: set_dropWhileD)
qed

lemma content_newlines [simp]: "content (newlines n) = []"
  by (simp add: newlines_def content_def)

lemma content_split: "content (take n s) @ content (drop n s) = content s"
  by (metis append_take_drop_id content_simps(2))

text \<open>Skipping a separator loses nothing.\<close>

lemma content_skip_space: "content (drop (skip_space s b) s) = content (drop b s)"
proof (cases "space_at s b")
  case True
  then have "drop b s = s ! b # drop (Suc b) s" and "js_is_space (s ! b)" and "skip_space s b = Suc b"
    by (auto simp: space_at_def Cons_nth_drop_Suc skip_space_def)
  then show ?thesis by simp
next
  case False
  then show ?thesis by (cases "b \<le> length s") (simp_all add: skip_space_def)
qed

lemma skip_space_ge: "b \<le> length s \<Longrightarrow> b \<le> skip_space s b"
  by (simp add: skip_space_def)

subsection \<open>By length\<close>

lemma length_trim_end: "length (js_trim_end s) \<le> length s"
  using length_dropWhile_le [of js_is_space "rev s"] by (simp add: js_trim_end_def)

lemma chunk_loop_spec:
  "content (concat (chunk_loop r l s)) = content s \<and> (\<forall>c\<in>set (chunk_loop r l s). c \<noteq> [] \<and> length c \<le> Suc l)"
proof (induction r l s rule: chunk_loop.induct)
  case (1 r l s)
  show ?case
  proof (cases "length s \<le> Suc l")
    case True
    then show ?thesis by (subst chunk_loop.simps, subst (2) chunk_loop.simps) simp
  next
    case False
    define b where "b = usable_break (Suc l) (r (take (Suc l) s))"
    have b: "0 < b" "b \<le> Suc l" using usable_break_bounds by (simp_all add: b_def)
    note IH = 1 [OF False b_def refl refl]
    have unfold: "chunk_loop r l s = (if js_trim_end (take b s) \<noteq> [] then [js_trim_end (take b s)] else []) @
        chunk_loop r l (js_trim_start (drop (skip_space s b) s))"
      using False by (subst chunk_loop.simps) (simp add: Let_def b_def)
    have len: "length (js_trim_end (take b s)) \<le> Suc l"
      using length_trim_end [of "take b s"] b by simp
    have "content (concat (if js_trim_end (take b s) \<noteq> [] then [js_trim_end (take b s)] else [])) = content (take b s)"
      using content_trim(2) [of "take b s"] by (cases "js_trim_end (take b s) = []") auto
    then have "content (concat (chunk_loop r l s)) = content s"
      unfolding unfold using IH content_skip_space [of s b] content_split [of b s] by simp
    then show ?thesis using IH len by (auto simp: unfold)
  qed
qed

text \<open>A chunker that keeps the content and, for a positive limit, returns non-empty chunks of at most
  the limit.\<close>

definition bounded_chunks :: "int \<Rightarrow> string list \<Rightarrow> bool" where
  "bounded_chunks limit chunks = (\<forall>c\<in>set chunks. c \<noteq> [] \<and> int (length c) \<le> limit)"

lemma bounded_simps [simp]:
  "bounded_chunks limit []"
  "bounded_chunks limit (c # cs) = (c \<noteq> [] \<and> int (length c) \<le> limit \<and> bounded_chunks limit cs)"
  "bounded_chunks limit (cs @ ds) = (bounded_chunks limit cs \<and> bounded_chunks limit ds)"
  by (auto simp: bounded_chunks_def)

lemma resolver_chunks:
  "content (concat (chunkTextByBreakResolver s limit r)) = content s"
  "0 < limit \<Longrightarrow> bounded_chunks limit (chunkTextByBreakResolver s limit r)"
proof -
  show "content (concat (chunkTextByBreakResolver s limit r)) = content s"
    using chunk_loop_spec by (simp add: chunkTextByBreakResolver_def)
  assume "0 < limit"
  then have "int (Suc (nat limit - 1)) = limit" by simp
  then show "bounded_chunks limit (chunkTextByBreakResolver s limit r)"
    using chunk_loop_spec [of r "nat limit - 1" s] by (fastforce simp: chunkTextByBreakResolver_def bounded_chunks_def)
qed

lemma text_chunks:
  "content (concat (chunkText s limit)) = content s"
  "0 < limit \<Longrightarrow> bounded_chunks limit (chunkText s limit)"
  using resolver_chunks [where s = s and limit = limit and r = text_break]
  by (auto simp: chunkText_def resolveChunkEarlyReturn_def)

subsection \<open>By line\<close>

lemma newline_cuts_nonempty [simp]: "newline_cuts ok i s \<noteq> []"
  by (cases s) (auto split: list.split)

lemma newline_cuts_content: "content (concat (newline_cuts ok i s)) = content s"
proof (induction ok i s rule: newline_cuts.induct)
  case (2 ok i c cs)
  then show ?case by (cases "newline_cuts ok (i + 1) cs") auto
qed simp

lemma split_line_content: "content prefix = [] \<Longrightarrow> content (concat (split_line m split_long prefix v)) = content v"
  using content_split [of "nat (max 1 (m - int (length prefix)))" v]
  by (auto simp: split_line_def Let_def text_chunks)

lemma split_line_bounded:
  assumes "0 < m" and "int (length prefix) < m" and "v \<noteq> []"
  shows "bounded_chunks m (split_line m True prefix v)"
proof -
  define n where "n = nat (max 1 (m - int (length prefix)))"
  have n: "int n = m - int (length prefix)" "0 < n" using assms(2) by (auto simp: n_def)
  then have "int (length (prefix @ take n v)) \<le> m" "prefix @ take n v \<noteq> []" using assms(3) by auto
  moreover have "bounded_chunks m (chunkText (drop n v) m)" by (rule text_chunks(2) [OF assms(1)])
  ultimately show ?thesis using assms(3) unfolding split_line_def n_def [symmetric] Let_def
    by auto
qed

lemma line_chunks_content:
  "content (concat (fst (line_chunks m split_long trim p ls))) = content (concat ls)"
proof (induction ls arbitrary: p)
  case (Cons line lines)
  have "content (line_prefix m p) = []" by (simp add: line_prefix_def)
  then show ?case using Cons content_Nil_iff [of line]
    by (simp add: Let_def case_prod_beta split_line_content)
qed simp

lemma line_chunks_bounded:
  assumes "0 < m"
  shows "bounded_chunks m (fst (line_chunks m True trim p ls))"
proof (induction ls arbitrary: p)
  case (Cons line lines)
  have "int (length (line_prefix m p)) < m" using assms by (auto simp: line_prefix_def newlines_def)
  then have "js_trim line \<noteq> [] \<Longrightarrow> bounded_chunks m (split_line m True (line_prefix m p) (if trim then js_trim line else line))"
    using split_line_bounded [OF assms] by (cases "line = []") auto
  then show ?case using Cons by (simp add: Let_def case_prod_beta)
qed simp

lemma by_newline_content: "content (concat (chunkByNewline s m split_long trim ok)) = content s"
proof -
  obtain chunks p where lc: "line_chunks m split_long trim 0 (splitByNewline s ok) = (chunks, p)" by fastforce
  have "content (concat chunks) = content s"
    using line_chunks_content [of m split_long trim 0 "splitByNewline s ok"] lc
    by (simp add: splitByNewline_def newline_cuts_content)
  moreover have "content (concat (butlast chunks @ [last chunks @ newlines p])) = content (concat chunks)"
    if "chunks \<noteq> []"
    using append_butlast_last_id [OF that] by (metis append.right_neutral concat.simps concat_append content_newlines content_simps(2))
  ultimately show ?thesis using content_Nil_iff [of s] by (auto simp: chunkByNewline_def lc)
qed

text \<open>Only the blank lines at the end can go past the limit.\<close>

lemma by_newline_bounded:
  assumes "0 < m"
  shows "bounded_chunks m (butlast (chunkByNewline s m True trim ok))"
proof -
  obtain chunks p where lc: "line_chunks m True trim 0 (splitByNewline s ok) = (chunks, p)" by fastforce
  have "bounded_chunks m chunks" using line_chunks_bounded [OF assms, of trim 0 "splitByNewline s ok"] lc by simp
  then have "bounded_chunks m (butlast chunks)" by (auto simp: bounded_chunks_def dest: in_set_butlastD)
  then show ?thesis using assms by (auto simp: chunkByNewline_def lc)
qed

subsection \<open>By paragraph\<close>

lemma normalize_newlines_content [simp]: "content (normalize_newlines s) = content s"
  by (induction s rule: normalize_newlines.induct) auto

lemma paragraph_break_space:
  assumes "paragraph_break s = Some n"
  shows "0 < n \<and> n \<le> length s \<and> content (take n s) = []"
proof -
  obtain cs where s: "s = newline # cs" using assms by (auto simp: paragraph_break_def split: list.splits if_splits)
  define b where "b = takeWhile (\<lambda>x. x = CHR 0x09 \<or> x = CHR '' '') cs"
  define r where "r = dropWhile (\<lambda>x. x = CHR 0x09 \<or> x = CHR '' '') cs"
  define nl where "nl = takeWhile (\<lambda>x. x = newline) r"
  define rest where "rest = dropWhile (\<lambda>x. x = newline) r"
  have cs: "cs = b @ r" and r: "r = nl @ rest" by (simp_all add: b_def r_def nl_def rest_def)
  have d: "drop (length (takeWhile (\<lambda>x. x = CHR 0x09 \<or> x = CHR '' '') cs)) cs = r"
    unfolding b_def [symmetric] by (simp add: cs)
  have "paragraph_break s = (if nl = [] then None else Some (1 + length b + length nl))"
    by (simp add: s paragraph_break_def Let_def d b_def nl_def)
  then have n: "n = 1 + length b + length nl" using assms by (simp split: if_splits)
  have "content b = []" and "content nl = []"
    by (auto simp: b_def nl_def content_def filter_empty_conv js_is_space_def newline_def dest!: set_takeWhileD)
  then show ?thesis by (simp add: n s cs r)
qed

text \<open>Breaks of a string that starts at position \<open>i\<close> of the text, in order, all white space.\<close>

fun breaks_in :: "string \<Rightarrow> nat \<Rightarrow> (nat \<times> nat) list \<Rightarrow> bool" where
  "breaks_in s i [] = True"
| "breaks_in s i ((idx, n) # bs) =
     (i \<le> idx \<and> idx + n \<le> length s \<and> content (take n (drop idx s)) = [] \<and> breaks_in s (idx + n) bs)"

lemma breaks_in_mono: "breaks_in s j bs \<Longrightarrow> i \<le> j \<Longrightarrow> breaks_in s i bs"
  by (cases bs) auto

lemma paragraph_breaks_in: "i \<le> length s \<Longrightarrow> breaks_in s i (paragraph_breaks i (drop i s))"
proof (induction "length s - i" arbitrary: i rule: less_induct)
  case less
  show ?case
  proof (cases "i = length s")
    case True
    then show ?thesis by (subst paragraph_breaks.simps) simp
  next
    case False
    then have lt: "i < length s" using less.prems by simp
    show ?thesis
    proof (cases "paragraph_break (drop i s)")
      case None
      have "breaks_in s (i + 1) (paragraph_breaks (i + 1) (drop (i + 1) s))"
        using less.hyps [of "i + 1"] lt by simp
      then show ?thesis using None lt
        by (subst paragraph_breaks.simps) (auto simp: add.commute intro: breaks_in_mono)
    next
      case (Some n)
      have n: "0 < n" "i + n \<le> length s" "content (take n (drop i s)) = []"
        using paragraph_break_space [OF Some] lt by auto
      have "breaks_in s (i + n) (paragraph_breaks (i + n) (drop (i + n) s))"
        using less.hyps [of "i + n"] lt n by simp
      then show ?thesis using Some lt n
        by (subst paragraph_breaks.simps) (simp add: add.commute max_def)
    qed
  qed
qed

lemma paragraph_parts_content:
  assumes "breaks_in s i bs" and "last_index \<le> i" and "i \<le> length s"
  shows "content (concat (paragraph_parts s spans last_index bs)) = content (drop last_index s)"
  using assms
proof (induction s spans last_index bs arbitrary: i rule: paragraph_parts.induct)
  case (2 s spans last_index idx n bs)
  show ?case
  proof (cases "isSafeFenceBreak spans idx")
    case False
    then show ?thesis using 2(1) [of "idx + n"] 2(3-5) by auto
  next
    case True
    have "drop last_index s = take (idx - last_index) (drop last_index s) @ drop idx s"
      using 2(3,4) by (metis add.commute append_take_drop_id breaks_in.simps(2) drop_drop le_add_diff_inverse2 order_trans)
    moreover have "drop idx s = take n (drop idx s) @ drop (idx + n) s"
      by (metis add.commute append_take_drop_id drop_drop)
    ultimately have "content (drop last_index s) =
        content (take (idx - last_index) (drop last_index s)) @ content (take n (drop idx s)) @ content (drop (idx + n) s)"
      by (metis content_simps(2))
    then show ?thesis using True 2(2) [of "idx + n"] 2(3-5) by simp
  qed
qed simp

lemma paragraph_chunks_content: "content (concat (paragraph_chunks limit split_long part)) = content part"
  using content_Nil_iff [of "js_trim_end part"]
  by (auto simp: paragraph_chunks_def Let_def text_chunks)

lemma paragraph_chunks_bounded:
  "0 < limit \<Longrightarrow> bounded_chunks limit (paragraph_chunks limit True part)"
  by (auto simp: paragraph_chunks_def Let_def text_chunks)

lemma content_concat_map: "(\<And>x. x \<in> set xs \<Longrightarrow> content (concat (f x)) = content x) \<Longrightarrow>
    content (concat (concat (map f xs))) = content (concat xs)"
  by (induction xs) simp_all

lemma paragraph_content: "content (concat (chunkByParagraph s limit split_long)) = content s"
proof -
  let ?n = "normalize_newlines s"
  have "content (concat (concat (map (paragraph_chunks limit split_long)
      (paragraph_parts ?n (parseFenceSpans ?n) 0 (paragraph_breaks 0 ?n))))) = content s"
    using content_concat_map [OF paragraph_chunks_content] paragraph_parts_content [of ?n 0 _ 0]
      paragraph_breaks_in [of 0 ?n] by simp
  then show ?thesis by (simp add: chunkByParagraph_def Let_def text_chunks)
qed

lemma normalize_newlines_Nil [simp]: "(normalize_newlines s = []) = (s = [])"
  by (induction s rule: normalize_newlines.induct) auto

lemma paragraph_bounded: "0 < limit \<Longrightarrow> bounded_chunks limit (chunkByParagraph s limit True)"
proof -
  assume limit: "0 < limit"
  have "bounded_chunks limit (concat (map (paragraph_chunks limit True) parts))" for parts
    using paragraph_chunks_bounded [OF limit] by (induction parts) simp_all
  then show ?thesis using limit by (simp add: chunkByParagraph_def Let_def text_chunks)
qed

subsection \<open>Markdown\<close>

lemma scan_points_range:
  "scan_points ok i cs d nl ws = (a, b) \<Longrightarrow>
    (a = nl \<or> a < int (i + length cs)) \<and> (b = ws \<or> b < int (i + length cs))"
proof (induction cs arbitrary: i d nl ws)
  case (Cons c cs)
  from Cons.prems show ?case by (auto split: if_splits dest!: Cons.IH)
qed simp

lemma pick_safe_range:
  assumes "int start < pickSafeBreakIndex s start e spans" and "e \<le> length s"
  shows "pickSafeBreakIndex s start e spans < int e"
proof -
  obtain a b where ab: "scanParenAwareBreakpoints s start e (isSafeFenceBreak spans) = (a, b)" by fastforce
  have "(a = - 1 \<or> a < int (start + length (take (e - start) (drop start s)))) \<and>
      (b = - 1 \<or> b < int (start + length (take (e - start) (drop start s))))"
    using ab scan_points_range unfolding scanParenAwareBreakpoints_def by blast
  then show ?thesis using assms ab by (auto simp: pickSafeBreakIndex_def split: if_splits)
qed

lemma pick_newline_range:
  "pick_newline s spans f start m k = Some c \<Longrightarrow> m \<le> c \<and> c \<le> k + 1 \<and> c \<le> length s"
proof (induction k)
  case 0
  then show ?case by (subst (asm) pick_newline.simps) (auto simp: Suc_le_eq split: if_splits)
next
  case (Suc k)
  then show ?case by (subst (asm) pick_newline.simps) (auto split: if_splits)
qed

lemma fence_break_range:
  assumes "start < length s" and "start + limit \<le> length s" and "0 < limit" and "e = start + limit"
  shows "start < fence_break s spans start limit e f \<and> fence_break s spans start limit e f \<le> e"
proof (cases "limit \<le> length (fence_close f) + 1")
  case True
  then show ?thesis using assms by (simp add: fence_break_def)
next
  case False
  let ?m = "min_progress s start f" and ?k = "max start (start + (limit - length (fence_close f)) - 1)"
  have m: "start < ?m" using assms(1) by (simp add: min_progress_def)
  show ?thesis
  proof (cases "pick_newline s spans f start ?m ?k")
    case None
    then show ?thesis using False m assms by (auto simp: fence_break_def Let_def)
  next
    case (Some c)
    have "fence_break s spans start limit e f = c" using False Some by (simp add: fence_break_def Let_def)
    moreover have "?k + 1 \<le> e" using False assms by auto
    ultimately show ?thesis using pick_newline_range [OF Some] m by auto
  qed
qed

lemma markdown_break_range:
  assumes "start < length s" and "start + limit < length s" and "0 < limit"
  shows "start < fst (markdown_break s spans start limit) \<and> fst (markdown_break s spans start limit) \<le> start + limit"
proof -
  define soft where "soft = pickSafeBreakIndex s start (start + limit) spans"
  define b where "b = (if soft > int start then nat soft else start + limit)"
  have b: "start < b \<and> b \<le> start + limit"
    using pick_safe_range [of start s "start + limit" spans] assms by (auto simp: b_def soft_def)
  have e: "min (length s) (start + limit) = start + limit" using assms by simp
  have "markdown_break s spans start limit =
      (case (if isSafeFenceBreak spans b then None else findFenceSpanAt spans b) of
         None \<Rightarrow> (b, None)
       | Some f \<Rightarrow> (fence_break s spans start limit (start + limit) f,
           same_fence spans f (fence_break s spans start limit (start + limit) f)))"
    by (simp only: markdown_break_def Let_def e soft_def [symmetric] b_def [symmetric])
  then show ?thesis using b fence_break_range [of start s limit "start + limit" spans] assms
    by (cases "if isSafeFenceBreak spans b then None else findFenceSpanAt spans b") simp_all
qed

lemma markdown_break_fence:
  "snd (markdown_break s spans start limit) = Some f \<Longrightarrow> f \<in> set spans"
  using findFenceSpanAt_Some
  by (fastforce simp: markdown_break_def same_fence_def Let_def split: option.splits if_splits)

lemma content_skip_newlines: "content (drop (skip_newlines s) s) = content s"
  by (induction s) auto

lemma content_skip_leading: "content (drop (skipLeadingNewlines s n) s) = content (drop n s)"
  using content_skip_newlines [of "drop n s"] by (simp add: skipLeadingNewlines_def add.commute)

text \<open>The parts of a piece.\<close>

definition piece_raw :: "string \<times> string \<times> string \<Rightarrow> string" where
  "piece_raw piece = fst (snd piece)"

text \<open>A piece in a text with these code blocks: it reopens a block or nothing, closes one or nothing,
  and without the closing line it is as long as the limit, or has one character of the text.\<close>

definition piece_ok :: "fence_span list \<Rightarrow> nat \<Rightarrow> string \<times> string \<times> string \<Rightarrow> bool" where
  "piece_ok spans limit piece = (case piece of (prefix, raw, suffix) \<Rightarrow>
     (prefix = [] \<or> (\<exists>f\<in>set spans. prefix = fs_openLine f @ [newline])) \<and>
     (suffix = [] \<or> (\<exists>f\<in>set spans. suffix = fence_close f \<or> suffix = newline # fence_close f)) \<and>
     raw \<noteq> [] \<and> length prefix + length raw \<le> max limit (length prefix + 1))"

text \<open>
  A text cut into pieces in order: between two of them, and behind the last, there is nothing or one
  character of white space with newlines behind it.
\<close>

definition separator :: "string \<Rightarrow> bool" where
  "separator gap = (case gap of [] \<Rightarrow> True | c # cs \<Rightarrow> js_is_space c \<and> set cs \<subseteq> {newline})"

inductive cut_into :: "string \<Rightarrow> string list \<Rightarrow> bool" where
  cut_end: "cut_into [] []"
| cut_piece: "separator gap \<Longrightarrow> cut_into rest raws \<Longrightarrow> cut_into (raw @ gap @ rest) (raw # raws)"

lemma cut_last: "cut_into s [s]"
  using cut_piece [of "[]" "[]" "[]" s] cut_end by (simp add: separator_def)

lemma newlines_gap: "\<exists>nl. drop m s = nl @ drop (skipLeadingNewlines s m) s \<and> set nl \<subseteq> {newline}"
proof -
  have "\<exists>nl. t = nl @ drop (skip_newlines t) t \<and> set nl \<subseteq> {newline}" for t
  proof (induction t)
    case (Cons c t)
    then obtain nl where nl: "t = nl @ drop (skip_newlines t) t" "set nl \<subseteq> {newline}" by blast
    show ?case
    proof (cases "c = newline")
      case True
      then show ?thesis using nl by (intro exI [of _ "newline # nl"]) simp
    qed simp
  qed simp
  from this [of "drop m s"] show ?thesis by (simp add: skipLeadingNewlines_def add.commute)
qed

lemma space_gap: "\<exists>g. drop b s = g @ drop (skip_space s b) s \<and> (g = [] \<or> (\<exists>c. g = [c] \<and> js_is_space c))" if "b \<le> length s"
proof (cases "space_at s b")
  case True
  then have "drop b s = [s ! b] @ drop (Suc b) s" and "js_is_space (s ! b)" and "skip_space s b = Suc b"
    by (auto simp: space_at_def Cons_nth_drop_Suc skip_space_def)
  then show ?thesis by auto
next
  case False
  then show ?thesis using that by (simp add: skip_space_def)
qed

lemma cut_step:
  assumes "start < b" and "b \<le> length s" and "n = skip_space s b \<or> n = skipLeadingNewlines s (skip_space s b)"
    and "cut_into (drop n s) raws"
  shows "cut_into (drop start s) (take (b - start) (drop start s) # raws)"
proof -
  obtain g where g: "drop b s = g @ drop (skip_space s b) s" "g = [] \<or> (\<exists>c. g = [c] \<and> js_is_space c)"
    using space_gap [OF assms(2)] by blast
  obtain nl where nl: "drop (skip_space s b) s = nl @ drop n s" "set nl \<subseteq> {newline}"
    using assms(3) newlines_gap [of "skip_space s b" s] by (elim disjE) auto
  have "separator (g @ nl)" using g(2) nl(2) by (cases nl) (auto simp: separator_def)
  moreover have "drop start s = take (b - start) (drop start s) @ drop b s"
    using assms(1) by (metis append_take_drop_id drop_drop le_add_diff_inverse2 less_imp_le)
  ultimately show ?thesis using cut_piece [OF _ assms(4), of "g @ nl" "take (b - start) (drop start s)"] g(1) nl(1) by simp
qed

lemma markdown_loop_step:
  assumes "start < length s" and "\<not> length s - start \<le> max 1 (limit - length (reopen_prefix r))"
    and "markdown_break s spans start (max 1 (limit - length (reopen_prefix r))) = (b, fence)" and "start < b"
  shows "markdown_loop s spans limit start r = (case fence of
      Some f \<Rightarrow> (reopen_prefix r, take (b - start) (drop start s),
          if last (reopen_prefix r @ take (b - start) (drop start s)) = newline then fence_close f else newline # fence_close f)
        # markdown_loop s spans limit (skip_space s b) (Some f)
    | None \<Rightarrow> (reopen_prefix r, take (b - start) (drop start s), [])
        # markdown_loop s spans limit (skipLeadingNewlines s (skip_space s b)) None)"
  using assms
  by (subst markdown_loop.simps) (simp add: Let_def)

lemma markdown_loop_spec:
  assumes "r = None \<or> (\<exists>f\<in>set spans. r = Some f)" and "0 < limit"
  shows "content (concat (map piece_raw (markdown_loop s spans limit start r))) = content (drop start s) \<and>
    list_all (piece_ok spans limit) (markdown_loop s spans limit start r) \<and>
    cut_into (drop start s) (map piece_raw (markdown_loop s spans limit start r))"
  using assms(1)
proof (induction "length s - start" arbitrary: start r rule: less_induct)
  case less
  define prefix where "prefix = reopen_prefix r"
  define cl where "cl = max 1 (limit - length prefix)"
  have pre: "prefix = [] \<or> (\<exists>f\<in>set spans. prefix = fs_openLine f @ [newline])"
    using less.prems by (auto simp: prefix_def reopen_prefix_def)
  have cl: "0 < cl" "length prefix + cl \<le> max limit (length prefix + 1)" using assms(2) by (auto simp: cl_def)
  show ?case
  proof (cases "start < length s")
    case False
    then have "markdown_loop s spans limit start r = []" by (subst markdown_loop.simps) simp
    then show ?thesis using False by (simp add: cut_end)
  next
    case True
    show ?thesis
    proof (cases "length s - start \<le> cl")
      case True': True
      have "markdown_loop s spans limit start r = [(prefix, drop start s, [])]"
        using True True' by (subst markdown_loop.simps) (simp add: Let_def prefix_def cl_def)
      then show ?thesis using True True' pre cl by (simp add: piece_ok_def piece_raw_def cut_last)
    next
      case False
      obtain b fence where mb: "markdown_break s spans start cl = (b, fence)" by fastforce
      have room: "start + cl < length s" using True False by simp
      have b: "start < b" "b \<le> start + cl" "b < length s"
        using markdown_break_range [of start s cl spans] True room cl(1) mb by simp_all
      have fence: "f \<in> set spans" if "fence = Some f" for f
        using markdown_break_fence [of s spans start cl f] mb that by simp
      let ?raw = "take (b - start) (drop start s)"
      have raw: "content ?raw @ content (drop b s) = content (drop start s)"
        using content_split [of "b - start" "drop start s"] b by simp
      have ok: "?raw \<noteq> [] \<and> length prefix + length ?raw \<le> max limit (length prefix + 1)"
        using b cl by auto
      note step = markdown_loop_step [of start s limit r spans b fence, folded prefix_def, folded cl_def, OF True False mb b(1)]
      show ?thesis
      proof (cases fence)
        case None
        let ?n = "skipLeadingNewlines s (skip_space s b)"
        have "start < ?n" using b skip_space_ge [of b s] by (simp add: skipLeadingNewlines_def)
        then have "content (concat (map piece_raw (markdown_loop s spans limit ?n None))) = content (drop ?n s) \<and>
            list_all (piece_ok spans limit) (markdown_loop s spans limit ?n None) \<and>
            cut_into (drop ?n s) (map piece_raw (markdown_loop s spans limit ?n None))"
          by (intro less.hyps) (use True in auto)
        then show ?thesis using step None raw ok pre cut_step [OF b(1) less_imp_le [OF b(3)], of ?n]
          by (simp add: piece_ok_def piece_raw_def content_skip_leading content_skip_space)
      next
        case (Some f)
        let ?n = "skip_space s b"
        have "start < ?n" using b skip_space_ge [of b s] by simp
        then have "content (concat (map piece_raw (markdown_loop s spans limit ?n (Some f)))) = content (drop ?n s) \<and>
            list_all (piece_ok spans limit) (markdown_loop s spans limit ?n (Some f)) \<and>
            cut_into (drop ?n s) (map piece_raw (markdown_loop s spans limit ?n (Some f)))"
          by (intro less.hyps) (use True fence [OF Some] in auto)
        then show ?thesis using step Some raw ok pre fence [OF Some] cut_step [OF b(1) less_imp_le [OF b(3)], of ?n]
          by (auto simp: piece_ok_def piece_raw_def content_skip_space)
      qed
    qed
  qed
qed

text \<open>The pieces of a text, also when it is short enough to be one.\<close>

definition markdown_pieces :: "string \<Rightarrow> int \<Rightarrow> (string \<times> string \<times> string) list" where
  "markdown_pieces s limit =
     (case resolveChunkEarlyReturn s limit of
        Some early \<Rightarrow> map (\<lambda>c. ([], c, [])) early
      | None \<Rightarrow> markdown_loop s (parseFenceSpans s) (nat limit) 0 None)"

lemma markdown_chunks_pieces: "chunkMarkdownText s limit = map markdown_chunk (markdown_pieces s limit)"
  by (simp add: chunkMarkdownText_def markdown_pieces_def markdown_chunk_def comp_def split: option.split)

lemma markdown_pieces_spec:
  assumes "0 < limit"
  shows "content (concat (map piece_raw (markdown_pieces s limit))) = content s \<and>
    list_all (piece_ok (parseFenceSpans s) (nat limit)) (markdown_pieces s limit) \<and>
    cut_into s (map piece_raw (markdown_pieces s limit))"
  using markdown_loop_spec [of None "parseFenceSpans s" "nat limit" s 0] assms
  by (auto simp: markdown_pieces_def resolveChunkEarlyReturn_def piece_raw_def piece_ok_def le_nat_iff cut_end cut_last)

subsection \<open>Where the limit does not hold\<close>

text \<open>
  A text with an open parenthesis before a code block that starts near the limit: the parenthesis
  hides the newlines as break points, the block is cut, and the closing line goes past the limit.
  The code means to give up closing the block there, but the line that follows sets \<open>fenceToSplit\<close>
  again.
\<close>

definition overshoot_text :: string where
  "overshoot_text = ''(aaaaaaaaa'' @ [newline] @ ''```'' @ [newline] @ ''bbbb'' @ [newline] @ ''```''"

lemma markdown_overshoots:
  "map length (chunkMarkdownText overshoot_text 16) = [20, 11]"
  by code_simp

text \<open>With carriage returns at the line ends a code block is not recognised at all.\<close>

lemma carriage_return_hides_fence:
  "parseFenceSpans (''```'' @ [newline] @ ''x'' @ [newline] @ ''```'') \<noteq> [] \<and>
   parseFenceSpans (''```'' @ [return_char, newline] @ ''x'' @ [return_char, newline] @ ''```'' @ [return_char, newline]) = []"
  by code_simp

text \<open>Blank lines at the end make the last chunk of \<open>chunkByNewline\<close> longer than a line may be.\<close>

lemma trailing_newlines_overshoot:
  "map length (chunkByNewline (''abc'' @ newlines 5) 4 True True (\<lambda>_. True)) = [8]"
  by code_simp

subsection \<open>Properties\<close>

text \<open>Splitting a text loses nothing and keeps the limit. In both modes, whatever the limit, the
  characters that are not white space come out in order; and for a positive limit every chunk is
  non-empty and no longer than the limit.\<close>

theorem text_chunks_faithful:
  shows "content (concat (chunkTextWithMode s limit mode)) = content s \<and>
    (0 < limit \<longrightarrow> (\<forall>c\<in>set (chunkTextWithMode s limit mode). c \<noteq> [] \<and> int (length c) \<le> limit))"
  using text_chunks [where s = s and limit = limit] paragraph_content paragraph_bounded
  by (cases mode) (auto simp: chunkTextWithMode_def bounded_chunks_def)

theorem text_chunks_faithful_witness:
  "list_all (\<lambda>c. c \<noteq> [] \<and> int (length c) \<le> 5) (chunkTextWithMode ''one two three'' 5 ChunkLength)"
  using text_chunks_faithful [of "''one two three''" 5 ChunkLength] by (simp add: list_all_iff)

text \<open>C33: The Markdown chunker cuts the text and only adds fence lines. For a positive limit every chunk
  is a piece of the text, with the opening line of a code block of the text in front or nothing, and a
  closing line behind or nothing. The pieces are consecutive: they stand in the text one after the
  other, and what is dropped behind a piece is at most one character of white space and the newlines
  that follow it, so that every character that is not white space is in a piece. Without its closing
  line a chunk keeps the limit, or reopens a block whose opening line fills it and has one more
  character; in a text without code blocks every chunk keeps the limit.\<close>

theorem markdown_chunks_faithful:
  assumes "0 < limit"
  shows "\<exists>pieces. chunkMarkdownText s limit = map markdown_chunk pieces \<and>
    cut_into s (map piece_raw pieces) \<and>
    content (concat (map piece_raw pieces)) = content s \<and>
    list_all (piece_ok (parseFenceSpans s) (nat limit)) pieces \<and>
    (parseFenceSpans s = [] \<longrightarrow> (\<forall>c\<in>set (chunkMarkdownText s limit). int (length c) \<le> limit))"
proof (intro exI conjI impI)
  show "chunkMarkdownText s limit = map markdown_chunk (markdown_pieces s limit)"
    by (rule markdown_chunks_pieces)
  show "content (concat (map piece_raw (markdown_pieces s limit))) = content s"
    "list_all (piece_ok (parseFenceSpans s) (nat limit)) (markdown_pieces s limit)"
    "cut_into s (map piece_raw (markdown_pieces s limit))"
    using markdown_pieces_spec [OF assms] by simp_all
  then show "\<forall>c\<in>set (chunkMarkdownText s limit). int (length c) \<le> limit" if "parseFenceSpans s = []"
    using that assms by (auto simp: markdown_chunks_pieces list_all_iff piece_ok_def markdown_chunk_def le_nat_iff)
qed

theorem markdown_chunks_faithful_witness:
  "\<exists>pieces. chunkMarkdownText overshoot_text 16 = map markdown_chunk pieces \<and> cut_into overshoot_text (map piece_raw pieces) \<and>
    content (concat (map piece_raw pieces)) = content overshoot_text"
  using markdown_chunks_faithful [of 16 overshoot_text] by auto

end
