(* ===== verification/PairingFiles.thy ===== *)
theory PairingFiles
  imports GatewayNet
begin

section \<open>Pending pairing requests\<close>

text \<open>
  Models \<^verbatim>\<open>src/infra/pairing-files.ts\<close>, \<^verbatim>\<open>pairing-pending.ts\<close> and \<^verbatim>\<open>pairing-token.ts\<close>, which the
  stores of devices and of nodes share: pending requests expire, a second request of the same
  subject refreshes or replaces the first, a rejected one is dropped, tokens are compared in
  constant time. A JSON object is a map in insertion order (the keys are random identifiers, none
  of which reads as an array index, and none is a key of \<open>Object.prototype\<close>); a file is the map it
  holds, and the lock makes every operation one step. The random bytes of a new token and a new
  request id are arguments. The locale \<open>pending_store\<close> is what a store must say of its requests to
  have at most one per subject.
\<close>

named_theorems pairing_simps \<open>rewrite rules of the pairing stores\<close>

definition pruneExpiredPending :: "('p \<Rightarrow> int) \<Rightarrow> (string, 'p) js_map \<Rightarrow> int \<Rightarrow> int \<Rightarrow> (string, 'p) js_map" where
  "pruneExpiredPending ts pendingById nowMs ttlMs = filter (\<lambda>(i, req). \<not> nowMs - ts req > ttlMs) pendingById"

definition reconcilePendingPairingRequests ::
  "('p \<Rightarrow> string) \<Rightarrow> (string, 'p) js_map \<Rightarrow> 'p list \<Rightarrow> 'i \<Rightarrow> ('p \<Rightarrow> 'i \<Rightarrow> bool) \<Rightarrow> ('p \<Rightarrow> 'i \<Rightarrow> 'p) \<Rightarrow>
   ('p list \<Rightarrow> 'i \<Rightarrow> 'p) \<Rightarrow> ('p \<times> bool) \<times> (string, 'p) js_map" where
  "reconcilePendingPairingRequests requestId pendingById existing incoming canRefreshSingle refreshSingle buildReplacement =
     (if length existing = 1 \<and> canRefreshSingle (hd existing) incoming then
        let refreshed = refreshSingle (hd existing) incoming
        in ((refreshed, False), map_set pendingById (requestId refreshed) refreshed)
      else
        let kept = fold (\<lambda>e m. map_delete m (requestId e)) existing pendingById;
            request = buildReplacement existing incoming
        in ((request, True), map_set kept (requestId request) request))"

definition rejectPendingPairingRequest ::
  "('p \<Rightarrow> string) \<Rightarrow> string \<Rightarrow> (string, 'p) js_map \<Rightarrow> (string \<times> string) option \<times> (string, 'p) js_map" where
  "rejectPendingPairingRequest getId requestId pendingById =
     (case map_get pendingById requestId of
        None \<Rightarrow> (None, pendingById)
      | Some pending \<Rightarrow> (Some (requestId, getId pending), map_delete pendingById requestId))"

definition verifyPairingToken :: "string \<Rightarrow> string \<Rightarrow> bool" where
  "verifyPairingToken provided expected =
     (if length (js_trim provided) = 0 \<or> length (js_trim expected) = 0 then False
      else safeEqualSecret (Some provided) (Some expected))"

lemma verify_pairing_token [pairing_simps]:
  "verifyPairingToken provided expected \<longleftrightarrow> js_trim provided \<noteq> [] \<and> provided = expected"
  by (auto simp: verifyPairingToken_def)

lemma prune_get:
  "wf_map m \<Longrightarrow> map_get (pruneExpiredPending ts m now ttl) k =
    (case map_get m k of None \<Rightarrow> None | Some p \<Rightarrow> if now - ts p > ttl then None else Some p)"
  unfolding pruneExpiredPending_def
  by (induction m) (auto simp: map_get_def wf_map_def map_of_eq_None_iff split: option.split)

lemma prune_wf [simp]: "wf_map m \<Longrightarrow> wf_map (pruneExpiredPending ts m now ttl)"
  unfolding pruneExpiredPending_def wf_map_def by (induction m) auto

lemma prune_subset: "set (pruneExpiredPending ts m now ttl) \<subseteq> set m"
  by (auto simp: pruneExpiredPending_def)

lemma fold_delete_wf [simp]: "wf_map m \<Longrightarrow> wf_map (fold (\<lambda>e m. map_delete m (f e)) es m)"
  by (induction es arbitrary: m) auto

lemma fold_delete_set: "set (fold (\<lambda>e m. map_delete m (f e)) es m) = {p \<in> set m. fst p \<notin> f ` set es}"
  by (induction es arbitrary: m) (auto simp: set_map_delete)

subsection \<open>At most one request per subject\<close>

text \<open>The requests of a well-formed store are filed under their id, and each subject has at most one.\<close>

definition one_pending :: "('p \<Rightarrow> string) \<Rightarrow> ('p \<Rightarrow> string) \<Rightarrow> (string, 'p) js_map \<Rightarrow> bool" where
  "one_pending requestId subject m \<longleftrightarrow> wf_map m \<and> (\<forall>(i, p)\<in>set m. i = requestId p) \<and>
     (\<forall>(i, p)\<in>set m. \<forall>(j, q)\<in>set m. subject p = subject q \<longrightarrow> i = j)"

lemma one_pending_sub:
  "one_pending requestId subject m \<Longrightarrow> set m' \<subseteq> set m \<Longrightarrow> wf_map m' \<Longrightarrow> one_pending requestId subject m'"
  unfolding one_pending_def by blast

lemma one_pending_prune [simp]:
  "one_pending requestId subject m \<Longrightarrow> one_pending requestId subject (pruneExpiredPending ts m now ttl)"
  by (rule one_pending_sub) (auto simp: pruneExpiredPending_def one_pending_def wf_map_def intro: distinct_map_filter)

lemma one_pending_delete [simp]:
  "one_pending requestId subject m \<Longrightarrow> one_pending requestId subject (map_delete m k)"
  by (rule one_pending_sub) (auto simp: set_map_delete one_pending_def)

lemma one_pending_reject [simp]:
  "one_pending requestId subject m \<Longrightarrow> one_pending requestId subject (snd (rejectPendingPairingRequest getId k m))"
  by (auto simp: rejectPendingPairingRequest_def split: option.split)

lemma one_pendingD:
  assumes "one_pending requestId subject m" and "(i, p) \<in> set m"
  shows "i = requestId p" and "(j, q) \<in> set m \<Longrightarrow> subject p = subject q \<Longrightarrow> i = j"
  using assms unfolding one_pending_def by blast+

lemma one_pending_set:
  assumes "one_pending requestId subject m"
    and "\<And>j q. (j, q) \<in> set m \<Longrightarrow> subject q = subject p \<Longrightarrow> j = requestId p"
  shows "one_pending requestId subject (map_set m (requestId p) p)"
proof -
  have wf: "wf_map m" using assms(1) by (simp add: one_pending_def)
  show ?thesis
    unfolding one_pending_def map_set_set [OF wf]
    using assms(2) one_pendingD [OF assms(1)] wf by (auto 0 3 simp: one_pending_def)
qed

locale pending_store =
  fixes requestId :: "'p \<Rightarrow> string"
    and subject :: "'p \<Rightarrow> string"
    and subject_of :: "'i \<Rightarrow> string"
    and refresh :: "'p \<Rightarrow> 'i \<Rightarrow> 'p"
    and build :: "'p list \<Rightarrow> 'i \<Rightarrow> 'p"
  assumes refresh_keeps: "requestId (refresh p i) = requestId p" "subject (refresh p i) = subject p"
    and build_subject: "subject (build ps i) = subject_of i"
begin

lemma reconcile_one:
  assumes m: "one_pending requestId subject m"
    and existing: "set existing = {p. \<exists>i. (i, p) \<in> set m \<and> subject p = subject_of x}"
  shows "one_pending requestId subject (snd (reconcilePendingPairingRequests requestId m existing x can refresh build))"
proof (cases "length existing = 1 \<and> can (hd existing) x")
  case True
  then obtain e where e: "existing = [e]" by (auto simp: length_Suc_conv)
  then obtain i where i: "(i, e) \<in> set m" "subject e = subject_of x" using existing by auto
  moreover have "i = requestId e" using i m unfolding one_pending_def by auto
  moreover have "j = requestId e" if "(j, q) \<in> set m" "subject q = subject_of x" for j q
    using m calculation that unfolding one_pending_def by (metis (mono_tags, lifting) case_prodD)
  ultimately have "one_pending requestId subject (map_set m (requestId (refresh e x)) (refresh e x))"
    by (intro one_pending_set [OF m]) (simp add: refresh_keeps)
  then show ?thesis using True e by (simp add: reconcilePendingPairingRequests_def Let_def)
next
  case False
  define kept where "kept = fold (\<lambda>e m. map_delete m (requestId e)) existing m"
  have kept: "wf_map kept" "set kept \<subseteq> set m" "\<forall>(i, p)\<in>set kept. subject p \<noteq> subject_of x"
    using m existing unfolding kept_def fold_delete_set one_pending_def by (auto intro!: fold_delete_wf)
  have "snd (reconcilePendingPairingRequests requestId m existing x can refresh build) =
      map_set kept (requestId (build existing x)) (build existing x)"
    using False by (auto simp: reconcilePendingPairingRequests_def kept_def Let_def)
  moreover have "one_pending requestId subject kept"
    using one_pending_sub [OF m kept(2,1)] .
  then have "one_pending requestId subject (map_set kept (requestId (build existing x)) (build existing x))"
    by (rule one_pending_set) (use kept(3) build_subject in fastforce)
  ultimately show ?thesis by simp
qed

lemma reconcile_subject:
  assumes "set existing = {p. \<exists>i. (i, p) \<in> set m \<and> subject p = subject_of x}"
  shows "subject (fst (fst (reconcilePendingPairingRequests requestId m existing x can refresh build))) = subject_of x"
proof -
  have "subject (hd existing) = subject_of x" if "length existing = 1"
    using assms that by (auto simp: length_Suc_conv)
  then show ?thesis
    by (simp add: reconcilePendingPairingRequests_def Let_def refresh_keeps build_subject)
qed

lemma reconcile_stored:
  "map_get (snd (reconcilePendingPairingRequests requestId m existing x can refresh build))
     (requestId (fst (fst (reconcilePendingPairingRequests requestId m existing x can refresh build)))) =
   Some (fst (fst (reconcilePendingPairingRequests requestId m existing x can refresh build)))"
  by (simp add: reconcilePendingPairingRequests_def Let_def)

end

end
