(* ===== verification/DeviceAuth.thy ===== *)
theory DeviceAuth
  imports GatewayScopes "HOL-Library.Char_ord" "HOL-Library.List_Lexorder"
begin

section \<open>Device roles, scopes and bootstrap profiles\<close>

text \<open>
  Models \<^verbatim>\<open>src/shared/device-auth.ts\<close> and \<^verbatim>\<open>src/shared/device-bootstrap-profile.ts\<close>: the trimmed,
  closed and sorted scopes of a device, and the roles and scopes a bootstrap token may hand over.
  A string array that may be missing is an option; \<open>toSorted()\<close> orders strings by code units.
\<close>

definition normalizeDeviceAuthRole :: "string \<Rightarrow> string" where
  "normalizeDeviceAuthRole role = js_trim role"

definition implied_scopes :: "string list \<Rightarrow> string list" where
  "implied_scopes out =
     (if ''operator.admin'' \<in> set out then set_add (set_add out ''operator.read'') ''operator.write''
      else if ''operator.write'' \<in> set out then set_add out ''operator.read''
      else out)"

definition normalizeDeviceAuthScopes :: "string list option \<Rightarrow> string list" where
  "normalizeDeviceAuthScopes scopes =
     (case scopes of
        None \<Rightarrow> []
      | Some xs \<Rightarrow> sort (implied_scopes (js_uniq (filter (\<lambda>s. s \<noteq> []) (map js_trim xs)))))"

record bootstrap_profile =
  bp_roles :: "string list"
  bp_scopes :: "string list"

record bootstrap_profile_input =
  bi_roles :: "string list option"
  bi_scopes :: "string list option"

definition BOOTSTRAP_HANDOFF_OPERATOR_SCOPES :: "string list" where
  "BOOTSTRAP_HANDOFF_OPERATOR_SCOPES =
     [''operator.approvals'', ''operator.read'', ''operator.talk.secrets'', ''operator.write'']"

definition PAIRING_SETUP_BOOTSTRAP_PROFILE :: bootstrap_profile where
  "PAIRING_SETUP_BOOTSTRAP_PROFILE =
     \<lparr>bp_roles = [''node'', ''operator''], bp_scopes = BOOTSTRAP_HANDOFF_OPERATOR_SCOPES\<rparr>"

definition resolveBootstrapProfileScopesForRole :: "string \<Rightarrow> string list \<Rightarrow> string list" where
  "resolveBootstrapProfileScopesForRole role scopes =
     (let normalizedScopes = normalizeDeviceAuthScopes (Some scopes)
      in if normalizeDeviceAuthRole role = ''operator'' then
           filter (\<lambda>s. s \<in> set BOOTSTRAP_HANDOFF_OPERATOR_SCOPES) normalizedScopes
         else [])"

definition resolveBootstrapProfileScopesForRoles :: "string list \<Rightarrow> string list \<Rightarrow> string list" where
  "resolveBootstrapProfileScopesForRoles roles scopes =
     normalizeDeviceAuthScopes
       (Some (concat (map (\<lambda>role. resolveBootstrapProfileScopesForRole role scopes) roles)))"

definition normalizeBootstrapRoles :: "string list option \<Rightarrow> string list" where
  "normalizeBootstrapRoles roles =
     (case roles of
        None \<Rightarrow> []
      | Some rs \<Rightarrow> sort (js_uniq (filter (\<lambda>r. r \<noteq> []) (map normalizeDeviceAuthRole rs))))"

definition normalizeDeviceBootstrapProfile :: "bootstrap_profile_input option \<Rightarrow> bootstrap_profile" where
  "normalizeDeviceBootstrapProfile input =
     \<lparr>bp_roles = normalizeBootstrapRoles (Option.bind input bi_roles),
      bp_scopes = normalizeDeviceAuthScopes (Some (nullish (Option.bind input bi_scopes) []))\<rparr>"

definition normalizeDeviceBootstrapHandoffProfile :: "bootstrap_profile_input option \<Rightarrow> bootstrap_profile" where
  "normalizeDeviceBootstrapHandoffProfile input =
     (let profile = normalizeDeviceBootstrapProfile input
      in \<lparr>bp_roles = bp_roles profile,
          bp_scopes = resolveBootstrapProfileScopesForRoles (bp_roles profile) (bp_scopes profile)\<rparr>)"

definition profile_input :: "bootstrap_profile \<Rightarrow> bootstrap_profile_input" where
  "profile_input p = \<lparr>bi_roles = Some (bp_roles p), bi_scopes = Some (bp_scopes p)\<rparr>"

subsection \<open>Facts\<close>

text \<open>The trimmed, non-empty members of a list.\<close>

definition tidy_set :: "string list \<Rightarrow> string set" where
  "tidy_set xs = {s. s \<noteq> [] \<and> s \<in> js_trim ` set xs}"

lemma tidy_set_simps [simp]:
  "tidy_set [] = {}" "tidy_set (xs @ ys) = tidy_set xs \<union> tidy_set ys"
  by (auto simp: tidy_set_def)

lemma tidy_set_tidy: "s \<in> tidy_set xs \<Longrightarrow> js_trim s = s \<and> s \<noteq> []"
  by (auto simp: tidy_set_def)

lemma set_implied: "set (implied_scopes out) = set out \<union>
    (if ''operator.admin'' \<in> set out then {''operator.read'', ''operator.write''}
     else if ''operator.write'' \<in> set out then {''operator.read''} else {})"
  by (auto simp: implied_scopes_def)

definition closed_scopes :: "string set \<Rightarrow> string set" where
  "closed_scopes S = S \<union> (if ''operator.admin'' \<in> S then {''operator.read'', ''operator.write''}
     else if ''operator.write'' \<in> S then {''operator.read''} else {})"

lemma set_device_scopes:
  "set (normalizeDeviceAuthScopes scopes) = closed_scopes (tidy_set (nullish scopes []))"
  by (auto simp: normalizeDeviceAuthScopes_def set_implied closed_scopes_def tidy_set_def nullish_def split: option.split)

lemma set_scope_list: "set (normalizeScopeList scopes) = tidy_set scopes"
  by (auto simp: normalizeScopeList_def tidy_set_def)

lemma device_scopes_tidy: "s \<in> set (normalizeDeviceAuthScopes scopes) \<Longrightarrow> js_trim s = s \<and> s \<noteq> []"
proof -
  have "js_trim ''operator.read'' = ''operator.read''" "js_trim ''operator.write'' = ''operator.write''" by code_simp+
  then show "s \<in> set (normalizeDeviceAuthScopes scopes) \<Longrightarrow> js_trim s = s \<and> s \<noteq> []"
    unfolding set_device_scopes closed_scopes_def by (auto dest: tidy_set_tidy split: if_splits)
qed

lemma tidy_set_device_scopes: "tidy_set (normalizeDeviceAuthScopes scopes) = set (normalizeDeviceAuthScopes scopes)"
  using device_scopes_tidy by (force simp: tidy_set_def image_iff)

lemma closed_scopes_idem [simp]: "closed_scopes (closed_scopes S) = closed_scopes S"
  by (auto simp: closed_scopes_def)

lemma handoff_role_scopes: "set (resolveBootstrapProfileScopesForRole role scopes) =
    (if normalizeDeviceAuthRole role = ''operator''
     then closed_scopes (tidy_set scopes) \<inter> set BOOTSTRAP_HANDOFF_OPERATOR_SCOPES else {})"
  by (auto simp: resolveBootstrapProfileScopesForRole_def set_device_scopes nullish_def)

lemma handoff_scopes_subset:
  "set (resolveBootstrapProfileScopesForRoles roles scopes) \<subseteq> set BOOTSTRAP_HANDOFF_OPERATOR_SCOPES"
proof -
  have "tidy_set (concat (map (\<lambda>role. resolveBootstrapProfileScopesForRole role scopes) roles))
      \<subseteq> set BOOTSTRAP_HANDOFF_OPERATOR_SCOPES"
  proof
    fix s assume "s \<in> tidy_set (concat (map (\<lambda>role. resolveBootstrapProfileScopesForRole role scopes) roles))"
    then obtain r t where "t \<in> set (resolveBootstrapProfileScopesForRole r scopes)" "s = js_trim t"
      by (auto simp: tidy_set_def)
    moreover from this have "js_trim t = t"
      using device_scopes_tidy [of t "Some scopes"]
      by (auto simp: resolveBootstrapProfileScopesForRole_def split: if_splits)
    ultimately show "s \<in> set BOOTSTRAP_HANDOFF_OPERATOR_SCOPES" by (auto simp: handoff_role_scopes split: if_splits)
  qed
  then show ?thesis
    unfolding resolveBootstrapProfileScopesForRoles_def set_device_scopes closed_scopes_def
    by (auto simp: nullish_def BOOTSTRAP_HANDOFF_OPERATOR_SCOPES_def)
qed

lemma closed_scopes_mono: "S \<subseteq> T \<Longrightarrow> closed_scopes S \<subseteq> closed_scopes T"
  by (auto simp: closed_scopes_def)

lemma handoff_scopes_closed:
  "set (resolveBootstrapProfileScopesForRoles roles scopes) \<subseteq> closed_scopes (tidy_set scopes)"
proof -
  let ?xs = "concat (map (\<lambda>role. resolveBootstrapProfileScopesForRole role scopes) roles)"
  have "tidy_set ?xs \<subseteq> closed_scopes (tidy_set scopes)"
  proof
    fix s assume "s \<in> tidy_set ?xs"
    then obtain r t where t: "t \<in> set (resolveBootstrapProfileScopesForRole r scopes)" "s = js_trim t"
      by (auto simp: tidy_set_def)
    then have "js_trim t = t"
      using device_scopes_tidy [of t "Some scopes"]
      by (auto simp: resolveBootstrapProfileScopesForRole_def split: if_splits)
    then show "s \<in> closed_scopes (tidy_set scopes)" using t by (auto simp: handoff_role_scopes split: if_splits)
  qed
  then have "closed_scopes (tidy_set ?xs) \<subseteq> closed_scopes (tidy_set scopes)"
    using closed_scopes_mono [of "tidy_set ?xs" "closed_scopes (tidy_set scopes)"] by simp
  then show ?thesis by (simp add: resolveBootstrapProfileScopesForRoles_def set_device_scopes nullish_def)
qed

end
