(* ===== verification/DevicePairing.thy ===== *)
theory DevicePairing
  imports PairingFiles DeviceAuth
begin

section \<open>The store of paired devices\<close>

text \<open>
  Models \<^verbatim>\<open>src/infra/device-pairing.ts\<close>. The store is its two files, the pending requests and the
  paired devices. Every operation loads the store at the time \<open>loadedAt\<close> (which drops the expired
  requests), and writes back the files it names; \<open>now\<close> is a later reading of the clock. New
  request ids, tokens and the clock readings of a loop over roles are arguments. The table of tokens
  of a device is keyed by the role.
\<close>

subsection \<open>Data\<close>

record device_request =
  dr_deviceId :: string
  dr_publicKey :: string
  dr_displayName :: "string option"
  dr_platform :: "string option"
  dr_deviceFamily :: "string option"
  dr_clientId :: "string option"
  dr_clientMode :: "string option"
  dr_role :: "string option"
  dr_roles :: "string list option"
  dr_scopes :: "string list option"
  dr_remoteIp :: "string option"
  dr_silent :: "bool option"

record pending_device = device_request +
  pd_requestId :: string
  pd_isRepair :: "bool option"
  pd_ts :: int

record device_token =
  dt_token :: string
  dt_role :: string
  dt_scopes :: "string list"
  dt_createdAtMs :: int
  dt_rotatedAtMs :: "int option"
  dt_revokedAtMs :: "int option"
  dt_lastUsedAtMs :: "int option"

type_synonym token_table = "(string, device_token) js_map"

record paired_device =
  pv_deviceId :: string
  pv_publicKey :: string
  pv_displayName :: "string option"
  pv_platform :: "string option"
  pv_deviceFamily :: "string option"
  pv_clientId :: "string option"
  pv_clientMode :: "string option"
  pv_role :: "string option"
  pv_roles :: "string list option"
  pv_scopes :: "string list option"
  pv_approvedScopes :: "string list option"
  pv_remoteIp :: "string option"
  pv_tokens :: "token_table option"
  pv_createdAtMs :: int
  pv_approvedAtMs :: int
  pv_lastSeenAtMs :: "int option"
  pv_lastSeenReason :: "string option"

record device_store =
  ds_pending :: "(string, pending_device) js_map"
  ds_paired :: "(string, paired_device) js_map"

datatype forbidden_reason = CallerScopesRequired | CallerMissingScope | ScopeOutsideRequestedRoles |
  BootstrapRoleNotAllowed | BootstrapScopeNotAllowed

record forbidden_result =
  fb_reason :: forbidden_reason
  fb_scope :: "string option"
  fb_role :: "string option"

datatype approve_result = ApproveUnknown | ApproveForbidden forbidden_result | ApproveDone string paired_device

datatype rotate_deny = UnknownDeviceOrRole | MissingApprovedScopeBaseline | ScopeOutsideApprovedBaseline |
  TokenCallerMissingScope

definition DEVICE_PENDING_TTL_MS :: int where
  "DEVICE_PENDING_TTL_MS = 5 * 60 * 1000"

definition formatDevicePairingForbiddenMessage :: "forbidden_result \<Rightarrow> string" where
  "formatDevicePairingForbiddenMessage result =
     (case fb_reason result of
        CallerScopesRequired \<Rightarrow> ''missing scope: '' @ nullish (fb_scope result) ''callerScopes-required''
      | CallerMissingScope \<Rightarrow> ''missing scope: '' @ nullish (fb_scope result) ''unknown''
      | ScopeOutsideRequestedRoles \<Rightarrow> ''invalid scope for requested roles: '' @ nullish (fb_scope result) ''unknown''
      | BootstrapRoleNotAllowed \<Rightarrow> ''bootstrap profile does not allow role: '' @ nullish (fb_role result) ''unknown''
      | BootstrapScopeNotAllowed \<Rightarrow> ''bootstrap profile does not allow scope: '' @ nullish (fb_scope result) ''unknown'')"

subsection \<open>Files\<close>

definition load_devices :: "int \<Rightarrow> device_store \<Rightarrow> device_store" where
  "load_devices loadedAt file = file\<lparr>ds_pending := pruneExpiredPending pd_ts (ds_pending file) loadedAt DEVICE_PENDING_TTL_MS\<rparr>"

datatype persist_target = PersistPending | PersistPaired | PersistBoth

definition persist_devices :: "persist_target \<Rightarrow> device_store \<Rightarrow> device_store \<Rightarrow> device_store" where
  "persist_devices target st file =
     (case target of
        PersistPending \<Rightarrow> file\<lparr>ds_pending := ds_pending st\<rparr>
      | PersistPaired \<Rightarrow> file\<lparr>ds_paired := ds_paired st\<rparr>
      | PersistBoth \<Rightarrow> st)"

subsection \<open>Roles and scopes\<close>

definition normalizeDeviceId :: "string \<Rightarrow> string" where
  "normalizeDeviceId deviceId = js_trim deviceId"

definition normalizeRole :: "string option \<Rightarrow> string option" where
  "normalizeRole role = truthy (map_option js_trim role)"

datatype role_item = OneRole string | ManyRoles "string list"

definition role_item_values :: "role_item option \<Rightarrow> string list" where
  "role_item_values item =
     (case item of
        None \<Rightarrow> []
      | Some (OneRole r) \<Rightarrow> filter (\<lambda>s. s \<noteq> []) [js_trim r]
      | Some (ManyRoles rs) \<Rightarrow> filter (\<lambda>s. s \<noteq> []) (map js_trim rs))"

definition mergeRoles :: "role_item option list \<Rightarrow> string list option" where
  "mergeRoles items =
     (let roles = js_uniq (concat (map role_item_values items))
      in if length roles = 0 then None else Some roles)"

abbreviation one_role :: "string option \<Rightarrow> role_item option" where
  "one_role \<equiv> map_option OneRole"

abbreviation many_roles :: "string list option \<Rightarrow> role_item option" where
  "many_roles \<equiv> map_option ManyRoles"

definition token_revoked :: "device_token \<Rightarrow> bool" where
  "token_revoked entry = (case dt_revokedAtMs entry of None \<Rightarrow> False | Some t \<Rightarrow> t \<noteq> 0)"

definition listActiveTokenRoles :: "token_table option \<Rightarrow> string list option" where
  "listActiveTokenRoles tokens =
     (case tokens of
        None \<Rightarrow> None
      | Some t \<Rightarrow> mergeRoles [Some (ManyRoles (map dt_role (filter (\<lambda>e. \<not> token_revoked e) (map snd t))))])"

definition listApprovedPairedDeviceRoles :: "paired_device \<Rightarrow> string list" where
  "listApprovedPairedDeviceRoles device = nullish (mergeRoles [many_roles (pv_roles device), one_role (pv_role device)]) []"

definition listEffectivePairedDeviceRoles :: "paired_device \<Rightarrow> string list" where
  "listEffectivePairedDeviceRoles device =
     (let activeTokenRoles = nullish (listActiveTokenRoles (pv_tokens device)) []
      in if length activeTokenRoles > 0 then
           filter (\<lambda>role. role \<in> set (listApprovedPairedDeviceRoles device)) activeTokenRoles
         else [])"

definition hasEffectivePairedDeviceRole :: "paired_device \<Rightarrow> string \<Rightarrow> bool" where
  "hasEffectivePairedDeviceRole device role =
     (case normalizeRole (Some role) of
        None \<Rightarrow> False
      | Some normalized \<Rightarrow> normalized \<in> set (listEffectivePairedDeviceRoles device))"

definition mergeScopes :: "string list option list \<Rightarrow> string list option" where
  "mergeScopes items =
     (let scopes = js_uniq (filter (\<lambda>s. s \<noteq> []) (map js_trim (concat (map (\<lambda>i. nullish i []) items))))
      in if length scopes = 0 then (if list_ex (\<lambda>i. i \<noteq> None) items then Some [] else None)
         else Some scopes)"

definition sameStringSet :: "string list \<Rightarrow> string list \<Rightarrow> bool" where
  "sameStringSet left right = (length left = length right \<and> list_all (\<lambda>v. v \<in> set right) left)"

definition resolveRequestedRoles :: "'a device_request_scheme \<Rightarrow> string list" where
  "resolveRequestedRoles input = nullish (mergeRoles [many_roles (dr_roles input), one_role (dr_role input)]) []"

definition resolveRequestedScopes :: "'a device_request_scheme \<Rightarrow> string list" where
  "resolveRequestedScopes input = normalizeDeviceAuthScopes (dr_scopes input)"

subsection \<open>Pending requests\<close>

definition samePendingApprovalSnapshot :: "pending_device \<Rightarrow> device_request \<Rightarrow> bool" where
  "samePendingApprovalSnapshot existing incoming =
     (dr_publicKey existing = dr_publicKey incoming \<and>
      normalizeRole (dr_role existing) = normalizeRole (dr_role incoming) \<and>
      sameStringSet (resolveRequestedRoles existing) (resolveRequestedRoles incoming) \<and>
      sameStringSet (resolveRequestedScopes existing) (resolveRequestedScopes incoming))"

definition refreshPendingDevicePairingRequest :: "bool \<Rightarrow> pending_device \<Rightarrow> device_request \<Rightarrow> pending_device" where
  "refreshPendingDevicePairingRequest isRepair existing incoming =
     existing\<lparr>dr_publicKey := dr_publicKey incoming,
       dr_displayName := nullish_opt (dr_displayName incoming) (dr_displayName existing),
       dr_platform := nullish_opt (dr_platform incoming) (dr_platform existing),
       dr_deviceFamily := nullish_opt (dr_deviceFamily incoming) (dr_deviceFamily existing),
       dr_clientId := nullish_opt (dr_clientId incoming) (dr_clientId existing),
       dr_clientMode := nullish_opt (dr_clientMode incoming) (dr_clientMode existing),
       dr_remoteIp := nullish_opt (dr_remoteIp incoming) (dr_remoteIp existing),
       dr_silent := Some (dr_silent existing = Some True \<and> dr_silent incoming = Some True),
       pd_isRepair := Some (pd_isRepair existing = Some True \<or> isRepair),
       pd_ts := pd_ts existing\<rparr>"

definition resolveSupersededPendingSilent :: "pending_device list \<Rightarrow> bool option \<Rightarrow> bool" where
  "resolveSupersededPendingSilent existing incomingSilent =
     (incomingSilent = Some True \<and> list_all (\<lambda>p. dr_silent p = Some True) existing)"

definition buildPendingDevicePairingRequest ::
  "string \<Rightarrow> string \<Rightarrow> bool \<Rightarrow> device_request \<Rightarrow> int \<Rightarrow> pending_device" where
  "buildPendingDevicePairingRequest requestId deviceId isRepair req now =
     (let role = normalizeRole (dr_role req)
      in \<lparr>dr_deviceId = deviceId, dr_publicKey = dr_publicKey req, dr_displayName = dr_displayName req,
          dr_platform = dr_platform req, dr_deviceFamily = dr_deviceFamily req, dr_clientId = dr_clientId req,
          dr_clientMode = dr_clientMode req, dr_role = role,
          dr_roles = mergeRoles [many_roles (dr_roles req), one_role role],
          dr_scopes = mergeScopes [dr_scopes req], dr_remoteIp = dr_remoteIp req, dr_silent = dr_silent req,
          pd_requestId = requestId, pd_isRepair = Some isRepair, pd_ts = now\<rparr>)"

definition replacement_request ::
  "string \<Rightarrow> string \<Rightarrow> bool \<Rightarrow> int \<Rightarrow> pending_device list \<Rightarrow> device_request \<Rightarrow> pending_device" where
  "replacement_request requestId deviceId isRepair now existing incoming =
     (let latestRole = (case existing of [] \<Rightarrow> None | latest # _ \<Rightarrow> dr_role latest);
          mergedRoles = mergeRoles
            (concat (map (\<lambda>p. [many_roles (dr_roles p), one_role (dr_role p)]) existing) @
             [many_roles (dr_roles incoming), one_role (dr_role incoming)]);
          mergedScopes = mergeScopes (map dr_scopes existing @ [dr_scopes incoming])
      in buildPendingDevicePairingRequest requestId deviceId isRepair
           (incoming\<lparr>dr_role := nullish_opt (normalizeRole (dr_role incoming)) latestRole,
              dr_roles := mergedRoles, dr_scopes := mergedScopes,
              dr_silent := Some (resolveSupersededPendingSilent existing (dr_silent incoming))\<rparr>) now)"

definition pending_of_device :: "string \<Rightarrow> (string, pending_device) js_map \<Rightarrow> pending_device list" where
  "pending_of_device deviceId pendingById =
     sort_by (\<lambda>l r. pd_ts r - pd_ts l) (filter (\<lambda>p. dr_deviceId p = deviceId) (map snd pendingById))"

definition requestDevicePairing ::
  "device_request \<Rightarrow> string \<Rightarrow> int \<Rightarrow> int \<Rightarrow> device_store \<Rightarrow> (string + pending_device \<times> bool) \<times> device_store" where
  "requestDevicePairing req freshId loadedAt now file =
     (let st = load_devices loadedAt file; deviceId = normalizeDeviceId (dr_deviceId req)
      in if deviceId = [] then (Inl ''deviceId required'', file)
         else
           let isRepair = (map_get (ds_paired st) deviceId \<noteq> None);
               (result, pendingById) = reconcilePendingPairingRequests pd_requestId (ds_pending st)
                 (pending_of_device deviceId (ds_pending st)) req samePendingApprovalSnapshot
                 (refreshPendingDevicePairingRequest isRepair)
                 (replacement_request freshId deviceId isRepair now)
           in (Inr result, persist_devices PersistPending (st\<lparr>ds_pending := pendingById\<rparr>) file))"

subsection \<open>Tokens\<close>

definition getPairedDeviceFromState :: "device_store \<Rightarrow> string \<Rightarrow> paired_device option" where
  "getPairedDeviceFromState st deviceId = map_get (ds_paired st) (normalizeDeviceId deviceId)"

definition cloneDeviceTokens :: "paired_device \<Rightarrow> token_table" where
  "cloneDeviceTokens device = nullish (pv_tokens device) []"

definition buildDeviceAuthToken ::
  "string \<Rightarrow> string \<Rightarrow> string list \<Rightarrow> device_token option \<Rightarrow> int \<Rightarrow> int option \<Rightarrow> device_token" where
  "buildDeviceAuthToken freshToken role scopes existing now rotatedAtMs =
     \<lparr>dt_token = freshToken, dt_role = role, dt_scopes = scopes,
      dt_createdAtMs = nullish (map_option dt_createdAtMs existing) now, dt_rotatedAtMs = rotatedAtMs,
      dt_revokedAtMs = None, dt_lastUsedAtMs = Option.bind existing dt_lastUsedAtMs\<rparr>"

definition resolveRoleScopedDeviceTokenScopes :: "string \<Rightarrow> string list option \<Rightarrow> string list" where
  "resolveRoleScopedDeviceTokenScopes role scopes =
     (let normalized = normalizeDeviceAuthScopes scopes
      in if role = ''operator'' then filter (\<lambda>s. starts_with s OPERATOR_SCOPE_PREFIX) normalized
         else filter (\<lambda>s. \<not> starts_with s OPERATOR_SCOPE_PREFIX) normalized)"

definition device_baseline :: "paired_device option \<Rightarrow> string list option" where
  "device_baseline existing = nullish_opt (Option.bind existing pv_approvedScopes) (Option.bind existing pv_scopes)"

definition resolveApprovedTokenScopes ::
  "string \<Rightarrow> pending_device \<Rightarrow> device_token option \<Rightarrow> string list option \<Rightarrow> paired_device option \<Rightarrow> string list" where
  "resolveApprovedTokenScopes role pending existingToken approvedScopes existing =
     (let pendingScopes = resolveRoleScopedDeviceTokenScopes role (dr_scopes pending)
      in if length pendingScopes > 0 then
           let approvedBaseline = resolveRoleScopedDeviceTokenScopes role (device_baseline existing);
               requestedScopeDelta =
                 (if existingToken \<noteq> None \<and> length approvedBaseline > 0
                  then filter (\<lambda>s. s \<notin> set approvedBaseline) pendingScopes else pendingScopes)
           in (case existingToken of
                 Some t \<Rightarrow> if length requestedScopeDelta = 0
                   then resolveRoleScopedDeviceTokenScopes role (Some (dt_scopes t))
                   else resolveRoleScopedDeviceTokenScopes role
                     (mergeScopes [Some (dt_scopes t), Some requestedScopeDelta])
               | None \<Rightarrow> resolveRoleScopedDeviceTokenScopes role (mergeScopes [None, Some requestedScopeDelta]))
         else resolveRoleScopedDeviceTokenScopes role
           (nullish_opt (map_option dt_scopes existingToken) (nullish_opt approvedScopes (device_baseline existing))))"

definition resolveApprovedDeviceScopeBaseline :: "paired_device \<Rightarrow> string list option" where
  "resolveApprovedDeviceScopeBaseline device =
     map_option (\<lambda>b. normalizeDeviceAuthScopes (Some b)) (device_baseline (Some device))"

definition scopesWithinApprovedDeviceBaseline :: "string \<Rightarrow> string list \<Rightarrow> string list option \<Rightarrow> bool" where
  "scopesWithinApprovedDeviceBaseline role scopes approvedScopes =
     (case approvedScopes of None \<Rightarrow> False | Some allowed \<Rightarrow> roleScopesAllow role scopes allowed)"

subsection \<open>Approval\<close>

text \<open>The scopes of the next token of each requested role, or the reason the caller may not grant them.\<close>

fun next_token_scopes ::
  "string list option \<Rightarrow> pending_device \<Rightarrow> token_table \<Rightarrow> string list option \<Rightarrow> paired_device option \<Rightarrow>
   string list \<Rightarrow> (string, string list) js_map \<Rightarrow> forbidden_result + (string, string list) js_map" where
  "next_token_scopes callerScopes pending tokens approvedScopes existing [] acc = Inr acc"
| "next_token_scopes callerScopes pending tokens approvedScopes existing (role # roles) acc =
     (let nextScopes = resolveApprovedTokenScopes role pending (map_get tokens role) approvedScopes existing;
          rest = next_token_scopes callerScopes pending tokens approvedScopes existing roles (map_set acc role nextScopes)
      in if role = OPERATOR_ROLE \<and> length nextScopes > 0 then
           let callerRequiredScopes = nullish
                 (mergeScopes [Some (resolveRoleScopedDeviceTokenScopes role (dr_scopes pending)), Some nextScopes])
                 nextScopes
           in (case callerScopes of
                 None \<Rightarrow> Inl \<lparr>fb_reason = CallerScopesRequired, fb_scope = Some (hd callerRequiredScopes), fb_role = None\<rparr>
               | Some allowed \<Rightarrow>
                   (case resolveMissingRequestedScope OPERATOR_ROLE callerRequiredScopes allowed of
                      Some missing \<Rightarrow> Inl \<lparr>fb_reason = CallerMissingScope, fb_scope = Some missing, fb_role = None\<rparr>
                    | None \<Rightarrow> rest))
         else rest)"

definition issue_token ::
  "(string \<Rightarrow> string) \<Rightarrow> (string \<Rightarrow> int) \<Rightarrow> string \<times> string list \<Rightarrow> token_table \<Rightarrow> token_table" where
  "issue_token freshToken tokenNow p tokens =
     (let role = fst p; existingToken = map_get tokens role
      in map_set tokens role
           \<lparr>dt_token = freshToken role, dt_role = role, dt_scopes = snd p,
            dt_createdAtMs = nullish (map_option dt_createdAtMs existingToken) (tokenNow role),
            dt_rotatedAtMs = (if existingToken \<noteq> None then Some (tokenNow role) else None), dt_revokedAtMs = None,
            dt_lastUsedAtMs = Option.bind existingToken dt_lastUsedAtMs\<rparr>)"

definition approved_device ::
  "pending_device \<Rightarrow> paired_device option \<Rightarrow> string list option \<Rightarrow> string list option \<Rightarrow> token_table \<Rightarrow> int \<Rightarrow> paired_device" where
  "approved_device pending existing roles approvedScopes tokens now =
     \<lparr>pv_deviceId = dr_deviceId pending, pv_publicKey = dr_publicKey pending, pv_displayName = dr_displayName pending,
      pv_platform = dr_platform pending, pv_deviceFamily = dr_deviceFamily pending, pv_clientId = dr_clientId pending,
      pv_clientMode = dr_clientMode pending, pv_role = dr_role pending, pv_roles = roles, pv_scopes = approvedScopes,
      pv_approvedScopes = approvedScopes, pv_remoteIp = dr_remoteIp pending, pv_tokens = Some tokens,
      pv_createdAtMs = nullish (map_option pv_createdAtMs existing) now, pv_approvedAtMs = now,
      pv_lastSeenAtMs = None, pv_lastSeenReason = None\<rparr>"

definition store_approved :: "string \<Rightarrow> paired_device \<Rightarrow> device_store \<Rightarrow> device_store" where
  "store_approved requestId device st =
     st\<lparr>ds_pending := map_delete (ds_pending st) requestId,
        ds_paired := map_set (ds_paired st) (pv_deviceId device) device\<rparr>"

definition approveDevicePairing ::
  "string \<Rightarrow> string list option \<Rightarrow> (string \<Rightarrow> string) \<Rightarrow> (string \<Rightarrow> int) \<Rightarrow> int \<Rightarrow> int \<Rightarrow> device_store \<Rightarrow>
   approve_result \<times> device_store" where
  "approveDevicePairing requestId callerScopes freshToken tokenNow loadedAt now file =
     (let st = load_devices loadedAt file in
      case map_get (ds_pending st) requestId of
        None \<Rightarrow> (ApproveUnknown, file)
      | Some pending \<Rightarrow>
          (let requestedRoles = nullish (mergeRoles [many_roles (dr_roles pending), one_role (dr_role pending)]) [];
               requestedScopes = normalizeDeviceAuthScopes (dr_scopes pending)
           in case resolveScopeOutsideRequestedRoles requestedRoles requestedScopes of
                Some mismatch \<Rightarrow>
                  (ApproveForbidden \<lparr>fb_reason = ScopeOutsideRequestedRoles, fb_scope = Some mismatch, fb_role = None\<rparr>, file)
              | None \<Rightarrow>
                  (let existing = map_get (ds_paired st) (dr_deviceId pending);
                       roles = mergeRoles [many_roles (Option.bind existing pv_roles), one_role (Option.bind existing pv_role),
                         many_roles (dr_roles pending), one_role (dr_role pending)];
                       approvedScopes = mergeScopes [device_baseline existing, dr_scopes pending];
                       tokens = nullish (Option.bind existing pv_tokens) []
                   in case next_token_scopes callerScopes pending tokens approvedScopes existing requestedRoles [] of
                        Inl forbidden \<Rightarrow> (ApproveForbidden forbidden, file)
                      | Inr nextTokenScopesByRole \<Rightarrow>
                          (let device = approved_device pending existing roles approvedScopes
                                 (fold (issue_token freshToken tokenNow) nextTokenScopesByRole tokens) now
                           in (ApproveDone requestId device,
                               persist_devices PersistBoth (store_approved requestId device st) file)))))"

definition issue_bootstrap_token ::
  "(string \<Rightarrow> string) \<Rightarrow> int \<Rightarrow> string list \<Rightarrow> string \<Rightarrow> token_table \<Rightarrow> token_table" where
  "issue_bootstrap_token freshToken now approvedScopes role tokens =
     (let existingToken = map_get tokens role;
          tokenScopes = (if role = OPERATOR_ROLE then resolveBootstrapProfileScopesForRole role approvedScopes else [])
      in map_set tokens role (buildDeviceAuthToken (freshToken role) role tokenScopes existingToken now
           (if existingToken \<noteq> None then Some now else None)))"

definition approveBootstrapDevicePairing ::
  "string \<Rightarrow> bootstrap_profile \<Rightarrow> (string \<Rightarrow> string) \<Rightarrow> int \<Rightarrow> int \<Rightarrow> device_store \<Rightarrow> approve_result \<times> device_store" where
  "approveBootstrapDevicePairing requestId bootstrapProfile freshToken loadedAt now file =
     (let approvedRoles = nullish (mergeRoles [Some (ManyRoles (bp_roles bootstrapProfile))]) [];
          approvedScopes = resolveBootstrapProfileScopesForRoles approvedRoles (bp_scopes bootstrapProfile);
          st = load_devices loadedAt file
      in case map_get (ds_pending st) requestId of
        None \<Rightarrow> (ApproveUnknown, file)
      | Some pending \<Rightarrow>
          (case find (\<lambda>role. role \<notin> set approvedRoles) (resolveRequestedRoles pending) of
             Some missingRole \<Rightarrow>
               (ApproveForbidden \<lparr>fb_reason = BootstrapRoleNotAllowed, fb_scope = None, fb_role = Some missingRole\<rparr>, file)
           | None \<Rightarrow>
               (case resolveMissingRequestedScope OPERATOR_ROLE
                       (filter (\<lambda>s. starts_with s OPERATOR_SCOPE_PREFIX) (normalizeDeviceAuthScopes (dr_scopes pending)))
                       approvedScopes of
                  Some missingScope \<Rightarrow>
                    (ApproveForbidden \<lparr>fb_reason = BootstrapScopeNotAllowed, fb_scope = Some missingScope, fb_role = None\<rparr>, file)
                | None \<Rightarrow>
                    (let existing = map_get (ds_paired st) (dr_deviceId pending);
                         roles = mergeRoles [many_roles (Option.bind existing pv_roles), one_role (Option.bind existing pv_role),
                           many_roles (dr_roles pending), one_role (dr_role pending), Some (ManyRoles approvedRoles)];
                         nextApprovedScopes = mergeScopes [device_baseline existing, dr_scopes pending, Some approvedScopes];
                         sanitizedApprovedScopes =
                           resolveBootstrapProfileScopesForRoles approvedRoles (nullish nextApprovedScopes []);
                         tokens = fold (issue_bootstrap_token freshToken now approvedScopes) approvedRoles
                           (nullish (Option.bind existing pv_tokens) []);
                         device = approved_device pending existing roles (Some sanitizedApprovedScopes) tokens now
                     in (ApproveDone requestId device,
                         persist_devices PersistBoth (store_approved requestId device st) file)))))"

end
