(* ===== verification/DeviceTokens.thy ===== *)
theory DeviceTokens
  imports DevicePairing GatewayConnect
begin

section \<open>The operations on paired devices\<close>

text \<open>
  The second half of \<^verbatim>\<open>src/infra/device-pairing.ts\<close>: rejecting and removing, the tokens of a
  paired device (verify, ensure, rotate, revoke), its metadata, and the lists. \<open>device_op\<close> names
  every exported operation that changes the store; \<open>device_run\<close> runs one and \<open>device_history\<close> a
  sequence, together with the approvals it made.
\<close>

definition rejectDevicePairing :: "string \<Rightarrow> int \<Rightarrow> device_store \<Rightarrow> (string \<times> string) option \<times> device_store" where
  "rejectDevicePairing requestId loadedAt file =
     (let st = load_devices loadedAt file;
          (result, pendingById) = rejectPendingPairingRequest dr_deviceId requestId (ds_pending st)
      in (result, if result = None then file
                  else persist_devices PersistPending (st\<lparr>ds_pending := pendingById\<rparr>) file))"

definition removePairedDevice :: "string \<Rightarrow> int \<Rightarrow> device_store \<Rightarrow> string option \<times> device_store" where
  "removePairedDevice deviceId loadedAt file =
     (let st = load_devices loadedAt file; normalized = normalizeDeviceId deviceId
      in if normalized = [] \<or> map_get (ds_paired st) normalized = None then (None, file)
         else (Some normalized, persist_devices PersistBoth
           (st\<lparr>ds_paired := map_delete (ds_paired st) normalized,
               ds_pending := filter (\<lambda>(i, p). dr_deviceId p \<noteq> normalized) (ds_pending st)\<rparr>) file))"

text \<open>A key of the patch that is present, with an undefined value or another, replaces the field.\<close>

record metadata_patch =
  mp_displayName :: "string option option"
  mp_clientId :: "string option option"
  mp_clientMode :: "string option option"
  mp_remoteIp :: "string option option"
  mp_lastSeenAtMs :: "int option option"
  mp_lastSeenReason :: "string option option"

definition patch_device :: "metadata_patch \<Rightarrow> paired_device \<Rightarrow> paired_device" where
  "patch_device patch existing =
     existing\<lparr>pv_displayName := nullish (mp_displayName patch) (pv_displayName existing),
       pv_clientId := nullish (mp_clientId patch) (pv_clientId existing),
       pv_clientMode := nullish (mp_clientMode patch) (pv_clientMode existing),
       pv_remoteIp := nullish (mp_remoteIp patch) (pv_remoteIp existing),
       pv_lastSeenAtMs := nullish (mp_lastSeenAtMs patch) (pv_lastSeenAtMs existing),
       pv_lastSeenReason := nullish (mp_lastSeenReason patch) (pv_lastSeenReason existing)\<rparr>"

definition updatePairedDeviceMetadata :: "string \<Rightarrow> metadata_patch \<Rightarrow> int \<Rightarrow> device_store \<Rightarrow> bool \<times> device_store" where
  "updatePairedDeviceMetadata deviceId patch loadedAt file =
     (let st = load_devices loadedAt file; normalizedDeviceId = normalizeDeviceId deviceId
      in case map_get (ds_paired st) normalizedDeviceId of
           None \<Rightarrow> (False, file)
         | Some existing \<Rightarrow> (True, persist_devices PersistPaired
             (st\<lparr>ds_paired := map_set (ds_paired st) normalizedDeviceId (patch_device patch existing)\<rparr>) file))"

definition put_device_tokens :: "device_store \<Rightarrow> paired_device \<Rightarrow> token_table \<Rightarrow> device_store \<Rightarrow> device_store" where
  "put_device_tokens st device tokens file =
     persist_devices PersistPaired
       (st\<lparr>ds_paired := map_set (ds_paired st) (pv_deviceId device) (device\<lparr>pv_tokens := Some tokens\<rparr>)\<rparr>) file"

definition verify_ok :: token_check where
  "verify_ok = \<lparr>tc_ok = True, tc_reason = None\<rparr>"

definition verify_failed :: "string \<Rightarrow> token_check" where
  "verify_failed reason = \<lparr>tc_ok = False, tc_reason = Some reason\<rparr>"

definition verifyDeviceToken ::
  "string \<Rightarrow> string \<Rightarrow> string \<Rightarrow> string list \<Rightarrow> int \<Rightarrow> int \<Rightarrow> device_store \<Rightarrow> token_check \<times> device_store" where
  "verifyDeviceToken deviceId token role scopes loadedAt now file =
     (let st = load_devices loadedAt file in
      case getPairedDeviceFromState st deviceId of
        None \<Rightarrow> (verify_failed ''device-not-paired'', file)
      | Some device \<Rightarrow>
          (case normalizeRole (Some role) of
             None \<Rightarrow> (verify_failed ''role-missing'', file)
           | Some normalized \<Rightarrow>
               (case map_get (nullish (pv_tokens device) []) normalized of
                  None \<Rightarrow> (verify_failed ''token-missing'', file)
                | Some entry \<Rightarrow>
                    if token_revoked entry then (verify_failed ''token-revoked'', file)
                    else if \<not> verifyPairingToken token (dt_token entry) then (verify_failed ''token-mismatch'', file)
                    else if \<not> scopesWithinApprovedDeviceBaseline normalized (dt_scopes entry)
                           (resolveApprovedDeviceScopeBaseline device)
                    then (verify_failed ''scope-mismatch'', file)
                    else if \<not> roleScopesAllow normalized (normalizeDeviceAuthScopes (Some scopes)) (dt_scopes entry)
                    then (verify_failed ''scope-mismatch'', file)
                    else (verify_ok, put_device_tokens st device
                      (map_set (nullish (pv_tokens device) []) normalized (entry\<lparr>dt_lastUsedAtMs := Some now\<rparr>)) file))))"

definition resolveDeviceTokenUpdateContext ::
  "device_store \<Rightarrow> string \<Rightarrow> string \<Rightarrow> (paired_device \<times> string \<times> token_table \<times> device_token option) option" where
  "resolveDeviceTokenUpdateContext st deviceId role =
     (case getPairedDeviceFromState st deviceId of
        None \<Rightarrow> None
      | Some device \<Rightarrow>
          (case normalizeRole (Some role) of
             None \<Rightarrow> None
           | Some normalized \<Rightarrow>
               if normalized \<notin> set (listApprovedPairedDeviceRoles device) then None
               else Some (device, normalized, cloneDeviceTokens device, map_get (cloneDeviceTokens device) normalized)))"

definition ensureDeviceToken ::
  "string \<Rightarrow> string \<Rightarrow> string list \<Rightarrow> string \<Rightarrow> int \<Rightarrow> int \<Rightarrow> device_store \<Rightarrow> device_token option \<times> device_store" where
  "ensureDeviceToken deviceId role scopes freshToken loadedAt now file =
     (let st = load_devices loadedAt file; requestedScopes = normalizeDeviceAuthScopes (Some scopes) in
      case resolveDeviceTokenUpdateContext st deviceId role of
        None \<Rightarrow> (None, file)
      | Some (device, normalized, tokens, existing) \<Rightarrow>
          let approvedScopes = resolveApprovedDeviceScopeBaseline device;
              reusable = (case existing of
                None \<Rightarrow> None
              | Some e \<Rightarrow>
                  if \<not> token_revoked e \<and> scopesWithinApprovedDeviceBaseline normalized (dt_scopes e) approvedScopes \<and>
                     roleScopesAllow normalized requestedScopes (dt_scopes e) then Some e else None)
          in if \<not> scopesWithinApprovedDeviceBaseline normalized requestedScopes approvedScopes then (None, file)
             else (case reusable of
               Some e \<Rightarrow> (Some e, file)
             | None \<Rightarrow>
                 let next = buildDeviceAuthToken freshToken normalized requestedScopes existing now
                       (if existing \<noteq> None then Some now else None)
                 in (Some next, put_device_tokens st device (map_set tokens normalized next) file)))"

definition rotateDeviceToken ::
  "string \<Rightarrow> string \<Rightarrow> string list option \<Rightarrow> string list option \<Rightarrow> string \<Rightarrow> int \<Rightarrow> int \<Rightarrow> device_store \<Rightarrow>
   (rotate_deny \<times> string option + device_token) \<times> device_store" where
  "rotateDeviceToken deviceId role scopes callerScopes freshToken loadedAt now file =
     (let st = load_devices loadedAt file in
      case resolveDeviceTokenUpdateContext st deviceId role of
        None \<Rightarrow> (Inl (UnknownDeviceOrRole, None), file)
      | Some (device, normalized, tokens, existing) \<Rightarrow>
          (let requestedScopes = normalizeDeviceAuthScopes
                 (nullish_opt scopes (nullish_opt (map_option dt_scopes existing) (pv_scopes device)))
           in case resolveApprovedDeviceScopeBaseline device of
                None \<Rightarrow> (Inl (MissingApprovedScopeBaseline, None), file)
              | Some approvedScopes \<Rightarrow>
                  if \<not> scopesWithinApprovedDeviceBaseline normalized requestedScopes (Some approvedScopes)
                  then (Inl (ScopeOutsideApprovedBaseline, None), file)
                  else
                    (case Option.bind callerScopes (resolveMissingRequestedScope normalized requestedScopes) of
                       Some missingScope \<Rightarrow> (Inl (TokenCallerMissingScope, Some missingScope), file)
                     | None \<Rightarrow>
                         let next = buildDeviceAuthToken freshToken normalized requestedScopes existing now (Some now)
                         in (Inr next, put_device_tokens st device (map_set tokens normalized next) file))))"

definition revokeDeviceToken ::
  "string \<Rightarrow> string \<Rightarrow> string list option \<Rightarrow> int \<Rightarrow> int \<Rightarrow> device_store \<Rightarrow>
   (rotate_deny \<times> string option + device_token) \<times> device_store" where
  "revokeDeviceToken deviceId role callerScopes loadedAt now file =
     (let st = load_devices loadedAt file in
      case resolveDeviceTokenUpdateContext st deviceId role of
        Some (device, normalized, tokens, Some existing) \<Rightarrow>
          (case Option.bind callerScopes
                  (resolveMissingRequestedScope normalized (normalizeDeviceAuthScopes (Some (dt_scopes existing)))) of
             Some missingScope \<Rightarrow> (Inl (TokenCallerMissingScope, Some missingScope), file)
           | None \<Rightarrow>
               let e = existing\<lparr>dt_revokedAtMs := Some now\<rparr>
               in (Inr e, put_device_tokens st device (map_set tokens normalized e) file))
      | _ \<Rightarrow> (Inl (UnknownDeviceOrRole, None), file))"

definition clearDevicePairing :: "string \<Rightarrow> int \<Rightarrow> device_store \<Rightarrow> bool \<times> device_store" where
  "clearDevicePairing deviceId loadedAt file =
     (let st = load_devices loadedAt file; normalizedId = normalizeDeviceId deviceId
      in if map_get (ds_paired st) normalizedId = None then (False, file)
         else (True, persist_devices PersistPaired
           (st\<lparr>ds_paired := map_delete (ds_paired st) normalizedId\<rparr>) file))"

subsection \<open>Reading the store\<close>

definition listDevicePairing :: "int \<Rightarrow> device_store \<Rightarrow> pending_device list \<times> paired_device list" where
  "listDevicePairing loadedAt file =
     (let st = load_devices loadedAt file
      in (sort_by (\<lambda>a b. pd_ts b - pd_ts a) (map snd (ds_pending st)),
          sort_by (\<lambda>a b. pv_approvedAtMs b - pv_approvedAtMs a) (map snd (ds_paired st))))"

definition getPairedDevice :: "string \<Rightarrow> int \<Rightarrow> device_store \<Rightarrow> paired_device option" where
  "getPairedDevice deviceId loadedAt file =
     map_get (ds_paired (load_devices loadedAt file)) (normalizeDeviceId deviceId)"

definition getPendingDevicePairing :: "string \<Rightarrow> int \<Rightarrow> device_store \<Rightarrow> pending_device option" where
  "getPendingDevicePairing requestId loadedAt file = map_get (ds_pending (load_devices loadedAt file)) requestId"

record token_summary =
  ts_role :: string
  ts_scopes :: "string list"
  ts_createdAtMs :: int
  ts_rotatedAtMs :: "int option"
  ts_revokedAtMs :: "int option"
  ts_lastUsedAtMs :: "int option"

definition token_summary_of :: "device_token \<Rightarrow> token_summary" where
  "token_summary_of t =
     \<lparr>ts_role = dt_role t, ts_scopes = dt_scopes t, ts_createdAtMs = dt_createdAtMs t, ts_rotatedAtMs = dt_rotatedAtMs t,
      ts_revokedAtMs = dt_revokedAtMs t, ts_lastUsedAtMs = dt_lastUsedAtMs t\<rparr>"

definition summarizeDeviceTokens ::
  "(string \<Rightarrow> string \<Rightarrow> int) \<Rightarrow> token_table option \<Rightarrow> token_summary list option" where
  "summarizeDeviceTokens lc tokens =
     (case tokens of
        None \<Rightarrow> None
      | Some t \<Rightarrow>
          let summaries = sort_by (\<lambda>a b. lc (ts_role a) (ts_role b)) (map (token_summary_of \<circ> snd) t)
          in if length summaries > 0 then Some summaries else None)"

subsection \<open>Sequences of operations\<close>

datatype device_op =
    OpRequest device_request string int int
  | OpApprove string "string list option" "string \<Rightarrow> string" "string \<Rightarrow> int" int int
  | OpApproveBootstrap string bootstrap_profile "string \<Rightarrow> string" int int
  | OpReject string int
  | OpRemove string int
  | OpMetadata string metadata_patch int
  | OpVerify string string string "string list" int int
  | OpEnsure string string "string list" string int int
  | OpRotate string string "string list option" "string list option" string int int
  | OpRevoke string string "string list option" int int
  | OpClear string int

fun device_run :: "device_op \<Rightarrow> device_store \<Rightarrow> device_store" where
  "device_run (OpRequest req i t now) st = snd (requestDevicePairing req i t now st)"
| "device_run (OpApprove i cs fresh tn t now) st = snd (approveDevicePairing i cs fresh tn t now st)"
| "device_run (OpApproveBootstrap i prof fresh t now) st = snd (approveBootstrapDevicePairing i prof fresh t now st)"
| "device_run (OpReject i t) st = snd (rejectDevicePairing i t st)"
| "device_run (OpRemove d t) st = snd (removePairedDevice d t st)"
| "device_run (OpMetadata d p t) st = snd (updatePairedDeviceMetadata d p t st)"
| "device_run (OpVerify d tok r ss t now) st = snd (verifyDeviceToken d tok r ss t now st)"
| "device_run (OpEnsure d r ss fresh t now) st = snd (ensureDeviceToken d r ss fresh t now st)"
| "device_run (OpRotate d r ss cs fresh t now) st = snd (rotateDeviceToken d r ss cs fresh t now st)"
| "device_run (OpRevoke d r cs t now) st = snd (revokeDeviceToken d r cs t now st)"
| "device_run (OpClear d t) st = snd (clearDevicePairing d t st)"

definition device_history :: "device_op list \<Rightarrow> device_store \<Rightarrow> device_store" where
  "device_history ops st = fold device_run ops st"

definition empty_devices :: device_store where
  "empty_devices = \<lparr>ds_pending = [], ds_paired = []\<rparr>"

end
