(* ===== verification/DeviceTheorems.thy ===== *)
theory DeviceTheorems
  imports DeviceTokens
begin

section \<open>What a paired device may do\<close>

text \<open>
  Properties of \<open>DevicePairing\<close> and \<open>DeviceTokens\<close> over every sequence of operations: the store
  stays well-formed, a device never holds an operator scope that no approval of it covered, a token
  that was revoked or replaced is dead, requests expire.
\<close>

subsection \<open>Loading and saving\<close>

lemma load_simps [simp, pairing_simps]:
  "ds_paired (load_devices t st) = ds_paired st"
  "ds_pending (load_devices t st) = pruneExpiredPending pd_ts (ds_pending st) t DEVICE_PENDING_TTL_MS"
  by (simp_all add: load_devices_def)

lemma persist_simps [simp, pairing_simps]:
  "ds_paired (persist_devices PersistPending st file) = ds_paired file"
  "ds_pending (persist_devices PersistPending st file) = ds_pending st"
  "ds_paired (persist_devices PersistPaired st file) = ds_paired st"
  "ds_pending (persist_devices PersistPaired st file) = ds_pending file"
  "persist_devices PersistBoth st file = st"
  by (simp_all add: persist_devices_def)

lemma put_tokens_simps [simp, pairing_simps]:
  "ds_paired (put_device_tokens st device tokens file) =
    map_set (ds_paired st) (pv_deviceId device) (device\<lparr>pv_tokens := Some tokens\<rparr>)"
  "ds_pending (put_device_tokens st device tokens file) = ds_pending file"
  by (simp_all add: put_device_tokens_def)

lemma baseline_tokens [simp]: "device_baseline (Some (d\<lparr>pv_tokens := t\<rparr>)) = device_baseline (Some d)"
  by (simp add: device_baseline_def)

lemma baseline_patch [simp]: "device_baseline (Some (patch_device patch d)) = device_baseline (Some d)"
  by (simp add: device_baseline_def patch_device_def)

lemma patch_simps [simp]:
  "pv_deviceId (patch_device patch d) = pv_deviceId d" "pv_roles (patch_device patch d) = pv_roles d"
  "pv_role (patch_device patch d) = pv_role d" "pv_tokens (patch_device patch d) = pv_tokens d"
  by (simp_all add: patch_device_def)

lemma approved_device_simps [simp]:
  "pv_deviceId (approved_device p ex roles scopes tokens now) = dr_deviceId p"
  "pv_tokens (approved_device p ex roles scopes tokens now) = Some tokens"
  "pv_roles (approved_device p ex roles scopes tokens now) = roles"
  "device_baseline (Some (approved_device p ex roles scopes tokens now)) = scopes"
  by (cases scopes; simp add: approved_device_def device_baseline_def nullish_opt_def)+

subsection \<open>The well-formed store\<close>

definition tidy_id :: "string \<Rightarrow> bool" where
  "tidy_id s \<longleftrightarrow> js_trim s = s \<and> s \<noteq> []"

definition devices_ok :: "device_store \<Rightarrow> bool" where
  "devices_ok st \<longleftrightarrow> one_pending pd_requestId dr_deviceId (ds_pending st) \<and>
     list_all (\<lambda>(i, p). tidy_id (dr_deviceId p)) (ds_pending st) \<and> wf_map (ds_paired st) \<and>
     list_all (\<lambda>(k, d). pv_deviceId d = k \<and> tidy_id k) (ds_paired st)"

interpretation device_pending: pending_store pd_requestId dr_deviceId "\<lambda>_. deviceId"
  "refreshPendingDevicePairingRequest isRepair" "replacement_request freshId deviceId isRepair now"
  for deviceId isRepair freshId now
  by unfold_locales (simp_all add: refreshPendingDevicePairingRequest_def replacement_request_def
      buildPendingDevicePairingRequest_def Let_def)

lemma set_pending_of_device: "set (pending_of_device d m) = {p. \<exists>i. (i, p) \<in> set m \<and> dr_deviceId p = d}"
  by (force simp: pending_of_device_def)

lemma devices_okD:
  assumes "devices_ok st"
  shows "one_pending pd_requestId dr_deviceId (ds_pending st)" "wf_map (ds_paired st)" "wf_map (ds_pending st)"
    and "map_get (ds_paired st) k = Some d \<Longrightarrow> pv_deviceId d = k \<and> tidy_id k"
    and "map_get (ds_pending st) i = Some p \<Longrightarrow> pd_requestId p = i \<and> tidy_id (dr_deviceId p)"
  using assms by (auto simp: devices_ok_def one_pending_def list_all_iff dest!: map_get_in)

lemma list_all_map_set: "list_all P m \<Longrightarrow> P (k, v) \<Longrightarrow> list_all P (map_set m k v)"
  by (induction m k v rule: map_set.induct) auto

lemma list_all_delete: "list_all P m \<Longrightarrow> list_all P (map_delete m k)"
  by (auto simp: map_delete_def list_all_iff)

lemma list_all_prune: "list_all P m \<Longrightarrow> list_all P (pruneExpiredPending ts m t ttl)"
  by (auto simp: pruneExpiredPending_def list_all_iff)

lemma devices_ok_load [simp]: "devices_ok st \<Longrightarrow> devices_ok (load_devices t st)"
  by (simp add: devices_ok_def list_all_prune)

lemma list_all_reconcile:
  assumes "list_all (\<lambda>(i, p). P p) m" and "\<And>e. e \<in> set existing \<Longrightarrow> P e \<Longrightarrow> P (refresh e x)" and "P (build existing x)"
    and "\<And>e. e \<in> set existing \<Longrightarrow> P e"
  shows "list_all (\<lambda>(i, p). P p) (snd (reconcilePendingPairingRequests rid m existing x can refresh build))"
proof -
  have "list_all (\<lambda>(i, p). P p) (fold (\<lambda>e m. map_delete m (rid e)) existing m)"
    using assms(1) by (induction existing arbitrary: m) (simp_all add: list_all_delete)
  moreover have "P (refresh (hd existing) x)" if "length existing = 1"
    using assms(2,4) that by (cases existing) auto
  ultimately show ?thesis
    using assms(1,3) by (simp add: reconcilePendingPairingRequests_def Let_def list_all_map_set)
qed

lemma request_ok:
  assumes ok: "devices_ok st"
  shows "devices_ok (snd (requestDevicePairing req freshId t now st))"
proof (cases "normalizeDeviceId (dr_deviceId req) = []")
  case True
  then show ?thesis using ok by (simp add: requestDevicePairing_def)
next
  case False
  define d where "d = normalizeDeviceId (dr_deviceId req)"
  define m where "m = ds_pending (load_devices t st)"
  define rep where "rep = (map_get (ds_paired st) d \<noteq> None)"
  define m' where "m' = snd (reconcilePendingPairingRequests pd_requestId m (pending_of_device d m) req
      samePendingApprovalSnapshot (refreshPendingDevicePairingRequest rep) (replacement_request freshId d rep now))"
  have d: "tidy_id d" using False by (simp add: d_def tidy_id_def normalizeDeviceId_def js_trim_idem)
  have m: "one_pending pd_requestId dr_deviceId m" "list_all (\<lambda>(i, p). tidy_id (dr_deviceId p)) m"
    using ok by (simp_all add: m_def devices_ok_def list_all_prune)
  have "one_pending pd_requestId dr_deviceId m'"
    unfolding m'_def by (rule device_pending.reconcile_one [OF m(1)]) (simp add: set_pending_of_device)
  moreover have "list_all (\<lambda>(i, p). tidy_id (dr_deviceId p)) m'"
    unfolding m'_def by (rule list_all_reconcile [OF m(2)])
      (auto simp: d set_pending_of_device refreshPendingDevicePairingRequest_def replacement_request_def
        buildPendingDevicePairingRequest_def Let_def)
  moreover have "snd (requestDevicePairing req freshId t now st) = st\<lparr>ds_pending := m'\<rparr>"
    using False unfolding m'_def rep_def m_def d_def
    by (simp add: requestDevicePairing_def Let_def case_prod_beta persist_devices_def)
  ultimately show ?thesis using ok by (simp add: devices_ok_def)
qed

lemma put_device_ok:
  "devices_ok st \<Longrightarrow> pv_deviceId d = k \<Longrightarrow> tidy_id k \<Longrightarrow> devices_ok (st\<lparr>ds_paired := map_set (ds_paired st) k d\<rparr>)"
  by (simp add: devices_ok_def list_all_map_set)

lemma fewer_pending_ok:
  "devices_ok st \<Longrightarrow> set m \<subseteq> set (ds_pending st) \<Longrightarrow> wf_map m \<Longrightarrow> devices_ok (st\<lparr>ds_pending := m\<rparr>)"
  by (auto simp: devices_ok_def list_all_iff intro: one_pending_sub)

lemma put_tokens_eq: "put_device_tokens (load_devices t st) d tokens st =
    st\<lparr>ds_paired := map_set (ds_paired st) (pv_deviceId d) (d\<lparr>pv_tokens := Some tokens\<rparr>)\<rparr>"
  by (simp add: put_device_tokens_def persist_devices_def)

lemma put_tokens_ok:
  assumes "devices_ok st" and "map_get (ds_paired st) k = Some d"
  shows "devices_ok (put_device_tokens (load_devices t st) d tokens st)"
  unfolding put_tokens_eq using assms(1) devices_okD(4) [OF assms] by (intro put_device_ok) simp_all

lemma store_approved_ok:
  assumes "devices_ok st" and "tidy_id (pv_deviceId d)"
  shows "devices_ok (store_approved i d st)"
  using assms by (simp add: store_approved_def devices_ok_def list_all_map_set list_all_delete)

text \<open>Every operation but a request and an approval only drops devices and pending requests, or
  changes a device without its id, its roles and its approved scopes.\<close>

definition narrows :: "device_store \<Rightarrow> device_store \<Rightarrow> bool" where
  "narrows st st' \<longleftrightarrow> devices_ok st' \<and> set (ds_pending st') \<subseteq> set (ds_pending st) \<and>
     (\<forall>k d'. map_get (ds_paired st') k = Some d' \<longrightarrow>
        (\<exists>d. map_get (ds_paired st) k = Some d \<and> device_baseline (Some d') = device_baseline (Some d) \<and>
             pv_roles d' = pv_roles d \<and> pv_role d' = pv_role d))"

lemma narrows_refl: "devices_ok st \<Longrightarrow> narrows st st"
  by (auto simp: narrows_def)

lemma put_tokens_narrows:
  assumes "devices_ok st" and "map_get (ds_paired st) k = Some d"
  shows "narrows st (put_device_tokens (load_devices t st) d tokens st)"
  using put_tokens_ok [OF assms, of t tokens] devices_okD(4) [OF assms] assms(2) by (auto simp: narrows_def)

lemma context_device:
  "resolveDeviceTokenUpdateContext (load_devices t st) dev role = Some (d, r, tokens, e) \<Longrightarrow>
    map_get (ds_paired st) (normalizeDeviceId dev) = Some d \<and> normalizeRole (Some role) = Some r \<and>
    r \<in> set (listApprovedPairedDeviceRoles d) \<and> tokens = nullish (pv_tokens d) [] \<and> e = map_get tokens r"
  by (auto simp: resolveDeviceTokenUpdateContext_def getPairedDeviceFromState_def cloneDeviceTokens_def
      split: option.splits if_splits)

lemma fewer_pending_narrows:
  "devices_ok st \<Longrightarrow> set m \<subseteq> set (ds_pending st) \<Longrightarrow> wf_map m \<Longrightarrow> narrows st (st\<lparr>ds_pending := m\<rparr>)"
  using fewer_pending_ok [of st m] by (auto simp: narrows_def)

lemma drop_device_narrows:
  assumes "narrows st st'"
  shows "narrows st (st'\<lparr>ds_paired := map_delete (ds_paired st') k\<rparr>)"
  using assms by (auto simp: narrows_def devices_ok_def list_all_delete)

lemma reject_narrows:
  assumes "devices_ok st"
  shows "narrows st (snd (rejectDevicePairing i t st))"
proof -
  define p where "p = pruneExpiredPending pd_ts (ds_pending st) t DEVICE_PENDING_TTL_MS"
  have "snd (rejectDevicePairing i t st) = (if map_get p i = None then st else st\<lparr>ds_pending := map_delete p i\<rparr>)"
    by (auto simp: rejectDevicePairing_def rejectPendingPairingRequest_def p_def persist_devices_def Let_def split: option.split)
  moreover have "narrows st (st\<lparr>ds_pending := map_delete p i\<rparr>)"
    using assms devices_okD(3) [OF assms] unfolding p_def
    by (intro fewer_pending_narrows) (auto simp: set_map_delete pruneExpiredPending_def wf_map_filter)
  ultimately show ?thesis using narrows_refl [OF assms] by simp
qed

lemma remove_narrows:
  assumes "devices_ok st"
  shows "narrows st (snd (removePairedDevice d t st))"
proof -
  define k where "k = normalizeDeviceId d"
  define m where "m = filter (\<lambda>(i, p). dr_deviceId p \<noteq> k) (ds_pending (load_devices t st))"
  have "narrows st (st\<lparr>ds_pending := m\<rparr>)"
    using assms devices_okD(3) [OF assms] unfolding m_def
    by (intro fewer_pending_narrows) (auto simp: pruneExpiredPending_def wf_map_filter)
  then have n: "narrows st (st\<lparr>ds_pending := m, ds_paired := map_delete (ds_paired st) k\<rparr>)"
    by (drule_tac k = k in drop_device_narrows) simp
  have "snd (removePairedDevice d t st) = (if k = [] \<or> map_get (ds_paired st) k = None then st
      else st\<lparr>ds_pending := m, ds_paired := map_delete (ds_paired st) k\<rparr>)"
    by (simp add: removePairedDevice_def k_def m_def persist_devices_def Let_def load_devices_def)
  then show ?thesis using n narrows_refl [OF assms] by simp
qed

lemma clear_narrows:
  assumes "devices_ok st"
  shows "narrows st (snd (clearDevicePairing d t st))"
proof -
  have "snd (clearDevicePairing d t st) = (if map_get (ds_paired st) (normalizeDeviceId d) = None then st
      else st\<lparr>ds_paired := map_delete (ds_paired st) (normalizeDeviceId d)\<rparr>)"
    by (simp add: clearDevicePairing_def persist_devices_def Let_def)
  then show ?thesis
    using drop_device_narrows [OF narrows_refl [OF assms]] narrows_refl [OF assms] by simp
qed

lemma metadata_narrows:
  assumes "devices_ok st"
  shows "narrows st (snd (updatePairedDeviceMetadata d patch t st))"
proof (cases "map_get (ds_paired st) (normalizeDeviceId d)")
  case (Some e)
  have "snd (updatePairedDeviceMetadata d patch t st) =
      st\<lparr>ds_paired := map_set (ds_paired st) (normalizeDeviceId d) (patch_device patch e)\<rparr>"
    using Some by (simp add: updatePairedDeviceMetadata_def persist_devices_def Let_def)
  moreover have "devices_ok \<dots>" using assms devices_okD(4) [OF assms Some] by (intro put_device_ok) simp_all
  ultimately show ?thesis using Some by (auto simp: narrows_def)
qed (simp add: updatePairedDeviceMetadata_def narrows_refl assms Let_def)

lemma token_ops_narrow:
  assumes "devices_ok st"
  shows "narrows st (snd (verifyDeviceToken d tok r ss t now st))"
    and "narrows st (snd (ensureDeviceToken d r ss fresh t now st))"
    and "narrows st (snd (rotateDeviceToken d r oss cs fresh t now st))"
    and "narrows st (snd (revokeDeviceToken d r cs t now st))"
proof -
  show "narrows st (snd (verifyDeviceToken d tok r ss t now st))"
    using narrows_refl [OF assms] put_tokens_narrows [OF assms]
    by (auto simp: verifyDeviceToken_def getPairedDeviceFromState_def Let_def split: option.split)
  show "narrows st (snd (ensureDeviceToken d r ss fresh t now st))"
    using narrows_refl [OF assms] put_tokens_narrows [OF assms]
    by (auto simp: ensureDeviceToken_def Let_def split: option.split dest: context_device)
  show "narrows st (snd (rotateDeviceToken d r oss cs fresh t now st))"
    using narrows_refl [OF assms] put_tokens_narrows [OF assms]
    by (auto simp: rotateDeviceToken_def Let_def split: option.split dest: context_device)
  show "narrows st (snd (revokeDeviceToken d r cs t now st))"
    using narrows_refl [OF assms] put_tokens_narrows [OF assms]
    by (auto simp: revokeDeviceToken_def Let_def split: option.split dest: context_device)
qed

subsection \<open>Roles and scopes\<close>

lemma role_values [simp]:
  "set (role_item_values (many_roles rs)) = tidy_set (nullish rs [])"
  "set (role_item_values (one_role r)) = tidy_set (case r of None \<Rightarrow> [] | Some x \<Rightarrow> [x])"
  by (auto simp: role_item_values_def tidy_set_def nullish_def split: option.split)

lemma set_mergeRoles: "set (nullish (mergeRoles items) []) = (\<Union>i\<in>set items. set (role_item_values i))"
proof -
  have "concat (map role_item_values items) = [] \<Longrightarrow> i \<in> set items \<Longrightarrow> role_item_values i = []" for i
    by auto
  then show ?thesis by (auto simp: mergeRoles_def nullish_def Let_def)
qed

lemma set_mergeScopes: "set (nullish (mergeScopes items) []) = (\<Union>i\<in>set items. tidy_set (nullish i []))"
proof -
  define xs where "xs = filter (\<lambda>s. s \<noteq> []) (map js_trim (concat (map (\<lambda>i. nullish i []) items)))"
  have "nullish (mergeScopes items) [] = js_uniq xs"
    unfolding mergeScopes_def Let_def xs_def [symmetric] by (simp add: nullish_def)
  moreover have "set xs = (\<Union>i\<in>set items. tidy_set (nullish i []))"
    by (auto simp: xs_def tidy_set_def)
  ultimately show ?thesis by simp
qed

lemma tidy_setI: "s \<in> set xs \<Longrightarrow> js_trim s = s \<Longrightarrow> s \<noteq> [] \<Longrightarrow> s \<in> tidy_set xs"
  by (force simp: tidy_set_def)

lemma tidy_set_id: "(\<And>s. s \<in> set xs \<Longrightarrow> js_trim s = s \<and> s \<noteq> []) \<Longrightarrow> tidy_set xs = set xs"
  by (force simp: tidy_set_def image_iff)

lemma tidy_mergeScopes: "tidy_set (nullish (mergeScopes items) []) = (\<Union>i\<in>set items. tidy_set (nullish i []))"
  unfolding set_mergeScopes [symmetric] by (rule tidy_set_id) (auto simp: set_mergeScopes dest: tidy_set_tidy)

lemma tidy_mergeRoles: "tidy_set (nullish (mergeRoles items) []) = set (nullish (mergeRoles items) [])"
proof (rule tidy_set_id)
  fix s assume "s \<in> set (nullish (mergeRoles items) [])"
  then obtain i where i: "s \<in> set (role_item_values i)" by (auto simp: set_mergeRoles)
  show "js_trim s = s \<and> s \<noteq> []"
  proof (cases i)
    case (Some r)
    then show ?thesis using i by (cases r) (auto simp: role_item_values_def js_trim_idem split: if_splits)
  qed (use i in \<open>simp add: role_item_values_def\<close>)
qed

lemma requested_roles: "set (resolveRequestedRoles input) =
    tidy_set (nullish (dr_roles input) []) \<union> tidy_set (case dr_role input of None \<Rightarrow> [] | Some x \<Rightarrow> [x])"
  by (simp add: resolveRequestedRoles_def set_mergeRoles)

lemma requested_roles_tidy: "r \<in> set (resolveRequestedRoles input) \<Longrightarrow> js_trim r = r \<and> r \<noteq> []"
  by (auto simp: requested_roles dest: tidy_set_tidy)

text \<open>A scope is granted to a device when an approval of the device covered it.\<close>

definition scope_granted :: "(string \<times> string list) list \<Rightarrow> string \<Rightarrow> string \<Rightarrow> bool" where
  "scope_granted grants dev scope \<longleftrightarrow> list_ex (\<lambda>(d, cs). d = dev \<and> operatorScopeSatisfied scope (normalizeScopeList cs)) grants"

definition scopes_granted :: "(string \<times> string list) list \<Rightarrow> string \<Rightarrow> string set \<Rightarrow> bool" where
  "scopes_granted grants dev S \<longleftrightarrow> (\<forall>s\<in>S. starts_with s OPERATOR_SCOPE_PREFIX \<longrightarrow> scope_granted grants dev s)"

lemma satisfied_implied:
  assumes "operatorScopeSatisfied a B" and "operatorScopeSatisfied s A" and "set A = {a}"
  shows "operatorScopeSatisfied s B"
  using assms by (auto simp: operatorScopeSatisfied_def split: if_splits)

lemma satisfied_by_one:
  "operatorScopeSatisfied s A \<Longrightarrow> \<exists>a\<in>set A. starts_with a OPERATOR_SCOPE_PREFIX \<and> operatorScopeSatisfied s [a]"
proof -
  have "starts_with ''operator.admin'' OPERATOR_SCOPE_PREFIX" "starts_with ''operator.read'' OPERATOR_SCOPE_PREFIX"
    "starts_with ''operator.write'' OPERATOR_SCOPE_PREFIX" by code_simp+
  then show "operatorScopeSatisfied s A \<Longrightarrow> \<exists>a\<in>set A. starts_with a OPERATOR_SCOPE_PREFIX \<and> operatorScopeSatisfied s [a]"
    by (auto simp: operatorScopeSatisfied_def split: if_splits)
qed

lemma granted_satisfied:
  assumes "scopes_granted grants dev (set A)" and "operatorScopeSatisfied s A"
  shows "scope_granted grants dev s"
proof -
  obtain a where a: "a \<in> set A" "starts_with a OPERATOR_SCOPE_PREFIX" "operatorScopeSatisfied s [a]"
    using satisfied_by_one [OF assms(2)] by blast
  then have "scope_granted grants dev a" using assms(1) by (simp add: scopes_granted_def)
  then show ?thesis using satisfied_implied [OF _ a(3)] by (auto simp: scope_granted_def list_ex_iff)
qed

lemma closed_satisfied:
  assumes "s \<in> closed_scopes (set A)" and "starts_with s OPERATOR_SCOPE_PREFIX"
  shows "operatorScopeSatisfied s A"
  using assms by (auto simp: closed_scopes_def operatorScopeSatisfied_def split: if_splits)

lemma scopes_granted_closed:
  assumes "scopes_granted grants dev S" and "finite S"
  shows "scopes_granted grants dev (closed_scopes S)"
proof -
  obtain A where A: "S = set A" using finite_list [OF assms(2)] by blast
  show ?thesis
    using granted_satisfied [OF assms(1) [unfolded A]] closed_satisfied
    unfolding A scopes_granted_def by blast
qed

lemma scopes_granted_mono: "scopes_granted g dev S \<Longrightarrow> set g \<subseteq> set g' \<Longrightarrow> T \<subseteq> S \<Longrightarrow> scopes_granted g' dev T"
  unfolding scopes_granted_def scope_granted_def list_ex_iff by blast

lemma finite_tidy_set [simp]: "finite (tidy_set xs)"
  by (simp add: tidy_set_def)

lemma operator_scopes_allowed:
  assumes "roleScopesAllow OPERATOR_ROLE scopes allowed" and "s \<in> tidy_set scopes"
  shows "operatorScopeSatisfied s (normalizeScopeList allowed)"
proof -
  have "js_trim OPERATOR_ROLE = OPERATOR_ROLE" by code_simp
  moreover have "s \<in> set (normalizeScopeList scopes)" using assms(2) by (simp add: set_scope_list)
  ultimately show ?thesis
    using assms(1) by (auto simp: roleScopesAllow_def Let_def list_all_iff split: if_splits)
qed

lemma missing_scope_None:
  assumes "resolveMissingRequestedScope OPERATOR_ROLE scopes allowed = None" and "s \<in> set scopes" and "js_trim s = s" and "s \<noteq> []"
  shows "operatorScopeSatisfied s (normalizeScopeList allowed)"
proof (rule operator_scopes_allowed)
  show "roleScopesAllow OPERATOR_ROLE [s] allowed"
    using assms(1,2) by (auto simp: resolveMissingRequestedScope_def find_None_iff)
  show "s \<in> tidy_set [s]" using assms(3,4) by (simp add: tidy_set_def)
qed

lemma starts_with_both:
  assumes "starts_with s (r @ ''.'')" and "starts_with s OPERATOR_SCOPE_PREFIX" and "\<not> starts_with r OPERATOR_SCOPE_PREFIX"
  shows "r = OPERATOR_ROLE"
proof -
  have prefix: "OPERATOR_SCOPE_PREFIX = OPERATOR_ROLE @ ''.''" by (simp add: OPERATOR_SCOPE_PREFIX_def OPERATOR_ROLE_def)
  obtain x where x: "s = r @ CHR ''.'' # x" using assms(1) by (auto simp: starts_with_iff)
  obtain y where y: "s = OPERATOR_ROLE @ CHR ''.'' # y" using assms(2) by (auto simp: starts_with_iff prefix)
  have dot: "CHR ''.'' \<notin> set OPERATOR_ROLE" by (simp add: OPERATOR_ROLE_def)
  have "r @ (CHR ''.'' # x) = OPERATOR_ROLE @ (CHR ''.'' # y)" using x y by simp
  then consider us where "r = OPERATOR_ROLE @ us" "us @ CHR ''.'' # x = CHR ''.'' # y" |
    us where "r @ us = OPERATOR_ROLE" "CHR ''.'' # x = us @ CHR ''.'' # y"
    unfolding append_eq_append_conv2 by blast
  then show ?thesis
  proof cases
    case 1
    then show ?thesis using assms(3)
      by (cases us) (auto simp: starts_with_iff prefix)
  next
    case 2
    have "CHR ''.'' \<notin> set us" using dot unfolding 2(1) [symmetric] by simp
    then show ?thesis using 2 by (cases us) auto
  qed
qed

subsection \<open>Approvals\<close>

text \<open>No requested role looks like an operator scope.\<close>

definition plain_roles :: "string list \<Rightarrow> bool" where
  "plain_roles roles \<longleftrightarrow> list_all (\<lambda>r. \<not> starts_with r OPERATOR_SCOPE_PREFIX) roles"

lemma scopes_fit_operator:
  assumes fit: "resolveScopeOutsideRequestedRoles roles scopes = None" and s: "s \<in> set scopes" "tidy_id s"
    and op: "starts_with s OPERATOR_SCOPE_PREFIX" and roles: "plain_roles roles" "\<And>r. r \<in> set roles \<Longrightarrow> js_trim r = r"
  shows "OPERATOR_ROLE \<in> set roles"
proof -
  obtain r where r: "r \<in> set roles" "roleScopesAllow r [s] [s]"
    using fit s(1) by (auto simp: resolveScopeOutsideRequestedRoles_def find_None_iff list_ex_iff)
  have "s \<in> set (normalizeScopeList [s])" using s(2) by (auto simp: set_scope_list tidy_set_def tidy_id_def)
  then have "r = OPERATOR_ROLE \<or> starts_with s (r @ ''.'')"
    using r(2) roles(2) [OF r(1)] by (auto simp: roleScopesAllow_def Let_def list_all_iff split: if_splits)
  moreover have "\<not> starts_with r OPERATOR_SCOPE_PREFIX" using roles(1) r(1) by (simp add: plain_roles_def list_all_iff)
  ultimately show ?thesis using r(1) op starts_with_both by blast
qed

lemma role_scoped_operator:
  "set (resolveRoleScopedDeviceTokenScopes OPERATOR_ROLE scopes) =
    {s \<in> set (normalizeDeviceAuthScopes scopes). starts_with s OPERATOR_SCOPE_PREFIX}"
  by (simp add: resolveRoleScopedDeviceTokenScopes_def OPERATOR_ROLE_def)

lemma next_scopes_step:
  assumes "next_token_scopes cs pending tokens approved existing roles acc = Inr m" and "OPERATOR_ROLE \<in> set roles"
    and "resolveApprovedTokenScopes OPERATOR_ROLE pending (map_get tokens OPERATOR_ROLE) approved existing = ns" and "ns \<noteq> []"
    and "s \<in> set (resolveRoleScopedDeviceTokenScopes OPERATOR_ROLE (dr_scopes pending)) \<union> set ns"
  shows "operatorScopeSatisfied s (normalizeScopeList (nullish cs []))"
  using assms(1,2)
proof (induction roles arbitrary: acc)
  case (Cons role roles)
  define req where "req = nullish (mergeScopes
      [Some (resolveRoleScopedDeviceTokenScopes OPERATOR_ROLE (dr_scopes pending)), Some ns]) ns"
  have tidy: "tidy_set (resolveRoleScopedDeviceTokenScopes OPERATOR_ROLE (dr_scopes pending)) \<union> tidy_set ns \<supseteq> {s}"
  proof -
    have "js_trim s = s \<and> s \<noteq> []"
    proof -
      have "s \<in> set (normalizeDeviceAuthScopes x)" if "s \<in> set (resolveRoleScopedDeviceTokenScopes OPERATOR_ROLE x)" for x
        using that by (simp add: role_scoped_operator)
      then show ?thesis using assms(3,5) device_scopes_tidy
        by (auto simp: resolveApprovedTokenScopes_def Let_def split: if_splits option.splits)
    qed
    then show ?thesis using assms(5) by (auto intro: tidy_setI)
  qed
  then have s: "s \<in> set req" "js_trim s = s" "s \<noteq> []"
  proof -
    have "mergeScopes [Some (resolveRoleScopedDeviceTokenScopes OPERATOR_ROLE (dr_scopes pending)), Some ns] \<noteq> None"
      by (simp add: mergeScopes_def Let_def)
    then have "set req = tidy_set (resolveRoleScopedDeviceTokenScopes OPERATOR_ROLE (dr_scopes pending)) \<union> tidy_set ns"
      using set_mergeScopes [of "[Some (resolveRoleScopedDeviceTokenScopes OPERATOR_ROLE (dr_scopes pending)), Some ns]"]
      unfolding req_def by (auto simp: nullish_def)
    then show "s \<in> set req" "js_trim s = s" "s \<noteq> []" using tidy tidy_set_tidy by auto
  qed
  show ?case
  proof (cases "role = OPERATOR_ROLE")
    case True
    then obtain allowed where "cs = Some allowed" "resolveMissingRequestedScope OPERATOR_ROLE req allowed = None"
      using Cons.prems(1) assms(3,4) by (auto simp: Let_def req_def split: option.splits)
    then show ?thesis using missing_scope_None [OF _ s] by (simp add: nullish_def)
  next
    case False
    then show ?thesis using Cons by (auto simp: Let_def)
  qed
qed simp

lemma approve_scopes_granted:
  assumes fit: "resolveScopeOutsideRequestedRoles (resolveRequestedRoles p) (normalizeDeviceAuthScopes (dr_scopes p)) = None"
    and plain: "plain_roles (resolveRequestedRoles p)"
    and next_scopes: "next_token_scopes cs p tokens (mergeScopes [device_baseline ex, dr_scopes p]) ex
      (resolveRequestedRoles p) [] = Inr m"
    and before: "scopes_granted grants dev (tidy_set (nullish (device_baseline ex) []))"
    and s: "s \<in> set (normalizeDeviceAuthScopes (dr_scopes p))" "starts_with s OPERATOR_SCOPE_PREFIX"
  shows "scope_granted ((dev, nullish cs []) # grants) dev s"
proof -
  let ?role = OPERATOR_ROLE
  let ?approved = "mergeScopes [device_baseline ex, dr_scopes p]"
  define ns where "ns = resolveApprovedTokenScopes ?role p (map_get tokens ?role) ?approved ex"
  define ps where "ps = resolveRoleScopedDeviceTokenScopes ?role (dr_scopes p)"
  define base where "base = resolveRoleScopedDeviceTokenScopes ?role (device_baseline ex)"
  have tidy: "tidy_id s" using device_scopes_tidy [OF s(1)] by (simp add: tidy_id_def)
  have op: "?role \<in> set (resolveRequestedRoles p)"
    by (rule scopes_fit_operator [OF fit s(1) tidy s(2) plain]) (simp add: requested_roles_tidy)
  have ps: "s \<in> set ps" using s by (simp add: ps_def role_scoped_operator)
  show ?thesis
  proof (cases "ns = []")
    case False
    then show ?thesis
      using next_scopes_step [OF next_scopes op ns_def [symmetric]] ps by (simp add: ps_def scope_granted_def)
  next
    case True
    have "s \<in> set base"
    proof (rule ccontr)
      assume "s \<notin> set base"
      then have delta: "s \<in> set (if P then filter (\<lambda>s. s \<notin> set base) ps else ps)" for P using ps by simp
      have "s \<in> set (resolveRoleScopedDeviceTokenScopes ?role (mergeScopes [x, Some d]))" if "s \<in> set d" for x d
      proof -
        have "s \<in> tidy_set (nullish (mergeScopes [x, Some d]) [])"
          unfolding tidy_mergeScopes using that tidy by (simp add: tidy_setI tidy_id_def nullish_def)
        then show ?thesis using s(2) by (simp add: role_scoped_operator set_device_scopes closed_scopes_def)
      qed
      then have merged: "s \<in> set (resolveRoleScopedDeviceTokenScopes ?role
          (mergeScopes [x, Some (if P then filter (\<lambda>s. s \<notin> set base) ps else ps)]))" for x P
        using delta by blast
      have "ps \<noteq> []" "filter (\<lambda>s. s \<notin> set base) ps \<noteq> []" using ps \<open>s \<notin> set base\<close> by (auto simp: filter_empty_conv)
      then have "s \<in> set ns"
        using merged [of _ True] merged [of _ False]
        unfolding ns_def resolveApprovedTokenScopes_def Let_def ps_def [symmetric] base_def [symmetric]
        by (cases "map_get tokens ?role") simp_all
      then show False using True by simp
    qed
    then have "s \<in> closed_scopes (tidy_set (nullish (device_baseline ex) []))"
      by (simp add: base_def role_scoped_operator set_device_scopes)
    then have "scope_granted grants dev s"
      using scopes_granted_closed [OF before] s(2) by (simp add: scopes_granted_def)
    then show ?thesis by (auto simp: scope_granted_def)
  qed
qed

text \<open>The approvals a run of operations makes: the device and the scopes the approver answers for.\<close>

definition profile_scopes :: "bootstrap_profile \<Rightarrow> string list" where
  "profile_scopes profile = resolveBootstrapProfileScopesForRoles
     (nullish (mergeRoles [Some (ManyRoles (bp_roles profile))]) []) (bp_scopes profile)"

fun op_grant :: "device_op \<Rightarrow> device_store \<Rightarrow> (string \<times> string list) list" where
  "op_grant (OpApprove i cs fresh tn t now) st =
     (case fst (approveDevicePairing i cs fresh tn t now st) of
        ApproveDone r d \<Rightarrow> [(pv_deviceId d, nullish cs [])] | _ \<Rightarrow> [])"
| "op_grant (OpApproveBootstrap i prof fresh t now) st =
     (case fst (approveBootstrapDevicePairing i prof fresh t now st) of
        ApproveDone r d \<Rightarrow> [(pv_deviceId d, profile_scopes prof)] | _ \<Rightarrow> [])"
| "op_grant _ st = []"

fun device_grants :: "device_op list \<Rightarrow> device_store \<Rightarrow> (string \<times> string list) list" where
  "device_grants [] st = []"
| "device_grants (op # ops) st = op_grant op st @ device_grants ops (device_run op st)"

definition paired_granted :: "(string \<times> string list) list \<Rightarrow> device_store \<Rightarrow> bool" where
  "paired_granted grants st \<longleftrightarrow> (\<forall>k d. map_get (ds_paired st) k = Some d \<longrightarrow>
     scopes_granted grants k (tidy_set (nullish (device_baseline (Some d)) [])))"

definition pending_plain :: "device_store \<Rightarrow> bool" where
  "pending_plain st \<longleftrightarrow> list_all (\<lambda>(i, p). plain_roles (resolveRequestedRoles p)) (ds_pending st)"

lemma narrows_granted: "narrows st st' \<Longrightarrow> paired_granted g st \<Longrightarrow> paired_granted g st'"
  unfolding narrows_def paired_granted_def by (metis (no_types, lifting))

lemma narrows_plain: "narrows st st' \<Longrightarrow> pending_plain st \<Longrightarrow> pending_plain st'"
  unfolding narrows_def pending_plain_def list_all_iff by blast

lemma granted_mono: "paired_granted g st \<Longrightarrow> set g \<subseteq> set g' \<Longrightarrow> paired_granted g' st"
  unfolding paired_granted_def using scopes_granted_mono by blast

lemma approve_cases:
  obtains r where "approveDevicePairing i cs fresh tn t now st = (r, st)" and "\<And>j d. r \<noteq> ApproveDone j d"
  | p ex m d where "map_get (ds_pending (load_devices t st)) i = Some p" "ex = map_get (ds_paired st) (dr_deviceId p)"
      "resolveScopeOutsideRequestedRoles (resolveRequestedRoles p) (normalizeDeviceAuthScopes (dr_scopes p)) = None"
      "next_token_scopes cs p (nullish (Option.bind ex pv_tokens) []) (mergeScopes [device_baseline ex, dr_scopes p]) ex
        (resolveRequestedRoles p) [] = Inr m"
      "d = approved_device p ex (mergeRoles [many_roles (Option.bind ex pv_roles), one_role (Option.bind ex pv_role),
          many_roles (dr_roles p), one_role (dr_role p)]) (mergeScopes [device_baseline ex, dr_scopes p])
        (fold (issue_token fresh tn) m (nullish (Option.bind ex pv_tokens) [])) now"
      "approveDevicePairing i cs fresh tn t now st = (ApproveDone i d, store_approved i d (load_devices t st))"
proof (cases "map_get (ds_pending (load_devices t st)) i")
  case None
  then show ?thesis using that(1) [of ApproveUnknown] by (simp add: approveDevicePairing_def Let_def)
next
  case p: (Some p)
  show ?thesis
  proof (cases "resolveScopeOutsideRequestedRoles (resolveRequestedRoles p) (normalizeDeviceAuthScopes (dr_scopes p))")
    case (Some x)
    then show ?thesis using p
        that(1) [of "ApproveForbidden \<lparr>fb_reason = ScopeOutsideRequestedRoles, fb_scope = Some x, fb_role = None\<rparr>"]
      by (simp add: approveDevicePairing_def Let_def resolveRequestedRoles_def)
  next
    case fit: None
    define ex where "ex = map_get (ds_paired st) (dr_deviceId p)"
    show ?thesis
    proof (cases "next_token_scopes cs p (nullish (Option.bind ex pv_tokens) [])
        (mergeScopes [device_baseline ex, dr_scopes p]) ex (resolveRequestedRoles p) []")
      case (Inl x)
      then show ?thesis using p fit that(1) [of "ApproveForbidden x"]
        by (simp add: approveDevicePairing_def Let_def resolveRequestedRoles_def ex_def)
    next
      case (Inr m)
      show ?thesis
        by (rule that(2) [OF p ex_def fit Inr refl])
          (use p fit Inr in \<open>simp add: approveDevicePairing_def Let_def resolveRequestedRoles_def ex_def\<close>)
    qed
  qed
qed

lemma bootstrap_cases:
  fixes prof :: bootstrap_profile
  defines "roles \<equiv> nullish (mergeRoles [Some (ManyRoles (bp_roles prof))]) []"
  obtains r where "approveBootstrapDevicePairing i prof fresh t now st = (r, st)" and "\<And>j d. r \<noteq> ApproveDone j d"
  | p ex d where "map_get (ds_pending (load_devices t st)) i = Some p" "ex = map_get (ds_paired st) (dr_deviceId p)"
      "resolveMissingRequestedScope OPERATOR_ROLE
        (filter (\<lambda>s. starts_with s OPERATOR_SCOPE_PREFIX) (normalizeDeviceAuthScopes (dr_scopes p))) (profile_scopes prof) = None"
      "list_all (\<lambda>r. r \<in> set roles) (resolveRequestedRoles p)"
      "d = approved_device p ex (mergeRoles [many_roles (Option.bind ex pv_roles), one_role (Option.bind ex pv_role),
          many_roles (dr_roles p), one_role (dr_role p), Some (ManyRoles roles)])
        (Some (resolveBootstrapProfileScopesForRoles roles
          (nullish (mergeScopes [device_baseline ex, dr_scopes p, Some (profile_scopes prof)]) [])))
        (fold (issue_bootstrap_token fresh now (profile_scopes prof)) roles (nullish (Option.bind ex pv_tokens) [])) now"
      "approveBootstrapDevicePairing i prof fresh t now st = (ApproveDone i d, store_approved i d (load_devices t st))"
proof (cases "map_get (ds_pending (load_devices t st)) i")
  case None
  then show ?thesis using that(1) [of ApproveUnknown] by (simp add: approveBootstrapDevicePairing_def Let_def)
next
  case p: (Some p)
  define ops where "ops = filter (\<lambda>s. starts_with s OPERATOR_SCOPE_PREFIX) (normalizeDeviceAuthScopes (dr_scopes p))"
  show ?thesis
  proof (cases "find (\<lambda>role. role \<notin> set roles) (resolveRequestedRoles p)")
    case (Some x)
    then show ?thesis using p
        that(1) [of "ApproveForbidden \<lparr>fb_reason = BootstrapRoleNotAllowed, fb_scope = None, fb_role = Some x\<rparr>"]
      by (simp add: approveBootstrapDevicePairing_def Let_def roles_def)
  next
    case fit: None
    show ?thesis
    proof (cases "resolveMissingRequestedScope OPERATOR_ROLE ops (profile_scopes prof)")
      case (Some x)
      then show ?thesis using p fit
          that(1) [of "ApproveForbidden \<lparr>fb_reason = BootstrapScopeNotAllowed, fb_scope = Some x, fb_role = None\<rparr>"]
        by (simp add: approveBootstrapDevicePairing_def Let_def roles_def ops_def profile_scopes_def)
    next
      case None
      have "list_all (\<lambda>r. r \<in> set roles) (resolveRequestedRoles p)" using fit by (auto simp: find_None_iff list_all_iff)
      then show ?thesis
        by (rule that(2) [OF p refl None [unfolded ops_def] _ refl])
          (use p fit None in \<open>simp add: approveBootstrapDevicePairing_def Let_def roles_def ops_def profile_scopes_def\<close>)
    qed
  qed
qed

lemma granted_by_list:
  assumes "s \<in> tidy_set cs" and "starts_with s OPERATOR_SCOPE_PREFIX"
  shows "scope_granted ((dev, cs) # g) dev s"
proof -
  have "s \<in> closed_scopes (set (normalizeScopeList cs))"
    using assms(1) by (simp add: set_scope_list closed_scopes_def)
  then show ?thesis using closed_satisfied assms(2) by (simp add: scope_granted_def)
qed

lemma existing_granted:
  assumes "paired_granted g st" and "ex = map_get (ds_paired st) k"
  shows "scopes_granted g k (tidy_set (nullish (device_baseline ex) []))"
proof (cases ex)
  case None
  then show ?thesis by (simp add: scopes_granted_def device_baseline_def nullish_def nullish_opt_def)
next
  case (Some d)
  then show ?thesis using assms by (simp add: paired_granted_def)
qed

lemma store_approved_granted:
  assumes "paired_granted g st" and "set g \<subseteq> set g'" and "scopes_granted g' (pv_deviceId d) (tidy_set (nullish (device_baseline (Some d)) []))"
  shows "paired_granted g' (store_approved i d (load_devices t st))"
  using assms granted_mono [OF assms(1,2)] by (auto simp: paired_granted_def store_approved_def)

lemma store_approved_plain: "pending_plain st \<Longrightarrow> pending_plain (store_approved i d (load_devices t st))"
  by (simp add: pending_plain_def store_approved_def list_all_delete list_all_prune)

lemma loaded_pending:
  assumes "devices_ok st" and "map_get (ds_pending (load_devices t st)) i = Some p"
  shows "map_get (ds_pending st) i = Some p"
  using assms prune_get [OF devices_okD(3) [OF assms(1)]] by (auto split: option.splits if_splits)

lemma pending_plainD: "pending_plain st \<Longrightarrow> map_get (ds_pending st) i = Some p \<Longrightarrow> plain_roles (resolveRequestedRoles p)"
  by (auto simp: pending_plain_def list_all_iff dest!: map_get_in)

lemma approve_invariant:
  assumes ok: "devices_ok st" and plain: "pending_plain st" and g: "paired_granted g st"
  shows "devices_ok (device_run (OpApprove i cs fresh tn t now) st) \<and> pending_plain (device_run (OpApprove i cs fresh tn t now) st) \<and>
    paired_granted (op_grant (OpApprove i cs fresh tn t now) st @ g) (device_run (OpApprove i cs fresh tn t now) st)"
proof (rule approve_cases [of i cs fresh tn t now st])
  fix r assume "approveDevicePairing i cs fresh tn t now st = (r, st)" "\<And>j d. r \<noteq> ApproveDone j d"
  then show ?thesis using assms by (cases r) auto
next
  fix p ex m d
  assume p: "map_get (ds_pending (load_devices t st)) i = Some p" "ex = map_get (ds_paired st) (dr_deviceId p)"
    and fit: "resolveScopeOutsideRequestedRoles (resolveRequestedRoles p) (normalizeDeviceAuthScopes (dr_scopes p)) = None"
    and m: "next_token_scopes cs p (nullish (Option.bind ex pv_tokens) []) (mergeScopes [device_baseline ex, dr_scopes p]) ex
        (resolveRequestedRoles p) [] = Inr m"
    and d: "d = approved_device p ex (mergeRoles [many_roles (Option.bind ex pv_roles), one_role (Option.bind ex pv_role),
          many_roles (dr_roles p), one_role (dr_role p)]) (mergeScopes [device_baseline ex, dr_scopes p])
        (fold (issue_token fresh tn) m (nullish (Option.bind ex pv_tokens) [])) now"
    and r: "approveDevicePairing i cs fresh tn t now st = (ApproveDone i d, store_approved i d (load_devices t st))"
  let ?dev = "dr_deviceId p" and ?g = "(dr_deviceId p, nullish cs []) # g"
  have stored: "map_get (ds_pending st) i = Some p" by (rule loaded_pending [OF ok p(1)])
  have before: "scopes_granted g ?dev (tidy_set (nullish (device_baseline ex) []))" by (rule existing_granted [OF g p(2)])
  have "scopes_granted ?g ?dev (tidy_set (nullish (dr_scopes p) []))"
    using approve_scopes_granted [OF fit pending_plainD [OF plain stored] m before]
    by (auto simp: scopes_granted_def set_device_scopes closed_scopes_def)
  moreover have "scopes_granted ?g ?dev (tidy_set (nullish (device_baseline ex) []))"
    by (rule scopes_granted_mono [OF before]) auto
  ultimately have "scopes_granted ?g (pv_deviceId d) (tidy_set (nullish (device_baseline (Some d)) []))"
    by (auto simp: d tidy_mergeScopes scopes_granted_def)
  then have "paired_granted ?g (store_approved i d (load_devices t st))"
    by (intro store_approved_granted [OF g]) auto
  moreover have "devices_ok (store_approved i d (load_devices t st))"
    using devices_okD(5) [OF ok stored] by (intro store_approved_ok devices_ok_load ok) (simp add: d)
  ultimately show ?thesis using r store_approved_plain [OF plain] by (simp add: d)
qed

lemma bootstrap_invariant:
  assumes ok: "devices_ok st" and plain: "pending_plain st" and g: "paired_granted g st"
  shows "devices_ok (device_run (OpApproveBootstrap i prof fresh t now) st) \<and>
    pending_plain (device_run (OpApproveBootstrap i prof fresh t now) st) \<and>
    paired_granted (op_grant (OpApproveBootstrap i prof fresh t now) st @ g) (device_run (OpApproveBootstrap i prof fresh t now) st)"
proof (rule bootstrap_cases [of i prof fresh t now st])
  fix r assume "approveBootstrapDevicePairing i prof fresh t now st = (r, st)" "\<And>j d. r \<noteq> ApproveDone j d"
  then show ?thesis using assms by (cases r) auto
next
  let ?roles = "nullish (mergeRoles [Some (ManyRoles (bp_roles prof))]) []"
  fix p :: pending_device and ex d
  let ?X = "nullish (mergeScopes [device_baseline ex, dr_scopes p, Some (profile_scopes prof)]) []"
  assume p: "map_get (ds_pending (load_devices t st)) i = Some p" "ex = map_get (ds_paired st) (dr_deviceId p)"
    and ops: "resolveMissingRequestedScope OPERATOR_ROLE
        (filter (\<lambda>s. starts_with s OPERATOR_SCOPE_PREFIX) (normalizeDeviceAuthScopes (dr_scopes p))) (profile_scopes prof) = None"
    and d: "d = approved_device p ex (mergeRoles [many_roles (Option.bind ex pv_roles), one_role (Option.bind ex pv_role),
          many_roles (dr_roles p), one_role (dr_role p), Some (ManyRoles ?roles)])
        (Some (resolveBootstrapProfileScopesForRoles ?roles ?X))
        (fold (issue_bootstrap_token fresh now (profile_scopes prof)) ?roles (nullish (Option.bind ex pv_tokens) [])) now"
    and r: "approveBootstrapDevicePairing i prof fresh t now st = (ApproveDone i d, store_approved i d (load_devices t st))"
  let ?dev = "dr_deviceId p" and ?g = "(dr_deviceId p, profile_scopes prof) # g"
  have stored: "map_get (ds_pending st) i = Some p" by (rule loaded_pending [OF ok p(1)])
  have "scopes_granted ?g ?dev (tidy_set (nullish (device_baseline ex) []))"
    by (rule scopes_granted_mono [OF existing_granted [OF g p(2)]]) auto
  moreover have "scopes_granted ?g ?dev (tidy_set (nullish (dr_scopes p) []))"
    using missing_scope_None [OF ops] device_scopes_tidy [where scopes = "dr_scopes p"]
    by (auto simp: scopes_granted_def scope_granted_def set_device_scopes closed_scopes_def)
  moreover have "scopes_granted ?g ?dev (tidy_set (profile_scopes prof))"
    by (simp add: scopes_granted_def granted_by_list)
  ultimately have "scopes_granted ?g ?dev (tidy_set ?X)"
    unfolding tidy_mergeScopes by (auto simp: scopes_granted_def nullish_def)
  then have "scopes_granted ?g ?dev (closed_scopes (tidy_set ?X))" by (simp add: scopes_granted_closed)
  then have "scopes_granted ?g ?dev (set (resolveBootstrapProfileScopesForRoles ?roles ?X))"
    by (rule scopes_granted_mono [OF _ subset_refl handoff_scopes_closed])
  then have "scopes_granted ?g (pv_deviceId d) (tidy_set (nullish (device_baseline (Some d)) []))"
    by (simp add: d nullish_def resolveBootstrapProfileScopesForRoles_def tidy_set_device_scopes)
  then have "paired_granted ?g (store_approved i d (load_devices t st))"
    by (intro store_approved_granted [OF g]) auto
  moreover have "devices_ok (store_approved i d (load_devices t st))"
    using devices_okD(5) [OF ok stored] by (intro store_approved_ok devices_ok_load ok) (simp add: d)
  ultimately show ?thesis using r store_approved_plain [OF plain] by (simp add: d)
qed

lemma normalizeRole_tidy: "normalizeRole r = Some x \<Longrightarrow> x \<in> tidy_set (case r of None \<Rightarrow> [] | Some y \<Rightarrow> [y])"
  by (auto simp: normalizeRole_def truthy_def tidy_set_def split: option.splits if_splits)

lemma replacement_roles:
  assumes "r \<in> set (resolveRequestedRoles (replacement_request i d rep now existing incoming))"
  shows "r \<in> set (resolveRequestedRoles incoming) \<or> (\<exists>e\<in>set existing. r \<in> set (resolveRequestedRoles e))"
proof -
  let ?items = "concat (map (\<lambda>p. [many_roles (dr_roles p), one_role (dr_role p)]) existing) @
      [many_roles (dr_roles incoming), one_role (dr_role incoming)]"
  let ?latest = "case existing of [] \<Rightarrow> None | latest # _ \<Rightarrow> dr_role latest"
  define role where "role = normalizeRole (nullish_opt (normalizeRole (dr_role incoming)) ?latest)"
  have merged: "x \<in> set (nullish (mergeRoles ?items) []) \<Longrightarrow>
      x \<in> set (resolveRequestedRoles incoming) \<or> (\<exists>e\<in>set existing. x \<in> set (resolveRequestedRoles e))" for x
    unfolding set_mergeRoles by (auto simp: requested_roles)
  have role: "x \<in> set (resolveRequestedRoles incoming) \<or> (\<exists>e\<in>set existing. x \<in> set (resolveRequestedRoles e))"
    if "role = Some x" for x
  proof (cases "normalizeRole (dr_role incoming)")
    case (Some y)
    then have "normalizeRole (Some y) = Some x" using that by (simp add: role_def nullish_opt_def)
    moreover have "y \<in> tidy_set (case dr_role incoming of None \<Rightarrow> [] | Some z \<Rightarrow> [z])" by (rule normalizeRole_tidy [OF Some])
    ultimately have "x = y" using tidy_set_tidy by (fastforce simp: normalizeRole_def truthy_def split: if_splits)
    then show ?thesis using normalizeRole_tidy [OF Some] by (simp add: requested_roles)
  next
    case None
    then have "x \<in> tidy_set (case ?latest of None \<Rightarrow> [] | Some y \<Rightarrow> [y])"
      using that normalizeRole_tidy [of ?latest x] by (simp add: role_def nullish_opt_def)
    then show ?thesis by (cases existing) (auto simp: requested_roles)
  qed
  have "set (resolveRequestedRoles (replacement_request i d rep now existing incoming)) =
      tidy_set (nullish (mergeRoles [many_roles (mergeRoles ?items), one_role role]) []) \<union>
      tidy_set (case role of None \<Rightarrow> [] | Some x \<Rightarrow> [x])"
    by (simp add: requested_roles replacement_request_def buildPendingDevicePairingRequest_def Let_def role_def)
  also have "\<dots> = set (nullish (mergeRoles ?items) []) \<union> tidy_set (case role of None \<Rightarrow> [] | Some x \<Rightarrow> [x])"
    unfolding tidy_mergeRoles set_mergeRoles [of "[_, _]"] using tidy_mergeRoles [of ?items] by auto
  finally have "r \<in> set (nullish (mergeRoles ?items) []) \<or> (\<exists>x. role = Some x \<and> r \<in> tidy_set [x])"
    using assms by (cases role) auto
  moreover have "r = x" if "role = Some x" "r \<in> tidy_set [x]" for x
  proof -
    have "js_trim x = x" using normalizeRole_tidy [of _ x] that(1) tidy_set_tidy unfolding role_def by metis
    then show ?thesis using that(2) by (simp add: tidy_set_def)
  qed
  ultimately show ?thesis using merged role by blast
qed

fun plain_op :: "device_op \<Rightarrow> bool" where
  "plain_op (OpRequest req i t now) = plain_roles (resolveRequestedRoles req)"
| "plain_op _ = True"

lemma request_plain:
  assumes plain: "pending_plain st" and req: "plain_roles (resolveRequestedRoles req)"
  shows "pending_plain (snd (requestDevicePairing req i t now st))"
proof (cases "normalizeDeviceId (dr_deviceId req) = []")
  case True
  then show ?thesis using plain by (simp add: requestDevicePairing_def)
next
  case False
  define d where "d = normalizeDeviceId (dr_deviceId req)"
  define m where "m = ds_pending (load_devices t st)"
  define rep where "rep = (map_get (ds_paired st) d \<noteq> None)"
  let ?P = "\<lambda>p. plain_roles (resolveRequestedRoles p)"
  have m: "list_all (\<lambda>(i, p). ?P p) m" using plain by (simp add: m_def pending_plain_def list_all_prune)
  have ex: "?P e" if "e \<in> set (pending_of_device d m)" for e
    using m that by (auto simp: set_pending_of_device list_all_iff)
  have "list_all (\<lambda>(i, p). ?P p) (snd (reconcilePendingPairingRequests pd_requestId m (pending_of_device d m) req
      samePendingApprovalSnapshot (refreshPendingDevicePairingRequest rep) (replacement_request i d rep now)))"
  proof (rule list_all_reconcile [OF m])
    show "?P (refreshPendingDevicePairingRequest rep e req)" if "?P e" for e
      using that by (simp add: plain_roles_def list_all_iff requested_roles refreshPendingDevicePairingRequest_def)
    show "?P (replacement_request i d rep now (pending_of_device d m) req)"
      using req ex by (auto simp: plain_roles_def list_all_iff dest!: replacement_roles)
  qed (rule ex)
  then show ?thesis
    using False by (simp add: requestDevicePairing_def Let_def case_prod_beta pending_plain_def d_def m_def rep_def)
qed

lemma request_paired: "ds_paired (snd (requestDevicePairing req i t now st)) = ds_paired st"
  by (simp add: requestDevicePairing_def Let_def case_prod_beta)

section \<open>Properties of device pairing\<close>

text \<open>
  The properties of the device store over every sequence of operations, with a run as witness: a
  phone asks to pair as operator, is approved by a caller with read and write scopes, and connects
  with its token.
\<close>

subsection \<open>The invariant along a run\<close>

lemma empty_devices_ok: "devices_ok empty_devices" "pending_plain empty_devices" "paired_granted g empty_devices"
  by (simp_all add: devices_ok_def empty_devices_def one_pending_def pending_plain_def paired_granted_def)

lemma device_run_ok:
  assumes "devices_ok st"
  shows "devices_ok (device_run op st)"
proof (cases op)
  case (OpRequest req i t now)
  then show ?thesis using request_ok [OF assms] by simp
next
  case (OpApprove i cs fresh tn t now)
  have "devices_ok (snd (approveDevicePairing i cs fresh tn t now st))"
  proof (rule approve_cases [of i cs fresh tn t now st])
    fix p ex m d
    assume p: "map_get (ds_pending (load_devices t st)) i = Some p"
      and d: "d = approved_device p ex (mergeRoles [many_roles (Option.bind ex pv_roles), one_role (Option.bind ex pv_role),
          many_roles (dr_roles p), one_role (dr_role p)]) (mergeScopes [device_baseline ex, dr_scopes p])
        (fold (issue_token fresh tn) m (nullish (Option.bind ex pv_tokens) [])) now"
      and r: "approveDevicePairing i cs fresh tn t now st = (ApproveDone i d, store_approved i d (load_devices t st))"
    have "devices_ok (store_approved i d (load_devices t st))"
      using devices_okD(5) [OF assms loaded_pending [OF assms p]] by (intro store_approved_ok devices_ok_load assms) (simp add: d)
    then show ?thesis using r by simp
  qed (use assms in simp)
  then show ?thesis using OpApprove by simp
next
  case (OpApproveBootstrap i prof fresh t now)
  have "devices_ok (snd (approveBootstrapDevicePairing i prof fresh t now st))"
  proof (rule bootstrap_cases [of i prof fresh t now st])
    fix p ex d roles scopes tokens
    assume p: "map_get (ds_pending (load_devices t st)) i = Some p"
      and r: "approveBootstrapDevicePairing i prof fresh t now st = (ApproveDone i d, store_approved i d (load_devices t st))"
      and d: "d = approved_device p ex roles scopes tokens now"
    have "devices_ok (store_approved i d (load_devices t st))"
      using devices_okD(5) [OF assms loaded_pending [OF assms p]] by (intro store_approved_ok devices_ok_load assms) (simp add: d)
    then show ?thesis using r by simp
  qed (use assms in simp_all)
  then show ?thesis using OpApproveBootstrap by simp
qed (use assms reject_narrows remove_narrows clear_narrows metadata_narrows token_ops_narrow in \<open>simp_all add: narrows_def\<close>)

lemma device_run_invariant:
  assumes "devices_ok st" and "pending_plain st" and "paired_granted g st" and "plain_op op"
  shows "pending_plain (device_run op st) \<and> paired_granted (op_grant op st @ g) (device_run op st)"
proof -
  have narrow: "pending_plain st' \<and> paired_granted g st'" if "narrows st st'" for st'
    using that assms narrows_plain narrows_granted by blast
  show ?thesis
  proof (cases op)
    case (OpRequest req i t now)
    then show ?thesis
      using request_plain [OF assms(2)] assms(3,4) by (simp add: paired_granted_def request_paired)
  next
    case (OpApprove i cs fresh tn t now)
    then show ?thesis using approve_invariant [OF assms(1-3)] by simp
  next
    case (OpApproveBootstrap i prof fresh t now)
    then show ?thesis using bootstrap_invariant [OF assms(1-3)] by simp
  qed (use assms(1) reject_narrows remove_narrows clear_narrows metadata_narrows token_ops_narrow narrow in simp_all)
qed

lemma device_history_ok: "devices_ok st \<Longrightarrow> devices_ok (device_history ops st)"
  unfolding device_history_def by (induction ops arbitrary: st) (simp_all add: device_run_ok)

lemma history_granted:
  assumes "devices_ok st" and "pending_plain st" and "paired_granted g st" and "list_all plain_op ops"
  shows "paired_granted (device_grants ops st @ g) (device_history ops st)"
  using assms unfolding device_history_def
proof (induction ops arbitrary: st g)
  case (Cons op ops)
  have "pending_plain (device_run op st)" "paired_granted (op_grant op st @ g) (device_run op st)"
    using device_run_invariant [OF Cons.prems(1-3), of op] Cons.prems(4) by simp_all
  then have "paired_granted (device_grants ops (device_run op st) @ op_grant op st @ g) (fold device_run ops (device_run op st))"
    using Cons.IH [OF device_run_ok [OF Cons.prems(1)]] Cons.prems(4) by simp
  then have "paired_granted (device_grants (op # ops) st @ g) (fold device_run ops (device_run op st))"
    by (rule granted_mono) auto
  then show ?case by simp
qed simp

lemma verify_ok_cases:
  assumes "tc_ok (fst (verifyDeviceToken dev tok role scopes t now st))"
  obtains d r e where "map_get (ds_paired st) (normalizeDeviceId dev) = Some d" "normalizeRole (Some role) = Some r"
    "map_get (nullish (pv_tokens d) []) r = Some e" "\<not> token_revoked e" "verifyPairingToken tok (dt_token e)"
    "scopesWithinApprovedDeviceBaseline r (dt_scopes e) (resolveApprovedDeviceScopeBaseline d)"
    "roleScopesAllow r (normalizeDeviceAuthScopes (Some scopes)) (dt_scopes e)"
  using assms
  by (auto simp: verifyDeviceToken_def getPairedDeviceFromState_def verify_failed_def Let_def
      split: option.splits if_splits)

lemma operator_trimmed: "js_trim role = OPERATOR_ROLE \<Longrightarrow> normalizeRole (Some role) = Some OPERATOR_ROLE"
  by (simp add: normalizeRole_def OPERATOR_ROLE_def)

lemma verified_scope_granted:
  assumes verified: "tc_ok (fst (verifyDeviceToken dev tok role scopes t now st))"
    and role: "js_trim role = OPERATOR_ROLE" and g: "paired_granted g st"
    and s: "s \<in> set (normalizeDeviceAuthScopes (Some scopes))"
  shows "scope_granted g (normalizeDeviceId dev) s"
proof -
  obtain d r and e :: device_token where d: "map_get (ds_paired st) (normalizeDeviceId dev) = Some d" and r: "normalizeRole (Some role) = Some r"
    and checks: "scopesWithinApprovedDeviceBaseline r (dt_scopes e) (resolveApprovedDeviceScopeBaseline d)"
      "roleScopesAllow r (normalizeDeviceAuthScopes (Some scopes)) (dt_scopes e)"
    by (rule verify_ok_cases [OF verified], rule that, assumption+)
  have within: "scopesWithinApprovedDeviceBaseline OPERATOR_ROLE (dt_scopes e) (resolveApprovedDeviceScopeBaseline d)"
    and allowed: "roleScopesAllow OPERATOR_ROLE (normalizeDeviceAuthScopes (Some scopes)) (dt_scopes e)"
    using checks r operator_trimmed [OF role] by simp_all
  let ?k = "normalizeDeviceId dev"
  obtain b where b: "device_baseline (Some d) = Some b"
    using within by (auto simp: scopesWithinApprovedDeviceBaseline_def resolveApprovedDeviceScopeBaseline_def split: option.splits)
  have "scopes_granted g ?k (tidy_set (nullish (device_baseline (Some d)) []))" using g d by (simp add: paired_granted_def)
  then have "scopes_granted g ?k (closed_scopes (tidy_set b))" by (simp add: scopes_granted_closed b)
  then have base: "scopes_granted g ?k (set (normalizeScopeList (normalizeDeviceAuthScopes (Some b))))"
    by (simp add: set_scope_list tidy_set_device_scopes set_device_scopes nullish_def)
  have "scopes_granted g ?k (set (normalizeScopeList (dt_scopes e)))"
    unfolding scopes_granted_def set_scope_list
    using operator_scopes_allowed [of "dt_scopes e"] within b granted_satisfied [OF base]
    by (auto simp: scopesWithinApprovedDeviceBaseline_def resolveApprovedDeviceScopeBaseline_def)
  moreover have "operatorScopeSatisfied s (normalizeScopeList (dt_scopes e))"
    using operator_scopes_allowed [OF allowed] s by (simp add: tidy_set_device_scopes)
  ultimately show ?thesis by (rule granted_satisfied)
qed

lemma device_granted:
  assumes "list_all plain_op ops"
    and "tc_ok (fst (verifyDeviceToken dev tok role scopes t now (device_history ops empty_devices)))"
    and "js_trim role = OPERATOR_ROLE" and "s \<in> set (normalizeDeviceAuthScopes (Some scopes))"
  shows "scope_granted (device_grants ops empty_devices) (normalizeDeviceId dev) s"
proof -
  have "paired_granted (device_grants ops empty_devices) (device_history ops empty_devices)"
    using history_granted [OF empty_devices_ok(1,2) empty_devices_ok(3) [of "[]"] assms(1)] by simp
  then show ?thesis using verified_scope_granted assms(2-4) by blast
qed

subsection \<open>Live tokens\<close>

definition live_token :: "device_store \<Rightarrow> string \<Rightarrow> string \<Rightarrow> string \<Rightarrow> bool" where
  "live_token st dev role tok =
     (case map_get (ds_paired st) dev of
        None \<Rightarrow> False
      | Some d \<Rightarrow> (case map_get (nullish (pv_tokens d) []) role of
          None \<Rightarrow> False
        | Some e \<Rightarrow> \<not> token_revoked e \<and> dt_token e = tok))"

text \<open>An operation that may bring a token string back: it draws that string as a new token, or it
  marks a revocation with the time 0, which reads as no mark.\<close>

fun reissues :: "device_op \<Rightarrow> string \<Rightarrow> bool" where
  "reissues (OpApprove i cs fresh tn t now) tok = (tok \<in> range fresh)"
| "reissues (OpApproveBootstrap i prof fresh t now) tok = (tok \<in> range fresh)"
| "reissues (OpEnsure d r ss fresh t now) tok = (tok = fresh)"
| "reissues (OpRotate d r ss cs fresh t now) tok = (tok = fresh)"
| "reissues (OpRevoke d r cs t now) tok = (now = 0)"
| "reissues _ tok = False"

lemma verified_live:
  assumes "tc_ok (fst (verifyDeviceToken dev tok role scopes t now st))"
  shows "live_token st (normalizeDeviceId dev) (js_trim role) tok"
proof -
  obtain d r e where "map_get (ds_paired st) (normalizeDeviceId dev) = Some d" "normalizeRole (Some role) = Some r"
    "map_get (nullish (pv_tokens d) []) r = Some e" "\<not> token_revoked e" "verifyPairingToken tok (dt_token e)"
    by (rule verify_ok_cases [OF assms], rule that, assumption+)
  then show ?thesis
    by (auto simp: live_token_def verify_pairing_token normalizeRole_def truthy_def split: option.splits if_splits)
qed

text \<open>Writing one entry of the table of a device.\<close>

lemma live_put:
  assumes ok: "devices_ok st" and d: "map_get (ds_paired st) k = Some d"
    and live: "live_token (put_device_tokens (load_devices t st) d (map_set (nullish (pv_tokens d) []) r e) st) dev role tok"
  shows "live_token st dev role tok \<or> (dev = k \<and> role = r \<and> \<not> token_revoked e \<and> dt_token e = tok)"
  using live d devices_okD(4) [OF ok d]
  by (auto simp: live_token_def split: option.splits if_splits)

lemma live_same: "ds_paired st' = ds_paired st \<Longrightarrow> live_token st' = live_token st"
  by (simp add: live_token_def fun_eq_iff)

lemma live_delete: "ds_paired st' = map_delete (ds_paired st) k \<Longrightarrow> live_token st' dev role tok \<Longrightarrow> dev \<noteq> k \<and> live_token st dev role tok"
  by (auto simp: live_token_def split: option.splits if_splits)

lemma live_shrunk: "ds_paired st' = ds_paired st \<or> ds_paired st' = map_delete (ds_paired st) k \<Longrightarrow>
    live_token st' dev role tok \<Longrightarrow> live_token st dev role tok"
  using live_same live_delete by metis

lemma fold_issued_tokens:
  assumes "map_get (fold (issue_token fresh tn) m tokens) role = Some e"
  shows "map_get tokens role = Some e \<or> dt_token e \<in> range fresh"
  using assms
proof (induction m arbitrary: tokens)
  case (Cons p m)
  then show ?case using Cons.IH [of "issue_token fresh tn p tokens"] by (auto simp: issue_token_def Let_def split: if_splits)
qed simp

lemma fold_bootstrap_tokens:
  assumes "map_get (fold (issue_bootstrap_token fresh now scopes) roles tokens) role = Some e"
  shows "map_get tokens role = Some e \<or> dt_token e \<in> range fresh"
  using assms
proof (induction roles arbitrary: tokens)
  case (Cons p m)
  then show ?case using Cons.IH [of "issue_bootstrap_token fresh now scopes p tokens"]
    by (auto simp: issue_bootstrap_token_def buildDeviceAuthToken_def Let_def split: if_splits)
qed simp

lemma live_approved:
  assumes "live_token (store_approved i d (load_devices t st)) dev role tok" and "pv_tokens d = Some tokens"
    and "\<And>e. map_get tokens role = Some e \<Longrightarrow> dt_token e = tok \<Longrightarrow>
      map_get (nullish (Option.bind (map_get (ds_paired st) (pv_deviceId d)) pv_tokens) []) role = Some e"
  shows "live_token st dev role tok"
  using assms
  by (cases "map_get (ds_paired st) (pv_deviceId d)")
    (auto simp: live_token_def store_approved_def nullish_def split: option.splits if_splits)

text \<open>The token operations leave the store or write one entry.\<close>

definition writes_entry :: "device_store \<Rightarrow> device_store \<Rightarrow> int \<Rightarrow> (paired_device \<Rightarrow> string \<Rightarrow> device_token \<Rightarrow> bool) \<Rightarrow> bool" where
  "writes_entry st st' t P \<longleftrightarrow> st' = st \<or> (\<exists>k d r e. map_get (ds_paired st) k = Some d \<and> P d r e \<and>
     st' = put_device_tokens (load_devices t st) d (map_set (nullish (pv_tokens d) []) r e) st)"

lemma writes_same: "writes_entry st st t P"
  by (simp add: writes_entry_def)

lemma writes_entryI: "map_get (ds_paired st) k = Some d \<Longrightarrow> P d r e \<Longrightarrow>
    writes_entry st (put_device_tokens (load_devices t st) d (map_set (nullish (pv_tokens d) []) r e) st) t P"
  by (auto simp: writes_entry_def)

lemmas writes_rules = writes_same writes_entryI

lemma verify_writes: "writes_entry st (snd (verifyDeviceToken dev tok role ss t now st)) t
    (\<lambda>d r e. \<exists>e0. map_get (nullish (pv_tokens d) []) r = Some e0 \<and> e = e0\<lparr>dt_lastUsedAtMs := Some now\<rparr>)"
  unfolding verifyDeviceToken_def getPairedDeviceFromState_def Let_def load_simps
  by (auto split: option.split intro: writes_rules)

lemma ensure_writes: "writes_entry st (snd (ensureDeviceToken dev role ss fresh t now st)) t (\<lambda>d r e. dt_token e = fresh)"
  unfolding ensureDeviceToken_def Let_def buildDeviceAuthToken_def
  by (auto split: option.split dest!: context_device intro: writes_rules)

lemma rotate_writes: "writes_entry st (snd (rotateDeviceToken dev role oss cs fresh t now st)) t (\<lambda>d r e. dt_token e = fresh)"
  unfolding rotateDeviceToken_def Let_def buildDeviceAuthToken_def
  by (auto split: option.split dest!: context_device intro: writes_rules)

lemma revoke_writes: "writes_entry st (snd (revokeDeviceToken dev role cs t now st)) t (\<lambda>d r e. dt_revokedAtMs e = Some now)"
  unfolding revokeDeviceToken_def Let_def
  by (auto split: option.split dest!: context_device intro: writes_rules)

lemma writes_live:
  assumes ok: "devices_ok st" and w: "writes_entry st st' t P" and live: "live_token st' dev role tok"
    and P: "\<And>d e. P d role e \<Longrightarrow> map_get (ds_paired st) dev = Some d \<Longrightarrow> \<not> token_revoked e \<Longrightarrow> dt_token e = tok \<Longrightarrow>
      live_token st dev role tok"
  shows "live_token st dev role tok"
  using w unfolding writes_entry_def
proof
  assume "\<exists>k d r e. map_get (ds_paired st) k = Some d \<and> P d r e \<and>
     st' = put_device_tokens (load_devices t st) d (map_set (nullish (pv_tokens d) []) r e) st"
  then obtain k d r e where d: "map_get (ds_paired st) k = Some d" "P d r e"
    and st': "st' = put_device_tokens (load_devices t st) d (map_set (nullish (pv_tokens d) []) r e) st" by blast
  show ?thesis using live_put [OF ok d(1) live [unfolded st']] d P [of d e] by auto
qed (use live in simp)

lemma live_token_ops:
  assumes ok: "devices_ok st"
  shows "live_token (snd (verifyDeviceToken d tk r ss t now st)) dev role tok \<Longrightarrow> live_token st dev role tok"
    and "live_token (snd (ensureDeviceToken d r ss fresh t now st)) dev role tok \<Longrightarrow> tok \<noteq> fresh \<Longrightarrow> live_token st dev role tok"
    and "live_token (snd (rotateDeviceToken d r oss cs fresh t now st)) dev role tok \<Longrightarrow> tok \<noteq> fresh \<Longrightarrow>
      live_token st dev role tok"
    and "live_token (snd (revokeDeviceToken d r cs t now st)) dev role tok \<Longrightarrow> now \<noteq> 0 \<Longrightarrow> live_token st dev role tok"
proof -
  show "live_token st dev role tok" if "live_token (snd (verifyDeviceToken d tk r ss t now st)) dev role tok"
    by (rule writes_live [OF ok verify_writes that]) (auto simp: live_token_def token_revoked_def)
  show "live_token st dev role tok" if "live_token (snd (ensureDeviceToken d r ss fresh t now st)) dev role tok" "tok \<noteq> fresh"
    by (rule writes_live [OF ok ensure_writes that(1)]) (use that(2) in simp)
  show "live_token st dev role tok" if "live_token (snd (rotateDeviceToken d r oss cs fresh t now st)) dev role tok" "tok \<noteq> fresh"
    by (rule writes_live [OF ok rotate_writes that(1)]) (use that(2) in simp)
  show "live_token st dev role tok" if "live_token (snd (revokeDeviceToken d r cs t now st)) dev role tok" "now \<noteq> 0"
    by (rule writes_live [OF ok revoke_writes that(1)]) (use that(2) in \<open>simp add: token_revoked_def\<close>)
qed

lemma live_run:
  assumes ok: "devices_ok st" and live: "live_token (device_run op st) dev role tok" and fresh: "\<not> reissues op tok"
  shows "live_token st dev role tok"
proof (cases op)
  case (OpRequest req i t now)
  then show ?thesis using live live_same [OF request_paired, of req i t now st] by simp
next
  case (OpApprove i cs fr tn t now)
  show ?thesis
  proof (rule approve_cases [of i cs fr tn t now st])
    fix p ex m d
    assume ex: "ex = map_get (ds_paired st) (dr_deviceId p)"
      and d: "d = approved_device p ex (mergeRoles [many_roles (Option.bind ex pv_roles), one_role (Option.bind ex pv_role),
          many_roles (dr_roles p), one_role (dr_role p)]) (mergeScopes [device_baseline ex, dr_scopes p])
        (fold (issue_token fr tn) m (nullish (Option.bind ex pv_tokens) [])) now"
      and r: "approveDevicePairing i cs fr tn t now st = (ApproveDone i d, store_approved i d (load_devices t st))"
    show ?thesis
    proof (rule live_approved)
      show "live_token (store_approved i d (load_devices t st)) dev role tok" using live OpApprove r by simp
      show "map_get (nullish (Option.bind (map_get (ds_paired st) (pv_deviceId d)) pv_tokens) []) role = Some e"
        if "map_get (fold (issue_token fr tn) m (nullish (Option.bind ex pv_tokens) [])) role = Some e" "dt_token e = tok" for e
        using fold_issued_tokens [OF that(1)] that(2) fresh OpApprove ex by (auto simp: d)
    qed (simp add: d)
  qed (use live OpApprove in simp)
next
  case (OpApproveBootstrap i prof fr t now)
  show ?thesis
  proof (rule bootstrap_cases [of i prof fr t now st])
    fix p ex d roles scopes rs
    assume ex: "ex = map_get (ds_paired st) (dr_deviceId p)"
      and d: "d = approved_device p ex roles scopes
        (fold (issue_bootstrap_token fr now (profile_scopes prof)) rs (nullish (Option.bind ex pv_tokens) [])) now"
      and r: "approveBootstrapDevicePairing i prof fr t now st = (ApproveDone i d, store_approved i d (load_devices t st))"
    show ?thesis
    proof (rule live_approved)
      show "live_token (store_approved i d (load_devices t st)) dev role tok" using live OpApproveBootstrap r by simp
      show "map_get (nullish (Option.bind (map_get (ds_paired st) (pv_deviceId d)) pv_tokens) []) role = Some e"
        if "map_get (fold (issue_bootstrap_token fr now (profile_scopes prof)) rs (nullish (Option.bind ex pv_tokens) [])) role = Some e"
          "dt_token e = tok" for e
        using fold_bootstrap_tokens [OF that(1)] that(2) fresh OpApproveBootstrap ex by (auto simp: d)
    qed (simp add: d)
  qed (use live OpApproveBootstrap in simp_all)
next
  case (OpReject i t)
  have "ds_paired (snd (rejectDevicePairing i t st)) = ds_paired st"
    by (simp add: rejectDevicePairing_def Let_def case_prod_beta)
  then have "ds_paired (snd (rejectDevicePairing i t st)) = ds_paired st \<or> ds_paired (snd (rejectDevicePairing i t st)) = map_delete (ds_paired st) i" ..
  then show ?thesis by (rule live_shrunk) (use live OpReject in simp)
next
  case (OpRemove d t)
  have "ds_paired (snd (removePairedDevice d t st)) = ds_paired st \<or>
      ds_paired (snd (removePairedDevice d t st)) = map_delete (ds_paired st) (normalizeDeviceId d)"
    by (simp add: removePairedDevice_def Let_def)
  then show ?thesis by (rule live_shrunk) (use live OpRemove in simp)
next
  case (OpClear d t)
  have "ds_paired (snd (clearDevicePairing d t st)) = ds_paired st \<or>
      ds_paired (snd (clearDevicePairing d t st)) = map_delete (ds_paired st) (normalizeDeviceId d)"
    by (simp add: clearDevicePairing_def Let_def)
  then show ?thesis by (rule live_shrunk) (use live OpClear in simp)
next
  case (OpMetadata d p t)
  then show ?thesis using live
    by (auto simp: updatePairedDeviceMetadata_def Let_def live_token_def split: option.splits if_splits)
next
  case (OpVerify d tk r ss t now)
  then show ?thesis using live live_token_ops(1) [OF ok] by simp
next
  case (OpEnsure d r ss fr t now)
  then show ?thesis using live fresh live_token_ops(2) [OF ok] by simp
next
  case (OpRotate d r ss cs fr t now)
  then show ?thesis using live fresh live_token_ops(3) [OF ok] by simp
next
  case (OpRevoke d r cs t now)
  then show ?thesis using live fresh live_token_ops(4) [OF ok] by simp
qed

text \<open>The operations that withdraw a token: revoking it, rotating it, removing the device.\<close>

fun withdraws :: "device_op \<Rightarrow> device_store \<Rightarrow> string \<Rightarrow> string \<Rightarrow> string \<Rightarrow> bool" where
  "withdraws (OpRevoke d r cs t now) st dev role tok \<longleftrightarrow>
     d = dev \<and> r = role \<and> now \<noteq> 0 \<and> \<not> isl (fst (revokeDeviceToken d r cs t now st))"
| "withdraws (OpRotate d r ss cs fresh t now) st dev role tok \<longleftrightarrow>
     d = dev \<and> r = role \<and> fresh \<noteq> tok \<and> \<not> isl (fst (rotateDeviceToken d r ss cs fresh t now st))"
| "withdraws (OpRemove d t) st dev role tok \<longleftrightarrow> d = dev"
| "withdraws (OpClear d t) st dev role tok \<longleftrightarrow> d = dev"
| "withdraws _ st dev role tok \<longleftrightarrow> False"

lemma normalized_role: "normalizeRole (Some role) = Some r \<Longrightarrow> r = js_trim role"
  by (auto simp: normalizeRole_def truthy_def split: if_splits)

lemma written_entry_live:
  assumes "devices_ok st" and "map_get (ds_paired st) k = Some d"
  shows "live_token (put_device_tokens (load_devices t st) d (map_set tokens r e) st) k r tok \<longleftrightarrow>
    \<not> token_revoked e \<and> dt_token e = tok"
  using devices_okD(4) [OF assms] by (simp add: live_token_def)

lemma withdrawn_dead:
  assumes ok: "devices_ok st" and w: "withdraws op st dev role tok"
  shows "\<not> live_token (device_run op st) (normalizeDeviceId dev) (js_trim role) tok"
proof (cases op)
  case (OpRevoke d r cs t now)
  then show ?thesis
    using w written_entry_live [OF ok]
    by (auto simp: revokeDeviceToken_def token_revoked_def Let_def split: option.splits
        dest!: context_device dest: normalized_role)
next
  case (OpRotate d r ss cs fresh t now)
  then show ?thesis
    using w written_entry_live [OF ok]
    by (auto simp: rotateDeviceToken_def buildDeviceAuthToken_def Let_def split: option.splits if_splits
        dest!: context_device dest: normalized_role)
next
  case (OpRemove d t)
  have "map_get (ds_paired st) [] = None"
    using devices_okD(4) [OF ok, of "[]"] by (cases "map_get (ds_paired st) []") (auto simp: tidy_id_def)
  then show ?thesis using w OpRemove by (auto simp: removePairedDevice_def live_token_def Let_def)
next
  case (OpClear d t)
  then show ?thesis using w by (auto simp: clearDevicePairing_def live_token_def Let_def)
qed (use w in simp_all)

lemma dead_history:
  assumes "devices_ok st" and "\<not> live_token st dev role tok" and "list_all (\<lambda>op. \<not> reissues op tok) ops"
  shows "\<not> live_token (device_history ops st) dev role tok"
  using assms unfolding device_history_def
proof (induction ops arbitrary: st)
  case (Cons op ops)
  have "\<not> live_token (device_run op st) dev role tok"
    using live_run [OF Cons.prems(1)] Cons.prems(2,3) by auto
  then show ?case using Cons.IH [OF device_run_ok [OF Cons.prems(1), of op]] Cons.prems(3) by simp
qed simp

subsection \<open>A sample run\<close>

definition sample_request :: "string \<Rightarrow> string list \<Rightarrow> device_request" where
  "sample_request role scopes =
     \<lparr>dr_deviceId = ''phone'', dr_publicKey = ''k'', dr_displayName = None, dr_platform = None, dr_deviceFamily = None,
      dr_clientId = None, dr_clientMode = None, dr_role = Some role, dr_roles = None, dr_scopes = Some scopes,
      dr_remoteIp = None, dr_silent = None\<rparr>"

definition sample_pairing :: "device_op list" where
  "sample_pairing =
     [OpRequest (sample_request ''operator'' [''operator.read'']) ''r1'' 10 10,
      OpApprove ''r1'' (Some [''operator.write'']) (\<lambda>role. ''t1'') (\<lambda>role. 20) 20 20]"

text \<open>
  A role named after an operator scope evades the check of the caller's scopes: the second approval
  has no caller scopes at all, and afterwards the device gets an operator token with the secrets scope.
\<close>

definition dotted_role_run :: "device_op list" where
  "dotted_role_run = sample_pairing @
     [OpRequest (sample_request ''operator.talk'' [''operator.talk.secrets'']) ''r2'' 30 30,
      OpApprove ''r2'' None (\<lambda>role. ''t2'') (\<lambda>role. 40) 40 40,
      OpEnsure ''phone'' ''operator'' [''operator.talk.secrets''] ''t3'' 50 50]"

lemma dotted_role_escalates:
  "tc_ok (fst (verifyDeviceToken ''phone'' ''t3'' ''operator'' [''operator.talk.secrets''] 60 60
     (device_history dotted_role_run empty_devices))) \<and>
   \<not> scope_granted (device_grants dotted_role_run empty_devices) ''phone'' ''operator.talk.secrets''"
  by code_simp

lemma sample_verified:
  "tc_ok (fst (verifyDeviceToken ''phone'' ''t1'' ''operator'' [''operator.read''] 30 30
     (device_history sample_pairing empty_devices)))"
  by code_simp

subsection \<open>Properties\<close>

text \<open>C3: A paired device never acts with an operator scope that nobody granted it. Whatever operations
  the store has run from empty, as long as no request asked for a role that begins like an operator
  scope, when a device token is accepted for the operator role, each scope it
  is accepted with is covered by the scopes the caller of some earlier approval of this very device
  held, or by the hand-over profile of a bootstrap approval of it. (Without the condition the claim is
  false: see \<open>dotted_role_escalates\<close>.)\<close>

theorem device_scopes_never_escalate:
  assumes "list_all plain_op ops"
    and "tc_ok (fst (verifyDeviceToken dev tok role scopes t now (device_history ops empty_devices)))"
    and "js_trim role = OPERATOR_ROLE"
    and "s \<in> set (normalizeDeviceAuthScopes (Some scopes))"
  shows "scope_granted (device_grants ops empty_devices) (normalizeDeviceId dev) s"
  using device_granted [OF assms(1-3)] assms(4) .

theorem device_scopes_never_escalate_witness:
  "scope_granted (device_grants sample_pairing empty_devices) (normalizeDeviceId ''phone'') ''operator.read''"
proof (rule device_scopes_never_escalate [OF _ sample_verified])
  show "list_all plain_op sample_pairing" "js_trim ''operator'' = OPERATOR_ROLE"
    "''operator.read'' \<in> set (normalizeDeviceAuthScopes (Some [''operator.read'']))" by code_simp+
qed

text \<open>C13: A withdrawn device token is dead. After a token was revoked or rotated, or its device removed,
  no later operation makes it valid again for that device and role, unless the random generator draws
  the same string once more (or the clock reads zero at a revocation).\<close>

theorem withdrawn_token_stays_dead:
  assumes "withdraws op (device_history before empty_devices) dev role tok"
    and "list_all (\<lambda>op. \<not> reissues op tok) later"
  shows "\<not> tc_ok (fst (verifyDeviceToken dev tok role scopes t now (device_history (before @ op # later) empty_devices)))"
proof -
  let ?st = "device_history before empty_devices"
  have ok: "devices_ok ?st" by (rule device_history_ok [OF empty_devices_ok(1)])
  have "\<not> live_token (device_history later (device_run op ?st)) (normalizeDeviceId dev) (js_trim role) tok"
    by (rule dead_history [OF device_run_ok [OF ok] withdrawn_dead [OF ok assms(1)] assms(2)])
  then show ?thesis using verified_live by (fastforce simp: device_history_def)
qed

theorem withdrawn_token_stays_dead_witness:
  "\<not> tc_ok (fst (verifyDeviceToken ''phone'' ''t1'' ''operator'' [''operator.read''] 60 60 (device_history
     (sample_pairing @ OpRevoke ''phone'' ''operator'' None 30 30 #
      [OpEnsure ''phone'' ''operator'' [''operator.read''] ''t2'' 40 40]) empty_devices)))"
proof (rule withdrawn_token_stays_dead)
  show "withdraws (OpRevoke ''phone'' ''operator'' None 30 30) (device_history sample_pairing empty_devices) ''phone'' ''operator'' ''t1''"
    "list_all (\<lambda>op. \<not> reissues op ''t1'') [OpEnsure ''phone'' ''operator'' [''operator.read''] ''t2'' 40 40]"
    by code_simp+
qed

text \<open>The queue of pairing requests is orderly. After any operations no device has two pending
  requests, each is filed under its id; a request that does not create a new entry keeps the id and
  the time of the pending one, so nobody moves up the queue by asking again; and an expired request
  cannot be approved.\<close>

theorem pairing_requests_orderly:
  assumes "st = device_history ops empty_devices"
  shows "one_pending pd_requestId dr_deviceId (ds_pending st) \<and>
    (\<forall>req i t now p. fst (requestDevicePairing req i t now st) = Inr (p, False) \<longrightarrow>
       (\<exists>q. map_get (ds_pending st) (pd_requestId p) = Some q \<and> pd_ts q = pd_ts p \<and> dr_deviceId q = dr_deviceId p)) \<and>
    (\<forall>i p cs fresh tn t now. map_get (ds_pending st) i = Some p \<and> t - pd_ts p > DEVICE_PENDING_TTL_MS \<longrightarrow>
       approveDevicePairing i cs fresh tn t now st = (ApproveUnknown, st))"
proof (intro conjI allI impI)
  have ok: "devices_ok st" unfolding assms by (rule device_history_ok [OF empty_devices_ok(1)])
  show "one_pending pd_requestId dr_deviceId (ds_pending st)" by (rule devices_okD(1) [OF ok])
  fix req i t now p
  assume r: "fst (requestDevicePairing req i t now st) = Inr (p, False)"
  let ?d = "normalizeDeviceId (dr_deviceId req)" and ?m = "ds_pending (load_devices t st)"
  have "length (pending_of_device ?d ?m) = 1 \<and>
      p = refreshPendingDevicePairingRequest (map_get (ds_paired st) ?d \<noteq> None) (hd (pending_of_device ?d ?m)) req"
    using r by (auto simp: requestDevicePairing_def reconcilePendingPairingRequests_def Let_def case_prod_beta split: if_splits)
  then obtain q where q: "q \<in> set (pending_of_device ?d ?m)"
      and p: "p = refreshPendingDevicePairingRequest (map_get (ds_paired st) ?d \<noteq> None) q req"
    by (metis hd_in_set length_0_conv zero_neq_one)
  then obtain j where j: "(j, q) \<in> set (ds_pending st)" using prune_subset by (fastforce simp: set_pending_of_device)
  then have "map_get (ds_pending st) (pd_requestId q) = Some q"
    using one_pendingD(1) [OF devices_okD(1) [OF ok] j] devices_okD(3) [OF ok] by (simp add: map_get_iff)
  then show "\<exists>q. map_get (ds_pending st) (pd_requestId p) = Some q \<and> pd_ts q = pd_ts p \<and> dr_deviceId q = dr_deviceId p"
    by (auto simp: p refreshPendingDevicePairingRequest_def)
next
  have ok: "devices_ok st" unfolding assms by (rule device_history_ok [OF empty_devices_ok(1)])
  fix i p cs fresh tn t now
  assume "map_get (ds_pending st) i = Some p \<and> t - pd_ts p > DEVICE_PENDING_TTL_MS"
  then show "approveDevicePairing i cs fresh tn t now st = (ApproveUnknown, st)"
    using prune_get [OF devices_okD(3) [OF ok]] by (simp add: approveDevicePairing_def Let_def)
qed

theorem pairing_requests_orderly_witness:
  "one_pending pd_requestId dr_deviceId (ds_pending (device_history sample_pairing empty_devices))"
  using pairing_requests_orderly [of "device_history sample_pairing empty_devices" sample_pairing] by simp

end
