(* ===== verification/DeviceBootstrap.thy ===== *)
theory DeviceBootstrap
  imports PairingFiles DeviceAuth GatewayConnect "HOL-Library.Sublist"
begin

section \<open>Bootstrap tokens\<close>

text \<open>
  Models \<^verbatim>\<open>src/infra/device-bootstrap.ts\<close>: a short-lived token hands a new device a bounded set of
  roles and scopes, is bound to the first device identity that presents it, and records what was
  redeemed. A record of the file may lack any field; \<open>load_bootstrap\<close> fills it in. The parameter
  \<open>b64\<close> is \<open>normalizeDevicePublicKeyBase64Url\<close> (Node's crypto); the warning about stripped scopes
  is a log line and left out.
\<close>

definition DEVICE_BOOTSTRAP_TOKEN_TTL_MS :: int where
  "DEVICE_BOOTSTRAP_TOKEN_TTL_MS = 10 * 60 * 1000"

record bootstrap_record =
  br_token :: "string option"
  br_ts :: "int option"
  br_deviceId :: "string option"
  br_publicKey :: "string option"
  br_profile :: "bootstrap_profile_input option"
  br_redeemedProfile :: "bootstrap_profile_input option"
  br_pendingProfile :: "bootstrap_profile_input option"
  br_roles :: "string list option"
  br_scopes :: "string list option"
  br_issuedAtMs :: "int option"
  br_lastUsedAtMs :: "int option"

type_synonym bootstrap_file = "(string, bootstrap_record) js_map"

definition resolveIssuedBootstrapProfileInput ::
  "bootstrap_profile_input option \<Rightarrow> string list option \<Rightarrow> string list option \<Rightarrow> bootstrap_profile_input option" where
  "resolveIssuedBootstrapProfileInput profile roles scopes =
     (if profile \<noteq> None then profile
      else if roles \<noteq> None \<or> scopes \<noteq> None then Some \<lparr>bi_roles = roles, bi_scopes = scopes\<rparr>
      else None)"

definition resolvePersistedBootstrapProfile :: "bootstrap_record \<Rightarrow> bootstrap_profile" where
  "resolvePersistedBootstrapProfile r = normalizeDeviceBootstrapProfile
     (nullish_opt (br_profile r) (Some \<lparr>bi_roles = br_roles r, bi_scopes = br_scopes r\<rparr>))"

definition resolvePersistedRedeemedProfile :: "bootstrap_record \<Rightarrow> bootstrap_profile" where
  "resolvePersistedRedeemedProfile r = normalizeDeviceBootstrapProfile (br_redeemedProfile r)"

definition resolvePersistedPendingProfile :: "bootstrap_record \<Rightarrow> bootstrap_profile option" where
  "resolvePersistedPendingProfile r =
     (if br_pendingProfile r \<noteq> None then Some (normalizeDeviceBootstrapProfile (br_pendingProfile r)) else None)"

definition resolveRequestedBootstrapProfile :: "string \<Rightarrow> string list \<Rightarrow> bootstrap_profile" where
  "resolveRequestedBootstrapProfile role scopes = normalizeDeviceBootstrapProfile
     (Some \<lparr>bi_roles = Some [role], bi_scopes = Some (resolveBootstrapProfileScopesForRole role scopes)\<rparr>)"

definition sameBootstrapProfile :: "bootstrap_profile \<Rightarrow> bootstrap_profile \<Rightarrow> bool" where
  "sameBootstrapProfile left right =
     (if length (bp_roles left) \<noteq> length (bp_roles right) \<or> length (bp_scopes left) \<noteq> length (bp_scopes right) then False
      else list_all2 (=) (bp_roles left) (bp_roles right) \<and> list_all2 (=) (bp_scopes left) (bp_scopes right))"

definition resolveIssuedBootstrapProfile ::
  "bootstrap_profile_input option \<Rightarrow> string list option \<Rightarrow> string list option \<Rightarrow> bootstrap_profile" where
  "resolveIssuedBootstrapProfile profile roles scopes =
     (case resolveIssuedBootstrapProfileInput profile roles scopes of
        Some input \<Rightarrow> normalizeDeviceBootstrapHandoffProfile (Some input)
      | None \<Rightarrow> PAIRING_SETUP_BOOTSTRAP_PROFILE)"

definition bootstrapProfileAllowsRequest :: "bootstrap_profile \<Rightarrow> string \<Rightarrow> string list \<Rightarrow> bool" where
  "bootstrapProfileAllowsRequest allowedProfile requestedRole requestedScopes =
     (requestedRole \<in> set (bp_roles allowedProfile) \<and>
      roleScopesAllow requestedRole requestedScopes (bp_scopes allowedProfile))"

definition bootstrapProfileSatisfiesProfile :: "bootstrap_profile \<Rightarrow> bootstrap_profile \<Rightarrow> bool" where
  "bootstrapProfileSatisfiesProfile actualProfile requiredProfile =
     list_all (\<lambda>requiredRole.
       requiredRole \<in> set (bp_roles actualProfile) \<and>
       (let requiredScopes = resolveBootstrapProfileScopesForRole requiredRole (bp_scopes requiredProfile)
        in \<not> (length requiredScopes > 0 \<and> \<not> bootstrapProfileAllowsRequest actualProfile requiredRole requiredScopes)))
       (bp_roles requiredProfile)"

definition normalizeBootstrapPublicKey :: "(string \<Rightarrow> string option) \<Rightarrow> string \<Rightarrow> string" where
  "normalizeBootstrapPublicKey b64 publicKey =
     (let trimmed = js_trim publicKey
      in if trimmed = [] then []
         else if sublist ''BEGIN'' trimmed \<or> list_ex (\<lambda>c. c \<in> set ''+/='') trimmed then nullish (b64 trimmed) trimmed
         else trimmed)"

subsection \<open>The file\<close>

definition load_bootstrap_record :: "string \<Rightarrow> bootstrap_record \<Rightarrow> bootstrap_record" where
  "load_bootstrap_record tokenKey r =
     (let token = (case br_token r of Some t \<Rightarrow> if length (js_trim t) > 0 then t else tokenKey | None \<Rightarrow> tokenKey);
          issuedAtMs = nullish (br_issuedAtMs r) 0
      in \<lparr>br_token = Some token, br_ts = Some (nullish (br_ts r) issuedAtMs), br_deviceId = br_deviceId r,
          br_publicKey = br_publicKey r, br_profile = Some (profile_input (resolvePersistedBootstrapProfile r)),
          br_redeemedProfile = Some (profile_input (resolvePersistedRedeemedProfile r)),
          br_pendingProfile = map_option profile_input (resolvePersistedPendingProfile r),
          br_roles = None, br_scopes = None, br_issuedAtMs = Some issuedAtMs, br_lastUsedAtMs = br_lastUsedAtMs r\<rparr>)"

definition bootstrap_ts :: "bootstrap_record \<Rightarrow> int" where
  "bootstrap_ts r = nullish (br_ts r) 0"

definition load_bootstrap :: "int \<Rightarrow> bootstrap_file \<Rightarrow> bootstrap_file" where
  "load_bootstrap loadedAt file =
     pruneExpiredPending bootstrap_ts (map (\<lambda>(k, r). (k, load_bootstrap_record k r)) file) loadedAt DEVICE_BOOTSTRAP_TOKEN_TTL_MS"

definition bootstrap_token_of :: "bootstrap_record \<Rightarrow> string" where
  "bootstrap_token_of r = nullish (br_token r) []"

definition find_bootstrap :: "string \<Rightarrow> bootstrap_file \<Rightarrow> (string \<times> bootstrap_record) option" where
  "find_bootstrap providedToken st = find (\<lambda>(k, r). verifyPairingToken providedToken (bootstrap_token_of r)) st"

subsection \<open>Operations\<close>

definition issueDeviceBootstrapToken ::
  "bootstrap_profile_input option \<Rightarrow> string list option \<Rightarrow> string list option \<Rightarrow> string \<Rightarrow> int \<Rightarrow> int \<Rightarrow>
   bootstrap_file \<Rightarrow> (string \<times> int) \<times> bootstrap_file" where
  "issueDeviceBootstrapToken profile roles scopes freshToken loadedAt now file =
     (let st = load_bootstrap loadedAt file
      in ((freshToken, now + DEVICE_BOOTSTRAP_TOKEN_TTL_MS),
          map_set st freshToken
            \<lparr>br_token = Some freshToken, br_ts = Some now, br_deviceId = None, br_publicKey = None,
             br_profile = Some (profile_input (resolveIssuedBootstrapProfile profile roles scopes)),
             br_redeemedProfile = Some (profile_input (normalizeDeviceBootstrapProfile None)),
             br_pendingProfile = None, br_roles = None, br_scopes = None, br_issuedAtMs = Some now, br_lastUsedAtMs = None\<rparr>))"

definition clearDeviceBootstrapTokens :: "int \<Rightarrow> bootstrap_file \<Rightarrow> nat \<times> bootstrap_file" where
  "clearDeviceBootstrapTokens loadedAt file = (length (load_bootstrap loadedAt file), [])"

definition revokeDeviceBootstrapToken ::
  "string \<Rightarrow> int \<Rightarrow> bootstrap_file \<Rightarrow> bootstrap_record option \<times> bootstrap_file" where
  "revokeDeviceBootstrapToken token loadedAt file =
     (let providedToken = js_trim token
      in if providedToken = [] then (None, file)
         else let st = load_bootstrap loadedAt file in
           (case find_bootstrap providedToken st of
              None \<Rightarrow> (None, file)
            | Some (tokenKey, r) \<Rightarrow> (Some r, map_delete st tokenKey)))"

definition restoreDeviceBootstrapToken :: "bootstrap_record \<Rightarrow> int \<Rightarrow> bootstrap_file \<Rightarrow> bootstrap_file" where
  "restoreDeviceBootstrapToken r loadedAt file = map_set (load_bootstrap loadedAt file) (bootstrap_token_of r) r"

definition getDeviceBootstrapTokenProfile :: "string \<Rightarrow> int \<Rightarrow> bootstrap_file \<Rightarrow> bootstrap_profile option" where
  "getDeviceBootstrapTokenProfile token loadedAt file =
     (let providedToken = js_trim token
      in if providedToken = [] then None
         else map_option (\<lambda>(k, r). resolvePersistedBootstrapProfile r)
           (find_bootstrap providedToken (load_bootstrap loadedAt file)))"

record redeem_result =
  rr_recorded :: bool
  rr_fullyRedeemed :: bool

definition redeemDeviceBootstrapTokenProfile ::
  "string \<Rightarrow> string \<Rightarrow> string list \<Rightarrow> int \<Rightarrow> bootstrap_file \<Rightarrow> redeem_result \<times> bootstrap_file" where
  "redeemDeviceBootstrapTokenProfile token role scopes loadedAt file =
     (let providedToken = js_trim token; st = load_bootstrap loadedAt file
      in if providedToken = [] then (\<lparr>rr_recorded = False, rr_fullyRedeemed = False\<rparr>, file)
         else (case find_bootstrap providedToken st of
           None \<Rightarrow> (\<lparr>rr_recorded = False, rr_fullyRedeemed = False\<rparr>, file)
         | Some (tokenKey, r) \<Rightarrow>
             (let issuedProfile = resolvePersistedBootstrapProfile r;
                  pendingProfile = resolvePersistedPendingProfile r;
                  redeemedProfile = normalizeDeviceBootstrapProfile
                    (Some \<lparr>bi_roles = Some (bp_roles (resolvePersistedRedeemedProfile r) @ [role]),
                           bi_scopes = Some (bp_scopes (resolvePersistedRedeemedProfile r) @
                             resolveBootstrapProfileScopesForRole role scopes)\<rparr>);
                  nextPendingProfile = (case pendingProfile of
                    None \<Rightarrow> None
                  | Some pending \<Rightarrow> if \<not> bootstrapProfileSatisfiesProfile redeemedProfile pending then Some pending else None)
              in (\<lparr>rr_recorded = True, rr_fullyRedeemed = bootstrapProfileSatisfiesProfile redeemedProfile issuedProfile\<rparr>,
                  map_set st tokenKey
                    (r\<lparr>br_profile := Some (profile_input issuedProfile),
                       br_redeemedProfile := Some (profile_input redeemedProfile),
                       br_pendingProfile := map_option profile_input nextPendingProfile\<rparr>)))))"

definition bind_bootstrap ::
  "bootstrap_record \<Rightarrow> bootstrap_profile \<Rightarrow> bootstrap_profile \<Rightarrow> string \<Rightarrow> string \<Rightarrow> int \<Rightarrow> bootstrap_record" where
  "bind_bootstrap r allowedProfile pendingProfile deviceId publicKey now =
     r\<lparr>br_profile := Some (profile_input allowedProfile), br_pendingProfile := Some (profile_input pendingProfile),
       br_deviceId := Some deviceId, br_publicKey := Some publicKey, br_lastUsedAtMs := Some now\<rparr>"

definition bootstrap_invalid :: token_check where
  "bootstrap_invalid = \<lparr>tc_ok = False, tc_reason = Some ''bootstrap_token_invalid''\<rparr>"

definition verifyDeviceBootstrapToken ::
  "(string \<Rightarrow> string option) \<Rightarrow> string \<Rightarrow> string \<Rightarrow> string \<Rightarrow> string \<Rightarrow> string list \<Rightarrow> int \<Rightarrow> int \<Rightarrow>
   bootstrap_file \<Rightarrow> token_check \<times> bootstrap_file" where
  "verifyDeviceBootstrapToken b64 token rawDeviceId rawPublicKey rawRole scopes loadedAt now file =
     (let st = load_bootstrap loadedAt file; providedToken = js_trim token
      in if providedToken = [] then (bootstrap_invalid, file)
         else (case find_bootstrap providedToken st of
           None \<Rightarrow> (bootstrap_invalid, file)
         | Some (tokenKey, r) \<Rightarrow>
             (let deviceId = js_trim rawDeviceId;
                  publicKey = normalizeBootstrapPublicKey b64 rawPublicKey;
                  role = js_trim rawRole;
                  allowedProfile = resolvePersistedBootstrapProfile r
              in if deviceId = [] \<or> publicKey = [] \<or> role = [] then (bootstrap_invalid, file)
                 else if length (bp_roles allowedProfile) = 0 \<or> \<not> bootstrapProfileAllowsRequest allowedProfile role scopes
                 then (bootstrap_invalid, file)
                 else
                   let requestedProfile = resolveRequestedBootstrapProfile role scopes;
                       boundDeviceId = map_option js_trim (br_deviceId r);
                       boundPublicKey = map_option (normalizeBootstrapPublicKey b64) (br_publicKey r)
                   in if truthy boundDeviceId \<noteq> None \<or> truthy boundPublicKey \<noteq> None then
                        (if boundDeviceId \<noteq> Some deviceId \<or> boundPublicKey \<noteq> Some publicKey then (bootstrap_invalid, file)
                         else
                           let pendingProfile = resolvePersistedPendingProfile r
                           in if pendingProfile \<noteq> None \<and> \<not> sameBootstrapProfile (the pendingProfile) requestedProfile
                              then (bootstrap_invalid, file)
                              else (\<lparr>tc_ok = True, tc_reason = None\<rparr>,
                                map_set st tokenKey (bind_bootstrap r allowedProfile
                                  (nullish pendingProfile requestedProfile) deviceId publicKey now)))
                      else (\<lparr>tc_ok = True, tc_reason = None\<rparr>,
                        map_set st tokenKey (bind_bootstrap r allowedProfile requestedProfile deviceId publicKey now)))))"

definition getBoundDeviceBootstrapProfile ::
  "(string \<Rightarrow> string option) \<Rightarrow> string \<Rightarrow> string \<Rightarrow> string \<Rightarrow> int \<Rightarrow> bootstrap_file \<Rightarrow> bootstrap_profile option" where
  "getBoundDeviceBootstrapProfile b64 token rawDeviceId rawPublicKey loadedAt file =
     (let st = load_bootstrap loadedAt file; providedToken = js_trim token
      in if providedToken = [] then None
         else (case find_bootstrap providedToken st of
           None \<Rightarrow> None
         | Some (tokenKey, r) \<Rightarrow>
             (let deviceId = js_trim rawDeviceId; publicKey = normalizeBootstrapPublicKey b64 rawPublicKey
              in if deviceId = [] \<or> publicKey = [] then None
                 else if map_option js_trim (br_deviceId r) \<noteq> Some deviceId \<or>
                   map_option (normalizeBootstrapPublicKey b64) (br_publicKey r) \<noteq> Some publicKey then None
                 else Some (resolvePersistedBootstrapProfile r))))"

subsection \<open>Sequences of operations\<close>

datatype bootstrap_op =
    BootIssue "bootstrap_profile_input option" "string list option" "string list option" string int int
  | BootClear int
  | BootRevoke string int
  | BootRestore bootstrap_record int
  | BootRedeem string string "string list" int
  | BootVerify string string string string "string list" int int

fun bootstrap_run :: "(string \<Rightarrow> string option) \<Rightarrow> bootstrap_op \<Rightarrow> bootstrap_file \<Rightarrow> bootstrap_file" where
  "bootstrap_run b64 (BootIssue p rs ss fresh t now) st = snd (issueDeviceBootstrapToken p rs ss fresh t now st)"
| "bootstrap_run b64 (BootClear t) st = snd (clearDeviceBootstrapTokens t st)"
| "bootstrap_run b64 (BootRevoke tok t) st = snd (revokeDeviceBootstrapToken tok t st)"
| "bootstrap_run b64 (BootRestore r t) st = restoreDeviceBootstrapToken r t st"
| "bootstrap_run b64 (BootRedeem tok role ss t) st = snd (redeemDeviceBootstrapTokenProfile tok role ss t st)"
| "bootstrap_run b64 (BootVerify tok d k role ss t now) st = snd (verifyDeviceBootstrapToken b64 tok d k role ss t now st)"

definition bootstrap_history :: "(string \<Rightarrow> string option) \<Rightarrow> bootstrap_op list \<Rightarrow> bootstrap_file \<Rightarrow> bootstrap_file" where
  "bootstrap_history b64 ops st = fold (bootstrap_run b64) ops st"

end
