(* ===== verification/DeviceBootstrapProps.thy ===== *)
theory DeviceBootstrapProps
  imports DeviceBootstrap
begin

section \<open>What a bootstrap token can do\<close>

text \<open>
  Properties of \<open>DeviceBootstrap\<close> over every sequence of operations: a token serves one device
  identity, within its time to live, and hands over no operator scope outside the documented list.
  The public keys are compared after normalisation; \<open>stable_keys\<close> says that the encoding of a key is
  already normalised, as base64url is.
\<close>

definition stable_keys :: "(string \<Rightarrow> string option) \<Rightarrow> bool" where
  "stable_keys b64 \<longleftrightarrow> (\<forall>k r. b64 k = Some r \<longrightarrow> normalizeBootstrapPublicKey b64 r = r)"

lemma public_key_idem:
  assumes "stable_keys b64"
  shows "normalizeBootstrapPublicKey b64 (normalizeBootstrapPublicKey b64 k) = normalizeBootstrapPublicKey b64 k"
proof (cases "b64 (js_trim k)")
  case None
  then show ?thesis by (simp add: normalizeBootstrapPublicKey_def Let_def js_trim_idem)
next
  case (Some r)
  then have "normalizeBootstrapPublicKey b64 r = r" using assms by (simp add: stable_keys_def)
  then show ?thesis using Some
    by (cases "js_trim k = [] \<or> \<not> (sublist ''BEGIN'' (js_trim k) \<or> list_ex (\<lambda>c. c \<in> set ''+/='') (js_trim k))")
      (simp_all add: normalizeBootstrapPublicKey_def [of b64 k] Let_def del: set_simps,
       auto simp: normalizeBootstrapPublicKey_def Let_def js_trim_idem)
qed

subsection \<open>The file\<close>

definition boot_ok :: "bootstrap_file \<Rightarrow> bool" where
  "boot_ok st \<longleftrightarrow> wf_map st \<and> list_all (\<lambda>(k, r). br_token r = Some k) st"

lemma load_record_token [simp]: "br_token r = Some k \<Longrightarrow> br_token (load_bootstrap_record k r) = Some k"
  by (simp add: load_bootstrap_record_def Let_def)

lemma load_record_simps [simp]:
  "br_deviceId (load_bootstrap_record k r) = br_deviceId r"
  "br_publicKey (load_bootstrap_record k r) = br_publicKey r"
  by (simp_all add: load_bootstrap_record_def Let_def)

lemma map_get_map_values: "map_get (map (\<lambda>(k, r). (k, f k r)) m) k = map_option (f k) (map_get m k)"
  by (induction m) (auto simp: map_get_def)

lemma wf_map_values: "wf_map m \<Longrightarrow> wf_map (map (\<lambda>(k, r). (k, f k r)) m)"
  by (simp add: wf_map_def comp_def case_prod_beta)

lemma load_get:
  assumes "wf_map st"
  shows "map_get (load_bootstrap t st) k = (case map_get st k of None \<Rightarrow> None | Some r \<Rightarrow>
    if t - bootstrap_ts (load_bootstrap_record k r) > DEVICE_BOOTSTRAP_TOKEN_TTL_MS then None
    else Some (load_bootstrap_record k r))"
  unfolding load_bootstrap_def prune_get [OF wf_map_values [OF assms]] map_get_map_values
  by (simp split: option.split)

lemma boot_ok_load: "boot_ok st \<Longrightarrow> boot_ok (load_bootstrap t st)"
  by (auto simp: boot_ok_def load_bootstrap_def wf_map_values list_all_iff pruneExpiredPending_def wf_map_filter)

lemma find_bootstrap_get:
  assumes "boot_ok st" and "find_bootstrap tok st = Some (k, r)"
  shows "k = tok \<and> map_get st tok = Some r \<and> js_trim tok \<noteq> []"
proof -
  have "(k, r) \<in> set st" "verifyPairingToken tok (bootstrap_token_of r)"
    using assms(2) by (auto simp: find_bootstrap_def find_Some_iff dest: nth_mem)
  then show ?thesis
    using assms(1) by (auto simp: boot_ok_def list_all_iff verify_pairing_token bootstrap_token_of_def map_get_iff)
qed

lemma boot_ok_set: "boot_ok st \<Longrightarrow> br_token r = Some k \<Longrightarrow> boot_ok (map_set st k r)"
proof -
  have "list_all P m \<Longrightarrow> P (k, r) \<Longrightarrow> list_all P (map_set m k r)" for P m
    by (induction m k r rule: map_set.induct) auto
  then show "boot_ok st \<Longrightarrow> br_token r = Some k \<Longrightarrow> boot_ok (map_set st k r)" by (simp add: boot_ok_def)
qed

lemma boot_ok_delete: "boot_ok st \<Longrightarrow> boot_ok (map_delete st k)"
  by (auto simp: boot_ok_def map_delete_def list_all_iff wf_map_filter)

lemma boot_ok_get: "boot_ok st \<Longrightarrow> map_get st k = Some r \<Longrightarrow> br_token r = Some k"
  by (auto simp: boot_ok_def list_all_iff dest!: map_get_in)

text \<open>Every restored record carries its token.\<close>

fun restores_token :: "bootstrap_op \<Rightarrow> bool" where
  "restores_token (BootRestore r t) \<longleftrightarrow> br_token r \<noteq> None"
| "restores_token _ \<longleftrightarrow> True"

lemma verify_boot_cases:
  assumes ok: "boot_ok st"
  obtains "verifyDeviceBootstrapToken b64 tok dev key role ss t now st = (bootstrap_invalid, st)"
  | r p where "map_get (load_bootstrap t st) (js_trim tok) = Some r" "js_trim dev \<noteq> []"
      "bootstrapProfileAllowsRequest (resolvePersistedBootstrapProfile r) (js_trim role) ss"
      "(truthy (map_option js_trim (br_deviceId r)) = None \<and> truthy (map_option (normalizeBootstrapPublicKey b64) (br_publicKey r)) = None) \<or>
       (map_option js_trim (br_deviceId r) = Some (js_trim dev) \<and>
        map_option (normalizeBootstrapPublicKey b64) (br_publicKey r) = Some (normalizeBootstrapPublicKey b64 key))"
      "verifyDeviceBootstrapToken b64 tok dev key role ss t now st = (\<lparr>tc_ok = True, tc_reason = None\<rparr>,
         map_set (load_bootstrap t st) (js_trim tok)
           (bind_bootstrap r (resolvePersistedBootstrapProfile r) p (js_trim dev) (normalizeBootstrapPublicKey b64 key) now))"
proof (cases "find_bootstrap (js_trim tok) (load_bootstrap t st)")
  case None
  then show ?thesis using that(1) by (simp add: verifyDeviceBootstrapToken_def Let_def)
next
  case (Some kr)
  then obtain k r where find: "find_bootstrap (js_trim tok) (load_bootstrap t st) = Some (k, r)" by (cases kr) simp
  have k: "k = js_trim tok" "map_get (load_bootstrap t st) (js_trim tok) = Some r"
    using find_bootstrap_get [OF boot_ok_load [OF ok] find] by simp_all
  show ?thesis
  proof (cases "verifyDeviceBootstrapToken b64 tok dev key role ss t now st = (bootstrap_invalid, st)")
    case False
    let ?bound = "truthy (map_option js_trim (br_deviceId r)) \<noteq> None \<or>
      truthy (map_option (normalizeBootstrapPublicKey b64) (br_publicKey r)) \<noteq> None"
    have ok': "js_trim dev \<noteq> []" "bootstrapProfileAllowsRequest (resolvePersistedBootstrapProfile r) (js_trim role) ss"
      "?bound \<Longrightarrow> map_option js_trim (br_deviceId r) = Some (js_trim dev) \<and>
        map_option (normalizeBootstrapPublicKey b64) (br_publicKey r) = Some (normalizeBootstrapPublicKey b64 key)"
      using False unfolding verifyDeviceBootstrapToken_def Let_def find by (auto split: if_splits)
    show ?thesis
    proof (cases ?bound)
      case True
      show ?thesis
        by (rule that(2) [OF k(2) ok'(1,2), of "nullish (resolvePersistedPendingProfile r) (resolveRequestedBootstrapProfile (js_trim role) ss)"])
          (use ok'(3) [OF True] False in \<open>unfold verifyDeviceBootstrapToken_def Let_def find, auto simp: k(1) split: if_splits\<close>)
    next
      case unbound: False
      show ?thesis
        by (rule that(2) [OF k(2) ok'(1,2), of "resolveRequestedBootstrapProfile (js_trim role) ss"])
          (use unbound False in \<open>unfold verifyDeviceBootstrapToken_def Let_def find, auto simp: k(1) split: if_splits\<close>)
    qed
  qed (rule that(1))
qed

lemma redeem_boot_cases:
  assumes ok: "boot_ok st"
  obtains "snd (redeemDeviceBootstrapTokenProfile tok role ss t st) = st"
  | r r' where "map_get (load_bootstrap t st) (js_trim tok) = Some r" "br_token r' = br_token r"
      "br_deviceId r' = br_deviceId r" "br_publicKey r' = br_publicKey r" "bootstrap_ts r' = bootstrap_ts r" "br_ts r' = br_ts r"
      "br_profile r' = Some (profile_input (resolvePersistedBootstrapProfile r))"
      "snd (redeemDeviceBootstrapTokenProfile tok role ss t st) = map_set (load_bootstrap t st) (js_trim tok) r'"
proof (cases "js_trim tok = [] \<or> find_bootstrap (js_trim tok) (load_bootstrap t st) = None")
  case True
  then show ?thesis using that(1) by (auto simp: redeemDeviceBootstrapTokenProfile_def Let_def)
next
  case False
  then obtain k r where find: "find_bootstrap (js_trim tok) (load_bootstrap t st) = Some (k, r)" by auto
  have k: "k = js_trim tok" "map_get (load_bootstrap t st) (js_trim tok) = Some r"
    using find_bootstrap_get [OF boot_ok_load [OF ok] find] by simp_all
  show ?thesis
    by (rule that(2) [OF k(2)])
      (use False in \<open>unfold redeemDeviceBootstrapTokenProfile_def Let_def find, simp_all add: bootstrap_ts_def k(1)\<close>)
qed

lemma revoke_boot: "boot_ok st \<Longrightarrow> snd (revokeDeviceBootstrapToken tok t st) = st \<or>
    (\<exists>k. snd (revokeDeviceBootstrapToken tok t st) = map_delete (load_bootstrap t st) k)"
  by (auto simp: revokeDeviceBootstrapToken_def Let_def split: option.split)

lemma boot_run_ok:
  assumes "boot_ok st" and "restores_token op"
  shows "boot_ok (bootstrap_run b64 op st)"
proof (cases op)
  case (BootIssue p rs ss fresh t now)
  then show ?thesis using boot_ok_set [OF boot_ok_load [OF assms(1)]]
    by (simp add: issueDeviceBootstrapToken_def Let_def)
next
  case (BootClear t)
  then show ?thesis by (simp add: clearDeviceBootstrapTokens_def boot_ok_def)
next
  case (BootRevoke tok t)
  then show ?thesis using revoke_boot [OF assms(1), of tok t] boot_ok_delete [OF boot_ok_load [OF assms(1)]] assms(1) by auto
next
  case (BootRestore r t)
  then show ?thesis using boot_ok_set [OF boot_ok_load [OF assms(1)]] assms(2)
    by (auto simp: restoreDeviceBootstrapToken_def bootstrap_token_of_def nullish_def)
next
  case (BootRedeem tok role ss t)
  show ?thesis
  proof (rule redeem_boot_cases [OF assms(1), of tok role ss t])
    fix r r' assume "map_get (load_bootstrap t st) (js_trim tok) = Some r" "br_token r' = br_token r"
      "snd (redeemDeviceBootstrapTokenProfile tok role ss t st) = map_set (load_bootstrap t st) (js_trim tok) r'"
    then show ?thesis using BootRedeem boot_ok_get [OF boot_ok_load [OF assms(1)]] boot_ok_set [OF boot_ok_load [OF assms(1)]]
      by simp
  qed (use BootRedeem assms in simp)
next
  case (BootVerify tok d k role ss t now)
  show ?thesis
  proof (rule verify_boot_cases [OF assms(1), of b64 tok d k role ss t now])
    fix r p assume "map_get (load_bootstrap t st) (js_trim tok) = Some r"
      "verifyDeviceBootstrapToken b64 tok d k role ss t now st = (\<lparr>tc_ok = True, tc_reason = None\<rparr>,
         map_set (load_bootstrap t st) (js_trim tok)
           (bind_bootstrap r (resolvePersistedBootstrapProfile r) p (js_trim d) (normalizeBootstrapPublicKey b64 k) now))"
    then show ?thesis using BootVerify boot_ok_get [OF boot_ok_load [OF assms(1)]] boot_ok_set [OF boot_ok_load [OF assms(1)]]
      by (simp add: bind_bootstrap_def)
  qed (use BootVerify assms in simp)
qed

lemma boot_history_ok:
  "boot_ok st \<Longrightarrow> list_all restores_token ops \<Longrightarrow> boot_ok (bootstrap_history b64 ops st)"
  unfolding bootstrap_history_def by (induction ops arbitrary: st) (simp_all add: boot_run_ok)

subsection \<open>One device identity\<close>

definition bound_to :: "(string \<Rightarrow> string option) \<Rightarrow> bootstrap_file \<Rightarrow> string \<Rightarrow> string \<Rightarrow> string \<Rightarrow> bool" where
  "bound_to b64 st tok dev key \<longleftrightarrow>
     (case map_get st tok of
        None \<Rightarrow> True
      | Some r \<Rightarrow> map_option js_trim (br_deviceId r) = Some dev \<and>
          map_option (normalizeBootstrapPublicKey b64) (br_publicKey r) = Some key)"

fun boot_reissues :: "bootstrap_op \<Rightarrow> string \<Rightarrow> bool" where
  "boot_reissues (BootIssue p rs ss fresh t now) tok \<longleftrightarrow> fresh = tok"
| "boot_reissues (BootRestore r t) tok \<longleftrightarrow> bootstrap_token_of r = tok"
| "boot_reissues _ tok \<longleftrightarrow> False"

lemma bound_load:
  assumes "boot_ok st" and "bound_to b64 st tok dev key"
  shows "bound_to b64 (load_bootstrap t st) tok dev key"
  using assms load_get [of st t tok] by (auto simp: bound_to_def boot_ok_def split: option.splits)

lemma bound_set:
  "bound_to b64 st tok dev key \<Longrightarrow> (k = tok \<Longrightarrow> map_option js_trim (br_deviceId r) = Some dev \<and>
    map_option (normalizeBootstrapPublicKey b64) (br_publicKey r) = Some key) \<Longrightarrow> bound_to b64 (map_set st k r) tok dev key"
  by (simp add: bound_to_def)

lemma bound_delete: "bound_to b64 st tok dev key \<Longrightarrow> bound_to b64 (map_delete st k) tok dev key"
  by (simp add: bound_to_def)

lemma run_bound:
  assumes ok: "boot_ok st" and keys: "stable_keys b64" and dev: "dev \<noteq> []"
    and bound: "bound_to b64 st tok dev key" and fresh: "\<not> boot_reissues op tok"
  shows "bound_to b64 (bootstrap_run b64 op st) tok dev key"
proof (cases op)
  case (BootIssue p rs ss f t now)
  then show ?thesis using bound_set [OF bound_load [OF ok bound]] fresh by (simp add: issueDeviceBootstrapToken_def Let_def)
next
  case (BootClear t)
  then show ?thesis by (simp add: clearDeviceBootstrapTokens_def bound_to_def)
next
  case (BootRevoke tk t)
  then show ?thesis using revoke_boot [OF ok, of tk t] bound bound_delete [OF bound_load [OF ok bound, of t]] by auto
next
  case (BootRestore r t)
  then show ?thesis using bound_set [OF bound_load [OF ok bound]] fresh by (simp add: restoreDeviceBootstrapToken_def)
next
  case (BootRedeem tk role ss t)
  show ?thesis
  proof (rule redeem_boot_cases [OF ok, of tk role ss t])
    fix r r' assume r: "map_get (load_bootstrap t st) (js_trim tk) = Some r" "br_deviceId r' = br_deviceId r" "br_publicKey r' = br_publicKey r"
      "snd (redeemDeviceBootstrapTokenProfile tk role ss t st) = map_set (load_bootstrap t st) (js_trim tk) r'"
    have "bound_to b64 (map_set (load_bootstrap t st) (js_trim tk) r') tok dev key"
      using bound_load [OF ok bound, of t] r(1-3) by (intro bound_set) (auto simp: bound_to_def)
    then show ?thesis using BootRedeem r(4) by simp
  qed (use BootRedeem bound in simp)
next
  case (BootVerify tk d k role ss t now)
  show ?thesis
  proof (rule verify_boot_cases [OF ok, of b64 tk d k role ss t now])
    fix r p assume r: "map_get (load_bootstrap t st) (js_trim tk) = Some r" "js_trim d \<noteq> []"
      "(truthy (map_option js_trim (br_deviceId r)) = None \<and> truthy (map_option (normalizeBootstrapPublicKey b64) (br_publicKey r)) = None) \<or>
       (map_option js_trim (br_deviceId r) = Some (js_trim d) \<and>
        map_option (normalizeBootstrapPublicKey b64) (br_publicKey r) = Some (normalizeBootstrapPublicKey b64 k))"
      "verifyDeviceBootstrapToken b64 tk d k role ss t now st = (\<lparr>tc_ok = True, tc_reason = None\<rparr>,
         map_set (load_bootstrap t st) (js_trim tk)
           (bind_bootstrap r (resolvePersistedBootstrapProfile r) p (js_trim d) (normalizeBootstrapPublicKey b64 k) now))"
    have "js_trim d = dev \<and> normalizeBootstrapPublicKey b64 k = key" if "js_trim tk = tok"
      using bound_load [OF ok bound, of t] r(1,3) that dev by (auto simp: bound_to_def)
    then have "bound_to b64 (map_set (load_bootstrap t st) (js_trim tk)
        (bind_bootstrap r (resolvePersistedBootstrapProfile r) p (js_trim d) (normalizeBootstrapPublicKey b64 k) now)) tok dev key"
      by (intro bound_set bound_load ok bound) (auto simp: bind_bootstrap_def js_trim_idem public_key_idem [OF keys])
    then show ?thesis using BootVerify r(4) by simp
  qed (use BootVerify bound in simp)
qed

lemma history_bound:
  assumes "boot_ok st" and "stable_keys b64" and "dev \<noteq> []" and "bound_to b64 st tok dev key"
    and "list_all (\<lambda>op. \<not> boot_reissues op tok) ops" and "list_all restores_token ops"
  shows "bound_to b64 (bootstrap_history b64 ops st) tok dev key"
  using assms unfolding bootstrap_history_def
proof (induction ops arbitrary: st)
  case (Cons op ops)
  then show ?case using Cons.IH [OF boot_run_ok] run_bound by simp
qed simp

subsection \<open>Bounded in scope and time\<close>

text \<open>The tokens a run of operations issues, with the time of issue.\<close>

fun op_issue :: "bootstrap_op \<Rightarrow> (string \<times> int) list" where
  "op_issue (BootIssue p rs ss fresh t now) = [(fresh, now)]"
| "op_issue _ = []"

definition issues :: "bootstrap_op list \<Rightarrow> (string \<times> int) list" where
  "issues ops = concat (map op_issue ops)"

definition handoff_profile :: "bootstrap_record \<Rightarrow> bool" where
  "handoff_profile r \<longleftrightarrow> set (bp_scopes (resolvePersistedBootstrapProfile r)) \<subseteq> set BOOTSTRAP_HANDOFF_OPERATOR_SCOPES"

text \<open>A restored record is one that was issued and revoked: it keeps its time and its profile.\<close>

fun restores_genuine :: "(string \<times> int) list \<Rightarrow> bootstrap_op \<Rightarrow> bool" where
  "restores_genuine issued (BootRestore r t) \<longleftrightarrow>
     br_token r \<noteq> None \<and> br_ts r \<noteq> None \<and> (bootstrap_token_of r, bootstrap_ts r) \<in> set issued \<and> handoff_profile r"
| "restores_genuine issued _ \<longleftrightarrow> True"

definition records_issued :: "(string \<times> int) list \<Rightarrow> bootstrap_file \<Rightarrow> bool" where
  "records_issued issued st \<longleftrightarrow>
     list_all (\<lambda>(k, r). br_ts r \<noteq> None \<and> (k, bootstrap_ts r) \<in> set issued \<and> handoff_profile r) st"

lemma handoff_tidy: "tidy_set xs \<subseteq> set BOOTSTRAP_HANDOFF_OPERATOR_SCOPES \<Longrightarrow>
    set (normalizeDeviceAuthScopes (Some xs)) \<subseteq> set BOOTSTRAP_HANDOFF_OPERATOR_SCOPES"
  unfolding set_device_scopes closed_scopes_def by (auto simp: BOOTSTRAP_HANDOFF_OPERATOR_SCOPES_def nullish_def)

lemma persisted_input:
  assumes "br_profile r = Some (profile_input p)" and "set (bp_scopes p) \<subseteq> set BOOTSTRAP_HANDOFF_OPERATOR_SCOPES"
  shows "handoff_profile r"
proof -
  have "js_trim s = s" if "s \<in> set BOOTSTRAP_HANDOFF_OPERATOR_SCOPES" for s
  proof -
    have "list_all (\<lambda>s. js_trim s = s) BOOTSTRAP_HANDOFF_OPERATOR_SCOPES" by code_simp
    then show ?thesis using that by (simp add: list_all_iff)
  qed
  then have "tidy_set (bp_scopes p) \<subseteq> set BOOTSTRAP_HANDOFF_OPERATOR_SCOPES"
    using assms(2) by (force simp: tidy_set_def)
  then show ?thesis
    using assms(1) handoff_tidy [of "bp_scopes p"]
    by (simp add: handoff_profile_def resolvePersistedBootstrapProfile_def normalizeDeviceBootstrapProfile_def
        profile_input_def nullish_opt_def)
qed

lemma issued_profile_handoff: "set (bp_scopes (resolveIssuedBootstrapProfile p rs ss)) \<subseteq> set BOOTSTRAP_HANDOFF_OPERATOR_SCOPES"
  using handoff_scopes_subset
  by (simp add: resolveIssuedBootstrapProfile_def normalizeDeviceBootstrapHandoffProfile_def
      PAIRING_SETUP_BOOTSTRAP_PROFILE_def Let_def split: option.split)

lemma load_record_issued:
  assumes "br_ts r \<noteq> None" and "handoff_profile r"
  shows "br_ts (load_bootstrap_record k r) \<noteq> None \<and> bootstrap_ts (load_bootstrap_record k r) = bootstrap_ts r \<and>
    handoff_profile (load_bootstrap_record k r)"
proof -
  have "handoff_profile (load_bootstrap_record k r)"
    by (rule persisted_input [where p = "resolvePersistedBootstrapProfile r"])
      (use assms(2) in \<open>simp_all add: load_bootstrap_record_def handoff_profile_def Let_def\<close>)
  then show ?thesis using assms(1) by (auto simp: load_bootstrap_record_def bootstrap_ts_def nullish_def Let_def)
qed

lemma records_load: "records_issued issued st \<Longrightarrow> records_issued issued (load_bootstrap t st)"
  using load_record_issued
  by (fastforce simp: records_issued_def list_all_iff load_bootstrap_def pruneExpiredPending_def)

lemma records_set:
  "records_issued issued st \<Longrightarrow> br_ts r \<noteq> None \<Longrightarrow> (k, bootstrap_ts r) \<in> set issued \<Longrightarrow> handoff_profile r \<Longrightarrow>
    records_issued issued (map_set st k r)"
  unfolding records_issued_def by (induction st k r rule: map_set.induct) auto

lemma records_get:
  "records_issued issued st \<Longrightarrow> map_get st k = Some r \<Longrightarrow>
    br_ts r \<noteq> None \<and> (k, bootstrap_ts r) \<in> set issued \<and> handoff_profile r"
  by (auto simp: records_issued_def list_all_iff dest!: map_get_in)

lemma records_delete: "records_issued issued st \<Longrightarrow> records_issued issued (map_delete st k)"
  by (auto simp: records_issued_def list_all_iff map_delete_def)

lemma operator_allowed:
  assumes "roleScopesAllow OPERATOR_ROLE scopes allowed" and "s \<in> set (normalizeScopeList scopes)"
  shows "operatorScopeSatisfied s (normalizeScopeList allowed)"
proof -
  have "js_trim OPERATOR_ROLE = OPERATOR_ROLE" by code_simp
  then show ?thesis using assms by (auto simp: roleScopesAllow_def Let_def list_all_iff split: if_splits)
qed

lemma handoff_satisfied:
  assumes "operatorScopeSatisfied s (normalizeScopeList (bp_scopes (resolvePersistedBootstrapProfile r)))" and "handoff_profile r"
  shows "operatorScopeSatisfied s BOOTSTRAP_HANDOFF_OPERATOR_SCOPES"
proof -
  have "bp_scopes (resolvePersistedBootstrapProfile r) = normalizeDeviceAuthScopes (Some (nullish (Option.bind
      (nullish_opt (br_profile r) (Some \<lparr>bi_roles = br_roles r, bi_scopes = br_scopes r\<rparr>)) bi_scopes) []))"
    by (simp add: resolvePersistedBootstrapProfile_def normalizeDeviceBootstrapProfile_def)
  then have "set (normalizeScopeList (bp_scopes (resolvePersistedBootstrapProfile r))) \<subseteq> set BOOTSTRAP_HANDOFF_OPERATOR_SCOPES"
    using assms(2) by (simp add: set_scope_list tidy_set_device_scopes handoff_profile_def)
  then show ?thesis
    using assms(1) by (auto simp: operatorScopeSatisfied_def BOOTSTRAP_HANDOFF_OPERATOR_SCOPES_def split: if_splits)
qed

lemma run_issued:
  assumes ok: "boot_ok st" and recs: "records_issued issued st" and gen: "restores_genuine issued op"
    and iss: "set (op_issue op) \<subseteq> set issued"
  shows "records_issued issued (bootstrap_run b64 op st)"
proof (cases op)
  case (BootIssue p rs ss fresh t now)
  have "records_issued issued (snd (issueDeviceBootstrapToken p rs ss fresh t now st))"
    unfolding issueDeviceBootstrapToken_def Let_def snd_conv
    by (rule records_set [OF records_load [OF recs]])
      (use iss BootIssue issued_profile_handoff in \<open>auto simp: bootstrap_ts_def intro!: persisted_input\<close>)
  then show ?thesis using BootIssue by simp
next
  case (BootClear t)
  then show ?thesis by (simp add: clearDeviceBootstrapTokens_def records_issued_def)
next
  case (BootRevoke tok t)
  then show ?thesis using revoke_boot [OF ok, of tok t] recs records_delete [OF records_load [OF recs]] by auto
next
  case (BootRestore r t)
  then show ?thesis using gen records_set [OF records_load [OF recs]] by (simp add: restoreDeviceBootstrapToken_def)
next
  case (BootRedeem tok role ss t)
  show ?thesis
  proof (rule redeem_boot_cases [OF ok, of tok role ss t])
    fix r r' assume r: "map_get (load_bootstrap t st) (js_trim tok) = Some r" "bootstrap_ts r' = bootstrap_ts r"
      "br_profile r' = Some (profile_input (resolvePersistedBootstrapProfile r))"
      "snd (redeemDeviceBootstrapTokenProfile tok role ss t st) = map_set (load_bootstrap t st) (js_trim tok) r'"
      and ts: "br_ts r' = br_ts r"
    have "handoff_profile r'"
      using records_get [OF records_load [OF recs] r(1)] by (intro persisted_input [OF r(3)]) (simp add: handoff_profile_def)
    then show ?thesis
      using BootRedeem r records_set [OF records_load [OF recs]] records_get [OF records_load [OF recs] r(1)] ts by simp
  qed (use BootRedeem recs in simp)
next
  case (BootVerify tok d k role ss t now)
  show ?thesis
  proof (rule verify_boot_cases [OF ok, of b64 tok d k role ss t now])
    fix r p assume r: "map_get (load_bootstrap t st) (js_trim tok) = Some r"
      "verifyDeviceBootstrapToken b64 tok d k role ss t now st = (\<lparr>tc_ok = True, tc_reason = None\<rparr>,
         map_set (load_bootstrap t st) (js_trim tok)
           (bind_bootstrap r (resolvePersistedBootstrapProfile r) p (js_trim d) (normalizeBootstrapPublicKey b64 k) now))"
    have rec: "br_ts r \<noteq> None" "(js_trim tok, bootstrap_ts r) \<in> set issued" "handoff_profile r"
      using records_get [OF records_load [OF recs] r(1)] by simp_all
    have "records_issued issued (map_set (load_bootstrap t st) (js_trim tok)
           (bind_bootstrap r (resolvePersistedBootstrapProfile r) p (js_trim d) (normalizeBootstrapPublicKey b64 k) now))"
      by (intro records_set [OF records_load [OF recs]] persisted_input [where p = "resolvePersistedBootstrapProfile r"])
        (use rec in \<open>simp_all add: bind_bootstrap_def bootstrap_ts_def handoff_profile_def\<close>)
    then show ?thesis using BootVerify r(2) by simp
  qed (use BootVerify recs in simp)
qed

lemma genuine_tokens: "restores_genuine issued op \<Longrightarrow> restores_token op"
  by (cases op) simp_all

lemma history_issued:
  assumes "boot_ok st" and "records_issued issued st" and "list_all (restores_genuine issued) ops"
    and "set (issues ops) \<subseteq> set issued"
  shows "records_issued issued (bootstrap_history b64 ops st)"
  using assms unfolding bootstrap_history_def
proof (induction ops arbitrary: st)
  case (Cons op ops)
  have "records_issued issued (bootstrap_run b64 op st)"
    by (rule run_issued [OF Cons.prems(1,2)]) (use Cons.prems(3,4) in \<open>simp_all add: issues_def\<close>)
  moreover have "boot_ok (bootstrap_run b64 op st)"
    using Cons.prems(3) by (intro boot_run_ok [OF Cons.prems(1)] genuine_tokens [of issued]) simp
  ultimately show ?case using Cons.IH Cons.prems(3,4) by (simp add: issues_def)
qed simp

subsection \<open>Properties\<close>

definition boot_start :: bootstrap_file where
  "boot_start = []"

lemma boot_start_ok: "boot_ok boot_start" "records_issued issued boot_start"
  by (simp_all add: boot_start_def boot_ok_def records_issued_def)

lemma boot_bounded:
  assumes "list_all (restores_genuine (issues ops)) ops" and "js_trim role = OPERATOR_ROLE"
    and "tc_ok (fst (verifyDeviceBootstrapToken b64 tok dev key role scopes t now (bootstrap_history b64 ops boot_start)))"
  shows "list_ex (\<lambda>(fresh, issued). fresh = js_trim tok \<and> t - issued \<le> DEVICE_BOOTSTRAP_TOKEN_TTL_MS) (issues ops) \<and>
    list_all (\<lambda>s. operatorScopeSatisfied s BOOTSTRAP_HANDOFF_OPERATOR_SCOPES \<and>
      s \<notin> {''operator.admin'', ''operator.pairing''}) (normalizeScopeList scopes)"
proof -
  let ?st = "bootstrap_history b64 ops boot_start"
  have ok: "boot_ok ?st"
    using assms(1) genuine_tokens by (intro boot_history_ok boot_start_ok) (auto simp: list_all_iff)
  have recs: "records_issued (issues ops) ?st" by (rule history_issued [OF boot_start_ok assms(1)]) simp
  show ?thesis
  proof (rule verify_boot_cases [OF ok, of b64 tok dev key role scopes t now])
    assume "verifyDeviceBootstrapToken b64 tok dev key role scopes t now ?st = (bootstrap_invalid, ?st)"
    then show ?thesis using assms(3) by (simp add: bootstrap_invalid_def)
  next
    fix r p
    assume r: "map_get (load_bootstrap t ?st) (js_trim tok) = Some r"
      and allowed: "bootstrapProfileAllowsRequest (resolvePersistedBootstrapProfile r) (js_trim role) scopes"
    have time: "t - bootstrap_ts r \<le> DEVICE_BOOTSTRAP_TOKEN_TTL_MS"
      using r load_get [of ?st t] ok by (auto simp: boot_ok_def split: option.splits if_splits)
    have rec: "(js_trim tok, bootstrap_ts r) \<in> set (issues ops)" "handoff_profile r"
      using records_get [OF records_load [OF recs] r] by simp_all
    have sat: "operatorScopeSatisfied s BOOTSTRAP_HANDOFF_OPERATOR_SCOPES" if "s \<in> set (normalizeScopeList scopes)" for s
    proof -
      have "operatorScopeSatisfied s (normalizeScopeList (bp_scopes (resolvePersistedBootstrapProfile r)))"
        using allowed assms(2) that by (intro operator_allowed) (simp_all add: bootstrapProfileAllowsRequest_def)
      then show ?thesis
        using rec(2) by (rule handoff_satisfied)
    qed
    have "\<not> operatorScopeSatisfied ''operator.admin'' BOOTSTRAP_HANDOFF_OPERATOR_SCOPES"
      "\<not> operatorScopeSatisfied ''operator.pairing'' BOOTSTRAP_HANDOFF_OPERATOR_SCOPES" by code_simp+
    then show ?thesis using time rec(1) sat by (fastforce simp: list_ex_iff list_all_iff)
  qed
qed

text \<open>C12: A bootstrap token serves one device. Once a device identity has presented the token with
  success, no later operation lets another device id or another public key present the same token
  with success, unless the token is issued or restored anew.\<close>

theorem bootstrap_token_single_device:
  assumes "stable_keys b64" and "list_all restores_token (before @ later)"
    and "tc_ok (fst (verifyDeviceBootstrapToken b64 tok dev key role scopes t now (bootstrap_history b64 before boot_start)))"
    and "list_all (\<lambda>op. \<not> boot_reissues op (js_trim tok)) later"
    and "tc_ok (fst (verifyDeviceBootstrapToken b64 tok' dev' key' role' scopes' t' now'
      (bootstrap_history b64 (before @ BootVerify tok dev key role scopes t now # later) boot_start)))"
    and "js_trim tok' = js_trim tok"
  shows "js_trim dev' = js_trim dev \<and> normalizeBootstrapPublicKey b64 key' = normalizeBootstrapPublicKey b64 key"
proof -
  let ?st = "bootstrap_history b64 before boot_start" and ?key = "normalizeBootstrapPublicKey b64 key"
  let ?st1 = "snd (verifyDeviceBootstrapToken b64 tok dev key role scopes t now ?st)"
  have ok: "boot_ok ?st" using assms(2) by (intro boot_history_ok boot_start_ok) simp
  have ok1: "boot_ok ?st1" using boot_run_ok [OF ok, of "BootVerify tok dev key role scopes t now" b64] by simp
  have b: "bound_to b64 ?st1 (js_trim tok) (js_trim dev) ?key \<and> js_trim dev \<noteq> []"
  proof (rule verify_boot_cases [OF ok, of b64 tok dev key role scopes t now])
    assume "verifyDeviceBootstrapToken b64 tok dev key role scopes t now ?st = (bootstrap_invalid, ?st)"
    then show ?thesis using assms(3) by (simp add: bootstrap_invalid_def)
  qed (simp_all add: bound_to_def bind_bootstrap_def js_trim_idem public_key_idem [OF assms(1)])
  define st2 where "st2 = bootstrap_history b64 later ?st1"
  have ok2: "boot_ok st2" unfolding st2_def using assms(2) by (intro boot_history_ok [OF ok1]) simp
  have bound: "bound_to b64 st2 (js_trim tok) (js_trim dev) ?key"
    unfolding st2_def using history_bound [OF ok1 assms(1)] b assms(2,4) by simp
  have st2: "bootstrap_history b64 (before @ BootVerify tok dev key role scopes t now # later) boot_start = st2"
    by (simp add: st2_def bootstrap_history_def)
  show ?thesis
  proof (rule verify_boot_cases [OF ok2, of b64 tok' dev' key' role' scopes' t' now'])
    assume "verifyDeviceBootstrapToken b64 tok' dev' key' role' scopes' t' now' st2 = (bootstrap_invalid, st2)"
    then show ?thesis using assms(5) st2 by (simp add: bootstrap_invalid_def)
  next
    fix r p
    assume "map_get (load_bootstrap t' st2) (js_trim tok') = Some r"
      "(truthy (map_option js_trim (br_deviceId r)) = None \<and> truthy (map_option (normalizeBootstrapPublicKey b64) (br_publicKey r)) = None) \<or>
       (map_option js_trim (br_deviceId r) = Some (js_trim dev') \<and>
        map_option (normalizeBootstrapPublicKey b64) (br_publicKey r) = Some (normalizeBootstrapPublicKey b64 key'))"
    then show ?thesis using bound_load [OF ok2 bound, of t'] b assms(6) by (auto simp: bound_to_def)
  qed
qed

text \<open>A sample: the token \<open>b\<close> is issued with the default profile and presented by the phone.\<close>

definition no_b64 :: "string \<Rightarrow> string option" where
  "no_b64 k = None"

definition sample_boot :: "bootstrap_op list" where
  "sample_boot = [BootIssue None None None ''b'' 0 0]"

lemma sample_boot_verified:
  "tc_ok (fst (verifyDeviceBootstrapToken no_b64 ''b'' ''phone'' ''k'' ''operator'' [''operator.read''] 10 10
     (bootstrap_history no_b64 sample_boot boot_start)))"
  "tc_ok (fst (verifyDeviceBootstrapToken no_b64 ''b'' ''phone'' ''k'' ''operator'' [''operator.read''] 20 20
     (bootstrap_history no_b64 (sample_boot @ BootVerify ''b'' ''phone'' ''k'' ''operator'' [''operator.read''] 10 10 # []) boot_start)))"
  by code_simp+

theorem bootstrap_token_single_device_witness:
  "js_trim ''phone'' = js_trim ''phone'' \<and> normalizeBootstrapPublicKey no_b64 ''k'' = normalizeBootstrapPublicKey no_b64 ''k''"
  by (rule bootstrap_token_single_device [OF _ _ sample_boot_verified(1) _ sample_boot_verified(2)])
    (simp_all add: stable_keys_def no_b64_def sample_boot_def)

text \<open>A bootstrap token hands over little and not for long. When one is accepted for the operator
  role, it was issued at most its time to live before, and every requested scope is covered by the
  hand-over list: approvals, read, write and talk secrets, never admin or pairing.\<close>

theorem bootstrap_token_bounded:
  assumes "list_all (restores_genuine (issues ops)) ops" and "js_trim role = OPERATOR_ROLE"
    and "tc_ok (fst (verifyDeviceBootstrapToken b64 tok dev key role scopes t now (bootstrap_history b64 ops boot_start)))"
  shows "list_ex (\<lambda>(fresh, issued). fresh = js_trim tok \<and> t - issued \<le> DEVICE_BOOTSTRAP_TOKEN_TTL_MS) (issues ops) \<and>
    list_all (\<lambda>s. operatorScopeSatisfied s BOOTSTRAP_HANDOFF_OPERATOR_SCOPES \<and>
      s \<notin> {''operator.admin'', ''operator.pairing''}) (normalizeScopeList scopes)"
  using assms by (rule boot_bounded)

theorem bootstrap_token_bounded_witness:
  "list_ex (\<lambda>(fresh, issued). fresh = js_trim ''b'' \<and> 10 - issued \<le> DEVICE_BOOTSTRAP_TOKEN_TTL_MS) (issues sample_boot)"
  using bootstrap_token_bounded [OF _ _ sample_boot_verified(1)]
  by (simp add: sample_boot_def issues_def OPERATOR_ROLE_def js_trim_def js_trim_start_def js_trim_end_def js_is_space_def)

end
