(* ===== verification/PairingHandshake.thy ===== *)
theory PairingHandshake
  imports DeviceTheorems DeviceBootstrapProps GatewayConnectProps
begin

section \<open>A handshake against the pairing stores\<close>

text \<open>
  The handshake of \<open>GatewayConnect\<close> takes the checks of bootstrap and device tokens as arguments.
  Here they are those of the stores, \<open>verifyDeviceBootstrapToken\<close> and \<open>verifyDeviceToken\<close>, after
  any history of operations: what a device without the configured secret may do.
\<close>

definition store_bootstrap_check :: "(string \<Rightarrow> string option) \<Rightarrow> bootstrap_op list \<Rightarrow> int \<Rightarrow> bootstrap_check" where
  "store_bootstrap_check b64 bops t dev key tok role scopes =
     fst (verifyDeviceBootstrapToken b64 tok dev key role scopes t t (bootstrap_history b64 bops boot_start))"

definition store_device_check :: "device_op list \<Rightarrow> int \<Rightarrow> device_check" where
  "store_device_check ops t dev tok role scopes =
     fst (verifyDeviceToken dev tok role scopes t t (device_history ops empty_devices))"

definition paired_handshake ::
  "ip_library \<Rightarrow> url_parser \<Rightarrow> (string \<Rightarrow> tailscale_identity option) \<Rightarrow> (string \<Rightarrow> string option) \<Rightarrow>
   bootstrap_op list \<Rightarrow> device_op list \<Rightarrow> handshake_params \<Rightarrow> string option \<Rightarrow> string option \<Rightarrow> string \<Rightarrow>
   string list \<Rightarrow> int \<Rightarrow> auth_entries \<Rightarrow> connect_auth_decision" where
  "paired_handshake lib pu wh b64 bops ops h deviceId publicKey role scopes t es =
     handshake_decision lib pu wh (store_bootstrap_check b64 bops t) (store_device_check ops t) h
       deviceId publicKey role scopes t t es"

definition sample_phone :: handshake_params where
  "sample_phone = sample_handshake\<lparr>hp_hasDeviceIdentity := True,
     hp_connectAuth := Some \<lparr>hc_token = None, hc_bootstrapToken = None, hc_deviceToken = Some ''t1'', hc_password = None\<rparr>\<rparr>"

lemma sample_phone_refused:
  "authorizeGatewayConnectCore sample_ips pu wh (handshake_connect sample_phone) now later es =
    (auth_refused ''token_missing'', es)"
  by (simp add: handshake_connect_def sample_phone_def sample_handshake_def resolveSharedConnectAuth_def
      normalizeOptionalString_def normalizeNullableString_def authorizeGatewayConnectCore_def connect_limiter_check_def
      authorize_secret_def authorizeTokenAuth_def truthy_def shouldAllowTailscaleHeaderAuth_def connect_surface_def Let_def)

lemma sample_trims: "js_trim ''t1'' = ''t1''" "js_trim ''operator'' = OPERATOR_ROLE"
  by code_simp+

text \<open>C14: What pairing is worth. When a connection without the configured secret is let in as an
  operator against the stores of bootstrap tokens and paired devices, after any history of both in which no
  request asked for a role that begins like an operator scope and bootstrap tokens were only put back
  as they were issued, it has a device identity, and either every scope it asks for was granted to that device by an earlier
  approval, or every one is on the hand-over list of bootstrap tokens.\<close>

theorem paired_handshake_scopes:
  assumes "cd_authOk (paired_handshake lib pu wh b64 bops ops h deviceId publicKey role scopes t es)"
    and "\<not> gr_ok (fst (authorizeWsControlUiGatewayConnect lib pu wh (handshake_connect h) t t es))"
    and "js_trim role = OPERATOR_ROLE" and "list_all plain_op ops" and "list_all (restores_genuine (issues bops)) bops"
  shows "hp_hasDeviceIdentity h \<and>
    (list_all (scope_granted (device_grants ops empty_devices) (normalizeDeviceId (the deviceId)))
       (normalizeDeviceAuthScopes (Some scopes)) \<or>
     list_all (\<lambda>s. operatorScopeSatisfied s BOOTSTRAP_HANDOFF_OPERATOR_SCOPES) (normalizeScopeList scopes))"
proof -
  have "device_proved (store_bootstrap_check b64 bops t) (store_device_check ops t) h deviceId publicKey role scopes"
    using handshake_ok [OF assms(1) [unfolded paired_handshake_def]] assms(2) by blast
  then consider dev key tok where "hp_hasDeviceIdentity h"
      "tc_ok (fst (verifyDeviceBootstrapToken b64 tok dev key role scopes t t (bootstrap_history b64 bops boot_start)))"
    | dev tok where "hp_hasDeviceIdentity h" "deviceId = Some dev"
      "tc_ok (fst (verifyDeviceToken dev tok role scopes t t (device_history ops empty_devices)))"
    by (auto simp: device_proved_def store_bootstrap_check_def store_device_check_def)
  then show ?thesis
  proof cases
    case 1
    then show ?thesis using boot_bounded [OF assms(5,3) 1(2)] by (simp add: list_all_iff)
  next
    case 2
    then show ?thesis using device_granted [OF assms(4) 2(3) assms(3)] by (simp add: list_all_iff)
  qed
qed

theorem paired_handshake_scopes_witness:
  "list_all (scope_granted (device_grants sample_pairing empty_devices) (normalizeDeviceId ''phone'')) [''operator.read''] \<or>
   list_all (\<lambda>s. operatorScopeSatisfied s BOOTSTRAP_HANDOFF_OPERATOR_SCOPES) (normalizeScopeList [''operator.read''])"
proof -
  have norm: "normalizeDeviceAuthScopes (Some [''operator.read'']) = [''operator.read'']" by code_simp
  have token: "resolveSharedConnectAuth (hp_connectAuth sample_phone) = None"
    "resolveDeviceTokenCandidate (hp_connectAuth sample_phone) = (Some ''t1'', Some ExplicitDeviceToken)"
    "hp_hasDeviceIdentity sample_phone" "hp_rateLimiter sample_phone = None"
    by (simp_all add: sample_phone_def sample_handshake_def resolveSharedConnectAuth_def resolveDeviceTokenCandidate_def
        normalizeOptionalString_def normalizeNullableString_def sample_trims)
  have "cd_authOk (paired_handshake sample_ips (\<lambda>u. None) (\<lambda>ip. None) no_b64 [] sample_pairing sample_phone
      (Some ''phone'') None ''operator'' [''operator.read''] 30 [])"
    using sample_verified token
    by (simp add: paired_handshake_def store_device_check_def handshake_decision_def resolveConnectAuthState_def
        resolveConnectAuthDecision_def bootstrap_decision_def authorizeWsControlUiGatewayConnect_def
        authorizeHttpGatewayConnect_def sample_phone_refused truthy_def Let_def case_prod_beta auth_refused_def)
  moreover have "list_all plain_op sample_pairing" by code_simp
  moreover have "\<not> gr_ok (fst (authorizeWsControlUiGatewayConnect sample_ips (\<lambda>u. None) (\<lambda>ip. None)
      (handshake_connect sample_phone) 30 30 []))"
    by (simp add: authorizeWsControlUiGatewayConnect_def sample_phone_refused auth_refused_def)
  ultimately show ?thesis
    using paired_handshake_scopes [of sample_ips "\<lambda>u. None" "\<lambda>ip. None" no_b64 "[]" sample_pairing sample_phone
        "Some ''phone''" None "''operator''" "[''operator.read'']" 30 "[]"]
    by (simp only: sample_trims norm list.pred_inject option.sel simp_thms)
qed

end
