(* ===== verification/AllowFromStore.thy ===== *)
theory AllowFromStore
  imports AgentIds JsStrings
begin

section \<open>The files of paired senders\<close>

text \<open>
  Models \<^verbatim>\<open>src/pairing/allow-from-store-file.ts\<close>, \<^verbatim>\<open>src/pairing/allow-from-store-read.ts\<close> and the
  allowlist half of \<^verbatim>\<open>src/pairing/pairing-store.ts\<close>. A channel has one file of senders per account
  and a legacy file without account; a file is named after the two. A read goes through a cache that
  trusts the modification time and the size of the file. The directory is fixed, so a path is a
  file name; what the file system reports after a write is an argument. A file whose text is not a
  JSON object with an \<open>allowFrom\<close> array holds nothing. The plugin's \<open>normalizeAllowEntry\<close> is the
  parameter \<open>adapters\<close>.
\<close>

subsection \<open>File names\<close>

definition unsafe_file_char :: "char \<Rightarrow> bool" where
  "unsafe_file_char c = (c \<in> set (''/:*?<>|'' @ [CHR 0x5C, CHR 0x22]))"

text \<open>\<open>replace(/\.\./g, "_")\<close>.\<close>

fun replace_dots :: "string \<Rightarrow> string" where
  "replace_dots [] = []"
| "replace_dots [c] = [c]"
| "replace_dots (c # d # s) =
     (if c = CHR ''.'' \<and> d = CHR ''.'' then CHR ''_'' # replace_dots s else c # replace_dots (d # s))"

definition describePairingFilenameKeyInput :: "string \<Rightarrow> string" where
  "describePairingFilenameKeyInput value =
     (let trimmed = js_trim value
      in if trimmed \<noteq> [] then ''string length '' @ show_nat (length trimmed) else ''empty string'')"

definition invalidPairingFilenameKeyError :: "string \<Rightarrow> string \<Rightarrow> string \<Rightarrow> string" where
  "invalidPairingFilenameKeyError kind reason value =
     ''invalid pairing '' @ kind @ '': '' @ reason @ ''; got '' @ describePairingFilenameKeyInput value"

definition normalizePairingFilenameKey :: "string \<Rightarrow> string \<Rightarrow> string + string" where
  "normalizePairingFilenameKey value kind =
     (let raw = normalizeLowercaseStringOrEmpty (Some value)
      in if raw = [] then Inl (invalidPairingFilenameKeyError kind ''expected non-empty string'' value)
         else
           let safe = replace_dots (map (\<lambda>c. if unsafe_file_char c then CHR ''_'' else c) raw)
           in if safe = [] \<or> safe = ''_'' then
                Inl (invalidPairingFilenameKeyError kind ''sanitized filename key is empty'' value)
              else Inr safe)"

definition safeChannelKey :: "string \<Rightarrow> string + string" where
  "safeChannelKey channel = normalizePairingFilenameKey channel ''channel''"

definition safeAccountKey :: "string \<Rightarrow> string + string" where
  "safeAccountKey accountId = normalizePairingFilenameKey accountId ''account id''"

definition resolveOptionalAccountFilenameKey :: "string option \<Rightarrow> string + string option" where
  "resolveOptionalAccountFilenameKey accountId =
     (case accountId of
        None \<Rightarrow> Inr None
      | Some account \<Rightarrow>
          (let normalizedAccountId = nullish (normalizeOptionalString (Some account)) []
           in if normalizedAccountId \<noteq> [] then map_sum id Some (safeAccountKey normalizedAccountId) else Inr None))"

definition resolveAllowFromFilePath :: "string \<Rightarrow> string option \<Rightarrow> string + string" where
  "resolveAllowFromFilePath channel accountId =
     (case safeChannelKey channel of
        Inl err \<Rightarrow> Inl err
      | Inr base \<Rightarrow>
          (case resolveOptionalAccountFilenameKey accountId of
             Inl err \<Rightarrow> Inl err
           | Inr None \<Rightarrow> Inr (base @ ''-allowFrom.json'')
           | Inr (Some accountKey) \<Rightarrow> Inr (base @ ''-'' @ accountKey @ ''-allowFrom.json'')))"

definition dedupePreserveOrder :: "string list \<Rightarrow> string list" where
  "dedupePreserveOrder entries =
     js_uniq (filter (\<lambda>e. e \<noteq> []) (map (\<lambda>e. nullish (normalizeOptionalString (Some e)) []) entries))"

definition shouldIncludeLegacyAllowFromEntries :: "string \<Rightarrow> bool" where
  "shouldIncludeLegacyAllowFromEntries normalizedAccountId =
     (normalizedAccountId = [] \<or> normalizedAccountId = DEFAULT_ACCOUNT_ID)"

definition resolveAllowFromAccountId :: "string option \<Rightarrow> string" where
  "resolveAllowFromAccountId accountId = or_str (normalizeLowercaseStringOrEmpty accountId) DEFAULT_ACCOUNT_ID"

subsection \<open>Files and the read cache\<close>

record allow_file =
  af_store :: "string list option"
  af_stat :: "int \<times> int"

record allow_cache_entry =
  ce_exists :: bool
  ce_stat :: "(int \<times> int) option"
  ce_entries :: "string list"

record allow_files =
  al_files :: "(string, allow_file) js_map"
  al_cache :: "(string, allow_cache_entry) js_map"

definition resolveAllowFromCacheKey :: "string \<Rightarrow> string \<Rightarrow> string" where
  "resolveAllowFromCacheKey cacheNamespace filePath = cacheNamespace @ CHR 0x00 # filePath"

definition setAllowFromFileReadCache :: "string \<Rightarrow> string \<Rightarrow> allow_cache_entry \<Rightarrow> allow_files \<Rightarrow> allow_files" where
  "setAllowFromFileReadCache cacheNamespace filePath entry fs =
     fs\<lparr>al_cache := map_set (al_cache fs) (resolveAllowFromCacheKey cacheNamespace filePath) entry\<rparr>"

definition resolveAllowFromReadCacheHit ::
  "string \<Rightarrow> string \<Rightarrow> bool \<Rightarrow> (int \<times> int) option \<Rightarrow> allow_files \<Rightarrow> allow_cache_entry option" where
  "resolveAllowFromReadCacheHit cacheNamespace filePath exists stat fs =
     (case map_get (al_cache fs) (resolveAllowFromCacheKey cacheNamespace filePath) of
        None \<Rightarrow> None
      | Some cached \<Rightarrow>
          if ce_exists cached \<noteq> exists then None
          else if \<not> exists then Some cached
          else if ce_stat cached \<noteq> stat then None
          else Some cached)"

definition resolveAllowFromReadCacheOrMissing ::
  "string \<Rightarrow> string \<Rightarrow> (int \<times> int) option \<Rightarrow> allow_files \<Rightarrow> (string list \<times> bool) option \<times> allow_files" where
  "resolveAllowFromReadCacheOrMissing cacheNamespace filePath stat fs =
     (case resolveAllowFromReadCacheHit cacheNamespace filePath (stat \<noteq> None) stat fs of
        Some cached \<Rightarrow> (Some (ce_entries cached, ce_exists cached), fs)
      | None \<Rightarrow>
          if stat = None then
            (Some ([], False),
             setAllowFromFileReadCache cacheNamespace filePath
               \<lparr>ce_exists = False, ce_stat = None, ce_entries = []\<rparr> fs)
          else (None, fs))"

definition readAllowFromFileWithExists ::
  "string \<Rightarrow> string \<Rightarrow> (string list \<Rightarrow> string list) \<Rightarrow> allow_files \<Rightarrow> (string list \<times> bool) \<times> allow_files" where
  "readAllowFromFileWithExists cacheNamespace filePath normalizeStore fs =
     (let file = map_get (al_files fs) filePath;
          (answer, fs1) = resolveAllowFromReadCacheOrMissing cacheNamespace filePath (map_option af_stat file) fs
      in case (answer, file) of
           (Some r, _) \<Rightarrow> (r, fs1)
         | (None, None) \<Rightarrow> (([], False), fs1)
         | (None, Some f) \<Rightarrow>
             (let entries = (case af_store f of None \<Rightarrow> [] | Some allowFrom \<Rightarrow> normalizeStore allowFrom)
              in ((entries, True),
                  setAllowFromFileReadCache cacheNamespace filePath
                    \<lparr>ce_exists = True, ce_stat = Some (af_stat f), ce_entries = entries\<rparr> fs1)))"

text \<open>The synchronous variant, which caches in each branch of its \<open>try\<close>.\<close>

definition readAllowFromFileSyncWithExists ::
  "string \<Rightarrow> string \<Rightarrow> (string list \<Rightarrow> string list) \<Rightarrow> allow_files \<Rightarrow> (string list \<times> bool) \<times> allow_files" where
  "readAllowFromFileSyncWithExists cacheNamespace filePath normalizeStore fs =
     (let file = map_get (al_files fs) filePath;
          (answer, fs1) = resolveAllowFromReadCacheOrMissing cacheNamespace filePath (map_option af_stat file) fs
      in case answer of
           Some r \<Rightarrow> (r, fs1)
         | None \<Rightarrow>
             (case file of
                None \<Rightarrow> (([], False), fs1)
              | Some f \<Rightarrow>
                  (case af_store f of
                     Some allowFrom \<Rightarrow>
                       (let entries = normalizeStore allowFrom
                        in ((entries, True),
                            setAllowFromFileReadCache cacheNamespace filePath
                              \<lparr>ce_exists = True, ce_stat = Some (af_stat f), ce_entries = entries\<rparr> fs1))
                   | None \<Rightarrow>
                       (([], True),
                        setAllowFromFileReadCache cacheNamespace filePath
                          \<lparr>ce_exists = True, ce_stat = Some (af_stat f), ce_entries = []\<rparr> fs1))))"

lemma sync_read_agrees:
  "readAllowFromFileSyncWithExists ns path tidy fs = readAllowFromFileWithExists ns path tidy fs"
  by (simp add: readAllowFromFileSyncWithExists_def readAllowFromFileWithExists_def Let_def
      split: prod.split option.split)

definition clearAllowFromFileReadCacheForNamespace :: "string \<Rightarrow> allow_files \<Rightarrow> allow_files" where
  "clearAllowFromFileReadCacheForNamespace cacheNamespace fs =
     fs\<lparr>al_cache := filter (\<lambda>(key, e). \<not> starts_with key (cacheNamespace @ [CHR 0x00])) (al_cache fs)\<rparr>"

subsection \<open>Entries\<close>

definition PAIRING_ALLOW_FROM_CACHE_NAMESPACE :: string where
  "PAIRING_ALLOW_FROM_CACHE_NAMESPACE = ''pairing-store''"

definition ALLOW_FROM_STORE_READ_CACHE_NAMESPACE :: string where
  "ALLOW_FROM_STORE_READ_CACHE_NAMESPACE = ''allow-from-store-read''"

type_synonym pairing_adapters = "string \<Rightarrow> (string \<Rightarrow> string) option"

definition normalizeId :: "allow_entry \<Rightarrow> string" where
  "normalizeId value = nullish (normalizeOptionalString (Some (entry_string value))) []"

definition normalizeAllowEntry :: "pairing_adapters \<Rightarrow> string \<Rightarrow> string \<Rightarrow> string" where
  "normalizeAllowEntry adapters channel entry =
     (let trimmed = js_trim entry
      in if trimmed = [] then []
         else if trimmed = ''*'' then []
         else
           let normalized = (case adapters channel of Some f \<Rightarrow> f trimmed | None \<Rightarrow> trimmed)
           in nullish (normalizeOptionalString (Some normalized)) [])"

definition normalizeAllowFromList :: "pairing_adapters \<Rightarrow> string \<Rightarrow> string list \<Rightarrow> string list" where
  "normalizeAllowFromList adapters channel list =
     dedupePreserveOrder (filter (\<lambda>e. e \<noteq> []) (map (normalizeAllowEntry adapters channel) list))"

definition normalizeAllowFromInput :: "pairing_adapters \<Rightarrow> string \<Rightarrow> allow_entry \<Rightarrow> string" where
  "normalizeAllowFromInput adapters channel entry = normalizeAllowEntry adapters channel (normalizeId entry)"

definition normalizeRawAllowFromList :: "string list \<Rightarrow> string list" where
  "normalizeRawAllowFromList list =
     dedupePreserveOrder (filter (\<lambda>e. e \<noteq> []) (map (\<lambda>e. nullish (normalizeOptionalString (Some e)) []) list))"

subsection \<open>Updates\<close>

definition write_file :: "string \<Rightarrow> string list option \<Rightarrow> int \<times> int \<Rightarrow> allow_files \<Rightarrow> allow_files" where
  "write_file path store stat fs = fs\<lparr>al_files := map_set (al_files fs) path \<lparr>af_store = store, af_stat = stat\<rparr>\<rparr>"

definition ensureAllowFile :: "string \<Rightarrow> int \<times> int \<Rightarrow> allow_files \<Rightarrow> allow_files" where
  "ensureAllowFile path stat fs =
     (if map_get (al_files fs) path = None then write_file path (Some []) stat fs else fs)"

definition readAllowFromState ::
  "pairing_adapters \<Rightarrow> string \<Rightarrow> allow_entry \<Rightarrow> string \<Rightarrow> allow_files \<Rightarrow> string list \<times> string option" where
  "readAllowFromState adapters channel entry path fs =
     (let store = nullish (Option.bind (map_get (al_files fs) path) af_store) [];
          normalized = normalizeAllowFromInput adapters channel entry
      in (normalizeAllowFromList adapters channel store, if normalized = [] then None else Some normalized))"

definition writeAllowFromState :: "string \<Rightarrow> string list \<Rightarrow> int \<times> int \<Rightarrow> allow_files \<Rightarrow> allow_files" where
  "writeAllowFromState path allowFrom stat fs =
     setAllowFromFileReadCache PAIRING_ALLOW_FROM_CACHE_NAMESPACE path
       \<lparr>ce_exists = True, ce_stat = Some stat, ce_entries = allowFrom\<rparr> (write_file path (Some allowFrom) stat fs)"

text \<open>The two stats are those of the file when it had to be created and when it was written.\<close>

definition updateAllowFromStoreEntry ::
  "pairing_adapters \<Rightarrow> string \<Rightarrow> allow_entry \<Rightarrow> string option \<Rightarrow> (string list \<Rightarrow> string \<Rightarrow> string list option) \<Rightarrow>
   int \<times> int \<Rightarrow> int \<times> int \<Rightarrow> allow_files \<Rightarrow> (string + bool \<times> string list) \<times> allow_files" where
  "updateAllowFromStoreEntry adapters channel entry accountId change createdStat stat fs =
     (case resolveAllowFromFilePath channel accountId of
        Inl err \<Rightarrow> (Inl err, fs)
      | Inr path \<Rightarrow>
          (let fs1 = ensureAllowFile path createdStat fs;
               (current, normalized) = readAllowFromState adapters channel entry path fs1
           in case normalized of
                None \<Rightarrow> (Inr (False, current), fs1)
              | Some n \<Rightarrow>
                  (case change current n of
                     None \<Rightarrow> (Inr (False, current), fs1)
                   | Some new \<Rightarrow> (Inr (True, new), writeAllowFromState path new stat fs1))))"

definition add_entry :: "string list \<Rightarrow> string \<Rightarrow> string list option" where
  "add_entry current normalized = (if normalized \<in> set current then None else Some (current @ [normalized]))"

definition remove_entry :: "string list \<Rightarrow> string \<Rightarrow> string list option" where
  "remove_entry current normalized =
     (let new = filter (\<lambda>e. e \<noteq> normalized) current
      in if length new = length current then None else Some new)"

definition addChannelAllowFromStoreEntry ::
  "pairing_adapters \<Rightarrow> string \<Rightarrow> allow_entry \<Rightarrow> string option \<Rightarrow> int \<times> int \<Rightarrow> int \<times> int \<Rightarrow> allow_files \<Rightarrow>
   (string + bool \<times> string list) \<times> allow_files" where
  "addChannelAllowFromStoreEntry adapters channel entry accountId =
     updateAllowFromStoreEntry adapters channel entry accountId add_entry"

definition removeChannelAllowFromStoreEntry ::
  "pairing_adapters \<Rightarrow> string \<Rightarrow> allow_entry \<Rightarrow> string option \<Rightarrow> int \<times> int \<Rightarrow> int \<times> int \<Rightarrow> allow_files \<Rightarrow>
   (string + bool \<times> string list) \<times> allow_files" where
  "removeChannelAllowFromStoreEntry adapters channel entry accountId =
     updateAllowFromStoreEntry adapters channel entry accountId remove_entry"

subsection \<open>Reads\<close>

definition readAllowFromStateForPath ::
  "pairing_adapters \<Rightarrow> string \<Rightarrow> string \<Rightarrow> allow_files \<Rightarrow> string list \<times> allow_files" where
  "readAllowFromStateForPath adapters channel path fs =
     map_prod fst id (readAllowFromFileWithExists PAIRING_ALLOW_FROM_CACHE_NAMESPACE path
       (normalizeAllowFromList adapters channel) fs)"

definition readLegacyChannelAllowFromStore ::
  "pairing_adapters \<Rightarrow> string \<Rightarrow> allow_files \<Rightarrow> (string + string list) \<times> allow_files" where
  "readLegacyChannelAllowFromStore adapters channel fs =
     (case resolveAllowFromFilePath channel None of
        Inl err \<Rightarrow> (Inl err, fs)
      | Inr path \<Rightarrow> map_prod Inr id (readAllowFromStateForPath adapters channel path fs))"

text \<open>
  The account's file and, for the default account, the legacy file. The reader is an argument, since
  the two reading modules differ only in it.
\<close>

definition read_scoped ::
  "(string \<Rightarrow> allow_files \<Rightarrow> string list \<times> allow_files) \<Rightarrow> string \<Rightarrow> string option \<Rightarrow> allow_files \<Rightarrow>
   (string + string list) \<times> allow_files" where
  "read_scoped readPath channel accountId fs =
     (let resolvedAccountId = resolveAllowFromAccountId accountId
      in case resolveAllowFromFilePath channel (Some resolvedAccountId) of
           Inl err \<Rightarrow> (Inl err, fs)
         | Inr scopedPath \<Rightarrow>
             (let (scopedEntries, fs1) = readPath scopedPath fs
              in if \<not> shouldIncludeLegacyAllowFromEntries resolvedAccountId then (Inr scopedEntries, fs1)
                 else case resolveAllowFromFilePath channel None of
                   Inl err \<Rightarrow> (Inl err, fs1)
                 | Inr legacyPath \<Rightarrow>
                     (let (legacyEntries, fs2) = readPath legacyPath fs1
                      in (Inr (dedupePreserveOrder (scopedEntries @ legacyEntries)), fs2))))"

definition readChannelAllowFromStore ::
  "pairing_adapters \<Rightarrow> string \<Rightarrow> string option \<Rightarrow> allow_files \<Rightarrow> (string + string list) \<times> allow_files" where
  "readChannelAllowFromStore adapters channel accountId fs =
     read_scoped (readAllowFromStateForPath adapters channel) channel accountId fs"

definition readAllowFromEntriesForPathSyncWithExists :: "string \<Rightarrow> allow_files \<Rightarrow> (string list \<times> bool) \<times> allow_files" where
  "readAllowFromEntriesForPathSyncWithExists path fs =
     readAllowFromFileSyncWithExists ALLOW_FROM_STORE_READ_CACHE_NAMESPACE path normalizeRawAllowFromList fs"

definition readChannelAllowFromStoreEntriesSync ::
  "string \<Rightarrow> string option \<Rightarrow> allow_files \<Rightarrow> (string + string list) \<times> allow_files" where
  "readChannelAllowFromStoreEntriesSync channel accountId fs =
     read_scoped (\<lambda>path fs. map_prod fst id (readAllowFromEntriesForPathSyncWithExists path fs)) channel accountId fs"

end
