(* ===== verification/ChannelPairing.thy ===== *)
theory ChannelPairing
  imports AllowFromStore "HOL-Library.Word"
begin

section \<open>Pairing codes of channels\<close>

text \<open>
  Models \<^verbatim>\<open>src/pairing/pairing-store.ts\<close> and \<^verbatim>\<open>pairing-challenge.ts\<close>: a stranger who writes to a
  channel gets a pairing code, at most three strangers per account wait at a time and for at most an
  hour, and the owner who enters the code puts the sender on the allowlist of the account. A stamp is
  the instant an ISO text denotes, or a text \<open>Date.parse\<close> cannot read. \<open>crypto.randomInt(0, 32)\<close>
  is a 5-bit word per attempt and position. The file lock makes every operation one step.
\<close>

subsection \<open>Data\<close>

datatype stamp = Instant int | Malformed string

record pairing_request =
  pr_id :: string
  pr_code :: string
  pr_createdAt :: stamp
  pr_lastSeenAt :: stamp
  pr_meta :: "(string, string) js_map option"

type_synonym pairing_files = "(string, pairing_request list) js_map"

definition PAIRING_CODE_LENGTH :: nat where
  "PAIRING_CODE_LENGTH = 8"

definition PAIRING_CODE_ALPHABET :: string where
  "PAIRING_CODE_ALPHABET = ''ABCDEFGHJKLMNPQRSTUVWXYZ23456789''"

definition PAIRING_CODE_MAX_ATTEMPTS :: nat where
  "PAIRING_CODE_MAX_ATTEMPTS = 500"

definition PAIRING_PENDING_TTL_MS :: int where
  "PAIRING_PENDING_TTL_MS = 60 * 60 * 1000"

definition PAIRING_PENDING_MAX :: nat where
  "PAIRING_PENDING_MAX = 3"

text \<open>
  \<open>toUpperCase\<close>. The sharp s becomes two letters; the upper case of the micro sign and of y with
  diaeresis is not Latin-1, and no other letter has it, so keeping the letter decides every
  comparison of upper-cased texts as the library does.
\<close>

definition js_upper_char :: "char \<Rightarrow> string" where
  "js_upper_char c =
     (let n = (of_char c :: nat)
      in if 97 \<le> n \<and> n \<le> 122 \<or> 224 \<le> n \<and> n \<le> 254 \<and> n \<noteq> 247 then [char_of (n - 32)]
         else if n = 223 then ''SS'' else [c])"

definition js_upper :: "string \<Rightarrow> string" where
  "js_upper s = concat (map js_upper_char s)"

definition resolvePairingPath :: "string \<Rightarrow> string + string" where
  "resolvePairingPath channel = map_sum id (\<lambda>key. key @ ''-pairing.json'') (safeChannelKey channel)"

subsection \<open>Expiry\<close>

definition parseTimestamp :: "stamp \<Rightarrow> int option" where
  "parseTimestamp value = (case value of Instant t \<Rightarrow> Some t | Malformed s \<Rightarrow> None)"

definition isExpired :: "pairing_request \<Rightarrow> int \<Rightarrow> bool" where
  "isExpired entry nowMs =
     (case parseTimestamp (pr_createdAt entry) of
        None \<Rightarrow> True
      | Some createdAt \<Rightarrow> createdAt = 0 \<or> nowMs - createdAt > PAIRING_PENDING_TTL_MS)"

definition pruneExpiredRequests :: "pairing_request list \<Rightarrow> int \<Rightarrow> pairing_request list \<times> bool" where
  "pruneExpiredRequests reqs nowMs =
     (filter (\<lambda>r. \<not> isExpired r nowMs) reqs, list_ex (\<lambda>r. isExpired r nowMs) reqs)"

definition resolveLastSeenAt :: "pairing_request \<Rightarrow> int" where
  "resolveLastSeenAt entry =
     nullish (nullish_opt (parseTimestamp (pr_lastSeenAt entry)) (parseTimestamp (pr_createdAt entry))) 0"

subsection \<open>Accounts\<close>

definition normalizePairingAccountId :: "string option \<Rightarrow> string" where
  "normalizePairingAccountId accountId = normalizeLowercaseStringOrEmpty accountId"

definition meta_account :: "pairing_request \<Rightarrow> string option" where
  "meta_account entry = Option.bind (pr_meta entry) (\<lambda>m. map_get m ''accountId'')"

definition resolvePairingRequestAccountId :: "pairing_request \<Rightarrow> string" where
  "resolvePairingRequestAccountId entry = or_str (normalizePairingAccountId (meta_account entry)) DEFAULT_ACCOUNT_ID"

definition requestMatchesAccountId :: "pairing_request \<Rightarrow> string \<Rightarrow> bool" where
  "requestMatchesAccountId entry normalizedAccountId =
     (if normalizedAccountId = [] then True else resolvePairingRequestAccountId entry = normalizedAccountId)"

text \<open>At most \<open>maxPending\<close> requests per account: of a larger group the ones seen last stay.\<close>

definition group_indexes :: "pairing_request list \<Rightarrow> (string, nat list) js_map" where
  "group_indexes reqs =
     fold (\<lambda>(index, entry) m.
         let accountId = resolvePairingRequestAccountId entry
         in map_set m accountId (nullish (map_get m accountId) [] @ [index]))
       (enumerate 0 reqs) []"

definition dropped_of_group :: "pairing_request list \<Rightarrow> nat \<Rightarrow> nat list \<Rightarrow> nat list" where
  "dropped_of_group reqs maxPending indexes =
     (if length indexes \<le> maxPending then []
      else take (length indexes - maxPending)
        (sort_by (\<lambda>l r. resolveLastSeenAt (reqs ! l) - resolveLastSeenAt (reqs ! r)) indexes))"

definition pruneExcessRequestsByAccount :: "pairing_request list \<Rightarrow> nat \<Rightarrow> pairing_request list \<times> bool" where
  "pruneExcessRequestsByAccount reqs maxPending =
     (if maxPending = 0 \<or> length reqs \<le> maxPending then (reqs, False)
      else
        let droppedIndexes = concat (map (\<lambda>(a, indexes). dropped_of_group reqs maxPending indexes) (group_indexes reqs))
        in if droppedIndexes = [] then (reqs, False)
           else (map snd (filter (\<lambda>(index, r). index \<notin> set droppedIndexes) (enumerate 0 reqs)), True))"

subsection \<open>Codes\<close>

type_synonym code_draws = "nat \<Rightarrow> nat \<Rightarrow> 5 word"

definition randomCode :: "(nat \<Rightarrow> 5 word) \<Rightarrow> string" where
  "randomCode draw = map (\<lambda>i. PAIRING_CODE_ALPHABET ! unat (draw i)) [0..<PAIRING_CODE_LENGTH]"

fun attempt_codes :: "string list \<Rightarrow> code_draws \<Rightarrow> nat \<Rightarrow> nat \<Rightarrow> string option" where
  "attempt_codes existing draws attempt 0 = None"
| "attempt_codes existing draws attempt (Suc left) =
     (let code = randomCode (draws attempt)
      in if code \<notin> set existing then Some code else attempt_codes existing draws (Suc attempt) left)"

definition generateUniqueCode :: "string list \<Rightarrow> code_draws \<Rightarrow> string + string" where
  "generateUniqueCode existing draws =
     (case attempt_codes existing draws 0 PAIRING_CODE_MAX_ATTEMPTS of
        Some code \<Rightarrow> Inr code
      | None \<Rightarrow> Inl (''failed to generate unique pairing code after '' @ show_nat PAIRING_CODE_MAX_ATTEMPTS @
          '' attempts; existing code count: '' @ show_nat (length existing)))"

definition existing_codes :: "pairing_request list \<Rightarrow> string list" where
  "existing_codes reqs = js_uniq (map (\<lambda>r. js_upper (nullish (normalizeOptionalString (Some (pr_code r))) [])) reqs)"

subsection \<open>Operations\<close>

record channel_store =
  cs_pending :: pairing_files
  cs_allow :: allow_files

definition read_requests :: "pairing_files \<Rightarrow> string \<Rightarrow> pairing_request list" where
  "read_requests files path = nullish (map_get files path) []"

definition ensure_requests :: "string \<Rightarrow> pairing_files \<Rightarrow> pairing_files" where
  "ensure_requests path files = (if map_get files path = None then map_set files path [] else files)"

fun find_index :: "('a \<Rightarrow> bool) \<Rightarrow> 'a list \<Rightarrow> nat option" where
  "find_index P [] = None"
| "find_index P (x # xs) = (if P x then Some 0 else map_option Suc (find_index P xs))"

definition request_meta :: "(string \<times> string option) list option \<Rightarrow> string \<Rightarrow> (string, string) js_map" where
  "request_meta meta accountId =
     map_set (case meta of
         None \<Rightarrow> []
       | Some m \<Rightarrow> filter (\<lambda>(k, v). v \<noteq> []) (map (\<lambda>(k, v). (k, nullish (normalizeOptionalString v) [])) m))
       ''accountId'' accountId"

text \<open>The result is the code, empty when no more requests are taken, and whether a request was created.\<close>

definition upsert_requests ::
  "string \<Rightarrow> string \<Rightarrow> (string, string) js_map \<Rightarrow> int \<Rightarrow> int \<Rightarrow> code_draws \<Rightarrow> pairing_request list \<Rightarrow>
   (string + string \<times> bool) \<times> pairing_request list" where
  "upsert_requests i account meta now nowMs draws stored =
     (let (reqs, expiredRemoved) = pruneExpiredRequests stored nowMs;
          existingCodes = existing_codes reqs
      in case find_index (\<lambda>r. pr_id r = i \<and> requestMatchesAccountId r account) reqs of
           Some existingIdx \<Rightarrow>
             (let existing = reqs ! existingIdx;
                  existingCode = nullish (normalizeOptionalString (Some (pr_code existing))) []
              in case (if existingCode \<noteq> [] then Inr existingCode else generateUniqueCode existingCodes draws) of
                   Inl err \<Rightarrow> (Inl err, stored)
                 | Inr code \<Rightarrow>
                     (let refreshed = \<lparr>pr_id = i, pr_code = code, pr_createdAt = pr_createdAt existing,
                            pr_lastSeenAt = Instant now, pr_meta = Some meta\<rparr>
                      in (Inr (code, False),
                          fst (pruneExcessRequestsByAccount (reqs[existingIdx := refreshed]) PAIRING_PENDING_MAX))))
         | None \<Rightarrow>
             (let (capped, cappedRemoved) = pruneExcessRequestsByAccount reqs PAIRING_PENDING_MAX
              in if PAIRING_PENDING_MAX > 0 \<and>
                    length (filter (\<lambda>r. requestMatchesAccountId r account) capped) \<ge> PAIRING_PENDING_MAX then
                   (Inr ([], False), if expiredRemoved \<or> cappedRemoved then capped else stored)
                 else case generateUniqueCode existingCodes draws of
                   Inl err \<Rightarrow> (Inl err, stored)
                 | Inr code \<Rightarrow>
                     (Inr (code, True), capped @ [\<lparr>pr_id = i, pr_code = code, pr_createdAt = Instant now,
                        pr_lastSeenAt = Instant now, pr_meta = Some meta\<rparr>])))"

definition upsertChannelPairingRequest ::
  "string \<Rightarrow> allow_entry \<Rightarrow> string \<Rightarrow> (string \<times> string option) list option \<Rightarrow> int \<Rightarrow> int \<Rightarrow> code_draws \<Rightarrow>
   pairing_files \<Rightarrow> (string + string \<times> bool) \<times> pairing_files" where
  "upsertChannelPairingRequest channel i accountId meta now nowMs draws files =
     (case resolvePairingPath channel of
        Inl err \<Rightarrow> (Inl err, files)
      | Inr path \<Rightarrow>
          (let files1 = ensure_requests path files;
               account = or_str (normalizePairingAccountId (Some accountId)) DEFAULT_ACCOUNT_ID;
               (result, reqs) = upsert_requests (normalizeId i) account (request_meta meta account) now nowMs draws
                 (read_requests files1 path)
           in (result, map_set files1 path reqs)))"

definition remove_at :: "nat \<Rightarrow> 'a list \<Rightarrow> 'a list" where
  "remove_at i xs = take i xs @ drop (Suc i) xs"

definition approve_requests ::
  "string \<Rightarrow> string \<Rightarrow> int \<Rightarrow> pairing_request list \<Rightarrow> pairing_request option \<times> pairing_request list" where
  "approve_requests code account nowMs stored =
     (let (pruned, removed) = pruneExpiredRequests stored nowMs
      in case find_index (\<lambda>r. js_upper (pr_code r) = code \<and> requestMatchesAccountId r account) pruned of
           None \<Rightarrow> (None, if removed then pruned else stored)
         | Some idx \<Rightarrow> (Some (pruned ! idx), remove_at idx pruned))"

definition approve_pending ::
  "string \<Rightarrow> string \<Rightarrow> string option \<Rightarrow> int \<Rightarrow> pairing_files \<Rightarrow> (string + pairing_request option) \<times> pairing_files" where
  "approve_pending channel rawCode accountId nowMs files =
     (let code = js_upper (nullish (normalizeNullableString rawCode) [])
      in if code = [] then (Inr None, files)
         else case resolvePairingPath channel of
           Inl err \<Rightarrow> (Inl err, files)
         | Inr path \<Rightarrow>
             (let files1 = ensure_requests path files;
                  (found, reqs) = approve_requests code (normalizePairingAccountId accountId) nowMs
                    (read_requests files1 path)
              in (Inr found, map_set files1 path reqs)))"

definition approval_account :: "string option \<Rightarrow> pairing_request \<Rightarrow> string option" where
  "approval_account accountId entry =
     nullish_opt (normalizeOptionalString accountId) (normalizeOptionalString (meta_account entry))"

definition approveChannelPairingCode ::
  "pairing_adapters \<Rightarrow> string \<Rightarrow> string \<Rightarrow> string option \<Rightarrow> int \<Rightarrow> int \<times> int \<Rightarrow> int \<times> int \<Rightarrow> channel_store \<Rightarrow>
   (string + pairing_request option) \<times> channel_store" where
  "approveChannelPairingCode adapters channel rawCode accountId nowMs createdStat stat st =
     (case approve_pending channel rawCode accountId nowMs (cs_pending st) of
        (Inr (Some entry), pending) \<Rightarrow>
          (let (added, allow) = addChannelAllowFromStoreEntry adapters channel (EStr (pr_id entry))
                 (approval_account accountId entry) createdStat stat (cs_allow st)
           in (map_sum id (\<lambda>r. Some entry) added, \<lparr>cs_pending = pending, cs_allow = allow\<rparr>))
      | (result, pending) \<Rightarrow> (result, st\<lparr>cs_pending := pending\<rparr>))"

definition listChannelPairingRequests ::
  "(stamp \<Rightarrow> stamp \<Rightarrow> int) \<Rightarrow> string \<Rightarrow> string option \<Rightarrow> int \<Rightarrow> pairing_files \<Rightarrow>
   (string + pairing_request list) \<times> pairing_files" where
  "listChannelPairingRequests lc channel accountId nowMs files =
     (case resolvePairingPath channel of
        Inl err \<Rightarrow> (Inl err, files)
      | Inr path \<Rightarrow>
          (let files1 = ensure_requests path files;
               (prunedExpired, expiredRemoved) = pruneExpiredRequests (read_requests files1 path) nowMs;
               (pruned, cappedRemoved) = pruneExcessRequestsByAccount prunedExpired PAIRING_PENDING_MAX;
               files2 = (if expiredRemoved \<or> cappedRemoved then map_set files1 path pruned else files1);
               normalizedAccountId = normalizePairingAccountId accountId;
               filtered = (if normalizedAccountId \<noteq> [] then
                   filter (\<lambda>r. requestMatchesAccountId r normalizedAccountId) pruned else pruned)
           in (Inr (sort_by (\<lambda>a b. lc (pr_createdAt a) (pr_createdAt b)) filtered), files2)))"

subsection \<open>The challenge\<close>

text \<open>
  \<open>upsertPairingRequest\<close> runs the store, whose answer is the argument \<open>upserted\<close>; the effects are the
  calls of \<open>onCreated\<close> and \<open>sendPairingReply\<close>, whose failure changes nothing. \<open>formatCliCommand\<close> is
  the parameter \<open>cli\<close>.
\<close>

datatype challenge_effect = OnCreated string | SendPairingReply string

definition buildPairingReply :: "(string \<Rightarrow> string) \<Rightarrow> string \<Rightarrow> string \<Rightarrow> string \<Rightarrow> string" where
  "buildPairingReply cli channel idLine code =
     (let approve = cli (''GreenchClaw pairing approve '' @ channel @ '' '' @ code)
      in join_with [CHR 0x0A] [''GreenchClaw: access not configured.'', [], idLine, ''Pairing code:'', ''```'', code,
           ''```'', [], ''Ask the bot owner to approve with:'', approve, ''```'', approve, ''```''])"

definition issuePairingChallenge ::
  "(string \<Rightarrow> string) \<Rightarrow> string \<Rightarrow> string \<Rightarrow> (string \<Rightarrow> string \<Rightarrow> string) option \<Rightarrow> string + string \<times> bool \<Rightarrow>
   (string + bool \<times> string option) \<times> challenge_effect list" where
  "issuePairingChallenge cli channel senderIdLine buildReplyText upserted =
     (case upserted of
        Inl err \<Rightarrow> (Inl err, [])
      | Inr (code, created) \<Rightarrow>
          if \<not> created then (Inr (False, None), [])
          else
            let replyText = (case buildReplyText of
                  Some build \<Rightarrow> build code senderIdLine
                | None \<Rightarrow> buildPairingReply cli channel senderIdLine code)
            in (Inr (True, Some code), [OnCreated code, SendPairingReply replyText]))"

subsection \<open>Sequences of operations\<close>

text \<open>One channel; the last operation is another process that writes a file of senders.\<close>

datatype channel_op =
    OpUpsert allow_entry string "(string \<times> string option) list option" int int code_draws
  | OpApprove string "string option" int "int \<times> int" "int \<times> int"
  | OpListRequests "string option" int
  | OpAddEntry allow_entry "string option" "int \<times> int" "int \<times> int"
  | OpRemoveEntry allow_entry "string option" "int \<times> int" "int \<times> int"
  | OpReadEntries "string option"
  | OpReadRawEntries "string option"
  | OpExternalWrite string "string list option" "int \<times> int"

fun channel_run ::
  "pairing_adapters \<Rightarrow> (stamp \<Rightarrow> stamp \<Rightarrow> int) \<Rightarrow> string \<Rightarrow> channel_op \<Rightarrow> channel_store \<Rightarrow> channel_store" where
  "channel_run adapters lc channel (OpUpsert i account meta now nowMs draws) st =
     st\<lparr>cs_pending := snd (upsertChannelPairingRequest channel i account meta now nowMs draws (cs_pending st))\<rparr>"
| "channel_run adapters lc channel (OpApprove code account nowMs createdStat stat) st =
     snd (approveChannelPairingCode adapters channel code account nowMs createdStat stat st)"
| "channel_run adapters lc channel (OpListRequests account nowMs) st =
     st\<lparr>cs_pending := snd (listChannelPairingRequests lc channel account nowMs (cs_pending st))\<rparr>"
| "channel_run adapters lc channel (OpAddEntry entry account createdStat stat) st =
     st\<lparr>cs_allow := snd (addChannelAllowFromStoreEntry adapters channel entry account createdStat stat (cs_allow st))\<rparr>"
| "channel_run adapters lc channel (OpRemoveEntry entry account createdStat stat) st =
     st\<lparr>cs_allow := snd (removeChannelAllowFromStoreEntry adapters channel entry account createdStat stat (cs_allow st))\<rparr>"
| "channel_run adapters lc channel (OpReadEntries account) st =
     st\<lparr>cs_allow := snd (readChannelAllowFromStore adapters channel account (cs_allow st))\<rparr>"
| "channel_run adapters lc channel (OpReadRawEntries account) st =
     st\<lparr>cs_allow := snd (readChannelAllowFromStoreEntriesSync channel account (cs_allow st))\<rparr>"
| "channel_run adapters lc channel (OpExternalWrite path store stat) st =
     st\<lparr>cs_allow := write_file path store stat (cs_allow st)\<rparr>"

definition channel_history ::
  "pairing_adapters \<Rightarrow> (stamp \<Rightarrow> stamp \<Rightarrow> int) \<Rightarrow> string \<Rightarrow> channel_op list \<Rightarrow> channel_store \<Rightarrow> channel_store" where
  "channel_history adapters lc channel ops st = fold (channel_run adapters lc channel) ops st"

definition empty_channel :: channel_store where
  "empty_channel = \<lparr>cs_pending = [], cs_allow = \<lparr>al_files = [], al_cache = []\<rparr>\<rparr>"

end
