(* ===== verification/AllowFromStoreProps.thy ===== *)
theory AllowFromStoreProps
  imports AllowFromStore
begin

section \<open>The read cache of the allowlist files is invisible\<close>

text \<open>
  Two modules read the files, each through entries of its own in the cache. The locale \<open>cached_reader\<close>
  is one namespace with its normaliser: as long as every write changes the modification time or the
  size, a read answers as the file does.
\<close>

definition file_entries :: "(string list \<Rightarrow> string list) \<Rightarrow> allow_file \<Rightarrow> string list" where
  "file_entries tidy f = (case af_store f of None \<Rightarrow> [] | Some allowFrom \<Rightarrow> tidy allowFrom)"

definition store_entries :: "(string list \<Rightarrow> string list) \<Rightarrow> allow_files \<Rightarrow> string \<Rightarrow> string list" where
  "store_entries tidy fs path = (case map_get (al_files fs) path of None \<Rightarrow> [] | Some f \<Rightarrow> file_entries tidy f)"

definition cache_ok :: "string \<Rightarrow> (string list \<Rightarrow> string list) \<Rightarrow> allow_files \<Rightarrow> bool" where
  "cache_ok ns tidy fs \<longleftrightarrow>
     (\<forall>path c. map_get (al_cache fs) (resolveAllowFromCacheKey ns path) = Some c \<longrightarrow>
        (if ce_exists c then \<forall>f. map_get (al_files fs) path = Some f \<and> ce_stat c = Some (af_stat f) \<longrightarrow>
             ce_entries c = file_entries tidy f
         else ce_entries c = []))"

text \<open>A write whose stat the cache has not seen for this file.\<close>

definition new_stat :: "allow_files \<Rightarrow> string \<Rightarrow> int \<times> int \<Rightarrow> bool" where
  "new_stat fs path stat \<longleftrightarrow>
     list_all (\<lambda>ns. case map_get (al_cache fs) (resolveAllowFromCacheKey ns path) of
         None \<Rightarrow> True | Some c \<Rightarrow> ce_stat c \<noteq> Some stat)
       [PAIRING_ALLOW_FROM_CACHE_NAMESPACE, ALLOW_FROM_STORE_READ_CACHE_NAMESPACE]"

definition plain_namespace :: "string \<Rightarrow> bool" where
  "plain_namespace ns = (CHR 0x00 \<notin> set ns)"

lemma cache_key_eq:
  "plain_namespace ns \<Longrightarrow> plain_namespace ns' \<Longrightarrow>
   resolveAllowFromCacheKey ns path = resolveAllowFromCacheKey ns' path' \<longleftrightarrow> ns = ns' \<and> path = path'"
  by (simp add: resolveAllowFromCacheKey_def plain_namespace_def cut_unique)

lemma set_cache_files [simp]: "al_files (setAllowFromFileReadCache ns path c fs) = al_files fs"
  by (simp add: setAllowFromFileReadCache_def)

lemma write_file_cache [simp]: "al_cache (write_file path s stat fs) = al_cache fs"
  by (simp add: write_file_def)

lemma store_entries_set_cache [simp]:
  "store_entries tidy (setAllowFromFileReadCache ns path c fs) = store_entries tidy fs"
  by (rule ext) (simp add: store_entries_def)

lemma store_entries_write [simp]:
  "store_entries tidy (write_file path s stat fs) =
    (store_entries tidy fs)(path := file_entries tidy \<lparr>af_store = s, af_stat = stat\<rparr>)"
  by (rule ext) (simp add: store_entries_def write_file_def)

lemma store_entries_ensure [simp]:
  "tidy [] = [] \<Longrightarrow> store_entries tidy (ensureAllowFile path stat fs) = store_entries tidy fs"
  by (rule ext) (auto simp: ensureAllowFile_def store_entries_def write_file_def file_entries_def)

lemma new_stat_entry:
  "new_stat fs path stat \<Longrightarrow> ns \<in> {PAIRING_ALLOW_FROM_CACHE_NAMESPACE, ALLOW_FROM_STORE_READ_CACHE_NAMESPACE} \<Longrightarrow>
   map_get (al_cache fs) (resolveAllowFromCacheKey ns path) = Some c \<Longrightarrow> ce_stat c \<noteq> Some stat"
  by (auto simp: new_stat_def)

lemma cache_ok_write:
  assumes "cache_ok ns tidy fs" and "new_stat fs path stat"
    and "ns \<in> {PAIRING_ALLOW_FROM_CACHE_NAMESPACE, ALLOW_FROM_STORE_READ_CACHE_NAMESPACE}"
  shows "cache_ok ns tidy (write_file path s stat fs)"
  using assms(1) new_stat_entry [OF assms(2,3)]
  by (auto simp: cache_ok_def write_file_def)

locale cached_reader =
  fixes ns :: string
    and tidy :: "string list \<Rightarrow> string list"
  assumes plain: "plain_namespace ns"
begin

lemma set_own:
  assumes "cache_ok ns tidy fs"
    and "if ce_exists c then \<exists>f. map_get (al_files fs) path = Some f \<and> ce_stat c = Some (af_stat f) \<and>
        ce_entries c = file_entries tidy f else ce_entries c = []"
  shows "cache_ok ns tidy (setAllowFromFileReadCache ns path c fs)"
  using assms cache_key_eq [OF plain plain]
  by (auto simp: cache_ok_def setAllowFromFileReadCache_def split: if_splits)

lemma set_other:
  assumes "cache_ok ns tidy fs" and "plain_namespace ns'" and "ns' \<noteq> ns"
  shows "cache_ok ns tidy (setAllowFromFileReadCache ns' path c fs)"
  using assms cache_key_eq [OF plain assms(2)]
  by (auto simp: cache_ok_def setAllowFromFileReadCache_def)

lemma read_file:
  fixes path :: string
  assumes ok: "cache_ok ns tidy fs"
  defines "r \<equiv> readAllowFromFileWithExists ns path tidy fs"
  shows "fst (fst r) = store_entries tidy fs path" "al_files (snd r) = al_files fs" "cache_ok ns tidy (snd r)"
    and "\<And>ns' tidy'. plain_namespace ns' \<Longrightarrow> ns' \<noteq> ns \<Longrightarrow> cache_ok ns' tidy' fs \<Longrightarrow> cache_ok ns' tidy' (snd r)"
proof -
  have hit: "ce_entries c = store_entries tidy fs path"
    if "resolveAllowFromReadCacheHit ns path (st \<noteq> None) st fs = Some c"
      "st = map_option af_stat (map_get (al_files fs) path)" for c st
    using ok that
    by (auto simp: cache_ok_def resolveAllowFromReadCacheHit_def store_entries_def split: option.splits if_splits)
  have miss: "cache_ok ns' tidy' (setAllowFromFileReadCache ns path c fs)"
    if "plain_namespace ns'" "ns' \<noteq> ns" "cache_ok ns' tidy' fs" for ns' tidy' c
    by (rule cached_reader.set_other [OF _ that(3) plain]) (use that in \<open>auto simp: cached_reader_def\<close>)
  show "fst (fst r) = store_entries tidy fs path" "al_files (snd r) = al_files fs"
    using hit unfolding r_def readAllowFromFileWithExists_def resolveAllowFromReadCacheOrMissing_def Let_def
    by (auto simp: store_entries_def file_entries_def split: option.split)
  show "cache_ok ns tidy (snd r)"
    using ok unfolding r_def readAllowFromFileWithExists_def resolveAllowFromReadCacheOrMissing_def Let_def
    by (auto simp: file_entries_def intro!: set_own split: option.split)
  show "cache_ok ns' tidy' (snd r)" if "plain_namespace ns'" "ns' \<noteq> ns" "cache_ok ns' tidy' fs" for ns' tidy'
    using that miss unfolding r_def readAllowFromFileWithExists_def resolveAllowFromReadCacheOrMissing_def Let_def
    by (auto split: option.split)
qed

end

lemma plain_namespaces [simp]:
  "plain_namespace PAIRING_ALLOW_FROM_CACHE_NAMESPACE" "plain_namespace ALLOW_FROM_STORE_READ_CACHE_NAMESPACE"
  "PAIRING_ALLOW_FROM_CACHE_NAMESPACE \<noteq> ALLOW_FROM_STORE_READ_CACHE_NAMESPACE"
  "ALLOW_FROM_STORE_READ_CACHE_NAMESPACE \<noteq> PAIRING_ALLOW_FROM_CACHE_NAMESPACE"
  by (simp_all add: plain_namespace_def PAIRING_ALLOW_FROM_CACHE_NAMESPACE_def ALLOW_FROM_STORE_READ_CACHE_NAMESPACE_def)

interpretation store_reader: cached_reader PAIRING_ALLOW_FROM_CACHE_NAMESPACE "normalizeAllowFromList adapters channel"
  for adapters channel
  by unfold_locales simp

interpretation raw_reader: cached_reader ALLOW_FROM_STORE_READ_CACHE_NAMESPACE normalizeRawAllowFromList
  by unfold_locales simp

subsection \<open>Normalised lists\<close>

text \<open>
  An entry whose normal form is normal. The normaliser of a plugin may strip a prefix, so that there
  are entries, such as one with the prefix twice, whose normal form is not.
\<close>

definition stable_entry :: "pairing_adapters \<Rightarrow> string \<Rightarrow> string \<Rightarrow> bool" where
  "stable_entry adapters channel e \<longleftrightarrow>
     normalizeAllowEntry adapters channel (normalizeAllowEntry adapters channel e) = normalizeAllowEntry adapters channel e"

definition normal_list :: "pairing_adapters \<Rightarrow> string \<Rightarrow> string list \<Rightarrow> bool" where
  "normal_list adapters channel l \<longleftrightarrow> distinct l \<and> (\<forall>e\<in>set l. e \<noteq> [] \<and> normalizeAllowEntry adapters channel e = e)"

lemma normalize_allow_trim [simp]:
  "js_trim (normalizeAllowEntry adapters channel e) = normalizeAllowEntry adapters channel e"
  by (simp add: normalizeAllowEntry_def Let_def normalizeOptionalString_Some split: option.split)

lemma dedupe_trimmed:
  "(\<And>e. e \<in> set l \<Longrightarrow> js_trim e = e \<and> e \<noteq> []) \<Longrightarrow> dedupePreserveOrder l = js_uniq l"
  unfolding dedupePreserveOrder_def
  by (rule arg_cong [where f = js_uniq]) (induction l, simp_all add: normalizeOptionalString_Some)

lemma set_dedupe [simp]: "set (dedupePreserveOrder l) = js_trim ` set l - {[]}"
  by (auto simp: dedupePreserveOrder_def normalizeOptionalString_Some image_iff)

lemma distinct_dedupe [simp]: "distinct (dedupePreserveOrder l)"
  by (simp add: dedupePreserveOrder_def)

lemma set_normalize_list:
  "set (normalizeAllowFromList adapters channel l) = normalizeAllowEntry adapters channel ` set l - {[]}"
  unfolding normalizeAllowFromList_def by (auto simp: image_iff) (metis normalize_allow_trim)

lemma normalize_list_Nil [simp]: "normalizeAllowFromList adapters channel [] = []" "normalizeRawAllowFromList [] = []"
  by (simp_all add: normalizeAllowFromList_def normalizeRawAllowFromList_def dedupePreserveOrder_def)

lemma normal_normalize_list:
  "list_all (stable_entry adapters channel) l \<Longrightarrow> normal_list adapters channel (normalizeAllowFromList adapters channel l)"
  by (auto simp: normal_list_def set_normalize_list stable_entry_def list_all_iff)
    (simp add: normalizeAllowFromList_def)

lemma normalizeId_trim: "normalizeId (EStr e) = js_trim e"
  by (simp add: normalizeId_def normalizeOptionalString_Some)

lemma stable_trim: "stable_entry adapters channel (normalizeId (EStr e)) = stable_entry adapters channel e"
  by (simp add: stable_entry_def normalizeId_trim normalizeAllowEntry_def Let_def)

lemma normalize_normal_list:
  assumes "normal_list adapters channel l"
  shows "normalizeAllowFromList adapters channel l = l"
proof -
  have "map (normalizeAllowEntry adapters channel) l = l"
    using assms by (simp add: normal_list_def map_idI)
  moreover have "filter (\<lambda>e. e \<noteq> []) l = l" using assms by (auto simp: normal_list_def intro: filter_True)
  moreover have "js_trim e = e \<and> e \<noteq> []" if "e \<in> set l" for e
    using assms that normalize_allow_trim [of adapters channel e] by (auto simp: normal_list_def)
  then have "dedupePreserveOrder l = l"
    using assms by (simp add: dedupe_trimmed js_uniq_id normal_list_def)
  ultimately show ?thesis by (simp add: normalizeAllowFromList_def)
qed

text \<open>A change to the list of a file that keeps it normal.\<close>

definition keeps_normal :: "pairing_adapters \<Rightarrow> string \<Rightarrow> (string list \<Rightarrow> string \<Rightarrow> string list option) \<Rightarrow> bool" where
  "keeps_normal adapters channel change \<longleftrightarrow>
     (\<forall>cur n l. normal_list adapters channel cur \<and> n \<noteq> [] \<and> normalizeAllowEntry adapters channel n = n \<and>
        change cur n = Some l \<longrightarrow> normal_list adapters channel l)"

lemma keeps_normal_changes [simp]:
  "keeps_normal adapters channel add_entry" "keeps_normal adapters channel remove_entry"
  by (auto simp: keeps_normal_def add_entry_def remove_entry_def normal_list_def Let_def split: if_splits)

subsection \<open>Updates and reads against the files\<close>

text \<open>Both namespaces of the cache, for the readers of one channel.\<close>

definition caches_ok :: "pairing_adapters \<Rightarrow> string \<Rightarrow> allow_files \<Rightarrow> bool" where
  "caches_ok adapters channel fs \<longleftrightarrow>
     cache_ok PAIRING_ALLOW_FROM_CACHE_NAMESPACE (normalizeAllowFromList adapters channel) fs \<and>
     cache_ok ALLOW_FROM_STORE_READ_CACHE_NAMESPACE normalizeRawAllowFromList fs"

definition entries_of :: "pairing_adapters \<Rightarrow> string \<Rightarrow> allow_files \<Rightarrow> string \<Rightarrow> string list" where
  "entries_of adapters channel = store_entries (normalizeAllowFromList adapters channel)"

lemma caches_ok_write:
  "caches_ok adapters channel fs \<Longrightarrow> new_stat fs path stat \<Longrightarrow> caches_ok adapters channel (write_file path s stat fs)"
  by (simp add: caches_ok_def cache_ok_write)

lemma ensure_ok:
  "caches_ok adapters channel fs \<Longrightarrow> new_stat fs path stat \<Longrightarrow> caches_ok adapters channel (ensureAllowFile path stat fs)"
  by (simp add: ensureAllowFile_def caches_ok_write)

lemma ensure_new_stat [simp]: "new_stat (ensureAllowFile path' stat' fs) path stat = new_stat fs path stat"
  by (simp add: ensureAllowFile_def new_stat_def)

lemma entries_ensure [simp]: "entries_of adapters channel (ensureAllowFile path stat fs) = entries_of adapters channel fs"
  by (simp add: entries_of_def)

lemma read_state_current:
  "fst (readAllowFromState adapters channel entry path fs) = entries_of adapters channel fs path"
  by (auto simp: readAllowFromState_def entries_of_def store_entries_def file_entries_def Let_def split: option.split)

lemma read_state_normalized:
  "snd (readAllowFromState adapters channel entry path fs) =
    (if normalizeAllowFromInput adapters channel entry = [] then None
     else Some (normalizeAllowFromInput adapters channel entry))"
  by (simp add: readAllowFromState_def Let_def)

lemma write_state_ok:
  assumes "caches_ok adapters channel fs" and "new_stat fs path stat" and "normal_list adapters channel l"
  shows "caches_ok adapters channel (writeAllowFromState path l stat fs)"
    and "entries_of adapters channel (writeAllowFromState path l stat fs) = (entries_of adapters channel fs)(path := l)"
proof -
  have "file_entries (normalizeAllowFromList adapters channel) \<lparr>af_store = Some l, af_stat = stat\<rparr> = l"
    by (simp add: file_entries_def normalize_normal_list [OF assms(3)])
  moreover have "map_get (al_files (write_file path (Some l) stat fs)) path = Some \<lparr>af_store = Some l, af_stat = stat\<rparr>"
    by (simp add: write_file_def)
  ultimately show "caches_ok adapters channel (writeAllowFromState path l stat fs)"
    "entries_of adapters channel (writeAllowFromState path l stat fs) = (entries_of adapters channel fs)(path := l)"
    using caches_ok_write [OF assms(1,2)]
    by (auto simp: caches_ok_def entries_of_def writeAllowFromState_def intro!: store_reader.set_own raw_reader.set_other)
qed

text \<open>What an update does, on the entries of a file.\<close>

definition spec_update ::
  "(string list \<Rightarrow> string \<Rightarrow> string list option) \<Rightarrow> string \<Rightarrow> string list \<Rightarrow> string list" where
  "spec_update change n cur = (if n = [] then cur else nullish (change cur n) cur)"

lemma update_entry:
  fixes entry :: allow_entry
  assumes ok: "caches_ok adapters channel fs" and stable: "stable_entry adapters channel (normalizeId entry)"
    and normal: "\<And>path. normal_list adapters channel (entries_of adapters channel fs path)"
    and path: "resolveAllowFromFilePath channel account = Inr path"
    and stats: "new_stat fs path createdStat" "new_stat fs path stat"
    and keeps: "keeps_normal adapters channel change"
  defines "r \<equiv> updateAllowFromStoreEntry adapters channel entry account change createdStat stat fs"
    and "new \<equiv> spec_update change (normalizeAllowFromInput adapters channel entry) (entries_of adapters channel fs path)"
  shows "map_sum id snd (fst r) = Inr new" "entries_of adapters channel (snd r) = (entries_of adapters channel fs)(path := new)"
    and "caches_ok adapters channel (snd r)" "\<And>path. normal_list adapters channel (entries_of adapters channel (snd r) path)"
proof -
  let ?fs1 = "ensureAllowFile path createdStat fs"
  let ?n = "normalizeAllowFromInput adapters channel entry" and ?cur = "entries_of adapters channel fs path"
  note ok1 = ensure_ok [OF ok stats(1)]
  have n: "normalizeAllowEntry adapters channel ?n = ?n"
    using stable by (simp add: normalizeAllowFromInput_def stable_entry_def)
  have r: "r = (if ?n = [] then (Inr (False, ?cur), ?fs1)
      else case change ?cur ?n of None \<Rightarrow> (Inr (False, ?cur), ?fs1)
        | Some l \<Rightarrow> (Inr (True, l), writeAllowFromState path l stat ?fs1))"
    using read_state_current [of adapters channel entry path ?fs1] read_state_normalized [of adapters channel entry path ?fs1]
    by (cases "readAllowFromState adapters channel entry path ?fs1")
      (simp add: r_def updateAllowFromStoreEntry_def path Let_def)
  have written: "caches_ok adapters channel (writeAllowFromState path l stat ?fs1)"
    "entries_of adapters channel (writeAllowFromState path l stat ?fs1) = (entries_of adapters channel fs)(path := l)"
    "normal_list adapters channel l"
    if "?n \<noteq> []" "change ?cur ?n = Some l" for l
  proof -
    show "normal_list adapters channel l"
      using keeps normal [of path] n that unfolding keeps_normal_def by blast
    then show "caches_ok adapters channel (writeAllowFromState path l stat ?fs1)"
      "entries_of adapters channel (writeAllowFromState path l stat ?fs1) = (entries_of adapters channel fs)(path := l)"
      using write_state_ok [OF ok1, of path stat l] stats(2) by simp_all
  qed
  show "map_sum id snd (fst r) = Inr new" "entries_of adapters channel (snd r) = (entries_of adapters channel fs)(path := new)"
    and "caches_ok adapters channel (snd r)"
    using ok1 written unfolding r new_def spec_update_def by (auto split: option.split)
  show "normal_list adapters channel (entries_of adapters channel (snd r) path')" for path'
    using normal written(2,3) unfolding r by (auto split: option.split)
qed

text \<open>What a read answers, from the entries of the files.\<close>

definition spec_read :: "(string \<Rightarrow> string list) \<Rightarrow> string \<Rightarrow> string option \<Rightarrow> string + string list" where
  "spec_read entries channel accountId =
     (let account = resolveAllowFromAccountId accountId
      in case resolveAllowFromFilePath channel (Some account) of
           Inl err \<Rightarrow> Inl err
         | Inr scoped \<Rightarrow>
             if \<not> shouldIncludeLegacyAllowFromEntries account then Inr (entries scoped)
             else map_sum id (\<lambda>legacy. dedupePreserveOrder (entries scoped @ entries legacy))
               (resolveAllowFromFilePath channel None))"

lemma read_scoped_effect:
  assumes step: "\<And>path fs. I fs \<Longrightarrow> fst (readPath path fs) = entries path \<and> I (snd (readPath path fs))"
    and start: "I fs"
  shows "fst (read_scoped readPath channel accountId fs) = spec_read entries channel accountId \<and>
    I (snd (read_scoped readPath channel accountId fs))"
proof -
  have "fst (readPath path fs') = entries path" "I (snd (readPath path fs'))" if "I fs'" for path fs'
    using step [OF that] by auto
  then show ?thesis
    using start by (simp add: read_scoped_def spec_read_def Let_def case_prod_beta split: sum.split)
qed

lemma store_entries_cong: "al_files fs' = al_files fs \<Longrightarrow> store_entries tidy fs' = store_entries tidy fs"
  by (rule ext) (simp add: store_entries_def)

lemma read_effect:
  assumes "caches_ok adapters channel fs"
  shows "fst (readChannelAllowFromStore adapters channel account fs) = spec_read (entries_of adapters channel fs) channel account"
    and "entries_of adapters channel (snd (readChannelAllowFromStore adapters channel account fs)) = entries_of adapters channel fs"
    and "caches_ok adapters channel (snd (readChannelAllowFromStore adapters channel account fs))"
proof -
  let ?I = "\<lambda>fs'. caches_ok adapters channel fs' \<and> al_files fs' = al_files fs"
  have "fst (readAllowFromStateForPath adapters channel path fs') = entries_of adapters channel fs path \<and>
      ?I (snd (readAllowFromStateForPath adapters channel path fs'))" if "?I fs'" for path fs'
    using that store_reader.read_file [of adapters channel fs' path]
      store_reader.read_file(4) [of adapters channel fs' ALLOW_FROM_STORE_READ_CACHE_NAMESPACE normalizeRawAllowFromList path]
    by (auto simp: caches_ok_def readAllowFromStateForPath_def entries_of_def store_entries_def)
  note effect = read_scoped_effect [of ?I "readAllowFromStateForPath adapters channel" "entries_of adapters channel fs" fs
      channel account, OF this]
  then have "fst (readChannelAllowFromStore adapters channel account fs) = spec_read (entries_of adapters channel fs) channel account \<and>
      ?I (snd (readChannelAllowFromStore adapters channel account fs))"
    using assms by (simp add: readChannelAllowFromStore_def)
  then show "fst (readChannelAllowFromStore adapters channel account fs) = spec_read (entries_of adapters channel fs) channel account"
    "entries_of adapters channel (snd (readChannelAllowFromStore adapters channel account fs)) = entries_of adapters channel fs"
    "caches_ok adapters channel (snd (readChannelAllowFromStore adapters channel account fs))"
    using store_entries_cong [of "snd (readChannelAllowFromStore adapters channel account fs)" fs]
    by (simp_all add: entries_of_def)
qed

lemma read_raw_effect:
  assumes "caches_ok adapters channel fs"
  shows "fst (readChannelAllowFromStoreEntriesSync channel account fs) =
      spec_read (store_entries normalizeRawAllowFromList fs) channel account"
    and "entries_of adapters channel (snd (readChannelAllowFromStoreEntriesSync channel account fs)) = entries_of adapters channel fs"
    and "caches_ok adapters channel (snd (readChannelAllowFromStoreEntriesSync channel account fs))"
proof -
  let ?read = "\<lambda>path fs. map_prod fst id (readAllowFromEntriesForPathSyncWithExists path fs)"
  let ?I = "\<lambda>fs'. caches_ok adapters channel fs' \<and> al_files fs' = al_files fs"
  have "fst (?read path fs') = store_entries normalizeRawAllowFromList fs path \<and> ?I (snd (?read path fs'))"
    if "?I fs'" for path fs'
    using that raw_reader.read_file [of fs' path]
      raw_reader.read_file(4) [of fs' PAIRING_ALLOW_FROM_CACHE_NAMESPACE "normalizeAllowFromList adapters channel" path]
    by (auto simp: caches_ok_def readAllowFromEntriesForPathSyncWithExists_def sync_read_agrees store_entries_def)
  note effect = read_scoped_effect [of ?I ?read "store_entries normalizeRawAllowFromList fs" fs channel account, OF this]
  then have "fst (readChannelAllowFromStoreEntriesSync channel account fs) =
      spec_read (store_entries normalizeRawAllowFromList fs) channel account \<and>
      ?I (snd (readChannelAllowFromStoreEntriesSync channel account fs))"
    using assms by (simp add: readChannelAllowFromStoreEntriesSync_def)
  then show "fst (readChannelAllowFromStoreEntriesSync channel account fs) =
      spec_read (store_entries normalizeRawAllowFromList fs) channel account"
    "entries_of adapters channel (snd (readChannelAllowFromStoreEntriesSync channel account fs)) = entries_of adapters channel fs"
    "caches_ok adapters channel (snd (readChannelAllowFromStoreEntriesSync channel account fs))"
    using store_entries_cong [of "snd (readChannelAllowFromStoreEntriesSync channel account fs)" fs]
    by (simp_all add: entries_of_def)
qed

subsection \<open>Where the code falls short\<close>

text \<open>
  An adapter that strips a prefix can turn an entry into the wildcard, which the check for it has
  passed by then: the entry is refused when the file is read but served from the cache.
\<close>

definition strip_tg :: pairing_adapters where
  "strip_tg channel = Some (\<lambda>e. if starts_with e ''tg:'' then drop 3 e else e)"

lemma prefixed_wildcard_is_cached:
  defines "fs \<equiv> snd (addChannelAllowFromStoreEntry strip_tg ''telegram'' (EStr ''tg:*'') None (1, 1) (2, 2)
    \<lparr>al_files = [], al_cache = []\<rparr>)"
  shows "fst (readChannelAllowFromStore strip_tg ''telegram'' None fs) = Inr [''*'']"
    and "fst (readChannelAllowFromStore strip_tg ''telegram'' None
      (clearAllowFromFileReadCacheForNamespace PAIRING_ALLOW_FROM_CACHE_NAMESPACE fs)) = Inr []"
  unfolding fs_def by code_simp+

text \<open>Two accounts whose ids differ in an unsafe character, and two channels, share a file.\<close>

lemma file_names_collide:
  "resolveAllowFromFilePath ''chat'' (Some ''a/b'') = resolveAllowFromFilePath ''chat'' (Some ''a_b'')"
  "resolveAllowFromFilePath ''nextcloud'' (Some ''talk'') = resolveAllowFromFilePath ''nextcloud-talk'' None"
  by code_simp+

end
