(* ===== verification/ChannelPairingTheorems.thy ===== *)
theory ChannelPairingTheorems
  imports ChannelPairing AllowFromStoreProps
begin

section \<open>Pending pairing codes\<close>

text \<open>
  The requests of a channel over every history: at most three per account whatever the file held, no
  two with the same code, none twice for one sender and account.
\<close>

subsection \<open>The cap per account\<close>

lemma group_indexes_get:
  "map_get (fold (\<lambda>(index, entry) m.
       let accountId = resolvePairingRequestAccountId entry
       in map_set m accountId (nullish (map_get m accountId) [] @ [index])) ps []) a =
    (let ks = map fst (filter (\<lambda>p. resolvePairingRequestAccountId (snd p) = a) ps) in if ks = [] then None else Some ks)"
  by (induction ps rule: rev_induct) (auto simp: Let_def)

lemma filter_enumerate_indexes:
  "map fst (filter (\<lambda>p. P (snd p)) (enumerate 0 xs)) = filter (\<lambda>i. P (xs ! i)) [0..<length xs]"
  by (induction xs rule: rev_induct) (auto simp: enumerate_append_eq nth_append intro: filter_cong)

lemma group_of_account:
  "map_get (group_indexes reqs) a =
    (let ks = filter (\<lambda>i. resolvePairingRequestAccountId (reqs ! i) = a) [0..<length reqs]
     in if ks = [] then None else Some ks)"
  unfolding group_indexes_def group_indexes_get
  using filter_enumerate_indexes [of "\<lambda>r. resolvePairingRequestAccountId r = a" reqs] by simp

lemma wf_group_indexes: "wf_map (group_indexes reqs)"
proof -
  have "wf_map (fold (\<lambda>(index, entry) m.
      let accountId = resolvePairingRequestAccountId entry
      in map_set m accountId (nullish (map_get m accountId) [] @ [index])) ps [])" for ps :: "(nat \<times> pairing_request) list"
    by (induction ps rule: rev_induct) (auto simp: Let_def)
  then show ?thesis by (simp add: group_indexes_def)
qed

lemma filter_enumerate_values:
  "map snd (filter (\<lambda>(i, r). i \<notin> D) (enumerate 0 xs)) = map (\<lambda>i. xs ! i) (filter (\<lambda>i. i \<notin> D) [0..<length xs])"
  by (induction xs rule: rev_induct) (auto simp: enumerate_append_eq nth_append intro: filter_cong)

lemma dropped_subset: "set (dropped_of_group reqs m ks) \<subseteq> set ks"
  by (auto simp: dropped_of_group_def dest: in_set_takeD)

lemma dropped_card: "distinct ks \<Longrightarrow> card (set (dropped_of_group reqs m ks)) = length ks - m"
  by (simp add: dropped_of_group_def distinct_card)

lemma prune_excess_list:
  "fst (pruneExcessRequestsByAccount reqs m) =
    (if m = 0 \<or> length reqs \<le> m then reqs
     else map (\<lambda>i. reqs ! i) (filter (\<lambda>i. i \<notin> set (concat (map (\<lambda>(a, ks). dropped_of_group reqs m ks) (group_indexes reqs))))
       [0..<length reqs]))"
proof -
  define D where "D = concat (map (\<lambda>(a, ks). dropped_of_group reqs m ks) (group_indexes reqs))"
  have "D = [] \<Longrightarrow> map (\<lambda>i. reqs ! i) (filter (\<lambda>i. i \<notin> set D) [0..<length reqs]) = reqs"
    by (simp add: map_nth)
  then show ?thesis
    unfolding pruneExcessRequestsByAccount_def D_def [symmetric] filter_enumerate_values Let_def by simp
qed

lemma prune_excess_subset: "set (fst (pruneExcessRequestsByAccount reqs m)) \<subseteq> set reqs"
  by (auto simp: prune_excess_list)

definition account_count :: "string \<Rightarrow> pairing_request list \<Rightarrow> nat" where
  "account_count a reqs = length (filter (\<lambda>r. resolvePairingRequestAccountId r = a) reqs)"

lemma prune_excess_bound:
  assumes "0 < m"
  shows "account_count a (fst (pruneExcessRequestsByAccount reqs m)) \<le> m"
proof (cases "length reqs \<le> m")
  case True
  then show ?thesis
    by (simp add: prune_excess_list account_count_def) (meson le_trans length_filter_le)
next
  case False
  define D where "D = set (concat (map (\<lambda>(a, ks). dropped_of_group reqs m ks) (group_indexes reqs)))"
  define ks where "ks = filter (\<lambda>i. resolvePairingRequestAccountId (reqs ! i) = a) [0..<length reqs]"
  have "account_count a (fst (pruneExcessRequestsByAccount reqs m)) = length (filter (\<lambda>i. i \<notin> D) ks)"
    using False assms
    by (simp add: prune_excess_list account_count_def D_def ks_def filter_map comp_def del: set_concat)
      (rule arg_cong [where f = length], auto simp: conj_commute intro: filter_cong)
  also have "\<dots> = card (set ks - D)"
    using distinct_card [of "filter (\<lambda>i. i \<notin> D) ks"]
    by (simp add: ks_def set_diff_eq Int_def conj_ac)
  also have "\<dots> \<le> m"
  proof (cases "ks = []")
    case True
    then show ?thesis by simp
  next
    case False
    then have "map_get (group_indexes reqs) a = Some ks" by (simp add: group_of_account ks_def)
    then have "set (dropped_of_group reqs m ks) \<subseteq> D"
      unfolding D_def by (auto dest: map_get_in)
    then have "card (set ks - D) \<le> card (set ks - set (dropped_of_group reqs m ks))"
      by (intro card_mono) auto
    also have "\<dots> = card (set ks) - card (set (dropped_of_group reqs m ks))"
      by (rule card_Diff_subset) (simp_all add: dropped_subset)
    also have "\<dots> \<le> m"
      using dropped_card [of "ks" reqs m] distinct_card [of "ks"] by (simp add: ks_def)
    finally show ?thesis .
  qed
  finally show ?thesis .
qed

text \<open>A list within the cap stays as it is.\<close>

lemma prune_excess_id:
  assumes "\<And>a. account_count a reqs \<le> m"
  shows "pruneExcessRequestsByAccount reqs m = (reqs, False)"
proof -
  have len: "length (filter (\<lambda>i. resolvePairingRequestAccountId (reqs ! i) = a) [0..<length reqs]) = account_count a reqs" for a
    unfolding account_count_def
    by (metis (mono_tags, lifting) filter_map length_map map_nth comp_apply filter_cong)
  have "dropped_of_group reqs m ks = []" if "(a, ks) \<in> set (group_indexes reqs)" for a "ks"
  proof -
    have "map_get (group_indexes reqs) a = Some ks" using that by (simp add: map_get_iff wf_group_indexes)
    then have "ks = filter (\<lambda>i. resolvePairingRequestAccountId (reqs ! i) = a) [0..<length reqs]"
      by (simp add: group_of_account Let_def split: if_splits)
    then show ?thesis using len [of a] assms [of a] by (simp add: dropped_of_group_def)
  qed
  then have "concat (map (\<lambda>(a, ks). dropped_of_group reqs m ks) (group_indexes reqs)) = []"
    by (auto simp: concat_eq_Nil_conv)
  then show ?thesis by (simp add: pruneExcessRequestsByAccount_def)
qed

lemma account_count_filter: "account_count a (filter P reqs) \<le> account_count a reqs"
  by (induction reqs) (auto simp: account_count_def)

subsection \<open>Codes\<close>

definition code_text :: "string \<Rightarrow> bool" where
  "code_text c \<longleftrightarrow> length c = PAIRING_CODE_LENGTH \<and> set c \<subseteq> set PAIRING_CODE_ALPHABET"

lemma random_code_text: "code_text (randomCode draw)"
proof -
  have "unat (draw i) < 2 ^ LENGTH(5)" for i by (rule unsigned_less)
  moreover have "length PAIRING_CODE_ALPHABET = 32" by code_simp
  ultimately have "unat (draw i) < length PAIRING_CODE_ALPHABET" for i by simp
  then show ?thesis by (auto simp: code_text_def randomCode_def)
qed

lemma code_letters: "list_all (\<lambda>c. js_upper_char c = [c] \<and> \<not> js_is_space c) PAIRING_CODE_ALPHABET"
  by code_simp

lemma no_space_trim: "list_all (\<lambda>c. \<not> js_is_space c) s \<Longrightarrow> js_trim s = s"
proof -
  have drop: "dropWhile js_is_space t = t" if "list_all (\<lambda>c. \<not> js_is_space c) t" for t
    using that by (cases t) auto
  show "list_all (\<lambda>c. \<not> js_is_space c) s \<Longrightarrow> js_trim s = s"
    using drop [of s] drop [of "rev s"] by (simp add: js_trim_def js_trim_start_def js_trim_end_def list_all_iff)
qed

lemma code_text_upper: "code_text c \<Longrightarrow> js_upper c = c"
  using code_letters unfolding code_text_def js_upper_def list_all_iff
  by (metis (no_types, lifting) concat_map_singleton map_eq_conv subsetD list.map_ident)

lemma code_text_normal:
  assumes "code_text c"
  shows "normalizeOptionalString (Some c) = Some c"
proof -
  have "js_trim c = c"
    by (rule no_space_trim) (use assms code_letters in \<open>auto simp: code_text_def list_all_iff\<close>)
  then show ?thesis using assms by (auto simp: normalizeOptionalString_Some code_text_def PAIRING_CODE_LENGTH_def)
qed

lemma attempt_codes_new:
  "attempt_codes existing draws attempt left = Some c \<Longrightarrow> c \<notin> set existing \<and> code_text c"
  by (induction left arbitrary: attempt) (auto simp: Let_def random_code_text split: if_splits)

lemma generate_unique_new: "generateUniqueCode existing draws = Inr c \<Longrightarrow> c \<notin> set existing \<and> code_text c"
  by (auto simp: generateUniqueCode_def dest: attempt_codes_new split: option.splits)

lemma find_index_Some: "find_index P xs = Some i \<Longrightarrow> i < length xs \<and> P (xs ! i)"
  by (induction xs arbitrary: i) (auto split: if_splits)

lemma find_index_None: "find_index P xs = None \<longleftrightarrow> (\<forall>x\<in>set xs. \<not> P x)"
  by (induction xs) auto

subsection \<open>The invariant of a file of requests\<close>

abbreviation request_account :: "pairing_request \<Rightarrow> string" where
  "request_account \<equiv> resolvePairingRequestAccountId"

definition requests_ok :: "pairing_request list \<Rightarrow> bool" where
  "requests_ok reqs \<longleftrightarrow> (\<forall>a. account_count a reqs \<le> PAIRING_PENDING_MAX) \<and> (\<forall>r\<in>set reqs. code_text (pr_code r)) \<and>
     distinct (map pr_code reqs) \<and> distinct (map (\<lambda>r. (pr_id r, request_account r)) reqs)"

lemma requests_okD:
  "requests_ok reqs \<Longrightarrow> account_count a reqs \<le> PAIRING_PENDING_MAX"
  "requests_ok reqs \<Longrightarrow> r \<in> set reqs \<Longrightarrow> code_text (pr_code r)"
  "requests_ok reqs \<Longrightarrow> distinct (map pr_code reqs)"
  "requests_ok reqs \<Longrightarrow> distinct (map (\<lambda>r. (pr_id r, request_account r)) reqs)"
  by (simp_all add: requests_ok_def)

lemma requests_ok_Nil [simp]: "requests_ok []"
  by (simp add: requests_ok_def account_count_def)

lemma requests_ok_filter: "requests_ok reqs \<Longrightarrow> requests_ok (filter P reqs)"
  using account_count_filter [of _ P reqs]
  by (auto simp: requests_ok_def intro: distinct_map_filter order_trans)

lemma requests_ok_pruned: "requests_ok reqs \<Longrightarrow> requests_ok (fst (pruneExpiredRequests reqs now))"
  by (simp add: pruneExpiredRequests_def requests_ok_filter)

lemma requests_ok_capped: "requests_ok reqs \<Longrightarrow> pruneExcessRequestsByAccount reqs PAIRING_PENDING_MAX = (reqs, False)"
  by (rule prune_excess_id) (simp add: requests_ok_def)

lemma remove_at_cut: "i < length xs \<Longrightarrow> xs = take i xs @ xs ! i # drop (Suc i) xs \<and> remove_at i xs = take i xs @ drop (Suc i) xs"
  by (simp add: remove_at_def id_take_nth_drop)

lemma set_remove_at: "set (remove_at i xs) \<subseteq> set xs"
  by (auto simp: remove_at_def dest: in_set_takeD in_set_dropD)

lemma requests_ok_remove: 
  assumes "requests_ok reqs" and "i < length reqs"
  shows "requests_ok (remove_at i reqs)"
proof -
  obtain a r b where ab: "reqs = a @ r # b" "remove_at i reqs = a @ b"
    using remove_at_cut [OF assms(2)] by metis
  have "account_count x (a @ b) \<le> account_count x (a @ r # b)" for x by (simp add: account_count_def)
  with assms(1) [unfolded ab(1)] show ?thesis unfolding ab(2) requests_ok_def by (auto intro: order_trans)
qed

lemma account_count_map: "account_count a reqs = length (filter (\<lambda>b. b = a) (map request_account reqs))"
  by (simp add: account_count_def filter_map comp_def)

lemma map_update_same: "i < length xs \<Longrightarrow> f y = f (xs ! i) \<Longrightarrow> map f (xs[i := y]) = map f xs"
  by (metis length_map list_update_id map_update nth_map)

lemma requests_ok_refresh:
  assumes "requests_ok reqs" and "i < length reqs" and "pr_code r = pr_code (reqs ! i)" and "pr_id r = pr_id (reqs ! i)"
    and "request_account r = request_account (reqs ! i)"
  shows "requests_ok (reqs[i := r])"
proof -
  have "map pr_code (reqs[i := r]) = map pr_code reqs" "map request_account (reqs[i := r]) = map request_account reqs"
    "map (\<lambda>r. (pr_id r, request_account r)) (reqs[i := r]) = map (\<lambda>r. (pr_id r, request_account r)) reqs"
    by (rule map_update_same [OF assms(2)], simp add: assms)+
  moreover have "code_text (pr_code x)" if "x \<in> set (reqs[i := r])" for x
    using that set_update_subset_insert [of reqs i r] requests_okD(2) [OF assms(1)] assms(2,3) by auto
  ultimately show ?thesis using assms(1) by (simp add: requests_ok_def account_count_map)
qed

lemma requests_ok_new:
  assumes "requests_ok reqs" and "code_text (pr_code r)" and "pr_code r \<notin> pr_code ` set reqs"
    and "\<And>x. x \<in> set reqs \<Longrightarrow> pr_id x = pr_id r \<Longrightarrow> request_account x \<noteq> request_account r"
    and "account_count (request_account r) reqs < PAIRING_PENDING_MAX"
  shows "requests_ok (reqs @ [r])"
  using assms by (fastforce simp: requests_ok_def account_count_def)

subsection \<open>Requests over a history\<close>

lemma existing_codes_ok: "requests_ok reqs \<Longrightarrow> set (existing_codes reqs) = pr_code ` set reqs"
  by (auto simp: existing_codes_def code_text_normal code_text_upper dest: requests_okD(2) intro!: image_cong)

lemma matches_account: "account \<noteq> [] \<Longrightarrow> requestMatchesAccountId r account = (request_account r = account)"
  by (simp add: requestMatchesAccountId_def)

definition upsert_account :: "string \<Rightarrow> string" where
  "upsert_account accountId = or_str (normalizePairingAccountId (Some accountId)) DEFAULT_ACCOUNT_ID"

lemma upsert_account_stable:
  "upsert_account a \<noteq> []" "or_str (normalizePairingAccountId (Some (upsert_account a))) DEFAULT_ACCOUNT_ID = upsert_account a"
proof -
  have "js_lower (js_trim DEFAULT_ACCOUNT_ID) = DEFAULT_ACCOUNT_ID" "DEFAULT_ACCOUNT_ID \<noteq> []" by code_simp+
  then show "upsert_account a \<noteq> []"
    "or_str (normalizePairingAccountId (Some (upsert_account a))) DEFAULT_ACCOUNT_ID = upsert_account a"
    by (auto simp: upsert_account_def or_str_def normalizePairingAccountId_def js_trim_lower)
qed

lemma request_meta_account:
  "request_account \<lparr>pr_id = i, pr_code = c, pr_createdAt = t, pr_lastSeenAt = s, pr_meta = Some (request_meta m (upsert_account a))\<rparr> =
    upsert_account a"
  by (simp add: resolvePairingRequestAccountId_def meta_account_def request_meta_def upsert_account_stable)

text \<open>What an upsert leaves: the requests that are not expired, one of them refreshed or one more.\<close>

lemma upsert_requests_cases:
  fixes nowMs now :: int and i a :: string and draws :: code_draws and m :: "(string \<times> string option) list option"
  assumes ok: "requests_ok stored"
  defines "kept \<equiv> fst (pruneExpiredRequests stored nowMs)"
    and "result \<equiv> upsert_requests i (upsert_account a) (request_meta m (upsert_account a)) now nowMs draws stored"
  shows "snd result = stored \<or> snd result = kept \<or>
    (\<exists>k r. k < length kept \<and> snd result = kept[k := r] \<and> pr_code r = pr_code (kept ! k) \<and> pr_id r = pr_id (kept ! k) \<and>
       pr_createdAt r = pr_createdAt (kept ! k) \<and> request_account r = request_account (kept ! k)) \<or>
    (\<exists>r. snd result = kept @ [r] \<and> pr_id r = i \<and> request_account r = upsert_account a \<and> pr_createdAt r = Instant now \<and>
       code_text (pr_code r) \<and> pr_code r \<notin> pr_code ` set kept \<and>
       (\<forall>x\<in>set kept. pr_id x = i \<longrightarrow> request_account x \<noteq> upsert_account a) \<and>
       account_count (upsert_account a) kept < PAIRING_PENDING_MAX)"
proof -
  have kept: "requests_ok kept" using ok by (simp add: kept_def requests_ok_pruned)
  obtain removed where prune: "pruneExpiredRequests stored nowMs = (kept, removed)"
    by (cases "pruneExpiredRequests stored nowMs") (simp add: kept_def)
  note account = upsert_account_stable(1) [of a]
  have max: "PAIRING_PENDING_MAX > 0" by (simp add: PAIRING_PENDING_MAX_def)
  show ?thesis
  proof (cases "find_index (\<lambda>r. pr_id r = i \<and> requestMatchesAccountId r (upsert_account a)) kept")
    case (Some k)
    note k = find_index_Some [OF Some]
    let ?r = "\<lparr>pr_id = i, pr_code = pr_code (kept ! k), pr_createdAt = pr_createdAt (kept ! k),
      pr_lastSeenAt = Instant now, pr_meta = Some (request_meta m (upsert_account a))\<rparr>"
    have code: "code_text (pr_code (kept ! k))" using k by (auto intro: requests_okD(2) [OF kept])
    then have "pr_code (kept ! k) \<noteq> []" by (auto simp: code_text_def PAIRING_CODE_LENGTH_def)
    moreover have same: "request_account ?r = request_account (kept ! k)" "pr_id (kept ! k) = i"
      using k account by (simp_all add: request_meta_account matches_account)
    moreover have "requests_ok (kept[k := ?r])"
      by (rule requests_ok_refresh [OF kept]) (use k same in simp_all)
    ultimately have "snd result = kept[k := ?r]"
      using prune Some code by (simp add: result_def upsert_requests_def Let_def code_text_normal requests_ok_capped)
    then show ?thesis using k same by fastforce
  next
    case None
    then have fresh: "\<forall>x\<in>set kept. pr_id x = i \<longrightarrow> request_account x \<noteq> upsert_account a"
      using account by (auto simp: find_index_None matches_account)
    have count: "length (filter (\<lambda>r. requestMatchesAccountId r (upsert_account a)) kept) = account_count (upsert_account a) kept"
      using account by (simp add: account_count_def matches_account)
    show ?thesis
    proof (cases "PAIRING_PENDING_MAX \<le> account_count (upsert_account a) kept")
      case True
      then show ?thesis
        using prune None count by (simp add: result_def upsert_requests_def Let_def requests_ok_capped [OF kept] max)
    next
      case False
      then show ?thesis
        using prune None count fresh generate_unique_new [of "existing_codes kept" draws] existing_codes_ok [OF kept]
        by (cases "generateUniqueCode (existing_codes kept) draws")
          (auto simp: result_def upsert_requests_def Let_def requests_ok_capped [OF kept] request_meta_account max)
    qed
  qed
qed

lemma upsert_requests_ok:
  assumes "requests_ok stored"
  shows "requests_ok (snd (upsert_requests i (upsert_account a) (request_meta m (upsert_account a)) now nowMs draws stored))"
proof -
  let ?result = "upsert_requests i (upsert_account a) (request_meta m (upsert_account a)) now nowMs draws stored"
  have kept: "requests_ok (fst (pruneExpiredRequests stored nowMs))" by (rule requests_ok_pruned [OF assms])
  from upsert_requests_cases [OF assms, of i a m now nowMs draws]
  show ?thesis
  proof (elim disjE exE conjE)
    fix r assume "snd ?result = fst (pruneExpiredRequests stored nowMs) @ [r]" "code_text (pr_code r)"
      "pr_code r \<notin> pr_code ` set (fst (pruneExpiredRequests stored nowMs))"
      "\<forall>x\<in>set (fst (pruneExpiredRequests stored nowMs)). pr_id x = i \<longrightarrow> request_account x \<noteq> upsert_account a"
      "account_count (upsert_account a) (fst (pruneExpiredRequests stored nowMs)) < PAIRING_PENDING_MAX"
      "pr_id r = i" "request_account r = upsert_account a"
    then show ?thesis using requests_ok_new [OF kept, of r] by simp
  next
    fix k r assume "k < length (fst (pruneExpiredRequests stored nowMs))"
      "snd ?result = (fst (pruneExpiredRequests stored nowMs))[k := r]"
      "pr_code r = pr_code (fst (pruneExpiredRequests stored nowMs) ! k)"
      "pr_id r = pr_id (fst (pruneExpiredRequests stored nowMs) ! k)"
      "request_account r = request_account (fst (pruneExpiredRequests stored nowMs) ! k)"
    then show ?thesis using requests_ok_refresh [OF kept, of k r] by simp
  qed (use assms kept in simp_all)
qed

text \<open>Whose request it is: some upsert of the history asked for it.\<close>

fun asked_by :: "pairing_request \<Rightarrow> channel_op \<Rightarrow> bool" where
  "asked_by r (OpUpsert i a m now nowMs draws) =
     (pr_id r = normalizeId i \<and> request_account r = upsert_account a \<and> pr_createdAt r = Instant now)"
| "asked_by r _ = False"

definition pending_ok :: "channel_op list \<Rightarrow> pairing_files \<Rightarrow> bool" where
  "pending_ok ops files \<longleftrightarrow>
     (\<forall>path. requests_ok (read_requests files path) \<and> (\<forall>r\<in>set (read_requests files path). \<exists>op\<in>set ops. asked_by r op))"

lemma read_ensure [simp]: "read_requests (ensure_requests path files) path' = read_requests files path'"
  by (simp add: read_requests_def ensure_requests_def)

lemma read_set [simp]: "read_requests (map_set files path reqs) path' = (if path' = path then reqs else read_requests files path')"
  by (simp add: read_requests_def)

lemma pending_ok_mono: "pending_ok ops files \<Longrightarrow> set ops \<subseteq> set ops' \<Longrightarrow> pending_ok ops' files"
  unfolding pending_ok_def by (meson subsetD)

lemma asked_by_key:
  "asked_by r op \<Longrightarrow> pr_id r' = pr_id r \<Longrightarrow> request_account r' = request_account r \<Longrightarrow> pr_createdAt r' = pr_createdAt r \<Longrightarrow>
   asked_by r' op"
  by (cases op) auto

lemma pruned_subset: "set (fst (pruneExpiredRequests reqs now)) \<subseteq> set reqs"
  by (auto simp: pruneExpiredRequests_def)

lemma upsert_ok:
  assumes "pending_ok ops files" and "OpUpsert i a m now nowMs draws \<in> set ops"
  shows "pending_ok ops (snd (upsertChannelPairingRequest channel i a m now nowMs draws files))"
proof (cases "resolvePairingPath channel")
  case (Inr path)
  let ?stored = "read_requests files path"
  let ?result = "upsert_requests (normalizeId i) (upsert_account a) (request_meta m (upsert_account a)) now nowMs draws ?stored"
  have files: "snd (upsertChannelPairingRequest channel i a m now nowMs draws files) =
      map_set (ensure_requests path files) path (snd ?result)"
    using Inr by (simp add: upsertChannelPairingRequest_def Let_def case_prod_beta upsert_account_def)
  have stored: "requests_ok ?stored" "\<And>r. r \<in> set ?stored \<Longrightarrow> \<exists>op\<in>set ops. asked_by r op"
    using assms(1) by (auto simp: pending_ok_def)
  have "\<exists>op\<in>set ops. asked_by r op" if r: "r \<in> set (snd ?result)" for r
    using upsert_requests_cases [OF stored(1), of "normalizeId i" a m now nowMs draws]
  proof (elim disjE exE conjE)
    fix x assume "snd ?result = fst (pruneExpiredRequests ?stored nowMs) @ [x]" "pr_id x = normalizeId i"
      "request_account x = upsert_account a" "pr_createdAt x = Instant now"
    then have "asked_by x (OpUpsert i a m now nowMs draws)" "r = x \<or> r \<in> set ?stored"
      using r pruned_subset [of ?stored nowMs] by auto
    then show ?thesis using stored(2) assms(2) by blast
  next
    fix k x assume kx: "k < length (fst (pruneExpiredRequests ?stored nowMs))"
      "snd ?result = (fst (pruneExpiredRequests ?stored nowMs))[k := x]"
      "pr_id x = pr_id (fst (pruneExpiredRequests ?stored nowMs) ! k)"
      "pr_createdAt x = pr_createdAt (fst (pruneExpiredRequests ?stored nowMs) ! k)"
      "request_account x = request_account (fst (pruneExpiredRequests ?stored nowMs) ! k)"
    then have "r = x \<or> r \<in> set ?stored"
      using r set_update_subset_insert [of "fst (pruneExpiredRequests ?stored nowMs)" k x] pruned_subset [of ?stored nowMs]
      by auto
    moreover have "\<exists>op\<in>set ops. asked_by x op"
      using stored(2) [of "fst (pruneExpiredRequests ?stored nowMs) ! k"] kx(1) pruned_subset [of ?stored nowMs]
        asked_by_key [OF _ kx(3,5,4)] nth_mem by blast
    ultimately show ?thesis using stored(2) by blast
  qed (use r stored(2) pruned_subset [of ?stored nowMs] in auto)
  then show ?thesis
    using assms(1) upsert_requests_ok [OF stored(1)] by (simp add: pending_ok_def files)
next
  case (Inl err)
  then show ?thesis using assms(1) by (simp add: upsertChannelPairingRequest_def)
qed

lemma approve_requests_ok:
  assumes "requests_ok stored"
  shows "requests_ok (snd (approve_requests code account now stored))"
    and "set (snd (approve_requests code account now stored)) \<subseteq> set stored"
proof -
  have kept: "requests_ok (fst (pruneExpiredRequests stored now))" by (rule requests_ok_pruned [OF assms])
  note at = find_index_Some [of _ "fst (pruneExpiredRequests stored now)"]
  show "requests_ok (snd (approve_requests code account now stored))"
    using kept assms requests_ok_remove [OF kept] at
    by (auto simp: approve_requests_def Let_def case_prod_beta split: option.split)
  show "set (snd (approve_requests code account now stored)) \<subseteq> set stored"
    using pruned_subset [of stored now] set_remove_at [of _ "fst (pruneExpiredRequests stored now)"]
    by (auto simp: approve_requests_def Let_def case_prod_beta split: option.split)
qed

lemma approve_pending_ok:
  assumes "pending_ok ops files"
  shows "pending_ok ops (snd (approve_pending channel code account now files))"
  using assms approve_requests_ok [where now = now and stored = "read_requests files (projr (resolvePairingPath channel))"]
  by (fastforce simp: approve_pending_def pending_ok_def Let_def case_prod_beta split: sum.split)

lemma list_requests_ok:
  assumes "pending_ok ops files"
  shows "pending_ok ops (snd (listChannelPairingRequests lc channel account now files))"
proof (cases "resolvePairingPath channel")
  case (Inr path)
  let ?kept = "fst (pruneExpiredRequests (read_requests files path) now)"
  have kept: "requests_ok ?kept" using assms by (auto simp: pending_ok_def intro: requests_ok_pruned)
  then show ?thesis
    using assms pruned_subset [of "read_requests files path" now] Inr
    by (auto simp: listChannelPairingRequests_def Let_def case_prod_beta pending_ok_def requests_ok_capped subset_iff)
next
  case (Inl err)
  then show ?thesis using assms by (simp add: listChannelPairingRequests_def)
qed

lemma approve_channel_pending:
  "cs_pending (snd (approveChannelPairingCode adapters channel code account now createdStat stat st)) =
    snd (approve_pending channel code account now (cs_pending st))"
  by (simp add: approveChannelPairingCode_def case_prod_beta split: sum.split option.split prod.split)

lemma pending_run:
  assumes "pending_ok ops (cs_pending st)" and "op \<in> set ops"
  shows "pending_ok ops (cs_pending (channel_run adapters lc channel op st))"
  using assms by (cases op) (simp_all add: upsert_ok approve_pending_ok list_requests_ok approve_channel_pending)

lemma pending_history: "pending_ok ops (cs_pending (channel_history adapters lc channel ops empty_channel))"
proof (induction ops rule: rev_induct)
  case Nil
  then show ?case by (simp add: channel_history_def empty_channel_def pending_ok_def read_requests_def)
next
  case (snoc op ops)
  then have "pending_ok (ops @ [op]) (cs_pending (channel_history adapters lc channel ops empty_channel))"
    by (rule pending_ok_mono) auto
  then show ?case
    using pending_run [of "ops @ [op]" "channel_history adapters lc channel ops empty_channel" op adapters lc channel]
    by (simp add: channel_history_def)
qed

section \<open>Properties of channel pairing\<close>

text \<open>
  The store of a channel against a store without files, stats and cache: pending requests and, per
  file name, the list of senders. Over every history the two agree, a code admits exactly the
  request that was shown it, and a sender is on the list only for a grant nothing took back since.
\<close>

subsection \<open>The abstract store\<close>

record spec_store =
  sp_pending :: pairing_files
  sp_entries :: "string \<Rightarrow> string list"

definition abs_channel :: "pairing_adapters \<Rightarrow> string \<Rightarrow> channel_store \<Rightarrow> spec_store" where
  "abs_channel adapters channel st =
     \<lparr>sp_pending = cs_pending st, sp_entries = entries_of adapters channel (cs_allow st)\<rparr>"

definition spec_change ::
  "pairing_adapters \<Rightarrow> string \<Rightarrow> (string list \<Rightarrow> string \<Rightarrow> string list option) \<Rightarrow> allow_entry \<Rightarrow> string option \<Rightarrow>
   spec_store \<Rightarrow> spec_store" where
  "spec_change adapters channel change entry account sp =
     (case resolveAllowFromFilePath channel account of
        Inl err \<Rightarrow> sp
      | Inr path \<Rightarrow> sp\<lparr>sp_entries := (sp_entries sp)(path :=
          spec_update change (normalizeAllowFromInput adapters channel entry) (sp_entries sp path))\<rparr>)"

fun spec_run ::
  "pairing_adapters \<Rightarrow> (stamp \<Rightarrow> stamp \<Rightarrow> int) \<Rightarrow> string \<Rightarrow> channel_op \<Rightarrow> spec_store \<Rightarrow> spec_store" where
  "spec_run adapters lc channel (OpUpsert i account meta now nowMs draws) sp =
     sp\<lparr>sp_pending := snd (upsertChannelPairingRequest channel i account meta now nowMs draws (sp_pending sp))\<rparr>"
| "spec_run adapters lc channel (OpApprove code account nowMs createdStat stat) sp =
     (case approve_pending channel code account nowMs (sp_pending sp) of
        (Inr (Some entry), pending) \<Rightarrow>
          spec_change adapters channel add_entry (EStr (pr_id entry)) (approval_account account entry)
            (sp\<lparr>sp_pending := pending\<rparr>)
      | (result, pending) \<Rightarrow> sp\<lparr>sp_pending := pending\<rparr>)"
| "spec_run adapters lc channel (OpListRequests account nowMs) sp =
     sp\<lparr>sp_pending := snd (listChannelPairingRequests lc channel account nowMs (sp_pending sp))\<rparr>"
| "spec_run adapters lc channel (OpAddEntry entry account createdStat stat) sp =
     spec_change adapters channel add_entry entry account sp"
| "spec_run adapters lc channel (OpRemoveEntry entry account createdStat stat) sp =
     spec_change adapters channel remove_entry entry account sp"
| "spec_run adapters lc channel (OpReadEntries account) sp = sp"
| "spec_run adapters lc channel (OpReadRawEntries account) sp = sp"
| "spec_run adapters lc channel (OpExternalWrite path store stat) sp =
     sp\<lparr>sp_entries := (sp_entries sp)(path := normalizeAllowFromList adapters channel (nullish store []))\<rparr>"

definition spec_history ::
  "pairing_adapters \<Rightarrow> (stamp \<Rightarrow> stamp \<Rightarrow> int) \<Rightarrow> string \<Rightarrow> channel_op list \<Rightarrow> spec_store" where
  "spec_history adapters lc channel ops =
     fold (spec_run adapters lc channel) ops \<lparr>sp_pending = [], sp_entries = \<lambda>path. []\<rparr>"

text \<open>Every write of the history gives its file a stat the cache has not seen.\<close>

definition fresh_update :: "string \<Rightarrow> string option \<Rightarrow> int \<times> int \<Rightarrow> int \<times> int \<Rightarrow> channel_store \<Rightarrow> bool" where
  "fresh_update channel account createdStat stat st =
     (case resolveAllowFromFilePath channel account of
        Inl err \<Rightarrow> True
      | Inr path \<Rightarrow> new_stat (cs_allow st) path createdStat \<and> new_stat (cs_allow st) path stat)"

fun fresh_op :: "string \<Rightarrow> channel_op \<Rightarrow> channel_store \<Rightarrow> bool" where
  "fresh_op channel (OpApprove code account nowMs createdStat stat) st =
     (case fst (approve_pending channel code account nowMs (cs_pending st)) of
        Inr (Some entry) \<Rightarrow> fresh_update channel (approval_account account entry) createdStat stat st
      | _ \<Rightarrow> True)"
| "fresh_op channel (OpAddEntry entry account createdStat stat) st = fresh_update channel account createdStat stat st"
| "fresh_op channel (OpRemoveEntry entry account createdStat stat) st = fresh_update channel account createdStat stat st"
| "fresh_op channel (OpExternalWrite path store stat) st = new_stat (cs_allow st) path stat"
| "fresh_op channel _ st = True"

fun fresh_history ::
  "pairing_adapters \<Rightarrow> (stamp \<Rightarrow> stamp \<Rightarrow> int) \<Rightarrow> string \<Rightarrow> channel_op list \<Rightarrow> channel_store \<Rightarrow> bool" where
  "fresh_history adapters lc channel [] st = True"
| "fresh_history adapters lc channel (op # ops) st =
     (fresh_op channel op st \<and> fresh_history adapters lc channel ops (channel_run adapters lc channel op st))"

text \<open>The entries that come in through the operations have a stable normal form.\<close>

fun stable_op :: "pairing_adapters \<Rightarrow> string \<Rightarrow> channel_op \<Rightarrow> bool" where
  "stable_op adapters channel (OpUpsert i account meta now nowMs draws) = stable_entry adapters channel (normalizeId i)"
| "stable_op adapters channel (OpAddEntry entry account createdStat stat) = stable_entry adapters channel (normalizeId entry)"
| "stable_op adapters channel (OpRemoveEntry entry account createdStat stat) = stable_entry adapters channel (normalizeId entry)"
| "stable_op adapters channel (OpExternalWrite path store stat) = list_all (stable_entry adapters channel) (nullish store [])"
| "stable_op adapters channel _ = True"

definition stable_history :: "pairing_adapters \<Rightarrow> string \<Rightarrow> channel_op list \<Rightarrow> bool" where
  "stable_history adapters channel ops = list_all (stable_op adapters channel) ops"

text \<open>What a history keeps: coherent caches, normal lists, and requests of senders with stable ids.\<close>

definition allow_ok :: "pairing_adapters \<Rightarrow> string \<Rightarrow> allow_files \<Rightarrow> bool" where
  "allow_ok adapters channel fs \<longleftrightarrow>
     caches_ok adapters channel fs \<and> (\<forall>path. normal_list adapters channel (entries_of adapters channel fs path))"

lemma update_refines:
  fixes entry :: allow_entry
  assumes "allow_ok adapters channel (cs_allow st)" and "stable_entry adapters channel (normalizeId entry)"
    and "fresh_update channel account createdStat stat st" and "keeps_normal adapters channel change"
  defines "allow \<equiv> snd (updateAllowFromStoreEntry adapters channel entry account change createdStat stat (cs_allow st))"
  shows "allow_ok adapters channel allow"
    and "abs_channel adapters channel \<lparr>cs_pending = pending, cs_allow = allow\<rparr> =
      spec_change adapters channel change entry account ((abs_channel adapters channel st)\<lparr>sp_pending := pending\<rparr>)"
proof -
  have "allow_ok adapters channel allow \<and>
      abs_channel adapters channel \<lparr>cs_pending = pending, cs_allow = allow\<rparr> =
      spec_change adapters channel change entry account ((abs_channel adapters channel st)\<lparr>sp_pending := pending\<rparr>)"
  proof (cases "resolveAllowFromFilePath channel account")
    case (Inl err)
    then show ?thesis
      using assms(1) by (simp add: allow_def updateAllowFromStoreEntry_def abs_channel_def spec_change_def)
  next
    case (Inr path)
    have ok: "caches_ok adapters channel (cs_allow st)"
      "\<And>path. normal_list adapters channel (entries_of adapters channel (cs_allow st) path)"
      using assms(1) by (simp_all add: allow_ok_def)
    show ?thesis
      using update_entry [OF ok(1) assms(2) ok(2) Inr _ _ assms(4), of createdStat stat] assms(3) Inr
      by (simp add: allow_def allow_ok_def abs_channel_def spec_change_def fresh_update_def)
  qed
  then show "allow_ok adapters channel allow"
    "abs_channel adapters channel \<lparr>cs_pending = pending, cs_allow = allow\<rparr> =
      spec_change adapters channel change entry account ((abs_channel adapters channel st)\<lparr>sp_pending := pending\<rparr>)"
    by auto
qed

lemma with_pending: "st\<lparr>cs_allow := allow\<rparr> = \<lparr>cs_pending = cs_pending st, cs_allow = allow\<rparr>"
  by simp

lemma abs_same_pending: "(abs_channel adapters channel st)\<lparr>sp_pending := cs_pending st\<rparr> = abs_channel adapters channel st"
  by (simp add: abs_channel_def)

lemma approved_pending:
  assumes "fst (approve_pending channel code account now files) = Inr (Some entry)"
  shows "\<exists>path. entry \<in> set (read_requests files path)"
proof -
  obtain path where "fst (approve_requests (js_upper (nullish (normalizeNullableString code) []))
      (normalizePairingAccountId account) now (read_requests files path)) = Some entry"
    using assms by (auto simp: approve_pending_def Let_def case_prod_beta split: if_splits sum.splits)
  then have "entry \<in> set (fst (pruneExpiredRequests (read_requests files path) now))"
    by (auto simp: approve_requests_def Let_def case_prod_beta dest: find_index_Some split: option.splits)
  then show ?thesis using pruned_subset by blast
qed

lemma run_refines:
  assumes ok: "allow_ok adapters channel (cs_allow st)" and stable: "stable_op adapters channel op"
    and waiting: "\<And>path r. r \<in> set (read_requests (cs_pending st) path) \<Longrightarrow> stable_entry adapters channel (pr_id r)"
    and fresh: "fresh_op channel op st"
  shows "allow_ok adapters channel (cs_allow (channel_run adapters lc channel op st)) \<and>
    abs_channel adapters channel (channel_run adapters lc channel op st) =
      spec_run adapters lc channel op (abs_channel adapters channel st)"
proof (cases op)
  case (OpUpsert i account meta now nowMs draws)
  then show ?thesis using ok by (simp add: abs_channel_def)
next
  case (OpApprove code account nowMs createdStat stat)
  obtain result pending where approve: "approve_pending channel code account nowMs (cs_pending st) = (result, pending)"
    by (cases "approve_pending channel code account nowMs (cs_pending st)")
  show ?thesis
  proof (cases "result")
    case (Inr found)
    show ?thesis
    proof (cases found)
      case (Some entry)
      then have new: "fresh_update channel (approval_account account entry) createdStat stat st"
        using fresh OpApprove approve Inr by simp
      have "stable_entry adapters channel (normalizeId (EStr (pr_id entry)))"
        using approved_pending [of channel code account nowMs "cs_pending st" entry] approve Inr Some waiting
        by (auto simp: stable_trim)
      from update_refines [OF ok this new keeps_normal_changes(1)] show ?thesis
        using OpApprove approve Inr Some
        by (simp add: approveChannelPairingCode_def addChannelAllowFromStoreEntry_def case_prod_beta)
          (simp add: abs_channel_def)
    next
      case None
      then show ?thesis using OpApprove approve Inr ok by (simp add: approveChannelPairingCode_def abs_channel_def)
    qed
  next
    case (Inl err)
    then show ?thesis using OpApprove approve ok by (simp add: approveChannelPairingCode_def abs_channel_def)
  qed
next
  case (OpListRequests account nowMs)
  then show ?thesis using ok by (simp add: abs_channel_def)
next
  case (OpAddEntry entry account createdStat stat)
  then show ?thesis
    using update_refines [OF ok _ _ keeps_normal_changes(1)] stable fresh
    by (simp add: with_pending abs_same_pending addChannelAllowFromStoreEntry_def)
next
  case (OpRemoveEntry entry account createdStat stat)
  then show ?thesis
    using update_refines [OF ok _ _ keeps_normal_changes(2)] stable fresh
    by (simp add: with_pending abs_same_pending removeChannelAllowFromStoreEntry_def)
next
  case (OpReadEntries account)
  then show ?thesis using read_effect [of adapters channel "cs_allow st"] ok by (simp add: allow_ok_def abs_channel_def)
next
  case (OpReadRawEntries account)
  then show ?thesis using read_raw_effect [of adapters channel "cs_allow st"] ok by (simp add: allow_ok_def abs_channel_def)
next
  case (OpExternalWrite path store stat)
  have "normal_list adapters channel (normalizeAllowFromList adapters channel (nullish store []))"
    using normal_normalize_list stable OpExternalWrite by auto
  then show ?thesis
    using OpExternalWrite ok fresh
    by (auto simp: allow_ok_def caches_ok_write abs_channel_def entries_of_def file_entries_def normal_list_def split: option.split)
qed

lemma history_snoc:
  "channel_history adapters lc channel (ops @ [op]) st = channel_run adapters lc channel op (channel_history adapters lc channel ops st)"
  by (simp add: channel_history_def)

lemma fresh_snoc:
  "fresh_history adapters lc channel (ops @ [op]) st \<longleftrightarrow>
    fresh_history adapters lc channel ops st \<and> fresh_op channel op (channel_history adapters lc channel ops st)"
  by (induction ops arbitrary: st) (simp_all add: channel_history_def)

lemma asked_stable: "asked_by r op \<Longrightarrow> stable_op adapters channel op \<Longrightarrow> stable_entry adapters channel (pr_id r)"
  by (cases op) auto

lemma empty_refines:
  "allow_ok adapters channel (cs_allow empty_channel)"
  "abs_channel adapters channel empty_channel = \<lparr>sp_pending = [], sp_entries = \<lambda>path. []\<rparr>"
  by (simp_all add: allow_ok_def caches_ok_def cache_ok_def empty_channel_def abs_channel_def entries_of_def store_entries_def
      normal_list_def fun_eq_iff)

lemma history_refines:
  assumes "stable_history adapters channel ops" and "fresh_history adapters lc channel ops empty_channel"
  shows "allow_ok adapters channel (cs_allow (channel_history adapters lc channel ops empty_channel)) \<and>
    abs_channel adapters channel (channel_history adapters lc channel ops empty_channel) = spec_history adapters lc channel ops"
  using assms
proof (induction ops rule: rev_induct)
  case Nil
  then show ?case by (simp add: channel_history_def spec_history_def empty_refines)
next
  case (snoc op ops)
  let ?st = "channel_history adapters lc channel ops empty_channel"
  have stable: "list_all (stable_op adapters channel) ops" "stable_op adapters channel op"
    using snoc.prems(1) by (simp_all add: stable_history_def)
  have "stable_entry adapters channel (pr_id r)" if "r \<in> set (read_requests (cs_pending ?st) path)" for path r
    using that pending_history [of ops adapters lc channel] stable(1) asked_stable
    unfolding pending_ok_def list_all_iff by blast
  then show ?case
    using run_refines [of adapters channel ?st op lc] snoc stable fresh_snoc [of adapters lc channel ops op empty_channel]
    by (simp add: history_snoc stable_history_def spec_history_def)
qed

lemma spec_entries:
  assumes "stable_history adapters channel ops" and "fresh_history adapters lc channel ops empty_channel"
  defines "fs \<equiv> cs_allow (channel_history adapters lc channel ops empty_channel)"
  shows "allow_ok adapters channel fs" "entries_of adapters channel fs = sp_entries (spec_history adapters lc channel ops)"
proof -
  note refined = history_refines [OF assms(1,2)]
  then show "allow_ok adapters channel fs" by (simp add: fs_def)
  from arg_cong [OF conjunct2 [OF refined], of sp_entries]
  show "entries_of adapters channel fs = sp_entries (spec_history adapters lc channel ops)"
    by (simp add: fs_def abs_channel_def)
qed

lemma read_after_history:
  assumes "stable_history adapters channel ops" and "fresh_history adapters lc channel ops empty_channel"
  shows "fst (readChannelAllowFromStore adapters channel account (cs_allow (channel_history adapters lc channel ops empty_channel))) =
    spec_read (sp_entries (spec_history adapters lc channel ops)) channel account"
proof -
  have "caches_ok adapters channel (cs_allow (channel_history adapters lc channel ops empty_channel))"
    using spec_entries(1) [OF assms] by (simp add: allow_ok_def)
  from read_effect(1) [OF this] show ?thesis by (simp add: spec_entries(2) [OF assms])
qed

subsection \<open>Codes\<close>

lemma approve_requests_exact:
  assumes "requests_ok stored"
  shows "fst (approve_requests code account now stored) = Some r \<longleftrightarrow>
    r \<in> set stored \<and> \<not> isExpired r now \<and> pr_code r = code \<and> requestMatchesAccountId r account"
proof -
  let ?pruned = "fst (pruneExpiredRequests stored now)"
  let ?P = "\<lambda>r. js_upper (pr_code r) = code \<and> requestMatchesAccountId r account"
  have pruned: "requests_ok ?pruned" "x \<in> set ?pruned \<longleftrightarrow> x \<in> set stored \<and> \<not> isExpired x now" for x
    using requests_ok_pruned [OF assms] by (auto simp: pruneExpiredRequests_def)
  have upper: "js_upper (pr_code x) = pr_code x" if "x \<in> set ?pruned" for x
    using requests_okD(2) [OF pruned(1) that] by (rule code_text_upper)
  have inj: "x = y" if "x \<in> set ?pruned" "y \<in> set ?pruned" "pr_code x = pr_code y" for x y
    using requests_okD(3) [OF pruned(1)] that by (auto simp: distinct_map inj_on_def)
  have found: "fst (approve_requests code account now stored) = map_option ((!) ?pruned) (find_index ?P ?pruned)"
    by (simp add: approve_requests_def case_prod_beta Let_def split: option.split)
  show ?thesis
  proof
    assume "fst (approve_requests code account now stored) = Some r"
    then obtain k where "find_index ?P ?pruned = Some k" "r = ?pruned ! k" using found by auto
    then show "r \<in> set stored \<and> \<not> isExpired r now \<and> pr_code r = code \<and> requestMatchesAccountId r account"
      using find_index_Some [of ?P ?pruned k] upper [of r] pruned(2) [of r] by auto
  next
    assume r: "r \<in> set stored \<and> \<not> isExpired r now \<and> pr_code r = code \<and> requestMatchesAccountId r account"
    then have "r \<in> set ?pruned" "?P r" using upper [of r] pruned(2) [of r] by auto
    then obtain k where k: "find_index ?P ?pruned = Some k" using find_index_None [of ?P ?pruned] by (cases "find_index ?P ?pruned") auto
    then have "?pruned ! k = r"
      using find_index_Some [OF k] inj [of "?pruned ! k" r] upper [of "?pruned ! k"] \<open>r \<in> set ?pruned\<close> r by auto
    then show "fst (approve_requests code account now stored) = Some r" using found k by simp
  qed
qed

lemma blank_code_text: "code_text c \<Longrightarrow> c \<noteq> []"
  by (auto simp: code_text_def PAIRING_CODE_LENGTH_def)

lemma js_upper_Nil [simp]: "js_upper [] = []"
  by (simp add: js_upper_def)

subsection \<open>Grants\<close>

definition grant :: "string \<Rightarrow> string option \<Rightarrow> string \<Rightarrow> (string \<times> string) list" where
  "grant channel account e = (case resolveAllowFromFilePath channel account of Inl err \<Rightarrow> [] | Inr path \<Rightarrow> [(path, e)])"

text \<open>The entries an operation may put into a file, and whether it takes one out.\<close>

fun grants :: "pairing_adapters \<Rightarrow> string \<Rightarrow> channel_op \<Rightarrow> pairing_files \<Rightarrow> (string \<times> string) list" where
  "grants adapters channel (OpApprove code account nowMs createdStat stat) files =
     (case fst (approve_pending channel code account nowMs files) of
        Inr (Some entry) \<Rightarrow>
          grant channel (approval_account account entry) (normalizeAllowFromInput adapters channel (EStr (pr_id entry)))
      | _ \<Rightarrow> [])"
| "grants adapters channel (OpAddEntry entry account createdStat stat) files =
     grant channel account (normalizeAllowFromInput adapters channel entry)"
| "grants adapters channel (OpExternalWrite path store stat) files =
     map (Pair path) (normalizeAllowFromList adapters channel (nullish store []))"
| "grants adapters channel _ files = []"

fun removes :: "pairing_adapters \<Rightarrow> string \<Rightarrow> channel_op \<Rightarrow> string \<Rightarrow> string \<Rightarrow> bool" where
  "removes adapters channel (OpRemoveEntry entry account createdStat stat) path e =
     (resolveAllowFromFilePath channel account = Inr path \<and> normalizeAllowFromInput adapters channel entry = e \<and> e \<noteq> [])"
| "removes adapters channel (OpExternalWrite path' store stat) path e = (path' = path)"
| "removes adapters channel _ path e = False"

lemma spec_add_grants:
  "e \<in> set (sp_entries (spec_change adapters channel add_entry entry account sp) path) \<Longrightarrow>
   (path, e) \<in> set (grant channel account (normalizeAllowFromInput adapters channel entry)) \<or> e \<in> set (sp_entries sp path)"
  by (auto simp: spec_change_def grant_def spec_update_def add_entry_def split: sum.splits if_splits)

lemma spec_remove_entries:
  "e \<in> set (sp_entries (spec_change adapters channel remove_entry entry account sp) path) \<Longrightarrow>
   e \<in> set (sp_entries sp path) \<and>
   \<not> (resolveAllowFromFilePath channel account = Inr path \<and> normalizeAllowFromInput adapters channel entry = e \<and> e \<noteq> [])"
  by (auto simp: spec_change_def spec_update_def remove_entry_def Let_def split: sum.splits if_splits)
    (metis (mono_tags, lifting) length_filter_less less_irrefl)

lemma spec_run_grants:
  assumes "e \<in> set (sp_entries (spec_run adapters lc channel op sp) path)"
  shows "(path, e) \<in> set (grants adapters channel op (sp_pending sp)) \<or>
    e \<in> set (sp_entries sp path) \<and> \<not> removes adapters channel op path e"
proof (cases op)
  case (OpApprove code account nowMs createdStat stat)
  then show ?thesis
    using assms spec_add_grants
    by (auto simp: case_prod_beta split: sum.splits option.splits prod.splits) fastforce+
next
  case (OpAddEntry entry account createdStat stat)
  then show ?thesis using assms spec_add_grants by fastforce
next
  case (OpRemoveEntry entry account createdStat stat)
  then show ?thesis using assms spec_remove_entries by fastforce
next
  case (OpExternalWrite path store stat)
  then show ?thesis using assms by (auto split: if_splits)
qed (use assms in simp_all)

lemma spec_history_grants:
  assumes "e \<in> set (sp_entries (spec_history adapters lc channel ops) path)"
  shows "\<exists>ops1 op ops2. ops = ops1 @ op # ops2 \<and>
    (path, e) \<in> set (grants adapters channel op (sp_pending (spec_history adapters lc channel ops1))) \<and>
    list_all (\<lambda>x. \<not> removes adapters channel x path e) ops2"
  using assms
proof (induction ops rule: rev_induct)
  case (snoc op ops)
  then have "e \<in> set (sp_entries (spec_run adapters lc channel op (spec_history adapters lc channel ops)) path)"
    by (simp add: spec_history_def)
  from spec_run_grants [OF this] show ?case
  proof
    assume "(path, e) \<in> set (grants adapters channel op (sp_pending (spec_history adapters lc channel ops)))"
    then show ?thesis by (intro exI [of _ ops] exI [of _ op] exI [of _ "[]"]) simp
  next
    assume kept: "e \<in> set (sp_entries (spec_history adapters lc channel ops) path) \<and> \<not> removes adapters channel op path e"
    then obtain ops1 op' ops2 where "ops = ops1 @ op' # ops2"
      "(path, e) \<in> set (grants adapters channel op' (sp_pending (spec_history adapters lc channel ops1)))"
      "list_all (\<lambda>x. \<not> removes adapters channel x path e) ops2"
      using snoc.IH by blast
    then show ?thesis using kept by (intro exI [of _ ops1] exI [of _ op'] exI [of _ "ops2 @ [op]"]) simp
  qed
qed (simp add: spec_history_def)

lemma spec_pending:
  "sp_pending (spec_history adapters lc channel ops) = cs_pending (channel_history adapters lc channel ops empty_channel)"
proof (induction ops rule: rev_induct)
  case Nil
  then show ?case by (simp add: spec_history_def channel_history_def empty_channel_def)
next
  case (snoc op ops)
  have "sp_pending (spec_run adapters lc channel op sp) = cs_pending (channel_run adapters lc channel op st)"
    if "sp_pending sp = cs_pending st" for sp st
    using that
    by (cases op)
      (auto simp: spec_change_def approve_channel_pending split: sum.split option.split prod.split)
  then show ?case using snoc by (simp add: spec_history_def channel_history_def)
qed

text \<open>The files a read of an account looks at.\<close>

definition store_paths :: "string \<Rightarrow> string option \<Rightarrow> (string + string) list" where
  "store_paths channel accountId =
     (let account = resolveAllowFromAccountId accountId
      in resolveAllowFromFilePath channel (Some account) #
         (if shouldIncludeLegacyAllowFromEntries account then [resolveAllowFromFilePath channel None] else []))"

lemma spec_read_path:
  assumes "spec_read entries channel account = Inr l" and "e \<in> set l"
    and "\<And>path x. x \<in> set (entries path) \<Longrightarrow> js_trim x = x"
  shows "\<exists>path. Inr path \<in> set (store_paths channel account) \<and> e \<in> set (entries path)"
proof (cases "resolveAllowFromFilePath channel (Some (resolveAllowFromAccountId account))")
  case (Inr scoped)
  show ?thesis
  proof (cases "shouldIncludeLegacyAllowFromEntries (resolveAllowFromAccountId account)")
    case True
    then obtain legacy where legacy: "resolveAllowFromFilePath channel None = Inr legacy"
      "l = dedupePreserveOrder (entries scoped @ entries legacy)"
      using assms(1) Inr by (cases "resolveAllowFromFilePath channel None") (auto simp: spec_read_def Let_def)
    then obtain x where "x \<in> set (entries scoped) \<union> set (entries legacy)" "e = js_trim x" using assms(2) by auto
    then show ?thesis using assms(3) Inr legacy(1) True by (auto simp: store_paths_def Let_def)
  next
    case False
    then show ?thesis using assms(1,2) Inr by (auto simp: spec_read_def store_paths_def Let_def)
  qed
next
  case (Inl err)
  then show ?thesis using assms(1) by (simp add: spec_read_def Let_def)
qed

lemma spec_entries_normal:
  assumes "stable_history adapters channel ops" and "fresh_history adapters lc channel ops empty_channel"
  shows "normal_list adapters channel (sp_entries (spec_history adapters lc channel ops) path)"
  using spec_entries(1) [OF assms] by (simp add: allow_ok_def flip: spec_entries(2) [OF assms])

lemma normal_list_trimmed: "normal_list adapters channel l \<Longrightarrow> x \<in> set l \<Longrightarrow> js_trim x = x"
  by (metis normal_list_def normalize_allow_trim)

lemma read_granted:
  assumes "stable_history adapters channel ops" and "fresh_history adapters lc channel ops empty_channel"
    and "fst (readChannelAllowFromStore adapters channel account
      (cs_allow (channel_history adapters lc channel ops empty_channel))) = Inr entries"
    and "e \<in> set entries"
  shows "\<exists>path ops1 op ops2. Inr path \<in> set (store_paths channel account) \<and> ops = ops1 @ op # ops2 \<and>
    (path, e) \<in> set (grants adapters channel op (cs_pending (channel_history adapters lc channel ops1 empty_channel))) \<and>
    list_all (\<lambda>x. \<not> removes adapters channel x path e) ops2"
proof -
  obtain path where "Inr path \<in> set (store_paths channel account)"
    "e \<in> set (sp_entries (spec_history adapters lc channel ops) path)"
    using spec_read_path [OF _ assms(4)] assms(3) read_after_history [OF assms(1,2)]
      normal_list_trimmed [OF spec_entries_normal [OF assms(1,2)]] by (metis (no_types, lifting))
  then show ?thesis using spec_history_grants [of e adapters lc channel ops path] by (auto simp: spec_pending)
qed

subsection \<open>A sample run\<close>

definition sample_lc :: "stamp \<Rightarrow> stamp \<Rightarrow> int" where
  "sample_lc a b = 0"

definition sample_draws :: code_draws where
  "sample_draws attempt i = 0"

definition sample_ops :: "channel_op list" where
  "sample_ops = [OpUpsert (EStr ''tg:Bob'') ''main'' None 1000 1000 sample_draws, OpApprove ''aaaaaaaa'' None 2000 (1, 1) (2, 2)]"

definition sample_channel :: channel_store where
  "sample_channel = channel_history strip_tg sample_lc ''chat'' [OpUpsert (EStr ''tg:Bob'') ''main'' None 1000 1000 sample_draws]
    empty_channel"

lemma sample_stable: "stable_history strip_tg ''chat'' sample_ops"
  by code_simp

lemma sample_fresh: "fresh_history strip_tg sample_lc ''chat'' sample_ops empty_channel"
  by code_simp

lemma sample_read:
  "fst (readChannelAllowFromStore strip_tg ''chat'' (Some ''main'')
     (cs_allow (channel_history strip_tg sample_lc ''chat'' sample_ops empty_channel))) = Inr [''Bob'']"
  by code_simp

lemma sample_approved:
  "map_sum id (map_option pr_id)
     (fst (approveChannelPairingCode strip_tg ''chat'' ''aaaaaaaa'' None 2000 (1, 1) (2, 2) sample_channel)) =
   Inr (Some ''tg:Bob'')"
  by code_simp

subsection \<open>Properties\<close>

lemma approve_channel_result:
  "fst (approveChannelPairingCode adapters channel code account now createdStat stat st) = Inr (Some r) \<longleftrightarrow>
   fst (approve_pending channel code account now (cs_pending st)) = Inr (Some r) \<and>
   isl (resolveAllowFromFilePath channel (approval_account account r)) = False"
  by (cases "approve_pending channel code account now (cs_pending st)")
    (auto simp: approveChannelPairingCode_def addChannelAllowFromStoreEntry_def updateAllowFromStoreEntry_def Let_def
      case_prod_beta split: sum.splits option.splits)

lemma approve_pending_exact:
  assumes "resolvePairingPath channel = Inr path" and "requests_ok (read_requests files path)"
  shows "fst (approve_pending channel code account now files) = Inr (Some r) \<longleftrightarrow>
    r \<in> set (read_requests files path) \<and> \<not> isExpired r now \<and> pr_code r = js_upper (js_trim code) \<and>
    requestMatchesAccountId r (normalizePairingAccountId account)"
proof (cases "js_upper (nullish (normalizeNullableString code) []) = []")
  case True
  then have "js_upper (js_trim code) = []" by (simp add: normalizeNullableString_def Let_def split: if_splits)
  then show ?thesis
    using True requests_okD(2) [OF assms(2)] by (auto simp: approve_pending_def dest: blank_code_text)
next
  case False
  then have "nullish (normalizeNullableString code) [] = js_trim code"
    by (simp add: normalizeNullableString_def Let_def split: if_splits)
  then show ?thesis
    using approve_requests_exact [OF assms(2)] False assms(1) by (simp add: approve_pending_def Let_def case_prod_beta)
qed

text \<open>What an approval does to the requests and to the files of senders.\<close>

lemma remove_at_filter:
  assumes "i < length xs" and "distinct xs"
  shows "remove_at i xs = filter (\<lambda>x. x \<noteq> xs ! i) xs"
proof -
  obtain a b where cut: "xs = a @ xs ! i # b" "remove_at i xs = a @ b"
    using remove_at_cut [OF assms(1)] by metis
  have "xs ! i \<notin> set a" "xs ! i \<notin> set b" using assms(2) by (subst (asm) cut(1), simp)+
  then have "filter (\<lambda>x. x \<noteq> xs ! i) a = a" "filter (\<lambda>x. x \<noteq> xs ! i) b = b" by (auto intro: filter_True)
  then have "filter (\<lambda>x. x \<noteq> xs ! i) (a @ xs ! i # b) = a @ b" by simp
  then show ?thesis using cut by simp
qed

lemma approve_requests_rest:
  assumes "requests_ok stored" and "fst (approve_requests code account now stored) = Some r"
  shows "snd (approve_requests code account now stored) = filter (\<lambda>x. x \<noteq> r \<and> \<not> isExpired x now) stored"
proof -
  let ?pruned = "filter (\<lambda>x. \<not> isExpired x now) stored"
  obtain k where k: "find_index (\<lambda>r. js_upper (pr_code r) = code \<and> requestMatchesAccountId r account) ?pruned = Some k"
    "r = ?pruned ! k" "snd (approve_requests code account now stored) = remove_at k ?pruned"
    using assms(2) by (auto simp: approve_requests_def pruneExpiredRequests_def Let_def split: option.splits)
  have "distinct ?pruned" using requests_okD(3) [OF assms(1)] by (auto simp: distinct_map)
  then show ?thesis using remove_at_filter [OF conjunct1 [OF find_index_Some [OF k(1)]]] k(2,3)
    by (simp add: conj_commute)
qed

lemma approve_pending_rest:
  assumes "resolvePairingPath channel = Inr path" and "requests_ok (read_requests files path)"
    and "fst (approve_pending channel code account now files) = Inr (Some r)"
  shows "read_requests (snd (approve_pending channel code account now files)) =
    (read_requests files)(path := filter (\<lambda>x. x \<noteq> r \<and> \<not> isExpired x now) (read_requests files path))"
  using assms approve_requests_rest [OF assms(2)]
  by (auto simp: approve_pending_def Let_def case_prod_beta fun_eq_iff split: if_splits)

definition file_senders :: "allow_files \<Rightarrow> string \<Rightarrow> string list" where
  "file_senders fs path = nullish (Option.bind (map_get (al_files fs) path) af_store) []"

text \<open>The list of a file with one more sender; a sender that is on it in its normal form is not added again.\<close>

definition with_sender :: "pairing_adapters \<Rightarrow> string \<Rightarrow> string \<Rightarrow> string list \<Rightarrow> string list" where
  "with_sender adapters channel sender listed =
     (let normal = normalizeAllowEntry adapters channel sender; current = normalizeAllowFromList adapters channel listed
      in if normal = [] \<or> normal \<in> set current then listed else current @ [normal])"

lemma add_senders:
  assumes "resolveAllowFromFilePath channel account = Inr file"
  shows "file_senders (snd (addChannelAllowFromStoreEntry adapters channel (EStr sender) account createdStat stat fs)) =
    (file_senders fs)(file := with_sender adapters channel sender (file_senders fs file))"
proof -
  have normal: "normalizeAllowFromInput adapters channel (EStr sender) = normalizeAllowEntry adapters channel sender"
    by (simp add: normalizeAllowFromInput_def normalizeId_trim normalizeAllowEntry_def Let_def)
  have ensured: "file_senders (ensureAllowFile file createdStat fs) = file_senders fs"
    by (auto simp: file_senders_def ensureAllowFile_def write_file_def fun_eq_iff)
  have written: "file_senders (writeAllowFromState file l stat fs') = (file_senders fs')(file := l)" for l fs'
    by (auto simp: file_senders_def writeAllowFromState_def write_file_def fun_eq_iff)
  show ?thesis
    using assms by (auto simp: addChannelAllowFromStoreEntry_def updateAllowFromStoreEntry_def readAllowFromState_def Let_def normal
        add_entry_def with_sender_def ensured written simp flip: file_senders_def)
qed

lemma approve_allow:
  assumes "approveChannelPairingCode adapters channel code account now createdStat stat st = (result, st')"
  shows "result = Inr (Some r) \<Longrightarrow> resolveAllowFromFilePath channel (approval_account account r) = Inr file \<Longrightarrow>
      file_senders (cs_allow st') = (file_senders (cs_allow st))(file :=
        with_sender adapters channel (pr_id r) (file_senders (cs_allow st) file))"
    and "(\<And>x. result \<noteq> Inr (Some x)) \<Longrightarrow> cs_allow st' = cs_allow st"
proof -
  let ?pending = "approve_pending channel code account now (cs_pending st)"
  show "file_senders (cs_allow st') = (file_senders (cs_allow st))(file :=
      with_sender adapters channel (pr_id r) (file_senders (cs_allow st) file))"
    if r: "result = Inr (Some r)" and target: "resolveAllowFromFilePath channel (approval_account account r) = Inr file"
  proof -
    have "fst ?pending = Inr (Some r)"
      using approve_channel_result [of adapters channel code account now createdStat stat st r] assms r by simp
    then have "cs_allow st' = snd (addChannelAllowFromStoreEntry adapters channel (EStr (pr_id r)) (approval_account account r)
        createdStat stat (cs_allow st))"
      using assms by (cases ?pending) (auto simp: approveChannelPairingCode_def case_prod_beta)
    then show ?thesis using add_senders [OF target] by simp
  qed
  show "cs_allow st' = cs_allow st" if "\<And>x. result \<noteq> Inr (Some x)"
    using assms that
    by (cases ?pending) (auto simp: approveChannelPairingCode_def addChannelAllowFromStoreEntry_def
        updateAllowFromStoreEntry_def Let_def case_prod_beta split: sum.splits option.splits)
qed

text \<open>C7: A pairing code admits exactly the sender it was shown to. After any history of a channel,
  entering a code approves a request when and only when that request is pending, was created at
  most an hour ago, carries this very code, belongs to the account the owner names, and has a file
  to go to; and some stranger's message asked for it. The approval takes this request and the expired
  ones off the list and leaves every other where it is, writes the normal form of its sender at the
  end of the file of its account unless it is there, and changes no other file; without an approval
  no file of senders changes.\<close>

theorem pairing_code_admits_exactly:
  assumes "resolvePairingPath channel = Inr path"
    and "st = channel_history adapters lc channel ops empty_channel"
    and "approveChannelPairingCode adapters channel code account now createdStat stat st = (result, st')"
  shows "(result = Inr (Some r) \<longleftrightarrow>
      r \<in> set (read_requests (cs_pending st) path) \<and> \<not> isExpired r now \<and> pr_code r = js_upper (js_trim code) \<and>
      requestMatchesAccountId r (normalizePairingAccountId account) \<and>
      \<not> isl (resolveAllowFromFilePath channel (approval_account account r))) \<and>
    (r \<in> set (read_requests (cs_pending st) path) \<longrightarrow> list_ex (asked_by r) ops) \<and>
    (result = Inr (Some r) \<longrightarrow>
      read_requests (cs_pending st') = (read_requests (cs_pending st))
        (path := filter (\<lambda>x. x \<noteq> r \<and> \<not> isExpired x now) (read_requests (cs_pending st) path)) \<and>
      (\<exists>file. resolveAllowFromFilePath channel (approval_account account r) = Inr file \<and>
        file_senders (cs_allow st') = (file_senders (cs_allow st))
          (file := with_sender adapters channel (pr_id r) (file_senders (cs_allow st) file)))) \<and>
    ((\<forall>x. result \<noteq> Inr (Some x)) \<longrightarrow> cs_allow st' = cs_allow st)"
proof -
  have "pending_ok ops (cs_pending st)" unfolding assms(2) by (rule pending_history)
  then have ok: "requests_ok (read_requests (cs_pending st) path)"
    and asked: "r \<in> set (read_requests (cs_pending st) path) \<longrightarrow> list_ex (asked_by r) ops"
    by (auto simp: pending_ok_def list_ex_iff)
  have result: "result = Inr (Some r) \<longleftrightarrow> fst (approve_pending channel code account now (cs_pending st)) = Inr (Some r) \<and>
      \<not> isl (resolveAllowFromFilePath channel (approval_account account r))"
    using approve_channel_result [of adapters channel code account now createdStat stat st r] assms(3) by simp
  have pending: "cs_pending st' = snd (approve_pending channel code account now (cs_pending st))"
    using approve_channel_pending [of adapters channel code account now createdStat stat st] assms(3) by simp
  have effect: "read_requests (cs_pending st') = (read_requests (cs_pending st))
        (path := filter (\<lambda>x. x \<noteq> r \<and> \<not> isExpired x now) (read_requests (cs_pending st) path)) \<and>
      (\<exists>file. resolveAllowFromFilePath channel (approval_account account r) = Inr file \<and>
        file_senders (cs_allow st') = (file_senders (cs_allow st))
          (file := with_sender adapters channel (pr_id r) (file_senders (cs_allow st) file)))"
    if r: "result = Inr (Some r)"
    using r result approve_pending_rest [OF assms(1) ok] approve_allow(1) [OF assms(3) r]
    by (cases "resolveAllowFromFilePath channel (approval_account account r)") (auto simp: pending)
  show ?thesis
    using approve_pending_exact [OF assms(1) ok] asked effect approve_allow(2) [OF assms(3)] unfolding result by blast
qed

theorem pairing_code_admits_exactly_witness:
  "\<exists>r st' file. approveChannelPairingCode strip_tg ''chat'' ''aaaaaaaa'' None 2000 (1, 1) (2, 2) sample_channel = (Inr (Some r), st') \<and>
     pr_code r = ''AAAAAAAA'' \<and> pr_id r = ''tg:Bob'' \<and> r \<notin> set (read_requests (cs_pending st') ''chat-pairing.json'') \<and>
     file_senders (cs_allow st') file = [''Bob'']"
proof -
  obtain r st' where r: "approveChannelPairingCode strip_tg ''chat'' ''aaaaaaaa'' None 2000 (1, 1) (2, 2) sample_channel =
      (Inr (Some r), st')" "pr_id r = ''tg:Bob''"
    using sample_approved
    by (cases "approveChannelPairingCode strip_tg ''chat'' ''aaaaaaaa'' None 2000 (1, 1) (2, 2) sample_channel";
        cases "fst (approveChannelPairingCode strip_tg ''chat'' ''aaaaaaaa'' None 2000 (1, 1) (2, 2) sample_channel)") auto
  have path: "resolvePairingPath ''chat'' = Inr ''chat-pairing.json''" "js_upper (js_trim ''aaaaaaaa'') = ''AAAAAAAA''"
    "al_files (cs_allow sample_channel) = []" "with_sender strip_tg ''chat'' ''tg:Bob'' [] = [''Bob'']" by code_simp+
  note exact = pairing_code_admits_exactly [OF path(1) sample_channel_def r(1), of r]
  have "pr_code r = ''AAAAAAAA''" "r \<notin> set (read_requests (cs_pending st') ''chat-pairing.json'')"
    using exact path(2) by auto
  moreover obtain target where "file_senders (cs_allow st') = (file_senders (cs_allow sample_channel))
      (target := with_sender strip_tg ''chat'' (pr_id r) (file_senders (cs_allow sample_channel) target))"
    using exact by blast
  then have "file_senders (cs_allow st') target = [''Bob'']" using r(2) path(3,4) by (simp add: file_senders_def map_get_def)
  ultimately show ?thesis using r by blast
qed

text \<open>C30: Pending codes stay few and distinct. Whatever the channel went through, a file of requests
  has at most three per account, every code is eight letters of the alphabet, and no two requests
  share a code or a sender and account.\<close>

theorem pairing_codes_bounded:
  "let reqs = read_requests (cs_pending (channel_history adapters lc channel ops empty_channel)) path
   in length (filter (\<lambda>r. resolvePairingRequestAccountId r = a) reqs) \<le> 3 \<and>
    list_all (\<lambda>r. length (pr_code r) = 8 \<and> set (pr_code r) \<subseteq> set PAIRING_CODE_ALPHABET) reqs \<and>
    distinct (map pr_code reqs) \<and> distinct (map (\<lambda>r. (pr_id r, resolvePairingRequestAccountId r)) reqs)"
proof -
  have "requests_ok (read_requests (cs_pending (channel_history adapters lc channel ops empty_channel)) path)"
    using pending_history unfolding pending_ok_def by blast
  then show ?thesis
    by (simp add: Let_def requests_ok_def account_count_def code_text_def PAIRING_CODE_LENGTH_def PAIRING_PENDING_MAX_def list_all_iff)
qed

text \<open>C16: The cache of the sender lists is invisible. From an empty store, when every write gives its
  file a modification time or size the cache has not seen, and the normal form of every entry that
  comes in is itself normal, a read after any history answers as the abstract store, a map from
  file name to list of senders without files and cache. (The second condition is met by an entry the
  plugin's normaliser strips of its prefix, and missed by one with the prefix twice or before a star:
  see \<open>prefixed_wildcard_is_cached\<close>.)\<close>

theorem channel_store_refines:
  assumes "stable_history adapters channel ops" and "fresh_history adapters lc channel ops empty_channel"
  shows "fst (readChannelAllowFromStore adapters channel account (cs_allow (channel_history adapters lc channel ops empty_channel))) =
    spec_read (sp_entries (spec_history adapters lc channel ops)) channel account"
  using assms by (rule read_after_history)

theorem channel_store_refines_witness:
  "spec_read (sp_entries (spec_history strip_tg sample_lc ''chat'' sample_ops)) ''chat'' (Some ''main'') = Inr [''Bob'']"
  using channel_store_refines [OF sample_stable sample_fresh, of "Some ''main''"] sample_read by simp

text \<open>C15: A sender is on the list of an account only for a reason. From an empty store, when every
  write gives its file a modification time or size the cache has not seen and the normal form of
  every entry that comes in is itself normal, every entry a read returns was put into one of the
  account's files by an owner who entered its code, an explicit addition, or another process, and
  nothing later took it out or rewrote the file.\<close>

theorem paired_senders_granted:
  assumes "stable_history adapters channel ops" and "fresh_history adapters lc channel ops empty_channel"
    and "fst (readChannelAllowFromStore adapters channel account
      (cs_allow (channel_history adapters lc channel ops empty_channel))) = Inr entries"
    and "e \<in> set entries"
  shows "\<exists>path ops1 op ops2. Inr path \<in> set (store_paths channel account) \<and> ops = ops1 @ op # ops2 \<and>
    (path, e) \<in> set (grants adapters channel op (cs_pending (channel_history adapters lc channel ops1 empty_channel))) \<and>
    list_all (\<lambda>x. \<not> removes adapters channel x path e) ops2"
  using assms by (rule read_granted)

theorem paired_senders_granted_witness:
  "\<exists>path ops1 op ops2. sample_ops = ops1 @ op # ops2 \<and>
    (path, ''Bob'') \<in> set (grants strip_tg ''chat'' op
      (cs_pending (channel_history strip_tg sample_lc ''chat'' ops1 empty_channel)))"
  using paired_senders_granted [OF sample_stable sample_fresh sample_read, of "''Bob''"] by auto

end
