(* ===== verification/PairedIngress.thy ===== *)
theory PairedIngress
  imports IngressTheorems ChannelPairingTheorems
begin

section \<open>Direct messages of paired senders\<close>

text \<open>
  The ingress of \<open>IngressRuntime\<close> takes the reader of the default pairing store as an argument. Here
  it is \<open>readChannelAllowFromStore\<close> on the files of a channel after any history: a direct message gets
  through on the strength of the store only because the owner paired the sender.
\<close>

definition file_reader :: "pairing_adapters \<Rightarrow> allow_files \<Rightarrow> pairing_store_reader" where
  "file_reader adapters fs provider accountId =
     (case fst (readChannelAllowFromStore adapters provider (Some accountId) fs) of
        Inl err \<Rightarrow> None
      | Inr entries \<Rightarrow> Some entries)"

text \<open>An entry the account's files have for a grant nothing took back.\<close>

definition standing_grant ::
  "pairing_adapters \<Rightarrow> (stamp \<Rightarrow> stamp \<Rightarrow> int) \<Rightarrow> string \<Rightarrow> channel_op list \<Rightarrow> string \<Rightarrow> string \<Rightarrow> bool" where
  "standing_grant adapters slc channel ops account e \<longleftrightarrow>
     (\<exists>path ops1 op ops2. Inr path \<in> set (store_paths channel (Some account)) \<and> ops = ops1 @ op # ops2 \<and>
        (path, e) \<in> set (grants adapters channel op (cs_pending (channel_history adapters slc channel ops1 empty_channel))) \<and>
        list_all (\<lambda>x. \<not> removes adapters channel x path e) ops2)"

definition sample_paired_params :: ingress_params where
  "sample_paired_params = (sample_params ConvDirect NoRoute)\<lparr>rp_accountId := ''main'',
     rp_subject := \<lparr>sj_stableId = Some (EStr ''Bob''), sj_aliases = None\<rparr>, rp_allowFrom := None,
     rp_useDefaultPairingStore := Some True\<rparr>"

definition sample_files :: allow_files where
  "sample_files = cs_allow (channel_history strip_tg sample_lc ''chat'' sample_ops empty_channel)"

lemma sample_paired_dispatch:
  "map_sum (\<lambda>e. e) (\<lambda>r. di_admission (ri_ingress r))
     (resolveChannelMessageIngress (file_reader strip_tg sample_files) sample_order sample_paired_params) = Inr Dispatch"
  by code_simp

text \<open>C4: Only paired strangers get through. When an inbound direct message is dispatched under a policy
  other than open, with the default pairing store in the state a history from an empty store left it,
  the sender matched the configured list, or the policy is pairing and the sender matched entries each
  of which stands for a grant that nothing took back: a code entered by the owner, an explicit
  addition, or a file another process wrote. Every write of the history has to give its file a
  modification time or size the cache has not seen, and the normal form of every entry that comes in
  has to be normal.\<close>

theorem paired_direct_messages:
  assumes "stable_history adapters channel ops" and "fresh_history adapters slc channel ops empty_channel"
    and "resolveChannelMessageIngress
        (file_reader adapters (cs_allow (channel_history adapters slc channel ops empty_channel))) lc params = Inr r"
    and "cv_kind (rp_conversation params) = ConvDirect" and "ei_authMode (rp_event params) = AmInbound"
    and "ip_dmPolicy (rp_policy params) \<noteq> DmOpen" and "di_admission (ri_ingress r) = Dispatch"
    and "rp_readStoreAllowFrom params = None" and "js_trim (rp_channelId params) = channel"
  shows "ip_dmPolicy (rp_policy params) \<noteq> DmDisabled \<and>
    (let input = runtime_state_input
        (file_reader adapters (cs_allow (channel_history adapters slc channel ops empty_channel))) params channel
     in sender_listed input CtxDm (normalizeStringEntries (nullish (rp_allowFrom params) [])) \<or>
       ip_dmPolicy (rp_policy params) = DmPairing \<and>
       (\<exists>entries. sender_listed input CtxDm (normalizeStringEntries (map EStr entries)) \<and>
         list_all (standing_grant adapters slc channel ops (rp_accountId params)) entries))"
proof -
  let ?store = "file_reader adapters (cs_allow (channel_history adapters slc channel ops empty_channel))"
  have granted: "list_all (standing_grant adapters slc channel ops account) entries"
    if "?store channel account = Some entries" for account entries
    using that read_granted [OF assms(1,2)]
    by (auto simp: file_reader_def standing_grant_def list_all_iff split: sum.splits)
  have "\<exists>entries. readStoreAllowFrom ?store params channel = map EStr entries \<and>
      list_all (standing_grant adapters slc channel ops (rp_accountId params)) entries"
  proof (cases "?store channel (rp_accountId params)")
    case (Some entries)
    then show ?thesis
      using granted [OF Some] assms(8)
      by (intro exI [of _ "if shouldReadStore (cv_kind (rp_conversation params)) (ip_dmPolicy (rp_policy params)) \<and>
          rp_useDefaultPairingStore params = Some True \<and> ip_dmPolicy (rp_policy params) \<notin> {DmAllowlist, DmOpen}
          then entries else []"])
        (cases "ip_dmPolicy (rp_policy params)";
          simp add: readStoreAllowFrom_def readChannelIngressStoreAllowFromForDmPolicy_def shouldReadStore_def)
  next
    case None
    then show ?thesis
      using assms(8)
      by (intro exI [of _ "[]"])
        (simp add: readStoreAllowFrom_def readChannelIngressStoreAllowFromForDmPolicy_def)
  qed
  then show ?thesis using runtime_dm_dispatch [OF assms(3-7)] assms(9) by (auto simp: Let_def)
qed

theorem paired_direct_messages_witness:
  "\<exists>r. resolveChannelMessageIngress (file_reader strip_tg sample_files) sample_order sample_paired_params = Inr r \<and>
     di_admission (ri_ingress r) = Dispatch \<and>
     (let input = runtime_state_input (file_reader strip_tg sample_files) sample_paired_params ''chat''
      in sender_listed input CtxDm [] \<or>
        (\<exists>entries. sender_listed input CtxDm (normalizeStringEntries (map EStr entries)) \<and>
          list_all (standing_grant strip_tg sample_lc ''chat'' sample_ops ''main'') entries))"
proof -
  obtain r where r: "resolveChannelMessageIngress (file_reader strip_tg sample_files) sample_order sample_paired_params = Inr r"
      "di_admission (ri_ingress r) = Dispatch"
    using map_sum_InrD [OF sample_paired_dispatch] by blast
  have "rp_readStoreAllowFrom (sample_params ConvDirect NoRoute) = None" by (simp add: sample_params_def)
  then show ?thesis
    using paired_direct_messages [OF sample_stable sample_fresh r(1) [unfolded sample_files_def] _ _ _ r(2)] r
    by (auto simp: sample_paired_params_def sample_simps Let_def sample_files_def)
qed

end
