(* ===== verification/NodePairing.thy ===== *)
theory NodePairing
  imports PairingFiles GatewayScopes
begin

section \<open>The store of paired nodes\<close>

text \<open>
  Models \<^verbatim>\<open>src/infra/node-pairing.ts\<close> and \<^verbatim>\<open>node-pairing-authz.ts\<close>: a node (a machine that offers
  commands to the gateway) asks to be paired with the commands it declares, an operator whose scopes
  cover them approves, and the node then presents the token it was given. The conventions are those
  of \<open>PairingFiles\<close>; the token and the request id are arguments.
\<close>

subsection \<open>Data\<close>

record node_surface =
  ns_nodeId :: string
  ns_displayName :: "string option"
  ns_platform :: "string option"
  ns_version :: "string option"
  ns_coreVersion :: "string option"
  ns_uiVersion :: "string option"
  ns_deviceFamily :: "string option"
  ns_modelIdentifier :: "string option"
  ns_caps :: "string list option"
  ns_commands :: "string list option"
  ns_permissions :: "(string, bool) js_map option"
  ns_remoteIp :: "string option"

record node_request = node_surface +
  nq_silent :: "bool option"

record pending_node = node_request +
  np_requestId :: string
  np_ts :: int

record paired_node = node_surface +
  nn_token :: string
  nn_bins :: "string list option"
  nn_createdAtMs :: int
  nn_approvedAtMs :: int
  nn_lastConnectedAtMs :: "int option"
  nn_lastSeenAtMs :: "int option"
  nn_lastSeenReason :: "string option"

record node_store =
  no_pending :: "(string, pending_node) js_map"
  no_paired :: "(string, paired_node) js_map"

definition NODE_PENDING_TTL_MS :: int where
  "NODE_PENDING_TTL_MS = 5 * 60 * 1000"

subsection \<open>The scopes an approval needs\<close>

definition NODE_SYSTEM_RUN_COMMANDS :: "string list" where
  "NODE_SYSTEM_RUN_COMMANDS = [''system.run.prepare'', ''system.run'', ''system.which'']"

definition resolveNodePairApprovalScopes :: "string list \<Rightarrow> string list" where
  "resolveNodePairApprovalScopes commands =
     (if list_ex (\<lambda>c. list_ex (\<lambda>allowed. allowed = c) NODE_SYSTEM_RUN_COMMANDS) commands
      then [''operator.pairing'', ''operator.admin'']
      else if length commands > 0 then [''operator.pairing'', ''operator.write'']
      else [''operator.pairing''])"

definition resolveNodeApprovalRequiredScopes :: "'a node_surface_scheme \<Rightarrow> string list" where
  "resolveNodeApprovalRequiredScopes pending = resolveNodePairApprovalScopes (nullish (ns_commands pending) [])"

subsection \<open>Requests\<close>

definition normalizeArrayBackedTrimmedStringList :: "string list option \<Rightarrow> string list option" where
  "normalizeArrayBackedTrimmedStringList value =
     map_option (\<lambda>l. concat (map (\<lambda>e. case normalizeOptionalString (Some e) of None \<Rightarrow> [] | Some s \<Rightarrow> [s]) l)) value"

definition buildPendingNodePairingRequest :: "string \<Rightarrow> node_request \<Rightarrow> int \<Rightarrow> pending_node" where
  "buildPendingNodePairingRequest requestId req now =
     \<lparr>ns_nodeId = ns_nodeId req, ns_displayName = ns_displayName req, ns_platform = ns_platform req,
      ns_version = ns_version req, ns_coreVersion = ns_coreVersion req, ns_uiVersion = ns_uiVersion req,
      ns_deviceFamily = ns_deviceFamily req, ns_modelIdentifier = ns_modelIdentifier req,
      ns_caps = normalizeArrayBackedTrimmedStringList (ns_caps req),
      ns_commands = normalizeArrayBackedTrimmedStringList (ns_commands req),
      ns_permissions = ns_permissions req, ns_remoteIp = ns_remoteIp req, nq_silent = nq_silent req,
      np_requestId = requestId, np_ts = now\<rparr>"

definition refreshPendingNodePairingRequest :: "int \<Rightarrow> pending_node \<Rightarrow> node_request \<Rightarrow> pending_node" where
  "refreshPendingNodePairingRequest now existing incoming =
     existing\<lparr>ns_displayName := nullish_opt (ns_displayName incoming) (ns_displayName existing),
       ns_platform := nullish_opt (ns_platform incoming) (ns_platform existing),
       ns_version := nullish_opt (ns_version incoming) (ns_version existing),
       ns_coreVersion := nullish_opt (ns_coreVersion incoming) (ns_coreVersion existing),
       ns_uiVersion := nullish_opt (ns_uiVersion incoming) (ns_uiVersion existing),
       ns_deviceFamily := nullish_opt (ns_deviceFamily incoming) (ns_deviceFamily existing),
       ns_modelIdentifier := nullish_opt (ns_modelIdentifier incoming) (ns_modelIdentifier existing),
       ns_caps := nullish_opt (normalizeArrayBackedTrimmedStringList (ns_caps incoming)) (ns_caps existing),
       ns_commands := nullish_opt (normalizeArrayBackedTrimmedStringList (ns_commands incoming)) (ns_commands existing),
       ns_permissions := nullish_opt (ns_permissions incoming) (ns_permissions existing),
       ns_remoteIp := nullish_opt (ns_remoteIp incoming) (ns_remoteIp existing),
       nq_silent := Some (nq_silent existing = Some True \<and> nq_silent incoming = Some True),
       np_ts := now\<rparr>"

definition normalizeApprovalSurfaceList :: "string list option \<Rightarrow> string list" where
  "normalizeApprovalSurfaceList value = nullish (normalizeArrayBackedTrimmedStringList value) []"

definition sameApprovalSurfaceSet :: "string list option \<Rightarrow> string list option \<Rightarrow> bool" where
  "sameApprovalSurfaceSet left right =
     (let normalizedLeft = js_uniq (normalizeApprovalSurfaceList left);
          normalizedRight = js_uniq (normalizeApprovalSurfaceList right)
      in if length normalizedLeft \<noteq> length normalizedRight then False
         else list_all (\<lambda>e. e \<in> set normalizedRight) normalizedLeft)"

definition samePermissions ::
  "(string \<Rightarrow> string \<Rightarrow> int) \<Rightarrow> (string, bool) js_map option \<Rightarrow> (string, bool) js_map option \<Rightarrow> bool" where
  "samePermissions lc left right =
     (let leftEntries = sort_by (\<lambda>a b. lc (fst a) (fst b)) (nullish left []);
          rightEntries = sort_by (\<lambda>a b. lc (fst a) (fst b)) (nullish right [])
      in if length leftEntries \<noteq> length rightEntries then False
         else list_all2 (\<lambda>l r. fst r = fst l \<and> snd r = snd l) leftEntries rightEntries)"

definition samePendingApprovalSurface :: "(string \<Rightarrow> string \<Rightarrow> int) \<Rightarrow> pending_node \<Rightarrow> node_request \<Rightarrow> bool" where
  "samePendingApprovalSurface lc existing incoming =
     (let incomingCaps = nullish_opt (normalizeArrayBackedTrimmedStringList (ns_caps incoming)) (ns_caps existing);
          incomingCommands = nullish_opt (normalizeArrayBackedTrimmedStringList (ns_commands incoming)) (ns_commands existing);
          incomingPermissions = nullish_opt (ns_permissions incoming) (ns_permissions existing)
      in sameApprovalSurfaceSet (ns_caps existing) incomingCaps \<and>
         sameApprovalSurfaceSet (ns_commands existing) incomingCommands \<and>
         samePermissions lc (ns_permissions existing) incomingPermissions)"

definition mergeNodePairingReplacementInput :: "pending_node list \<Rightarrow> node_request \<Rightarrow> node_request" where
  "mergeNodePairingReplacementInput existing incoming =
     (case existing of
        [] \<Rightarrow> incoming\<lparr>nq_silent := Some (nq_silent incoming = Some True)\<rparr>
      | latest # _ \<Rightarrow>
          incoming\<lparr>ns_displayName := nullish_opt (ns_displayName incoming) (ns_displayName latest),
            ns_platform := nullish_opt (ns_platform incoming) (ns_platform latest),
            ns_version := nullish_opt (ns_version incoming) (ns_version latest),
            ns_coreVersion := nullish_opt (ns_coreVersion incoming) (ns_coreVersion latest),
            ns_uiVersion := nullish_opt (ns_uiVersion incoming) (ns_uiVersion latest),
            ns_deviceFamily := nullish_opt (ns_deviceFamily incoming) (ns_deviceFamily latest),
            ns_modelIdentifier := nullish_opt (ns_modelIdentifier incoming) (ns_modelIdentifier latest),
            ns_caps := nullish_opt (ns_caps incoming) (ns_caps latest),
            ns_commands := nullish_opt (ns_commands incoming) (ns_commands latest),
            ns_permissions := nullish_opt (ns_permissions incoming) (ns_permissions latest),
            ns_remoteIp := nullish_opt (ns_remoteIp incoming) (ns_remoteIp latest),
            nq_silent := Some (nq_silent incoming = Some True \<and> list_all (\<lambda>p. nq_silent p = Some True) existing)\<rparr>)"

subsection \<open>Operations\<close>

definition load_nodes :: "int \<Rightarrow> node_store \<Rightarrow> node_store" where
  "load_nodes now file = file\<lparr>no_pending := pruneExpiredPending np_ts (no_pending file) now NODE_PENDING_TTL_MS\<rparr>"

definition normalizeNodeId :: "string \<Rightarrow> string" where
  "normalizeNodeId nodeId = js_trim nodeId"

definition pending_of_node :: "string \<Rightarrow> (string, pending_node) js_map \<Rightarrow> pending_node list" where
  "pending_of_node nodeId pendingById =
     sort_by (\<lambda>l r. np_ts r - np_ts l) (filter (\<lambda>p. ns_nodeId p = nodeId) (map snd pendingById))"

definition node_replacement :: "string \<Rightarrow> int \<Rightarrow> pending_node list \<Rightarrow> node_request \<Rightarrow> pending_node" where
  "node_replacement freshId now existing incoming =
     buildPendingNodePairingRequest freshId (mergeNodePairingReplacementInput existing incoming) now"

definition requestNodePairing ::
  "(string \<Rightarrow> string \<Rightarrow> int) \<Rightarrow> node_request \<Rightarrow> string \<Rightarrow> int \<Rightarrow> int \<Rightarrow> node_store \<Rightarrow>
   (string + pending_node \<times> bool \<times> (string \<times> string) list) \<times> node_store" where
  "requestNodePairing lc req freshId loadedAt now file =
     (let st = load_nodes loadedAt file; nodeId = normalizeNodeId (ns_nodeId req)
      in if nodeId = [] then (Inl ''nodeId required'', file)
         else
           let pendingForNode = pending_of_node nodeId (no_pending st);
               ((request, created), pendingById) = reconcilePendingPairingRequests np_requestId (no_pending st)
                 pendingForNode (req\<lparr>ns_nodeId := nodeId\<rparr>) (samePendingApprovalSurface lc)
                 (refreshPendingNodePairingRequest now) (node_replacement freshId now);
               superseded = (if created then map (\<lambda>p. (np_requestId p, ns_nodeId p))
                   (filter (\<lambda>p. np_requestId p \<noteq> np_requestId request) pendingForNode) else [])
           in (Inr (request, created, superseded), st\<lparr>no_pending := pendingById\<rparr>))"

datatype node_approval = NodeUnknown | NodeForbidden string | NodeApproved string paired_node

definition approved_node :: "string \<Rightarrow> pending_node \<Rightarrow> paired_node option \<Rightarrow> int \<Rightarrow> paired_node" where
  "approved_node freshToken pending existing now =
     \<lparr>ns_nodeId = ns_nodeId pending, ns_displayName = ns_displayName pending, ns_platform = ns_platform pending,
      ns_version = ns_version pending, ns_coreVersion = ns_coreVersion pending, ns_uiVersion = ns_uiVersion pending,
      ns_deviceFamily = ns_deviceFamily pending, ns_modelIdentifier = ns_modelIdentifier pending,
      ns_caps = ns_caps pending, ns_commands = ns_commands pending, ns_permissions = ns_permissions pending,
      ns_remoteIp = ns_remoteIp pending, nn_token = freshToken, nn_bins = None,
      nn_createdAtMs = nullish (map_option nn_createdAtMs existing) now, nn_approvedAtMs = now,
      nn_lastConnectedAtMs = None, nn_lastSeenAtMs = None, nn_lastSeenReason = None\<rparr>"

definition approveNodePairing ::
  "string \<Rightarrow> string list option \<Rightarrow> string \<Rightarrow> int \<Rightarrow> int \<Rightarrow> node_store \<Rightarrow> node_approval \<times> node_store" where
  "approveNodePairing requestId callerScopes freshToken loadedAt now file =
     (let st = load_nodes loadedAt file
      in case map_get (no_pending st) requestId of
           None \<Rightarrow> (NodeUnknown, file)
         | Some pending \<Rightarrow>
             (case resolveMissingRequestedScope OPERATOR_ROLE (resolveNodeApprovalRequiredScopes pending)
                     (nullish callerScopes []) of
                Some missingScope \<Rightarrow> (NodeForbidden missingScope, file)
              | None \<Rightarrow>
                  (let node = approved_node freshToken pending (map_get (no_paired st) (ns_nodeId pending)) now
                   in (NodeApproved requestId node,
                       st\<lparr>no_pending := map_delete (no_pending st) requestId,
                          no_paired := map_set (no_paired st) (ns_nodeId pending) node\<rparr>))))"

definition rejectNodePairing :: "string \<Rightarrow> int \<Rightarrow> node_store \<Rightarrow> (string \<times> string) option \<times> node_store" where
  "rejectNodePairing requestId loadedAt file =
     (let st = load_nodes loadedAt file;
          (result, pendingById) = rejectPendingPairingRequest ns_nodeId requestId (no_pending st)
      in (result, if result = None then file else st\<lparr>no_pending := pendingById\<rparr>))"

definition removePairedNode :: "string \<Rightarrow> int \<Rightarrow> node_store \<Rightarrow> string option \<times> node_store" where
  "removePairedNode nodeId loadedAt file =
     (let st = load_nodes loadedAt file; normalized = normalizeNodeId nodeId
      in if normalized = [] \<or> map_get (no_paired st) normalized = None then (None, file)
         else (Some normalized, st\<lparr>no_paired := map_delete (no_paired st) normalized\<rparr>))"

definition verifyNodeToken :: "string \<Rightarrow> string \<Rightarrow> int \<Rightarrow> node_store \<Rightarrow> paired_node option" where
  "verifyNodeToken nodeId token loadedAt file =
     (case map_get (no_paired (load_nodes loadedAt file)) (normalizeNodeId nodeId) of
        None \<Rightarrow> None
      | Some node \<Rightarrow> if verifyPairingToken token (nn_token node) then Some node else None)"

record node_patch =
  nh_displayName :: "string option"
  nh_platform :: "string option"
  nh_version :: "string option"
  nh_coreVersion :: "string option"
  nh_uiVersion :: "string option"
  nh_deviceFamily :: "string option"
  nh_modelIdentifier :: "string option"
  nh_remoteIp :: "string option"
  nh_caps :: "string list option"
  nh_commands :: "string list option"
  nh_bins :: "string list option"
  nh_permissions :: "(string, bool) js_map option"
  nh_lastConnectedAtMs :: "int option"
  nh_lastSeenAtMs :: "int option"
  nh_lastSeenReason :: "string option"

definition patch_node :: "node_patch \<Rightarrow> paired_node \<Rightarrow> paired_node" where
  "patch_node patch existing =
     existing\<lparr>ns_displayName := nullish_opt (nh_displayName patch) (ns_displayName existing),
       ns_platform := nullish_opt (nh_platform patch) (ns_platform existing),
       ns_version := nullish_opt (nh_version patch) (ns_version existing),
       ns_coreVersion := nullish_opt (nh_coreVersion patch) (ns_coreVersion existing),
       ns_uiVersion := nullish_opt (nh_uiVersion patch) (ns_uiVersion existing),
       ns_deviceFamily := nullish_opt (nh_deviceFamily patch) (ns_deviceFamily existing),
       ns_modelIdentifier := nullish_opt (nh_modelIdentifier patch) (ns_modelIdentifier existing),
       ns_remoteIp := nullish_opt (nh_remoteIp patch) (ns_remoteIp existing),
       ns_caps := nullish_opt (nh_caps patch) (ns_caps existing),
       ns_commands := nullish_opt (nh_commands patch) (ns_commands existing),
       nn_bins := nullish_opt (nh_bins patch) (nn_bins existing),
       ns_permissions := nullish_opt (nh_permissions patch) (ns_permissions existing),
       nn_lastConnectedAtMs := nullish_opt (nh_lastConnectedAtMs patch) (nn_lastConnectedAtMs existing),
       nn_lastSeenAtMs := nullish_opt (nh_lastSeenAtMs patch) (nn_lastSeenAtMs existing),
       nn_lastSeenReason := nullish_opt (nh_lastSeenReason patch) (nn_lastSeenReason existing)\<rparr>"

definition updatePairedNodeMetadata :: "string \<Rightarrow> node_patch \<Rightarrow> int \<Rightarrow> node_store \<Rightarrow> bool \<times> node_store" where
  "updatePairedNodeMetadata nodeId patch loadedAt file =
     (let st = load_nodes loadedAt file; normalized = normalizeNodeId nodeId
      in case map_get (no_paired st) normalized of
           None \<Rightarrow> (False, file)
         | Some existing \<Rightarrow> (True, st\<lparr>no_paired := map_set (no_paired st) normalized (patch_node patch existing)\<rparr>))"

definition renamePairedNode :: "string \<Rightarrow> string \<Rightarrow> int \<Rightarrow> node_store \<Rightarrow> (string + paired_node option) \<times> node_store" where
  "renamePairedNode nodeId displayName loadedAt file =
     (let st = load_nodes loadedAt file; normalized = normalizeNodeId nodeId
      in case map_get (no_paired st) normalized of
           None \<Rightarrow> (Inr None, file)
         | Some existing \<Rightarrow>
             (let trimmed = js_trim displayName
              in if trimmed = [] then (Inl ''displayName required'', file)
                 else
                   let renamed = existing\<lparr>ns_displayName := Some trimmed\<rparr>
                   in (Inr (Some renamed), st\<lparr>no_paired := map_set (no_paired st) normalized renamed\<rparr>)))"

definition listNodePairing :: "int \<Rightarrow> node_store \<Rightarrow> (pending_node \<times> string list) list \<times> paired_node list" where
  "listNodePairing loadedAt file =
     (let st = load_nodes loadedAt file
      in (map (\<lambda>p. (p, resolveNodeApprovalRequiredScopes p))
            (sort_by (\<lambda>a b. np_ts b - np_ts a) (map snd (no_pending st))),
          sort_by (\<lambda>a b. nn_approvedAtMs b - nn_approvedAtMs a) (map snd (no_paired st))))"

definition getPairedNode :: "string \<Rightarrow> int \<Rightarrow> node_store \<Rightarrow> paired_node option" where
  "getPairedNode nodeId loadedAt file = map_get (no_paired (load_nodes loadedAt file)) (normalizeNodeId nodeId)"

subsection \<open>Sequences of operations\<close>

datatype node_op =
    NodeRequest node_request string int int
  | NodeApprove string "string list option" string int int
  | NodeReject string int
  | NodeRemove string int
  | NodePatch string node_patch int
  | NodeRename string string int

fun node_run :: "(string \<Rightarrow> string \<Rightarrow> int) \<Rightarrow> node_op \<Rightarrow> node_store \<Rightarrow> node_store" where
  "node_run lc (NodeRequest req freshId loadedAt now) st = snd (requestNodePairing lc req freshId loadedAt now st)"
| "node_run lc (NodeApprove i scopes token loadedAt now) st = snd (approveNodePairing i scopes token loadedAt now st)"
| "node_run lc (NodeReject i loadedAt) st = snd (rejectNodePairing i loadedAt st)"
| "node_run lc (NodeRemove nodeId loadedAt) st = snd (removePairedNode nodeId loadedAt st)"
| "node_run lc (NodePatch nodeId patch loadedAt) st = snd (updatePairedNodeMetadata nodeId patch loadedAt st)"
| "node_run lc (NodeRename nodeId name loadedAt) st = snd (renamePairedNode nodeId name loadedAt st)"

definition node_history :: "(string \<Rightarrow> string \<Rightarrow> int) \<Rightarrow> node_op list \<Rightarrow> node_store \<Rightarrow> node_store" where
  "node_history lc ops st = fold (node_run lc) ops st"

definition empty_nodes :: node_store where
  "empty_nodes = \<lparr>no_pending = [], no_paired = []\<rparr>"

end
