(* ===== verification/NodePairingProps.thy ===== *)
theory NodePairingProps
  imports NodePairing
begin

section \<open>What a paired node was allowed\<close>

text \<open>
  Over every sequence of operations on the store of nodes: a node has at most one pending request,
  and a node whose token verifies was approved, with the commands it has, by an operator whose
  scopes cover them, and was neither removed nor approved anew since.
\<close>

subsection \<open>Pending requests\<close>

interpretation node_pending: pending_store np_requestId ns_nodeId ns_nodeId
  "refreshPendingNodePairingRequest now" "node_replacement freshId now"
  for now freshId
  by unfold_locales
    (auto simp: refreshPendingNodePairingRequest_def node_replacement_def buildPendingNodePairingRequest_def
      mergeNodePairingReplacementInput_def split: list.split)

lemma set_pending_of_node: "set (pending_of_node k m) = {p. \<exists>i. (i, p) \<in> set m \<and> ns_nodeId p = k}"
  by (force simp: pending_of_node_def)

lemma load_nodes_simps [simp]:
  "no_paired (load_nodes t st) = no_paired st"
  "no_pending (load_nodes t st) = pruneExpiredPending np_ts (no_pending st) t NODE_PENDING_TTL_MS"
  by (simp_all add: load_nodes_def)

lemma request_nodes:
  "no_paired (snd (requestNodePairing lc req freshId t now st)) = no_paired st"
  "one_pending np_requestId ns_nodeId (no_pending st) \<Longrightarrow>
   one_pending np_requestId ns_nodeId (no_pending (snd (requestNodePairing lc req freshId t now st)))"
proof -
  show "no_paired (snd (requestNodePairing lc req freshId t now st)) = no_paired st"
    by (simp add: requestNodePairing_def Let_def case_prod_beta)
  assume m: "one_pending np_requestId ns_nodeId (no_pending st)"
  let ?m = "no_pending (load_nodes t st)" and ?k = "normalizeNodeId (ns_nodeId req)"
  have "one_pending np_requestId ns_nodeId (snd (reconcilePendingPairingRequests np_requestId ?m (pending_of_node ?k ?m)
      (req\<lparr>ns_nodeId := ?k\<rparr>) (samePendingApprovalSurface lc) (refreshPendingNodePairingRequest now)
      (node_replacement freshId now)))"
    by (rule node_pending.reconcile_one) (use m in \<open>simp_all add: set_pending_of_node\<close>)
  then show "one_pending np_requestId ns_nodeId (no_pending (snd (requestNodePairing lc req freshId t now st)))"
    using m by (simp add: requestNodePairing_def Let_def case_prod_beta)
qed

lemma approve_cases_node:
  obtains (refused) "snd (approveNodePairing i scopes tok t now st) = st"
      "\<And>r n. fst (approveNodePairing i scopes tok t now st) \<noteq> NodeApproved r n"
    | (approved) p where "map_get (no_pending (load_nodes t st)) i = Some p"
      "resolveMissingRequestedScope OPERATOR_ROLE (resolveNodeApprovalRequiredScopes p) (nullish scopes []) = None"
      "approveNodePairing i scopes tok t now st =
        (NodeApproved i (approved_node tok p (map_get (no_paired st) (ns_nodeId p)) now),
         (load_nodes t st)\<lparr>no_pending := map_delete (no_pending (load_nodes t st)) i,
           no_paired := map_set (no_paired st) (ns_nodeId p) (approved_node tok p (map_get (no_paired st) (ns_nodeId p)) now)\<rparr>)"
proof (cases "map_get (no_pending (load_nodes t st)) i")
  case None
  then show ?thesis using refused by (simp add: approveNodePairing_def)
next
  case (Some p)
  then show ?thesis
    using refused approved
    by (cases "resolveMissingRequestedScope OPERATOR_ROLE (resolveNodeApprovalRequiredScopes p) (nullish scopes [])")
      (simp_all add: approveNodePairing_def Let_def)
qed

lemma node_run_pending:
  assumes "one_pending np_requestId ns_nodeId (no_pending st)"
  shows "one_pending np_requestId ns_nodeId (no_pending (node_run lc op st))"
proof (cases op)
  case (NodeApprove i scopes tok t now)
  then show ?thesis using assms by (cases rule: approve_cases_node [of i scopes tok t now st]) simp_all
qed (use assms request_nodes(2) in
    \<open>simp_all add: rejectNodePairing_def removePairedNode_def updatePairedNodeMetadata_def renamePairedNode_def Let_def
      case_prod_beta split: option.split\<close>)

lemma nodes_one_pending: "one_pending np_requestId ns_nodeId (no_pending (node_history lc ops empty_nodes))"
proof (induction ops rule: rev_induct)
  case Nil
  then show ?case by (simp add: node_history_def empty_nodes_def one_pending_def)
next
  case (snoc op ops)
  then show ?case by (simp add: node_history_def node_run_pending)
qed

subsection \<open>Approvals\<close>

text \<open>The node, token and approver's scopes of an approval that went through.\<close>

fun node_grant :: "node_op \<Rightarrow> node_store \<Rightarrow> (string \<times> string \<times> string list) list" where
  "node_grant (NodeApprove i scopes tok t now) st =
     (case fst (approveNodePairing i scopes tok t now st) of
        NodeApproved r n \<Rightarrow> [(ns_nodeId n, tok, nullish scopes [])]
      | _ \<Rightarrow> [])"
| "node_grant op st = []"

definition scopes_cover :: "paired_node \<Rightarrow> string list \<Rightarrow> bool" where
  "scopes_cover n scopes =
     (resolveMissingRequestedScope OPERATOR_ROLE (resolveNodeApprovalRequiredScopes n) scopes = None)"

text \<open>Nothing removes or approves the node again.\<close>

fun node_untouched :: "string \<Rightarrow> node_op \<Rightarrow> node_store \<Rightarrow> bool" where
  "node_untouched k (NodeRemove nodeId t) st = (fst (removePairedNode nodeId t st) \<noteq> Some k)"
| "node_untouched k op st = list_all (\<lambda>g. fst g \<noteq> k) (node_grant op st)"

fun node_stays :: "(string \<Rightarrow> string \<Rightarrow> int) \<Rightarrow> string \<Rightarrow> node_op list \<Rightarrow> node_store \<Rightarrow> bool" where
  "node_stays lc k [] st = True"
| "node_stays lc k (op # ops) st = (node_untouched k op st \<and> node_stays lc k ops (node_run lc op st))"

text \<open>The gateway's own updates of a node leave its commands alone.\<close>

fun keeps_commands :: "node_op \<Rightarrow> bool" where
  "keeps_commands (NodePatch nodeId patch t) = (nh_commands patch = None)"
| "keeps_commands op = True"

lemma node_stays_snoc:
  "node_stays lc k (ops @ [op]) st = (node_stays lc k ops st \<and> node_untouched k op (fold (node_run lc) ops st))"
  by (induction ops arbitrary: st) auto

lemma approved_node_simps [simp]:
  "ns_nodeId (approved_node tok p ex now) = ns_nodeId p" "nn_token (approved_node tok p ex now) = tok"
  "ns_commands (approved_node tok p ex now) = ns_commands p"
  by (simp_all add: approved_node_def)

lemma patch_node_simps [simp]:
  "ns_nodeId (patch_node patch n) = ns_nodeId n" "nn_token (patch_node patch n) = nn_token n"
  "nh_commands patch = None \<Longrightarrow> ns_commands (patch_node patch n) = ns_commands n"
  by (simp_all add: patch_node_def)

lemma node_step:
  assumes n: "map_get (no_paired (node_run lc op st)) k = Some n" and "keeps_commands op"
    and filed: "\<And>k n. map_get (no_paired st) k = Some n \<Longrightarrow> ns_nodeId n = k"
  shows "ns_nodeId n = k \<and>
    ((\<exists>scopes. (k, nn_token n, scopes) \<in> set (node_grant op st) \<and> scopes_cover n scopes) \<or>
     (\<exists>n0. map_get (no_paired st) k = Some n0 \<and> nn_token n0 = nn_token n \<and> ns_commands n0 = ns_commands n \<and>
        node_untouched k op st))"
proof (cases op)
  case (NodeRequest req freshId t now)
  then show ?thesis using n filed by (auto simp: request_nodes(1))
next
  case (NodeApprove i scopes tok t now)
  then show ?thesis
  proof (cases rule: approve_cases_node [of i scopes tok t now st])
    case refused
    then have "node_grant op st = []" using NodeApprove by (auto split: node_approval.split)
    then show ?thesis using n filed refused NodeApprove by simp
  next
    case (approved p)
    show ?thesis
    proof (cases "k = ns_nodeId p")
      case True
      then have "n = approved_node tok p (map_get (no_paired st) k) now" using n approved NodeApprove by simp
      then show ?thesis
        using approved NodeApprove True by (simp add: scopes_cover_def resolveNodeApprovalRequiredScopes_def)
    next
      case False
      then show ?thesis using n filed approved NodeApprove by simp
    qed
  qed
next
  case (NodePatch nodeId patch t)
  then show ?thesis
    using n filed assms(2) by (auto simp: updatePairedNodeMetadata_def Let_def split: option.splits if_splits)
next
  case (NodeRename nodeId name t)
  then show ?thesis using n filed by (auto simp: renamePairedNode_def Let_def split: option.splits if_splits)
qed (use n filed in \<open>auto simp: rejectNodePairing_def removePairedNode_def Let_def case_prod_beta split: if_splits\<close>)

lemma node_approved:
  assumes "list_all keeps_commands ops" and "map_get (no_paired (node_history lc ops empty_nodes)) k = Some n"
  shows "ns_nodeId n = k \<and> (\<exists>ops1 op ops2 scopes. ops = ops1 @ op # ops2 \<and>
    (k, nn_token n, scopes) \<in> set (node_grant op (node_history lc ops1 empty_nodes)) \<and> scopes_cover n scopes \<and>
    node_stays lc k ops2 (node_history lc (ops1 @ [op]) empty_nodes))"
  using assms
proof (induction ops arbitrary: k n rule: rev_induct)
  case Nil
  then show ?case by (simp add: node_history_def empty_nodes_def)
next
  case (snoc op ops)
  let ?st = "node_history lc ops empty_nodes"
  have run: "map_get (no_paired (node_run lc op ?st)) k = Some n" "keeps_commands op" "list_all keeps_commands ops"
    using snoc.prems by (simp_all add: node_history_def)
  have filed: "ns_nodeId n' = k'" if "map_get (no_paired ?st) k' = Some n'" for k' n'
    using snoc.IH [OF run(3) that] by simp
  have "ns_nodeId n = k \<and>
    ((\<exists>scopes. (k, nn_token n, scopes) \<in> set (node_grant op ?st) \<and> scopes_cover n scopes) \<or>
     (\<exists>n0. map_get (no_paired ?st) k = Some n0 \<and> nn_token n0 = nn_token n \<and> ns_commands n0 = ns_commands n \<and>
        node_untouched k op ?st))"
    by (rule node_step [OF run(1,2)]) (rule filed)
  then show ?case
  proof (elim conjE disjE exE, goal_cases)
    case (1 scopes)
    then show ?case
      by (intro conjI exI [of _ ops] exI [of _ op] exI [of _ "[]"] exI [of _ scopes]) simp_all
  next
    case (2 n0)
    then obtain ops1 op' ops2 scopes where o: "ops = ops1 @ op' # ops2"
      "(k, nn_token n0, scopes) \<in> set (node_grant op' (node_history lc ops1 empty_nodes))" "scopes_cover n0 scopes"
      "node_stays lc k ops2 (node_history lc (ops1 @ [op']) empty_nodes)"
      using snoc.IH [OF run(3) 2(2)] by auto
    then have "node_stays lc k (ops2 @ [op]) (node_history lc (ops1 @ [op']) empty_nodes)"
      using 2(5) by (simp add: node_stays_snoc node_history_def)
    moreover have "scopes_cover n scopes"
      using o(3) 2(4) by (simp add: scopes_cover_def resolveNodeApprovalRequiredScopes_def)
    ultimately show ?case
      using o 2(1,3) by (intro conjI exI [of _ ops1] exI [of _ op'] exI [of _ "ops2 @ [op]"] exI [of _ scopes]) simp_all
  qed
qed

text \<open>Commands of the \<open>system.run\<close> family take an administrator.\<close>

lemma system_run_needs_admin:
  assumes "scopes_cover n scopes" and "c \<in> set NODE_SYSTEM_RUN_COMMANDS" and "c \<in> set (nullish (ns_commands n) [])"
  shows "''operator.admin'' \<in> set (normalizeScopeList scopes)"
proof -
  have "''operator.admin'' \<in> set (resolveNodeApprovalRequiredScopes n)"
    using assms(2,3) by (auto simp: resolveNodeApprovalRequiredScopes_def resolveNodePairApprovalScopes_def list_ex_iff)
  then have "roleScopesAllow OPERATOR_ROLE [''operator.admin''] scopes"
    using assms(1) by (auto simp: scopes_cover_def resolveMissingRequestedScope_def find_None_iff)
  moreover have "normalizeScopeList [''operator.admin''] = [''operator.admin'']" "js_trim OPERATOR_ROLE = OPERATOR_ROLE"
    by code_simp+
  ultimately show ?thesis
    by (auto simp: roleScopesAllow_def operatorScopeSatisfied_def Let_def split: if_splits)
qed

subsection \<open>Properties\<close>

definition sample_node_request :: node_request where
  "sample_node_request = \<lparr>ns_nodeId = ''mac'', ns_displayName = None, ns_platform = None, ns_version = None,
     ns_coreVersion = None, ns_uiVersion = None, ns_deviceFamily = None, ns_modelIdentifier = None, ns_caps = None,
     ns_commands = Some [''system.run''], ns_permissions = None, ns_remoteIp = None, nq_silent = None\<rparr>"

definition sample_nodes :: "node_op list" where
  "sample_nodes = [NodeRequest sample_node_request ''r1'' 10 10, NodeApprove ''r1'' (Some [''operator.admin'']) ''t1'' 20 20]"

lemma sample_node_verified:
  "map_option (\<lambda>n. nn_token n) (verifyNodeToken ''mac'' ''t1'' 30 (node_history (\<lambda>a b. 0) sample_nodes empty_nodes)) = Some ''t1''"
  by code_simp

text \<open>C20: A node acts only under an approval that covers its commands. When a node's token verifies
  after any history in which no update rewrote a node's commands, that very token was handed out
  by an approval of this node which no removal or later approval of it followed, by an operator
  whose scopes cover the commands the node has now; a command of the system.run family takes an
  administrator.\<close>

theorem node_token_approved:
  assumes "list_all keeps_commands ops"
    and "verifyNodeToken nodeId token t (node_history lc ops empty_nodes) = Some n"
  shows "\<exists>ops1 op ops2 scopes. ops = ops1 @ op # ops2 \<and>
    (js_trim nodeId, token, scopes) \<in> set (node_grant op (node_history lc ops1 empty_nodes)) \<and>
    node_stays lc (js_trim nodeId) ops2 (node_history lc (ops1 @ [op]) empty_nodes) \<and>
    resolveMissingRequestedScope OPERATOR_ROLE (resolveNodePairApprovalScopes (nullish (ns_commands n) [])) scopes = None \<and>
    (list_ex (\<lambda>c. c \<in> set NODE_SYSTEM_RUN_COMMANDS) (nullish (ns_commands n) []) \<longrightarrow>
      ''operator.admin'' \<in> set (normalizeScopeList scopes))"
proof -
  have stored: "map_get (no_paired (node_history lc ops empty_nodes)) (js_trim nodeId) = Some n" "nn_token n = token"
    using assms(2) by (auto simp: verifyNodeToken_def normalizeNodeId_def verify_pairing_token split: option.splits if_splits)
  obtain ops1 op ops2 scopes where o: "ops = ops1 @ op # ops2"
    "(js_trim nodeId, token, scopes) \<in> set (node_grant op (node_history lc ops1 empty_nodes))"
    "scopes_cover n scopes" "node_stays lc (js_trim nodeId) ops2 (node_history lc (ops1 @ [op]) empty_nodes)"
    using node_approved [OF assms(1) stored(1)] stored(2) by blast
  then show ?thesis
    using system_run_needs_admin [OF o(3)]
    by (intro exI [of _ ops1] exI [of _ op] exI [of _ ops2] exI [of _ scopes])
      (auto simp: scopes_cover_def resolveNodeApprovalRequiredScopes_def list_ex_iff)
qed

theorem node_token_approved_witness:
  "\<exists>ops1 op ops2 scopes. sample_nodes = ops1 @ op # ops2 \<and>
    (''mac'', ''t1'', scopes) \<in> set (node_grant op (node_history (\<lambda>a b. 0) ops1 empty_nodes))"
proof -
  obtain n where "verifyNodeToken ''mac'' ''t1'' 30 (node_history (\<lambda>a b. 0) sample_nodes empty_nodes) = Some n"
    using sample_node_verified by (cases "verifyNodeToken ''mac'' ''t1'' 30 (node_history (\<lambda>a b. 0) sample_nodes empty_nodes)") auto
  moreover have "list_all keeps_commands sample_nodes" "js_trim ''mac'' = ''mac''" by code_simp+
  ultimately show ?thesis using node_token_approved [of sample_nodes "''mac''" "''t1''" 30] by fastforce
qed

end
