(* ===== verification/HeartbeatWake.thy ===== *)
theory HeartbeatWake
  imports JsMap AllowFrom
begin

section \<open>Heartbeat wakes\<close>

text \<open>
  Models \<^verbatim>\<open>src/infra/heartbeat-wake.ts\<close> (with \<^verbatim>\<open>heartbeat-reason.ts\<close>): requests to wake an agent are
  coalesced per target, a timer hands them as a batch to the registered handler, one wake after the
  other, busy targets are retried, and a handler that hangs is given up after ten minutes. The code
  runs from one \<open>await\<close> to the next without interruption; each such piece is one event here, with
  one reading of the clock. A batch whose handler call is pending is in \<open>ws_flights\<close>; the pending
  call is the head of \<open>wb_rest\<close>. A handler is a number, the calls made to it are the effects. Logging
  and the ring of claim traces are left out.
\<close>

subsection \<open>Data\<close>

datatype wake_intent = IntentScheduled | IntentEvent | IntentImmediate | IntentManual

datatype wake_source =
    SourceInterval | SourceManual | SourceExecEvent | SourceNotificationsEvent | SourceCron | SourceHook
  | SourceBackgroundTask | SourceBackgroundTaskBlocked | SourceAcpSpawn | SourceCliWatchdog
  | SourceRestartSentinel | SourceRetry | SourceOther

record wake_override =
  wo_target :: "string option"
  wo_to :: "string option"
  wo_accountId :: "string option"

record wake_request =
  wr_source :: wake_source
  wr_intent :: wake_intent
  wr_reason :: "string option"
  wr_agentId :: "string option"
  wr_sessionKey :: "string option"
  wr_heartbeat :: "wake_override option"

datatype run_result = WakeRan int | WakeSkipped string | WakeFailed string

datatype timer_kind = TimerNormal | TimerRetry

record pending_wake =
  pw_source :: wake_source
  pw_intent :: wake_intent
  pw_reason :: string
  pw_priority :: nat
  pw_requestedAt :: int
  pw_agentId :: "string option"
  pw_sessionKey :: "string option"
  pw_heartbeat :: "wake_override option"

record wake_timer =
  wt_dueAt :: rat
  wt_kind :: timer_kind
  wt_delay :: rat

record wake_batch =
  wb_handler :: nat
  wb_generation :: nat
  wb_startedAt :: int
  wb_batch :: "pending_wake list"
  wb_rest :: "pending_wake list"
  wb_busySeen :: bool
  wb_delay :: rat

record wake_state =
  ws_heartbeatsEnabled :: bool
  ws_handler :: "nat option"
  ws_handlerGeneration :: nat
  ws_pendingWakes :: "(string, pending_wake) js_map"
  ws_scheduled :: bool
  ws_running :: bool
  ws_runningSince :: "int option"
  ws_runningOwnerGeneration :: nat
  ws_timer :: "wake_timer option"
  ws_consecutiveBusyRetries :: nat
  ws_lastBusySkipLogAt :: int
  ws_preModelNoopRetryCounts :: "(string, nat) js_map"
  ws_flights :: "wake_batch list"

type_synonym wake_call = "nat \<times> wake_request"

definition initial_wakes :: wake_state where
  "initial_wakes = \<lparr>ws_heartbeatsEnabled = True, ws_handler = None, ws_handlerGeneration = 0, ws_pendingWakes = [],
     ws_scheduled = False, ws_running = False, ws_runningSince = None, ws_runningOwnerGeneration = 0, ws_timer = None,
     ws_consecutiveBusyRetries = 0, ws_lastBusySkipLogAt = 0, ws_preModelNoopRetryCounts = [], ws_flights = []\<rparr>"

definition HEARTBEAT_SKIP_REPLY_PRE_MODEL_NOOP :: string where
  "HEARTBEAT_SKIP_REPLY_PRE_MODEL_NOOP = ''reply-pre-model-noop''"

definition RETRYABLE_BUSY_SKIP_REASONS :: "string list" where
  "RETRYABLE_BUSY_SKIP_REASONS = [''requests-in-flight'', ''cron-in-progress'', ''lanes-busy'']"

definition isRetryableHeartbeatBusySkipReason :: "string \<Rightarrow> bool" where
  "isRetryableHeartbeatBusySkipReason reason = (reason \<in> set RETRYABLE_BUSY_SKIP_REASONS)"

definition RUNNING_HANG_LIMIT_MS :: int where
  "RUNNING_HANG_LIMIT_MS = 10 * 60000"

definition BUSY_SKIP_LOG_INTERVAL_MS :: int where
  "BUSY_SKIP_LOG_INTERVAL_MS = 60000"

definition DEFAULT_COALESCE_MS :: int where
  "DEFAULT_COALESCE_MS = 250"

definition DEFAULT_RETRY_MS :: int where
  "DEFAULT_RETRY_MS = 1000"

definition HEARTBEAT_PRE_MODEL_NOOP_RETRY_CAP :: nat where
  "HEARTBEAT_PRE_MODEL_NOOP_RETRY_CAP = 3"

subsection \<open>Queueing a wake\<close>

text \<open>\<open>REASON_PRIORITY\<close>: retry 0, interval 1, default 2, action 3.\<close>

definition resolveWakePriority :: "wake_source \<Rightarrow> wake_intent \<Rightarrow> string \<Rightarrow> nat" where
  "resolveWakePriority src intent reason =
     (if intent = IntentManual \<or> intent = IntentImmediate then 3
      else if src = SourceRetry \<or> reason = ''retry'' then 0
      else if intent = IntentScheduled \<or> src = SourceInterval \<or> reason = ''interval'' then 1
      else 2)"

definition normalizeHeartbeatWakeReason :: "string option \<Rightarrow> string" where
  "normalizeHeartbeatWakeReason reason = nullish (normalizeOptionalString reason) ''requested''"

definition normalizeWakeTarget :: "string option \<Rightarrow> string option" where
  "normalizeWakeTarget v = (let trimmed = nullish (normalizeOptionalString v) [] in if trimmed = [] then None else Some trimmed)"

definition getWakeTargetKey :: "string option \<Rightarrow> string option \<Rightarrow> string" where
  "getWakeTargetKey agentId sessionKey =
     nullish (normalizeWakeTarget agentId) [] @ ''::'' @ nullish (normalizeWakeTarget sessionKey) []"

definition queuePendingWakeReason :: "wake_request \<Rightarrow> int \<Rightarrow> wake_state \<Rightarrow> wake_state" where
  "queuePendingWakeReason params requestedAt st =
     (let reason = normalizeHeartbeatWakeReason (wr_reason params);
          agentId = normalizeWakeTarget (wr_agentId params);
          sessionKey = normalizeWakeTarget (wr_sessionKey params);
          key = getWakeTargetKey agentId sessionKey;
          new = \<lparr>pw_source = wr_source params, pw_intent = wr_intent params, pw_reason = reason,
             pw_priority = resolveWakePriority (wr_source params) (wr_intent params) reason,
             pw_requestedAt = requestedAt, pw_agentId = agentId, pw_sessionKey = sessionKey,
             pw_heartbeat = wr_heartbeat params\<rparr>
      in case map_get (ws_pendingWakes st) key of
           None \<Rightarrow> st\<lparr>ws_pendingWakes := map_set (ws_pendingWakes st) key new\<rparr>
         | Some previous \<Rightarrow>
             (let merged = (if nullish_opt (pw_heartbeat new) (pw_heartbeat previous) \<noteq> None
                    then new\<lparr>pw_heartbeat := nullish_opt (pw_heartbeat new) (pw_heartbeat previous)\<rparr> else new)
              in if pw_priority new > pw_priority previous then
                   st\<lparr>ws_pendingWakes := map_set (ws_pendingWakes st) key merged\<rparr>
                 else if pw_priority new = pw_priority previous \<and> pw_requestedAt new \<ge> pw_requestedAt previous then
                   st\<lparr>ws_pendingWakes := map_set (ws_pendingWakes st) key merged\<rparr>
                 else st))"

text \<open>The request a pending wake is queued again with, and the options its handler is called with.\<close>

definition requeue_request :: "pending_wake \<Rightarrow> wake_request" where
  "requeue_request w = \<lparr>wr_source = pw_source w, wr_intent = pw_intent w, wr_reason = Some (pw_reason w),
     wr_agentId = pw_agentId w, wr_sessionKey = pw_sessionKey w, wr_heartbeat = pw_heartbeat w\<rparr>"

subsection \<open>The timer\<close>

definition schedule :: "jsnum \<Rightarrow> timer_kind \<Rightarrow> int \<Rightarrow> wake_state \<Rightarrow> wake_state" where
  "schedule coalesceMs kind now st =
     (let delay = (case coalesceMs of Fin d \<Rightarrow> max 0 d | _ \<Rightarrow> of_int DEFAULT_COALESCE_MS);
          dueAt = of_int now + delay;
          armed = st\<lparr>ws_timer := Some \<lparr>wt_dueAt = dueAt, wt_kind = kind, wt_delay = delay\<rparr>\<rparr>
      in case ws_timer st of
           None \<Rightarrow> armed
         | Some t \<Rightarrow> if wt_kind t = TimerRetry then st else if wt_dueAt t \<le> dueAt then st else armed)"

definition schedule_retry :: "int \<Rightarrow> wake_state \<Rightarrow> wake_state" where
  "schedule_retry now st = schedule (jn_of_int DEFAULT_RETRY_MS) TimerRetry now st"

text \<open>The \<open>finally\<close> of a batch: only the batch that owns the running state clears it.\<close>

definition finish_batch :: "wake_batch \<Rightarrow> int \<Rightarrow> wake_state \<Rightarrow> wake_state" where
  "finish_batch b now st =
     (if wb_generation b = ws_runningOwnerGeneration st then
        let st1 = st\<lparr>ws_running := False, ws_runningSince := None,
              ws_consecutiveBusyRetries := (if wb_busySeen b then ws_consecutiveBusyRetries st else 0)\<rparr>
        in if length (ws_pendingWakes st1) > 0 \<or> ws_scheduled st1 then schedule (Fin (wb_delay b)) TimerNormal now st1 else st1
      else st)"

definition start_batch :: "nat \<Rightarrow> rat \<Rightarrow> int \<Rightarrow> wake_state \<Rightarrow> wake_call list \<times> wake_state" where
  "start_batch active delay now st =
     (let pendingBatch = map snd (ws_pendingWakes st);
          generation = Suc (ws_runningOwnerGeneration st);
          st1 = st\<lparr>ws_pendingWakes := [], ws_running := True, ws_runningSince := Some now,
            ws_runningOwnerGeneration := generation\<rparr>;
          b = \<lparr>wb_handler = active, wb_generation = generation, wb_startedAt = now, wb_batch = pendingBatch,
            wb_rest = pendingBatch, wb_busySeen = False, wb_delay = delay\<rparr>
      in case pendingBatch of
           [] \<Rightarrow> ([], finish_batch b now st1)
         | w # _ \<Rightarrow> ([(active, requeue_request w)], st1\<lparr>ws_flights := ws_flights st1 @ [b]\<rparr>))"

definition timer_fires :: "int \<Rightarrow> wake_state \<Rightarrow> wake_call list \<times> wake_state" where
  "timer_fires now st =
     (case ws_timer st of
        None \<Rightarrow> ([], st)
      | Some t \<Rightarrow>
          (let st1 = st\<lparr>ws_timer := None, ws_scheduled := False\<rparr>
           in case ws_handler st1 of
                None \<Rightarrow> ([], st1)
              | Some active \<Rightarrow>
                  if ws_running st1 then
                    (if (case ws_runningSince st1 of None \<Rightarrow> False | Some since \<Rightarrow> now - since > RUNNING_HANG_LIMIT_MS)
                     then start_batch active (wt_delay t) now (st1\<lparr>ws_running := False, ws_runningSince := None\<rparr>)
                     else ([], schedule (Fin (wt_delay t)) (wt_kind t) now (st1\<lparr>ws_scheduled := True\<rparr>)))
                  else start_batch active (wt_delay t) now st1))"

subsection \<open>The outcome of a wake\<close>

text \<open>The new state, and whether the target was busy.\<close>

definition after_result :: "pending_wake \<Rightarrow> run_result \<Rightarrow> int \<Rightarrow> wake_state \<Rightarrow> bool \<times> wake_state" where
  "after_result w res now st =
     (let key = getWakeTargetKey (pw_agentId w) (pw_sessionKey w)
      in if res = WakeSkipped HEARTBEAT_SKIP_REPLY_PRE_MODEL_NOOP then
           (let retries = Suc (nullish (map_get (ws_preModelNoopRetryCounts st) key) 0)
            in if retries > HEARTBEAT_PRE_MODEL_NOOP_RETRY_CAP then
                 (True, st\<lparr>ws_preModelNoopRetryCounts := map_delete (ws_preModelNoopRetryCounts st) key\<rparr>)
               else
                 (True, schedule_retry now (queuePendingWakeReason (requeue_request w) now
                    (st\<lparr>ws_preModelNoopRetryCounts := map_set (ws_preModelNoopRetryCounts st) key retries\<rparr>))))
         else
           let st1 = st\<lparr>ws_preModelNoopRetryCounts := map_delete (ws_preModelNoopRetryCounts st) key\<rparr>
           in (case res of
                 WakeSkipped reason \<Rightarrow>
                   if isRetryableHeartbeatBusySkipReason reason then
                     (True, schedule_retry now (queuePendingWakeReason (requeue_request w) now
                        (st1\<lparr>ws_consecutiveBusyRetries := Suc (ws_consecutiveBusyRetries st1),
                           ws_lastBusySkipLogAt := (if now - ws_lastBusySkipLogAt st1 \<ge> BUSY_SKIP_LOG_INTERVAL_MS then now
                             else ws_lastBusySkipLogAt st1)\<rparr>)))
                   else (False, st1)
               | _ \<Rightarrow> (False, st1)))"

definition drop_flight :: "nat \<Rightarrow> wake_state \<Rightarrow> wake_state" where
  "drop_flight i st = st\<lparr>ws_flights := take i (ws_flights st) @ drop (Suc i) (ws_flights st)\<rparr>"

text \<open>The pending call of flight \<open>i\<close> returns, or throws.\<close>

definition handler_returns :: "nat \<Rightarrow> run_result \<Rightarrow> int \<Rightarrow> wake_state \<Rightarrow> wake_call list \<times> wake_state" where
  "handler_returns i res now st =
     (if i \<ge> length (ws_flights st) then ([], st)
      else
        let b = ws_flights st ! i; (busy, st1) = after_result (hd (wb_rest b)) res now st;
            b' = b\<lparr>wb_rest := tl (wb_rest b), wb_busySeen := wb_busySeen b \<or> busy\<rparr>
        in case wb_rest b' of
             [] \<Rightarrow> ([], finish_batch b' now (drop_flight i st1))
           | w # _ \<Rightarrow> ([(wb_handler b', requeue_request w)], st1\<lparr>ws_flights := (ws_flights st1)[i := b']\<rparr>))"

definition handler_throws :: "nat \<Rightarrow> int \<Rightarrow> wake_state \<Rightarrow> wake_state" where
  "handler_throws i now st =
     (if i \<ge> length (ws_flights st) then st
      else
        let b = ws_flights st ! i
        in finish_batch b now (drop_flight i (schedule_retry now
             (fold (\<lambda>w. queuePendingWakeReason (requeue_request w) now) (wb_batch b) st))))"

subsection \<open>Operations\<close>

definition setHeartbeatsEnabled :: "bool \<Rightarrow> wake_state \<Rightarrow> wake_state" where
  "setHeartbeatsEnabled enabled st = st\<lparr>ws_heartbeatsEnabled := enabled\<rparr>"

text \<open>The disposer is the generation and the handler it belongs to.\<close>

definition setHeartbeatWakeHandler :: "nat option \<Rightarrow> int \<Rightarrow> wake_state \<Rightarrow> (nat \<times> nat option) \<times> wake_state" where
  "setHeartbeatWakeHandler new now st =
     (let generation = Suc (ws_handlerGeneration st);
          st1 = st\<lparr>ws_handlerGeneration := generation, ws_handler := new\<rparr>;
          st2 = (if new \<noteq> None then
              st1\<lparr>ws_timer := None, ws_running := False, ws_scheduled := False, ws_runningOwnerGeneration := 0,
                ws_consecutiveBusyRetries := 0, ws_lastBusySkipLogAt := 0, ws_preModelNoopRetryCounts := []\<rparr>
            else st1);
          st3 = (if new \<noteq> None \<and> length (ws_pendingWakes st2) > 0 then schedule (jn_of_int DEFAULT_COALESCE_MS) TimerNormal now st2
            else st2)
      in ((generation, new), st3))"

definition dispose_handler :: "nat \<times> nat option \<Rightarrow> wake_state \<Rightarrow> wake_state" where
  "dispose_handler d st =
     (if ws_handlerGeneration st \<noteq> fst d then st
      else if ws_handler st \<noteq> snd d then st
      else st\<lparr>ws_handlerGeneration := Suc (ws_handlerGeneration st), ws_handler := None\<rparr>)"

definition requestHeartbeat :: "wake_request \<Rightarrow> jsnum option \<Rightarrow> int \<Rightarrow> wake_state \<Rightarrow> wake_state" where
  "requestHeartbeat opts coalesceMs now st =
     schedule (nullish coalesceMs (jn_of_int DEFAULT_COALESCE_MS)) TimerNormal now (queuePendingWakeReason opts now st)"

definition hasHeartbeatWakeHandler :: "wake_state \<Rightarrow> bool" where
  "hasHeartbeatWakeHandler st = (ws_handler st \<noteq> None)"

definition hasPendingHeartbeatWake :: "wake_state \<Rightarrow> bool" where
  "hasPendingHeartbeatWake st = (length (ws_pendingWakes st) > 0 \<or> ws_timer st \<noteq> None \<or> ws_scheduled st)"

subsection \<open>Events\<close>

datatype wake_event =
    WakeEnable bool
  | WakeSetHandler "nat option" int
  | WakeDispose "nat \<times> nat option"
  | WakeRequest wake_request "jsnum option" int
  | WakeTimer int
  | WakeReturn nat run_result int
  | WakeThrow nat int

fun wake_run :: "wake_event \<Rightarrow> wake_state \<Rightarrow> wake_call list \<times> wake_state" where
  "wake_run (WakeEnable enabled) st = ([], setHeartbeatsEnabled enabled st)"
| "wake_run (WakeSetHandler new now) st = ([], snd (setHeartbeatWakeHandler new now st))"
| "wake_run (WakeDispose d) st = ([], dispose_handler d st)"
| "wake_run (WakeRequest opts coalesceMs now) st = ([], requestHeartbeat opts coalesceMs now st)"
| "wake_run (WakeTimer now) st = timer_fires now st"
| "wake_run (WakeReturn i res now) st = handler_returns i res now st"
| "wake_run (WakeThrow i now) st = ([], handler_throws i now st)"

inductive wake_reachable :: "wake_state \<Rightarrow> bool" where
  wake_start: "wake_reachable initial_wakes"
| wake_step: "wake_reachable st \<Longrightarrow> wake_reachable (snd (wake_run ev st))"

text \<open>The runs in which a handler is registered only while no batch is in flight.\<close>

fun calm_event :: "wake_event \<Rightarrow> wake_state \<Rightarrow> bool" where
  "calm_event (WakeSetHandler new now) st = (new = None \<or> ws_flights st = [])"
| "calm_event ev st = True"

inductive calm_reachable :: "wake_state \<Rightarrow> bool" where
  calm_start: "calm_reachable initial_wakes"
| calm_step: "calm_reachable st \<Longrightarrow> calm_event ev st \<Longrightarrow> calm_reachable (snd (wake_run ev st))"

definition wake_history :: "wake_event list \<Rightarrow> wake_state \<Rightarrow> wake_state" where
  "wake_history evs st = fold (\<lambda>ev st. snd (wake_run ev st)) evs st"

end
