(* ===== verification/HeartbeatWakeProps.thy ===== *)
theory HeartbeatWakeProps
  imports HeartbeatWake
begin

section \<open>What the wake layer guarantees\<close>

text \<open>
  Over every sequence of events: a pending wake always has a timer while a handler is registered,
  and a target whose engine dies before the model is retried at most three times in a row. When
  handlers are registered only between batches, batches do not overlap unless the earlier one has
  hung. The last lemma shows why the condition is needed: registering a handler resets the generation
  counter that tells an abandoned batch from the current one.
\<close>

subsection \<open>The timer\<close>

lemma schedule_fields [simp]:
  "ws_timer (schedule c kind now st) = None \<longleftrightarrow> False" "\<exists>t. ws_timer (schedule c kind now st) = Some t"
  "ws_handler (schedule c kind now st) = ws_handler st" "ws_running (schedule c kind now st) = ws_running st"
  "ws_runningSince (schedule c kind now st) = ws_runningSince st"
  "ws_runningOwnerGeneration (schedule c kind now st) = ws_runningOwnerGeneration st"
  "ws_flights (schedule c kind now st) = ws_flights st" "ws_pendingWakes (schedule c kind now st) = ws_pendingWakes st"
  "ws_preModelNoopRetryCounts (schedule c kind now st) = ws_preModelNoopRetryCounts st"
  by (auto simp: schedule_def Let_def split: option.split jsnum.split)

lemma schedule_keeps_retry: "ws_timer st = Some t \<Longrightarrow> wt_kind t = TimerRetry \<Longrightarrow> schedule c kind now st = st"
  by (simp add: schedule_def)

lemma queue_fields [simp]:
  "ws_timer (queuePendingWakeReason r now st) = ws_timer st" "ws_handler (queuePendingWakeReason r now st) = ws_handler st"
  "ws_running (queuePendingWakeReason r now st) = ws_running st"
  "ws_runningSince (queuePendingWakeReason r now st) = ws_runningSince st"
  "ws_runningOwnerGeneration (queuePendingWakeReason r now st) = ws_runningOwnerGeneration st"
  "ws_flights (queuePendingWakeReason r now st) = ws_flights st"
  "ws_preModelNoopRetryCounts (queuePendingWakeReason r now st) = ws_preModelNoopRetryCounts st"
  by (auto simp: queuePendingWakeReason_def Let_def split: option.split)

lemma queue_all_fields [simp]:
  "ws_timer (fold (\<lambda>w. queuePendingWakeReason (f w) now) ws st) = ws_timer st"
  "ws_handler (fold (\<lambda>w. queuePendingWakeReason (f w) now) ws st) = ws_handler st"
  "ws_running (fold (\<lambda>w. queuePendingWakeReason (f w) now) ws st) = ws_running st"
  "ws_runningSince (fold (\<lambda>w. queuePendingWakeReason (f w) now) ws st) = ws_runningSince st"
  "ws_runningOwnerGeneration (fold (\<lambda>w. queuePendingWakeReason (f w) now) ws st) = ws_runningOwnerGeneration st"
  "ws_flights (fold (\<lambda>w. queuePendingWakeReason (f w) now) ws st) = ws_flights st"
  "ws_preModelNoopRetryCounts (fold (\<lambda>w. queuePendingWakeReason (f w) now) ws st) = ws_preModelNoopRetryCounts st"
  by (induction ws arbitrary: st) simp_all

lemma map_set_not_empty [simp]: "map_set m k v \<noteq> []"
  by (induction m k v rule: map_set.induct) auto

text \<open>A queued wake is never dropped: its target is pending afterwards, at no lower priority.\<close>

definition wake_key :: "wake_request \<Rightarrow> string" where
  "wake_key r = getWakeTargetKey (normalizeWakeTarget (wr_agentId r)) (normalizeWakeTarget (wr_sessionKey r))"

lemma queue_pending:
  obtains w where "map_get (ws_pendingWakes (queuePendingWakeReason r now st)) (wake_key r) = Some w"
    "resolveWakePriority (wr_source r) (wr_intent r) (normalizeHeartbeatWakeReason (wr_reason r)) \<le> pw_priority w"
proof -
  have "\<exists>w. map_get (ws_pendingWakes (queuePendingWakeReason r now st)) (wake_key r) = Some w \<and>
      resolveWakePriority (wr_source r) (wr_intent r) (normalizeHeartbeatWakeReason (wr_reason r)) \<le> pw_priority w"
    by (cases "map_get (ws_pendingWakes st) (wake_key r)")
      (auto simp: queuePendingWakeReason_def Let_def wake_key_def)
  then show thesis using that by blast
qed

lemma queue_keeps_target:
  "map_get (ws_pendingWakes st) k \<noteq> None \<Longrightarrow> map_get (ws_pendingWakes (queuePendingWakeReason r now st)) k \<noteq> None"
  by (auto simp: queuePendingWakeReason_def Let_def split: option.split)

lemma queue_all_keep_target:
  "map_get (ws_pendingWakes st) k \<noteq> None \<Longrightarrow>
    map_get (ws_pendingWakes (fold (\<lambda>w. queuePendingWakeReason (f w) now) ws st)) k \<noteq> None"
proof (induction ws arbitrary: st)
  case (Cons w ws)
  show ?case using Cons.IH [OF queue_keeps_target [OF Cons.prems]] by simp
qed simp

lemma queue_all_pending:
  "w \<in> set ws \<Longrightarrow> map_get (ws_pendingWakes (fold (\<lambda>w. queuePendingWakeReason (f w) now) ws st)) (wake_key (f w)) \<noteq> None"
proof (induction ws arbitrary: st)
  case (Cons v ws)
  show ?case
  proof (cases "w \<in> set ws")
    case False
    obtain p where "map_get (ws_pendingWakes (queuePendingWakeReason (f v) now st)) (wake_key (f v)) = Some p"
      by (rule queue_pending)
    then show ?thesis using Cons.prems False queue_all_keep_target by fastforce
  qed (simp add: Cons.IH)
qed simp

lemma schedule_retry_fields [simp]:
  "ws_timer (schedule_retry now st) = None \<longleftrightarrow> False" "\<exists>t. ws_timer (schedule_retry now st) = Some t"
  "ws_handler (schedule_retry now st) = ws_handler st" "ws_running (schedule_retry now st) = ws_running st"
  "ws_runningSince (schedule_retry now st) = ws_runningSince st"
  "ws_runningOwnerGeneration (schedule_retry now st) = ws_runningOwnerGeneration st"
  "ws_flights (schedule_retry now st) = ws_flights st" "ws_pendingWakes (schedule_retry now st) = ws_pendingWakes st"
  "ws_preModelNoopRetryCounts (schedule_retry now st) = ws_preModelNoopRetryCounts st"
  by (simp_all add: schedule_retry_def)

definition armed :: "wake_state \<Rightarrow> bool" where
  "armed st \<longleftrightarrow> (ws_pendingWakes st \<noteq> [] \<and> ws_handler st \<noteq> None \<longrightarrow> ws_timer st \<noteq> None)"

lemma after_result_fields [simp]:
  "ws_handler (snd (after_result w res now st)) = ws_handler st"
  "ws_running (snd (after_result w res now st)) = ws_running st"
  "ws_runningSince (snd (after_result w res now st)) = ws_runningSince st"
  "ws_runningOwnerGeneration (snd (after_result w res now st)) = ws_runningOwnerGeneration st"
  "ws_flights (snd (after_result w res now st)) = ws_flights st"
  by (auto simp: after_result_def Let_def split: run_result.split)

lemma after_result_armed: "armed st \<Longrightarrow> armed (snd (after_result w res now st))"
  by (auto simp: armed_def after_result_def Let_def split: run_result.split)

lemma finish_fields [simp]:
  "ws_handler (finish_batch b now st) = ws_handler st"
  "ws_runningOwnerGeneration (finish_batch b now st) = ws_runningOwnerGeneration st"
  "ws_flights (finish_batch b now st) = ws_flights st" "ws_pendingWakes (finish_batch b now st) = ws_pendingWakes st"
  "ws_preModelNoopRetryCounts (finish_batch b now st) = ws_preModelNoopRetryCounts st"
  by (simp_all add: finish_batch_def Let_def)

lemma finish_running:
  "ws_running (finish_batch b now st) = (ws_running st \<and> wb_generation b \<noteq> ws_runningOwnerGeneration st)"
  "ws_runningSince (finish_batch b now st) =
    (if wb_generation b = ws_runningOwnerGeneration st then None else ws_runningSince st)"
  by (simp_all add: finish_batch_def Let_def)

lemma finish_armed: "armed st \<Longrightarrow> armed (finish_batch b now st)"
  by (auto simp: armed_def finish_batch_def Let_def)

lemma drop_fields [simp]:
  "ws_handler (drop_flight i st) = ws_handler st" "ws_running (drop_flight i st) = ws_running st"
  "ws_runningSince (drop_flight i st) = ws_runningSince st" "ws_timer (drop_flight i st) = ws_timer st"
  "ws_runningOwnerGeneration (drop_flight i st) = ws_runningOwnerGeneration st"
  "ws_pendingWakes (drop_flight i st) = ws_pendingWakes st"
  "ws_preModelNoopRetryCounts (drop_flight i st) = ws_preModelNoopRetryCounts st"
  "ws_flights (drop_flight i st) = take i (ws_flights st) @ drop (Suc i) (ws_flights st)"
  by (simp_all add: drop_flight_def)

lemma armed_drop [simp]: "armed (drop_flight i st) = armed st"
  by (simp add: armed_def)

lemma start_armed: "armed (snd (start_batch active delay now st))"
  by (auto simp: start_batch_def armed_def Let_def split: list.split)

lemma timer_armed: "armed (snd (timer_fires now st))" if "armed st"
  using that start_armed
  by (auto simp: timer_fires_def Let_def split: option.split) (auto simp: armed_def)

lemma returns_armed: "armed st \<Longrightarrow> armed (snd (handler_returns i res now st))"
  using after_result_armed [of st "hd (wb_rest (ws_flights st ! i))" res now]
  by (auto simp: handler_returns_def Let_def case_prod_beta finish_armed split: list.split)
    (simp add: armed_def)

lemma throws_armed: "armed st \<Longrightarrow> armed (handler_throws i now st)"
  by (auto simp: handler_throws_def Let_def intro!: finish_armed) (simp add: armed_def)

lemma set_handler_armed: "armed st \<Longrightarrow> armed (snd (setHeartbeatWakeHandler new now st))"
  by (cases new) (auto simp: setHeartbeatWakeHandler_def Let_def armed_def)

lemma wake_run_armed: "armed st \<Longrightarrow> armed (snd (wake_run ev st))"
  by (cases ev) (simp_all add: timer_armed returns_armed throws_armed set_handler_armed,
    simp_all add: requestHeartbeat_def setHeartbeatsEnabled_def dispose_handler_def armed_def)

lemma reachable_armed: "wake_reachable st \<Longrightarrow> armed st"
  by (induction rule: wake_reachable.induct) (simp_all add: wake_run_armed, simp add: armed_def initial_wakes_def)

subsection \<open>Bounded retries\<close>

definition counts_ok :: "wake_state \<Rightarrow> bool" where
  "counts_ok st \<longleftrightarrow> list_all (\<lambda>(k, n). n \<le> HEARTBEAT_PRE_MODEL_NOOP_RETRY_CAP) (ws_preModelNoopRetryCounts st)"

lemma counts_set: "list_all P m \<Longrightarrow> P (k, v) \<Longrightarrow> list_all P (map_set m k v)"
  by (induction m k v rule: map_set.induct) auto

lemma counts_delete: "list_all P m \<Longrightarrow> list_all P (map_delete m k)"
  by (auto simp: map_delete_def list_all_iff)

lemma after_result_counts: "counts_ok st \<Longrightarrow> counts_ok (snd (after_result w res now st))"
  by (auto simp: counts_ok_def after_result_def Let_def counts_delete split: run_result.split intro!: counts_set)

lemma finish_counts [simp]: "counts_ok (finish_batch b now st) = counts_ok st"
  by (simp add: counts_ok_def)

lemma drop_counts [simp]: "counts_ok (drop_flight i st) = counts_ok st"
  by (simp add: counts_ok_def)

lemma start_counts [simp]: "counts_ok (snd (start_batch active delay now st)) = counts_ok st"
  by (auto simp: start_batch_def Let_def counts_ok_def split: list.split)

lemma timer_counts: "counts_ok st \<Longrightarrow> counts_ok (snd (timer_fires now st))"
  by (auto simp: timer_fires_def Let_def split: option.split) (auto simp: counts_ok_def)

lemma returns_counts: "counts_ok st \<Longrightarrow> counts_ok (snd (handler_returns i res now st))"
  using after_result_counts [of st "hd (wb_rest (ws_flights st ! i))" res now]
  by (auto simp: handler_returns_def Let_def case_prod_beta split: list.split) (simp add: counts_ok_def)

lemma throws_counts: "counts_ok st \<Longrightarrow> counts_ok (handler_throws i now st)"
  by (auto simp: handler_throws_def Let_def) (simp add: counts_ok_def)

lemma set_handler_counts: "counts_ok st \<Longrightarrow> counts_ok (snd (setHeartbeatWakeHandler new now st))"
  by (cases new) (auto simp: setHeartbeatWakeHandler_def Let_def counts_ok_def)

lemma wake_run_counts: "counts_ok st \<Longrightarrow> counts_ok (snd (wake_run ev st))"
  by (cases ev) (simp_all add: timer_counts returns_counts throws_counts set_handler_counts,
    simp_all add: requestHeartbeat_def setHeartbeatsEnabled_def dispose_handler_def counts_ok_def)

lemma reachable_counts: "wake_reachable st \<Longrightarrow> counts_ok st"
  by (induction rule: wake_reachable.induct) (simp_all add: wake_run_counts, simp add: counts_ok_def initial_wakes_def)

text \<open>A handler that throws loses no target of its batch.\<close>

lemma throw_loses_nothing:
  assumes "i < length (ws_flights st)" and "w \<in> set (wb_batch (ws_flights st ! i))"
  shows "map_get (ws_pendingWakes (handler_throws i now st)) (wake_key (requeue_request w)) \<noteq> None"
  using assms queue_all_pending [of w "wb_batch (ws_flights st ! i)" requeue_request now st]
  by (simp add: handler_throws_def Let_def)

subsection \<open>One batch at a time\<close>

text \<open>What identifies a batch in flight: its generation and its start.\<close>

definition batch_stamp :: "wake_batch \<Rightarrow> nat \<times> int" where
  "batch_stamp b = (wb_generation b, wb_startedAt b)"

definition serial_stamps :: "(nat \<times> int) list \<Rightarrow> bool \<Rightarrow> int option \<Rightarrow> nat \<Rightarrow> bool" where
  "serial_stamps bs r since own \<longleftrightarrow> distinct (map fst bs) \<and> (\<forall>b \<in> set bs. fst b \<le> own)
     \<and> (r \<longleftrightarrow> own \<in> fst ` set bs) \<and> (\<forall>t. (own, t) \<in> set bs \<longrightarrow> since = Some t)"

definition serial :: "wake_state \<Rightarrow> bool" where
  "serial st = serial_stamps (map batch_stamp (ws_flights st)) (ws_running st) (ws_runningSince st)
     (ws_runningOwnerGeneration st)"

text \<open>Two states with the same running state and the same batches, up to what is left of each.\<close>

definition same_run :: "wake_state \<Rightarrow> wake_state \<Rightarrow> bool" where
  "same_run st st' \<longleftrightarrow> map batch_stamp (ws_flights st') = map batch_stamp (ws_flights st)
     \<and> ws_running st' = ws_running st \<and> ws_runningSince st' = ws_runningSince st
     \<and> ws_runningOwnerGeneration st' = ws_runningOwnerGeneration st"

lemma same_run_serial: "same_run st st' \<Longrightarrow> serial st' = serial st"
  by (simp add: serial_def same_run_def)

lemma serial_stamps_start:
  "serial_stamps bs r since own \<Longrightarrow> serial_stamps (bs @ [(Suc own, now)]) True (Some now) (Suc own)"
  by (force simp: serial_stamps_def)

lemma serial_stamps_idle: "serial_stamps bs r since own \<Longrightarrow> serial_stamps bs False None (Suc own)"
  by (force simp: serial_stamps_def)

lemma serial_stamps_drop:
  assumes s: "serial_stamps bs r since own" and i: "i < length bs"
  shows "serial_stamps (take i bs @ drop (Suc i) bs) (r \<and> fst (bs ! i) \<noteq> own) (if fst (bs ! i) = own then None else since) own"
proof -
  obtain g t where g: "bs ! i = (g, t)" by (cases "bs ! i")
  have "bs = take i bs @ (g, t) # drop (Suc i) bs" using i g id_take_nth_drop by metis
  then obtain xs ys where eq: "bs = xs @ (g, t) # ys" "take i bs = xs" "drop (Suc i) bs = ys" by blast
  have "serial_stamps (xs @ (g, t) # ys) r since own" using s eq(1) by simp
  then have "serial_stamps (xs @ ys) (r \<and> g \<noteq> own) (if g = own then None else since) own"
    unfolding serial_stamps_def by (auto simp: image_iff)
  then show ?thesis using g eq(2,3) by simp
qed

lemma start_serial:
  assumes "serial_stamps (map batch_stamp (ws_flights st)) r since (ws_runningOwnerGeneration st)"
  shows "serial (snd (start_batch active delay now st))"
  using serial_stamps_start [OF assms] serial_stamps_idle [OF assms]
  by (auto simp: start_batch_def Let_def serial_def finish_running batch_stamp_def split: list.split)

lemma timer_serial: "serial (snd (timer_fires now st))" if s: "serial st"
proof -
  have st: "serial_stamps (map batch_stamp (ws_flights st)) (ws_running st) (ws_runningSince st)
      (ws_runningOwnerGeneration st)" using s by (simp add: serial_def)
  have start: "serial (snd (start_batch a d now st'))"
    if "ws_flights st' = ws_flights st" "ws_runningOwnerGeneration st' = ws_runningOwnerGeneration st" for a d st'
    by (rule start_serial [of _ "ws_running st" "ws_runningSince st"]) (use st that in simp)
  have idle: "serial (st\<lparr>ws_timer := None, ws_scheduled := False\<rparr>)" using st by (simp add: serial_def)
  have again: "serial (schedule d k now (st\<lparr>ws_timer := None, ws_scheduled := True\<rparr>))" for d k
    using st by (simp add: serial_def)
  show ?thesis
    using s by (simp add: timer_fires_def Let_def start idle again split: option.split)
qed

lemma finish_serial:
  assumes s: "serial st" and i: "i < length (ws_flights st)"
    and b: "wb_generation b = wb_generation (ws_flights st ! i)" and run: "same_run st st1"
  shows "serial (finish_batch b now (drop_flight i st1))"
proof -
  have m: "map batch_stamp (take i (ws_flights st1) @ drop (Suc i) (ws_flights st1)) =
      take i (map batch_stamp (ws_flights st)) @ drop (Suc i) (map batch_stamp (ws_flights st))"
    using run by (simp add: same_run_def take_map drop_map flip: take_map drop_map)
  have nth: "fst (map batch_stamp (ws_flights st) ! i) = wb_generation b" using i b by (simp add: batch_stamp_def)
  show ?thesis
    using serial_stamps_drop [OF s [unfolded serial_def], of i] i run m nth
    by (simp add: serial_def finish_running same_run_def del: map_append split: if_splits)
qed

lemma after_result_same_run: "same_run st (snd (after_result w res now st))"
  by (simp add: same_run_def)

lemma map_stamps_update: "i < length xs \<Longrightarrow> f y = f (xs ! i) \<Longrightarrow> map f (xs[i := y]) = map f xs"
  by (metis length_map list_update_id map_update nth_map)

lemma returns_serial: "serial st \<Longrightarrow> serial (snd (handler_returns i res now st))"
proof -
  assume s: "serial st"
  let ?b = "ws_flights st ! i" and ?st1 = "snd (after_result (hd (wb_rest (ws_flights st ! i))) res now st)"
  let ?b' = "?b\<lparr>wb_rest := tl (wb_rest ?b), wb_busySeen := wb_busySeen ?b \<or> fst (after_result (hd (wb_rest ?b)) res now st)\<rparr>"
  show ?thesis
  proof (cases "i < length (ws_flights st)")
    case True
    have fin: "serial (finish_batch ?b' now (drop_flight i ?st1))"
      by (rule finish_serial [OF s True _ after_result_same_run]) simp
    have "map batch_stamp ((ws_flights ?st1)[i := ?b']) = map batch_stamp (ws_flights st)"
      using True by (simp add: map_stamps_update batch_stamp_def)
    then have "same_run st (?st1\<lparr>ws_flights := (ws_flights ?st1)[i := ?b']\<rparr>)" by (simp add: same_run_def)
    then have "serial (?st1\<lparr>ws_flights := (ws_flights ?st1)[i := ?b']\<rparr>)" using s same_run_serial by blast
    then show ?thesis using fin True
      by (auto simp: handler_returns_def Let_def case_prod_beta split: list.split)
  qed (simp add: handler_returns_def s)
qed

lemma throws_serial: "serial st \<Longrightarrow> serial (handler_throws i now st)"
  by (auto simp: handler_throws_def Let_def same_run_def intro!: finish_serial)

lemma set_handler_serial:
  "serial st \<Longrightarrow> new = None \<or> ws_flights st = [] \<Longrightarrow> serial (snd (setHeartbeatWakeHandler new now st))"
  by (cases new) (auto simp: setHeartbeatWakeHandler_def Let_def serial_def serial_stamps_def)

lemma calm_run_serial: "serial st \<Longrightarrow> calm_event ev st \<Longrightarrow> serial (snd (wake_run ev st))"
  by (cases ev) (simp_all add: timer_serial returns_serial throws_serial set_handler_serial,
    simp_all add: requestHeartbeat_def setHeartbeatsEnabled_def dispose_handler_def serial_def)

lemma calm_serial: "calm_reachable st \<Longrightarrow> serial st"
  by (induction rule: calm_reachable.induct)
    (simp_all add: calm_run_serial, simp add: serial_def serial_stamps_def initial_wakes_def)

subsection \<open>Whole runs\<close>

fun calm_history :: "wake_event list \<Rightarrow> wake_state \<Rightarrow> bool" where
  "calm_history [] st = True"
| "calm_history (ev # evs) st = (calm_event ev st \<and> calm_history evs (snd (wake_run ev st)))"

lemma reachable_history: "wake_reachable st \<Longrightarrow> wake_reachable (wake_history evs st)"
  by (induction evs arbitrary: st) (auto simp: wake_history_def intro: wake_step)

lemma calm_reachable_history: "calm_reachable st \<Longrightarrow> calm_history evs st \<Longrightarrow> calm_reachable (wake_history evs st)"
  by (induction evs arbitrary: st) (auto simp: wake_history_def intro: calm_step)

definition plain_wake :: "string \<Rightarrow> wake_request" where
  "plain_wake agent = \<lparr>wr_source = SourceHook, wr_intent = IntentEvent, wr_reason = None, wr_agentId = Some agent,
     wr_sessionKey = None, wr_heartbeat = None\<rparr>"

definition two_wakes :: wake_state where
  "two_wakes = wake_history [WakeSetHandler (Some 1) 0, WakeRequest (plain_wake ''a'') None 10,
     WakeRequest (plain_wake ''b'') None 20] initial_wakes"

definition hung_batch :: wake_state where
  "hung_batch = wake_history [WakeSetHandler (Some 1) 0, WakeRequest (plain_wake ''a'') None 10, WakeTimer 260,
     WakeRequest (plain_wake ''b'') None 300] initial_wakes"

lemma timer_hands_over:
  assumes "ws_timer st = Some t" "ws_handler st = Some h" "ws_pendingWakes st = (k, w) # m" "\<not> ws_running st"
  shows "fst (timer_fires now st) = [(h, requeue_request w)]"
    and "ws_pendingWakes (snd (timer_fires now st)) = []"
    and "wb_rest (last (ws_flights (snd (timer_fires now st)))) = w # map snd m"
  using assms by (simp_all add: timer_fires_def start_batch_def Let_def)

text \<open>C31: a wake is never left waiting without a timer. In every state the events can lead to, if a
  wake is pending and a handler is registered then the timer is armed, and when it fires while no
  batch is running the first pending wake is handed to that handler and all of them are the batch.\<close>

theorem pending_wakes_armed:
  assumes "wake_reachable st" and "ws_pendingWakes st = (k, w) # m" and "ws_handler st = Some h"
  shows "ws_timer st \<noteq> None \<and> (ws_running st \<or>
    (fst (timer_fires now st) = [(h, requeue_request w)] \<and> ws_pendingWakes (snd (timer_fires now st)) = []
      \<and> wb_rest (last (ws_flights (snd (timer_fires now st)))) = w # map snd m))"
proof -
  obtain t where "ws_timer st = Some t" using reachable_armed [OF assms(1)] assms by (auto simp: armed_def)
  then show ?thesis using timer_hands_over [OF _ assms(3,2)] by auto
qed

theorem pending_wakes_armed_witness:
  "fst (timer_fires 260 two_wakes) = [(1, requeue_request (snd (hd (ws_pendingWakes two_wakes))))]
    \<and> length (wb_rest (last (ws_flights (snd (timer_fires 260 two_wakes))))) = 2"
proof -
  have "length (ws_pendingWakes two_wakes) = 2" by code_simp
  then obtain k w k2 w2 where m: "ws_pendingWakes two_wakes = [(k, w), (k2, w2)]"
    by (auto simp: length_Suc_conv numeral_2_eq_2)
  have h: "ws_handler two_wakes = Some 1" and r: "\<not> ws_running two_wakes" by code_simp+
  have "wake_reachable two_wakes" unfolding two_wakes_def by (rule reachable_history [OF wake_start])
  from pending_wakes_armed [OF this m h, of 260] r show ?thesis using m by simp
qed

lemma distinct_filter_length: "distinct (map f xs) \<Longrightarrow> length (filter (\<lambda>x. f x = a) xs) = (if a \<in> f ` set xs then 1 else 0)"
  by (induction xs) (auto simp: filter_empty_conv)

lemma serial_current:
  assumes "serial st"
  shows "length (filter (\<lambda>b. wb_generation b = ws_runningOwnerGeneration st) (ws_flights st)) = (if ws_running st then 1 else 0)"
proof -
  let ?own = "ws_runningOwnerGeneration st" and ?gs = "map wb_generation (ws_flights st)"
  have gs: "map fst (map batch_stamp (ws_flights st)) = ?gs" by (simp add: batch_stamp_def)
  have d: "distinct ?gs" and r: "ws_running st \<longleftrightarrow> ?own \<in> set ?gs"
    using assms unfolding serial_def serial_stamps_def gs by (auto simp: batch_stamp_def image_iff)
  show ?thesis using distinct_filter_length [OF d, of ?own] r by simp
qed

lemma serial_since:
  "serial st \<Longrightarrow> b \<in> set (ws_flights st) \<Longrightarrow> wb_generation b = ws_runningOwnerGeneration st \<Longrightarrow>
    ws_running st \<and> ws_runningSince st = Some (wb_startedAt b)"
  unfolding serial_def serial_stamps_def by (auto simp: batch_stamp_def image_iff simp del: ex_simps) metis+

lemma timer_calls:
  "fst (timer_fires now st) \<noteq> [] \<Longrightarrow> ws_running st \<Longrightarrow> ws_runningSince st = Some since \<Longrightarrow> now - since > RUNNING_HANG_LIMIT_MS"
  by (auto simp: timer_fires_def Let_def split: option.splits if_splits)

text \<open>C11: batches do not overlap. When handlers are registered only between batches, at most one batch
  in flight is the current one, the running flag says whether there is one, and the timer calls the
  handler for a new batch only if there is none or it has been running for more than ten minutes.\<close>

theorem wake_batches_serialized:
  assumes "calm_reachable st"
  shows "let mine = filter (\<lambda>b. wb_generation b = ws_runningOwnerGeneration st) (ws_flights st)
    in length mine = (if ws_running st then 1 else 0)
      \<and> (fst (timer_fires now st) = [] \<or> list_all (\<lambda>b. now - wb_startedAt b > RUNNING_HANG_LIMIT_MS) mine)"
proof -
  let ?mine = "filter (\<lambda>b. wb_generation b = ws_runningOwnerGeneration st) (ws_flights st)"
  have s: "serial st" using assms by (rule calm_serial)
  have "length ?mine = (if ws_running st then 1 else 0)" by (rule serial_current [OF s])
  moreover have "list_all (\<lambda>b. now - wb_startedAt b > RUNNING_HANG_LIMIT_MS) ?mine" if "fst (timer_fires now st) \<noteq> []"
    using serial_since [OF s] timer_calls [OF that] by (auto simp: list_all_iff)
  ultimately show ?thesis by (auto simp: Let_def)
qed

theorem wake_batches_serialized_witness:
  "ws_running hung_batch \<and> length (ws_flights hung_batch) = 1
    \<and> fst (timer_fires 550 hung_batch) = [] \<and> fst (timer_fires 700550 hung_batch) \<noteq> []
    \<and> list_all (\<lambda>b. 700550 - wb_startedAt b > RUNNING_HANG_LIMIT_MS) (ws_flights hung_batch)"
proof -
  have c: "calm_reachable hung_batch"
    unfolding hung_batch_def by (rule calm_reachable_history [OF calm_start]) code_simp
  have r: "ws_running hung_batch" "length (ws_flights hung_batch) = 1" "fst (timer_fires 550 hung_batch) = []"
    "fst (timer_fires 700550 hung_batch) \<noteq> []"
    "filter (\<lambda>b. wb_generation b = ws_runningOwnerGeneration hung_batch) (ws_flights hung_batch) = ws_flights hung_batch"
    by code_simp+
  from wake_batches_serialized [OF c, of 700550] r show ?thesis by (simp add: Let_def)
qed

text \<open>Registering a handler while a batch is in flight breaks this: the generation starts again at 0, so
  the batch of the previous handler later clears the running flag of the new handler's batch, and the
  timer calls the new handler a second time within 300 ms.\<close>

lemma handler_reset_unserializes:
  "(let evs = [WakeSetHandler (Some 0) 0, WakeRequest (plain_wake ''a'') None 10, WakeTimer 260,
        WakeSetHandler (Some 1) 300, WakeRequest (plain_wake ''b'') None 310, WakeTimer 560,
        WakeReturn 0 (WakeRan 1) 600, WakeRequest (plain_wake ''c'') None 610];
      st = wake_history evs initial_wakes
    in map wb_handler (ws_flights st) = [1] \<and> \<not> ws_running st
      \<and> map fst (fst (timer_fires 860 st)) = [1] \<and> map wb_handler (ws_flights (snd (timer_fires 860 st))) = [1, 1])"
  by code_simp

end
