(* ===== verification/ShellAnalysis.thy ===== *)
theory ShellAnalysis
  imports JsStrings
begin

section \<open>Words of a shell command\<close>

text \<open>
  Models \<^verbatim>\<open>src/utils/shell-argv.ts\<close>. The three flags of the scanners, of which at most one is set, are
  one \<open>quote_state\<close>, shared with the scanners of \<open>ShellAnalysis\<close>.
\<close>

abbreviation bslash :: char where "bslash \<equiv> CHR 0x5C"
abbreviation dquote :: char where "dquote \<equiv> CHR 0x22"
abbreviation squote :: char where "squote \<equiv> CHR 0x27"
abbreviation backtick :: char where "backtick \<equiv> CHR 0x60"
abbreviation newline :: char where "newline \<equiv> CHR 0x0A"
abbreviation cr :: char where "cr \<equiv> CHR 0x0D"
abbreviation tab :: char where "tab \<equiv> CHR 0x09"

datatype quote_state = Unquoted | Escaped | InSingle | InDouble

definition isDoubleQuoteEscape_args :: "char option \<Rightarrow> bool" where
  "isDoubleQuoteEscape_args following =
     (case following of None \<Rightarrow> False | Some c \<Rightarrow> c \<in> set [bslash, dquote, CHR ''$'', backtick, newline, cr])"

definition first_char :: "string \<Rightarrow> char option" where
  "first_char s = (case s of [] \<Rightarrow> None | c # _ \<Rightarrow> Some c)"

definition push_token :: "string \<Rightarrow> string list \<Rightarrow> string list" where
  "push_token buf tokens = (if length buf > 0 then tokens @ [buf] else tokens)"

text \<open>The loop over the rest of the string, with the flags, \<open>buf\<close> and \<open>tokens\<close>.\<close>

function split_args :: "quote_state \<Rightarrow> string \<Rightarrow> string list \<Rightarrow> string \<Rightarrow> string list option" where
  "split_args q buf tokens [] = (if q \<noteq> Unquoted then None else Some (push_token buf tokens))"
| "split_args q buf tokens (ch # s) =
     (case q of
        Escaped \<Rightarrow> split_args Unquoted (buf @ [ch]) tokens s
      | InSingle \<Rightarrow> if ch = squote then split_args Unquoted buf tokens s else split_args InSingle (buf @ [ch]) tokens s
      | InDouble \<Rightarrow>
          if ch = bslash \<and> isDoubleQuoteEscape_args (first_char s) then split_args InDouble (buf @ take 1 s) tokens (drop 1 s)
          else if ch = dquote then split_args Unquoted buf tokens s
          else split_args InDouble (buf @ [ch]) tokens s
      | Unquoted \<Rightarrow>
          if ch = bslash then split_args Escaped buf tokens s
          else if ch = squote then split_args InSingle buf tokens s
          else if ch = dquote then split_args InDouble buf tokens s
          else if ch = CHR ''#'' \<and> length buf = 0 then Some (push_token buf tokens)
          else if js_is_space ch then split_args Unquoted [] (push_token buf tokens) s
          else split_args Unquoted (buf @ [ch]) tokens s)"
  by pat_completeness auto
termination by (relation "measure (\<lambda>(q, buf, tokens, s). length s)") auto

definition splitShellArgs :: "string \<Rightarrow> string list option" where
  "splitShellArgs raw = split_args Unquoted [] [] raw"

lemma split_args_examples:
  "splitShellArgs (''git commit -m '' @ [squote] @ ''a b'' @ [squote, dquote] @ ''c d'' @ [dquote] @ '' x'' @ [bslash] @ '' y # z'') =
    Some [''git'', ''commit'', ''-m'', ''a bc d'', ''x y'']"
  "splitShellArgs (''echo '' @ [squote] @ ''open'') = None"
  by code_simp+

section \<open>Analysis of shell commands\<close>

text \<open>
  Models the POSIX half of \<^verbatim>\<open>src/infra/exec-approvals-analysis.ts\<close>: a command line is cut at
  \<open>&&\<close>, \<open>||\<close> and \<open>;\<close>, each part at \<open>|\<close>, each segment into words, and a command is put together again
  from the words that were approved. A loop over an index is a recursion over the rest of the string
  with the previous character. What the words of a segment resolve to on the file system
  (\<^verbatim>\<open>exec-command-resolution.ts\<close>) is the argument \<open>resolve\<close>, how the payload of a shell wrapper is
  rendered the argument \<open>inline\<close>.
\<close>

subsection \<open>Data\<close>

record executable_resolution =
  er_rawExecutable :: string
  er_resolvedPath :: "string option"
  er_resolvedRealPath :: "string option"
  er_executableName :: string

record command_resolution =
  cr_execution :: executable_resolution
  cr_policy :: executable_resolution
  cr_effectiveArgv :: "string list option"
  cr_wrapperChain :: "string list option"
  cr_policyBlocked :: "bool option"
  cr_blockedWrapper :: "string option"

record command_segment =
  sg_raw :: string
  sg_argv :: "string list"
  sg_sourceArgv :: "string list option"
  sg_resolution :: "command_resolution option"

datatype chain_operator = ChainAnd | ChainOr | ChainSemi

fun chain_string :: "chain_operator \<Rightarrow> string" where
  "chain_string ChainAnd = ''&&''"
| "chain_string ChainOr = ''||''"
| "chain_string ChainSemi = '';''"

type_synonym chain_part = "string \<times> chain_operator option"

definition DISALLOWED_PIPELINE_TOKENS :: "char list" where
  "DISALLOWED_PIPELINE_TOKENS = [CHR ''>'', CHR ''<'', backtick, newline, cr, CHR ''('', CHR '')'']"

definition DOUBLE_QUOTE_ESCAPES :: "char list" where
  "DOUBLE_QUOTE_ESCAPES = [bslash, dquote, CHR ''$'', backtick]"

definition MAX_UNQUOTED_HEREDOC_CONTINUATION_LINES :: nat where
  "MAX_UNQUOTED_HEREDOC_CONTINUATION_LINES = 1024"

definition MAX_UNQUOTED_HEREDOC_LOGICAL_LINE_LENGTH :: nat where
  "MAX_UNQUOTED_HEREDOC_LOGICAL_LINE_LENGTH = 64 * 1024"

definition isDoubleQuoteEscape :: "char option \<Rightarrow> bool" where
  "isDoubleQuoteEscape following = (case following of None \<Rightarrow> False | Some c \<Rightarrow> c \<in> set DOUBLE_QUOTE_ESCAPES)"

definition isEscapedLineContinuation :: "char option \<Rightarrow> bool" where
  "isEscapedLineContinuation following = (following = Some newline \<or> following = Some cr)"

definition isShellCommentStart :: "char option \<Rightarrow> char \<Rightarrow> bool" where
  "isShellCommentStart prev ch =
     (ch = CHR ''#'' \<and> (case prev of None \<Rightarrow> True | Some p \<Rightarrow> js_is_space p))"

subsection \<open>Chains\<close>

record chain_scan =
  cs_buf :: string
  cs_parts :: "chain_part list"
  cs_foundChain :: bool
  cs_invalidChain :: bool

definition chain_push :: "chain_operator \<Rightarrow> chain_scan \<Rightarrow> chain_scan" where
  "chain_push opToNext sc =
     (let trimmed = js_trim (cs_buf sc)
      in if trimmed = [] then sc\<lparr>cs_buf := [], cs_invalidChain := True, cs_foundChain := True\<rparr>
         else sc\<lparr>cs_buf := [], cs_parts := cs_parts sc @ [(trimmed, Some opToNext)], cs_foundChain := True\<rparr>)"

definition chain_add :: "string \<Rightarrow> chain_scan \<Rightarrow> chain_scan" where
  "chain_add s sc = sc\<lparr>cs_buf := cs_buf sc @ s\<rparr>"

function chain_loop :: "char option \<Rightarrow> quote_state \<Rightarrow> string \<Rightarrow> chain_scan \<Rightarrow> chain_scan" where
  "chain_loop prev q [] sc = sc"
| "chain_loop prev q (ch # s) sc =
     (case q of
        Escaped \<Rightarrow> chain_loop (Some ch) Unquoted s (chain_add [ch] sc)
      | InSingle \<Rightarrow> chain_loop (Some ch) (if ch = squote then Unquoted else InSingle) s (chain_add [ch] sc)
      | InDouble \<Rightarrow>
          if ch = bslash \<and> isEscapedLineContinuation (first_char s) then sc\<lparr>cs_invalidChain := True\<rparr>
          else if ch = bslash \<and> isDoubleQuoteEscape (first_char s) then
            chain_loop (first_char s) InDouble (drop 1 s) (chain_add (ch # take 1 s) sc)
          else chain_loop (Some ch) (if ch = dquote then Unquoted else InDouble) s (chain_add [ch] sc)
      | Unquoted \<Rightarrow>
          if ch = bslash then chain_loop (Some ch) Escaped s (chain_add [ch] sc)
          else if ch = squote then chain_loop (Some ch) InSingle s (chain_add [ch] sc)
          else if ch = dquote then chain_loop (Some ch) InDouble s (chain_add [ch] sc)
          else if isShellCommentStart prev ch then sc
          else if ch = CHR ''&'' \<and> first_char s = Some (CHR ''&'') then
            chain_loop (first_char s) Unquoted (drop 1 s) (chain_push ChainAnd sc)
          else if ch = CHR ''|'' \<and> first_char s = Some (CHR ''|'') then
            chain_loop (first_char s) Unquoted (drop 1 s) (chain_push ChainOr sc)
          else if ch = CHR '';'' then chain_loop (Some ch) Unquoted s (chain_push ChainSemi sc)
          else chain_loop (Some ch) Unquoted s (chain_add [ch] sc))"
  by pat_completeness auto
termination by (relation "measure (\<lambda>(prev, q, s, sc). length s)") auto

definition splitCommandChainWithOperators :: "string \<Rightarrow> chain_part list option" where
  "splitCommandChainWithOperators command =
     (let sc = chain_loop None Unquoted command \<lparr>cs_buf = [], cs_parts = [], cs_foundChain = False, cs_invalidChain = False\<rparr>;
          trimmed = js_trim (cs_buf sc)
      in if \<not> cs_foundChain sc then None
         else if trimmed = [] then None
         else if cs_invalidChain sc then None
         else Some (cs_parts sc @ [(trimmed, None)]))"

definition splitCommandChain :: "string \<Rightarrow> string list option" where
  "splitCommandChain command = map_option (map fst) (splitCommandChainWithOperators command)"

subsection \<open>Heredocs\<close>

record heredoc_spec =
  hd_delimiter :: string
  hd_stripTabs :: bool
  hd_quoted :: bool

text \<open>The delimiter, how many characters it takes, and whether it is quoted.\<close>

fun quoted_delimiter :: "char \<Rightarrow> string \<Rightarrow> string \<Rightarrow> nat \<Rightarrow> (string \<times> nat) option" where
  "quoted_delimiter quote delimiter [] n = None"
| "quoted_delimiter quote delimiter (ch # s) n =
     (if ch = newline \<or> ch = cr then None
      else if quote = dquote \<and> ch = bslash \<and> s \<noteq> [] then
        (case s of c # s' \<Rightarrow> quoted_delimiter quote (delimiter @ [c]) s' (n + 2))
      else if ch = quote then Some (delimiter, n + 1)
      else quoted_delimiter quote (delimiter @ [ch]) s (n + 1))"

definition parseHeredocDelimiter :: "string \<Rightarrow> (string \<times> nat \<times> bool) option" where
  "parseHeredocDelimiter source =
     (let blank = takeWhile (\<lambda>c. c = CHR '' '' \<or> c = tab) source; rest = drop (length blank) source
      in case rest of
           [] \<Rightarrow> None
         | first # s \<Rightarrow>
             if first = squote \<or> first = dquote then
               map_option (\<lambda>(d, n). (d, length blank + n, True)) (quoted_delimiter first [] s 1)
             else
               let d = takeWhile (\<lambda>c. \<not> (js_is_space c \<or> c \<in> set ''|&;<>'')) rest
               in if d = [] then None else Some (d, length blank + length d, False))"

text \<open>\<open>escaped\<close>: an odd number of backslashes stands in front.\<close>

fun expansion_token :: "bool \<Rightarrow> string \<Rightarrow> bool" where
  "expansion_token escaped [] = False"
| "expansion_token escaped (ch # s) =
     (if ch = backtick \<and> \<not> escaped then True
      else if ch = CHR ''$'' \<and> \<not> escaped \<and>
        (case s of [] \<Rightarrow> False
         | c # _ \<Rightarrow> c \<in> set ''({['' \<or> (let n = (of_char c :: nat) in
             (65 \<le> n \<and> n \<le> 90) \<or> (97 \<le> n \<and> n \<le> 122) \<or> c = CHR ''_'' \<or> (48 \<le> n \<and> n \<le> 57)) \<or> c \<in> set ''@*?!$#-'')
      then True
      else expansion_token (if ch = bslash then \<not> escaped else False) s)"

definition hasUnquotedHeredocExpansionToken :: "string \<Rightarrow> bool" where
  "hasUnquotedHeredocExpansionToken line = expansion_token False line"

definition stripUnquotedHeredocLineContinuation :: "string \<Rightarrow> string \<times> bool" where
  "stripUnquotedHeredocLineContinuation line =
     (let trailingSlashes = length (takeWhile (\<lambda>c. c = bslash) (rev line))
      in if trailingSlashes mod 2 = 1 then (butlast line, True) else (line, False))"

subsection \<open>Pipelines\<close>

record pipe_scan =
  ps_buf :: string
  ps_segments :: "string list"
  ps_emptySegment :: bool
  ps_heredocs :: "heredoc_spec list"
  ps_inBody :: bool
  ps_line :: string
  ps_chunks :: "string list"
  ps_logicalLength :: nat

definition pipe_push :: "pipe_scan \<Rightarrow> pipe_scan" where
  "pipe_push sc =
     (let trimmed = js_trim (ps_buf sc)
      in sc\<lparr>ps_buf := [], ps_segments := (if trimmed \<noteq> [] then ps_segments sc @ [trimmed] else ps_segments sc)\<rparr>)"

definition pipe_add :: "string \<Rightarrow> pipe_scan \<Rightarrow> pipe_scan" where
  "pipe_add s sc = sc\<lparr>ps_buf := ps_buf sc @ s, ps_emptySegment := False\<rparr>"

definition heredoc_body_line :: "heredoc_spec \<Rightarrow> pipe_scan \<Rightarrow> string" where
  "heredoc_body_line current sc =
     (if hd_stripTabs current then dropWhile (\<lambda>c. c = tab) (ps_line sc) else ps_line sc)"

text \<open>A line of a heredoc body is complete.\<close>

definition heredoc_line :: "pipe_scan \<Rightarrow> string + pipe_scan" where
  "heredoc_line sc =
     (case ps_heredocs sc of
        [] \<Rightarrow> Inr sc
      | current # others \<Rightarrow>
          (let line = heredoc_body_line current sc
           in if hd_quoted current then Inr (if line = hd_delimiter current then sc\<lparr>ps_heredocs := others\<rparr> else sc)
              else if line = hd_delimiter current \<and> length (ps_chunks sc) = 0 then Inr (sc\<lparr>ps_heredocs := others\<rparr>)
              else
                let (stripped, continues) = stripUnquotedHeredocLineContinuation line;
                    chunks = ps_chunks sc @ [stripped]; logicalLength = ps_logicalLength sc + length stripped
                in if length chunks > MAX_UNQUOTED_HEREDOC_CONTINUATION_LINES then Inl ''heredoc continuation too long''
                   else if logicalLength > MAX_UNQUOTED_HEREDOC_LOGICAL_LINE_LENGTH then Inl ''heredoc logical line too large''
                   else if continues then Inr (sc\<lparr>ps_chunks := chunks, ps_logicalLength := logicalLength\<rparr>)
                   else if hasUnquotedHeredocExpansionToken (concat chunks) then Inl ''shell expansion in unquoted heredoc''
                   else Inr (sc\<lparr>ps_chunks := [], ps_logicalLength := 0\<rparr>)))"

definition heredoc_newline :: "pipe_scan \<Rightarrow> string + pipe_scan" where
  "heredoc_newline sc =
     (case heredoc_line sc of
        Inl reason \<Rightarrow> Inl reason
      | Inr sc1 \<Rightarrow> Inr (sc1\<lparr>ps_line := [], ps_inBody := (if ps_heredocs sc1 = [] then False else ps_inBody sc1)\<rparr>))"

text \<open>What follows the operator \<open><<\<close>: the new state and how many characters are consumed.\<close>

definition heredoc_start :: "string \<Rightarrow> pipe_scan \<Rightarrow> nat \<times> pipe_scan" where
  "heredoc_start s sc =
     (let stripTabs = (first_char s = Some (CHR ''-'')); dash = (if stripTabs then ''-'' else []);
          sc1 = pipe_add (''<<'' @ dash) sc; rest = drop (length dash) s
      in case parseHeredocDelimiter rest of
           None \<Rightarrow> (0, sc1)
         | Some (delimiter, n, quoted) \<Rightarrow>
             (length dash + n,
              sc1\<lparr>ps_buf := ps_buf sc1 @ take n rest,
                ps_heredocs := ps_heredocs sc1 @ [\<lparr>hd_delimiter = delimiter, hd_stripTabs = stripTabs, hd_quoted = quoted\<rparr>]\<rparr>))"

text \<open>A line end is one character, or a carriage return with a line feed.\<close>

definition crlf :: "char \<Rightarrow> string \<Rightarrow> bool" where
  "crlf ch s = (ch = cr \<and> first_char s = Some newline)"

definition last_char :: "char \<Rightarrow> string \<Rightarrow> char option" where
  "last_char ch s = Some (last (ch # s))"

definition unsupported_token :: "string \<Rightarrow> string" where
  "unsupported_token t = ''unsupported shell token: '' @ t"

function pipe_loop :: "char option \<Rightarrow> quote_state \<Rightarrow> string \<Rightarrow> pipe_scan \<Rightarrow> string + quote_state \<times> pipe_scan" where
  "pipe_loop prev q [] sc = Inr (q, sc)"
| "pipe_loop prev q (ch # s) sc =
     (if ps_inBody sc then
        (if ch = newline \<or> ch = cr then
           (case heredoc_newline sc of
              Inl reason \<Rightarrow> Inl reason
            | Inr sc1 \<Rightarrow> pipe_loop (Some (if crlf ch s then newline else ch)) q (if crlf ch s then drop 1 s else s) sc1)
         else pipe_loop (Some ch) q s (sc\<lparr>ps_line := ps_line sc @ [ch]\<rparr>))
      else case q of
        Escaped \<Rightarrow> pipe_loop (Some ch) Unquoted s (pipe_add [ch] sc)
      | InSingle \<Rightarrow> pipe_loop (Some ch) (if ch = squote then Unquoted else InSingle) s (pipe_add [ch] sc)
      | InDouble \<Rightarrow>
          if ch = bslash \<and> isEscapedLineContinuation (first_char s) then Inl (unsupported_token ''newline'')
          else if ch = bslash \<and> isDoubleQuoteEscape (first_char s) then
            pipe_loop (first_char s) InDouble (drop 1 s) (pipe_add (ch # take 1 s) sc)
          else if ch = CHR ''$'' \<and> first_char s = Some (CHR ''('') then Inl (unsupported_token ''$()'')
          else if ch = backtick then Inl (unsupported_token [backtick])
          else if ch = newline \<or> ch = cr then Inl (unsupported_token ''newline'')
          else pipe_loop (Some ch) (if ch = dquote then Unquoted else InDouble) s (pipe_add [ch] sc)
      | Unquoted \<Rightarrow>
          if ch = bslash then pipe_loop (Some ch) Escaped s (pipe_add [ch] sc)
          else if ch = squote then pipe_loop (Some ch) InSingle s (pipe_add [ch] sc)
          else if ch = dquote then pipe_loop (Some ch) InDouble s (pipe_add [ch] sc)
          else if isShellCommentStart prev ch then Inr (q, sc)
          else if (ch = newline \<or> ch = cr) \<and> length (ps_heredocs sc) > 0 then
            pipe_loop (Some (if crlf ch s then newline else ch)) q (if crlf ch s then drop 1 s else s) (sc\<lparr>ps_inBody := True, ps_line := []\<rparr>)
          else if ch = CHR ''|'' \<and> first_char s = Some (CHR ''|'') then Inl (unsupported_token ''||'')
          else if ch = CHR ''|'' \<and> first_char s = Some (CHR ''&'') then Inl (unsupported_token ''|&'')
          else if ch = CHR ''|'' then pipe_loop (Some ch) q s (pipe_push (sc\<lparr>ps_emptySegment := True\<rparr>))
          else if ch = CHR ''&'' \<or> ch = CHR '';'' then Inl (unsupported_token [ch])
          else if ch = CHR ''<'' \<and> first_char s = Some (CHR ''<'') then
            (let (n, sc1) = heredoc_start (drop 1 s) sc
             in pipe_loop (last_char ch (take (Suc n) s)) q (drop (Suc n) s) sc1)
          else if ch \<in> set DISALLOWED_PIPELINE_TOKENS then Inl (unsupported_token [ch])
          else if ch = CHR ''$'' \<and> first_char s = Some (CHR ''('') then Inl (unsupported_token ''$()'')
          else pipe_loop (Some ch) q s (pipe_add [ch] sc))"
  by pat_completeness auto
termination by (relation "measure (\<lambda>(prev, q, s, sc). length s)") auto

text \<open>The input ends inside a heredoc body.\<close>

definition heredoc_tail :: "pipe_scan \<Rightarrow> string + pipe_scan" where
  "heredoc_tail sc =
     (case ps_heredocs sc of
        [] \<Rightarrow> Inr sc
      | current # others \<Rightarrow>
          if \<not> ps_inBody sc then Inr sc
          else
            let line = heredoc_body_line current sc
            in if \<not> hd_quoted current \<and> length (ps_chunks sc) > 0 then
                 (if hasUnquotedHeredocExpansionToken
                       (concat (ps_chunks sc @ [fst (stripUnquotedHeredocLineContinuation line)])) then
                    Inl ''shell expansion in unquoted heredoc''
                  else Inr sc)
               else if line = hd_delimiter current then
                 Inr (sc\<lparr>ps_heredocs := others, ps_chunks := [], ps_logicalLength := 0,
                   ps_inBody := (if others = [] then False else ps_inBody sc)\<rparr>)
               else Inr sc)"

definition splitShellPipeline :: "string \<Rightarrow> string + string list" where
  "splitShellPipeline command =
     (case pipe_loop None Unquoted command
         \<lparr>ps_buf = [], ps_segments = [], ps_emptySegment = False, ps_heredocs = [], ps_inBody = False, ps_line = [],
          ps_chunks = [], ps_logicalLength = 0\<rparr> of
        Inl reason \<Rightarrow> Inl reason
      | Inr (q, sc) \<Rightarrow>
          (case heredoc_tail sc of
             Inl reason \<Rightarrow> Inl reason
           | Inr sc1 \<Rightarrow>
               if length (ps_heredocs sc1) > 0 \<or> ps_inBody sc1 then Inl ''unterminated heredoc''
               else if q \<noteq> Unquoted then Inl ''unterminated shell quote/escape''
               else
                 let sc2 = pipe_push sc1
                 in if ps_emptySegment sc2 \<or> length (ps_segments sc2) = 0 then
                      Inl (if length (ps_segments sc2) = 0 then ''empty command'' else ''empty pipeline segment'')
                    else Inr (ps_segments sc2)))"

end
