(* ===== verification/ShellPlan.thy ===== *)
theory ShellPlan
  imports ShellAnalysis AllowFrom
begin

section \<open>Execution plans\<close>

text \<open>
  The analysis of a whole command and the commands built from an approved plan, for platforms that
  are not Windows: \<open>analyzeShellCommand\<close>, \<open>analyzeArgvCommand\<close>, \<open>buildSafeShellCommand\<close>,
  \<open>buildSafeBinsShellCommand\<close> and \<open>buildEnforcedShellCommand\<close> of
  \<^verbatim>\<open>src/infra/exec-approvals-analysis.ts\<close>.
\<close>

subsection \<open>Analysis\<close>

record command_analysis =
  an_segments :: "command_segment list"
  an_chains :: "command_segment list list option"

type_synonym argv_resolver = "string list \<Rightarrow> command_resolution option"

fun parseSegmentsFromParts :: "argv_resolver \<Rightarrow> string list \<Rightarrow> command_segment list option" where
  "parseSegmentsFromParts resolve [] = Some []"
| "parseSegmentsFromParts resolve (raw # parts) =
     (case splitShellArgs raw of
        None \<Rightarrow> None
      | Some argv \<Rightarrow>
          if length argv = 0 then None
          else map_option (\<lambda>segs. \<lparr>sg_raw = raw, sg_argv = argv, sg_sourceArgv = None, sg_resolution = resolve argv\<rparr> # segs)
            (parseSegmentsFromParts resolve parts))"

definition analyze_part :: "argv_resolver \<Rightarrow> string \<Rightarrow> string + command_segment list" where
  "analyze_part resolve part =
     (case splitShellPipeline part of
        Inl reason \<Rightarrow> Inl reason
      | Inr segs \<Rightarrow>
          (case parseSegmentsFromParts resolve segs of
             None \<Rightarrow> Inl ''unable to parse shell segment''
           | Some segmentList \<Rightarrow> Inr segmentList))"

fun analyze_parts :: "argv_resolver \<Rightarrow> string list \<Rightarrow> string + command_segment list list" where
  "analyze_parts resolve [] = Inr []"
| "analyze_parts resolve (part # parts) =
     (case analyze_part resolve part of
        Inl reason \<Rightarrow> Inl reason
      | Inr segmentList \<Rightarrow> map_sum id ((#) segmentList) (analyze_parts resolve parts))"

definition analyzeShellCommand :: "argv_resolver \<Rightarrow> string \<Rightarrow> string + command_analysis" where
  "analyzeShellCommand resolve command =
     (case splitCommandChain command of
        Some chainParts \<Rightarrow>
          map_sum id (\<lambda>chains. \<lparr>an_segments = concat chains, an_chains = Some chains\<rparr>) (analyze_parts resolve chainParts)
      | None \<Rightarrow>
          map_sum id (\<lambda>segmentList. \<lparr>an_segments = segmentList, an_chains = None\<rparr>) (analyze_part resolve command))"

definition analyzeArgvCommand :: "argv_resolver \<Rightarrow> string list \<Rightarrow> string + command_analysis" where
  "analyzeArgvCommand resolve params_argv =
     (let argv = filter (\<lambda>entry. length (js_trim entry) > 0) params_argv
      in if length argv = 0 then Inl ''empty argv''
         else Inr \<lparr>an_segments = [\<lparr>sg_raw = join_with '' '' argv, sg_argv = argv, sg_sourceArgv = Some params_argv,
               sg_resolution = resolve argv\<rparr>], an_chains = None\<rparr>)"

definition isWindowsPlatform :: "string option \<Rightarrow> bool" where
  "isWindowsPlatform platform = starts_with (normalizeLowercaseStringOrEmpty platform) ''win''"

subsection \<open>Putting a command together\<close>

definition shellEscapeSingleArg :: "string \<Rightarrow> string" where
  "shellEscapeSingleArg value =
     [squote] @ concat (map (\<lambda>c. if c = squote then [squote, dquote, squote, dquote, squote] else [c]) value) @ [squote]"

definition renderQuotedArgv :: "string list \<Rightarrow> string" where
  "renderQuotedArgv argv = join_with '' '' (map shellEscapeSingleArg argv)"

type_synonym segment_renderer = "string \<Rightarrow> nat \<Rightarrow> string + string"

text \<open>The segments of one part, with the count of segments before them.\<close>

fun render_segments :: "segment_renderer \<Rightarrow> nat \<Rightarrow> string list \<Rightarrow> string + string list" where
  "render_segments renderSegment count [] = Inr []"
| "render_segments renderSegment count (raw # segs) =
     (case renderSegment raw count of
        Inl reason \<Rightarrow> Inl reason
      | Inr rendered \<Rightarrow> map_sum id ((#) rendered) (render_segments renderSegment (Suc count) segs))"

fun rebuild_parts :: "segment_renderer \<Rightarrow> nat \<Rightarrow> string \<Rightarrow> chain_part list \<Rightarrow> string + string \<times> nat" where
  "rebuild_parts renderSegment count out [] = Inr (out, count)"
| "rebuild_parts renderSegment count out ((part, opToNext) # parts) =
     (case splitShellPipeline part of
        Inl reason \<Rightarrow> Inl reason
      | Inr segs \<Rightarrow>
          (case render_segments renderSegment count segs of
             Inl reason \<Rightarrow> Inl reason
           | Inr rendered \<Rightarrow>
               rebuild_parts renderSegment (count + length segs)
                 (out @ join_with '' | '' rendered @
                   (case opToNext of None \<Rightarrow> [] | Some oper \<Rightarrow> '' '' @ chain_string oper @ '' ''))
                 parts))"

definition source_parts :: "string \<Rightarrow> chain_part list" where
  "source_parts source = nullish (splitCommandChainWithOperators source) [(source, None)]"

definition rebuildShellCommandFromSource :: "segment_renderer \<Rightarrow> string \<Rightarrow> string + string \<times> nat" where
  "rebuildShellCommandFromSource renderSegment command =
     (let source = js_trim command
      in if source = [] then Inl ''empty command''
         else rebuild_parts renderSegment 0 [] (source_parts source))"

definition finalizeRebuiltShellCommand :: "string + string \<times> nat \<Rightarrow> nat option \<Rightarrow> string + string" where
  "finalizeRebuiltShellCommand rebuilt expectedSegmentCount =
     (case rebuilt of
        Inl reason \<Rightarrow> Inl reason
      | Inr (command, segmentCount) \<Rightarrow>
          if expectedSegmentCount \<noteq> None \<and> expectedSegmentCount \<noteq> Some segmentCount then Inl ''segment count mismatch''
          else Inr command)"

definition buildSafeShellCommand :: "string \<Rightarrow> string + string" where
  "buildSafeShellCommand command =
     finalizeRebuiltShellCommand
       (rebuildShellCommandFromSource
          (\<lambda>segmentRaw i.
             let argv = nullish (splitShellArgs segmentRaw) []
             in if length argv = 0 then Inl ''unable to parse shell segment'' else Inr (renderQuotedArgv argv))
          command)
       None"

definition resolvePlannedSegmentArgv :: "command_segment \<Rightarrow> string list option" where
  "resolvePlannedSegmentArgv segment =
     (if Option.bind (sg_resolution segment) cr_policyBlocked = Some True then None
      else
        let baseArgv = (case Option.bind (sg_resolution segment) cr_effectiveArgv of
                Some effective \<Rightarrow> if length effective > 0 then effective else sg_argv segment
              | None \<Rightarrow> sg_argv segment)
        in if length baseArgv = 0 then None
           else
             let execution = map_option cr_execution (sg_resolution segment);
                 resolvedExecutable = nullish (nullish_opt (map_option js_trim (Option.bind execution er_resolvedRealPath))
                     (map_option js_trim (Option.bind execution er_resolvedPath))) []
             in Some (if resolvedExecutable \<noteq> [] then baseArgv[0 := resolvedExecutable] else baseArgv))"

lemma planned_nonempty: "resolvePlannedSegmentArgv seg = Some argv \<Longrightarrow> argv \<noteq> []"
  by (auto simp: resolvePlannedSegmentArgv_def Let_def split: if_splits option.splits)

definition renderSafeBinSegmentArgv :: "command_segment \<Rightarrow> string option" where
  "renderSafeBinSegmentArgv segment =
     (case resolvePlannedSegmentArgv segment of
        None \<Rightarrow> None
      | Some argv \<Rightarrow> if length argv = 0 then None else Some (renderQuotedArgv argv))"

datatype satisfied_by = ByAllowlist | BySafeBins | ByInlineChain | BySkills | BySkillPrelude

definition render_safe_bin ::
  "(command_segment \<Rightarrow> string option) \<Rightarrow> command_segment list \<Rightarrow> satisfied_by option list \<Rightarrow> segment_renderer" where
  "render_safe_bin inline segmentList segmentSatisfiedBy raw segmentIndex =
     (if segmentIndex \<ge> length segmentList \<or> segmentIndex \<ge> length segmentSatisfiedBy then Inl ''segment mapping failed''
      else
        let seg = segmentList ! segmentIndex; by = segmentSatisfiedBy ! segmentIndex
        in if by = Some ByInlineChain then
             (case inline seg of
                None \<Rightarrow> Inl ''inline chain execution plan unavailable''
              | Some rendered \<Rightarrow> if rendered = [] then Inl ''inline chain execution plan unavailable'' else Inr rendered)
           else if by \<noteq> Some BySafeBins then Inr (js_trim raw)
           else
             (case renderSafeBinSegmentArgv seg of
                None \<Rightarrow> Inl ''segment execution plan unavailable''
              | Some rendered \<Rightarrow> if rendered = [] then Inl ''segment execution plan unavailable'' else Inr rendered))"

definition buildSafeBinsShellCommand ::
  "(command_segment \<Rightarrow> string option) \<Rightarrow> string \<Rightarrow> command_segment list \<Rightarrow> satisfied_by option list \<Rightarrow> string + string" where
  "buildSafeBinsShellCommand inline command segmentList segmentSatisfiedBy =
     (if length segmentList \<noteq> length segmentSatisfiedBy then Inl ''segment metadata mismatch''
      else finalizeRebuiltShellCommand
        (rebuildShellCommandFromSource (render_safe_bin inline segmentList segmentSatisfiedBy) command)
        (Some (length segmentList)))"

definition render_enforced :: "command_segment list \<Rightarrow> segment_renderer" where
  "render_enforced segmentList raw segmentIndex =
     (if segmentIndex \<ge> length segmentList then Inl ''segment mapping failed''
      else
        (case resolvePlannedSegmentArgv (segmentList ! segmentIndex) of
           None \<Rightarrow> Inl ''segment execution plan unavailable''
         | Some argv \<Rightarrow>
             let rendered = renderQuotedArgv argv
             in if rendered = [] then Inl ''unsafe windows token in argv'' else Inr rendered))"

definition buildEnforcedShellCommand :: "string \<Rightarrow> command_segment list \<Rightarrow> string + string" where
  "buildEnforcedShellCommand command segmentList =
     finalizeRebuiltShellCommand (rebuildShellCommandFromSource (render_enforced segmentList) command)
       (Some (length segmentList))"

subsection \<open>The guard of the allowlist evaluation\<close>

text \<open>\<open>hasShellLineContinuation\<close> of \<^verbatim>\<open>src/infra/exec-approvals-allowlist.ts\<close>.\<close>

fun hasShellLineContinuation :: "string \<Rightarrow> bool" where
  "hasShellLineContinuation (a # b # s) =
     (a = bslash \<and> (b = newline \<or> b = cr) \<or> hasShellLineContinuation (b # s))"
| "hasShellLineContinuation s = False"

end
