(* ===== verification/ShellSound.thy ===== *)
theory ShellSound
  imports ShellAnalysis ShellPlan
begin

section \<open>A reference lexer for the POSIX shell\<close>

text \<open>
  The tokens a POSIX shell reads from a command, after the rules of section 2.3 of the shell standard:
  backslash, single and double quotes, comments, blanks and operator characters. It is the
  specification that the scanners of the program are compared with. A character of a word is literal or active
  (subject to expansion); an operator is kept as its characters, so that \<open>&&\<close> is two adjacent
  operator tokens. Heredoc bodies are not read, and \<open>$'...'\<close> is a dollar sign and a quoted
  word; \<open>bash_lex\<close> adds that form.
\<close>

datatype sh_char = Lit char | Act char

datatype sh_token = TWord "sh_char list" | TBlank | TOp char

datatype sh_mode = MPlain | MEscaped | MSingle | MDouble | MDoubleEsc | MComment

fun is_word :: "sh_token \<Rightarrow> bool" where
  "is_word (TWord w) = True"
| "is_word t = False"

definition in_word :: "sh_token list \<Rightarrow> bool" where
  "in_word ts = (ts \<noteq> [] \<and> is_word (last ts))"

fun word_chars :: "sh_token \<Rightarrow> sh_char list" where
  "word_chars (TWord w) = w"
| "word_chars t = []"

definition open_word :: "sh_token list \<Rightarrow> sh_token list" where
  "open_word ts = (if in_word ts then ts else ts @ [TWord []])"

definition add_chars :: "sh_char list \<Rightarrow> sh_token list \<Rightarrow> sh_token list" where
  "add_chars xs ts = (if in_word ts then butlast ts @ [TWord (word_chars (last ts) @ xs)] else ts @ [TWord xs])"

definition sh_operators :: string where
  "sh_operators = ''|&;<>()'' @ [newline]"

definition sh_blank :: "char \<Rightarrow> bool" where
  "sh_blank c = (c = CHR '' '' \<or> c = tab)"

definition plain_char :: "char \<Rightarrow> sh_char" where
  "plain_char c = (if c \<in> set (''$*?[~'' @ [backtick]) then Act c else Lit c)"

definition double_char :: "char \<Rightarrow> sh_char" where
  "double_char c = (if c = CHR ''$'' \<or> c = backtick then Act c else Lit c)"

fun sh_step :: "sh_mode \<times> sh_token list \<Rightarrow> char \<Rightarrow> sh_mode \<times> sh_token list" where
  "sh_step (MPlain, ts) c =
     (if c = bslash then (MEscaped, ts)
      else if c = squote then (MSingle, open_word ts)
      else if c = dquote then (MDouble, open_word ts)
      else if c = CHR ''#'' \<and> \<not> in_word ts then (MComment, ts)
      else if sh_blank c then (MPlain, ts @ [TBlank])
      else if c \<in> set sh_operators then (MPlain, ts @ [TOp c])
      else (MPlain, add_chars [plain_char c] ts))"
| "sh_step (MEscaped, ts) c = (MPlain, if c = newline then ts else add_chars [Lit c] ts)"
| "sh_step (MSingle, ts) c = (if c = squote then (MPlain, ts) else (MSingle, add_chars [Lit c] ts))"
| "sh_step (MDouble, ts) c =
     (if c = dquote then (MPlain, ts)
      else if c = bslash then (MDoubleEsc, ts)
      else (MDouble, add_chars [double_char c] ts))"
| "sh_step (MDoubleEsc, ts) c =
     (MDouble, if c = newline then ts
       else if c \<in> set [bslash, dquote, CHR ''$'', backtick] then add_chars [Lit c] ts
       else add_chars [Lit bslash, Lit c] ts)"
| "sh_step (MComment, ts) c = (if c = newline then (MPlain, ts @ [TOp c]) else (MComment, ts))"

definition sh_lex :: "string \<Rightarrow> sh_mode \<times> sh_token list" where
  "sh_lex s = foldl sh_step (MPlain, []) s"

text \<open>The simple commands between the operators, each the list of its words; the operators.\<close>

fun commands_from :: "sh_char list list \<Rightarrow> sh_token list \<Rightarrow> sh_char list list list" where
  "commands_from ws [] = (if ws = [] then [] else [ws])"
| "commands_from ws (TWord w # ts) = commands_from (ws @ [w]) ts"
| "commands_from ws (TBlank # ts) = commands_from ws ts"
| "commands_from ws (TOp c # ts) = (if ws = [] then [] else [ws]) @ commands_from [] ts"

definition sh_commands :: "sh_token list \<Rightarrow> sh_char list list list" where
  "sh_commands ts = commands_from [] ts"

fun op_runs :: "sh_token list \<Rightarrow> string list" where
  "op_runs [] = []"
| "op_runs (TOp c # TOp d # ts) = (case op_runs (TOp d # ts) of [] \<Rightarrow> [[c]] | r # rs \<Rightarrow> (c # r) # rs)"
| "op_runs (TOp c # ts) = [c] # op_runs ts"
| "op_runs (t # ts) = op_runs ts"

fun sh_text :: "sh_char \<Rightarrow> char" where
  "sh_text (Lit c) = c"
| "sh_text (Act c) = c"

text \<open>The words as strings, without the empty ones.\<close>

definition sh_argvs :: "sh_token list \<Rightarrow> string list list" where
  "sh_argvs ts = map (\<lambda>ws. filter (\<lambda>w. w \<noteq> []) (map (map sh_text) ws)) (sh_commands ts)"

lemma sh_lex_example:
  "let command = ''git log --author='' @ [squote] @ ''a b'' @ [squote] @ '' | head -n '' @ [dquote] @ ''$N'' @ [dquote] @
      '' && echo a'' @ [bslash] @ '';b;c # d''
    in sh_argvs (snd (sh_lex command)) =
        [[''git'', ''log'', ''--author=a b''], [''head'', ''-n'', ''$N''], [''echo'', ''a;b''], [''c'']]
      \<and> op_runs (snd (sh_lex command)) = [''|'', ''&&'', '';'']"
  by code_simp

subsection \<open>Lexing from the middle\<close>

lemma in_word_append: "\<not> in_word pre \<Longrightarrow> in_word (pre @ ts) = in_word ts"
  by (cases ts rule: rev_cases) (auto simp: in_word_def)

lemma add_chars_append: "\<not> in_word pre \<Longrightarrow> add_chars xs (pre @ ts) = pre @ add_chars xs ts"
  by (cases ts rule: rev_cases) (auto simp: add_chars_def in_word_append, auto simp: in_word_def butlast_append)

lemma open_word_append: "\<not> in_word pre \<Longrightarrow> open_word (pre @ ts) = pre @ open_word ts"
  by (simp add: open_word_def in_word_append)

lemma sh_step_append: "\<not> in_word pre \<Longrightarrow> sh_step (m, pre @ ts) c = map_prod id ((@) pre) (sh_step (m, ts) c)"
  by (cases m) (auto simp: in_word_append add_chars_append open_word_append)

lemma sh_fold_append:
  "\<not> in_word pre \<Longrightarrow> foldl sh_step (m, pre @ ts) s = map_prod id ((@) pre) (foldl sh_step (m, ts) s)"
proof (induction s arbitrary: m ts)
  case (Cons c s)
  obtain m' ts' where "sh_step (m, ts) c = (m', ts')" by fastforce
  then show ?case using Cons by (simp add: sh_step_append)
qed simp

lemma sh_fold_fresh: "\<not> in_word pre \<Longrightarrow> foldl sh_step (MPlain, pre) s = map_prod id ((@) pre) (sh_lex s)"
  using sh_fold_append [of pre MPlain "[]" s] by (simp add: sh_lex_def)

lemma sh_lex_append: "sh_lex (a @ b) = foldl sh_step (sh_lex a) b"
  by (simp add: sh_lex_def)

subsection \<open>Commands and operators of joined tokens\<close>

lemma commands_from_op: "commands_from ws (a @ TOp c # b) = commands_from ws a @ sh_commands b"
  by (induction ws a rule: commands_from.induct) (simp_all add: sh_commands_def)

lemma sh_commands_op: "sh_commands (a @ TOp c # b) = sh_commands a @ sh_commands b"
  by (simp add: sh_commands_def commands_from_op)

lemma commands_from_blanks: "set b \<subseteq> {TBlank} \<Longrightarrow> commands_from ws (b @ ts) = commands_from ws ts"
  by (induction b) auto

lemma commands_from_end: "set b \<subseteq> {TBlank} \<Longrightarrow> commands_from ws (ts @ b) = commands_from ws ts"
proof (induction ws ts rule: commands_from.induct)
  case (1 ws)
  then show ?case using commands_from_blanks [of b ws "[]"] by simp
qed simp_all

lemma sh_commands_blanks: "set b1 \<subseteq> {TBlank} \<Longrightarrow> set b2 \<subseteq> {TBlank} \<Longrightarrow> sh_commands (b1 @ ts @ b2) = sh_commands ts"
  by (simp add: sh_commands_def commands_from_blanks commands_from_end)

section \<open>The analysis sees what the shell sees\<close>

text \<open>
  For a plain command, the segments of the analysis are the simple commands of the reference lexer.
  Plain excludes, outside of quotes, the characters at which the two disagree: \<open>#\<close>, \<open><\<close>, line
  ends, and white space that is not a blank of the shell. The last lemmas show what goes wrong there.
\<close>

subsection \<open>Plain commands\<close>

fun mode_step :: "sh_mode \<Rightarrow> char \<Rightarrow> sh_mode" where
  "mode_step MPlain c = (if c = bslash then MEscaped else if c = squote then MSingle else if c = dquote then MDouble else MPlain)"
| "mode_step MEscaped c = MPlain"
| "mode_step MSingle c = (if c = squote then MPlain else MSingle)"
| "mode_step MDouble c = (if c = dquote then MPlain else if c = bslash then MDoubleEsc else MDouble)"
| "mode_step MDoubleEsc c = MDouble"
| "mode_step MComment c = MComment"

fun plain_in :: "sh_mode \<Rightarrow> char \<Rightarrow> bool" where
  "plain_in MPlain c = (c \<notin> set ''#<'' \<and> (js_is_space c \<longrightarrow> sh_blank c))"
| "plain_in MEscaped c = (c \<noteq> newline \<and> c \<noteq> cr)"
| "plain_in MDoubleEsc c = (c \<noteq> newline \<and> c \<noteq> cr)"
| "plain_in MComment c = False"
| "plain_in m c = True"

fun plain_from :: "sh_mode \<Rightarrow> string \<Rightarrow> bool" where
  "plain_from m [] = True"
| "plain_from m (c # s) = (plain_in m c \<and> plain_from (mode_step m c) s)"

definition plain_command :: "string \<Rightarrow> bool" where
  "plain_command s = plain_from MPlain s"

lemma sh_step_mode: "plain_in m c \<Longrightarrow> fst (sh_step (m, ts) c) = mode_step m c"
  by (cases m) auto

lemma sh_fold_mode: "plain_from m s \<Longrightarrow> fst (foldl sh_step (m, ts) s) = foldl mode_step m s"
proof (induction s arbitrary: m ts)
  case (Cons c s)
  obtain m' ts' where st: "sh_step (m, ts) c = (m', ts')" by fastforce
  then have "m' = mode_step m c" using sh_step_mode [of m c ts] Cons.prems by simp
  then show ?case using Cons st by simp
qed simp

lemma plain_from_append: "plain_from m (a @ b) \<longleftrightarrow> plain_from m a \<and> plain_from (foldl mode_step m a) b"
  by (induction a arbitrary: m) auto

lemma blank_step:
  "sh_blank c \<Longrightarrow> sh_step (MPlain, ts) c = (MPlain, ts @ [TBlank])" "sh_blank c \<Longrightarrow> mode_step MPlain c = MPlain"
  by (auto simp: sh_blank_def)

lemma spaces_blank:
  "plain_from MPlain w \<Longrightarrow> \<forall>c\<in>set w. js_is_space c \<Longrightarrow> \<forall>c\<in>set w. sh_blank c"
proof (induction w)
  case (Cons c w)
  then have "sh_blank c" by simp
  then show ?case using Cons by (simp add: blank_step del: mode_step.simps)
qed simp

lemma blanks_lex:
  assumes "\<forall>c\<in>set w. sh_blank c"
  shows "foldl sh_step (MPlain, ts) w = (MPlain, ts @ replicate (length w) TBlank)" and "foldl mode_step MPlain w = MPlain"
  using assms
  by (induction w arbitrary: ts) (simp_all add: blank_step del: mode_step.simps sh_step.simps)

lemmas spaces_lex = blanks_lex [OF spaces_blank]

lemma trim_parts:
  obtains w1 w2 where "s = w1 @ js_trim s @ w2" "\<forall>c\<in>set w1. js_is_space c" "\<forall>c\<in>set w2. js_is_space c"
proof -
  let ?t = "js_trim_start s"
  have s: "s = takeWhile js_is_space s @ ?t" by (simp add: js_trim_start_def)
  have "rev ?t = takeWhile js_is_space (rev ?t) @ dropWhile js_is_space (rev ?t)" by simp
  then have t: "?t = js_trim s @ rev (takeWhile js_is_space (rev ?t))"
    unfolding js_trim_def js_trim_end_def by (simp only: rev_append [symmetric] takeWhile_dropWhile_id rev_rev_ident)
  have "takeWhile js_is_space s @ js_trim s @ rev (takeWhile js_is_space (rev ?t)) = takeWhile js_is_space s @ ?t"
    by (rule arg_cong [OF t [symmetric], where f = "(@) (takeWhile js_is_space s)"])
  also have "\<dots> = s" by (rule s [symmetric])
  finally show thesis using that by (metis set_rev set_takeWhileD)
qed

lemma replicate_blanks: "set (replicate n TBlank) \<subseteq> {TBlank}"
  by auto

lemma blanks_not_word: "set b \<subseteq> {TBlank} \<Longrightarrow> \<not> in_word b"
  by (cases b rule: rev_cases) (auto simp: in_word_def)

text \<open>Trimming a plain command removes blanks only, if what remains does not end inside a quote.\<close>

lemma trim_lex:
  assumes "plain_command raw" and "fst (sh_lex (js_trim raw)) = MPlain"
  obtains b1 b2 where "set b1 \<subseteq> {TBlank}" "set b2 \<subseteq> {TBlank}"
    "sh_lex raw = (MPlain, b1 @ snd (sh_lex (js_trim raw)) @ b2)" "plain_command (js_trim raw)"
proof -
  obtain w1 w2 where w: "raw = w1 @ js_trim raw @ w2" "\<forall>c\<in>set w1. js_is_space c" "\<forall>c\<in>set w2. js_is_space c"
    by (rule trim_parts)
  let ?p = "js_trim raw" and ?b1 = "replicate (length w1) TBlank" and ?b2 = "replicate (length w2) TBlank"
  have "plain_from MPlain (w1 @ ?p @ w2)" using assms(1) w(1) by (simp add: plain_command_def)
  then have 1: "plain_from MPlain w1" and rest: "plain_from (foldl mode_step MPlain w1) (?p @ w2)"
    by (simp_all only: plain_from_append)
  note s1 = spaces_lex [OF 1 w(2)]
  have p: "plain_from MPlain ?p" and 2: "plain_from (foldl mode_step MPlain ?p) w2"
    using rest unfolding s1(2) by (simp_all only: plain_from_append)
  have m: "foldl mode_step MPlain ?p = MPlain" using assms(2) sh_fold_mode [OF p, of "[]"] by (simp add: sh_lex_def)
  have "sh_lex raw = foldl sh_step (foldl sh_step (foldl sh_step (MPlain, []) w1) ?p) w2"
    unfolding sh_lex_def by (subst w(1)) simp
  also have "foldl sh_step (MPlain, []) w1 = (MPlain, ?b1)" using s1(1) [of "[]"] by simp
  also have "foldl sh_step (MPlain, ?b1) ?p = (MPlain, ?b1 @ snd (sh_lex ?p))"
    using sh_fold_fresh [OF blanks_not_word [OF replicate_blanks], of "length w1" ?p] assms(2)
    by (simp add: prod_eq_iff)
  also have "foldl sh_step (MPlain, ?b1 @ snd (sh_lex ?p)) w2 = (MPlain, (?b1 @ snd (sh_lex ?p)) @ ?b2)"
    using spaces_lex(1) [OF 2 [unfolded m] w(3)] .
  finally show thesis
    using that [OF replicate_blanks replicate_blanks] p by (simp add: plain_command_def)
qed

lemma plain_trim: "plain_command raw \<Longrightarrow> plain_command (js_trim raw)"
proof -
  assume "plain_command raw"
  obtain w1 w2 where w: "raw = w1 @ js_trim raw @ w2" "\<forall>c\<in>set w1. js_is_space c" "\<forall>c\<in>set w2. js_is_space c"
    by (rule trim_parts)
  have "plain_from MPlain (w1 @ js_trim raw @ w2)" using \<open>plain_command raw\<close> w(1) by (simp add: plain_command_def)
  then have 1: "plain_from MPlain w1" and rest: "plain_from (foldl mode_step MPlain w1) (js_trim raw @ w2)"
    by (simp_all only: plain_from_append)
  show ?thesis using rest unfolding spaces_lex(2) [OF 1 w(2)] plain_command_def by (simp only: plain_from_append)
qed

subsection \<open>Quote states and lexer modes\<close>

fun mode_of :: "quote_state \<Rightarrow> sh_mode" where
  "mode_of Unquoted = MPlain"
| "mode_of Escaped = MEscaped"
| "mode_of InSingle = MSingle"
| "mode_of InDouble = MDouble"

text \<open>The scanners look ahead at a backslash in double quotes, the lexer remembers it.\<close>

definition agrees :: "quote_state \<Rightarrow> sh_mode \<Rightarrow> string \<Rightarrow> bool" where
  "agrees q m s = (if m = MDoubleEsc then
       q = InDouble \<and> (case s of [] \<Rightarrow> True | c # _ \<Rightarrow> c \<notin> set [bslash, dquote, CHR ''$'', backtick, newline, cr])
     else m = mode_of q)"

lemma agrees_simps [simp]:
  "agrees Unquoted m s = (m = MPlain)" "agrees Escaped m s = (m = MEscaped)" "agrees InSingle m s = (m = MSingle)"
  "agrees InDouble MDouble s"
  by (auto simp: agrees_def)

lemma agrees_double: "agrees InDouble m s \<Longrightarrow> m = MDouble \<or> m = MDoubleEsc"
  by (auto simp: agrees_def split: if_splits)

lemma agrees_escape: "agrees InDouble MDoubleEsc (c # s) \<Longrightarrow> c \<notin> set [bslash, dquote, CHR ''$'', backtick, newline, cr]"
  by (simp add: agrees_def)

lemma lex_add:
  assumes "sh_lex buf = (m, tb)" "plain_command buf" "plain_in m c"
  shows "sh_lex (buf @ [c]) = (mode_step m c, snd (sh_step (m, tb) c))" and "plain_command (buf @ [c])"
proof -
  show "sh_lex (buf @ [c]) = (mode_step m c, snd (sh_step (m, tb) c))"
    using sh_step_mode [OF assms(3), of tb] by (simp add: sh_lex_append assms(1) prod_eq_iff)
  have "foldl mode_step MPlain buf = m"
    using assms(1) sh_fold_mode [of MPlain buf "[]"] assms(2) by (simp add: sh_lex_def plain_command_def)
  then show "plain_command (buf @ [c])" using assms(2,3) by (simp add: plain_command_def plain_from_append)
qed

subsection \<open>Chains\<close>

inductive chain_raw :: "chain_part list \<Rightarrow> sh_token list \<Rightarrow> bool" where
  chain_none: "chain_raw [] []"
| chain_some: "chain_raw ps T \<Longrightarrow> sh_lex raw = (MPlain, tr) \<Longrightarrow> plain_command raw \<Longrightarrow>
    chain_raw (ps @ [(js_trim raw, Some oper)]) (T @ tr @ map TOp (chain_string oper))"

lemma chain_raw_not_word: "chain_raw ps T \<Longrightarrow> \<not> in_word T"
proof (induction rule: chain_raw.induct)
  case (chain_some ps T raw tr oper)
  then show ?case by (cases oper) (simp_all add: in_word_def)
qed (simp add: in_word_def)

declare chain_loop.simps [simp del] sh_step.simps [simp del] mode_step.simps [simp del]

lemma chain_loop_invalid: "cs_invalidChain sc \<Longrightarrow> cs_invalidChain (chain_loop prev q s sc)"
proof (induction "length s" arbitrary: prev q s sc rule: less_induct)
  case less
  have keep: "cs_invalidChain (chain_add t sc)" "cs_invalidChain (chain_push oper sc)" for t oper
    using less.prems by (simp_all add: chain_add_def chain_push_def Let_def)
  show ?case
  proof (cases s)
    case (Cons ch s')
    have rec: "cs_invalidChain (chain_loop p q' s' sc')" "cs_invalidChain (chain_loop p q' (drop 1 s') sc')"
      if "cs_invalidChain sc'" for p q' sc'
      using less.hyps that Cons by simp_all
    show ?thesis using Cons less.prems by (cases q) (simp_all add: chain_loop.simps keep rec del: drop_Suc_Cons One_nat_def)
  qed (simp add: chain_loop.simps less.prems)
qed

text \<open>The tokens so far are those of the parts and those of the buffer.\<close>

definition chain_tokens :: "string \<Rightarrow> chain_scan \<Rightarrow> sh_mode \<times> sh_token list \<Rightarrow> bool" where
  "chain_tokens s sc st = (\<exists>T tb. st = (fst st, T @ tb) \<and> plain_from (fst st) s \<and>
     chain_raw (cs_parts sc) T \<and> sh_lex (cs_buf sc) = (fst st, tb) \<and> plain_command (cs_buf sc))"

definition chain_inv :: "quote_state \<Rightarrow> string \<Rightarrow> chain_scan \<Rightarrow> sh_mode \<times> sh_token list \<Rightarrow> bool" where
  "chain_inv q s sc st = (agrees q (fst st) s \<and> chain_tokens s sc st)"

lemma chain_tokens_add:
  assumes "chain_tokens (ch # s) sc st"
  shows "chain_tokens s (chain_add [ch] sc) (sh_step st ch)" and "fst (sh_step st ch) = mode_step (fst st) ch"
proof -
  obtain m T tb where st: "st = (m, T @ tb)" and inv: "plain_in m ch" "plain_from (mode_step m ch) s"
    "chain_raw (cs_parts sc) T" "sh_lex (cs_buf sc) = (m, tb)" "plain_command (cs_buf sc)"
    using assms(1) by (auto simp: chain_tokens_def)
  have fst: "fst (sh_step (m, tb) ch) = mode_step m ch" using sh_step_mode [OF inv(1)] .
  have eq: "sh_step st ch = (mode_step m ch, T @ snd (sh_step (m, tb) ch))"
    unfolding st using sh_step_append [OF chain_raw_not_word [OF inv(3)], of m tb ch] fst by (simp add: prod_eq_iff)
  show "chain_tokens s (chain_add [ch] sc) (sh_step st ch)"
    unfolding chain_tokens_def eq
    using inv(2,3) lex_add [OF inv(4,5,1)]
    by (intro exI [of _ T] exI [of _ "snd (sh_step (m, tb) ch)"]) (simp add: chain_add_def)
  show "fst (sh_step st ch) = mode_step (fst st) ch" using eq st by simp
qed

lemma chain_inv_add:
  assumes "chain_inv q (ch # s) sc st" and "agrees q' (mode_step (fst st) ch) s"
  shows "chain_inv q' s (chain_add [ch] sc) (sh_step st ch)"
  using assms(2) chain_tokens_add [of ch s sc st] assms(1) by (simp add: chain_inv_def)

lemma chain_inv_escape:
  assumes "chain_inv InDouble (bslash # d # s) sc st" and "fst st = MDouble"
  shows "chain_inv InDouble s (chain_add [bslash, d] sc) (foldl sh_step st [bslash, d])"
proof -
  note 1 = chain_tokens_add [OF assms(1) [unfolded chain_inv_def, THEN conjunct2]]
  note 2 = chain_tokens_add [OF 1(1)]
  have "chain_add [d] (chain_add [bslash] sc) = chain_add [bslash, d] sc" by (simp add: chain_add_def)
  then show ?thesis using 1(2) 2 assms(2) by (simp add: chain_inv_def mode_step.simps)
qed

lemma op_step: "c \<in> set sh_operators \<Longrightarrow> sh_step (MPlain, ts) c = (MPlain, ts @ [TOp c])"
  by (auto simp: sh_operators_def sh_step.simps sh_blank_def)

lemma chain_inv_push:
  assumes "chain_inv Unquoted (chain_string oper @ s) sc st" and "js_trim (cs_buf sc) \<noteq> []"
  shows "chain_inv Unquoted s (chain_push oper sc) (foldl sh_step st (chain_string oper))"
proof -
  obtain T tb where st: "st = (MPlain, T @ tb)" and inv: "plain_from MPlain (chain_string oper @ s)"
    "chain_raw (cs_parts sc) T" "sh_lex (cs_buf sc) = (MPlain, tb)" "plain_command (cs_buf sc)"
    using assms(1) by (auto simp: chain_inv_def chain_tokens_def)
  have eq: "foldl sh_step st (chain_string oper) = (MPlain, (T @ tb @ map TOp (chain_string oper)) @ [])"
    unfolding st by (cases oper) (simp_all add: op_step sh_operators_def)
  have "foldl mode_step MPlain (chain_string oper) = MPlain" by (cases oper) (simp_all add: mode_step.simps)
  then have "plain_from MPlain s" using inv(1) by (simp add: plain_from_append)
  then show ?thesis
    unfolding chain_inv_def chain_tokens_def eq
    using chain_some [OF inv(2,3,4), of oper] assms(2)
    by (intro conjI exI [of _ "T @ tb @ map TOp (chain_string oper)"] exI [of _ "[]"])
      (simp_all add: chain_push_def Let_def sh_lex_def plain_command_def)
qed

lemma chain_loop_inv:
  "chain_inv q s sc st \<Longrightarrow> \<not> cs_invalidChain (chain_loop prev q s sc) \<Longrightarrow>
    \<exists>q'. chain_inv q' [] (chain_loop prev q s sc) (foldl sh_step st s)"
proof (induction "length s" arbitrary: prev q s sc st rule: less_induct)
  case less
  note inv = less.prems(1) and valid = less.prems(2)
  show ?case
  proof (cases s)
    case Nil
    then show ?thesis using inv by (auto simp: chain_loop.simps)
  next
    case (Cons ch s')
    have add: ?thesis
      if "chain_loop prev q s sc = chain_loop p q' s' (chain_add [ch] sc)" "agrees q' (mode_step (fst st) ch) s'" for p q'
      using less.hyps [of s' q' "chain_add [ch] sc" "sh_step st ch" p] chain_inv_add [OF inv [unfolded Cons] that(2)] that(1)
        valid Cons by simp
    have push: ?thesis
      if "chain_loop prev q s sc = chain_loop p Unquoted s2 (chain_push oper sc)" "s = chain_string oper @ s2" "q = Unquoted" for p oper s2
    proof -
      have trim: "js_trim (cs_buf sc) \<noteq> []"
        using chain_loop_invalid [of "chain_push oper sc" p Unquoted s2] valid that(1) by (auto simp: chain_push_def)
      have "length s2 < length s" using that(2) by (cases oper) auto
      then show ?thesis
        using less.hyps [of s2 Unquoted "chain_push oper sc" "foldl sh_step st (chain_string oper)" p]
          chain_inv_push [OF inv [unfolded that(2,3)] trim] that(1,2) valid by simp
    qed
    have agr: "agrees q (fst st) s" and ch: "plain_in (fst st) ch"
      using inv Cons by (auto simp: chain_inv_def chain_tokens_def)
    show ?thesis
    proof (cases q)
      case Escaped
      then show ?thesis using agr Cons by (intro add [of "Some ch" Unquoted]) (simp_all add: chain_loop.simps mode_step.simps)
    next
      case InSingle
      then show ?thesis using agr Cons
        by (intro add [of "Some ch" "if ch = squote then Unquoted else InSingle"]) (simp_all add: chain_loop.simps mode_step.simps)
    next
      case InDouble
      have mode: "fst st = MDouble \<or> fst st = MDoubleEsc" using agr InDouble agrees_double by blast
      consider "fst st = MDoubleEsc" | "fst st = MDouble" "ch = bslash" "isEscapedLineContinuation (first_char s')"
        | "fst st = MDouble" "ch = bslash" "\<not> isEscapedLineContinuation (first_char s')" "isDoubleQuoteEscape (first_char s')"
        | "fst st = MDouble" "ch = bslash" "\<not> isEscapedLineContinuation (first_char s')" "\<not> isDoubleQuoteEscape (first_char s')"
        | "fst st = MDouble" "ch \<noteq> bslash" using mode by blast
      then show ?thesis
      proof cases
        case 1
        then have "ch \<noteq> bslash" "ch \<noteq> dquote" using agr InDouble Cons agrees_escape by auto
        then show ?thesis using 1 Cons InDouble
          by (intro add [of "Some ch" InDouble]) (simp_all add: chain_loop.simps mode_step.simps)
      next
        case 2
        then show ?thesis using valid Cons InDouble by (simp add: chain_loop.simps)
      next
        case 3
        then obtain d s2 where s': "s' = d # s2" by (cases s') (auto simp: isDoubleQuoteEscape_def first_char_def)
        have eq: "chain_loop prev q s sc = chain_loop (Some d) InDouble s2 (chain_add [bslash, d] sc)"
          using 3 Cons InDouble s' by (simp add: chain_loop.simps first_char_def)
        show ?thesis
          using less.hyps [of s2 InDouble "chain_add [bslash, d] sc" "foldl sh_step st [bslash, d]" "Some d"]
            chain_inv_escape [of d s2 sc st] inv 3 Cons InDouble s' eq valid by simp
      next
        case 4
        then have "agrees InDouble MDoubleEsc s'"
          by (cases s') (auto simp: agrees_def first_char_def isEscapedLineContinuation_def isDoubleQuoteEscape_def
              DOUBLE_QUOTE_ESCAPES_def)
        then show ?thesis using 4 Cons InDouble
          by (intro add [of "Some ch" InDouble]) (simp_all add: chain_loop.simps mode_step.simps)
      next
        case 5
        then show ?thesis using Cons InDouble
          by (intro add [of "Some ch" "if ch = dquote then Unquoted else InDouble"])
            (simp_all add: chain_loop.simps mode_step.simps)
      qed
    next
      case Unquoted
      then have mode: "fst st = MPlain" using agr by simp
      then have comment: "\<not> isShellCommentStart prev ch" using ch by (auto simp: isShellCommentStart_def)
      consider "ch = CHR ''&''" "first_char s' = Some (CHR ''&'')" | "ch = CHR ''|''" "first_char s' = Some (CHR ''|'')"
        | "ch = CHR '';''" | "\<not> (ch = CHR ''&'' \<and> first_char s' = Some (CHR ''&''))"
          "\<not> (ch = CHR ''|'' \<and> first_char s' = Some (CHR ''|''))" "ch \<noteq> CHR '';''" by blast
      then show ?thesis
      proof cases
        case 1
        then show ?thesis using Cons Unquoted comment
          by (intro push [of "Some (CHR ''&'')" "drop 1 s'" ChainAnd])
            (auto simp: chain_loop.simps first_char_def split: list.splits)
      next
        case 2
        then show ?thesis using Cons Unquoted comment
          by (intro push [of "Some (CHR ''|'')" "drop 1 s'" ChainOr])
            (auto simp: chain_loop.simps first_char_def split: list.splits)
      next
        case 3
        then show ?thesis using Cons Unquoted comment
          by (intro push [of "Some (CHR '';'')" s' ChainSemi]) (simp_all add: chain_loop.simps)
      next
        case 4
        then show ?thesis using Cons Unquoted comment mode
          by (intro add [of "Some ch" "if ch = bslash then Escaped else if ch = squote then InSingle
              else if ch = dquote then InDouble else Unquoted"])
            (auto simp: chain_loop.simps mode_step.simps)
      qed
    qed
  qed
qed

subsection \<open>Pipelines\<close>

fun simple_token :: "sh_token \<Rightarrow> bool" where
  "simple_token (TWord w) = (Act backtick \<notin> set w)"
| "simple_token TBlank = True"
| "simple_token (TOp c) = False"

definition simple_in :: "sh_mode \<Rightarrow> char \<Rightarrow> bool" where
  "simple_in m c = (if m = MPlain then c \<notin> set sh_operators \<and> c \<noteq> backtick else m = MDouble \<longrightarrow> c \<noteq> backtick)"

lemma simple_add_chars: "list_all simple_token ts \<Longrightarrow> Act backtick \<notin> set xs \<Longrightarrow> list_all simple_token (add_chars xs ts)"
  by (cases ts rule: rev_cases) (auto simp: add_chars_def in_word_def elim: is_word.elims)

lemma simple_open_word: "list_all simple_token ts \<Longrightarrow> list_all simple_token (open_word ts)"
  by (auto simp: open_word_def)

lemma simple_step:
  assumes "list_all simple_token ts" "simple_in m c" "plain_in m c"
  shows "list_all simple_token (snd (sh_step (m, ts) c))"
  using assms
  by (cases m) (auto simp: sh_step.simps simple_in_def simple_add_chars simple_open_word plain_char_def double_char_def)

inductive pipe_raw :: "string list \<Rightarrow> sh_token list \<Rightarrow> bool" where
  pipe_none: "pipe_raw [] []"
| pipe_some: "pipe_raw ss T \<Longrightarrow> sh_lex raw = (MPlain, tr) \<Longrightarrow> plain_command raw \<Longrightarrow> list_all simple_token tr \<Longrightarrow>
    pipe_raw (if js_trim raw \<noteq> [] then ss @ [js_trim raw] else ss) (T @ tr @ [TOp (CHR ''|'')])"

lemma pipe_raw_not_word: "pipe_raw ss T \<Longrightarrow> \<not> in_word T"
  by (induction rule: pipe_raw.induct) (simp_all add: in_word_def)

definition pipe_tokens :: "string \<Rightarrow> pipe_scan \<Rightarrow> sh_mode \<times> sh_token list \<Rightarrow> bool" where
  "pipe_tokens s sc st = (\<exists>T tb. st = (fst st, T @ tb) \<and> plain_from (fst st) s \<and> pipe_raw (ps_segments sc) T \<and>
     sh_lex (ps_buf sc) = (fst st, tb) \<and> plain_command (ps_buf sc) \<and> list_all simple_token tb \<and>
     ps_heredocs sc = [] \<and> \<not> ps_inBody sc)"

definition pipe_inv :: "quote_state \<Rightarrow> string \<Rightarrow> pipe_scan \<Rightarrow> sh_mode \<times> sh_token list \<Rightarrow> bool" where
  "pipe_inv q s sc st = (agrees q (fst st) s \<and> pipe_tokens s sc st)"

lemma pipe_tokens_add:
  assumes "pipe_tokens (ch # s) sc st" and "simple_in (fst st) ch"
  shows "pipe_tokens s (pipe_add [ch] sc) (sh_step st ch)" and "fst (sh_step st ch) = mode_step (fst st) ch"
proof -
  obtain m T tb where st: "st = (m, T @ tb)" and inv: "plain_in m ch" "plain_from (mode_step m ch) s"
    "pipe_raw (ps_segments sc) T" "sh_lex (ps_buf sc) = (m, tb)" "plain_command (ps_buf sc)" "list_all simple_token tb"
    "ps_heredocs sc = []" "\<not> ps_inBody sc"
    using assms(1) by (auto simp: pipe_tokens_def)
  have fst: "fst (sh_step (m, tb) ch) = mode_step m ch" using sh_step_mode [OF inv(1)] .
  have eq: "sh_step st ch = (mode_step m ch, T @ snd (sh_step (m, tb) ch))"
    unfolding st using sh_step_append [OF pipe_raw_not_word [OF inv(3)], of m tb ch] fst by (simp add: prod_eq_iff)
  show "pipe_tokens s (pipe_add [ch] sc) (sh_step st ch)"
    unfolding pipe_tokens_def eq
    using inv lex_add [OF inv(4,5,1)] simple_step [OF inv(6) _ inv(1)] assms(2) st
    by (intro exI [of _ T] exI [of _ "snd (sh_step (m, tb) ch)"]) (simp add: pipe_add_def)
  show "fst (sh_step st ch) = mode_step (fst st) ch" using eq st by simp
qed

lemma pipe_inv_add:
  assumes "pipe_inv q (ch # s) sc st" and "simple_in (fst st) ch" and "agrees q' (mode_step (fst st) ch) s"
  shows "pipe_inv q' s (pipe_add [ch] sc) (sh_step st ch)"
  using assms(2,3) pipe_tokens_add [of ch s sc st] assms(1) by (simp add: pipe_inv_def)

lemma pipe_inv_escape:
  assumes "pipe_inv InDouble (bslash # d # s) sc st" and "fst st = MDouble"
  shows "pipe_inv InDouble s (pipe_add [bslash, d] sc) (foldl sh_step st [bslash, d])"
proof -
  have simple: "simple_in MDouble bslash" "simple_in MDoubleEsc d" by (simp_all add: simple_in_def)
  note 1 = pipe_tokens_add [OF assms(1) [unfolded pipe_inv_def, THEN conjunct2], unfolded assms(2), OF simple(1)]
  have m: "fst (sh_step st bslash) = MDoubleEsc" using 1(2) by (simp add: mode_step.simps)
  note 2 = pipe_tokens_add [OF 1(1), unfolded m, OF simple(2)]
  have "pipe_add [d] (pipe_add [bslash] sc) = pipe_add [bslash, d] sc" by (simp add: pipe_add_def)
  then show ?thesis using m 2 by (simp add: pipe_inv_def mode_step.simps)
qed

lemma pipe_inv_push:
  assumes "pipe_inv Unquoted (CHR ''|'' # s) sc st"
  shows "pipe_inv Unquoted s (pipe_push (sc\<lparr>ps_emptySegment := True\<rparr>)) (sh_step st (CHR ''|''))"
proof -
  obtain T tb where st: "st = (MPlain, T @ tb)" and inv: "plain_from MPlain (CHR ''|'' # s)"
    "pipe_raw (ps_segments sc) T" "sh_lex (ps_buf sc) = (MPlain, tb)" "plain_command (ps_buf sc)" "list_all simple_token tb"
    "ps_heredocs sc = []" "\<not> ps_inBody sc"
    using assms(1) by (auto simp: pipe_inv_def pipe_tokens_def)
  have eq: "sh_step st (CHR ''|'') = (MPlain, (T @ tb @ [TOp (CHR ''|'')]) @ [])"
    unfolding st by (simp add: op_step sh_operators_def)
  have "plain_from MPlain s" using inv(1) by (simp add: mode_step.simps)
  moreover have "pipe_raw (ps_segments (pipe_push (sc\<lparr>ps_emptySegment := True\<rparr>))) (T @ tb @ [TOp (CHR ''|'')])"
    using pipe_some [OF inv(2,3,4,5)] by (simp add: pipe_push_def Let_def split: if_splits)
  moreover have "ps_buf (pipe_push sc') = []" "ps_heredocs (pipe_push sc') = ps_heredocs sc'"
    "ps_inBody (pipe_push sc') = ps_inBody sc'" for sc'
    by (simp_all add: pipe_push_def Let_def)
  ultimately have "pipe_tokens s (pipe_push (sc\<lparr>ps_emptySegment := True\<rparr>)) (MPlain, (T @ tb @ [TOp (CHR ''|'')]) @ [])"
    unfolding pipe_tokens_def using inv(6,7)
    by (intro exI [of _ "T @ tb @ [TOp (CHR ''|'')]"] exI [of _ "[]"]) (simp add: sh_lex_def plain_command_def)
  then show ?thesis unfolding pipe_inv_def eq by simp
qed

declare pipe_loop.simps [simp del]

lemma pipe_loop_inv:
  "pipe_inv q s sc st \<Longrightarrow> pipe_loop prev q s sc = Inr (q', sc') \<Longrightarrow> pipe_inv q' [] sc' (foldl sh_step st s)"
proof (induction "length s" arbitrary: prev q s sc st rule: less_induct)
  case less
  note inv = less.prems(1) and ok = less.prems(2)
  have body: "\<not> ps_inBody sc" and here: "ps_heredocs sc = []" using inv by (auto simp: pipe_inv_def pipe_tokens_def)
  show ?case
  proof (cases s)
    case Nil
    then show ?thesis using inv ok by (auto simp: pipe_loop.simps)
  next
    case (Cons ch s')
    have agr: "agrees q (fst st) s" and ch: "plain_in (fst st) ch"
      using inv Cons by (auto simp: pipe_inv_def pipe_tokens_def)
    have add: ?thesis
      if "pipe_loop prev q s sc = pipe_loop p q2 s' (pipe_add [ch] sc)" "simple_in (fst st) ch"
        "agrees q2 (mode_step (fst st) ch) s'" for p q2
      using less.hyps [of s' q2 "pipe_add [ch] sc" "sh_step st ch" p] pipe_inv_add [OF inv [unfolded Cons] that(2,3)] that(1)
        ok Cons by simp
    show ?thesis
    proof (cases q)
      case Escaped
      then show ?thesis using agr Cons body
        by (intro add [of "Some ch" Unquoted]) (simp_all add: pipe_loop.simps mode_step.simps simple_in_def)
    next
      case InSingle
      then show ?thesis using agr Cons body
        by (intro add [of "Some ch" "if ch = squote then Unquoted else InSingle"])
          (simp_all add: pipe_loop.simps mode_step.simps simple_in_def)
    next
      case InDouble
      have mode: "fst st = MDouble \<or> fst st = MDoubleEsc" using agr InDouble agrees_double by blast
      have tick: "ch \<noteq> backtick" "\<not> (ch = CHR ''$'' \<and> first_char s' = Some (CHR ''(''))" "\<not> (ch = newline \<or> ch = cr)"
        "\<not> (ch = bslash \<and> isEscapedLineContinuation (first_char s'))"
        using ok Cons InDouble body by (auto simp: pipe_loop.simps split: if_splits)
      consider "fst st = MDoubleEsc" | "fst st = MDouble" "ch = bslash" "isDoubleQuoteEscape (first_char s')"
        | "fst st = MDouble" "ch = bslash" "\<not> isDoubleQuoteEscape (first_char s')"
        | "fst st = MDouble" "ch \<noteq> bslash" using mode by blast
      then show ?thesis
      proof cases
        case 1
        then have "ch \<noteq> bslash" "ch \<noteq> dquote" using agr InDouble Cons agrees_escape by auto
        then show ?thesis using 1 Cons InDouble body tick
          by (intro add [of "Some ch" InDouble]) (auto simp: pipe_loop.simps mode_step.simps simple_in_def)
      next
        case 2
        then obtain d s2 where s': "s' = d # s2" by (cases s') (auto simp: isDoubleQuoteEscape_def first_char_def)
        have eq: "pipe_loop prev q s sc = pipe_loop (Some d) InDouble s2 (pipe_add [bslash, d] sc)"
          using 2 Cons InDouble s' body tick by (simp add: pipe_loop.simps first_char_def)
        show ?thesis
          using less.hyps [of s2 InDouble "pipe_add [bslash, d] sc" "foldl sh_step st [bslash, d]" "Some d"]
            pipe_inv_escape [of d s2 sc st] inv 2 Cons InDouble s' eq ok by simp
      next
        case 3
        then have "agrees InDouble MDoubleEsc s'"
          using tick(4) by (cases s') (auto simp: agrees_def first_char_def isEscapedLineContinuation_def
              isDoubleQuoteEscape_def DOUBLE_QUOTE_ESCAPES_def)
        then show ?thesis using 3 Cons InDouble body tick
          by (intro add [of "Some ch" InDouble]) (simp_all add: pipe_loop.simps mode_step.simps simple_in_def)
      next
        case 4
        then show ?thesis using Cons InDouble body tick
          by (intro add [of "Some ch" "if ch = dquote then Unquoted else InDouble"])
            (auto simp: pipe_loop.simps mode_step.simps simple_in_def)
      qed
    next
      case Unquoted
      then have mode: "fst st = MPlain" using agr by simp
      then have comment: "\<not> isShellCommentStart prev ch" "ch \<noteq> CHR ''<''" using ch by (auto simp: isShellCommentStart_def)
      show ?thesis
      proof (cases "ch = CHR ''|''")
        case True
        then have "pipe_loop prev q s sc = pipe_loop (Some ch) q s' (pipe_push (sc\<lparr>ps_emptySegment := True\<rparr>))"
          using ok Cons Unquoted body here comment by (auto simp: pipe_loop.simps split: if_splits)
        then show ?thesis
          using less.hyps [of s' q "pipe_push (sc\<lparr>ps_emptySegment := True\<rparr>)" "sh_step st ch" "Some ch"]
            pipe_inv_push [of s' sc st] inv ok Cons Unquoted True by simp
      next
        case False
        have q2: "ch = bslash \<or> ch = squote \<or> ch = dquote \<or>
            (ch \<notin> set DISALLOWED_PIPELINE_TOKENS \<and> ch \<noteq> CHR ''&'' \<and> ch \<noteq> CHR '';'' \<and>
             \<not> (ch = CHR ''$'' \<and> first_char s' = Some (CHR ''('')))"
          using ok Cons Unquoted body here comment False
          by (auto simp: pipe_loop.simps DISALLOWED_PIPELINE_TOKENS_def split: if_splits)
        then have simple: "simple_in MPlain ch"
          using False by (auto simp: simple_in_def sh_operators_def DISALLOWED_PIPELINE_TOKENS_def)
        show ?thesis using q2 Cons Unquoted comment mode body here False simple
          by (intro add [of "Some ch" "if ch = bslash then Escaped else if ch = squote then InSingle
              else if ch = dquote then InDouble else Unquoted"])
            (auto simp: pipe_loop.simps mode_step.simps)
      qed
    qed
  qed
qed

lemma splitShellPipeline_tokens:
  assumes "splitShellPipeline p = Inr segs" and "plain_command p"
  obtains T raw tr ss where "sh_lex p = (MPlain, T @ tr)" "pipe_raw ss T" "sh_lex raw = (MPlain, tr)" "plain_command raw"
    "list_all simple_token tr" "segs = (if js_trim raw \<noteq> [] then ss @ [js_trim raw] else ss)"
proof -
  let ?sc0 = "\<lparr>ps_buf = [], ps_segments = [], ps_emptySegment = False, ps_heredocs = [], ps_inBody = False, ps_line = [],
          ps_chunks = [], ps_logicalLength = 0\<rparr>"
  obtain q sc where loop: "pipe_loop None Unquoted p ?sc0 = Inr (q, sc)"
    using assms(1) by (auto simp: splitShellPipeline_def split: sum.splits)
  have "pipe_inv Unquoted p ?sc0 (MPlain, [])"
    using assms(2) pipe_none by (auto simp: pipe_inv_def pipe_tokens_def plain_command_def sh_lex_def)
  from pipe_loop_inv [OF this loop] have inv: "pipe_inv q [] sc (sh_lex p)" by (simp add: sh_lex_def)
  then have here: "ps_heredocs sc = []" "\<not> ps_inBody sc" by (auto simp: pipe_inv_def pipe_tokens_def)
  then have q: "q = Unquoted" and segs: "segs = ps_segments (pipe_push sc)"
    using assms(1) loop by (auto simp: splitShellPipeline_def heredoc_tail_def Let_def split: if_splits)
  obtain T tb where "sh_lex p = (MPlain, T @ tb)" "pipe_raw (ps_segments sc) T" "sh_lex (ps_buf sc) = (MPlain, tb)"
    "plain_command (ps_buf sc)" "list_all simple_token tb"
    using inv q unfolding pipe_inv_def pipe_tokens_def by (metis agrees_simps(1))
  then show thesis using segs by (intro that [of T tb "ps_segments sc" "ps_buf sc"]) (auto simp: pipe_push_def Let_def)
qed

subsection \<open>Words\<close>

fun token_text :: "sh_token \<Rightarrow> string list" where
  "token_text (TWord w) = (if w = [] then [] else [map sh_text w])"
| "token_text t = []"

definition word_texts :: "sh_token list \<Rightarrow> string list" where
  "word_texts ts = concat (map token_text ts)"

lemma word_texts_append: "word_texts (a @ b) = word_texts a @ word_texts b"
  by (simp add: word_texts_def)

text \<open>\<open>buf\<close> is the word that is being read.\<close>

definition args_rep :: "string \<Rightarrow> string list \<Rightarrow> sh_token list \<Rightarrow> bool" where
  "args_rep buf tokens ts =
     (if in_word ts then tokens = word_texts (butlast ts) \<and> buf = map sh_text (word_chars (last ts))
      else buf = [] \<and> tokens = word_texts ts)"

lemma in_word_cases:
  obtains xs w where "ts = xs @ [TWord w]" "in_word ts" | "\<not> in_word ts"
  by (cases ts rule: rev_cases) (auto simp: in_word_def elim: is_word.elims)

lemma rep_add: "args_rep buf tokens ts \<Longrightarrow> args_rep (buf @ map sh_text xs) tokens (add_chars xs ts)"
  by (rule in_word_cases [of ts]) (auto simp: args_rep_def add_chars_def in_word_def)

lemma rep_open: "args_rep buf tokens ts \<Longrightarrow> args_rep buf tokens (open_word ts)"
  by (rule in_word_cases [of ts]) (auto simp: args_rep_def open_word_def in_word_def)

lemma rep_push: "args_rep buf tokens ts \<Longrightarrow> push_token buf tokens = word_texts ts"
  by (rule in_word_cases [of ts]) (auto simp: args_rep_def push_token_def word_texts_append, auto simp: word_texts_def)

lemma rep_blank: "args_rep buf tokens ts \<Longrightarrow> args_rep [] (push_token buf tokens) (ts @ [TBlank])"
  using rep_push [of buf tokens ts] by (simp add: args_rep_def in_word_def word_texts_append, simp add: word_texts_def)

lemma step_keeps_op: "TOp c \<in> set ts \<Longrightarrow> TOp c \<in> set (snd (sh_step (m, ts) x))"
proof -
  assume op: "TOp c \<in> set ts"
  have "TOp c \<in> set (add_chars xs ts)" for xs
    using op by (rule_tac in_word_cases [of ts]) (auto simp: add_chars_def)
  moreover have "TOp c \<in> set (open_word ts)" using op by (simp add: open_word_def)
  ultimately show ?thesis using op by (cases m) (auto simp: sh_step.simps)
qed

lemma fold_keeps_op: "TOp c \<in> set (snd st) \<Longrightarrow> TOp c \<in> set (snd (foldl sh_step st s))"
proof (induction s arbitrary: st)
  case (Cons x s)
  then show ?case using step_keeps_op [of c "snd st" "fst st" x] by simp
qed simp

declare split_args.simps [simp del]

lemma split_args_tokens:
  assumes "split_args q buf tokens s = Some out" and "plain_from (mode_of q) s" and "args_rep buf tokens ts"
    and "\<And>c. TOp c \<notin> set (snd (foldl sh_step (mode_of q, ts) s))"
  shows "fst (foldl sh_step (mode_of q, ts) s) = MPlain \<and> out = word_texts (snd (foldl sh_step (mode_of q, ts) s))"
  using assms
proof (induction "length s" arbitrary: q buf tokens s ts rule: less_induct)
  case less
  note ok = less.prems(1) and plain = less.prems(2) and rep = less.prems(3) and simple = less.prems(4)
  show ?case
  proof (cases s)
    case Nil
    then show ?thesis using ok rep_push [OF rep] by (auto simp: split_args.simps split: if_splits)
  next
    case (Cons ch s')
    have step: ?thesis
      if "split_args q buf tokens s = split_args q2 buf2 tokens2 s2" "foldl sh_step (mode_of q, ts) s = foldl sh_step (mode_of q2, ts2) s2"
        "length s2 < length s" "plain_from (mode_of q2) s2" "args_rep buf2 tokens2 ts2" for q2 buf2 tokens2 s2 ts2
      using less.hyps [of s2 q2 buf2 tokens2 ts2] that ok simple by simp
    show ?thesis
    proof (cases q)
      case Escaped
      then show ?thesis using Cons plain rep_add [OF rep, of "[Lit ch]"]
        by (intro step [of Unquoted "buf @ [ch]" tokens s' "add_chars [Lit ch] ts"])
          (auto simp: split_args.simps sh_step.simps mode_step.simps)
    next
      case InSingle
      then show ?thesis using Cons plain rep_add [OF rep, of "[Lit ch]"] rep
        by (intro step [of "if ch = squote then Unquoted else InSingle" "if ch = squote then buf else buf @ [ch]" tokens s'
              "if ch = squote then ts else add_chars [Lit ch] ts"])
          (auto simp: split_args.simps sh_step.simps mode_step.simps)
    next
      case InDouble
      consider d s2 where "ch = bslash" "s' = d # s2" "isDoubleQuoteEscape_args (Some d)"
        | d s2 where "ch = bslash" "s' = d # s2" "\<not> isDoubleQuoteEscape_args (Some d)"
        | "ch = bslash" "s' = []" | "ch \<noteq> bslash"
        by (cases s') auto
      then show ?thesis
      proof cases
        case (1 d s2)
        then have "d \<in> set [bslash, dquote, CHR ''$'', backtick]" using plain Cons InDouble
          by (auto simp: isDoubleQuoteEscape_args_def mode_step.simps)
        then show ?thesis using 1 Cons InDouble plain rep_add [OF rep, of "[Lit d]"]
          by (intro step [of InDouble "buf @ [d]" tokens s2 "add_chars [Lit d] ts"])
            (auto simp: split_args.simps sh_step.simps mode_step.simps first_char_def)
      next
        case (2 d s2)
        then have "d \<notin> set [bslash, dquote, CHR ''$'', backtick, newline]"
          by (auto simp: isDoubleQuoteEscape_args_def)
        then show ?thesis using 2 Cons InDouble plain rep_add [OF rep, of "[Lit bslash, Lit d]"]
          by (intro step [of InDouble "(buf @ [bslash]) @ [d]" tokens s2 "add_chars [Lit bslash, Lit d] ts"])
            (auto simp: split_args.simps sh_step.simps mode_step.simps first_char_def)
      next
        case 3
        then show ?thesis using ok Cons InDouble
          by (simp add: split_args.simps first_char_def isDoubleQuoteEscape_args_def)
      next
        case 4
        have "sh_text (double_char ch) = ch" by (simp add: double_char_def)
        then show ?thesis using 4 Cons InDouble plain rep_add [OF rep, of "[double_char ch]"] rep
          by (intro step [of "if ch = dquote then Unquoted else InDouble" "if ch = dquote then buf else buf @ [ch]" tokens s'
              "if ch = dquote then ts else add_chars [double_char ch] ts"])
            (auto simp: split_args.simps sh_step.simps mode_step.simps)
      qed
    next
      case Unquoted
      then have mode: "mode_of q = MPlain" by simp
      have hash: "ch \<noteq> CHR ''#''" and space: "js_is_space ch \<longleftrightarrow> sh_blank ch"
        using plain Cons mode by (auto simp: sh_blank_def js_is_space_def)
      consider "ch \<in> set sh_operators" | "sh_blank ch" | "ch \<notin> set sh_operators" "\<not> sh_blank ch" by blast
      then show ?thesis
      proof cases
        case 1
        then have "TOp ch \<in> set (snd (foldl sh_step (mode_of q, ts) s))"
          using fold_keeps_op [of ch "sh_step (MPlain, ts) ch" s'] op_step [OF 1, of ts] Cons mode by simp
        then show ?thesis using simple by blast
      next
        case 2
        then show ?thesis
          using Cons plain mode rep_blank [OF rep] hash space blank_step [OF 2]
          by (intro step [of Unquoted "[]" "push_token buf tokens" s' "ts @ [TBlank]"])
            (auto simp: split_args.simps sh_blank_def Unquoted)
      next
        case 3
        have same: "sh_text (plain_char ch) = ch" by (simp add: plain_char_def)
        note facts = 3 Cons plain mode hash space
        consider "ch = bslash" | "ch = squote" | "ch = dquote" | "ch \<noteq> bslash" "ch \<noteq> squote" "ch \<noteq> dquote" by blast
        then show ?thesis
        proof cases
          case 1
          then show ?thesis using facts rep by (intro step [of Escaped buf tokens s' ts]) (auto simp: split_args.simps sh_step.simps mode_step.simps Unquoted)
        next
          case 2
          then show ?thesis using facts rep_open [OF rep] by (intro step [of InSingle buf tokens s' "open_word ts"]) (auto simp: split_args.simps sh_step.simps mode_step.simps Unquoted)
        next
          case 3
          then show ?thesis using facts rep_open [OF rep] by (intro step [of InDouble buf tokens s' "open_word ts"]) (auto simp: split_args.simps sh_step.simps mode_step.simps Unquoted)
        next
          case 4
          then show ?thesis using facts rep_add [OF rep, of "[plain_char ch]"] same
            by (intro step [of Unquoted "buf @ [ch]" tokens s' "add_chars [plain_char ch] ts"]) (auto simp: split_args.simps sh_step.simps mode_step.simps Unquoted)
        qed
      qed
    qed
  qed
qed

subsection \<open>Putting the passes together\<close>

definition ends_op :: "sh_token list \<Rightarrow> bool" where
  "ends_op T = (T = [] \<or> (\<exists>T' c. T = T' @ [TOp c]))"

text \<open>The operators are \<open>|\<close>, \<open>||\<close>, \<open>&&\<close> and \<open>;\<close>: a single \<open>&\<close> never occurs.\<close>

fun connectors_only :: "sh_token list \<Rightarrow> bool" where
  "connectors_only [] = True"
| "connectors_only (TOp c # ts) =
     (if c = CHR ''&'' then (case ts of TOp d # ts' \<Rightarrow> d = CHR ''&'' \<and> connectors_only ts' | _ \<Rightarrow> False)
      else (c = CHR ''|'' \<or> c = CHR '';'') \<and> connectors_only ts)"
| "connectors_only (t # ts) = connectors_only ts"

lemma connectors_append: "connectors_only a \<Longrightarrow> connectors_only b \<Longrightarrow> connectors_only (a @ b)"
  by (induction a rule: connectors_only.induct) (auto split: list.splits sh_token.splits if_splits)

lemma connectors_simple: "list_all simple_token ts \<Longrightarrow> connectors_only ts"
proof (induction ts)
  case (Cons t ts)
  then show ?case by (cases t) auto
qed simp

lemma connectors_chain: "connectors_only (map TOp (chain_string oper))"
  by (cases oper) simp_all

lemma sh_argvs_ends: "ends_op T \<Longrightarrow> sh_argvs (T @ ts) = sh_argvs T @ sh_argvs ts"
proof -
  assume "ends_op T"
  then consider "T = []" | T' c where "T = T' @ [TOp c]" by (auto simp: ends_op_def)
  then show ?thesis
  proof cases
    case 1
    then show ?thesis by (simp add: sh_argvs_def sh_commands_def)
  next
    case (2 T' c)
    then show ?thesis using sh_commands_op [of T' c ts] sh_commands_op [of T' c "[]"]
      by (simp add: sh_argvs_def) (simp add: sh_commands_def)
  qed
qed

lemma sh_argvs_blanks: "set b1 \<subseteq> {TBlank} \<Longrightarrow> set b2 \<subseteq> {TBlank} \<Longrightarrow> sh_argvs (b1 @ ts @ b2) = sh_argvs ts"
  by (simp add: sh_argvs_def sh_commands_blanks)

lemma connectors_blanks: "set b1 \<subseteq> {TBlank} \<Longrightarrow> set b2 \<subseteq> {TBlank} \<Longrightarrow> connectors_only ts \<Longrightarrow> connectors_only (b1 @ ts @ b2)"
proof -
  have "connectors_only b" if "set b \<subseteq> {TBlank}" for b using that by (induction b) auto
  then show "set b1 \<subseteq> {TBlank} \<Longrightarrow> set b2 \<subseteq> {TBlank} \<Longrightarrow> connectors_only ts \<Longrightarrow> connectors_only (b1 @ ts @ b2)"
    by (simp add: connectors_append)
qed

lemma commands_simple:
  "list_all simple_token ts \<Longrightarrow> commands_from ws ts =
    (let all = ws @ concat (map (\<lambda>t. case t of TWord w \<Rightarrow> [w] | _ \<Rightarrow> []) ts) in if all = [] then [] else [all])"
proof (induction ts arbitrary: ws)
  case (Cons t ts)
  then show ?case by (cases t) (simp_all add: Let_def)
qed simp

lemma texts_filter:
  "filter (\<lambda>w. w \<noteq> []) (map (map sh_text) (concat (map (\<lambda>t. case t of TWord w \<Rightarrow> [w] | _ \<Rightarrow> []) ts))) = word_texts ts"
proof (induction ts)
  case (Cons t ts)
  then show ?case by (cases t) (auto simp: word_texts_def)
qed (simp add: word_texts_def)

lemma simple_argvs: "list_all simple_token ts \<Longrightarrow> word_texts ts \<noteq> [] \<Longrightarrow> sh_argvs ts = [word_texts ts]"
proof -
  assume simple: "list_all simple_token ts" and some: "word_texts ts \<noteq> []"
  let ?ws = "concat (map (\<lambda>t. case t of TWord w \<Rightarrow> [w] | _ \<Rightarrow> []) ts)"
  have "?ws \<noteq> []" using texts_filter [of ts] some by (metis filter.simps(1) list.map(1))
  then have "sh_commands ts = [?ws]" using commands_simple [OF simple, of "[]"] unfolding sh_commands_def Let_def
    by (simp only: append_Nil if_False)
  then show ?thesis using texts_filter [of ts] by (simp only: sh_argvs_def list.map)
qed

lemma trim_no_op:
  assumes "plain_command raw" and "TOp c \<in> set (snd (sh_lex (js_trim raw)))"
  shows "TOp c \<in> set (snd (sh_lex raw))"
proof -
  obtain w1 w2 where w: "raw = w1 @ js_trim raw @ w2" "\<forall>c\<in>set w1. js_is_space c" by (rule trim_parts)
  have "plain_from MPlain (w1 @ js_trim raw @ w2)" using assms(1) w(1) by (simp add: plain_command_def)
  then have 1: "plain_from MPlain w1" by (simp only: plain_from_append)
  have "sh_lex (w1 @ js_trim raw) = map_prod id ((@) (replicate (length w1) TBlank)) (sh_lex (js_trim raw))"
    using spaces_lex(1) [OF 1 w(2), of "[]"] sh_fold_fresh [OF blanks_not_word [OF replicate_blanks]]
    by (simp add: sh_lex_def)
  then have "TOp c \<in> set (snd (sh_lex (w1 @ js_trim raw)))" using assms(2) by simp
  then have "TOp c \<in> set (snd (sh_lex ((w1 @ js_trim raw) @ w2)))"
    unfolding sh_lex_append [of "w1 @ js_trim raw"] by (rule fold_keeps_op)
  then show ?thesis using w(1) by simp
qed

lemma segment_tokens:
  assumes "splitShellArgs (js_trim raw) = Some argv" "argv \<noteq> []" "sh_lex raw = (MPlain, tr)" "plain_command raw"
    "list_all simple_token tr"
  shows "sh_argvs tr = [argv]"
proof -
  have no_op: "TOp c \<notin> set (snd (foldl sh_step (mode_of Unquoted, []) (js_trim raw)))" for c
    using trim_no_op [OF assms(4), of c] assms(3,5) by (force simp: sh_lex_def list_all_iff)
  have "args_rep [] [] []" by (simp add: args_rep_def in_word_def word_texts_def)
  then have lex: "fst (sh_lex (js_trim raw)) = MPlain" "argv = word_texts (snd (sh_lex (js_trim raw)))"
    using split_args_tokens [OF assms(1) [unfolded splitShellArgs_def], of "[]"] no_op plain_trim [OF assms(4)]
    by (simp_all add: sh_lex_def plain_command_def)
  obtain b1 b2 where b: "set b1 \<subseteq> {TBlank}" "set b2 \<subseteq> {TBlank}" "tr = b1 @ snd (sh_lex (js_trim raw)) @ b2"
    using trim_lex [OF assms(4) lex(1)] assms(3) by (metis snd_conv)
  have "word_texts b = []" if "set b \<subseteq> {TBlank}" for b using that by (induction b) (auto simp: word_texts_def)
  then have "word_texts tr = argv" using b lex(2) by (simp add: word_texts_append)
  then show ?thesis using simple_argvs [OF assms(5)] assms(2) by simp
qed

lemma parse_append:
  "parseSegmentsFromParts resolve (ss @ [x]) = Some segl \<Longrightarrow>
    \<exists>l seg. parseSegmentsFromParts resolve ss = Some l \<and> segl = l @ [seg] \<and> splitShellArgs x = Some (sg_argv seg) \<and>
      sg_argv seg \<noteq> []"
proof (induction ss arbitrary: segl)
  case Nil
  then show ?case by (auto split: option.splits if_splits intro!: exI)
next
  case (Cons y ss)
  obtain argv rest where y: "splitShellArgs y = Some argv" "argv \<noteq> []" "parseSegmentsFromParts resolve (ss @ [x]) = Some rest"
    "segl = \<lparr>sg_raw = y, sg_argv = argv, sg_sourceArgv = None, sg_resolution = resolve argv\<rparr> # rest"
    using Cons.prems by (auto split: option.splits if_splits)
  show ?case using Cons.IH [OF y(3)] y by auto
qed

lemma blanks_argvs: "plain_command raw \<Longrightarrow> js_trim raw = [] \<Longrightarrow> sh_argvs (snd (sh_lex raw)) = []"
proof -
  assume raw: "plain_command raw" "js_trim raw = []"
  have "fst (sh_lex (js_trim raw)) = MPlain" using raw(2) by (simp add: sh_lex_def)
  then obtain b1 b2 where "set b1 \<subseteq> {TBlank}" "set b2 \<subseteq> {TBlank}" "sh_lex raw = (MPlain, b1 @ [] @ b2)"
    using trim_lex [OF raw(1)] raw(2) by (metis snd_conv sh_lex_def foldl_Nil)
  then show ?thesis using sh_argvs_blanks [of b1 b2 "[]"] by (simp add: sh_argvs_def sh_commands_def)
qed

lemma pipe_segment:
  assumes "sh_lex raw = (MPlain, tr)" "plain_command raw" "list_all simple_token tr"
    and "parseSegmentsFromParts resolve (if js_trim raw \<noteq> [] then ss @ [js_trim raw] else ss) = Some segl"
  obtains l where "parseSegmentsFromParts resolve ss = Some l" "map sg_argv segl = map sg_argv l @ sh_argvs tr"
proof (cases "js_trim raw = []")
  case True
  then show ?thesis using that [of segl] assms blanks_argvs [of raw] by simp
next
  case False
  then obtain l seg where "parseSegmentsFromParts resolve ss = Some l" "segl = l @ [seg]"
    "splitShellArgs (js_trim raw) = Some (sg_argv seg)" "sg_argv seg \<noteq> []"
    using parse_append [of resolve ss "js_trim raw" segl] assms(4) by auto
  then show ?thesis using that [of l] segment_tokens [OF _ _ assms(1-3)] by simp
qed

lemma pipe_raw_argvs:
  "pipe_raw ss T \<Longrightarrow> parseSegmentsFromParts resolve ss = Some segl \<Longrightarrow>
    sh_argvs T = map sg_argv segl \<and> connectors_only T \<and> ends_op T"
proof (induction arbitrary: segl rule: pipe_raw.induct)
  case pipe_none
  then show ?case by (simp add: sh_argvs_def sh_commands_def ends_op_def)
next
  case (pipe_some ss T raw tr)
  obtain l where l: "parseSegmentsFromParts resolve ss = Some l" "map sg_argv segl = map sg_argv l @ sh_argvs tr"
    by (rule pipe_segment [OF pipe_some.hyps(2,3,4) pipe_some.prems])
  note IH = pipe_some.IH [OF l(1)]
  have "sh_argvs (tr @ [TOp (CHR ''|'')]) = sh_argvs tr"
    using sh_commands_op [of tr "CHR ''|''" "[]"] by (simp add: sh_argvs_def) (simp add: sh_commands_def)
  moreover have "connectors_only (tr @ [TOp (CHR ''|'')])"
    using connectors_simple [OF pipe_some.hyps(4)] by (simp add: connectors_append)
  ultimately show ?case
    using IH l sh_argvs_ends [of T "tr @ [TOp (CHR ''|'')]"] connectors_append [of T "tr @ [TOp (CHR ''|'')]"]
    by (auto simp: ends_op_def)
qed

lemma part_tokens:
  assumes "analyze_part resolve p = Inr segl" and "plain_command p"
  obtains ts where "sh_lex p = (MPlain, ts)" "sh_argvs ts = map sg_argv segl" "connectors_only ts"
proof -
  obtain segs where segs: "splitShellPipeline p = Inr segs" "parseSegmentsFromParts resolve segs = Some segl"
    using assms(1) by (auto simp: analyze_part_def split: sum.splits option.splits)
  obtain T raw tr ss where t: "sh_lex p = (MPlain, T @ tr)" "pipe_raw ss T" "sh_lex raw = (MPlain, tr)" "plain_command raw"
    "list_all simple_token tr" "segs = (if js_trim raw \<noteq> [] then ss @ [js_trim raw] else ss)"
    by (rule splitShellPipeline_tokens [OF segs(1) assms(2)])
  obtain l where l: "parseSegmentsFromParts resolve ss = Some l" "map sg_argv segl = map sg_argv l @ sh_argvs tr"
    by (rule pipe_segment [OF t(3,4,5) segs(2) [unfolded t(6)]])
  note T = pipe_raw_argvs [OF t(2) l(1)]
  show thesis
    using that [OF t(1)] l(2) T sh_argvs_ends [of T tr] connectors_append [of T tr] connectors_simple [OF t(5)] by simp
qed

text \<open>What a POSIX shell runs for a text, if nothing but simple commands and connectors is in it.\<close>

definition sh_runs :: "string \<Rightarrow> string list list \<Rightarrow> bool" where
  "sh_runs text argvs = (fst (sh_lex text) = MPlain \<and> sh_argvs (snd (sh_lex text)) = argvs \<and> connectors_only (snd (sh_lex text)))"

lemma trimmed_runs:
  assumes "sh_runs (js_trim raw) argvs" and "plain_command raw"
  shows "sh_runs raw argvs"
proof -
  obtain b1 b2 where "set b1 \<subseteq> {TBlank}" "set b2 \<subseteq> {TBlank}" "sh_lex raw = (MPlain, b1 @ snd (sh_lex (js_trim raw)) @ b2)"
    by (rule trim_lex [OF assms(2)]) (use assms(1) in \<open>simp_all add: sh_runs_def\<close>)
  then show ?thesis using assms(1) sh_argvs_blanks connectors_blanks by (simp add: sh_runs_def)
qed

definition part_runs :: "chain_part \<Rightarrow> string list list \<Rightarrow> bool" where
  "part_runs part argvs = (plain_command (fst part) \<longrightarrow> sh_runs (fst part) argvs)"

lemma chain_raw_runs:
  "chain_raw ps T \<Longrightarrow> list_all2 part_runs ps argvss \<Longrightarrow> sh_argvs T = concat argvss \<and> connectors_only T \<and> ends_op T"
proof (induction arbitrary: argvss rule: chain_raw.induct)
  case chain_none
  then show ?case by (auto simp: sh_argvs_def sh_commands_def ends_op_def)
next
  case (chain_some ps T raw tr oper)
  obtain first argvs where argvss: "argvss = first @ [argvs]" "list_all2 part_runs ps first" "part_runs (js_trim raw, Some oper) argvs"
    using chain_some.prems by (auto simp: list_all2_append1 list_all2_Cons1)
  note IH = chain_some.IH [OF argvss(2)]
  have "sh_runs (js_trim raw) argvs" using argvss(3) plain_trim [OF chain_some.hyps(3)] by (simp add: part_runs_def)
  from trimmed_runs [OF this chain_some.hyps(3)]
  have tr: "sh_argvs tr = argvs" "connectors_only tr" using chain_some.hyps(2) by (simp_all add: sh_runs_def)
  have op: "sh_argvs (tr @ map TOp (chain_string oper)) = sh_argvs tr"
    using sh_commands_op [of tr] by (cases oper) (simp_all add: sh_argvs_def, simp_all add: sh_commands_def)
  have "connectors_only (tr @ map TOp (chain_string oper))" using tr(2) connectors_chain by (rule connectors_append)
  moreover have "ends_op (T @ tr @ map TOp (chain_string oper))"
    by (cases oper) (auto simp: ends_op_def)
  ultimately show ?case
    using IH argvss(1) tr(1) op sh_argvs_ends [of T "tr @ map TOp (chain_string oper)"]
      connectors_append [of T "tr @ map TOp (chain_string oper)"] by simp
qed

text \<open>A chain runs what its parts run.\<close>

lemma chain_runs:
  assumes "splitCommandChainWithOperators command = Some parts" and "list_all2 part_runs parts argvss" and "plain_command command"
  shows "sh_runs command (concat argvss)"
proof -
  define sc where "sc = chain_loop None Unquoted command \<lparr>cs_buf = [], cs_parts = [], cs_foundChain = False, cs_invalidChain = False\<rparr>"
  have sc: "\<not> cs_invalidChain sc" "parts = cs_parts sc @ [(js_trim (cs_buf sc), None)]"
    using assms(1) by (auto simp: splitCommandChainWithOperators_def Let_def sc_def split: if_splits)
  have "chain_inv Unquoted command \<lparr>cs_buf = [], cs_parts = [], cs_foundChain = False, cs_invalidChain = False\<rparr> (MPlain, [])"
    using assms(3) chain_none by (auto simp: chain_inv_def chain_tokens_def plain_command_def sh_lex_def)
  from chain_loop_inv [OF this, of None] sc(1) obtain q where "chain_inv q [] sc (sh_lex command)"
    by (auto simp: sc_def sh_lex_def)
  then obtain T tb where t: "sh_lex command = (fst (sh_lex command), T @ tb)" "chain_raw (cs_parts sc) T"
    "sh_lex (cs_buf sc) = (fst (sh_lex command), tb)" "plain_command (cs_buf sc)"
    by (auto simp: chain_inv_def chain_tokens_def)
  obtain first argvs where argvss: "argvss = first @ [argvs]" "list_all2 part_runs (cs_parts sc) first"
    "part_runs (js_trim (cs_buf sc), None) argvs"
    using assms(2) sc(2) by (auto simp: list_all2_append1 list_all2_Cons1)
  have "sh_runs (js_trim (cs_buf sc)) argvs" using argvss(3) plain_trim [OF t(4)] by (simp add: part_runs_def)
  note last = trimmed_runs [OF this t(4), unfolded sh_runs_def] and first = chain_raw_runs [OF t(2) argvss(2)]
  have "snd (sh_lex command) = T @ tb" "fst (sh_lex command) = MPlain" using t(1,3) last by (simp_all add: prod_eq_iff)
  then show ?thesis using first last t(3) argvss(1) sh_argvs_ends [of T tb] connectors_append [of T tb] by (simp add: sh_runs_def)
qed

lemma part_analysis_runs:
  assumes "analyze_part resolve p = Inr segl" and "plain_command p"
  shows "sh_runs p (map sg_argv segl)"
proof -
  obtain ts where "sh_lex p = (MPlain, ts)" "sh_argvs ts = map sg_argv segl" "connectors_only ts"
    by (rule part_tokens [OF assms])
  then show ?thesis by (simp add: sh_runs_def)
qed

lemma analyze_parts_run: "analyze_parts resolve (map fst parts) = Inr grps \<Longrightarrow> list_all2 part_runs parts (map (map sg_argv) grps)"
proof (induction parts arbitrary: grps)
  case (Cons q parts)
  obtain c cs where q: "analyze_part resolve (fst q) = Inr c" "analyze_parts resolve (map fst parts) = Inr cs" "grps = c # cs"
    using Cons.prems by (cases "analyze_parts resolve (map fst parts)") (auto split: sum.splits)
  show ?case using Cons.IH [OF q(2)] q part_analysis_runs by (simp add: part_runs_def)
qed simp

lemma analysis_runs:
  assumes "plain_command command" and "analyzeShellCommand resolve command = Inr analysis"
  shows "sh_runs command (map sg_argv (an_segments analysis))"
proof (cases "splitCommandChainWithOperators command")
  case None
  then obtain segl where "analyze_part resolve command = Inr segl" "an_segments analysis = segl"
    using assms(2) by (cases "analyze_part resolve command") (auto simp: analyzeShellCommand_def splitCommandChain_def)
  then show ?thesis using part_analysis_runs assms(1) by simp
next
  case (Some parts)
  then obtain grps where "analyze_parts resolve (map fst parts) = Inr grps" "an_segments analysis = concat grps"
    using assms(2) by (cases "analyze_parts resolve (map fst parts)")
      (auto simp: analyzeShellCommand_def splitCommandChain_def)
  then show ?thesis using chain_runs [OF Some analyze_parts_run assms(1)] by (simp add: map_concat)
qed

definition plain_sample :: string where
  "plain_sample = ''git log --author='' @ [squote] @ ''A B; rm x'' @ [squote] @ '' | head -n '' @ [dquote] @ ''$N'' @ [dquote] @ '' && echo a'' @ [bslash] @ '';b''"

text \<open>C24: what the shell would run is what was analysed. For a command that is plain outside of its
  quotes and whose analysis succeeds, a POSIX shell reads exactly the analysed segments as its
  simple commands, word by word (words without characters left out), and finds no other operators than
  \<open>|\<close>, \<open>||\<close>, \<open>&&\<close> and \<open>;\<close>: no background job, redirection, subshell or further line.\<close>

theorem analysis_matches_shell:
  assumes "plain_command command" and "analyzeShellCommand resolve command = Inr analysis"
  shows "fst (sh_lex command) = MPlain \<and> sh_argvs (snd (sh_lex command)) = map sg_argv (an_segments analysis)
    \<and> connectors_only (snd (sh_lex command))"
  using analysis_runs [OF assms] by (simp add: sh_runs_def)

theorem analysis_matches_shell_witness:
  "\<exists>analysis. analyzeShellCommand (\<lambda>argv. None) plain_sample = Inr analysis
    \<and> sh_argvs (snd (sh_lex plain_sample)) = map sg_argv (an_segments analysis) \<and> length (an_segments analysis) = 3"
proof -
  have plain: "plain_command plain_sample" by code_simp
  have "map_sum id (\<lambda>a. length (an_segments a)) (analyzeShellCommand (\<lambda>argv. None) plain_sample) = Inr 3" by code_simp
  then obtain analysis where "analyzeShellCommand (\<lambda>argv. None) plain_sample = Inr analysis" "length (an_segments analysis) = 3"
    by (cases "analyzeShellCommand (\<lambda>argv. None) plain_sample") auto
  then show ?thesis using analysis_matches_shell [OF plain] by blast
qed

subsection \<open>Where they disagree\<close>

definition analysed :: "string \<Rightarrow> string + string list list" where
  "analysed command = map_sum id (\<lambda>a. map sg_argv (an_segments a)) (analyzeShellCommand (\<lambda>argv. None) command)"

text \<open>A comment ends at the line end; the analysis stops reading at the comment.\<close>

lemma comment_hides_next_line:
  "analysed (''ls #'' @ [newline] @ ''rm x'') = Inr [[''ls'']]
    \<and> sh_argvs (snd (sh_lex (''ls #'' @ [newline] @ ''rm x''))) = [[''ls''], [''rm'', ''x'']]"
  by code_simp

text \<open>A vertical tab is no blank of the shell, so the number sign after it starts no comment.\<close>

lemma vertical_tab_hides_rest:
  "analysed (''echo a'' @ [CHR 0x0B] @ ''#;rm x'') = Inr [[''echo'', ''a'']]
    \<and> sh_argvs (snd (sh_lex (''echo a'' @ [CHR 0x0B] @ ''#;rm x''))) = [[''echo'', ''a'' @ [CHR 0x0B] @ ''#''], [''rm'', ''x'']]"
  by code_simp

text \<open>Nor does a number sign after empty quotes; and arguments that are empty are lost.\<close>

lemma empty_quotes_hide_arguments:
  "analysed (''echo '' @ [squote, squote] @ ''#x y'') = Inr [[''echo'']]
    \<and> sh_argvs (snd (sh_lex (''echo '' @ [squote, squote] @ ''#x y''))) = [[''echo'', ''#x'', ''y'']]"
  by code_simp

text \<open>
  The shells bash, ksh and zsh read \<open>$'...'\<close> as one word in which a backslash escapes a quote.
\<close>

datatype bash_mode = Posix sh_mode | Ansi | AnsiEscaped

fun bash_step :: "bash_mode \<times> sh_token list \<Rightarrow> char \<Rightarrow> bash_mode \<times> sh_token list" where
  "bash_step (Posix m, ts) c =
     (if m = MPlain \<and> c = squote \<and> in_word ts \<and> word_chars (last ts) \<noteq> [] \<and> last (word_chars (last ts)) = Act (CHR ''$'')
      then (Ansi, butlast ts @ [TWord (butlast (word_chars (last ts)))])
      else map_prod Posix id (sh_step (m, ts) c))"
| "bash_step (Ansi, ts) c =
     (if c = squote then (Posix MPlain, ts) else if c = bslash then (AnsiEscaped, ts) else (Ansi, add_chars [Lit c] ts))"
| "bash_step (AnsiEscaped, ts) c = (Ansi, add_chars [Lit c] ts)"

definition bash_lex :: "string \<Rightarrow> bash_mode \<times> sh_token list" where
  "bash_lex s = foldl bash_step (Posix MPlain, []) s"

lemma ansi_quotes_hide_commands:
  "let command = ''echo $'' @ [squote, bslash, squote, squote] @ '' ; rm x ; echo '' @ [squote] @ ''x'' @ [squote, bslash, squote]
    in map_sum id length (analysed command) = Inr 1
      \<and> sh_argvs (snd (bash_lex command)) = [[''echo'', [squote]], [''rm'', ''x''], [''echo'', ''x'' @ [squote]]]"
  by code_simp

end
