(* ===== verification/ShellEnforced.thy ===== *)
theory ShellEnforced
  imports ShellSound
begin

section \<open>Enforced commands\<close>

text \<open>
  A command that is put together from an approved plan is one the reference lexer reads as exactly
  that plan: every word literal, joined by the operators of the source.
\<close>

subsection \<open>Quoted words\<close>

lemma escape_chars:
  "foldl sh_step (MSingle, ts @ [TWord w])
      (concat (map (\<lambda>c. if c = squote then [squote, dquote, squote, dquote, squote] else [c]) v) @ [squote]) =
    (MPlain, ts @ [TWord (w @ map Lit v)])"
proof (induction v arbitrary: w)
  case Nil
  then show ?case by (simp add: sh_step.simps)
next
  case (Cons c v)
  have "foldl sh_step (MSingle, ts @ [TWord w]) (if c = squote then [squote, dquote, squote, dquote, squote] else [c]) =
      (MSingle, ts @ [TWord (w @ [Lit c])])"
    by (simp add: sh_step.simps open_word_def add_chars_def in_word_def double_char_def)
  then show ?case using Cons.IH [of "w @ [Lit c]"] by simp
qed

lemma escape_lex:
  "\<not> in_word ts \<Longrightarrow> foldl sh_step (MPlain, ts) (shellEscapeSingleArg v) = (MPlain, ts @ [TWord (map Lit v)])"
  using escape_chars [of ts "[]" v] by (simp add: shellEscapeSingleArg_def sh_step.simps open_word_def)

fun word_tokens :: "string list \<Rightarrow> sh_token list" where
  "word_tokens [] = []"
| "word_tokens [v] = [TWord (map Lit v)]"
| "word_tokens (v # vs) = TWord (map Lit v) # TBlank # word_tokens vs"

lemma blank_not_word [simp]: "\<not> in_word (ts @ [TBlank])" "\<not> in_word (ts @ [a, TBlank])" "\<not> in_word (ts @ [a, b, TBlank])"
  by (simp_all add: in_word_def)

lemma argv_lex:
  "argv \<noteq> [] \<Longrightarrow> \<not> in_word ts \<Longrightarrow> foldl sh_step (MPlain, ts) (renderQuotedArgv argv) = (MPlain, ts @ word_tokens argv)"
proof (induction argv arbitrary: ts rule: word_tokens.induct)
  case (3 v u vs)
  have "foldl sh_step (MPlain, ts) (shellEscapeSingleArg v @ '' '') = (MPlain, ts @ [TWord (map Lit v), TBlank])"
    using escape_lex [OF 3(3), of v] by (simp add: blank_step sh_blank_def)
  then show ?case using 3(1) [of "ts @ [TWord (map Lit v), TBlank]"] by (simp add: renderQuotedArgv_def)
qed (simp_all add: renderQuotedArgv_def escape_lex)

lemma word_tokens_commands: "commands_from ws (word_tokens argv) = (let all = ws @ map (map Lit) argv in if all = [] then [] else [all])"
  by (induction argv arbitrary: ws rule: word_tokens.induct) (simp_all add: Let_def)

lemma op_runs_some: "op_runs (TOp c # ts) \<noteq> []"
  by (cases "TOp c # ts" rule: op_runs.cases) (auto split: list.splits)

lemma op_runs_blank: "op_runs (a @ TBlank # b) = op_runs a @ op_runs b"
  by (induction a rule: op_runs.induct) (auto simp: op_runs_some split: list.splits)

lemma op_runs_words: "op_runs (word_tokens argv) = []"
  by (induction argv rule: word_tokens.induct) simp_all

lemma sh_commands_blank: "sh_commands (TBlank # ts) = sh_commands ts" "sh_commands (ts @ [TBlank]) = sh_commands ts"
  using sh_commands_blanks [of "[TBlank]" "[]" ts] sh_commands_blanks [of "[]" "[TBlank]" ts] by simp_all

text \<open>Two command lists with an operator between blanks.\<close>

lemma join_tokens:
  assumes "oper \<noteq> []"
  shows "sh_commands (a @ TBlank # map TOp oper @ TBlank # b) = sh_commands a @ sh_commands b"
    and "op_runs (a @ TBlank # map TOp oper @ TBlank # b) = op_runs a @ oper # op_runs b"
proof -
  have ops: "sh_commands (map TOp os @ TBlank # b) = sh_commands b" for os
    by (induction os) (simp_all add: sh_commands_blank, simp add: sh_commands_def)
  obtain c os where oper: "oper = c # os" using assms by (cases oper) auto
  show "sh_commands (a @ TBlank # map TOp oper @ TBlank # b) = sh_commands a @ sh_commands b"
    using sh_commands_op [of "a @ [TBlank]" c "map TOp os @ TBlank # b"] by (simp add: oper ops sh_commands_blank)
  have run: "op_runs (map TOp (d # os)) = [d # os]" for d
    by (induction os arbitrary: d) simp_all
  have "op_runs (map TOp oper @ TBlank # b) = oper # op_runs b" unfolding op_runs_blank oper run by simp
  then show "op_runs (a @ TBlank # map TOp oper @ TBlank # b) = op_runs a @ oper # op_runs b"
    by (simp add: op_runs_blank)
qed

subsection \<open>Pipelines and chains\<close>

fun pipe_tokens_of :: "string list list \<Rightarrow> sh_token list" where
  "pipe_tokens_of [] = []"
| "pipe_tokens_of [argv] = word_tokens argv"
| "pipe_tokens_of (argv # argvs) = word_tokens argv @ TBlank # map TOp ''|'' @ TBlank # pipe_tokens_of argvs"

lemma pipe_lex:
  "argvs \<noteq> [] \<Longrightarrow> \<forall>argv\<in>set argvs. argv \<noteq> [] \<Longrightarrow> \<not> in_word ts \<Longrightarrow>
    foldl sh_step (MPlain, ts) (join_with '' | '' (map renderQuotedArgv argvs)) = (MPlain, ts @ pipe_tokens_of argvs)"
proof (induction argvs arbitrary: ts rule: pipe_tokens_of.induct)
  case (3 argv a argvs)
  have "foldl sh_step (MPlain, ts) (renderQuotedArgv argv @ '' | '') =
      (MPlain, ts @ word_tokens argv @ [TBlank, TOp (CHR ''|''), TBlank])"
    using argv_lex [of argv ts] 3(3,4) by (simp add: blank_step sh_blank_def op_step sh_operators_def)
  moreover have "\<not> in_word (ts @ word_tokens argv @ [TBlank, TOp (CHR ''|''), TBlank])" by (simp add: in_word_def)
  ultimately show ?case using 3(1) [of "ts @ word_tokens argv @ [TBlank, TOp (CHR ''|''), TBlank]"] 3(3) by simp
qed (simp_all add: argv_lex)

lemma pipe_tokens_shape:
  "\<forall>argv\<in>set argvs. argv \<noteq> [] \<Longrightarrow> sh_commands (pipe_tokens_of argvs) = map (map (map Lit)) argvs"
  "op_runs (pipe_tokens_of argvs) = replicate (length argvs - 1) ''|''"
proof (induction argvs rule: pipe_tokens_of.induct)
  case (3 argv a argvs)
  note join = join_tokens [of "''|''" "word_tokens argv" "pipe_tokens_of (a # argvs)"]
  { case 1
    then show ?case using 3(1) join(1) word_tokens_commands [of "[]" argv] by (simp add: sh_commands_def)
  next
    case 2
    show ?case using 3(2) join(2) by (simp add: op_runs_words) }
next
  case (2 argv)
  { case 1
    then show ?case using word_tokens_commands [of "[]" argv] by (simp add: sh_commands_def)
  next
    case 2
    show ?case by (simp add: op_runs_words) }
qed (simp_all add: sh_commands_def)

fun part_ops :: "chain_part list \<Rightarrow> string list" where
  "part_ops [] = []"
| "part_ops ((part, opToNext) # parts) =
     replicate ((case splitShellPipeline part of Inl reason \<Rightarrow> 0 | Inr segs \<Rightarrow> length segs) - 1) ''|'' @
     (case opToNext of None \<Rightarrow> [] | Some oper \<Rightarrow> [chain_string oper]) @ part_ops parts"

text \<open>The operators of a command, in order.\<close>

definition source_ops :: "string \<Rightarrow> string list" where
  "source_ops command = part_ops (source_parts (js_trim command))"

text \<open>Only the last part of a chain is not followed by an operator.\<close>

fun chained :: "chain_part list \<Rightarrow> bool" where
  "chained [] = False"
| "chained [(p, opToNext)] = (opToNext = None)"
| "chained ((p, opToNext) # parts) = (opToNext \<noteq> None \<and> chained parts)"

lemma chained_append: "\<forall>x\<in>set ps. snd x \<noteq> None \<Longrightarrow> chained (ps @ [(p, None)])"
proof (induction ps)
  case (Cons x ps)
  then show ?case by (cases x; cases ps) auto
qed simp

definition parts_closed :: "chain_scan \<Rightarrow> bool" where
  "parts_closed sc = (\<forall>x\<in>set (cs_parts sc). snd x \<noteq> None)"

lemma chain_loop_parts: "parts_closed sc \<Longrightarrow> parts_closed (chain_loop prev q s sc)"
proof (induction "length s" arbitrary: prev q s sc rule: less_induct)
  case less
  have keep: "parts_closed (chain_add t sc)" "parts_closed (chain_push oper sc)" "parts_closed (sc\<lparr>cs_invalidChain := True\<rparr>)" for t oper
    using less.prems by (auto simp: chain_add_def chain_push_def Let_def parts_closed_def)
  show ?case
  proof (cases s)
    case (Cons ch s')
    have rec: "parts_closed (chain_loop p q' s' sc')" "parts_closed (chain_loop p q' (drop 1 s') sc')"
      if "parts_closed sc'" for p q' sc'
      using less.hyps that Cons by simp_all
    show ?thesis using Cons less.prems by (cases q) (simp_all add: chain_loop.simps keep rec del: drop_Suc_Cons One_nat_def)
  qed (simp add: chain_loop.simps less.prems)
qed

lemma source_parts_chained: "chained (source_parts source)"
proof (cases "splitCommandChainWithOperators source")
  case (Some parts)
  define sc where "sc = chain_loop None Unquoted source \<lparr>cs_buf = [], cs_parts = [], cs_foundChain = False, cs_invalidChain = False\<rparr>"
  have "parts = cs_parts sc @ [(js_trim (cs_buf sc), None)]"
    using Some by (auto simp: splitCommandChainWithOperators_def Let_def sc_def split: if_splits)
  moreover have "\<forall>x\<in>set (cs_parts sc). snd x \<noteq> None" using chain_loop_parts [of "\<lparr>cs_buf = [], cs_parts = [], cs_foundChain = False, cs_invalidChain = False\<rparr>" None Unquoted source]
    by (simp add: sc_def parts_closed_def)
  ultimately show ?thesis using Some by (simp add: source_parts_def chained_append)
qed (simp add: source_parts_def)

subsection \<open>The enforced command\<close>

lemma pipe_segments_nonempty: "splitShellPipeline part = Inr segs \<Longrightarrow> segs \<noteq> []"
  by (auto simp: splitShellPipeline_def Let_def split: sum.splits if_splits prod.splits)

lemma render_segments_plan:
  "render_segments (render_enforced segl) count segs = Inr rendered \<Longrightarrow>
    \<exists>plan. rendered = map renderQuotedArgv plan \<and> count + length segs \<le> max count (length segl) \<and>
      map resolvePlannedSegmentArgv (take (length segs) (drop count segl)) = map Some plan \<and> length plan = length segs"
proof (induction segs arbitrary: count rendered)
  case (Cons raw segs)
  obtain r rs where r: "render_enforced segl raw count = Inr r" "render_segments (render_enforced segl) (Suc count) segs = Inr rs"
    "rendered = r # rs"
    using Cons.prems by (cases "render_segments (render_enforced segl) (Suc count) segs") (auto split: sum.splits)
  have count: "count < length segl" using r(1) by (auto simp: render_enforced_def split: if_splits)
  obtain argv where argv: "resolvePlannedSegmentArgv (segl ! count) = Some argv" "r = renderQuotedArgv argv"
    using r(1) by (auto simp: render_enforced_def Let_def split: if_splits option.splits)
  obtain plan where "rs = map renderQuotedArgv plan" "Suc count + length segs \<le> max (Suc count) (length segl)"
    "map resolvePlannedSegmentArgv (take (length segs) (drop (Suc count) segl)) = map Some plan" "length plan = length segs"
    using Cons.IH [OF r(2)] by blast
  then show ?case using argv r(3) count by (intro exI [of _ "argv # plan"]) (auto simp: Cons_nth_drop_Suc [symmetric] max_def)
qed simp

lemma rebuild_plan:
  "rebuild_parts (render_enforced segl) count out parts = Inr (res, n) \<Longrightarrow> chained parts \<Longrightarrow> sh_lex out = (MPlain, ts) \<Longrightarrow>
    \<not> in_word ts \<Longrightarrow> count \<le> length segl \<Longrightarrow>
    \<exists>T plan. sh_lex res = (MPlain, ts @ T) \<and> sh_commands T = map (map (map Lit)) plan \<and> op_runs T = part_ops parts \<and>
      n = count + length plan \<and> n \<le> length segl \<and>
      map resolvePlannedSegmentArgv (take (length plan) (drop count segl)) = map Some plan"
proof (induction parts arbitrary: count out ts)
  case (Cons x parts)
  obtain part opToNext where x: "x = (part, opToNext)" by (cases x)
  obtain segs where segs: "splitShellPipeline part = Inr segs" using Cons.prems(1) x by (auto split: sum.splits)
  obtain rendered where ren: "render_segments (render_enforced segl) count segs = Inr rendered"
    using Cons.prems(1) x segs by (auto split: sum.splits)
  obtain plan where plan: "rendered = map renderQuotedArgv plan" "count + length segs \<le> length segl"
    "map resolvePlannedSegmentArgv (take (length segs) (drop count segl)) = map Some plan" "length plan = length segs"
    using render_segments_plan [OF ren] Cons.prems(5) by (auto simp: max_def split: if_splits)
  have ne: "\<forall>argv\<in>set plan. argv \<noteq> []"
  proof
    fix argv assume "argv \<in> set plan"
    then have "Some argv \<in> set (map resolvePlannedSegmentArgv (take (length segs) (drop count segl)))" using plan(3) by simp
    then obtain seg where "resolvePlannedSegmentArgv seg = Some argv" unfolding set_map by (auto dest: sym)
    then show "argv \<noteq> []" by (rule planned_nonempty)
  qed
  have some: "plan \<noteq> []" using pipe_segments_nonempty [OF segs] plan(4) by auto
  have lex: "sh_lex (out @ join_with '' | '' rendered) = (MPlain, ts @ pipe_tokens_of plan)"
    using pipe_lex [OF some ne Cons.prems(4)] Cons.prems(3) plan(1) by (simp add: sh_lex_append)
  note shape = pipe_tokens_shape(1) [OF ne] pipe_tokens_shape(2) [of plan]
  show ?case
  proof (cases opToNext)
    case None
    then have "parts = []" using Cons.prems(2) x by (cases parts) auto
    then show ?thesis using Cons.prems(1) x segs ren None lex shape plan
      by (intro exI [of _ "pipe_tokens_of plan"] exI [of _ plan]) auto
  next
    case (Some oper)
    let ?out = "out @ join_with '' | '' rendered @ '' '' @ chain_string oper @ '' ''"
    let ?sep = "TBlank # map TOp (chain_string oper) @ [TBlank]"
    have chained: "chained parts" using Cons.prems(2) x Some by (cases parts) auto
    have rec: "rebuild_parts (render_enforced segl) (count + length segs) ?out parts = Inr (res, n)"
      using Cons.prems(1) x segs ren Some by simp
    have lex2: "sh_lex ?out = (MPlain, ts @ pipe_tokens_of plan @ ?sep)"
      using lex unfolding append_assoc [symmetric] sh_lex_append [of "out @ join_with '' | '' rendered"]
      by (cases oper) (simp_all add: sh_lex_append blank_step sh_blank_def op_step sh_operators_def)
    have "\<not> in_word (ts @ pipe_tokens_of plan @ ?sep)" by (simp add: in_word_def)
    from Cons.IH [OF rec chained lex2 this plan(2)]
    obtain T plan2 where T: "sh_lex res = (MPlain, (ts @ pipe_tokens_of plan @ ?sep) @ T)" "sh_commands T = map (map (map Lit)) plan2"
      "op_runs T = part_ops parts" "n = count + length segs + length plan2" "n \<le> length segl"
      "map resolvePlannedSegmentArgv (take (length plan2) (drop (count + length segs) segl)) = map Some plan2" by blast
    have oper: "chain_string oper \<noteq> []" by (cases oper) simp_all
    note join = join_tokens [OF oper, of "pipe_tokens_of plan" T]
    have "take (length segs + length plan2) (drop count segl) =
        take (length segs) (drop count segl) @ take (length plan2) (drop (count + length segs) segl)"
      unfolding take_add drop_drop by (simp only: add.commute)
    then show ?thesis using T join shape plan x Some segs
      by (intro exI [of _ "pipe_tokens_of plan @ ?sep @ T"] exI [of _ "plan @ plan2"]) simp
  qed
qed simp

definition planned_sample :: "command_segment list" where
  "planned_sample = [\<lparr>sg_raw = ''rg '', sg_argv = [''rg'', ''$(id); it'' @ [squote] @ ''s'' @ [newline] @ ''&''], sg_sourceArgv = None,
       sg_resolution = Some \<lparr>cr_execution = \<lparr>er_rawExecutable = ''rg'', er_resolvedPath = Some ''/usr/bin/rg'', er_resolvedRealPath = None,
         er_executableName = ''rg''\<rparr>, cr_policy = \<lparr>er_rawExecutable = ''rg'', er_resolvedPath = Some ''/usr/bin/rg'',
         er_resolvedRealPath = None, er_executableName = ''rg''\<rparr>, cr_effectiveArgv = None, cr_wrapperChain = None,
         cr_policyBlocked = Some False, cr_blockedWrapper = None\<rparr>\<rparr>,
     \<lparr>sg_raw = ''wc'', sg_argv = [''wc''], sg_sourceArgv = None, sg_resolution = None\<rparr>]"

text \<open>C23: an enforced command runs the approved plan and nothing else. Whatever the source command and
  the words of the plan contain, a POSIX shell reads the rebuilt command as exactly the planned
  argument lists, every character literal, joined by the operators of the source.\<close>

theorem enforced_runs_plan:
  assumes "buildEnforcedShellCommand command segl = Inr out"
  shows "\<exists>plan ts. map resolvePlannedSegmentArgv segl = map Some plan \<and> sh_lex out = (MPlain, ts) \<and>
    sh_commands ts = map (map (map Lit)) plan \<and> op_runs ts = source_ops command"
proof -
  obtain n where n: "rebuild_parts (render_enforced segl) 0 [] (source_parts (js_trim command)) = Inr (out, n)" "n = length segl"
    using assms by (auto simp: buildEnforcedShellCommand_def finalizeRebuiltShellCommand_def rebuildShellCommandFromSource_def
        Let_def split: sum.splits if_splits)
  obtain T plan where "sh_lex out = (MPlain, [] @ T)" "sh_commands T = map (map (map Lit)) plan"
    "op_runs T = part_ops (source_parts (js_trim command))" "n = 0 + length plan"
    "map resolvePlannedSegmentArgv (take (length plan) (drop 0 segl)) = map Some plan"
    using rebuild_plan [OF n(1) source_parts_chained, of "[]"] by (auto simp: sh_lex_def in_word_def)
  then show ?thesis using n(2) by (intro exI [of _ plan] exI [of _ T]) (simp add: source_ops_def)
qed

theorem enforced_runs_plan_witness:
  "\<exists>out plan ts. buildEnforcedShellCommand ''rg pattern | wc'' planned_sample = Inr out \<and> plan ! 0 ! 0 = ''/usr/bin/rg'' \<and>
    sh_lex out = (MPlain, ts) \<and> sh_commands ts = map (map (map Lit)) plan \<and> op_runs ts = [''|'']"
proof -
  have "map_sum id (\<lambda>x. True) (buildEnforcedShellCommand ''rg pattern | wc'' planned_sample) = Inr True" by code_simp
  then obtain out where out: "buildEnforcedShellCommand ''rg pattern | wc'' planned_sample = Inr out"
    by (cases "buildEnforcedShellCommand ''rg pattern | wc'' planned_sample") auto
  have ops: "source_ops ''rg pattern | wc'' = [''|'']" by code_simp
  have "map resolvePlannedSegmentArgv planned_sample ! 0 = Some [''/usr/bin/rg'', sg_argv (planned_sample ! 0) ! 1]" by code_simp
  moreover have "length planned_sample = 2" by code_simp
  moreover obtain plan ts where plan: "map resolvePlannedSegmentArgv planned_sample = map Some plan" "sh_lex out = (MPlain, ts)"
    "sh_commands ts = map (map (map Lit)) plan" "op_runs ts = [''|'']"
    using enforced_runs_plan [OF out] ops by auto
  moreover have "length plan = 2" using plan(1) calculation(2) by (metis length_map)
  ultimately have "plan ! 0 ! 0 = ''/usr/bin/rg''" by simp
  then show ?thesis using out plan by blast
qed

end
