(* ===== verification/CommandCarriers.thy ===== *)
theory CommandCarriers
  imports ShellAnalysis AllowFrom
begin

section \<open>Executable names and command carriers\<close>

text \<open>
  Models \<^verbatim>\<open>src/infra/exec-wrapper-tokens.ts\<close> and \<^verbatim>\<open>src/infra/command-carriers.ts\<close>: the name of an
  executable token, and the commands that carry another command (\<open>env\<close>, \<open>sudo\<close>, \<open>doas\<close>,
  \<open>command\<close>, \<open>builtin\<close>, \<open>exec\<close>), with their option grammars. A loop over an index is a recursion
  over the rest of the list with the index.
\<close>

subsection \<open>Names\<close>

text \<open>\<open>path.posix.basename\<close> and \<open>path.win32.basename\<close>.\<close>

definition path_tail :: "(char \<Rightarrow> bool) \<Rightarrow> string \<Rightarrow> string" where
  "path_tail sep s = rev (takeWhile (\<lambda>c. \<not> sep c) (dropWhile sep (rev s)))"

definition posix_basename :: "string \<Rightarrow> string" where
  "posix_basename s = path_tail (\<lambda>c. c = CHR ''/'') s"

definition ascii_letter :: "char \<Rightarrow> bool" where
  "ascii_letter c = (let n = (of_char c :: nat) in (65 \<le> n \<and> n \<le> 90) \<or> (97 \<le> n \<and> n \<le> 122))"

definition ascii_digit :: "char \<Rightarrow> bool" where
  "ascii_digit c = (let n = (of_char c :: nat) in 48 \<le> n \<and> n \<le> 57)"

definition drive_prefix :: "string \<Rightarrow> bool" where
  "drive_prefix s = (case s of c # d # _ \<Rightarrow> ascii_letter c \<and> d = CHR '':'' | _ \<Rightarrow> False)"

definition win32_basename :: "string \<Rightarrow> string" where
  "win32_basename s = path_tail (\<lambda>c. c = CHR ''/'' \<or> c = bslash) (if drive_prefix s then drop 2 s else s)"

definition WINDOWS_EXECUTABLE_SUFFIXES :: "string list" where
  "WINDOWS_EXECUTABLE_SUFFIXES = [''.exe'', ''.cmd'', ''.bat'', ''.com'']"

definition stripWindowsExecutableSuffix :: "string \<Rightarrow> string" where
  "stripWindowsExecutableSuffix value =
     (case find (ends_with value) WINDOWS_EXECUTABLE_SUFFIXES of
        None \<Rightarrow> value
      | Some suffix \<Rightarrow> take (length value - length suffix) value)"

definition basenameLower :: "string \<Rightarrow> string" where
  "basenameLower token =
     (let win = win32_basename token; posix = posix_basename token;
          base = (if length win < length posix then win else posix)
      in normalizeLowercaseStringOrEmpty (Some base))"

definition normalizeExecutableToken :: "string \<Rightarrow> string" where
  "normalizeExecutableToken token = stripWindowsExecutableSuffix (basenameLower token)"

text \<open>\<open>argv[i] ?? ""\<close> and \<open>argv[i]?.trim()\<close>.\<close>

definition arg_at :: "string list \<Rightarrow> nat \<Rightarrow> string" where
  "arg_at argv i = (if i < length argv then argv ! i else [])"

definition trimmed_at :: "string list \<Rightarrow> nat \<Rightarrow> string" where
  "trimmed_at argv i = (if i < length argv then js_trim (argv ! i) else [])"

lemma find_member: "find P xs = Some x \<Longrightarrow> x \<in> set xs \<and> P x"
  by (auto simp: find_Some_iff)

lemma normalizeExecutableToken_examples:
  "normalizeExecutableToken ''/usr/bin/env'' = ''env''"
  "normalizeExecutableToken (''C:'' @ [bslash] @ ''Tools'' @ [bslash] @ ''PwSh.EXE'') = ''pwsh''"
  "normalizeExecutableToken '' Sudo/ '' = ''''"
  by code_simp+

subsection \<open>Option tables\<close>

definition COMMAND_CARRIER_EXECUTABLES :: "string list" where
  "COMMAND_CARRIER_EXECUTABLES = [''sudo'', ''doas'', ''env'', ''command'', ''builtin'']"

definition SOURCE_EXECUTABLES :: "string list" where
  "SOURCE_EXECUTABLES = [''.'', ''source'']"

definition MAX_ENV_SPLIT_PAYLOAD_DEPTH :: nat where
  "MAX_ENV_SPLIT_PAYLOAD_DEPTH = 32"

definition COMMAND_EXECUTING_OPTIONS :: "string list" where
  "COMMAND_EXECUTING_OPTIONS = [''-p'']"

definition COMMAND_QUERY_OPTIONS :: "string list" where
  "COMMAND_QUERY_OPTIONS = [''-v'', ''-V'']"

definition ENV_OPTIONS_WITH_VALUE :: "string list" where
  "ENV_OPTIONS_WITH_VALUE = [''-C'', ''-P'', ''-S'', ''-s'', ''-u'', ''--argv0'', ''--block-signal'', ''--chdir'',
     ''--default-signal'', ''--ignore-signal'', ''--split-string'', ''--unset'']"

definition ENV_SPLIT_STRING_OPTIONS :: "string list" where
  "ENV_SPLIT_STRING_OPTIONS = [''-S'', ''-s'', ''--split-string'']"

definition ENV_STANDALONE_OPTIONS :: "string list" where
  "ENV_STANDALONE_OPTIONS = [''-0'', ''-i'', ''--ignore-environment'', ''--null'']"

definition SUDO_OPTIONS_WITH_VALUE :: "string list" where
  "SUDO_OPTIONS_WITH_VALUE = [''-C'', ''-D'', ''-g'', ''-h'', ''-p'', ''-R'', ''-T'', ''-U'', ''-u'', ''--chdir'',
     ''--chroot'', ''--close-from'', ''--command-timeout'', ''--group'', ''--host'', ''--other-user'', ''--prompt'',
     ''--role'', ''--type'', ''--user'']"

definition SUDO_STANDALONE_OPTIONS :: "string list" where
  "SUDO_STANDALONE_OPTIONS = [''-A'', ''-B'', ''-b'', ''-E'', ''-H'', ''-i'', ''-k'', ''-N'', ''-n'', ''-P'', ''-S'',
     ''-s'', ''--askpass'', ''--background'', ''--bell'', ''--login'', ''--no-update'', ''--non-interactive'',
     ''--preserve-env'', ''--preserve-groups'', ''--reset-home'', ''--reset-timestamp'', ''--set-home'', ''--shell'',
     ''--stdin'']"

definition SUDO_NON_EXEC_OPTIONS :: "string list" where
  "SUDO_NON_EXEC_OPTIONS = [''-K'', ''-l'', ''-V'', ''-v'', ''-e'', ''--edit'', ''--help'', ''--list'',
     ''--remove-timestamp'', ''--validate'', ''--version'']"

definition DOAS_OPTIONS_WITH_VALUE :: "string list" where
  "DOAS_OPTIONS_WITH_VALUE = [''-a'', ''-C'', ''-u'']"

definition DOAS_STANDALONE_OPTIONS :: "string list" where
  "DOAS_STANDALONE_OPTIONS = [''-L'', ''-n'', ''-s'']"

definition EXEC_OPTIONS_WITH_VALUE :: "string list" where
  "EXEC_OPTIONS_WITH_VALUE = [''-a'']"

definition EXEC_STANDALONE_OPTIONS :: "string list" where
  "EXEC_STANDALONE_OPTIONS = [''-c'', ''-l'']"

subsection \<open>Options\<close>

definition isEnvAssignmentToken :: "string \<Rightarrow> bool" where
  "isEnvAssignmentToken token =
     (let name = takeWhile (\<lambda>c. c \<noteq> CHR ''='') token
      in length name < length token
         \<and> (case name of [] \<Rightarrow> False | c # cs \<Rightarrow> (ascii_letter c \<or> c = CHR ''_'') \<and>
              list_all (\<lambda>d. ascii_letter d \<or> ascii_digit d \<or> d = CHR ''_'') cs)
         \<and> list_all (\<lambda>c. c \<noteq> newline \<and> c \<noteq> cr) (drop (length name) token))"

definition optionName :: "string \<Rightarrow> string" where
  "optionName token = takeWhile (\<lambda>c. c \<noteq> CHR ''='') token"

record carrier_option =
  co_name :: string
  co_hasInlineValue :: bool
  co_inlineValue :: "string option"

fun short_options ::
  "string list \<Rightarrow> string list \<Rightarrow> string list \<Rightarrow> string \<Rightarrow> carrier_option list \<Rightarrow> carrier_option list option" where
  "short_options standalone withValue nonExec [] options = (if options = [] then None else Some options)"
| "short_options standalone withValue nonExec (c # cs) options =
     (let name = [CHR ''-'', c]
      in if name \<in> set withValue then
           Some (options @ [\<lparr>co_name = name, co_hasInlineValue = (cs \<noteq> []), co_inlineValue = (if cs \<noteq> [] then Some cs else None)\<rparr>])
         else if name \<in> set standalone \<or> name \<in> set nonExec then
           short_options standalone withValue nonExec cs (options @ [\<lparr>co_name = name, co_hasInlineValue = False, co_inlineValue = None\<rparr>])
         else None)"

definition parseCarrierOptionToken ::
  "string \<Rightarrow> string list \<Rightarrow> string list \<Rightarrow> string list \<Rightarrow> carrier_option list option" where
  "parseCarrierOptionToken token standalone withValue nonExec =
     (if starts_with token ''--'' then
        (let name = optionName token
         in if name \<in> set standalone \<or> name \<in> set withValue \<or> name \<in> set nonExec then
              Some [\<lparr>co_name = name, co_hasInlineValue = length name < length token,
                co_inlineValue = (if length name < length token then Some (drop (Suc (length name)) token) else None)\<rparr>]
            else None)
      else
        (case token of
           d # c # cs \<Rightarrow>
             if d = CHR ''-'' \<and> (ascii_letter c \<or> ascii_digit c) then short_options standalone withValue nonExec (c # cs) []
             else None
         | _ \<Rightarrow> None))"

text \<open>The third argument is \<open>consumesNextValue\<close>.\<close>

fun consumes_next :: "string list \<Rightarrow> string list \<Rightarrow> bool \<Rightarrow> carrier_option list \<Rightarrow> bool option" where
  "consumes_next withValue nonExec consumes [] = Some consumes"
| "consumes_next withValue nonExec consumes (opt # options) =
     (if co_name opt \<in> set nonExec then None
      else consumes_next withValue nonExec
        (if co_name opt \<in> set withValue then \<not> co_hasInlineValue opt else consumes) options)"

definition knownCarrierOptionConsumesNextValue :: "carrier_option list \<Rightarrow> string list \<Rightarrow> string list \<Rightarrow> bool option" where
  "knownCarrierOptionConsumesNextValue options withValue nonExec = consumes_next withValue nonExec False options"

definition findParsedCarrierOption :: "carrier_option list \<Rightarrow> string list \<Rightarrow> carrier_option option" where
  "findParsedCarrierOption options names = find (\<lambda>opt. co_name opt \<in> set names) options"

definition stripSudoEnvAssignmentsFromCommandArgv :: "string \<Rightarrow> string list \<Rightarrow> string list option" where
  "stripSudoEnvAssignmentsFromCommandArgv executable argv =
     (let rest = (if executable \<noteq> ''sudo'' then argv else dropWhile isEnvAssignmentToken argv)
      in if rest = [] then None else Some rest)"

subsection \<open>The env command\<close>

record env_prelude =
  ep_assignmentKeys :: "string list"
  ep_commandIndex :: nat
  ep_splitArgv :: "string list option"
  ep_usesModifiers :: bool

definition carried :: "string list \<Rightarrow> env_prelude \<Rightarrow> string list" where
  "carried argv parsed = nullish (ep_splitArgv parsed) (drop (ep_commandIndex parsed) argv)"

text \<open>
  The loop at an index, with the arguments from there on, \<open>usesModifiers\<close> and \<open>assignmentKeys\<close>. The
  payload of a split option is an \<open>env\<close> command of its own, one level deeper.
\<close>

function env_scan :: "nat \<Rightarrow> nat \<Rightarrow> string list \<Rightarrow> bool \<Rightarrow> string list \<Rightarrow> env_prelude option" where
  "env_scan depth index [] usesModifiers keys = None"
| "env_scan depth index (token # rest) usesModifiers keys =
     (if token = [] then None
      else if isEnvAssignmentToken token then env_scan depth (Suc index) rest True (keys @ [optionName token])
      else if token = ''--'' \<or> token = ''-'' then
        (if rest \<noteq> [] then Some \<lparr>ep_assignmentKeys = keys, ep_commandIndex = Suc index, ep_splitArgv = None,
           ep_usesModifiers = usesModifiers\<rparr> else None)
      else if starts_with token ''-'' then
        (case parseCarrierOptionToken token ENV_STANDALONE_OPTIONS ENV_OPTIONS_WITH_VALUE [] of
           None \<Rightarrow> None
         | Some options \<Rightarrow>
             (case findParsedCarrierOption options ENV_SPLIT_STRING_OPTIONS of
                Some splitOption \<Rightarrow>
                  (let inline = co_inlineValue splitOption;
                       payload = (case inline of Some v \<Rightarrow> Some v | None \<Rightarrow> (case rest of [] \<Rightarrow> None | v # _ \<Rightarrow> Some v));
                       trailing = (if inline = None then drop 1 rest else rest);
                       trailingIndex = (if inline = None then index + 2 else Suc index)
                   in case Option.bind payload splitShellArgs of
                        None \<Rightarrow> None
                      | Some inner \<Rightarrow>
                          if inner = [] then None
                          else
                            let carriedArgv = inner @ trailing;
                                parsed = (if depth < MAX_ENV_SPLIT_PAYLOAD_DEPTH
                                          then env_scan (Suc depth) 1 carriedArgv False [] else None)
                            in Some \<lparr>ep_assignmentKeys = keys, ep_commandIndex = trailingIndex,
                                 ep_splitArgv = Some (case parsed of None \<Rightarrow> carriedArgv | Some p \<Rightarrow> carried (''env'' # carriedArgv) p),
                                 ep_usesModifiers = True\<rparr>)
              | None \<Rightarrow>
                  if knownCarrierOptionConsumesNextValue options ENV_OPTIONS_WITH_VALUE [] = Some True then
                    env_scan depth (index + 2) (drop 1 rest) True keys
                  else env_scan depth (Suc index) rest True keys))
      else Some \<lparr>ep_assignmentKeys = keys, ep_commandIndex = index, ep_splitArgv = None, ep_usesModifiers = usesModifiers\<rparr>)"
  by pat_completeness auto
termination
  by (relation "measures [\<lambda>(depth, index, argv, m, keys). MAX_ENV_SPLIT_PAYLOAD_DEPTH - depth, \<lambda>(depth, index, argv, m, keys). length argv]") auto

definition parseEnvInvocationPrelude :: "string list \<Rightarrow> nat \<Rightarrow> env_prelude option" where
  "parseEnvInvocationPrelude argv depth =
     (if depth > MAX_ENV_SPLIT_PAYLOAD_DEPTH \<or> normalizeExecutableToken (arg_at argv 0) \<noteq> ''env'' then None
      else env_scan depth 1 (drop 1 argv) False [])"

definition envInvocationUsesModifiers :: "string list \<Rightarrow> bool" where
  "envInvocationUsesModifiers argv =
     (case parseEnvInvocationPrelude argv 0 of
        Some parsed \<Rightarrow> ep_usesModifiers parsed
      | None \<Rightarrow> normalizeExecutableToken (arg_at argv 0) = ''env'')"

definition resolveEnvCarriedArgv :: "string list \<Rightarrow> nat \<Rightarrow> string list option" where
  "resolveEnvCarriedArgv argv depth = map_option (carried argv) (parseEnvInvocationPrelude argv depth)"

definition unwrapEnvInvocation :: "string list \<Rightarrow> string list option" where
  "unwrapEnvInvocation argv = map_option (carried argv) (parseEnvInvocationPrelude argv 0)"

lemma unwrapEnvInvocation_examples:
  "unwrapEnvInvocation [''/usr/bin/env'', ''A=1'', ''-u'', ''B'', ''ls'', ''-l''] = Some [''ls'', ''-l'']"
  "unwrapEnvInvocation [''env'', ''-S'', ''X=1 bash -c'', ''id''] = Some [''bash'', ''-c'', ''id'']"
  "unwrapEnvInvocation [''env'', ''--unknown'', ''ls''] = None"
  by code_simp+

subsection \<open>The other carriers\<close>

fun builtin_scan :: "string list \<Rightarrow> string list option" where
  "builtin_scan [] = None"
| "builtin_scan (token # rest) =
     (if token = ''--'' then Some rest
      else if \<not> starts_with token ''-'' then Some (token # rest)
      else if optionName token \<in> set COMMAND_QUERY_OPTIONS then None
      else if optionName token \<notin> set COMMAND_EXECUTING_OPTIONS then None
      else builtin_scan rest)"

definition resolveCommandBuiltinCarriedArgv :: "string list \<Rightarrow> string list option" where
  "resolveCommandBuiltinCarriedArgv argv =
     (let executable = normalizeExecutableToken (arg_at argv 0)
      in if executable \<noteq> ''command'' \<and> executable \<noteq> ''builtin'' then None else builtin_scan (drop 1 argv))"

function sudo_scan :: "string \<Rightarrow> string list \<Rightarrow> string list \<Rightarrow> string list \<Rightarrow> string list \<Rightarrow> string list option" where
  "sudo_scan executable standalone withValue nonExec [] = None"
| "sudo_scan executable standalone withValue nonExec (token # rest) =
     (if token = ''--'' then stripSudoEnvAssignmentsFromCommandArgv executable rest
      else if \<not> starts_with token ''-'' then stripSudoEnvAssignmentsFromCommandArgv executable (token # rest)
      else
        (case parseCarrierOptionToken token standalone withValue nonExec of
           None \<Rightarrow> None
         | Some options \<Rightarrow>
             (case knownCarrierOptionConsumesNextValue options withValue nonExec of
                None \<Rightarrow> None
              | Some consumes \<Rightarrow> sudo_scan executable standalone withValue nonExec (if consumes then drop 1 rest else rest))))"
  by pat_completeness auto
termination by (relation "measure (\<lambda>(executable, standalone, withValue, nonExec, argv). length argv)") auto

definition resolveSudoLikeCarriedArgv :: "string list \<Rightarrow> string list option" where
  "resolveSudoLikeCarriedArgv argv =
     (let executable = normalizeExecutableToken (arg_at argv 0)
      in if executable = ''sudo'' then
           sudo_scan executable SUDO_STANDALONE_OPTIONS SUDO_OPTIONS_WITH_VALUE SUDO_NON_EXEC_OPTIONS (drop 1 argv)
         else if executable = ''doas'' then sudo_scan executable DOAS_STANDALONE_OPTIONS DOAS_OPTIONS_WITH_VALUE [] (drop 1 argv)
         else None)"

function exec_scan :: "string list \<Rightarrow> string list option" where
  "exec_scan [] = None"
| "exec_scan (token # rest) =
     (if token = ''--'' then Some rest
      else if \<not> starts_with token ''-'' then Some (token # rest)
      else
        (case parseCarrierOptionToken token EXEC_STANDALONE_OPTIONS EXEC_OPTIONS_WITH_VALUE [] of
           None \<Rightarrow> None
         | Some options \<Rightarrow>
             exec_scan (if knownCarrierOptionConsumesNextValue options EXEC_OPTIONS_WITH_VALUE [] = Some True
                        then drop 1 rest else rest)))"
  by pat_completeness auto
termination by (relation "measure length") auto

definition resolveExecCarriedArgv :: "string list \<Rightarrow> string list option" where
  "resolveExecCarriedArgv argv =
     (if normalizeExecutableToken (arg_at argv 0) \<noteq> ''exec'' then None else exec_scan (drop 1 argv))"

definition resolveCarrierCommandArgv :: "string list \<Rightarrow> nat \<Rightarrow> bool \<Rightarrow> string list option" where
  "resolveCarrierCommandArgv argv depth includeExec =
     (let executable = normalizeExecutableToken (arg_at argv 0)
      in if executable = ''env'' then resolveEnvCarriedArgv argv depth
         else if executable = ''command'' \<or> executable = ''builtin'' then resolveCommandBuiltinCarriedArgv argv
         else if executable = ''sudo'' \<or> executable = ''doas'' then resolveSudoLikeCarriedArgv argv
         else if executable = ''exec'' then (if includeExec then resolveExecCarriedArgv argv else None)
         else None)"

section \<open>Inline commands of shells\<close>

text \<open>
  Models \<^verbatim>\<open>src/infra/shell-inline-command.ts\<close>: where the arguments of a shell or of PowerShell
  hold a command to run. The loops keep the index, which may jump over option values.
\<close>

subsection \<open>Flags\<close>

definition POSIX_INLINE_COMMAND_FLAGS :: "string list" where
  "POSIX_INLINE_COMMAND_FLAGS = [''-lc'', ''-c'', ''--command'']"

definition switch_forms :: "string \<Rightarrow> string list" where
  "switch_forms prefix = [''-'' @ prefix, ''--'' @ prefix, ''/'' @ prefix]"

definition expandPowerShellSwitchPrefixForms :: "string \<Rightarrow> string \<Rightarrow> string list" where
  "expandPowerShellSwitchPrefixForms match smallestMatch =
     concat (map (\<lambda>n. switch_forms (take n match)) [length smallestMatch..<Suc (length match)])"

definition expandPowerShellSwitchForms :: "string list \<Rightarrow> string list" where
  "expandPowerShellSwitchForms names =
     concat (map (\<lambda>name. switch_forms (normalizeLowercaseStringOrEmpty (Some name))) names)"

definition POWERSHELL_COMMAND_FLAGS :: "string list" where
  "POWERSHELL_COMMAND_FLAGS = expandPowerShellSwitchPrefixForms ''command'' ''c''
     @ expandPowerShellSwitchPrefixForms ''commandwithargs'' ''cwa'' @ expandPowerShellSwitchForms [''cwa'']"

definition POWERSHELL_FILE_FLAGS :: "string list" where
  "POWERSHELL_FILE_FLAGS = expandPowerShellSwitchPrefixForms ''file'' ''f''"

definition POWERSHELL_INLINE_COMMAND_FLAGS :: "string list" where
  "POWERSHELL_INLINE_COMMAND_FLAGS = POWERSHELL_COMMAND_FLAGS @ POWERSHELL_FILE_FLAGS
     @ expandPowerShellSwitchPrefixForms ''encodedcommand'' ''e'' @ expandPowerShellSwitchPrefixForms ''ec'' ''e''"

definition POWERSHELL_OPTIONS_WITH_SEPARATE_VALUES :: "string list" where
  "POWERSHELL_OPTIONS_WITH_SEPARATE_VALUES =
     concat (map (\<lambda>(name, smallest). expandPowerShellSwitchPrefixForms name smallest)
       [(''configurationfile'', ''conf''), (''configurationname'', ''config''), (''custompipename'', ''cus''),
        (''encodedarguments'', ''encodeda''), (''executionpolicy'', ''ex''), (''inputformat'', ''inp''),
        (''outputformat'', ''o''), (''psconsolefile'', ''pscf''), (''settingsfile'', ''settings''), (''token'', ''to''),
        (''utctimestamp'', ''utc''), (''version'', ''v''), (''windowstyle'', ''w''), (''workingdirectory'', ''w'')])
     @ expandPowerShellSwitchForms [''ea'', ''ep'', ''if'', ''of'', ''wd'']"

definition POSIX_SHELL_OPTIONS_WITH_SEPARATE_VALUES :: "string list" where
  "POSIX_SHELL_OPTIONS_WITH_SEPARATE_VALUES = [''--init-file'', ''--rcfile'', ''-O'', ''-o'', ''+O'', ''+o'']"

definition dash_or_plus :: "string \<Rightarrow> bool" where
  "dash_or_plus token = (starts_with token ''-'' \<or> starts_with token ''+'')"

definition countSeparateValueOptionChars :: "string \<Rightarrow> nat" where
  "countSeparateValueOptionChars token = length (filter (\<lambda>c. c = CHR ''o'' \<or> c = CHR ''O'') (drop 1 token))"

text \<open>The attached command and the number of values in between.\<close>

definition parseCombinedCommandFlag :: "string \<Rightarrow> (string option \<times> nat) option" where
  "parseCombinedCommandFlag token =
     (if length token < 2 \<or> \<not> starts_with token ''-'' \<or> starts_with token ''--'' then None
      else
        let optionChars = drop 1 token; before = takeWhile (\<lambda>c. c \<noteq> CHR ''c'') optionChars
        in if length before = length optionChars \<or> CHR ''-'' \<in> set optionChars then None
           else
             let suffix = drop (Suc (length before)) optionChars
             in if suffix \<noteq> [] \<and> \<not> list_all ascii_letter suffix then Some (Some suffix, 0)
                else Some (None, countSeparateValueOptionChars token))"

definition isCombinedCommandFlag :: "string \<Rightarrow> bool" where
  "isCombinedCommandFlag token = (parseCombinedCommandFlag token \<noteq> None)"

definition combinedSeparateValueOptionCount :: "string \<Rightarrow> nat" where
  "combinedSeparateValueOptionCount token =
     (if length token < 2 \<or> \<not> dash_or_plus token \<or> CHR ''-'' \<in> set (drop 1 token) then 0
      else countSeparateValueOptionChars token)"

definition consumesSeparateValue :: "string \<Rightarrow> bool" where
  "consumesSeparateValue token = (token \<in> set POSIX_SHELL_OPTIONS_WITH_SEPARATE_VALUES)"

definition isPosixShortOption :: "string \<Rightarrow> char \<Rightarrow> bool" where
  "isPosixShortOption token opt =
     (if length token < 2 \<or> \<not> starts_with token ''-'' \<or> CHR ''-'' \<in> set (drop 1 token) then False
      else opt \<in> set (drop 1 token))"

definition isPosixInteractiveModeOption :: "string \<Rightarrow> bool" where
  "isPosixInteractiveModeOption token = (token = ''--interactive'' \<or> isPosixShortOption token CHR ''i'')"

definition advancePosixInlineOptionScan :: "string \<Rightarrow> nat" where
  "advancePosixInlineOptionScan token =
     (if combinedSeparateValueOptionCount token > 0 then 1 + combinedSeparateValueOptionCount token
      else if consumesSeparateValue token then 2 else 1)"

lemma advance_pos [simp]: "0 < advancePosixInlineOptionScan token"
  by (simp add: advancePosixInlineOptionScan_def)

definition isPowerShellOptionToken :: "string \<Rightarrow> bool" where
  "isPowerShellOptionToken token =
     (starts_with token ''-'' \<or>
      (case token of
         s # c # cs \<Rightarrow> s = CHR ''/'' \<and> ascii_letter c \<and> list_all (\<lambda>d. ascii_letter d \<or> ascii_digit d) cs
       | _ \<Rightarrow> False))"

subsection \<open>Finding the command\<close>

record inline_options =
  io_allowCombinedC :: bool
  io_isOptionToken :: "(string \<Rightarrow> bool) option"
  io_restValueFlags :: "string list"
  io_stopAtFirstNonOption :: bool
  io_valueOptions :: "string list"

record inline_match =
  im_command :: "string option"
  im_valueTokenIndex :: "nat option"

definition nonempty :: "string \<Rightarrow> string option" where
  "nonempty s = (if s = [] then None else Some s)"

definition no_match :: inline_match where
  "no_match = \<lparr>im_command = None, im_valueTokenIndex = None\<rparr>"

function inline_loop :: "string list \<Rightarrow> string list \<Rightarrow> inline_options \<Rightarrow> nat \<Rightarrow> inline_match" where
  "inline_loop argv flags opts i =
     (if i \<ge> length argv then no_match
      else
        let token = trimmed_at argv i; lower = normalizeLowercaseStringOrEmpty (Some token);
            comparable = (if io_allowCombinedC opts then token else lower)
        in if token = [] then inline_loop argv flags opts (Suc i)
           else if lower = ''--'' then no_match
           else if comparable \<in> set flags then
             \<lparr>im_command = nonempty
                (if comparable \<in> set (io_restValueFlags opts)
                 then js_trim (join_with '' '' (map js_trim (drop (Suc i) argv))) else trimmed_at argv (Suc i)),
              im_valueTokenIndex = (if Suc i < length argv then Some (Suc i) else None)\<rparr>
           else
             (case (if io_allowCombinedC opts then parseCombinedCommandFlag token else None) of
                Some (Some attached, _) \<Rightarrow> \<lparr>im_command = nonempty (js_trim attached), im_valueTokenIndex = Some i\<rparr>
              | Some (None, separate) \<Rightarrow>
                  \<lparr>im_command = nonempty (trimmed_at argv (i + 1 + separate)), im_valueTokenIndex = Some (i + 1 + separate)\<rparr>
              | None \<Rightarrow>
                  if lower \<in> set (io_valueOptions opts) then inline_loop argv flags opts (i + 2)
                  else if io_stopAtFirstNonOption opts \<and> \<not> (nullish (io_isOptionToken opts) dash_or_plus) token then no_match
                  else if io_allowCombinedC opts \<and> \<not> dash_or_plus token then no_match
                  else inline_loop argv flags opts (i + (if io_allowCombinedC opts then advancePosixInlineOptionScan token else 1))))"
  by pat_completeness auto
termination
  by (relation "measure (\<lambda>(argv, flags, opts, i). length argv - i)") (auto intro!: diff_less_mono2)

declare inline_loop.simps [simp del]

definition resolveInlineCommandMatch :: "string list \<Rightarrow> string list \<Rightarrow> inline_options \<Rightarrow> inline_match" where
  "resolveInlineCommandMatch argv flags opts = inline_loop argv flags opts 1"

definition posix_options :: inline_options where
  "posix_options = \<lparr>io_allowCombinedC = True, io_isOptionToken = None, io_restValueFlags = [], io_stopAtFirstNonOption = False,
     io_valueOptions = []\<rparr>"

definition resolvePowerShellInlineCommandMatch :: "string list \<Rightarrow> inline_match" where
  "resolvePowerShellInlineCommandMatch argv =
     resolveInlineCommandMatch argv POWERSHELL_INLINE_COMMAND_FLAGS
       \<lparr>io_allowCombinedC = False, io_isOptionToken = Some isPowerShellOptionToken, io_restValueFlags = POWERSHELL_COMMAND_FLAGS,
        io_stopAtFirstNonOption = True, io_valueOptions = POWERSHELL_OPTIONS_WITH_SEPARATE_VALUES\<rparr>"

definition isPowerShellInlineRestCommandFlag :: "string \<Rightarrow> bool" where
  "isPowerShellInlineRestCommandFlag token = (normalizeLowercaseStringOrEmpty (Some token) \<in> set POWERSHELL_COMMAND_FLAGS)"

definition isPowerShellInlineFileCommandFlag :: "string \<Rightarrow> bool" where
  "isPowerShellInlineFileCommandFlag token = (normalizeLowercaseStringOrEmpty (Some token) \<in> set POWERSHELL_FILE_FLAGS)"

lemma inline_examples:
  "resolveInlineCommandMatch [''bash'', ''-o'', ''pipefail'', ''-euc'', ''ls; id''] POSIX_INLINE_COMMAND_FLAGS posix_options =
     \<lparr>im_command = Some ''ls; id'', im_valueTokenIndex = Some 4\<rparr>"
  "resolveInlineCommandMatch [''sh'', ''script.sh'', ''-c'', ''id''] POSIX_INLINE_COMMAND_FLAGS posix_options = no_match"
  "resolvePowerShellInlineCommandMatch [''pwsh'', ''-Com'', ''Get-Date'', ''-U''] =
     \<lparr>im_command = Some ''Get-Date -U'', im_valueTokenIndex = Some 2\<rparr>"
  by code_simp+

subsection \<open>Start-up files that run before the command\<close>

text \<open>The common loop of the two tests, with the mode that is looked for and whether it was seen.\<close>

function startup_scan :: "(string \<Rightarrow> bool) \<Rightarrow> string list \<Rightarrow> string list \<Rightarrow> nat \<Rightarrow> bool \<Rightarrow> bool" where
  "startup_scan isMode flags argv i saw =
     (if i \<ge> length argv then False
      else
        let token = trimmed_at argv i; saw1 = (saw \<or> isMode token)
        in if token = [] then startup_scan isMode flags argv (Suc i) saw
           else if token = ''--'' then False
           else if token \<in> set flags \<or> isCombinedCommandFlag token then saw1
           else if \<not> dash_or_plus token then False
           else startup_scan isMode flags argv (i + advancePosixInlineOptionScan token) saw1)"
  by pat_completeness auto
termination
  by (relation "measure (\<lambda>(isMode, flags, argv, i, saw). length argv - i)") (auto intro!: diff_less_mono2)

declare startup_scan.simps [simp del]

definition hasPosixInteractiveStartupBeforeInlineCommand :: "string list \<Rightarrow> string list \<Rightarrow> bool" where
  "hasPosixInteractiveStartupBeforeInlineCommand argv flags = startup_scan isPosixInteractiveModeOption flags argv 1 False"

definition hasPosixLoginStartupBeforeInlineCommand :: "string list \<Rightarrow> string list \<Rightarrow> bool" where
  "hasPosixLoginStartupBeforeInlineCommand argv flags =
     startup_scan (\<lambda>token. token = ''--login'' \<or> isPosixShortOption token CHR ''l'') flags argv 1 False"

fun fish_option :: "(string \<Rightarrow> bool) \<Rightarrow> string list \<Rightarrow> bool" where
  "fish_option isOption [] = False"
| "fish_option isOption (arg # rest) =
     (let token = js_trim arg
      in if token = [] then fish_option isOption rest
         else if token = ''--'' then False
         else if isOption token then True
         else if \<not> dash_or_plus token then False
         else fish_option isOption rest)"

definition hasFishInitCommandOption :: "string list \<Rightarrow> bool" where
  "hasFishInitCommandOption argv =
     fish_option (\<lambda>token. token = ''--init-command'' \<or> starts_with token ''-C'' \<or> starts_with token ''--init-command='') (drop 1 argv)"

definition hasFishAttachedCommandOption :: "string list \<Rightarrow> bool" where
  "hasFishAttachedCommandOption argv = fish_option (\<lambda>token. starts_with token ''-c'' \<and> token \<noteq> ''-c'') (drop 1 argv)"

end
