(* ===== verification/DispatchWrappers.thy ===== *)
theory DispatchWrappers
  imports CommandCarriers
begin

section \<open>Dispatch wrappers\<close>

text \<open>
  Models \<^verbatim>\<open>src/infra/dispatch-wrapper-resolution.ts\<close>: commands such as \<open>nice\<close> or \<open>timeout\<close> that run
  the command in their arguments are unwrapped for policy decisions, and blocked where they cannot
  be seen through. \<open>platform\<close> is \<open>process.platform\<close>.
\<close>

subsection \<open>Scanning the options of a wrapper\<close>

definition MAX_DISPATCH_WRAPPER_DEPTH :: nat where
  "MAX_DISPATCH_WRAPPER_DEPTH = 4"

datatype scan_directive = DirContinue | DirConsumeNext | DirStop | DirInvalid

text \<open>
  A token handler with the state its closure keeps. The loop returns the index it stops at; \<open>expects\<close>
  is \<open>expectsOptionValue\<close>.
\<close>

type_synonym 's token_handler = "'s \<Rightarrow> string \<Rightarrow> string \<Rightarrow> scan_directive \<times> 's"

fun wrapper_scan :: "string list \<Rightarrow> 's token_handler \<Rightarrow> 's \<Rightarrow> bool \<Rightarrow> nat \<Rightarrow> string list \<Rightarrow> nat option" where
  "wrapper_scan separators onToken st expects idx [] = (if expects then None else Some idx)"
| "wrapper_scan separators onToken st expects idx (arg # rest) =
     (let token = js_trim arg
      in if token = [] then wrapper_scan separators onToken st expects (Suc idx) rest
         else if expects then wrapper_scan separators onToken st False (Suc idx) rest
         else if token \<in> set separators then Some (Suc idx)
         else
           (case onToken st token (normalizeLowercaseStringOrEmpty (Some token)) of
              (DirStop, _) \<Rightarrow> Some idx
            | (DirInvalid, _) \<Rightarrow> None
            | (DirConsumeNext, st1) \<Rightarrow> wrapper_scan separators onToken st1 True (Suc idx) rest
            | (DirContinue, st1) \<Rightarrow> wrapper_scan separators onToken st1 False (Suc idx) rest))"

definition scanWrapperInvocation ::
  "string list \<Rightarrow> string list \<Rightarrow> 's token_handler \<Rightarrow> 's \<Rightarrow> (nat \<Rightarrow> string list \<Rightarrow> nat option) \<Rightarrow> string list option" where
  "scanWrapperInvocation argv separators onToken st adjustCommandIndex =
     (case wrapper_scan separators onToken st False 1 (drop 1 argv) of
        None \<Rightarrow> None
      | Some idx \<Rightarrow>
          (case adjustCommandIndex idx argv of
             None \<Rightarrow> None
           | Some commandIndex \<Rightarrow> if commandIndex \<ge> length argv then None else Some (drop commandIndex argv)))"

definition no_adjust :: "nat \<Rightarrow> string list \<Rightarrow> nat option" where
  "no_adjust idx argv = Some idx"

text \<open>A handler without state.\<close>

definition stateless :: "(string \<Rightarrow> string \<Rightarrow> scan_directive) \<Rightarrow> unit token_handler" where
  "stateless f = (\<lambda>st token lower. (f token lower, st))"

definition dash_token :: "string \<Rightarrow> bool" where
  "dash_token token = (starts_with token ''-'' \<and> token \<noteq> ''-'')"

definition unwrapDashOptionInvocation ::
  "string list \<Rightarrow> (string \<Rightarrow> string \<Rightarrow> scan_directive) \<Rightarrow> (nat \<Rightarrow> string list \<Rightarrow> nat option) \<Rightarrow> string list option" where
  "unwrapDashOptionInvocation argv onFlag adjustCommandIndex =
     scanWrapperInvocation argv [''--'']
       (stateless (\<lambda>token lower. if \<not> dash_token token then DirStop else onFlag (optionName lower) lower)) () adjustCommandIndex"

subsection \<open>The wrappers\<close>

definition NICE_OPTIONS_WITH_VALUE :: "string list" where
  "NICE_OPTIONS_WITH_VALUE = [''-n'', ''--adjustment'', ''--priority'']"

definition CAFFEINATE_OPTIONS_WITH_VALUE :: "string list" where
  "CAFFEINATE_OPTIONS_WITH_VALUE = [''-t'', ''-w'']"

definition STDBUF_OPTIONS_WITH_VALUE :: "string list" where
  "STDBUF_OPTIONS_WITH_VALUE = [''-i'', ''--input'', ''-o'', ''--output'', ''-e'', ''--error'']"

definition TIME_FLAG_OPTIONS :: "string list" where
  "TIME_FLAG_OPTIONS = [''-a'', ''--append'', ''-h'', ''--help'', ''-l'', ''-p'', ''-q'', ''--quiet'', ''-v'', ''--verbose'',
     ''-V'', ''--version'']"

definition TIME_OPTIONS_WITH_VALUE :: "string list" where
  "TIME_OPTIONS_WITH_VALUE = [''-f'', ''--format'', ''-o'', ''--output'']"

definition BSD_SCRIPT_FLAG_OPTIONS :: "string list" where
  "BSD_SCRIPT_FLAG_OPTIONS = [''-a'', ''-d'', ''-k'', ''-p'', ''-q'', ''-r'']"

definition BSD_SCRIPT_OPTIONS_WITH_VALUE :: "string list" where
  "BSD_SCRIPT_OPTIONS_WITH_VALUE = [''-F'', ''-t'']"

definition SANDBOX_EXEC_OPTIONS_WITH_VALUE :: "string list" where
  "SANDBOX_EXEC_OPTIONS_WITH_VALUE = [''-f'', ''-p'', ''-d'']"

definition TIMEOUT_FLAG_OPTIONS :: "string list" where
  "TIMEOUT_FLAG_OPTIONS = [''--foreground'', ''--preserve-status'', ''-v'', ''--verbose'']"

definition TIMEOUT_OPTIONS_WITH_VALUE :: "string list" where
  "TIMEOUT_OPTIONS_WITH_VALUE = [''-k'', ''--kill-after'', ''-s'', ''--signal'']"

definition XCRUN_FLAG_OPTIONS :: "string list" where
  "XCRUN_FLAG_OPTIONS = [''-k'', ''--kill-cache'', ''-l'', ''--log'', ''-n'', ''--no-cache'', ''-r'', ''--run'', ''-v'', ''--verbose'']"

text \<open>\<open>lower.includes("=") ? "continue" : "consume-next"\<close>, with a condition for the first answer.\<close>

definition value_directive :: "bool \<Rightarrow> scan_directive" where
  "value_directive attached = (if attached then DirContinue else DirConsumeNext)"

definition has_equals :: "string \<Rightarrow> bool" where
  "has_equals s = (CHR ''='' \<in> set s)"

definition unwrapNiceInvocation :: "string list \<Rightarrow> string list option" where
  "unwrapNiceInvocation argv =
     unwrapDashOptionInvocation argv
       (\<lambda>flag lower.
          if starts_with lower ''-'' \<and> length lower > 1 \<and> list_all ascii_digit (drop 1 lower) then DirContinue
          else if flag \<in> set NICE_OPTIONS_WITH_VALUE then value_directive (has_equals lower \<or> lower \<noteq> flag)
          else if starts_with lower ''-n'' \<and> length lower > 2 then DirContinue
          else DirInvalid) no_adjust"

definition unwrapCaffeinateInvocation :: "string list \<Rightarrow> string list option" where
  "unwrapCaffeinateInvocation argv =
     unwrapDashOptionInvocation argv
       (\<lambda>flag lower.
          if flag \<in> set [''-d'', ''-i'', ''-m'', ''-s'', ''-u''] then DirContinue
          else if flag \<in> set CAFFEINATE_OPTIONS_WITH_VALUE then value_directive (lower \<noteq> flag \<or> has_equals lower)
          else DirInvalid) no_adjust"

definition unwrapNohupInvocation :: "string list \<Rightarrow> string list option" where
  "unwrapNohupInvocation argv =
     scanWrapperInvocation argv [''--'']
       (stateless (\<lambda>token lower.
          if \<not> dash_token token then DirStop
          else if lower = ''--help'' \<or> lower = ''--version'' then DirContinue else DirInvalid)) () no_adjust"

definition unwrapSandboxExecInvocation :: "string list \<Rightarrow> string list option" where
  "unwrapSandboxExecInvocation argv =
     unwrapDashOptionInvocation argv
       (\<lambda>flag lower. if flag \<in> set SANDBOX_EXEC_OPTIONS_WITH_VALUE then value_directive (lower \<noteq> flag \<or> has_equals lower)
          else DirInvalid) no_adjust"

definition unwrapStdbufInvocation :: "string list \<Rightarrow> string list option" where
  "unwrapStdbufInvocation argv =
     unwrapDashOptionInvocation argv
       (\<lambda>flag lower. if flag \<notin> set STDBUF_OPTIONS_WITH_VALUE then DirInvalid else value_directive (has_equals lower)) no_adjust"

definition unwrapTimeInvocation :: "string list \<Rightarrow> string list option" where
  "unwrapTimeInvocation argv =
     unwrapDashOptionInvocation argv
       (\<lambda>flag lower.
          if flag \<in> set TIME_FLAG_OPTIONS then DirContinue
          else if flag \<in> set TIME_OPTIONS_WITH_VALUE then value_directive (has_equals lower)
          else DirInvalid) no_adjust"

definition supportsScriptPositionalCommand :: "string \<Rightarrow> bool" where
  "supportsScriptPositionalCommand platform = (platform = ''darwin'' \<or> platform = ''freebsd'')"

text \<open>The command follows the name of the transcript, the first argument that is not blank.\<close>

definition script_command_index :: "nat \<Rightarrow> string list \<Rightarrow> nat option" where
  "script_command_index commandIndex argv =
     (case filter (\<lambda>idx. trimmed_at argv idx \<noteq> []) [commandIndex..<length argv] of
        transcript # idx # _ \<Rightarrow> Some idx
      | _ \<Rightarrow> None)"

definition unwrapScriptInvocation :: "string \<Rightarrow> string list \<Rightarrow> string list option" where
  "unwrapScriptInvocation platform argv =
     (if \<not> supportsScriptPositionalCommand platform then None
      else scanWrapperInvocation argv [''--'']
        (stateless (\<lambda>token lower.
           if \<not> dash_token lower then DirStop
           else
             let flag = optionName token
             in if flag \<in> set BSD_SCRIPT_OPTIONS_WITH_VALUE then value_directive (has_equals token)
                else if flag \<in> set BSD_SCRIPT_FLAG_OPTIONS then DirContinue
                else DirInvalid)) () script_command_index)"

definition timeout_command_index :: "nat \<Rightarrow> string list \<Rightarrow> nat option" where
  "timeout_command_index commandIndex argv = (if Suc commandIndex < length argv then Some (Suc commandIndex) else None)"

definition unwrapTimeoutInvocation :: "string list \<Rightarrow> string list option" where
  "unwrapTimeoutInvocation argv =
     unwrapDashOptionInvocation argv
       (\<lambda>flag lower.
          if flag \<in> set TIMEOUT_FLAG_OPTIONS then DirContinue
          else if flag \<in> set TIMEOUT_OPTIONS_WITH_VALUE then value_directive (has_equals lower)
          else DirInvalid) timeout_command_index"

definition isArchSelectorToken :: "string \<Rightarrow> bool" where
  "isArchSelectorToken token =
     (starts_with token ''-'' \<and> length token > 1 \<and> list_all (\<lambda>c. ascii_letter c \<or> ascii_digit c \<or> c = CHR ''_'') (drop 1 token))"

definition isKnownArchSelectorToken :: "string \<Rightarrow> bool" where
  "isKnownArchSelectorToken token = (token \<in> set [''-arm64'', ''-arm64e'', ''-i386'', ''-x86_64'', ''-x86_64h''])"

definition isKnownArchNameToken :: "string \<Rightarrow> bool" where
  "isKnownArchNameToken token = isKnownArchSelectorToken (''-'' @ token)"

text \<open>The state of the closure is \<open>expectsArchName\<close>.\<close>

definition arch_token :: "bool token_handler" where
  "arch_token expectsArchName token lower =
     (if expectsArchName then (if isKnownArchNameToken lower then DirContinue else DirInvalid, False)
      else if \<not> dash_token token then (DirStop, False)
      else if lower = ''-32'' \<or> lower = ''-64'' then (DirContinue, False)
      else if lower = ''-arch'' then (DirContinue, True)
      else if lower \<in> set [''-c'', ''-d'', ''-e'', ''-h''] then (DirInvalid, False)
      else (if isArchSelectorToken token \<and> isKnownArchSelectorToken lower then DirContinue else DirInvalid, False))"

definition unwrapArchInvocation :: "string list \<Rightarrow> string list option" where
  "unwrapArchInvocation argv = scanWrapperInvocation argv [] arch_token False no_adjust"

definition supportsArchDispatchWrapper :: "string \<Rightarrow> bool" where
  "supportsArchDispatchWrapper platform = (platform = ''darwin'')"

definition supportsXcrunDispatchWrapper :: "string \<Rightarrow> bool" where
  "supportsXcrunDispatchWrapper platform = (platform = ''darwin'')"

definition unwrapXcrunInvocation :: "string list \<Rightarrow> string list option" where
  "unwrapXcrunInvocation argv =
     scanWrapperInvocation argv []
       (stateless (\<lambda>token lower.
          if \<not> dash_token token then DirStop else if lower \<in> set XCRUN_FLAG_OPTIONS then DirContinue else DirInvalid)) () no_adjust"

subsection \<open>The table\<close>

record dispatch_wrapper_spec =
  dw_name :: string
  dw_unwrap :: "(string \<Rightarrow> string list \<Rightarrow> string list option) option"
  dw_transparentUsage :: "string \<Rightarrow> string list \<Rightarrow> bool"

definition transparent_wrapper :: "string \<Rightarrow> (string list \<Rightarrow> string list option) \<Rightarrow> dispatch_wrapper_spec" where
  "transparent_wrapper name unwrap = \<lparr>dw_name = name, dw_unwrap = Some (\<lambda>platform. unwrap), dw_transparentUsage = (\<lambda>platform argv. True)\<rparr>"

definition opaque_wrapper :: "string \<Rightarrow> dispatch_wrapper_spec" where
  "opaque_wrapper name = \<lparr>dw_name = name, dw_unwrap = None, dw_transparentUsage = (\<lambda>platform argv. False)\<rparr>"

definition DISPATCH_WRAPPER_SPECS :: "dispatch_wrapper_spec list" where
  "DISPATCH_WRAPPER_SPECS =
     [\<lparr>dw_name = ''arch'',
       dw_unwrap = Some (\<lambda>platform argv. if supportsArchDispatchWrapper platform then unwrapArchInvocation argv else None),
       dw_transparentUsage = (\<lambda>platform argv. supportsArchDispatchWrapper platform)\<rparr>,
      transparent_wrapper ''caffeinate'' unwrapCaffeinateInvocation,
      opaque_wrapper ''chrt'',
      opaque_wrapper ''doas'',
      \<lparr>dw_name = ''env'', dw_unwrap = Some (\<lambda>platform. unwrapEnvInvocation),
       dw_transparentUsage = (\<lambda>platform argv. \<not> envInvocationUsesModifiers argv)\<rparr>,
      opaque_wrapper ''ionice'',
      transparent_wrapper ''nice'' unwrapNiceInvocation,
      transparent_wrapper ''nohup'' unwrapNohupInvocation,
      transparent_wrapper ''sandbox-exec'' unwrapSandboxExecInvocation,
      \<lparr>dw_name = ''script'', dw_unwrap = Some unwrapScriptInvocation, dw_transparentUsage = (\<lambda>platform argv. True)\<rparr>,
      opaque_wrapper ''setsid'',
      transparent_wrapper ''stdbuf'' unwrapStdbufInvocation,
      opaque_wrapper ''sudo'',
      opaque_wrapper ''taskset'',
      transparent_wrapper ''time'' unwrapTimeInvocation,
      transparent_wrapper ''timeout'' unwrapTimeoutInvocation,
      \<lparr>dw_name = ''xcrun'',
       dw_unwrap = Some (\<lambda>platform argv. if supportsXcrunDispatchWrapper platform then unwrapXcrunInvocation argv else None),
       dw_transparentUsage = (\<lambda>platform argv. supportsXcrunDispatchWrapper platform)\<rparr>]"

definition dispatch_spec :: "string \<Rightarrow> dispatch_wrapper_spec option" where
  "dispatch_spec name = find (\<lambda>spec. dw_name spec = name) DISPATCH_WRAPPER_SPECS"

subsection \<open>Unwrapping\<close>

text \<open>Shared by the dispatch wrappers and the shell multiplexers.\<close>

datatype unwrap_result = NotWrapper | BlockedWrapper string | Unwrapped string "string list"

definition unwrapDispatchWrapper :: "string \<Rightarrow> string list option \<Rightarrow> unwrap_result" where
  "unwrapDispatchWrapper wrapper unwrapped =
     (case unwrapped of None \<Rightarrow> BlockedWrapper wrapper | Some argv \<Rightarrow> Unwrapped wrapper argv)"

definition isDispatchWrapperExecutable :: "string \<Rightarrow> bool" where
  "isDispatchWrapperExecutable token = (dispatch_spec (normalizeExecutableToken token) \<noteq> None)"

definition unwrapKnownDispatchWrapperInvocation :: "string \<Rightarrow> string list \<Rightarrow> unwrap_result" where
  "unwrapKnownDispatchWrapperInvocation platform argv =
     (let token0 = trimmed_at argv 0
      in if token0 = [] then NotWrapper
         else
           let wrapper = normalizeExecutableToken token0
           in case dispatch_spec wrapper of
                None \<Rightarrow> NotWrapper
              | Some spec \<Rightarrow>
                  (case dw_unwrap spec of
                     Some unwrap \<Rightarrow> unwrapDispatchWrapper wrapper (unwrap platform argv)
                   | None \<Rightarrow> BlockedWrapper wrapper))"

definition isSemanticDispatchWrapperUsage :: "string \<Rightarrow> string \<Rightarrow> string list \<Rightarrow> bool" where
  "isSemanticDispatchWrapperUsage platform wrapper argv =
     (case dispatch_spec wrapper of
        None \<Rightarrow> True
      | Some spec \<Rightarrow> dw_unwrap spec = None \<or> \<not> dw_transparentUsage spec platform argv)"

record dispatch_plan =
  dp_argv :: "string list"
  dp_wrappers :: "string list"
  dp_policyBlocked :: bool
  dp_blockedWrapper :: "string option"

definition blockedDispatchWrapperPlan :: "string list \<Rightarrow> string list \<Rightarrow> string \<Rightarrow> dispatch_plan" where
  "blockedDispatchWrapperPlan argv wrappers wrapper =
     \<lparr>dp_argv = argv, dp_wrappers = wrappers, dp_policyBlocked = True, dp_blockedWrapper = Some wrapper\<rparr>"

text \<open>The loop, with the iterations that are left; a blocked wrapper ends it with the left of a sum.\<close>

fun dispatch_loop :: "string \<Rightarrow> nat \<Rightarrow> string list \<Rightarrow> string list \<Rightarrow> dispatch_plan + string list \<times> string list" where
  "dispatch_loop platform 0 current wrappers = Inr (current, wrappers)"
| "dispatch_loop platform (Suc n) current wrappers =
     (case unwrapKnownDispatchWrapperInvocation platform current of
        BlockedWrapper wrapper \<Rightarrow> Inl (blockedDispatchWrapperPlan current wrappers wrapper)
      | NotWrapper \<Rightarrow> Inr (current, wrappers)
      | Unwrapped wrapper argv \<Rightarrow>
          if length argv = 0 then Inr (current, wrappers)
          else if isSemanticDispatchWrapperUsage platform wrapper current then
            Inl (blockedDispatchWrapperPlan current (wrappers @ [wrapper]) wrapper)
          else dispatch_loop platform n argv (wrappers @ [wrapper]))"

definition resolveDispatchWrapperTrustPlan :: "string \<Rightarrow> string list \<Rightarrow> nat \<Rightarrow> dispatch_plan" where
  "resolveDispatchWrapperTrustPlan platform argv maxDepth =
     (case dispatch_loop platform maxDepth argv [] of
        Inl plan \<Rightarrow> plan
      | Inr (current, wrappers) \<Rightarrow>
          (let plan = \<lparr>dp_argv = current, dp_wrappers = wrappers, dp_policyBlocked = False, dp_blockedWrapper = None\<rparr>
           in if length wrappers \<ge> maxDepth then
                (case unwrapKnownDispatchWrapperInvocation platform current of
                   NotWrapper \<Rightarrow> plan
                 | BlockedWrapper wrapper \<Rightarrow> blockedDispatchWrapperPlan current wrappers wrapper
                 | Unwrapped wrapper _ \<Rightarrow> blockedDispatchWrapperPlan current wrappers wrapper)
              else plan))"

definition unwrapDispatchWrappersForResolution :: "string \<Rightarrow> string list \<Rightarrow> string list" where
  "unwrapDispatchWrappersForResolution platform argv =
     dp_argv (resolveDispatchWrapperTrustPlan platform argv MAX_DISPATCH_WRAPPER_DEPTH)"

definition hasDispatchEnvManipulation :: "string \<Rightarrow> string list \<Rightarrow> bool" where
  "hasDispatchEnvManipulation platform argv =
     (case unwrapKnownDispatchWrapperInvocation platform argv of
        Unwrapped wrapper _ \<Rightarrow> wrapper = ''env'' \<and> envInvocationUsesModifiers argv
      | _ \<Rightarrow> False)"

text \<open>The variables that \<open>env\<close> wrappers assign, before they are sorted.\<close>

fun env_assignment_keys :: "string \<Rightarrow> nat \<Rightarrow> string list \<Rightarrow> string list" where
  "env_assignment_keys platform 0 current = []"
| "env_assignment_keys platform (Suc n) current =
     (case unwrapKnownDispatchWrapperInvocation platform current of
        Unwrapped wrapper argv \<Rightarrow>
          if length argv = 0 then []
          else
            (if wrapper = ''env'' then
               (case parseEnvInvocationPrelude current 0 of None \<Rightarrow> [] | Some parsed \<Rightarrow> ep_assignmentKeys parsed)
             else []) @ env_assignment_keys platform n argv
      | _ \<Rightarrow> [])"

definition extractEnvAssignmentKeysFromDispatchWrappers ::
  "(string \<Rightarrow> string \<Rightarrow> int) \<Rightarrow> string \<Rightarrow> string list \<Rightarrow> nat \<Rightarrow> string list" where
  "extractEnvAssignmentKeysFromDispatchWrappers localeCompare platform argv maxDepth =
     sort_by localeCompare (js_uniq (env_assignment_keys platform maxDepth argv))"

lemma dispatch_examples:
  "resolveDispatchWrapperTrustPlan ''linux'' [''nice'', ''-n'', ''5'', ''timeout'', ''-k'', ''3'', ''10s'', ''ls'', ''-l''] 4 =
     \<lparr>dp_argv = [''ls'', ''-l''], dp_wrappers = [''nice'', ''timeout''], dp_policyBlocked = False, dp_blockedWrapper = None\<rparr>"
  "resolveDispatchWrapperTrustPlan ''linux'' [''nohup'', ''env'', ''A=1'', ''ls''] 4 =
     \<lparr>dp_argv = [''env'', ''A=1'', ''ls''], dp_wrappers = [''nohup'', ''env''], dp_policyBlocked = True, dp_blockedWrapper = Some ''env''\<rparr>"
  by code_simp+

end
