(* ===== verification/ShellWrappers.thy ===== *)
theory ShellWrappers
  imports DispatchWrappers CommandCarriers JsStrings
begin

section \<open>Shell wrappers and the trust plan\<close>

text \<open>
  Models \<^verbatim>\<open>src/infra/shell-wrapper-resolution.ts\<close> and
  \<^verbatim>\<open>src/infra/exec-wrapper-trust-plan.ts\<close>: what an argument list really runs once dispatch
  wrappers and shell multiplexers are taken off, and the command a shell is asked to run.
\<close>

subsection \<open>Shells\<close>

definition POSIX_SHELL_WRAPPER_NAMES :: "string list" where
  "POSIX_SHELL_WRAPPER_NAMES = [''ash'', ''bash'', ''dash'', ''fish'', ''ksh'', ''sh'', ''zsh'']"

definition WINDOWS_CMD_WRAPPER_NAMES :: "string list" where
  "WINDOWS_CMD_WRAPPER_NAMES = [''cmd'']"

definition POWERSHELL_WRAPPER_NAMES :: "string list" where
  "POWERSHELL_WRAPPER_NAMES = [''powershell'', ''pwsh'']"

definition SHELL_MULTIPLEXER_WRAPPER_NAMES :: "string list" where
  "SHELL_MULTIPLEXER_WRAPPER_NAMES = [''busybox'', ''toybox'']"

definition withWindowsExeAliases :: "string list \<Rightarrow> string list" where
  "withWindowsExeAliases names = js_uniq (concat (map (\<lambda>name. [name, name @ ''.exe'']) names))"

definition POWERSHELL_WRAPPERS :: "string list" where
  "POWERSHELL_WRAPPERS = withWindowsExeAliases POWERSHELL_WRAPPER_NAMES"

definition SHELL_WRAPPER_CANONICAL :: "string list" where
  "SHELL_WRAPPER_CANONICAL = POSIX_SHELL_WRAPPER_NAMES @ WINDOWS_CMD_WRAPPER_NAMES @ POWERSHELL_WRAPPER_NAMES"

datatype shell_kind = PosixShell | CmdShell | PowerShellKind

definition findShellWrapperSpec :: "string \<Rightarrow> shell_kind option" where
  "findShellWrapperSpec baseExecutable =
     (if baseExecutable \<in> set POSIX_SHELL_WRAPPER_NAMES then Some PosixShell
      else if baseExecutable \<in> set WINDOWS_CMD_WRAPPER_NAMES then Some CmdShell
      else if baseExecutable \<in> set POWERSHELL_WRAPPER_NAMES then Some PowerShellKind
      else None)"

definition isShellWrapperExecutable :: "string \<Rightarrow> bool" where
  "isShellWrapperExecutable token = (normalizeExecutableToken token \<in> set SHELL_WRAPPER_CANONICAL)"

definition unwrapKnownShellMultiplexerInvocation :: "string list \<Rightarrow> unwrap_result" where
  "unwrapKnownShellMultiplexerInvocation argv =
     (let token0 = trimmed_at argv 0; wrapper = normalizeExecutableToken token0
      in if token0 = [] \<or> wrapper \<notin> set SHELL_MULTIPLEXER_WRAPPER_NAMES then NotWrapper
         else
           let appletIndex = (if trimmed_at argv 1 = ''--'' then 2 else 1); applet = trimmed_at argv appletIndex
           in if applet = [] \<or> \<not> isShellWrapperExecutable applet then BlockedWrapper wrapper
              else if drop appletIndex argv = [] then BlockedWrapper wrapper
              else Unwrapped wrapper (drop appletIndex argv))"

subsection \<open>Candidates\<close>

definition isWithinDispatchClassificationDepth :: "nat \<Rightarrow> bool" where
  "isWithinDispatchClassificationDepth depth = (depth \<le> MAX_DISPATCH_WRAPPER_DEPTH)"

text \<open>The argument list with the wrappers off, its first token, and the state of the callback.\<close>

function resolveShellWrapperCandidate ::
  "string \<Rightarrow> ('s \<Rightarrow> string list \<Rightarrow> 's) \<Rightarrow> string list \<Rightarrow> nat \<Rightarrow> 's \<Rightarrow> (string list \<times> string \<times> 's) option" where
  "resolveShellWrapperCandidate platform onDispatchUnwrap argv depth st =
     (if \<not> isWithinDispatchClassificationDepth depth then None
      else
        let token0 = trimmed_at argv 0
        in if token0 = [] then None
           else
             (case unwrapKnownDispatchWrapperInvocation platform argv of
                BlockedWrapper _ \<Rightarrow> None
              | Unwrapped _ inner \<Rightarrow>
                  resolveShellWrapperCandidate platform onDispatchUnwrap inner (Suc depth) (onDispatchUnwrap st argv)
              | NotWrapper \<Rightarrow>
                  (case unwrapKnownShellMultiplexerInvocation argv of
                     BlockedWrapper _ \<Rightarrow> None
                   | Unwrapped _ inner \<Rightarrow> resolveShellWrapperCandidate platform onDispatchUnwrap inner (Suc depth) st
                   | NotWrapper \<Rightarrow> Some (argv, token0, st))))"
  by pat_completeness auto
termination
  by (relation "measure (\<lambda>(platform, f, argv, depth, st). Suc MAX_DISPATCH_WRAPPER_DEPTH - depth)")
    (auto simp: isWithinDispatchClassificationDepth_def)

declare resolveShellWrapperCandidate.simps [simp del]

definition ignore_unwrap :: "unit \<Rightarrow> string list \<Rightarrow> unit" where
  "ignore_unwrap st argv = ()"

definition isShellWrapperInvocation :: "string \<Rightarrow> string list \<Rightarrow> bool" where
  "isShellWrapperInvocation platform argv =
     (case resolveShellWrapperCandidate platform ignore_unwrap argv 0 () of
        None \<Rightarrow> False
      | Some (_, token0, _) \<Rightarrow> isShellWrapperExecutable token0)"

subsection \<open>Payloads\<close>

definition extractPosixShellInlineCommand :: "string list \<Rightarrow> string option" where
  "extractPosixShellInlineCommand argv = im_command (resolveInlineCommandMatch argv POSIX_INLINE_COMMAND_FLAGS posix_options)"

definition extractCmdInlineCommand :: "string list \<Rightarrow> string option" where
  "extractCmdInlineCommand argv =
     (let rest = dropWhile (\<lambda>item. normalizeLowercaseStringOrEmpty (Some item) \<notin> set [''/c'', ''/k'', ''-c'', ''-k'']) argv;
          tail = drop 1 rest
      in if rest = [] \<or> tail = [] then None else nonempty (js_trim (join_with '' '' tail)))"

definition extractPowerShellInlineCommand :: "string list \<Rightarrow> string option" where
  "extractPowerShellInlineCommand argv = im_command (resolvePowerShellInlineCommandMatch argv)"

definition extractShellWrapperPayload :: "string list \<Rightarrow> shell_kind \<Rightarrow> string option" where
  "extractShellWrapperPayload argv kind =
     (case kind of
        PosixShell \<Rightarrow> extractPosixShellInlineCommand argv
      | CmdShell \<Rightarrow> extractCmdInlineCommand argv
      | PowerShellKind \<Rightarrow> extractPowerShellInlineCommand argv)"

text \<open>A shell with a payload: the argument list, the kind and the payload.\<close>

definition shell_and_payload :: "string list \<times> string \<times> 's \<Rightarrow> (string list \<times> shell_kind \<times> string) option" where
  "shell_and_payload candidate =
     (case candidate of (argv, token0, _) \<Rightarrow>
        (case findShellWrapperSpec (normalizeExecutableToken token0) of
           None \<Rightarrow> None
         | Some kind \<Rightarrow>
             (case extractShellWrapperPayload argv kind of
                None \<Rightarrow> None
              | Some payload \<Rightarrow> if payload = [] then None else Some (argv, kind, payload))))"

definition resolveShellWrapperSpecAndArgvInternal :: "string \<Rightarrow> string list \<Rightarrow> nat \<Rightarrow> (string list \<times> shell_kind \<times> string) option" where
  "resolveShellWrapperSpecAndArgvInternal platform argv depth =
     Option.bind (resolveShellWrapperCandidate platform ignore_unwrap argv depth ()) shell_and_payload"

definition isLegacyLoginInlineForm :: "string list \<Rightarrow> bool" where
  "isLegacyLoginInlineForm argv = (trimmed_at argv 1 = ''-lc'')"

definition isLegacyShLoginInlineForm :: "string list \<Rightarrow> string \<Rightarrow> bool" where
  "isLegacyShLoginInlineForm argv baseExecutable = (baseExecutable = ''sh'' \<and> isLegacyLoginInlineForm argv)"

definition formatShellWrapperArgv :: "string list \<Rightarrow> string" where
  "formatShellWrapperArgv argv =
     join_with '' '' (map (\<lambda>arg.
       if length arg = 0 then [dquote, dquote]
       else if list_ex (\<lambda>c. js_is_space c \<or> c = dquote) arg then
         [dquote] @ concat (map (\<lambda>c. if c = dquote then [bslash, dquote] else [c]) arg) @ [dquote]
       else arg) argv)"

definition startupWrapperRequiresFullArgv :: "string list \<Rightarrow> shell_kind \<Rightarrow> string \<Rightarrow> bool \<Rightarrow> bool" where
  "startupWrapperRequiresFullArgv argv kind baseExecutable includeLegacyLoginInlineForm =
     (if kind \<noteq> PosixShell then False
      else if baseExecutable = ''fish'' \<and> hasFishInitCommandOption argv then True
      else if baseExecutable \<in> set POSIX_SHELL_WRAPPER_NAMES
          \<and> hasPosixLoginStartupBeforeInlineCommand argv POSIX_INLINE_COMMAND_FLAGS then
        includeLegacyLoginInlineForm \<or> \<not> isLegacyShLoginInlineForm argv baseExecutable
      else hasPosixInteractiveStartupBeforeInlineCommand argv POSIX_INLINE_COMMAND_FLAGS)"

definition hasEnvManipulationBeforeShellWrapper :: "string \<Rightarrow> string list \<Rightarrow> bool" where
  "hasEnvManipulationBeforeShellWrapper platform argv =
     (case resolveShellWrapperCandidate platform (\<lambda>st wrapped. st \<or> hasDispatchEnvManipulation platform wrapped) argv 0 False of
        None \<Rightarrow> False
      | Some candidate \<Rightarrow> (if shell_and_payload candidate = None then False else snd (snd candidate)))"

definition normalizeRawCommand :: "string option \<Rightarrow> string option" where
  "normalizeRawCommand rawCommand = nonempty (js_trim (nullish rawCommand []))"

record shell_wrapper_command =
  sw_isWrapper :: bool
  sw_command :: "string option"

definition extractShellWrapperCommandInternal :: "string \<Rightarrow> string list \<Rightarrow> string option \<Rightarrow> nat \<Rightarrow> shell_wrapper_command" where
  "extractShellWrapperCommandInternal platform argv rawCommand depth =
     (let notWrapper = \<lparr>sw_isWrapper = False, sw_command = None\<rparr>
      in case resolveShellWrapperCandidate platform ignore_unwrap argv depth () of
           None \<Rightarrow> notWrapper
         | Some (cargv, token0, _) \<Rightarrow>
             (let baseExecutable = normalizeExecutableToken token0
              in case shell_and_payload (cargv, token0, ()) of
                   None \<Rightarrow> notWrapper
                 | Some (_, kind, payload) \<Rightarrow>
                     if kind = PosixShell \<and> baseExecutable = ''fish'' \<and> hasFishAttachedCommandOption cargv then
                       \<lparr>sw_isWrapper = True, sw_command = None\<rparr>
                     else
                       let rawMatchesPayload = (rawCommand = Some payload);
                           rawMatchesCanonicalArgv = (rawCommand = Some (formatShellWrapperArgv cargv));
                           allowLegacy = (isLegacyShLoginInlineForm cargv baseExecutable \<and> (rawMatchesPayload \<or> rawMatchesCanonicalArgv))
                       in if startupWrapperRequiresFullArgv cargv kind baseExecutable (\<not> allowLegacy) then
                            \<lparr>sw_isWrapper = True, sw_command = None\<rparr>
                          else
                            (case resolveShellWrapperSpecAndArgvInternal platform cargv depth of
                               None \<Rightarrow> notWrapper
                             | Some (_, _, resolvedPayload) \<Rightarrow>
                                 \<lparr>sw_isWrapper = True,
                                  sw_command = Some (if rawMatchesCanonicalArgv then resolvedPayload
                                    else nullish rawCommand resolvedPayload)\<rparr>)))"

definition resolveShellWrapperTransportArgv :: "string \<Rightarrow> string list \<Rightarrow> string list option" where
  "resolveShellWrapperTransportArgv platform argv = map_option fst (resolveShellWrapperSpecAndArgvInternal platform argv 0)"

definition extractShellWrapperInlineCommand :: "string \<Rightarrow> string list \<Rightarrow> string option" where
  "extractShellWrapperInlineCommand platform argv =
     map_option (\<lambda>(_, _, payload). payload) (resolveShellWrapperSpecAndArgvInternal platform argv 0)"

definition extractShellWrapperCommand :: "string \<Rightarrow> string list \<Rightarrow> string option \<Rightarrow> shell_wrapper_command" where
  "extractShellWrapperCommand platform argv rawCommand =
     extractShellWrapperCommandInternal platform argv (normalizeRawCommand rawCommand) 0"

definition extractBindableShellWrapperInlineCommand :: "string \<Rightarrow> string list \<Rightarrow> string option \<Rightarrow> string option" where
  "extractBindableShellWrapperInlineCommand platform argv rawCommand = sw_command (extractShellWrapperCommand platform argv rawCommand)"

definition isBlockedShellWrapperCommand :: "string \<Rightarrow> string list \<Rightarrow> string option \<Rightarrow> bool" where
  "isBlockedShellWrapperCommand platform argv rawCommand =
     (let extracted = extractShellWrapperCommand platform argv rawCommand
      in sw_isWrapper extracted \<and> sw_command extracted = None)"

subsection \<open>The trust plan\<close>

record trust_plan =
  tp_argv :: "string list"
  tp_policyArgv :: "string list"
  tp_wrapperChain :: "string list"
  tp_policyBlocked :: bool
  tp_blockedWrapper :: "string option"
  tp_shellWrapperExecutable :: bool
  tp_shellInlineCommand :: "string option"

definition blockedExecWrapperTrustPlan :: "string list \<Rightarrow> string list \<Rightarrow> string list \<Rightarrow> string \<Rightarrow> trust_plan" where
  "blockedExecWrapperTrustPlan argv policyArgv wrapperChain blockedWrapper =
     \<lparr>tp_argv = argv, tp_policyArgv = policyArgv, tp_wrapperChain = wrapperChain, tp_policyBlocked = True,
      tp_blockedWrapper = Some blockedWrapper, tp_shellWrapperExecutable = False, tp_shellInlineCommand = None\<rparr>"

definition finalizeExecWrapperTrustPlan :: "string \<Rightarrow> string list \<Rightarrow> string list \<Rightarrow> string list \<Rightarrow> trust_plan" where
  "finalizeExecWrapperTrustPlan platform argv policyArgv wrapperChain =
     (let rawExecutable = trimmed_at argv 0;
          shellWrapperExecutable = (length rawExecutable > 0 \<and> isShellWrapperExecutable rawExecutable)
      in \<lparr>tp_argv = argv, tp_policyArgv = policyArgv, tp_wrapperChain = wrapperChain, tp_policyBlocked = False,
          tp_blockedWrapper = None, tp_shellWrapperExecutable = shellWrapperExecutable,
          tp_shellInlineCommand =
            (if shellWrapperExecutable then extractBindableShellWrapperInlineCommand platform argv None else None)\<rparr>)"

text \<open>
  The loop, with the iterations that are left: a blocked plan on the left, or the argument list, the
  list the policy looks at and the wrappers seen.
\<close>

fun trust_loop ::
  "string \<Rightarrow> nat \<Rightarrow> nat \<Rightarrow> string list \<Rightarrow> string list \<Rightarrow> bool \<Rightarrow> string list \<Rightarrow> trust_plan + string list \<times> string list \<times> string list" where
  "trust_loop platform maxDepth 0 current policyArgv saw wrapperChain = Inr (current, policyArgv, wrapperChain)"
| "trust_loop platform maxDepth (Suc n) current policyArgv saw wrapperChain =
     (let dispatchPlan = resolveDispatchWrapperTrustPlan platform current (maxDepth - length wrapperChain)
      in if dp_policyBlocked dispatchPlan then
           Inl (blockedExecWrapperTrustPlan (dp_argv dispatchPlan) (dp_argv dispatchPlan) wrapperChain
             (nullish (dp_blockedWrapper dispatchPlan) (nullish (if current = [] then None else Some (hd current)) ''unknown'')))
         else if length (dp_wrappers dispatchPlan) > 0 then
           (let wrapperChain1 = wrapperChain @ dp_wrappers dispatchPlan; current1 = dp_argv dispatchPlan;
                policyArgv1 = (if \<not> saw then current1 else policyArgv)
            in if length wrapperChain1 \<ge> maxDepth then Inr (current1, policyArgv1, wrapperChain1)
               else trust_loop platform maxDepth n current1 policyArgv1 saw wrapperChain1)
         else
           (case unwrapKnownShellMultiplexerInvocation current of
              BlockedWrapper wrapper \<Rightarrow> Inl (blockedExecWrapperTrustPlan current policyArgv wrapperChain wrapper)
            | Unwrapped wrapper argv \<Rightarrow>
                (let wrapperChain1 = wrapperChain @ [wrapper]; policyArgv1 = (if \<not> saw then current else policyArgv)
                 in if length wrapperChain1 \<ge> maxDepth then Inr (argv, policyArgv1, wrapperChain1)
                    else trust_loop platform maxDepth n argv policyArgv1 True wrapperChain1)
            | NotWrapper \<Rightarrow> Inr (current, policyArgv, wrapperChain)))"

definition overflow_wrapper :: "string \<Rightarrow> string list \<Rightarrow> string option" where
  "overflow_wrapper platform current =
     (case unwrapKnownDispatchWrapperInvocation platform current of
        BlockedWrapper wrapper \<Rightarrow> Some wrapper
      | Unwrapped wrapper _ \<Rightarrow> Some wrapper
      | NotWrapper \<Rightarrow>
          (case unwrapKnownShellMultiplexerInvocation current of
             BlockedWrapper wrapper \<Rightarrow> Some wrapper
           | Unwrapped wrapper _ \<Rightarrow> Some wrapper
           | NotWrapper \<Rightarrow> None))"

definition resolveExecWrapperTrustPlan :: "string \<Rightarrow> string list \<Rightarrow> nat \<Rightarrow> trust_plan" where
  "resolveExecWrapperTrustPlan platform argv maxDepth =
     (case trust_loop platform maxDepth maxDepth argv argv False [] of
        Inl plan \<Rightarrow> plan
      | Inr (current, policyArgv, wrapperChain) \<Rightarrow>
          (case (if length wrapperChain \<ge> maxDepth then overflow_wrapper platform current else None) of
             Some wrapper \<Rightarrow> blockedExecWrapperTrustPlan current policyArgv wrapperChain wrapper
           | None \<Rightarrow> finalizeExecWrapperTrustPlan platform current policyArgv wrapperChain))"

lemma trust_plan_examples:
  "let plan = resolveExecWrapperTrustPlan ''linux'' [''nohup'', ''busybox'', ''sh'', ''-c'', ''id''] MAX_DISPATCH_WRAPPER_DEPTH
   in tp_argv plan = [''sh'', ''-c'', ''id''] \<and> tp_policyArgv plan = [''busybox'', ''sh'', ''-c'', ''id''] \<and>
     tp_wrapperChain plan = [''nohup'', ''busybox''] \<and> \<not> tp_policyBlocked plan \<and> tp_shellInlineCommand plan = Some ''id''"
  "tp_policyBlocked (resolveExecWrapperTrustPlan ''linux'' [''nohup'', ''nice'', ''time'', ''nohup'', ''nice'', ''ls''] MAX_DISPATCH_WRAPPER_DEPTH)"
  by code_simp+

end
