(* ===== verification/WrapperProps.thy ===== *)
theory WrapperProps
  imports ShellWrappers "HOL-Library.Sublist"
begin

section \<open>What a trust plan promises\<close>

text \<open>
  Unwrapping only takes arguments off the front, never stops at a wrapper it knows, and never goes
  deeper than the limit: what is left is what runs.
\<close>

subsection \<open>Unwrapping\<close>

lemma scan_suffix: "scanWrapperInvocation argv separators onToken st adjust = Some inner \<Longrightarrow> inner \<noteq> [] \<and> suffix inner argv"
  by (auto simp: scanWrapperInvocation_def suffix_drop split: option.splits if_splits)

lemmas unwrap_defs = unwrapCaffeinateInvocation_def unwrapNiceInvocation_def unwrapNohupInvocation_def
  unwrapSandboxExecInvocation_def unwrapScriptInvocation_def unwrapStdbufInvocation_def unwrapTimeInvocation_def
  unwrapTimeoutInvocation_def unwrapArchInvocation_def unwrapXcrunInvocation_def unwrapDashOptionInvocation_def

lemma unwrap_suffix:
  "unwrapCaffeinateInvocation argv = Some inner \<Longrightarrow> inner \<noteq> [] \<and> suffix inner argv"
  "unwrapNiceInvocation argv = Some inner \<Longrightarrow> inner \<noteq> [] \<and> suffix inner argv"
  "unwrapNohupInvocation argv = Some inner \<Longrightarrow> inner \<noteq> [] \<and> suffix inner argv"
  "unwrapSandboxExecInvocation argv = Some inner \<Longrightarrow> inner \<noteq> [] \<and> suffix inner argv"
  "unwrapScriptInvocation platform argv = Some inner \<Longrightarrow> inner \<noteq> [] \<and> suffix inner argv"
  "unwrapStdbufInvocation argv = Some inner \<Longrightarrow> inner \<noteq> [] \<and> suffix inner argv"
  "unwrapTimeInvocation argv = Some inner \<Longrightarrow> inner \<noteq> [] \<and> suffix inner argv"
  "unwrapTimeoutInvocation argv = Some inner \<Longrightarrow> inner \<noteq> [] \<and> suffix inner argv"
  "unwrapArchInvocation argv = Some inner \<Longrightarrow> inner \<noteq> [] \<and> suffix inner argv"
  "unwrapXcrunInvocation argv = Some inner \<Longrightarrow> inner \<noteq> [] \<and> suffix inner argv"
  unfolding unwrap_defs by (auto dest!: scan_suffix split: if_splits)

text \<open>The prelude of \<open>env\<close> ends inside the list; a payload that is split counts as a modifier.\<close>

definition prelude_ok :: "nat \<Rightarrow> env_prelude \<Rightarrow> bool" where
  "prelude_ok n p = (case ep_splitArgv p of None \<Rightarrow> ep_commandIndex p < n | Some argv \<Rightarrow> argv \<noteq> [] \<and> ep_usesModifiers p)"

lemma carried_nonempty: "prelude_ok (length argv) p \<Longrightarrow> carried argv p \<noteq> []"
  by (auto simp: prelude_ok_def carried_def split: option.splits)

lemma env_scan_ok: "env_scan depth index argv m keys = Some p \<Longrightarrow> prelude_ok (index + length argv) p"
proof (induction depth index argv m keys arbitrary: p rule: env_scan.induct)
  case (2 depth index token rest m keys)
  note prems = 2(5) and assign = 2(1) and consumed = 2(2) and standalone = 2(3) and nested = 2(4)
  show ?case
  proof (cases "token = [] \<or> isEnvAssignmentToken token \<or> token = ''--'' \<or> token = ''-'' \<or> \<not> starts_with token ''-''")
    case True
    then show ?thesis using prems assign [of p] by (auto simp: prelude_ok_def split: if_splits)
  next
    case False
    then obtain options where options: "parseCarrierOptionToken token ENV_STANDALONE_OPTIONS ENV_OPTIONS_WITH_VALUE [] = Some options"
      using prems by (auto split: option.splits)
    have f: "token \<noteq> []" "\<not> isEnvAssignmentToken token" "\<not> (token = ''--'' \<or> token = ''-'')" "starts_with token ''-''"
      using False by auto
    show ?thesis
    proof (cases "findParsedCarrierOption options ENV_SPLIT_STRING_OPTIONS")
      case None
      then have "env_scan depth index (token # rest) m keys =
          (if knownCarrierOptionConsumesNextValue options ENV_OPTIONS_WITH_VALUE [] = Some True
           then env_scan depth (index + 2) (drop 1 rest) True keys else env_scan depth (Suc index) rest True keys)"
        using f options by simp
      then show ?thesis using prems consumed [OF f options None] standalone [OF f options None]
        by (cases rest; fastforce simp: prelude_ok_def split: if_splits option.splits)
    next
      case (Some splitOption)
      let ?inline = "co_inlineValue splitOption"
      let ?payload = "case ?inline of Some v \<Rightarrow> Some v | None \<Rightarrow> (case rest of [] \<Rightarrow> None | v # _ \<Rightarrow> Some v)"
      let ?trailing = "if ?inline = None then drop 1 rest else rest"
      obtain inner where inner: "Option.bind ?payload splitShellArgs = Some inner" "inner \<noteq> []"
        using prems f options Some by (auto simp: Let_def split: option.splits if_splits)
      let ?argv = "inner @ ?trailing"
      let ?parsed = "if depth < MAX_ENV_SPLIT_PAYLOAD_DEPTH then env_scan (Suc depth) 1 ?argv False [] else None"
      have p: "ep_splitArgv p = Some (case ?parsed of None \<Rightarrow> ?argv | Some q \<Rightarrow> carried (''env'' # ?argv) q)" "ep_usesModifiers p"
        using prems f options Some inner by (auto simp: Let_def)
      have "prelude_ok (1 + length ?argv) q" if "?parsed = Some q" for q
        using that nested [OF f options Some refl refl refl refl inner(1,2) refl, of q] by (cases ?inline; simp split: if_splits)
      then have "carried (''env'' # ?argv) q \<noteq> []" if "?parsed = Some q" for q
        using that carried_nonempty [of "''env'' # ?argv" q] by simp
      then show ?thesis using p inner(2) by (auto simp: prelude_ok_def split: option.splits)
    qed
  qed
qed simp

lemma env_prelude_ok: "parseEnvInvocationPrelude argv depth = Some p \<Longrightarrow> prelude_ok (length argv) p"
  using env_scan_ok [of depth 1 "drop 1 argv" False "[]" p]
  by (cases argv) (auto simp: parseEnvInvocationPrelude_def split: if_splits)

lemma env_unwrap_nonempty: "unwrapEnvInvocation argv = Some inner \<Longrightarrow> inner \<noteq> []"
  using env_prelude_ok carried_nonempty by (auto simp: unwrapEnvInvocation_def)

lemma env_unwrap_transparent:
  "unwrapEnvInvocation argv = Some inner \<Longrightarrow> \<not> envInvocationUsesModifiers argv \<Longrightarrow> suffix inner argv"
  using env_prelude_ok [of argv 0]
  by (auto simp: unwrapEnvInvocation_def envInvocationUsesModifiers_def prelude_ok_def carried_def suffix_drop split: option.splits)

lemma dispatch_unwrapped:
  assumes "unwrapKnownDispatchWrapperInvocation platform argv = Unwrapped wrapper inner"
  shows "inner \<noteq> []" and "\<not> isSemanticDispatchWrapperUsage platform wrapper argv \<Longrightarrow> suffix inner argv"
proof -
  obtain spec unwrap where spec: "dispatch_spec wrapper = Some spec" "dw_unwrap spec = Some unwrap" "unwrap platform argv = Some inner"
    using assms by (auto simp: unwrapKnownDispatchWrapperInvocation_def unwrapDispatchWrapper_def Let_def split: if_splits option.splits)
  have "\<forall>spec\<in>set DISPATCH_WRAPPER_SPECS. \<forall>unwrap. dw_unwrap spec = Some unwrap \<longrightarrow> unwrap platform argv = Some inner \<longrightarrow>
      inner \<noteq> [] \<and> (dw_transparentUsage spec platform argv \<longrightarrow> suffix inner argv)"
    unfolding DISPATCH_WRAPPER_SPECS_def transparent_wrapper_def opaque_wrapper_def
    using unwrap_suffix(1-4,6-10) [of argv inner] unwrap_suffix(5) [of platform argv inner]
      env_unwrap_nonempty [of argv inner] env_unwrap_transparent [of argv inner] by simp
  moreover have "spec \<in> set DISPATCH_WRAPPER_SPECS" using spec(1) by (auto simp: dispatch_spec_def dest: find_member)
  ultimately have "inner \<noteq> [] \<and> (dw_transparentUsage spec platform argv \<longrightarrow> suffix inner argv)" using spec(2,3) by blast
  then show "inner \<noteq> []" "\<not> isSemanticDispatchWrapperUsage platform wrapper argv \<Longrightarrow> suffix inner argv"
    using spec by (auto simp: isSemanticDispatchWrapperUsage_def)
qed

lemma multiplexer_unwrapped:
  "unwrapKnownShellMultiplexerInvocation argv = Unwrapped wrapper inner \<Longrightarrow> inner \<noteq> [] \<and> suffix inner argv"
  by (auto simp: unwrapKnownShellMultiplexerInvocation_def Let_def suffix_drop split: if_splits)

subsection \<open>Plans\<close>

lemma dispatch_loop_end:
  "dispatch_loop platform n current wrappers = Inr (argv, all) \<Longrightarrow>
    suffix argv current \<and> length all \<le> length wrappers + n \<and> length wrappers \<le> length all \<and>
    (length all = length wrappers + n \<or> unwrapKnownDispatchWrapperInvocation platform argv = NotWrapper) \<and>
    (all = wrappers \<longrightarrow> argv = current)"
proof (induction n arbitrary: current wrappers)
  case (Suc n)
  show ?case
  proof (cases "unwrapKnownDispatchWrapperInvocation platform current")
    case (Unwrapped wrapper inner)
    note ne = dispatch_unwrapped [OF Unwrapped]
    then have step: "dispatch_loop platform n inner (wrappers @ [wrapper]) = Inr (argv, all)"
      "\<not> isSemanticDispatchWrapperUsage platform wrapper current"
      using Suc.prems Unwrapped by (auto split: if_splits)
    then have "suffix inner current" using ne(2) by blast
    then show ?thesis using Suc.IH [OF step(1)] by (auto intro: suffix_order.trans)
  qed (use Suc.prems in auto)
qed simp

lemma dispatch_plan_end:
  assumes "\<not> dp_policyBlocked (resolveDispatchWrapperTrustPlan platform argv n)"
  shows "suffix (dp_argv (resolveDispatchWrapperTrustPlan platform argv n)) argv"
    and "length (dp_wrappers (resolveDispatchWrapperTrustPlan platform argv n)) \<le> n"
    and "unwrapKnownDispatchWrapperInvocation platform (dp_argv (resolveDispatchWrapperTrustPlan platform argv n)) = NotWrapper"
    and "dp_wrappers (resolveDispatchWrapperTrustPlan platform argv n) = [] \<Longrightarrow>
      dp_argv (resolveDispatchWrapperTrustPlan platform argv n) = argv"
proof -
  have blocked: "dp_policyBlocked plan" if "dispatch_loop platform k current ws = Inl plan" for k current ws plan
    using that by (induction k arbitrary: current ws)
      (auto simp: blockedDispatchWrapperPlan_def split: unwrap_result.splits if_splits)
  obtain current wrappers where loop: "dispatch_loop platform n argv [] = Inr (current, wrappers)"
    using assms blocked by (cases "dispatch_loop platform n argv []") (auto simp: resolveDispatchWrapperTrustPlan_def)
  note e = dispatch_loop_end [OF loop]
  show "suffix (dp_argv (resolveDispatchWrapperTrustPlan platform argv n)) argv"
    "length (dp_wrappers (resolveDispatchWrapperTrustPlan platform argv n)) \<le> n"
    "unwrapKnownDispatchWrapperInvocation platform (dp_argv (resolveDispatchWrapperTrustPlan platform argv n)) = NotWrapper"
    "dp_wrappers (resolveDispatchWrapperTrustPlan platform argv n) = [] \<Longrightarrow>
      dp_argv (resolveDispatchWrapperTrustPlan platform argv n) = argv"
    using assms loop e
    by (auto simp: resolveDispatchWrapperTrustPlan_def blockedDispatchWrapperPlan_def Let_def split: unwrap_result.splits if_splits)
qed

definition no_wrapper :: "string \<Rightarrow> string list \<Rightarrow> bool" where
  "no_wrapper platform argv =
     (unwrapKnownDispatchWrapperInvocation platform argv = NotWrapper \<and> unwrapKnownShellMultiplexerInvocation argv = NotWrapper)"

lemma overflow_none: "overflow_wrapper platform argv = None \<longleftrightarrow> no_wrapper platform argv"
  by (auto simp: overflow_wrapper_def no_wrapper_def split: unwrap_result.splits)

lemma trust_loop_end:
  "trust_loop platform maxDepth n current policyArgv saw chain = Inr (argv, policy, all) \<Longrightarrow>
    maxDepth \<le> length chain + n \<Longrightarrow> length chain \<le> maxDepth \<Longrightarrow> (n = 0 \<or> length chain < maxDepth) \<Longrightarrow>
    suffix current policyArgv \<Longrightarrow> (saw \<or> policyArgv = current) \<Longrightarrow> suffix policyArgv whole \<Longrightarrow>
    suffix argv policy \<and> suffix policy whole \<and> length all \<le> maxDepth \<and> (length all = maxDepth \<or> no_wrapper platform argv)"
proof (induction n arbitrary: current policyArgv saw chain)
  case (Suc n)
  let ?plan = "resolveDispatchWrapperTrustPlan platform current (maxDepth - length chain)"
  have unblocked: "\<not> dp_policyBlocked ?plan" using Suc.prems(1) by (auto simp: Let_def)
  note plan = dispatch_plan_end [OF unblocked]
  have lt: "length chain < maxDepth" using Suc.prems(4) by simp
  show ?case
  proof (cases "dp_wrappers ?plan = []")
    case False
    let ?policy = "if \<not> saw then dp_argv ?plan else policyArgv"
    have policy: "suffix (dp_argv ?plan) ?policy" "saw \<or> ?policy = dp_argv ?plan" "suffix ?policy whole"
      using plan(1) Suc.prems(5,6,7) by (auto intro: suffix_order.trans)
    show ?thesis
    proof (cases "length (chain @ dp_wrappers ?plan) \<ge> maxDepth")
      case True
      then show ?thesis using Suc.prems(1) unblocked False policy plan(2) lt by (auto simp: Let_def)
    next
      case small: False
      then have rec: "trust_loop platform maxDepth n (dp_argv ?plan) ?policy saw (chain @ dp_wrappers ?plan) = Inr (argv, policy, all)"
        using Suc.prems(1) unblocked False by (auto simp: Let_def)
      have "1 \<le> length (dp_wrappers ?plan)" using False by (cases "dp_wrappers ?plan") auto
      then show ?thesis using Suc.IH [OF rec] Suc.prems(2) small policy by auto
    qed
  next
    case True
    then have current: "unwrapKnownDispatchWrapperInvocation platform current = NotWrapper" using plan(3,4) by simp
    show ?thesis
    proof (cases "unwrapKnownShellMultiplexerInvocation current")
      case NotWrapper
      then show ?thesis using Suc.prems unblocked True current by (auto simp: Let_def no_wrapper_def)
    next
      case (BlockedWrapper wrapper)
      then show ?thesis using Suc.prems(1) unblocked True by (auto simp: Let_def)
    next
      case (Unwrapped wrapper inner)
      let ?policy = "if \<not> saw then current else policyArgv"
      have inner: "suffix inner current" using multiplexer_unwrapped [OF Unwrapped] by simp
      have policy: "suffix inner ?policy" "suffix ?policy whole"
        using inner Suc.prems(5,6,7) by (auto intro: suffix_order.trans)
      show ?thesis
      proof (cases "length (chain @ [wrapper]) \<ge> maxDepth")
        case full: True
        then show ?thesis using Suc.prems(1) unblocked True Unwrapped policy lt by (auto simp: Let_def)
      next
        case small: False
        then have rec: "trust_loop platform maxDepth n inner ?policy True (chain @ [wrapper]) = Inr (argv, policy, all)"
          using Suc.prems(1) unblocked True Unwrapped by (auto simp: Let_def)
        then show ?thesis using Suc.IH [OF rec] Suc.prems(2) small policy by auto
      qed
    qed
  qed
qed auto

lemma trust_plan_end:
  assumes "\<not> tp_policyBlocked (resolveExecWrapperTrustPlan platform argv maxDepth)"
  obtains all where "resolveExecWrapperTrustPlan platform argv maxDepth =
      finalizeExecWrapperTrustPlan platform (tp_argv (resolveExecWrapperTrustPlan platform argv maxDepth))
        (tp_policyArgv (resolveExecWrapperTrustPlan platform argv maxDepth)) all"
    "suffix (tp_argv (resolveExecWrapperTrustPlan platform argv maxDepth)) (tp_policyArgv (resolveExecWrapperTrustPlan platform argv maxDepth))"
    "suffix (tp_policyArgv (resolveExecWrapperTrustPlan platform argv maxDepth)) argv"
    "no_wrapper platform (tp_argv (resolveExecWrapperTrustPlan platform argv maxDepth))" "length all \<le> maxDepth"
proof -
  have blocked: "tp_policyBlocked plan" if "trust_loop platform maxDepth k current policy saw ws = Inl plan" for k current policy saw ws plan
    using that by (induction k arbitrary: current policy saw ws)
      (auto simp: blockedExecWrapperTrustPlan_def Let_def split: unwrap_result.splits if_splits)
  obtain current policy all where loop: "trust_loop platform maxDepth maxDepth argv argv False [] = Inr (current, policy, all)"
    using assms blocked by (cases "trust_loop platform maxDepth maxDepth argv argv False []") (auto simp: resolveExecWrapperTrustPlan_def)
  have e: "suffix current policy \<and> suffix policy argv \<and> length all \<le> maxDepth \<and> (length all = maxDepth \<or> no_wrapper platform current)"
    using trust_loop_end [OF loop] by auto
  have fin: "resolveExecWrapperTrustPlan platform argv maxDepth = finalizeExecWrapperTrustPlan platform current policy all"
    using assms loop by (auto simp: resolveExecWrapperTrustPlan_def blockedExecWrapperTrustPlan_def split: option.splits)
  have "no_wrapper platform current" using assms loop e overflow_none [of platform current]
    by (auto simp: resolveExecWrapperTrustPlan_def blockedExecWrapperTrustPlan_def split: option.splits if_splits)
  moreover have "tp_argv (finalizeExecWrapperTrustPlan platform current policy all) = current"
    "tp_policyArgv (finalizeExecWrapperTrustPlan platform current policy all) = policy"
    by (simp_all add: finalizeExecWrapperTrustPlan_def Let_def)
  ultimately show ?thesis using that [of all] fin e by simp
qed

text \<open>C27: a plan that is not blocked hides nothing. The argument list it trusts is the end of the list the
  policy looks at, which is the end of the list that was asked for, it does not start with a wrapper
  the program knows, and at most the maximal number of wrappers was taken off.\<close>

theorem trust_plan_transparent:
  assumes "\<not> tp_policyBlocked (resolveExecWrapperTrustPlan platform argv maxDepth)"
  shows "suffix (tp_argv (resolveExecWrapperTrustPlan platform argv maxDepth)) (tp_policyArgv (resolveExecWrapperTrustPlan platform argv maxDepth))
    \<and> suffix (tp_policyArgv (resolveExecWrapperTrustPlan platform argv maxDepth)) argv
    \<and> no_wrapper platform (tp_argv (resolveExecWrapperTrustPlan platform argv maxDepth))
    \<and> length (tp_wrapperChain (resolveExecWrapperTrustPlan platform argv maxDepth)) \<le> maxDepth"
proof -
  have chain: "tp_wrapperChain (finalizeExecWrapperTrustPlan platform a b c) = c" for a b c
    by (simp add: finalizeExecWrapperTrustPlan_def Let_def)
  show ?thesis using trust_plan_end [OF assms] chain by metis
qed

theorem trust_plan_transparent_witness:
  "let plan = resolveExecWrapperTrustPlan ''linux'' [''nohup'', ''busybox'', ''sh'', ''-c'', ''id''] 4
   in suffix (tp_argv plan) (tp_policyArgv plan) \<and> suffix (tp_policyArgv plan) [''nohup'', ''busybox'', ''sh'', ''-c'', ''id'']
     \<and> no_wrapper ''linux'' (tp_argv plan) \<and> tp_argv plan = [''sh'', ''-c'', ''id'']"
proof -
  let ?plan = "resolveExecWrapperTrustPlan ''linux'' [''nohup'', ''busybox'', ''sh'', ''-c'', ''id''] 4"
  have "\<not> tp_policyBlocked ?plan" "tp_argv ?plan = [''sh'', ''-c'', ''id'']" by code_simp+
  then show ?thesis using trust_plan_transparent [of "''linux''" _ 4] unfolding Let_def by blast
qed

end
