(* ===== verification/ExecPaths.thy ===== *)
theory ExecPaths
  imports CommandCarriers JsStrings
begin

section \<open>Paths of executables\<close>

text \<open>
  Models \<^verbatim>\<open>src/infra/executable-path.ts\<close>, the home directory of
  \<^verbatim>\<open>src/infra/home-dir.ts\<close> and the patterns of \<^verbatim>\<open>src/infra/exec-allowlist-pattern.ts\<close> on a
  host that is not Windows, where \<open>path\<close> is \<open>path.posix\<close>. What the process sees of the machine is a
  \<open>host\<close>: its platform, working directory, environment, home directory and file system.
\<close>

subsection \<open>The path library\<close>

text \<open>Empty segments and dots are dropped, a double dot drops the segment before it.\<close>

fun norm_segments :: "bool \<Rightarrow> string list \<Rightarrow> string list \<Rightarrow> string list" where
  "norm_segments allowAboveRoot [] acc = rev acc"
| "norm_segments allowAboveRoot (seg # segs) acc =
     norm_segments allowAboveRoot segs
       (if seg = [] \<or> seg = ''.'' then acc
        else if seg = ''..'' then
          (if acc \<noteq> [] \<and> hd acc \<noteq> ''..'' then tl acc else if allowAboveRoot then ''..'' # acc else acc)
        else seg # acc)"

definition norm_path :: "bool \<Rightarrow> string \<Rightarrow> string" where
  "norm_path allowAboveRoot s = join_with ''/'' (norm_segments allowAboveRoot (split_on CHR ''/'' s) [])"

definition isAbsolute :: "string \<Rightarrow> bool" where
  "isAbsolute p = starts_with p ''/''"

text \<open>The arguments from the last to the first, until one is absolute.\<close>

fun resolve_args :: "string list \<Rightarrow> string \<Rightarrow> string" where
  "resolve_args [] acc = acc"
| "resolve_args (p # ps) acc =
     (if p = [] then resolve_args ps acc
      else if isAbsolute p then p @ ''/'' @ acc
      else resolve_args ps (p @ ''/'' @ acc))"

definition posix_resolve :: "string \<Rightarrow> string list \<Rightarrow> string" where
  "posix_resolve cwd args =
     (let joined = resolve_args (rev args @ [cwd]) [];
          normalized = norm_path (\<not> isAbsolute joined) joined
      in if isAbsolute joined then ''/'' @ normalized else if normalized = [] then ''.'' else normalized)"

definition posix_normalize :: "string \<Rightarrow> string" where
  "posix_normalize p =
     (if p = [] then ''.''
      else
        let trailing = (last p = CHR ''/''); normalized = norm_path (\<not> isAbsolute p) p
        in if normalized = [] then (if isAbsolute p then ''/'' else if trailing then ''./'' else ''.'')
           else (if isAbsolute p then ''/'' else []) @ normalized @ (if trailing then ''/'' else []))"

definition posix_join :: "string list \<Rightarrow> string" where
  "posix_join args = posix_normalize (join_with ''/'' (filter (\<lambda>p. p \<noteq> []) args))"

lemma path_examples:
  "posix_resolve ''/home/u'' [''proj'', ''../bin/./rg''] = ''/home/u/bin/rg''"
  "posix_resolve ''/home/u'' [''/opt'', ''rg''] = ''/opt/rg''"
  "posix_join [''/usr//bin/'', ''rg''] = ''/usr/bin/rg''"
  by code_simp+

subsection \<open>The host\<close>

type_synonym js_env = "string \<Rightarrow> string option"

record file_stat =
  st_isFile :: bool
  st_dev :: nat
  st_ino :: nat

text \<open>\<open>fs.statSync\<close> and \<open>fs.realpathSync\<close> answer \<open>None\<close> when they throw.\<close>

record host =
  ho_platform :: string
  ho_cwd :: string
  ho_env :: js_env
  ho_homedir :: "string option"
  ho_stat :: "string \<Rightarrow> file_stat option"
  ho_accessX :: "string \<Rightarrow> bool"
  ho_realpath :: "string \<Rightarrow> string option"

definition home_normalize :: "string option \<Rightarrow> string option" where
  "home_normalize value =
     (let trimmed = js_trim (nullish value [])
      in if trimmed = [] \<or> trimmed = ''undefined'' \<or> trimmed = ''null'' then None else Some trimmed)"

definition resolveRawOsHomeDir :: "host \<Rightarrow> js_env \<Rightarrow> string option" where
  "resolveRawOsHomeDir host env =
     nullish_opt (home_normalize (env ''HOME''))
       (nullish_opt (home_normalize (env ''USERPROFILE'')) (home_normalize (ho_homedir host)))"

text \<open>A leading tilde, alone or before a separator, is replaced.\<close>

definition replace_tilde :: "string \<Rightarrow> string \<Rightarrow> string" where
  "replace_tilde s home =
     (case s of
        [] \<Rightarrow> s
      | c # rest \<Rightarrow>
          if c = CHR ''~'' \<and> (rest = [] \<or> hd rest = bslash \<or> hd rest = CHR ''/'') then home @ rest else s)"

definition resolveRawHomeDir :: "host \<Rightarrow> js_env \<Rightarrow> string option" where
  "resolveRawHomeDir host env =
     (case home_normalize (env ''GREENCHCLAW_HOME'') of
        None \<Rightarrow> resolveRawOsHomeDir host env
      | Some explicitHome \<Rightarrow>
          if explicitHome = ''~'' \<or> starts_with explicitHome ''~/'' \<or> starts_with explicitHome (''~'' @ [bslash]) then
            map_option (replace_tilde explicitHome) (resolveRawOsHomeDir host env)
          else Some explicitHome)"

definition resolveEffectiveHomeDir :: "host \<Rightarrow> js_env \<Rightarrow> string option" where
  "resolveEffectiveHomeDir host env = map_option (\<lambda>raw. posix_resolve (ho_cwd host) [raw]) (resolveRawHomeDir host env)"

definition expandHomePrefix :: "host \<Rightarrow> js_env option \<Rightarrow> string \<Rightarrow> string" where
  "expandHomePrefix host env input =
     (if \<not> starts_with input ''~'' then input
      else
        (case resolveEffectiveHomeDir host (nullish env (ho_env host)) of
           None \<Rightarrow> input
         | Some home \<Rightarrow> replace_tilde input home))"

subsection \<open>Executables\<close>

definition has_separator :: "string \<Rightarrow> bool" where
  "has_separator s = (CHR ''/'' \<in> set s \<or> bslash \<in> set s)"

text \<open>\<open>cwd && cwd.trim() ? cwd.trim() : process.cwd()\<close>\<close>

definition base_dir :: "host \<Rightarrow> string option \<Rightarrow> string" where
  "base_dir host cwd = or_str (js_trim (nullish cwd [])) (ho_cwd host)"

definition resolveExecutablePathCandidate :: "host \<Rightarrow> string \<Rightarrow> string option \<Rightarrow> js_env option \<Rightarrow> bool \<Rightarrow> string option" where
  "resolveExecutablePathCandidate host rawExecutable cwd env requirePathSeparator =
     (let expanded = (if starts_with rawExecutable ''~'' then expandHomePrefix host env rawExecutable else rawExecutable)
      in if requirePathSeparator \<and> \<not> has_separator expanded then None
         else if \<not> has_separator expanded then Some expanded
         else if isAbsolute expanded then Some expanded
         else Some (posix_resolve (ho_cwd host) [base_dir host cwd, expanded]))"

definition isExecutableFile :: "host \<Rightarrow> string \<Rightarrow> bool" where
  "isExecutableFile host filePath =
     (case ho_stat host filePath of None \<Rightarrow> False | Some stat \<Rightarrow> st_isFile stat \<and> ho_accessX host filePath)"

definition resolveExecutableFromPathEnv :: "host \<Rightarrow> string \<Rightarrow> string \<Rightarrow> string option" where
  "resolveExecutableFromPathEnv host executable pathEnv =
     find (isExecutableFile host)
       (map (\<lambda>entry. posix_join [entry, executable]) (filter (\<lambda>e. e \<noteq> []) (split_on CHR '':'' pathEnv)))"

definition path_env :: "host \<Rightarrow> js_env option \<Rightarrow> string" where
  "path_env host env =
     nullish (nullish_opt (Option.bind env (\<lambda>e. e ''PATH'')) (nullish_opt (Option.bind env (\<lambda>e. e ''Path''))
       (nullish_opt (ho_env host ''PATH'') (ho_env host ''Path'')))) []"

definition resolveExecutablePath :: "host \<Rightarrow> string \<Rightarrow> string option \<Rightarrow> js_env option \<Rightarrow> string option" where
  "resolveExecutablePath host rawExecutable cwd env =
     (case resolveExecutablePathCandidate host rawExecutable cwd env False of
        None \<Rightarrow> None
      | Some candidate \<Rightarrow>
          if candidate = [] then None
          else if has_separator candidate then (if isExecutableFile host candidate then Some candidate else None)
          else resolveExecutableFromPathEnv host candidate (path_env host env))"

subsection \<open>Allowlist patterns\<close>

text \<open>Every pair of backslashes becomes a slash.\<close>

fun normalizeMatchTarget :: "string \<Rightarrow> string" where
  "normalizeMatchTarget (a # b # s) =
     (if a = bslash \<and> b = bslash then CHR ''/'' # normalizeMatchTarget s else a # normalizeMatchTarget (b # s))"
| "normalizeMatchTarget s = s"

text \<open>
  The regular expression of a pattern as the list of its parts: \<open>.*\<close>, \<open>[^/]*\<close>, \<open>[^/]\<close> and escaped
  characters. The expression is anchored at both ends and has no flags, so a dot matches no line end.
\<close>

datatype glob_part = GlobStarStar | GlobStar | GlobAny | GlobChar char

fun compileGlobRegex :: "string \<Rightarrow> glob_part list" where
  "compileGlobRegex [] = []"
| "compileGlobRegex (ch # s) =
     (if ch = CHR ''*'' then
        (case s of
           [] \<Rightarrow> [GlobStar]
         | c # s' \<Rightarrow> if c = CHR ''*'' then GlobStarStar # compileGlobRegex s' else GlobStar # compileGlobRegex (c # s'))
      else if ch = CHR ''?'' then GlobAny # compileGlobRegex s
      else GlobChar ch # compileGlobRegex s)"

function glob_test :: "glob_part list \<Rightarrow> string \<Rightarrow> bool" where
  "glob_test [] s = (s = [])"
| "glob_test (GlobChar c # ps) s = (case s of [] \<Rightarrow> False | x # xs \<Rightarrow> x = c \<and> glob_test ps xs)"
| "glob_test (GlobAny # ps) s = (case s of [] \<Rightarrow> False | x # xs \<Rightarrow> x \<noteq> CHR ''/'' \<and> glob_test ps xs)"
| "glob_test (GlobStar # ps) s =
     (glob_test ps s \<or> (case s of [] \<Rightarrow> False | x # xs \<Rightarrow> x \<noteq> CHR ''/'' \<and> glob_test (GlobStar # ps) xs))"
| "glob_test (GlobStarStar # ps) s =
     (glob_test ps s \<or> (case s of [] \<Rightarrow> False | x # xs \<Rightarrow> x \<noteq> newline \<and> x \<noteq> cr \<and> glob_test (GlobStarStar # ps) xs))"
  by pat_completeness auto
termination by (relation "measure (\<lambda>(ps, s). length ps + length s)") auto

definition matchesExecAllowlistPattern :: "host \<Rightarrow> string \<Rightarrow> string \<Rightarrow> bool" where
  "matchesExecAllowlistPattern host pattern target =
     (let trimmed = js_trim pattern
      in if trimmed = [] then False
         else
           let expanded = (if starts_with trimmed ''~'' then expandHomePrefix host None trimmed else trimmed)
           in glob_test (compileGlobRegex (normalizeMatchTarget expanded)) (normalizeMatchTarget target))"

text \<open>What a part matches, and the matcher as a cut of the target into one piece per part.\<close>

fun part_matches :: "glob_part \<Rightarrow> string \<Rightarrow> bool" where
  "part_matches (GlobChar c) piece = (piece = [c])"
| "part_matches GlobAny piece = (length piece = 1 \<and> CHR ''/'' \<notin> set piece)"
| "part_matches GlobStar piece = (CHR ''/'' \<notin> set piece)"
| "part_matches GlobStarStar piece = (newline \<notin> set piece \<and> cr \<notin> set piece)"

definition cut_matches :: "glob_part list \<Rightarrow> string \<Rightarrow> bool" where
  "cut_matches ps s = (\<exists>pieces. s = concat pieces \<and> list_all2 part_matches ps pieces)"

lemma cut_nil: "cut_matches [] s = (s = [])"
  by (auto simp: cut_matches_def)

lemma cut_cons: "cut_matches (p # ps) s = (\<exists>piece rest. s = piece @ rest \<and> part_matches p piece \<and> cut_matches ps rest)"
proof
  assume "cut_matches (p # ps) s"
  then obtain piece pieces where "s = piece @ concat pieces" "part_matches p piece" "list_all2 part_matches ps pieces"
    by (auto simp: cut_matches_def list_all2_Cons1)
  then show "\<exists>piece rest. s = piece @ rest \<and> part_matches p piece \<and> cut_matches ps rest"
    unfolding cut_matches_def by blast
next
  assume "\<exists>piece rest. s = piece @ rest \<and> part_matches p piece \<and> cut_matches ps rest"
  then obtain piece pieces where "s = piece @ concat pieces" "part_matches p piece" "list_all2 part_matches ps pieces"
    unfolding cut_matches_def by blast
  then show "cut_matches (p # ps) s" unfolding cut_matches_def by (intro exI [of _ "piece # pieces"]) simp
qed

lemma cut_star:
  assumes "part_matches p []" and "\<And>x xs. part_matches p (x # xs) = (ok x \<and> part_matches p xs)"
  shows "cut_matches (p # ps) s = (cut_matches ps s \<or> (case s of [] \<Rightarrow> False | x # xs \<Rightarrow> ok x \<and> cut_matches (p # ps) xs))"
proof (cases s)
  case Nil
  then show ?thesis using assms(1) by (auto simp: cut_cons)
next
  case (Cons x xs)
  have "(\<exists>piece rest. x # xs = piece @ rest \<and> part_matches p piece \<and> cut_matches ps rest) =
      (cut_matches ps (x # xs) \<or> (\<exists>piece rest. xs = piece @ rest \<and> ok x \<and> part_matches p piece \<and> cut_matches ps rest))"
    using assms by (subst Cons_eq_append_conv) blast
  then show ?thesis unfolding Cons cut_cons by auto
qed

lemma glob_test_cut: "glob_test ps s = cut_matches ps s"
proof (induction ps s rule: glob_test.induct)
  case (2 c ps s)
  then show ?case unfolding cut_cons by (cases s) auto
next
  case (3 ps s)
  have one: "part_matches GlobAny piece = (\<exists>y. piece = [y] \<and> y \<noteq> CHR ''/'')" for piece
    by (cases piece; cases "tl piece") auto
  have "(\<exists>piece rest. s = piece @ rest \<and> part_matches GlobAny piece \<and> cut_matches ps rest) =
      (\<exists>y rest. s = [y] @ rest \<and> y \<noteq> CHR ''/'' \<and> cut_matches ps rest)"
    unfolding one by blast
  then show ?case unfolding cut_cons using 3 by (cases s) auto
next
  case (4 ps s)
  show ?case using 4 cut_star [of GlobStar "\<lambda>x. x \<noteq> CHR ''/''" ps s] by (cases s) auto
next
  case (5 ps s)
  show ?case using 5 cut_star [of GlobStarStar "\<lambda>x. x \<noteq> newline \<and> x \<noteq> cr" ps s] by (cases s) auto
qed (simp add: cut_nil)

text \<open>A pattern without wildcards names one target.\<close>

definition wildcard_free :: "string \<Rightarrow> bool" where
  "wildcard_free pattern = (CHR ''*'' \<notin> set pattern \<and> CHR ''?'' \<notin> set pattern)"

lemma compile_wildcard_free: "wildcard_free s \<Longrightarrow> compileGlobRegex s = map GlobChar s"
  by (induction s rule: compileGlobRegex.induct) (auto simp: wildcard_free_def)

lemma glob_test_chars: "glob_test (map GlobChar ps) s = (s = ps)"
  by (induction ps arbitrary: s) (auto split: list.splits)

lemma normalizeMatchTarget_set: "set (normalizeMatchTarget s) \<subseteq> insert CHR ''/'' (set s)"
  by (induction s rule: normalizeMatchTarget.induct) auto

lemma normalizeMatchTarget_plain: "bslash \<notin> set s \<Longrightarrow> normalizeMatchTarget s = s"
  by (induction s rule: normalizeMatchTarget.induct) auto

lemma literal_pattern_exact:
  assumes "wildcard_free pattern" "js_trim pattern = pattern" "pattern \<noteq> []" "\<not> starts_with pattern ''~''"
    "bslash \<notin> set pattern" "bslash \<notin> set target"
  shows "matchesExecAllowlistPattern host pattern target = (target = pattern)"
  using assms by (simp add: matchesExecAllowlistPattern_def normalizeMatchTarget_plain compile_wildcard_free glob_test_chars)

end
