(* ===== verification/ShellWindows.thy ===== *)
theory ShellWindows
  imports ShellPlan CommandCarriers
begin

section \<open>Commands of Windows\<close>

text \<open>
  The Windows half of \<^verbatim>\<open>src/infra/exec-approvals-analysis.ts\<close> and the functions that choose
  between the two halves.
\<close>

subsection \<open>Regular expressions\<close>

text \<open>
  A backtracking matcher maps a string to the rests it can leave, in the order in which the engine
  tries them; the first rest that satisfies the remainder of the expression is the match.
\<close>

type_synonym matcher = "string \<Rightarrow> string list"

definition rx_char :: "(char \<Rightarrow> bool) \<Rightarrow> matcher" where
  "rx_char ok s = (case s of [] \<Rightarrow> [] | c # s' \<Rightarrow> if ok c then [s'] else [])"

fun rx_many :: "(char \<Rightarrow> bool) \<Rightarrow> matcher" where
  "rx_many ok [] = [[]]"
| "rx_many ok (c # s) = (if ok c then rx_many ok s @ [c # s] else [c # s])"

definition rx_seq :: "matcher \<Rightarrow> matcher \<Rightarrow> matcher" where
  "rx_seq p q s = concat (map q (p s))"

definition rx_alt :: "matcher \<Rightarrow> matcher \<Rightarrow> matcher" where
  "rx_alt p q s = p s @ q s"

definition rx_opt :: "matcher \<Rightarrow> matcher" where
  "rx_opt p s = p s @ [s]"

definition rx_not_ahead :: "matcher \<Rightarrow> matcher" where
  "rx_not_ahead p s = (if p s = [] then [s] else [])"

definition rx_plus :: "(char \<Rightarrow> bool) \<Rightarrow> matcher" where
  "rx_plus ok = rx_seq (rx_char ok) (rx_many ok)"

text \<open>A repetition that consumes nothing is not repeated.\<close>

function rx_star :: "matcher \<Rightarrow> matcher" where
  "rx_star p s = concat (map (\<lambda>r. if length r < length s then rx_star p r else []) (p s)) @ [s]"
  by pat_completeness auto
termination by (relation "measure (\<lambda>(p, s). length s)") auto

declare rx_star.simps [simp del]

text \<open>A word without regard to case.\<close>

definition rx_word :: "string \<Rightarrow> matcher" where
  "rx_word w s = (if js_lower (take (length w) s) = w then [drop (length w) s] else [])"

definition word_char :: "char \<Rightarrow> bool" where
  "word_char c = (ascii_letter c \<or> ascii_digit c \<or> c = CHR ''_'')"

text \<open>The boundary after a word character.\<close>

definition rx_boundary :: matcher where
  "rx_boundary s = (case s of [] \<Rightarrow> [s] | c # _ \<Rightarrow> if word_char c then [] else [s])"

definition rx_quoted :: "char \<Rightarrow> matcher" where
  "rx_quoted q =
     rx_seq (rx_char (\<lambda>c. c = q)) (rx_seq (rx_many (\<lambda>c. c \<noteq> q))
       (rx_seq (rx_star (rx_seq (rx_char (\<lambda>c. c = q)) (rx_seq (rx_char (\<lambda>c. c = q)) (rx_many (\<lambda>c. c \<noteq> q)))))
         (rx_char (\<lambda>c. c = q))))"

definition psFlags :: matcher where
  "psFlags = rx_star
     (rx_seq (rx_char (\<lambda>c. c = CHR ''-''))
       (rx_seq (rx_not_ahead (rx_alt (rx_seq (rx_word ''c'') (rx_seq (rx_opt (rx_word ''ommand'')) rx_boundary))
           (rx_seq (rx_word ''-command'') rx_boundary)))
         (rx_seq (rx_plus word_char)
           (rx_seq (rx_opt (rx_seq (rx_plus js_is_space) (rx_seq (rx_not_ahead (rx_char (\<lambda>c. c = CHR ''-'')))
               (rx_alt (rx_quoted dquote) (rx_alt (rx_quoted squote) (rx_plus (\<lambda>c. \<not> js_is_space c)))))))
             (rx_plus js_is_space)))))"

definition psCommandFlag :: matcher where
  "psCommandFlag = rx_alt (rx_word ''-command'') (rx_alt (rx_word ''-c'') (rx_word ''--command''))"

definition psInvoke :: matcher where
  "psInvoke = rx_seq (rx_alt (rx_word ''powershell'') (rx_word ''pwsh'')) (rx_seq (rx_opt (rx_word ''.exe''))
     (rx_seq (rx_plus js_is_space) (rx_seq psFlags (rx_seq psCommandFlag (rx_plus js_is_space)))))"

subsection \<open>Shell wrappers\<close>

definition quoted_payload :: "char \<Rightarrow> string \<Rightarrow> bool" where
  "quoted_payload q s = (length s > 2 \<and> hd s = q \<and> last s = q)"

fun undouble :: "char \<Rightarrow> string \<Rightarrow> string" where
  "undouble q (a # b # s) = (if a = q \<and> b = q then q # undouble q s else a # undouble q (b # s))"
| "undouble q s = s"

definition stripWindowsShellWrapperOnce :: "string \<Rightarrow> string" where
  "stripWindowsShellWrapperOnce command =
     (case find (\<lambda>r. r \<noteq> []) (rx_seq (rx_char (\<lambda>c. c = CHR ''&'')) (rx_plus js_is_space) command) of
        Some rest \<Rightarrow> rest
      | None \<Rightarrow>
          (case find (quoted_payload dquote) (psInvoke command) of
             Some rest \<Rightarrow> undouble dquote (butlast (tl rest))
           | None \<Rightarrow>
               (case find (quoted_payload squote) (psInvoke command) of
                  Some rest \<Rightarrow> undouble squote (butlast (tl rest))
                | None \<Rightarrow>
                    (case find (\<lambda>r. r \<noteq> []) (psInvoke command) of
                       Some rest \<Rightarrow> rest
                     | None \<Rightarrow> command))))"

fun strip_wrappers :: "nat \<Rightarrow> string \<Rightarrow> string" where
  "strip_wrappers 0 result = result"
| "strip_wrappers (Suc n) prev =
     (let result = stripWindowsShellWrapperOnce (js_trim prev)
      in if result = prev then result else strip_wrappers n result)"

definition stripWindowsShellWrapper :: "string \<Rightarrow> string" where
  "stripWindowsShellWrapper command = strip_wrappers 5 command"

subsection \<open>Tokens\<close>

definition WINDOWS_UNSUPPORTED_TOKENS :: string where
  "WINDOWS_UNSUPPORTED_TOKENS = ''&|<>;^()%!'' @ [backtick, newline, cr]"

definition WINDOWS_ALWAYS_UNSAFE_TOKENS :: string where
  "WINDOWS_ALWAYS_UNSAFE_TOKENS = [newline, cr, CHR ''%'', backtick]"

text \<open>\<open>[A-Za-z_{(?$]\<close> after a dollar sign.\<close>

definition powershell_expands :: "string \<Rightarrow> bool" where
  "powershell_expands s = (case s of [] \<Rightarrow> False | c # _ \<Rightarrow> ascii_letter c \<or> c \<in> set ''_{(?$'')"

fun unsupported_loop :: "bool \<Rightarrow> string \<Rightarrow> string option" where
  "unsupported_loop inDouble [] = None"
| "unsupported_loop inDouble (ch # s) =
     (if ch = dquote then unsupported_loop (\<not> inDouble) s
      else if ch = CHR ''$'' then (if powershell_expands s then Some ''$'' else unsupported_loop inDouble s)
      else if ch \<in> set WINDOWS_UNSUPPORTED_TOKENS then
        (if inDouble \<and> ch \<notin> set WINDOWS_ALWAYS_UNSAFE_TOKENS then unsupported_loop inDouble s
         else Some (if ch = newline \<or> ch = cr then ''newline'' else [ch]))
      else unsupported_loop inDouble s)"

definition findWindowsUnsupportedToken :: "string \<Rightarrow> string option" where
  "findWindowsUnsupportedToken command = unsupported_loop False command"

definition push_windows_token :: "string \<Rightarrow> bool \<Rightarrow> string list \<Rightarrow> string list" where
  "push_windows_token buf wasQuoted tokens = (if length buf > 0 \<or> wasQuoted then tokens @ [buf] else tokens)"

function windows_tokens :: "bool \<Rightarrow> bool \<Rightarrow> bool \<Rightarrow> string \<Rightarrow> string list \<Rightarrow> string \<Rightarrow> string list option" where
  "windows_tokens inDouble inSingle wasQuoted buf tokens [] =
     (if inDouble \<or> inSingle then None
      else
        let all = push_windows_token buf wasQuoted tokens
        in if length all > 0 then Some all else None)"
| "windows_tokens inDouble inSingle wasQuoted buf tokens (ch # s) =
     (if ch = dquote \<and> \<not> inSingle then windows_tokens (\<not> inDouble) inSingle (wasQuoted \<or> \<not> inDouble) buf tokens s
      else if ch = squote \<and> \<not> inDouble then
        (if inSingle \<and> first_char s = Some squote then windows_tokens inDouble inSingle wasQuoted (buf @ [squote]) tokens (drop 1 s)
         else windows_tokens inDouble (\<not> inSingle) (wasQuoted \<or> \<not> inSingle) buf tokens s)
      else if \<not> inDouble \<and> \<not> inSingle \<and> js_is_space ch then
        windows_tokens inDouble inSingle False [] (push_windows_token buf wasQuoted tokens) s
      else windows_tokens inDouble inSingle wasQuoted (buf @ [ch]) tokens s)"
  by pat_completeness auto
termination by (relation "measure (\<lambda>(inDouble, inSingle, wasQuoted, buf, tokens, s). length s)") auto

definition tokenizeWindowsSegment :: "string \<Rightarrow> string list option" where
  "tokenizeWindowsSegment segment = windows_tokens False False False [] [] segment"

definition analyzeWindowsShellCommand :: "argv_resolver \<Rightarrow> string \<Rightarrow> string + command_analysis" where
  "analyzeWindowsShellCommand resolve command =
     (let effective = stripWindowsShellWrapper (js_trim command)
      in case findWindowsUnsupportedToken effective of
           Some unsupported \<Rightarrow> Inl (''unsupported windows shell token: '' @ unsupported)
         | None \<Rightarrow>
             (case tokenizeWindowsSegment effective of
                None \<Rightarrow> Inl ''unable to parse windows command''
              | Some argv \<Rightarrow>
                  if length argv = 0 then Inl ''unable to parse windows command''
                  else Inr \<lparr>an_segments = [\<lparr>sg_raw = command, sg_argv = argv, sg_sourceArgv = None, sg_resolution = resolve argv\<rparr>],
                    an_chains = None\<rparr>))"

definition analyzeShellCommandOn :: "string option \<Rightarrow> argv_resolver \<Rightarrow> string \<Rightarrow> string + command_analysis" where
  "analyzeShellCommandOn platform resolve command =
     (if isWindowsPlatform platform then analyzeWindowsShellCommand resolve command else analyzeShellCommand resolve command)"

subsection \<open>Putting a command together\<close>

fun unsafe_cmd_meta :: "string \<Rightarrow> bool" where
  "unsafe_cmd_meta [] = False"
| "unsafe_cmd_meta (c # s) = (c = CHR ''%'' \<or> c = backtick \<or> c = CHR ''$'' \<and> powershell_expands s \<or> unsafe_cmd_meta s)"

definition windows_safe_char :: "char \<Rightarrow> bool" where
  "windows_safe_char c = (ascii_letter c \<or> ascii_digit c \<or> c \<in> set (''_./:~=-'' @ [bslash]))"

definition windowsEscapeArg :: "string \<Rightarrow> string option" where
  "windowsEscapeArg value =
     (if value = [] then Some [dquote, dquote]
      else if unsafe_cmd_meta value then None
      else if list_all windows_safe_char value then Some value
      else Some ([dquote] @ concat (map (\<lambda>c. if c = dquote then [dquote, dquote] else [c]) value) @ [dquote]))"

fun escape_all :: "string list \<Rightarrow> string + string list" where
  "escape_all [] = Inr []"
| "escape_all (token # argv) =
     (case windowsEscapeArg token of
        None \<Rightarrow> Inl (''unsafe windows token: '' @ token)
      | Some escaped \<Rightarrow> map_sum id ((#) escaped) (escape_all argv))"

definition renderWindowsQuotedArgv :: "string list \<Rightarrow> string + string" where
  "renderWindowsQuotedArgv argv = map_sum id (join_with '' '') (escape_all argv)"

definition renderQuotedArgvOn :: "string option \<Rightarrow> string list \<Rightarrow> string option" where
  "renderQuotedArgvOn platform argv =
     (if isWindowsPlatform platform then (case renderWindowsQuotedArgv argv of Inl _ \<Rightarrow> None | Inr rendered \<Rightarrow> Some rendered)
      else Some (renderQuotedArgv argv))"

definition rebuildWindowsShellCommandFromSource :: "segment_renderer \<Rightarrow> string \<Rightarrow> string + string \<times> nat" where
  "rebuildWindowsShellCommandFromSource renderSegment command =
     (let source = stripWindowsShellWrapper (js_trim command)
      in if source = [] then Inl ''empty command''
         else
           (case findWindowsUnsupportedToken source of
              Some unsupported \<Rightarrow> Inl (''unsupported windows shell token: '' @ unsupported)
            | None \<Rightarrow> map_sum id (\<lambda>rendered. (''& '' @ rendered, 1)) (renderSegment source 0)))"

definition rebuildShellCommandOn :: "string option \<Rightarrow> segment_renderer \<Rightarrow> string \<Rightarrow> string + string \<times> nat" where
  "rebuildShellCommandOn platform renderSegment command =
     (if isWindowsPlatform platform then rebuildWindowsShellCommandFromSource renderSegment command
      else rebuildShellCommandFromSource renderSegment command)"

definition buildSafeShellCommandOn :: "string option \<Rightarrow> string \<Rightarrow> string + string" where
  "buildSafeShellCommandOn platform command =
     (if isWindowsPlatform platform then
        finalizeRebuiltShellCommand
          (rebuildShellCommandOn platform
             (\<lambda>segmentRaw i.
                let argv = nullish (tokenizeWindowsSegment segmentRaw) []
                in if length argv = 0 then Inl ''unable to parse shell segment'' else renderWindowsQuotedArgv argv)
             command)
          None
      else buildSafeShellCommand command)"

definition render_enforced_on :: "string option \<Rightarrow> command_segment list \<Rightarrow> segment_renderer" where
  "render_enforced_on platform segmentList raw segmentIndex =
     (if segmentIndex \<ge> length segmentList then Inl ''segment mapping failed''
      else
        (case resolvePlannedSegmentArgv (segmentList ! segmentIndex) of
           None \<Rightarrow> Inl ''segment execution plan unavailable''
         | Some argv \<Rightarrow>
             (case renderQuotedArgvOn platform argv of
                None \<Rightarrow> Inl ''unsafe windows token in argv''
              | Some rendered \<Rightarrow> if rendered = [] then Inl ''unsafe windows token in argv'' else Inr rendered)))"

definition buildEnforcedShellCommandOn :: "string option \<Rightarrow> string \<Rightarrow> command_segment list \<Rightarrow> string + string" where
  "buildEnforcedShellCommandOn platform command segmentList =
     finalizeRebuiltShellCommand (rebuildShellCommandOn platform (render_enforced_on platform segmentList) command)
       (Some (length segmentList))"

lemma enforced_on_posix:
  "\<not> isWindowsPlatform platform \<Longrightarrow> buildEnforcedShellCommandOn platform command segmentList = buildEnforcedShellCommand command segmentList"
proof -
  assume "\<not> isWindowsPlatform platform"
  then have "render_enforced_on platform segmentList = render_enforced segmentList" and
    "rebuildShellCommandOn platform = rebuildShellCommandFromSource"
    by (auto simp: fun_eq_iff render_enforced_on_def render_enforced_def renderQuotedArgvOn_def rebuildShellCommandOn_def Let_def
        split: option.splits)
  then show ?thesis by (simp add: buildEnforcedShellCommandOn_def buildEnforcedShellCommand_def)
qed

lemma windows_examples:
  "stripWindowsShellWrapper (''powershell -NoProfile -ExecutionPolicy Bypass -Command '' @ [dquote] @ ''& node a.js '' @ [dquote, dquote] @ ''x y''
     @ [dquote, dquote, dquote]) = ''node a.js '' @ [dquote] @ ''x y'' @ [dquote]"
  "stripWindowsShellWrapper ''cmd /c dir'' = ''cmd /c dir''"
  "findWindowsUnsupportedToken (''node '' @ [dquote] @ ''(a)'' @ [dquote] @ '' $env:X'') = Some ''$''"
  by code_simp+

subsection \<open>Round trip\<close>

text \<open>What is rendered is read back word by word, unless a word holds a double quote.\<close>

lemma windows_quoted:
  "dquote \<notin> set v \<Longrightarrow> windows_tokens True False True buf tokens (v @ dquote # s) = windows_tokens False False True (buf @ v) tokens s"
  by (induction v arbitrary: buf) auto

lemma windows_bare:
  "list_all windows_safe_char v \<Longrightarrow> windows_tokens False False wasQuoted buf tokens (v @ s) = windows_tokens False False wasQuoted (buf @ v) tokens s"
proof (induction v arbitrary: buf)
  case (Cons c v)
  have "c \<noteq> dquote" "c \<noteq> squote" "\<not> js_is_space c"
    using Cons.prems by (auto simp: windows_safe_char_def ascii_letter_def ascii_digit_def js_is_space_def Let_def)
  then show ?case using Cons by simp
qed simp

lemma windows_escaped:
  assumes "windowsEscapeArg v = Some e" "dquote \<notin> set v"
  shows "\<exists>w. windows_tokens False False False [] tokens (e @ s) = windows_tokens False False w v tokens s \<and> (v \<noteq> [] \<or> w)"
proof -
  have same: "concat (map (\<lambda>c. if c = dquote then [dquote, dquote] else [c]) v) = v"
    using assms(2) by (induction v) auto
  show ?thesis using assms same windows_quoted [of v "[]" tokens s] windows_bare [of v False "[]" tokens s]
    by (auto simp: windowsEscapeArg_def split: if_splits)
qed

lemma windows_tokens_rendered:
  "escape_all argv = Inr es \<Longrightarrow> list_all (\<lambda>v. dquote \<notin> set v) argv \<Longrightarrow> argv \<noteq> [] \<Longrightarrow>
    windows_tokens False False False [] tokens (join_with '' '' es) = Some (tokens @ argv)"
proof (induction argv arbitrary: es tokens)
  case (Cons v argv)
  obtain e es' where e: "windowsEscapeArg v = Some e" "escape_all argv = Inr es'" "es = e # es'"
    using Cons.prems(1) by (cases "escape_all argv") (auto split: option.splits)
  have v: "dquote \<notin> set v" "list_all (\<lambda>v. dquote \<notin> set v) argv" using Cons.prems(2) by auto
  show ?case
  proof (cases argv)
    case Nil
    then show ?thesis using e windows_escaped [OF e(1) v(1), of tokens "[]"] by (auto simp: push_windows_token_def)
  next
    case (Cons u us)
    have join: "join_with '' '' es = e @ CHR '' '' # join_with '' '' es'"
      using e(2,3) Cons by (cases es'; cases "escape_all us") (auto split: option.splits)
    obtain w where w: "windows_tokens False False False [] tokens (join_with '' '' es) =
        windows_tokens False False w v tokens (CHR '' '' # join_with '' '' es')" "v \<noteq> [] \<or> w"
      using windows_escaped [OF e(1) v(1), of tokens "CHR '' '' # join_with '' '' es'"] join by auto
    have "js_is_space (CHR '' '')" by code_simp
    then show ?thesis using w Cons.IH [OF e(2) v(2), of "tokens @ [v]"] Cons by (auto simp: push_windows_token_def)
  qed
qed simp

text \<open>C35: on Windows the words of an approved plan survive rendering: the tokenizer reads the
  rendered command as exactly the argument list, if no word holds a double quote.\<close>

theorem windows_argv_roundtrip:
  assumes "renderWindowsQuotedArgv argv = Inr rendered" and "list_all (\<lambda>v. dquote \<notin> set v) argv" and "argv \<noteq> []"
  shows "tokenizeWindowsSegment rendered = Some argv"
  using assms windows_tokens_rendered [of argv _ "[]"]
  by (cases "escape_all argv") (auto simp: renderWindowsQuotedArgv_def tokenizeWindowsSegment_def)

theorem windows_argv_roundtrip_witness:
  "\<exists>rendered. renderWindowsQuotedArgv [''C:/Program Files/node.exe'', ''it'' @ [squote] @ ''s'', '''', ''--x=1''] = Inr rendered \<and>
    tokenizeWindowsSegment rendered = Some [''C:/Program Files/node.exe'', ''it'' @ [squote] @ ''s'', '''', ''--x=1'']"
proof -
  let ?argv = "[''C:/Program Files/node.exe'', ''it'' @ [squote] @ ''s'', '''', ''--x=1'']"
  have "map_sum id (\<lambda>x. True) (renderWindowsQuotedArgv ?argv) = Inr True" by code_simp
  then obtain rendered where r: "renderWindowsQuotedArgv ?argv = Inr rendered" by (cases "renderWindowsQuotedArgv ?argv") auto
  have "list_all (\<lambda>v. dquote \<notin> set v) ?argv" by code_simp
  then show ?thesis using windows_argv_roundtrip [OF r] r by simp
qed

text \<open>A double quote is doubled, and the tokenizer drops the pair.\<close>

lemma doubled_quotes_lost:
  "renderWindowsQuotedArgv [''echo'', ''say '' @ [dquote] @ ''hi'' @ [dquote]] =
     Inr (''echo '' @ [dquote] @ ''say '' @ [dquote, dquote] @ ''hi'' @ [dquote, dquote, dquote])
    \<and> tokenizeWindowsSegment (''echo '' @ [dquote] @ ''say '' @ [dquote, dquote] @ ''hi'' @ [dquote, dquote, dquote]) = Some [''echo'', ''say hi'']"
  by code_simp

end
