(* ===== verification/CommandResolution.thy ===== *)
theory CommandResolution
  imports ExecPaths ShellWrappers ShellAnalysis ShellWindows
begin

section \<open>Resolution of commands and allowlist matching\<close>

text \<open>
  Models \<^verbatim>\<open>src/infra/exec-command-resolution.ts\<close>: which executable an argument list runs and which
  one the policy looks at, and the first allowlist entry that matches it. The regular expression of
  an \<open>argPattern\<close> is written by the user: \<open>regex\<close> stands for \<open>new RegExp(p).test(s)\<close>, \<open>None\<close>
  when the pattern is malformed.
\<close>

subsection \<open>Resolution\<close>

definition parseFirstToken :: "string \<Rightarrow> string option" where
  "parseFirstToken command =
     (let trimmed = js_trim command
      in case trimmed of
           [] \<Rightarrow> None
         | first # rest \<Rightarrow>
             if first = dquote \<or> first = squote then
               (let inner = takeWhile (\<lambda>c. c \<noteq> first) rest
                in if inner \<noteq> [] \<and> length inner < length rest then Some inner else Some rest)
             else Some (takeWhile (\<lambda>c. \<not> js_is_space c) trimmed))"

definition tryResolveRealpath :: "host \<Rightarrow> string option \<Rightarrow> string option" where
  "tryResolveRealpath host filePath =
     (case filePath of None \<Rightarrow> None | Some p \<Rightarrow> if p = [] then None else ho_realpath host p)"

definition buildExecutableResolution :: "host \<Rightarrow> string \<Rightarrow> string option \<Rightarrow> js_env option \<Rightarrow> executable_resolution" where
  "buildExecutableResolution host rawExecutable cwd env =
     (let resolvedPath = resolveExecutablePath host rawExecutable cwd env
      in \<lparr>er_rawExecutable = rawExecutable, er_resolvedPath = resolvedPath,
          er_resolvedRealPath = tryResolveRealpath host resolvedPath,
          er_executableName = (case resolvedPath of None \<Rightarrow> rawExecutable | Some p \<Rightarrow> posix_basename p)\<rparr>)"

definition resolveCommandResolution :: "host \<Rightarrow> string \<Rightarrow> string option \<Rightarrow> js_env option \<Rightarrow> command_resolution option" where
  "resolveCommandResolution host command cwd env =
     (case parseFirstToken command of
        None \<Rightarrow> None
      | Some rawExecutable \<Rightarrow>
          if rawExecutable = [] then None
          else
            let execution = buildExecutableResolution host rawExecutable cwd env
            in Some \<lparr>cr_execution = execution, cr_policy = execution, cr_effectiveArgv = Some [rawExecutable],
                 cr_wrapperChain = Some [], cr_policyBlocked = Some False, cr_blockedWrapper = None\<rparr>)"

definition resolveCommandResolutionFromArgv :: "host \<Rightarrow> string option \<Rightarrow> js_env option \<Rightarrow> string list \<Rightarrow> command_resolution option" where
  "resolveCommandResolutionFromArgv host cwd env argv =
     (let plan = resolveExecWrapperTrustPlan (ho_platform host) argv MAX_DISPATCH_WRAPPER_DEPTH;
          rawExecutable = trimmed_at (tp_argv plan) 0; policyRaw = trimmed_at (tp_policyArgv plan) 0
      in if rawExecutable = [] then None
         else
           let execution = buildExecutableResolution host rawExecutable cwd env
           in Some \<lparr>cr_execution = execution,
                cr_policy = (if policyRaw \<noteq> [] then buildExecutableResolution host policyRaw cwd env else execution),
                cr_effectiveArgv = Some (tp_argv plan), cr_wrapperChain = Some (tp_wrapperChain plan),
                cr_policyBlocked = Some (tp_policyBlocked plan), cr_blockedWrapper = tp_blockedWrapper plan\<rparr>)"

definition resolveExecutableCandidatePathFromResolution :: "host \<Rightarrow> executable_resolution option \<Rightarrow> string option \<Rightarrow> string option" where
  "resolveExecutableCandidatePathFromResolution host res cwd =
     (case res of
        None \<Rightarrow> None
      | Some r \<Rightarrow>
          (case Option.bind (er_resolvedPath r) nonempty of
             Some p \<Rightarrow> Some p
           | None \<Rightarrow>
               let raw = js_trim (er_rawExecutable r)
               in if raw = [] then None else resolveExecutablePathCandidate host raw cwd None True))"

definition resolveExecutionTargetResolution :: "command_resolution option \<Rightarrow> executable_resolution option" where
  "resolveExecutionTargetResolution res = map_option cr_execution res"

definition resolvePolicyTargetResolution :: "command_resolution option \<Rightarrow> executable_resolution option" where
  "resolvePolicyTargetResolution res = map_option cr_policy res"

definition resolveExecutionTargetCandidatePath :: "host \<Rightarrow> command_resolution option \<Rightarrow> string option \<Rightarrow> string option" where
  "resolveExecutionTargetCandidatePath host res cwd =
     resolveExecutableCandidatePathFromResolution host (resolveExecutionTargetResolution res) cwd"

definition resolvePolicyTargetCandidatePath :: "host \<Rightarrow> command_resolution option \<Rightarrow> string option \<Rightarrow> string option" where
  "resolvePolicyTargetCandidatePath host res cwd =
     resolveExecutableCandidatePathFromResolution host (resolvePolicyTargetResolution res) cwd"

subsection \<open>Argument patterns\<close>

type_synonym regex_engine = "string \<Rightarrow> (string \<Rightarrow> bool) option"

text \<open>\<open>/\s+(?:[12]>&[12]|[12]>\/dev\/null)\s*$/\<close>, cut off: the text before it, if it is there.\<close>

definition redirection_words :: "string list" where
  "redirection_words = [''1>&1'', ''1>&2'', ''2>&1'', ''2>&2'', ''1>/dev/null'', ''2>/dev/null'']"

definition cut_redirection :: "string \<Rightarrow> string option" where
  "cut_redirection value =
     (let trimmed = js_trim_end value
      in case find (ends_with trimmed) redirection_words of
           None \<Rightarrow> None
         | Some w \<Rightarrow>
             let before = take (length trimmed - length w) trimmed
             in if before \<noteq> [] \<and> js_is_space (last before) then Some (js_trim_end before) else None)"

lemma trim_end_length: "length (js_trim_end s) \<le> length s"
  using length_dropWhile_le [of js_is_space "rev s"] by (simp add: js_trim_end_def)

lemma cut_redirection_shorter: "cut_redirection value = Some v \<Longrightarrow> length v < length value"
proof -
  assume "cut_redirection value = Some v"
  then obtain w where w: "w \<in> set redirection_words" "ends_with (js_trim_end value) w"
    "v = js_trim_end (take (length (js_trim_end value) - length w) (js_trim_end value))"
    by (auto simp: cut_redirection_def Let_def dest: find_member split: option.splits if_splits)
  have "0 < length w" using w(1) by (auto simp: redirection_words_def)
  moreover have "length w \<le> length (js_trim_end value)" using w(2) by (simp add: ends_with_def)
  ultimately show ?thesis using w(3) trim_end_length [of "value"]
      trim_end_length [of "take (length (js_trim_end value) - length w) (js_trim_end value)"]
    by (cases w) auto
qed

function stripTrailingRedirections :: "string \<Rightarrow> string" where
  "stripTrailingRedirections value =
     (case cut_redirection value of None \<Rightarrow> value | Some shorter \<Rightarrow> stripTrailingRedirections shorter)"
  by pat_completeness auto
termination by (relation "measure length") (auto dest: cut_redirection_shorter)

declare stripTrailingRedirections.simps [simp del]

abbreviation nul :: char where "nul \<equiv> CHR 0x00"

definition matchArgPattern :: "host \<Rightarrow> regex_engine \<Rightarrow> string \<Rightarrow> string list \<Rightarrow> string option \<Rightarrow> bool" where
  "matchArgPattern host regex argPattern argv platform =
     (let sentinel = (nul \<in> set argPattern); sep = (if sentinel then [nul] else '' ''); argsSlice = drop 1 argv;
          argsString = (if sentinel then (if argsSlice = [] then [nul, nul] else join_with sep argsSlice @ sep)
            else join_with sep argsSlice)
      in case regex argPattern of
           None \<Rightarrow> False
         | Some test \<Rightarrow>
             if test argsString then True
             else
               let effectivePlatform = normalizeLowercaseStringOrEmpty (Some (nullish platform (ho_platform host)));
                   normalized = map (\<lambda>c. if c = CHR ''/'' then bslash else c) argsString
               in if starts_with effectivePlatform ''win'' \<and> normalized \<noteq> argsString \<and> test normalized then True
                  else if \<not> sentinel then
                    (let stripped = stripTrailingRedirections argsString in stripped \<noteq> argsString \<and> test stripped)
                  else False)"

subsection \<open>The allowlist\<close>

record allowlist_entry =
  le_id :: "string option"
  le_pattern :: string
  le_source :: "string option"
  le_commandText :: "string option"
  le_argPattern :: "string option"
  le_lastUsedAt :: "int option"
  le_lastUsedCommand :: "string option"
  le_lastResolvedPath :: "string option"

definition hasPathSelector :: "string \<Rightarrow> bool" where
  "hasPathSelector value = (CHR ''/'' \<in> set value \<or> bslash \<in> set value \<or> CHR ''~'' \<in> set value)"

definition matchesExecutableBasenamePattern :: "host \<Rightarrow> string \<Rightarrow> executable_resolution \<Rightarrow> bool" where
  "matchesExecutableBasenamePattern host pattern res =
     (if hasPathSelector (er_rawExecutable res) then False
      else list_ex (matchesExecAllowlistPattern host pattern)
        ((if er_executableName res \<noteq> [] then [er_executableName res] else []) @
         (case Option.bind (er_resolvedPath res) nonempty of None \<Rightarrow> [] | Some p \<Rightarrow> [posix_basename p])))"

definition arg_pattern :: "allowlist_entry \<Rightarrow> string option" where
  "arg_pattern entry = Option.bind (le_argPattern entry) nonempty"

definition entry_names :: "host \<Rightarrow> executable_resolution \<Rightarrow> string \<Rightarrow> allowlist_entry \<Rightarrow> bool" where
  "entry_names host res resolvedPath entry =
     (let pattern = js_trim (le_pattern entry)
      in if pattern = [] then False
         else if hasPathSelector pattern then matchesExecAllowlistPattern host pattern resolvedPath
         else pattern \<noteq> ''*'' \<and> matchesExecutableBasenamePattern host pattern res)"

text \<open>The loop over the entries; the last argument is \<open>pathOnlyMatch\<close>.\<close>

fun match_entries ::
  "host \<Rightarrow> regex_engine \<Rightarrow> executable_resolution \<Rightarrow> string \<Rightarrow> string list option \<Rightarrow> string option \<Rightarrow> allowlist_entry list \<Rightarrow>
    allowlist_entry option \<Rightarrow> allowlist_entry option" where
  "match_entries host regex res resolvedPath argv platform [] pathOnlyMatch = pathOnlyMatch"
| "match_entries host regex res resolvedPath argv platform (entry # entries) pathOnlyMatch =
     (if \<not> entry_names host res resolvedPath entry then
        match_entries host regex res resolvedPath argv platform entries pathOnlyMatch
      else
        (case arg_pattern entry of
           None \<Rightarrow> match_entries host regex res resolvedPath argv platform entries (Some (nullish pathOnlyMatch entry))
         | Some p \<Rightarrow>
             (case argv of
                Some args \<Rightarrow>
                  if matchArgPattern host regex p args platform then Some entry
                  else match_entries host regex res resolvedPath argv platform entries pathOnlyMatch
              | None \<Rightarrow> match_entries host regex res resolvedPath argv platform entries pathOnlyMatch)))"

definition bare_wildcard :: "allowlist_entry \<Rightarrow> bool" where
  "bare_wildcard entry = (js_trim (le_pattern entry) = ''*'' \<and> arg_pattern entry = None)"

definition matchAllowlist ::
  "host \<Rightarrow> regex_engine \<Rightarrow> allowlist_entry list \<Rightarrow> executable_resolution option \<Rightarrow> string list option \<Rightarrow> string option \<Rightarrow>
    allowlist_entry option" where
  "matchAllowlist host regex entries res argv platform =
     (case res of
        None \<Rightarrow> None
      | Some r \<Rightarrow>
          (case find bare_wildcard entries of
             Some entry \<Rightarrow> Some entry
           | None \<Rightarrow>
               (case Option.bind (er_resolvedPath r) nonempty of
                  None \<Rightarrow> None
                | Some resolvedPath \<Rightarrow> match_entries host regex r resolvedPath argv platform entries None)))"

text \<open>An answer is an entry of the list that names the executable and whose argument pattern, if it has one, matches.\<close>

definition entry_admits ::
  "host \<Rightarrow> regex_engine \<Rightarrow> executable_resolution \<Rightarrow> string list option \<Rightarrow> string option \<Rightarrow> allowlist_entry \<Rightarrow> bool" where
  "entry_admits host regex res argv platform entry =
     (bare_wildcard entry \<or>
      (\<exists>p. er_resolvedPath res = Some p \<and> p \<noteq> [] \<and> entry_names host res p entry \<and>
        (case arg_pattern entry of
           None \<Rightarrow> True
         | Some q \<Rightarrow> (case argv of None \<Rightarrow> False | Some args \<Rightarrow> matchArgPattern host regex q args platform))))"

lemma match_entries_sound:
  "match_entries host regex r p argv platform entries best = Some entry \<Longrightarrow>
    best = Some entry \<or>
    (entry \<in> set entries \<and> entry_names host r p entry \<and>
      (case arg_pattern entry of None \<Rightarrow> True
       | Some q \<Rightarrow> (case argv of None \<Rightarrow> False | Some args \<Rightarrow> matchArgPattern host regex q args platform)))"
proof (induction entries arbitrary: best)
  case (Cons e entries)
  show ?case
  proof (cases "entry_names host r p e")
    case False
    then show ?thesis using Cons by auto
  next
    case True
    show ?thesis
    proof (cases "arg_pattern e")
      case None
      then have "match_entries host regex r p argv platform entries (Some (nullish best e)) = Some entry"
        using Cons.prems True by simp
      from Cons.IH [OF this] show ?thesis using True None by (cases best) auto
    next
      case (Some q)
      show ?thesis
      proof (cases argv)
        case None
        then show ?thesis using Cons True Some by auto
      next
        case (Some args)
        show ?thesis
        proof (cases "matchArgPattern host regex q args platform")
          case True
          then show ?thesis using Cons.prems \<open>entry_names host r p e\<close> \<open>arg_pattern e = Some q\<close> Some by auto
        next
          case False
          then show ?thesis using Cons \<open>entry_names host r p e\<close> \<open>arg_pattern e = Some q\<close> Some by auto
        qed
      qed
    qed
  qed
qed simp

lemma match_entries_complete:
  "best \<noteq> None \<or> (\<exists>e\<in>set entries. entry_names host r p e \<and> arg_pattern e = None) \<Longrightarrow>
    match_entries host regex r p argv platform entries best \<noteq> None"
  by (induction entries arbitrary: best) (auto split: option.splits)

lemma matchAllowlist_sound:
  assumes "matchAllowlist host regex entries (Some r) argv platform = Some entry"
  shows "entry \<in> set entries \<and> entry_admits host regex r argv platform entry"
proof (cases "find bare_wildcard entries")
  case (Some e)
  then show ?thesis using assms find_member [OF Some] by (simp add: matchAllowlist_def entry_admits_def)
next
  case None
  then obtain p where p: "er_resolvedPath r = Some p" "p \<noteq> []" "match_entries host regex r p argv platform entries None = Some entry"
    using assms by (auto simp: matchAllowlist_def nonempty_def split: option.splits bind_splits if_splits)
  then show ?thesis using match_entries_sound [OF p(3)] by (auto simp: entry_admits_def)
qed

lemma matchAllowlist_no_resolution [simp]: "matchAllowlist host regex entries None argv platform = None"
  by (simp add: matchAllowlist_def)

subsection \<open>Tokens of an argument\<close>

datatype exec_argv_token =
  ArgEmpty | ArgTerminator | ArgStdin | ArgPositional string | ArgLong string "string option" | ArgCluster string "string list"

definition parseExecArgvToken :: "string \<Rightarrow> exec_argv_token" where
  "parseExecArgvToken raw =
     (if raw = [] then ArgEmpty
      else if raw = ''--'' then ArgTerminator
      else if raw = ''-'' then ArgStdin
      else if \<not> starts_with raw ''-'' then ArgPositional raw
      else if starts_with raw ''--'' then
        (if has_equals raw then ArgLong (optionName raw) (Some (drop (Suc (length (optionName raw))) raw)) else ArgLong raw None)
      else ArgCluster (drop 1 raw) (map (\<lambda>entry. [CHR ''-'', entry]) (drop 1 raw)))"

section \<open>Inline chains of shell wrappers\<close>

text \<open>
  The rest of \<^verbatim>\<open>src/infra/exec-approvals-analysis.ts\<close>: a shell wrapper whose payload was approved
  part by part is run with the payload replaced by the enforced command.
\<close>

text \<open>The first position at which the needle stands.\<close>

definition findSubsequence :: "'a list \<Rightarrow> 'a list \<Rightarrow> nat option" where
  "findSubsequence haystack needle =
     (if needle = [] \<or> length needle > length haystack then None
      else find (\<lambda>start. take (length needle) (drop start haystack) = needle) [0..<Suc (length haystack - length needle)])"

definition replaceShellInlineCommandArgv :: "host \<Rightarrow> string list \<Rightarrow> string \<Rightarrow> string \<Rightarrow> string list option" where
  "replaceShellInlineCommandArgv host argv oldCommand nextCommand =
     (case resolveShellWrapperTransportArgv (ho_platform host) argv of
        None \<Rightarrow> None
      | Some transportArgv \<Rightarrow>
          (case findSubsequence argv transportArgv of
             None \<Rightarrow> None
           | Some transportStart \<Rightarrow>
               (case im_valueTokenIndex (resolveInlineCommandMatch transportArgv POSIX_INLINE_COMMAND_FLAGS posix_options) of
                  None \<Rightarrow> None
                | Some valueTokenIndex \<Rightarrow>
                    let index = transportStart + valueTokenIndex
                    in if index \<ge> length argv then None
                       else
                         let token = argv ! index
                         in if token = oldCommand then Some (argv[index := nextCommand])
                            else if ends_with token oldCommand then
                              Some (argv[index := take (length token - length oldCommand) token @ nextCommand])
                            else None)))"

definition renderInlineChainSegmentArgv ::
  "host \<Rightarrow> string option \<Rightarrow> js_env option \<Rightarrow> string option \<Rightarrow> command_segment \<Rightarrow> string option" where
  "renderInlineChainSegmentArgv host cwd env platform seg =
     (case Option.bind (extractShellWrapperInlineCommand (ho_platform host) (sg_argv seg)) nonempty of
        None \<Rightarrow> None
      | Some inlineCommand \<Rightarrow>
          (case analyzeShellCommandOn platform (resolveCommandResolutionFromArgv host cwd env) inlineCommand of
             Inl reason \<Rightarrow> None
           | Inr analysis \<Rightarrow>
               (case buildEnforcedShellCommandOn platform inlineCommand (an_segments analysis) of
                  Inl reason \<Rightarrow> None
                | Inr command \<Rightarrow>
                    if command = [] then None
                    else
                      (case replaceShellInlineCommandArgv host (sg_argv seg) inlineCommand command of
                         None \<Rightarrow> None
                       | Some rewrittenArgv \<Rightarrow> renderQuotedArgvOn platform rewrittenArgv))))"

text \<open>\<open>buildSafeBinsShellCommand\<close> on a host and for a platform.\<close>

definition render_safe_bin_on ::
  "host \<Rightarrow> string option \<Rightarrow> js_env option \<Rightarrow> string option \<Rightarrow> command_segment list \<Rightarrow> satisfied_by option list \<Rightarrow> segment_renderer" where
  "render_safe_bin_on host cwd env platform segmentList segmentSatisfiedBy raw segmentIndex =
     (if segmentIndex \<ge> length segmentList \<or> segmentIndex \<ge> length segmentSatisfiedBy then Inl ''segment mapping failed''
      else
        let seg = segmentList ! segmentIndex; by = segmentSatisfiedBy ! segmentIndex
        in if by = Some ByInlineChain then
             (case Option.bind (renderInlineChainSegmentArgv host cwd env platform seg) nonempty of
                None \<Rightarrow> Inl ''inline chain execution plan unavailable''
              | Some rendered \<Rightarrow> Inr rendered)
           else if by \<noteq> Some BySafeBins then Inr (js_trim raw)
           else
             (case Option.bind (Option.bind (resolvePlannedSegmentArgv seg) (renderQuotedArgvOn platform)) nonempty of
                None \<Rightarrow> Inl ''segment execution plan unavailable''
              | Some rendered \<Rightarrow> Inr rendered))"

definition buildSafeBinsShellCommandOn ::
  "host \<Rightarrow> string option \<Rightarrow> js_env option \<Rightarrow> string option \<Rightarrow> string \<Rightarrow> command_segment list \<Rightarrow> satisfied_by option list \<Rightarrow>
    string + string" where
  "buildSafeBinsShellCommandOn host cwd env platform command segmentList segmentSatisfiedBy =
     (if length segmentList \<noteq> length segmentSatisfiedBy then Inl ''segment metadata mismatch''
      else finalizeRebuiltShellCommand
        (rebuildShellCommandOn platform (render_safe_bin_on host cwd env platform segmentList segmentSatisfiedBy) command)
        (Some (length segmentList)))"

lemma safe_bins_on_posix:
  "\<not> isWindowsPlatform platform \<Longrightarrow>
    buildSafeBinsShellCommandOn host cwd env platform command segmentList by =
      buildSafeBinsShellCommand (renderInlineChainSegmentArgv host cwd env platform) command segmentList by"
proof -
  assume posix: "\<not> isWindowsPlatform platform"
  have "render_safe_bin_on host cwd env platform segmentList by =
      render_safe_bin (renderInlineChainSegmentArgv host cwd env platform) segmentList by"
    using posix planned_nonempty
    by (auto simp: fun_eq_iff render_safe_bin_on_def render_safe_bin_def renderSafeBinSegmentArgv_def renderQuotedArgvOn_def nonempty_def Let_def
        split: option.splits)
  then show ?thesis using posix
    by (simp add: buildSafeBinsShellCommandOn_def buildSafeBinsShellCommand_def rebuildShellCommandOn_def)
qed

end
