(* ===== verification/SafeBins.thy ===== *)
theory SafeBins
  imports CommandResolution JsMap
begin

section \<open>Safe bins\<close>

text \<open>
  Models \<^verbatim>\<open>src/infra/exec-safe-bin-policy-profiles.ts\<close>,
  \<^verbatim>\<open>exec-safe-bin-policy-validator.ts\<close>, \<^verbatim>\<open>exec-safe-bin-semantics.ts\<close> and the path check of
  \<^verbatim>\<open>exec-safe-bin-trust.ts\<close>: programs that may run without an allowlist entry as long as their
  arguments keep them to their standard input.
\<close>

subsection \<open>Profiles\<close>

record safe_bin_profile =
  sp_minPositional :: "jsnum option"
  sp_maxPositional :: "jsnum option"
  sp_allowedValueFlags :: "string list option"
  sp_deniedFlags :: "string list option"
  sp_knownLongFlags :: "string list option"
  sp_knownLongFlagsSet :: "string list option"
  sp_longFlagPrefixMap :: "(string, string option) js_map option"

record safe_bin_fixture =
  sf_minPositional :: "jsnum option"
  sf_maxPositional :: "jsnum option"
  sf_allowedValueFlags :: "string list option"
  sf_deniedFlags :: "string list option"

definition DEFAULT_SAFE_BINS :: "string list" where
  "DEFAULT_SAFE_BINS = [''cut'', ''uniq'', ''head'', ''tail'', ''tr'', ''wc'']"

definition collectKnownLongFlags :: "string list \<Rightarrow> string list \<Rightarrow> string list" where
  "collectKnownLongFlags allowedValueFlags deniedFlags =
     js_uniq (filter (\<lambda>flag. starts_with flag ''--'') allowedValueFlags @ filter (\<lambda>flag. starts_with flag ''--'') deniedFlags)"

definition add_prefix :: "string \<Rightarrow> (string, string option) js_map \<Rightarrow> nat \<Rightarrow> (string, string option) js_map" where
  "add_prefix flag prefixMap n =
     (let prefix = take n flag
      in case map_get prefixMap prefix of
           None \<Rightarrow> map_set prefixMap prefix (Some flag)
         | Some existing \<Rightarrow> if existing \<noteq> Some flag then map_set prefixMap prefix None else prefixMap)"

definition add_flag :: "(string, string option) js_map \<Rightarrow> string \<Rightarrow> (string, string option) js_map" where
  "add_flag prefixMap flag =
     (if \<not> starts_with flag ''--'' \<or> length flag \<le> 2 then prefixMap
      else foldl (add_prefix flag) prefixMap [3..<Suc (length flag)])"

definition buildLongFlagPrefixMap :: "string list \<Rightarrow> (string, string option) js_map" where
  "buildLongFlagPrefixMap knownLongFlags = foldl add_flag [] knownLongFlags"

definition toFlagSet :: "string list option \<Rightarrow> string list" where
  "toFlagSet flags = js_uniq (nullish flags [])"

definition compileSafeBinProfile :: "safe_bin_fixture \<Rightarrow> safe_bin_profile" where
  "compileSafeBinProfile f =
     (let allowed = toFlagSet (sf_allowedValueFlags f); denied = toFlagSet (sf_deniedFlags f);
          known = collectKnownLongFlags allowed denied
      in \<lparr>sp_minPositional = sf_minPositional f, sp_maxPositional = sf_maxPositional f,
          sp_allowedValueFlags = Some allowed, sp_deniedFlags = Some denied,
          sp_knownLongFlags = Some known, sp_knownLongFlagsSet = Some known,
          sp_longFlagPrefixMap = Some (buildLongFlagPrefixMap known)\<rparr>)"

text \<open>A fixture of the built-in table: the limits and the two lists of flags.\<close>

definition builtin :: "int option \<Rightarrow> int option \<Rightarrow> string list \<Rightarrow> string list \<Rightarrow> safe_bin_fixture" where
  "builtin minPositional maxPositional allowed denied =
     \<lparr>sf_minPositional = map_option jn_of_int minPositional, sf_maxPositional = map_option jn_of_int maxPositional,
      sf_allowedValueFlags = Some allowed, sf_deniedFlags = Some denied\<rparr>"

definition SAFE_BIN_PROFILE_FIXTURES :: "(string, safe_bin_fixture) js_map" where
  "SAFE_BIN_PROFILE_FIXTURES =
     [(''jq'', builtin None (Some 1) [''--arg'', ''--argjson'', ''--argstr'']
        [''--argfile'', ''--rawfile'', ''--slurpfile'', ''--from-file'', ''--library-path'', ''-L'', ''-f'']),
      (''grep'', builtin None (Some 0)
        [''--regexp'', ''--max-count'', ''--after-context'', ''--before-context'', ''--context'', ''--devices'',
         ''--binary-files'', ''--exclude'', ''--include'', ''--label'', ''-e'', ''-m'', ''-A'', ''-B'', ''-C'', ''-D'']
        [''--file'', ''--exclude-from'', ''--dereference-recursive'', ''--directories'', ''--recursive'', ''-f'', ''-d'', ''-r'', ''-R'']),
      (''cut'', builtin None (Some 0)
        [''--bytes'', ''--characters'', ''--fields'', ''--delimiter'', ''--output-delimiter'', ''-b'', ''-c'', ''-f'', ''-d''] []),
      (''sort'', builtin None (Some 0)
        [''--key'', ''--field-separator'', ''--buffer-size'', ''--parallel'', ''--batch-size'', ''-k'', ''-t'', ''-S'']
        [''--compress-program'', ''--files0-from'', ''--output'', ''--random-source'', ''--temporary-directory'', ''-T'', ''-o'']),
      (''uniq'', builtin None (Some 0)
        [''--skip-fields'', ''--skip-chars'', ''--check-chars'', ''--group'', ''-f'', ''-s'', ''-w''] []),
      (''head'', builtin None (Some 0) [''--lines'', ''--bytes'', ''-n'', ''-c''] []),
      (''tail'', builtin None (Some 0)
        [''--lines'', ''--bytes'', ''--sleep-interval'', ''--max-unchanged-stats'', ''--pid'', ''-n'', ''-c''] []),
      (''tr'', builtin (Some 1) (Some 2) [] []),
      (''wc'', builtin None (Some 0) [] [''--files0-from''])]"

definition SAFE_BIN_PROFILES :: "(string, safe_bin_profile) js_map" where
  "SAFE_BIN_PROFILES = map (\<lambda>(name, f). (name, compileSafeBinProfile f)) SAFE_BIN_PROFILE_FIXTURES"

subsection \<open>Profiles of the configuration\<close>

definition normalizeFixtureLimit :: "jsnum option \<Rightarrow> jsnum option" where
  "normalizeFixtureLimit raw =
     (case raw of
        None \<Rightarrow> None
      | Some n \<Rightarrow> if \<not> js_is_finite n then None else if js_le (jn_of_int 0) (js_trunc n) then Some (js_trunc n) else None)"

definition normalizeFixtureFlags :: "(string \<Rightarrow> string \<Rightarrow> int) \<Rightarrow> string list option \<Rightarrow> string list option" where
  "normalizeFixtureFlags localeCompare flags =
     (let normalized = sort_by localeCompare (js_uniq (filter (\<lambda>flag. length flag > 0) (map js_trim (nullish flags []))))
      in if length normalized > 0 then Some normalized else None)"

definition normalizeSafeBinProfileFixture :: "(string \<Rightarrow> string \<Rightarrow> int) \<Rightarrow> safe_bin_fixture \<Rightarrow> safe_bin_fixture" where
  "normalizeSafeBinProfileFixture localeCompare f =
     (let minPositional = normalizeFixtureLimit (sf_minPositional f); maxRaw = normalizeFixtureLimit (sf_maxPositional f)
      in \<lparr>sf_minPositional = minPositional,
          sf_maxPositional =
            (case (minPositional, maxRaw) of (Some lo, Some hi) \<Rightarrow> if js_less hi lo then Some lo else Some hi | _ \<Rightarrow> maxRaw),
          sf_allowedValueFlags = normalizeFixtureFlags localeCompare (sf_allowedValueFlags f),
          sf_deniedFlags = normalizeFixtureFlags localeCompare (sf_deniedFlags f)\<rparr>)"

definition normalizeSafeBinProfileFixtures ::
  "(string \<Rightarrow> string \<Rightarrow> int) \<Rightarrow> (string, safe_bin_fixture) js_map option \<Rightarrow> (string, safe_bin_fixture) js_map" where
  "normalizeSafeBinProfileFixtures localeCompare fixtures =
     foldl (\<lambda>normalized (rawName, f).
         let name = normalizeLowercaseStringOrEmpty (Some rawName)
         in if name = [] then normalized else map_set normalized name (normalizeSafeBinProfileFixture localeCompare f))
       [] (nullish fixtures [])"

definition resolveSafeBinProfiles ::
  "(string \<Rightarrow> string \<Rightarrow> int) \<Rightarrow> (string, safe_bin_fixture) js_map option \<Rightarrow> (string, safe_bin_profile) js_map" where
  "resolveSafeBinProfiles localeCompare fixtures =
     (let normalized = normalizeSafeBinProfileFixtures localeCompare fixtures
      in if normalized = [] then SAFE_BIN_PROFILES
         else foldl (\<lambda>profiles (name, f). map_set profiles name (compileSafeBinProfile f)) SAFE_BIN_PROFILES normalized)"

subsection \<open>Literal tokens\<close>

definition isPathLikeToken :: "string \<Rightarrow> bool" where
  "isPathLikeToken v =
     (let trimmed = js_trim v
      in if trimmed = [] \<or> trimmed = ''-'' then False
         else starts_with trimmed ''./'' \<or> starts_with trimmed ''../'' \<or> starts_with trimmed ''~'' \<or> starts_with trimmed ''/''
           \<or> drive_prefix trimmed \<and> length trimmed > 2 \<and> (trimmed ! 2 = bslash \<or> trimmed ! 2 = CHR ''/''))"

definition hasGlobToken :: "string \<Rightarrow> bool" where
  "hasGlobToken v = list_ex (\<lambda>c. c \<in> set ''*?[]'') v"

fun hasShellExpansionToken :: "string \<Rightarrow> bool" where
  "hasShellExpansionToken (a # b # s) =
     (a = CHR ''$'' \<and> (ascii_letter b \<or> ascii_digit b \<or> b \<in> set ''_@*?!$#-{(['') \<or> hasShellExpansionToken (b # s))"
| "hasShellExpansionToken s = False"

definition isSafeLiteralToken :: "string \<Rightarrow> bool" where
  "isSafeLiteralToken v =
     (v = [] \<or> v = ''-'' \<or> \<not> hasGlobToken v \<and> \<not> hasShellExpansionToken v \<and> \<not> isPathLikeToken v)"

definition isInvalidValueToken :: "string option \<Rightarrow> bool" where
  "isInvalidValueToken v = (case v of None \<Rightarrow> True | Some s \<Rightarrow> s = [] \<or> \<not> isSafeLiteralToken s)"

subsection \<open>Options\<close>

definition resolveCanonicalLongFlag :: "string \<Rightarrow> string list \<Rightarrow> (string, string option) js_map \<Rightarrow> string option" where
  "resolveCanonicalLongFlag flag known prefixMap =
     (if \<not> starts_with flag ''--'' \<or> length flag \<le> 2 then None
      else if flag \<in> set known then Some flag
      else Option.bind (map_get prefixMap flag) id)"

text \<open>
  The arguments that are left after an option, \<open>None\<close> where the code answers \<open>-1\<close>. \<open>rest\<close> are the
  arguments after the token.
\<close>

definition take_value :: "string list \<Rightarrow> string list option" where
  "take_value rest = (if isInvalidValueToken (if rest = [] then None else Some (hd rest)) then None else Some (tl rest))"

definition consumeLongOptionToken ::
  "string list \<Rightarrow> string \<Rightarrow> string option \<Rightarrow> string list \<Rightarrow> string list \<Rightarrow> string list \<Rightarrow> (string, string option) js_map \<Rightarrow>
    string list option" where
  "consumeLongOptionToken rest flag inlineValue allowed denied known prefixMap =
     (case resolveCanonicalLongFlag flag known prefixMap of
        None \<Rightarrow> None
      | Some canonicalFlag \<Rightarrow>
          if canonicalFlag = [] \<or> canonicalFlag \<in> set denied then None
          else
            let expectsValue = (canonicalFlag \<in> set allowed)
            in case inlineValue of
                 Some v \<Rightarrow> if \<not> expectsValue then None else if isSafeLiteralToken v then Some rest else None
               | None \<Rightarrow> if \<not> expectsValue then Some rest else take_value rest)"

fun consumeShortOptionClusterToken :: "string list \<Rightarrow> string \<Rightarrow> string list \<Rightarrow> string list \<Rightarrow> string list option" where
  "consumeShortOptionClusterToken rest [] allowed denied = None"
| "consumeShortOptionClusterToken rest (c # cluster) allowed denied =
     (let flag = [CHR ''-'', c]
      in if flag \<in> set denied then None
         else if flag \<notin> set allowed then consumeShortOptionClusterToken rest cluster allowed denied
         else if cluster \<noteq> [] then (if isSafeLiteralToken cluster then Some rest else None)
         else take_value rest)"

lemma take_value_length: "take_value rest = Some r \<Longrightarrow> length r \<le> length rest"
  by (auto simp: take_value_def split: if_splits)

lemma long_length: "consumeLongOptionToken rest flag v allowed denied known prefixMap = Some r \<Longrightarrow> length r \<le> length rest"
  by (auto simp: consumeLongOptionToken_def Let_def dest: take_value_length split: option.splits if_splits)

lemma cluster_length: "consumeShortOptionClusterToken rest cluster allowed denied = Some r \<Longrightarrow> length r \<le> length rest"
  by (induction rest cluster allowed denied rule: consumeShortOptionClusterToken.induct)
    (auto simp: Let_def dest: take_value_length split: if_splits)

subsection \<open>Positional arguments\<close>

text \<open>After a terminator.\<close>

fun rest_positional :: "string list \<Rightarrow> string list \<Rightarrow> string list option" where
  "rest_positional [] positional = Some positional"
| "rest_positional (r # rest) positional =
     (if r = [] \<or> r = ''-'' then rest_positional rest positional
      else if \<not> isSafeLiteralToken r then None
      else rest_positional rest (positional @ [r]))"

function positional_loop ::
  "string list \<Rightarrow> string list \<Rightarrow> string list \<Rightarrow> (string, string option) js_map \<Rightarrow> string list \<Rightarrow> string list \<Rightarrow> string list option" where
  "positional_loop allowed denied known prefixMap [] positional = Some positional"
| "positional_loop allowed denied known prefixMap (rawToken # rest) positional =
     (case parseExecArgvToken rawToken of
        ArgEmpty \<Rightarrow> positional_loop allowed denied known prefixMap rest positional
      | ArgStdin \<Rightarrow> positional_loop allowed denied known prefixMap rest positional
      | ArgTerminator \<Rightarrow> rest_positional rest positional
      | ArgPositional raw \<Rightarrow>
          if \<not> isSafeLiteralToken raw then None
          else positional_loop allowed denied known prefixMap rest (positional @ [raw])
      | ArgLong flag inlineValue \<Rightarrow>
          (case consumeLongOptionToken rest flag inlineValue allowed denied known prefixMap of
             None \<Rightarrow> None
           | Some rest1 \<Rightarrow> positional_loop allowed denied known prefixMap rest1 positional)
      | ArgCluster cluster flags \<Rightarrow>
          (case consumeShortOptionClusterToken rest cluster allowed denied of
             None \<Rightarrow> None
           | Some rest1 \<Rightarrow> positional_loop allowed denied known prefixMap rest1 positional))"
  by pat_completeness auto
termination
  by (relation "measure (\<lambda>(allowed, denied, known, prefixMap, args, positional). length args)")
    (auto dest: long_length cluster_length)

definition collectPositionalTokens :: "string list \<Rightarrow> safe_bin_profile \<Rightarrow> string list option" where
  "collectPositionalTokens args profile =
     (let allowed = nullish (sp_allowedValueFlags profile) []; denied = nullish (sp_deniedFlags profile) [];
          known = nullish (sp_knownLongFlags profile) (collectKnownLongFlags allowed denied);
          knownSet = nullish (sp_knownLongFlagsSet profile) known;
          prefixMap = nullish (sp_longFlagPrefixMap profile) (buildLongFlagPrefixMap known)
      in positional_loop allowed denied knownSet prefixMap args [])"

definition validatePositionalCount :: "string list \<Rightarrow> safe_bin_profile \<Rightarrow> bool" where
  "validatePositionalCount positional profile =
     (let count = jn_of_int (int (length positional))
      in if js_less count (nullish (sp_minPositional profile) (jn_of_int 0)) then False
         else (case sp_maxPositional profile of None \<Rightarrow> True | Some n \<Rightarrow> \<not> js_less n count))"

subsection \<open>Semantics\<close>

definition word_or_digit :: "char \<Rightarrow> bool" where
  "word_or_digit c = (ascii_letter c \<or> ascii_digit c \<or> c = CHR ''_'')"

definition ends_word :: "string \<Rightarrow> bool" where
  "ends_word s = (s = [] \<or> \<not> word_or_digit (hd s))"

fun jq_env_filter :: "char option \<Rightarrow> string \<Rightarrow> bool" where
  "jq_env_filter prev [] = False"
| "jq_env_filter prev (c # s) =
     ((case prev of None \<Rightarrow> True | Some p \<Rightarrow> \<not> (word_or_digit p \<or> p = CHR ''.'' \<or> p = CHR ''$''))
        \<and> starts_with (c # s) ''env'' \<and> ends_word (drop 3 (c # s))
      \<or> jq_env_filter (Some c) s)"

fun jq_env_variable :: "string \<Rightarrow> bool" where
  "jq_env_variable [] = False"
| "jq_env_variable (c # s) = (starts_with (c # s) ''$ENV'' \<and> ends_word (drop 4 (c # s)) \<or> jq_env_variable s)"

definition normalizeSafeBinName :: "string \<Rightarrow> string" where
  "normalizeSafeBinName raw =
     (let trimmed = normalizeLowercaseStringOrEmpty (Some raw);
          tail = rev (takeWhile (\<lambda>c. c \<noteq> CHR ''/'' \<and> c \<noteq> bslash) (rev trimmed))
      in if trimmed = [] then [] else stripWindowsExecutableSuffix tail)"

definition validateSafeBinSemantics :: "string option \<Rightarrow> string list \<Rightarrow> bool" where
  "validateSafeBinSemantics binName positional =
     (let normalized = (case binName of None \<Rightarrow> [] | Some n \<Rightarrow> normalizeSafeBinName n)
      in if normalized = ''jq'' then \<not> list_ex (\<lambda>token. jq_env_filter None token \<or> jq_env_variable token) positional
         else normalized \<notin> set [''awk'', ''gawk'', ''mawk'', ''nawk'', ''sed'', ''gsed''])"

definition validateSafeBinArgv :: "string list \<Rightarrow> safe_bin_profile \<Rightarrow> string option \<Rightarrow> bool" where
  "validateSafeBinArgv args profile binName =
     (case collectPositionalTokens args profile of
        None \<Rightarrow> False
      | Some positional \<Rightarrow> validatePositionalCount positional profile \<and> validateSafeBinSemantics binName positional)"

lemma safe_bin_examples:
  "positional_loop [''--lines'', ''-n''] [''--out''] [''--lines'', ''--out''] (buildLongFlagPrefixMap [''--lines'', ''--out''])
    [''-n5'', ''--lin'', ''7'', ''-'', ''word''] [] = Some [''word'']"
  "positional_loop [''--lines'', ''-n''] [''--out''] [''--lines'', ''--out''] (buildLongFlagPrefixMap [''--lines'', ''--out''])
    [''--ou'', ''x''] [] = None"
  "positional_loop [''--lines'', ''-n''] [] [] [] [''-n'', ''../secret''] [] = None"
  "normalizeSafeBinName ''/usr/bin/JQ.exe'' = ''jq''" "jq_env_filter None ''.a | env.HOME''" "\<not> jq_env_filter None ''.environment''"
  by code_simp+

subsection \<open>Trusted directories\<close>

text \<open>\<open>path.posix.dirname\<close>\<close>

definition posix_dirname :: "string \<Rightarrow> string" where
  "posix_dirname p =
     (let before = dropWhile (\<lambda>c. c \<noteq> CHR ''/'') (dropWhile (\<lambda>c. c = CHR ''/'') (rev p)); end_index = length before - 1
      in if length before \<le> 1 then (if isAbsolute p then ''/'' else ''.'')
         else if isAbsolute p \<and> end_index = 1 then ''//''
         else take end_index p)"

definition swapAsciiCase :: "string \<Rightarrow> string" where
  "swapAsciiCase s =
     map (\<lambda>c. let n = (of_char c :: nat) in
       if 65 \<le> n \<and> n \<le> 90 then char_of (n + 32) else if 97 \<le> n \<and> n \<le> 122 then char_of (n - 32) else c) s"

definition sameFsObject :: "file_stat \<Rightarrow> file_stat \<Rightarrow> bool" where
  "sameFsObject a b = (st_dev a = st_dev b \<and> st_ino a = st_ino b)"

text \<open>A directory is shorter than the path, except for the root and the dot.\<close>

definition path_measure :: "string \<Rightarrow> nat" where
  "path_measure p = (if p = ''.'' then 0 else Suc (length p))"

lemma dirname_cut:
  fixes s :: string
  assumes "dropWhile (\<lambda>c. c \<noteq> CHR ''/'') (dropWhile (\<lambda>c. c = CHR ''/'') s) \<noteq> []"
  shows "length (dropWhile (\<lambda>c. c \<noteq> CHR ''/'') (dropWhile (\<lambda>c. c = CHR ''/'') s)) < length s"
proof -
  let ?P = "\<lambda>c. c \<noteq> CHR ''/''"
  let ?d = "dropWhile (\<lambda>c. c = CHR ''/'') s"
  have "?d \<noteq> []" using assms by force
  then obtain c d where d: "?d = c # d" by (meson list.exhaust)
  then have "?P c" using hd_dropWhile [OF \<open>?d \<noteq> []\<close>] by simp
  then have "dropWhile ?P ?d = dropWhile ?P d" unfolding d by simp
  then have "length (dropWhile ?P ?d) < length ?d" unfolding d by (simp add: le_imp_less_Suc length_dropWhile_le)
  then show ?thesis using length_dropWhile_le [of "\<lambda>c. c = CHR ''/''" s] by simp
qed

lemma posix_dirname_smaller: "posix_dirname p \<noteq> p \<Longrightarrow> path_measure (posix_dirname p) < path_measure p"
proof -
  assume diff: "posix_dirname p \<noteq> p"
  let ?before = "dropWhile (\<lambda>c. c \<noteq> CHR ''/'') (dropWhile (\<lambda>c. c = CHR ''/'') (rev p))"
  have dot: "posix_dirname ''.'' = ''.''" by code_simp
  show ?thesis
  proof (cases "length ?before \<le> 1")
    case True
    then have "posix_dirname p = (if isAbsolute p then ''/'' else ''.'')" by (simp add: posix_dirname_def Let_def)
    moreover have "isAbsolute p \<Longrightarrow> length p > 1 \<or> p = ''/''"
      by (cases p; cases "tl p") (auto simp: isAbsolute_def starts_with_def)
    ultimately show ?thesis using diff dot by (auto simp: path_measure_def split: if_splits)
  next
    case False
    then have "?before \<noteq> []" by force
    then have "length ?before < length p" using dirname_cut [of "rev p"] unfolding length_rev by blast
    moreover have "posix_dirname p = ''//'' \<and> length ?before = 2 \<or> posix_dirname p = take (length ?before - 1) p"
      using False by (auto simp: posix_dirname_def Let_def)
    ultimately show ?thesis using False by (auto simp: path_measure_def)
  qed
qed

function pathCaseInsensitive :: "host \<Rightarrow> string \<Rightarrow> bool" where
  "pathCaseInsensitive host candidate =
     (let swapped = swapAsciiCase candidate;
          probe = (if swapped \<noteq> candidate then ho_stat host candidate else None)
      in case probe of
           Some original \<Rightarrow>
             (case ho_stat host swapped of None \<Rightarrow> False | Some alternate \<Rightarrow> sameFsObject original alternate)
         | None \<Rightarrow>
             if posix_dirname candidate = candidate then ho_platform host = ''win32''
             else pathCaseInsensitive host (posix_dirname candidate))"
  by pat_completeness auto
termination by (relation "measure (\<lambda>(host, p). path_measure p)") (auto dest: posix_dirname_smaller)

declare pathCaseInsensitive.simps [simp del]

definition normalizeTrustComparisonPath :: "host \<Rightarrow> string \<Rightarrow> string" where
  "normalizeTrustComparisonPath host v =
     (let resolved = posix_resolve (ho_cwd host) [v]
      in if pathCaseInsensitive host resolved then js_lower resolved else resolved)"

definition normalizeTrustedSafeBinDirs :: "string list option \<Rightarrow> string list" where
  "normalizeTrustedSafeBinDirs entries = js_uniq (filter (\<lambda>e. length e > 0) (map js_trim (nullish entries [])))"

definition DEFAULT_SAFE_BIN_TRUSTED_DIRS :: "string list" where
  "DEFAULT_SAFE_BIN_TRUSTED_DIRS = [''/bin'', ''/usr/bin'']"

definition buildTrustedSafeBinDirs :: "host \<Rightarrow> string list option \<Rightarrow> string list option \<Rightarrow> string list" where
  "buildTrustedSafeBinDirs host baseDirs extraDirs =
     js_uniq (map (\<lambda>e. normalizeTrustComparisonPath host (js_trim e))
       (normalizeTrustedSafeBinDirs (Some (nullish baseDirs DEFAULT_SAFE_BIN_TRUSTED_DIRS)) @ normalizeTrustedSafeBinDirs extraDirs))"

definition isTrustedSafeBinPath :: "host \<Rightarrow> string \<Rightarrow> string list option \<Rightarrow> bool" where
  "isTrustedSafeBinPath host resolvedPath trustedDirs =
     (normalizeTrustComparisonPath host (posix_dirname (posix_resolve (ho_cwd host) [resolvedPath]))
        \<in> set (nullish trustedDirs (buildTrustedSafeBinDirs host None None)))"

subsection \<open>What a safe bin is given\<close>

text \<open>
  The words a program gets: positional arguments and values of options. A safe bin is given no path,
  no glob and no expansion: every word is literal.
\<close>

lemma rest_positional_literal:
  "rest_positional args positional = Some ps \<Longrightarrow> list_all isSafeLiteralToken positional \<Longrightarrow>
    list_all isSafeLiteralToken ps \<and> list_all isSafeLiteralToken args"
proof (induction args arbitrary: positional)
  case (Cons r rest)
  show ?case
  proof (cases "r = [] \<or> r = ''-''")
    case True
    then show ?thesis using Cons by (auto simp: isSafeLiteralToken_def)
  next
    case False
    then show ?thesis using Cons.prems Cons.IH [of "positional @ [r]"] by (auto split: if_splits)
  qed
qed simp

lemma positional_literal:
  "positional_loop allowed denied known prefixMap args positional = Some ps \<Longrightarrow> list_all isSafeLiteralToken positional \<Longrightarrow>
    list_all isSafeLiteralToken ps"
  by (induction allowed denied known prefixMap args positional rule: positional_loop.induct)
    (auto dest: rest_positional_literal split: exec_argv_token.splits if_splits option.splits)

end
