(* ===== verification/AllowlistSegments.thy ===== *)
theory AllowlistSegments
  imports SafeBins ShellWindows
begin

section \<open>Allowlist decisions on segments\<close>

text \<open>
  Models the first half of \<^verbatim>\<open>src/infra/exec-approvals-allowlist.ts\<close>: which entry of the allowlist, safe
  bin or skill admits one segment of a command.
\<close>

subsection \<open>Data\<close>

record skill_bin =
  sk_name :: string
  sk_resolvedPath :: string

record allowlist_context =
  ac_allowlist :: "allowlist_entry list"
  ac_safeBins :: "string list"
  ac_safeBinProfiles :: "(string, safe_bin_profile) js_map option"
  ac_cwd :: "string option"
  ac_env :: "js_env option"
  ac_platform :: "string option"
  ac_trustedSafeBinDirs :: "string list option"
  ac_skillBins :: "skill_bin list option"
  ac_autoAllowSkills :: "bool option"

definition normalizeSafeBins :: "string list option \<Rightarrow> string list" where
  "normalizeSafeBins entries =
     js_uniq (filter (\<lambda>e. length e > 0) (map (\<lambda>e. normalizeLowercaseStringOrEmpty (Some e)) (nullish entries [])))"

text \<open>\<open>undefined\<close> is \<open>None\<close>, \<open>null\<close> is \<open>Some None\<close>.\<close>

definition resolveSafeBins :: "string list option option \<Rightarrow> string list" where
  "resolveSafeBins entries =
     (case entries of None \<Rightarrow> normalizeSafeBins (Some DEFAULT_SAFE_BINS) | Some e \<Rightarrow> normalizeSafeBins (Some (nullish e [])))"

definition isSafeBinUsage :: "host \<Rightarrow> allowlist_context \<Rightarrow> string list \<Rightarrow> executable_resolution option \<Rightarrow> bool" where
  "isSafeBinUsage host ctx argv res =
     (if isWindowsPlatform (Some (nullish (ac_platform ctx) (ho_platform host))) then False
      else if ac_safeBins ctx = [] then False
      else
        (case normalizeOptionalLowercaseString (map_option er_executableName res) of
           None \<Rightarrow> False
         | Some execName \<Rightarrow>
             if execName = [] \<or> execName \<notin> set (ac_safeBins ctx) then False
             else
               (case Option.bind (Option.bind res er_resolvedPath) nonempty of
                  None \<Rightarrow> False
                | Some resolvedPath \<Rightarrow>
                    if \<not> isTrustedSafeBinPath host resolvedPath (ac_trustedSafeBinDirs ctx) then False
                    else
                      (case map_get (nullish (ac_safeBinProfiles ctx) SAFE_BIN_PROFILES) execName of
                         None \<Rightarrow> False
                       | Some profile \<Rightarrow> validateSafeBinArgv (drop 1 argv) profile (Some execName)))))"

subsection \<open>Skills\<close>

definition isPathScopedExecutableToken :: "string \<Rightarrow> bool" where
  "isPathScopedExecutableToken token = has_separator token"

definition normalizeSkillBinName :: "string option \<Rightarrow> string option" where
  "normalizeSkillBinName v = Option.bind (normalizeOptionalLowercaseString v) nonempty"

definition normalizeSkillBinResolvedPath :: "host \<Rightarrow> string option \<Rightarrow> string option" where
  "normalizeSkillBinResolvedPath host v =
     map_option (\<lambda>trimmed. posix_resolve (ho_cwd host) [trimmed]) (Option.bind (normalizeOptionalString v) nonempty)"

definition add_skill :: "host \<Rightarrow> (string, string list) js_map \<Rightarrow> skill_bin \<Rightarrow> (string, string list) js_map" where
  "add_skill host trustByName entry =
     (case (normalizeSkillBinName (Some (sk_name entry)), normalizeSkillBinResolvedPath host (Some (sk_resolvedPath entry))) of
        (Some name, Some resolvedPath) \<Rightarrow> map_set trustByName name (set_add (nullish (map_get trustByName name) []) resolvedPath)
      | _ \<Rightarrow> trustByName)"

definition buildSkillBinTrustIndex :: "host \<Rightarrow> skill_bin list option \<Rightarrow> (string, string list) js_map" where
  "buildSkillBinTrustIndex host entries = foldl (add_skill host) [] (nullish entries [])"

definition isSkillAutoAllowedSegment :: "host \<Rightarrow> command_segment \<Rightarrow> bool \<Rightarrow> (string, string list) js_map \<Rightarrow> bool" where
  "isSkillAutoAllowedSegment host seg allowSkills skillBinTrust =
     (if \<not> allowSkills then False
      else
        (case resolveExecutionTargetResolution (sg_resolution seg) of
           None \<Rightarrow> False
         | Some execution \<Rightarrow>
             (case Option.bind (er_resolvedPath execution) nonempty of
                None \<Rightarrow> False
              | Some path \<Rightarrow>
                  let rawExecutable = js_trim (er_rawExecutable execution)
                  in if rawExecutable = [] \<or> isPathScopedExecutableToken rawExecutable then False
                     else
                       (case (normalizeSkillBinName (Some (er_executableName execution)), normalizeSkillBinResolvedPath host (Some path)) of
                          (Some name, Some resolvedPath) \<Rightarrow> resolvedPath \<in> set (nullish (map_get skillBinTrust name) [])
                        | _ \<Rightarrow> False))))"

subsection \<open>Shell segments\<close>

definition hasSegmentExecutableMatch :: "command_segment \<Rightarrow> (string \<Rightarrow> bool) \<Rightarrow> bool" where
  "hasSegmentExecutableMatch seg predicate =
     (let execution = resolveExecutionTargetResolution (sg_resolution seg);
          candidates = (case execution of None \<Rightarrow> [] | Some e \<Rightarrow> [er_executableName e, er_rawExecutable e]) @ take 1 (sg_argv seg)
      in list_ex (\<lambda>candidate. js_trim candidate \<noteq> [] \<and> predicate (js_trim candidate)) candidates)"

definition isShellWrapperSegment :: "command_segment \<Rightarrow> bool" where
  "isShellWrapperSegment seg = hasSegmentExecutableMatch seg isShellWrapperExecutable"

definition SHELL_WRAPPER_OPTIONS_WITH_VALUE :: "string list" where
  "SHELL_WRAPPER_OPTIONS_WITH_VALUE = [''-c'', ''--command'', ''-o'', ''-O'', ''+O'']"

definition SHELL_WRAPPER_DISQUALIFYING_SCRIPT_OPTIONS :: "string list" where
  "SHELL_WRAPPER_DISQUALIFYING_SCRIPT_OPTIONS = [''--rcfile'', ''--init-file'', ''--startup-file'']"

definition hasDisqualifyingShellWrapperScriptOption :: "string \<Rightarrow> bool" where
  "hasDisqualifyingShellWrapperScriptOption token =
     list_ex (\<lambda>opt. token = opt \<or> starts_with token (opt @ ''='')) SHELL_WRAPPER_DISQUALIFYING_SCRIPT_OPTIONS"

definition POWERSHELL_OPTIONS_WITH_VALUE :: "string list" where
  "POWERSHELL_OPTIONS_WITH_VALUE = map ((@) ''-'')
     [''executionpolicy'', ''ep'', ''windowstyle'', ''w'', ''workingdirectory'', ''wd'', ''inputformat'', ''outputformat'',
      ''settingsfile'', ''configurationfile'', ''version'', ''v'', ''psconsolefile'', ''pscf'', ''encodedcommand'', ''en'', ''enc'',
      ''encodedarguments'', ''ea'']"

text \<open>\<open>/^-[^-]*c[^-]*$/i\<close> for a lower-case letter\<close>

definition short_cluster_with :: "char \<Rightarrow> string \<Rightarrow> bool" where
  "short_cluster_with c token =
     (starts_with token ''-'' \<and> CHR ''-'' \<notin> set (drop 1 token) \<and> c \<in> set (map js_lower_char (drop 1 token)))"

text \<open>The index of the script, if no option rules a script out.\<close>

function script_index :: "bool \<Rightarrow> string list \<Rightarrow> nat \<Rightarrow> nat option" where
  "script_index isPowerShell argv idx =
     (if idx \<ge> length argv then Some idx
      else
        let token = trimmed_at argv idx
        in if token = [] then script_index isPowerShell argv (Suc idx)
           else if token = ''--'' then Some (Suc idx)
           else if token = ''-c'' \<or> token = ''--command'' then None
           else if \<not> isPowerShell \<and> short_cluster_with CHR ''c'' token then None
           else if token = ''-s'' \<or> \<not> isPowerShell \<and> short_cluster_with CHR ''s'' token then None
           else if hasDisqualifyingShellWrapperScriptOption token then None
           else if token \<in> set SHELL_WRAPPER_OPTIONS_WITH_VALUE then script_index isPowerShell argv (idx + 2)
           else if isPowerShell \<and> js_lower token \<in> set POWERSHELL_OPTIONS_WITH_VALUE then script_index isPowerShell argv (idx + 2)
           else if dash_or_plus token then script_index isPowerShell argv (Suc idx)
           else Some idx)"
  by pat_completeness auto
termination by (relation "measure (\<lambda>(isPowerShell, argv, idx). length argv - idx)") auto

declare script_index.simps [simp del]

text \<open>\<open>params.cwd && params.cwd.trim().length > 0 ? params.cwd : process.cwd()\<close>\<close>

definition raw_base_dir :: "host \<Rightarrow> string option \<Rightarrow> string" where
  "raw_base_dir host cwd = (case cwd of None \<Rightarrow> ho_cwd host | Some d \<Rightarrow> if js_trim d = [] then ho_cwd host else d)"

definition expand_tilde :: "host \<Rightarrow> string \<Rightarrow> string" where
  "expand_tilde host s = (if starts_with s ''~'' then expandHomePrefix host None s else s)"

definition resolveShellWrapperScriptCandidatePath :: "host \<Rightarrow> command_segment \<Rightarrow> string option \<Rightarrow> string option" where
  "resolveShellWrapperScriptCandidatePath host seg cwd =
     (if \<not> isShellWrapperSegment seg \<or> length (sg_argv seg) < 2 then None
      else
        let argv = sg_argv seg; isPowerShell = (normalizeExecutableToken (arg_at argv 0) \<in> set POWERSHELL_WRAPPERS)
        in case script_index isPowerShell argv 1 of
             None \<Rightarrow> None
           | Some idx \<Rightarrow>
               (let scriptToken = trimmed_at argv idx
                in if scriptToken = [] then None
                   else if isAbsolute scriptToken then Some scriptToken
                   else Some (posix_resolve (ho_cwd host) [raw_base_dir host cwd, expand_tilde host scriptToken])))"

definition find_index_of :: "('a \<Rightarrow> bool) \<Rightarrow> 'a list \<Rightarrow> nat option" where
  "find_index_of P xs = (let n = length (takeWhile (\<lambda>x. \<not> P x) xs) in if n < length xs then Some n else None)"

definition resolveShellWrapperScriptArgv :: "host \<Rightarrow> string \<Rightarrow> string list \<Rightarrow> string option \<Rightarrow> string list" where
  "resolveShellWrapperScriptArgv host scriptPath effectiveArgv cwd =
     (let scriptBase = normalizeLowercaseStringOrEmpty (Some (posix_basename scriptPath));
          resolveArgPath = (\<lambda>a. if isAbsolute a then a else posix_resolve (ho_cwd host) [base_dir host cwd, a]);
          idx = nullish_opt (find_index_of (\<lambda>a. resolveArgPath a = scriptPath) effectiveArgv)
            (find_index_of (\<lambda>a. normalizeLowercaseStringOrEmpty (Some (posix_basename a)) = scriptBase) effectiveArgv)
      in scriptPath # (case idx of None \<Rightarrow> [] | Some i \<Rightarrow> drop (Suc i) effectiveArgv))"

definition resolveSegmentSourceArgv :: "host \<Rightarrow> command_segment \<Rightarrow> string list" where
  "resolveSegmentSourceArgv host seg =
     (case sg_sourceArgv seg of
        None \<Rightarrow> sg_argv seg
      | Some sourceArgv \<Rightarrow>
          if sourceArgv = [] then sg_argv seg
          else
            let segmentExecutable = normalizeExecutableToken (arg_at (sg_argv seg) 0)
            in if segmentExecutable = [] then sg_argv seg
               else if normalizeExecutableToken (arg_at sourceArgv 0) = segmentExecutable then sourceArgv
               else
                 let unwrapped = unwrapDispatchWrappersForResolution (ho_platform host) sourceArgv
                 in if normalizeExecutableToken (arg_at unwrapped 0) = segmentExecutable then unwrapped else sg_argv seg)"

definition resolvePowerShellFileScriptArgv :: "host \<Rightarrow> command_segment \<Rightarrow> string option \<Rightarrow> string list option" where
  "resolvePowerShellFileScriptArgv host seg cwd =
     (let argv = resolveSegmentSourceArgv host seg
      in if length argv < 3 then None
         else if normalizeExecutableToken (arg_at argv 0) \<notin> set POWERSHELL_WRAPPERS then None
         else
           let match = resolvePowerShellInlineCommandMatch argv
           in case (im_valueTokenIndex match, im_command match) of
                (Some index, Some _) \<Rightarrow>
                  if \<not> isPowerShellInlineFileCommandFlag (arg_at argv (index - 1)) then None
                  else
                    let scriptToken = trimmed_at argv index
                    in if scriptToken = [] then None
                       else
                         let expanded = expand_tilde host scriptToken;
                             scriptPath = (if isAbsolute expanded then expanded
                               else posix_resolve (ho_cwd host) [raw_base_dir host cwd, expanded])
                         in Some (scriptPath # drop (Suc index) argv)
              | _ \<Rightarrow> None)"

subsection \<open>Positional carriers\<close>

text \<open>Words separated by white space that is no line end.\<close>

definition inner_space :: "char \<Rightarrow> bool" where
  "inner_space c = (js_is_space c \<and> c \<noteq> newline \<and> c \<noteq> cr)"

fun space_words :: "string \<Rightarrow> string \<Rightarrow> string list" where
  "space_words word [] = (if word = [] then [] else [word])"
| "space_words word (c # s) =
     (if inner_space c then (if word = [] then [] else [word]) @ space_words [] s else space_words (word @ [c]) s)"

definition both_forms :: "string \<Rightarrow> string list" where
  "both_forms name = (let plain = CHR ''$'' # name; braced = ''${'' @ name @ ''}''
     in [plain, braced, [dquote] @ plain @ [dquote], [dquote] @ braced @ [dquote]])"

definition positional_args :: "string list" where
  "positional_args = concat (map (\<lambda>c. both_forms [c]) ''@*123456789'')"

definition isDirectShellPositionalCarrierInvocation :: "string \<Rightarrow> bool" where
  "isDirectShellPositionalCarrierInvocation command =
     (let words = space_words [] (js_trim command);
          rest = (if words \<noteq> [] \<and> hd words = ''exec'' then
              (if tl words \<noteq> [] \<and> hd (tl words) = ''--'' then tl (tl words) else tl words) else words)
      in rest \<noteq> [] \<and> hd rest \<in> set (both_forms ''0'') \<and> list_all (\<lambda>w. w \<in> set positional_args) (tl rest))"

lemma carrier_examples:
  "isDirectShellPositionalCarrierInvocation (''exec -- '' @ [dquote] @ ''$0'' @ [dquote] @ ''  ${1} '' @ [dquote] @ ''$@'' @ [dquote])"
  "\<not> isDirectShellPositionalCarrierInvocation ''$0 $1; id''"
  by code_simp+

definition resolveShellWrapperPositionalArgvCandidatePath ::
  "host \<Rightarrow> command_segment \<Rightarrow> string option \<Rightarrow> js_env option \<Rightarrow> string option" where
  "resolveShellWrapperPositionalArgvCandidatePath host seg cwd env =
     (let argv = sg_argv seg
      in if \<not> isShellWrapperSegment seg \<or> length argv < 4 then None
         else if normalizeExecutableToken (arg_at argv 0) \<notin> set POSIX_SHELL_WRAPPER_NAMES then None
         else
           let inlineMatch = resolveInlineCommandMatch argv POSIX_INLINE_COMMAND_FLAGS posix_options
           in case (im_valueTokenIndex inlineMatch, im_command inlineMatch) of
                (Some index, Some command) \<Rightarrow>
                  if \<not> isDirectShellPositionalCarrierInvocation command then None
                  else
                    (case find (\<lambda>token. length token > 0) (map js_trim (drop (Suc index) argv)) of
                       None \<Rightarrow> None
                     | Some carriedExecutable \<Rightarrow>
                         let carriedName = normalizeExecutableToken carriedExecutable
                         in if isDispatchWrapperExecutable carriedName \<or> isShellWrapperExecutable carriedName then None
                            else resolveExecutionTargetCandidatePath host
                              (resolveCommandResolutionFromArgv host cwd env [carriedExecutable]) cwd)
              | _ \<Rightarrow> None)"

subsection \<open>The match of a segment\<close>

definition bound_arg_pattern :: "allowlist_entry option \<Rightarrow> bool" where
  "bound_arg_pattern match = (case Option.bind match le_argPattern of None \<Rightarrow> False | Some p \<Rightarrow> length (js_trim p) > 0)"

definition matchExecutableAllowlistForSegment ::
  "host \<Rightarrow> regex_engine \<Rightarrow> allowlist_context \<Rightarrow> executable_resolution option \<Rightarrow> string list \<Rightarrow> string option \<Rightarrow> bool \<Rightarrow> bool \<Rightarrow>
    bool \<Rightarrow> allowlist_entry option" where
  "matchExecutableAllowlistForSegment host regex ctx candidate effectiveArgv inlineCommand isShell isPositionalCarrier sameTarget =
     (if isPositionalCarrier then None
      else
        let match = matchAllowlist host regex (ac_allowlist ctx) candidate (Some effectiveArgv) (ac_platform ctx);
            hasBound = bound_arg_pattern match;
            isBareWildcard = ((case match of None \<Rightarrow> False | Some e \<Rightarrow> js_trim (le_pattern e) = ''*'') \<and> \<not> hasBound);
            requiresBound = (sameTarget \<and> (inlineCommand \<noteq> None \<or> isShell \<and> length effectiveArgv > 1))
        in if requiresBound \<and> \<not> hasBound \<and> \<not> isBareWildcard then None else match)"

definition executableResolutionsReferToSameTarget :: "executable_resolution option \<Rightarrow> executable_resolution option \<Rightarrow> bool" where
  "executableResolutionsReferToSameTarget left right =
     (case (left, right) of
        (Some l, Some r) \<Rightarrow> er_rawExecutable l = er_rawExecutable r \<and> er_resolvedPath l = er_resolvedPath r
          \<and> er_executableName l = er_executableName r
      | _ \<Rightarrow> False)"

definition effective_argv :: "command_segment \<Rightarrow> string list" where
  "effective_argv seg =
     (case Option.bind (sg_resolution seg) cr_effectiveArgv of
        Some effective \<Rightarrow> if length effective > 0 then effective else sg_argv seg
      | None \<Rightarrow> sg_argv seg)"

text \<open>A path as the resolution of a script or of a carried executable.\<close>

definition path_resolution :: "string \<Rightarrow> executable_resolution" where
  "path_resolution p = \<lparr>er_rawExecutable = p, er_resolvedPath = Some p, er_resolvedRealPath = None, er_executableName = posix_basename p\<rparr>"

record segment_match =
  sm_effectiveArgv :: "string list"
  sm_inlineCommand :: "string option"
  sm_match :: "allowlist_entry option"

text \<open>The argument is not the empty string.\<close>

definition truthy :: "string option \<Rightarrow> string option" where
  "truthy v = Option.bind v nonempty"

definition resolveSegmentAllowlistMatch :: "host \<Rightarrow> regex_engine \<Rightarrow> allowlist_context \<Rightarrow> command_segment \<Rightarrow> segment_match" where
  "resolveSegmentAllowlistMatch host regex ctx seg =
     (let effectiveArgv = effective_argv seg; allowlistSegment = seg\<lparr>sg_argv := effectiveArgv\<rparr>;
          executableResolution = resolvePolicyTargetResolution (sg_resolution seg);
          executionResolution = resolveExecutionTargetResolution (sg_resolution seg);
          candidatePath = truthy (resolvePolicyTargetCandidatePath host (sg_resolution seg) (ac_cwd ctx));
          candidateResolution = (case (candidatePath, executableResolution) of
              (Some p, Some r) \<Rightarrow> Some (r\<lparr>er_resolvedPath := Some p\<rparr>) | _ \<Rightarrow> executableResolution);
          inlineCommand = extractBindableShellWrapperInlineCommand (ho_platform host) (sg_argv allowlistSegment) None;
          powerShellFile = resolvePowerShellFileScriptArgv host allowlistSegment (ac_cwd ctx);
          isPositionalCarrier = (case inlineCommand of None \<Rightarrow> False | Some c \<Rightarrow> isDirectShellPositionalCarrierInvocation c);
          executableMatch = matchExecutableAllowlistForSegment host regex ctx candidateResolution effectiveArgv inlineCommand
            (isShellWrapperSegment allowlistSegment) isPositionalCarrier
            (executableResolutionsReferToSameTarget executableResolution executionResolution);
          positionalPath = (if inlineCommand \<noteq> None
            then truthy (resolveShellWrapperPositionalArgvCandidatePath host allowlistSegment (ac_cwd ctx) (ac_env ctx)) else None);
          positionalMatch = (case positionalPath of None \<Rightarrow> None
            | Some p \<Rightarrow> matchAllowlist host regex (ac_allowlist ctx) (Some (path_resolution p)) None (ac_platform ctx));
          scriptPath = truthy (case powerShellFile of Some f \<Rightarrow> Some (arg_at f 0)
            | None \<Rightarrow> if inlineCommand = None then resolveShellWrapperScriptCandidatePath host allowlistSegment (ac_cwd ctx) else None);
          scriptMatch = (case scriptPath of None \<Rightarrow> None
            | Some p \<Rightarrow> matchAllowlist host regex (ac_allowlist ctx) (Some (path_resolution p))
                (Some (nullish powerShellFile (resolveShellWrapperScriptArgv host p effectiveArgv (ac_cwd ctx)))) (ac_platform ctx))
      in \<lparr>sm_effectiveArgv = effectiveArgv, sm_inlineCommand = (if powerShellFile \<noteq> None then None else inlineCommand),
          sm_match = nullish_opt executableMatch (nullish_opt positionalMatch scriptMatch)\<rparr>)"

definition resolveSegmentSatisfaction ::
  "host \<Rightarrow> allowlist_context \<Rightarrow> allowlist_entry option \<Rightarrow> command_segment \<Rightarrow> string list \<Rightarrow> bool \<Rightarrow> (string, string list) js_map \<Rightarrow>
    satisfied_by option" where
  "resolveSegmentSatisfaction host ctx match seg effectiveArgv allowSkills skillBinTrust =
     (if match \<noteq> None then Some ByAllowlist
      else if isSafeBinUsage host ctx effectiveArgv (resolveExecutionTargetResolution (sg_resolution seg)) then Some BySafeBins
      else if isSkillAutoAllowedSegment host seg allowSkills skillBinTrust then Some BySkills
      else None)"

end
