(* ===== verification/AllowlistEval.thy ===== *)
theory AllowlistEval
  imports AllowlistSegments
begin

section \<open>Allowlist evaluation\<close>

text \<open>
  Models the second half of \<^verbatim>\<open>src/infra/exec-approvals-allowlist.ts\<close>: whether every segment of a
  command is admitted, with the payloads of shell wrappers evaluated in turn, and the display prelude
  of skills.
\<close>

subsection \<open>Segments\<close>

definition MAX_SHELL_WRAPPER_INLINE_EVAL_DEPTH :: nat where
  "MAX_SHELL_WRAPPER_INLINE_EVAL_DEPTH = 3"

record segments_evaluation =
  se_satisfied :: bool
  se_matches :: "allowlist_entry list"
  se_entries :: "allowlist_entry option list"
  se_satisfiedBy :: "satisfied_by option list"

type_synonym inline_result = "(allowlist_entry list \<times> satisfied_by) option"

definition skill_trust :: "host \<Rightarrow> allowlist_context \<Rightarrow> bool \<times> (string, string list) js_map" where
  "skill_trust host ctx =
     (let skillBinTrust = buildSkillBinTrustIndex host (ac_skillBins ctx)
      in (ac_autoAllowSkills ctx = Some True \<and> length skillBinTrust > 0, skillBinTrust))"

text \<open>
  One segment: the match, what satisfies it, and the matches of its payload. \<open>inline\<close> evaluates the
  payload of a shell wrapper one level deeper.
\<close>

definition evaluate_segment ::
  "host \<Rightarrow> regex_engine \<Rightarrow> allowlist_context \<Rightarrow> (string \<Rightarrow> inline_result) \<Rightarrow> command_segment \<Rightarrow>
    allowlist_entry option \<times> satisfied_by option \<times> allowlist_entry list" where
  "evaluate_segment host regex ctx inline seg =
     (let (allowSkills, skillBinTrust) = skill_trust host ctx;
          sm = resolveSegmentAllowlistMatch host regex ctx seg; match = sm_match sm;
          by = resolveSegmentSatisfaction host ctx match seg (sm_effectiveArgv sm) allowSkills skillBinTrust
      in case (if by \<noteq> None then None else Option.bind (truthy (sm_inlineCommand sm)) inline) of
           Some (matches, satisfiedBy) \<Rightarrow> (match, Some satisfiedBy, matches)
         | None \<Rightarrow> (match, by, []))"

fun evaluate_segments ::
  "host \<Rightarrow> regex_engine \<Rightarrow> allowlist_context \<Rightarrow> (string \<Rightarrow> inline_result) \<Rightarrow> command_segment list \<Rightarrow> segments_evaluation" where
  "evaluate_segments host regex ctx inline [] = \<lparr>se_satisfied = True, se_matches = [], se_entries = [], se_satisfiedBy = []\<rparr>"
| "evaluate_segments host regex ctx inline (seg # segs) =
     (if Option.bind (sg_resolution seg) cr_policyBlocked = Some True then
        \<lparr>se_satisfied = False, se_matches = [], se_entries = [None], se_satisfiedBy = [None]\<rparr>
      else
        let (match, by, inlineMatches) = evaluate_segment host regex ctx inline seg;
            matches = (case match of None \<Rightarrow> [] | Some m \<Rightarrow> [m]) @ inlineMatches
        in if by = None then \<lparr>se_satisfied = False, se_matches = matches, se_entries = [match], se_satisfiedBy = [by]\<rparr>
           else
             let rest = evaluate_segments host regex ctx inline segs
             in \<lparr>se_satisfied = se_satisfied rest, se_matches = matches @ se_matches rest,
                 se_entries = match # se_entries rest, se_satisfiedBy = by # se_satisfiedBy rest\<rparr>)"

definition resolveAnalysisSegmentGroups :: "command_analysis \<Rightarrow> command_segment list list" where
  "resolveAnalysisSegmentGroups analysis = nullish (an_chains analysis) [an_segments analysis]"

subsection \<open>Payloads\<close>

text \<open>All commands of a list; \<open>evaluate\<close> is \<open>evaluateSegments\<close> at the depth of the payload.\<close>

fun evaluate_commands ::
  "(string \<Rightarrow> string + command_analysis) \<Rightarrow> (command_segment list \<Rightarrow> segments_evaluation) \<Rightarrow> string list \<Rightarrow>
    (allowlist_entry list \<times> satisfied_by option list) option" where
  "evaluate_commands analyze evaluate [] = Some ([], [])"
| "evaluate_commands analyze evaluate (command # commands) =
     (case analyze command of
        Inl reason \<Rightarrow> None
      | Inr analysis \<Rightarrow>
          (let evaluation = evaluate (an_segments analysis)
           in if \<not> se_satisfied evaluation then None
              else map_option (\<lambda>(matches, by). (se_matches evaluation @ matches, se_satisfiedBy evaluation @ by))
                (evaluate_commands analyze evaluate commands)))"

fun evaluate_groups :: "(command_segment list \<Rightarrow> segments_evaluation) \<Rightarrow> command_segment list list \<Rightarrow> allowlist_entry list option" where
  "evaluate_groups evaluate [] = Some []"
| "evaluate_groups evaluate (segs # rest) =
     (let evaluation = evaluate segs
      in if \<not> se_satisfied evaluation then None
         else map_option ((@) (se_matches evaluation)) (evaluate_groups evaluate rest))"

definition literalized :: "satisfied_by option \<Rightarrow> bool" where
  "literalized by = (by = Some BySafeBins \<or> by = Some ByInlineChain)"

text \<open>
  \<open>resolveInlineCommandFallback\<close> with the two functions it calls, by the number of levels that are
  left: at \<open>inlineDepth\<close> there are \<open>MAX_SHELL_WRAPPER_INLINE_EVAL_DEPTH - inlineDepth - 1\<close>.
\<close>

primrec inline_fallback :: "host \<Rightarrow> regex_engine \<Rightarrow> allowlist_context \<Rightarrow> nat \<Rightarrow> string \<Rightarrow> inline_result" where
  "inline_fallback host regex ctx 0 = (\<lambda>inlineCommand. None)"
| "inline_fallback host regex ctx (Suc n) =
     (\<lambda>inlineCommand.
        let analyze = analyzeShellCommandOn (ac_platform ctx) (resolveCommandResolutionFromArgv host (ac_cwd ctx) (ac_env ctx));
            evaluate = evaluate_segments host regex ctx (inline_fallback host regex ctx n)
        in if hasShellLineContinuation inlineCommand then None
           else if \<not> isWindowsPlatform (ac_platform ctx) then
             (case splitCommandChain inlineCommand of
                None \<Rightarrow> None
              | Some parts \<Rightarrow>
                  if length parts \<le> 1 then None
                  else map_option (\<lambda>(matches, by). (matches, if list_ex literalized by then ByInlineChain else ByAllowlist))
                    (evaluate_commands analyze evaluate parts))
           else
             (case analyze inlineCommand of
                Inl reason \<Rightarrow> None
              | Inr analysis \<Rightarrow>
                  if length (an_segments analysis) = 0 then None
                  else map_option (\<lambda>matches. (matches, ByAllowlist))
                    (evaluate_groups evaluate (resolveAnalysisSegmentGroups analysis))))"

definition evaluateSegments :: "host \<Rightarrow> regex_engine \<Rightarrow> allowlist_context \<Rightarrow> command_segment list \<Rightarrow> segments_evaluation" where
  "evaluateSegments host regex ctx segs =
     evaluate_segments host regex ctx (inline_fallback host regex ctx (MAX_SHELL_WRAPPER_INLINE_EVAL_DEPTH - 1)) segs"

subsection \<open>An analysed command\<close>

record allowlist_evaluation =
  ev_satisfied :: bool
  ev_matches :: "allowlist_entry list"
  ev_entries :: "allowlist_entry option list"
  ev_satisfiedBy :: "satisfied_by option list"

definition no_evaluation :: allowlist_evaluation where
  "no_evaluation = \<lparr>ev_satisfied = False, ev_matches = [], ev_entries = [], ev_satisfiedBy = []\<rparr>"

fun evaluate_chains :: "(command_segment list \<Rightarrow> segments_evaluation) \<Rightarrow> bool \<Rightarrow> command_segment list list \<Rightarrow> allowlist_evaluation \<Rightarrow> allowlist_evaluation" where
  "evaluate_chains evaluate hasChains [] acc = acc\<lparr>ev_satisfied := True\<rparr>"
| "evaluate_chains evaluate hasChains (segs # rest) acc =
     (let evaluation = evaluate segs
      in if \<not> se_satisfied evaluation then
           (if \<not> hasChains then \<lparr>ev_satisfied = False, ev_matches = se_matches evaluation, ev_entries = se_entries evaluation,
              ev_satisfiedBy = se_satisfiedBy evaluation\<rparr>
            else no_evaluation)
         else evaluate_chains evaluate hasChains rest
           \<lparr>ev_satisfied = False, ev_matches = ev_matches acc @ se_matches evaluation, ev_entries = ev_entries acc @ se_entries evaluation,
            ev_satisfiedBy = ev_satisfiedBy acc @ se_satisfiedBy evaluation\<rparr>)"

text \<open>A failed analysis is \<open>Inl\<close>.\<close>

definition evaluateExecAllowlist ::
  "host \<Rightarrow> regex_engine \<Rightarrow> allowlist_context \<Rightarrow> string + command_analysis \<Rightarrow> allowlist_evaluation" where
  "evaluateExecAllowlist host regex ctx analyzed =
     (case analyzed of
        Inl reason \<Rightarrow> no_evaluation
      | Inr analysis \<Rightarrow>
          if length (an_segments analysis) = 0 then no_evaluation
          else evaluate_chains (evaluateSegments host regex ctx) (an_chains analysis \<noteq> None)
            (resolveAnalysisSegmentGroups analysis) no_evaluation)"

subsection \<open>The display prelude of skills\<close>

definition resolveSkillPreludePath :: "host \<Rightarrow> string \<Rightarrow> string option \<Rightarrow> string" where
  "resolveSkillPreludePath host rawPath cwd =
     (let expanded = expand_tilde host rawPath
      in if isAbsolute expanded then posix_resolve (ho_cwd host) [expanded]
         else posix_resolve (ho_cwd host) [base_dir host cwd, expanded])"

definition skill_path_parts :: "string \<Rightarrow> string list option" where
  "skill_path_parts filePath =
     (let lowered = normalizeLowercaseStringOrEmpty (Some (map (\<lambda>c. if c = bslash then CHR ''/'' else c) filePath))
      in if \<not> ends_with lowered ''/skill.md'' then None else Some (segments CHR ''/'' lowered))"

definition isSkillMarkdownPreludePath :: "string \<Rightarrow> bool" where
  "isSkillMarkdownPreludePath filePath =
     (case skill_path_parts filePath of
        None \<Rightarrow> False
      | Some parts \<Rightarrow>
          length parts \<ge> 2 \<and>
          list_ex (\<lambda>index. parts ! index = ''skills'' \<and> (length parts - index - 1 = 1 \<or> length parts - index - 1 = 2))
            [0..<length parts - 1])"

definition resolveSkillMarkdownPreludeId :: "string \<Rightarrow> string option" where
  "resolveSkillMarkdownPreludeId filePath =
     (case skill_path_parts filePath of
        None \<Rightarrow> None
      | Some parts \<Rightarrow>
          if length parts < 3 then None
          else if parts ! (length parts - 3) = ''skills'' then nonempty (js_trim (parts ! (length parts - 2)))
          else None)"

definition execution_name :: "command_segment \<Rightarrow> string" where
  "execution_name seg =
     normalizeLowercaseStringOrEmpty (map_option er_executableName (resolveExecutionTargetResolution (sg_resolution seg)))"

definition isSkillPreludeReadSegment :: "host \<Rightarrow> command_segment \<Rightarrow> string option \<Rightarrow> bool" where
  "isSkillPreludeReadSegment host seg cwd =
     (if execution_name seg \<noteq> ''cat'' \<or> length (sg_argv seg) \<noteq> 2 then False
      else
        let rawPath = trimmed_at (sg_argv seg) 1
        in rawPath \<noteq> [] \<and> isSkillMarkdownPreludePath (resolveSkillPreludePath host rawPath cwd))"

definition isSkillPreludeMarkerSegment :: "command_segment \<Rightarrow> bool" where
  "isSkillPreludeMarkerSegment seg =
     (if execution_name seg \<noteq> ''printf'' \<or> length (sg_argv seg) \<noteq> 2 then False
      else
        let marker = sg_argv seg ! 1
        in marker = [bslash] @ ''n---CMD---'' @ [bslash] @ ''n'' \<or> marker = [newline] @ ''---CMD---'' @ [newline])"

definition isSkillPreludeSegment :: "host \<Rightarrow> command_segment \<Rightarrow> string option \<Rightarrow> bool" where
  "isSkillPreludeSegment host seg cwd = (isSkillPreludeReadSegment host seg cwd \<or> isSkillPreludeMarkerSegment seg)"

definition isSkillPreludeOnlyEvaluation :: "host \<Rightarrow> command_segment list \<Rightarrow> string option \<Rightarrow> bool" where
  "isSkillPreludeOnlyEvaluation host segs cwd = (length segs > 0 \<and> list_all (\<lambda>seg. isSkillPreludeSegment host seg cwd) segs)"

definition resolveSkillPreludeIds :: "host \<Rightarrow> command_segment list \<Rightarrow> string option \<Rightarrow> string list" where
  "resolveSkillPreludeIds host segs cwd =
     List.map_filter (\<lambda>seg.
       if \<not> isSkillPreludeReadSegment host seg cwd then None
       else resolveSkillMarkdownPreludeId (resolveSkillPreludePath host (trimmed_at (sg_argv seg) 1) cwd)) segs"

definition first_arg :: "command_segment \<Rightarrow> string" where
  "first_arg seg = arg_at (sg_argv seg) 0"

definition resolveAllowlistedSkillWrapperId :: "command_segment \<Rightarrow> string option" where
  "resolveAllowlistedSkillWrapperId seg =
     (let execution = resolveExecutionTargetResolution (sg_resolution seg);
          executableName = normalizeExecutableToken (nullish (map_option er_executableName execution) (first_arg seg))
      in if \<not> ends_with executableName ''-wrapper'' then None
         else nonempty (js_trim (take (length executableName - length ''-wrapper'') executableName)))"

definition resolveTrustedSkillExecutionIds :: "command_analysis \<Rightarrow> allowlist_evaluation \<Rightarrow> string list" where
  "resolveTrustedSkillExecutionIds analysis evaluation =
     (if \<not> ev_satisfied evaluation then []
      else List.map_filter (\<lambda>(seg, by).
        if by = Some BySkills then
          (let execution = resolveExecutionTargetResolution (sg_resolution seg)
           in nonempty (normalizeExecutableToken (nullish (map_option er_executableName execution) (first_arg seg))))
        else if by \<noteq> Some ByAllowlist then None
        else resolveAllowlistedSkillWrapperId seg) (zip (an_segments analysis) (ev_satisfiedBy evaluation)))"

subsection \<open>A whole command line\<close>

record chain_evaluation =
  ce_analysis :: command_analysis
  ce_evaluation :: allowlist_evaluation
  ce_opToNext :: "chain_operator option"

text \<open>
  The loop from the last part to the first: which parts are admitted as a prelude, and the ids of the
  trusted skills that the parts after them reach.
\<close>

fun prelude_parts :: "host \<Rightarrow> string option \<Rightarrow> chain_evaluation list \<Rightarrow> bool list \<times> string list" where
  "prelude_parts host cwd [] = ([], [])"
| "prelude_parts host cwd (entry # entries) =
     (let (flags, reachable) = prelude_parts host cwd entries; analysis = ce_analysis entry; evaluation = ce_evaluation entry;
          trusted = resolveTrustedSkillExecutionIds analysis evaluation
      in if length trusted > 0 then (False # flags, reachable @ trusted)
         else
           let isPreludeOnly = (\<not> ev_satisfied evaluation \<and> isSkillPreludeOnlyEvaluation host (an_segments analysis) cwd);
               preludeIds = (if isPreludeOnly then resolveSkillPreludeIds host (an_segments analysis) cwd else []);
               reaches = (ce_opToNext entry = Some ChainAnd \<and>
                 (if preludeIds = [] then length reachable > 0 else list_ex (\<lambda>skillId. skillId \<in> set reachable) preludeIds))
           in if isPreludeOnly \<and> reaches then (True # flags, reachable) else (False # flags, []))"

record allowlist_analysis =
  aa_analysisOk :: bool
  aa_satisfied :: bool
  aa_matches :: "allowlist_entry list"
  aa_segments :: "command_segment list"
  aa_entries :: "allowlist_entry option list"
  aa_satisfiedBy :: "satisfied_by option list"

definition analysis_failure :: allowlist_analysis where
  "analysis_failure = \<lparr>aa_analysisOk = False, aa_satisfied = False, aa_matches = [], aa_segments = [], aa_entries = [], aa_satisfiedBy = []\<rparr>"

fun join_parts :: "(chain_evaluation \<times> bool) list \<Rightarrow> allowlist_analysis \<Rightarrow> allowlist_analysis" where
  "join_parts [] acc = acc\<lparr>aa_satisfied := True\<rparr>"
| "join_parts ((entry, prelude) # parts) acc =
     (let segs = an_segments (ce_analysis entry); evaluation = ce_evaluation entry;
          acc1 = \<lparr>aa_analysisOk = True, aa_satisfied = False, aa_matches = aa_matches acc @ ev_matches evaluation,
            aa_segments = aa_segments acc @ segs,
            aa_entries = aa_entries acc @ (if prelude then map (\<lambda>seg. None) segs else ev_entries evaluation),
            aa_satisfiedBy = aa_satisfiedBy acc @ (if prelude then map (\<lambda>seg. Some BySkillPrelude) segs else ev_satisfiedBy evaluation)\<rparr>
      in if \<not> ev_satisfied evaluation \<and> \<not> prelude then acc1 else join_parts parts acc1)"

fun evaluate_parts ::
  "(string \<Rightarrow> string + command_analysis) \<Rightarrow> (string + command_analysis \<Rightarrow> allowlist_evaluation) \<Rightarrow> chain_part list \<Rightarrow>
    chain_evaluation list option" where
  "evaluate_parts analyze evaluate [] = Some []"
| "evaluate_parts analyze evaluate ((part, opToNext) # parts) =
     (case analyze part of
        Inl reason \<Rightarrow> None
      | Inr analysis \<Rightarrow>
          map_option ((#) \<lparr>ce_analysis = analysis, ce_evaluation = evaluate (Inr analysis), ce_opToNext = opToNext\<rparr>)
            (evaluate_parts analyze evaluate parts))"

definition evaluateShellAllowlist :: "host \<Rightarrow> regex_engine \<Rightarrow> allowlist_context \<Rightarrow> string \<Rightarrow> allowlist_analysis" where
  "evaluateShellAllowlist host regex ctx command =
     (let analyze = analyzeShellCommandOn (ac_platform ctx) (resolveCommandResolutionFromArgv host (ac_cwd ctx) (ac_env ctx))
      in if hasShellLineContinuation command then analysis_failure
         else
           (case (if isWindowsPlatform (ac_platform ctx) then None else splitCommandChainWithOperators command) of
              None \<Rightarrow>
                (case analyze command of
                   Inl reason \<Rightarrow> analysis_failure
                 | Inr analysis \<Rightarrow>
                     (let evaluation = evaluateExecAllowlist host regex ctx (Inr analysis)
                      in \<lparr>aa_analysisOk = True, aa_satisfied = ev_satisfied evaluation, aa_matches = ev_matches evaluation,
                          aa_segments = an_segments analysis, aa_entries = ev_entries evaluation,
                          aa_satisfiedBy = ev_satisfiedBy evaluation\<rparr>))
            | Some chainParts \<Rightarrow>
                (case evaluate_parts analyze (evaluateExecAllowlist host regex ctx) chainParts of
                   None \<Rightarrow> analysis_failure
                 | Some entries \<Rightarrow>
                     join_parts (zip entries (fst (prelude_parts host (ac_cwd ctx) entries))) (analysis_failure\<lparr>aa_analysisOk := True\<rparr>))))"

end
