(* ===== verification/AllowlistProps.thy ===== *)
theory AllowlistProps
  imports AllowlistEval ShellSound
begin

section \<open>What the allowlist admits\<close>

text \<open>
  The evaluation of a command against a specification of the segments that are admitted, and what the
  shell runs when a command line is satisfied.
\<close>

subsection \<open>Admitted segments\<close>

definition policy_blocked :: "command_segment \<Rightarrow> bool" where
  "policy_blocked seg = (Option.bind (sg_resolution seg) cr_policyBlocked = Some True)"

abbreviation analyze_for :: "host \<Rightarrow> allowlist_context \<Rightarrow> string \<Rightarrow> string + command_analysis" where
  "analyze_for host ctx \<equiv> analyzeShellCommandOn (ac_platform ctx) (resolveCommandResolutionFromArgv host (ac_cwd ctx) (ac_env ctx))"

text \<open>A payload of a shell wrapper may stand for its wrapper, as many levels deep as are left.\<close>

inductive admitted :: "host \<Rightarrow> regex_engine \<Rightarrow> allowlist_context \<Rightarrow> nat \<Rightarrow> command_segment \<Rightarrow> bool"
  for host regex ctx where
  admit_entry: "\<not> policy_blocked seg \<Longrightarrow> sm_match (resolveSegmentAllowlistMatch host regex ctx seg) = Some entry \<Longrightarrow>
    admitted host regex ctx n seg"
| admit_safe_bin: "\<not> policy_blocked seg \<Longrightarrow>
    isSafeBinUsage host ctx (effective_argv seg) (resolveExecutionTargetResolution (sg_resolution seg)) \<Longrightarrow>
    admitted host regex ctx n seg"
| admit_skill: "\<not> policy_blocked seg \<Longrightarrow> skill_trust host ctx = (allowSkills, skillBinTrust) \<Longrightarrow>
    isSkillAutoAllowedSegment host seg allowSkills skillBinTrust \<Longrightarrow> admitted host regex ctx n seg"
| admit_chain: "\<not> policy_blocked seg \<Longrightarrow> sm_inlineCommand (resolveSegmentAllowlistMatch host regex ctx seg) = Some payload \<Longrightarrow>
    payload \<noteq> [] \<Longrightarrow> \<not> hasShellLineContinuation payload \<Longrightarrow> \<not> isWindowsPlatform (ac_platform ctx) \<Longrightarrow>
    splitCommandChain payload = Some parts \<Longrightarrow> 1 < length parts \<Longrightarrow>
    \<forall>part\<in>set parts. \<exists>analysis. analyze_for host ctx part = Inr analysis \<and>
      (\<forall>inner\<in>set (an_segments analysis). admitted host regex ctx n inner) \<Longrightarrow>
    admitted host regex ctx (Suc n) seg"
| admit_windows: "\<not> policy_blocked seg \<Longrightarrow> sm_inlineCommand (resolveSegmentAllowlistMatch host regex ctx seg) = Some payload \<Longrightarrow>
    payload \<noteq> [] \<Longrightarrow> \<not> hasShellLineContinuation payload \<Longrightarrow> isWindowsPlatform (ac_platform ctx) \<Longrightarrow>
    analyze_for host ctx payload = Inr analysis \<Longrightarrow> an_segments analysis \<noteq> [] \<Longrightarrow>
    \<forall>segs\<in>set (resolveAnalysisSegmentGroups analysis). \<forall>inner\<in>set segs. admitted host regex ctx n inner \<Longrightarrow>
    admitted host regex ctx (Suc n) seg"

lemma commands_evaluated:
  "evaluate_commands analyze evaluate parts \<noteq> None \<longleftrightarrow>
    (\<forall>part\<in>set parts. \<exists>analysis. analyze part = Inr analysis \<and> se_satisfied (evaluate (an_segments analysis)))"
  by (induction parts) (auto split: sum.splits simp: Let_def)

lemma groups_evaluated: "evaluate_groups evaluate grps \<noteq> None \<longleftrightarrow> (\<forall>segs\<in>set grps. se_satisfied (evaluate segs))"
  by (induction grps) (auto simp: Let_def)

lemma segments_satisfied:
  "se_satisfied (evaluate_segments host regex ctx inline segs) \<longleftrightarrow>
    (\<forall>seg\<in>set segs. \<not> policy_blocked seg \<and> fst (snd (evaluate_segment host regex ctx inline seg)) \<noteq> None)"
  by (induction segs) (auto simp: policy_blocked_def Let_def split: prod.splits)

lemma sm_effective [simp]: "sm_effectiveArgv (resolveSegmentAllowlistMatch host regex ctx seg) = effective_argv seg"
  by (simp add: resolveSegmentAllowlistMatch_def Let_def)

text \<open>What satisfies a segment itself.\<close>

definition self_admitted :: "host \<Rightarrow> regex_engine \<Rightarrow> allowlist_context \<Rightarrow> command_segment \<Rightarrow> bool" where
  "self_admitted host regex ctx seg =
     (sm_match (resolveSegmentAllowlistMatch host regex ctx seg) \<noteq> None
      \<or> isSafeBinUsage host ctx (effective_argv seg) (resolveExecutionTargetResolution (sg_resolution seg))
      \<or> isSkillAutoAllowedSegment host seg (fst (skill_trust host ctx)) (snd (skill_trust host ctx)))"

lemma segment_evaluated:
  "fst (snd (evaluate_segment host regex ctx inline seg)) \<noteq> None \<longleftrightarrow>
    self_admitted host regex ctx seg \<or>
    (\<exists>payload. sm_inlineCommand (resolveSegmentAllowlistMatch host regex ctx seg) = Some payload \<and> payload \<noteq> [] \<and> inline payload \<noteq> None)"
  by (auto simp: evaluate_segment_def self_admitted_def resolveSegmentSatisfaction_def truthy_def nonempty_def Let_def
      split: option.splits prod.splits if_splits bind_splits)

definition payload_admitted :: "host \<Rightarrow> allowlist_context \<Rightarrow> (command_segment \<Rightarrow> bool) \<Rightarrow> string \<Rightarrow> bool" where
  "payload_admitted host ctx ok payload =
     (\<not> hasShellLineContinuation payload \<and>
      (if isWindowsPlatform (ac_platform ctx) then
         (\<exists>analysis. analyze_for host ctx payload = Inr analysis \<and> an_segments analysis \<noteq> [] \<and>
            (\<forall>segs\<in>set (resolveAnalysisSegmentGroups analysis). \<forall>inner\<in>set segs. ok inner))
       else (\<exists>parts. splitCommandChain payload = Some parts \<and> 1 < length parts \<and>
            (\<forall>part\<in>set parts. \<exists>analysis. analyze_for host ctx part = Inr analysis \<and> (\<forall>inner\<in>set (an_segments analysis). ok inner)))))"

lemma fallback_evaluated:
  "inline_fallback host regex ctx (Suc n) payload \<noteq> None \<longleftrightarrow>
    payload_admitted host ctx (\<lambda>seg. \<not> policy_blocked seg \<and>
      fst (snd (evaluate_segment host regex ctx (inline_fallback host regex ctx n) seg)) \<noteq> None) payload"
proof -
  let ?evaluate = "evaluate_segments host regex ctx (inline_fallback host regex ctx n)"
  have commands: "evaluate_commands (analyze_for host ctx) ?evaluate parts = None \<longleftrightarrow>
      \<not> (\<forall>part\<in>set parts. \<exists>analysis. analyze_for host ctx part = Inr analysis \<and> se_satisfied (?evaluate (an_segments analysis)))" for parts
    using commands_evaluated [of "analyze_for host ctx" ?evaluate parts] by blast
  have grps: "evaluate_groups ?evaluate grps = None \<longleftrightarrow> \<not> (\<forall>segs\<in>set grps. se_satisfied (?evaluate segs))" for grps
    using groups_evaluated [of ?evaluate grps] by blast
  show ?thesis unfolding payload_admitted_def segments_satisfied [symmetric]
    by (cases "splitCommandChain payload"; cases "analyze_for host ctx payload")
      (simp_all add: Let_def commands grps not_le del: not_None_eq)
qed

lemma self_admitted_admitted:
  "\<not> policy_blocked seg \<Longrightarrow> self_admitted host regex ctx seg \<Longrightarrow> admitted host regex ctx n seg"
  unfolding self_admitted_def using admit_entry admit_safe_bin admit_skill by (metis option.exhaust prod.collapse)

lemma admitted_0: "admitted host regex ctx 0 seg \<longleftrightarrow> \<not> policy_blocked seg \<and> self_admitted host regex ctx seg"
proof
  assume "admitted host regex ctx 0 seg"
  then show "\<not> policy_blocked seg \<and> self_admitted host regex ctx seg" by cases (simp_all add: self_admitted_def)
qed (simp add: self_admitted_admitted)

lemma admitted_payload:
  "admitted host regex ctx (Suc n) seg \<longleftrightarrow> \<not> policy_blocked seg \<and>
    (self_admitted host regex ctx seg \<or>
     (\<exists>payload. sm_inlineCommand (resolveSegmentAllowlistMatch host regex ctx seg) = Some payload \<and> payload \<noteq> [] \<and>
        payload_admitted host ctx (admitted host regex ctx n) payload))"
  (is "?l = ?r")
proof
  assume ?l
  then show ?r
  proof cases
    case (admit_chain payload parts)
    then have "payload_admitted host ctx (admitted host regex ctx n) payload" by (simp add: payload_admitted_def)
    then show ?thesis using admit_chain(1-3) by blast
  next
    case (admit_windows payload analysis)
    then have "payload_admitted host ctx (admitted host regex ctx n) payload" by (simp add: payload_admitted_def)
    then show ?thesis using admit_windows(1-3) by blast
  qed (simp_all add: self_admitted_def)
next
  assume r: ?r
  show ?l
  proof (cases "self_admitted host regex ctx seg")
    case True
    then show ?thesis using r self_admitted_admitted by blast
  next
    case False
    then obtain payload where p: "sm_inlineCommand (resolveSegmentAllowlistMatch host regex ctx seg) = Some payload" "payload \<noteq> []"
      "payload_admitted host ctx (admitted host regex ctx n) payload" using r by blast
    then have cont: "\<not> hasShellLineContinuation payload" by (simp add: payload_admitted_def)
    show ?thesis
    proof (cases "isWindowsPlatform (ac_platform ctx)")
      case True
      with p(3) obtain analysis where "analyze_for host ctx payload = Inr analysis" "an_segments analysis \<noteq> []"
        "\<forall>segs\<in>set (resolveAnalysisSegmentGroups analysis). \<forall>inner\<in>set segs. admitted host regex ctx n inner"
        by (auto simp: payload_admitted_def)
      then show ?thesis using admit_windows [OF _ p(1,2) cont True] r by blast
    next
      case False
      with p(3) obtain parts where "splitCommandChain payload = Some parts" "1 < length parts"
        "\<forall>part\<in>set parts. \<exists>analysis. analyze_for host ctx part = Inr analysis \<and>
          (\<forall>inner\<in>set (an_segments analysis). admitted host regex ctx n inner)"
        by (auto simp: payload_admitted_def)
      then show ?thesis using admit_chain [OF _ p(1,2) cont False] r by blast
    qed
  qed
qed

lemma admitted_evaluated:
  "admitted host regex ctx n seg \<longleftrightarrow>
    \<not> policy_blocked seg \<and> fst (snd (evaluate_segment host regex ctx (inline_fallback host regex ctx n) seg)) \<noteq> None"
proof (induction n arbitrary: seg)
  case 0
  show ?case unfolding admitted_0 segment_evaluated by simp
next
  case (Suc n)
  have "inline_fallback host regex ctx (Suc n) payload \<noteq> None \<longleftrightarrow> payload_admitted host ctx (admitted host regex ctx n) payload" for payload
    unfolding fallback_evaluated Suc.IH [symmetric] ..
  then show ?case unfolding admitted_payload segment_evaluated by blast
qed

subsection \<open>Evaluations\<close>

abbreviation levels :: nat where "levels \<equiv> MAX_SHELL_WRAPPER_INLINE_EVAL_DEPTH - 1"

lemma evaluateSegments_satisfied:
  "se_satisfied (evaluateSegments host regex ctx segs) \<longleftrightarrow> list_all (admitted host regex ctx levels) segs"
  unfolding evaluateSegments_def segments_satisfied by (simp only: admitted_evaluated [symmetric] list_all_iff)


lemma evaluate_chains_satisfied:
  "ev_satisfied (evaluate_chains evaluate hasChains grps acc) \<longleftrightarrow> list_all (\<lambda>segs. se_satisfied (evaluate segs)) grps"
  by (induction grps arbitrary: acc) (auto simp: Let_def no_evaluation_def)


text \<open>C22: the evaluation of an analysed command implements the specification: it is satisfied exactly when
  there is something to run and every segment of every chain is admitted by an entry, a safe bin, a
  trusted skill or its own payload, at most two levels deep. A segment whose policy is blocked is
  never admitted.\<close>

theorem evaluation_refines_admission:
  "ev_satisfied (evaluateExecAllowlist host regex ctx (Inr analysis)) \<longleftrightarrow>
    an_segments analysis \<noteq> [] \<and> list_all (list_all (admitted host regex ctx 2)) (resolveAnalysisSegmentGroups analysis)"
  by (auto simp: evaluateExecAllowlist_def no_evaluation_def evaluate_chains_satisfied evaluateSegments_satisfied
      MAX_SHELL_WRAPPER_INLINE_EVAL_DEPTH_def numeral_2_eq_2 list_all_iff)

subsection \<open>Command lines\<close>












text \<open>A machine with executables in one directory, and a context with three entries and one safe bin.\<close>

definition sample_host :: host where
  "sample_host = \<lparr>ho_platform = ''linux'', ho_cwd = ''/home/u'', ho_env = (\<lambda>name. if name = ''PATH'' then Some ''/usr/bin'' else None),
     ho_homedir = None, ho_stat = (\<lambda>p. if starts_with p ''/usr/bin/'' then Some \<lparr>st_isFile = True, st_dev = 1, st_ino = length p\<rparr> else None),
     ho_accessX = (\<lambda>p. True), ho_realpath = Some\<rparr>"

definition sample_entry :: "string \<Rightarrow> string option \<Rightarrow> allowlist_entry" where
  "sample_entry pattern argPattern = \<lparr>le_id = None, le_pattern = pattern, le_source = None, le_commandText = None,
     le_argPattern = argPattern, le_lastUsedAt = None, le_lastUsedCommand = None, le_lastResolvedPath = None\<rparr>"

definition sample_profile :: safe_bin_profile where
  "sample_profile = \<lparr>sp_minPositional = None, sp_maxPositional = Some (jn_of_int 0), sp_allowedValueFlags = Some [''-n''],
     sp_deniedFlags = Some [], sp_knownLongFlags = Some [], sp_knownLongFlagsSet = Some [], sp_longFlagPrefixMap = Some []\<rparr>"

definition sample_ctx :: allowlist_context where
  "sample_ctx = \<lparr>ac_allowlist = [sample_entry ''/usr/*/ls'' None, sample_entry ''wc'' None, sample_entry ''/usr/bin/bash'' (Some ''-c id'')],
     ac_safeBins = [''head''],
     ac_safeBinProfiles = Some [(''head'', sample_profile)],
     ac_cwd = None, ac_env = None, ac_platform = Some ''linux'', ac_trustedSafeBinDirs = Some [''/usr/bin''],
     ac_skillBins = None, ac_autoAllowSkills = None\<rparr>"

text \<open>A regular expression without operators that has to cover the whole text.\<close>

definition sample_regex :: regex_engine where
  "sample_regex p = Some (\<lambda>s. s = p)"


subsection \<open>Payloads of shells\<close>

lemma bound_match:
  assumes "matchExecutableAllowlistForSegment host regex ctx candidate argv (Some payload) isShell carrier True = Some entry"
  shows "entry \<in> set (ac_allowlist ctx) \<and> (bound_arg_pattern (Some entry) \<or> js_trim (le_pattern entry) = ''*'')"
proof -
  have "matchAllowlist host regex (ac_allowlist ctx) candidate (Some argv) (ac_platform ctx) = Some entry"
    "bound_arg_pattern (Some entry) \<or> js_trim (le_pattern entry) = ''*''"
    using assms by (auto simp: matchExecutableAllowlistForSegment_def Let_def split: if_splits option.splits)
  then show ?thesis using matchAllowlist_sound by (cases candidate) auto
qed

text \<open>C25: an entry for a shell does not admit what the shell is given to run. When a segment that runs a
  shell wrapper with a payload is matched, and the policy looks at the program that is executed, the entry constrains the arguments by a pattern, or it is
  the bare wildcard, or the payload only carries a program in its positional arguments and the entry
  names that program.\<close>

theorem payload_needs_bound_entry:
  assumes "sm_match (resolveSegmentAllowlistMatch host regex ctx seg) = Some entry"
    and "sm_inlineCommand (resolveSegmentAllowlistMatch host regex ctx seg) = Some payload"
    and "executableResolutionsReferToSameTarget (resolvePolicyTargetResolution (sg_resolution seg))
      (resolveExecutionTargetResolution (sg_resolution seg))"
  shows "entry \<in> set (ac_allowlist ctx) \<and>
    (bound_arg_pattern (Some entry) \<or> js_trim (le_pattern entry) = ''*'' \<or>
     (\<exists>p. resolveShellWrapperPositionalArgvCandidatePath host (seg\<lparr>sg_argv := effective_argv seg\<rparr>) (ac_cwd ctx) (ac_env ctx) = Some p \<and>
       entry_admits host regex (path_resolution p) None (ac_platform ctx) entry))"
proof -
  let ?allow = "seg\<lparr>sg_argv := effective_argv seg\<rparr>"
  let ?inline = "extractBindableShellWrapperInlineCommand (ho_platform host) (effective_argv seg) None"
  let ?path = "resolveShellWrapperPositionalArgvCandidatePath host ?allow (ac_cwd ctx) (ac_env ctx)"
  have inline: "?inline = Some payload" "resolvePowerShellFileScriptArgv host ?allow (ac_cwd ctx) = None"
    using assms(2) by (auto simp: resolveSegmentAllowlistMatch_def Let_def split: if_splits)
  have "(\<exists>candidate isShell carrier. matchExecutableAllowlistForSegment host regex ctx candidate (effective_argv seg) (Some payload)
        isShell carrier True = Some entry) \<or>
      (\<exists>p. ?path = Some p \<and> matchAllowlist host regex (ac_allowlist ctx) (Some (path_resolution p)) None (ac_platform ctx) = Some entry)"
    using assms(1,3) inline
    by (auto simp: resolveSegmentAllowlistMatch_def Let_def truthy_def nonempty_def nullish_opt_def split: option.splits if_splits bind_splits)
  then show ?thesis
  proof (elim disjE exE conjE)
    fix candidate isShell carrier
    assume "matchExecutableAllowlistForSegment host regex ctx candidate (effective_argv seg) (Some payload) isShell carrier True = Some entry"
    then show ?thesis using bound_match by blast
  next
    fix p
    assume "?path = Some p" "matchAllowlist host regex (ac_allowlist ctx) (Some (path_resolution p)) None (ac_platform ctx) = Some entry"
    then show ?thesis using matchAllowlist_sound by blast
  qed
qed

theorem payload_needs_bound_entry_witness:
  "\<exists>seg entry. sm_match (resolveSegmentAllowlistMatch sample_host sample_regex sample_ctx seg) = Some entry \<and>
    sm_inlineCommand (resolveSegmentAllowlistMatch sample_host sample_regex sample_ctx seg) = Some ''id'' \<and>
    entry \<in> set (ac_allowlist sample_ctx)"
proof -
  let ?argv = "[''bash'', ''-c'', ''id'']"
  let ?seg = "\<lparr>sg_raw = ''bash -c id'', sg_argv = ?argv, sg_sourceArgv = None,
    sg_resolution = resolveCommandResolutionFromArgv sample_host None None ?argv\<rparr>"
  let ?entry = "sample_entry ''/usr/bin/bash'' (Some ''-c id'')"
  have "sm_match (resolveSegmentAllowlistMatch sample_host sample_regex sample_ctx ?seg) = Some ?entry" by code_simp
  moreover have "sm_inlineCommand (resolveSegmentAllowlistMatch sample_host sample_regex sample_ctx ?seg) = Some ''id''" by code_simp
  moreover have "executableResolutionsReferToSameTarget (resolvePolicyTargetResolution (sg_resolution ?seg))
      (resolveExecutionTargetResolution (sg_resolution ?seg))" by code_simp
  ultimately show ?thesis using payload_needs_bound_entry [of sample_host sample_regex sample_ctx ?seg ?entry "''id''"] by blast
qed

subsection \<open>Safe bins\<close>

text \<open>
  A plain word: the shell expands nothing in it, and it does not begin as a path that is absolute, in a
  home directory, on a drive or relative to \<open>.\<close> or \<open>..\<close>. A word like \<open>dir/file\<close> is plain.
\<close>

definition substitutes :: "char \<Rightarrow> bool" where
  "substitutes c = (ascii_letter c \<or> ascii_digit c \<or> c \<in> set ''_@*?!$#-{(['')"

definition expands :: "string \<Rightarrow> bool" where
  "expands v = (\<exists>before c after. v = before @ CHR ''$'' # c # after \<and> substitutes c)"

definition rooted :: "string \<Rightarrow> bool" where
  "rooted v =
     ((\<exists>root rest. js_trim v = root @ rest \<and> root \<in> {''/'', ''~'', ''./'', ''../''}) \<or>
      (\<exists>drive sep rest. js_trim v = drive # CHR '':'' # sep # rest \<and> ascii_letter drive \<and> (sep = bslash \<or> sep = CHR ''/'')))"

definition plain_word :: "string \<Rightarrow> bool" where
  "plain_word v = (set v \<inter> set ''*?[]'' = {} \<and> \<not> expands v \<and> \<not> rooted v)"

text \<open>The flag of a profile a long option stands for: itself or the one it abbreviates.\<close>

definition profile_known :: "safe_bin_profile \<Rightarrow> string list" where
  "profile_known profile =
     nullish (sp_knownLongFlags profile)
       (collectKnownLongFlags (nullish (sp_allowedValueFlags profile) []) (nullish (sp_deniedFlags profile) []))"

definition stands_for :: "safe_bin_profile \<Rightarrow> string \<Rightarrow> string \<Rightarrow> bool" where
  "stands_for profile a flag =
     (\<exists>name. name \<noteq> [] \<and> a = ''--'' @ name \<and>
        (if a \<in> set (nullish (sp_knownLongFlagsSet profile) (profile_known profile)) then flag = a
         else map_get (nullish (sp_longFlagPrefixMap profile) (buildLongFlagPrefixMap (profile_known profile))) a = Some (Some flag)))"

definition takes_value :: "safe_bin_profile \<Rightarrow> string set" where
  "takes_value profile = set (nullish (sp_allowedValueFlags profile) [])"

definition denied_flags :: "safe_bin_profile \<Rightarrow> string set" where
  "denied_flags profile = set (nullish (sp_deniedFlags profile) [])"

text \<open>
  The arguments a safe bin may be given, by the flags that take a value, the flags that are denied and
  the flags a long option stands for. The second list has the operands. A short option needs a flag that
  takes a value at its end: the code admits no group of switches alone.
\<close>

inductive safe_arguments ::
  "string set \<Rightarrow> string set \<Rightarrow> (string \<Rightarrow> string \<Rightarrow> bool) \<Rightarrow> string list \<Rightarrow> string list \<Rightarrow> bool"
  for takes denied names where
  no_argument: "safe_arguments takes denied names [] []"
| stdin_argument: "a = [] \<or> a = ''-'' \<Longrightarrow> safe_arguments takes denied names args words \<Longrightarrow>
    safe_arguments takes denied names (a # args) words"
| operand: "a \<noteq> [] \<Longrightarrow> \<not> starts_with a ''-'' \<Longrightarrow> plain_word a \<Longrightarrow> safe_arguments takes denied names args words \<Longrightarrow>
    safe_arguments takes denied names (a # args) (a # words)"
| operands_only: "list_all plain_word args \<Longrightarrow>
    safe_arguments takes denied names (''--'' # args) (filter (\<lambda>a. a \<noteq> [] \<and> a \<noteq> ''-'') args)"
| long_switch: "CHR ''='' \<notin> set a \<Longrightarrow> names a flag \<Longrightarrow> flag \<notin> denied \<Longrightarrow> flag \<notin> takes \<Longrightarrow>
    safe_arguments takes denied names args words \<Longrightarrow> safe_arguments takes denied names (a # args) words"
| long_attached: "CHR ''='' \<notin> set a \<Longrightarrow> names a flag \<Longrightarrow> flag \<notin> denied \<Longrightarrow> flag \<in> takes \<Longrightarrow> plain_word v \<Longrightarrow>
    safe_arguments takes denied names args words \<Longrightarrow> safe_arguments takes denied names ((a @ ''='' @ v) # args) words"
| long_value: "CHR ''='' \<notin> set a \<Longrightarrow> names a flag \<Longrightarrow> flag \<notin> denied \<Longrightarrow> flag \<in> takes \<Longrightarrow> plain_word v \<Longrightarrow> v \<noteq> [] \<Longrightarrow>
    safe_arguments takes denied names args words \<Longrightarrow> safe_arguments takes denied names (a # v # args) words"
| short_attached: "\<forall>c\<in>set cs. [CHR ''-'', c] \<notin> denied \<and> [CHR ''-'', c] \<notin> takes \<Longrightarrow> [CHR ''-'', c] \<notin> denied \<Longrightarrow>
    [CHR ''-'', c] \<in> takes \<Longrightarrow> plain_word v \<Longrightarrow> v \<noteq> [] \<Longrightarrow> safe_arguments takes denied names args words \<Longrightarrow>
    safe_arguments takes denied names ((''-'' @ cs @ [c] @ v) # args) words"
| short_value: "\<forall>c\<in>set cs. [CHR ''-'', c] \<notin> denied \<and> [CHR ''-'', c] \<notin> takes \<Longrightarrow> [CHR ''-'', c] \<notin> denied \<Longrightarrow>
    [CHR ''-'', c] \<in> takes \<Longrightarrow> plain_word v \<Longrightarrow> v \<noteq> [] \<Longrightarrow> safe_arguments takes denied names args words \<Longrightarrow>
    safe_arguments takes denied names ((''-'' @ cs @ [c]) # v # args) words"

lemma expansion_step: "hasShellExpansionToken (a # b # s) = (a = CHR ''$'' \<and> substitutes b \<or> hasShellExpansionToken (b # s))"
  by (simp only: hasShellExpansionToken.simps substitutes_def)

lemma expands_step: "expands (a # b # s) = (a = CHR ''$'' \<and> substitutes b \<or> expands (b # s))"
proof
  assume "expands (a # b # s)"
  then obtain before c after where c: "a # b # s = before @ CHR ''$'' # c # after" "substitutes c" unfolding expands_def by blast
  show "a = CHR ''$'' \<and> substitutes b \<or> expands (b # s)"
  proof (cases before)
    case (Cons x before1)
    then have "b # s = before1 @ CHR ''$'' # c # after" using c by simp
    then show ?thesis using c(2) unfolding expands_def by blast
  qed (use c in auto)
next
  assume "a = CHR ''$'' \<and> substitutes b \<or> expands (b # s)"
  then consider "a # b # s = [] @ CHR ''$'' # b # s" "substitutes b"
    | before c after where "a # b # s = (a # before) @ CHR ''$'' # c # after" "substitutes c"
    unfolding expands_def by auto
  then show "expands (a # b # s)" unfolding expands_def by cases blast+
qed

lemma expands_found: "hasShellExpansionToken v = expands v"
proof (induction v)
  case (Cons a v)
  then show ?case
    by (cases v) (simp_all add: expansion_step expands_step del: hasShellExpansionToken.simps(1), simp add: expands_def Cons_eq_append_conv)
qed (simp add: expands_def)

lemma begins: "starts_with s p \<longleftrightarrow> (\<exists>rest. s = p @ rest)"
  unfolding starts_with_def by (metis append_take_drop_id append_eq_conv_conj)

lemma drive_found:
  "drive_prefix t \<and> length t > 2 \<and> (t ! 2 = bslash \<or> t ! 2 = CHR ''/'') \<longleftrightarrow>
    (\<exists>drive sep rest. t = drive # CHR '':'' # sep # rest \<and> ascii_letter drive \<and> (sep = bslash \<or> sep = CHR ''/''))"
  by (cases t; cases "tl t"; cases "tl (tl t)") (auto simp: drive_prefix_def)

lemma rooted_found: "isPathLikeToken v = rooted v"
proof -
  have "js_trim v = [] \<or> js_trim v = ''-'' \<Longrightarrow> \<not> rooted v" by (auto simp: rooted_def Cons_eq_append_conv)
  moreover have "(\<exists>root rest. js_trim v = root @ rest \<and> root \<in> {''/'', ''~'', ''./'', ''../''}) \<longleftrightarrow>
    starts_with (js_trim v) ''./'' \<or> starts_with (js_trim v) ''../'' \<or> starts_with (js_trim v) ''~'' \<or> starts_with (js_trim v) ''/''"
    unfolding begins by blast
  ultimately show ?thesis
    unfolding isPathLikeToken_def Let_def drive_found by (auto simp: rooted_def)
qed

lemma globs_found: "hasGlobToken v \<longleftrightarrow> set v \<inter> set ''*?[]'' \<noteq> {}"
  by (auto simp: hasGlobToken_def list_ex_iff)

lemma literal_plain: "isSafeLiteralToken v = plain_word v"
proof -
  have "isSafeLiteralToken v \<longleftrightarrow> \<not> hasGlobToken v \<and> \<not> hasShellExpansionToken v \<and> \<not> isPathLikeToken v"
  proof -
    have "\<not> hasGlobToken v \<and> \<not> hasShellExpansionToken v \<and> \<not> isPathLikeToken v" if "v = [] \<or> v = ''-''"
      using that by (elim disjE) (simp only:, code_simp)+
    then show ?thesis unfolding isSafeLiteralToken_def by blast
  qed
  then show ?thesis unfolding plain_word_def expands_found rooted_found globs_found by blast
qed

lemma plain_nothing: "plain_word []" "plain_word ''-''"
  by (simp_all add: literal_plain [symmetric] isSafeLiteralToken_def)

lemma taken_value: "take_value rest = Some r \<Longrightarrow> \<exists>v. rest = v # r \<and> plain_word v \<and> v \<noteq> []"
  by (cases rest) (auto simp: take_value_def isInvalidValueToken_def literal_plain split: if_splits)

lemma rest_operands:
  "rest_positional args positional = Some ps \<Longrightarrow>
    list_all plain_word args \<and> ps = positional @ filter (\<lambda>a. a \<noteq> [] \<and> a \<noteq> ''-'') args"
proof (induction args arbitrary: positional)
  case (Cons r args)
  show ?case using Cons.prems Cons.IH [of positional] Cons.IH [of "positional @ [r]"] plain_nothing
    by (cases "r = [] \<or> r = ''-''") (auto simp: literal_plain split: if_splits)
qed simp

lemma long_consumed:
  assumes "consumeLongOptionToken rest flag inline allowed denied known prefixMap = Some r"
    and "safe_arguments (set allowed) (set denied) (\<lambda>f flag. resolveCanonicalLongFlag f known prefixMap = Some flag) r words"
    and "CHR ''='' \<notin> set flag"
  shows "safe_arguments (set allowed) (set denied) (\<lambda>f flag. resolveCanonicalLongFlag f known prefixMap = Some flag)
    ((case inline of None \<Rightarrow> flag | Some v \<Rightarrow> flag @ ''='' @ v) # rest) words"
proof -
  obtain c where c: "resolveCanonicalLongFlag flag known prefixMap = Some c" "c \<notin> set denied"
    using assms(1) by (auto simp: consumeLongOptionToken_def split: option.splits if_splits)
  show ?thesis
  proof (cases inline)
    case (Some v)
    then have "c \<in> set allowed" "plain_word v" "rest = r"
      using assms(1) c by (auto simp: consumeLongOptionToken_def literal_plain split: if_splits)
    then show ?thesis using long_attached [of flag "(\<lambda>f flag. resolveCanonicalLongFlag f known prefixMap = Some flag)" c "set denied" "set allowed" v r words, OF assms(3) c(1) c(2)] assms(2) Some by simp
  next
    case None
    show ?thesis
    proof (cases "c \<in> set allowed")
      case True
      then have "take_value rest = Some r" using assms(1) c None by (auto simp: consumeLongOptionToken_def split: if_splits)
      then obtain v where "rest = v # r" "plain_word v" "v \<noteq> []" using taken_value by blast
      then show ?thesis using long_value [of flag "(\<lambda>f flag. resolveCanonicalLongFlag f known prefixMap = Some flag)" c "set denied" "set allowed" v r words, OF assms(3) c(1) c(2) True] assms(2) None by simp
    next
      case False
      then have "rest = r" using assms(1) c None by (auto simp: consumeLongOptionToken_def split: if_splits)
      then show ?thesis using long_switch [of flag "(\<lambda>f flag. resolveCanonicalLongFlag f known prefixMap = Some flag)" c "set denied" "set allowed" r words, OF assms(3) c(1) c(2) False] assms(2) None by simp
    qed
  qed
qed

lemma cluster_consumed:
  "consumeShortOptionClusterToken rest cluster allowed denied = Some r \<Longrightarrow>
    \<exists>cs c v. cluster = cs @ c # v \<and> (\<forall>x\<in>set cs. [CHR ''-'', x] \<notin> set denied \<and> [CHR ''-'', x] \<notin> set allowed) \<and>
      [CHR ''-'', c] \<notin> set denied \<and> [CHR ''-'', c] \<in> set allowed \<and>
      (if v = [] then take_value rest = Some r else plain_word v \<and> rest = r)"
proof (induction rest cluster allowed denied rule: consumeShortOptionClusterToken.induct)
  case (2 rest c cluster allowed denied)
  have "[CHR ''-'', c] \<notin> set denied" using 2(2) by (auto simp: Let_def split: if_splits)
  show ?case
  proof (cases "[CHR ''-'', c] \<in> set allowed")
    case True
    then show ?thesis using 2(2) by (intro exI [of _ "[]"] exI [of _ c] exI [of _ cluster])
        (auto simp: Let_def literal_plain split: if_splits)
  next
    case False
    then obtain cs d v where d: "cluster = cs @ d # v" "\<forall>x\<in>set cs. [CHR ''-'', x] \<notin> set denied \<and> [CHR ''-'', x] \<notin> set allowed"
      "[CHR ''-'', d] \<notin> set denied" "[CHR ''-'', d] \<in> set allowed"
      "if v = [] then take_value rest = Some r else plain_word v \<and> rest = r"
      using 2 by (auto simp: Let_def split: if_splits)
    then show ?thesis using False \<open>[CHR ''-'', c] \<notin> set denied\<close>
      by (intro exI [of _ "c # cs"] exI [of _ d] exI [of _ v]) auto
  qed
qed simp

lemma cluster_safe:
  assumes "consumeShortOptionClusterToken rest cluster allowed denied = Some r"
    and "safe_arguments (set allowed) (set denied) names r words"
  shows "safe_arguments (set allowed) (set denied) names ((CHR ''-'' # cluster) # rest) words"
proof -
  obtain cs c v where c: "cluster = cs @ c # v" "\<forall>x\<in>set cs. [CHR ''-'', x] \<notin> set denied \<and> [CHR ''-'', x] \<notin> set allowed"
    "[CHR ''-'', c] \<notin> set denied" "[CHR ''-'', c] \<in> set allowed"
    "if v = [] then take_value rest = Some r else plain_word v \<and> rest = r"
    using cluster_consumed [OF assms(1)] by blast
  show ?thesis
  proof (cases "v = []")
    case True
    then obtain w where "rest = w # r" "plain_word w" "w \<noteq> []" using c(5) taken_value by auto
    then show ?thesis using short_value [OF c(2-4) _ _ assms(2)] c(1) True by simp
  next
    case False
    then show ?thesis using short_attached [OF c(2-4) _ False assms(2)] c(1,5) by simp
  qed
qed

lemma parsed_long:
  assumes "parseExecArgvToken raw = ArgLong flag inline"
  shows "CHR ''='' \<notin> set flag \<and> raw = (case inline of None \<Rightarrow> flag | Some v \<Rightarrow> flag @ ''='' @ v)"
proof (cases "has_equals raw")
  case True
  let ?name = "takeWhile (\<lambda>c. c \<noteq> CHR ''='') raw"
  have "raw = ?name @ dropWhile (\<lambda>c. c \<noteq> CHR ''='') raw" by simp
  moreover have "dropWhile (\<lambda>c. c \<noteq> CHR ''='') raw \<noteq> []" "hd (dropWhile (\<lambda>c. c \<noteq> CHR ''='') raw) = CHR ''=''"
    using True hd_dropWhile [of "\<lambda>c. c \<noteq> CHR ''=''" raw] by (auto simp: has_equals_def dropWhile_eq_Nil_conv)
  then obtain t where "dropWhile (\<lambda>c. c \<noteq> CHR ''='') raw = CHR ''='' # t" by (cases "dropWhile (\<lambda>c. c \<noteq> CHR ''='') raw") auto
  ultimately have raw: "raw = ?name @ CHR ''='' # t" by simp
  then have "drop (Suc (length ?name)) raw = t"
    by (metis append_eq_conv_conj drop_Suc_Cons drop_drop add.commute plus_1_eq_Suc drop0 length_append_singleton append.assoc append_Cons append_Nil)
  then show ?thesis using assms True raw
    by (auto simp: parseExecArgvToken_def optionName_def dest: set_takeWhileD split: if_splits)
next
  case False
  then show ?thesis using assms by (auto simp: parseExecArgvToken_def has_equals_def split: if_splits)
qed

lemma positional_safe:
  "positional_loop allowed denied known prefixMap args positional = Some ps \<Longrightarrow>
    \<exists>words. ps = positional @ words \<and>
      safe_arguments (set allowed) (set denied) (\<lambda>f flag. resolveCanonicalLongFlag f known prefixMap = Some flag) args words"
proof (induction allowed denied known prefixMap args positional rule: positional_loop.induct)
  case (1 allowed denied known prefixMap positional)
  then show ?case by (auto intro: no_argument)
next
  case (2 allowed denied known prefixMap raw rest positional)
  note prems = 2(6)
  show ?case
  proof (cases "parseExecArgvToken raw")
    case ArgEmpty
    then have "raw = []" by (auto simp: parseExecArgvToken_def split: if_splits)
    then show ?thesis using 2(1) [OF ArgEmpty] prems ArgEmpty stdin_argument by auto
  next
    case ArgStdin
    then have "raw = ''-''" by (auto simp: parseExecArgvToken_def split: if_splits)
    then show ?thesis using 2(2) [OF ArgStdin] prems ArgStdin stdin_argument by auto
  next
    case ArgTerminator
    then have "raw = ''--''" by (auto simp: parseExecArgvToken_def split: if_splits)
    then show ?thesis using rest_operands [of rest positional ps] prems ArgTerminator operands_only by auto
  next
    case (ArgPositional w)
    then have w: "raw = w" "w \<noteq> []" "\<not> starts_with w ''-''" by (auto simp: parseExecArgvToken_def split: if_splits)
    then show ?thesis using 2(3) [OF ArgPositional] prems ArgPositional operand by (fastforce simp: literal_plain split: if_splits)
  next
    case (ArgLong flag v)
    then obtain r where r: "consumeLongOptionToken rest flag v allowed denied known prefixMap = Some r"
      "positional_loop allowed denied known prefixMap r positional = Some ps"
      using prems by (auto split: option.splits)
    then show ?thesis using 2(4) [OF ArgLong r(1) r(2)] long_consumed [OF r(1)] parsed_long [OF ArgLong] by auto
  next
    case (ArgCluster cluster flags)
    then have raw: "raw = CHR ''-'' # cluster"
      by (cases raw) (auto simp: parseExecArgvToken_def starts_with_def split: if_splits)
    obtain r where r: "consumeShortOptionClusterToken rest cluster allowed denied = Some r"
      "positional_loop allowed denied known prefixMap r positional = Some ps"
      using ArgCluster prems by (auto split: option.splits)
    then show ?thesis using 2(5) [OF ArgCluster r(1) r(2)] cluster_safe [OF r(1)] raw by auto
  qed
qed

lemma resolved_stands_for:
  "resolveCanonicalLongFlag a (nullish (sp_knownLongFlagsSet profile) (profile_known profile))
     (nullish (sp_longFlagPrefixMap profile) (buildLongFlagPrefixMap (profile_known profile))) = Some flag \<longleftrightarrow> stands_for profile a flag"
proof -
  have "(starts_with a ''--'' \<and> \<not> length a \<le> 2) = (\<exists>name. name \<noteq> [] \<and> a = ''--'' @ name)"
    unfolding begins by auto
  then show ?thesis
    unfolding resolveCanonicalLongFlag_def stands_for_def by (auto split: if_splits bind_splits)
qed

lemma collected_safe:
  "collectPositionalTokens args profile = Some ps \<Longrightarrow>
    safe_arguments (takes_value profile) (denied_flags profile) (stands_for profile) args ps"
  unfolding collectPositionalTokens_def Let_def takes_value_def denied_flags_def profile_known_def [symmetric]
  using positional_safe [of _ _ "nullish (sp_knownLongFlagsSet profile) (profile_known profile)"
      "nullish (sp_longFlagPrefixMap profile) (buildLongFlagPrefixMap (profile_known profile))" args "[]" ps]
  unfolding resolved_stands_for by auto

text \<open>C26: a safe bin keeps to its standard input. A program that is admitted as a safe bin is one of the
  configured names, no stream editor, and stands in a trusted directory, on a host that is not Windows. Its
  arguments are those its profile allows: no denied flag, alone, in a group, abbreviated or with a value, and
  no more and no fewer operands than it says. Each operand and each value of an option, attached or in the next
  argument, is a plain word: the shell expands nothing in it, and it does not begin as a path that is absolute,
  in a home directory, on a drive or relative to \<open>.\<close> or \<open>..\<close>.\<close>

theorem safe_bin_arguments_literal:
  assumes "isSafeBinUsage host ctx argv (Some res)"
  shows "\<exists>path name profile words.
      er_resolvedPath res = Some path \<and> isTrustedSafeBinPath host path (ac_trustedSafeBinDirs ctx) \<and>
      normalizeOptionalLowercaseString (Some (er_executableName res)) = Some name \<and> name \<in> set (ac_safeBins ctx) \<and>
      normalizeSafeBinName name \<notin> set [''awk'', ''gawk'', ''mawk'', ''nawk'', ''sed'', ''gsed''] \<and>
      \<not> isWindowsPlatform (Some (nullish (ac_platform ctx) (ho_platform host))) \<and>
      map_get (nullish (ac_safeBinProfiles ctx) SAFE_BIN_PROFILES) name = Some profile \<and>
      safe_arguments (takes_value profile) (denied_flags profile) (stands_for profile) (drop 1 argv) words \<and>
      (\<forall>n. sp_minPositional profile = Some n \<longrightarrow> \<not> js_less (jn_of_int (int (length words))) n) \<and>
      (\<forall>n. sp_maxPositional profile = Some n \<longrightarrow> \<not> js_less n (jn_of_int (int (length words))))"
proof -
  obtain path name profile where p: "er_resolvedPath res = Some path" "isTrustedSafeBinPath host path (ac_trustedSafeBinDirs ctx)"
    "normalizeOptionalLowercaseString (Some (er_executableName res)) = Some name" "name \<in> set (ac_safeBins ctx)"
    "\<not> isWindowsPlatform (Some (nullish (ac_platform ctx) (ho_platform host)))"
    "map_get (nullish (ac_safeBinProfiles ctx) SAFE_BIN_PROFILES) name = Some profile"
    "validateSafeBinArgv (drop 1 argv) profile (Some name)"
    using assms by (auto simp: isSafeBinUsage_def nonempty_def split: if_splits option.splits bind_splits)
  then obtain words where w: "collectPositionalTokens (drop 1 argv) profile = Some words"
    "validatePositionalCount words profile" "validateSafeBinSemantics (Some name) words"
    by (auto simp: validateSafeBinArgv_def split: option.splits)
  have "normalizeSafeBinName name \<notin> set [''awk'', ''gawk'', ''mawk'', ''nawk'', ''sed'', ''gsed'']"
    using w(3) by (simp add: validateSafeBinSemantics_def Let_def split: if_splits)
  moreover have "\<forall>n. sp_minPositional profile = Some n \<longrightarrow> \<not> js_less (jn_of_int (int (length words))) n"
    and "\<forall>n. sp_maxPositional profile = Some n \<longrightarrow> \<not> js_less n (jn_of_int (int (length words)))"
    using w(2) by (auto simp: validatePositionalCount_def Let_def nullish_def split: if_splits)
  ultimately show ?thesis using p collected_safe [OF w(1)] by blast
qed

theorem safe_bin_arguments_literal_witness:
  "\<exists>res words profile. isSafeBinUsage sample_host sample_ctx [''head'', ''-n'', ''5''] (Some res) \<and>
    map_get [(''head'', sample_profile)] ''head'' = Some profile \<and>
    safe_arguments (takes_value profile) (denied_flags profile) (stands_for profile) [''-n'', ''5''] words"
proof -
  let ?res = "\<lparr>er_rawExecutable = ''head'', er_resolvedPath = Some ''/usr/bin/head'', er_resolvedRealPath = None, er_executableName = ''head''\<rparr>"
  have parts: "\<not> isWindowsPlatform (ac_platform sample_ctx)" "isTrustedSafeBinPath sample_host ''/usr/bin/head'' (ac_trustedSafeBinDirs sample_ctx)"
    "normalizeOptionalLowercaseString (Some ''head'') = Some ''head''" "ac_safeBins sample_ctx = [''head'']"
    "validateSafeBinArgv [''-n'', ''5''] sample_profile (Some ''head'')" by code_simp+
  have "ac_platform sample_ctx = Some ''linux''" "ac_safeBinProfiles sample_ctx = Some [(''head'', sample_profile)]"
    by (simp_all add: sample_ctx_def)
  then have usage: "isSafeBinUsage sample_host sample_ctx [''head'', ''-n'', ''5''] (Some ?res)"
    using parts by (simp add: isSafeBinUsage_def nonempty_def map_get_def)
  obtain name profile words where "normalizeOptionalLowercaseString (Some (er_executableName ?res)) = Some name"
    "map_get (nullish (ac_safeBinProfiles sample_ctx) SAFE_BIN_PROFILES) name = Some profile"
    "safe_arguments (takes_value profile) (denied_flags profile) (stands_for profile) (drop 1 [''head'', ''-n'', ''5'']) words"
    using safe_bin_arguments_literal [OF usage] by blast
  then have "map_get [(''head'', sample_profile)] ''head'' = Some profile"
    "safe_arguments (takes_value profile) (denied_flags profile) (stands_for profile) [''-n'', ''5''] words"
    using parts(3) by (simp_all add: sample_ctx_def)
  then show ?thesis using usage by blast
qed

subsection \<open>Patterns\<close>

text \<open>What a pattern matches, by its text.\<close>

inductive glob_matches :: "string \<Rightarrow> string \<Rightarrow> bool" where
  glob_end: "glob_matches [] []"
| glob_deep: "newline \<notin> set piece \<Longrightarrow> cr \<notin> set piece \<Longrightarrow> glob_matches p s \<Longrightarrow> glob_matches (''**'' @ p) (piece @ s)"
| glob_star: "CHR ''/'' \<notin> set piece \<Longrightarrow> p = [] \<or> hd p \<noteq> CHR ''*'' \<Longrightarrow> glob_matches p s \<Longrightarrow> glob_matches (''*'' @ p) (piece @ s)"
| glob_any: "c \<noteq> CHR ''/'' \<Longrightarrow> glob_matches p s \<Longrightarrow> glob_matches (''?'' @ p) (c # s)"
| glob_char: "c \<noteq> CHR ''*'' \<Longrightarrow> c \<noteq> CHR ''?'' \<Longrightarrow> glob_matches p s \<Longrightarrow> glob_matches (c # p) (c # s)"

inductive_simps glob_nil: "glob_matches [] s"
inductive_simps glob_cons: "glob_matches (c # p) s"
inductive_simps glob_stars: "glob_matches (CHR ''*'' # c # p) s"

lemma glob_compiled: "cut_matches (compileGlobRegex p) s \<longleftrightarrow> glob_matches p s"
proof (induction p arbitrary: s rule: compileGlobRegex.induct)
  case 1
  show ?case by (auto simp: cut_nil glob_nil)
next
  case (2 ch p)
  have one: "part_matches GlobAny piece = (\<exists>y. piece = [y] \<and> y \<noteq> CHR ''/'')" for piece
    by (cases piece; cases "tl piece") auto
  have any_cut: "cut_matches (GlobAny # ps) t \<longleftrightarrow> (\<exists>c r. t = c # r \<and> c \<noteq> CHR ''/'' \<and> cut_matches ps r)" for ps t
    unfolding cut_cons one by (metis append_Cons append_Nil)
  consider (star) "ch = CHR ''*''" | (any) "ch = CHR ''?''" | (char) "ch \<noteq> CHR ''*''" "ch \<noteq> CHR ''?''" by blast
  then show ?case
  proof cases
    case star
    show ?thesis
    proof (cases p)
      case Nil
      then show ?thesis using star by (auto simp: cut_cons cut_nil glob_cons glob_nil)
    next
      case (Cons c q)
      then show ?thesis using star 2 by (cases "c = CHR ''*''") (auto simp: cut_cons glob_stars)
    qed
  next
    case any
    then show ?thesis using 2 by (auto simp: any_cut glob_cons)
  next
    case char
    then show ?thesis using 2 by (auto simp: cut_cons glob_cons)
  qed
qed

text \<open>C36: an allowlist pattern means what its wildcards say: \<open>?\<close> stands for one character that is no slash, \<open>*\<close>
  for any characters but slashes, \<open>**\<close> for any characters on one line, and every other character for
  itself. The compiled pattern, tried against a target from the shortest pieces on, accepts exactly
  the targets of this reading, after the spaces around the pattern, a leading tilde and doubled
  backslashes are replaced.\<close>

theorem pattern_matches_reading:
  "matchesExecAllowlistPattern host pattern target \<longleftrightarrow>
    js_trim pattern \<noteq> [] \<and>
    glob_matches
      (normalizeMatchTarget (if starts_with (js_trim pattern) ''~'' then expandHomePrefix host None (js_trim pattern) else js_trim pattern))
      (normalizeMatchTarget target)"
  by (simp add: matchesExecAllowlistPattern_def glob_test_cut glob_compiled Let_def)

end
