(* ===== verification/Spec2Isabelle.thy ===== *)
theory Spec2Isabelle
  imports IngressTheorems CommandQueueTheorems RateLimits Caches ExecApproval ToolPlanner RouteTheorems
    GatewayAuthProps GatewayAccess AttemptQueue GatewayConnectProps TextChunkProps
    PairingHandshake PairedIngress NodePairingProps HeartbeatWakeProps ShellEnforced WrapperProps AllowlistProps
begin

text \<open>
  A verification library for the core of an AI gateway: a server that receives messages from chat
  channels and connections from operator clients and devices, decides who may do what, routes each
  message to an agent and a session, and runs commands in order. All paths below are under
  \<^verbatim>\<open>src/\<close> of the TypeScript program.

  \<^bold>\<open>How the parts fit.\<close> A channel plugin turns a platform message into an ingress event. The
  ingress resolves the allowlists, access groups, routes and mentions of the event into a state,
  and decides from it: dispatch, observe, skip, or drop. A dispatched message is routed to an agent
  by the bindings of the configuration and gets a session key; its commands run in the lanes of
  the command queue, and a reply is split into chunks the channel accepts. On the other side a
  client connects to the gateway: the address of the client is read off the request, the rate
  limiter and the configured credential decide, a paired device may present a device token or a
  bootstrap token instead, and every request of the connection is checked against the role and
  scopes of the client, dispatched, and limited. A tool call that needs consent waits in the
  approval manager.

  \<^bold>\<open>Foundations.\<close> \<open>JsPrelude\<close> (nullish defaults, strings, de-duplication, stable sorting),
  \<open>JsMap\<close> (Map and Set in insertion order, the locale \<open>js_map\<close>, and numbers with NaN and the
  infinities), \<open>JsStrings\<close> (split and join).

  \<^bold>\<open>Message ingress\<close> (\<^verbatim>\<open>channels/message-access\<close>, \<^verbatim>\<open>channels/allow-from.ts\<close>,
  \<^verbatim>\<open>mention-gating.ts\<close>, \<^verbatim>\<open>command-gating.ts\<close>).
  \<open>IngressTypes\<close> and \<open>IngressRuntimeTypes\<close> hold the types, \<open>AllowFrom\<close> and \<open>Gating\<close> the shared
  checks, \<open>IngressAllowlist\<close>, \<open>IngressSender\<close>, \<open>IngressIdentity\<close>, \<open>IngressState\<close>,
  \<open>IngressDecision\<close> and \<open>IngressRuntime\<close> one file of the program each. \<open>IngressSpec\<close> states the
  decision as a priority list of policy questions and proves that the gates implement it;
  \<open>IngressTheorems\<close> says who can be dispatched end to end. A matcher is an
  interface (locale \<open>identity_matching\<close>), interpreted on the adapter the code builds.

  \<^bold>\<open>Command queue\<close> (\<^verbatim>\<open>process/command-queue.ts\<close>). \<open>CommandQueue\<close> has the state and
  every operation, with the started, settled and released commands as a trace of effects;
  \<open>CommandQueueInv\<close> the step relation and its invariant; \<open>CommandQueueTheorems\<close> the refinement of an
  abstract queue per lane (locale \<open>queue_trace\<close>, interpreted for the order of commands and for the
  accounting of task ids) and the properties of every reachable state.

  \<^bold>\<open>Limits and caches\<close> (\<^verbatim>\<open>infra/fixed-window-rate-limit.ts\<close>,
  \<^verbatim>\<open>gateway/control-plane-rate-limit.ts\<close>, \<^verbatim>\<open>gateway/auth-rate-limit.ts\<close>,
  \<^verbatim>\<open>infra/dedupe.ts\<close>, \<^verbatim>\<open>infra/map-size.ts\<close>,
  \<^verbatim>\<open>shared/scoped-expiring-id-cache.ts\<close>): \<open>RateLimits\<close> (locale \<open>window_limiter\<close>, which
  both window limiters satisfy) and \<open>Caches\<close>.

  \<^bold>\<open>Approvals and tools\<close>: \<open>ExecApproval\<close> (\<^verbatim>\<open>gateway/exec-approval-manager.ts\<close>, as a
  step relation in which timers may fire at any moment) and \<open>ToolPlanner\<close> (\<^verbatim>\<open>tools/\<close>).

  \<^bold>\<open>Routing\<close> (\<^verbatim>\<open>routing/resolve-route.ts\<close> and its helpers,
  \<^verbatim>\<open>routing/session-key.ts\<close>, \<^verbatim>\<open>sessions/session-key-utils.ts\<close>). \<open>AgentIds\<close> and
  \<open>SessionKeys\<close> normalise ids and build and parse keys; \<open>Routing\<close> indexes the bindings and
  \<open>RouteResolve\<close> matches the tiers and keeps the caches. \<open>RouteIndex\<close> and
  \<open>RouteCache\<close> prove that index and caches answer as a scan of the bindings; \<open>SessionKeyProps\<close>
  and \<open>RouteTheorems\<close> have the properties. The caches hold at most 512 account ids, 2000
  evaluated binding lists and 4000 routes, as in the code; the bounds are proved.

  \<^bold>\<open>Gateway\<close>. \<open>GatewayNet\<close> (\<^verbatim>\<open>gateway/net.ts\<close>, \<^verbatim>\<open>origin-check.ts\<close>,
  \<^verbatim>\<open>security/secret-equal.ts\<close>): addresses, origins, secrets. \<open>GatewayAuth\<close>
  (\<^verbatim>\<open>gateway/auth.ts\<close>) decides an authentication; \<open>GatewayAuthProps\<close> says who gets in
  and what guessing costs. \<open>AttemptQueue\<close> (\<^verbatim>\<open>gateway/rate-limit-attempt-serialization.ts\<close>)
  serializes the attempts of one client. \<open>GatewayConnect\<close>
  (\<^verbatim>\<open>gateway/server/ws-connection/auth-context.ts\<close>, \<^verbatim>\<open>connect-policy.ts\<close>,
  \<^verbatim>\<open>gateway/http-auth-utils.ts\<close>) is the handshake and the HTTP requests, with
  \<open>GatewayConnectProps\<close>. \<open>GatewayScopes\<close> (\<^verbatim>\<open>operator-scopes.ts\<close>,
  \<^verbatim>\<open>method-scopes.ts\<close>, \<^verbatim>\<open>role-policy.ts\<close>,
  \<^verbatim>\<open>shared/operator-scope-compat.ts\<close>) and \<open>GatewayDispatch\<close> (the guards of
  \<^verbatim>\<open>server-methods.ts\<close>) say what a client may call, \<open>GatewayAccess\<close> proves it
  against the scopes the method table and the registered session actions ask for (\<open>scopes_cover\<close>).

  \<^bold>\<open>Pairing\<close>. \<open>PairingFiles\<close> (\<^verbatim>\<open>infra/pairing-files.ts\<close> and siblings) is shared by
  the stores (locale \<open>pending_store\<close>: at most one pending request per subject). \<open>DeviceAuth\<close>,
  \<open>DevicePairing\<close> and \<open>DeviceTokens\<close> are the store of devices and their tokens
  (\<^verbatim>\<open>infra/device-pairing.ts\<close>), \<open>DeviceBootstrap\<close> the short-lived bootstrap tokens
  (\<^verbatim>\<open>infra/device-bootstrap.ts\<close>). \<open>DeviceTheorems\<close> and
  \<open>DeviceBootstrapProps\<close> prove over every history of operations that a device never gets scopes
  nobody granted it, provided no request asks for a role that begins like an operator scope and bootstrap
  tokens are put back only as they were issued. \<open>PairingHandshake\<close> composes the stores with the handshake. \<open>NodePairing\<close>
  (\<^verbatim>\<open>infra/node-pairing.ts\<close>) is the store of nodes, \<open>NodePairingProps\<close> the scopes behind a
  node's token.

  \<^bold>\<open>Pairing of chat senders\<close> (\<^verbatim>\<open>pairing/\<close>). \<open>AllowFromStore\<close> has the files of paired senders
  and the read caches that trust a file's modification time; in \<open>AllowFromStoreProps\<close> the locale
  \<open>cached_reader\<close>, interpreted for both readers, shows that a cached read is the read of the file, when each write shows a file stamp the cache has not
  seen and each entry that comes in has a normal form that is normal (\<open>stable_entry\<close>, which prefix-stripping
  adapters satisfy).
  \<open>ChannelPairing\<close> has the pending requests and their codes, \<open>ChannelPairingTheorems\<close> the invariant of
  the requests, the refinement of files and caches by plain lists, and what
  the approval of a code does to the requests and to the files. \<open>PairedIngress\<close> puts the files behind the ingress decision.

  \<^bold>\<open>Heartbeat wakes\<close> (\<^verbatim>\<open>infra/heartbeat-wake.ts\<close>): \<open>HeartbeatWake\<close> is an event system with one
  event per stretch of code between two awaits; \<open>HeartbeatWakeProps\<close> proves that no pending wake is
  left without a timer and that batches do not overlap while handlers change only between batches.

  \<^bold>\<open>Shell commands\<close> (\<^verbatim>\<open>infra/exec-approvals-analysis.ts\<close>,
  \<^verbatim>\<open>utils/shell-argv.ts\<close>). \<open>ShellAnalysis\<close> has the scanners that cut a command
  line into chains, pipelines and words, \<open>ShellPlan\<close> the analysis and the commands rebuilt from an
  approved plan. \<open>ShellSound\<close> has a reference lexer for the POSIX shell and proves that the
  analysis reads what the shell reads and shows where it does not, \<open>ShellEnforced\<close> that a rebuilt
  command runs exactly the plan. \<open>ShellWindows\<close> is the analysis for Windows and the choice by platform.

  \<^bold>\<open>Wrappers of commands.\<close> \<open>CommandCarriers\<close> (\<^verbatim>\<open>infra/command-carriers.ts\<close>,
  \<^verbatim>\<open>exec-wrapper-tokens.ts\<close>, \<^verbatim>\<open>shell-inline-command.ts\<close>),
  \<open>DispatchWrappers\<close> (\<^verbatim>\<open>dispatch-wrapper-resolution.ts\<close>) and \<open>ShellWrappers\<close>
  (\<^verbatim>\<open>shell-wrapper-resolution.ts\<close>, \<^verbatim>\<open>exec-wrapper-trust-plan.ts\<close>) see through
  \<open>env\<close>, \<open>nice\<close>, \<open>busybox\<close> or \<open>bash -c\<close> to the command that runs. \<open>WrapperProps\<close> proves that a plan that
  is not blocked hides nothing. The depths are those of the code: 4 wrappers, 32 payloads of \<open>env\<close>.

  \<^bold>\<open>The exec allowlist.\<close> \<open>ExecPaths\<close> (\<^verbatim>\<open>infra/executable-path.ts\<close>,
  \<^verbatim>\<open>home-dir.ts\<close>, \<^verbatim>\<open>exec-allowlist-pattern.ts\<close>) finds executables and matches glob
  patterns, \<open>CommandResolution\<close> (\<^verbatim>\<open>exec-command-resolution.ts\<close>) resolves an argument list,
  looks for an entry and rebuilds the command inside the payload of a shell, \<open>SafeBins\<close> (\<^verbatim>\<open>exec-safe-bin-policy-profiles.ts\<close>,
  \<^verbatim>\<open>-validator.ts\<close>, \<^verbatim>\<open>exec-safe-bin-semantics.ts\<close>,
  \<^verbatim>\<open>exec-safe-bin-trust.ts\<close>) checks programs that need no entry. \<open>AllowlistSegments\<close> and
  \<open>AllowlistEval\<close> (\<^verbatim>\<open>exec-approvals-allowlist.ts\<close>) decide a segment and a whole command line;
  payloads of shells are evaluated two levels deep, as in the code. \<open>AllowlistProps\<close> specifies the
  admitted segments inductively, proves the evaluation equivalent to it, and composes it with
  \<open>ShellSound\<close>: what a POSIX shell runs for a satisfied plain line is admitted. The arguments a safe bin may be
  given are an inductive predicate over the profile (\<open>safe_arguments\<close>).

  \<^bold>\<open>Replies\<close>: \<open>FenceSpans\<close> (\<^verbatim>\<open>markdown/fences.ts\<close>), \<open>TextChunks\<close> and \<open>TextChunkProps\<close>
  (\<^verbatim>\<open>auto-reply/chunk.ts\<close>, \<^verbatim>\<open>shared/text-chunking.ts\<close>): the chunks are consecutive
  pieces of the text (\<open>cut_into\<close>) with fence lines added.

  \<^bold>\<open>Conventions.\<close> An object is a record, a union of string literals a datatype, a Map or an object
  used as one an association list in insertion order. A mutable store is passed and returned. The
  clock, random tokens and ids are arguments of the operation that reads them, one per reading.
  A promise is a number, its settlement an effect; a timer is an operation that may come at any
  moment. A file under a lock is a value, loaded and written by each operation. A throw is the left of a sum. Every
  loop is a structural or measured recursion: nothing here uses fuel.

  \<^bold>\<open>Side conditions.\<close> Where a claim holds only under a condition, its text says so and, where the program can
  violate it, a lemma beside it shows what happens then: \<open>dotted_role_escalates\<close>, \<open>prefixed_wildcard_is_cached\<close>,
  \<open>empty_peer_id_conflated\<close>, \<open>doubled_colon_collides\<close>, \<open>cut_agent_id_not_stable\<close>, \<open>handler_reset_unserializes\<close>,
  \<open>doubled_quotes_lost\<close> and the last lemmas of \<open>ShellSound\<close>.

  \<^bold>\<open>Parameters\<close> stand for code outside the repository or of the platform: the plugins' matcher
  callbacks and registries, \<open>localeCompare\<close>, the IP library (\<open>ip_library\<close>), the URL parser
  (\<open>url_parser\<close>), the Tailscale lookup, the base64url form of a PEM key (\<open>b64\<close>), the file stamps the file system
  reports, the machine an executable is looked up on (the record \<open>host\<close>), the engine for regular
  expressions that users write (\<open>regex\<close>). The reader of the pairing store is a parameter of the ingress that \<open>PairedIngress\<close>
  instantiates with the files.

  \<^bold>\<open>Not modelled.\<close> Strings beyond Latin-1; names that JavaScript objects inherit (a lookup of
  \<^verbatim>\<open>constructor\<close> in an object used as a map) and the reordering of integer-like
  object keys; log calls and debug output; re-entrant callbacks; hooks that exist for tests only;
  aliasing of a device stored under another key than its own id; a file that changes between its
  stat and its read, and file-system errors other than a missing file; claim traces of wakes; a gateway
  that runs on Windows (commands for Windows nodes are modelled), dollar patterns in the name of the home
  directory, the caches of compiled globs and trusted directories, warnings about risky safe bins. Limits that are NaN are covered
  where the code reads them from configuration (the command queue), not in the limiters. Sockets,
  schemas, the agent runners, channel plugins, plugin loading, configuration files, cron, memory,
  user interfaces and build scripts are outside the model: they are glue around third-party
  interfaces, or their logic lies in I/O. The manifest lists each with its reason.
\<close>

end
